(* ===== verification/Prelude.thy ===== *)
theory Prelude
  imports Main "HOL-Library.Sublist"
begin

text \<open>
  Shared ground of the development: Go strings as byte lists with the operations of package
  \<open>strings\<close> the code calls, Go times and durations as integers of nanoseconds, the error
  values of the program, and generic lemmas on lists, options and association-style tables.

  Strings are UTF-8 byte sequences (\<open>len\<close> and slicing count bytes, as in Go).
  \<open>trim_space\<close> removes every code point of \<open>unicode.IsSpace\<close> in its UTF-8 encoding, so it is
  exact on every byte string.  \<open>to_lower\<close> maps the ASCII capitals and the two other code points
  whose lower case is an ASCII letter (U+0130 to \<open>i\<close>, U+212A to \<open>k\<close>); all further non-ASCII
  capitals are left alone.  A comparison of a lowered string with ASCII constants, which is what
  the modelled code does with it, is therefore decided exactly as in Go.

  A time is the number of nanoseconds since the zero time of package \<open>time\<close> (year 1, UTC), so
  \<open>IsZero\<close> is equality with 0 and \<open>UTC()\<close> is the identity.  \<open>Sub\<close> saturates at the limits of a
  64-bit duration, as Go documents.
\<close>

section \<open>Automation collections\<close>

named_theorems go_simps \<open>unfoldings of small helper definitions\<close>
named_theorems trim_simps \<open>facts about trimming\<close>

section \<open>Strings\<close>

type_synonym gostring = string

text \<open>The code points of \<open>unicode.IsSpace\<close> in UTF-8.\<close>

definition space_runes :: "gostring list" where
  "space_runes =
     [[CHR 0x09], [CHR 0x0A], [CHR 0x0B], [CHR 0x0C], [CHR 0x0D], [CHR 0x20],
      [CHR 0xC2, CHR 0x85], [CHR 0xC2, CHR 0xA0], [CHR 0xE1, CHR 0x9A, CHR 0x80],
      [CHR 0xE2, CHR 0x80, CHR 0x80], [CHR 0xE2, CHR 0x80, CHR 0x81],
      [CHR 0xE2, CHR 0x80, CHR 0x82], [CHR 0xE2, CHR 0x80, CHR 0x83],
      [CHR 0xE2, CHR 0x80, CHR 0x84], [CHR 0xE2, CHR 0x80, CHR 0x85],
      [CHR 0xE2, CHR 0x80, CHR 0x86], [CHR 0xE2, CHR 0x80, CHR 0x87],
      [CHR 0xE2, CHR 0x80, CHR 0x88], [CHR 0xE2, CHR 0x80, CHR 0x89],
      [CHR 0xE2, CHR 0x80, CHR 0x8A], [CHR 0xE2, CHR 0x80, CHR 0xA8],
      [CHR 0xE2, CHR 0x80, CHR 0xA9], [CHR 0xE2, CHR 0x80, CHR 0xAF],
      [CHR 0xE2, CHR 0x81, CHR 0x9F], [CHR 0xE3, CHR 0x80, CHR 0x80]]"

fun drop_any :: "gostring list \<Rightarrow> gostring \<Rightarrow> gostring option" where
  "drop_any [] s = None"
| "drop_any (p # ps) s =
     (if p \<noteq> [] \<and> take (length p) s = p then Some (drop (length p) s) else drop_any ps s)"

lemma drop_any_Some:
  "drop_any ps s = Some t \<Longrightarrow> \<exists>p \<in> set ps. p \<noteq> [] \<and> s = p @ t"
  by (induction ps) (auto split: if_splits, metis append_take_drop_id)

lemma take_eq_iff_prefix: "take (length p) s = p \<longleftrightarrow> prefix p s"
  by (metis append_eq_conv_conj prefix_def take_is_prefix)

lemma drop_any_None_iff:
  "drop_any ps s = None \<longleftrightarrow> (\<forall>p \<in> set ps. p = [] \<or> \<not> prefix p s)"
  by (induction ps) (simp_all add: take_eq_iff_prefix)

function trim_start :: "gostring list \<Rightarrow> gostring \<Rightarrow> gostring" where
  "trim_start ps s = (case drop_any ps s of None \<Rightarrow> s | Some t \<Rightarrow> trim_start ps t)"
  by pat_completeness auto
termination
  by (relation "measure (\<lambda>(ps, s). length s)") (auto dest!: drop_any_Some)

declare trim_start.simps [simp del]

definition trim_space :: "gostring \<Rightarrow> gostring" where
  "trim_space s = rev (trim_start (map rev space_runes) (rev (trim_start space_runes s)))"

lemma trim_start_suffix: "suffix (trim_start ps s) s"
proof (induction ps s rule: trim_start.induct)
  case (1 ps s)
  show ?case
  proof (cases "drop_any ps s")
    case None
    then show ?thesis by (simp add: trim_start.simps [of ps s])
  next
    case (Some t)
    with 1 have "suffix (trim_start ps t) t" by simp
    moreover from Some have "suffix t s" by (auto dest!: drop_any_Some simp: suffix_def)
    ultimately show ?thesis
      using Some by (auto simp: trim_start.simps [of ps s] intro: suffix_order.trans)
  qed
qed

lemma trim_start_done: "drop_any ps (trim_start ps s) = None"
proof (induction ps s rule: trim_start.induct)
  case (1 ps s)
  then show ?case
    by (cases "drop_any ps s") (auto simp: trim_start.simps [of ps s])
qed

lemma trim_start_id: "drop_any ps s = None \<Longrightarrow> trim_start ps s = s"
  by (simp add: trim_start.simps [of ps s])

lemma trim_start_Nil [simp]: "trim_start ps [] = []"
  using trim_start_suffix [of ps "[]"] by simp

lemma trim_space_Nil [simp]: "trim_space [] = []"
  by (simp add: trim_space_def)

text \<open>Trimming twice is trimming once: the right cut leaves a prefix of a left-trimmed string.\<close>

lemma trim_space_idem [simp, trim_simps]: "trim_space (trim_space s) = trim_space s"
proof -
  let ?l = "trim_start space_runes s"
  let ?r = "trim_start (map rev space_runes) (rev ?l)"
  have "prefix (rev ?r) ?l"
    using trim_start_suffix [of "map rev space_runes" "rev ?l"]
    by (simp add: suffix_to_prefix)
  moreover have "drop_any space_runes ?l = None" by (rule trim_start_done)
  ultimately have "drop_any space_runes (rev ?r) = None"
    by (auto simp: drop_any_None_iff dest: prefix_order.trans)
  then have "trim_start space_runes (rev ?r) = rev ?r" by (rule trim_start_id)
  moreover have "trim_start (map rev space_runes) ?r = ?r"
    by (rule trim_start_id, rule trim_start_done)
  ultimately show ?thesis by (simp add: trim_space_def)
qed

text \<open>\<open>strings.ToLower\<close> and \<open>strings.EqualFold\<close> (see the head of this theory).\<close>

definition ascii_lower :: "char \<Rightarrow> char" where
  "ascii_lower c =
     (let n = (of_char c :: nat) in if 65 \<le> n \<and> n \<le> 90 then char_of (n + 32) else c)"

fun map_rune :: "gostring \<Rightarrow> char \<Rightarrow> gostring \<Rightarrow> char \<Rightarrow> gostring \<Rightarrow> gostring" where
  "map_rune p a q b [] = []"
| "map_rune p a q b (c # cs) =
     (if p \<noteq> [] \<and> take (length p) (c # cs) = p then a # map_rune p a q b (drop (length p) (c # cs))
      else if q \<noteq> [] \<and> take (length q) (c # cs) = q
        then b # map_rune p a q b (drop (length q) (c # cs))
      else ascii_lower c # map_rune p a q b cs)"

definition to_lower :: "gostring \<Rightarrow> gostring" where
  "to_lower = map_rune [CHR 0xC4, CHR 0xB0] (CHR ''i'') [CHR 0xE2, CHR 0x84, CHR 0xAA] (CHR ''k'')"

definition fold_case :: "gostring \<Rightarrow> gostring" where
  "fold_case = map_rune [CHR 0xC5, CHR 0xBF] (CHR ''s'') [CHR 0xE2, CHR 0x84, CHR 0xAA] (CHR ''k'')"

definition equal_fold :: "gostring \<Rightarrow> gostring \<Rightarrow> bool" where
  "equal_fold a b \<longleftrightarrow> fold_case a = fold_case b"

lemma to_lower_Nil [simp]: "to_lower [] = []"
  by (simp add: to_lower_def)

definition has_prefix :: "gostring \<Rightarrow> gostring \<Rightarrow> bool" where
  "has_prefix s p \<longleftrightarrow> take (length p) s = p"

definition has_suffix :: "gostring \<Rightarrow> gostring \<Rightarrow> bool" where
  "has_suffix s p \<longleftrightarrow> has_prefix (rev s) (rev p)"

fun contains :: "gostring \<Rightarrow> gostring \<Rightarrow> bool" where
  "contains [] sub \<longleftrightarrow> sub = []"
| "contains (c # cs) sub \<longleftrightarrow> has_prefix (c # cs) sub \<or> contains cs sub"

lemma contains_iff: "contains s sub \<longleftrightarrow> (\<exists>a b. s = a @ sub @ b)"
proof (induction s)
  case Nil
  then show ?case by auto
next
  case (Cons c s)
  have "has_prefix (c # s) sub \<longleftrightarrow> (\<exists>b. c # s = sub @ b)"
    unfolding has_prefix_def by (metis append_eq_conv_conj append_take_drop_id)
  moreover have "(\<exists>a b. c # s = a @ sub @ b) \<longleftrightarrow>
      (\<exists>b. c # s = sub @ b) \<or> (\<exists>a b. s = a @ sub @ b)"
    by (metis append_Cons append_Nil append_eq_Cons_conv)
  ultimately show ?case using Cons by simp
qed

fun join :: "gostring \<Rightarrow> gostring list \<Rightarrow> gostring" where
  "join sep [] = []"
| "join sep [x] = x"
| "join sep (x # y # ys) = x @ sep @ join sep (y # ys)"

text \<open>The first value of a list that is not blank after trimming, else the empty string.\<close>

fun first_trimmed :: "gostring list \<Rightarrow> gostring" where
  "first_trimmed [] = []"
| "first_trimmed (v # vs) = (let t = trim_space v in if t \<noteq> [] then t else first_trimmed vs)"

lemma first_trimmed_trim [simp, trim_simps]: "trim_space (first_trimmed vs) = first_trimmed vs"
  by (induction vs) (auto simp: Let_def)

lemma first_trimmed_Nil_iff: "first_trimmed vs = [] \<longleftrightarrow> (\<forall>v \<in> set vs. trim_space v = [])"
  by (induction vs) (auto simp: Let_def)

text \<open>\<open>s[:n]\<close> where the code has checked \<open>len(s) > n\<close>.\<close>

definition cap_len :: "nat \<Rightarrow> gostring \<Rightarrow> gostring" where
  "cap_len n s = (if n < length s then take n s else s)"

lemma length_cap_len [simp]: "length (cap_len n s) \<le> n"
  by (simp add: cap_len_def)

lemma cap_len_Nil_iff [simp]: "0 < n \<Longrightarrow> cap_len n s = [] \<longleftrightarrow> s = []"
  by (auto simp: cap_len_def)

section \<open>Times and durations\<close>

type_synonym gotime = int
type_synonym duration = int

definition nanosecond :: duration where "nanosecond = 1"
definition millisecond :: duration where "millisecond = 1000000"
definition second :: duration where "second = 1000000000"
definition minute :: duration where "minute = 60000000000"
definition hour :: duration where "hour = 3600000000000"

definition is_zero :: "gotime \<Rightarrow> bool" where
  "is_zero t \<longleftrightarrow> t = 0"

definition max_duration :: duration where "max_duration = 9223372036854775807"
definition min_duration :: duration where "min_duration = - 9223372036854775808"

definition time_sub :: "gotime \<Rightarrow> gotime \<Rightarrow> duration" where
  "time_sub a b = max min_duration (min max_duration (a - b))"

text \<open>Integer division of Go: towards zero.\<close>

definition go_div :: "int \<Rightarrow> int \<Rightarrow> int" where
  "go_div a b = sgn a * sgn b * (\<bar>a\<bar> div \<bar>b\<bar>)"

definition milliseconds :: "duration \<Rightarrow> int" where
  "milliseconds d = go_div d millisecond"

lemmas duration_units = nanosecond_def millisecond_def second_def minute_def hour_def
lemmas duration_limits = max_duration_def min_duration_def

declare is_zero_def [go_simps]

lemma time_sub_mono: "b \<le> b' \<Longrightarrow> time_sub a b' \<le> time_sub a b"
  by (simp add: time_sub_def)

lemma time_sub_ge_iff:
  "min_duration < d \<Longrightarrow> d \<le> max_duration \<Longrightarrow> d \<le> time_sub a b \<longleftrightarrow> d \<le> a - b"
  by (auto simp: time_sub_def)

lemma time_sub_less_iff:
  "min_duration < d \<Longrightarrow> d \<le> max_duration \<Longrightarrow> time_sub a b < d \<longleftrightarrow> a - b < d"
  by (auto simp: time_sub_def duration_limits)

section \<open>Decimal numbers\<close>

text \<open>\<open>fmt\<close> with verb \<open>%d\<close>, and its inverse on digits.\<close>

definition digit :: "nat \<Rightarrow> char" where
  "digit n = char_of (48 + n mod 10)"

fun show_nat :: "nat \<Rightarrow> gostring" where
  "show_nat n = (if n < 10 then [digit n] else show_nat (n div 10) @ [digit n])"

declare show_nat.simps [simp del]

definition show_int :: "int \<Rightarrow> gostring" where
  "show_int i = (if i < 0 then CHR ''-'' # show_nat (nat (- i)) else show_nat (nat i))"

definition digit_value :: "char \<Rightarrow> nat" where
  "digit_value c = of_char c - 48"

definition read_nat :: "gostring \<Rightarrow> nat" where
  "read_nat s = foldl (\<lambda>a c. 10 * a + digit_value c) 0 s"

lemma of_char_digit [simp]: "(of_char (digit n) :: nat) = 48 + n mod 10"
  unfolding digit_def by (subst of_char_of) simp

lemma digit_value_digit [simp]: "digit_value (digit n) = n mod 10"
  by (simp add: digit_value_def)

lemma read_show_nat [simp]: "read_nat (show_nat n) = n"
proof (induction n rule: show_nat.induct)
  case (1 n)
  then show ?case
    by (subst show_nat.simps) (simp add: read_nat_def)
qed

lemma show_nat_inj [simp]: "show_nat m = show_nat n \<longleftrightarrow> m = n"
  by (metis read_show_nat)

lemma show_nat_not_Nil [simp]: "show_nat n \<noteq> []"
  by (subst show_nat.simps) simp

lemma show_nat_digits: "c \<in> set (show_nat n) \<Longrightarrow> \<exists>k. c = digit k"
  by (induction n rule: show_nat.induct) (subst (asm) (2) show_nat.simps, auto split: if_splits)

lemma show_int_inj: "0 \<le> i \<Longrightarrow> 0 \<le> j \<Longrightarrow> show_int i = show_int j \<longleftrightarrow> i = j"
  by (simp add: show_int_def) linarith

text \<open>\<open>strconv.ParseInt(s, 10, 64)\<close> (and \<open>Atoi\<close> on a 64-bit platform).\<close>

definition is_digit :: "char \<Rightarrow> bool" where
  "is_digit c \<longleftrightarrow> (let n = (of_char c :: nat) in 48 \<le> n \<and> n \<le> 57)"

definition parse_int64 :: "gostring \<Rightarrow> int option" where
  "parse_int64 s =
     (let (sgn, ds) = (case s of [] \<Rightarrow> (1, [])
            | c # cs \<Rightarrow> if c = CHR ''-'' then (-1, cs) else if c = CHR ''+'' then (1, cs) else (1, s));
          v = sgn * int (read_nat ds) in
      if ds = [] \<or> \<not> list_all is_digit ds then None
      else if - (2 ^ 63) \<le> v \<and> v < 2 ^ 63 then Some v else None)"

lemma is_digit_digit [simp]: "is_digit (digit n)"
  by (simp add: is_digit_def Let_def)

lemma parse_show_int:
  assumes "0 \<le> i" "i < 2 ^ 63" shows "parse_int64 (show_int i) = Some i"
proof -
  have digits: "list_all is_digit (show_nat n)" for n
    using show_nat_digits by (fastforce simp: list_all_iff)
  obtain c cs where c: "show_nat (nat i) = c # cs" by (cases "show_nat (nat i)") auto
  then have "is_digit c" using digits [of "nat i"] by simp
  then have "c \<noteq> CHR ''-''" "c \<noteq> CHR ''+''" by (auto simp: is_digit_def)
  with assms c digits [of "nat i"] read_show_nat [of "nat i"] show ?thesis
    by (simp add: parse_int64_def show_int_def Let_def)
qed

section \<open>Error values\<close>

text \<open>
  The sentinel errors of the program; \<open>fmt.Errorf("%w: msg", E)\<close> is the sentinel with its
  message, so \<open>errors.Is\<close> is a match on the constructor.  \<open>ErrDatabase\<close> stands for every
  failure of the database driver.
\<close>

datatype goerror =
    ErrNotFound gostring
  | ErrForbidden
  | ErrInvalidArgument gostring
  | ErrConflict gostring
  | ErrDatabase
  | ErrBotControlNotConfigured
  | ErrBotControlCommandFailed gostring

type_synonym 'a result = "goerror + 'a"

fun is_not_found :: "goerror \<Rightarrow> bool" where
  "is_not_found (ErrNotFound _) = True"
| "is_not_found _ = False"

section \<open>Lists used as tables\<close>

text \<open>The rows of a table that an update's \<open>WHERE\<close> clause selects are rewritten in place.\<close>

definition update_where :: "('a \<Rightarrow> bool) \<Rightarrow> ('a \<Rightarrow> 'a) \<Rightarrow> 'a list \<Rightarrow> 'a list" where
  "update_where p f rows = map (\<lambda>r. if p r then f r else r) rows"

lemma update_where_Nil [simp]: "update_where p f [] = []"
  by (simp add: update_where_def)

lemma update_where_Cons [simp]:
  "update_where p f (r # rs) = (if p r then f r else r) # update_where p f rs"
  by (simp add: update_where_def)

lemma length_update_where [simp]: "length (update_where p f rows) = length rows"
  by (simp add: update_where_def)

lemma map_update_where:
  "(\<And>r. p r \<Longrightarrow> g (f r) = g r) \<Longrightarrow> map g (update_where p f rows) = map g rows"
  by (induction rows) auto

lemma find_update_where_key:
  assumes "\<And>r. p r \<Longrightarrow> key (f r) = key r"
  shows "find (\<lambda>r. key r = k) (update_where p f rows) =
    map_option (\<lambda>r. if p r then f r else r) (find (\<lambda>r. key r = k) rows)"
  using assms by (induction rows) auto

lemma find_key_Some: "find (\<lambda>r. key r = k) rows = Some r \<Longrightarrow> key r = k \<and> r \<in> set rows"
  by (auto simp: find_Some_iff)

lemma find_key_append:
  "find P (xs @ ys) = (case find P xs of None \<Rightarrow> find P ys | Some x \<Rightarrow> Some x)"
  by (induction xs) auto

text \<open>\<open>ORDER BY\<close>: insertion that keeps ties in table order.\<close>

fun insert_by :: "('a \<Rightarrow> 'a \<Rightarrow> bool) \<Rightarrow> 'a \<Rightarrow> 'a list \<Rightarrow> 'a list" where
  "insert_by lt x [] = [x]"
| "insert_by lt x (y # ys) = (if lt y x then y # insert_by lt x ys else x # y # ys)"

definition order_by :: "('a \<Rightarrow> 'a \<Rightarrow> bool) \<Rightarrow> 'a list \<Rightarrow> 'a list" where
  "order_by lt rows = foldr (insert_by lt) rows []"

lemma set_insert_by [simp]: "set (insert_by lt x xs) = insert x (set xs)"
  by (induction xs) auto

lemma set_order_by [simp]: "set (order_by lt xs) = set xs"
  by (induction xs) (simp_all add: order_by_def)

lemma length_insert_by [simp]: "length (insert_by lt x xs) = Suc (length xs)"
  by (induction xs) auto

lemma length_order_by [simp]: "length (order_by lt xs) = length xs"
  by (induction xs) (simp_all add: order_by_def)

lemma order_by_sorted:
  "sorted_wrt (\<lambda>a b. \<not> lt b a) xs \<Longrightarrow> order_by lt xs = xs"
proof (induction xs)
  case (Cons x xs)
  then have "order_by lt xs = xs" by simp
  with Cons.prems show ?case by (cases xs) (simp_all add: order_by_def)
qed (simp add: order_by_def)

end
