(* ===== verification/Domain.thy ===== *)
theory Domain
  imports Prelude
begin

text \<open>
  Package \<open>internal/domain\<close>: the meeting session and its status vocabulary, the update
  commands the repositories take, transcript segments, workspace entities and roles, durable
  event types.  Field names carry a prefix per struct (\<open>ms_\<close> for \<open>MeetingSession\<close>, \<open>su_\<close> for
  \<open>MeetingSessionStatusUpdate\<close>, \<open>mu_\<close> for \<open>MeetingSessionMetadataUpdate\<close>, \<open>ts_\<close> for
  \<open>TranscriptSegment\<close>); a Go pointer is an option.  A stored status is a value of the
  datatype; a status as it arrives in a request is a string, read by \<open>parse_status\<close>.
\<close>

section \<open>Meeting session status\<close>

datatype MeetingSessionStatus =
    Requested | PendingJoin | CommandSent | Joining | Joined | Active | Recording
  | SpeechError | SpeechThrottled | Ending | Ended | Failed | Stale

fun status_text :: "MeetingSessionStatus \<Rightarrow> gostring" where
  "status_text Requested = ''requested''"
| "status_text PendingJoin = ''pending_join''"
| "status_text CommandSent = ''command_sent''"
| "status_text Joining = ''joining''"
| "status_text Joined = ''joined''"
| "status_text Active = ''active''"
| "status_text Recording = ''recording''"
| "status_text SpeechError = ''speech_error''"
| "status_text SpeechThrottled = ''speech_throttled''"
| "status_text Ending = ''ending''"
| "status_text Ended = ''ended''"
| "status_text Failed = ''failed''"
| "status_text Stale = ''stale''"

definition all_statuses :: "MeetingSessionStatus list" where
  "all_statuses =
     [Requested, PendingJoin, CommandSent, Joining, Joined, Active, Recording,
      SpeechError, SpeechThrottled, Ending, Ended, Failed, Stale]"

definition parse_status :: "gostring \<Rightarrow> MeetingSessionStatus option" where
  "parse_status s = find (\<lambda>st. status_text st = s) all_statuses"

definition ValidMeetingSessionStatus :: "gostring \<Rightarrow> bool" where
  "ValidMeetingSessionStatus s \<longleftrightarrow> s \<in> set (map status_text all_statuses)"

definition ReusableMeetingSessionStatuses :: "MeetingSessionStatus list" where
  "ReusableMeetingSessionStatuses =
     [Requested, PendingJoin, CommandSent, Joining, Joined, Active, Recording,
      SpeechError, SpeechThrottled]"

definition IsReusableMeetingSessionStatus :: "MeetingSessionStatus \<Rightarrow> bool" where
  "IsReusableMeetingSessionStatus st \<longleftrightarrow> list_ex (\<lambda>c. st = c) ReusableMeetingSessionStatuses"

lemma all_statuses_complete: "st \<in> set all_statuses"
  by (cases st) (simp_all add: all_statuses_def)

lemma status_text_inj: "status_text a = status_text b \<longleftrightarrow> a = b"
  by (cases a; cases b) simp_all

lemma parse_status_text [simp]: "parse_status (status_text st) = Some st"
  by (cases st) (simp_all add: parse_status_def all_statuses_def)

lemma parse_status_Some: "parse_status s = Some st \<longleftrightarrow> s = status_text st"
proof
  assume "parse_status s = Some st"
  then show "s = status_text st" by (auto simp: parse_status_def find_Some_iff)
qed simp

lemma ValidMeetingSessionStatus_iff: "ValidMeetingSessionStatus s \<longleftrightarrow> parse_status s \<noteq> None"
proof -
  have "parse_status s = None \<longleftrightarrow> s \<notin> set (map status_text all_statuses)"
    by (auto simp: parse_status_def find_None_iff)
  then show ?thesis by (simp add: ValidMeetingSessionStatus_def)
qed

lemma status_text_trim [simp]: "trim_space (status_text st) = status_text st"
  by (cases st; simp only: status_text.simps; code_simp)

section \<open>Meeting session\<close>

record MeetingSession =
  ms_ID :: gostring
  ms_WorkspaceID :: gostring
  ms_CreatedByUserID :: gostring
  ms_MeetingID :: gostring
  ms_JoinURL :: gostring
  ms_JoinURLHash :: gostring
  ms_Title :: gostring
  ms_TitleSource :: gostring
  ms_TitleUpdatedAt :: gotime
  ms_UserProvidedTitle :: gostring
  ms_GraphTitle :: gostring
  ms_Provider :: gostring
  ms_ExternalMeetingID :: gostring
  ms_JoinMeetingID :: gostring
  ms_JoinWebURL :: gostring
  ms_CanonicalJoinWebURL :: gostring
  ms_ThreadID :: gostring
  ms_OrganizerID :: gostring
  ms_OrganizerName :: gostring
  ms_OrganizerEmail :: gostring
  ms_ScheduledStartAt :: gotime
  ms_ScheduledEndAt :: gotime
  ms_TitleResolutionErrorCode :: gostring
  ms_TitleResolutionErrorMessage :: gostring
  ms_TitleResolvedAt :: gotime
  ms_Purpose :: gostring
  ms_Context :: gostring
  ms_Agenda :: gostring
  ms_DecisionPoints :: gostring
  ms_Concerns :: gostring
  ms_ExpectedOutput :: gostring
  ms_CustomInstruction :: gostring
  ms_Status :: MeetingSessionStatus
  ms_BotCallID :: gostring
  ms_RequestedAt :: gotime
  ms_CommandSentAt :: gotime
  ms_JoinedAt :: gotime
  ms_EndedAt :: gotime
  ms_EndReason :: gostring
  ms_LastBotStatusAt :: gotime
  ms_LastError :: gostring
  ms_CreatedAt :: gotime
  ms_UpdatedAt :: gotime

record MeetingSessionStatusUpdate =
  su_SessionID :: gostring
  su_Status :: MeetingSessionStatus
  su_BotCallID :: gostring
  su_Title :: gostring
  su_TitleSource :: gostring
  su_CommandSentAt :: "gotime option"
  su_JoinedAt :: "gotime option"
  su_EndedAt :: "gotime option"
  su_EndReason :: gostring
  su_LastBotStatusAt :: "gotime option"
  su_LastError :: gostring
  su_UpdatedAt :: gotime

record MeetingSessionMetadataUpdate =
  mu_SessionID :: gostring
  mu_Title :: gostring
  mu_TitleSource :: gostring
  mu_UserProvidedTitle :: gostring
  mu_GraphTitle :: gostring
  mu_Provider :: gostring
  mu_ExternalMeetingID :: gostring
  mu_JoinMeetingID :: gostring
  mu_JoinWebURL :: gostring
  mu_CanonicalJoinWebURL :: gostring
  mu_ThreadID :: gostring
  mu_OrganizerID :: gostring
  mu_OrganizerName :: gostring
  mu_OrganizerEmail :: gostring
  mu_ScheduledStartAt :: "gotime option"
  mu_ScheduledEndAt :: "gotime option"
  mu_TitleResolutionErrorCode :: gostring
  mu_TitleResolutionErrorMessage :: gostring
  mu_TitleResolvedAt :: "gotime option"
  mu_Purpose :: gostring
  mu_Context :: gostring
  mu_Agenda :: gostring
  mu_DecisionPoints :: gostring
  mu_Concerns :: gostring
  mu_ExpectedOutput :: gostring
  mu_CustomInstruction :: gostring
  mu_UpdatedAt :: gotime

section \<open>Transcript segments\<close>

record TranscriptSegment =
  ts_SessionID :: gostring
  ts_EventID :: gostring
  ts_CallID :: gostring
  ts_SequenceNo :: int
  ts_SpeakerID :: gostring
  ts_SpeakerName :: gostring
  ts_RecognizedAtUTC :: gotime
  ts_OffsetTicks :: int
  ts_DurationTicks :: int
  ts_Text :: gostring
  ts_ReceivedAtUTC :: gotime
  ts_IsFinal :: bool

datatype TranscriptSegmentStoreStatus =
    TranscriptSegmentCreated | TranscriptSegmentAlreadyExists | TranscriptSegmentPartialSent

record TranscriptSegmentStoreResult =
  tr_Status :: TranscriptSegmentStoreStatus
  tr_EventID :: gostring

section \<open>Users, workspaces, invitations, login sessions\<close>

record User =
  us_ID :: gostring
  us_DisplayName :: gostring
  us_Email :: gostring

record Workspace =
  wk_ID :: gostring
  wk_Name :: gostring
  wk_Description :: gostring
  wk_Role :: gostring
  wk_CreatedAt :: gotime
  wk_UpdatedAt :: gotime

record WorkspaceMember =
  wm_WorkspaceID :: gostring
  wm_UserID :: gostring
  wm_DisplayName :: gostring
  wm_Email :: gostring
  wm_Role :: gostring
  wm_JoinedAt :: gotime

datatype InvitationStatus = Pending | Accepted | Revoked | Expired

record WorkspaceInvitation =
  iv_ID :: gostring
  iv_WorkspaceID :: gostring
  iv_Email :: gostring
  iv_NormalizedEmail :: gostring
  iv_Role :: gostring
  iv_Status :: InvitationStatus
  iv_InvitedBy :: gostring
  iv_InvitedByName :: gostring
  iv_TokenHash :: gostring
  iv_ExpiresAt :: "gotime option"
  iv_CreatedAt :: gotime

record LoginSession =
  ls_ID :: gostring
  ls_UserID :: gostring
  ls_TokenHash :: gostring
  ls_CurrentWorkspaceID :: gostring
  ls_ExpiresAt :: gotime
  ls_CreatedAt :: gotime

section \<open>Workspace roles\<close>

definition WorkspaceRoleOwner :: gostring where "WorkspaceRoleOwner = ''owner''"
definition WorkspaceRoleAdmin :: gostring where "WorkspaceRoleAdmin = ''admin''"
definition WorkspaceRoleViewer :: gostring where "WorkspaceRoleViewer = ''viewer''"
definition WorkspaceRoleLegacyMember :: gostring where "WorkspaceRoleLegacyMember = ''member''"

lemmas role_names =
  WorkspaceRoleOwner_def WorkspaceRoleAdmin_def WorkspaceRoleViewer_def WorkspaceRoleLegacyMember_def

definition NormalizeWorkspaceRole :: "gostring \<Rightarrow> gostring" where
  "NormalizeWorkspaceRole role =
     (let r = to_lower (trim_space role) in
      if r = WorkspaceRoleOwner then WorkspaceRoleOwner
      else if r = WorkspaceRoleAdmin \<or> r = WorkspaceRoleLegacyMember then WorkspaceRoleAdmin
      else if r = WorkspaceRoleViewer then WorkspaceRoleViewer
      else '''')"

definition ValidWorkspaceInvitationRole :: "gostring \<Rightarrow> bool" where
  "ValidWorkspaceInvitationRole role \<longleftrightarrow>
     NormalizeWorkspaceRole role \<in> {WorkspaceRoleAdmin, WorkspaceRoleViewer}"

definition IsWorkspaceOwner :: "gostring \<Rightarrow> bool" where
  "IsWorkspaceOwner role \<longleftrightarrow> NormalizeWorkspaceRole role = WorkspaceRoleOwner"

definition CanManageWorkspace :: "gostring \<Rightarrow> bool" where
  "CanManageWorkspace role \<longleftrightarrow>
     NormalizeWorkspaceRole role \<in> {WorkspaceRoleOwner, WorkspaceRoleAdmin}"

definition CanManageMeetingSessions :: "gostring \<Rightarrow> bool" where
  "CanManageMeetingSessions role \<longleftrightarrow>
     NormalizeWorkspaceRole role \<in> {WorkspaceRoleOwner, WorkspaceRoleAdmin}"

lemma NormalizeWorkspaceRole_fixed [simp]:
  "NormalizeWorkspaceRole WorkspaceRoleOwner = WorkspaceRoleOwner"
  "NormalizeWorkspaceRole WorkspaceRoleAdmin = WorkspaceRoleAdmin"
  "NormalizeWorkspaceRole WorkspaceRoleViewer = WorkspaceRoleViewer"
  "NormalizeWorkspaceRole WorkspaceRoleLegacyMember = WorkspaceRoleAdmin"
  "NormalizeWorkspaceRole [] = []"
  by code_simp+

lemma NormalizeWorkspaceRole_range:
  "NormalizeWorkspaceRole r \<in> {WorkspaceRoleOwner, WorkspaceRoleAdmin, WorkspaceRoleViewer, []}"
  by (simp add: NormalizeWorkspaceRole_def Let_def)

lemma NormalizeWorkspaceRole_idem [simp]:
  "NormalizeWorkspaceRole (NormalizeWorkspaceRole r) = NormalizeWorkspaceRole r"
  using NormalizeWorkspaceRole_range [of r] by auto

lemma role_names_distinct [simp]:
  "WorkspaceRoleOwner \<noteq> WorkspaceRoleAdmin" "WorkspaceRoleOwner \<noteq> WorkspaceRoleViewer"
  "WorkspaceRoleAdmin \<noteq> WorkspaceRoleOwner" "WorkspaceRoleViewer \<noteq> WorkspaceRoleOwner"
  "WorkspaceRoleAdmin \<noteq> WorkspaceRoleViewer" "WorkspaceRoleViewer \<noteq> WorkspaceRoleAdmin"
  "WorkspaceRoleOwner \<noteq> []" "WorkspaceRoleAdmin \<noteq> []" "WorkspaceRoleViewer \<noteq> []"
  by (simp_all add: role_names)

lemma CanManageWorkspace_Nil [simp]: "\<not> CanManageWorkspace []"
  by (simp add: CanManageWorkspace_def role_names)

lemma IsWorkspaceOwner_CanManage: "IsWorkspaceOwner r \<Longrightarrow> CanManageWorkspace r"
  by (simp add: IsWorkspaceOwner_def CanManageWorkspace_def)

lemma ValidWorkspaceInvitationRole_not_owner:
  "ValidWorkspaceInvitationRole r \<Longrightarrow> \<not> IsWorkspaceOwner r"
  by (auto simp: ValidWorkspaceInvitationRole_def IsWorkspaceOwner_def)

section \<open>Meetings and their durable events\<close>

record Meeting =
  mt_ID :: gostring
  mt_WorkspaceID :: gostring
  mt_Title :: gostring
  mt_Status :: gostring
  mt_Source :: gostring
  mt_CreatedAt :: gotime
  mt_UpdatedAt :: gotime
  mt_EndedAt :: "gotime option"

definition EventMeetingState :: gostring where "EventMeetingState = ''meeting.state''"
definition EventTranscriptPartial :: gostring where "EventTranscriptPartial = ''transcript.partial''"
definition EventTranscriptFinal :: gostring where "EventTranscriptFinal = ''transcript.final''"
definition EventAnalysisDelta :: gostring where "EventAnalysisDelta = ''analysis.delta''"
definition EventTreeUpdate :: gostring where "EventTreeUpdate = ''tree.update''"
definition EventSpeakerSummaryDelta :: gostring where
  "EventSpeakerSummaryDelta = ''speaker.summary.delta''"
definition EventError :: gostring where "EventError = ''error''"

lemmas event_names = EventMeetingState_def EventTranscriptPartial_def EventTranscriptFinal_def
  EventAnalysisDelta_def EventTreeUpdate_def EventSpeakerSummaryDelta_def EventError_def

definition IsDurableEventType :: "gostring \<Rightarrow> bool" where
  "IsDurableEventType t \<longleftrightarrow>
     t \<in> {EventTranscriptFinal, EventAnalysisDelta, EventTreeUpdate, EventSpeakerSummaryDelta,
           EventMeetingState, EventError}"

end
