(* ===== verification/SessionRules.thy ===== *)
theory SessionRules
  imports Domain
begin

text \<open>
  The pure rules of \<open>internal/application/meeting_session.go\<close> and the join-URL rules of
  \<open>internal/domain/model.go\<close>: which status reports are suppressed, which failures are fatal,
  which title wins, how failure and end texts are summarised, which user ids are offered to the
  bot, and which URLs are accepted.  Request structs are records (\<open>ci_\<close> create, \<open>si_\<close> status
  update, \<open>mi_\<close> metadata update, \<open>ei_\<close> end).

  The parsers and printers of \<open>net/url\<close> and \<open>time\<close> and the SHA-256 digest are parameters,
  collected in the record \<open>golib\<close>.
\<close>

section \<open>Requests\<close>

record MeetingSessionCreateInput =
  ci_WorkspaceID :: gostring
  ci_CreatedByUserID :: gostring
  ci_MeetingID :: gostring
  ci_JoinURL :: gostring
  ci_Title :: gostring
  ci_UserProvidedTitle :: gostring
  ci_CandidateUserIDs :: "gostring list"
  ci_CandidateUserPrincipalNames :: "gostring list"
  ci_CreatedByMicrosoftUserID :: gostring
  ci_CreatedByEmail :: gostring
  ci_OrganizerUserID :: gostring
  ci_Purpose :: gostring
  ci_Context :: gostring
  ci_Agenda :: gostring
  ci_DecisionPoints :: gostring
  ci_Concerns :: gostring
  ci_ExpectedOutput :: gostring
  ci_CustomInstruction :: gostring

record MeetingSessionStatusUpdateInput =
  si_SessionID :: gostring
  si_Status :: gostring
  si_BotCallID :: gostring
  si_Message :: gostring
  si_Reason :: gostring
  si_ErrorCode :: gostring
  si_Source :: gostring
  si_Title :: gostring
  si_TitleSource :: gostring
  si_BotLastForwardedFinalSequence :: int
  si_TranscriptQueueDrained :: bool

record MeetingSessionEndInput =
  ei_SessionID :: gostring
  ei_Reason :: gostring

record MeetingSessionMetadataUpdateInput =
  mi_SessionID :: gostring
  mi_Title :: gostring
  mi_TitleSource :: gostring
  mi_UserProvidedTitle :: gostring
  mi_GraphTitle :: gostring
  mi_Provider :: gostring
  mi_ExternalMeetingID :: gostring
  mi_JoinMeetingID :: gostring
  mi_JoinWebURL :: gostring
  mi_CanonicalJoinWebURL :: gostring
  mi_ThreadID :: gostring
  mi_OrganizerID :: gostring
  mi_OrganizerName :: gostring
  mi_OrganizerEmail :: gostring
  mi_ScheduledStartAt :: gostring
  mi_ScheduledEndAt :: gostring
  mi_TitleResolutionErrorCode :: gostring
  mi_TitleResolutionErrorMessage :: gostring
  mi_TitleResolvedAt :: gostring
  mi_Purpose :: gostring
  mi_Context :: gostring
  mi_Agenda :: gostring
  mi_DecisionPoints :: gostring
  mi_Concerns :: gostring
  mi_ExpectedOutput :: gostring
  mi_CustomInstruction :: gostring

section \<open>Status classes\<close>

definition isJoinedOrBeyondMeetingStatus :: "MeetingSessionStatus \<Rightarrow> bool" where
  "isJoinedOrBeyondMeetingStatus st \<longleftrightarrow>
     st \<in> {Joined, Active, Recording, SpeechError, SpeechThrottled, Ending}"

definition isTerminalMeetingSessionStatus :: "MeetingSessionStatus \<Rightarrow> bool" where
  "isTerminalMeetingSessionStatus st \<longleftrightarrow> st \<in> {Ended, Failed, Stale}"

lemma isTerminal_simps [simp]:
  "\<not> isTerminalMeetingSessionStatus Requested"
  "\<not> isTerminalMeetingSessionStatus PendingJoin"
  "\<not> isTerminalMeetingSessionStatus CommandSent"
  "\<not> isTerminalMeetingSessionStatus Joining"
  "\<not> isTerminalMeetingSessionStatus Joined"
  "\<not> isTerminalMeetingSessionStatus Active"
  "\<not> isTerminalMeetingSessionStatus Recording"
  "\<not> isTerminalMeetingSessionStatus SpeechError"
  "\<not> isTerminalMeetingSessionStatus SpeechThrottled"
  "\<not> isTerminalMeetingSessionStatus Ending"
  "isTerminalMeetingSessionStatus Ended"
  "isTerminalMeetingSessionStatus Failed"
  "isTerminalMeetingSessionStatus Stale"
  by (simp_all add: isTerminalMeetingSessionStatus_def)

lemma status_classes_disjoint:
  "isTerminalMeetingSessionStatus st \<Longrightarrow> \<not> isJoinedOrBeyondMeetingStatus st"
  "isTerminalMeetingSessionStatus st \<Longrightarrow> \<not> IsReusableMeetingSessionStatus st"
  by (cases st; simp add: isTerminalMeetingSessionStatus_def isJoinedOrBeyondMeetingStatus_def
      IsReusableMeetingSessionStatus_def ReusableMeetingSessionStatuses_def)+

text \<open>Every status is reusable, terminal or \<open>ending\<close>, and only one of the three.\<close>

lemma status_partition:
  "IsReusableMeetingSessionStatus st \<longleftrightarrow> \<not> isTerminalMeetingSessionStatus st \<and> st \<noteq> Ending"
  by (cases st; simp add: isTerminalMeetingSessionStatus_def
      IsReusableMeetingSessionStatus_def ReusableMeetingSessionStatuses_def)

section \<open>Fatal failures and suppression\<close>

definition nonfatal_markers :: "gostring list" where
  "nonfatal_markers =
     [''speech'', ''transcription'', ''recognizer'', ''pipeline'', ''acceptingframes'',
      ''accepting_frames'', ''silent frame'', ''audio'', ''not_ready'', ''not ready'']"

definition fatal_markers :: "gostring list" where
  "fatal_markers =
     [''call_disconnected'', ''call disconnected'', ''graph_call_disconnected'',
      ''graph call disconnected'', ''call_terminated'', ''call terminated'', ''call ended'',
      ''graph_call_ended'', ''permission_denied'', ''permission denied'', ''meeting_not_found'',
      ''meeting not found'', ''graph_join_failed'', ''join_failed'', ''fatal'']"

definition failure_text :: "MeetingSessionStatusUpdateInput \<Rightarrow> gostring" where
  "failure_text i =
     trim_space (to_lower (join '' '' [si_Reason i, si_ErrorCode i, si_Source i, si_Message i]))"

definition isFatalMeetingFailure :: "MeetingSessionStatusUpdateInput \<Rightarrow> bool" where
  "isFatalMeetingFailure i =
     (let text = failure_text i in
      if text = [] then False
      else if list_ex (contains text) nonfatal_markers then False
      else list_ex (contains text) fatal_markers)"

definition shouldSuppressMeetingSessionFailure ::
    "MeetingSession \<Rightarrow> MeetingSessionStatusUpdateInput \<Rightarrow> bool" where
  "shouldSuppressMeetingSessionFailure previous i =
     (if si_Status i \<noteq> status_text Failed then False
      else if \<not> isJoinedOrBeyondMeetingStatus (ms_Status previous) then False
      else \<not> isFatalMeetingFailure i)"

definition shouldSuppressMeetingSessionTerminalRevival ::
    "MeetingSession \<Rightarrow> MeetingSessionStatus \<Rightarrow> bool" where
  "shouldSuppressMeetingSessionTerminalRevival previous requested =
     (if \<not> isTerminalMeetingSessionStatus (ms_Status previous) then False
      else \<not> isTerminalMeetingSessionStatus requested)"

definition labelled :: "gostring \<Rightarrow> gostring \<Rightarrow> gostring list" where
  "labelled l v = (let t = trim_space v in if t \<noteq> [] then [l @ t] else [])"

definition summarizeMeetingSessionFailure :: "MeetingSessionStatusUpdateInput \<Rightarrow> gostring" where
  "summarizeMeetingSessionFailure i =
     (let parts = labelled ''reason='' (si_Reason i) @ labelled ''errorCode='' (si_ErrorCode i) @
                  labelled ''source='' (si_Source i) @ labelled ''message='' (si_Message i)
      in if parts = [] then [] else cap_len 300 (join '' '' parts))"

definition summarizeMeetingSessionEndReason :: "MeetingSessionStatusUpdateInput \<Rightarrow> gostring" where
  "summarizeMeetingSessionEndReason i =
     cap_len 300 (first_trimmed [si_Reason i, si_Message i, si_Source i])"

section \<open>Titles\<close>

definition isGraphMeetingTitleSource :: "gostring \<Rightarrow> bool" where
  "isGraphMeetingTitleSource source =
     (let s = to_lower (trim_space source) in
      s = ''graph_online_meeting'' \<or> s = ''graph_calendar_event'' \<or> s = ''teams_metadata'' \<or>
      has_prefix s ''graph_'')"

definition meetingSessionTitleSourceRank :: "gostring \<Rightarrow> int" where
  "meetingSessionTitleSourceRank source =
     (if equal_fold (trim_space source) ''user_input'' then 4
      else if isGraphMeetingTitleSource source then 3
      else if equal_fold (trim_space source) ''fallback'' then 1
      else if trim_space source = [] then 0 else 1)"

datatype titleDecision =
    IgnoreNull | OverwriteWithUserInput | OverwriteWithGraph | OverwriteWithFallback | KeepExisting

fun ApplyTitle :: "titleDecision \<Rightarrow> bool" where
  "ApplyTitle IgnoreNull = False"
| "ApplyTitle OverwriteWithUserInput = True"
| "ApplyTitle OverwriteWithGraph = True"
| "ApplyTitle OverwriteWithFallback = True"
| "ApplyTitle KeepExisting = False"

definition decideMeetingSessionTitleUpdate ::
    "MeetingSession option \<Rightarrow> gostring \<Rightarrow> gostring \<Rightarrow> titleDecision" where
  "decideMeetingSessionTitleUpdate previous incomingTitle0 incomingSource0 =
     (let incomingTitle = trim_space incomingTitle0;
          incomingSource = trim_space incomingSource0 in
      if incomingTitle = [] then IgnoreNull
      else
        (let oldSource = (case previous of None \<Rightarrow> [] | Some p \<Rightarrow> trim_space (ms_TitleSource p));
             oldRank = meetingSessionTitleSourceRank oldSource;
             r0 = meetingSessionTitleSourceRank incomingSource;
             incomingRank = (if r0 = 0 then 1 else r0) in
         if oldRank \<le> incomingRank then
           (if incomingRank = 4 then OverwriteWithUserInput
            else if incomingRank = 3 then OverwriteWithGraph
            else if oldRank \<le> 1 then OverwriteWithFallback
            else KeepExisting)
         else KeepExisting))"

definition defaultMeetingSessionTitle :: gostring where
  "defaultMeetingSessionTitle =
     ''Teams'' @ [CHR 0xE4, CHR 0xBC, CHR 0x9A, CHR 0xE8, CHR 0xAD, CHR 0xB0]"

definition meetingSessionUserProvidedTitle :: "MeetingSessionCreateInput \<Rightarrow> gostring" where
  "meetingSessionUserProvidedTitle i = first_trimmed [ci_UserProvidedTitle i, ci_Title i]"

definition meetingSessionCreateTitle :: "gostring \<Rightarrow> gostring" where
  "meetingSessionCreateTitle title =
     (let t = trim_space title in if t \<noteq> [] then t else defaultMeetingSessionTitle)"

definition meetingSessionCreateTitleSource :: "gostring \<Rightarrow> gostring" where
  "meetingSessionCreateTitleSource title =
     (if trim_space title \<noteq> [] then ''user_input'' else ''fallback'')"

definition shouldApplyCreateTitleToReusedSession :: "MeetingSession \<Rightarrow> gostring \<Rightarrow> bool" where
  "shouldApplyCreateTitleToReusedSession s title \<longleftrightarrow> trim_space title \<noteq> []"

definition normalizeMeetingSessionTitleSource :: "gostring \<Rightarrow> gostring \<Rightarrow> gostring" where
  "normalizeMeetingSessionTitleSource source0 title =
     (let source = trim_space source0 in
      if source \<noteq> [] then cap_len 80 source
      else if trim_space title \<noteq> [] then ''bot_metadata'' else [])"

definition metadataUserProvidedTitle ::
    "MeetingSessionMetadataUpdateInput \<Rightarrow> gostring \<Rightarrow> gostring \<Rightarrow> gostring" where
  "metadataUserProvidedTitle i titleSource title =
     (let v = trim_space (mi_UserProvidedTitle i) in
      if v \<noteq> [] then v
      else if trim_space titleSource = ''user_input'' then trim_space title else [])"

definition metadataGraphTitle ::
    "MeetingSessionMetadataUpdateInput \<Rightarrow> gostring \<Rightarrow> gostring \<Rightarrow> gostring" where
  "metadataGraphTitle i titleSource title =
     (let v = trim_space (mi_GraphTitle i) in
      if v \<noteq> [] then v
      else if isGraphMeetingTitleSource titleSource then trim_space title else [])"

section \<open>Metadata presence\<close>

definition hasMeetingSessionCreateContext :: "MeetingSessionCreateInput \<Rightarrow> bool" where
  "hasMeetingSessionCreateContext i \<longleftrightarrow>
     trim_space (ci_Purpose i) \<noteq> [] \<or> trim_space (ci_Context i) \<noteq> [] \<or>
     trim_space (ci_Agenda i) \<noteq> [] \<or> trim_space (ci_DecisionPoints i) \<noteq> [] \<or>
     trim_space (ci_Concerns i) \<noteq> [] \<or> trim_space (ci_ExpectedOutput i) \<noteq> [] \<or>
     trim_space (ci_CustomInstruction i) \<noteq> []"

definition hasMeetingSessionMetadataUpdate :: "MeetingSessionMetadataUpdate \<Rightarrow> bool" where
  "hasMeetingSessionMetadataUpdate u \<longleftrightarrow>
     trim_space (mu_Title u) \<noteq> [] \<or> trim_space (mu_UserProvidedTitle u) \<noteq> [] \<or>
     trim_space (mu_GraphTitle u) \<noteq> [] \<or> trim_space (mu_Provider u) \<noteq> [] \<or>
     trim_space (mu_ExternalMeetingID u) \<noteq> [] \<or> trim_space (mu_JoinMeetingID u) \<noteq> [] \<or>
     trim_space (mu_JoinWebURL u) \<noteq> [] \<or> trim_space (mu_CanonicalJoinWebURL u) \<noteq> [] \<or>
     trim_space (mu_ThreadID u) \<noteq> [] \<or> trim_space (mu_OrganizerID u) \<noteq> [] \<or>
     trim_space (mu_OrganizerName u) \<noteq> [] \<or> trim_space (mu_OrganizerEmail u) \<noteq> [] \<or>
     mu_ScheduledStartAt u \<noteq> None \<or> mu_ScheduledEndAt u \<noteq> None \<or>
     trim_space (mu_TitleResolutionErrorCode u) \<noteq> [] \<or>
     trim_space (mu_TitleResolutionErrorMessage u) \<noteq> [] \<or> mu_TitleResolvedAt u \<noteq> None \<or>
     trim_space (mu_Purpose u) \<noteq> [] \<or> trim_space (mu_Context u) \<noteq> [] \<or>
     trim_space (mu_Agenda u) \<noteq> [] \<or> trim_space (mu_DecisionPoints u) \<noteq> [] \<or>
     trim_space (mu_Concerns u) \<noteq> [] \<or> trim_space (mu_ExpectedOutput u) \<noteq> [] \<or>
     trim_space (mu_CustomInstruction u) \<noteq> []"

section \<open>Candidate users for the title lookup\<close>

definition is_hex_digit :: "char \<Rightarrow> bool" where
  "is_hex_digit c =
     (let n = (of_char c :: nat) in
      (48 \<le> n \<and> n \<le> 57) \<or> (97 \<le> n \<and> n \<le> 102) \<or> (65 \<le> n \<and> n \<le> 70))"

definition isAadObjectID :: "gostring \<Rightarrow> bool" where
  "isAadObjectID value0 =
     (let value = trim_space value0 in
      length value = 36 \<and>
      list_all (\<lambda>(k, c). if k \<in> {8, 13, 18, 23} then c = CHR ''-'' else is_hex_digit c)
        (zip [0..<36] value))"

definition appendAadObjectID :: "gostring list \<Rightarrow> gostring \<Rightarrow> gostring list" where
  "appendAadObjectID values v = (if isAadObjectID v then values @ [v] else values)"

fun unique_loop :: "gostring list \<Rightarrow> gostring list \<Rightarrow> gostring list \<Rightarrow> gostring list" where
  "unique_loop seen unique [] = unique"
| "unique_loop seen unique (v # vs) =
     (let trimmed = trim_space v; key = to_lower trimmed in
      if trimmed = [] then unique_loop seen unique vs
      else if key \<in> set seen then unique_loop seen unique vs
      else unique_loop (key # seen) (unique @ [trimmed]) vs)"

definition uniqueTrimmedStrings :: "gostring list \<Rightarrow> gostring list" where
  "uniqueTrimmedStrings vs = unique_loop [] [] vs"

definition meetingTitleLookupCandidateUserIDs :: "MeetingSessionCreateInput \<Rightarrow> gostring list" where
  "meetingTitleLookupCandidateUserIDs i =
     (let v1 = appendAadObjectID [] (ci_OrganizerUserID i);
          v2 = appendAadObjectID v1 (ci_CreatedByMicrosoftUserID i);
          v3 = foldl appendAadObjectID v2 (ci_CandidateUserIDs i)
      in uniqueTrimmedStrings v3)"

definition meetingTitleLookupCandidateUserPrincipalNames ::
    "MeetingSessionCreateInput \<Rightarrow> gostring list" where
  "meetingTitleLookupCandidateUserPrincipalNames i =
     uniqueTrimmedStrings
       ([ci_CreatedByEmail i] @ ci_CandidateUserPrincipalNames i @
        filter (\<lambda>v. \<not> isAadObjectID v) (ci_CandidateUserIDs i))"

section \<open>Join URLs\<close>

record urlparts =
  up_Scheme :: gostring
  up_Opaque :: gostring
  up_User :: gostring
  up_Host :: gostring
  up_Path :: gostring
  up_RawPath :: gostring
  up_ForceQuery :: bool
  up_RawQuery :: gostring
  up_Fragment :: gostring
  up_RawFragment :: gostring

record golib =
  url_parse :: "gostring \<Rightarrow> urlparts option"
  url_Hostname :: "urlparts \<Rightarrow> gostring"
  url_Port :: "urlparts \<Rightarrow> gostring"
  url_EscapedPath :: "urlparts \<Rightarrow> gostring"
  url_String :: "urlparts \<Rightarrow> gostring"
  path_unescape :: "gostring \<Rightarrow> gostring option"
  sha256_hex :: "gostring \<Rightarrow> gostring"
  parse_rfc3339nano :: "gostring \<Rightarrow> gotime option"
  parse_rfc3339 :: "gostring \<Rightarrow> gotime option"

fun trim_left_char :: "char \<Rightarrow> gostring \<Rightarrow> gostring" where
  "trim_left_char d [] = []"
| "trim_left_char d (c # cs) = (if c = d then trim_left_char d cs else c # cs)"

definition trim_right_char :: "char \<Rightarrow> gostring \<Rightarrow> gostring" where
  "trim_right_char d s = rev (trim_left_char d (rev s))"

definition trim_suffix :: "gostring \<Rightarrow> gostring \<Rightarrow> gostring" where
  "trim_suffix s p = (if has_suffix s p then take (length s - length p) s else s)"

fun split_on :: "char \<Rightarrow> gostring \<Rightarrow> gostring list" where
  "split_on d [] = [[]]"
| "split_on d (c # cs) =
     (if c = d then [] # split_on d cs
      else (case split_on d cs of [] \<Rightarrow> [[c]] | w # ws \<Rightarrow> (c # w) # ws))"

definition JoinURLHash :: "golib \<Rightarrow> gostring \<Rightarrow> gostring" where
  "JoinURLHash lib url = sha256_hex lib url"

definition isTeamsJoinHost :: "gostring \<Rightarrow> bool" where
  "isTeamsJoinHost host \<longleftrightarrow>
     host = ''teams.microsoft.com'' \<or> has_suffix host ''.teams.microsoft.com'' \<or>
     host = ''teams.live.com'' \<or> has_suffix host ''.teams.live.com''"

definition isTeamsJoinPath :: "gostring \<Rightarrow> bool" where
  "isTeamsJoinPath path0 =
     (let path = to_lower path0 in
      contains path ''meetup-join'' \<or> path = ''/meet'' \<or> has_prefix path ''/meet/'')"

definition normalizedJoinURLString :: "golib \<Rightarrow> urlparts \<Rightarrow> gostring" where
  "normalizedJoinURLString lib p0 =
     (let p1 = p0\<lparr>up_Scheme := to_lower (up_Scheme p0)\<rparr>;
          host0 = trim_suffix (to_lower (url_Hostname lib p1)) ''.'';
          port = url_Port lib p1;
          host = (if port \<noteq> [] \<and> port \<noteq> ''443'' then host0 @ '':'' @ port else host0);
          p2 = p1\<lparr>up_Host := host, up_Fragment := [], up_RawFragment := []\<rparr>;
          p3 = (if up_Path p2 \<noteq> [] \<and> up_Path p2 \<noteq> ''/''
                then p2\<lparr>up_Path := trim_right_char (CHR ''/'') (up_Path p2),
                        up_RawPath := trim_right_char (CHR ''/'') (up_RawPath p2)\<rparr>
                else p2)
      in url_String lib p3)"

definition NormalizeTeamsJoinURL :: "golib \<Rightarrow> gostring \<Rightarrow> gostring result" where
  "NormalizeTeamsJoinURL lib value0 =
     (let value = trim_space value0 in
      if value = [] then Inl (ErrInvalidArgument ''joinUrl is required'')
      else if list_ex (\<lambda>c. c \<in> {CHR 0x20, CHR 0x09, CHR 0x0D, CHR 0x0A}) value
        then Inl (ErrInvalidArgument ''joinUrl must be a valid absolute URL'')
      else (case url_parse lib value of
        None \<Rightarrow> Inl (ErrInvalidArgument ''joinUrl must be a valid absolute URL'')
      | Some parsed \<Rightarrow>
          if up_Scheme parsed = [] \<or> up_Host parsed = []
            then Inl (ErrInvalidArgument ''joinUrl must be a valid absolute URL'')
          else if to_lower (up_Scheme parsed) \<noteq> ''https''
            then Inl (ErrInvalidArgument ''joinUrl must use https'')
          else if \<not> isTeamsJoinHost (trim_suffix (to_lower (url_Hostname lib parsed)) ''.'') \<or>
                  \<not> isTeamsJoinPath (url_EscapedPath lib parsed)
            then Inl (ErrInvalidArgument ''joinUrl must be a Teams meeting URL'')
          else Inr (normalizedJoinURLString lib parsed)))"

fun find_meet :: "golib \<Rightarrow> gostring list \<Rightarrow> gostring" where
  "find_meet lib [] = []"
| "find_meet lib [seg] = []"
| "find_meet lib (seg # nxt # rest) =
     (if equal_fold seg ''meet'' then
        (case path_unescape lib nxt of
          Some meetingID \<Rightarrow> trim_space meetingID
        | None \<Rightarrow> trim_space nxt)
      else find_meet lib (nxt # rest))"

definition extractTeamsJoinMeetingID :: "golib \<Rightarrow> gostring \<Rightarrow> gostring" where
  "extractTeamsJoinMeetingID lib joinURL =
     (case url_parse lib (trim_space joinURL) of
        None \<Rightarrow> []
      | Some parsed \<Rightarrow>
          find_meet lib
            (split_on (CHR ''/'')
              (trim_right_char (CHR ''/'') (trim_left_char (CHR ''/'') (url_EscapedPath lib parsed)))))"

section \<open>Times in metadata requests\<close>

definition parseMetadataTime :: "golib \<Rightarrow> gostring \<Rightarrow> gotime result" where
  "parseMetadataTime lib value0 =
     (let value = trim_space value0 in
      if value = [] then Inr 0
      else (case parse_rfc3339nano lib value of
        Some t \<Rightarrow> Inr t
      | None \<Rightarrow> (case parse_rfc3339 lib value of
          Some t \<Rightarrow> Inr t
        | None \<Rightarrow> Inl (ErrInvalidArgument ''metadata time is invalid''))))"

end
