(* ===== verification/SessionStore.thy ===== *)
theory SessionStore
  imports SessionRules
begin

text \<open>
  The meeting-session tables behind \<open>internal/adapter/repository/postgres/meeting_session.go\<close>:
  each repository method is the function its SQL statement computes on the tables, under the
  method's name with the prefix \<open>repo_\<close>.

  A row of \<open>meeting_sessions\<close> is a \<open>MeetingSession\<close>; SQL \<open>NULL\<close> is the empty string or the
  zero time, which is what every read yields (\<open>COALESCE\<close>, \<open>NullString.String\<close>,
  \<open>parseOptionalTime\<close>), and no write stores \<open>''\<close> in a nullable column (\<open>nullable\<close>, the
  \<open>CASE\<close> guards).  The time columns are text; how the database orders two of those texts is
  the field \<open>before\<close> of the store (it need not be the order of the times).  \<open>ORDER BY\<close> leaves
  ties in table order.  The tables deleted with a session are part of the store, by session and content: analyses,
  overrides, transcript segments, and the tree audits (\<open>meeting_tree_audit_runs\<close>), whose rows the database deletes
  itself (\<open>ON DELETE CASCADE\<close> of migration 00011).  The history of live analyses (migration 00017) is in the store
  too, with no foreign key and no deletion.
\<close>

section \<open>Tables\<close>

record store =
  db_sessions :: "MeetingSession list"
  db_segments :: "TranscriptSegment list"
  db_analyses :: "(gostring \<times> gostring) list"
  db_overrides :: "(gostring \<times> gostring) list"
  db_audits :: "(gostring \<times> gostring) list"
  db_history :: "(gostring \<times> gostring) list"
  db_before :: "gotime \<Rightarrow> gotime \<Rightarrow> bool"

definition not_found :: goerror where
  "not_found = ErrNotFound ''meeting session not found''"

section \<open>Reading\<close>

definition repo_GetMeetingSession :: "store \<Rightarrow> gostring \<Rightarrow> MeetingSession result" where
  "repo_GetMeetingSession db i =
     (case find (\<lambda>r. ms_ID r = i) (db_sessions db) of None \<Rightarrow> Inl not_found | Some r \<Rightarrow> Inr r)"

text \<open>\<open>ORDER BY updated_at DESC, created_at DESC\<close>.\<close>

definition newer_first :: "(gotime \<Rightarrow> gotime \<Rightarrow> bool) \<Rightarrow> MeetingSession \<Rightarrow> MeetingSession \<Rightarrow> bool" where
  "newer_first before a b \<longleftrightarrow>
     before (ms_UpdatedAt b) (ms_UpdatedAt a) \<or>
     (\<not> before (ms_UpdatedAt a) (ms_UpdatedAt b) \<and> before (ms_CreatedAt b) (ms_CreatedAt a))"

definition repo_ListMeetingSessions :: "store \<Rightarrow> gostring \<Rightarrow> int \<Rightarrow> MeetingSession list" where
  "repo_ListMeetingSessions db workspaceID limit0 =
     (let limit = (if limit0 \<le> 0 then 100 else limit0) in
      take (nat limit)
        (order_by (newer_first (db_before db))
          (filter (\<lambda>r. ms_WorkspaceID r = workspaceID \<and> ms_WorkspaceID r \<noteq> []) (db_sessions db))))"

definition findReusable :: "store \<Rightarrow> gostring \<Rightarrow> gostring \<Rightarrow> MeetingSession result" where
  "findReusable db workspaceID joinURLHash =
     (case order_by (newer_first (db_before db))
        (filter (\<lambda>r. ms_JoinURLHash r = joinURLHash \<and> ms_WorkspaceID r = workspaceID \<and>
                  IsReusableMeetingSessionStatus (ms_Status r)) (db_sessions db)) of
        [] \<Rightarrow> Inl not_found | r # _ \<Rightarrow> Inr r)"

definition repo_ListMeetingSessionsForBotWatchdog :: "store \<Rightarrow> MeetingSession list" where
  "repo_ListMeetingSessionsForBotWatchdog db =
     filter (\<lambda>r. ms_Status r \<in> {Joined, Active, Recording, SpeechError, SpeechThrottled, Ending} \<and>
       ms_LastBotStatusAt r \<noteq> 0) (db_sessions db)"

text \<open>\<open>MAX(ts.received_at_utc)\<close> over the joined segments, zero where there is none.\<close>

definition text_max :: "(gotime \<Rightarrow> gotime \<Rightarrow> bool) \<Rightarrow> gotime list \<Rightarrow> gotime" where
  "text_max before ts = (case ts of [] \<Rightarrow> 0 | t # rest \<Rightarrow> foldl (\<lambda>m x. if before m x then x else m) t rest)"

definition repo_ListMeetingSessionDebug :: "store \<Rightarrow> int \<Rightarrow> (MeetingSession \<times> gotime) list" where
  "repo_ListMeetingSessionDebug db limit =
     take (nat limit)
       (map (\<lambda>r. (r, text_max (db_before db)
                (map ts_ReceivedAtUTC (filter (\<lambda>s. ts_SessionID s = ms_ID r) (db_segments db)))))
         (order_by (\<lambda>a b. db_before db (ms_UpdatedAt b) (ms_UpdatedAt a)) (db_sessions db)))"

section \<open>Writing\<close>

text \<open>
  The column list of both \<open>INSERT\<close> statements has no pre-meeting context columns; they start
  as \<open>NULL\<close>.  A second row with the same id violates the primary key.
\<close>

definition inserted_row :: "MeetingSession \<Rightarrow> MeetingSession" where
  "inserted_row s = s\<lparr>ms_Purpose := [], ms_Context := [], ms_Agenda := [], ms_DecisionPoints := [],
     ms_Concerns := [], ms_ExpectedOutput := [], ms_CustomInstruction := []\<rparr>"

definition repo_CreateMeetingSession :: "store \<Rightarrow> MeetingSession \<Rightarrow> MeetingSession result \<times> store" where
  "repo_CreateMeetingSession db s =
     (if ms_ID s \<in> set (map ms_ID (db_sessions db)) then (Inl ErrDatabase, db)
      else (let r = inserted_row s in (Inr r, db\<lparr>db_sessions := db_sessions db @ [r]\<rparr>)))"

definition repo_CreateOrReuseMeetingSession ::
    "store \<Rightarrow> MeetingSession \<Rightarrow> (MeetingSession \<times> bool) result \<times> store" where
  "repo_CreateOrReuseMeetingSession db s =
     (case findReusable db (ms_WorkspaceID s) (ms_JoinURLHash s) of
        Inr existing \<Rightarrow> (Inr (existing, False), db)
      | Inl e \<Rightarrow>
          if \<not> is_not_found e then (Inl e, db)
          else (case repo_CreateMeetingSession db s of
              (Inl e', db') \<Rightarrow> (Inl e', db')
            | (Inr r, db') \<Rightarrow> (Inr (r, True), db')))"

definition keep_or :: "gostring \<Rightarrow> gostring \<Rightarrow> gostring" where
  "keep_or new old = (if new = [] then old else new)"

definition coalesce_time :: "gotime option \<Rightarrow> gotime \<Rightarrow> gotime" where
  "coalesce_time new old = (case new of None \<Rightarrow> old | Some t \<Rightarrow> if t = 0 then old else t)"

definition apply_status_update :: "MeetingSessionStatusUpdate \<Rightarrow> MeetingSession \<Rightarrow> MeetingSession" where
  "apply_status_update u r = r\<lparr>
     ms_Status := su_Status u,
     ms_BotCallID := keep_or (su_BotCallID u) (ms_BotCallID r),
     ms_CommandSentAt := coalesce_time (su_CommandSentAt u) (ms_CommandSentAt r),
     ms_JoinedAt := coalesce_time (su_JoinedAt u) (ms_JoinedAt r),
     ms_EndedAt := coalesce_time (su_EndedAt u) (ms_EndedAt r),
     ms_LastError := su_LastError u,
     ms_UpdatedAt := su_UpdatedAt u,
     ms_Title := keep_or (su_Title u) (ms_Title r),
     ms_TitleUpdatedAt := (if su_Title u = [] then ms_TitleUpdatedAt r else su_UpdatedAt u),
     ms_TitleSource := keep_or (su_TitleSource u) (ms_TitleSource r),
     ms_EndReason := keep_or (su_EndReason u) (ms_EndReason r),
     ms_LastBotStatusAt := coalesce_time (su_LastBotStatusAt u) (ms_LastBotStatusAt r)\<rparr>"

text \<open>\<open>UPDATE \<dots> WHERE id = $1 RETURNING\<close>: the rewritten row, or no row.\<close>

definition update_by_id ::
    "store \<Rightarrow> gostring \<Rightarrow> (MeetingSession \<Rightarrow> MeetingSession) \<Rightarrow> MeetingSession result \<times> store" where
  "update_by_id db i f =
     (let rows = update_where (\<lambda>r. ms_ID r = i) f (db_sessions db) in
      case find (\<lambda>r. ms_ID r = i) (db_sessions db) of
        None \<Rightarrow> (Inl not_found, db)
      | Some r \<Rightarrow> (Inr (f r), db\<lparr>db_sessions := rows\<rparr>))"

definition repo_UpdateMeetingSessionStatus ::
    "store \<Rightarrow> MeetingSessionStatusUpdate \<Rightarrow> MeetingSession result \<times> store" where
  "repo_UpdateMeetingSessionStatus db u = update_by_id db (su_SessionID u) (apply_status_update u)"

definition apply_metadata_update ::
    "MeetingSessionMetadataUpdate \<Rightarrow> MeetingSession \<Rightarrow> MeetingSession" where
  "apply_metadata_update u r = r\<lparr>
     ms_Title := keep_or (mu_Title u) (ms_Title r),
     ms_TitleSource := keep_or (mu_TitleSource u) (ms_TitleSource r),
     ms_TitleUpdatedAt := (if mu_Title u = [] then ms_TitleUpdatedAt r else mu_UpdatedAt u),
     ms_UserProvidedTitle := keep_or (mu_UserProvidedTitle u) (ms_UserProvidedTitle r),
     ms_GraphTitle := keep_or (mu_GraphTitle u) (ms_GraphTitle r),
     ms_Provider := keep_or (mu_Provider u) (ms_Provider r),
     ms_ExternalMeetingID := keep_or (mu_ExternalMeetingID u) (ms_ExternalMeetingID r),
     ms_JoinMeetingID := keep_or (mu_JoinMeetingID u) (ms_JoinMeetingID r),
     ms_JoinWebURL := keep_or (mu_JoinWebURL u) (ms_JoinWebURL r),
     ms_CanonicalJoinWebURL := keep_or (mu_CanonicalJoinWebURL u) (ms_CanonicalJoinWebURL r),
     ms_ThreadID := keep_or (mu_ThreadID u) (ms_ThreadID r),
     ms_OrganizerID := keep_or (mu_OrganizerID u) (ms_OrganizerID r),
     ms_OrganizerName := keep_or (mu_OrganizerName u) (ms_OrganizerName r),
     ms_OrganizerEmail := keep_or (mu_OrganizerEmail u) (ms_OrganizerEmail r),
     ms_ScheduledStartAt := coalesce_time (mu_ScheduledStartAt u) (ms_ScheduledStartAt r),
     ms_ScheduledEndAt := coalesce_time (mu_ScheduledEndAt u) (ms_ScheduledEndAt r),
     ms_TitleResolutionErrorCode :=
       keep_or (mu_TitleResolutionErrorCode u) (ms_TitleResolutionErrorCode r),
     ms_TitleResolutionErrorMessage :=
       keep_or (mu_TitleResolutionErrorMessage u) (ms_TitleResolutionErrorMessage r),
     ms_TitleResolvedAt := coalesce_time (mu_TitleResolvedAt u) (ms_TitleResolvedAt r),
     ms_Purpose := keep_or (mu_Purpose u) (ms_Purpose r),
     ms_Context := keep_or (mu_Context u) (ms_Context r),
     ms_Agenda := keep_or (mu_Agenda u) (ms_Agenda r),
     ms_DecisionPoints := keep_or (mu_DecisionPoints u) (ms_DecisionPoints r),
     ms_Concerns := keep_or (mu_Concerns u) (ms_Concerns r),
     ms_ExpectedOutput := keep_or (mu_ExpectedOutput u) (ms_ExpectedOutput r),
     ms_CustomInstruction := keep_or (mu_CustomInstruction u) (ms_CustomInstruction r),
     ms_UpdatedAt := mu_UpdatedAt u\<rparr>"

definition repo_UpdateMeetingSessionMetadata ::
    "store \<Rightarrow> MeetingSessionMetadataUpdate \<Rightarrow> MeetingSession result \<times> store" where
  "repo_UpdateMeetingSessionMetadata db u = update_by_id db (mu_SessionID u) (apply_metadata_update u)"

definition stale_text :: gostring where
  "stale_text = ''session marked stale because no update was received before cutoff''"

definition is_stale_row :: "store \<Rightarrow> gotime \<Rightarrow> MeetingSession \<Rightarrow> bool" where
  "is_stale_row db staleBefore r \<longleftrightarrow>
     ms_Status r \<in> {Requested, PendingJoin, CommandSent, Joining, Joined, Active, Recording,
                    SpeechError, SpeechThrottled} \<and>
     db_before db (ms_UpdatedAt r) staleBefore"

definition mark_stale_row :: "gotime \<Rightarrow> MeetingSession \<Rightarrow> MeetingSession" where
  "mark_stale_row updatedAt r = r\<lparr>
     ms_Status := Stale,
     ms_EndedAt := (if ms_EndedAt r = 0 then updatedAt else ms_EndedAt r),
     ms_EndReason := (if ms_EndReason r = [] then stale_text else ms_EndReason r),
     ms_LastError := (if ms_LastError r = [] then stale_text else ms_LastError r),
     ms_UpdatedAt := updatedAt\<rparr>"

definition repo_MarkStaleMeetingSessions ::
    "store \<Rightarrow> gotime \<Rightarrow> gotime \<Rightarrow> MeetingSession list \<times> store" where
  "repo_MarkStaleMeetingSessions db staleBefore updatedAt =
     (map (mark_stale_row updatedAt) (filter (is_stale_row db staleBefore) (db_sessions db)),
      db\<lparr>db_sessions := update_where (is_stale_row db staleBefore) (mark_stale_row updatedAt)
           (db_sessions db)\<rparr>)"

text \<open>A heartbeat: the row is rewritten unless it is terminal; then it is only read.\<close>

definition repo_TouchMeetingSessionBotSeen ::
    "store \<Rightarrow> gostring \<Rightarrow> gotime \<Rightarrow> (MeetingSession \<times> bool) result \<times> store" where
  "repo_TouchMeetingSessionBotSeen db i seenAt =
     (let sel = (\<lambda>r. ms_ID r = i \<and> ms_Status r \<notin> {Ended, Failed, Stale});
          f = (\<lambda>r. r\<lparr>ms_LastBotStatusAt := seenAt, ms_UpdatedAt := seenAt\<rparr>) in
      case find sel (db_sessions db) of
        Some r \<Rightarrow> (Inr (f r, True), db\<lparr>db_sessions := update_where sel f (db_sessions db)\<rparr>)
      | None \<Rightarrow> (case repo_GetMeetingSession db i of
            Inl e \<Rightarrow> (Inl e, db)
          | Inr existing \<Rightarrow> (Inr (existing, False), db)))"

text \<open>One transaction: where no session row is deleted, the other deletes are rolled back.\<close>

definition repo_DeleteMeetingSession :: "store \<Rightarrow> gostring \<Rightarrow> unit result \<times> store" where
  "repo_DeleteMeetingSession db i =
     (let db' = db\<lparr>
          db_analyses := filter (\<lambda>(k, _). k \<noteq> i) (db_analyses db),
          db_overrides := filter (\<lambda>(k, _). k \<noteq> i) (db_overrides db),
          db_audits := filter (\<lambda>(k, _). k \<noteq> i) (db_audits db),
          db_segments := filter (\<lambda>s. ts_SessionID s \<noteq> i) (db_segments db),
          db_sessions := filter (\<lambda>r. ms_ID r \<noteq> i) (db_sessions db)\<rparr> in
      if length (db_sessions db') = length (db_sessions db) then (Inl not_found, db)
      else (Inr (), db'))"

section \<open>Frame and key facts\<close>

abbreviation lookup :: "store \<Rightarrow> gostring \<Rightarrow> MeetingSession option" where
  "lookup db i \<equiv> find (\<lambda>r. ms_ID r = i) (db_sessions db)"

definition unique_ids :: "store \<Rightarrow> bool" where
  "unique_ids db \<longleftrightarrow> distinct (map ms_ID (db_sessions db))"

named_theorems repo_defs \<open>the repository operations\<close>

declare repo_GetMeetingSession_def [repo_defs] repo_UpdateMeetingSessionStatus_def [repo_defs]
  repo_UpdateMeetingSessionMetadata_def [repo_defs] update_by_id_def [repo_defs]
  repo_MarkStaleMeetingSessions_def [repo_defs] repo_TouchMeetingSessionBotSeen_def [repo_defs]
  repo_DeleteMeetingSession_def [repo_defs] repo_CreateMeetingSession_def [repo_defs]

lemma apply_status_update_simps [simp]:
  "ms_ID (apply_status_update u r) = ms_ID r"
  "ms_Status (apply_status_update u r) = su_Status u"
  "ms_JoinURLHash (apply_status_update u r) = ms_JoinURLHash r"
  "ms_WorkspaceID (apply_status_update u r) = ms_WorkspaceID r"
  "ms_UpdatedAt (apply_status_update u r) = su_UpdatedAt u"
  by (simp_all add: apply_status_update_def)

lemma apply_metadata_update_simps [simp]:
  "ms_ID (apply_metadata_update u r) = ms_ID r"
  "ms_Status (apply_metadata_update u r) = ms_Status r"
  "ms_JoinURLHash (apply_metadata_update u r) = ms_JoinURLHash r"
  "ms_WorkspaceID (apply_metadata_update u r) = ms_WorkspaceID r"
  by (simp_all add: apply_metadata_update_def)

lemma mark_stale_row_simps [simp]:
  "ms_ID (mark_stale_row t r) = ms_ID r"
  "ms_Status (mark_stale_row t r) = Stale"
  "ms_UpdatedAt (mark_stale_row t r) = t"
  by (simp_all add: mark_stale_row_def)

lemma inserted_row_simps [simp]:
  "ms_ID (inserted_row s) = ms_ID s"
  "ms_Status (inserted_row s) = ms_Status s"
  "ms_JoinURLHash (inserted_row s) = ms_JoinURLHash s"
  "ms_WorkspaceID (inserted_row s) = ms_WorkspaceID s"
  by (simp_all add: inserted_row_def)

lemma is_stale_row_iff:
  "is_stale_row db c r \<longleftrightarrow>
     IsReusableMeetingSessionStatus (ms_Status r) \<and> db_before db (ms_UpdatedAt r) c"
  by (simp add: is_stale_row_def IsReusableMeetingSessionStatus_def
      ReusableMeetingSessionStatuses_def)

lemma lookup_update_where:
  assumes "\<And>r. p r \<Longrightarrow> ms_ID (f r) = ms_ID r"
  shows "lookup (db\<lparr>db_sessions := update_where p f (db_sessions db)\<rparr>) i =
    map_option (\<lambda>r. if p r then f r else r) (lookup db i)"
  using find_update_where_key [of p ms_ID f i "db_sessions db"] assms by simp

lemma lookup_ID: "lookup db i = Some r \<Longrightarrow> ms_ID r = i"
  by (auto dest: find_key_Some)

lemma lookup_update_by_id:
  assumes "\<And>r. ms_ID (f r) = ms_ID r"
  shows "lookup (snd (update_by_id db k f)) i =
    (if i = k then map_option f (lookup db i) else lookup db i)"
proof (cases "lookup db k")
  case None
  then show ?thesis by (auto simp: update_by_id_def Let_def)
next
  case (Some r)
  have "find (\<lambda>r. ms_ID r = i) (update_where (\<lambda>r. ms_ID r = k) f (db_sessions db)) =
      map_option (\<lambda>r. if ms_ID r = k then f r else r) (lookup db i)"
    using assms by (intro find_update_where_key) simp
  with Some show ?thesis
    by (cases "lookup db i") (auto simp: update_by_id_def Let_def dest: lookup_ID)
qed

lemma fst_update_by_id:
  "fst (update_by_id db k f) = (case lookup db k of None \<Rightarrow> Inl not_found | Some r \<Rightarrow> Inr (f r))"
  by (simp add: update_by_id_def Let_def split: option.split)

lemma update_by_id_frame [simp]:
  "db_segments (snd (update_by_id db k f)) = db_segments db"
  "db_analyses (snd (update_by_id db k f)) = db_analyses db"
  "db_overrides (snd (update_by_id db k f)) = db_overrides db"
  "db_before (snd (update_by_id db k f)) = db_before db"
  by (simp_all add: update_by_id_def Let_def split: option.split)

lemma map_ID_update_by_id:
  "(\<And>r. ms_ID (f r) = ms_ID r) \<Longrightarrow>
   map ms_ID (db_sessions (snd (update_by_id db k f))) = map ms_ID (db_sessions db)"
  by (simp add: update_by_id_def Let_def map_update_where split: option.split)

section \<open>The table of sessions as an interface\<close>

text \<open>
  What the service relies on when it updates a session row: the update returns the rewritten
  row, a later read returns that row, and no other row is touched.
\<close>

locale session_table =
  fixes get :: "'db \<Rightarrow> gostring \<Rightarrow> MeetingSession result"
    and upd :: "'db \<Rightarrow> 'u \<Rightarrow> MeetingSession result \<times> 'db"
    and key :: "'u \<Rightarrow> gostring"
    and app :: "'u \<Rightarrow> MeetingSession \<Rightarrow> MeetingSession"
  assumes upd_result:
      "fst (upd db u) = (case get db (key u) of Inl e \<Rightarrow> Inl e | Inr r \<Rightarrow> Inr (app u r))"
    and get_upd_same: "get (snd (upd db u)) (key u) = fst (upd db u)"
    and get_upd_other: "i \<noteq> key u \<Longrightarrow> get (snd (upd db u)) i = get db i"
begin

lemma run_frame:
  "i \<notin> key ` set us \<Longrightarrow> get (foldl (\<lambda>d u. snd (upd d u)) db us) i = get db i"
  by (induction us arbitrary: db) (simp_all add: get_upd_other)

text \<open>A session sees exactly its own updates, in order, whatever else is updated in between.\<close>

lemma run_get:
  "get (foldl (\<lambda>d u. snd (upd d u)) db us) i =
     (case get db i of Inl e \<Rightarrow> Inl e
      | Inr r \<Rightarrow> Inr (foldl (\<lambda>r u. app u r) r (filter (\<lambda>u. key u = i) us)))"
proof (induction us arbitrary: db)
  case Nil
  then show ?case by (simp split: sum.split)
next
  case (Cons u us)
  show ?case
  proof (cases "key u = i")
    case True
    then have "get (snd (upd db u)) i = (case get db i of Inl e \<Rightarrow> Inl e | Inr r \<Rightarrow> Inr (app u r))"
      using get_upd_same [of db u] upd_result [of db u] by simp
    with True Cons.IH [of "snd (upd db u)"] show ?thesis by (simp split: sum.split)
  next
    case False
    with Cons.IH [of "snd (upd db u)"] show ?thesis
      by (simp add: get_upd_other split: sum.split)
  qed
qed

end

lemma get_lookup:
  "repo_GetMeetingSession db i = (case lookup db i of None \<Rightarrow> Inl not_found | Some r \<Rightarrow> Inr r)"
  by (simp add: repo_GetMeetingSession_def)

interpretation status_table:
  session_table repo_GetMeetingSession repo_UpdateMeetingSessionStatus su_SessionID apply_status_update
  by unfold_locales
    (auto simp: repo_UpdateMeetingSessionStatus_def get_lookup fst_update_by_id lookup_update_by_id
      split: option.splits)

interpretation metadata_table:
  session_table repo_GetMeetingSession repo_UpdateMeetingSessionMetadata mu_SessionID apply_metadata_update
  by unfold_locales
    (auto simp: repo_UpdateMeetingSessionMetadata_def get_lookup fst_update_by_id lookup_update_by_id
      split: option.splits)

section \<open>Every operation keeps the primary key\<close>

lemma unique_ids_update_by_id:
  "(\<And>r. ms_ID (f r) = ms_ID r) \<Longrightarrow> unique_ids (snd (update_by_id db k f)) = unique_ids db"
  by (simp add: unique_ids_def map_ID_update_by_id)

lemma unique_ids_status [simp]:
  "unique_ids (snd (repo_UpdateMeetingSessionStatus db u)) = unique_ids db"
  by (simp add: repo_UpdateMeetingSessionStatus_def unique_ids_update_by_id)

lemma unique_ids_metadata [simp]:
  "unique_ids (snd (repo_UpdateMeetingSessionMetadata db u)) = unique_ids db"
  by (simp add: repo_UpdateMeetingSessionMetadata_def unique_ids_update_by_id)

lemma unique_ids_stale [simp]:
  "unique_ids (snd (repo_MarkStaleMeetingSessions db c t)) = unique_ids db"
  by (simp add: repo_MarkStaleMeetingSessions_def unique_ids_def map_update_where)

lemma unique_ids_touch [simp]:
  "unique_ids (snd (repo_TouchMeetingSessionBotSeen db i t)) = unique_ids db"
  by (simp add: repo_TouchMeetingSessionBotSeen_def unique_ids_def map_update_where Let_def
      split: option.split sum.split)

lemma unique_ids_delete: "unique_ids db \<Longrightarrow> unique_ids (snd (repo_DeleteMeetingSession db i))"
  by (auto simp: repo_DeleteMeetingSession_def unique_ids_def Let_def distinct_map inj_on_def)

lemma unique_ids_create: "unique_ids db \<Longrightarrow> unique_ids (snd (repo_CreateMeetingSession db s))"
  by (auto simp: repo_CreateMeetingSession_def unique_ids_def Let_def)

section \<open>Reuse\<close>

definition reusable_for :: "gostring \<Rightarrow> gostring \<Rightarrow> MeetingSession \<Rightarrow> bool" where
  "reusable_for workspaceID joinURLHash r \<longleftrightarrow>
     ms_JoinURLHash r = joinURLHash \<and> ms_WorkspaceID r = workspaceID \<and>
     IsReusableMeetingSessionStatus (ms_Status r)"

text \<open>At most one open session for a workspace and join URL.\<close>

definition single_reusable :: "store \<Rightarrow> bool" where
  "single_reusable db \<longleftrightarrow>
     (\<forall>ws h. length (filter (reusable_for ws h) (db_sessions db)) \<le> 1)"

lemma findReusable_cases:
  "(findReusable db ws h = Inl not_found \<and> filter (reusable_for ws h) (db_sessions db) = []) \<or>
   (\<exists>r. findReusable db ws h = Inr r \<and> r \<in> set (db_sessions db) \<and> reusable_for ws h r)"
proof -
  let ?rows = "filter (reusable_for ws h) (db_sessions db)"
  let ?sorted = "order_by (newer_first (db_before db)) ?rows"
  have eq: "findReusable db ws h = (case ?sorted of [] \<Rightarrow> Inl not_found | r # _ \<Rightarrow> Inr r)"
    by (simp add: findReusable_def reusable_for_def [abs_def])
  have "set ?sorted = set ?rows" by simp
  with eq show ?thesis
    by (cases ?sorted) (auto simp: filter_empty_conv)
qed

lemma is_not_found_not_found [simp]: "is_not_found not_found"
  by (simp add: not_found_def)

lemma create_or_reuse_cases:
  assumes "repo_CreateOrReuseMeetingSession db s = (r, db')"
  shows "(\<exists>x \<in> set (db_sessions db). r = Inr (x, False) \<and> db' = db \<and>
            reusable_for (ms_WorkspaceID s) (ms_JoinURLHash s) x) \<or>
         (r = Inl ErrDatabase \<and> db' = db) \<or>
         (r = Inr (inserted_row s, True) \<and> ms_ID s \<notin> ms_ID ` set (db_sessions db) \<and>
          filter (reusable_for (ms_WorkspaceID s) (ms_JoinURLHash s)) (db_sessions db) = [] \<and>
          db' = db\<lparr>db_sessions := db_sessions db @ [inserted_row s]\<rparr>)"
  using assms findReusable_cases [of db "ms_WorkspaceID s" "ms_JoinURLHash s"]
  by (auto simp: repo_CreateOrReuseMeetingSession_def repo_CreateMeetingSession_def Let_def
      split: if_splits)

end
