(* ===== verification/SessionService.thy ===== *)
theory SessionService
  imports SessionStore
begin

text \<open>
  \<open>MeetingSessionService\<close> of \<open>internal/application/meeting_session.go\<close>, method by method, as
  functions on an explicit world: the tables, the clock (each \<open>s.now()\<close> is one reading), the
  supply of random ids, the database faults (each repository call may fail before it has an
  effect), what was published, which bot commands were sent, which finalizations are in flight
  and which goroutines were started.  A goroutine is a value of \<open>task\<close> until a \<open>run_\<close> function
  executes its body.  Log output is not modelled.

  \<open>CreateMeetingSession\<close> is the composition of what happens before the join command is sent and
  what happens after the bot control API has answered: other requests can run in between.
\<close>

section \<open>Configuration and world\<close>

record BotJoinCommand =
  bj_SessionID :: gostring
  bj_JoinURL :: gostring
  bj_CanonicalJoinWebURL :: gostring
  bj_JoinMeetingID :: gostring
  bj_CandidateUserIDs :: "gostring list"
  bj_CandidateUserPrincipalNames :: "gostring list"
  bj_CreatedByMicrosoftUserID :: gostring
  bj_CreatedByEmail :: gostring

record BotEndCommand =
  be_SessionID :: gostring
  be_BotCallID :: gostring
  be_Reason :: gostring

text \<open>An error of the commander: one that \<open>errors.Is\<close> not-configured, or one with its text.\<close>

datatype botError = BotNotConfigured | BotError gostring

record commander =
  cmd_join :: "nat \<Rightarrow> BotJoinCommand \<Rightarrow> botError option"
  cmd_end :: "nat \<Rightarrow> BotEndCommand \<Rightarrow> botError option"

record config =
  sv_lib :: golib
  sv_commander :: "commander option"
  sv_publisher :: bool
  sv_endedObserver :: bool
  sv_preparingObserver :: bool

datatype task =
    FinalizeTask MeetingSession MeetingSessionStatusUpdateInput
  | FallbackTask gostring gostring

record world =
  w_db :: store
  w_clock :: "nat \<Rightarrow> gotime"
  w_ticks :: nat
  w_ids :: "nat \<Rightarrow> gostring"
  w_nextid :: nat
  w_faults :: "nat \<Rightarrow> bool"
  w_calls :: nat
  w_published :: "MeetingSession list"
  w_prepared :: "MeetingSession list"
  w_joins :: "BotJoinCommand list"
  w_ends :: "BotEndCommand list"
  w_inflight :: "gostring list"
  w_tasks :: "task list"

definition now_utc :: "world \<Rightarrow> gotime \<times> world" where
  "now_utc w = (w_clock w (w_ticks w), w\<lparr>w_ticks := Suc (w_ticks w)\<rparr>)"

definition new_session_id :: "world \<Rightarrow> gostring \<times> world" where
  "new_session_id w = (''session_'' @ w_ids w (w_nextid w), w\<lparr>w_nextid := Suc (w_nextid w)\<rparr>)"

definition repo_call :: "(store \<Rightarrow> 'a result \<times> store) \<Rightarrow> world \<Rightarrow> 'a result \<times> world" where
  "repo_call f w =
     (let w1 = w\<lparr>w_calls := Suc (w_calls w)\<rparr> in
      if w_faults w (w_calls w) then (Inl ErrDatabase, w1)
      else (case f (w_db w1) of (r, db) \<Rightarrow> (r, w1\<lparr>w_db := db\<rparr>)))"

definition repo_read :: "(store \<Rightarrow> 'a result) \<Rightarrow> world \<Rightarrow> 'a result \<times> world" where
  "repo_read f = repo_call (\<lambda>db. (f db, db))"

definition publishStatusChanged :: "config \<Rightarrow> MeetingSession \<Rightarrow> world \<Rightarrow> world" where
  "publishStatusChanged cfg s w =
     (if sv_publisher cfg then w\<lparr>w_published := w_published w @ [s]\<rparr> else w)"

section \<open>Stale sessions, reading\<close>

definition DefaultMeetingSessionStaleAfter :: duration where
  "DefaultMeetingSessionStaleAfter = 2 * hour"

definition CleanupStaleMeetingSessions ::
    "config \<Rightarrow> world \<Rightarrow> MeetingSession list result \<times> world" where
  "CleanupStaleMeetingSessions cfg w0 =
     (let (now, w1) = now_utc w0;
          staleBefore = now - DefaultMeetingSessionStaleAfter;
          (r, w2) = repo_call (\<lambda>db. case repo_MarkStaleMeetingSessions db staleBefore now of
                      (rows, db') \<Rightarrow> (Inr rows, db')) w1 in
      case r of
        Inl e \<Rightarrow> (Inl e, w2)
      | Inr stale \<Rightarrow> (Inr stale, foldl (\<lambda>w s. publishStatusChanged cfg s w) w2 stale))"

definition GetMeetingSession :: "config \<Rightarrow> gostring \<Rightarrow> world \<Rightarrow> MeetingSession result \<times> world" where
  "GetMeetingSession cfg sessionID0 w0 =
     (let sessionID = trim_space sessionID0 in
      if sessionID = [] then (Inl (ErrInvalidArgument ''sessionId is required''), w0)
      else (let (_, w1) = CleanupStaleMeetingSessions cfg w0 in
            repo_read (\<lambda>db. repo_GetMeetingSession db sessionID) w1))"

definition clamp_limit :: "int \<Rightarrow> int" where
  "clamp_limit limit0 =
     (let l1 = (if limit0 \<le> 0 then 100 else limit0) in if 500 < l1 then 500 else l1)"

definition ListMeetingSessions ::
    "config \<Rightarrow> gostring \<Rightarrow> int \<Rightarrow> world \<Rightarrow> MeetingSession list result \<times> world" where
  "ListMeetingSessions cfg workspaceID0 limit w0 =
     (let workspaceID = trim_space workspaceID0 in
      if workspaceID = [] then (Inl (ErrInvalidArgument ''workspaceId is required''), w0)
      else (let (_, w1) = CleanupStaleMeetingSessions cfg w0 in
            repo_read (\<lambda>db. Inr (repo_ListMeetingSessions db workspaceID (clamp_limit limit))) w1))"

definition ListMeetingSessionDebug ::
    "int \<Rightarrow> world \<Rightarrow> (MeetingSession \<times> gotime) list result \<times> world" where
  "ListMeetingSessionDebug limit w =
     repo_read (\<lambda>db. Inr (repo_ListMeetingSessionDebug db (clamp_limit limit))) w"

definition RecordMeetingSessionHeartbeat ::
    "gostring \<Rightarrow> world \<Rightarrow> MeetingSession result \<times> world" where
  "RecordMeetingSessionHeartbeat sessionID0 w0 =
     (let sessionID = trim_space sessionID0 in
      if sessionID = [] then (Inl (ErrInvalidArgument ''sessionId is required''), w0)
      else (let (now, w1) = now_utc w0;
                (r, w2) = repo_call (\<lambda>db. repo_TouchMeetingSessionBotSeen db sessionID now) w1 in
            (case r of Inl e \<Rightarrow> Inl e | Inr (s, _) \<Rightarrow> Inr s, w2)))"

definition DeleteMeetingSession :: "gostring \<Rightarrow> world \<Rightarrow> unit result \<times> world" where
  "DeleteMeetingSession sessionID0 w0 =
     (let sessionID = trim_space sessionID0 in
      if sessionID = [] then (Inl (ErrInvalidArgument ''sessionId is required''), w0)
      else (let (r, w1) = repo_read (\<lambda>db. repo_GetMeetingSession db sessionID) w0 in
        case r of
          Inl e \<Rightarrow> (Inl e, w1)
        | Inr s \<Rightarrow>
            if \<not> isTerminalMeetingSessionStatus (ms_Status s)
            then (Inl (ErrInvalidArgument ''meeting session is not finished yet''), w1)
            else repo_call (\<lambda>db. repo_DeleteMeetingSession db sessionID) w1))"

section \<open>Finalization\<close>

definition is_continuation :: "char \<Rightarrow> bool" where
  "is_continuation c \<longleftrightarrow> (let n = (of_char c :: nat) in 128 \<le> n \<and> n < 192)"

text \<open>The first \<open>n\<close> runes of a well-formed UTF-8 text.\<close>

fun take_runes :: "nat \<Rightarrow> gostring \<Rightarrow> gostring" where
  "take_runes n [] = []"
| "take_runes n (c # cs) =
     (if is_continuation c then c # take_runes n cs
      else (case n of 0 \<Rightarrow> [] | Suc m \<Rightarrow> c # take_runes m cs))"

definition truncateErrorMessage :: "gostring \<Rightarrow> nat \<Rightarrow> gostring" where
  "truncateErrorMessage message limit = take_runes limit (trim_space message)"

definition startMeetingSessionFinalization ::
    "MeetingSession \<Rightarrow> MeetingSessionStatusUpdateInput \<Rightarrow> world \<Rightarrow> world" where
  "startMeetingSessionFinalization s i w =
     (if ms_ID s \<in> set (w_inflight w) then w
      else w\<lparr>w_inflight := ms_ID s # w_inflight w, w_tasks := w_tasks w @ [FinalizeTask s i]\<rparr>)"

text \<open>
  The goroutine of a finalization: \<open>outcome\<close> is what \<open>FinalizeMeetingSession\<close> returned, the text
  of its error or nothing.  The in-flight mark is dropped on every path.
\<close>

definition run_finalization ::
    "config \<Rightarrow> MeetingSession \<Rightarrow> MeetingSessionStatusUpdateInput \<Rightarrow> gostring option \<Rightarrow> world \<Rightarrow> world" where
  "run_finalization cfg s i outcome w0 =
     (let (now, w1) = now_utc w0;
          lastError = (case outcome of None \<Rightarrow> []
            | Some msg \<Rightarrow> ''meeting finalization incomplete: '' @ truncateErrorMessage msg 240);
          upd = \<lparr>su_SessionID = ms_ID s, su_Status = Ended, su_BotCallID = ms_BotCallID s,
                 su_Title = [], su_TitleSource = [], su_CommandSentAt = None, su_JoinedAt = None,
                 su_EndedAt = Some now, su_EndReason = summarizeMeetingSessionEndReason i,
                 su_LastBotStatusAt = None, su_LastError = lastError, su_UpdatedAt = now\<rparr>;
          (r, w2) = repo_call (\<lambda>db. repo_UpdateMeetingSessionStatus db upd) w1;
          w3 = (case r of Inl _ \<Rightarrow> w2 | Inr ended \<Rightarrow> publishStatusChanged cfg ended w2)
      in w3\<lparr>w_inflight := removeAll (ms_ID s) (w_inflight w3)\<rparr>)"

section \<open>Status updates\<close>

text \<open>The update command for a status report that is neither suppressed nor a finalization.\<close>

definition status_update_for ::
    "MeetingSessionStatusUpdateInput \<Rightarrow> gostring \<Rightarrow> MeetingSessionStatus \<Rightarrow>
     MeetingSession option \<Rightarrow> gotime \<Rightarrow> MeetingSessionStatusUpdate" where
  "status_update_for i sessionID status previous now =
     (let incomingTitle = trim_space (si_Title i);
          incomingTitleSource = normalizeMeetingSessionTitleSource (si_TitleSource i) (si_Title i);
          decision = decideMeetingSessionTitleUpdate previous incomingTitle incomingTitleSource;
          base = \<lparr>su_SessionID = sessionID, su_Status = status,
                  su_BotCallID = trim_space (si_BotCallID i),
                  su_Title = (if ApplyTitle decision then incomingTitle else []),
                  su_TitleSource = (if ApplyTitle decision then incomingTitleSource else []),
                  su_CommandSentAt = None, su_JoinedAt = None, su_EndedAt = None,
                  su_EndReason = [], su_LastBotStatusAt = Some now, su_LastError = [],
                  su_UpdatedAt = now\<rparr> in
      if status \<in> {CommandSent, Joining} then base\<lparr>su_CommandSentAt := Some now\<rparr>
      else if status \<in> {Joined, Active, Recording} then base\<lparr>su_JoinedAt := Some now\<rparr>
      else if status \<in> {SpeechError, SpeechThrottled}
        then base\<lparr>su_JoinedAt := Some now, su_LastError := summarizeMeetingSessionFailure i\<rparr>
      else if status \<in> {Ended, Stale}
        then base\<lparr>su_EndedAt := Some now, su_EndReason := summarizeMeetingSessionEndReason i\<rparr>
      else if status = Failed then base\<lparr>su_LastError := summarizeMeetingSessionFailure i\<rparr>
      else base)"

definition write_status ::
    "config \<Rightarrow> MeetingSessionStatusUpdateInput \<Rightarrow> gostring \<Rightarrow> MeetingSessionStatus \<Rightarrow>
     MeetingSession option \<Rightarrow> world \<Rightarrow> MeetingSession result \<times> world" where
  "write_status cfg i sessionID status previous w0 =
     (let (now, w1) = now_utc w0;
          (r, w2) = repo_call (\<lambda>db. repo_UpdateMeetingSessionStatus db
                      (status_update_for i sessionID status previous now)) w1 in
      case r of
        Inl e \<Rightarrow> (Inl e, w2)
      | Inr updated \<Rightarrow> (Inr updated, publishStatusChanged cfg updated w2))"

definition ending_update ::
    "MeetingSessionStatusUpdateInput \<Rightarrow> MeetingSession \<Rightarrow> gotime \<Rightarrow> MeetingSessionStatusUpdate" where
  "ending_update i previous now =
     \<lparr>su_SessionID = ms_ID previous, su_Status = Ending,
      su_BotCallID = trim_space (si_BotCallID i), su_Title = [], su_TitleSource = [],
      su_CommandSentAt = None, su_JoinedAt = None, su_EndedAt = None, su_EndReason = [],
      su_LastBotStatusAt = Some now, su_LastError = [], su_UpdatedAt = now\<rparr>"

text \<open>\<open>ended\<close> for a session that still runs: mark it \<open>ending\<close>, let the finalizer end it.\<close>

definition begin_ending ::
    "config \<Rightarrow> MeetingSessionStatusUpdateInput \<Rightarrow> MeetingSession \<Rightarrow> world \<Rightarrow>
     MeetingSession result \<times> world" where
  "begin_ending cfg i previous w0 =
     (if ms_Status previous = Ending
      then (Inr previous, startMeetingSessionFinalization previous i w0)
      else
        (let (now, w1) = now_utc w0;
             (r, w2) = repo_call (\<lambda>db. repo_UpdateMeetingSessionStatus db
                         (ending_update i previous now)) w1 in
         case r of
           Inl e \<Rightarrow> (Inl e, w2)
         | Inr ending \<Rightarrow>
             (Inr ending, startMeetingSessionFinalization ending i
                            (publishStatusChanged cfg ending w2))))"

definition UpdateMeetingSessionStatus ::
    "config \<Rightarrow> MeetingSessionStatusUpdateInput \<Rightarrow> world \<Rightarrow> MeetingSession result \<times> world" where
  "UpdateMeetingSessionStatus cfg i w0 =
     (let sessionID = trim_space (si_SessionID i) in
      if sessionID = [] then (Inl (ErrInvalidArgument ''sessionId is required''), w0)
      else (case parse_status (trim_space (si_Status i)) of
        None \<Rightarrow> (Inl (ErrInvalidArgument ''status is invalid''), w0)
      | Some status \<Rightarrow>
          (let (r, w1) = repo_read (\<lambda>db. repo_GetMeetingSession db sessionID) w0 in
           case r of
             Inl _ \<Rightarrow> write_status cfg i sessionID status None w1
           | Inr previous \<Rightarrow>
               if shouldSuppressMeetingSessionFailure previous i then (Inr previous, w1)
               else if shouldSuppressMeetingSessionTerminalRevival previous status
                 then (Inr previous, w1)
               else if status = Ended \<and> ms_Status previous = Ended \<and> sv_endedObserver cfg
                 then (Inr previous, startMeetingSessionFinalization previous i w1)
               else if status = Ended \<and> \<not> isTerminalMeetingSessionStatus (ms_Status previous) \<and>
                       sv_endedObserver cfg
                 then begin_ending cfg i previous w1
               else write_status cfg i sessionID status (Some previous) w1)))"

definition finalizeAfterFallback :: "config \<Rightarrow> gostring \<Rightarrow> gostring \<Rightarrow> world \<Rightarrow> world" where
  "finalizeAfterFallback cfg sessionID reason w0 =
     (let (r, w1) = repo_read (\<lambda>db. repo_GetMeetingSession db sessionID) w0 in
      case r of
        Inl _ \<Rightarrow> w1
      | Inr s \<Rightarrow>
          if ms_Status s \<noteq> Ending then w1
          else snd (UpdateMeetingSessionStatus cfg
            \<lparr>si_SessionID = sessionID, si_Status = status_text Ended, si_BotCallID = ms_BotCallID s,
             si_Message = ''bot drain acknowledgement timeout'', si_Reason = reason,
             si_ErrorCode = [], si_Source = ''finalization_fallback'', si_Title = [],
             si_TitleSource = [], si_BotLastForwardedFinalSequence = 0,
             si_TranscriptQueueDrained = False\<rparr> w1))"

definition run_task :: "config \<Rightarrow> gostring option \<Rightarrow> task \<Rightarrow> world \<Rightarrow> world" where
  "run_task cfg outcome t w =
     (case t of FinalizeTask s i \<Rightarrow> run_finalization cfg s i outcome w
      | FallbackTask sessionID reason \<Rightarrow> finalizeAfterFallback cfg sessionID reason w)"

section \<open>Ending a session from the frontend\<close>

definition end_update ::
    "MeetingSession \<Rightarrow> MeetingSessionStatus \<Rightarrow> gostring \<Rightarrow> gostring \<Rightarrow> gostring \<Rightarrow>
     MeetingSessionStatusUpdateInput" where
  "end_update previous status message reason source =
     \<lparr>si_SessionID = ms_ID previous, si_Status = status_text status,
      si_BotCallID = ms_BotCallID previous, si_Message = message, si_Reason = reason,
      si_ErrorCode = [], si_Source = source, si_Title = [], si_TitleSource = [],
      si_BotLastForwardedFinalSequence = 0, si_TranscriptQueueDrained = False\<rparr>"

definition EndMeetingSession ::
    "config \<Rightarrow> MeetingSessionEndInput \<Rightarrow> world \<Rightarrow> MeetingSession result \<times> world" where
  "EndMeetingSession cfg i w0 =
     (let sessionID = trim_space (ei_SessionID i) in
      if sessionID = [] then (Inl (ErrInvalidArgument ''sessionId is required''), w0)
      else
        (let reason0 = trim_space (ei_Reason i);
             reason = (if reason0 = [] then ''manual_end_requested'' else reason0);
             (r, w1) = repo_read (\<lambda>db. repo_GetMeetingSession db sessionID) w0 in
         case r of
           Inl e \<Rightarrow> (Inl e, w1)
         | Inr previous \<Rightarrow>
             if isTerminalMeetingSessionStatus (ms_Status previous)
             then (Inr previous,
                   (if ms_Status previous = Ended \<and> sv_endedObserver cfg
                    then startMeetingSessionFinalization previous
                           (end_update previous Ended [] reason ''duplicate_end_retry'') w1
                    else w1))
             else (case sv_commander cfg of
               None \<Rightarrow> (Inl ErrBotControlNotConfigured, w1)
             | Some c \<Rightarrow>
                 (let (re, w2) = UpdateMeetingSessionStatus cfg
                        (end_update previous Ending reason reason ''frontend_manual_end'') w1 in
                  case re of
                    Inl e \<Rightarrow> (Inl e, w2)
                  | Inr ending \<Rightarrow>
                      (let cmd = \<lparr>be_SessionID = ms_ID previous, be_BotCallID = ms_BotCallID previous,
                                  be_Reason = reason\<rparr>;
                           reply = cmd_end c (length (w_ends w2)) cmd;
                           w3 = w2\<lparr>w_ends := w_ends w2 @ [cmd]\<rparr> in
                       case reply of
                         Some BotNotConfigured \<Rightarrow> (Inl ErrBotControlNotConfigured, w3)
                       | Some (BotError msg) \<Rightarrow>
                           UpdateMeetingSessionStatus cfg
                             (end_update previous Ended
                               (reason @ '' (bot end command failed: '' @ msg @ '')'')
                               reason ''frontend_manual_end_bot_unreachable'') w3
                       | None \<Rightarrow>
                           if \<not> sv_endedObserver cfg
                           then UpdateMeetingSessionStatus cfg
                                  (end_update previous Ended reason reason
                                    ''frontend_manual_end_without_finalizer'') w3
                           else (Inr ending,
                                 w3\<lparr>w_tasks := w_tasks w3 @ [FallbackTask (ms_ID previous) reason]\<rparr>))))))"

end
