(* ===== verification/SessionCreate.thy ===== *)
theory SessionCreate
  imports SessionService
begin

text \<open>
  Creation of a meeting session and its metadata updates
  (\<open>internal/application/meeting_session.go\<close>: \<open>CreateMeetingSession\<close>, \<open>applyCreateMetadata\<close>,
  \<open>markCommandFailed\<close>, \<open>UpdateMeetingSessionMetadata\<close>), over the world of \<open>SessionService\<close>.
  The Go methods return a result and an error together; so do the functions here.
\<close>

section \<open>Creation\<close>

record MeetingSessionCreateResult =
  cr_Session :: MeetingSession
  cr_Reused :: bool

type_synonym createOutcome = "MeetingSessionCreateResult option \<times> goerror option"

definition empty_metadata_update :: MeetingSessionMetadataUpdate where
  "empty_metadata_update =
     \<lparr>mu_SessionID = [], mu_Title = [], mu_TitleSource = [], mu_UserProvidedTitle = [],
      mu_GraphTitle = [], mu_Provider = [], mu_ExternalMeetingID = [], mu_JoinMeetingID = [],
      mu_JoinWebURL = [], mu_CanonicalJoinWebURL = [], mu_ThreadID = [], mu_OrganizerID = [],
      mu_OrganizerName = [], mu_OrganizerEmail = [], mu_ScheduledStartAt = None,
      mu_ScheduledEndAt = None, mu_TitleResolutionErrorCode = [],
      mu_TitleResolutionErrorMessage = [], mu_TitleResolvedAt = None, mu_Purpose = [],
      mu_Context = [], mu_Agenda = [], mu_DecisionPoints = [], mu_Concerns = [],
      mu_ExpectedOutput = [], mu_CustomInstruction = [], mu_UpdatedAt = 0\<rparr>"

definition create_metadata_update ::
    "MeetingSession \<Rightarrow> MeetingSessionCreateInput \<Rightarrow> gostring \<Rightarrow> gostring \<Rightarrow> gotime \<Rightarrow> bool \<Rightarrow>
     MeetingSessionMetadataUpdate" where
  "create_metadata_update s i userProvidedTitle normalizedJoinURL updatedAt reused =
     (let u = empty_metadata_update\<lparr>
            mu_SessionID := ms_ID s,
            mu_Purpose := trim_space (ci_Purpose i),
            mu_Context := trim_space (ci_Context i),
            mu_Agenda := trim_space (ci_Agenda i),
            mu_DecisionPoints := trim_space (ci_DecisionPoints i),
            mu_Concerns := trim_space (ci_Concerns i),
            mu_ExpectedOutput := trim_space (ci_ExpectedOutput i),
            mu_CustomInstruction := trim_space (ci_CustomInstruction i),
            mu_UpdatedAt := updatedAt\<rparr> in
      if reused \<and> shouldApplyCreateTitleToReusedSession s userProvidedTitle
      then u\<lparr>mu_Title := userProvidedTitle, mu_TitleSource := ''user_input'',
             mu_UserProvidedTitle := userProvidedTitle, mu_JoinWebURL := normalizedJoinURL,
             mu_CanonicalJoinWebURL := normalizedJoinURL\<rparr>
      else u)"

text \<open>\<open>Inr None\<close> is the Go result \<open>nil, nil\<close>: there was nothing to write.\<close>

definition applyCreateMetadata ::
    "MeetingSession \<Rightarrow> MeetingSessionCreateInput \<Rightarrow> gostring \<Rightarrow> gostring \<Rightarrow> gotime \<Rightarrow> bool \<Rightarrow>
     world \<Rightarrow> MeetingSession option result \<times> world" where
  "applyCreateMetadata s i userProvidedTitle normalizedJoinURL updatedAt reused w =
     (let u = create_metadata_update s i userProvidedTitle normalizedJoinURL updatedAt reused in
      if \<not> hasMeetingSessionMetadataUpdate u then (Inr None, w)
      else (case repo_call (\<lambda>db. repo_UpdateMeetingSessionMetadata db u) w of
          (Inl e, w') \<Rightarrow> (Inl e, w')
        | (Inr r, w') \<Rightarrow> (Inr (Some r), w')))"

definition summarizeBotControlError :: "botError \<Rightarrow> gostring" where
  "summarizeBotControlError e =
     (case e of
        BotNotConfigured \<Rightarrow> ''bot control is not configured''
      | BotError text \<Rightarrow>
          (let message = trim_space text in
           if message = [] then ''bot control command failed'' else cap_len 300 message))"

definition markCommandFailed ::
    "config \<Rightarrow> gostring \<Rightarrow> botError \<Rightarrow> world \<Rightarrow> MeetingSession result \<times> world" where
  "markCommandFailed cfg sessionID cause w0 =
     (let (now, w1) = now_utc w0;
          upd = \<lparr>su_SessionID = sessionID, su_Status = Failed, su_BotCallID = [], su_Title = [],
                 su_TitleSource = [], su_CommandSentAt = None, su_JoinedAt = None,
                 su_EndedAt = None, su_EndReason = [], su_LastBotStatusAt = None,
                 su_LastError = summarizeBotControlError cause, su_UpdatedAt = now\<rparr>;
          (r, w2) = repo_call (\<lambda>db. repo_UpdateMeetingSessionStatus db upd) w1 in
      case r of
        Inl e \<Rightarrow> (Inl e, w2)
      | Inr failed \<Rightarrow> (Inr failed, publishStatusChanged cfg failed w2))"

definition new_session ::
    "config \<Rightarrow> MeetingSessionCreateInput \<Rightarrow> gostring \<Rightarrow> gostring \<Rightarrow> gotime \<Rightarrow> MeetingSession" where
  "new_session cfg i sessionID url now =
     (let title = meetingSessionUserProvidedTitle i in
      \<lparr>ms_ID = sessionID, ms_WorkspaceID = trim_space (ci_WorkspaceID i),
       ms_CreatedByUserID = trim_space (ci_CreatedByUserID i),
       ms_MeetingID = trim_space (ci_MeetingID i), ms_JoinURL = url,
       ms_JoinURLHash = JoinURLHash (sv_lib cfg) url,
       ms_Title = meetingSessionCreateTitle title,
       ms_TitleSource = meetingSessionCreateTitleSource title, ms_TitleUpdatedAt = now,
       ms_UserProvidedTitle = title, ms_GraphTitle = [], ms_Provider = ''teams'',
       ms_ExternalMeetingID = [], ms_JoinMeetingID = [], ms_JoinWebURL = url,
       ms_CanonicalJoinWebURL = url, ms_ThreadID = [], ms_OrganizerID = [],
       ms_OrganizerName = [], ms_OrganizerEmail = [], ms_ScheduledStartAt = 0,
       ms_ScheduledEndAt = 0, ms_TitleResolutionErrorCode = [],
       ms_TitleResolutionErrorMessage = [], ms_TitleResolvedAt = 0,
       ms_Purpose = trim_space (ci_Purpose i), ms_Context = trim_space (ci_Context i),
       ms_Agenda = trim_space (ci_Agenda i), ms_DecisionPoints = trim_space (ci_DecisionPoints i),
       ms_Concerns = trim_space (ci_Concerns i),
       ms_ExpectedOutput = trim_space (ci_ExpectedOutput i),
       ms_CustomInstruction = trim_space (ci_CustomInstruction i),
       ms_Status = Requested, ms_BotCallID = [], ms_RequestedAt = now, ms_CommandSentAt = 0,
       ms_JoinedAt = 0, ms_EndedAt = 0, ms_EndReason = [], ms_LastBotStatusAt = 0,
       ms_LastError = [], ms_CreatedAt = now, ms_UpdatedAt = now\<rparr>)"

definition join_command ::
    "config \<Rightarrow> MeetingSessionCreateInput \<Rightarrow> MeetingSession \<Rightarrow> gostring \<Rightarrow> BotJoinCommand" where
  "join_command cfg i created url =
     \<lparr>bj_SessionID = ms_ID created, bj_JoinURL = url, bj_CanonicalJoinWebURL = url,
      bj_JoinMeetingID = extractTeamsJoinMeetingID (sv_lib cfg) url,
      bj_CandidateUserIDs = meetingTitleLookupCandidateUserIDs i,
      bj_CandidateUserPrincipalNames = meetingTitleLookupCandidateUserPrincipalNames i,
      bj_CreatedByMicrosoftUserID = trim_space (ci_CreatedByMicrosoftUserID i),
      bj_CreatedByEmail = trim_space (ci_CreatedByEmail i)\<rparr>"

text \<open>Where the method stands before the join command: finished, or about to send it.\<close>

datatype createStage = CreateDone createOutcome | CreateSend MeetingSession BotJoinCommand

definition create_send_stage ::
    "config \<Rightarrow> MeetingSessionCreateInput \<Rightarrow> gostring \<Rightarrow> MeetingSession \<Rightarrow> bool \<Rightarrow> world \<Rightarrow>
     createStage \<times> world" where
  "create_send_stage cfg i url created isNew w0 =
     (let w1 = (if sv_preparingObserver cfg then w0\<lparr>w_prepared := w_prepared w0 @ [created]\<rparr> else w0) in
      if \<not> isNew then (CreateDone (Some \<lparr>cr_Session = created, cr_Reused = True\<rparr>, None), w1)
      else if sv_commander cfg = None then
        (case markCommandFailed cfg (ms_ID created) BotNotConfigured w1 of
           (Inl e, w2) \<Rightarrow> (CreateDone (Some \<lparr>cr_Session = created, cr_Reused = False\<rparr>, Some e), w2)
         | (Inr failed, w2) \<Rightarrow>
             (CreateDone (Some \<lparr>cr_Session = failed, cr_Reused = False\<rparr>,
                          Some ErrBotControlNotConfigured), w2))
      else (CreateSend created (join_command cfg i created url), w1))"

definition create_begin ::
    "config \<Rightarrow> MeetingSessionCreateInput \<Rightarrow> world \<Rightarrow> createStage \<times> world" where
  "create_begin cfg i w0 =
     (case NormalizeTeamsJoinURL (sv_lib cfg) (ci_JoinURL i) of
        Inl e \<Rightarrow> (CreateDone (None, Some e), w0)
      | Inr url \<Rightarrow>
          (let (now, w1) = now_utc w0;
               (_, w2) = CleanupStaleMeetingSessions cfg w1;
               (sessionID, w3) = new_session_id w2;
               (r, w4) = repo_call (\<lambda>db. repo_CreateOrReuseMeetingSession db
                           (new_session cfg i sessionID url now)) w3 in
           case r of
             Inl e \<Rightarrow> (CreateDone (None, Some e), w4)
           | Inr (created, isNew) \<Rightarrow>
               (case applyCreateMetadata created i (meetingSessionUserProvidedTitle i) url now
                       (\<not> isNew) w4 of
                  (Inl e, w5) \<Rightarrow>
                    if hasMeetingSessionCreateContext i
                    then (CreateDone (Some \<lparr>cr_Session = created, cr_Reused = \<not> isNew\<rparr>, Some e), w5)
                    else create_send_stage cfg i url created isNew w5
                | (Inr None, w5) \<Rightarrow> create_send_stage cfg i url created isNew w5
                | (Inr (Some updated), w5) \<Rightarrow>
                    create_send_stage cfg i url updated isNew
                      (if isNew then w5 else publishStatusChanged cfg updated w5))))"

definition create_finish ::
    "config \<Rightarrow> MeetingSession \<Rightarrow> botError option \<Rightarrow> world \<Rightarrow> createOutcome \<times> world" where
  "create_finish cfg created reply w0 =
     (case reply of
        Some cause \<Rightarrow>
          (case markCommandFailed cfg (ms_ID created) cause w0 of
             (Inl e, w1) \<Rightarrow> ((Some \<lparr>cr_Session = created, cr_Reused = False\<rparr>, Some e), w1)
           | (Inr failed, w1) \<Rightarrow>
               ((Some \<lparr>cr_Session = failed, cr_Reused = False\<rparr>,
                 Some (case cause of BotNotConfigured \<Rightarrow> ErrBotControlNotConfigured
                       | BotError text \<Rightarrow> ErrBotControlCommandFailed text)), w1))
      | None \<Rightarrow>
          (let (commandSentAt, w1) = now_utc w0;
               upd = \<lparr>su_SessionID = ms_ID created, su_Status = Joining, su_BotCallID = [],
                      su_Title = [], su_TitleSource = [], su_CommandSentAt = Some commandSentAt,
                      su_JoinedAt = None, su_EndedAt = None, su_EndReason = [],
                      su_LastBotStatusAt = None, su_LastError = [], su_UpdatedAt = commandSentAt\<rparr>;
               (r, w2) = repo_call (\<lambda>db. repo_UpdateMeetingSessionStatus db upd) w1 in
           case r of
             Inl e \<Rightarrow> ((Some \<lparr>cr_Session = created, cr_Reused = False\<rparr>, Some e), w2)
           | Inr updated \<Rightarrow>
               ((Some \<lparr>cr_Session = updated, cr_Reused = False\<rparr>, None),
                publishStatusChanged cfg updated w2)))"

definition CreateMeetingSession ::
    "config \<Rightarrow> MeetingSessionCreateInput \<Rightarrow> world \<Rightarrow> createOutcome \<times> world" where
  "CreateMeetingSession cfg i w0 =
     (case create_begin cfg i w0 of
        (CreateDone out, w1) \<Rightarrow> (out, w1)
      | (CreateSend created cmd, w1) \<Rightarrow>
          (case sv_commander cfg of
             None \<Rightarrow> ((None, None), w1)
           | Some c \<Rightarrow>
               create_finish cfg created (cmd_join c (length (w_joins w1)) cmd)
                 (w1\<lparr>w_joins := w_joins w1 @ [cmd]\<rparr>)))"

section \<open>Metadata updates\<close>

definition has_metadata :: "MeetingSessionMetadataUpdateInput \<Rightarrow> bool" where
  "has_metadata i \<longleftrightarrow>
     (\<exists>v \<in> {mi_Title i, mi_UserProvidedTitle i, mi_GraphTitle i, mi_Provider i,
       mi_ExternalMeetingID i, mi_JoinMeetingID i, mi_JoinWebURL i, mi_CanonicalJoinWebURL i,
       mi_ThreadID i, mi_OrganizerID i, mi_OrganizerName i, mi_OrganizerEmail i,
       mi_ScheduledStartAt i, mi_ScheduledEndAt i, mi_TitleResolutionErrorCode i,
       mi_TitleResolutionErrorMessage i, mi_TitleResolvedAt i, mi_Purpose i, mi_Context i,
       mi_Agenda i, mi_DecisionPoints i, mi_Concerns i, mi_ExpectedOutput i,
       mi_CustomInstruction i}. trim_space v \<noteq> [])"

text \<open>\<open>nil\<close> for a field that was not given, else its parsed time.\<close>

definition metadata_time :: "golib \<Rightarrow> gostring \<Rightarrow> gotime option result" where
  "metadata_time lib v =
     (if v = [] then Inr None
      else (case parseMetadataTime lib v of Inl e \<Rightarrow> Inl e | Inr t \<Rightarrow> Inr (Some t)))"

definition metadata_update_for ::
    "MeetingSessionMetadataUpdateInput \<Rightarrow> gostring \<Rightarrow> MeetingSession option \<Rightarrow> gotime option \<Rightarrow>
     gotime option \<Rightarrow> gotime option \<Rightarrow> gotime \<Rightarrow> MeetingSessionMetadataUpdate" where
  "metadata_update_for i sessionID previous startAt endAt resolvedAt now =
     (let title = trim_space (mi_Title i);
          incomingTitleSource = normalizeMeetingSessionTitleSource (mi_TitleSource i) (mi_Title i);
          decision = decideMeetingSessionTitleUpdate previous title incomingTitleSource in
      \<lparr>mu_SessionID = sessionID,
       mu_Title = (if ApplyTitle decision then title else []),
       mu_TitleSource = (if ApplyTitle decision then incomingTitleSource else []),
       mu_UserProvidedTitle = metadataUserProvidedTitle i incomingTitleSource title,
       mu_GraphTitle = metadataGraphTitle i incomingTitleSource title,
       mu_Provider = trim_space (mi_Provider i),
       mu_ExternalMeetingID = trim_space (mi_ExternalMeetingID i),
       mu_JoinMeetingID = trim_space (mi_JoinMeetingID i),
       mu_JoinWebURL = trim_space (mi_JoinWebURL i),
       mu_CanonicalJoinWebURL = trim_space (mi_CanonicalJoinWebURL i),
       mu_ThreadID = trim_space (mi_ThreadID i),
       mu_OrganizerID = trim_space (mi_OrganizerID i),
       mu_OrganizerName = trim_space (mi_OrganizerName i),
       mu_OrganizerEmail = trim_space (mi_OrganizerEmail i),
       mu_ScheduledStartAt = startAt, mu_ScheduledEndAt = endAt,
       mu_TitleResolutionErrorCode = trim_space (mi_TitleResolutionErrorCode i),
       mu_TitleResolutionErrorMessage = trim_space (mi_TitleResolutionErrorMessage i),
       mu_TitleResolvedAt = resolvedAt,
       mu_Purpose = trim_space (mi_Purpose i), mu_Context = trim_space (mi_Context i),
       mu_Agenda = trim_space (mi_Agenda i), mu_DecisionPoints = trim_space (mi_DecisionPoints i),
       mu_Concerns = trim_space (mi_Concerns i),
       mu_ExpectedOutput = trim_space (mi_ExpectedOutput i),
       mu_CustomInstruction = trim_space (mi_CustomInstruction i), mu_UpdatedAt = now\<rparr>)"

definition UpdateMeetingSessionMetadata ::
    "config \<Rightarrow> MeetingSessionMetadataUpdateInput \<Rightarrow> world \<Rightarrow> MeetingSession result \<times> world" where
  "UpdateMeetingSessionMetadata cfg i w0 =
     (let sessionID = trim_space (mi_SessionID i) in
      if sessionID = [] then (Inl (ErrInvalidArgument ''sessionId is required''), w0)
      else if \<not> has_metadata i then (Inl (ErrInvalidArgument ''metadata is required''), w0)
      else
        (let (r, w1) = repo_read (\<lambda>db. repo_GetMeetingSession db sessionID) w0;
             previous = (case r of Inl _ \<Rightarrow> None | Inr s \<Rightarrow> Some s);
             (now, w2) = now_utc w1 in
         case metadata_time (sv_lib cfg) (mi_ScheduledStartAt i) of
           Inl e \<Rightarrow> (Inl e, w2)
         | Inr startAt \<Rightarrow>
         (case metadata_time (sv_lib cfg) (mi_ScheduledEndAt i) of
           Inl e \<Rightarrow> (Inl e, w2)
         | Inr endAt \<Rightarrow>
         (case metadata_time (sv_lib cfg) (mi_TitleResolvedAt i) of
           Inl e \<Rightarrow> (Inl e, w2)
         | Inr resolvedAt \<Rightarrow>
             (let (u, w3) = repo_call (\<lambda>db. repo_UpdateMeetingSessionMetadata db
                    (metadata_update_for i sessionID previous startAt endAt resolvedAt now)) w2 in
              case u of
                Inl e \<Rightarrow> (Inl e, w3)
              | Inr updated \<Rightarrow> (Inr updated, publishStatusChanged cfg updated w3))))))"

end
