(* ===== verification/SessionLifecycle.thy ===== *)
theory SessionLifecycle
  imports SessionCreate "HOL-Library.Multiset"
begin

text \<open>
  The life of meeting sessions under every interleaving of requests, bot reports, goroutines and
  pending bot commands: facts on each operation of the service (what it may do to the tables and
  to the finalizations in flight), the step relation \<open>sys_step\<close> over them, and the invariants
  of its reachable states.
\<close>

section \<open>Repository calls\<close>

named_theorems world_simps \<open>what a repository call changes in the world\<close>

lemma repo_call_frame [world_simps]:
  "w_clock (snd (repo_call f w)) = w_clock w" "w_ticks (snd (repo_call f w)) = w_ticks w"
  "w_ids (snd (repo_call f w)) = w_ids w" "w_nextid (snd (repo_call f w)) = w_nextid w"
  "w_faults (snd (repo_call f w)) = w_faults w"
  "w_published (snd (repo_call f w)) = w_published w"
  "w_prepared (snd (repo_call f w)) = w_prepared w"
  "w_joins (snd (repo_call f w)) = w_joins w" "w_ends (snd (repo_call f w)) = w_ends w"
  "w_inflight (snd (repo_call f w)) = w_inflight w" "w_tasks (snd (repo_call f w)) = w_tasks w"
  by (simp_all add: repo_call_def Let_def split: prod.split)

lemma repo_call_ok:
  "\<not> w_faults w (w_calls w) \<Longrightarrow>
   repo_call f w = (fst (f (w_db w)), w\<lparr>w_calls := Suc (w_calls w), w_db := snd (f (w_db w))\<rparr>)"
  by (simp add: repo_call_def Let_def split: prod.split)

lemma repo_call_fault:
  "w_faults w (w_calls w) \<Longrightarrow> repo_call f w = (Inl ErrDatabase, w\<lparr>w_calls := Suc (w_calls w)\<rparr>)"
  by (simp add: repo_call_def Let_def)

lemma repo_call_db:
  "w_db (snd (repo_call f w)) = w_db w \<or> w_db (snd (repo_call f w)) = snd (f (w_db w))"
  by (simp add: repo_call_def Let_def split: prod.split)

lemma repo_call_Inr:
  "repo_call f w = (Inr x, w') \<Longrightarrow>
   fst (f (w_db w)) = Inr x \<and> w' = w\<lparr>w_calls := Suc (w_calls w), w_db := snd (f (w_db w))\<rparr>"
  by (auto simp: repo_call_def Let_def split: prod.splits if_splits)

lemma repo_read_db [simp]: "w_db (snd (repo_read f w)) = w_db w"
  using repo_call_db [of "\<lambda>db. (f db, db)" w] by (simp add: repo_read_def)

lemma repo_read_frame [world_simps]:
  "w_clock (snd (repo_read f w)) = w_clock w" "w_faults (snd (repo_read f w)) = w_faults w"
  "w_published (snd (repo_read f w)) = w_published w"
  "w_inflight (snd (repo_read f w)) = w_inflight w" "w_tasks (snd (repo_read f w)) = w_tasks w"
  by (simp_all add: repo_read_def world_simps)

lemma repo_read_Inr: "repo_read f w = (Inr x, w') \<Longrightarrow> f (w_db w) = Inr x \<and> w_db w' = w_db w"
  by (auto simp: repo_read_def dest!: repo_call_Inr)

lemma now_utc_frame [simp]:
  "w_db (snd (now_utc w)) = w_db w" "w_faults (snd (now_utc w)) = w_faults w"
  "w_inflight (snd (now_utc w)) = w_inflight w" "w_tasks (snd (now_utc w)) = w_tasks w"
  "w_published (snd (now_utc w)) = w_published w" "w_calls (snd (now_utc w)) = w_calls w"
  by (simp_all add: now_utc_def)

lemma new_session_id_frame [simp]:
  "w_db (snd (new_session_id w)) = w_db w" "w_faults (snd (new_session_id w)) = w_faults w"
  "w_inflight (snd (new_session_id w)) = w_inflight w"
  "w_tasks (snd (new_session_id w)) = w_tasks w"
  by (simp_all add: new_session_id_def)

lemma publish_frame [simp]:
  "w_db (publishStatusChanged cfg s w) = w_db w"
  "w_faults (publishStatusChanged cfg s w) = w_faults w"
  "w_inflight (publishStatusChanged cfg s w) = w_inflight w"
  "w_tasks (publishStatusChanged cfg s w) = w_tasks w"
  by (simp_all add: publishStatusChanged_def)

lemma publish_all_frame [simp]:
  "w_db (foldl (\<lambda>w s. publishStatusChanged cfg s w) w ss) = w_db w"
  "w_faults (foldl (\<lambda>w s. publishStatusChanged cfg s w) w ss) = w_faults w"
  "w_inflight (foldl (\<lambda>w s. publishStatusChanged cfg s w) w ss) = w_inflight w"
  "w_tasks (foldl (\<lambda>w s. publishStatusChanged cfg s w) w ss) = w_tasks w"
  by (induction ss arbitrary: w) simp_all

section \<open>Terminal rows\<close>

text \<open>Every terminal row of the first store is still there, and terminal, in the second.\<close>

definition absorbs :: "store \<Rightarrow> store \<Rightarrow> bool" where
  "absorbs db db' \<longleftrightarrow>
     (\<forall>i r. lookup db i = Some r \<and> isTerminalMeetingSessionStatus (ms_Status r) \<longrightarrow>
       (\<exists>r'. lookup db' i = Some r' \<and> isTerminalMeetingSessionStatus (ms_Status r')))"

lemma absorbs_refl [simp, intro]: "absorbs db db"
  by (simp add: absorbs_def)

lemma absorbs_trans: "absorbs a b \<Longrightarrow> absorbs b c \<Longrightarrow> absorbs a c"
  unfolding absorbs_def by blast

lemma absorbs_repo_call: "absorbs (w_db w) (snd (f (w_db w))) \<Longrightarrow> absorbs (w_db w) (w_db (snd (repo_call f w)))"
  using repo_call_db [of f w] by auto

lemma absorbs_status_update:
  assumes "lookup db (su_SessionID u) = None \<or> isTerminalMeetingSessionStatus (su_Status u) \<or>
    (\<exists>r. lookup db (su_SessionID u) = Some r \<and> \<not> isTerminalMeetingSessionStatus (ms_Status r))"
  shows "absorbs db (snd (repo_UpdateMeetingSessionStatus db u))"
  using assms
  by (auto simp: absorbs_def repo_UpdateMeetingSessionStatus_def lookup_update_by_id)

lemma absorbs_metadata_update [simp]: "absorbs db (snd (repo_UpdateMeetingSessionMetadata db u))"
  by (auto simp: absorbs_def repo_UpdateMeetingSessionMetadata_def lookup_update_by_id)

lemma absorbs_update_where:
  assumes "\<And>r. p r \<Longrightarrow> ms_ID (f r) = ms_ID r"
    and "\<And>r. p r \<Longrightarrow> isTerminalMeetingSessionStatus (ms_Status r) \<Longrightarrow>
      isTerminalMeetingSessionStatus (ms_Status (f r))"
  shows "absorbs db (db\<lparr>db_sessions := update_where p f (db_sessions db)\<rparr>)"
  using assms(2) find_update_where_key [of p ms_ID f, OF assms(1)] by (auto simp: absorbs_def)

lemma absorbs_stale [simp]: "absorbs db (snd (repo_MarkStaleMeetingSessions db c t))"
  unfolding repo_MarkStaleMeetingSessions_def snd_conv
  by (rule absorbs_update_where) (simp_all add: isTerminalMeetingSessionStatus_def)

lemma absorbs_touch [simp]: "absorbs db (snd (repo_TouchMeetingSessionBotSeen db i t))"
  by (auto simp: repo_TouchMeetingSessionBotSeen_def Let_def
      intro!: absorbs_update_where split: option.split sum.split)

lemma absorbs_append [simp]: "absorbs db (db\<lparr>db_sessions := db_sessions db @ rows\<rparr>)"
  by (auto simp: absorbs_def find_key_append)

lemma absorbs_create [simp]: "absorbs db (snd (repo_CreateOrReuseMeetingSession db s))"
proof -
  obtain r db' where eq: "repo_CreateOrReuseMeetingSession db s = (r, db')" by fastforce
  from create_or_reuse_cases [OF this] have "absorbs db db'" by auto
  with eq show ?thesis by simp
qed

section \<open>Finalizations in flight\<close>

fun task_session :: "task \<Rightarrow> gostring list" where
  "task_session (FinalizeTask s i) = [ms_ID s]"
| "task_session (FallbackTask i reason) = []"

definition finalizing :: "world \<Rightarrow> gostring list" where
  "finalizing w = concat (map task_session (w_tasks w))"

text \<open>The map of finalizations in flight is exactly the set of running finalizers, one each.\<close>

definition single_flight :: "world \<Rightarrow> bool" where
  "single_flight w \<longleftrightarrow>
     distinct (w_inflight w) \<and> distinct (finalizing w) \<and> set (finalizing w) = set (w_inflight w)"

lemma single_flight_cong:
  "w_inflight w' = w_inflight w \<Longrightarrow> w_tasks w' = w_tasks w \<Longrightarrow> single_flight w' = single_flight w"
  by (simp add: single_flight_def finalizing_def)

lemma start_frame [simp]:
  "w_db (startMeetingSessionFinalization s i w) = w_db w"
  "w_faults (startMeetingSessionFinalization s i w) = w_faults w"
  "w_published (startMeetingSessionFinalization s i w) = w_published w"
  by (simp_all add: startMeetingSessionFinalization_def)

lemma single_flight_start:
  "single_flight w \<Longrightarrow> single_flight (startMeetingSessionFinalization s i w)"
  by (auto simp: startMeetingSessionFinalization_def single_flight_def finalizing_def)

lemma single_flight_fallback:
  "single_flight (w\<lparr>w_tasks := w_tasks w @ [FallbackTask a b]\<rparr>) = single_flight w"
  by (simp add: single_flight_def finalizing_def)

text \<open>The two facts every operation keeps.\<close>

definition sound :: "world \<Rightarrow> bool" where
  "sound w \<longleftrightarrow> unique_ids (w_db w) \<and> single_flight w"

lemma sound_cong:
  "w_db w' = w_db w \<Longrightarrow> w_inflight w' = w_inflight w \<Longrightarrow> w_tasks w' = w_tasks w \<Longrightarrow>
   sound w' = sound w"
  by (simp add: sound_def single_flight_cong [of w' w])

lemma sound_now [simp]: "sound (snd (now_utc w)) = sound w"
  by (rule sound_cong) simp_all

lemma sound_new_id [simp]: "sound (snd (new_session_id w)) = sound w"
  by (rule sound_cong) simp_all

lemma sound_read [simp]: "sound (snd (repo_read f w)) = sound w"
  by (rule sound_cong) (simp_all add: world_simps)

lemma sound_publish [simp]: "sound (publishStatusChanged cfg s w) = sound w"
  by (rule sound_cong) simp_all

lemma sound_publish_all [simp]:
  "sound (foldl (\<lambda>w s. publishStatusChanged cfg s w) w ss) = sound w"
  by (rule sound_cong) simp_all

lemma sound_call:
  assumes "sound w" and "unique_ids (w_db w) \<Longrightarrow> unique_ids (snd (f (w_db w)))"
  shows "sound (snd (repo_call f w))"
proof -
  have "single_flight (snd (repo_call f w)) = single_flight w"
    by (rule single_flight_cong) (simp_all add: world_simps)
  then show ?thesis
    using assms repo_call_db [of f w] by (auto simp: sound_def)
qed

lemma sound_start: "sound w \<Longrightarrow> sound (startMeetingSessionFinalization s i w)"
  by (simp add: sound_def single_flight_start)

section \<open>What each operation keeps\<close>

text \<open>
  An operation whose tables result from one repository call: the shape of the proofs below is
  to follow the world through the operation's calls.
\<close>

definition keeps :: "world \<Rightarrow> world \<Rightarrow> bool" where
  "keeps w w' \<longleftrightarrow> w_faults w' = w_faults w \<and> (sound w \<longrightarrow> sound w')"

lemma keeps_refl [simp, intro]: "keeps w w"
  by (simp add: keeps_def)

lemma keeps_trans: "keeps a b \<Longrightarrow> keeps b c \<Longrightarrow> keeps a c"
  by (simp add: keeps_def)

text \<open>One call more keeps what was kept so far; conditional rewrite rules, applied outside in.\<close>

lemma keeps_now [simp]: "keeps w w' \<Longrightarrow> keeps w (snd (now_utc w'))"
  by (simp add: keeps_def)

lemma keeps_new_id [simp]: "keeps w w' \<Longrightarrow> keeps w (snd (new_session_id w'))"
  by (simp add: keeps_def)

lemma keeps_read [simp]: "keeps w w' \<Longrightarrow> keeps w (snd (repo_read f w'))"
  by (simp add: keeps_def world_simps)

lemma keeps_publish [simp]: "keeps w w' \<Longrightarrow> keeps w (publishStatusChanged cfg s w')"
  by (simp add: keeps_def)

lemma keeps_publish_all [simp]:
  "keeps w w' \<Longrightarrow> keeps w (foldl (\<lambda>w s. publishStatusChanged cfg s w) w' ss)"
  by (simp add: keeps_def)

lemma keeps_start [simp]: "keeps w w' \<Longrightarrow> keeps w (startMeetingSessionFinalization s i w')"
  by (simp add: keeps_def sound_start)

lemma keeps_call:
  "keeps w w' \<Longrightarrow> (\<And>db. unique_ids db \<Longrightarrow> unique_ids (snd (f db))) \<Longrightarrow>
   keeps w (snd (repo_call f w'))"
  by (simp add: keeps_def world_simps sound_call)

lemma keeps_status_call [simp]:
  "keeps w w' \<Longrightarrow> keeps w (snd (repo_call (\<lambda>db. repo_UpdateMeetingSessionStatus db u) w'))"
  by (rule keeps_call) simp_all

lemma keeps_metadata_call [simp]:
  "keeps w w' \<Longrightarrow> keeps w (snd (repo_call (\<lambda>db. repo_UpdateMeetingSessionMetadata db u) w'))"
  by (rule keeps_call) simp_all

lemma keeps_touch_call [simp]:
  "keeps w w' \<Longrightarrow> keeps w (snd (repo_call (\<lambda>db. repo_TouchMeetingSessionBotSeen db i t) w'))"
  by (rule keeps_call) simp_all

lemma keeps_delete_call [simp]:
  "keeps w w' \<Longrightarrow> keeps w (snd (repo_call (\<lambda>db. repo_DeleteMeetingSession db i) w'))"
  by (rule keeps_call) (simp_all add: unique_ids_delete)

lemma unique_ids_create_or_reuse:
  assumes "unique_ids db"
  shows "unique_ids (snd (repo_CreateOrReuseMeetingSession db s))"
proof -
  obtain r db' where eq: "repo_CreateOrReuseMeetingSession db s = (r, db')" by fastforce
  from create_or_reuse_cases [OF this] have "unique_ids db'"
    using assms by (auto simp: unique_ids_def)
  with eq show ?thesis by simp
qed

lemma keeps_create_call [simp]:
  "keeps w w' \<Longrightarrow> keeps w (snd (repo_call (\<lambda>db. repo_CreateOrReuseMeetingSession db s) w'))"
  by (rule keeps_call) (simp_all add: unique_ids_create_or_reuse)

lemma keeps_stale_call [simp]:
  "keeps w w' \<Longrightarrow> keeps w (snd (repo_call (\<lambda>db. (Inr (fst (repo_MarkStaleMeetingSessions db c t)),
     snd (repo_MarkStaleMeetingSessions db c t))) w'))"
  by (rule keeps_call) simp_all

lemmas op_simps = Let_def case_prod_beta

lemma keeps_cleanup [simp]: "keeps w w' \<Longrightarrow> keeps w (snd (CleanupStaleMeetingSessions cfg w'))"
  by (simp add: CleanupStaleMeetingSessions_def op_simps split: sum.split)

lemma keeps_write_status [simp]:
  "keeps w w' \<Longrightarrow> keeps w (snd (write_status cfg i sid st p w'))"
  by (simp add: write_status_def op_simps split: sum.split)

lemma keeps_begin_ending [simp]: "keeps w w' \<Longrightarrow> keeps w (snd (begin_ending cfg i p w'))"
  by (simp add: begin_ending_def op_simps split: sum.split)

lemma keeps_UpdateStatus [simp]:
  "keeps w w' \<Longrightarrow> keeps w (snd (UpdateMeetingSessionStatus cfg i w'))"
  by (simp add: UpdateMeetingSessionStatus_def op_simps split: sum.split option.split)

lemma keeps_fallback [simp]: "keeps w w' \<Longrightarrow> keeps w (finalizeAfterFallback cfg sid reason w')"
  by (simp add: finalizeAfterFallback_def op_simps split: sum.split)

lemma keeps_end_sent [simp]: "keeps w w' \<Longrightarrow> keeps w (w'\<lparr>w_ends := es\<rparr>)"
  by (simp add: keeps_def sound_def single_flight_def finalizing_def)

lemma keeps_fallback_task [simp]:
  "keeps w w' \<Longrightarrow> keeps w (w'\<lparr>w_ends := es, w_tasks := w_tasks w' @ [FallbackTask a b]\<rparr>)"
  by (simp add: keeps_def sound_def single_flight_def finalizing_def)

lemma keeps_End [simp]: "keeps w w' \<Longrightarrow> keeps w (snd (EndMeetingSession cfg i w'))"
  by (simp add: EndMeetingSession_def op_simps split: sum.split option.split botError.split)

lemma keeps_Heartbeat [simp]: "keeps w w' \<Longrightarrow> keeps w (snd (RecordMeetingSessionHeartbeat i w'))"
  by (simp add: RecordMeetingSessionHeartbeat_def op_simps split: sum.split)

lemma keeps_Delete [simp]: "keeps w w' \<Longrightarrow> keeps w (snd (DeleteMeetingSession i w'))"
  by (simp add: DeleteMeetingSession_def op_simps split: sum.split)

lemma keeps_Get [simp]: "keeps w w' \<Longrightarrow> keeps w (snd (GetMeetingSession cfg i w'))"
  by (simp add: GetMeetingSession_def op_simps)

lemma keeps_List [simp]: "keeps w w' \<Longrightarrow> keeps w (snd (ListMeetingSessions cfg i l w'))"
  by (simp add: ListMeetingSessions_def op_simps)

lemma keeps_Metadata [simp]: "keeps w w' \<Longrightarrow> keeps w (snd (UpdateMeetingSessionMetadata cfg i w'))"
  by (simp add: UpdateMeetingSessionMetadata_def op_simps split: sum.split)

lemma keeps_applyCreateMetadata [simp]:
  "keeps w w' \<Longrightarrow> keeps w (snd (applyCreateMetadata s i t u at re w'))"
  by (simp add: applyCreateMetadata_def op_simps split: sum.split)

lemma keeps_markCommandFailed [simp]:
  "keeps w w' \<Longrightarrow> keeps w (snd (markCommandFailed cfg sid cause w'))"
  by (simp add: markCommandFailed_def op_simps split: sum.split)

lemma keeps_prepared [simp]: "keeps w w' \<Longrightarrow> keeps w (w'\<lparr>w_prepared := ps\<rparr>)"
  by (simp add: keeps_def sound_def single_flight_def finalizing_def)

lemma keeps_create_send_stage [simp]:
  "keeps w w' \<Longrightarrow> keeps w (snd (create_send_stage cfg i url c n w'))"
  by (simp add: create_send_stage_def op_simps split: sum.split)

lemma keeps_create_begin [simp]: "keeps w w' \<Longrightarrow> keeps w (snd (create_begin cfg i w'))"
  by (simp add: create_begin_def op_simps split: sum.split option.split)

lemma keeps_create_finish [simp]: "keeps w w' \<Longrightarrow> keeps w (snd (create_finish cfg c reply w'))"
  by (simp add: create_finish_def op_simps split: sum.split option.split)

section \<open>Terminal rows stay terminal\<close>

definition no_faults :: "world \<Rightarrow> bool" where
  "no_faults w \<longleftrightarrow> (\<forall>n. \<not> w_faults w n)"

lemma no_faults_frame [simp]:
  "no_faults (snd (repo_call f w)) = no_faults w" "no_faults (snd (repo_read g w)) = no_faults w"
  "no_faults (snd (now_utc w)) = no_faults w" "no_faults (publishStatusChanged cfg s w) = no_faults w"
  "no_faults (w\<lparr>w_ends := es\<rparr>) = no_faults w"
  by (simp_all add: no_faults_def world_simps)

lemma no_faults_UpdateStatus [simp]:
  "no_faults (snd (UpdateMeetingSessionStatus cfg i w)) = no_faults w"
  using keeps_UpdateStatus [of w w cfg i] by (simp add: no_faults_def keeps_def)

lemma read_ok: "no_faults w \<Longrightarrow> fst (repo_read f w) = f (w_db w)"
  by (simp add: no_faults_def repo_read_def repo_call_ok)

lemma absorbs_call:
  "absorbs a (w_db w') \<Longrightarrow> absorbs (w_db w') (snd (f (w_db w'))) \<Longrightarrow>
   absorbs a (w_db (snd (repo_call f w')))"
  using repo_call_db [of f w'] by (auto intro: absorbs_trans)

lemma absorbs_easy_calls [simp]:
  "absorbs a (w_db w') \<Longrightarrow> absorbs a (w_db (snd (repo_call (\<lambda>db. repo_UpdateMeetingSessionMetadata db m) w')))"
  "absorbs a (w_db w') \<Longrightarrow> absorbs a (w_db (snd (repo_call (\<lambda>db. repo_TouchMeetingSessionBotSeen db i t) w')))"
  "absorbs a (w_db w') \<Longrightarrow> absorbs a (w_db (snd (repo_call (\<lambda>db. repo_CreateOrReuseMeetingSession db s) w')))"
  "absorbs a (w_db w') \<Longrightarrow> absorbs a (w_db (snd (repo_call (\<lambda>db.
     (Inr (fst (repo_MarkStaleMeetingSessions db c t)), snd (repo_MarkStaleMeetingSessions db c t))) w')))"
  by (rule absorbs_call; simp)+

text \<open>A status write is harmless where the row is absent or still runs, or the new status is final.\<close>

definition write_allowed :: "store \<Rightarrow> gostring \<Rightarrow> MeetingSessionStatus \<Rightarrow> bool" where
  "write_allowed db i st \<longleftrightarrow> lookup db i = None \<or> isTerminalMeetingSessionStatus st \<or>
     (\<exists>r. lookup db i = Some r \<and> \<not> isTerminalMeetingSessionStatus (ms_Status r))"

lemma absorbs_status_call:
  "absorbs a (w_db w') \<Longrightarrow> write_allowed (w_db w') (su_SessionID u) (su_Status u) \<Longrightarrow>
   absorbs a (w_db (snd (repo_call (\<lambda>db. repo_UpdateMeetingSessionStatus db u) w')))"
  unfolding write_allowed_def by (rule absorbs_call, assumption, rule absorbs_status_update)

lemma absorbs_cleanup [simp]:
  "absorbs a (w_db w') \<Longrightarrow> absorbs a (w_db (snd (CleanupStaleMeetingSessions cfg w')))"
  by (simp add: CleanupStaleMeetingSessions_def op_simps split: sum.split)

lemma status_update_for_simps [simp]:
  "su_SessionID (status_update_for i sid st p now) = sid"
  "su_Status (status_update_for i sid st p now) = st"
  "su_UpdatedAt (status_update_for i sid st p now) = now"
  by (simp_all add: status_update_for_def Let_def)

lemma absorbs_write_status:
  "absorbs a (w_db w') \<Longrightarrow> write_allowed (w_db w') sid st \<Longrightarrow>
   absorbs a (w_db (snd (write_status cfg i sid st p w')))"
  by (simp add: write_status_def op_simps absorbs_status_call split: sum.split)

lemma absorbs_begin_ending:
  "absorbs a (w_db w') \<Longrightarrow> write_allowed (w_db w') (ms_ID p) Ending \<Longrightarrow>
   absorbs a (w_db (snd (begin_ending cfg i p w')))"
  by (simp add: begin_ending_def ending_update_def op_simps absorbs_status_call split: sum.split)

lemma get_Inl: "repo_GetMeetingSession db i = Inl e \<Longrightarrow> lookup db i = None"
  by (simp add: get_lookup split: option.splits)

lemma get_Inr: "repo_GetMeetingSession db i = Inr r \<Longrightarrow> lookup db i = Some r \<and> ms_ID r = i"
  by (auto simp: get_lookup dest: lookup_ID split: option.splits)

lemma absorbs_UpdateStatus [simp]:
  assumes "no_faults w'" and "absorbs a (w_db w')"
  shows "absorbs a (w_db (snd (UpdateMeetingSessionStatus cfg i w')))"
  using assms
  by (auto simp: UpdateMeetingSessionStatus_def op_simps read_ok
      shouldSuppressMeetingSessionTerminalRevival_def write_allowed_def
      dest!: get_Inl get_Inr
      intro!: absorbs_write_status absorbs_begin_ending split: sum.split option.split)

lemma absorbs_fallback [simp]:
  "no_faults w' \<Longrightarrow> absorbs a (w_db w') \<Longrightarrow> absorbs a (w_db (finalizeAfterFallback cfg sid reason w'))"
  by (simp add: finalizeAfterFallback_def op_simps split: sum.split)

lemma absorbs_finalization [simp]:
  "absorbs a (w_db w') \<Longrightarrow> absorbs a (w_db (run_finalization cfg s i out w'))"
  by (simp add: run_finalization_def op_simps absorbs_status_call write_allowed_def
      isTerminalMeetingSessionStatus_def split: sum.split)

lemma absorbs_End [simp]:
  "no_faults w' \<Longrightarrow> absorbs a (w_db w') \<Longrightarrow> absorbs a (w_db (snd (EndMeetingSession cfg i w')))"
  by (simp add: EndMeetingSession_def op_simps split: sum.split option.split botError.split)

lemma absorbs_Heartbeat [simp]:
  "absorbs a (w_db w') \<Longrightarrow> absorbs a (w_db (snd (RecordMeetingSessionHeartbeat i w')))"
  by (simp add: RecordMeetingSessionHeartbeat_def op_simps split: sum.split)

lemma absorbs_Get [simp]: "absorbs a (w_db w') \<Longrightarrow> absorbs a (w_db (snd (GetMeetingSession cfg i w')))"
  by (simp add: GetMeetingSession_def op_simps)

lemma absorbs_List [simp]:
  "absorbs a (w_db w') \<Longrightarrow> absorbs a (w_db (snd (ListMeetingSessions cfg i l w')))"
  by (simp add: ListMeetingSessions_def op_simps)

lemma absorbs_Metadata [simp]:
  "absorbs a (w_db w') \<Longrightarrow> absorbs a (w_db (snd (UpdateMeetingSessionMetadata cfg i w')))"
  by (simp add: UpdateMeetingSessionMetadata_def op_simps split: sum.split)

lemma absorbs_applyCreateMetadata [simp]:
  "absorbs a (w_db w') \<Longrightarrow> absorbs a (w_db (snd (applyCreateMetadata s i t u at re w')))"
  by (simp add: applyCreateMetadata_def op_simps split: sum.split)

lemma absorbs_markCommandFailed [simp]:
  "absorbs a (w_db w') \<Longrightarrow> absorbs a (w_db (snd (markCommandFailed cfg sid cause w')))"
  by (simp add: markCommandFailed_def op_simps absorbs_status_call write_allowed_def
      isTerminalMeetingSessionStatus_def split: sum.split)

lemma absorbs_create_send_stage [simp]:
  "absorbs a (w_db w') \<Longrightarrow> absorbs a (w_db (snd (create_send_stage cfg i url c n w')))"
  by (simp add: create_send_stage_def op_simps split: sum.split)

lemma absorbs_create_begin [simp]:
  "absorbs a (w_db w') \<Longrightarrow> absorbs a (w_db (snd (create_begin cfg i w')))"
  by (simp add: create_begin_def op_simps split: sum.split option.split)

section \<open>The service under interleaving\<close>

text \<open>
  A state is the world and the creations whose join command is under way.  An action is one
  method call of the service, the answer of the bot control API to a join command, the end of a
  goroutine (a finalizer with its outcome, or a fallback timer), or a restart of the process,
  which forgets everything that is not in the tables.  Each action is one step.
\<close>

record sys =
  sy_world :: world
  sy_pending :: "MeetingSession list"

datatype action =
    Create MeetingSessionCreateInput
  | JoinReply gostring "botError option"
  | Report MeetingSessionStatusUpdateInput
  | EndRequest MeetingSessionEndInput
  | Metadata MeetingSessionMetadataUpdateInput
  | Heartbeat gostring
  | Delete gostring
  | Get gostring
  | ListAll gostring int
  | Cleanup
  | RunTask nat "gostring option"
  | Restart

definition without_task :: "nat \<Rightarrow> world \<Rightarrow> world" where
  "without_task k w = w\<lparr>w_tasks := take k (w_tasks w) @ drop (Suc k) (w_tasks w)\<rparr>"

inductive sys_step :: "config \<Rightarrow> action \<Rightarrow> sys \<Rightarrow> sys \<Rightarrow> bool" for cfg where
  CreateDone: "create_begin cfg i w = (CreateDone out, w') \<Longrightarrow>
     sys_step cfg (Create i) \<lparr>sy_world = w, sy_pending = ps\<rparr> \<lparr>sy_world = w', sy_pending = ps\<rparr>"
| CreateSend: "create_begin cfg i w = (CreateSend created cmd, w') \<Longrightarrow>
     sys_step cfg (Create i) \<lparr>sy_world = w, sy_pending = ps\<rparr>
       \<lparr>sy_world = w'\<lparr>w_joins := w_joins w' @ [cmd]\<rparr>, sy_pending = ps @ [created]\<rparr>"
| JoinReply: "p \<in> set ps \<Longrightarrow> create_finish cfg p reply w = (out, w') \<Longrightarrow>
     sys_step cfg (JoinReply (ms_ID p) reply) \<lparr>sy_world = w, sy_pending = ps\<rparr>
       \<lparr>sy_world = w', sy_pending = remove1 p ps\<rparr>"
| Report: "UpdateMeetingSessionStatus cfg u w = (out, w') \<Longrightarrow>
     sys_step cfg (Report u) \<lparr>sy_world = w, sy_pending = ps\<rparr> \<lparr>sy_world = w', sy_pending = ps\<rparr>"
| EndRequest: "EndMeetingSession cfg e w = (out, w') \<Longrightarrow>
     sys_step cfg (EndRequest e) \<lparr>sy_world = w, sy_pending = ps\<rparr> \<lparr>sy_world = w', sy_pending = ps\<rparr>"
| Metadata: "UpdateMeetingSessionMetadata cfg m w = (out, w') \<Longrightarrow>
     sys_step cfg (Metadata m) \<lparr>sy_world = w, sy_pending = ps\<rparr> \<lparr>sy_world = w', sy_pending = ps\<rparr>"
| Heartbeat: "RecordMeetingSessionHeartbeat sid w = (out, w') \<Longrightarrow>
     sys_step cfg (Heartbeat sid) \<lparr>sy_world = w, sy_pending = ps\<rparr> \<lparr>sy_world = w', sy_pending = ps\<rparr>"
| Delete: "DeleteMeetingSession sid w = (out, w') \<Longrightarrow>
     sys_step cfg (Delete sid) \<lparr>sy_world = w, sy_pending = ps\<rparr> \<lparr>sy_world = w', sy_pending = ps\<rparr>"
| Get: "GetMeetingSession cfg sid w = (out, w') \<Longrightarrow>
     sys_step cfg (Get sid) \<lparr>sy_world = w, sy_pending = ps\<rparr> \<lparr>sy_world = w', sy_pending = ps\<rparr>"
| ListAll: "ListMeetingSessions cfg ws l w = (out, w') \<Longrightarrow>
     sys_step cfg (ListAll ws l) \<lparr>sy_world = w, sy_pending = ps\<rparr> \<lparr>sy_world = w', sy_pending = ps\<rparr>"
| Cleanup: "CleanupStaleMeetingSessions cfg w = (out, w') \<Longrightarrow>
     sys_step cfg Cleanup \<lparr>sy_world = w, sy_pending = ps\<rparr> \<lparr>sy_world = w', sy_pending = ps\<rparr>"
| RunTask: "k < length (w_tasks w) \<Longrightarrow>
     sys_step cfg (RunTask k out) \<lparr>sy_world = w, sy_pending = ps\<rparr>
       \<lparr>sy_world = run_task cfg out (w_tasks w ! k) (without_task k w), sy_pending = ps\<rparr>"
| Restart:
     "sys_step cfg Restart \<lparr>sy_world = w, sy_pending = ps\<rparr>
       \<lparr>sy_world = w\<lparr>w_inflight := [], w_tasks := []\<rparr>, sy_pending = []\<rparr>"

inductive_cases sys_stepE: "sys_step cfg a s s'"

inductive sys_run :: "config \<Rightarrow> sys \<Rightarrow> action list \<Rightarrow> sys \<Rightarrow> bool" for cfg where
  run_Nil: "sys_run cfg s [] s"
| run_Cons: "sys_step cfg a s s' \<Longrightarrow> sys_run cfg s' as s'' \<Longrightarrow> sys_run cfg s (a # as) s''"

lemma step_ReportI:
  "sys_step cfg (Report u) s (s\<lparr>sy_world := snd (UpdateMeetingSessionStatus cfg u (sy_world s))\<rparr>)"
  using sys_step.Report [OF surjective_pairing, of cfg u "sy_world s" "sy_pending s"]
  by (cases s) simp

lemma step_EndRequestI:
  "sys_step cfg (EndRequest e) s (s\<lparr>sy_world := snd (EndMeetingSession cfg e (sy_world s))\<rparr>)"
  using sys_step.EndRequest [OF surjective_pairing, of cfg e "sy_world s" "sy_pending s"]
  by (cases s) simp

lemma step_RunTaskI:
  "k < length (w_tasks (sy_world s)) \<Longrightarrow> sys_step cfg (RunTask k out) s
     (s\<lparr>sy_world := run_task cfg out (w_tasks (sy_world s) ! k) (without_task k (sy_world s))\<rparr>)"
  using sys_step.RunTask [of k "sy_world s" cfg out "sy_pending s"] by (cases s) simp

definition initial :: "sys \<Rightarrow> bool" where
  "initial s \<longleftrightarrow> unique_ids (w_db (sy_world s)) \<and> w_inflight (sy_world s) = [] \<and>
     w_tasks (sy_world s) = [] \<and> sy_pending s = []"

lemma finalizing_without:
  "k < length (w_tasks w) \<Longrightarrow>
   mset (finalizing w) = mset (task_session (w_tasks w ! k)) + mset (finalizing (without_task k w))"
  by (subst (1) finalizing_def, subst id_take_nth_drop [of k "w_tasks w"])
    (simp_all add: finalizing_def without_task_def del: append_take_drop_id)

lemma single_flight_mset:
  "single_flight w \<longleftrightarrow> distinct (w_inflight w) \<and> mset (finalizing w) = mset (w_inflight w)"
  unfolding single_flight_def
  by (metis distinct_count_atmost_1 mset_eq_setD set_eq_iff_mset_eq_distinct)

lemma without_task_frame [simp]:
  "w_db (without_task k w) = w_db w" "w_inflight (without_task k w) = w_inflight w"
  "w_faults (without_task k w) = w_faults w" "no_faults (without_task k w) = no_faults w"
  by (simp_all add: without_task_def no_faults_def)

lemma run_finalization_frame:
  "w_inflight (run_finalization cfg s i out w) = removeAll (ms_ID s) (w_inflight w)"
  "w_tasks (run_finalization cfg s i out w) = w_tasks w"
  "w_faults (run_finalization cfg s i out w) = w_faults w"
  by (simp_all add: run_finalization_def op_simps world_simps split: sum.split)

lemma unique_ids_status_call:
  "unique_ids (w_db w) \<Longrightarrow>
   unique_ids (w_db (snd (repo_call (\<lambda>db. repo_UpdateMeetingSessionStatus db u) w)))"
  using repo_call_db [of "\<lambda>db. repo_UpdateMeetingSessionStatus db u" w] by auto

lemma unique_ids_finalization:
  "unique_ids (w_db w) \<Longrightarrow> unique_ids (w_db (run_finalization cfg s i out w))"
  by (simp add: run_finalization_def op_simps unique_ids_status_call split: sum.split)

lemma sound_run_task:
  assumes "sound w" and "k < length (w_tasks w)"
  shows "sound (run_task cfg out (w_tasks w ! k) (without_task k w))"
proof (cases "w_tasks w ! k")
  case (FinalizeTask s i)
  have eq: "mset (finalizing w) = mset (ms_ID s # finalizing (without_task k w))"
    using finalizing_without [OF assms(2)] FinalizeTask by simp
  have "distinct (finalizing w)" "set (finalizing w) = set (w_inflight w)"
    "distinct (w_inflight w)"
    using assms(1) by (simp_all add: sound_def single_flight_def)
  moreover have "distinct (finalizing w) \<longleftrightarrow> distinct (ms_ID s # finalizing (without_task k w))"
    "set (finalizing w) = set (ms_ID s # finalizing (without_task k w))"
    using mset_eq_imp_distinct_iff [OF eq] mset_eq_setD [OF eq] by simp_all
  moreover have "finalizing (run_finalization cfg s i out (without_task k w)) =
      finalizing (without_task k w)"
    by (simp add: finalizing_def run_finalization_frame)
  ultimately have "single_flight (run_finalization cfg s i out (without_task k w))"
    by (auto simp: single_flight_def run_finalization_frame distinct_removeAll)
  then show ?thesis
    using assms(1) FinalizeTask
    by (simp add: sound_def run_task_def unique_ids_finalization)
next
  case (FallbackTask sid reason)
  have "sound (without_task k w)"
    using finalizing_without [OF assms(2)] FallbackTask assms(1)
    by (simp add: sound_def single_flight_mset)
  then show ?thesis
    using FallbackTask keeps_fallback [of "without_task k w" "without_task k w" cfg sid reason]
    by (simp add: run_task_def keeps_def)
qed


section \<open>Invariants of the reachable states\<close>

lemma sound_restart: "sound w \<Longrightarrow> sound (w\<lparr>w_inflight := [], w_tasks := []\<rparr>)"
  by (simp add: sound_def single_flight_def finalizing_def)

lemma sound_joins [simp]: "sound (w\<lparr>w_joins := js\<rparr>) = sound w"
  by (rule sound_cong) simp_all

lemma keepsD: "snd p = w' \<Longrightarrow> keeps w (snd p) \<Longrightarrow> sound w \<Longrightarrow> sound w'"
  by (auto simp: keeps_def)

lemma sound_pair:
  "p = (out, w') \<Longrightarrow> (keeps w w \<Longrightarrow> keeps w (snd p)) \<Longrightarrow> sound w \<Longrightarrow> sound w'"
  by (auto simp: keeps_def)

lemma step_sound: "sys_step cfg a s s' \<Longrightarrow> sound (sy_world s) \<Longrightarrow> sound (sy_world s')"
proof (induction rule: sys_step.induct)
  case (RunTask k w out ps)
  then show ?case by (simp add: sound_run_task)
qed (simp add: sound_restart; erule sound_pair; simp)+

lemma run_sound: "sys_run cfg s as s' \<Longrightarrow> sound (sy_world s) \<Longrightarrow> sound (sy_world s')"
  by (induction rule: sys_run.induct) (simp_all add: step_sound)

lemma initial_sound: "initial s \<Longrightarrow> sound (sy_world s)"
  by (simp add: initial_def sound_def single_flight_def finalizing_def)

lemma faults_pair: "p = (out, w') \<Longrightarrow> keeps w (snd p) \<Longrightarrow> no_faults w \<Longrightarrow> no_faults w'"
  by (auto simp: keeps_def no_faults_def)

lemma run_task_faults: "w_faults (run_task cfg out t w) = w_faults w"
  using keeps_fallback [of w w cfg]
  by (simp add: run_task_def run_finalization_frame keeps_def split: task.split)

lemma step_no_faults: "sys_step cfg a s s' \<Longrightarrow> no_faults (sy_world s) \<Longrightarrow> no_faults (sy_world s')"
proof (induction rule: sys_step.induct)
  case (RunTask k w out ps)
  then show ?case by (simp add: no_faults_def run_task_faults)
next
  case (Restart w ps)
  then show ?case by (simp add: no_faults_def)
next
  case (CreateSend i w created cmd w' ps)
  have "no_faults w'"
    using faults_pair [OF CreateSend.hyps keeps_create_begin [OF keeps_refl]] CreateSend.prems
    by simp
  then show ?case by (simp add: no_faults_def)
qed (simp; erule faults_pair; simp)+

text \<open>Actions that may take a terminal session \<open>i\<close> back, or away.\<close>

fun reopens :: "gostring \<Rightarrow> action \<Rightarrow> bool" where
  "reopens i (JoinReply j reply) = (j = i)"
| "reopens i (Delete j) = (trim_space j = i)"
| "reopens i _ = False"

definition settled :: "store \<Rightarrow> gostring \<Rightarrow> bool" where
  "settled db i \<longleftrightarrow> (\<exists>r. lookup db i = Some r \<and> isTerminalMeetingSessionStatus (ms_Status r))"

lemma absorbs_settled: "absorbs db db' \<Longrightarrow> settled db i \<Longrightarrow> settled db' i"
  by (auto simp: absorbs_def settled_def)

lemma settled_repo_call:
  "(settled (w_db w) i \<Longrightarrow> settled (snd (f (w_db w))) i) \<Longrightarrow> settled (w_db w) i \<Longrightarrow>
   settled (w_db (snd (repo_call f w))) i"
  using repo_call_db [of f w] by auto

lemma settled_status_other:
  "su_SessionID u \<noteq> i \<Longrightarrow> settled (w_db w) i \<Longrightarrow>
   settled (w_db (snd (repo_call (\<lambda>db. repo_UpdateMeetingSessionStatus db u) w))) i"
  by (rule settled_repo_call)
    (simp_all add: settled_def repo_UpdateMeetingSessionStatus_def lookup_update_by_id)

lemma settled_create_finish:
  "ms_ID p \<noteq> i \<Longrightarrow> settled (w_db w) i \<Longrightarrow> settled (w_db (snd (create_finish cfg p reply w))) i"
  by (simp add: create_finish_def markCommandFailed_def op_simps settled_status_other
      split: sum.split option.split)

lemma find_filter_key:
  "k \<noteq> i \<Longrightarrow> find (\<lambda>r. key r = i) (filter (\<lambda>r. key r \<noteq> k) rows) = find (\<lambda>r. key r = i) rows"
  by (induction rows) auto

lemma settled_repo_delete:
  "k \<noteq> i \<Longrightarrow> settled db i \<Longrightarrow> settled (snd (repo_DeleteMeetingSession db k)) i"
  by (simp add: settled_def repo_DeleteMeetingSession_def find_filter_key Let_def)

lemma settled_delete:
  assumes "trim_space j \<noteq> i" and "settled (w_db w) i"
  shows "settled (w_db (snd (DeleteMeetingSession j w))) i"
proof -
  have "settled (w_db (snd (repo_call (\<lambda>db. repo_DeleteMeetingSession db (trim_space j))
      (snd (repo_read (\<lambda>db. repo_GetMeetingSession db (trim_space j)) w))))) i"
    using assms by (intro settled_repo_call) (simp_all add: settled_repo_delete)
  then show ?thesis
    using assms by (simp add: DeleteMeetingSession_def op_simps split: sum.split)
qed

lemma settled_pair:
  "p = (out, w') \<Longrightarrow> absorbs (w_db w) (w_db (snd p)) \<Longrightarrow> settled (w_db w) i \<Longrightarrow> settled (w_db w') i"
  by (auto intro: absorbs_settled)

lemma absorbs_run_task:
  "no_faults w \<Longrightarrow> absorbs (w_db w) (w_db (run_task cfg out t w))"
  by (simp add: run_task_def split: task.split)

lemma step_settled:
  "sys_step cfg a s s' \<Longrightarrow> no_faults (sy_world s) \<Longrightarrow> \<not> reopens i a \<Longrightarrow>
   settled (w_db (sy_world s)) i \<Longrightarrow> settled (w_db (sy_world s')) i"
proof (induction rule: sys_step.induct)
  case (JoinReply p ps reply w out w')
  then show ?case using settled_create_finish [of p i w cfg reply] by simp
next
  case (Delete sid w out w' ps)
  then show ?case using settled_delete [of sid i w] by simp
next
  case (RunTask k w out ps)
  then show ?case
    using absorbs_settled [OF absorbs_run_task [of "without_task k w" cfg out "w_tasks w ! k"]]
    by simp
qed (simp; erule settled_pair; simp)+

lemma run_settled:
  "sys_run cfg s as s' \<Longrightarrow> no_faults (sy_world s) \<Longrightarrow> \<forall>a \<in> set as. \<not> reopens i a \<Longrightarrow>
   settled (w_db (sy_world s)) i \<Longrightarrow> settled (w_db (sy_world s')) i"
  by (induction rule: sys_run.induct) (simp_all add: step_settled step_no_faults)

section \<open>Sample worlds\<close>

text \<open>The worlds the concrete instances of the properties start from.\<close>

definition sample_store :: "MeetingSession list \<Rightarrow> store" where
  "sample_store rows = \<lparr>db_sessions = rows, db_segments = [], db_analyses = [], db_overrides = [],
     db_audits = [], db_history = [], db_before = (<)\<rparr>"

definition sample_world :: "MeetingSession list \<Rightarrow> world" where
  "sample_world rows = \<lparr>w_db = sample_store rows, w_clock = (\<lambda>n. 100 + int n), w_ticks = 0,
     w_ids = (\<lambda>n. ''new''), w_nextid = 0, w_faults = (\<lambda>n. False), w_calls = 0, w_published = [],
     w_prepared = [], w_joins = [], w_ends = [], w_inflight = [], w_tasks = []\<rparr>"

end
