(* ===== verification/SessionFacts.thy ===== *)
theory SessionFacts
  imports SessionLifecycle
begin

text \<open>
  The effect of a status report without database faults, against the abstract status machine
  \<open>next_status\<close>; what a report starts; how an accepted end request and a finalization go.  The
  sample world at the end is the one the witnesses are evaluated in.
\<close>

section \<open>Operations without database faults\<close>

lemma status_call_db:
  "no_faults w \<Longrightarrow> w_db (snd (repo_call (\<lambda>db. repo_UpdateMeetingSessionStatus db u) w)) =
     snd (repo_UpdateMeetingSessionStatus (w_db w) u)"
  by (simp add: no_faults_def repo_call_ok)

lemma status_call_fst:
  "no_faults w \<Longrightarrow> fst (repo_call (\<lambda>db. repo_UpdateMeetingSessionStatus db u) w) =
     fst (repo_UpdateMeetingSessionStatus (w_db w) u)"
  by (simp add: no_faults_def repo_call_ok)

lemma lookup_status:
  "lookup (snd (repo_UpdateMeetingSessionStatus db u)) j =
     (if j = su_SessionID u then map_option (apply_status_update u) (lookup db j) else lookup db j)"
  by (simp add: repo_UpdateMeetingSessionStatus_def lookup_update_by_id)

lemma fst_status:
  "fst (repo_UpdateMeetingSessionStatus db u) =
     (case lookup db (su_SessionID u) of None \<Rightarrow> Inl not_found
      | Some r \<Rightarrow> Inr (apply_status_update u r))"
  by (simp add: repo_UpdateMeetingSessionStatus_def fst_update_by_id)

lemma now_utc_fst [simp]: "fst (now_utc w) = w_clock w (w_ticks w)"
  by (simp add: now_utc_def)

lemma repo_read_ticks [simp]: "w_ticks (snd (repo_read f w)) = w_ticks w"
  by (simp add: repo_read_def world_simps)

lemma lookup_write_status:
  "no_faults w \<Longrightarrow> lookup (w_db (snd (write_status cfg i sid st p w))) j =
     (if j = sid
      then map_option (apply_status_update (status_update_for i sid st p (w_clock w (w_ticks w))))
             (lookup (w_db w) j)
      else lookup (w_db w) j)"
  by (simp add: write_status_def op_simps status_call_db lookup_status split: sum.split)

lemma ending_update_simps [simp]:
  "su_SessionID (ending_update i p now) = ms_ID p" "su_Status (ending_update i p now) = Ending"
  "su_Title (ending_update i p now) = []" "su_TitleSource (ending_update i p now) = []"
  by (simp_all add: ending_update_def)

lemma lookup_begin_ending:
  "no_faults w \<Longrightarrow> lookup (w_db (snd (begin_ending cfg i p w))) j =
     (if j = ms_ID p \<and> ms_Status p \<noteq> Ending
      then map_option (apply_status_update (ending_update i p (w_clock w (w_ticks w))))
             (lookup (w_db w) j)
      else lookup (w_db w) j)"
  by (simp add: begin_ending_def op_simps status_call_db lookup_status split: sum.split)

lemma unique_lookup: "unique_ids db \<Longrightarrow> r \<in> set (db_sessions db) \<Longrightarrow> lookup db (ms_ID r) = Some r"
proof -
  have "distinct (map ms_ID rows) \<Longrightarrow> r \<in> set rows \<Longrightarrow> find (\<lambda>x. ms_ID x = ms_ID r) rows = Some r" for rows
    by (induction rows) (auto simp: image_iff)
  then show "unique_ids db \<Longrightarrow> r \<in> set (db_sessions db) \<Longrightarrow> ?thesis" by (simp add: unique_ids_def)
qed

section \<open>The abstract status machine\<close>

text \<open>
  The status of a session after a report of \<open>st\<close>: \<open>observed\<close> is whether a finalizer is
  attached, \<open>ignorable\<close> whether the report is a failure that is not fatal for the meeting.
\<close>

definition next_status ::
    "bool \<Rightarrow> bool \<Rightarrow> MeetingSessionStatus \<Rightarrow> MeetingSessionStatus \<Rightarrow> MeetingSessionStatus" where
  "next_status observed ignorable old st =
     (if st = Failed \<and> ignorable \<and> isJoinedOrBeyondMeetingStatus old then old
      else if isTerminalMeetingSessionStatus old \<and> \<not> isTerminalMeetingSessionStatus st then old
      else if st = Ended \<and> observed \<and> \<not> isTerminalMeetingSessionStatus old then Ending
      else st)"

definition status_in :: "store \<Rightarrow> gostring \<Rightarrow> MeetingSessionStatus option" where
  "status_in db i = map_option ms_Status (lookup db i)"

lemma status_in_Some: "status_in db i = Some st \<longleftrightarrow> (\<exists>r. lookup db i = Some r \<and> ms_Status r = st)"
  by (auto simp: status_in_def)

definition next_row ::
    "config \<Rightarrow> MeetingSessionStatusUpdateInput \<Rightarrow> MeetingSessionStatus \<Rightarrow> MeetingSession \<Rightarrow>
     MeetingSessionStatus" where
  "next_row cfg i st r = next_status (sv_endedObserver cfg)
     (si_Status i = status_text Failed \<and> \<not> isFatalMeetingFailure i) (ms_Status r) st"

lemma report_other_rows:
  assumes "no_faults w" and "j \<noteq> trim_space (si_SessionID i)"
  shows "lookup (w_db (snd (UpdateMeetingSessionStatus cfg i w))) j = lookup (w_db w) j"
  using assms
  by (auto simp: UpdateMeetingSessionStatus_def op_simps read_ok lookup_write_status
      lookup_begin_ending dest!: get_Inr split: sum.split option.split)

lemma report_status:
  assumes nf: "no_faults w" and st: "parse_status (trim_space (si_Status i)) = Some st"
    and sid: "trim_space (si_SessionID i) = sid" "sid \<noteq> []"
    and r: "lookup (w_db w) sid = Some r"
  shows "status_in (w_db (snd (UpdateMeetingSessionStatus cfg i w))) sid = Some (next_row cfg i st r)"
proof -
  have get: "repo_GetMeetingSession (w_db w) sid = Inr r" using r by (simp add: get_lookup)
  have failed: "si_Status i = status_text Failed \<Longrightarrow> st = Failed"
    using st by (metis parse_status_text status_text_trim option.inject)
  have id: "ms_ID r = sid" using r by (rule lookup_ID)
  show ?thesis
    using st sid nf get r id failed
    by (auto simp: UpdateMeetingSessionStatus_def op_simps read_ok status_in_def lookup_write_status
        lookup_begin_ending
        next_row_def next_status_def shouldSuppressMeetingSessionFailure_def
        shouldSuppressMeetingSessionTerminalRevival_def status_classes_disjoint)
qed

section \<open>What a report returns, and what it starts\<close>

lemma report_stored:
  assumes nf: "no_faults w" and st: "parse_status (trim_space (si_Status i)) = Some st"
    and sid: "trim_space (si_SessionID i) = sid" "sid \<noteq> []"
    and r: "lookup (w_db w) sid = Some r"
  shows "\<exists>r'. fst (UpdateMeetingSessionStatus cfg i w) = Inr r' \<and>
    lookup (w_db (snd (UpdateMeetingSessionStatus cfg i w))) sid = Some r'"
proof -
  have get: "repo_GetMeetingSession (w_db w) sid = Inr r" using r by (simp add: get_lookup)
  have id: "ms_ID r = sid" using r by (rule lookup_ID)
  show ?thesis
    using st sid nf get r id
    by (auto simp: UpdateMeetingSessionStatus_def op_simps read_ok write_status_def
        begin_ending_def status_call_fst status_call_db lookup_status fst_status split: sum.split)
qed

lemma write_status_frame [simp]:
  "w_tasks (snd (write_status cfg i sid st p w)) = w_tasks w"
  "w_inflight (snd (write_status cfg i sid st p w)) = w_inflight w"
  "w_ends (publishStatusChanged cfg s w) = w_ends w"
  by (simp_all add: write_status_def op_simps world_simps publishStatusChanged_def split: sum.split)

lemma report_no_task:
  assumes "parse_status (trim_space (si_Status i)) = Some st" and "st \<noteq> Ended"
  shows "w_tasks (snd (UpdateMeetingSessionStatus cfg i w)) = w_tasks w \<and>
    w_inflight (snd (UpdateMeetingSessionStatus cfg i w)) = w_inflight w"
  using assms by (simp add: UpdateMeetingSessionStatus_def op_simps world_simps split: sum.split)

lemma end_update_simps [simp]:
  "si_SessionID (end_update p st m re so) = ms_ID p" "si_Status (end_update p st m re so) = status_text st"
  by (simp_all add: end_update_def)

text \<open>A session in \<open>ending\<close> that is reported \<open>ended\<close> gets its finalizer.\<close>

lemma report_ended_starts:
  assumes nf: "no_faults w" and st: "trim_space (si_Status i) = status_text Ended"
    and sid: "trim_space (si_SessionID i) = sid" "sid \<noteq> []"
    and r: "lookup (w_db w) sid = Some r" "ms_Status r = Ending"
    and obs: "sv_endedObserver cfg" and free: "sid \<notin> set (w_inflight w)"
  shows "w_tasks (snd (UpdateMeetingSessionStatus cfg i w)) = w_tasks w @ [FinalizeTask r i] \<and>
    w_db (snd (UpdateMeetingSessionStatus cfg i w)) = w_db w \<and>
    w_inflight (snd (UpdateMeetingSessionStatus cfg i w)) = sid # w_inflight w"
proof -
  have get: "repo_GetMeetingSession (w_db w) sid = Inr r" using r by (simp add: get_lookup)
  have id: "ms_ID r = sid" using r(1) by (rule lookup_ID)
  have "si_Status i \<noteq> status_text Failed" using st status_text_trim [of Failed] by auto
  then show ?thesis
    using assms get id parse_status_text [of Ended]
    by (simp add: UpdateMeetingSessionStatus_def op_simps read_ok begin_ending_def world_simps
        shouldSuppressMeetingSessionFailure_def shouldSuppressMeetingSessionTerminalRevival_def
        startMeetingSessionFinalization_def)
qed

lemma fallback_starts:
  assumes nf: "no_faults w" and sid: "trim_space sid = sid" "sid \<noteq> []"
    and r: "lookup (w_db w) sid = Some r" "ms_Status r = Ending"
    and obs: "sv_endedObserver cfg" and free: "sid \<notin> set (w_inflight w)"
  obtains i where
    "w_tasks (finalizeAfterFallback cfg sid reason w) = w_tasks w @ [FinalizeTask r i]"
    "w_db (finalizeAfterFallback cfg sid reason w) = w_db w"
    "w_inflight (finalizeAfterFallback cfg sid reason w) = sid # w_inflight w"
    "no_faults (finalizeAfterFallback cfg sid reason w)"
proof -
  let ?w1 = "snd (repo_read (\<lambda>db. repo_GetMeetingSession db sid) w)"
  let ?i = "\<lparr>si_SessionID = sid, si_Status = status_text Ended, si_BotCallID = ms_BotCallID r,
    si_Message = ''bot drain acknowledgement timeout'', si_Reason = reason,
    si_ErrorCode = [], si_Source = ''finalization_fallback'', si_Title = [],
    si_TitleSource = [], si_BotLastForwardedFinalSequence = 0, si_TranscriptQueueDrained = False\<rparr>"
  have "finalizeAfterFallback cfg sid reason w = snd (UpdateMeetingSessionStatus cfg ?i ?w1)"
    using nf r by (simp add: finalizeAfterFallback_def op_simps read_ok get_lookup)
  moreover have "trim_space (si_Status ?i) = status_text Ended"
    using status_text_trim [of Ended] by simp
  ultimately show ?thesis
    using report_ended_starts [of ?w1 ?i sid r cfg] assms
    by (intro that [of ?i]) (simp_all add: world_simps del: status_text.simps)
qed

lemma finalization_ends:
  "no_faults w \<Longrightarrow> lookup (w_db w) (ms_ID s) = Some r \<Longrightarrow>
   status_in (w_db (run_finalization cfg s i out w)) (ms_ID s) = Some Ended"
  by (simp add: run_finalization_def op_simps status_call_db lookup_status status_in_def
      split: sum.split)

lemma end_accepted:
  assumes nf: "no_faults w" and sid: "trim_space (ei_SessionID e) = sid" "sid \<noteq> []"
    and r: "lookup (w_db w) sid = Some r" "\<not> isTerminalMeetingSessionStatus (ms_Status r)"
    and cmd: "sv_commander cfg = Some c" "\<And>n m. cmd_end c n m = None"
    and obs: "sv_endedObserver cfg"
  obtains reason ending where
    "status_in (w_db (snd (EndMeetingSession cfg e w))) sid = Some Ending"
    "fst (EndMeetingSession cfg e w) = Inr ending"
    "w_tasks (snd (EndMeetingSession cfg e w)) = w_tasks w @ [FallbackTask sid reason]"
    "w_inflight (snd (EndMeetingSession cfg e w)) = w_inflight w"
    "no_faults (snd (EndMeetingSession cfg e w))"
proof -
  define reason where "reason = (if trim_space (ei_Reason e) = [] then ''manual_end_requested''
    else trim_space (ei_Reason e))"
  define w1 where "w1 = snd (repo_read (\<lambda>db. repo_GetMeetingSession db sid) w)"
  define i where "i = end_update r Ending reason reason ''frontend_manual_end''"
  let ?u = "UpdateMeetingSessionStatus cfg i w1"
  have id: "ms_ID r = sid" using r(1) by (rule lookup_ID)
  have ts: "trim_space sid = sid" using sid(1) by (metis trim_space_idem)
  have i: "trim_space (si_SessionID i) = sid" "parse_status (trim_space (si_Status i)) = Some Ending"
    "\<not> (si_Status i = status_text Failed)"
    by (simp_all add: i_def id ts del: status_text.simps) simp
  have nf1: "no_faults w1" and db1: "lookup (w_db w1) sid = Some r"
    using nf r(1) by (simp_all add: w1_def)
  obtain r' where r': "fst ?u = Inr r'" "lookup (w_db (snd ?u)) sid = Some r'"
    using report_stored [OF nf1 i(2,1) sid(2) db1] by blast
  have st: "status_in (w_db (snd ?u)) sid = Some Ending"
    using report_status [OF nf1 i(2,1) sid(2) db1, of cfg] i(3) r(2)
    by (simp add: next_row_def next_status_def)
  have tasks: "w_tasks (snd ?u) = w_tasks w" "w_inflight (snd ?u) = w_inflight w"
    using report_no_task [OF i(2), of cfg w1] by (simp_all add: w1_def world_simps)
  have get: "fst (repo_read (\<lambda>db. repo_GetMeetingSession db sid) w) = Inr r"
    using nf r(1) by (simp add: read_ok get_lookup)
  have eq: "EndMeetingSession cfg e w = (Inr r', (snd ?u)\<lparr>
      w_ends := w_ends (snd ?u) @ [\<lparr>be_SessionID = ms_ID r, be_BotCallID = ms_BotCallID r,
        be_Reason = reason\<rparr>],
      w_tasks := w_tasks (snd ?u) @ [FallbackTask sid reason]\<rparr>)"
    using sid r cmd obs get r'(1)
    unfolding EndMeetingSession_def i_def w1_def reason_def
    by (simp add: op_simps id del: status_text.simps)
  have "no_faults (snd ?u)" using nf1 by simp
  then show ?thesis
    using st tasks by (intro that [of r' reason]) (simp_all add: eq no_faults_def)
qed

section \<open>A concrete world\<close>

definition sample_session :: "gostring \<Rightarrow> MeetingSessionStatus \<Rightarrow> MeetingSession" where
  "sample_session i st =
     \<lparr>ms_ID = i, ms_WorkspaceID = ''w1'', ms_CreatedByUserID = ''u1'', ms_MeetingID = [],
      ms_JoinURL = ''url'', ms_JoinURLHash = ''hash'', ms_Title = ''Weekly'',
      ms_TitleSource = ''user_input'', ms_TitleUpdatedAt = 5, ms_UserProvidedTitle = ''Weekly'',
      ms_GraphTitle = [], ms_Provider = ''teams'', ms_ExternalMeetingID = [], ms_JoinMeetingID = [],
      ms_JoinWebURL = ''url'', ms_CanonicalJoinWebURL = ''url'', ms_ThreadID = [],
      ms_OrganizerID = [], ms_OrganizerName = [], ms_OrganizerEmail = [], ms_ScheduledStartAt = 0,
      ms_ScheduledEndAt = 0, ms_TitleResolutionErrorCode = [],
      ms_TitleResolutionErrorMessage = [], ms_TitleResolvedAt = 0, ms_Purpose = [],
      ms_Context = [], ms_Agenda = [], ms_DecisionPoints = [], ms_Concerns = [],
      ms_ExpectedOutput = [], ms_CustomInstruction = [], ms_Status = st, ms_BotCallID = ''call'',
      ms_RequestedAt = 5, ms_CommandSentAt = 6, ms_JoinedAt = 7, ms_EndedAt = 0,
      ms_EndReason = [], ms_LastBotStatusAt = 8, ms_LastError = [], ms_CreatedAt = 5,
      ms_UpdatedAt = 8\<rparr>"

definition sample_url :: gostring where
  "sample_url = ''https://teams.microsoft.com/meet/1''"

definition sample_lib :: golib where
  "sample_lib =
     \<lparr>url_parse = (\<lambda>s. if s = sample_url
        then Some \<lparr>up_Scheme = ''https'', up_Opaque = [], up_User = [],
          up_Host = ''teams.microsoft.com'', up_Path = ''/meet/1'', up_RawPath = [],
          up_ForceQuery = False, up_RawQuery = [], up_Fragment = [], up_RawFragment = []\<rparr>
        else None),
      url_Hostname = up_Host, url_Port = (\<lambda>u. []), url_EscapedPath = up_Path,
      url_String = (\<lambda>u. up_Scheme u @ ''://'' @ up_Host u @ up_Path u),
      path_unescape = Some, sha256_hex = (\<lambda>s. s), parse_rfc3339nano = (\<lambda>s. None),
      parse_rfc3339 = (\<lambda>s. None)\<rparr>"

definition sample_config :: config where
  "sample_config = \<lparr>sv_lib = sample_lib,
     sv_commander = Some \<lparr>cmd_join = (\<lambda>n c. None), cmd_end = (\<lambda>n c. None)\<rparr>,
     sv_publisher = True, sv_endedObserver = True, sv_preparingObserver = True\<rparr>"

definition sample_report :: "gostring \<Rightarrow> gostring \<Rightarrow> MeetingSessionStatusUpdateInput" where
  "sample_report i st = \<lparr>si_SessionID = i, si_Status = st, si_BotCallID = [], si_Message = [],
     si_Reason = [], si_ErrorCode = [], si_Source = [], si_Title = ''Bot title'',
     si_TitleSource = ''graph_online_meeting'', si_BotLastForwardedFinalSequence = 0,
     si_TranscriptQueueDrained = False\<rparr>"

lemmas sample_simps = sample_session_def sample_store_def sample_world_def sample_config_def
  sample_report_def

lemma sample_world_ok [simp]:
  "no_faults (sample_world rows)" "w_db (sample_world rows) = sample_store rows"
  "db_sessions (sample_store rows) = rows" "w_tasks (sample_world rows) = []"
  "w_inflight (sample_world rows) = []" "w_published (sample_world rows) = []"
  by (simp_all add: sample_world_def sample_store_def no_faults_def)

lemma sample_session_ok [simp]:
  "ms_ID (sample_session i st) = i" "ms_Status (sample_session i st) = st"
  by (simp_all add: sample_session_def)

lemma trim_samples [simp]:
  "trim_space ''s1'' = ''s1''" "trim_space ''s2'' = ''s2''" "trim_space ''recording'' = ''recording''"
  by code_simp+

end
