(* ===== verification/SessionClaims.thy ===== *)
theory SessionClaims
  imports SessionFacts
begin

text \<open>
  What the meeting-session service promises: the effect of each operation on the tables, stated
  against the abstract status machine \<open>next_status\<close>, and the properties of its runs.  Each
  property with a hypothesis is applied at a concrete world (\<open>sample_world\<close>).
\<close>

section \<open>Status reports\<close>

text \<open>Two stores that differ in the rows of one session at most.\<close>

definition same_but :: "gostring \<Rightarrow> store \<Rightarrow> store \<Rightarrow> bool" where
  "same_but i db db' \<longleftrightarrow>
     filter (\<lambda>x. ms_ID x \<noteq> i) (db_sessions db') = filter (\<lambda>x. ms_ID x \<noteq> i) (db_sessions db) \<and>
     db'\<lparr>db_sessions := []\<rparr> = db\<lparr>db_sessions := []\<rparr>"

lemma same_but_refl [simp]: "same_but i db db"
  by (simp add: same_but_def)

lemma filter_update_where:
  "(\<And>r. p r \<Longrightarrow> \<not> Q r \<and> \<not> Q (f r)) \<Longrightarrow> filter Q (update_where p f rows) = filter Q rows"
  by (induction rows) auto

lemma same_but_status: "same_but (su_SessionID u) db (snd (repo_UpdateMeetingSessionStatus db u))"
  by (auto simp: same_but_def repo_UpdateMeetingSessionStatus_def update_by_id_def Let_def
      intro!: filter_update_where split: option.split)

lemma same_but_call:
  "same_but (su_SessionID u) (w_db w) (w_db (snd (repo_call (\<lambda>db. repo_UpdateMeetingSessionStatus db u) w)))"
  using repo_call_db [of "\<lambda>db. repo_UpdateMeetingSessionStatus db u" w] same_but_status by auto

lemma same_but_write: "same_but sid (w_db w) (w_db (snd (write_status cfg i sid st p w)))"
  using same_but_call [of "status_update_for i sid st p (w_clock w (w_ticks w))" "snd (now_utc w)"]
  by (simp add: write_status_def op_simps split: sum.split)

lemma same_but_ending: "same_but (ms_ID p) (w_db w) (w_db (snd (begin_ending cfg i p w)))"
  using same_but_call [of "ending_update i p (w_clock w (w_ticks w))" "snd (now_utc w)"]
  by (simp add: begin_ending_def op_simps split: sum.split)

lemma report_frame:
  assumes "no_faults w"
  shows "same_but (trim_space (si_SessionID i)) (w_db w) (w_db (snd (UpdateMeetingSessionStatus cfg i w)))"
proof -
  let ?w = "snd (repo_read (\<lambda>db. repo_GetMeetingSession db (trim_space (si_SessionID i))) w)"
  have ending: "same_but (trim_space (si_SessionID i)) (w_db w) (w_db (snd (begin_ending cfg i p ?w)))"
    if "ms_ID p = trim_space (si_SessionID i)" for p
    using same_but_ending [where w = ?w and cfg = cfg and i = i and p = p] that by simp
  have other: "same_but (trim_space (si_SessionID i)) (w_db w)
      (w_db (snd (write_status cfg i (trim_space (si_SessionID i)) st p ?w)))" for st p
    using same_but_write [where w = ?w] by simp
  show ?thesis
    using assms
    by (auto simp: UpdateMeetingSessionStatus_def op_simps read_ok ending other dest!: get_Inr
        split: sum.split option.split)
qed

text \<open>C3: Without database faults a status report moves the reported session along the abstract status
  machine, and leaves every other session row, column by column, and the tables of segments, analyses, overrides,
  audits and histories as they were.\<close>

theorem report_refines_next_status:
  assumes "no_faults w" and "parse_status (trim_space (si_Status i)) = Some st"
    and "trim_space (si_SessionID i) \<noteq> []"
    and "lookup (w_db w) (trim_space (si_SessionID i)) = Some r"
  shows "status_in (w_db (snd (UpdateMeetingSessionStatus cfg i w))) (trim_space (si_SessionID i)) =
      Some (next_status (sv_endedObserver cfg)
        (si_Status i = status_text Failed \<and> \<not> isFatalMeetingFailure i) (ms_Status r) st) \<and>
    filter (\<lambda>x. ms_ID x \<noteq> trim_space (si_SessionID i))
        (db_sessions (w_db (snd (UpdateMeetingSessionStatus cfg i w)))) =
      filter (\<lambda>x. ms_ID x \<noteq> trim_space (si_SessionID i)) (db_sessions (w_db w)) \<and>
    (w_db (snd (UpdateMeetingSessionStatus cfg i w)))\<lparr>db_sessions := []\<rparr> = (w_db w)\<lparr>db_sessions := []\<rparr>"
  using report_status [OF assms(1,2) refl assms(3,4), of cfg] report_frame [OF assms(1), where cfg = cfg and i = i]
  by (simp add: next_row_def same_but_def)

theorem report_refines_next_status_witness:
  "\<exists>w. lookup (w_db w) ''s1'' = Some (sample_session ''s1'' Active) \<and>
    status_in (w_db (snd (UpdateMeetingSessionStatus sample_config (sample_report ''s1'' ''recording'') w)))
      ''s1'' = Some Recording"
proof -
  let ?w = "sample_world [sample_session ''s1'' Active]"
  have "parse_status ''recording'' = Some Recording" by code_simp
  then have "status_in (w_db (snd (UpdateMeetingSessionStatus sample_config
      (sample_report ''s1'' ''recording'') ?w))) ''s1'' = Some Recording"
    using report_refines_next_status [of ?w "sample_report ''s1'' ''recording''" Recording
      "sample_session ''s1'' Active" sample_config]
    by (simp add: sample_report_def next_status_def)
  then show ?thesis by (intro exI [of _ ?w]) simp
qed

text \<open>C2: at every moment the map of finalizations in flight is exactly the set of running
  finalizers, there is at most one per session, and session ids are unique.\<close>

theorem one_finalizer_per_session:
  assumes "initial s" and "sys_run cfg s as s'"
  shows "distinct (finalizing (sy_world s')) \<and>
    set (finalizing (sy_world s')) = set (w_inflight (sy_world s')) \<and>
    unique_ids (w_db (sy_world s'))"
  using run_sound [OF assms(2) initial_sound [OF assms(1)]]
  by (simp add: sound_def single_flight_def)

theorem one_finalizer_per_session_witness:
  "\<exists>s s'. initial s \<and> sys_run sample_config s
       [Report (sample_report ''s1'' ''ended''), Report (sample_report ''s1'' ''ended'')] s' \<and>
     distinct (finalizing (sy_world s'))"
proof -
  let ?s = "\<lparr>sy_world = sample_world [sample_session ''s1'' Ended], sy_pending = []\<rparr>"
  obtain s' where run: "sys_run sample_config ?s
      [Report (sample_report ''s1'' ''ended''), Report (sample_report ''s1'' ''ended'')] s'"
    using run_Cons [OF step_ReportI run_Cons [OF step_ReportI run_Nil]] by blast
  have "initial ?s" by (simp add: initial_def unique_ids_def)
  with one_finalizer_per_session [OF this run] run show ?thesis by blast
qed


section \<open>Ending a session\<close>

text \<open>C4: when the bot accepts the end command, the end request, the fallback timer and the
  finalizer it starts, whatever its outcome, lead the session to \<open>ended\<close> and free its slot.\<close>

theorem end_request_completes:
  assumes "no_faults w" and "trim_space (ei_SessionID e) \<noteq> []"
    and "lookup (w_db w) (trim_space (ei_SessionID e)) = Some r"
    and "\<not> isTerminalMeetingSessionStatus (ms_Status r)"
    and "sv_commander cfg = Some c" and "\<And>n m. cmd_end c n m = None"
    and "sv_endedObserver cfg" and "trim_space (ei_SessionID e) \<notin> set (w_inflight w)"
  shows "\<exists>s'. sys_run cfg \<lparr>sy_world = w, sy_pending = ps\<rparr>
      [EndRequest e, RunTask (length (w_tasks w)) None, RunTask (length (w_tasks w)) out] s' \<and>
    status_in (w_db (sy_world s')) (trim_space (ei_SessionID e)) = Some Ended \<and>
    trim_space (ei_SessionID e) \<notin> set (w_inflight (sy_world s'))"
proof -
  let ?sid = "trim_space (ei_SessionID e)" and ?k = "length (w_tasks w)"
  let ?w1 = "snd (EndMeetingSession cfg e w)"
  obtain reason ending where w1: "status_in (w_db ?w1) ?sid = Some Ending"
    "w_tasks ?w1 = w_tasks w @ [FallbackTask ?sid reason]" "w_inflight ?w1 = w_inflight w"
    "no_faults ?w1"
    using end_accepted [OF assms(1) refl assms(2-7)] by metis
  from w1(1) obtain r1 where r1: "lookup (w_db ?w1) ?sid = Some r1" "ms_Status r1 = Ending"
    by (auto simp: status_in_Some)
  let ?w2 = "run_task cfg None (w_tasks ?w1 ! ?k) (without_task ?k ?w1)"
  obtain i where w2: "w_tasks ?w2 = w_tasks w @ [FinalizeTask r1 i]" "w_db ?w2 = w_db ?w1"
    "w_inflight ?w2 = ?sid # w_inflight w" "no_faults ?w2"
    using fallback_starts [of "without_task ?k ?w1" ?sid r1 cfg reason] assms r1 w1
    by (auto simp: run_task_def nth_append without_task_def no_faults_def)
  let ?w3 = "run_task cfg out (w_tasks ?w2 ! ?k) (without_task ?k ?w2)"
  have id: "ms_ID r1 = ?sid" using r1(1) by (rule lookup_ID)
  have "status_in (w_db ?w3) ?sid = Some Ended"
    using finalization_ends [of "without_task ?k ?w2" r1 r1 cfg i out] w2 r1 id
    by (simp add: run_task_def nth_append)
  moreover have "?sid \<notin> set (w_inflight ?w3)"
    using w2 id by (simp add: run_task_def nth_append run_finalization_frame)
  moreover have "sys_run cfg \<lparr>sy_world = w, sy_pending = ps\<rparr>
      [EndRequest e, RunTask ?k None, RunTask ?k out] \<lparr>sy_world = ?w3, sy_pending = ps\<rparr>"
    using run_Cons [OF step_EndRequestI [of cfg e "\<lparr>sy_world = w, sy_pending = ps\<rparr>"]
      run_Cons [OF step_RunTaskI [of ?k _ cfg None]
        run_Cons [OF step_RunTaskI [of ?k _ cfg out] run_Nil]]] w1 w2
    by simp
  ultimately show ?thesis by (intro exI [of _ "\<lparr>sy_world = ?w3, sy_pending = ps\<rparr>"]) simp
qed

theorem end_request_completes_witness:
  "\<exists>s'. sys_run sample_config
      \<lparr>sy_world = sample_world [sample_session ''s1'' Active], sy_pending = []\<rparr>
      [EndRequest \<lparr>ei_SessionID = ''s1'', ei_Reason = []\<rparr>, RunTask 0 None, RunTask 0 (Some ''x'')] s' \<and>
    status_in (w_db (sy_world s')) ''s1'' = Some Ended"
  using end_request_completes [of "sample_world [sample_session ''s1'' Active]"
      "\<lparr>ei_SessionID = ''s1'', ei_Reason = []\<rparr>" "sample_session ''s1'' Active" sample_config _ "[]" "Some ''x''"]
  by (auto simp: sample_config_def)

section \<open>Where the lifecycle leaks\<close>

text \<open>The answer to a join command is written whatever has happened to the session since the
  command was sent: an accepted command takes a terminal session back to \<open>joining\<close>.\<close>

theorem late_join_reply_revives:
  assumes "no_faults w" and "lookup (w_db w) (ms_ID created) = Some r"
  shows "status_in (w_db (snd (create_finish cfg created None w))) (ms_ID created) = Some Joining"
  using assms
  by (simp add: create_finish_def op_simps status_call_db lookup_status status_in_def
      split: sum.split)

theorem late_join_reply_revives_witness:
  "settled (w_db (sample_world [sample_session ''s1'' Ended])) ''s1'' \<and>
   status_in (w_db (snd (create_finish sample_config (sample_session ''s1'' Requested) None
     (sample_world [sample_session ''s1'' Ended])))) ''s1'' = Some Joining"
  using late_join_reply_revives [of "sample_world [sample_session ''s1'' Ended]"
      "sample_session ''s1'' Requested" "sample_session ''s1'' Ended" sample_config]
  by (simp add: settled_def)

text \<open>A report that reaches the server after the end request (\<open>ending\<close>) takes the session
  back to the reported status, and the fallback timer of the end request then does nothing.\<close>

theorem late_report_cancels_ending:
  assumes "no_faults w" and "trim_space (si_SessionID i) = sid" and "sid \<noteq> []"
    and "parse_status (trim_space (si_Status i)) = Some st"
    and "lookup (w_db w) sid = Some r" and "ms_Status r = Ending"
    and "IsReusableMeetingSessionStatus st"
  shows "status_in (w_db (snd (UpdateMeetingSessionStatus cfg i w))) sid = Some st \<and>
    w_db (finalizeAfterFallback cfg sid reason (snd (UpdateMeetingSessionStatus cfg i w))) =
      w_db (snd (UpdateMeetingSessionStatus cfg i w)) \<and>
    w_tasks (finalizeAfterFallback cfg sid reason (snd (UpdateMeetingSessionStatus cfg i w))) =
      w_tasks w"
proof -
  let ?w1 = "snd (UpdateMeetingSessionStatus cfg i w)"
  have st: "st \<notin> {Failed, Ended, Stale, Ending}"
    using assms(7) by (auto simp: status_partition)
  have "status_in (w_db ?w1) sid = Some st"
    using report_status [OF assms(1,4,2,3,5), of cfg] st assms(6)
    by (simp add: next_row_def next_status_def)
  moreover have "w_tasks ?w1 = w_tasks w" using report_no_task [OF assms(4)] st by simp
  moreover have "no_faults ?w1" using assms(1) by simp
  ultimately show ?thesis
    using st by (auto simp: finalizeAfterFallback_def op_simps read_ok get_lookup world_simps
        status_in_def)
qed

theorem late_report_cancels_ending_witness:
  "status_in (w_db (snd (UpdateMeetingSessionStatus sample_config (sample_report ''s1'' ''recording'')
     (sample_world [sample_session ''s1'' Ending])))) ''s1'' = Some Recording"
proof -
  have "parse_status ''recording'' = Some Recording" by code_simp
  then show ?thesis
    using late_report_cancels_ending [of "sample_world [sample_session ''s1'' Ending]"
        "sample_report ''s1'' ''recording''" "''s1''" Recording "sample_session ''s1'' Ending"
        sample_config]
    by (simp add: sample_report_def status_partition)
qed

text \<open>When the read of the previous state fails and the write succeeds, a report is written
  without any guard: a terminal session takes whatever status is reported.\<close>

theorem read_fault_skips_guards:
  assumes "w_faults w (w_calls w)" and "\<not> w_faults w (Suc (w_calls w))"
    and "trim_space (si_SessionID i) \<noteq> []"
    and "parse_status (trim_space (si_Status i)) = Some st"
    and "lookup (w_db w) (trim_space (si_SessionID i)) = Some r"
  shows "status_in (w_db (snd (UpdateMeetingSessionStatus cfg i w))) (trim_space (si_SessionID i)) =
    Some st"
proof -
  have "repo_read (\<lambda>db. repo_GetMeetingSession db (trim_space (si_SessionID i))) w =
      (Inl ErrDatabase, w\<lparr>w_calls := Suc (w_calls w)\<rparr>)"
    using assms(1) by (simp add: repo_read_def repo_call_fault)
  then show ?thesis
    using assms
    by (simp add: UpdateMeetingSessionStatus_def write_status_def op_simps now_utc_def repo_call_ok
        status_in_def lookup_status split: sum.split)
qed

theorem read_fault_skips_guards_witness:
  "status_in (w_db (snd (UpdateMeetingSessionStatus sample_config (sample_report ''s1'' ''recording'')
     ((sample_world [sample_session ''s1'' Ended])\<lparr>w_faults := (\<lambda>n. n = 0)\<rparr>)))) ''s1'' = Some Recording"
proof -
  have "parse_status ''recording'' = Some Recording" by code_simp
  then show ?thesis
    using read_fault_skips_guards [of "(sample_world [sample_session ''s1'' Ended])\<lparr>w_faults := (\<lambda>n. n = 0)\<rparr>"
        "sample_report ''s1'' ''recording''" Recording "sample_session ''s1'' Ended" sample_config]
    by (simp add: sample_report_def) (simp add: sample_world_def sample_store_def)
qed

text \<open>A non-fatal failure report of a running meeting changes nothing and publishes nothing.\<close>

theorem nonfatal_failure_is_ignored:
  assumes "no_faults w" and "trim_space (si_SessionID i) \<noteq> []" and "si_Status i = status_text Failed"
    and "\<not> isFatalMeetingFailure i" and "lookup (w_db w) (trim_space (si_SessionID i)) = Some r"
    and "isJoinedOrBeyondMeetingStatus (ms_Status r)"
  shows "fst (UpdateMeetingSessionStatus cfg i w) = Inr r \<and>
    w_db (snd (UpdateMeetingSessionStatus cfg i w)) = w_db w \<and>
    w_published (snd (UpdateMeetingSessionStatus cfg i w)) = w_published w \<and>
    w_tasks (snd (UpdateMeetingSessionStatus cfg i w)) = w_tasks w"
  using assms parse_status_text [of Failed]
  by (simp add: UpdateMeetingSessionStatus_def op_simps read_ok get_lookup world_simps
      shouldSuppressMeetingSessionFailure_def status_text_trim [of Failed, simplified])

theorem nonfatal_failure_is_ignored_witness:
  "w_db (snd (UpdateMeetingSessionStatus sample_config
     ((sample_report ''s1'' ''failed'')\<lparr>si_Reason := ''speech recognizer fatal''\<rparr>)
     (sample_world [sample_session ''s1'' Active]))) = sample_store [sample_session ''s1'' Active]"
proof -
  let ?i = "(sample_report ''s1'' ''failed'')\<lparr>si_Reason := ''speech recognizer fatal''\<rparr>"
  have "\<not> isFatalMeetingFailure ?i" by code_simp
  then show ?thesis
    using nonfatal_failure_is_ignored [of "sample_world [sample_session ''s1'' Active]" ?i
        "sample_session ''s1'' Active" sample_config]
    by (simp add: sample_report_def isJoinedOrBeyondMeetingStatus_def)
qed

text \<open>The suppression compares the untrimmed status, the update the trimmed one: a failure
  report with a blank around \<open>failed\<close> ends a running meeting even when it is not fatal.\<close>

theorem padded_failure_is_not_ignored:
  assumes "no_faults w" and "trim_space (si_SessionID i) \<noteq> []"
    and "trim_space (si_Status i) = status_text Failed" and "si_Status i \<noteq> status_text Failed"
    and "lookup (w_db w) (trim_space (si_SessionID i)) = Some r"
  shows "status_in (w_db (snd (UpdateMeetingSessionStatus cfg i w))) (trim_space (si_SessionID i)) =
    Some Failed"
proof -
  have "parse_status (trim_space (si_Status i)) = Some Failed"
    using assms(3) parse_status_text [of Failed] by simp
  from report_status [OF assms(1) this refl assms(2,5), of cfg] assms(4) show ?thesis
    by (simp add: next_row_def next_status_def)
qed

theorem padded_failure_is_not_ignored_witness:
  "\<not> isFatalMeetingFailure (sample_report ''s1'' ''failed '') \<and>
   status_in (w_db (snd (UpdateMeetingSessionStatus sample_config (sample_report ''s1'' ''failed '')
     (sample_world [sample_session ''s1'' Active])))) ''s1'' = Some Failed"
proof -
  have "\<not> isFatalMeetingFailure (sample_report ''s1'' ''failed '')" by code_simp
  moreover have "trim_space ''failed '' = ''failed''" by code_simp
  ultimately show ?thesis
    using padded_failure_is_not_ignored [of "sample_world [sample_session ''s1'' Active]"
        "sample_report ''s1'' ''failed ''" "sample_session ''s1'' Active" sample_config]
    by (simp add: sample_report_def)
qed

section \<open>Titles\<close>

lemma rank_trim [simp]: "meetingSessionTitleSourceRank (trim_space v) = meetingSessionTitleSourceRank v"
  by (simp add: meetingSessionTitleSourceRank_def isGraphMeetingTitleSource_def)

lemma rank_le: "meetingSessionTitleSourceRank v \<le> 4"
  by (simp add: meetingSessionTitleSourceRank_def)

lemma decide_keeps_user_title:
  assumes "meetingSessionTitleSourceRank (ms_TitleSource r) = 4"
    and "meetingSessionTitleSourceRank src \<noteq> 4"
  shows "\<not> ApplyTitle (decideMeetingSessionTitleUpdate (Some r) title src)"
proof -
  have "meetingSessionTitleSourceRank src < 4" using rank_le [of src] assms(2) by simp
  then show ?thesis using assms(1) by (simp add: decideMeetingSessionTitleUpdate_def Let_def)
qed

lemma status_update_title:
  "\<not> ApplyTitle (decideMeetingSessionTitleUpdate p (trim_space (si_Title i))
     (normalizeMeetingSessionTitleSource (si_TitleSource i) (si_Title i))) \<Longrightarrow>
   su_Title (status_update_for i sid st p now) = [] \<and> su_TitleSource (status_update_for i sid st p now) = []"
  by (simp add: status_update_for_def Let_def)

lemma apply_status_title:
  "su_Title u = [] \<Longrightarrow> su_TitleSource u = [] \<Longrightarrow>
   ms_Title (apply_status_update u r) = ms_Title r \<and>
   ms_TitleSource (apply_status_update u r) = ms_TitleSource r"
  by (simp add: apply_status_update_def keep_or_def)

lemma metadata_call_db:
  "no_faults w \<Longrightarrow> w_db (snd (repo_call (\<lambda>db. repo_UpdateMeetingSessionMetadata db u) w)) =
     snd (repo_UpdateMeetingSessionMetadata (w_db w) u)"
  by (simp add: no_faults_def repo_call_ok)

lemma lookup_metadata:
  "lookup (snd (repo_UpdateMeetingSessionMetadata db u)) j =
     (if j = mu_SessionID u then map_option (apply_metadata_update u) (lookup db j) else lookup db j)"
  by (simp add: repo_UpdateMeetingSessionMetadata_def lookup_update_by_id)

text \<open>A title the user gave is kept by every status report and metadata update whose title
  source is not the user's.\<close>

theorem user_title_is_kept:
  assumes "no_faults w" and "lookup (w_db w) sid = Some r"
    and "meetingSessionTitleSourceRank (ms_TitleSource r) = 4"
    and "trim_space (si_SessionID i) = sid" and "trim_space (mi_SessionID m) = sid"
    and "meetingSessionTitleSourceRank
      (normalizeMeetingSessionTitleSource (si_TitleSource i) (si_Title i)) \<noteq> 4"
    and "meetingSessionTitleSourceRank
      (normalizeMeetingSessionTitleSource (mi_TitleSource m) (mi_Title m)) \<noteq> 4"
  shows "map_option ms_Title (lookup (w_db (snd (UpdateMeetingSessionStatus cfg i w))) sid) =
      Some (ms_Title r) \<and>
    map_option ms_Title (lookup (w_db (snd (UpdateMeetingSessionMetadata cfg m w))) sid) =
      Some (ms_Title r)"
proof
  have get: "repo_GetMeetingSession (w_db w) sid = Inr r" using assms(2) by (simp add: get_lookup)
  note keep = decide_keeps_user_title [OF assms(3)]
  show "map_option ms_Title (lookup (w_db (snd (UpdateMeetingSessionStatus cfg i w))) sid) =
      Some (ms_Title r)"
    using assms(1,2,4) get status_update_title [OF keep [OF assms(6)]]
    by (auto simp: UpdateMeetingSessionStatus_def op_simps read_ok lookup_write_status
        lookup_begin_ending apply_status_title split: option.split)
  have "mu_Title (metadata_update_for m sid (Some r) a b c t) = []" for a b c t
    using keep [OF assms(7)] by (simp add: metadata_update_for_def Let_def)
  then have "ms_Title (apply_metadata_update (metadata_update_for m sid (Some r) a b c t) r) =
      ms_Title r" for a b c t
    by (simp add: apply_metadata_update_def keep_or_def)
  moreover have "mu_SessionID (metadata_update_for m sid (Some r) a b c t) = sid" for a b c t
    by (simp add: metadata_update_for_def Let_def)
  ultimately show "map_option ms_Title (lookup (w_db (snd (UpdateMeetingSessionMetadata cfg m w))) sid) =
      Some (ms_Title r)"
    using assms(1,2,5) get
    by (auto simp: UpdateMeetingSessionMetadata_def op_simps read_ok metadata_call_db
        lookup_metadata split: sum.split)
qed

definition sample_metadata :: MeetingSessionMetadataUpdateInput where
  "sample_metadata = \<lparr>mi_SessionID = ''s1'', mi_Title = ''Graph title'', mi_TitleSource = ''graph_calendar_event'',
     mi_UserProvidedTitle = [], mi_GraphTitle = [], mi_Provider = [], mi_ExternalMeetingID = [],
     mi_JoinMeetingID = [], mi_JoinWebURL = [], mi_CanonicalJoinWebURL = [], mi_ThreadID = [],
     mi_OrganizerID = [], mi_OrganizerName = [], mi_OrganizerEmail = [], mi_ScheduledStartAt = [],
     mi_ScheduledEndAt = [], mi_TitleResolutionErrorCode = [], mi_TitleResolutionErrorMessage = [],
     mi_TitleResolvedAt = [], mi_Purpose = [], mi_Context = [], mi_Agenda = [],
     mi_DecisionPoints = [], mi_Concerns = [], mi_ExpectedOutput = [], mi_CustomInstruction = []\<rparr>"

theorem user_title_is_kept_witness:
  "map_option ms_Title (lookup (w_db (snd (UpdateMeetingSessionMetadata sample_config sample_metadata
     (sample_world [sample_session ''s1'' Active])))) ''s1'') = Some ''Weekly''"
proof -
  let ?r = "sample_session ''s1'' Active" and ?i = "sample_report ''s1'' ''recording''"
  have "meetingSessionTitleSourceRank (ms_TitleSource ?r) = 4" by code_simp
  moreover have "meetingSessionTitleSourceRank
      (normalizeMeetingSessionTitleSource (si_TitleSource ?i) (si_Title ?i)) \<noteq> 4" by code_simp
  moreover have "meetingSessionTitleSourceRank (normalizeMeetingSessionTitleSource
      (mi_TitleSource sample_metadata) (mi_Title sample_metadata)) \<noteq> 4" by code_simp
  moreover have "trim_space (si_SessionID ?i) = ''s1''" "trim_space (mi_SessionID sample_metadata) = ''s1''"
    by (simp_all add: sample_report_def sample_metadata_def)
  moreover have "ms_Title ?r = ''Weekly''" by (simp add: sample_session_def)
  ultimately show ?thesis
    using user_title_is_kept [of "sample_world [?r]" "''s1''" ?r ?i sample_metadata sample_config]
    by simp
qed

section \<open>Heartbeat, deletion, stale sessions\<close>

lemma touch_status: "status_in (snd (repo_TouchMeetingSessionBotSeen db i t)) j = status_in db j"
  using find_update_where_key [of "\<lambda>r. ms_ID r = i \<and> ms_Status r \<notin> {Ended, Failed, Stale}" ms_ID
      "\<lambda>r. r\<lparr>ms_LastBotStatusAt := t, ms_UpdatedAt := t\<rparr>" j "db_sessions db"]
  by (auto simp: repo_TouchMeetingSessionBotSeen_def Let_def status_in_def option.map_comp comp_def
      split: option.split sum.split intro!: option.map_cong)

lemma touch_frame:
  "{r \<in> set (db_sessions db). ms_ID r \<noteq> i \<or> isTerminalMeetingSessionStatus (ms_Status r)}
     \<subseteq> set (db_sessions (snd (repo_TouchMeetingSessionBotSeen db i t)))"
  by (auto simp: repo_TouchMeetingSessionBotSeen_def Let_def update_where_def
      isTerminalMeetingSessionStatus_def image_iff split: option.split sum.split)

text \<open>A heartbeat never changes a status, publishes nothing and leaves terminal sessions and
  all other sessions untouched.\<close>

theorem heartbeat_only_touches_liveness:
  "(\<forall>j. status_in (w_db (snd (RecordMeetingSessionHeartbeat sid w))) j = status_in (w_db w) j) \<and>
   w_published (snd (RecordMeetingSessionHeartbeat sid w)) = w_published w \<and>
   {r \<in> set (db_sessions (w_db w)). ms_ID r \<noteq> trim_space sid \<or> isTerminalMeetingSessionStatus (ms_Status r)}
     \<subseteq> set (db_sessions (w_db (snd (RecordMeetingSessionHeartbeat sid w))))"
proof -
  let ?t = "w_clock w (w_ticks w)" and ?db = "w_db (snd (RecordMeetingSessionHeartbeat sid w))"
  have "?db = w_db w \<or> ?db = snd (repo_TouchMeetingSessionBotSeen (w_db w) (trim_space sid) ?t)"
    using repo_call_db [of "\<lambda>db. repo_TouchMeetingSessionBotSeen db (trim_space sid) ?t" "snd (now_utc w)"]
    by (simp add: RecordMeetingSessionHeartbeat_def op_simps split: sum.split)
  moreover have "w_published (snd (RecordMeetingSessionHeartbeat sid w)) = w_published w"
    by (simp add: RecordMeetingSessionHeartbeat_def op_simps world_simps)
  ultimately show ?thesis
    using touch_status touch_frame [of "w_db w" "trim_space sid" ?t] by auto
qed

theorem heartbeat_only_touches_liveness_witness:
  "sample_session ''s2'' Ended \<in> set (db_sessions (w_db (snd (RecordMeetingSessionHeartbeat ''s2''
     (sample_world [sample_session ''s1'' Active, sample_session ''s2'' Ended])))))"
  using heartbeat_only_touches_liveness [of "''s2''"
      "sample_world [sample_session ''s1'' Active, sample_session ''s2'' Ended]"]
  by auto

text \<open>C9: without database faults, deleting a session is refused unless it is terminal, and a
  deletion removes the session with its segments, analyses, overrides and tree audits, and nothing else: the other
  sessions and theirs stay, and so does the session's own history of live analyses.\<close>

theorem delete_removes_exactly_the_session:
  assumes "no_faults w" and "trim_space sid \<noteq> []"
  shows "case lookup (w_db w) (trim_space sid) of
      None \<Rightarrow> fst (DeleteMeetingSession sid w) = Inl not_found \<and>
        w_db (snd (DeleteMeetingSession sid w)) = w_db w
    | Some r \<Rightarrow>
        if isTerminalMeetingSessionStatus (ms_Status r)
        then fst (DeleteMeetingSession sid w) = Inr () \<and>
          w_db (snd (DeleteMeetingSession sid w)) = (w_db w)\<lparr>
            db_analyses := filter (\<lambda>(k, _). k \<noteq> trim_space sid) (db_analyses (w_db w)),
            db_overrides := filter (\<lambda>(k, _). k \<noteq> trim_space sid) (db_overrides (w_db w)),
            db_audits := filter (\<lambda>(k, _). k \<noteq> trim_space sid) (db_audits (w_db w)),
            db_segments := filter (\<lambda>s. ts_SessionID s \<noteq> trim_space sid) (db_segments (w_db w)),
            db_sessions := filter (\<lambda>r. ms_ID r \<noteq> trim_space sid) (db_sessions (w_db w))\<rparr>
        else fst (DeleteMeetingSession sid w) =
               Inl (ErrInvalidArgument ''meeting session is not finished yet'') \<and>
          w_db (snd (DeleteMeetingSession sid w)) = w_db w"
proof (cases "lookup (w_db w) (trim_space sid)")
  case None
  then show ?thesis
    using assms by (simp add: DeleteMeetingSession_def op_simps read_ok get_lookup)
next
  case (Some r)
  then have "r \<in> set (db_sessions (w_db w))" "ms_ID r = trim_space sid"
    by (auto dest: find_key_Some)
  then have "length (filter (\<lambda>r. ms_ID r \<noteq> trim_space sid) (db_sessions (w_db w))) <
      length (db_sessions (w_db w))"
    by (auto intro: length_filter_less)
  then show ?thesis
    using assms Some
    by (simp add: DeleteMeetingSession_def op_simps read_ok get_lookup repo_call_ok no_faults_def
        repo_read_def repo_DeleteMeetingSession_def)
qed

theorem delete_removes_exactly_the_session_witness:
  "fst (DeleteMeetingSession ''s1'' (sample_world [sample_session ''s1'' Ended])) = Inr () \<and>
   fst (DeleteMeetingSession ''s1'' (sample_world [sample_session ''s1'' Ending])) \<noteq> Inr ()"
  using delete_removes_exactly_the_session [of "sample_world [sample_session ''s1'' Ended]" "''s1''"]
    delete_removes_exactly_the_session [of "sample_world [sample_session ''s1'' Ending]" "''s1''"]
  by simp

text \<open>Cleaning up marks stale exactly the open sessions whose last update is before the
  cutoff of two hours, publishes each of them and leaves all other rows as they are.\<close>

theorem cleanup_marks_exactly_the_stale:
  assumes "no_faults w" and "sv_publisher cfg"
  shows "w_db (snd (CleanupStaleMeetingSessions cfg w)) = (w_db w)\<lparr>db_sessions :=
      map (\<lambda>r. if IsReusableMeetingSessionStatus (ms_Status r) \<and>
                 db_before (w_db w) (ms_UpdatedAt r) (w_clock w (w_ticks w) - 2 * hour)
               then mark_stale_row (w_clock w (w_ticks w)) r else r) (db_sessions (w_db w))\<rparr> \<and>
    w_published (snd (CleanupStaleMeetingSessions cfg w)) = w_published w @
      map (mark_stale_row (w_clock w (w_ticks w)))
        (filter (\<lambda>r. IsReusableMeetingSessionStatus (ms_Status r) \<and>
           db_before (w_db w) (ms_UpdatedAt r) (w_clock w (w_ticks w) - 2 * hour))
          (db_sessions (w_db w)))"
proof -
  have pub: "w_published (foldl (\<lambda>w s. publishStatusChanged cfg s w) v ss) = w_published v @ ss" for v ss
    using assms(2) by (induction ss arbitrary: v) (simp_all add: publishStatusChanged_def)
  show ?thesis
    using assms(1)
    by (simp add: CleanupStaleMeetingSessions_def op_simps repo_call_ok no_faults_def now_utc_def pub
        repo_MarkStaleMeetingSessions_def DefaultMeetingSessionStaleAfter_def update_where_def
        is_stale_row_iff [abs_def] cong: filter_cong)
qed

theorem cleanup_marks_exactly_the_stale_witness:
  "length (w_published (snd (CleanupStaleMeetingSessions sample_config
     ((sample_world [sample_session ''s1'' Active, sample_session ''s2'' Ended])
        \<lparr>w_clock := (\<lambda>n. 3 * hour)\<rparr>)))) = 1"
proof -
  let ?w = "(sample_world [sample_session ''s1'' Active, sample_session ''s2'' Ended])
    \<lparr>w_clock := (\<lambda>n. 3 * hour)\<rparr>"
  have "no_faults ?w" "sv_publisher sample_config"
    by (simp_all add: no_faults_def sample_world_def sample_config_def)
  from cleanup_marks_exactly_the_stale [OF this] show ?thesis
    by (simp add: status_partition) (simp add: sample_simps hour_def)
qed

section \<open>Creation\<close>

lemma length_filter_update_where:
  "(\<And>r. p r \<Longrightarrow> P (f r) \<Longrightarrow> P r) \<Longrightarrow>
   length (filter P (update_where p f rows)) \<le> length (filter P rows)"
  by (induction rows) auto

lemma single_reusable_update_where:
  "(\<And>ws h r. p r \<Longrightarrow> reusable_for ws h (f r) \<Longrightarrow> reusable_for ws h r) \<Longrightarrow> single_reusable db \<Longrightarrow>
   single_reusable (db\<lparr>db_sessions := update_where p f (db_sessions db)\<rparr>)"
  unfolding single_reusable_def
  by (auto intro: order_trans [OF length_filter_update_where])

lemma single_reusable_update_by_id:
  "(\<And>ws h r. reusable_for ws h (f r) \<Longrightarrow> reusable_for ws h r) \<Longrightarrow> single_reusable db \<Longrightarrow>
   single_reusable (snd (update_by_id db k f))"
  using single_reusable_update_where [of "\<lambda>r. ms_ID r = k" f db]
  by (auto simp: update_by_id_def Let_def split: option.split)

lemma single_reusable_create_or_reuse:
  assumes "single_reusable db"
  shows "single_reusable (snd (repo_CreateOrReuseMeetingSession db s))"
proof -
  obtain r db' where eq: "repo_CreateOrReuseMeetingSession db s = (r, db')" by fastforce
  from create_or_reuse_cases [OF this] show ?thesis
    using assms eq by (auto simp: single_reusable_def) (auto simp: reusable_for_def)
qed

lemma single_call:
  "single_reusable (w_db w) \<Longrightarrow> (\<And>db. single_reusable db \<Longrightarrow> single_reusable (snd (f db))) \<Longrightarrow>
   single_reusable (w_db (snd (repo_call f w)))"
  using repo_call_db [of f w] by auto

lemma single_stale_call [simp]:
  "single_reusable (w_db w) \<Longrightarrow> single_reusable (w_db (snd (repo_call (\<lambda>db.
     (Inr (fst (repo_MarkStaleMeetingSessions db c t)), snd (repo_MarkStaleMeetingSessions db c t))) w)))"
  by (rule single_call)
    (auto simp: repo_MarkStaleMeetingSessions_def reusable_for_def status_partition
      intro!: single_reusable_update_where)

lemma single_metadata_call [simp]:
  "single_reusable (w_db w) \<Longrightarrow>
   single_reusable (w_db (snd (repo_call (\<lambda>db. repo_UpdateMeetingSessionMetadata db m) w)))"
  by (rule single_call)
    (auto simp: repo_UpdateMeetingSessionMetadata_def reusable_for_def
      intro!: single_reusable_update_by_id)

lemma single_status_call:
  "\<not> IsReusableMeetingSessionStatus (su_Status u) \<Longrightarrow> single_reusable (w_db w) \<Longrightarrow>
   single_reusable (w_db (snd (repo_call (\<lambda>db. repo_UpdateMeetingSessionStatus db u) w)))"
  by (rule single_call)
    (auto simp: repo_UpdateMeetingSessionStatus_def reusable_for_def
      intro!: single_reusable_update_by_id)

lemma single_create_call [simp]:
  "single_reusable (w_db w) \<Longrightarrow>
   single_reusable (w_db (snd (repo_call (\<lambda>db. repo_CreateOrReuseMeetingSession db s) w)))"
  by (rule single_call) (simp_all add: single_reusable_create_or_reuse)

lemma single_cleanup [simp]:
  "single_reusable (w_db w) \<Longrightarrow> single_reusable (w_db (snd (CleanupStaleMeetingSessions cfg w)))"
  by (simp add: CleanupStaleMeetingSessions_def op_simps split: sum.split)

lemma single_applyCreateMetadata [simp]:
  "single_reusable (w_db w) \<Longrightarrow> single_reusable (w_db (snd (applyCreateMetadata s i t u at re w)))"
  by (simp add: applyCreateMetadata_def op_simps split: sum.split)

lemma single_create_send_stage [simp]:
  "single_reusable (w_db w) \<Longrightarrow> single_reusable (w_db (snd (create_send_stage cfg i url c n w)))"
  by (simp add: create_send_stage_def markCommandFailed_def op_simps single_status_call
      status_partition split: sum.split)

lemma single_open_update:
  assumes "unique_ids db" and "lookup db (su_SessionID u) = Some r" and "IsReusableMeetingSessionStatus (ms_Status r)"
    and "single_reusable db"
  shows "single_reusable (snd (repo_UpdateMeetingSessionStatus db u))"
proof -
  have only: "x = r" if "x \<in> set (db_sessions db)" "ms_ID x = su_SessionID u" for x
    using unique_lookup [OF assms(1) that(1)] that(2) assms(2) by simp
  let ?rows = "update_where (\<lambda>x. ms_ID x = su_SessionID u) (apply_status_update u)"
  have fewer: "length (filter (reusable_for ws h) (?rows rows)) \<le> length (filter (reusable_for ws h) rows)"
    if "set rows \<subseteq> set (db_sessions db)" for ws h rows
    using that
  proof (induction rows)
    case (Cons x rows)
    have "reusable_for ws h (apply_status_update u x) \<Longrightarrow> reusable_for ws h x" if "ms_ID x = su_SessionID u"
      using only [OF _ that] assms(3) Cons.prems by (simp add: reusable_for_def)
    then show ?case using Cons by auto
  qed simp
  show ?thesis
    using assms(4) order_trans [OF fewer [OF subset_refl]]
    by (simp add: single_reusable_def repo_UpdateMeetingSessionStatus_def update_by_id_def Let_def split: option.split)
qed

text \<open>C5: A creation never leaves two open sessions for one workspace and join URL where there was at most one,
  whatever the database does: not by what it does before it sends the join command, nor, if its session is still
  open when the bot control API answers, by what it writes then, nor, whatever has become of its session, when the
  API refuses the command.  (An accepted command writes \<open>joining\<close> into a session that was closed in between.)\<close>

theorem create_keeps_single_open_session:
  assumes "single_reusable (w_db w)"
  shows "single_reusable (w_db (snd (create_begin cfg i w))) \<and>
    (unique_ids (w_db w) \<and>
     (reply \<noteq> None \<or> (\<exists>r. lookup (w_db w) (ms_ID created) = Some r \<and> IsReusableMeetingSessionStatus (ms_Status r))) \<longrightarrow>
       single_reusable (w_db (snd (create_finish cfg created reply w))))"
proof (intro conjI impI)
  show "single_reusable (w_db (snd (create_begin cfg i w)))"
    using assms by (simp add: create_begin_def op_simps split: sum.split option.split)
  have joining: "single_reusable (w_db (snd (repo_call (\<lambda>db. repo_UpdateMeetingSessionStatus db u) w')))"
    if "unique_ids (w_db w)" "lookup (w_db w) (ms_ID created) = Some r" "IsReusableMeetingSessionStatus (ms_Status r)"
      "w_db w' = w_db w" "su_SessionID u = ms_ID created" for r u w'
    using repo_call_db [of "\<lambda>db. repo_UpdateMeetingSessionStatus db u" w'] that assms
      single_open_update [of "w_db w" u r] by auto
  assume "unique_ids (w_db w) \<and> (reply \<noteq> None \<or>
    (\<exists>r. lookup (w_db w) (ms_ID created) = Some r \<and> IsReusableMeetingSessionStatus (ms_Status r)))"
  with assms show "single_reusable (w_db (snd (create_finish cfg created reply w)))"
    by (auto simp: create_finish_def markCommandFailed_def op_simps single_status_call status_partition joining
        split: sum.split option.split)
qed

definition sample_create :: MeetingSessionCreateInput where
  "sample_create = \<lparr>ci_WorkspaceID = ''w1'', ci_CreatedByUserID = ''u1'', ci_MeetingID = [],
     ci_JoinURL = sample_url, ci_Title = [], ci_UserProvidedTitle = ''Weekly'',
     ci_CandidateUserIDs = [], ci_CandidateUserPrincipalNames = [],
     ci_CreatedByMicrosoftUserID = [], ci_CreatedByEmail = [], ci_OrganizerUserID = [],
     ci_Purpose = ''plan'', ci_Context = [], ci_Agenda = ''topics'', ci_DecisionPoints = [],
     ci_Concerns = [], ci_ExpectedOutput = [], ci_CustomInstruction = []\<rparr>"

theorem create_keeps_single_open_session_witness:
  "single_reusable (w_db (snd (create_begin sample_config sample_create (sample_world [sample_session ''s1'' Requested])))) \<and>
   single_reusable (w_db (snd (create_finish sample_config (sample_session ''s1'' Requested) None
     (sample_world [sample_session ''s1'' Requested]))))"
  using create_keeps_single_open_session [of "sample_world [sample_session ''s1'' Requested]" sample_config sample_create
      None "sample_session ''s1'' Requested"]
  by (simp add: single_reusable_def unique_ids_def status_partition)

text \<open>The world after the first steps of a creation, when the database answers.\<close>

definition after_cleanup :: "config \<Rightarrow> world \<Rightarrow> world" where
  "after_cleanup cfg w = snd (CleanupStaleMeetingSessions cfg (snd (now_utc w)))"

lemma cleanup_frame [simp]:
  "w_joins (snd (CleanupStaleMeetingSessions cfg w)) = w_joins w"
  "w_nextid (snd (CleanupStaleMeetingSessions cfg w)) = w_nextid w"
  "w_ids (snd (CleanupStaleMeetingSessions cfg w)) = w_ids w"
  "map ms_ID (db_sessions (w_db (snd (CleanupStaleMeetingSessions cfg w)))) =
     map ms_ID (db_sessions (w_db w))"
proof -
  have pub: "w_joins (foldl (\<lambda>w s. publishStatusChanged cfg s w) v ss) = w_joins v \<and>
      w_nextid (foldl (\<lambda>w s. publishStatusChanged cfg s w) v ss) = w_nextid v \<and>
      w_ids (foldl (\<lambda>w s. publishStatusChanged cfg s w) v ss) = w_ids v" for v ss
    by (induction ss arbitrary: v) (simp_all add: publishStatusChanged_def)
  show "w_joins (snd (CleanupStaleMeetingSessions cfg w)) = w_joins w"
    "w_nextid (snd (CleanupStaleMeetingSessions cfg w)) = w_nextid w"
    "w_ids (snd (CleanupStaleMeetingSessions cfg w)) = w_ids w"
    by (simp_all add: CleanupStaleMeetingSessions_def op_simps pub now_utc_def world_simps
        split: sum.split)
  show "map ms_ID (db_sessions (w_db (snd (CleanupStaleMeetingSessions cfg w)))) =
     map ms_ID (db_sessions (w_db w))"
    using repo_call_db [of "\<lambda>db. (Inr (fst (repo_MarkStaleMeetingSessions db
        (w_clock w (w_ticks w) - DefaultMeetingSessionStaleAfter) (w_clock w (w_ticks w)))),
      snd (repo_MarkStaleMeetingSessions db (w_clock w (w_ticks w) - DefaultMeetingSessionStaleAfter)
        (w_clock w (w_ticks w))))" "snd (now_utc w)"]
    by (auto simp: CleanupStaleMeetingSessions_def op_simps repo_MarkStaleMeetingSessions_def
        map_update_where split: sum.split)
qed

lemma after_cleanup_frame [simp]:
  "no_faults (after_cleanup cfg w) = no_faults w" "w_joins (after_cleanup cfg w) = w_joins w"
  "w_nextid (after_cleanup cfg w) = w_nextid w" "w_ids (after_cleanup cfg w) = w_ids w"
  "map ms_ID (db_sessions (w_db (after_cleanup cfg w))) = map ms_ID (db_sessions (w_db w))"
  using keeps_cleanup [of "snd (now_utc w)" "snd (now_utc w)" cfg]
  by (simp_all add: after_cleanup_def keeps_def no_faults_def now_utc_def)

lemma metadata_call_fst:
  "no_faults w \<Longrightarrow> fst (repo_call (\<lambda>db. repo_UpdateMeetingSessionMetadata db u) w) =
     (case lookup (w_db w) (mu_SessionID u) of None \<Rightarrow> Inl not_found
      | Some r \<Rightarrow> Inr (apply_metadata_update u r))"
  by (simp add: no_faults_def repo_call_ok repo_UpdateMeetingSessionMetadata_def fst_update_by_id)

lemma create_metadata_update_ID [simp]: "mu_SessionID (create_metadata_update s i t u at re) = ms_ID s"
  by (simp add: create_metadata_update_def Let_def)

lemma metadata_ids [simp]:
  "map ms_ID (db_sessions (snd (repo_UpdateMeetingSessionMetadata db u))) = map ms_ID (db_sessions db)"
  by (simp add: repo_UpdateMeetingSessionMetadata_def map_ID_update_by_id)

text \<open>The row after the pre-meeting context was applied: itself, or its metadata update.\<close>

definition with_context ::
    "MeetingSessionCreateInput \<Rightarrow> gostring \<Rightarrow> gostring \<Rightarrow> gotime \<Rightarrow> bool \<Rightarrow> MeetingSession \<Rightarrow> MeetingSession" where
  "with_context i t url at reused s =
     (let u = create_metadata_update s i t url at reused in
      if hasMeetingSessionMetadataUpdate u then apply_metadata_update u s else s)"

lemma with_context_keys [simp]:
  "ms_ID (with_context i t url at re s) = ms_ID s"
  "ms_Status (with_context i t url at re s) = ms_Status s"
  "ms_JoinURLHash (with_context i t url at re s) = ms_JoinURLHash s"
  "ms_WorkspaceID (with_context i t url at re s) = ms_WorkspaceID s"
  by (simp_all add: with_context_def Let_def)

lemma applyCreateMetadata_ok:
  assumes "no_faults w" and "lookup (w_db w) (ms_ID s) = Some s"
  obtains m w' where "applyCreateMetadata s i t url at re w = (Inr m, w')"
    "m = None \<and> with_context i t url at re s = s \<or> m = Some (with_context i t url at re s)"
    "lookup (w_db w') (ms_ID s) = Some (with_context i t url at re s)"
    "w_joins w' = w_joins w" "no_faults w'"
    "map ms_ID (db_sessions (w_db w')) = map ms_ID (db_sessions (w_db w))"
proof -
  let ?u = "create_metadata_update s i t url at re"
  show ?thesis
  proof (cases "hasMeetingSessionMetadataUpdate ?u")
    case True
    let ?w' = "snd (repo_call (\<lambda>db. repo_UpdateMeetingSessionMetadata db ?u) w)"
    have "applyCreateMetadata s i t url at re w =
        (Inr (Some (with_context i t url at re s)), ?w')"
      using True assms
      by (simp add: applyCreateMetadata_def op_simps with_context_def metadata_call_fst)
    then show ?thesis
      using True assms
      by (intro that [of "Some (with_context i t url at re s)" ?w'])
        (simp_all add: with_context_def metadata_call_db lookup_metadata
          world_simps)
  next
    case False
    then have "applyCreateMetadata s i t url at re w = (Inr None, w)"
      by (simp add: applyCreateMetadata_def)
    then show ?thesis using False assms by (intro that [of None w]) (simp_all add: with_context_def)
  qed
qed

lemma create_call_ok:
  "no_faults w \<Longrightarrow> repo_call (\<lambda>db. repo_CreateOrReuseMeetingSession db s) w =
     (fst (repo_CreateOrReuseMeetingSession (w_db w) s),
      w\<lparr>w_calls := Suc (w_calls w), w_db := snd (repo_CreateOrReuseMeetingSession (w_db w) s)\<rparr>)"
  by (simp add: no_faults_def repo_call_ok)

lemma reuse_result:
  assumes "x \<in> set (db_sessions db)" and "reusable_for (ms_WorkspaceID s) (ms_JoinURLHash s) x"
  obtains r where "repo_CreateOrReuseMeetingSession db s = (Inr (r, False), db)"
    "r \<in> set (db_sessions db)" "reusable_for (ms_WorkspaceID s) (ms_JoinURLHash s) r"
  using findReusable_cases [of db "ms_WorkspaceID s" "ms_JoinURLHash s"] assms
  by (auto simp: repo_CreateOrReuseMeetingSession_def filter_empty_conv)

lemma new_session_keys [simp]:
  "ms_ID (new_session cfg i sid url now) = sid"
  "ms_WorkspaceID (new_session cfg i sid url now) = trim_space (ci_WorkspaceID i)"
  "ms_JoinURLHash (new_session cfg i sid url now) = JoinURLHash (sv_lib cfg) url"
  "ms_Status (new_session cfg i sid url now) = Requested"
  by (simp_all add: new_session_def Let_def)

text \<open>The first half of a creation, once its calls are known.\<close>

lemma create_begin_ok:
  assumes "NormalizeTeamsJoinURL (sv_lib cfg) (ci_JoinURL i) = Inr url"
    and "repo_call (\<lambda>db. repo_CreateOrReuseMeetingSession db (new_session cfg i
        (fst (new_session_id (after_cleanup cfg w))) url (w_clock w (w_ticks w))))
      (snd (new_session_id (after_cleanup cfg w))) = (Inr (created, isNew), w4)"
    and "applyCreateMetadata created i (meetingSessionUserProvidedTitle i) url
      (w_clock w (w_ticks w)) (\<not> isNew) w4 = (Inr m, w5)"
  shows "create_begin cfg i w = (case m of
      None \<Rightarrow> create_send_stage cfg i url created isNew w5
    | Some updated \<Rightarrow> create_send_stage cfg i url updated isNew
        (if isNew then w5 else publishStatusChanged cfg updated w5))"
  using assms unfolding after_cleanup_def
  by (cases isNew; cases m; simp add: create_begin_def op_simps)

lemma send_stage_frame:
  "create_send_stage cfg i url s False w =
     (CreateDone (Some \<lparr>cr_Session = s, cr_Reused = True\<rparr>, None),
      if sv_preparingObserver cfg then w\<lparr>w_prepared := w_prepared w @ [s]\<rparr> else w)"
  "sv_commander cfg \<noteq> None \<Longrightarrow> create_send_stage cfg i url s True w =
     (CreateSend s (join_command cfg i s url),
      if sv_preparingObserver cfg then w\<lparr>w_prepared := w_prepared w @ [s]\<rparr> else w)"
  by (auto simp: create_send_stage_def Let_def)

lemma now_utc_joins [simp]: "w_joins (snd (now_utc w)) = w_joins w"
  by (simp add: now_utc_def)

lemma publish_joins [simp]: "w_joins (publishStatusChanged cfg s w) = w_joins w"
  by (simp add: publishStatusChanged_def)

text \<open>A creation for a workspace and join URL that has an open session returns that session,
  sends no join command and adds no row.\<close>

theorem create_reuses_the_open_session:
  assumes "no_faults w" and "unique_ids (w_db w)"
    and "NormalizeTeamsJoinURL (sv_lib cfg) (ci_JoinURL i) = Inr url"
    and "x \<in> set (db_sessions (w_db (after_cleanup cfg w)))"
    and "reusable_for (trim_space (ci_WorkspaceID i)) (JoinURLHash (sv_lib cfg) url) x"
  shows "\<exists>s w'. CreateMeetingSession cfg i w = ((Some \<lparr>cr_Session = s, cr_Reused = True\<rparr>, None), w') \<and>
    reusable_for (trim_space (ci_WorkspaceID i)) (JoinURLHash (sv_lib cfg) url) s \<and>
    ms_ID s \<in> set (map ms_ID (db_sessions (w_db w))) \<and>
    w_joins w' = w_joins w \<and>
    map ms_ID (db_sessions (w_db w')) = map ms_ID (db_sessions (w_db w))"
proof -
  let ?now = "w_clock w (w_ticks w)" and ?w2 = "after_cleanup cfg w"
  let ?sid = "fst (new_session_id ?w2)" and ?w3 = "snd (new_session_id ?w2)"
  let ?s = "new_session cfg i ?sid url ?now"
  obtain r where r: "repo_CreateOrReuseMeetingSession (w_db ?w2) ?s = (Inr (r, False), w_db ?w2)"
    "r \<in> set (db_sessions (w_db ?w2))"
    "reusable_for (trim_space (ci_WorkspaceID i)) (JoinURLHash (sv_lib cfg) url) r"
    using reuse_result [OF assms(4), of ?s] assms(5) by auto
  have unique: "unique_ids (w_db ?w2)"
    using assms(2) by (simp add: unique_ids_def)
  let ?w4 = "?w3\<lparr>w_calls := Suc (w_calls ?w3), w_db := w_db ?w2\<rparr>"
  have nf3: "no_faults ?w3" using assms(1) by (simp add: no_faults_def new_session_id_def)
      (metis after_cleanup_frame(1) no_faults_def)
  have nf4: "no_faults ?w4" using nf3 by (simp add: no_faults_def)
  have call: "repo_call (\<lambda>db. repo_CreateOrReuseMeetingSession db ?s) ?w3 = (Inr (r, False), ?w4)"
    using create_call_ok [OF nf3, of ?s] r(1) by simp
  have lk: "lookup (w_db ?w4) (ms_ID r) = Some r"
    using unique_lookup [OF unique r(2)] by simp
  obtain m w5 where app:
    "applyCreateMetadata r i (meetingSessionUserProvidedTitle i) url ?now True ?w4 = (Inr m, w5)"
    "m = None \<and> with_context i (meetingSessionUserProvidedTitle i) url ?now True r = r \<or>
     m = Some (with_context i (meetingSessionUserProvidedTitle i) url ?now True r)"
    "lookup (w_db w5) (ms_ID r) = Some (with_context i (meetingSessionUserProvidedTitle i) url ?now True r)"
    "w_joins w5 = w_joins ?w4" "no_faults w5"
    "map ms_ID (db_sessions (w_db w5)) = map ms_ID (db_sessions (w_db ?w4))"
    by (rule applyCreateMetadata_ok [OF nf4 lk])
  let ?r = "with_context i (meetingSessionUserProvidedTitle i) url ?now True r"
  obtain w6 where started: "create_begin cfg i w =
      (CreateDone (Some \<lparr>cr_Session = ?r, cr_Reused = True\<rparr>, None), w6)" and
    w6: "w_joins w6 = w_joins w" "map ms_ID (db_sessions (w_db w6)) = map ms_ID (db_sessions (w_db w))"
    using create_begin_ok [OF assms(3) call, of m w5] app
    by (auto simp: send_stage_frame new_session_id_def)
  have "ms_ID ?r \<in> set (map ms_ID (db_sessions (w_db w)))"
    using r(2) after_cleanup_frame(5) [of cfg w] by (metis image_eqI set_map with_context_keys(1))
  moreover have "reusable_for (trim_space (ci_WorkspaceID i)) (JoinURLHash (sv_lib cfg) url) ?r"
    using r(3) by (simp add: reusable_for_def)
  ultimately show ?thesis
    using started w6 by (intro exI [of _ ?r] exI [of _ w6]) (simp add: CreateMeetingSession_def)
qed

theorem create_reuses_the_open_session_witness:
  "\<exists>s w'. CreateMeetingSession sample_config sample_create
      (sample_world [(sample_session ''s1'' Active)\<lparr>ms_JoinURLHash := sample_url\<rparr>]) =
        ((Some \<lparr>cr_Session = s, cr_Reused = True\<rparr>, None), w') \<and>
    ms_ID s = ''s1''"
proof -
  let ?x = "(sample_session ''s1'' Active)\<lparr>ms_JoinURLHash := sample_url\<rparr>"
  let ?w = "sample_world [?x]"
  have url: "NormalizeTeamsJoinURL (sv_lib sample_config) (ci_JoinURL sample_create) = Inr sample_url"
    by code_simp
  have "db_sessions (w_db (after_cleanup sample_config ?w)) = [?x]" by code_simp
  moreover have "reusable_for (trim_space (ci_WorkspaceID sample_create))
      (JoinURLHash (sv_lib sample_config) sample_url) ?x" by code_simp
  moreover have "unique_ids (w_db ?w)" by (simp add: unique_ids_def)
  ultimately show ?thesis
    using create_reuses_the_open_session [of ?w sample_config sample_create sample_url ?x] url by auto
qed

lemma insert_result:
  "filter (reusable_for (ms_WorkspaceID s) (ms_JoinURLHash s)) (db_sessions db) = [] \<Longrightarrow>
   ms_ID s \<notin> set (map ms_ID (db_sessions db)) \<Longrightarrow>
   repo_CreateOrReuseMeetingSession db s =
     (Inr (inserted_row s, True), db\<lparr>db_sessions := db_sessions db @ [inserted_row s]\<rparr>)"
  using findReusable_cases [of db "ms_WorkspaceID s" "ms_JoinURLHash s"]
  by (auto simp: repo_CreateOrReuseMeetingSession_def repo_CreateMeetingSession_def Let_def
      filter_empty_conv)

text \<open>The context of a new session is the trimmed context of the request.\<close>

lemma create_update_new:
  "hasMeetingSessionMetadataUpdate (create_metadata_update s i t url at False) =
     hasMeetingSessionCreateContext i"
  by (simp add: create_metadata_update_def empty_metadata_update_def
      hasMeetingSessionMetadataUpdate_def hasMeetingSessionCreateContext_def)

definition context_of :: "MeetingSession \<Rightarrow> gostring list" where
  "context_of s = [ms_Purpose s, ms_Context s, ms_Agenda s, ms_DecisionPoints s, ms_Concerns s,
     ms_ExpectedOutput s, ms_CustomInstruction s]"

definition requested_context :: "MeetingSessionCreateInput \<Rightarrow> gostring list" where
  "requested_context i = map trim_space [ci_Purpose i, ci_Context i, ci_Agenda i,
     ci_DecisionPoints i, ci_Concerns i, ci_ExpectedOutput i, ci_CustomInstruction i]"

lemma keep_or_Nil [simp]: "keep_or a [] = a" "keep_or [] b = b"
  by (simp_all add: keep_or_def)

lemma inserted_context: "context_of (inserted_row s) = [[], [], [], [], [], [], []]"
  by (simp add: context_of_def inserted_row_def)

lemma context_of_update:
  "context_of s = [[], [], [], [], [], [], []] \<Longrightarrow>
   context_of (apply_metadata_update (create_metadata_update s i t url at False) s) = requested_context i"
  by (simp add: context_of_def apply_metadata_update_def create_metadata_update_def
      empty_metadata_update_def requested_context_def)

lemma with_context_inserted:
  "context_of (with_context i t url at False (inserted_row s)) = requested_context i"
proof (cases "hasMeetingSessionCreateContext i")
  case True
  then show ?thesis
    by (simp add: with_context_def create_update_new context_of_update inserted_context)
next
  case False
  then have "requested_context i = [[], [], [], [], [], [], []]"
    by (simp add: requested_context_def hasMeetingSessionCreateContext_def)
  with False show ?thesis by (simp add: with_context_def create_update_new inserted_context)
qed

lemma with_context_title:
  "ms_Title (with_context i t url at False s) = ms_Title s"
  by (simp add: with_context_def create_metadata_update_def empty_metadata_update_def
      apply_metadata_update_def Let_def)

lemma status_context: "context_of (apply_status_update u s) = context_of s"
  by (simp add: context_of_def apply_status_update_def)

lemma create_finish_ok:
  assumes "no_faults w" and "lookup (w_db w) (ms_ID s) = Some r"
  obtains u w' where
    "create_finish cfg s None w =
      ((Some \<lparr>cr_Session = apply_status_update u r, cr_Reused = False\<rparr>, None), w')"
    "su_Status u = Joining" "su_Title u = []"
    "lookup (w_db w') (ms_ID s) = Some (apply_status_update u r)" "w_joins w' = w_joins w"
proof -
  let ?t = "w_clock w (w_ticks w)"
  let ?u = "\<lparr>su_SessionID = ms_ID s, su_Status = Joining, su_BotCallID = [],
    su_Title = [], su_TitleSource = [], su_CommandSentAt = Some ?t, su_JoinedAt = None,
    su_EndedAt = None, su_EndReason = [], su_LastBotStatusAt = None, su_LastError = [],
    su_UpdatedAt = ?t\<rparr>"
  let ?w' = "publishStatusChanged cfg (apply_status_update ?u r)
    (snd (repo_call (\<lambda>db. repo_UpdateMeetingSessionStatus db ?u) (snd (now_utc w))))"
  have "create_finish cfg s None w =
      ((Some \<lparr>cr_Session = apply_status_update ?u r, cr_Reused = False\<rparr>, None), ?w')"
    using assms by (simp add: create_finish_def op_simps status_call_fst fst_status)
  then show ?thesis
    using assms by (intro that [of ?u ?w'])
      (simp_all add: status_call_db lookup_status world_simps)
qed

text \<open>Without an open session for the workspace and join URL, a creation whose join command
  is accepted stores a new \<open>joining\<close> session with the requested context and title, sends exactly
  one join command for it and returns the stored row.\<close>

theorem create_starts_a_new_session:
  assumes "no_faults w" and "NormalizeTeamsJoinURL (sv_lib cfg) (ci_JoinURL i) = Inr url"
    and "filter (reusable_for (trim_space (ci_WorkspaceID i)) (JoinURLHash (sv_lib cfg) url))
      (db_sessions (w_db (after_cleanup cfg w))) = []"
    and "''session_'' @ w_ids w (w_nextid w) \<notin> set (map ms_ID (db_sessions (w_db w)))"
    and "sv_commander cfg = Some c" and "\<And>n m. cmd_join c n m = None"
  shows "\<exists>s w' cmd. CreateMeetingSession cfg i w =
      ((Some \<lparr>cr_Session = s, cr_Reused = False\<rparr>, None), w') \<and>
    lookup (w_db w') (''session_'' @ w_ids w (w_nextid w)) = Some s \<and>
    ms_Status s = Joining \<and> context_of s = requested_context i \<and>
    ms_Title s = meetingSessionCreateTitle (meetingSessionUserProvidedTitle i) \<and>
    w_joins w' = w_joins w @ [cmd] \<and> bj_SessionID cmd = ms_ID s \<and> bj_JoinURL cmd = url"
proof -
  let ?now = "w_clock w (w_ticks w)" and ?w2 = "after_cleanup cfg w"
  let ?sid = "fst (new_session_id ?w2)" and ?w3 = "snd (new_session_id ?w2)"
  let ?s = "new_session cfg i ?sid url ?now" and ?t = "meetingSessionUserProvidedTitle i"
  let ?w4 = "?w3\<lparr>w_calls := Suc (w_calls ?w3),
    w_db := (w_db ?w2)\<lparr>db_sessions := db_sessions (w_db ?w2) @ [inserted_row ?s]\<rparr>\<rparr>"
  let ?r = "with_context i ?t url ?now False (inserted_row ?s)"
  have sid: "?sid = ''session_'' @ w_ids w (w_nextid w)" by (simp add: new_session_id_def)
  have nf3: "no_faults ?w3" using assms(1) by (simp add: no_faults_def new_session_id_def)
      (metis after_cleanup_frame(1) no_faults_def)
  have nf4: "no_faults ?w4" using nf3 by (simp add: no_faults_def)
  have fresh: "ms_ID ?s \<notin> set (map ms_ID (db_sessions (w_db ?w2)))"
    using assms(4) sid after_cleanup_frame(5) [of cfg w] by (metis new_session_keys(1))
  have call: "repo_call (\<lambda>db. repo_CreateOrReuseMeetingSession db ?s) ?w3 =
      (Inr (inserted_row ?s, True), ?w4)"
    using create_call_ok [OF nf3, of ?s] insert_result [of ?s "w_db ?w2"] assms(3) fresh by simp
  have "find (\<lambda>r. ms_ID r = ?sid) (db_sessions (w_db ?w2)) = None"
    using fresh unfolding find_None_iff by (metis (mono_tags) image_eqI set_map new_session_keys(1))
  then have lk: "lookup (w_db ?w4) (ms_ID (inserted_row ?s)) = Some (inserted_row ?s)"
    by (simp add: find_key_append)
  obtain m w5 where app: "applyCreateMetadata (inserted_row ?s) i ?t url ?now False ?w4 = (Inr m, w5)"
    "m = None \<and> ?r = inserted_row ?s \<or> m = Some ?r"
    "lookup (w_db w5) (ms_ID (inserted_row ?s)) = Some ?r"
    "w_joins w5 = w_joins ?w4" "no_faults w5"
    "map ms_ID (db_sessions (w_db w5)) = map ms_ID (db_sessions (w_db ?w4))"
    by (rule applyCreateMetadata_ok [OF nf4 lk])
  let ?w6 = "if sv_preparingObserver cfg then w5\<lparr>w_prepared := w_prepared w5 @ [?r]\<rparr> else w5"
  let ?cmd = "join_command cfg i ?r url"
  have started: "create_begin cfg i w = (CreateSend ?r ?cmd, ?w6)"
    using create_begin_ok [OF assms(2) call, of m w5] app assms(5)
    by (auto simp: send_stage_frame)
  let ?w7 = "?w6\<lparr>w_joins := w_joins ?w6 @ [?cmd]\<rparr>"
  have nf7: "no_faults ?w7" using app(5) by (simp add: no_faults_def)
  have lk7: "lookup (w_db ?w7) (ms_ID ?r) = Some ?r" using app(3) by simp
  obtain u w8 where fin: "create_finish cfg ?r None ?w7 =
      ((Some \<lparr>cr_Session = apply_status_update u ?r, cr_Reused = False\<rparr>, None), w8)"
    "su_Status u = Joining" "su_Title u = []"
    "lookup (w_db w8) (ms_ID ?r) = Some (apply_status_update u ?r)" "w_joins w8 = w_joins ?w7"
    by (rule create_finish_ok [OF nf7 lk7])
  let ?f = "apply_status_update u ?r"
  have "CreateMeetingSession cfg i w = ((Some \<lparr>cr_Session = ?f, cr_Reused = False\<rparr>, None), w8)"
    using started assms(5,6) fin(1) by (simp add: CreateMeetingSession_def)
  moreover have "w_joins w8 = w_joins w @ [?cmd]"
    using fin(5) app(4) by (simp add: new_session_id_def)
  moreover have "ms_Title ?f = meetingSessionCreateTitle ?t"
    using fin(3) by (simp add: apply_status_update_def with_context_title)
      (simp add: inserted_row_def new_session_def Let_def)
  moreover have "bj_SessionID ?cmd = ms_ID ?f" "bj_JoinURL ?cmd = url"
    by (simp_all add: join_command_def)
  ultimately show ?thesis
    using fin(2,4) sid status_context with_context_inserted
    by (intro exI [of _ ?f] exI [of _ w8] exI [of _ ?cmd]) simp
qed

theorem create_starts_a_new_session_witness:
  "\<exists>s w' cmd. CreateMeetingSession sample_config sample_create (sample_world [sample_session ''s1'' Ended]) =
      ((Some \<lparr>cr_Session = s, cr_Reused = False\<rparr>, None), w') \<and>
    lookup (w_db w') ''session_new'' = Some s \<and> ms_Status s = Joining \<and>
    context_of s = [''plan'', [], ''topics'', [], [], [], []] \<and> w_joins w' = [cmd]"
proof -
  let ?w = "sample_world [sample_session ''s1'' Ended]"
  let ?c = "\<lparr>cmd_join = (\<lambda>n c. None), cmd_end = (\<lambda>n c. None)\<rparr>"
  have "NormalizeTeamsJoinURL (sv_lib sample_config) (ci_JoinURL sample_create) = Inr sample_url"
    by code_simp
  moreover have "filter (reusable_for (trim_space (ci_WorkspaceID sample_create))
      (JoinURLHash (sv_lib sample_config) sample_url)) (db_sessions (w_db (after_cleanup sample_config ?w))) = []"
    by code_simp
  moreover have "''session_'' @ w_ids ?w (w_nextid ?w) = ''session_new''" "w_joins ?w = []"
    by (simp_all add: sample_world_def)
  moreover have "sv_commander sample_config = Some ?c" by (simp add: sample_config_def)
  moreover have "requested_context sample_create = [''plan'', [], ''topics'', [], [], [], []]" by code_simp
  ultimately show ?thesis
    using create_starts_a_new_session [of ?w sample_config sample_create sample_url ?c] by auto
qed

section \<open>Pure rules\<close>

lemma unique_loop_spec:
  "set unique \<subseteq> {v. trim_space v = v \<and> v \<noteq> []} \<Longrightarrow> distinct (map to_lower unique) \<Longrightarrow>
   set seen = to_lower ` set unique \<Longrightarrow>
   distinct (map to_lower (unique_loop seen unique vs)) \<and>
   set (unique_loop seen unique vs) \<subseteq> {v. trim_space v = v \<and> v \<noteq> []} \<and>
   set (unique_loop seen unique vs) \<subseteq> set unique \<union> trim_space ` set vs \<and>
   to_lower ` set (unique_loop seen unique vs) =
     to_lower ` (set unique \<union> {t. t \<in> trim_space ` set vs \<and> t \<noteq> []})"
proof (induction vs arbitrary: seen unique)
  case Nil
  then show ?case by auto
next
  case (Cons v vs)
  show ?case
  proof (cases "trim_space v = [] \<or> to_lower (trim_space v) \<in> set seen")
    case True
    then have eq: "unique_loop seen unique (v # vs) = unique_loop seen unique vs"
      by (auto simp: Let_def)
    from True Cons.prems(3) have "trim_space v = [] \<or> to_lower (trim_space v) \<in> to_lower ` set unique"
      by simp
    with Cons.IH [OF Cons.prems] eq show ?thesis by (auto simp: image_Un)
  next
    case False
    let ?t = "trim_space v"
    have eq: "unique_loop seen unique (v # vs) = unique_loop (to_lower ?t # seen) (unique @ [?t]) vs"
      using False by (simp add: Let_def)
    have "distinct (map to_lower (unique @ [?t]))"
      using False Cons.prems by simp
    moreover have "set (unique @ [?t]) \<subseteq> {v. trim_space v = v \<and> v \<noteq> []}"
      using False Cons.prems by auto
    moreover have "set (to_lower ?t # seen) = to_lower ` set (unique @ [?t])"
      using Cons.prems by auto
    ultimately show ?thesis
      using Cons.IH [of "unique @ [?t]" "to_lower ?t # seen"] eq False by (auto simp: image_Un)
  qed
qed

text \<open>The candidate list sent to the bot holds trimmed, non-blank values, no two of them equal
  up to case, and every non-blank candidate is in it up to case.\<close>

theorem unique_trimmed_strings_spec:
  "distinct (map to_lower (uniqueTrimmedStrings vs)) \<and>
   (\<forall>v \<in> set (uniqueTrimmedStrings vs). trim_space v = v \<and> v \<noteq> [] \<and> v \<in> trim_space ` set vs) \<and>
   to_lower ` set (uniqueTrimmedStrings vs) = to_lower ` {t \<in> trim_space ` set vs. t \<noteq> []}"
  using unique_loop_spec [of "[]" "[]" vs] unfolding uniqueTrimmedStrings_def by auto

theorem unique_trimmed_strings_spec_witness:
  "distinct (uniqueTrimmedStrings ['' a '', ''A'', '' ''])"
  using unique_trimmed_strings_spec [of "['' a '', ''A'', '' '']"] by (auto simp: distinct_map)

text \<open>A join URL is accepted only if, blank-free after trimming, it parses to an absolute
  \<open>https\<close> URL whose host is a Teams host and whose path is a meeting path.\<close>

theorem accepted_join_urls:
  assumes "NormalizeTeamsJoinURL lib v = Inr url"
  shows "\<exists>p. url_parse lib (trim_space v) = Some p \<and> url = normalizedJoinURLString lib p \<and>
    to_lower (up_Scheme p) = ''https'' \<and> up_Host p \<noteq> [] \<and>
    isTeamsJoinHost (trim_suffix (to_lower (url_Hostname lib p)) ''.'') \<and>
    isTeamsJoinPath (url_EscapedPath lib p)"
  using assms by (auto simp: NormalizeTeamsJoinURL_def Let_def split: if_splits option.splits)

theorem accepted_join_urls_witness:
  "\<exists>p. url_parse sample_lib sample_url = Some p \<and> up_Host p = ''teams.microsoft.com''"
proof -
  have "NormalizeTeamsJoinURL sample_lib sample_url = Inr sample_url" by code_simp
  moreover have "trim_space sample_url = sample_url" by code_simp
  ultimately show ?thesis using accepted_join_urls [of sample_lib sample_url sample_url]
    by (auto simp: sample_lib_def)
qed

end
