(* ===== verification/WorkspaceStore.thy ===== *)
theory WorkspaceStore
  imports Domain "HOL-Library.AList"
begin

text \<open>
  The repository of users, login sessions, workspaces, members and invitations: the interface
  \<open>Repository\<close> of \<open>internal/application/workspace\<close> and \<open>auth\<close> as the record \<open>ws_repo\<close>, and its
  two implementations, in memory (\<open>internal/adapter/repository/memory/auth_workspace.go\<close>, functions
  \<open>mem_\<close>) and in PostgreSQL (\<open>internal/adapter/repository/postgres/auth_workspace.go\<close>, functions
  \<open>pg_\<close>).

  An operation takes the moment of the call and a fresh id (\<open>time.Now\<close>, \<open>NewUUID\<close>) and the store.
  A Go map is an association list whose order is one order of iteration.  A time written with
  \<open>time.RFC3339\<close> keeps whole seconds (\<open>rfc3339\<close>).  A PostgreSQL method is the function its statements
  compute; the database driver's own failures are added by the service's world.
\<close>

section \<open>The interface\<close>

type_synonym env = "gotime \<times> gostring"
type_synonym ('db, 'a) op = "env \<Rightarrow> 'db \<Rightarrow> 'a result \<times> 'db"

record Identity =
  id_UID :: gostring
  id_Email :: gostring
  id_Name :: gostring
  id_EmailVerified :: bool
  id_Provider :: gostring

record 'db ws_repo =
  rp_FindOrCreateUser :: "Identity \<Rightarrow> ('db, User) op"
  rp_CreateSession :: "LoginSession \<Rightarrow> ('db, unit) op"
  rp_SessionByTokenHash :: "gostring \<Rightarrow> ('db, LoginSession \<times> User) op"
  rp_RevokeSession :: "gostring \<Rightarrow> ('db, unit) op"
  rp_SetCurrentWorkspace :: "gostring \<Rightarrow> gostring \<Rightarrow> ('db, unit) op"
  rp_ListWorkspaces :: "gostring \<Rightarrow> ('db, Workspace list) op"
  rp_GetWorkspace :: "gostring \<Rightarrow> gostring \<Rightarrow> ('db, Workspace) op"
  rp_CreateWorkspace :: "gostring \<Rightarrow> gostring \<Rightarrow> gostring \<Rightarrow> ('db, Workspace) op"
  rp_UpdateWorkspace ::
    "gostring \<Rightarrow> gostring \<Rightarrow> gostring option \<Rightarrow> gostring option \<Rightarrow> ('db, Workspace) op"
  rp_ListMembers :: "gostring \<Rightarrow> gostring \<Rightarrow> ('db, WorkspaceMember list) op"
  rp_MemberEmailExists :: "gostring \<Rightarrow> gostring \<Rightarrow> ('db, bool) op"
  rp_CreateInvitation ::
    "gostring \<Rightarrow> gostring \<Rightarrow> gostring \<Rightarrow> gostring \<Rightarrow> gostring \<Rightarrow> gotime \<Rightarrow> ('db, WorkspaceInvitation) op"
  rp_DeleteInvitation :: "gostring \<Rightarrow> ('db, unit) op"
  rp_InvitationByTokenHash :: "gostring \<Rightarrow> ('db, WorkspaceInvitation) op"
  rp_AcceptInvitation :: "gostring \<Rightarrow> gostring \<Rightarrow> ('db, unit) op"
  rp_WorkspaceNameByID :: "gostring \<Rightarrow> ('db, gostring) op"
  rp_ListInvitations :: "gostring \<Rightarrow> gostring \<Rightarrow> ('db, WorkspaceInvitation list) op"
  rp_RevokeInvitation :: "gostring \<Rightarrow> gostring \<Rightarrow> gostring \<Rightarrow> ('db, unit) op"
  rp_RemoveMember :: "gostring \<Rightarrow> gostring \<Rightarrow> gostring \<Rightarrow> ('db, unit) op"
  rp_UpdateMemberRole ::
    "gostring \<Rightarrow> gostring \<Rightarrow> gostring \<Rightarrow> gostring \<Rightarrow> ('db, WorkspaceMember) op"

definition NotFound :: goerror where "NotFound = ErrNotFound []"

definition rfc3339 :: "gotime \<Rightarrow> gotime" where
  "rfc3339 t = t - t mod second"

definition normalizeEmail :: "gostring \<Rightarrow> gostring" where
  "normalizeEmail v = to_lower (trim_space v)"

text \<open>\<open>strings.Cut\<close> before the first \<open>@\<close>.\<close>

definition before_at :: "gostring \<Rightarrow> gostring" where
  "before_at s = takeWhile (\<lambda>c. c \<noteq> CHR ''@'') s"

text \<open>A read that does not change the store.\<close>

definition reading :: "('db \<Rightarrow> 'a result) \<Rightarrow> 'db \<Rightarrow> 'a result \<times> 'db" where
  "reading f db = (f db, db)"

lemma reading_simps [simp]: "fst (reading f db) = f db" "snd (reading f db) = db"
  by (simp_all add: reading_def)

section \<open>In memory\<close>

record memdb =
  md_users :: "(gostring \<times> User) list"
  md_identities :: "(gostring \<times> gostring) list"
  md_sessions :: "(gostring \<times> LoginSession) list"
  md_workspaces :: "(gostring \<times> Workspace) list"
  md_members :: "(gostring \<times> (gostring \<times> gostring) list) list"
  md_invitations :: "(gostring \<times> WorkspaceInvitation) list"
  md_meetings :: "(gostring \<times> Meeting) list"

text \<open>The zero values of the structs, which reading a missing key of a Go map yields.\<close>

definition zero_user :: User where
  "zero_user = \<lparr>us_ID = [], us_DisplayName = [], us_Email = []\<rparr>"

definition zero_workspace :: Workspace where
  "zero_workspace = \<lparr>wk_ID = [], wk_Name = [], wk_Description = [], wk_Role = [],
     wk_CreatedAt = 0, wk_UpdatedAt = 0\<rparr>"

definition at_key :: "'v \<Rightarrow> ('k \<times> 'v) list \<Rightarrow> 'k \<Rightarrow> 'v" where
  "at_key z m k = (case map_of m k of None \<Rightarrow> z | Some v \<Rightarrow> v)"

definition mem_role :: "memdb \<Rightarrow> gostring \<Rightarrow> gostring \<Rightarrow> gostring" where
  "mem_role db ws u = at_key [] (at_key [] (md_members db) ws) u"

definition mem_FindOrCreateUser :: "Identity \<Rightarrow> (memdb, User) op" where
  "mem_FindOrCreateUser i e db =
     (let known = at_key [] (md_identities db) (id_UID i) in
      if known \<noteq> [] then (Inr (at_key zero_user (md_users db) known), db)
      else
        (let name0 = trim_space (id_Name i);
             name = (if name0 = [] then before_at (id_Email i) else name0);
             user = \<lparr>us_ID = snd e, us_DisplayName = name, us_Email = trim_space (id_Email i)\<rparr> in
         (Inr user, db\<lparr>md_users := AList.update (us_ID user) user (md_users db),
                       md_identities := AList.update (id_UID i) (us_ID user) (md_identities db)\<rparr>)))"

definition mem_CreateWorkspace :: "gostring \<Rightarrow> gostring \<Rightarrow> gostring \<Rightarrow> (memdb, Workspace) op" where
  "mem_CreateWorkspace userID name description e db =
     (let now = rfc3339 (fst e);
          workspace = \<lparr>wk_ID = snd e, wk_Name = name, wk_Description = description,
            wk_Role = WorkspaceRoleOwner, wk_CreatedAt = now, wk_UpdatedAt = now\<rparr> in
      (Inr workspace,
       db\<lparr>md_workspaces := AList.update (wk_ID workspace) workspace (md_workspaces db),
          md_members := AList.update (wk_ID workspace) [(userID, WorkspaceRoleOwner)]
            (md_members db)\<rparr>))"

definition mem_CreateSession :: "LoginSession \<Rightarrow> (memdb, unit) op" where
  "mem_CreateSession s e db =
     (Inr (), db\<lparr>md_sessions := AList.update (ls_TokenHash s) s (md_sessions db)\<rparr>)"

definition mem_SessionByTokenHash :: "gostring \<Rightarrow> (memdb, LoginSession \<times> User) op" where
  "mem_SessionByTokenHash tokenHash e = reading (\<lambda>db.
     case map_of (md_sessions db) tokenHash of
       None \<Rightarrow> Inl NotFound
     | Some s \<Rightarrow> Inr (s, at_key zero_user (md_users db) (ls_UserID s)))"

definition mem_RevokeSession :: "gostring \<Rightarrow> (memdb, unit) op" where
  "mem_RevokeSession sessionID e db =
     (Inr (), db\<lparr>md_sessions := filter (\<lambda>(h, s). ls_ID s \<noteq> sessionID) (md_sessions db)\<rparr>)"

definition mem_SetCurrentWorkspace :: "gostring \<Rightarrow> gostring \<Rightarrow> (memdb, unit) op" where
  "mem_SetCurrentWorkspace sessionID workspaceID e db =
     (Inr (), db\<lparr>md_sessions := map (\<lambda>(h, s).
        (h, if ls_ID s = sessionID then s\<lparr>ls_CurrentWorkspaceID := workspaceID\<rparr> else s))
        (md_sessions db)\<rparr>)"

definition mem_ListWorkspaces :: "gostring \<Rightarrow> (memdb, Workspace list) op" where
  "mem_ListWorkspaces userID e = reading (\<lambda>db. Inr (concat (map (\<lambda>(i, members).
     (let role = at_key [] members userID in
      if role \<noteq> [] then [(at_key zero_workspace (md_workspaces db) i)\<lparr>wk_Role := NormalizeWorkspaceRole role\<rparr>]
      else [])) (md_members db))))"

definition mem_GetWorkspace :: "gostring \<Rightarrow> gostring \<Rightarrow> (memdb, Workspace) op" where
  "mem_GetWorkspace userID workspaceID e = reading (\<lambda>db.
     let role = mem_role db workspaceID userID in
     if role = [] then Inl NotFound
     else Inr ((at_key zero_workspace (md_workspaces db) workspaceID)
            \<lparr>wk_Role := NormalizeWorkspaceRole role\<rparr>))"

definition mem_UpdateWorkspace ::
    "gostring \<Rightarrow> gostring \<Rightarrow> gostring option \<Rightarrow> gostring option \<Rightarrow> (memdb, Workspace) op" where
  "mem_UpdateWorkspace userID workspaceID name description e db =
     (let role = mem_role db workspaceID userID in
      if role = [] then (Inl NotFound, db)
      else if \<not> CanManageWorkspace role then (Inl ErrForbidden, db)
      else
        (let w0 = at_key zero_workspace (md_workspaces db) workspaceID;
             w1 = (case name of None \<Rightarrow> w0 | Some n \<Rightarrow> w0\<lparr>wk_Name := n\<rparr>);
             w2 = (case description of None \<Rightarrow> w1 | Some d \<Rightarrow> w1\<lparr>wk_Description := d\<rparr>);
             w3 = w2\<lparr>wk_UpdatedAt := rfc3339 (fst e), wk_Role := NormalizeWorkspaceRole role\<rparr> in
         (Inr w3, db\<lparr>md_workspaces := AList.update workspaceID w3 (md_workspaces db)\<rparr>)))"

definition mem_ListMembers :: "gostring \<Rightarrow> gostring \<Rightarrow> (memdb, WorkspaceMember list) op" where
  "mem_ListMembers userID workspaceID e = reading (\<lambda>db.
     if mem_role db workspaceID userID = [] then Inl NotFound
     else Inr (map (\<lambda>(memberID, role).
       (let user = at_key zero_user (md_users db) memberID in
        \<lparr>wm_WorkspaceID = workspaceID, wm_UserID = memberID, wm_DisplayName = us_DisplayName user,
         wm_Email = us_Email user, wm_Role = NormalizeWorkspaceRole role, wm_JoinedAt = 0\<rparr>))
       (at_key [] (md_members db) workspaceID)))"

definition mem_CreateInvitation ::
    "gostring \<Rightarrow> gostring \<Rightarrow> gostring \<Rightarrow> gostring \<Rightarrow> gostring \<Rightarrow> gotime \<Rightarrow>
     (memdb, WorkspaceInvitation) op" where
  "mem_CreateInvitation userID workspaceID email role0 tokenHash expiresAt e db =
     (let role = NormalizeWorkspaceRole role0; normalized = normalizeEmail email in
      if \<not> CanManageWorkspace (mem_role db workspaceID userID) then (Inl ErrForbidden, db)
      else if \<not> ValidWorkspaceInvitationRole role then (Inl (ErrInvalidArgument []), db)
      else if list_ex (\<lambda>(k, x). iv_WorkspaceID x = workspaceID \<and> iv_NormalizedEmail x = normalized \<and>
                 iv_Status x = Pending) (md_invitations db)
        then (Inl (ErrConflict []), db)
      else
        (let invitation = \<lparr>iv_ID = snd e, iv_WorkspaceID = workspaceID, iv_Email = trim_space email,
               iv_NormalizedEmail = normalized, iv_Role = role, iv_Status = Pending,
               iv_InvitedBy = userID, iv_InvitedByName = [], iv_TokenHash = tokenHash,
               iv_ExpiresAt = Some expiresAt, iv_CreatedAt = rfc3339 (fst e)\<rparr> in
         (Inr invitation,
          db\<lparr>md_invitations := AList.update (iv_ID invitation) invitation (md_invitations db)\<rparr>)))"

definition mem_DeleteInvitation :: "gostring \<Rightarrow> (memdb, unit) op" where
  "mem_DeleteInvitation invitationID e db =
     (Inr (), db\<lparr>md_invitations := AList.delete invitationID (md_invitations db)\<rparr>)"

definition mem_InvitationByTokenHash :: "gostring \<Rightarrow> (memdb, WorkspaceInvitation) op" where
  "mem_InvitationByTokenHash tokenHash e = reading (\<lambda>db.
     if trim_space tokenHash = [] then Inl NotFound
     else (case find (\<lambda>(k, x). iv_TokenHash x = tokenHash) (md_invitations db) of
         None \<Rightarrow> Inl NotFound | Some (k, x) \<Rightarrow> Inr x))"

definition mem_AcceptInvitation :: "gostring \<Rightarrow> gostring \<Rightarrow> (memdb, unit) op" where
  "mem_AcceptInvitation invitationID userID e db =
     (case map_of (md_invitations db) invitationID of
        None \<Rightarrow> (Inl NotFound, db)
      | Some x \<Rightarrow>
          if iv_Status x \<noteq> Pending then (Inl NotFound, db)
          else
            (let ws = iv_WorkspaceID x;
                 members0 = at_key [] (md_members db) ws;
                 members = (if at_key [] members0 userID = []
                            then AList.update userID (iv_Role x) members0 else members0) in
             (Inr (), db\<lparr>md_members := AList.update ws members (md_members db),
                md_invitations := AList.update invitationID (x\<lparr>iv_Status := Accepted\<rparr>)
                  (md_invitations db)\<rparr>)))"

definition mem_WorkspaceNameByID :: "gostring \<Rightarrow> (memdb, gostring) op" where
  "mem_WorkspaceNameByID workspaceID e = reading (\<lambda>db.
     case map_of (md_workspaces db) workspaceID of
       None \<Rightarrow> Inl NotFound | Some w \<Rightarrow> Inr (wk_Name w))"

definition mem_MemberEmailExists :: "gostring \<Rightarrow> gostring \<Rightarrow> (memdb, bool) op" where
  "mem_MemberEmailExists workspaceID normalized e = reading (\<lambda>db.
     Inr (list_ex (\<lambda>(i, user). normalizeEmail (us_Email user) = normalized \<and>
       mem_role db workspaceID i \<noteq> []) (md_users db)))"

definition mem_RevokeInvitation :: "gostring \<Rightarrow> gostring \<Rightarrow> gostring \<Rightarrow> (memdb, unit) op" where
  "mem_RevokeInvitation userID workspaceID invitationID e db =
     (if \<not> CanManageWorkspace (mem_role db workspaceID userID) then (Inl ErrForbidden, db)
      else (case map_of (md_invitations db) invitationID of
          None \<Rightarrow> (Inl NotFound, db)
        | Some x \<Rightarrow>
            if iv_WorkspaceID x \<noteq> workspaceID \<or> iv_Status x \<noteq> Pending then (Inl NotFound, db)
            else (Inr (), db\<lparr>md_invitations := AList.update invitationID (x\<lparr>iv_Status := Revoked\<rparr>)
                   (md_invitations db)\<rparr>)))"

definition mem_ListInvitations ::
    "gostring \<Rightarrow> gostring \<Rightarrow> (memdb, WorkspaceInvitation list) op" where
  "mem_ListInvitations userID workspaceID e = reading (\<lambda>db.
     if \<not> CanManageWorkspace (mem_role db workspaceID userID) then Inl ErrForbidden
     else Inr (filter (\<lambda>x. iv_WorkspaceID x = workspaceID \<and> iv_Status x = Pending)
            (map snd (md_invitations db))))"

definition mem_RemoveMember :: "gostring \<Rightarrow> gostring \<Rightarrow> gostring \<Rightarrow> (memdb, unit) op" where
  "mem_RemoveMember userID workspaceID memberID e db =
     (if \<not> CanManageWorkspace (mem_role db workspaceID userID) then (Inl ErrForbidden, db)
      else if mem_role db workspaceID memberID = [] then (Inl NotFound, db)
      else if IsWorkspaceOwner (mem_role db workspaceID memberID) then (Inl ErrForbidden, db)
      else (Inr (), db\<lparr>md_members := AList.update workspaceID
             (AList.delete memberID (at_key [] (md_members db) workspaceID)) (md_members db)\<rparr>))"

definition mem_UpdateMemberRole ::
    "gostring \<Rightarrow> gostring \<Rightarrow> gostring \<Rightarrow> gostring \<Rightarrow> (memdb, WorkspaceMember) op" where
  "mem_UpdateMemberRole userID workspaceID memberID role0 e db =
     (let role = NormalizeWorkspaceRole role0 in
      if \<not> IsWorkspaceOwner (mem_role db workspaceID userID) then (Inl ErrForbidden, db)
      else if \<not> ValidWorkspaceInvitationRole role then (Inl (ErrInvalidArgument []), db)
      else if mem_role db workspaceID memberID = [] then (Inl NotFound, db)
      else if IsWorkspaceOwner (mem_role db workspaceID memberID) then (Inl ErrForbidden, db)
      else
        (let user = at_key zero_user (md_users db) memberID in
         (Inr \<lparr>wm_WorkspaceID = workspaceID, wm_UserID = memberID,
               wm_DisplayName = us_DisplayName user, wm_Email = us_Email user, wm_Role = role,
               wm_JoinedAt = 0\<rparr>,
          db\<lparr>md_members := AList.update workspaceID
              (AList.update memberID role (at_key [] (md_members db) workspaceID)) (md_members db)\<rparr>)))"

definition mem_CanAccessMeeting :: "gostring \<Rightarrow> gostring \<Rightarrow> (memdb, unit) op" where
  "mem_CanAccessMeeting userID meetingID e = reading (\<lambda>db.
     case map_of (md_meetings db) meetingID of
       None \<Rightarrow> Inl NotFound
     | Some m \<Rightarrow> if mem_role db (mt_WorkspaceID m) userID = [] then Inl NotFound else Inr ())"

definition mem_repo :: "memdb ws_repo" where
  "mem_repo =
     \<lparr>rp_FindOrCreateUser = mem_FindOrCreateUser, rp_CreateSession = mem_CreateSession,
      rp_SessionByTokenHash = mem_SessionByTokenHash, rp_RevokeSession = mem_RevokeSession,
      rp_SetCurrentWorkspace = mem_SetCurrentWorkspace, rp_ListWorkspaces = mem_ListWorkspaces,
      rp_GetWorkspace = mem_GetWorkspace, rp_CreateWorkspace = mem_CreateWorkspace,
      rp_UpdateWorkspace = mem_UpdateWorkspace, rp_ListMembers = mem_ListMembers,
      rp_MemberEmailExists = mem_MemberEmailExists, rp_CreateInvitation = mem_CreateInvitation,
      rp_DeleteInvitation = mem_DeleteInvitation,
      rp_InvitationByTokenHash = mem_InvitationByTokenHash,
      rp_AcceptInvitation = mem_AcceptInvitation, rp_WorkspaceNameByID = mem_WorkspaceNameByID,
      rp_ListInvitations = mem_ListInvitations, rp_RevokeInvitation = mem_RevokeInvitation,
      rp_RemoveMember = mem_RemoveMember, rp_UpdateMemberRole = mem_UpdateMemberRole\<rparr>"

section \<open>In PostgreSQL\<close>

record pg_member =
  pm_WorkspaceID :: gostring
  pm_UserID :: gostring
  pm_Role :: gostring
  pm_JoinedAt :: gotime

record pgdb =
  pd_users :: "(gostring \<times> gostring) list"
  pd_identities :: "(gostring \<times> gostring) list"
  pd_emails :: "(gostring \<times> gostring) list"
  pd_sessions :: "LoginSession list"
  pd_revoked :: "gostring list"
  pd_workspaces :: "Workspace list"
  pd_members :: "pg_member list"
  pd_invitations :: "WorkspaceInvitation list"
  pd_meetings :: "Meeting list"

text \<open>
  \<open>pd_users\<close> holds id and display name (the status column is always \<open>active\<close>), \<open>pd_identities\<close>
  Firebase subject and user id, \<open>pd_emails\<close> user id and primary email (\<open>normalized_email\<close> is its
  normal form), \<open>pd_revoked\<close> the ids of the sessions with \<open>revoked_at\<close>.  Primary keys, unique
  indexes and foreign keys are checked where a statement can violate them.
\<close>

definition pg_role_row :: "pgdb \<Rightarrow> gostring \<Rightarrow> gostring \<Rightarrow> pg_member option" where
  "pg_role_row db ws u =
     find (\<lambda>m. pm_WorkspaceID m = ws \<and> pm_UserID m = u) (pd_members db)"

definition requireWorkspaceRole ::
    "(gostring \<Rightarrow> bool) \<Rightarrow> gostring \<Rightarrow> gostring \<Rightarrow> pgdb \<Rightarrow> goerror option" where
  "requireWorkspaceRole allowed userID workspaceID db =
     (case pg_role_row db workspaceID userID of
        None \<Rightarrow> Some NotFound
      | Some m \<Rightarrow> if allowed (pm_Role m) then None else Some ErrForbidden)"

definition requireWorkspaceManager :: "gostring \<Rightarrow> gostring \<Rightarrow> pgdb \<Rightarrow> goerror option" where
  "requireWorkspaceManager = requireWorkspaceRole CanManageWorkspace"

definition requireWorkspaceOwner :: "gostring \<Rightarrow> gostring \<Rightarrow> pgdb \<Rightarrow> goerror option" where
  "requireWorkspaceOwner = requireWorkspaceRole IsWorkspaceOwner"

definition defaultWorkspaceBase :: "gostring \<Rightarrow> gostring" where
  "defaultWorkspaceBase email =
     (let local_part = before_at (trim_space email) in
      if local_part = [] then ''DeciScope'' else local_part)"

definition pg_FindOrCreateUser :: "Identity \<Rightarrow> (pgdb, User) op" where
  "pg_FindOrCreateUser i e db =
     (case [\<lparr>us_ID = uid, us_DisplayName = name, us_Email = email\<rparr>.
              (subject, owner) \<leftarrow> pd_identities db, subject = id_UID i,
              (uid, name) \<leftarrow> pd_users db, uid = owner,
              (euid, email) \<leftarrow> pd_emails db, euid = uid] of
        user # _ \<Rightarrow> (Inr user, db)
      | [] \<Rightarrow>
          (let email = trim_space (id_Email i);
               name0 = trim_space (id_Name i);
               user = \<lparr>us_ID = snd e,
                 us_DisplayName = (if name0 = [] then defaultWorkspaceBase email else name0),
                 us_Email = email\<rparr> in
           if us_ID user \<in> set (map fst (pd_users db)) \<or>
              id_UID i \<in> set (map fst (pd_identities db)) \<or>
              normalizeEmail email \<in> set (map (normalizeEmail \<circ> snd) (pd_emails db))
           then (Inl ErrDatabase, db)
           else (Inr user, db\<lparr>pd_users := pd_users db @ [(us_ID user, us_DisplayName user)],
                  pd_identities := pd_identities db @ [(id_UID i, us_ID user)],
                  pd_emails := pd_emails db @ [(us_ID user, email)]\<rparr>)))"

definition pg_CreateWorkspace :: "gostring \<Rightarrow> gostring \<Rightarrow> gostring \<Rightarrow> (pgdb, Workspace) op" where
  "pg_CreateWorkspace userID name description e db =
     (let now = rfc3339 (fst e);
          workspace = \<lparr>wk_ID = snd e, wk_Name = name, wk_Description = description,
            wk_Role = WorkspaceRoleOwner, wk_CreatedAt = now, wk_UpdatedAt = now\<rparr> in
      if snd e \<in> set (map wk_ID (pd_workspaces db)) \<or> userID \<notin> set (map fst (pd_users db)) \<or>
         pg_role_row db (snd e) userID \<noteq> None
      then (Inl ErrDatabase, db)
      else (Inr workspace,
        db\<lparr>pd_workspaces := pd_workspaces db @ [workspace],
           pd_members := pd_members db @ [\<lparr>pm_WorkspaceID = snd e, pm_UserID = userID,
             pm_Role = ''owner'', pm_JoinedAt = now\<rparr>]\<rparr>))"

definition pg_CreateSession :: "LoginSession \<Rightarrow> (pgdb, unit) op" where
  "pg_CreateSession s e db =
     (if ls_ID s \<in> set (map ls_ID (pd_sessions db)) \<or>
         ls_TokenHash s \<in> set (map ls_TokenHash (pd_sessions db)) \<or>
         ls_UserID s \<notin> set (map fst (pd_users db)) \<or>
         (ls_CurrentWorkspaceID s \<noteq> [] \<and>
          ls_CurrentWorkspaceID s \<notin> set (map wk_ID (pd_workspaces db)))
      then (Inl ErrDatabase, db)
      else (Inr (), db\<lparr>pd_sessions := pd_sessions db @ [s]\<rparr>))"

definition live_sessions :: "gostring \<Rightarrow> pgdb \<Rightarrow> (LoginSession \<times> User) list" where
  "live_sessions tokenHash db =
     [(s, \<lparr>us_ID = ls_UserID s, us_DisplayName = name, us_Email = email\<rparr>).
        s \<leftarrow> pd_sessions db, ls_TokenHash s = tokenHash \<and> ls_ID s \<notin> set (pd_revoked db),
        (uid, name) \<leftarrow> pd_users db, uid = ls_UserID s,
        (euid, email) \<leftarrow> pd_emails db, euid = uid]"

definition pg_SessionByTokenHash :: "gostring \<Rightarrow> (pgdb, LoginSession \<times> User) op" where
  "pg_SessionByTokenHash tokenHash e = reading (\<lambda>db.
     case live_sessions tokenHash db of [] \<Rightarrow> Inl NotFound | x # _ \<Rightarrow> Inr x)"

definition pg_RevokeSession :: "gostring \<Rightarrow> (pgdb, unit) op" where
  "pg_RevokeSession sessionID e db =
     (Inr (), if sessionID \<in> set (map ls_ID (pd_sessions db))
              then db\<lparr>pd_revoked := sessionID # pd_revoked db\<rparr> else db)"

definition pg_SetCurrentWorkspace :: "gostring \<Rightarrow> gostring \<Rightarrow> (pgdb, unit) op" where
  "pg_SetCurrentWorkspace sessionID workspaceID e db =
     (if sessionID \<in> set (map ls_ID (pd_sessions db)) \<and> workspaceID \<noteq> [] \<and>
         workspaceID \<notin> set (map wk_ID (pd_workspaces db))
      then (Inl ErrDatabase, db)
      else (Inr (), db\<lparr>pd_sessions := update_where (\<lambda>s. ls_ID s = sessionID)
             (\<lambda>s. s\<lparr>ls_CurrentWorkspaceID := workspaceID\<rparr>) (pd_sessions db)\<rparr>))"

definition pg_ListWorkspaces :: "gostring \<Rightarrow> (pgdb, Workspace list) op" where
  "pg_ListWorkspaces userID e = reading (\<lambda>db.
     Inr (order_by (\<lambda>a b. wk_CreatedAt a < wk_CreatedAt b)
       [w\<lparr>wk_Role := NormalizeWorkspaceRole (pm_Role m)\<rparr>.
          w \<leftarrow> pd_workspaces db, m \<leftarrow> pd_members db, pm_WorkspaceID m = wk_ID w \<and> pm_UserID m = userID]))"

definition pg_GetWorkspace :: "gostring \<Rightarrow> gostring \<Rightarrow> (pgdb, Workspace) op" where
  "pg_GetWorkspace userID workspaceID e = reading (\<lambda>db.
     case [w\<lparr>wk_Role := NormalizeWorkspaceRole (pm_Role m)\<rparr>.
             w \<leftarrow> pd_workspaces db, wk_ID w = workspaceID,
             m \<leftarrow> pd_members db, pm_WorkspaceID m = wk_ID w \<and> pm_UserID m = userID] of
       [] \<Rightarrow> Inl NotFound | w # _ \<Rightarrow> Inr w)"

definition pg_UpdateWorkspace ::
    "gostring \<Rightarrow> gostring \<Rightarrow> gostring option \<Rightarrow> gostring option \<Rightarrow> (pgdb, Workspace) op" where
  "pg_UpdateWorkspace userID workspaceID name description e db =
     (case requireWorkspaceManager userID workspaceID db of
        Some err \<Rightarrow> (Inl err, db)
      | None \<Rightarrow>
          pg_GetWorkspace userID workspaceID e
            (db\<lparr>pd_workspaces := update_where (\<lambda>w. wk_ID w = workspaceID)
               (\<lambda>w. w\<lparr>wk_Name := (case name of None \<Rightarrow> wk_Name w | Some n \<Rightarrow> n),
                      wk_Description := (case description of None \<Rightarrow> wk_Description w | Some d \<Rightarrow> d),
                      wk_UpdatedAt := rfc3339 (fst e)\<rparr>) (pd_workspaces db)\<rparr>))"

definition pg_ListMembers :: "gostring \<Rightarrow> gostring \<Rightarrow> (pgdb, WorkspaceMember list) op" where
  "pg_ListMembers userID workspaceID e = reading (\<lambda>db.
     case fst (pg_GetWorkspace userID workspaceID e db) of
       Inl err \<Rightarrow> Inl err
     | Inr _ \<Rightarrow> Inr (order_by (\<lambda>a b. wm_JoinedAt a < wm_JoinedAt b)
         [\<lparr>wm_WorkspaceID = pm_WorkspaceID m, wm_UserID = pm_UserID m, wm_DisplayName = name,
           wm_Email = email, wm_Role = NormalizeWorkspaceRole (pm_Role m),
           wm_JoinedAt = pm_JoinedAt m\<rparr>.
            m \<leftarrow> pd_members db, pm_WorkspaceID m = workspaceID,
            (uid, name) \<leftarrow> pd_users db, uid = pm_UserID m,
            (euid, email) \<leftarrow> pd_emails db, euid = uid]))"

definition pg_CreateInvitation ::
    "gostring \<Rightarrow> gostring \<Rightarrow> gostring \<Rightarrow> gostring \<Rightarrow> gostring \<Rightarrow> gotime \<Rightarrow>
     (pgdb, WorkspaceInvitation) op" where
  "pg_CreateInvitation userID workspaceID email role0 tokenHash expiresAt e db =
     (case requireWorkspaceManager userID workspaceID db of
        Some err \<Rightarrow> (Inl err, db)
      | None \<Rightarrow>
          (let role = NormalizeWorkspaceRole role0;
               invitation = \<lparr>iv_ID = snd e, iv_WorkspaceID = workspaceID,
                 iv_Email = trim_space email, iv_NormalizedEmail = normalizeEmail email,
                 iv_Role = role, iv_Status = Pending, iv_InvitedBy = userID,
                 iv_InvitedByName = [], iv_TokenHash = tokenHash, iv_ExpiresAt = Some expiresAt,
                 iv_CreatedAt = rfc3339 (fst e)\<rparr> in
           if \<not> ValidWorkspaceInvitationRole role then (Inl (ErrInvalidArgument []), db)
           else if list_ex (\<lambda>x. iv_ID x = snd e \<or> iv_TokenHash x = tokenHash \<or>
               (iv_WorkspaceID x = workspaceID \<and> iv_NormalizedEmail x = normalizeEmail email \<and>
                iv_Status x = Pending)) (pd_invitations db)
             then (Inl (ErrConflict ''already exists''), db)
           else (Inr (invitation\<lparr>iv_TokenHash := []\<rparr>),
                 db\<lparr>pd_invitations := pd_invitations db @ [invitation]\<rparr>)))"

definition pg_DeleteInvitation :: "gostring \<Rightarrow> (pgdb, unit) op" where
  "pg_DeleteInvitation invitationID e db =
     (Inr (), db\<lparr>pd_invitations := filter (\<lambda>x. iv_ID x \<noteq> invitationID) (pd_invitations db)\<rparr>)"

definition pg_InvitationByTokenHash :: "gostring \<Rightarrow> (pgdb, WorkspaceInvitation) op" where
  "pg_InvitationByTokenHash tokenHash e = reading (\<lambda>db.
     if trim_space tokenHash = [] then Inl NotFound
     else (case find (\<lambda>x. iv_TokenHash x = tokenHash) (pd_invitations db) of
         None \<Rightarrow> Inl NotFound
       | Some x \<Rightarrow> Inr (x\<lparr>iv_Role := NormalizeWorkspaceRole (iv_Role x), iv_TokenHash := [],
                          iv_InvitedByName := []\<rparr>)))"

definition pg_AcceptInvitation :: "gostring \<Rightarrow> gostring \<Rightarrow> (pgdb, unit) op" where
  "pg_AcceptInvitation invitationID userID e db =
     (case find (\<lambda>x. iv_ID x = invitationID \<and> iv_Status x = Pending) (pd_invitations db) of
        None \<Rightarrow> (Inl NotFound, db)
      | Some x \<Rightarrow>
          (let role0 = NormalizeWorkspaceRole (iv_Role x);
               role = (if role0 = [] then WorkspaceRoleViewer else role0);
               members = (if pg_role_row db (iv_WorkspaceID x) userID = None
                 then pd_members db @ [\<lparr>pm_WorkspaceID = iv_WorkspaceID x, pm_UserID = userID,
                        pm_Role = role, pm_JoinedAt = rfc3339 (fst e)\<rparr>]
                 else pd_members db) in
           if userID \<notin> set (map fst (pd_users db)) \<and> pg_role_row db (iv_WorkspaceID x) userID = None
           then (Inl ErrDatabase, db)
           else (Inr (), db\<lparr>pd_members := members,
                  pd_invitations := update_where (\<lambda>x. iv_ID x = invitationID)
                    (\<lambda>x. x\<lparr>iv_Status := Accepted\<rparr>) (pd_invitations db)\<rparr>)))"

definition pg_WorkspaceNameByID :: "gostring \<Rightarrow> (pgdb, gostring) op" where
  "pg_WorkspaceNameByID workspaceID e = reading (\<lambda>db.
     case find (\<lambda>w. wk_ID w = workspaceID) (pd_workspaces db) of
       None \<Rightarrow> Inl NotFound | Some w \<Rightarrow> Inr (wk_Name w))"

definition pg_MemberEmailExists :: "gostring \<Rightarrow> gostring \<Rightarrow> (pgdb, bool) op" where
  "pg_MemberEmailExists workspaceID normalized e = reading (\<lambda>db.
     Inr (list_ex (\<lambda>m. pm_WorkspaceID m = workspaceID \<and>
       list_ex (\<lambda>(euid, email). euid = pm_UserID m \<and> normalizeEmail email = normalized) (pd_emails db))
       (pd_members db)))"

definition pg_ListInvitations ::
    "gostring \<Rightarrow> gostring \<Rightarrow> (pgdb, WorkspaceInvitation list) op" where
  "pg_ListInvitations userID workspaceID e = reading (\<lambda>db.
     case requireWorkspaceManager userID workspaceID db of
       Some err \<Rightarrow> Inl err
     | None \<Rightarrow> Inr (map (\<lambda>x. x\<lparr>iv_Role := NormalizeWorkspaceRole (iv_Role x), iv_TokenHash := [],
           iv_InvitedByName := (case map_of (pd_users db) (iv_InvitedBy x) of None \<Rightarrow> [] | Some n \<Rightarrow> n)\<rparr>)
         (order_by (\<lambda>a b. iv_CreatedAt a < iv_CreatedAt b)
           (filter (\<lambda>x. iv_WorkspaceID x = workspaceID \<and> iv_Status x = Pending)
             (pd_invitations db)))))"

definition pg_RevokeInvitation :: "gostring \<Rightarrow> gostring \<Rightarrow> gostring \<Rightarrow> (pgdb, unit) op" where
  "pg_RevokeInvitation userID workspaceID invitationID e db =
     (case requireWorkspaceManager userID workspaceID db of
        Some err \<Rightarrow> (Inl err, db)
      | None \<Rightarrow>
          (let sel = (\<lambda>x. iv_ID x = invitationID \<and> iv_WorkspaceID x = workspaceID \<and>
                      iv_Status x = Pending) in
           if \<not> list_ex sel (pd_invitations db) then (Inl NotFound, db)
           else (Inr (), db\<lparr>pd_invitations := update_where sel (\<lambda>x. x\<lparr>iv_Status := Revoked\<rparr>)
                  (pd_invitations db)\<rparr>)))"

definition pg_RemoveMember :: "gostring \<Rightarrow> gostring \<Rightarrow> gostring \<Rightarrow> (pgdb, unit) op" where
  "pg_RemoveMember userID workspaceID memberID e db =
     (case requireWorkspaceManager userID workspaceID db of
        Some err \<Rightarrow> (Inl err, db)
      | None \<Rightarrow>
          (case pg_role_row db workspaceID memberID of
             None \<Rightarrow> (Inl NotFound, db)
           | Some m \<Rightarrow>
               if IsWorkspaceOwner (pm_Role m) then (Inl ErrForbidden, db)
               else (Inr (), db\<lparr>pd_members := filter
                 (\<lambda>m. \<not> (pm_WorkspaceID m = workspaceID \<and> pm_UserID m = memberID)) (pd_members db)\<rparr>)))"

definition pg_UpdateMemberRole ::
    "gostring \<Rightarrow> gostring \<Rightarrow> gostring \<Rightarrow> gostring \<Rightarrow> (pgdb, WorkspaceMember) op" where
  "pg_UpdateMemberRole userID workspaceID memberID role0 e db =
     (case requireWorkspaceOwner userID workspaceID db of
        Some err \<Rightarrow> (Inl err, db)
      | None \<Rightarrow>
          (let role = NormalizeWorkspaceRole role0 in
           if \<not> ValidWorkspaceInvitationRole role then (Inl (ErrInvalidArgument []), db)
           else (case pg_role_row db workspaceID memberID of
             None \<Rightarrow> (Inl NotFound, db)
           | Some m \<Rightarrow>
               if IsWorkspaceOwner (pm_Role m) then (Inl ErrForbidden, db)
               else
                 (let db' = db\<lparr>pd_members := update_where
                        (\<lambda>m. pm_WorkspaceID m = workspaceID \<and> pm_UserID m = memberID)
                        (\<lambda>m. m\<lparr>pm_Role := role\<rparr>) (pd_members db)\<rparr> in
                  case fst (pg_ListMembers userID workspaceID e db') of
                    Inl err \<Rightarrow> (Inl err, db')
                  | Inr members \<Rightarrow>
                      (case find (\<lambda>x. wm_UserID x = memberID) members of
                         None \<Rightarrow> (Inl NotFound, db') | Some x \<Rightarrow> (Inr x, db'))))))"

definition pg_CanAccessMeeting :: "gostring \<Rightarrow> gostring \<Rightarrow> (pgdb, unit) op" where
  "pg_CanAccessMeeting userID meetingID e = reading (\<lambda>db.
     if list_ex (\<lambda>mt. mt_ID mt = meetingID \<and>
          list_ex (\<lambda>m. pm_WorkspaceID m = mt_WorkspaceID mt \<and> pm_UserID m = userID) (pd_members db))
        (pd_meetings db) then Inr () else Inl NotFound)"

definition pg_repo :: "pgdb ws_repo" where
  "pg_repo =
     \<lparr>rp_FindOrCreateUser = pg_FindOrCreateUser, rp_CreateSession = pg_CreateSession,
      rp_SessionByTokenHash = pg_SessionByTokenHash, rp_RevokeSession = pg_RevokeSession,
      rp_SetCurrentWorkspace = pg_SetCurrentWorkspace, rp_ListWorkspaces = pg_ListWorkspaces,
      rp_GetWorkspace = pg_GetWorkspace, rp_CreateWorkspace = pg_CreateWorkspace,
      rp_UpdateWorkspace = pg_UpdateWorkspace, rp_ListMembers = pg_ListMembers,
      rp_MemberEmailExists = pg_MemberEmailExists, rp_CreateInvitation = pg_CreateInvitation,
      rp_DeleteInvitation = pg_DeleteInvitation,
      rp_InvitationByTokenHash = pg_InvitationByTokenHash,
      rp_AcceptInvitation = pg_AcceptInvitation, rp_WorkspaceNameByID = pg_WorkspaceNameByID,
      rp_ListInvitations = pg_ListInvitations, rp_RevokeInvitation = pg_RevokeInvitation,
      rp_RemoveMember = pg_RemoveMember, rp_UpdateMemberRole = pg_UpdateMemberRole\<rparr>"

end
