(* ===== verification/WorkspaceService.thy ===== *)
theory WorkspaceService
  imports WorkspaceStore SessionRules
begin

text \<open>
  The workspace service (\<open>internal/application/workspace\<close>: \<open>service.go\<close>, \<open>invitation.go\<close>), the
  authentication service (\<open>internal/application/auth/service.go\<close>) and the access check
  (\<open>internal/application/access\<close>), over any repository of the interface \<open>ws_repo\<close>.

  The world holds the store, the clock and the supplies of ids and of random tokens (a token may
  fail), the faults of the repository, whether each invitation mail is delivered, and what was
  sent.  The mail address parser, SHA-256, query escaping and the Firebase verifier are fields of
  the configuration.
\<close>

datatype ws_error =
    Core goerror
  | ErrInvitationExpired | ErrInvitationRevoked | ErrInvitationAlreadyAccepted
  | ErrInvitationEmailMismatch | ErrInvitationEmailDelivery
  | ErrUnavailable | ErrInvalidToken | ErrEmailRequired | ErrUnauthorized | ErrRandom

type_synonym 'a ws_result = "ws_error + 'a"

record InvitationEmail =
  em_To :: gostring
  em_WorkspaceName :: gostring
  em_InviterName :: gostring
  em_Role :: gostring
  em_AcceptURL :: gostring
  em_ExpiresAt :: gotime

record InvitationPreview =
  pv_WorkspaceName :: gostring
  pv_Email :: gostring
  pv_Role :: gostring
  pv_Status :: InvitationStatus
  pv_ExpiresAt :: "gotime option"

record 'db ws_config =
  wc_repo :: "'db ws_repo"
  wc_mailValid :: "gostring \<Rightarrow> bool"
  wc_hash :: "gostring \<Rightarrow> gostring"
  wc_escape :: "gostring \<Rightarrow> gostring"
  wc_frontendBaseURL :: gostring
  wc_sampleMeetings :: bool
  wc_verifier :: "(gostring \<Rightarrow> Identity option) option"
  wc_sessionTTL :: duration

record 'db ws_world =
  ww_db :: 'db
  ww_clock :: "nat \<Rightarrow> gotime"
  ww_ticks :: nat
  ww_ids :: "nat \<Rightarrow> gostring"
  ww_nextid :: nat
  ww_tokens :: "nat \<Rightarrow> gostring option"
  ww_nexttoken :: nat
  ww_faults :: "nat \<Rightarrow> bool"
  ww_calls :: nat
  ww_delivers :: "nat \<Rightarrow> bool"
  ww_mails :: "InvitationEmail list"
  ww_samples :: "(gostring \<times> gostring) list"

text \<open>One repository call: it may fail without effect, else it runs on the store.\<close>

definition ws_call :: "('db, 'a) op \<Rightarrow> 'db ws_world \<Rightarrow> 'a ws_result \<times> 'db ws_world" where
  "ws_call f w =
     (if ww_faults w (ww_calls w) then (Inl (Core ErrDatabase), w\<lparr>ww_calls := Suc (ww_calls w)\<rparr>)
      else (case f (ww_clock w (ww_ticks w), ww_ids w (ww_nextid w)) (ww_db w) of
        (r, db) \<Rightarrow> (case r of Inl e \<Rightarrow> Inl (Core e) | Inr x \<Rightarrow> Inr x,
          w\<lparr>ww_calls := Suc (ww_calls w), ww_ticks := Suc (ww_ticks w),
            ww_nextid := Suc (ww_nextid w), ww_db := db\<rparr>)))"

definition ws_now :: "'db ws_world \<Rightarrow> gotime \<times> 'db ws_world" where
  "ws_now w = (ww_clock w (ww_ticks w), w\<lparr>ww_ticks := Suc (ww_ticks w)\<rparr>)"

definition ws_token :: "'db ws_world \<Rightarrow> gostring option \<times> 'db ws_world" where
  "ws_token w = (ww_tokens w (ww_nexttoken w), w\<lparr>ww_nexttoken := Suc (ww_nexttoken w)\<rparr>)"

definition ws_fresh_id :: "'db ws_world \<Rightarrow> gostring \<times> 'db ws_world" where
  "ws_fresh_id w = (ww_ids w (ww_nextid w), w\<lparr>ww_nextid := Suc (ww_nextid w)\<rparr>)"

text \<open>\<open>x, err := \<dots>; if err != nil { return nil, err }\<close>\<close>

definition ws_bind ::
    "('w \<Rightarrow> ('e + 'a) \<times> 'w) \<Rightarrow> ('a \<Rightarrow> 'w \<Rightarrow> ('e + 'b) \<times> 'w) \<Rightarrow> 'w \<Rightarrow> ('e + 'b) \<times> 'w" where
  "ws_bind m k w = (case m w of (Inl e, w') \<Rightarrow> (Inl e, w') | (Inr x, w') \<Rightarrow> k x w')"

section \<open>Invitations\<close>

definition invitationTTL :: duration where "invitationTTL = 72 * hour"

definition effectiveInvitationStatus :: "WorkspaceInvitation \<Rightarrow> gotime \<Rightarrow> InvitationStatus" where
  "effectiveInvitationStatus x now =
     (if iv_Status x \<noteq> Pending then iv_Status x
      else (case iv_ExpiresAt x of
          None \<Rightarrow> Expired
        | Some expiresAt \<Rightarrow> if \<not> now < expiresAt then Expired else Pending))"

definition invitationAcceptURL :: "'db ws_config \<Rightarrow> gostring \<Rightarrow> gostring" where
  "invitationAcceptURL cfg rawToken =
     (let base0 = trim_right_char (CHR ''/'') (wc_frontendBaseURL cfg);
          base = (if base0 = [] then ''http://localhost:5193'' else base0)
      in base @ ''/invitations/accept?token='' @ wc_escape cfg rawToken)"

definition hashInvitationToken :: "'db ws_config \<Rightarrow> gostring \<Rightarrow> gostring" where
  "hashInvitationToken cfg raw = wc_hash cfg raw"

text \<open>The loop over the pending invitations of the same address.\<close>

fun clear_expired ::
    "'db ws_config \<Rightarrow> gostring \<Rightarrow> gotime \<Rightarrow> WorkspaceInvitation list \<Rightarrow> 'db ws_world \<Rightarrow>
     unit ws_result \<times> 'db ws_world" where
  "clear_expired cfg email now [] w = (Inr (), w)"
| "clear_expired cfg email now (x # xs) w =
     (if iv_NormalizedEmail x \<noteq> email then clear_expired cfg email now xs w
      else if effectiveInvitationStatus x now = Pending
        then (Inl (Core (ErrConflict ''invitation already exists'')), w)
      else (case ws_call (rp_DeleteInvitation (wc_repo cfg) (iv_ID x)) w of
          (Inl e, w') \<Rightarrow> (Inl e, w')
        | (Inr _, w') \<Rightarrow> clear_expired cfg email now xs w'))"

definition invitationByRawToken ::
    "'db ws_config \<Rightarrow> gostring \<Rightarrow> 'db ws_world \<Rightarrow> WorkspaceInvitation ws_result \<times> 'db ws_world" where
  "invitationByRawToken cfg rawToken0 w =
     (let rawToken = trim_space rawToken0 in
      if rawToken = [] then (Inl (Core NotFound), w)
      else ws_call (rp_InvitationByTokenHash (wc_repo cfg) (hashInvitationToken cfg rawToken)) w)"

definition deliver :: "InvitationEmail \<Rightarrow> 'db ws_world \<Rightarrow> bool \<times> 'db ws_world" where
  "deliver m w = (ww_delivers w (length (ww_mails w)), w\<lparr>ww_mails := ww_mails w @ [m]\<rparr>)"

text \<open>Store the invitation and mail its link; an undelivered invitation is deleted again.\<close>

definition send_invitation ::
    "'db ws_config \<Rightarrow> gostring \<Rightarrow> gostring \<Rightarrow> gostring \<Rightarrow> gostring \<Rightarrow> gostring \<Rightarrow> gostring \<Rightarrow>
     'db ws_world \<Rightarrow> WorkspaceInvitation ws_result \<times> 'db ws_world" where
  "send_invitation cfg workspaceName userID userDisplayName workspaceID email role w0 =
     (case ws_token w0 of
        (None, w1) \<Rightarrow> (Inl ErrRandom, w1)
      | (Some rawToken, w1) \<Rightarrow>
          (let (now, w2) = ws_now w1; expiresAt = now + invitationTTL in
           ws_bind (ws_call (rp_CreateInvitation (wc_repo cfg) userID workspaceID email role
              (hashInvitationToken cfg rawToken) (rfc3339 expiresAt)))
            (\<lambda>invitation w3.
              (let (sent, w4) = deliver \<lparr>em_To = iv_Email invitation, em_WorkspaceName = workspaceName,
                     em_InviterName = trim_space userDisplayName, em_Role = iv_Role invitation,
                     em_AcceptURL = invitationAcceptURL cfg rawToken, em_ExpiresAt = expiresAt\<rparr> w3 in
               if sent then (Inr invitation, w4)
               else (let (_, w5) = ws_call (rp_DeleteInvitation (wc_repo cfg) (iv_ID invitation)) w4 in
                     (Inl ErrInvitationEmailDelivery, w5)))) w2))"

definition CreateInvitation ::
    "'db ws_config \<Rightarrow> gostring \<Rightarrow> gostring \<Rightarrow> gostring \<Rightarrow> gostring \<Rightarrow> gostring \<Rightarrow> 'db ws_world \<Rightarrow>
     WorkspaceInvitation ws_result \<times> 'db ws_world" where
  "CreateInvitation cfg userID userDisplayName workspaceID email0 role0 w0 =
     (let email = trim_space email0; normalizedEmail = normalizeEmail email in
      if normalizedEmail = [] then (Inl (Core (ErrInvalidArgument ''email is required'')), w0)
      else if \<not> wc_mailValid cfg normalizedEmail
        then (Inl (Core (ErrInvalidArgument ''invalid email address'')), w0)
      else if NormalizeWorkspaceRole role0 = WorkspaceRoleOwner
        then (Inl (Core (ErrInvalidArgument ''owner role cannot be granted via invitation'')), w0)
      else
        (let role1 = NormalizeWorkspaceRole role0;
             role = (if role1 = [] then WorkspaceRoleViewer else role1) in
         if \<not> ValidWorkspaceInvitationRole role
           then (Inl (Core (ErrInvalidArgument ''invitation role must be admin or viewer'')), w0)
         else
           ws_bind (ws_call (rp_GetWorkspace (wc_repo cfg) userID workspaceID)) (\<lambda>workspace.
           ws_bind (ws_call (rp_MemberEmailExists (wc_repo cfg) workspaceID normalizedEmail))
             (\<lambda>alreadyMember w2.
              if alreadyMember then (Inl (Core (ErrConflict ''user is already a member'')), w2)
              else ws_bind (ws_call (rp_ListInvitations (wc_repo cfg) userID workspaceID))
                (\<lambda>invitations w3.
                  (let (now, w4) = ws_now w3 in
                   ws_bind (clear_expired cfg normalizedEmail now invitations)
                     (\<lambda>_. send_invitation cfg (wk_Name workspace) userID userDisplayName workspaceID
                        email role) w4)) w2)) w0))"

definition PreviewInvitation ::
    "'db ws_config \<Rightarrow> gostring \<Rightarrow> 'db ws_world \<Rightarrow> InvitationPreview ws_result \<times> 'db ws_world" where
  "PreviewInvitation cfg rawToken =
     ws_bind (invitationByRawToken cfg rawToken) (\<lambda>invitation.
     ws_bind (ws_call (rp_WorkspaceNameByID (wc_repo cfg) (iv_WorkspaceID invitation)))
       (\<lambda>workspaceName w.
         (let (now, w') = ws_now w in
          (Inr \<lparr>pv_WorkspaceName = workspaceName, pv_Email = iv_Email invitation,
                pv_Role = iv_Role invitation,
                pv_Status = effectiveInvitationStatus invitation now,
                pv_ExpiresAt = iv_ExpiresAt invitation\<rparr>, w'))))"

definition AcceptInvitation ::
    "'db ws_config \<Rightarrow> gostring \<Rightarrow> gostring \<Rightarrow> gostring \<Rightarrow> 'db ws_world \<Rightarrow>
     Workspace ws_result \<times> 'db ws_world" where
  "AcceptInvitation cfg userID userEmail rawToken =
     ws_bind (invitationByRawToken cfg rawToken) (\<lambda>invitation w1.
       (let (now, w2) = ws_now w1 in
        case effectiveInvitationStatus invitation now of
          Accepted \<Rightarrow> (Inl ErrInvitationAlreadyAccepted, w2)
        | Revoked \<Rightarrow> (Inl ErrInvitationRevoked, w2)
        | Expired \<Rightarrow> (Inl ErrInvitationExpired, w2)
        | Pending \<Rightarrow>
            if normalizeEmail userEmail = [] \<or> normalizeEmail userEmail \<noteq> iv_NormalizedEmail invitation
            then (Inl ErrInvitationEmailMismatch, w2)
            else ws_bind (ws_call (rp_AcceptInvitation (wc_repo cfg) (iv_ID invitation) userID))
              (\<lambda>_. ws_call (rp_GetWorkspace (wc_repo cfg) userID (iv_WorkspaceID invitation))) w2))"

section \<open>Workspaces and members\<close>

definition ListWorkspaces ::
    "'db ws_config \<Rightarrow> gostring \<Rightarrow> 'db ws_world \<Rightarrow> Workspace list ws_result \<times> 'db ws_world" where
  "ListWorkspaces cfg userID = ws_call (rp_ListWorkspaces (wc_repo cfg) userID)"

definition GetWorkspace ::
    "'db ws_config \<Rightarrow> gostring \<Rightarrow> gostring \<Rightarrow> 'db ws_world \<Rightarrow> Workspace ws_result \<times> 'db ws_world" where
  "GetWorkspace cfg userID workspaceID = ws_call (rp_GetWorkspace (wc_repo cfg) userID workspaceID)"

definition CreateWorkspace ::
    "'db ws_config \<Rightarrow> gostring \<Rightarrow> gostring \<Rightarrow> gostring \<Rightarrow> 'db ws_world \<Rightarrow>
     Workspace ws_result \<times> 'db ws_world" where
  "CreateWorkspace cfg userID name0 description w0 =
     (let name = trim_space name0 in
      if name = [] then (Inl (Core (ErrInvalidArgument ''workspace name is required'')), w0)
      else
        ws_bind (ws_call (rp_ListWorkspaces (wc_repo cfg) userID)) (\<lambda>existing.
        ws_bind (ws_call (rp_CreateWorkspace (wc_repo cfg) userID name (trim_space description)))
          (\<lambda>workspace w.
            (Inr workspace,
             if length existing = 0 \<and> wc_sampleMeetings cfg
             then w\<lparr>ww_samples := ww_samples w @ [(wk_ID workspace, userID)]\<rparr> else w))) w0)"

definition UpdateWorkspace ::
    "'db ws_config \<Rightarrow> gostring \<Rightarrow> gostring \<Rightarrow> gostring option \<Rightarrow> gostring option \<Rightarrow> 'db ws_world \<Rightarrow>
     Workspace ws_result \<times> 'db ws_world" where
  "UpdateWorkspace cfg userID workspaceID name0 description0 w =
     (let name = map_option trim_space name0; description = map_option trim_space description0 in
      if name = Some [] then (Inl (Core (ErrInvalidArgument ''workspace name is required'')), w)
      else if name = None \<and> description = None
        then (Inl (Core (ErrInvalidArgument ''nothing to update'')), w)
      else ws_call (rp_UpdateWorkspace (wc_repo cfg) userID workspaceID name description) w)"

definition ListMembers ::
    "'db ws_config \<Rightarrow> gostring \<Rightarrow> gostring \<Rightarrow> 'db ws_world \<Rightarrow>
     WorkspaceMember list ws_result \<times> 'db ws_world" where
  "ListMembers cfg userID workspaceID = ws_call (rp_ListMembers (wc_repo cfg) userID workspaceID)"

definition ListInvitations ::
    "'db ws_config \<Rightarrow> gostring \<Rightarrow> gostring \<Rightarrow> 'db ws_world \<Rightarrow>
     WorkspaceInvitation list ws_result \<times> 'db ws_world" where
  "ListInvitations cfg userID workspaceID =
     ws_bind (ws_call (rp_ListInvitations (wc_repo cfg) userID workspaceID)) (\<lambda>invitations w.
       (let (now, w') = ws_now w in
        (Inr (map (\<lambda>x. x\<lparr>iv_Status := effectiveInvitationStatus x now\<rparr>) invitations), w')))"

definition RevokeInvitation ::
    "'db ws_config \<Rightarrow> gostring \<Rightarrow> gostring \<Rightarrow> gostring \<Rightarrow> 'db ws_world \<Rightarrow>
     unit ws_result \<times> 'db ws_world" where
  "RevokeInvitation cfg userID workspaceID invitationID =
     ws_call (rp_RevokeInvitation (wc_repo cfg) userID workspaceID invitationID)"

definition RemoveMember ::
    "'db ws_config \<Rightarrow> gostring \<Rightarrow> gostring \<Rightarrow> gostring \<Rightarrow> 'db ws_world \<Rightarrow>
     unit ws_result \<times> 'db ws_world" where
  "RemoveMember cfg userID workspaceID memberID =
     ws_bind (ws_call (rp_ListMembers (wc_repo cfg) userID workspaceID)) (\<lambda>members w.
       (case find (\<lambda>m. wm_UserID m = memberID) members of
          None \<Rightarrow> (Inl (Core NotFound), w)
        | Some m \<Rightarrow>
            if IsWorkspaceOwner (wm_Role m) then (Inl (Core ErrForbidden), w)
            else ws_call (rp_RemoveMember (wc_repo cfg) userID workspaceID memberID) w))"

definition UpdateMemberRole ::
    "'db ws_config \<Rightarrow> gostring \<Rightarrow> gostring \<Rightarrow> gostring \<Rightarrow> gostring \<Rightarrow> 'db ws_world \<Rightarrow>
     WorkspaceMember ws_result \<times> 'db ws_world" where
  "UpdateMemberRole cfg userID workspaceID memberID role0 w0 =
     (let role = NormalizeWorkspaceRole role0 in
      if \<not> ValidWorkspaceInvitationRole role
      then (Inl (Core (ErrInvalidArgument ''member role must be admin or viewer'')), w0)
      else ws_bind (ws_call (rp_ListMembers (wc_repo cfg) userID workspaceID)) (\<lambda>members w.
        (case find (\<lambda>m. wm_UserID m = memberID) members of
           None \<Rightarrow> (Inl (Core NotFound), w)
         | Some m \<Rightarrow>
             if IsWorkspaceOwner (wm_Role m) then (Inl (Core ErrForbidden), w)
             else ws_call (rp_UpdateMemberRole (wc_repo cfg) userID workspaceID memberID role) w)) w0)"

section \<open>Login sessions\<close>

record LoginResult =
  lr_User :: User
  lr_Workspaces :: "Workspace list"
  lr_Session :: LoginSession
  lr_Token :: gostring

record SessionResult =
  sr_User :: User
  sr_Workspaces :: "Workspace list"
  sr_Session :: LoginSession

text \<open>\<open>NewService\<close>: a TTL that is not positive becomes seven days.\<close>

definition session_ttl :: "'db ws_config \<Rightarrow> duration" where
  "session_ttl cfg = (if wc_sessionTTL cfg \<le> 0 then 7 * 24 * hour else wc_sessionTTL cfg)"

definition hashToken :: "'db ws_config \<Rightarrow> gostring \<Rightarrow> gostring" where
  "hashToken cfg raw = wc_hash cfg raw"

definition open_session ::
    "'db ws_config \<Rightarrow> User \<Rightarrow> 'db ws_world \<Rightarrow> LoginResult ws_result \<times> 'db ws_world" where
  "open_session cfg user =
     ws_bind (ws_call (rp_ListWorkspaces (wc_repo cfg) (us_ID user))) (\<lambda>workspaces w1.
       (case ws_token w1 of
          (None, w2) \<Rightarrow> (Inl ErrRandom, w2)
        | (Some rawToken, w2) \<Rightarrow>
            (let (now, w3) = ws_now w2;
                 (sid, w4) = ws_fresh_id w3;
                 s = \<lparr>ls_ID = sid, ls_UserID = us_ID user, ls_TokenHash = hashToken cfg rawToken,
                      ls_CurrentWorkspaceID = (case workspaces of [] \<Rightarrow> [] | w # _ \<Rightarrow> wk_ID w),
                      ls_ExpiresAt = rfc3339 (now + session_ttl cfg), ls_CreatedAt = rfc3339 now\<rparr> in
             ws_bind (ws_call (rp_CreateSession (wc_repo cfg) s))
               (\<lambda>_ w5. (Inr \<lparr>lr_User = user, lr_Workspaces = workspaces, lr_Session = s,
                            lr_Token = rawToken\<rparr>, w5)) w4)))"

definition Login ::
    "'db ws_config \<Rightarrow> gostring \<Rightarrow> 'db ws_world \<Rightarrow> LoginResult ws_result \<times> 'db ws_world" where
  "Login cfg idToken w =
     (case wc_verifier cfg of
        None \<Rightarrow> (Inl ErrUnavailable, w)
      | Some verify \<Rightarrow>
          (case verify idToken of
             None \<Rightarrow> (Inl ErrInvalidToken, w)
           | Some identity0 \<Rightarrow>
               (let identity = identity0\<lparr>id_Email := trim_space (id_Email identity0)\<rparr> in
                if id_Email identity = [] then (Inl ErrEmailRequired, w)
                else if \<not> id_EmailVerified identity \<and> id_Provider identity \<noteq> ''microsoft.com''
                  then (Inl ErrInvalidToken, w)
                else ws_bind (ws_call (rp_FindOrCreateUser (wc_repo cfg) identity))
                       (open_session cfg) w)))"

definition hasWorkspace :: "Workspace list \<Rightarrow> gostring \<Rightarrow> bool" where
  "hasWorkspace workspaces workspaceID \<longleftrightarrow> list_ex (\<lambda>w. wk_ID w = workspaceID) workspaces"

definition not_found_unauthorized :: "ws_error \<Rightarrow> ws_error" where
  "not_found_unauthorized e =
     (case e of Core c \<Rightarrow> if is_not_found c then ErrUnauthorized else e | _ \<Rightarrow> e)"

definition Authenticate ::
    "'db ws_config \<Rightarrow> gostring \<Rightarrow> 'db ws_world \<Rightarrow> SessionResult ws_result \<times> 'db ws_world" where
  "Authenticate cfg rawToken w0 =
     (if rawToken = [] then (Inl ErrUnauthorized, w0)
      else (case ws_call (rp_SessionByTokenHash (wc_repo cfg) (hashToken cfg rawToken)) w0 of
        (Inl e, w1) \<Rightarrow> (Inl (not_found_unauthorized e), w1)
      | (Inr (s, user), w1) \<Rightarrow>
          (let (now, w2) = ws_now w1 in
           if \<not> now < ls_ExpiresAt s then (Inl ErrUnauthorized, w2)
           else ws_bind (ws_call (rp_ListWorkspaces (wc_repo cfg) (us_ID user))) (\<lambda>workspaces w3.
             (if hasWorkspace workspaces (ls_CurrentWorkspaceID s)
              then (Inr \<lparr>sr_User = user, sr_Workspaces = workspaces, sr_Session = s\<rparr>, w3)
              else
                (let nxt = (case workspaces of [] \<Rightarrow> [] | w # _ \<Rightarrow> wk_ID w);
                     result = \<lparr>sr_User = user, sr_Workspaces = workspaces,
                               sr_Session = s\<lparr>ls_CurrentWorkspaceID := nxt\<rparr>\<rparr> in
                 if nxt \<noteq> ls_CurrentWorkspaceID s
                 then ws_bind (ws_call (rp_SetCurrentWorkspace (wc_repo cfg) (ls_ID s) nxt))
                        (\<lambda>_ w4. (Inr result, w4)) w3
                 else (Inr result, w3)))) w2)))"

definition Logout ::
    "'db ws_config \<Rightarrow> gostring \<Rightarrow> 'db ws_world \<Rightarrow> unit ws_result \<times> 'db ws_world" where
  "Logout cfg sessionID = ws_call (rp_RevokeSession (wc_repo cfg) sessionID)"

definition SetCurrentWorkspace ::
    "'db ws_config \<Rightarrow> gostring \<Rightarrow> gostring \<Rightarrow> gostring \<Rightarrow> 'db ws_world \<Rightarrow>
     unit ws_result \<times> 'db ws_world" where
  "SetCurrentWorkspace cfg sessionID userID workspaceID =
     ws_bind (ws_call (rp_GetWorkspace (wc_repo cfg) userID workspaceID))
       (\<lambda>_. ws_call (rp_SetCurrentWorkspace (wc_repo cfg) sessionID workspaceID))"

section \<open>Access to a meeting\<close>

definition CanAccessMeeting ::
    "(gostring \<Rightarrow> gostring \<Rightarrow> ('db, unit) op) \<Rightarrow> gostring \<Rightarrow> gostring \<Rightarrow> 'db ws_world \<Rightarrow>
     unit ws_result \<times> 'db ws_world" where
  "CanAccessMeeting check userID meetingID w =
     (if meetingID = [] then (Inl (Core NotFound), w) else ws_call (check userID meetingID) w)"

end
