(* ===== verification/WorkspaceAccess.thy ===== *)
theory WorkspaceAccess
  imports WorkspaceService
begin

text \<open>
  Who may do what in a workspace.  The locale \<open>workspace_repository\<close> states what the services rely
  on in a repository; both repositories of the program satisfy it, and the facts proved in it
  hold for both: owners are made by creating a workspace and never otherwise, and no invitation
  grants ownership.
\<close>

section \<open>The contract of a repository\<close>

definition owner_safe ::
    "('db \<Rightarrow> gostring \<Rightarrow> gostring \<Rightarrow> gostring) \<Rightarrow> ('db \<Rightarrow> WorkspaceInvitation list) \<Rightarrow> 'db \<Rightarrow> 'db \<Rightarrow> bool" where
  "owner_safe role_at invitations db db' \<longleftrightarrow>
     (\<forall>x \<in> set (invitations db). \<not> IsWorkspaceOwner (iv_Role x)) \<longrightarrow>
       (\<forall>ws u. IsWorkspaceOwner (role_at db' ws u) = IsWorkspaceOwner (role_at db ws u)) \<and>
       (\<forall>x \<in> set (invitations db'). \<not> IsWorkspaceOwner (iv_Role x))"

locale workspace_repository =
  fixes repo :: "'db ws_repo"
    and role_at :: "'db \<Rightarrow> gostring \<Rightarrow> gostring \<Rightarrow> gostring"
    and invitations :: "'db \<Rightarrow> WorkspaceInvitation list"
  assumes reads:
      "snd (rp_ListWorkspaces repo u e db) = db" "snd (rp_GetWorkspace repo u ws e db) = db"
      "snd (rp_ListMembers repo u ws e db) = db" "snd (rp_MemberEmailExists repo ws m e db) = db"
      "snd (rp_InvitationByTokenHash repo h e db) = db" "snd (rp_WorkspaceNameByID repo ws e db) = db"
      "snd (rp_ListInvitations repo u ws e db) = db" "snd (rp_SessionByTokenHash repo h e db) = db"
    and safe:
      "owner_safe role_at invitations db (snd (rp_FindOrCreateUser repo i e db))"
      "owner_safe role_at invitations db (snd (rp_CreateSession repo s e db))"
      "owner_safe role_at invitations db (snd (rp_RevokeSession repo sid e db))"
      "owner_safe role_at invitations db (snd (rp_SetCurrentWorkspace repo sid ws e db))"
      "owner_safe role_at invitations db (snd (rp_UpdateWorkspace repo u ws n d e db))"
      "owner_safe role_at invitations db (snd (rp_CreateInvitation repo u ws m r h x e db))"
      "owner_safe role_at invitations db (snd (rp_DeleteInvitation repo k e db))"
      "owner_safe role_at invitations db (snd (rp_AcceptInvitation repo k u e db))"
      "owner_safe role_at invitations db (snd (rp_RevokeInvitation repo u ws k e db))"
      "owner_safe role_at invitations db (snd (rp_RemoveMember repo u ws v e db))"
      "owner_safe role_at invitations db (snd (rp_UpdateMemberRole repo u ws v r e db))"
    and create:
      "ws \<noteq> snd e \<Longrightarrow> role_at (snd (rp_CreateWorkspace repo u nm de e db)) ws v = role_at db ws v"
      "invitations (snd (rp_CreateWorkspace repo u nm de e db)) = invitations db"
begin

lemma owner_safe_refl: "owner_safe role_at invitations db db"
  by (simp add: owner_safe_def)

lemma owner_safe_trans:
  "owner_safe role_at invitations a b \<Longrightarrow> owner_safe role_at invitations b c \<Longrightarrow>
   owner_safe role_at invitations a c"
  by (auto simp: owner_safe_def)

text \<open>One call more keeps what was safe so far; conditional rewrite rules for the services.\<close>

abbreviation safe_to :: "'db \<Rightarrow> 'db ws_world \<Rightarrow> bool" where
  "safe_to a w \<equiv> owner_safe role_at invitations a (ww_db w)"

lemma safe_call:
  "(\<And>e db. owner_safe role_at invitations db (snd (f e db))) \<Longrightarrow> safe_to a w \<Longrightarrow>
   safe_to a (snd (ws_call f w))"
  by (auto simp: ws_call_def split: prod.split) (metis owner_safe_trans snd_conv)

lemma safe_read: "(\<And>e db. snd (f e db) = db) \<Longrightarrow> ww_db (snd (ws_call f w)) = ww_db w"
  by (auto simp: ws_call_def split: prod.split) (metis snd_conv)

lemmas safe_calls = reads [THEN safe_read] safe [THEN safe_call]

lemma safe_frame:
  "ww_db (snd (ws_now w)) = ww_db w" "ww_db (snd (ws_token w)) = ww_db w"
  "ww_db (snd (ws_fresh_id w)) = ww_db w" "ww_db (snd (deliver m w)) = ww_db w"
  by (simp_all add: ws_now_def ws_token_def ws_fresh_id_def deliver_def)

lemmas safe_simps = Let_def case_prod_beta ws_bind_def safe_calls safe_frame

lemma safe_clear_expired:
  "wc_repo cfg = repo \<Longrightarrow> safe_to a w \<Longrightarrow> safe_to a (snd (clear_expired cfg m now xs w))"
proof (induction xs arbitrary: w)
  case (Cons x xs)
  show ?case using Cons.prems by (simp add: safe_simps Cons.IH split: sum.split)
qed simp

lemma safe_send_invitation:
  "wc_repo cfg = repo \<Longrightarrow> safe_to a w \<Longrightarrow>
   safe_to a (snd (send_invitation cfg n u d ws m r w))"
  by (simp add: send_invitation_def safe_simps split: sum.split option.split)

lemma safe_services:
  assumes "wc_repo cfg = repo" and "safe_to a w"
  shows "safe_to a (snd (CreateInvitation cfg u d ws m r w))"
    and "safe_to a (snd (PreviewInvitation cfg t w))"
    and "safe_to a (snd (AcceptInvitation cfg u m t w))"
    and "safe_to a (snd (ListWorkspaces cfg u w))" and "safe_to a (snd (GetWorkspace cfg u ws w))"
    and "safe_to a (snd (UpdateWorkspace cfg u ws n de w))"
    and "safe_to a (snd (ListMembers cfg u ws w))" and "safe_to a (snd (ListInvitations cfg u ws w))"
    and "safe_to a (snd (RevokeInvitation cfg u ws k w))"
    and "safe_to a (snd (RemoveMember cfg u ws v w))"
    and "safe_to a (snd (UpdateMemberRole cfg u ws v r w))"
    and "safe_to a (snd (Login cfg t w))" and "safe_to a (snd (Authenticate cfg t w))"
    and "safe_to a (snd (Logout cfg sid w))"
    and "safe_to a (snd (SetCurrentWorkspace cfg sid u ws w))"
  using assms
  by (simp_all add: CreateInvitation_def PreviewInvitation_def AcceptInvitation_def
      invitationByRawToken_def ListWorkspaces_def GetWorkspace_def UpdateWorkspace_def
      ListMembers_def ListInvitations_def RevokeInvitation_def RemoveMember_def UpdateMemberRole_def
      Login_def open_session_def Authenticate_def Logout_def SetCurrentWorkspace_def
      safe_clear_expired safe_send_invitation safe_simps
      split: sum.split option.split InvitationStatus.split)

end

section \<open>Runs of the services\<close>

datatype ws_action =
    DoCreateWorkspace gostring gostring gostring
  | DoUpdateWorkspace gostring gostring "gostring option" "gostring option"
  | DoCreateInvitation gostring gostring gostring gostring gostring
  | DoPreviewInvitation gostring
  | DoAcceptInvitation gostring gostring gostring
  | DoRevokeInvitation gostring gostring gostring
  | DoRemoveMember gostring gostring gostring
  | DoUpdateMemberRole gostring gostring gostring gostring
  | DoListWorkspaces gostring
  | DoGetWorkspace gostring gostring
  | DoListMembers gostring gostring
  | DoListInvitations gostring gostring
  | DoLogin gostring
  | DoAuthenticate gostring
  | DoLogout gostring
  | DoSetCurrentWorkspace gostring gostring gostring

fun ws_do :: "'db ws_config \<Rightarrow> ws_action \<Rightarrow> 'db ws_world \<Rightarrow> 'db ws_world" where
  "ws_do cfg (DoCreateWorkspace u n d) w = snd (CreateWorkspace cfg u n d w)"
| "ws_do cfg (DoUpdateWorkspace u ws n d) w = snd (UpdateWorkspace cfg u ws n d w)"
| "ws_do cfg (DoCreateInvitation u d ws m r) w = snd (CreateInvitation cfg u d ws m r w)"
| "ws_do cfg (DoPreviewInvitation t) w = snd (PreviewInvitation cfg t w)"
| "ws_do cfg (DoAcceptInvitation u m t) w = snd (AcceptInvitation cfg u m t w)"
| "ws_do cfg (DoRevokeInvitation u ws k) w = snd (RevokeInvitation cfg u ws k w)"
| "ws_do cfg (DoRemoveMember u ws v) w = snd (RemoveMember cfg u ws v w)"
| "ws_do cfg (DoUpdateMemberRole u ws v r) w = snd (UpdateMemberRole cfg u ws v r w)"
| "ws_do cfg (DoListWorkspaces u) w = snd (ListWorkspaces cfg u w)"
| "ws_do cfg (DoGetWorkspace u ws) w = snd (GetWorkspace cfg u ws w)"
| "ws_do cfg (DoListMembers u ws) w = snd (ListMembers cfg u ws w)"
| "ws_do cfg (DoListInvitations u ws) w = snd (ListInvitations cfg u ws w)"
| "ws_do cfg (DoLogin t) w = snd (Login cfg t w)"
| "ws_do cfg (DoAuthenticate t) w = snd (Authenticate cfg t w)"
| "ws_do cfg (DoLogout sid) w = snd (Logout cfg sid w)"
| "ws_do cfg (DoSetCurrentWorkspace sid u ws) w = snd (SetCurrentWorkspace cfg sid u ws w)"

definition ws_run :: "'db ws_config \<Rightarrow> ws_action list \<Rightarrow> 'db ws_world \<Rightarrow> 'db ws_world" where
  "ws_run cfg as w = foldl (\<lambda>w a. ws_do cfg a w) w as"

text \<open>The supplies of the world do not depend on the repository.\<close>

lemma supply_call [simp]:
  "ww_ids (snd (ws_call f w)) = ww_ids w" "ww_ids (snd (ws_now w)) = ww_ids w"
  "ww_ids (snd (ws_token w)) = ww_ids w" "ww_ids (snd (ws_fresh_id w)) = ww_ids w"
  "ww_ids (snd (deliver m w)) = ww_ids w"
  by (simp_all add: ws_call_def ws_now_def ws_token_def ws_fresh_id_def deliver_def
      split: prod.split)

lemmas supply_simps = Let_def case_prod_beta ws_bind_def

lemma supply_clear_expired [simp]: "ww_ids (snd (clear_expired cfg m now xs w)) = ww_ids w"
  by (induction xs arbitrary: w) (simp_all add: supply_simps split: sum.split)

lemma supply_send_invitation [simp]:
  "ww_ids (snd (send_invitation cfg n u d ws m r w)) = ww_ids w"
  by (simp add: send_invitation_def supply_simps split: sum.split option.split)

lemma supply_do: "ww_ids (ws_do cfg a w) = ww_ids w"
  by (cases a)
    (simp_all add: CreateWorkspace_def CreateInvitation_def PreviewInvitation_def
      AcceptInvitation_def invitationByRawToken_def ListWorkspaces_def GetWorkspace_def
      UpdateWorkspace_def ListMembers_def ListInvitations_def RevokeInvitation_def RemoveMember_def
      UpdateMemberRole_def Login_def open_session_def Authenticate_def Logout_def
      SetCurrentWorkspace_def supply_simps
      split: sum.split option.split InvitationStatus.split)

context workspace_repository
begin

lemma create_call:
  "\<forall>n. ww_ids w n \<noteq> ws \<Longrightarrow>
   role_at (ww_db (snd (ws_call (rp_CreateWorkspace repo u nm de) w))) ws v = role_at (ww_db w) ws v \<and>
   invitations (ww_db (snd (ws_call (rp_CreateWorkspace repo u nm de) w))) = invitations (ww_db w)"
  by (auto simp: ws_call_def split: prod.split) (metis create snd_conv)+

lemma create_workspace_safe:
  assumes "wc_repo cfg = repo" and "\<forall>n. ww_ids w n \<noteq> ws"
  shows "role_at (ww_db (snd (CreateWorkspace cfg u nm de w))) ws v = role_at (ww_db w) ws v \<and>
    invitations (ww_db (snd (CreateWorkspace cfg u nm de w))) = invitations (ww_db w)"
  using assms by (simp add: CreateWorkspace_def safe_simps create_call split: sum.split)

definition no_owner_invited :: "'db \<Rightarrow> bool" where
  "no_owner_invited db \<longleftrightarrow> (\<forall>x \<in> set (invitations db). \<not> IsWorkspaceOwner (iv_Role x))"

lemma safe_toD:
  "safe_to (ww_db w) w' \<Longrightarrow> no_owner_invited (ww_db w) \<Longrightarrow>
   no_owner_invited (ww_db w') \<and>
   IsWorkspaceOwner (role_at (ww_db w') ws u) = IsWorkspaceOwner (role_at (ww_db w) ws u)"
  by (simp add: owner_safe_def no_owner_invited_def)

lemma do_owner:
  assumes "wc_repo cfg = repo" and "\<forall>n. ww_ids w n \<noteq> ws" and "no_owner_invited (ww_db w)"
  shows "no_owner_invited (ww_db (ws_do cfg a w)) \<and>
    IsWorkspaceOwner (role_at (ww_db (ws_do cfg a w)) ws u) =
    IsWorkspaceOwner (role_at (ww_db w) ws u)"
proof (cases "\<exists>x n d. a = DoCreateWorkspace x n d")
  case True
  then show ?thesis
    using assms create_workspace_safe [OF assms(1,2)] by (auto simp: no_owner_invited_def)
next
  case False
  have "safe_to (ww_db w) w" by (rule owner_safe_refl)
  with False have "safe_to (ww_db w) (ws_do cfg a w)"
    using safe_services [OF assms(1)] by (cases a) auto
  from safe_toD [OF this assms(3)] show ?thesis .
qed

lemma run_owner:
  "wc_repo cfg = repo \<Longrightarrow> \<forall>n. ww_ids w n \<noteq> ws \<Longrightarrow> no_owner_invited (ww_db w) \<Longrightarrow>
   no_owner_invited (ww_db (ws_run cfg as w)) \<and>
   IsWorkspaceOwner (role_at (ww_db (ws_run cfg as w)) ws u) =
   IsWorkspaceOwner (role_at (ww_db w) ws u)"
proof (induction as arbitrary: w)
  case Nil
  then show ?case by (simp add: ws_run_def)
next
  case (Cons a as)
  have "ws_run cfg (a # as) w = ws_run cfg as (ws_do cfg a w)" by (simp add: ws_run_def)
  with Cons.IH [of "ws_do cfg a w"] Cons.prems do_owner [of cfg w ws a] supply_do [of cfg a w]
  show ?case by simp
qed

end

section \<open>The repository in memory satisfies the contract\<close>

lemma set_update_snd: "snd ` set (AList.update k v al) \<subseteq> insert v (snd ` set al)"
  by (induction al) auto

lemma set_delete_snd: "snd ` set (AList.delete k al) \<subseteq> snd ` set al"
  by (auto simp: AList.delete_eq)

lemma at_key_update [simp]: "at_key z (AList.update k v al) = (at_key z al)(k := v)"
  by (auto simp: at_key_def update_conv' fun_eq_iff)

lemma at_key_delete [simp]: "at_key z (AList.delete k al) = (at_key z al)(k := z)"
  by (auto simp: at_key_def delete_conv' fun_eq_iff)

definition mem_invitations :: "memdb \<Rightarrow> WorkspaceInvitation list" where
  "mem_invitations db = map snd (md_invitations db)"

lemma mem_safe_frame:
  "md_members db' = md_members db \<Longrightarrow> set (mem_invitations db') \<subseteq> set (mem_invitations db) \<Longrightarrow>
   owner_safe mem_role mem_invitations db db'"
  by (auto simp: owner_safe_def mem_role_def)

lemma mem_safe_update_invitation:
  "\<not> IsWorkspaceOwner (iv_Role x) \<Longrightarrow>
   owner_safe mem_role mem_invitations db (db\<lparr>md_invitations := AList.update k x (md_invitations db)\<rparr>)"
  using set_update_snd [of k x "md_invitations db"]
  by (fastforce simp: owner_safe_def mem_role_def mem_invitations_def)

lemma mem_invited: "map_of (md_invitations db) k = Some x \<Longrightarrow> x \<in> set (mem_invitations db)"
  by (auto simp: mem_invitations_def dest!: map_of_SomeD intro: rev_image_eqI)

lemma IsWorkspaceOwner_Nil [simp]: "\<not> IsWorkspaceOwner []"
  by (simp add: IsWorkspaceOwner_def role_names)

lemma mem_safe_revoke: "owner_safe mem_role mem_invitations db (snd (mem_RevokeInvitation u ws k e db))"
proof (cases "map_of (md_invitations db) k")
  case None
  then show ?thesis by (simp add: mem_RevokeInvitation_def mem_safe_frame)
next
  case (Some x)
  have "owner_safe mem_role mem_invitations db
      (db\<lparr>md_invitations := AList.update k (x\<lparr>iv_Status := Revoked\<rparr>) (md_invitations db)\<rparr>)"
    using set_update_snd [of k "x\<lparr>iv_Status := Revoked\<rparr>" "md_invitations db"] mem_invited [OF Some]
    by (fastforce simp: owner_safe_def mem_role_def mem_invitations_def)
  with Some show ?thesis by (simp add: mem_RevokeInvitation_def mem_safe_frame)
qed

lemma mem_safe_accept: "owner_safe mem_role mem_invitations db (snd (mem_AcceptInvitation k u e db))"
proof (cases "map_of (md_invitations db) k")
  case None
  then show ?thesis by (simp add: mem_AcceptInvitation_def mem_safe_frame)
next
  case (Some x)
  show ?thesis
    using set_update_snd [of k "x\<lparr>iv_Status := Accepted\<rparr>" "md_invitations db"] mem_invited [OF Some] Some
    by (fastforce simp: mem_AcceptInvitation_def owner_safe_def mem_role_def mem_invitations_def Let_def)
qed

lemma mem_safe_remove: "owner_safe mem_role mem_invitations db (snd (mem_RemoveMember u ws v e db))"
  by (auto simp: mem_RemoveMember_def owner_safe_def mem_role_def mem_invitations_def)

lemma mem_safe_role: "owner_safe mem_role mem_invitations db (snd (mem_UpdateMemberRole u ws v r e db))"
  by (auto simp: mem_UpdateMemberRole_def owner_safe_def mem_role_def mem_invitations_def Let_def
      dest: ValidWorkspaceInvitationRole_not_owner)

lemma mem_safe_invite:
  "owner_safe mem_role mem_invitations db (snd (mem_CreateInvitation u ws m r h x e db))"
  by (auto simp: mem_CreateInvitation_def Let_def mem_safe_frame
      intro!: mem_safe_update_invitation dest: ValidWorkspaceInvitationRole_not_owner)

interpretation mem: workspace_repository mem_repo mem_role mem_invitations
proof unfold_locales
  show "owner_safe mem_role mem_invitations db (snd (rp_DeleteInvitation mem_repo k e db))" for db k e
    using set_delete_snd [of k "md_invitations db"]
    by (intro mem_safe_frame) (simp_all add: mem_repo_def mem_DeleteInvitation_def mem_invitations_def)
  show "ws \<noteq> snd e \<Longrightarrow>
      mem_role (snd (rp_CreateWorkspace mem_repo u nm de e db)) ws v = mem_role db ws v"
    for ws and e :: env and u nm de v db
    by (simp add: mem_repo_def mem_CreateWorkspace_def mem_role_def Let_def)
qed (simp_all add: mem_repo_def mem_safe_revoke mem_safe_accept mem_safe_remove mem_safe_role
    mem_safe_invite mem_ListWorkspaces_def mem_GetWorkspace_def mem_ListMembers_def
    mem_MemberEmailExists_def mem_InvitationByTokenHash_def mem_WorkspaceNameByID_def
    mem_ListInvitations_def mem_SessionByTokenHash_def mem_FindOrCreateUser_def
    mem_CreateSession_def mem_RevokeSession_def mem_SetCurrentWorkspace_def
    mem_UpdateWorkspace_def mem_CreateWorkspace_def mem_invitations_def mem_safe_frame Let_def)

section \<open>The repository in PostgreSQL satisfies the contract\<close>

definition pg_role :: "pgdb \<Rightarrow> gostring \<Rightarrow> gostring \<Rightarrow> gostring" where
  "pg_role db ws u = (case pg_role_row db ws u of None \<Rightarrow> [] | Some m \<Rightarrow> pm_Role m)"

lemma pg_safe_frame:
  "pd_members db' = pd_members db \<Longrightarrow> iv_Role ` set (pd_invitations db') \<subseteq> iv_Role ` set (pd_invitations db) \<Longrightarrow>
   owner_safe pg_role pd_invitations db db'"
  by (fastforce simp: owner_safe_def pg_role_def pg_role_row_def)

lemma update_where_role:
  "(\<And>x. iv_Role (f x) = iv_Role x) \<Longrightarrow> iv_Role ` set (update_where p f xs) = iv_Role ` set xs"
  by (metis list.set_map map_update_where)

lemma require_None: "requireWorkspaceRole allowed u ws db = None \<Longrightarrow> allowed (pg_role db ws u)"
  by (auto simp: requireWorkspaceRole_def pg_role_def split: option.splits if_splits)

lemma pg_role_filter:
  "\<not> IsWorkspaceOwner (pg_role db ws v) \<Longrightarrow>
   IsWorkspaceOwner (pg_role (db\<lparr>pd_members := filter
     (\<lambda>m. \<not> (pm_WorkspaceID m = ws \<and> pm_UserID m = v)) (pd_members db)\<rparr>) ws' u) =
   IsWorkspaceOwner (pg_role db ws' u)"
proof (cases "ws' = ws \<and> u = v")
  case True
  have "find (\<lambda>m. pm_WorkspaceID m = ws \<and> pm_UserID m = v)
      (filter (\<lambda>m. \<not> (pm_WorkspaceID m = ws \<and> pm_UserID m = v)) ms) = None" for ms :: "pg_member list"
    by (auto simp: find_None_iff)
  moreover assume "\<not> IsWorkspaceOwner (pg_role db ws v)"
  ultimately show ?thesis using True by (simp add: pg_role_def pg_role_row_def)
next
  case False
  have "find (\<lambda>m. pm_WorkspaceID m = ws' \<and> pm_UserID m = u)
      (filter (\<lambda>m. \<not> (pm_WorkspaceID m = ws \<and> pm_UserID m = v)) ms) =
      find (\<lambda>m. pm_WorkspaceID m = ws' \<and> pm_UserID m = u) ms" for ms :: "pg_member list"
    using False by (induction ms) auto
  then show ?thesis by (simp add: pg_role_def pg_role_row_def)
qed

lemma pg_role_update:
  "pg_role (db\<lparr>pd_members := update_where (\<lambda>m. pm_WorkspaceID m = ws \<and> pm_UserID m = v)
     (\<lambda>m. m\<lparr>pm_Role := r\<rparr>) (pd_members db)\<rparr>) ws' u =
   (if ws' = ws \<and> u = v \<and> pg_role_row db ws v \<noteq> None then r else pg_role db ws' u)"
proof -
  have "find (\<lambda>m. pm_WorkspaceID m = ws' \<and> pm_UserID m = u)
      (update_where (\<lambda>m. pm_WorkspaceID m = ws \<and> pm_UserID m = v) (\<lambda>m. m\<lparr>pm_Role := r\<rparr>) ms) =
      map_option (\<lambda>m. if ws' = ws \<and> u = v then m\<lparr>pm_Role := r\<rparr> else m)
        (find (\<lambda>m. pm_WorkspaceID m = ws' \<and> pm_UserID m = u) ms)" for ms :: "pg_member list"
    by (induction ms) auto
  then show ?thesis by (auto simp: pg_role_def pg_role_row_def split: option.split)
qed

lemma pg_role_append:
  "pg_role (db\<lparr>pd_members := pd_members db @ [m]\<rparr>) ws u =
   (if pg_role_row db ws u = None \<and> pm_WorkspaceID m = ws \<and> pm_UserID m = u then pm_Role m
    else pg_role db ws u)"
  by (auto simp: pg_role_def pg_role_row_def find_key_append split: option.split)

lemma pg_role_cong: "pd_members db' = pd_members db \<Longrightarrow> pg_role db' = pg_role db"
  by (simp add: pg_role_def pg_role_row_def fun_eq_iff)

lemma pg_safe_remove: "owner_safe pg_role pd_invitations db (snd (pg_RemoveMember u ws v e db))"
proof -
  have "pg_role_row db ws v = Some m \<Longrightarrow> \<not> IsWorkspaceOwner (pm_Role m) \<Longrightarrow>
      \<not> IsWorkspaceOwner (pg_role db ws v)" for m by (simp add: pg_role_def)
  then show ?thesis
    by (simp add: pg_RemoveMember_def owner_safe_def pg_role_filter [simplified] split: option.split)
qed

lemma pg_safe_role: "owner_safe pg_role pd_invitations db (snd (pg_UpdateMemberRole u ws v r e db))"
proof -
  let ?db = "db\<lparr>pd_members := update_where (\<lambda>m. pm_WorkspaceID m = ws \<and> pm_UserID m = v)
    (\<lambda>m. m\<lparr>pm_Role := NormalizeWorkspaceRole r\<rparr>) (pd_members db)\<rparr>"
  have "owner_safe pg_role pd_invitations db ?db"
    if "pg_role_row db ws v = Some m" "\<not> IsWorkspaceOwner (pm_Role m)"
      "ValidWorkspaceInvitationRole (NormalizeWorkspaceRole r)" for m
    using that
    by (auto simp: owner_safe_def pg_role_update pg_role_def [of db ws v]
        dest: ValidWorkspaceInvitationRole_not_owner)
  then show ?thesis
    by (auto simp: pg_UpdateMemberRole_def Let_def pg_safe_frame split: option.split sum.split)
qed

lemma pg_safe_invite:
  "owner_safe pg_role pd_invitations db (snd (pg_CreateInvitation u ws m r h x e db))"
proof -
  have "owner_safe pg_role pd_invitations db (db\<lparr>pd_invitations := pd_invitations db @ [y]\<rparr>)"
    if "\<not> IsWorkspaceOwner (iv_Role y)" for y
    using that pg_role_cong [of "db\<lparr>pd_invitations := pd_invitations db @ [y]\<rparr>" db]
    by (auto simp: owner_safe_def)
  then show ?thesis
    by (auto simp: pg_CreateInvitation_def Let_def pg_safe_frame
        dest: ValidWorkspaceInvitationRole_not_owner split: option.split)
qed

lemma viewer_not_owner: "\<not> IsWorkspaceOwner WorkspaceRoleViewer"
  by (simp add: IsWorkspaceOwner_def)

lemma pg_safe_accept: "owner_safe pg_role pd_invitations db (snd (pg_AcceptInvitation k u e db))"
proof (cases "find (\<lambda>x. iv_ID x = k \<and> iv_Status x = Pending) (pd_invitations db)")
  case None
  then show ?thesis by (simp add: pg_AcceptInvitation_def pg_safe_frame)
next
  case (Some x)
  let ?f = "\<lambda>x :: WorkspaceInvitation. x\<lparr>iv_Status := Accepted\<rparr>"
  have inv: "iv_Role ` set (update_where (\<lambda>x. iv_ID x = k) ?f (pd_invitations db)) =
      iv_Role ` set (pd_invitations db)" by (rule update_where_role) simp
  have frame: "owner_safe pg_role pd_invitations db (db\<lparr>pd_members := ms,
      pd_invitations := update_where (\<lambda>x. iv_ID x = k) ?f (pd_invitations db)\<rparr>)"
    if "\<And>ws v. (\<forall>x \<in> set (pd_invitations db). \<not> IsWorkspaceOwner (iv_Role x)) \<Longrightarrow>
      IsWorkspaceOwner (pg_role (db\<lparr>pd_members := ms\<rparr>) ws v) = IsWorkspaceOwner (pg_role db ws v)" for ms
  proof -
    have "\<forall>y \<in> set (update_where (\<lambda>x. iv_ID x = k) ?f (pd_invitations db)). \<not> IsWorkspaceOwner (iv_Role y)"
      if "\<forall>x \<in> set (pd_invitations db). \<not> IsWorkspaceOwner (iv_Role x)"
      using that inv by (metis image_iff)
    moreover have "pg_role (db\<lparr>pd_members := ms, pd_invitations := is\<rparr>) = pg_role (db\<lparr>pd_members := ms\<rparr>)"
      for "is" by (rule pg_role_cong) simp
    ultimately show ?thesis using that by (simp add: owner_safe_def)
  qed
  have "x \<in> set (pd_invitations db)" using Some by (auto simp: find_Some_iff)
  then have role: "\<not> IsWorkspaceOwner (iv_Role x)"
    if "\<forall>x \<in> set (pd_invitations db). \<not> IsWorkspaceOwner (iv_Role x)" using that by simp
  have norm: "IsWorkspaceOwner (NormalizeWorkspaceRole r) = IsWorkspaceOwner r" for r
    by (simp add: IsWorkspaceOwner_def)
  have absent: "\<not> IsWorkspaceOwner (pg_role db ws v)" if "pg_role_row db ws v = None" for ws v
    using that by (simp add: pg_role_def)
  have same: "owner_safe pg_role pd_invitations db
      (db\<lparr>pd_invitations := update_where (\<lambda>x. iv_ID x = k) ?f (pd_invitations db)\<rparr>)"
    by (rule pg_safe_frame) (simp_all add: inv)
  have added: "owner_safe pg_role pd_invitations db (db\<lparr>pd_members := pd_members db @ [m],
      pd_invitations := update_where (\<lambda>x. iv_ID x = k) ?f (pd_invitations db)\<rparr>)"
    if "(\<forall>x \<in> set (pd_invitations db). \<not> IsWorkspaceOwner (iv_Role x)) \<Longrightarrow>
      \<not> IsWorkspaceOwner (pm_Role m)" for m
    by (rule frame) (use that absent in \<open>auto simp: pg_role_append\<close>)
  show ?thesis
    using Some role
    by (auto simp: pg_AcceptInvitation_def Let_def norm viewer_not_owner same
        intro!: added pg_safe_frame [of db db])
qed

lemma pg_safe_revoke:
  "owner_safe pg_role pd_invitations db (snd (pg_RevokeInvitation u ws k e db))"
proof -
  have "iv_Role ` set (update_where p (\<lambda>x. x\<lparr>iv_Status := Revoked\<rparr>) xs) = iv_Role ` set xs"
    for p and xs :: "WorkspaceInvitation list" by (rule update_where_role) simp
  then show ?thesis
    by (simp add: pg_RevokeInvitation_def Let_def pg_safe_frame split: option.split)
qed

lemma pg_read_simps [simp]:
  "snd (pg_GetWorkspace u ws e db) = db" "snd (pg_ListMembers u ws e db) = db"
  "snd (pg_ListWorkspaces u e db) = db"
  by (simp_all add: pg_GetWorkspace_def pg_ListMembers_def pg_ListWorkspaces_def)

interpretation pg: workspace_repository pg_repo pg_role pd_invitations
proof unfold_locales
  show "ws \<noteq> snd e \<Longrightarrow>
      pg_role (snd (rp_CreateWorkspace pg_repo u nm de e db)) ws v = pg_role db ws v"
    for ws and e :: env and u nm de v db
    by (auto simp: pg_repo_def pg_CreateWorkspace_def Let_def pg_role_def pg_role_row_def
        find_key_append split: option.split)
  show "owner_safe pg_role pd_invitations db (snd (rp_FindOrCreateUser pg_repo i e db))" for db i e
    by (auto simp: pg_repo_def pg_FindOrCreateUser_def Let_def intro!: pg_safe_frame split: list.split)
qed (auto simp: pg_repo_def pg_safe_revoke pg_safe_accept pg_safe_remove pg_safe_role pg_safe_invite
    pg_MemberEmailExists_def pg_InvitationByTokenHash_def pg_WorkspaceNameByID_def
    pg_ListInvitations_def pg_SessionByTokenHash_def pg_CreateSession_def pg_RevokeSession_def
    pg_SetCurrentWorkspace_def pg_UpdateWorkspace_def pg_CreateWorkspace_def
    pg_DeleteInvitation_def Let_def intro!: pg_safe_frame split: option.split)

end
