(* ===== verification/WorkspaceClaims.thy ===== *)
theory WorkspaceClaims
  imports WorkspaceAccess
begin

text \<open>
  The properties of the workspace and authentication services, on the PostgreSQL repository the
  program runs with (those that rest only on the repository contract hold for the one in memory
  too), each applied at a concrete world.
\<close>

section \<open>Calls on the PostgreSQL repository\<close>

definition calls_ok :: "'db ws_world \<Rightarrow> bool" where
  "calls_ok w \<longleftrightarrow> (\<forall>n. \<not> ww_faults w n)"

lemma ws_call_Inr:
  "ws_call f w = (Inr x, w') \<Longrightarrow>
   fst (f (ww_clock w (ww_ticks w), ww_ids w (ww_nextid w)) (ww_db w)) = Inr x \<and>
   ww_db w' = snd (f (ww_clock w (ww_ticks w), ww_ids w (ww_nextid w)) (ww_db w)) \<and>
   ww_clock w' = ww_clock w \<and> ww_faults w' = ww_faults w \<and> ww_ticks w' = Suc (ww_ticks w)"
  by (auto simp: ws_call_def split: prod.splits if_splits sum.splits)

lemma ws_call_ok:
  "calls_ok w \<Longrightarrow> ws_call f w =
     (case fst (f (ww_clock w (ww_ticks w), ww_ids w (ww_nextid w)) (ww_db w)) of
        Inl e \<Rightarrow> Inl (Core e) | Inr x \<Rightarrow> Inr x,
      w\<lparr>ww_calls := Suc (ww_calls w), ww_ticks := Suc (ww_ticks w), ww_nextid := Suc (ww_nextid w),
        ww_db := snd (f (ww_clock w (ww_ticks w), ww_ids w (ww_nextid w)) (ww_db w))\<rparr>)"
  by (simp add: calls_ok_def ws_call_def split: prod.split)

lemma calls_ok_frame [simp]:
  "calls_ok (w\<lparr>ww_ticks := a\<rparr>) = calls_ok w" "calls_ok (w\<lparr>ww_calls := b, ww_ticks := a, ww_nextid := c, ww_db := d\<rparr>) = calls_ok w"
  "calls_ok (w\<lparr>ww_nexttoken := a\<rparr>) = calls_ok w" "calls_ok (w\<lparr>ww_mails := m\<rparr>) = calls_ok w"
  by (simp_all add: calls_ok_def)

lemma ws_bind_Inr:
  "ws_bind m k w = (Inr x, w'') \<Longrightarrow> \<exists>y w'. m w = (Inr y, w') \<and> k y w' = (Inr x, w'')"
  by (auto simp: ws_bind_def split: prod.splits sum.splits)

section \<open>Accepting an invitation\<close>

lemma pg_accept_effect:
  assumes "fst (pg_AcceptInvitation k u e db) = Inr ()"
  obtains x where "x \<in> set (pd_invitations db)" "iv_ID x = k" "iv_Status x = Pending"
    "\<forall>ws v. pg_role (snd (pg_AcceptInvitation k u e db)) ws v =
      (if ws = iv_WorkspaceID x \<and> v = u \<and> pg_role_row db ws u = None
       then (if NormalizeWorkspaceRole (iv_Role x) = [] then WorkspaceRoleViewer
             else NormalizeWorkspaceRole (iv_Role x))
       else pg_role db ws v)"
    "pd_invitations (snd (pg_AcceptInvitation k u e db)) =
      update_where (\<lambda>x. iv_ID x = k) (\<lambda>x. x\<lparr>iv_Status := Accepted\<rparr>) (pd_invitations db)"
proof -
  obtain x where x: "find (\<lambda>x. iv_ID x = k \<and> iv_Status x = Pending) (pd_invitations db) = Some x"
    using assms by (auto simp: pg_AcceptInvitation_def split: option.splits)
  have "x \<in> set (pd_invitations db) \<and> iv_ID x = k \<and> iv_Status x = Pending"
    using x by (auto simp: find_Some_iff)
  moreover have "pg_role (db\<lparr>pd_members := ms, pd_invitations := xs\<rparr>) = pg_role (db\<lparr>pd_members := ms\<rparr>)"
    for ms xs by (rule pg_role_cong) simp
  moreover have "pg_role (db\<lparr>pd_invitations := xs\<rparr>) = pg_role db" for xs
    by (rule pg_role_cong) simp
  ultimately show ?thesis
    using assms x
    by (intro that [of x])
      (auto simp: pg_AcceptInvitation_def Let_def pg_role_append split: if_splits)
qed

lemma pg_token_found:
  assumes "wc_repo cfg = pg_repo" and "invitationByRawToken cfg token w = (Inr y, w1)"
  obtains x where "find (\<lambda>x. iv_TokenHash x = wc_hash cfg (trim_space token))
      (pd_invitations (ww_db w)) = Some x"
    "y = x\<lparr>iv_Role := NormalizeWorkspaceRole (iv_Role x), iv_TokenHash := [], iv_InvitedByName := []\<rparr>"
    "ww_db w1 = ww_db w" "ww_clock w1 = ww_clock w" "ww_faults w1 = ww_faults w"
    "ww_ticks w1 = Suc (ww_ticks w)"
proof -
  have "ws_call (pg_InvitationByTokenHash (wc_hash cfg (trim_space token))) w = (Inr y, w1)"
    using assms by (simp add: invitationByRawToken_def pg_repo_def hashInvitationToken_def Let_def
        split: if_splits)
  note call = ws_call_Inr [OF this]
  then show ?thesis
    using that by (auto simp: pg_InvitationByTokenHash_def split: if_splits option.splits)
qed

lemma effective_Pending:
  "effectiveInvitationStatus x now = Pending \<longleftrightarrow>
   iv_Status x = Pending \<and> (\<exists>expires. iv_ExpiresAt x = Some expires \<and> now < expires)"
  by (auto simp: effectiveInvitationStatus_def split: option.split)

text \<open>What an accepting call has passed.\<close>

lemma accept_passed:
  assumes "wc_repo cfg = pg_repo" and "AcceptInvitation cfg u email token w = (Inr ws', w')"
  obtains x e expires where "find (\<lambda>x. iv_TokenHash x = wc_hash cfg (trim_space token))
      (pd_invitations (ww_db w)) = Some x"
    "iv_Status x = Pending" "iv_ExpiresAt x = Some expires" "ww_clock w (Suc (ww_ticks w)) < expires"
    "normalizeEmail email = iv_NormalizedEmail x"
    "fst (pg_AcceptInvitation (iv_ID x) u e (ww_db w)) = Inr ()"
    "ww_db w' = snd (pg_AcceptInvitation (iv_ID x) u e (ww_db w))"
    "ww_clock w' = ww_clock w" "ww_faults w' = ww_faults w"
proof -
  obtain y w1 where y: "invitationByRawToken cfg token w = (Inr y, w1)" and
    rest: "(let (now, w2) = ws_now w1 in
        case effectiveInvitationStatus y now of
          Accepted \<Rightarrow> (Inl ErrInvitationAlreadyAccepted, w2)
        | Revoked \<Rightarrow> (Inl ErrInvitationRevoked, w2)
        | Expired \<Rightarrow> (Inl ErrInvitationExpired, w2)
        | Pending \<Rightarrow>
            if normalizeEmail email = [] \<or> normalizeEmail email \<noteq> iv_NormalizedEmail y
            then (Inl ErrInvitationEmailMismatch, w2)
            else ws_bind (ws_call (rp_AcceptInvitation (wc_repo cfg) (iv_ID y) u))
              (\<lambda>_. ws_call (rp_GetWorkspace (wc_repo cfg) u (iv_WorkspaceID y))) w2) = (Inr ws', w')"
    using assms(2) unfolding AcceptInvitation_def by (auto dest!: ws_bind_Inr)
  obtain x where x: "find (\<lambda>x. iv_TokenHash x = wc_hash cfg (trim_space token))
      (pd_invitations (ww_db w)) = Some x"
    "y = x\<lparr>iv_Role := NormalizeWorkspaceRole (iv_Role x), iv_TokenHash := [], iv_InvitedByName := []\<rparr>"
    and w1: "ww_db w1 = ww_db w" "ww_clock w1 = ww_clock w" "ww_faults w1 = ww_faults w"
      "ww_ticks w1 = Suc (ww_ticks w)"
    by (rule pg_token_found [OF assms(1) y])
  let ?now = "ww_clock w (Suc (ww_ticks w))"
  let ?w2 = "w1\<lparr>ww_ticks := Suc (ww_ticks w1)\<rparr>"
  have pend: "effectiveInvitationStatus y ?now = Pending" and
    mail: "normalizeEmail email = iv_NormalizedEmail y" and
    bind: "ws_bind (ws_call (pg_AcceptInvitation (iv_ID y) u))
      (\<lambda>_. ws_call (pg_GetWorkspace u (iv_WorkspaceID y))) ?w2 = (Inr ws', w')"
    using rest w1 assms(1) by (auto simp: ws_now_def pg_repo_def split: InvitationStatus.splits if_splits)
  obtain v w3 where v: "ws_call (pg_AcceptInvitation (iv_ID y) u) ?w2 = (Inr v, w3)" and
    g: "ws_call (pg_GetWorkspace u (iv_WorkspaceID y)) w3 = (Inr ws', w')"
    using bind by (auto dest!: ws_bind_Inr)
  have id: "iv_ID y = iv_ID x" "iv_Status y = iv_Status x" "iv_ExpiresAt y = iv_ExpiresAt x"
    "iv_NormalizedEmail y = iv_NormalizedEmail x" using x(2) by simp_all
  obtain expires where "iv_Status x = Pending" "iv_ExpiresAt x = Some expires" "?now < expires"
    using pend id by (auto simp: effective_Pending)
  then show ?thesis
    using x(1) mail id ws_call_Inr [OF v] ws_call_Inr [OF g] w1
    by (intro that [of x expires]) simp_all
qed

lemma find_unique_id:
  "distinct (map iv_ID xs) \<Longrightarrow> x \<in> set xs \<Longrightarrow> y \<in> set xs \<Longrightarrow> iv_ID x = iv_ID y \<Longrightarrow> x = y"
  by (auto simp: distinct_map dest: inj_onD)

text \<open>C10: an invitation is accepted only while it is pending and not expired, only by a user whose
  email address is the invited one; the user gets the invited role, which is never ownership,
  unless already a member, and no other membership changes.\<close>

theorem accept_grants_the_invited_role:
  assumes "wc_repo cfg = pg_repo" and "distinct (map iv_ID (pd_invitations (ww_db w)))"
    and "AcceptInvitation cfg u email token w = (Inr ws', w')"
  shows "\<exists>x \<in> set (pd_invitations (ww_db w)). \<exists>expires.
    iv_TokenHash x = wc_hash cfg (trim_space token) \<and> iv_Status x = Pending \<and>
    iv_ExpiresAt x = Some expires \<and> ww_clock w (Suc (ww_ticks w)) < expires \<and>
    normalizeEmail email = iv_NormalizedEmail x \<and>
    (\<forall>ws v. pg_role (ww_db w') ws v =
      (if ws = iv_WorkspaceID x \<and> v = u \<and> pg_role_row (ww_db w) ws u = None
       then (if NormalizeWorkspaceRole (iv_Role x) = [] then WorkspaceRoleViewer
             else NormalizeWorkspaceRole (iv_Role x))
       else pg_role (ww_db w) ws v))"
proof -
  obtain x e expires where x: "find (\<lambda>x. iv_TokenHash x = wc_hash cfg (trim_space token))
      (pd_invitations (ww_db w)) = Some x"
    "iv_Status x = Pending" "iv_ExpiresAt x = Some expires" "ww_clock w (Suc (ww_ticks w)) < expires"
    "normalizeEmail email = iv_NormalizedEmail x" and
    acc: "fst (pg_AcceptInvitation (iv_ID x) u e (ww_db w)) = Inr ()"
    "ww_db w' = snd (pg_AcceptInvitation (iv_ID x) u e (ww_db w))"
    by (rule accept_passed [OF assms(1,3)])
  have xin: "x \<in> set (pd_invitations (ww_db w))" "iv_TokenHash x = wc_hash cfg (trim_space token)"
    using x(1) by (auto dest: find_key_Some)
  obtain x' where x': "x' \<in> set (pd_invitations (ww_db w))" "iv_ID x' = iv_ID x"
    "\<forall>ws v. pg_role (ww_db w') ws v =
      (if ws = iv_WorkspaceID x' \<and> v = u \<and> pg_role_row (ww_db w) ws u = None
       then (if NormalizeWorkspaceRole (iv_Role x') = [] then WorkspaceRoleViewer
             else NormalizeWorkspaceRole (iv_Role x'))
       else pg_role (ww_db w) ws v)"
    by (rule pg_accept_effect [OF acc(1)]) (simp add: acc(2))
  have "x' = x" by (rule find_unique_id [OF assms(2) x'(1) xin(1) x'(2)])
  with x x' xin show ?thesis by blast
qed

text \<open>A concrete store: workspace \<open>w1\<close> of owner \<open>u1\<close> with viewer \<open>u2\<close>, and a pending
  invitation for \<open>bob@x\<close>.\<close>

definition sample_invitation :: WorkspaceInvitation where
  "sample_invitation = \<lparr>iv_ID = ''i1'', iv_WorkspaceID = ''w1'', iv_Email = ''bob@x'',
     iv_NormalizedEmail = ''bob@x'', iv_Role = ''admin'', iv_Status = Pending, iv_InvitedBy = ''u1'',
     iv_InvitedByName = [], iv_TokenHash = ''t'', iv_ExpiresAt = Some 1000, iv_CreatedAt = 0\<rparr>"

definition sample_pg :: pgdb where
  "sample_pg = \<lparr>pd_users = [(''u1'', ''Ann''), (''u2'', ''Eve''), (''u3'', ''Bob'')],
     pd_identities = [], pd_emails = [(''u1'', ''ann@x''), (''u2'', ''eve@x''), (''u3'', ''bob@x'')],
     pd_sessions = [\<lparr>ls_ID = ''s1'', ls_UserID = ''u1'', ls_TokenHash = ''k'',
        ls_CurrentWorkspaceID = ''w1'', ls_ExpiresAt = 1000, ls_CreatedAt = 0\<rparr>], pd_revoked = [],
     pd_workspaces = [\<lparr>wk_ID = ''w1'', wk_Name = ''Team'', wk_Description = [], wk_Role = [],
        wk_CreatedAt = 0, wk_UpdatedAt = 0\<rparr>],
     pd_members = [\<lparr>pm_WorkspaceID = ''w1'', pm_UserID = ''u1'', pm_Role = ''owner'', pm_JoinedAt = 0\<rparr>,
        \<lparr>pm_WorkspaceID = ''w1'', pm_UserID = ''u2'', pm_Role = ''viewer'', pm_JoinedAt = 0\<rparr>],
     pd_invitations = [sample_invitation], pd_meetings = []\<rparr>"

definition sample_ws_world :: "pgdb ws_world" where
  "sample_ws_world = \<lparr>ww_db = sample_pg, ww_clock = (\<lambda>n. 10), ww_ticks = 0, ww_ids = (\<lambda>n. ''x''),
     ww_nextid = 0, ww_tokens = (\<lambda>n. Some ''raw''), ww_nexttoken = 0, ww_faults = (\<lambda>n. False),
     ww_calls = 0, ww_delivers = (\<lambda>n. False), ww_mails = [], ww_samples = []\<rparr>"

definition sample_ws_config :: "pgdb ws_config" where
  "sample_ws_config = \<lparr>wc_repo = pg_repo, wc_mailValid = (\<lambda>m. True), wc_hash = (\<lambda>t. t),
     wc_escape = (\<lambda>t. t), wc_frontendBaseURL = [], wc_sampleMeetings = False, wc_verifier = None,
     wc_sessionTTL = 0\<rparr>"

lemma sample_ws [simp]:
  "wc_repo sample_ws_config = pg_repo" "ww_db sample_ws_world = sample_pg"
  "calls_ok sample_ws_world" "ww_clock sample_ws_world n = 10" "ww_ids sample_ws_world n = ''x''"
  by (simp_all add: sample_ws_config_def sample_ws_world_def calls_ok_def)

theorem accept_grants_the_invited_role_witness:
  "\<exists>ws' w'. AcceptInvitation sample_ws_config ''u3'' '' Bob@X '' ''t'' sample_ws_world = (Inr ws', w') \<and>
     pg_role (ww_db w') ''w1'' ''u3'' = ''admin'' \<and> pg_role (ww_db w') ''w1'' ''u2'' = ''viewer''"
proof -
  let ?r = "AcceptInvitation sample_ws_config ''u3'' '' Bob@X '' ''t'' sample_ws_world"
  have "\<not> isl (fst ?r)" by code_simp
  then obtain ws' w' where r: "?r = (Inr ws', w')" by (metis isl_def prod.collapse sum.exhaust)
  have "distinct (map iv_ID (pd_invitations (ww_db sample_ws_world)))" by code_simp
  from accept_grants_the_invited_role [OF sample_ws(1) this r, unfolded sample_ws] obtain x where
    x: "x \<in> set (pd_invitations sample_pg)"
    "\<forall>ws v. pg_role (ww_db w') ws v =
      (if ws = iv_WorkspaceID x \<and> v = ''u3'' \<and> pg_role_row sample_pg ws ''u3'' = None
       then (if NormalizeWorkspaceRole (iv_Role x) = [] then WorkspaceRoleViewer
             else NormalizeWorkspaceRole (iv_Role x))
       else pg_role sample_pg ws v)" by blast
  have "x = sample_invitation" using x(1) by (simp add: sample_pg_def)
  moreover have "NormalizeWorkspaceRole ''admin'' = ''admin''" by code_simp
  moreover have "pg_role_row sample_pg ''w1'' ''u3'' = None" "pg_role sample_pg ''w1'' ''u2'' = ''viewer''"
    by code_simp+
  ultimately have "pg_role (ww_db w') ''w1'' ''u3'' = ''admin''" "pg_role (ww_db w') ''w1'' ''u2'' = ''viewer''"
    using x(2) by (simp_all add: sample_invitation_def)
  with r show ?thesis by blast
qed

text \<open>C11: an invitation is good for one acceptance: once accepted, its link is refused.\<close>

theorem invitation_is_single_use:
  assumes "wc_repo cfg = pg_repo" and "calls_ok w"
    and "AcceptInvitation cfg u email token w = (Inr ws', w')"
  shows "fst (AcceptInvitation cfg u2 email2 token w') = Inl ErrInvitationAlreadyAccepted"
proof -
  let ?h = "wc_hash cfg (trim_space token)"
  obtain x e expires where x: "find (\<lambda>x. iv_TokenHash x = ?h) (pd_invitations (ww_db w)) = Some x"
    "iv_Status x = Pending" "iv_ExpiresAt x = Some expires" "ww_clock w (Suc (ww_ticks w)) < expires"
    "normalizeEmail email = iv_NormalizedEmail x" and
    acc: "fst (pg_AcceptInvitation (iv_ID x) u e (ww_db w)) = Inr ()"
    "ww_db w' = snd (pg_AcceptInvitation (iv_ID x) u e (ww_db w))"
    "ww_clock w' = ww_clock w" "ww_faults w' = ww_faults w"
    by (rule accept_passed [OF assms(1,3)])
  have inv: "pd_invitations (ww_db w') =
      update_where (\<lambda>y. iv_ID y = iv_ID x) (\<lambda>x. x\<lparr>iv_Status := Accepted\<rparr>) (pd_invitations (ww_db w))"
    unfolding acc(2) by (rule pg_accept_effect [OF acc(1)])
  have found: "find (\<lambda>x. iv_TokenHash x = ?h) (pd_invitations (ww_db w')) = Some (x\<lparr>iv_Status := Accepted\<rparr>)"
    unfolding inv using x(1)
    by (subst find_update_where_key [where key = iv_TokenHash]) simp_all
  obtain y w1 where "invitationByRawToken cfg token w = (Inr y, w1)"
    using assms(3) unfolding AcceptInvitation_def by (auto dest!: ws_bind_Inr)
  then have token: "trim_space token \<noteq> []" "trim_space ?h \<noteq> []"
    using assms(1)
    by (auto simp: invitationByRawToken_def pg_repo_def hashInvitationToken_def Let_def
        pg_InvitationByTokenHash_def dest!: ws_call_Inr split: if_splits)
  have "calls_ok w'" using assms(2) acc(4) by (simp add: calls_ok_def)
  then show ?thesis
    using token found assms(1)
    by (simp add: AcceptInvitation_def ws_bind_def invitationByRawToken_def ws_call_ok pg_repo_def
        pg_InvitationByTokenHash_def hashInvitationToken_def ws_now_def effectiveInvitationStatus_def)
qed

theorem invitation_is_single_use_witness:
  "fst (AcceptInvitation sample_ws_config ''u2'' ''eve@x'' ''t''
     (snd (AcceptInvitation sample_ws_config ''u3'' ''bob@x'' ''t'' sample_ws_world))) =
   Inl ErrInvitationAlreadyAccepted"
proof -
  let ?r = "AcceptInvitation sample_ws_config ''u3'' ''bob@x'' ''t'' sample_ws_world"
  have "\<not> isl (fst ?r)" by code_simp
  then obtain ws' w' where r: "?r = (Inr ws', w')" by (metis isl_def prod.collapse sum.exhaust)
  from invitation_is_single_use [OF sample_ws(1) sample_ws(3) r] r show ?thesis by simp
qed

section \<open>Who may change a workspace\<close>

lemma ws_call_db_same:
  "(\<And>e. snd (f e (ww_db w)) = ww_db w) \<Longrightarrow> ww_db (snd (ws_call f w)) = ww_db w"
  by (auto simp: ws_call_def split: prod.split) (metis snd_conv)

lemma pg_guarded:
  assumes "\<not> CanManageWorkspace (pg_role db ws u)"
  shows "snd (pg_UpdateWorkspace u ws n d e db) = db"
    and "snd (pg_RevokeInvitation u ws k e db) = db" and "snd (pg_RemoveMember u ws v e db) = db"
    and "snd (pg_UpdateMemberRole u ws v r e db) = db"
    and "\<exists>err. fst (pg_ListInvitations u ws e db) = Inl err"
proof -
  have "requireWorkspaceManager u ws db \<noteq> None"
    using assms require_None [of CanManageWorkspace u ws db] by (auto simp: requireWorkspaceManager_def)
  moreover have "requireWorkspaceOwner u ws db \<noteq> None"
    using assms require_None [of IsWorkspaceOwner u ws db]
    by (auto simp: requireWorkspaceOwner_def dest: IsWorkspaceOwner_CanManage)
  ultimately show "snd (pg_UpdateWorkspace u ws n d e db) = db"
    "snd (pg_RevokeInvitation u ws k e db) = db" "snd (pg_RemoveMember u ws v e db) = db"
    "snd (pg_UpdateMemberRole u ws v r e db) = db" "\<exists>err. fst (pg_ListInvitations u ws e db) = Inl err"
    by (auto simp: pg_UpdateWorkspace_def pg_RevokeInvitation_def pg_RemoveMember_def
        pg_UpdateMemberRole_def pg_ListInvitations_def)
qed

lemma ws_call_Inl:
  "\<exists>err. fst (f (ww_clock w (ww_ticks w), ww_ids w (ww_nextid w)) (ww_db w)) = Inl err \<Longrightarrow>
   \<exists>err. fst (ws_call f w) = Inl err"
  by (auto simp: ws_call_def split: prod.split)

lemma pg_reads [simp]:
  "ww_db (snd (ws_call (rp_GetWorkspace pg_repo u ws) w)) = ww_db w"
  "ww_db (snd (ws_call (rp_MemberEmailExists pg_repo ws m) w)) = ww_db w"
  "ww_db (snd (ws_call (rp_ListInvitations pg_repo u ws) w)) = ww_db w"
  "ww_db (snd (ws_call (rp_ListMembers pg_repo u ws) w)) = ww_db w"
  "ww_db (snd (ws_call (rp_ListWorkspaces pg_repo u) w)) = ww_db w"
  "ww_db (snd (ws_call (rp_SessionByTokenHash pg_repo h) w)) = ww_db w"
  by (rule pg.safe_read, rule pg.reads)+

lemma pg_no_list:
  "\<not> CanManageWorkspace (pg_role (ww_db w) ws u) \<Longrightarrow>
   \<exists>err. fst (ws_call (rp_ListInvitations pg_repo u ws) w) = Inl err"
  by (rule ws_call_Inl) (simp add: pg_repo_def pg_guarded)

text \<open>C12: a user who is neither owner nor admin of a workspace cannot change it: updating it,
  inviting, revoking an invitation, removing a member and changing a role leave the store as it
  was, whatever the database does.\<close>

theorem only_managers_change_a_workspace:
  assumes "wc_repo cfg = pg_repo" and "\<not> CanManageWorkspace (pg_role (ww_db w) ws u)"
  shows "ww_db (snd (UpdateWorkspace cfg u ws n d w)) = ww_db w \<and>
    ww_db (snd (CreateInvitation cfg u name ws email role w)) = ww_db w \<and>
    ww_db (snd (RevokeInvitation cfg u ws k w)) = ww_db w \<and>
    ww_db (snd (RemoveMember cfg u ws v w)) = ww_db w \<and>
    ww_db (snd (UpdateMemberRole cfg u ws v role w)) = ww_db w"
proof (intro conjI)
  have same: "ww_db (snd (ws_call (rp_UpdateWorkspace pg_repo u ws n' d') w)) = ww_db w"
    "ww_db (snd (ws_call (rp_RevokeInvitation pg_repo u ws k) w)) = ww_db w" for n' d'
    using assms(2) by (simp_all add: ws_call_db_same pg_repo_def pg_guarded)
  have member: "ww_db w' = ww_db w \<Longrightarrow> ww_db (snd (ws_call (rp_RemoveMember pg_repo u ws v) w')) = ww_db w"
    "ww_db w' = ww_db w \<Longrightarrow> ww_db (snd (ws_call (rp_UpdateMemberRole pg_repo u ws v r) w')) = ww_db w"
    for w' :: "pgdb ws_world" and r
    using assms(2) ws_call_db_same [of "pg_RemoveMember u ws v" w']
      ws_call_db_same [of "pg_UpdateMemberRole u ws v r" w']
    by (simp_all add: pg_repo_def pg_guarded)
  show "ww_db (snd (UpdateWorkspace cfg u ws n d w)) = ww_db w"
    using assms(1) same by (simp add: UpdateWorkspace_def Let_def)
  show "ww_db (snd (RevokeInvitation cfg u ws k w)) = ww_db w"
    using assms(1) same by (simp add: RevokeInvitation_def)
  show "ww_db (snd (RemoveMember cfg u ws v w)) = ww_db w"
    using assms(1) member by (simp add: RemoveMember_def ws_bind_def case_prod_beta split: sum.split option.split)
  show "ww_db (snd (UpdateMemberRole cfg u ws v role w)) = ww_db w"
    using assms(1) member
    by (simp add: UpdateMemberRole_def ws_bind_def case_prod_beta Let_def split: sum.split option.split)
  have no_list: "ww_db w' = ww_db w \<Longrightarrow> \<exists>err. fst (ws_call (rp_ListInvitations pg_repo u ws) w') = Inl err"
    for w' :: "pgdb ws_world" using pg_no_list [of w' ws u] assms(2) by simp
  show "ww_db (snd (CreateInvitation cfg u name ws email role w)) = ww_db w"
    using assms(1) no_list
    by (auto simp: CreateInvitation_def ws_bind_def case_prod_beta Let_def split: sum.split)
      (metis pg_reads(1,2) sum.distinct(1))+
qed

theorem only_managers_change_a_workspace_witness:
  "ww_db (snd (RemoveMember sample_ws_config ''u2'' ''w1'' ''u1'' sample_ws_world)) = sample_pg"
proof -
  have "\<not> CanManageWorkspace (pg_role (ww_db sample_ws_world) ''w1'' ''u2'')" by code_simp
  with only_managers_change_a_workspace [OF sample_ws(1)] show ?thesis by fastforce
qed

text \<open>C13: ownership is permanent: no run of the services gives a workspace another owner or takes
  its owner away, once the workspace exists, as long as no ownership was invited and fresh ids
  are fresh.\<close>

theorem owners_are_permanent:
  assumes "wc_repo cfg = pg_repo" and "\<forall>n. ww_ids w n \<noteq> ws"
    and "\<forall>x \<in> set (pd_invitations (ww_db w)). \<not> IsWorkspaceOwner (iv_Role x)"
  shows "IsWorkspaceOwner (pg_role (ww_db (ws_run cfg as w)) ws u) =
    IsWorkspaceOwner (pg_role (ww_db w) ws u)"
  using pg.run_owner [OF assms(1,2), of as u] assms(3) by (simp add: pg.no_owner_invited_def)

theorem owners_are_permanent_witness:
  "IsWorkspaceOwner (pg_role (ww_db (ws_run sample_ws_config
     [DoUpdateMemberRole ''u1'' ''w1'' ''u2'' ''admin'', DoRemoveMember ''u2'' ''w1'' ''u1'',
      DoCreateWorkspace ''u2'' ''Mine'' []] sample_ws_world)) ''w1'' ''u1'')"
proof -
  have "IsWorkspaceOwner (pg_role sample_pg ''w1'' ''u1'')" by code_simp
  moreover have "\<forall>x \<in> set (pd_invitations sample_pg). \<not> IsWorkspaceOwner (iv_Role x)" by code_simp
  ultimately show ?thesis
    using owners_are_permanent [of sample_ws_config sample_ws_world "''w1''"] by simp
qed

text \<open>The same holds for the repository in memory.\<close>

lemma mem_owners_are_permanent:
  "wc_repo cfg = mem_repo \<Longrightarrow> \<forall>n. ww_ids w n \<noteq> ws \<Longrightarrow>
   \<forall>x \<in> set (mem_invitations (ww_db w)). \<not> IsWorkspaceOwner (iv_Role x) \<Longrightarrow>
   IsWorkspaceOwner (mem_role (ww_db (ws_run cfg as w)) ws u) =
     IsWorkspaceOwner (mem_role (ww_db w) ws u)"
  using mem.run_owner [of cfg w ws as u] by (simp add: mem.no_owner_invited_def)

section \<open>Login sessions\<close>

lemma live_sessions_set:
  "(s, user) \<in> set (live_sessions h db) \<Longrightarrow> s \<in> set (pd_sessions db) \<and> ls_TokenHash s = h \<and>
   ls_ID s \<notin> set (pd_revoked db) \<and> us_ID user = ls_UserID s"
  by (auto simp: live_sessions_def split: if_splits)

lemma live_sessions_Nil:
  "\<forall>s \<in> set (pd_sessions db). ls_TokenHash s = h \<longrightarrow> ls_ID s \<in> set (pd_revoked db) \<Longrightarrow>
   live_sessions h db = []"
  by (auto simp: live_sessions_def)

lemma session_found:
  "fst (pg_SessionByTokenHash h e db) = Inr (s, user) \<Longrightarrow> (s, user) \<in> set (live_sessions h db)"
  by (auto simp: pg_SessionByTokenHash_def split: list.splits)

lemma authenticated_session:
  assumes "wc_repo cfg = pg_repo" and auth: "Authenticate cfg token w = (Inr r, w')"
  shows "\<exists>s \<in> set (pd_sessions (ww_db w)). ls_TokenHash s = wc_hash cfg token \<and>
    ls_ID s \<notin> set (pd_revoked (ww_db w)) \<and> ww_clock w (Suc (ww_ticks w)) < ls_ExpiresAt s \<and>
    us_ID (sr_User r) = ls_UserID s"
proof -
  let ?call = "ws_call (pg_SessionByTokenHash (wc_hash cfg token)) w"
  obtain s user w1 where call: "?call = (Inr (s, user), w1)" and tok: "token \<noteq> []"
    using auth assms
    by (auto simp: Authenticate_def hashToken_def pg_repo_def split: if_splits prod.splits sum.splits)
  have now: "ww_clock w (Suc (ww_ticks w)) < ls_ExpiresAt s" and user: "sr_User r = user"
    using auth assms call tok ws_call_Inr [OF call]
    by (auto simp: Authenticate_def hashToken_def pg_repo_def ws_now_def Let_def
        dest!: ws_bind_Inr split: if_splits)
  have "s \<in> set (pd_sessions (ww_db w)) \<and> ls_TokenHash s = wc_hash cfg token \<and>
      ls_ID s \<notin> set (pd_revoked (ww_db w)) \<and> us_ID user = ls_UserID s"
    using ws_call_Inr [OF call] live_sessions_set session_found by blast
  with now user show ?thesis by blast
qed

text \<open>C14: a token authenticates only against a stored session with its hash that is neither
  revoked nor expired, as that session's user; after the logout of its sessions it is refused.\<close>

theorem authentication_needs_a_live_session:
  assumes "wc_repo cfg = pg_repo"
  shows "(\<forall>r w'. Authenticate cfg token w = (Inr r, w') \<longrightarrow>
      (\<exists>s \<in> set (pd_sessions (ww_db w)). ls_TokenHash s = wc_hash cfg token \<and>
         ls_ID s \<notin> set (pd_revoked (ww_db w)) \<and> ww_clock w (Suc (ww_ticks w)) < ls_ExpiresAt s \<and>
         us_ID (sr_User r) = ls_UserID s)) \<and>
    (calls_ok w \<longrightarrow> (\<forall>s \<in> set (pd_sessions (ww_db w)). ls_TokenHash s = wc_hash cfg token \<longrightarrow> ls_ID s = sid) \<longrightarrow>
      fst (Authenticate cfg token (snd (Logout cfg sid w))) = Inl ErrUnauthorized)"
proof (intro conjI allI impI)
  fix r w' assume auth: "Authenticate cfg token w = (Inr r, w')"
  from authenticated_session [OF assms auth]
  show "\<exists>s \<in> set (pd_sessions (ww_db w)). ls_TokenHash s = wc_hash cfg token \<and>
         ls_ID s \<notin> set (pd_revoked (ww_db w)) \<and> ww_clock w (Suc (ww_ticks w)) < ls_ExpiresAt s \<and>
         us_ID (sr_User r) = ls_UserID s" .
next
  assume ok: "calls_ok w" and only: "\<forall>s \<in> set (pd_sessions (ww_db w)). ls_TokenHash s = wc_hash cfg token \<longrightarrow> ls_ID s = sid"
  show "fst (Authenticate cfg token (snd (Logout cfg sid w))) = Inl ErrUnauthorized"
  proof (cases "token = []")
    case False
    let ?w = "snd (Logout cfg sid w)"
    let ?db = "ww_db ?w"
    have w: "calls_ok ?w" "?db = snd (pg_RevokeSession sid (ww_clock w (ww_ticks w), ww_ids w (ww_nextid w)) (ww_db w))"
      using ok assms by (simp_all add: Logout_def ws_call_ok pg_repo_def)
    have "live_sessions (wc_hash cfg token) ?db = []"
      using only by (intro live_sessions_Nil) (auto simp: w(2) pg_RevokeSession_def)
    then have "fst (ws_call (rp_SessionByTokenHash pg_repo (wc_hash cfg token)) ?w) = Inl (Core NotFound)"
      using w(1) by (simp add: ws_call_ok pg_repo_def pg_SessionByTokenHash_def)
    then obtain w1 where
      "ws_call (rp_SessionByTokenHash pg_repo (wc_hash cfg token)) ?w = (Inl (Core NotFound), w1)"
      by (cases "ws_call (rp_SessionByTokenHash pg_repo (wc_hash cfg token)) ?w") simp
    then show ?thesis
      using False assms
      by (simp add: Authenticate_def hashToken_def not_found_unauthorized_def NotFound_def)
  qed (simp add: Authenticate_def)
qed

theorem authentication_needs_a_live_session_witness:
  "fst (Authenticate sample_ws_config ''k'' (snd (Logout sample_ws_config ''s1'' sample_ws_world))) =
   Inl ErrUnauthorized"
proof -
  have "\<forall>s \<in> set (pd_sessions sample_pg). ls_TokenHash s = wc_hash sample_ws_config ''k'' \<longrightarrow> ls_ID s = ''s1''"
    by (simp add: sample_pg_def)
  with authentication_needs_a_live_session [OF sample_ws(1), of "''k''" sample_ws_world "''s1''"]
  show ?thesis by simp
qed

end
