(* ===== verification/Transcripts.thy ===== *)
theory Transcripts
  imports SessionLifecycle
begin

text \<open>
  Transcript segments, from the request to the table: \<open>TranscriptSegmentRepository\<close> of
  \<open>internal/adapter/repository/postgres/transcript.go\<close>, \<open>TranscriptIngestService\<close> of
  \<open>internal/application/transcript.go\<close> and the bot's endpoint \<open>TranscriptAPI.Store\<close> of
  \<open>internal/adapter/http/transcript_api.go\<close>.

  The rows are the list \<open>db_segments\<close> of the store the sessions use, oldest first.  The times
  of a row are kept as they are: writing them in \<open>time.RFC3339Nano\<close> and reading them back is
  the identity on the years 0 to 9999.  What the decoder made of a request body is an argument
  of the handler, as are \<open>mime.ParseMediaType\<close>, \<open>time.Parse\<close> and SHA-256 (\<open>api_lib\<close>).
\<close>

named_theorems transcript_simps \<open>unfoldings of the transcript operations\<close>

section \<open>Repository\<close>

definition sameContent :: "TranscriptSegment \<Rightarrow> TranscriptSegment \<Rightarrow> bool" where
  "sameContent a b \<longleftrightarrow>
     ts_EventID a = ts_EventID b \<and> ts_SessionID a = ts_SessionID b \<and>
     ts_CallID a = ts_CallID b \<and> ts_SequenceNo a = ts_SequenceNo b \<and>
     ts_SpeakerID a = ts_SpeakerID b \<and> ts_SpeakerName a = ts_SpeakerName b \<and>
     ts_OffsetTicks a = ts_OffsetTicks b \<and> ts_DurationTicks a = ts_DurationTicks b \<and>
     ts_Text a = ts_Text b"

text \<open>A row read back is a final segment.\<close>

definition stored_segment :: "TranscriptSegment \<Rightarrow> TranscriptSegment" where
  "stored_segment s = s\<lparr>ts_IsFinal := True\<rparr>"

definition findTranscriptSegmentByEventID :: "store \<Rightarrow> gostring \<Rightarrow> TranscriptSegment option" where
  "findTranscriptSegmentByEventID db eventID = find (\<lambda>r. ts_EventID r = eventID) (db_segments db)"

definition findTranscriptSegmentByCallSequence ::
    "store \<Rightarrow> gostring \<Rightarrow> int \<Rightarrow> TranscriptSegment option" where
  "findTranscriptSegmentByCallSequence db callID sequenceNo =
     find (\<lambda>r. ts_CallID r = callID \<and> ts_SequenceNo r = sequenceNo) (db_segments db)"

definition transcriptSegmentConflictError :: goerror where
  "transcriptSegmentConflictError = ErrConflict ''transcript segment conflict''"

text \<open>
  \<open>INSERT ... ON CONFLICT DO NOTHING\<close>: the row is inserted when it violates neither
  \<open>UNIQUE (event_id)\<close> nor \<open>UNIQUE (call_id, sequence_no)\<close>.
\<close>

definition insert_ignored :: "store \<Rightarrow> TranscriptSegment \<Rightarrow> bool" where
  "insert_ignored db s \<longleftrightarrow>
     list_ex (\<lambda>r. ts_EventID r = ts_EventID s \<or>
       (ts_CallID r = ts_CallID s \<and> ts_SequenceNo r = ts_SequenceNo s)) (db_segments db)"

definition repo_SaveTranscriptSegment ::
    "store \<Rightarrow> TranscriptSegment \<Rightarrow> TranscriptSegmentStoreResult result \<times> store" where
  "repo_SaveTranscriptSegment db s =
     (if \<not> insert_ignored db s
      then (Inr \<lparr>tr_Status = TranscriptSegmentCreated, tr_EventID = ts_EventID s\<rparr>,
            db\<lparr>db_segments := db_segments db @ [stored_segment s]\<rparr>)
      else (case findTranscriptSegmentByEventID db (ts_EventID s) of
          Some existing \<Rightarrow>
            if sameContent existing s
            then (Inr \<lparr>tr_Status = TranscriptSegmentAlreadyExists, tr_EventID = ts_EventID s\<rparr>, db)
            else (Inl transcriptSegmentConflictError, db)
        | None \<Rightarrow>
            (case findTranscriptSegmentByCallSequence db (ts_CallID s) (ts_SequenceNo s) of
               Some _ \<Rightarrow> (Inl transcriptSegmentConflictError, db)
             | None \<Rightarrow> (Inl ErrDatabase, db))))"

text \<open>
  \<open>ORDER BY call_id, sequence_no, recognized_at_utc\<close>; \<open>coll\<close> is the collation of the database
  (whether a text sorts before another).
\<close>

definition segment_before ::
    "(gostring \<Rightarrow> gostring \<Rightarrow> bool) \<Rightarrow> (gotime \<Rightarrow> gotime \<Rightarrow> bool) \<Rightarrow>
     TranscriptSegment \<Rightarrow> TranscriptSegment \<Rightarrow> bool" where
  "segment_before coll before a b \<longleftrightarrow>
     coll (ts_CallID a) (ts_CallID b) \<or>
     (\<not> coll (ts_CallID b) (ts_CallID a) \<and>
      (ts_SequenceNo a < ts_SequenceNo b \<or>
       (ts_SequenceNo a = ts_SequenceNo b \<and> before (ts_RecognizedAtUTC a) (ts_RecognizedAtUTC b))))"

definition repo_ListTranscriptSegments ::
    "(gostring \<Rightarrow> gostring \<Rightarrow> bool) \<Rightarrow> store \<Rightarrow> gostring \<Rightarrow> gostring \<Rightarrow> int \<Rightarrow> TranscriptSegment list" where
  "repo_ListTranscriptSegments coll db callID sessionID limit0 =
     (let limit = (if limit0 \<le> 0 then 100 else limit0) in
      take (nat limit) (order_by (segment_before coll (db_before db))
        (filter (\<lambda>r. (callID = [] \<or> ts_CallID r = callID) \<and>
                     (sessionID = [] \<or> ts_SessionID r = sessionID)) (db_segments db))))"

section \<open>Ingest service\<close>

text \<open>The world of the ingest: the shared world and what the publisher received.\<close>

record ingest =
  ig_world :: world
  ig_segments :: "TranscriptSegment list"

definition publish_segment :: "bool \<Rightarrow> TranscriptSegment \<Rightarrow> ingest \<Rightarrow> ingest" where
  "publish_segment publisher s g =
     (if publisher then g\<lparr>ig_segments := ig_segments g @ [s]\<rparr> else g)"

definition normalizeTranscriptSegment ::
    "TranscriptSegment \<Rightarrow> ingest \<Rightarrow> TranscriptSegment \<times> ingest" where
  "normalizeTranscriptSegment s g =
     (if is_zero (ts_ReceivedAtUTC s)
      then (let (now, w) = now_utc (ig_world g) in (s\<lparr>ts_ReceivedAtUTC := now\<rparr>, g\<lparr>ig_world := w\<rparr>))
      else (s, g))"

definition StoreTranscriptSegment ::
    "bool \<Rightarrow> TranscriptSegment \<Rightarrow> ingest \<Rightarrow> TranscriptSegmentStoreResult result \<times> ingest" where
  "StoreTranscriptSegment publisher s0 g0 =
     (let (s1, g1) = normalizeTranscriptSegment s0 g0;
          s = s1\<lparr>ts_IsFinal := True\<rparr>;
          (r, w2) = repo_call (\<lambda>db. repo_SaveTranscriptSegment db s) (ig_world g1);
          g2 = g1\<lparr>ig_world := w2\<rparr> in
      case r of
        Inl e \<Rightarrow> (Inl e, g2)
      | Inr result \<Rightarrow>
          (let g3 = g2\<lparr>ig_world := snd (now_utc w2)\<rparr> in
           (Inr result,
            if tr_Status result = TranscriptSegmentCreated then publish_segment publisher s g3 else g3)))"

definition PublishTranscriptPartial ::
    "bool \<Rightarrow> TranscriptSegment \<Rightarrow> ingest \<Rightarrow> TranscriptSegmentStoreResult \<times> ingest" where
  "PublishTranscriptPartial publisher s0 g0 =
     (let (s1, g1) = normalizeTranscriptSegment s0 g0; s = s1\<lparr>ts_IsFinal := False\<rparr> in
      (\<lparr>tr_Status = TranscriptSegmentPartialSent, tr_EventID = ts_EventID s\<rparr>,
       publish_segment publisher s g1))"

definition ListTranscriptSegments ::
    "(gostring \<Rightarrow> gostring \<Rightarrow> bool) \<Rightarrow> gostring \<Rightarrow> gostring \<Rightarrow> int \<Rightarrow> ingest \<Rightarrow>
     TranscriptSegment list result \<times> ingest" where
  "ListTranscriptSegments coll callID sessionID limit g =
     (let (r, w) = repo_read (\<lambda>db. Inr (repo_ListTranscriptSegments coll db callID sessionID limit))
                     (ig_world g) in
      (r, g\<lparr>ig_world := w\<rparr>))"

section \<open>Requests of the bot\<close>

record transcriptSegmentRequest =
  rq_SessionID :: gostring
  rq_SessionIDSnake :: gostring
  rq_EventID :: gostring
  rq_EventIDSnake :: gostring
  rq_CallID :: gostring
  rq_CallIDSnake :: gostring
  rq_SequenceNo :: int
  rq_SequenceNoSnake :: int
  rq_IsFinal :: "bool option"
  rq_IsFinalSnake :: "bool option"
  rq_SpeakerID :: gostring
  rq_SpeakerIDSnake :: gostring
  rq_SpeakerLabel :: gostring
  rq_SpeakerLabelSnake :: gostring
  rq_SpeakerName :: gostring
  rq_SpeakerNameSnake :: gostring
  rq_SpeakerDisplayName :: gostring
  rq_SpeakerDisplayNameSnake :: gostring
  rq_ParticipantName :: gostring
  rq_ParticipantNameSnake :: gostring
  rq_UserName :: gostring
  rq_UserNameSnake :: gostring
  rq_RecognizedAtUTC :: gostring
  rq_RecognizedAtUTCAlt :: gostring
  rq_RecognizedAtUTCSnake :: gostring
  rq_OffsetTicks :: int
  rq_OffsetTicksSnake :: int
  rq_DurationTicks :: int
  rq_DurationTicksSnake :: int
  rq_Text :: gostring

definition firstNonBlankString :: "gostring list \<Rightarrow> gostring" where
  "firstNonBlankString = first_trimmed"

definition firstPresentInt64 :: "int list \<Rightarrow> int" where
  "firstPresentInt64 values = (case find (\<lambda>v. v \<noteq> 0) values of Some v \<Rightarrow> v | None \<Rightarrow> 0)"

definition firstPositiveInt64 :: "int list \<Rightarrow> int" where
  "firstPositiveInt64 values =
     (case find (\<lambda>v. 0 < v) values of Some v \<Rightarrow> v | None \<Rightarrow> firstPresentInt64 values)"

definition request_sessionID :: "transcriptSegmentRequest \<Rightarrow> gostring" where
  "request_sessionID q = firstNonBlankString [rq_SessionID q, rq_SessionIDSnake q]"

definition request_eventID :: "transcriptSegmentRequest \<Rightarrow> gostring" where
  "request_eventID q = firstNonBlankString [rq_EventID q, rq_EventIDSnake q]"

definition request_callID :: "transcriptSegmentRequest \<Rightarrow> gostring" where
  "request_callID q = firstNonBlankString [rq_CallID q, rq_CallIDSnake q]"

definition request_sequenceNo :: "transcriptSegmentRequest \<Rightarrow> int" where
  "request_sequenceNo q = firstPositiveInt64 [rq_SequenceNo q, rq_SequenceNoSnake q]"

definition request_isFinal :: "transcriptSegmentRequest \<Rightarrow> bool" where
  "request_isFinal q =
     (case rq_IsFinal q of Some b \<Rightarrow> b | None \<Rightarrow> (case rq_IsFinalSnake q of Some b \<Rightarrow> b | None \<Rightarrow> True))"

definition request_speakerID :: "transcriptSegmentRequest \<Rightarrow> gostring" where
  "request_speakerID q = firstNonBlankString [rq_SpeakerID q, rq_SpeakerIDSnake q]"

definition request_speakerName :: "transcriptSegmentRequest \<Rightarrow> gostring" where
  "request_speakerName q = first_trimmed
     [rq_SpeakerName q, rq_SpeakerNameSnake q, rq_SpeakerLabel q, rq_SpeakerLabelSnake q,
      rq_SpeakerDisplayName q, rq_SpeakerDisplayNameSnake q, rq_ParticipantName q,
      rq_ParticipantNameSnake q, rq_UserName q, rq_UserNameSnake q]"

definition request_recognizedAtUTC :: "transcriptSegmentRequest \<Rightarrow> gostring" where
  "request_recognizedAtUTC q =
     firstNonBlankString [rq_RecognizedAtUTC q, rq_RecognizedAtUTCAlt q, rq_RecognizedAtUTCSnake q]"

definition request_offsetTicks :: "transcriptSegmentRequest \<Rightarrow> int" where
  "request_offsetTicks q = firstPresentInt64 [rq_OffsetTicks q, rq_OffsetTicksSnake q]"

definition request_durationTicks :: "transcriptSegmentRequest \<Rightarrow> int" where
  "request_durationTicks q = firstPresentInt64 [rq_DurationTicks q, rq_DurationTicksSnake q]"

definition request_text :: "transcriptSegmentRequest \<Rightarrow> gostring" where
  "request_text q = trim_space (rq_Text q)"

definition generatedTranscriptEventID :: "gostring \<Rightarrow> gostring \<Rightarrow> int \<Rightarrow> gostring" where
  "generatedTranscriptEventID sessionID callID sequenceNo =
     (if sessionID \<noteq> []
      then ''transcript:'' @ sessionID @ '':'' @ callID @ '':'' @ show_int sequenceNo
      else ''transcript:'' @ callID @ '':'' @ show_int sequenceNo)"

definition generatedTranscriptPartialEventID :: "gostring \<Rightarrow> gostring \<Rightarrow> gostring \<Rightarrow> gostring" where
  "generatedTranscriptPartialEventID sessionID callID speakerKey =
     (if sessionID \<noteq> []
      then ''partial:'' @ sessionID @ '':'' @ callID @ '':'' @ speakerKey
      else ''partial:'' @ callID @ '':'' @ speakerKey)"

definition transcriptPartialSpeakerKey :: "gostring \<Rightarrow> gostring \<Rightarrow> gostring" where
  "transcriptPartialSpeakerKey speakerID speakerName =
     (if speakerID \<noteq> [] then speakerID else if speakerName \<noteq> [] then speakerName else ''unknown'')"

record api_lib =
  lb_media_type :: "gostring \<Rightarrow> gostring option"
  lb_parse_time :: "gostring \<Rightarrow> (gotime \<times> int) option"
  lb_sha256 :: "gostring \<Rightarrow> gostring"

datatype segment_error = EmptyTranscriptText | InvalidSegment gostring

text \<open>
  \<open>toDomain\<close>.  The clock is read once the identifiers are in order, whether or not the request
  carries a recognition time; \<open>ReceivedAtUTC\<close> is left at the zero time.
\<close>

definition segment_of ::
    "transcriptSegmentRequest \<Rightarrow> bool \<Rightarrow> gotime \<Rightarrow> TranscriptSegment" where
  "segment_of q isFinal recognizedAt =
     \<lparr>ts_SessionID = request_sessionID q,
      ts_EventID =
        (if request_eventID q \<noteq> [] then request_eventID q
         else if isFinal
         then generatedTranscriptEventID (request_sessionID q) (request_callID q) (request_sequenceNo q)
         else generatedTranscriptPartialEventID (request_sessionID q) (request_callID q)
                (transcriptPartialSpeakerKey (request_speakerID q) (request_speakerName q))),
      ts_CallID = request_callID q, ts_SequenceNo = request_sequenceNo q,
      ts_SpeakerID = request_speakerID q, ts_SpeakerName = request_speakerName q,
      ts_RecognizedAtUTC = recognizedAt, ts_OffsetTicks = request_offsetTicks q,
      ts_DurationTicks = request_durationTicks q, ts_Text = request_text q,
      ts_ReceivedAtUTC = 0, ts_IsFinal = isFinal\<rparr>"

definition toDomain ::
    "api_lib \<Rightarrow> transcriptSegmentRequest \<Rightarrow> bool \<Rightarrow> world \<Rightarrow>
     (segment_error + TranscriptSegment) \<times> world" where
  "toDomain lib q isFinal w0 =
     (if request_callID q = [] then (Inl (InvalidSegment ''callId is required''), w0)
      else if isFinal \<and> request_sequenceNo q < 1
        then (Inl (InvalidSegment ''sequenceNo must be 1 or greater''), w0)
      else if \<not> isFinal \<and> request_sequenceNo q < 0
        then (Inl (InvalidSegment ''sequenceNo must be 0 or greater''), w0)
      else
        (let (now, w1) = now_utc w0;
             at = (if request_recognizedAtUTC q = [] then Inr now
                   else (case lb_parse_time lib (request_recognizedAtUTC q) of
                       None \<Rightarrow> Inl (InvalidSegment ''recognizedAtUtc must be RFC3339'')
                     | Some (t, offset) \<Rightarrow>
                         if offset \<noteq> 0 then Inl (InvalidSegment ''recognizedAtUtc must use UTC offset'')
                         else Inr t)) in
         case at of
           Inl e \<Rightarrow> (Inl e, w1)
         | Inr recognizedAt \<Rightarrow>
             if request_offsetTicks q < 0
             then (Inl (InvalidSegment ''offsetTicks must be 0 or greater''), w1)
             else if request_durationTicks q < 0
             then (Inl (InvalidSegment ''durationTicks must be 0 or greater''), w1)
             else if request_text q = [] then (Inl EmptyTranscriptText, w1)
             else (Inr (segment_of q isFinal recognizedAt), w1)))"

section \<open>The endpoint\<close>

definition authorizedSecret :: "api_lib \<Rightarrow> gostring \<Rightarrow> gostring \<Rightarrow> bool" where
  "authorizedSecret lib value secret \<longleftrightarrow>
     value \<noteq> [] \<and> secret \<noteq> [] \<and> lb_sha256 lib value = lb_sha256 lib secret"

definition isJSONContentType :: "api_lib \<Rightarrow> gostring \<Rightarrow> bool" where
  "isJSONContentType lib contentType \<longleftrightarrow>
     lb_media_type lib contentType = Some ''application/json''"

text \<open>
  What the two calls of \<open>Decode\<close> yield under the limit of 64 KiB: the first fails (too large or
  malformed), or gives a request and the second ends the body, fails or finds more data.
\<close>

datatype body_error = BodyTooLarge | BodyInvalid
datatype request_body = Undecodable body_error | Request transcriptSegmentRequest "body_error option"

record transcriptSegmentResponse =
  rp_Status :: gostring
  rp_Duplicate :: bool
  rp_EventID :: gostring
  rp_IsFinal :: bool

datatype api_response = ApiError int gostring gostring | ApiReply int transcriptSegmentResponse

fun store_status_text :: "TranscriptSegmentStoreStatus \<Rightarrow> gostring" where
  "store_status_text TranscriptSegmentCreated = ''created''"
| "store_status_text TranscriptSegmentAlreadyExists = ''already_exists''"
| "store_status_text TranscriptSegmentPartialSent = ''partial_sent''"

fun body_error_response :: "body_error \<Rightarrow> api_response" where
  "body_error_response BodyTooLarge =
     ApiError 413 ''payload_too_large'' ''request body is too large''"
| "body_error_response BodyInvalid = ApiError 400 ''invalid_json'' ''invalid JSON request body''"

definition store_reply ::
    "TranscriptSegment \<Rightarrow> TranscriptSegmentStoreResult result \<Rightarrow> api_response" where
  "store_reply s r =
     (case r of
        Inl (ErrConflict _) \<Rightarrow> ApiError 409 ''conflict'' ''transcript segment conflict''
      | Inl _ \<Rightarrow> ApiError 500 ''internal_error'' ''internal server error''
      | Inr result \<Rightarrow>
          (case tr_Status result of
             TranscriptSegmentCreated \<Rightarrow>
               ApiReply 201 \<lparr>rp_Status = ''created'', rp_Duplicate = False,
                             rp_EventID = ts_EventID s, rp_IsFinal = True\<rparr>
           | TranscriptSegmentAlreadyExists \<Rightarrow>
               ApiReply 200 \<lparr>rp_Status = ''already_exists'', rp_Duplicate = True,
                             rp_EventID = ts_EventID s, rp_IsFinal = True\<rparr>
           | TranscriptSegmentPartialSent \<Rightarrow>
               ApiError 500 ''internal_error'' ''internal server error''))"

definition api_Store ::
    "api_lib \<Rightarrow> gostring \<Rightarrow> bool \<Rightarrow> gostring \<Rightarrow> gostring \<Rightarrow> request_body \<Rightarrow> ingest \<Rightarrow>
     api_response \<times> ingest" where
  "api_Store lib apiKey publisher key contentType body g0 =
     (if \<not> authorizedSecret lib key apiKey then (ApiError 401 ''unauthorized'' ''unauthorized'', g0)
      else if \<not> isJSONContentType lib contentType
        then (ApiError 415 ''unsupported_media_type'' ''content type must be application/json'', g0)
      else (case body of
          Undecodable e \<Rightarrow> (body_error_response e, g0)
        | Request q (Some e) \<Rightarrow> (body_error_response e, g0)
        | Request q None \<Rightarrow>
            (let isFinal = request_isFinal q;
                 (r, w1) = toDomain lib q isFinal (ig_world g0);
                 g1 = g0\<lparr>ig_world := w1\<rparr> in
             case r of
               Inl EmptyTranscriptText \<Rightarrow>
                 (ApiReply 200 \<lparr>rp_Status = ''skipped'', rp_Duplicate = False,
                    rp_EventID = request_eventID q, rp_IsFinal = isFinal\<rparr>, g1)
             | Inl (InvalidSegment msg) \<Rightarrow> (ApiError 400 ''invalid_request'' msg, g1)
             | Inr s \<Rightarrow>
                 if \<not> isFinal
                 then (let (result, g2) = PublishTranscriptPartial publisher s g1 in
                   (ApiReply 200 \<lparr>rp_Status = store_status_text (tr_Status result),
                      rp_Duplicate = False, rp_EventID = ts_EventID s, rp_IsFinal = False\<rparr>, g2))
                 else (let (r', g2) = StoreTranscriptSegment publisher s g1 in (store_reply s r', g2)))))"

text \<open>\<open>parseTranscriptLimit\<close>: \<open>None\<close> is its error.\<close>

definition parseTranscriptLimit :: "gostring \<Rightarrow> int option" where
  "parseTranscriptLimit value0 =
     (let value = trim_space value0 in
      if value = [] then Some 100
      else (case parse_int64 value of
          None \<Rightarrow> None
        | Some limit \<Rightarrow> if limit < 1 then None else if 500 < limit then Some 500 else Some limit))"

definition transcriptSegmentIsFinal :: "TranscriptSegment \<Rightarrow> bool" where
  "transcriptSegmentIsFinal s \<longleftrightarrow> ts_IsFinal s \<or> 0 < ts_SequenceNo s"

end
