(* ===== verification/Publishing.thy ===== *)
theory Publishing
  imports Prelude "HOL-Library.Multiset"
begin

text \<open>
  A service that stores first and publishes afterwards, with no lock around the two: the calls of
  different requests interleave.  \<open>serve\<close> is one request up to the moment it hands its publication
  over, \<open>log\<close> what was handed over so far, in the order of storing; a publication waits until its
  goroutine is scheduled, and which one goes first is open.
\<close>

datatype 'a service_step = Serve 'a | Publish nat

record ('s, 'e) service =
  sv_state :: 's
  sv_waiting :: "'e list"
  sv_published :: "'e list"

definition service_start :: "'s \<Rightarrow> ('s, 'e) service" where
  "service_start s = \<lparr>sv_state = s, sv_waiting = [], sv_published = []\<rparr>"

fun service_do ::
    "('a \<Rightarrow> 's \<Rightarrow> 's) \<Rightarrow> ('s \<Rightarrow> 'e list) \<Rightarrow> 'a service_step \<Rightarrow> ('s, 'e) service \<Rightarrow> ('s, 'e) service" where
  "service_do serve log (Serve a) t =
     t\<lparr>sv_state := serve a (sv_state t),
       sv_waiting := sv_waiting t @ drop (length (log (sv_state t))) (log (serve a (sv_state t)))\<rparr>"
| "service_do serve log (Publish k) t =
     (if k < length (sv_waiting t)
      then t\<lparr>sv_waiting := take k (sv_waiting t) @ drop (Suc k) (sv_waiting t),
             sv_published := sv_published t @ [sv_waiting t ! k]\<rparr>
      else t)"

definition service_run ::
    "('a \<Rightarrow> 's \<Rightarrow> 's) \<Rightarrow> ('s \<Rightarrow> 'e list) \<Rightarrow> 'a service_step list \<Rightarrow> ('s, 'e) service \<Rightarrow> ('s, 'e) service" where
  "service_run serve log steps t = foldl (\<lambda>t x. service_do serve log x t) t steps"

fun requests :: "'a service_step list \<Rightarrow> 'a list" where
  "requests [] = []"
| "requests (Serve a # xs) = a # requests xs"
| "requests (Publish _ # xs) = requests xs"

lemma service_run_Nil [simp]: "service_run serve log [] t = t"
  by (simp add: service_run_def)

lemma service_run_Cons [simp]:
  "service_run serve log (x # xs) t = service_run serve log xs (service_do serve log x t)"
  by (simp add: service_run_def)

lemma service_run_append:
  "service_run serve log (xs @ ys) t = service_run serve log ys (service_run serve log xs t)"
  by (simp add: service_run_def)

lemma requests_append [simp]: "requests (xs @ ys) = requests xs @ requests ys"
  by (induction xs rule: requests.induct) simp_all

lemma service_start_fields [simp]:
  "sv_state (service_start s) = s" "sv_waiting (service_start s) = []" "sv_published (service_start s) = []"
  by (simp_all add: service_start_def)

text \<open>The state is that of the requests in the order in which they reached the store.\<close>

lemma service_state:
  "sv_state (service_run serve log xs t) = foldl (\<lambda>s a. serve a s) (sv_state t) (requests xs)"
  by (induction xs arbitrary: t rule: requests.induct) simp_all

lemma published_grow: "\<exists>ys. sv_published (service_run serve log xs t) = sv_published t @ ys"
proof (induction xs arbitrary: t)
  case (Cons x xs)
  obtain ys where "sv_published (service_run serve log xs (service_do serve log x t)) =
      sv_published (service_do serve log x t) @ ys"
    using Cons.IH by blast
  moreover have "\<exists>zs. sv_published (service_do serve log x t) = sv_published t @ zs"
    by (cases x) simp_all
  ultimately show ?case by auto
qed simp

fun in_turn :: "'a service_step \<Rightarrow> bool" where
  "in_turn (Serve a) = True"
| "in_turn (Publish k) \<longleftrightarrow> k = 0"

lemma chained_counts:
  fixes l0 l1 l2 p q r :: "'b multiset"
  assumes "p + l1 = q + l2" "q + l0 = r + l1"
  shows "p + l0 = r + l2"
proof (rule multiset_eqI)
  fix x
  from assms have "count p x + count l1 x = count q x + count l2 x"
    "count q x + count l0 x = count r x + count l1 x"
    by (metis count_union)+
  then show "count (p + l0) x = count (r + l2) x" by simp
qed

locale publishing =
  fixes serve :: "'a \<Rightarrow> 's \<Rightarrow> 's" and log :: "'s \<Rightarrow> 'e list"
  assumes log_grows: "\<exists>new. log (serve a s) = log s @ new"
begin

lemma log_grows_run: "\<exists>new. log (foldl (\<lambda>s a. serve a s) s as) = log s @ new"
proof (induction as arbitrary: s)
  case (Cons a as)
  show ?case using Cons.IH [of "serve a s"] log_grows [of a s] by auto
qed simp

text \<open>Nothing is published twice, before it was stored, or instead of something else.\<close>

lemma handed_over_once:
  "mset (sv_waiting (service_do serve log x t)) + mset (sv_published (service_do serve log x t)) + mset (log (sv_state t)) =
   mset (sv_waiting t) + mset (sv_published t) + mset (log (sv_state (service_do serve log x t)))"
proof (cases x)
  case (Serve a)
  then show ?thesis using log_grows [of a "sv_state t"] by auto
next
  case (Publish k)
  show ?thesis
  proof (cases "k < length (sv_waiting t)")
    case True
    then have "mset (sv_waiting t) = add_mset (sv_waiting t ! k) (mset (take k (sv_waiting t) @ drop (Suc k) (sv_waiting t)))"
      using id_take_nth_drop [OF True] by (metis mset_append mset.simps(2) union_mset_add_mset_right)
    then show ?thesis using Publish True by simp
  qed (simp add: Publish)
qed

lemma published_once:
  "mset (sv_waiting (service_run serve log xs t)) + mset (sv_published (service_run serve log xs t)) + mset (log (sv_state t)) =
   mset (sv_waiting t) + mset (sv_published t) + mset (log (sv_state (service_run serve log xs t)))"
proof (induction xs arbitrary: t)
  case (Cons x xs)
  show ?case
    using chained_counts [OF Cons.IH [of "service_do serve log x t"] handed_over_once [of x t]]
    by simp
qed simp

lemma published_of_start:
  assumes "t = service_run serve log xs (service_start s)" "log (sv_state t) = log s @ new"
  shows "mset (sv_published t) + mset (sv_waiting t) = mset new"
  using published_once [of xs "service_start s"] assms by (simp add: ac_simps)

text \<open>In the order of storing, when no publication goes past another.\<close>

lemma in_turn_step:
  assumes "in_turn x"
  shows "\<exists>new. log (sv_state (service_do serve log x t)) = log (sv_state t) @ new \<and>
    sv_published (service_do serve log x t) @ sv_waiting (service_do serve log x t) =
      sv_published t @ sv_waiting t @ new"
proof (cases x)
  case (Serve a)
  then show ?thesis using log_grows [of a "sv_state t"] by auto
next
  case (Publish k)
  then show ?thesis using assms by (cases "sv_waiting t") auto
qed

lemma published_in_turn:
  "list_all in_turn xs \<Longrightarrow> \<exists>new. log (sv_state (service_run serve log xs t)) = log (sv_state t) @ new \<and>
    sv_published (service_run serve log xs t) @ sv_waiting (service_run serve log xs t) =
      sv_published t @ sv_waiting t @ new"
proof (induction xs arbitrary: t)
  case (Cons x xs)
  show ?case using Cons.IH [of "service_do serve log x t"] in_turn_step [of x t] Cons.prems by fastforce
qed simp

end

text \<open>Published in ascending order, the publications are the log.\<close>

lemma same_when_sorted:
  assumes "mset xs = mset ys" "sorted (map f xs)" "sorted (map f ys)" "distinct (map f ys)"
  shows "xs = ys"
proof (rule map_sorted_distinct_set_unique)
  have "set xs = set ys" using assms(1) by (metis set_mset_mset)
  with assms(4) show "inj_on f (set xs \<union> set ys)" by (simp add: distinct_map)
  have "mset (map f xs) = mset (map f ys)" using assms(1) by simp
  with assms(4) show "distinct (map f xs)" by (metis mset_eq_imp_distinct_iff)
  show "set xs = set ys" by fact
qed (use assms in auto)

end
