(* ===== verification/TranscriptClaims.thy ===== *)
theory TranscriptClaims
  imports Transcripts Publishing
begin

text \<open>
  What the transcript ingest guarantees: facts on each operation, then the properties.
  \<open>keyed\<close> says what the two unique indexes of the table enforce, \<open>well_formed\<close> what the endpoint
  checks before it stores a segment, \<open>api_run\<close> serves a list of requests.
\<close>

section \<open>Invariants\<close>

definition keyed :: "TranscriptSegment list \<Rightarrow> bool" where
  "keyed rows \<longleftrightarrow> distinct (map ts_EventID rows) \<and>
     distinct (map (\<lambda>r. (ts_CallID r, ts_SequenceNo r)) rows)"

definition well_formed :: "TranscriptSegment \<Rightarrow> bool" where
  "well_formed s \<longleftrightarrow>
     ts_CallID s \<noteq> [] \<and> ts_EventID s \<noteq> [] \<and> 1 \<le> ts_SequenceNo s \<and> 0 \<le> ts_OffsetTicks s \<and>
     0 \<le> ts_DurationTicks s \<and> ts_Text s \<noteq> [] \<and> trim_space (ts_Text s) = ts_Text s \<and> ts_IsFinal s"

abbreviation rows :: "ingest \<Rightarrow> TranscriptSegment list" where
  "rows g \<equiv> db_segments (w_db (ig_world g))"

abbreviation finals :: "ingest \<Rightarrow> TranscriptSegment list" where
  "finals g \<equiv> filter ts_IsFinal (ig_segments g)"

lemma insert_ignored_iff:
  "insert_ignored db s \<longleftrightarrow> (\<exists>r \<in> set (db_segments db). ts_EventID r = ts_EventID s \<or>
     (ts_CallID r = ts_CallID s \<and> ts_SequenceNo r = ts_SequenceNo s))"
  by (auto simp: insert_ignored_def list_ex_iff)

lemma keyed_snoc:
  "keyed (rs @ [s]) \<longleftrightarrow> keyed rs \<and> \<not> (\<exists>r \<in> set rs. ts_EventID r = ts_EventID s \<or>
     (ts_CallID r = ts_CallID s \<and> ts_SequenceNo r = ts_SequenceNo s))"
  by (auto simp: keyed_def image_iff)

lemma keyed_same_event:
  "keyed rs \<Longrightarrow> r \<in> set rs \<Longrightarrow> r' \<in> set rs \<Longrightarrow> ts_EventID r = ts_EventID r' \<Longrightarrow> r = r'"
  by (simp add: keyed_def distinct_map inj_on_def)

lemma find_event_keyed:
  assumes "keyed (db_segments db)" "r \<in> set (db_segments db)" "ts_EventID r = e"
  shows "findTranscriptSegmentByEventID db e = Some r"
proof -
  from assms(2,3) have "find (\<lambda>x. ts_EventID x = e) (db_segments db) \<noteq> None"
    by (auto simp: find_None_iff)
  then obtain r' where r': "find (\<lambda>x. ts_EventID x = e) (db_segments db) = Some r'" by blast
  then have "r' \<in> set (db_segments db)" "ts_EventID r' = e" by (auto simp: find_Some_iff)
  with assms have "r' = r" by (metis keyed_same_event)
  with r' show ?thesis by (simp add: findTranscriptSegmentByEventID_def)
qed

section \<open>The repository\<close>

lemma stored_segment_fields [simp]:
  "ts_EventID (stored_segment s) = ts_EventID s" "ts_CallID (stored_segment s) = ts_CallID s"
  "ts_SequenceNo (stored_segment s) = ts_SequenceNo s"
  "ts_IsFinal s \<Longrightarrow> stored_segment s = s"
  by (simp_all add: stored_segment_def)

lemma save_created:
  "repo_SaveTranscriptSegment db s =
     (Inr \<lparr>tr_Status = TranscriptSegmentCreated, tr_EventID = ts_EventID s\<rparr>,
      db\<lparr>db_segments := db_segments db @ [stored_segment s]\<rparr>)"
  if "\<not> insert_ignored db s"
  using that by (simp add: repo_SaveTranscriptSegment_def)

lemma save_refused:
  "insert_ignored db s \<Longrightarrow> snd (repo_SaveTranscriptSegment db s) = db \<and>
     (\<forall>x. fst (repo_SaveTranscriptSegment db s) = Inr x \<longrightarrow> tr_Status x = TranscriptSegmentAlreadyExists)"
  by (auto simp: repo_SaveTranscriptSegment_def split: option.splits)

text \<open>The answer of the repository, in full: the unexplained failure at its end cannot happen.\<close>

lemma save_outcome:
  assumes "keyed (db_segments db)"
  shows "fst (repo_SaveTranscriptSegment db s) =
    (if \<not> insert_ignored db s then Inr \<lparr>tr_Status = TranscriptSegmentCreated, tr_EventID = ts_EventID s\<rparr>
     else if \<exists>r \<in> set (db_segments db). sameContent r s
     then Inr \<lparr>tr_Status = TranscriptSegmentAlreadyExists, tr_EventID = ts_EventID s\<rparr>
     else Inl transcriptSegmentConflictError)"
proof (cases "insert_ignored db s")
  case True
  show ?thesis
  proof (cases "findTranscriptSegmentByEventID db (ts_EventID s)")
    case None
    then have "\<not> (\<exists>r \<in> set (db_segments db). ts_EventID r = ts_EventID s)"
      by (simp add: findTranscriptSegmentByEventID_def find_None_iff)
    with True have "findTranscriptSegmentByCallSequence db (ts_CallID s) (ts_SequenceNo s) \<noteq> None"
      and "\<not> (\<exists>r \<in> set (db_segments db). sameContent r s)"
      by (auto simp: insert_ignored_iff findTranscriptSegmentByCallSequence_def find_None_iff
          sameContent_def)
    with None True show ?thesis by (auto simp: repo_SaveTranscriptSegment_def)
  next
    case (Some r)
    then have r: "r \<in> set (db_segments db)" "ts_EventID r = ts_EventID s"
      by (auto simp: findTranscriptSegmentByEventID_def find_Some_iff)
    have "(\<exists>r \<in> set (db_segments db). sameContent r s) \<longleftrightarrow> sameContent r s"
    proof
      assume "\<exists>r \<in> set (db_segments db). sameContent r s"
      then obtain r' where "r' \<in> set (db_segments db)" "sameContent r' s" by blast
      moreover from this have "ts_EventID r' = ts_EventID s" by (simp add: sameContent_def)
      ultimately show "sameContent r s" using keyed_same_event [OF assms] r by metis
    qed (use r in blast)
    with Some True show ?thesis by (simp add: repo_SaveTranscriptSegment_def)
  qed
qed (simp add: save_created)

section \<open>The service and the endpoint\<close>

text \<open>Both parts of an append: the rows and the published final segments.\<close>

definition appends :: "bool \<Rightarrow> ingest \<Rightarrow> TranscriptSegment list \<Rightarrow> ingest \<Rightarrow> bool" where
  "appends publisher g new g' \<longleftrightarrow>
     rows g' = rows g @ new \<and> finals g' = finals g @ (if publisher then new else []) \<and>
     list_all well_formed new \<and> (keyed (rows g) \<longrightarrow> keyed (rows g'))"

lemma appends_refl [simp]: "rows g' = rows g \<Longrightarrow> finals g' = finals g \<Longrightarrow> appends p g [] g'"
  by (simp add: appends_def)

lemma appends_trans: "appends p a xs b \<Longrightarrow> appends p b ys c \<Longrightarrow> appends p a (xs @ ys) c"
  by (auto simp: appends_def)

lemma normalize_frame [simp]:
  "w_db (ig_world (snd (normalizeTranscriptSegment s g))) = w_db (ig_world g)"
  "ig_segments (snd (normalizeTranscriptSegment s g)) = ig_segments g"
  "w_faults (ig_world (snd (normalizeTranscriptSegment s g))) = w_faults (ig_world g)"
  "\<exists>t. fst (normalizeTranscriptSegment s g) = s\<lparr>ts_ReceivedAtUTC := t\<rparr>"
proof -
  show "\<exists>t. fst (normalizeTranscriptSegment s g) = s\<lparr>ts_ReceivedAtUTC := t\<rparr>"
    by (cases "is_zero (ts_ReceivedAtUTC s)")
      (auto simp: normalizeTranscriptSegment_def op_simps intro: exI [of _ "ts_ReceivedAtUTC s"])
qed (simp_all add: normalizeTranscriptSegment_def op_simps)

lemma save_content:
  "snd (repo_SaveTranscriptSegment db s) = db \<or>
   snd (repo_SaveTranscriptSegment db s) = db\<lparr>db_segments := db_segments db @ [stored_segment s]\<rparr>"
  using save_created save_refused by (cases "insert_ignored db s") fastforce+

lemma repo_call_pair: "repo_call f w = (Inr y, w') \<Longrightarrow> f (w_db w) = (Inr y, w_db w')"
  by (auto simp: repo_call_def Let_def split: prod.splits if_splits)

lemma repo_call_keeps:
  "repo_call f w = (r, w') \<Longrightarrow> snd (f (w_db w)) = w_db w \<Longrightarrow> w_db w' = w_db w"
  using repo_call_db [of f w] by auto

lemma repo_call_Inl: "repo_call f w = (Inl e, w') \<Longrightarrow> w_db w' = w_db w \<or> f (w_db w) = (Inl e, w_db w')"
  by (auto simp: repo_call_def Let_def split: prod.splits if_splits)

lemma Store_appends:
  assumes "well_formed (s\<lparr>ts_IsFinal := True\<rparr>)"
  shows "\<exists>new. length new \<le> 1 \<and> appends p g new (snd (StoreTranscriptSegment p s g))"
proof -
  obtain t where t: "fst (normalizeTranscriptSegment s g) = s\<lparr>ts_ReceivedAtUTC := t\<rparr>"
    using normalize_frame(4) by blast
  define x where "x = s\<lparr>ts_ReceivedAtUTC := t, ts_IsFinal := True\<rparr>"
  define g1 where "g1 = snd (normalizeTranscriptSegment s g)"
  obtain r w2 where call: "repo_call (\<lambda>db. repo_SaveTranscriptSegment db x) (ig_world g1) = (r, w2)"
    by fastforce
  have x: "well_formed x" "stored_segment x = x" "ts_IsFinal x"
    using assms by (simp_all add: x_def well_formed_def stored_segment_def)
  have store: "StoreTranscriptSegment p s g = (case r of Inl e \<Rightarrow> (Inl e, g1\<lparr>ig_world := w2\<rparr>)
      | Inr result \<Rightarrow> (Inr result, if tr_Status result = TranscriptSegmentCreated
          then publish_segment p x (g1\<lparr>ig_world := snd (now_utc w2)\<rparr>)
          else g1\<lparr>ig_world := snd (now_utc w2)\<rparr>))"
    using t call by (simp add: StoreTranscriptSegment_def op_simps x_def g1_def split: sum.split)
  have g1: "w_db (ig_world g1) = w_db (ig_world g)" "ig_segments g1 = ig_segments g"
    by (simp_all add: g1_def)
  show ?thesis
  proof (cases "\<exists>y. r = Inr y \<and> tr_Status y = TranscriptSegmentCreated")
    case True
    then obtain y where y: "r = Inr y" "tr_Status y = TranscriptSegmentCreated" by blast
    with call have saved: "repo_SaveTranscriptSegment (w_db (ig_world g)) x = (Inr y, w_db w2)"
      using g1(1) by (auto dest!: repo_call_pair)
    with y have free: "\<not> insert_ignored (w_db (ig_world g)) x"
      using save_refused [of "w_db (ig_world g)" x] by auto
    have "w_db w2 = (w_db (ig_world g))\<lparr>db_segments := rows g @ [x]\<rparr>"
      using saved x(2) by (simp add: save_created [OF free])
    then have "db_segments (w_db w2) = rows g @ [x]" by simp
    then have "appends p g [x] (snd (StoreTranscriptSegment p s g))"
      using y x free g1(2)
      by (auto simp: appends_def store publish_segment_def keyed_snoc insert_ignored_iff)
    then show ?thesis by (intro exI [of _ "[x]"]) simp
  next
    case False
    have "w_db w2 = w_db (ig_world g)"
    proof (cases "insert_ignored (w_db (ig_world g)) x")
      case True
      then show ?thesis using repo_call_keeps [OF call] save_refused [OF True] g1(1) by simp
    next
      case new: False
      show ?thesis
      proof (cases r)
        case (Inl e)
        with call new g1(1) show ?thesis by (auto simp: save_created dest!: repo_call_Inl)
      next
        case (Inr y)
        with call new g1(1) False show ?thesis by (auto simp: save_created dest!: repo_call_pair)
      qed
    qed
    with False have "appends p g [] (snd (StoreTranscriptSegment p s g))"
      using g1(2) by (intro appends_refl) (auto simp: store split: sum.splits)
    then show ?thesis by (intro exI [of _ "[]"]) simp
  qed
qed

lemma partial_frame [simp]:
  "ig_world (snd (PublishTranscriptPartial p s g)) = ig_world (snd (normalizeTranscriptSegment s g))"
  "rows (snd (PublishTranscriptPartial p s g)) = rows g"
  "finals (snd (PublishTranscriptPartial p s g)) = finals g"
  by (simp_all add: PublishTranscriptPartial_def publish_segment_def op_simps)

lemma toDomain_frame [simp]:
  "w_db (snd (toDomain lib q f w)) = w_db w" "w_faults (snd (toDomain lib q f w)) = w_faults w"
  by (simp_all add: toDomain_def op_simps split: sum.split)

text \<open>What \<open>toDomain\<close> lets through.\<close>

lemma toDomain_Inr:
  assumes "toDomain lib q f w = (Inr s, w')"
  shows "\<exists>t. s = segment_of q f t" "request_callID q \<noteq> []" "f \<Longrightarrow> 1 \<le> request_sequenceNo q"
    "0 \<le> request_offsetTicks q" "0 \<le> request_durationTicks q" "request_text q \<noteq> []"
  using assms
  by (auto simp: toDomain_def Let_def split: if_splits sum.splits option.splits prod.splits)

lemma generated_id_not_Nil [simp]: "generatedTranscriptEventID s c n \<noteq> []"
  by (simp add: generatedTranscriptEventID_def)

lemma toDomain_well_formed:
  assumes "toDomain lib q True w = (Inr s, w')"
  shows "well_formed (s\<lparr>ts_IsFinal := True\<rparr>)"
  using toDomain_Inr [OF assms]
  by (auto simp: well_formed_def segment_of_def request_text_def split: if_splits)

lemma api_appends:
  "\<exists>new. length new \<le> 1 \<and> appends p g new (snd (api_Store lib k p key ct body g))"
proof (cases "\<exists>q. body = Request q None \<and> authorizedSecret lib key k \<and> isJSONContentType lib ct")
  case True
  then obtain q where q: "body = Request q None" "authorizedSecret lib key k" "isJSONContentType lib ct"
    by blast
  obtain r w1 where d: "toDomain lib q (request_isFinal q) (ig_world g) = (r, w1)" by fastforce
  then have w1: "w_db w1 = w_db (ig_world g)" using toDomain_frame(1) by (metis snd_conv)
  have "appends p g [] (snd (api_Store lib k p key ct body g))"
    if "\<not> request_isFinal q \<or> (\<exists>e. r = Inl e)"
    using that d q w1
    by (intro appends_refl) (auto simp: api_Store_def Let_def case_prod_beta split: sum.splits segment_error.splits)
  moreover have "\<exists>new. length new \<le> 1 \<and> appends p g new (snd (api_Store lib k p key ct body g))"
    if "request_isFinal q" "r = Inr s" for s
  proof -
    from d that have "well_formed (s\<lparr>ts_IsFinal := True\<rparr>)" by (auto intro: toDomain_well_formed)
    from Store_appends [OF this, of p "g\<lparr>ig_world := w1\<rparr>"] obtain new where
      "length new \<le> 1" "appends p (g\<lparr>ig_world := w1\<rparr>) new (snd (StoreTranscriptSegment p s (g\<lparr>ig_world := w1\<rparr>)))"
      by blast
    moreover have "snd (api_Store lib k p key ct body g) = snd (StoreTranscriptSegment p s (g\<lparr>ig_world := w1\<rparr>))"
      using d q that by (simp add: api_Store_def Let_def case_prod_beta)
    ultimately show ?thesis using w1 by (auto simp: appends_def)
  qed
  ultimately show ?thesis
    by (cases r; cases "request_isFinal q") (fastforce intro: exI [of _ "[]"])+
next
  case False
  then have "snd (api_Store lib k p key ct body g) = g"
    by (auto simp: api_Store_def split: request_body.split option.split)
  then show ?thesis by (intro exI [of _ "[]"]) simp
qed

text \<open>A run of the endpoint: each request is its key header, content type and body.\<close>

definition api_run ::
    "api_lib \<Rightarrow> gostring \<Rightarrow> bool \<Rightarrow> (gostring \<times> gostring \<times> request_body) list \<Rightarrow> ingest \<Rightarrow> ingest" where
  "api_run lib apiKey publisher reqs g =
     foldl (\<lambda>g (key, ct, body). snd (api_Store lib apiKey publisher key ct body g)) g reqs"

lemma api_run_Nil [simp]: "api_run lib k p [] g = g"
  by (simp add: api_run_def)

lemma api_run_Cons [simp]:
  "api_run lib k p ((key, ct, body) # rs) g = api_run lib k p rs (snd (api_Store lib k p key ct body g))"
  by (simp add: api_run_def)

lemma run_appends: "\<exists>new. length new \<le> length reqs \<and> appends p g new (api_run lib k p reqs g)"
proof (induction reqs arbitrary: g)
  case Nil
  then show ?case by (intro exI [of _ "[]"]) simp
next
  case (Cons q reqs)
  obtain key ct body where q: "q = (key, ct, body)" by (cases q) auto
  let ?h = "snd (api_Store lib k p key ct body g)"
  from api_appends obtain a where "length a \<le> 1" "appends p g a ?h" by blast
  moreover from Cons obtain b where "length b \<le> length reqs" "appends p ?h b (api_run lib k p reqs ?h)"
    by blast
  ultimately show ?case
    using q by (intro exI [of _ "a @ b"]) (auto intro: appends_trans)
qed

section \<open>The answers, without database faults\<close>

text \<open>The segment the service stores: received now unless it says when, and final.\<close>

definition received :: "TranscriptSegment \<Rightarrow> ingest \<Rightarrow> TranscriptSegment" where
  "received s g = (fst (normalizeTranscriptSegment s g))\<lparr>ts_IsFinal := True\<rparr>"

lemma received_fields [simp]:
  "ts_EventID (received s g) = ts_EventID s" "ts_CallID (received s g) = ts_CallID s"
  "ts_SequenceNo (received s g) = ts_SequenceNo s" "ts_IsFinal (received s g)"
  "stored_segment (received s g) = received s g"
  "sameContent r (received s g) = sameContent r s" "sameContent (received s g) s"
  "insert_ignored db (received s g) = insert_ignored db s"
proof -
  obtain t where t: "fst (normalizeTranscriptSegment s g) = s\<lparr>ts_ReceivedAtUTC := t\<rparr>"
    using normalize_frame(4) by blast
  show "ts_EventID (received s g) = ts_EventID s" "ts_CallID (received s g) = ts_CallID s"
    "ts_SequenceNo (received s g) = ts_SequenceNo s" "ts_IsFinal (received s g)"
    "stored_segment (received s g) = received s g"
    "sameContent r (received s g) = sameContent r s" "sameContent (received s g) s"
    "insert_ignored db (received s g) = insert_ignored db s"
    by (simp_all add: received_def t stored_segment_def sameContent_def insert_ignored_def)
qed

lemma Store_outcome:
  fixes s g p
  defines "result \<equiv> repo_SaveTranscriptSegment (w_db (ig_world g)) (received s g)"
    and "g' \<equiv> snd (StoreTranscriptSegment p s g)"
  assumes "no_faults (ig_world g)"
  shows "fst (StoreTranscriptSegment p s g) = fst result" "w_db (ig_world g') = snd result"
    "ig_segments g' = ig_segments g @ (if p \<and> \<not> insert_ignored (w_db (ig_world g)) s then [received s g] else [])"
    "no_faults (ig_world g')"
proof -
  let ?w1 = "ig_world (snd (normalizeTranscriptSegment s g))"
  let ?save = "\<lambda>db. repo_SaveTranscriptSegment db (received s g)"
  have call: "repo_call ?save ?w1 = (fst result, ?w1\<lparr>w_calls := Suc (w_calls ?w1), w_db := snd result\<rparr>)"
    using assms(3) by (simp add: repo_call_def Let_def no_faults_def result_def case_prod_beta)
  have created: "(\<exists>x. fst result = Inr x \<and> tr_Status x = TranscriptSegmentCreated) \<longleftrightarrow>
      \<not> insert_ignored (w_db (ig_world g)) s"
    using save_created [of "w_db (ig_world g)" "received s g"]
      save_refused [of "w_db (ig_world g)" "received s g"]
    by (auto simp: result_def)
  have eq: "StoreTranscriptSegment p s g = (case repo_call ?save ?w1 of
        (Inl e, w2) \<Rightarrow> (Inl e, (snd (normalizeTranscriptSegment s g))\<lparr>ig_world := w2\<rparr>)
      | (Inr x, w2) \<Rightarrow> (Inr x,
          if tr_Status x = TranscriptSegmentCreated
          then publish_segment p (received s g)
                 ((snd (normalizeTranscriptSegment s g))\<lparr>ig_world := snd (now_utc w2)\<rparr>)
          else (snd (normalizeTranscriptSegment s g))\<lparr>ig_world := snd (now_utc w2)\<rparr>))"
    by (simp add: StoreTranscriptSegment_def op_simps received_def split: sum.split)
  show "fst (StoreTranscriptSegment p s g) = fst result" "w_db (ig_world g') = snd result"
    "no_faults (ig_world g')"
    using assms(3)
    by (auto simp: g'_def eq call publish_segment_def no_faults_def split: sum.split)
  show "ig_segments g' = ig_segments g @ (if p \<and> \<not> insert_ignored (w_db (ig_world g)) s then [received s g] else [])"
    using created by (auto simp: g'_def eq call publish_segment_def split: sum.split)
qed

lemma no_faults_toDomain [simp]: "no_faults (snd (toDomain lib q f w)) = no_faults w"
  by (simp add: no_faults_def)

lemma no_faults_Partial [simp]:
  "no_faults (ig_world (snd (PublishTranscriptPartial p s g))) = no_faults (ig_world g)"
  by (simp add: no_faults_def)

text \<open>A final request that passes the checks is answered by \<open>StoreTranscriptSegment\<close>.\<close>

lemma api_Store_final:
  assumes "authorizedSecret lib key k" "isJSONContentType lib ct" "request_isFinal q"
    and "toDomain lib q True (ig_world g) = (Inr s, w1)"
  shows "api_Store lib k p key ct (Request q None) g =
    (let (r, g') = StoreTranscriptSegment p s (g\<lparr>ig_world := w1\<rparr>) in (store_reply s r, g'))"
  using assms by (simp add: api_Store_def Let_def case_prod_beta)

text \<open>Only a stored final segment is answered with 201.\<close>

lemma api_created_body:
  assumes "fst (api_Store lib k p key ct body g) = ApiReply 201 rp"
  shows "authorizedSecret lib key k" "isJSONContentType lib ct" "\<exists>q. body = Request q None"
proof -
  show checks: "authorizedSecret lib key k" "isJSONContentType lib ct"
    using assms by (auto simp: api_Store_def split: if_splits)
  show "\<exists>q. body = Request q None"
  proof (cases body)
    case (Undecodable e)
    with assms checks show ?thesis by (cases e) (simp_all add: api_Store_def)
  next
    case (Request q rest)
    show ?thesis
    proof (cases rest)
      case (Some e)
      with assms checks Request show ?thesis by (cases e) (simp_all add: api_Store_def)
    qed (simp add: Request)
  qed
qed

lemma api_created:
  assumes "fst (api_Store lib k p key ct body g) = ApiReply 201 rp"
  obtains q s w1 x where "body = Request q None" "authorizedSecret lib key k"
    "isJSONContentType lib ct" "request_isFinal q"
    "toDomain lib q True (ig_world g) = (Inr s, w1)"
    "fst (StoreTranscriptSegment p s (g\<lparr>ig_world := w1\<rparr>)) = Inr x"
    "tr_Status x = TranscriptSegmentCreated"
    "rp = \<lparr>rp_Status = ''created'', rp_Duplicate = False, rp_EventID = ts_EventID s, rp_IsFinal = True\<rparr>"
proof -
  note checks = api_created_body(1,2) [OF assms]
  obtain q where q: "body = Request q None" using api_created_body(3) [OF assms] ..
  obtain r w1 where d: "toDomain lib q (request_isFinal q) (ig_world g) = (r, w1)" by fastforce
  obtain s where s: "r = Inr s"
  proof (cases r)
    case (Inl e)
    with assms checks q d show ?thesis by (cases e) (simp_all add: api_Store_def)
  qed (use that in blast)
  have final: "request_isFinal q"
    using assms checks q d s by (rule_tac ccontr) (simp add: api_Store_def case_prod_beta Let_def)
  have "store_reply s (fst (StoreTranscriptSegment p s (g\<lparr>ig_world := w1\<rparr>))) = ApiReply 201 rp"
    using assms api_Store_final [OF checks final, of g s w1 p] q d s final
    by (simp add: case_prod_beta Let_def)
  then obtain x where "fst (StoreTranscriptSegment p s (g\<lparr>ig_world := w1\<rparr>)) = Inr x"
    "tr_Status x = TranscriptSegmentCreated"
    "rp = \<lparr>rp_Status = ''created'', rp_Duplicate = False, rp_EventID = ts_EventID s, rp_IsFinal = True\<rparr>"
    by (auto simp: store_reply_def split: sum.splits goerror.splits TranscriptSegmentStoreStatus.splits)
  with that q checks final d s show thesis by auto
qed

section \<open>Event ids\<close>

lemma show_int_no_colon: "0 \<le> n \<Longrightarrow> CHR '':'' \<notin> set (show_int n)"
proof
  assume "0 \<le> n" "CHR '':'' \<in> set (show_int n)"
  then obtain k where k: "CHR '':'' = digit k" using show_nat_digits by (auto simp: show_int_def)
  have "(of_char (CHR '':'') :: nat) = 58" by simp
  with k have "48 + k mod 10 = 58" by (metis of_char_digit)
  then show False by presburger
qed

lemma split_at_colon:
  assumes "CHR '':'' \<notin> set a" "CHR '':'' \<notin> set b" "a @ CHR '':'' # x = b @ CHR '':'' # y"
  shows "a = b \<and> x = y"
proof -
  let ?t = "takeWhile (\<lambda>c. c \<noteq> CHR '':'')"
  have "?t (a @ CHR '':'' # x) = a" "?t (b @ CHR '':'' # y) = b"
    using assms(1,2) by (subst takeWhile_append2; auto)+
  with assms(3) show ?thesis by simp
qed

lemma event_id_cases:
  assumes "CHR '':'' \<notin> set s" "CHR '':'' \<notin> set s'" "CHR '':'' \<notin> set c" "CHR '':'' \<notin> set c'"
    and "0 \<le> n" "0 \<le> n'" and eq: "generatedTranscriptEventID s c n = generatedTranscriptEventID s' c' n'"
  shows "s = s' \<and> c = c' \<and> n = n'"
proof -
  have no_mix: "a @ '':'' @ b @ '':'' @ show_int i \<noteq> c @ '':'' @ show_int j"
    if "CHR '':'' \<notin> set a" "CHR '':'' \<notin> set c" "0 \<le> j" for a b c i j
  proof
    assume "a @ '':'' @ b @ '':'' @ show_int i = c @ '':'' @ show_int j"
    then have "a = c \<and> b @ '':'' @ show_int i = show_int j"
      by (intro split_at_colon that(1,2)) simp
    then have "CHR '':'' \<in> set (show_int j)" by (metis append_Cons in_set_conv_decomp append_Nil)
    with show_int_no_colon [OF that(3)] show False by simp
  qed
  consider "s = []" "s' = []" | "s \<noteq> []" "s' \<noteq> []"
    using eq no_mix [OF assms(1,4,6), of c n] no_mix [OF assms(2,3,5), of c' n']
    by (fastforce simp: generatedTranscriptEventID_def split: if_splits)
  then show ?thesis
  proof cases
    case 1
    with eq have "c @ CHR '':'' # show_int n = c' @ CHR '':'' # show_int n'"
      by (simp add: generatedTranscriptEventID_def)
    from split_at_colon [OF assms(3,4) this] 1 show ?thesis
      using assms(5,6) by (simp add: show_int_inj)
  next
    case 2
    with eq have "s @ CHR '':'' # (c @ CHR '':'' # show_int n) = s' @ CHR '':'' # (c' @ CHR '':'' # show_int n')"
      by (simp add: generatedTranscriptEventID_def)
    then have "s = s'" "c @ CHR '':'' # show_int n = c' @ CHR '':'' # show_int n'"
      using split_at_colon [OF assms(1,2)] by blast+
    with split_at_colon [OF assms(3,4) this(2)] show ?thesis using assms(5,6) by (simp add: show_int_inj)
  qed
qed

section \<open>Retries\<close>

lemma faults_Store [simp]:
  "w_faults (ig_world (snd (StoreTranscriptSegment p s g))) = w_faults (ig_world g)"
  by (simp add: StoreTranscriptSegment_def op_simps publish_segment_def world_simps split: sum.split)

lemma faults_Partial [simp]:
  "w_faults (ig_world (snd (PublishTranscriptPartial p s g))) = w_faults (ig_world g)"
  by simp

lemma faults_api [simp]:
  "w_faults (ig_world (snd (api_Store lib k p key ct body g))) = w_faults (ig_world g)"
  by (simp add: api_Store_def Let_def case_prod_beta split: request_body.split option.split
      sum.split segment_error.split)

lemma no_faults_run [simp]: "no_faults (ig_world (api_run lib k p reqs g)) = no_faults (ig_world g)"
proof (induction reqs arbitrary: g)
  case (Cons q reqs)
  then show ?case by (cases q) (simp add: no_faults_def)
qed simp

lemma toDomain_again:
  assumes "toDomain lib q f w = (Inr s, w1)"
  shows "\<exists>t. toDomain lib q f w' = (Inr (segment_of q f t), snd (toDomain lib q f w'))"
  using assms
  by (auto simp: toDomain_def Let_def split: if_splits sum.splits option.splits prod.splits)

lemma sameContent_segment_of [simp]: "sameContent (segment_of q f t) (segment_of q f t')"
  by (simp add: sameContent_def segment_of_def)

lemma sameContent_trans: "sameContent a b \<Longrightarrow> sameContent b c \<Longrightarrow> sameContent a c"
  by (simp add: sameContent_def)

lemma api_created_row:
  assumes "no_faults (ig_world g)" and "fst (api_Store lib k p key ct body g) = ApiReply 201 rp"
  obtains q t where "body = Request q None" "authorizedSecret lib key k" "isJSONContentType lib ct"
    "request_isFinal q" "\<And>w. \<exists>t'. toDomain lib q True w = (Inr (segment_of q True t'), snd (toDomain lib q True w))"
    "\<exists>r \<in> set (rows (snd (api_Store lib k p key ct body g))). sameContent r (segment_of q True t)"
    "rp = \<lparr>rp_Status = ''created'', rp_Duplicate = False,
            rp_EventID = ts_EventID (segment_of q True t), rp_IsFinal = True\<rparr>"
proof -
  obtain q s w1 x where q: "body = Request q None" "authorizedSecret lib key k"
    "isJSONContentType lib ct" "request_isFinal q"
    and d: "toDomain lib q True (ig_world g) = (Inr s, w1)"
    and created: "fst (StoreTranscriptSegment p s (g\<lparr>ig_world := w1\<rparr>)) = Inr x"
    "tr_Status x = TranscriptSegmentCreated"
    and rp: "rp = \<lparr>rp_Status = ''created'', rp_Duplicate = False, rp_EventID = ts_EventID s, rp_IsFinal = True\<rparr>"
    using api_created [OF assms(2)] by metis
  obtain t where s: "s = segment_of q True t" using toDomain_Inr(1) [OF d] by blast
  let ?g = "g\<lparr>ig_world := w1\<rparr>"
  have "no_faults w1" using assms(1) d no_faults_toDomain by (metis snd_conv)
  then have out: "fst (StoreTranscriptSegment p s ?g) = fst (repo_SaveTranscriptSegment (w_db w1) (received s ?g))"
    "w_db (ig_world (snd (StoreTranscriptSegment p s ?g))) = snd (repo_SaveTranscriptSegment (w_db w1) (received s ?g))"
    using Store_outcome [of ?g p s] by simp_all
  have "\<not> insert_ignored (w_db w1) (received s ?g)"
    using created out(1) save_refused [of "w_db w1" "received s ?g"] by auto
  then have "received s ?g \<in> set (rows (snd (StoreTranscriptSegment p s ?g)))"
    using out(2) by (simp add: save_created)
  moreover have "snd (api_Store lib k p key ct body g) = snd (StoreTranscriptSegment p s ?g)"
    using api_Store_final [OF q(2-4) d] q(1) by (simp add: case_prod_beta Let_def)
  ultimately have "\<exists>r \<in> set (rows (snd (api_Store lib k p key ct body g))). sameContent r s"
    using received_fields(7) by metis
  with that [OF q toDomain_again [OF d]] rp s show thesis by blast
qed

section \<open>Properties\<close>

text \<open>
  Requests at the same time.  \<open>StoreTranscriptSegment\<close> inserts and then publishes, with no lock
  around the two: a request is served up to its insert, its publication goes out in a step of its
  own.  (The insert is one statement; the lookups after a refused one change nothing.)
\<close>

definition serve_post ::
    "api_lib \<Rightarrow> gostring \<Rightarrow> bool \<Rightarrow> gostring \<times> gostring \<times> request_body \<Rightarrow> ingest \<Rightarrow> ingest" where
  "serve_post lib apiKey publisher =
     (\<lambda>(key, ct, body) g. snd (api_Store lib apiKey publisher key ct body g))"

definition ingest_run ::
    "api_lib \<Rightarrow> gostring \<Rightarrow> bool \<Rightarrow> (gostring \<times> gostring \<times> request_body) service_step list \<Rightarrow> ingest \<Rightarrow>
     (ingest, TranscriptSegment) service" where
  "ingest_run lib apiKey publisher steps g =
     service_run (serve_post lib apiKey publisher) ig_segments steps (service_start g)"

lemma publish_segment_grows: "\<exists>new. ig_segments (publish_segment p s g) = ig_segments g @ new"
  by (simp add: publish_segment_def)

lemma Store_grows: "\<exists>new. ig_segments (snd (StoreTranscriptSegment p s g)) = ig_segments g @ new"
  by (auto simp: StoreTranscriptSegment_def publish_segment_def op_simps case_prod_beta Let_def split: sum.split)

lemma api_grows: "\<exists>new. ig_segments (snd (api_Store lib k p key ct body g)) = ig_segments g @ new"
proof -
  have "\<exists>new. ig_segments (snd (PublishTranscriptPartial p s (g\<lparr>ig_world := w\<rparr>))) = ig_segments g @ new" for s w
    by (simp add: PublishTranscriptPartial_def publish_segment_def op_simps)
  moreover have "\<exists>new. ig_segments (snd (StoreTranscriptSegment p s (g\<lparr>ig_world := w\<rparr>))) = ig_segments g @ new" for s w
    using Store_grows [of p s "g\<lparr>ig_world := w\<rparr>"] by simp
  ultimately show ?thesis
    by (auto simp: api_Store_def Let_def case_prod_beta split: request_body.split option.split
        segment_error.splits sum.splits)
qed

interpretation ingest: publishing "serve_post lib apiKey publisher" ig_segments
  by unfold_locales (auto simp: serve_post_def api_grows split: prod.split)

lemma ingest_state: "sv_state (ingest_run lib k p steps g) = api_run lib k p (requests steps) g"
  by (simp add: ingest_run_def service_state api_run_def serve_post_def split_def)

text \<open>C15: whatever the endpoint is asked, the transcript table is only appended to, by at most one
  row per request; every new row is well formed (a call, a sequence number from 1, ticks not
  negative, a text that is not blank and has no blanks around it), and no event id and no sequence
  number of a call is ever used twice.  The publication of a final segment is a step of its own,
  which other requests may come before, in any order: at every moment the final segments published
  and those still about to be published are together exactly the new rows, each once, so no
  segment is published that is not stored and every stored one is published once its request
  goes on.  The order of the publications is that of the rows as long as none goes past another,
  as when the requests are served one at a time.\<close>

theorem transcript_log_is_append_only:
  assumes "keyed (rows g)"
  shows "(let t = ingest_run lib apiKey publisher steps g in \<exists>new. rows (sv_state t) = rows g @ new \<and>
    length new \<le> length (requests steps) \<and> list_all well_formed new \<and> keyed (rows (sv_state t)) \<and>
    mset (filter ts_IsFinal (sv_published t)) + mset (filter ts_IsFinal (sv_waiting t)) =
      mset (if publisher then new else []) \<and>
    (list_all in_turn steps \<longrightarrow>
      filter ts_IsFinal (sv_published t @ sv_waiting t) = (if publisher then new else [])))"
proof -
  let ?t = "ingest_run lib apiKey publisher steps g"
  obtain new where new: "length new \<le> length (requests steps)" "appends publisher g new (sv_state ?t)"
    using run_appends [of "requests steps" publisher g lib apiKey] by (auto simp: ingest_state)
  obtain more where more: "ig_segments (sv_state ?t) = ig_segments g @ more"
    using ingest.log_grows_run [of lib apiKey publisher g "requests steps"]
    by (auto simp: ingest_run_def service_state)
  then have finals: "filter ts_IsFinal more = (if publisher then new else [])"
    using new(2) by (simp add: appends_def)
  have "mset (sv_published ?t) + mset (sv_waiting ?t) = mset more"
    using ingest.published_of_start [OF ingest_run_def more] .
  then have "filter_mset ts_IsFinal (mset (sv_published ?t) + mset (sv_waiting ?t)) =
      filter_mset ts_IsFinal (mset more)" by simp
  then have "mset (filter ts_IsFinal (sv_published ?t)) + mset (filter ts_IsFinal (sv_waiting ?t)) =
      mset (if publisher then new else [])" by (simp add: finals flip: mset_filter)
  moreover have "filter ts_IsFinal (sv_published ?t @ sv_waiting ?t) = (if publisher then new else [])"
    if "list_all in_turn steps"
    using ingest.published_in_turn [OF that, of lib apiKey publisher "service_start g"] more finals
    by (simp add: ingest_run_def flip: filter_append)
  ultimately show ?thesis
    using new assms unfolding appends_def Let_def by blast
qed

definition sample_api_lib :: api_lib where
  "sample_api_lib = \<lparr>lb_media_type = (\<lambda>s. Some (takeWhile (\<lambda>c. c \<noteq> CHR '';'') s)),
     lb_parse_time = (\<lambda>s. None), lb_sha256 = (\<lambda>s. s)\<rparr>"

definition sample_request :: "gostring \<Rightarrow> int \<Rightarrow> gostring \<Rightarrow> transcriptSegmentRequest" where
  "sample_request call n txt =
     \<lparr>rq_SessionID = ''s1'', rq_SessionIDSnake = [], rq_EventID = [], rq_EventIDSnake = [],
      rq_CallID = call, rq_CallIDSnake = [], rq_SequenceNo = n, rq_SequenceNoSnake = 0,
      rq_IsFinal = None, rq_IsFinalSnake = None, rq_SpeakerID = [], rq_SpeakerIDSnake = [],
      rq_SpeakerLabel = [], rq_SpeakerLabelSnake = [], rq_SpeakerName = [], rq_SpeakerNameSnake = [],
      rq_SpeakerDisplayName = [], rq_SpeakerDisplayNameSnake = [], rq_ParticipantName = [],
      rq_ParticipantNameSnake = [], rq_UserName = [], rq_UserNameSnake = [],
      rq_RecognizedAtUTC = [], rq_RecognizedAtUTCAlt = [], rq_RecognizedAtUTCSnake = [],
      rq_OffsetTicks = 0, rq_OffsetTicksSnake = 0, rq_DurationTicks = 5, rq_DurationTicksSnake = 0,
      rq_Text = txt\<rparr>"

definition sample_post :: "gostring \<Rightarrow> int \<Rightarrow> gostring \<Rightarrow> gostring \<times> gostring \<times> request_body" where
  "sample_post call n txt =
     (''key'', ''application/json; charset=utf-8'', Request (sample_request call n txt) None)"

definition sample_ingest :: ingest where
  "sample_ingest = \<lparr>ig_world = sample_world [], ig_segments = []\<rparr>"

lemma sample_keyed: "keyed (rows sample_ingest)"
  by (simp add: sample_ingest_def sample_world_def sample_store_def keyed_def)

lemma sample_no_faults: "no_faults (ig_world sample_ingest)"
  by (simp add: sample_ingest_def sample_world_def no_faults_def)

text \<open>Two requests, the second published before the first.\<close>

definition sample_steps :: "(gostring \<times> gostring \<times> request_body) service_step list" where
  "sample_steps = [Serve (sample_post ''c'' 1 '' hi ''), Serve (sample_post ''c'' 1 ''hi''),
     Serve (sample_post ''c'' 2 ''more''), Publish 1, Publish 0]"

theorem transcript_log_is_append_only_witness:
  "(let t = ingest_run sample_api_lib ''key'' True sample_steps sample_ingest in
    keyed (rows (sv_state t)) \<and> mset (filter ts_IsFinal (sv_published t)) +
      mset (filter ts_IsFinal (sv_waiting t)) = mset (rows (sv_state t)))"
proof -
  have "rows sample_ingest = []"
    by (simp add: sample_ingest_def sample_world_def sample_store_def)
  then show ?thesis
    using transcript_log_is_append_only [OF sample_keyed, of sample_api_lib "''key''" True sample_steps]
    by (auto simp: Let_def)
qed

lemma publications_out_of_order:
  "(let t = ingest_run sample_api_lib ''key'' True sample_steps sample_ingest in
    map ts_SequenceNo (rows (sv_state t)) = [1, 2] \<and> map ts_SequenceNo (sv_published t) = [2, 1])"
  by code_simp

text \<open>On a table with unique keys and without database faults, storing a segment has exactly
  three outcomes.  If neither its event id nor its call and sequence number is in use, it is
  added as a final segment, received now unless it says when, and published.  If a row holds the
  same content, whatever its times, the segment already exists.  Otherwise it is a conflict.  In
  the last two cases neither the table nor the publisher sees anything, and no other error is
  possible.\<close>

theorem storing_a_segment_has_three_outcomes:
  assumes "keyed (rows g)" and "no_faults (ig_world g)"
  shows "(case StoreTranscriptSegment publisher s g of (r, g') \<Rightarrow>
    if (\<forall>x \<in> set (rows g). ts_EventID x \<noteq> ts_EventID s \<and>
          (ts_CallID x \<noteq> ts_CallID s \<or> ts_SequenceNo x \<noteq> ts_SequenceNo s))
    then r = Inr \<lparr>tr_Status = TranscriptSegmentCreated, tr_EventID = ts_EventID s\<rparr> \<and>
         rows g' = rows g @ [received s g] \<and>
         ig_segments g' = ig_segments g @ (if publisher then [received s g] else [])
    else r = (if \<exists>x \<in> set (rows g). sameContent x s
              then Inr \<lparr>tr_Status = TranscriptSegmentAlreadyExists, tr_EventID = ts_EventID s\<rparr>
              else Inl (ErrConflict ''transcript segment conflict'')) \<and>
         rows g' = rows g \<and> ig_segments g' = ig_segments g)"
proof -
  note out = Store_outcome [OF assms(2), of publisher s]
  note res = save_outcome [OF assms(1), of "received s g"]
  have free: "(\<forall>x \<in> set (rows g). ts_EventID x \<noteq> ts_EventID s \<and>
      (ts_CallID x \<noteq> ts_CallID s \<or> ts_SequenceNo x \<noteq> ts_SequenceNo s)) \<longleftrightarrow>
      \<not> insert_ignored (w_db (ig_world g)) s"
    by (auto simp: insert_ignored_iff)
  show ?thesis
    unfolding free case_prod_beta
    using out res save_refused [of "w_db (ig_world g)" "received s g"]
    by (simp add: transcriptSegmentConflictError_def save_created)
qed

theorem storing_a_segment_has_three_outcomes_witness:
  "fst (StoreTranscriptSegment True (segment_of (sample_request ''c'' 1 ''hi'') True 7) sample_ingest) =
   Inr \<lparr>tr_Status = TranscriptSegmentCreated, tr_EventID = ''transcript:s1:c:1''\<rparr>"
proof -
  have "ts_EventID (segment_of (sample_request ''c'' 1 ''hi'') True 7) = ''transcript:s1:c:1''"
    by code_simp
  with storing_a_segment_has_three_outcomes [OF sample_keyed sample_no_faults,
      where publisher = True and s = "segment_of (sample_request ''c'' 1 ''hi'') True 7"]
  show ?thesis
    by (simp add: sample_ingest_def sample_world_def sample_store_def case_prod_beta)
qed

text \<open>A retry is recognised: once a request was answered with 201, the same request is
  answered with 200, \<open>already_exists\<close> and the same event id, whatever other requests came in
  between, even when it carries no recognition time of its own; it adds nothing to the table and
  publishes nothing.\<close>

theorem retried_segment_is_recognised:
  assumes "keyed (rows g)" and "no_faults (ig_world g)"
    and "fst (api_Store lib apiKey publisher key contentType body g) = ApiReply 201 rp"
  shows "(let later = api_run lib apiKey publisher reqs
                (snd (api_Store lib apiKey publisher key contentType body g));
              again = api_Store lib apiKey publisher key contentType body later in
          fst again = ApiReply 200 (rp\<lparr>rp_Status := ''already_exists'', rp_Duplicate := True\<rparr>) \<and>
          rows (snd again) = rows later \<and> ig_segments (snd again) = ig_segments later)"
proof -
  let ?g1 = "snd (api_Store lib apiKey publisher key contentType body g)"
  let ?g2 = "api_run lib apiKey publisher reqs ?g1"
  obtain q t where q: "body = Request q None" "authorizedSecret lib key apiKey"
    "isJSONContentType lib contentType" "request_isFinal q"
    and again: "\<And>w. \<exists>t'. toDomain lib q True w = (Inr (segment_of q True t'), snd (toDomain lib q True w))"
    and row: "\<exists>r \<in> set (rows ?g1). sameContent r (segment_of q True t)"
    and rp: "rp = \<lparr>rp_Status = ''created'', rp_Duplicate = False,
            rp_EventID = ts_EventID (segment_of q True t), rp_IsFinal = True\<rparr>"
    using api_created_row [OF assms(2,3)] by metis
  obtain t' w1 where d: "toDomain lib q True (ig_world ?g2) = (Inr (segment_of q True t'), w1)"
    using again by blast
  let ?s = "segment_of q True t'" and ?g = "?g2\<lparr>ig_world := w1\<rparr>"
  have w1: "w_db w1 = w_db (ig_world ?g2)" "no_faults w1"
    using assms(2) d toDomain_frame(1) no_faults_toDomain
    by (metis snd_conv, metis no_faults_def no_faults_run faults_api snd_conv)
  have keyed: "keyed (db_segments (w_db w1))"
    using run_appends [of reqs publisher ?g1 lib apiKey] api_appends [of publisher g lib apiKey key contentType body]
      assms(1) w1(1) by (auto simp: appends_def)
  have "set (rows ?g1) \<subseteq> set (rows ?g2)"
    using run_appends [of reqs publisher ?g1 lib apiKey] by (auto simp: appends_def)
  then have same: "\<exists>r \<in> set (db_segments (w_db w1)). sameContent r ?s"
    using row w1(1) sameContent_trans sameContent_segment_of by (metis subsetD)
  then have clash: "insert_ignored (w_db w1) ?s" by (auto simp: insert_ignored_iff sameContent_def)
  have "fst (StoreTranscriptSegment publisher ?s ?g) =
      Inr \<lparr>tr_Status = TranscriptSegmentAlreadyExists, tr_EventID = ts_EventID ?s\<rparr>"
    "rows (snd (StoreTranscriptSegment publisher ?s ?g)) = rows ?g2"
    "ig_segments (snd (StoreTranscriptSegment publisher ?s ?g)) = ig_segments ?g2"
    using Store_outcome [of ?g publisher ?s] save_outcome [OF keyed, of "received ?s ?g"] same clash
      save_refused [of "w_db w1" "received ?s ?g"] w1 by simp_all
  moreover have "ts_EventID ?s = ts_EventID (segment_of q True t)"
    by (simp add: segment_of_def)
  ultimately show ?thesis
    using api_Store_final [OF q(2-4) d, of publisher] q(1) rp
    by (simp add: case_prod_beta Let_def store_reply_def)
qed

theorem retried_segment_is_recognised_witness:
  "(let (key, ct, body) = sample_post ''c'' 1 ''hi'';
        later = api_run sample_api_lib ''key'' True [sample_post ''c'' 2 ''more'']
                  (snd (api_Store sample_api_lib ''key'' True key ct body sample_ingest)) in
    rows (snd (api_Store sample_api_lib ''key'' True key ct body later)) = rows later)"
proof -
  obtain key ct body where post: "sample_post ''c'' 1 ''hi'' = (key, ct, body)" by (cases "sample_post ''c'' 1 ''hi''")
  have "fst (case sample_post ''c'' 1 ''hi'' of (key, ct, body) \<Rightarrow>
      api_Store sample_api_lib ''key'' True key ct body sample_ingest) =
    ApiReply 201 \<lparr>rp_Status = ''created'', rp_Duplicate = False, rp_EventID = ''transcript:s1:c:1'', rp_IsFinal = True\<rparr>"
    by code_simp
  with post have "fst (api_Store sample_api_lib ''key'' True key ct body sample_ingest) =
    ApiReply 201 \<lparr>rp_Status = ''created'', rp_Duplicate = False, rp_EventID = ''transcript:s1:c:1'', rp_IsFinal = True\<rparr>"
    by simp
  from retried_segment_is_recognised [OF sample_keyed sample_no_faults this] post
  show ?thesis by (simp add: Let_def)
qed

text \<open>The event ids the endpoint generates tell segments apart: for sessions and calls whose
  ids have no colon, equal generated ids mean the same session, call and sequence number.\<close>

theorem generated_event_ids_are_distinct:
  assumes "CHR '':'' \<notin> set session \<union> set session' \<union> set call \<union> set call'" and "0 \<le> n" "0 \<le> n'"
  shows "generatedTranscriptEventID session call n = generatedTranscriptEventID session' call' n' \<longleftrightarrow>
    session = session' \<and> call = call' \<and> n = n'"
  using assms event_id_cases [of session session' call call' n n'] by auto

theorem generated_event_ids_are_distinct_witness:
  "generatedTranscriptEventID ''s1'' ''c'' 12 \<noteq> generatedTranscriptEventID [] ''c'' 12"
  using generated_event_ids_are_distinct [of "''s1''" "[]" "''c''" "''c''" 12 12] by simp

end
