(* ===== verification/MeetingEvents.thy ===== *)
theory MeetingEvents
  imports WorkspaceStore
begin

text \<open>
  Meetings, their durable event log and transcript lines: the repositories
  \<open>internal/adapter/repository/memory/{meeting,event}.go\<close> (functions \<open>mem_\<close>) and
  \<open>internal/adapter/repository/postgres/{meeting,event,transcript}.go\<close> (functions \<open>pg_\<close>), and the
  service \<open>internal/application/meeting.go\<close> over either of them.

  As in \<open>WorkspaceStore\<close> an operation takes the moment of the call and a fresh id; where the code
  reads the clock more than once in a call, it is that one moment.  The payload a caller passes
  is one of the cases \<open>jsonPayload\<close> tells apart; what \<open>json.Marshal\<close> and \<open>json.Unmarshal\<close> give
  are the argument of the constructor and the functions of \<open>json_lib\<close>.  Sequence numbers are
  integers; the code's \<open>int64\<close> would wrap after 2^63 events of one meeting.
\<close>

section \<open>Data\<close>

record Event =
  ev_Type :: gostring
  ev_MeetingID :: gostring
  ev_Seq :: int
  ev_TsMS :: int
  ev_Payload :: gostring

record Segment =
  sg_MeetingID :: gostring
  sg_Seq :: int
  sg_SegmentID :: gostring
  sg_SpeakerLabel :: gostring
  sg_Text :: gostring
  sg_StartMS :: int
  sg_EndMS :: int
  sg_CreatedAt :: gotime

record TranscriptFinalPayload =
  fp_SegmentID :: gostring
  fp_SpeakerLabel :: gostring
  fp_Text :: gostring
  fp_StartMS :: int
  fp_EndMS :: int

record json_lib =
  js_final :: "gostring \<Rightarrow> TranscriptFinalPayload option"
  js_status :: "gostring \<Rightarrow> gostring option"

datatype payload = NilPayload | RawPayload gostring | MarshalledPayload "gostring option"

definition jsonPayload :: "payload \<Rightarrow> gostring result" where
  "jsonPayload p =
     (case p of
        NilPayload \<Rightarrow> Inr ''{}''
      | RawPayload bytes \<Rightarrow> Inr (if bytes = [] then ''{}'' else bytes)
      | MarshalledPayload (Some bytes) \<Rightarrow> Inr bytes
      | MarshalledPayload None \<Rightarrow> Inl (ErrInvalidArgument ''json''))"

text \<open>Seconds from year 1 to the Unix epoch.\<close>

definition unix_epoch :: int where "unix_epoch = 62135596800"

definition unix_seconds :: "gotime \<Rightarrow> int" where
  "unix_seconds t = t div second - unix_epoch"

definition NowMS :: "gotime \<Rightarrow> int" where
  "NowMS t = t div millisecond - unix_epoch * 1000"

definition new_meeting :: "gostring \<Rightarrow> gostring \<Rightarrow> gostring \<Rightarrow> env \<Rightarrow> Meeting" where
  "new_meeting workspaceID title0 source0 e =
     (let title = trim_space title0; now = rfc3339 (fst e) in
      \<lparr>mt_ID = ''m_'' @ snd e, mt_WorkspaceID = workspaceID,
       mt_Title = (if title = [] then ''Untitled meeting'' else title), mt_Status = ''created'',
       mt_Source = (if source0 = [] then ''fixture_replay'' else source0),
       mt_CreatedAt = now, mt_UpdatedAt = now, mt_EndedAt = None\<rparr>)"

text \<open>The effect of a \<open>meeting.state\<close> payload on the meeting row.\<close>

definition with_status :: "gostring \<Rightarrow> gotime \<Rightarrow> Meeting \<Rightarrow> Meeting" where
  "with_status status now m =
     (let m' = m\<lparr>mt_Status := status, mt_UpdatedAt := now\<rparr> in
      if status = ''ended'' then m'\<lparr>mt_EndedAt := Some now\<rparr> else m')"

definition segment_from ::
    "gostring \<Rightarrow> int \<Rightarrow> gostring \<Rightarrow> gotime \<Rightarrow> TranscriptFinalPayload \<Rightarrow> Segment" where
  "segment_from meetingID seq generatedID now p =
     \<lparr>sg_MeetingID = meetingID, sg_Seq = seq,
      sg_SegmentID = (if fp_SegmentID p = [] then generatedID else fp_SegmentID p),
      sg_SpeakerLabel = (if fp_SpeakerLabel p = [] then ''Speaker'' else fp_SpeakerLabel p),
      sg_Text = fp_Text p, sg_StartMS = fp_StartMS p, sg_EndMS = fp_EndMS p, sg_CreatedAt = now\<rparr>"

section \<open>The interface\<close>

record 'db meeting_repo =
  mr_CreateMeeting :: "gostring \<Rightarrow> gostring \<Rightarrow> gostring \<Rightarrow> ('db, Meeting) op"
  mr_ListMeetings :: "gostring \<Rightarrow> ('db, Meeting list) op"
  mr_GetMeeting :: "gostring \<Rightarrow> ('db, Meeting) op"
  mr_ResetMeeting :: "gostring \<Rightarrow> ('db, unit) op"
  mr_AppendEvent :: "gostring \<Rightarrow> gostring \<Rightarrow> payload \<Rightarrow> ('db, Event) op"
  mr_ListEvents :: "gostring \<Rightarrow> int \<Rightarrow> ('db, Event list) op"
  mr_ListSegments :: "gostring \<Rightarrow> int \<Rightarrow> ('db, Segment list) op"

section \<open>In memory\<close>

record memlog =
  ml_meetings :: "(gostring \<times> Meeting) list"
  ml_nextSeq :: "gostring \<Rightarrow> int"
  ml_events :: "gostring \<Rightarrow> Event list"
  ml_segments :: "gostring \<Rightarrow> Segment list"

definition mem_CreateMeeting :: "gostring \<Rightarrow> gostring \<Rightarrow> gostring \<Rightarrow> (memlog, Meeting) op" where
  "mem_CreateMeeting workspaceID title source e db =
     (let m = new_meeting workspaceID title source e in
      (Inr m, db\<lparr>ml_meetings := AList.update (mt_ID m) m (ml_meetings db),
                 ml_nextSeq := (ml_nextSeq db)(mt_ID m := 1)\<rparr>))"

definition mem_ListMeetings :: "gostring \<Rightarrow> (memlog, Meeting list) op" where
  "mem_ListMeetings workspaceID e = reading (\<lambda>db.
     Inr (order_by (\<lambda>a b. mt_CreatedAt b < mt_CreatedAt a)
       (filter (\<lambda>m. mt_WorkspaceID m = workspaceID) (map snd (ml_meetings db)))))"

definition mem_GetMeeting :: "gostring \<Rightarrow> (memlog, Meeting) op" where
  "mem_GetMeeting meetingID e = reading (\<lambda>db.
     case map_of (ml_meetings db) meetingID of None \<Rightarrow> Inl NotFound | Some m \<Rightarrow> Inr m)"

definition mem_ResetMeeting :: "gostring \<Rightarrow> (memlog, unit) op" where
  "mem_ResetMeeting meetingID e db =
     (case map_of (ml_meetings db) meetingID of
        None \<Rightarrow> (Inl NotFound, db)
      | Some m \<Rightarrow>
          (Inr (), db\<lparr>ml_meetings := AList.update meetingID
               (m\<lparr>mt_Status := ''created'', mt_UpdatedAt := rfc3339 (fst e), mt_EndedAt := None\<rparr>)
               (ml_meetings db),
             ml_nextSeq := (ml_nextSeq db)(meetingID := 1),
             ml_events := (ml_events db)(meetingID := []),
             ml_segments := (ml_segments db)(meetingID := [])\<rparr>))"

text \<open>\<open>appendSegment\<close>; \<open>snd e\<close> stands for the time of day its generated ids are made of.\<close>

definition mem_appendSegment ::
    "json_lib \<Rightarrow> gostring \<Rightarrow> int \<Rightarrow> gostring \<Rightarrow> env \<Rightarrow> memlog \<Rightarrow> memlog" where
  "mem_appendSegment lib meetingID seq bytes e db =
     (case js_final lib bytes of
        None \<Rightarrow> db
      | Some p \<Rightarrow> db\<lparr>ml_segments := (ml_segments db)(meetingID := ml_segments db meetingID @
          [segment_from meetingID seq (''seg_'' @ snd e) (rfc3339 (fst e)) p])\<rparr>)"

definition mem_updateMeetingState ::
    "json_lib \<Rightarrow> gostring \<Rightarrow> gostring \<Rightarrow> env \<Rightarrow> memlog \<Rightarrow> memlog" where
  "mem_updateMeetingState lib meetingID bytes e db =
     (case js_status lib bytes of
        None \<Rightarrow> db
      | Some status \<Rightarrow>
          if status = [] then db
          else (case map_of (ml_meetings db) meetingID of
              None \<Rightarrow> db
            | Some m \<Rightarrow> db\<lparr>ml_meetings :=
                AList.update meetingID (with_status status (rfc3339 (fst e)) m) (ml_meetings db)\<rparr>))"

definition mem_AppendEvent :: "json_lib \<Rightarrow> gostring \<Rightarrow> gostring \<Rightarrow> payload \<Rightarrow> (memlog, Event) op" where
  "mem_AppendEvent lib meetingID eventType p e db =
     (case jsonPayload p of
        Inl err \<Rightarrow> (Inl err, db)
      | Inr bytes \<Rightarrow>
          if map_of (ml_meetings db) meetingID = None then (Inl NotFound, db)
          else
            (let event = \<lparr>ev_Type = eventType, ev_MeetingID = meetingID, ev_Seq = 0,
                          ev_TsMS = NowMS (fst e), ev_Payload = bytes\<rparr> in
             if \<not> IsDurableEventType eventType then (Inr event, db)
             else
               (let seq = ml_nextSeq db meetingID;
                    event = event\<lparr>ev_Seq := seq\<rparr>;
                    db1 = db\<lparr>ml_nextSeq := (ml_nextSeq db)(meetingID := seq + 1),
                             ml_events := (ml_events db)(meetingID := ml_events db meetingID @ [event])\<rparr>;
                    db2 = (if eventType = EventTranscriptFinal
                           then mem_appendSegment lib meetingID seq bytes e db1 else db1);
                    db3 = (if eventType = EventMeetingState
                           then mem_updateMeetingState lib meetingID bytes e db2 else db2) in
                (Inr event, db3))))"

definition mem_ListEvents :: "gostring \<Rightarrow> int \<Rightarrow> (memlog, Event list) op" where
  "mem_ListEvents meetingID afterSeq e = reading (\<lambda>db.
     if map_of (ml_meetings db) meetingID = None then Inl NotFound
     else Inr (filter (\<lambda>x. afterSeq < ev_Seq x) (ml_events db meetingID)))"

definition mem_ListSegments :: "gostring \<Rightarrow> int \<Rightarrow> (memlog, Segment list) op" where
  "mem_ListSegments meetingID afterSeq e = reading (\<lambda>db.
     if map_of (ml_meetings db) meetingID = None then Inl NotFound
     else Inr (filter (\<lambda>x. afterSeq < sg_Seq x) (ml_segments db meetingID)))"

definition mem_meetings :: "json_lib \<Rightarrow> memlog meeting_repo" where
  "mem_meetings lib =
     \<lparr>mr_CreateMeeting = mem_CreateMeeting, mr_ListMeetings = mem_ListMeetings,
      mr_GetMeeting = mem_GetMeeting, mr_ResetMeeting = mem_ResetMeeting,
      mr_AppendEvent = mem_AppendEvent lib, mr_ListEvents = mem_ListEvents,
      mr_ListSegments = mem_ListSegments\<rparr>"

section \<open>PostgreSQL\<close>

text \<open>
  A row of \<open>meetings\<close> is the meeting and its \<open>next_seq\<close>.  A statement that fails rolls the
  transaction back, so the tables stay as they were.
\<close>

record pglog =
  pl_meetings :: "(Meeting \<times> int) list"
  pl_events :: "Event list"
  pl_segments :: "Segment list"

definition pg_row :: "pglog \<Rightarrow> gostring \<Rightarrow> (Meeting \<times> int) option" where
  "pg_row db meetingID = find (\<lambda>(m, _). mt_ID m = meetingID) (pl_meetings db)"

definition pg_update_row ::
    "gostring \<Rightarrow> (Meeting \<times> int \<Rightarrow> Meeting \<times> int) \<Rightarrow> pglog \<Rightarrow> pglog" where
  "pg_update_row meetingID f db =
     db\<lparr>pl_meetings := update_where (\<lambda>(m, _). mt_ID m = meetingID) f (pl_meetings db)\<rparr>"

definition pg_CreateMeeting :: "gostring \<Rightarrow> gostring \<Rightarrow> gostring \<Rightarrow> (pglog, Meeting) op" where
  "pg_CreateMeeting workspaceID title source e db =
     (let m = new_meeting workspaceID title source e in
      if pg_row db (mt_ID m) \<noteq> None then (Inl ErrDatabase, db)
      else (Inr m, db\<lparr>pl_meetings := pl_meetings db @ [(m, 1)]\<rparr>))"

definition pg_ListMeetings :: "gostring \<Rightarrow> (pglog, Meeting list) op" where
  "pg_ListMeetings workspaceID e = reading (\<lambda>db.
     Inr (order_by (\<lambda>a b. mt_CreatedAt b < mt_CreatedAt a)
       (filter (\<lambda>m. mt_WorkspaceID m = workspaceID) (map fst (pl_meetings db)))))"

definition pg_GetMeeting :: "gostring \<Rightarrow> (pglog, Meeting) op" where
  "pg_GetMeeting meetingID e = reading (\<lambda>db.
     case pg_row db meetingID of None \<Rightarrow> Inl NotFound | Some (m, _) \<Rightarrow> Inr m)"

definition pg_ResetMeeting :: "gostring \<Rightarrow> (pglog, unit) op" where
  "pg_ResetMeeting meetingID e db =
     (if pg_row db meetingID = None then (Inl NotFound, db)
      else (Inr (), pg_update_row meetingID
        (\<lambda>(m, _). (m\<lparr>mt_Status := ''created'', mt_EndedAt := None, mt_UpdatedAt := rfc3339 (fst e)\<rparr>, 1))
        (db\<lparr>pl_segments := filter (\<lambda>s. sg_MeetingID s \<noteq> meetingID) (pl_segments db),
            pl_events := filter (\<lambda>x. ev_MeetingID x \<noteq> meetingID) (pl_events db)\<rparr>)))"

text \<open>\<open>fmt.Sprintf("seg_%06d", seq)\<close>.\<close>

definition pad6 :: "int \<Rightarrow> gostring" where
  "pad6 n = (let s = show_int n in replicate (6 - length s) (CHR ''0'') @ s)"

definition pg_insertSegmentFromPayload ::
    "json_lib \<Rightarrow> gostring \<Rightarrow> int \<Rightarrow> gostring \<Rightarrow> gotime \<Rightarrow> pglog \<Rightarrow> pglog option" where
  "pg_insertSegmentFromPayload lib meetingID seq bytes now db =
     (case js_final lib bytes of
        None \<Rightarrow> None
      | Some p \<Rightarrow>
          (let s = segment_from meetingID seq (''seg_'' @ pad6 seq) now p;
               same = (\<lambda>x. sg_MeetingID x = meetingID \<and> sg_SegmentID x = sg_SegmentID s) in
           if list_ex same (pl_segments db)
           then Some (db\<lparr>pl_segments := update_where same
             (\<lambda>x. x\<lparr>sg_Seq := seq, sg_SpeakerLabel := sg_SpeakerLabel s, sg_Text := sg_Text s,
                    sg_StartMS := sg_StartMS s, sg_EndMS := sg_EndMS s\<rparr>) (pl_segments db)\<rparr>)
           else Some (db\<lparr>pl_segments := pl_segments db @ [s]\<rparr>)))"

definition pg_updateMeetingState ::
    "json_lib \<Rightarrow> gostring \<Rightarrow> gostring \<Rightarrow> gotime \<Rightarrow> pglog \<Rightarrow> pglog" where
  "pg_updateMeetingState lib meetingID bytes now db =
     (case js_status lib bytes of
        None \<Rightarrow> db
      | Some status \<Rightarrow>
          if status = [] then db
          else pg_update_row meetingID (\<lambda>(m, n). (with_status status now m, n)) db)"

definition pg_AppendEvent :: "json_lib \<Rightarrow> gostring \<Rightarrow> gostring \<Rightarrow> payload \<Rightarrow> (pglog, Event) op" where
  "pg_AppendEvent lib meetingID eventType p e db =
     (case jsonPayload p of
        Inl err \<Rightarrow> (Inl err, db)
      | Inr bytes \<Rightarrow>
          (let event = \<lparr>ev_Type = eventType, ev_MeetingID = meetingID, ev_Seq = 0,
                        ev_TsMS = NowMS (fst e), ev_Payload = bytes\<rparr>; now = rfc3339 (fst e) in
           if \<not> IsDurableEventType eventType then (Inr event, db)
           else (case pg_row db meetingID of
               None \<Rightarrow> (Inl NotFound, db)
             | Some (_, seq) \<Rightarrow>
                 (let event = event\<lparr>ev_Seq := seq\<rparr>;
                      db1 = pg_update_row meetingID (\<lambda>(m, n). (m\<lparr>mt_UpdatedAt := now\<rparr>, n + 1)) db in
                  if list_ex (\<lambda>x. ev_MeetingID x = meetingID \<and> ev_Seq x = seq) (pl_events db)
                  then (Inl ErrDatabase, db)
                  else
                    (let db2 = db1\<lparr>pl_events := pl_events db1 @ [event]\<rparr>;
                         db3 = (if eventType = EventTranscriptFinal
                                then pg_insertSegmentFromPayload lib meetingID seq bytes now db2
                                else Some db2) in
                     case db3 of
                       None \<Rightarrow> (Inl ErrDatabase, db)
                     | Some db4 \<Rightarrow>
                         (Inr event, if eventType = EventMeetingState
                            then pg_updateMeetingState lib meetingID bytes now db4 else db4))))))"

definition pg_ListEvents :: "gostring \<Rightarrow> int \<Rightarrow> (pglog, Event list) op" where
  "pg_ListEvents meetingID afterSeq e = reading (\<lambda>db.
     Inr (order_by (\<lambda>a b. ev_Seq a < ev_Seq b)
       (filter (\<lambda>x. ev_MeetingID x = meetingID \<and> afterSeq < ev_Seq x) (pl_events db))))"

definition pg_ListSegments :: "gostring \<Rightarrow> int \<Rightarrow> (pglog, Segment list) op" where
  "pg_ListSegments meetingID afterSeq e = reading (\<lambda>db.
     Inr (order_by (\<lambda>a b. sg_Seq a < sg_Seq b)
       (filter (\<lambda>x. sg_MeetingID x = meetingID \<and> afterSeq < sg_Seq x) (pl_segments db))))"

definition pg_meetings :: "json_lib \<Rightarrow> pglog meeting_repo" where
  "pg_meetings lib =
     \<lparr>mr_CreateMeeting = pg_CreateMeeting, mr_ListMeetings = pg_ListMeetings,
      mr_GetMeeting = pg_GetMeeting, mr_ResetMeeting = pg_ResetMeeting,
      mr_AppendEvent = pg_AppendEvent lib, mr_ListEvents = pg_ListEvents,
      mr_ListSegments = pg_ListSegments\<rparr>"

section \<open>Service\<close>

text \<open>
  The world of the service: each repository call takes the next moment and id, and may fail in
  the driver before it has an effect.
\<close>

record 'db host =
  ho_db :: 'db
  ho_clock :: "nat \<Rightarrow> gotime"
  ho_ids :: "nat \<Rightarrow> gostring"
  ho_faults :: "nat \<Rightarrow> bool"
  ho_calls :: nat
  ho_published :: "Event list"

definition host_call :: "('db, 'a) op \<Rightarrow> 'db host \<Rightarrow> 'a result \<times> 'db host" where
  "host_call f w =
     (let n = ho_calls w; w1 = w\<lparr>ho_calls := Suc n\<rparr> in
      if ho_faults w n then (Inl ErrDatabase, w1)
      else (case f (ho_clock w n, ho_ids w n) (ho_db w) of (r, db) \<Rightarrow> (r, w1\<lparr>ho_db := db\<rparr>)))"

definition host_bind ::
    "'a result \<times> 'db host \<Rightarrow> ('a \<Rightarrow> 'db host \<Rightarrow> 'b result \<times> 'db host) \<Rightarrow> 'b result \<times> 'db host" where
  "host_bind rw k = (case rw of (Inl err, w) \<Rightarrow> (Inl err, w) | (Inr x, w) \<Rightarrow> k x w)"

definition AppendAndPublish ::
    "'db meeting_repo \<Rightarrow> bool \<Rightarrow> gostring \<Rightarrow> gostring \<Rightarrow> payload \<Rightarrow> 'db host \<Rightarrow> Event result \<times> 'db host" where
  "AppendAndPublish repo publisher meetingID eventType p w0 =
     host_bind (host_call (mr_AppendEvent repo meetingID eventType p) w0) (\<lambda>event w1.
       (Inr event, if publisher then w1\<lparr>ho_published := ho_published w1 @ [event]\<rparr> else w1))"

definition state_payload :: "gostring \<Rightarrow> payload" where
  \<open>state_payload status = MarshalledPayload (Some
     (''{"analyzing":false,"participants":[],"recording":false,"status":"'' @ status @ ''"}''))\<close>

definition svc_CreateMeeting ::
    "'db meeting_repo \<Rightarrow> bool \<Rightarrow> gostring \<Rightarrow> gostring \<Rightarrow> gostring \<Rightarrow> 'db host \<Rightarrow> Meeting result \<times> 'db host" where
  "svc_CreateMeeting repo publisher workspaceID title source w0 =
     host_bind (host_call (mr_CreateMeeting repo workspaceID title source) w0) (\<lambda>meeting w1.
       host_bind (AppendAndPublish repo publisher (mt_ID meeting) EventMeetingState
                    (state_payload ''created'') w1)
         (\<lambda>_. host_call (mr_GetMeeting repo (mt_ID meeting))))"

definition svc_ListMeetings where
  "svc_ListMeetings repo workspaceID = host_call (mr_ListMeetings repo workspaceID)"

definition svc_GetMeeting where
  "svc_GetMeeting repo meetingID = host_call (mr_GetMeeting repo meetingID)"

definition svc_ListEvents where
  "svc_ListEvents repo meetingID afterSeq = host_call (mr_ListEvents repo meetingID afterSeq)"

definition svc_ListSegments where
  "svc_ListSegments repo meetingID afterSeq = host_call (mr_ListSegments repo meetingID afterSeq)"

definition svc_ResetMeeting where
  "svc_ResetMeeting repo meetingID = host_call (mr_ResetMeeting repo meetingID)"

record JoinToken =
  jt_Token :: gostring
  jt_TokenType :: gostring
  jt_ExpiresAt :: gotime

definition CreateJoinToken ::
    "'db meeting_repo \<Rightarrow> gostring \<Rightarrow> 'db host \<Rightarrow> JoinToken result \<times> 'db host" where
  "CreateJoinToken repo meetingID w0 =
     host_bind (host_call (mr_GetMeeting repo meetingID) w0) (\<lambda>_ w1.
       (let expiresAt = ho_clock w1 (ho_calls w1) + 2 * hour in
        (Inr \<lparr>jt_Token = ''local.'' @ meetingID @ ''.'' @ show_int (unix_seconds expiresAt),
              jt_TokenType = ''local-dev'', jt_ExpiresAt = rfc3339 expiresAt\<rparr>,
         w1\<lparr>ho_calls := Suc (ho_calls w1)\<rparr>)))"

definition EndMeeting ::
    "'db meeting_repo \<Rightarrow> bool \<Rightarrow> gostring \<Rightarrow> 'db host \<Rightarrow> Event list result \<times> 'db host" where
  "EndMeeting repo publisher meetingID w0 =
     host_bind (host_call (mr_GetMeeting repo meetingID) w0) (\<lambda>_ w1.
       host_bind (AppendAndPublish repo publisher meetingID EventMeetingState
                    (state_payload ''ended'') w1)
         (\<lambda>event w2. (Inr [event], w2)))"

end
