(* ===== verification/EventLog.thy ===== *)
theory EventLog
  imports MeetingEvents
begin

text \<open>
  The contract of the event repositories, as a locale: what an operation does to the durable
  events of each meeting and to its next sequence number.  Both repositories interpret it; the
  client's lemmas say that under any run of the service the events of a meeting are numbered
  1, 2, 3, and so on, and that a reader who asks for the events after \<open>k\<close> misses none.
\<close>

section \<open>Numbering\<close>

definition numbered ::
    "('db \<Rightarrow> gostring \<Rightarrow> bool) \<Rightarrow> ('db \<Rightarrow> gostring \<Rightarrow> int) \<Rightarrow> ('db \<Rightarrow> gostring \<Rightarrow> Event list) \<Rightarrow> 'db \<Rightarrow> bool" where
  "numbered known nseq events db \<longleftrightarrow>
     (\<forall>m. if known db m then 1 \<le> nseq db m \<and> map ev_Seq (events db m) = [1..nseq db m - 1]
          else events db m = [])"

lemma numberedI:
  "(\<And>m. known db m \<Longrightarrow> 1 \<le> nseq db m) \<Longrightarrow>
   (\<And>m. known db m \<Longrightarrow> map ev_Seq (events db m) = [1..nseq db m - 1]) \<Longrightarrow>
   (\<And>m. \<not> known db m \<Longrightarrow> events db m = []) \<Longrightarrow> numbered known nseq events db"
  by (simp add: numbered_def)

lemma numberedD:
  assumes "numbered known nseq events db"
  shows "known db m \<Longrightarrow> 1 \<le> nseq db m" "known db m \<Longrightarrow> map ev_Seq (events db m) = [1..nseq db m - 1]"
    "\<not> known db m \<Longrightarrow> events db m = []"
  using assms by (simp_all add: numbered_def split: if_splits)

lemma numbered_cong:
  "known db' = known db \<Longrightarrow> nseq db' = nseq db \<Longrightarrow> events db' = events db \<Longrightarrow>
   numbered known nseq events db' = numbered known nseq events db"
  by (simp add: numbered_def)

lemma upto_snoc: "1 \<le> n \<Longrightarrow> [1..n - 1] @ [n] = [1..(n::int)]"
  by (simp add: upto_rec2)

lemma filter_after:
  "map ev_Seq xs = [1..n] \<Longrightarrow> 0 \<le> k \<Longrightarrow> filter (\<lambda>x. k < ev_Seq x) xs = drop (nat k) xs"
proof (induction xs arbitrary: n rule: rev_induct)
  case (snoc x ys)
  have "1 \<le> n" using snoc.prems(1) by (cases "1 \<le> n") auto
  then have "map ev_Seq ys @ [ev_Seq x] = [1..n - 1] @ [n]"
    using snoc.prems(1) upto_rec2 [of 1 n] by simp
  then have ys: "map ev_Seq ys = [1..n - 1]" "ev_Seq x = n" by auto
  moreover from ys(1) have "int (length ys) = n - 1"
    using \<open>1 \<le> n\<close> by (metis length_map length_upto diff_add_cancel int_nat_eq diff_ge_0_iff_ge)
  ultimately show ?case using snoc.IH [OF ys(1) snoc.prems(2)] snoc.prems(2) by auto
qed simp

section \<open>The contract\<close>

locale event_log =
  fixes repo :: "'db meeting_repo"
    and known :: "'db \<Rightarrow> gostring \<Rightarrow> bool"
    and nseq :: "'db \<Rightarrow> gostring \<Rightarrow> int"
    and events :: "'db \<Rightarrow> gostring \<Rightarrow> Event list"
  assumes append_durable:
      "mr_AppendEvent repo m t p e db = (Inr x, db') \<Longrightarrow> IsDurableEventType t \<Longrightarrow>
       known db m \<and> ev_Seq x = nseq db m \<and> ev_MeetingID x = m \<and> ev_Type x = t \<and>
       events db' = (events db)(m := events db m @ [x]) \<and>
       nseq db' = (nseq db)(m := nseq db m + 1) \<and> known db' = known db"
    and append_ephemeral:
      "mr_AppendEvent repo m t p e db = (Inr x, db') \<Longrightarrow> \<not> IsDurableEventType t \<Longrightarrow>
       db' = db \<and> ev_Seq x = 0 \<and> ev_MeetingID x = m"
    and append_failed:
      "fst (mr_AppendEvent repo m t p e db) = Inl err \<Longrightarrow> snd (mr_AppendEvent repo m t p e db) = db"
    and created:
      "mr_CreateMeeting repo ws title src e db = (Inr mt, db') \<Longrightarrow> \<not> known db (''m_'' @ snd e) \<Longrightarrow>
       mt_ID mt = ''m_'' @ snd e \<and> events db' = events db \<and>
       nseq db' = (nseq db)(mt_ID mt := 1) \<and> known db' = (known db)(mt_ID mt := True)"
    and create_failed:
      "fst (mr_CreateMeeting repo ws title src e db) = Inl err \<Longrightarrow>
       snd (mr_CreateMeeting repo ws title src e db) = db"
    and reset_done:
      "mr_ResetMeeting repo m e db = (Inr u, db') \<Longrightarrow>
       known db m \<and> events db' = (events db)(m := []) \<and> nseq db' = (nseq db)(m := 1) \<and> known db' = known db"
    and reset_failed:
      "fst (mr_ResetMeeting repo m e db) = Inl err \<Longrightarrow> snd (mr_ResetMeeting repo m e db) = db"
    and listed:
      "numbered known nseq events db \<Longrightarrow> mr_ListEvents repo m k e db = (Inr xs, db') \<Longrightarrow>
       xs = filter (\<lambda>x. k < ev_Seq x) (events db m)"
    and reads:
      "snd (mr_ListEvents repo m k e db) = db" "snd (mr_GetMeeting repo m e db) = db"
      "snd (mr_ListMeetings repo ws e db) = db" "snd (mr_ListSegments repo m k e db) = db"
begin

abbreviation num :: "'db \<Rightarrow> bool" where
  "num \<equiv> numbered known nseq events"

lemma num_append:
  assumes "num db" shows "num (snd (mr_AppendEvent repo m t p e db))"
proof (cases "mr_AppendEvent repo m t p e db")
  case (Pair r db')
  show ?thesis
  proof (cases r)
    case (Inr x)
    show ?thesis
    proof (cases "IsDurableEventType t")
      case True
      note step = append_durable [OF Pair [unfolded Inr] True]
      then have "known db m" by blast
      then have m: "1 \<le> nseq db m" "map ev_Seq (events db m @ [x]) = [1..nseq db m]"
        using numberedD [OF assms] step upto_snoc by auto
      have "numbered known nseq events db'"
      proof (rule numberedI)
        fix k assume "known db' k"
        then show "1 \<le> nseq db' k" "map ev_Seq (events db' k) = [1..nseq db' k - 1]"
          using step m numberedD [OF assms, of k] by (cases "k = m"; simp)+
      next
        fix k assume "\<not> known db' k"
        then show "events db' k = []" using step numberedD(3) [OF assms, of k] by auto
      qed
      then show ?thesis by (simp add: Pair)
    qed (use append_ephemeral [OF Pair [unfolded Inr]] assms Pair in simp)
  qed (use append_failed [of m t p e db] Pair assms in simp)
qed

lemma num_create:
  assumes "num db" "\<not> known db (''m_'' @ snd e)"
  shows "num (snd (mr_CreateMeeting repo ws title src e db))"
proof (cases "mr_CreateMeeting repo ws title src e db")
  case (Pair r db')
  show ?thesis
  proof (cases r)
    case (Inr mt)
    note step = created [OF Pair [unfolded Inr] assms(2)]
    have "numbered known nseq events db'"
      using step assms numberedD [OF assms(1)] by (intro numberedI) (auto split: if_splits)
    then show ?thesis by (simp add: Pair)
  qed (use create_failed [of ws title src e db] Pair assms in simp)
qed

lemma num_reset:
  assumes "num db" shows "num (snd (mr_ResetMeeting repo m e db))"
proof (cases "mr_ResetMeeting repo m e db")
  case (Pair r db')
  show ?thesis
  proof (cases r)
    case (Inr u)
    note step = reset_done [OF Pair [unfolded Inr]]
    have "numbered known nseq events db'"
      using step assms numberedD [OF assms] by (intro numberedI) (auto split: if_splits)
    then show ?thesis by (simp add: Pair)
  qed (use reset_failed [of m e db] Pair assms in simp)
qed

text \<open>Who asks for the events after \<open>k\<close> gets the rest of the log, whole and in order.\<close>

lemma list_after:
  assumes "num db" "mr_ListEvents repo m k e db = (Inr xs, db')" "0 \<le> k"
  shows "xs = drop (nat k) (events db m)"
proof (cases "known db m")
  case True
  then show ?thesis
    using listed [OF assms(1,2)] filter_after [OF numberedD(2) [OF assms(1) True] assms(3)] by simp
next
  case False
  then show ?thesis using listed [OF assms(1,2)] numberedD(3) [OF assms(1) False] by simp
qed

end

section \<open>Runs of the service\<close>

datatype meeting_action =
    DoCreate gostring gostring gostring
  | DoAppend gostring gostring payload
  | DoEnd gostring
  | DoReset gostring
  | DoListEvents gostring int
  | DoListSegments gostring int
  | DoListMeetings gostring
  | DoGet gostring
  | DoJoinToken gostring

fun meeting_do :: "'db meeting_repo \<Rightarrow> bool \<Rightarrow> meeting_action \<Rightarrow> 'db host \<Rightarrow> 'db host" where
  "meeting_do r p (DoCreate ws title src) w = snd (svc_CreateMeeting r p ws title src w)"
| "meeting_do r p (DoAppend m t b) w = snd (AppendAndPublish r p m t b w)"
| "meeting_do r p (DoEnd m) w = snd (EndMeeting r p m w)"
| "meeting_do r p (DoReset m) w = snd (svc_ResetMeeting r m w)"
| "meeting_do r p (DoListEvents m k) w = snd (svc_ListEvents r m k w)"
| "meeting_do r p (DoListSegments m k) w = snd (svc_ListSegments r m k w)"
| "meeting_do r p (DoListMeetings ws) w = snd (svc_ListMeetings r ws w)"
| "meeting_do r p (DoGet m) w = snd (svc_GetMeeting r m w)"
| "meeting_do r p (DoJoinToken m) w = snd (CreateJoinToken r m w)"

definition meeting_run :: "'db meeting_repo \<Rightarrow> bool \<Rightarrow> meeting_action list \<Rightarrow> 'db host \<Rightarrow> 'db host" where
  "meeting_run r p acts w = foldl (\<lambda>w a. meeting_do r p a w) w acts"

lemma host_call_frame [simp]:
  "ho_ids (snd (host_call f w)) = ho_ids w" "ho_clock (snd (host_call f w)) = ho_clock w"
  "ho_faults (snd (host_call f w)) = ho_faults w" "ho_calls (snd (host_call f w)) = Suc (ho_calls w)"
  "ho_published (snd (host_call f w)) = ho_published w"
  by (simp_all add: host_call_def Let_def split: prod.split)

lemma host_call_db:
  "ho_db (snd (host_call f w)) = ho_db w \<or>
   ho_db (snd (host_call f w)) = snd (f (ho_clock w (ho_calls w), ho_ids w (ho_calls w)) (ho_db w))"
  by (simp add: host_call_def Let_def split: prod.split)

lemma host_call_Inr:
  "host_call f w = (Inr x, w') \<Longrightarrow>
   f (ho_clock w (ho_calls w), ho_ids w (ho_calls w)) (ho_db w) = (Inr x, ho_db w')"
  by (auto simp: host_call_def Let_def split: prod.splits if_splits)

lemma snd_host_bind: "snd (host_bind rw k) = (case fst rw of Inl _ \<Rightarrow> snd rw | Inr x \<Rightarrow> snd (k x (snd rw)))"
  by (auto simp: host_bind_def split: prod.split sum.split)

context event_log
begin

text \<open>The numbering together with the ids still to come being new.\<close>

definition run_ok :: "'db host \<Rightarrow> bool" where
  "run_ok w \<longleftrightarrow> num (ho_db w) \<and> inj (ho_ids w) \<and>
     (\<forall>n \<ge> ho_calls w. \<not> known (ho_db w) (''m_'' @ ho_ids w n))"

lemma known_append: "known (snd (mr_AppendEvent repo m t p e db)) = known db"
proof (cases "mr_AppendEvent repo m t p e db")
  case (Pair r db')
  show ?thesis
  proof (cases r)
    case (Inr x)
    then show ?thesis
      using append_ephemeral [OF Pair [unfolded Inr]] append_durable [OF Pair [unfolded Inr]] Pair
      by (cases "IsDurableEventType t") simp_all
  qed (use append_failed [of m t p e db] Pair in simp)
qed

lemma known_reset: "known (snd (mr_ResetMeeting repo m e db)) = known db"
proof (cases "mr_ResetMeeting repo m e db")
  case (Pair r db')
  show ?thesis
  proof (cases r)
    case (Inr x)
    then show ?thesis using reset_done [OF Pair [unfolded Inr]] Pair by simp
  qed (use reset_failed [of m e db] Pair in simp)
qed

lemma ok_call:
  assumes "run_ok w" and "\<And>e. num (snd (f e (ho_db w)))" "\<And>e. known (snd (f e (ho_db w))) = known (ho_db w)"
  shows "run_ok (snd (host_call f w))"
  using host_call_db [of f w] assms by (auto simp: run_ok_def)

lemma ok_append: "run_ok w \<Longrightarrow> run_ok (snd (host_call (mr_AppendEvent repo m t p) w))"
  by (rule ok_call) (simp_all add: num_append known_append run_ok_def)

lemma ok_reset: "run_ok w \<Longrightarrow> run_ok (snd (host_call (mr_ResetMeeting repo m) w))"
  by (rule ok_call) (simp_all add: num_reset known_reset run_ok_def)

lemma ok_reads:
  assumes "run_ok w"
  shows "run_ok (snd (host_call (mr_ListEvents repo m k) w))" "run_ok (snd (host_call (mr_GetMeeting repo m) w))"
    "run_ok (snd (host_call (mr_ListMeetings repo ws) w))" "run_ok (snd (host_call (mr_ListSegments repo m k) w))"
  using assms by (simp_all add: ok_call reads run_ok_def [of w])

lemma ok_published [simp]: "run_ok (w\<lparr>ho_published := xs\<rparr>) = run_ok w"
  by (simp add: run_ok_def)

lemma ok_create:
  assumes "run_ok w" shows "run_ok (snd (host_call (mr_CreateMeeting repo ws title src) w))"
proof -
  let ?n = "ho_calls w" and ?e = "(ho_clock w (ho_calls w), ho_ids w (ho_calls w))"
  let ?db = "snd (mr_CreateMeeting repo ws title src ?e (ho_db w))"
  have new: "\<not> known (ho_db w) (''m_'' @ snd ?e)" and inj: "inj (ho_ids w)" and num: "num (ho_db w)"
    using assms by (auto simp: run_ok_def)
  have "\<not> known ?db (''m_'' @ ho_ids w n)" if "Suc ?n \<le> n" for n
  proof (cases "mr_CreateMeeting repo ws title src ?e (ho_db w)")
    case (Pair r db')
    have "ho_ids w n \<noteq> ho_ids w ?n" using inj that by (auto dest: injD)
    have old: "\<not> known (ho_db w) (''m_'' @ ho_ids w n)"
      using assms that unfolding run_ok_def by auto
    show ?thesis
    proof (cases r)
      case (Inr mt)
      with created [OF Pair [unfolded Inr] new] \<open>ho_ids w n \<noteq> ho_ids w ?n\<close> old Pair
      show ?thesis by simp
    qed (use create_failed [of ws title src ?e "ho_db w"] Pair old in simp)
  qed
  then show ?thesis
    using host_call_db [of "mr_CreateMeeting repo ws title src" w] num_create [OF num new] assms
    by (auto simp: run_ok_def)
qed

lemma ok_AppendAndPublish: "run_ok w \<Longrightarrow> run_ok (snd (AppendAndPublish repo p m t b w))"
  using ok_append by (auto simp: AppendAndPublish_def snd_host_bind split: sum.split)

lemma ok_do: "run_ok w \<Longrightarrow> run_ok (meeting_do repo p a w)"
proof (induction a)
  case (DoCreate ws title src)
  then show ?case
    by (auto simp: svc_CreateMeeting_def snd_host_bind ok_create ok_AppendAndPublish ok_reads
        split: sum.split)
next
  case (DoEnd m)
  then show ?case
    by (auto simp: EndMeeting_def snd_host_bind ok_AppendAndPublish ok_reads split: sum.split)
next
  case (DoJoinToken m)
  then have "run_ok (snd (host_call (mr_GetMeeting repo m) w))" by (rule ok_reads)
  then show ?case
    by (auto simp: CreateJoinToken_def snd_host_bind run_ok_def Let_def split: sum.split)
qed (simp_all add: ok_append ok_reset ok_reads ok_AppendAndPublish svc_ResetMeeting_def
      svc_ListEvents_def svc_ListSegments_def svc_ListMeetings_def svc_GetMeeting_def)

lemma ok_run: "run_ok w \<Longrightarrow> run_ok (meeting_run repo p acts w)"
  by (induction acts arbitrary: w) (simp_all add: meeting_run_def ok_do)

text \<open>After any run: the numbering, and what a reader gets.\<close>

lemma run_log:
  assumes "run_ok w" "w' = meeting_run repo p acts w"
  shows "known (ho_db w') m \<Longrightarrow> map ev_Seq (events (ho_db w') m) = [1..int (length (events (ho_db w') m))]"
    "svc_ListEvents repo m k w' = (Inr xs, w'') \<Longrightarrow> 0 \<le> k \<Longrightarrow> xs = drop (nat k) (events (ho_db w') m)"
proof -
  have num: "num (ho_db w')" using ok_run assms by (simp add: run_ok_def)
  show "known (ho_db w') m \<Longrightarrow> map ev_Seq (events (ho_db w') m) = [1..int (length (events (ho_db w') m))]"
    using numberedD(1,2) [OF num, of m] by (metis length_map length_upto nat_0_le diff_ge_0_iff_ge add.commute diff_add_cancel)
  show "xs = drop (nat k) (events (ho_db w') m)" if "svc_ListEvents repo m k w' = (Inr xs, w'')" "0 \<le> k"
    using that list_after [OF num] by (auto simp: svc_ListEvents_def dest!: host_call_Inr)
qed

end

section \<open>What was published\<close>

lemma published_AppendAndPublish:
  "ho_published (snd (AppendAndPublish repo p m t b w)) = ho_published w @
     (case fst (host_call (mr_AppendEvent repo m t b) w) of Inl _ \<Rightarrow> [] | Inr x \<Rightarrow> if p then [x] else [])"
  by (simp add: AppendAndPublish_def snd_host_bind split: sum.split)

text \<open>Publications are only added.\<close>

lemma published_do: "\<exists>ys. ho_published (meeting_do repo p a w) = ho_published w @ ys"
proof (cases a)
  case (DoCreate ws title src)
  then show ?thesis
    by (auto simp: svc_CreateMeeting_def snd_host_bind published_AppendAndPublish split: sum.split)
next
  case (DoEnd m)
  then show ?thesis
    by (auto simp: EndMeeting_def snd_host_bind published_AppendAndPublish split: sum.split)
next
  case (DoJoinToken m)
  then show ?thesis by (auto simp: CreateJoinToken_def snd_host_bind Let_def split: sum.split)
qed (simp_all add: published_AppendAndPublish svc_ResetMeeting_def svc_ListEvents_def
      svc_ListSegments_def svc_ListMeetings_def svc_GetMeeting_def)

lemma meeting_run_Nil [simp]: "meeting_run r p [] w = w"
  by (simp add: meeting_run_def)

lemma meeting_run_Cons [simp]: "meeting_run r p (a # as) w = meeting_run r p as (meeting_do r p a w)"
  by (simp add: meeting_run_def)

lemma published_run: "\<exists>ys. ho_published (meeting_run repo p acts w) = ho_published w @ ys"
proof (induction acts arbitrary: w)
  case (Cons a acts)
  show ?case using Cons [of "meeting_do repo p a w"] published_do [of repo p a w] by auto
qed simp

context event_log
begin

text \<open>A meeting that is not reset has published its log.\<close>

abbreviation publications :: "gostring \<Rightarrow> Event list \<Rightarrow> Event list" where
  "publications m \<equiv> filter (\<lambda>e. ev_MeetingID e = m \<and> 0 < ev_Seq e)"

definition mirrored :: "gostring \<Rightarrow> 'db host \<Rightarrow> bool" where
  "mirrored m w \<longleftrightarrow> publications m (ho_published w) = events (ho_db w) m \<and>
     (\<forall>e \<in> set (ho_published w). 0 \<le> ev_Seq e)"

lemma mirrored_call:
  assumes "mirrored m w" "\<And>e. events (snd (f e (ho_db w))) m = events (ho_db w) m"
  shows "mirrored m (snd (host_call f w))"
  using assms host_call_db [of f w] by (auto simp: mirrored_def)

lemma mirrored_AppendAndPublish:
  assumes ok: "run_ok w" and "mirrored m w"
  shows "mirrored m (snd (AppendAndPublish repo True k t b w))"
proof (cases "host_call (mr_AppendEvent repo k t b) w")
  case (Pair r w')
  have frame: "ho_published w' = ho_published w"
    using host_call_frame(5) [of "mr_AppendEvent repo k t b" w] Pair by simp
  show ?thesis
  proof (cases r)
    case (Inl err)
    have "events (ho_db w') = events (ho_db w)"
    proof (cases "mr_AppendEvent repo k t b (ho_clock w (ho_calls w), ho_ids w (ho_calls w)) (ho_db w)")
      case inner: (Pair r2 db2)
      then show ?thesis
        using Pair Inl append_failed [of k t b "(ho_clock w (ho_calls w), ho_ids w (ho_calls w))" "ho_db w"]
        by (auto simp: host_call_def Let_def split: if_splits)
    qed
    then show ?thesis
      using assms(2) frame Pair Inl by (simp add: mirrored_def AppendAndPublish_def snd_host_bind)
  next
    case (Inr x)
    note call = host_call_Inr [OF Pair [unfolded Inr]]
    have "ho_published (snd (AppendAndPublish repo True k t b w)) = ho_published w @ [x]"
      "ho_db (snd (AppendAndPublish repo True k t b w)) = ho_db w'"
      using Pair Inr frame by (simp_all add: AppendAndPublish_def snd_host_bind)
    moreover have "events (ho_db w') m = events (ho_db w) m @ publications m [x] \<and> 0 \<le> ev_Seq x"
    proof (cases "IsDurableEventType t")
      case True
      have "known (ho_db w) k" "ev_Seq x = nseq (ho_db w) k"
        using append_durable [OF call True] by blast+
      moreover have "num (ho_db w)" using ok by (simp add: run_ok_def)
      ultimately have "1 \<le> ev_Seq x" using numberedD(1) by metis
      then show ?thesis using append_durable [OF call True] by simp
    next
      case False
      then show ?thesis using append_ephemeral [OF call False] by simp
    qed
    ultimately show ?thesis using assms(2) by (simp add: mirrored_def)
  qed
qed

lemma mirrored_create:
  assumes "run_ok w" "mirrored m w"
  shows "mirrored m (snd (host_call (mr_CreateMeeting repo ws title src) w))"
proof -
  let ?e = "(ho_clock w (ho_calls w), ho_ids w (ho_calls w))"
  have new: "\<not> known (ho_db w) (''m_'' @ snd ?e)" using assms by (auto simp: run_ok_def)
  have "events (snd (mr_CreateMeeting repo ws title src ?e (ho_db w))) = events (ho_db w)"
  proof (cases "mr_CreateMeeting repo ws title src ?e (ho_db w)")
    case (Pair r db')
    then show ?thesis
      using created [OF _ new] create_failed [of ws title src ?e "ho_db w"] by (cases r) auto
  qed
  then show ?thesis
    using assms(2) host_call_db [of "mr_CreateMeeting repo ws title src" w] by (auto simp: mirrored_def)
qed

lemma mirrored_reset:
  assumes "mirrored m w" "k \<noteq> m"
  shows "mirrored m (snd (host_call (mr_ResetMeeting repo k) w))"
proof (rule mirrored_call [OF assms(1)])
  fix e
  show "events (snd (mr_ResetMeeting repo k e (ho_db w))) m = events (ho_db w) m"
  proof (cases "mr_ResetMeeting repo k e (ho_db w)")
    case (Pair r db')
    then show ?thesis
      using reset_done [of k e "ho_db w" _ db'] reset_failed [of k e "ho_db w"] assms(2) by (cases r) auto
  qed
qed

lemma mirrored_reads:
  assumes "mirrored m w"
  shows "mirrored m (snd (host_call (mr_ListEvents repo i k) w))"
    "mirrored m (snd (host_call (mr_GetMeeting repo i) w))"
    "mirrored m (snd (host_call (mr_ListMeetings repo ws) w))"
    "mirrored m (snd (host_call (mr_ListSegments repo i k) w))"
  using assms by (simp_all add: mirrored_call reads)

lemma mirrored_do:
  assumes "run_ok w" "mirrored m w" "a \<noteq> DoReset m"
  shows "mirrored m (meeting_do repo True a w)"
proof (cases a)
  case (DoCreate ws title src)
  then show ?thesis
    using assms by (auto simp: svc_CreateMeeting_def snd_host_bind mirrored_create ok_create
        mirrored_AppendAndPublish ok_AppendAndPublish mirrored_reads split: sum.split)
next
  case (DoEnd k)
  then show ?thesis
    using assms by (auto simp: EndMeeting_def snd_host_bind mirrored_AppendAndPublish ok_reads
        mirrored_reads split: sum.split)
next
  case (DoJoinToken k)
  then show ?thesis
    using mirrored_reads(2) [OF assms(2), of k]
    by (auto simp: CreateJoinToken_def snd_host_bind mirrored_def Let_def split: sum.split)
qed (use assms in \<open>simp_all add: mirrored_reset mirrored_reads mirrored_AppendAndPublish
      svc_ResetMeeting_def svc_ListEvents_def svc_ListSegments_def svc_ListMeetings_def
      svc_GetMeeting_def\<close>)

lemma mirrored_run:
  "run_ok w \<Longrightarrow> mirrored m w \<Longrightarrow> DoReset m \<notin> set acts \<Longrightarrow> mirrored m (meeting_run repo True acts w)"
  by (induction acts arbitrary: w) (auto simp: mirrored_do ok_do)

end

section \<open>In memory\<close>

definition mem_known :: "memlog \<Rightarrow> gostring \<Rightarrow> bool" where
  "mem_known db m \<longleftrightarrow> map_of (ml_meetings db) m \<noteq> None"

lemma mem_known_update [simp]:
  "mem_known (db\<lparr>ml_meetings := AList.update m x ms\<rparr>) = (mem_known (db\<lparr>ml_meetings := ms\<rparr>))(m := True)"
  by (rule ext) (simp add: mem_known_def update_conv')

lemma mem_known_frame [simp]:
  "mem_known (db\<lparr>ml_nextSeq := n\<rparr>) = mem_known db" "mem_known (db\<lparr>ml_events := e\<rparr>) = mem_known db"
  "mem_known (db\<lparr>ml_segments := g\<rparr>) = mem_known db"
  by (simp_all add: mem_known_def fun_eq_iff)

lemma mem_known_idem: "mem_known db m \<Longrightarrow> (mem_known db)(m := True) = mem_known db"
  by (simp add: fun_eq_iff)

lemma mem_appendSegment_frame [simp]:
  "ml_events (mem_appendSegment lib m n b e db) = ml_events db"
  "ml_nextSeq (mem_appendSegment lib m n b e db) = ml_nextSeq db"
  "mem_known (mem_appendSegment lib m n b e db) = mem_known db"
  by (simp_all add: mem_appendSegment_def split: option.split)

lemma mem_updateMeetingState_frame [simp]:
  "ml_events (mem_updateMeetingState lib m b e db) = ml_events db"
  "ml_nextSeq (mem_updateMeetingState lib m b e db) = ml_nextSeq db"
  "mem_known (mem_updateMeetingState lib m b e db) = mem_known db"
  by (auto simp: mem_updateMeetingState_def mem_known_def fun_eq_iff update_conv' split: option.split)

lemma mem_AppendEvent_Inl: "fst (mem_AppendEvent lib m t p e db) = Inl err \<Longrightarrow> snd (mem_AppendEvent lib m t p e db) = db"
  by (auto simp: mem_AppendEvent_def Let_def split: sum.splits)

lemma mem_AppendEvent_Inr:
  assumes "mem_AppendEvent lib m t p e db = (Inr x, db')"
  shows "mem_known db m" "ev_MeetingID x = m" "ev_Type x = t"
    "ev_Seq x = (if IsDurableEventType t then ml_nextSeq db m else 0)"
    "ml_events db' = (if IsDurableEventType t then (ml_events db)(m := ml_events db m @ [x]) else ml_events db)"
    "ml_nextSeq db' = (if IsDurableEventType t then (ml_nextSeq db)(m := ml_nextSeq db m + 1) else ml_nextSeq db)"
    "mem_known db' = mem_known db" "\<not> IsDurableEventType t \<Longrightarrow> db' = db"
  using assms
  by (auto simp: mem_AppendEvent_def mem_known_def [of db m] Let_def split: sum.splits if_splits)

interpretation memory: event_log "mem_meetings lib" mem_known ml_nextSeq ml_events for lib
proof (unfold_locales, goal_cases)
  case (1 m t p e db x db')
  then have "mem_AppendEvent lib m t p e db = (Inr x, db')" by (simp add: mem_meetings_def)
  from mem_AppendEvent_Inr [OF this] 1(2) show ?case by simp
next
  case (2 m t p e db x db')
  then have "mem_AppendEvent lib m t p e db = (Inr x, db')" by (simp add: mem_meetings_def)
  from mem_AppendEvent_Inr [OF this] 2(2) show ?case by simp
next
  case (3 m t p e db err)
  then show ?case by (simp add: mem_meetings_def mem_AppendEvent_Inl)
next
  case (4 ws title src e db mt db')
  then show ?case
    by (auto simp: mem_meetings_def mem_CreateMeeting_def new_meeting_def Let_def)
next
  case (6 m e db u db')
  then show ?case
    by (auto simp: mem_meetings_def mem_ResetMeeting_def mem_known_def fun_eq_iff update_conv'
        split: option.splits if_splits)
next
  case (8 db m k e xs db')
  then show ?case
    using numberedD(3) [OF 8(1), of m]
    by (auto simp: mem_meetings_def mem_ListEvents_def reading_def split: if_splits)
qed (auto simp: mem_meetings_def mem_CreateMeeting_def mem_ResetMeeting_def mem_ListEvents_def
      mem_GetMeeting_def mem_ListMeetings_def mem_ListSegments_def Let_def split: option.splits)

section \<open>PostgreSQL\<close>

definition pg_known :: "pglog \<Rightarrow> gostring \<Rightarrow> bool" where
  "pg_known db m \<longleftrightarrow> pg_row db m \<noteq> None"

definition pg_nseq :: "pglog \<Rightarrow> gostring \<Rightarrow> int" where
  "pg_nseq db m = (case pg_row db m of None \<Rightarrow> 1 | Some (_, n) \<Rightarrow> n)"

definition pg_events :: "pglog \<Rightarrow> gostring \<Rightarrow> Event list" where
  "pg_events db m = filter (\<lambda>x. ev_MeetingID x = m) (pl_events db)"

lemma pg_row_alt: "pg_row db k = find (\<lambda>r. mt_ID (fst r) = k) (pl_meetings db)"
  by (simp add: pg_row_def case_prod_unfold)

lemma pg_row_update:
  assumes "\<And>r. mt_ID (fst (f r)) = mt_ID (fst r)"
  shows "pg_row (pg_update_row m f db) k = (if k = m then map_option f (pg_row db k) else pg_row db k)"
proof -
  have rows: "pl_meetings (pg_update_row m f db) =
      update_where (\<lambda>r. mt_ID (fst r) = m) f (pl_meetings db)"
    by (simp add: pg_update_row_def case_prod_unfold)
  have "pg_row (pg_update_row m f db) k =
      map_option (\<lambda>r. if mt_ID (fst r) = m then f r else r) (pg_row db k)"
    unfolding pg_row_alt rows
    by (rule find_update_where_key [where key = "\<lambda>r. mt_ID (fst r)"]) (rule assms)
  then show ?thesis
    by (cases "pg_row db k") (auto simp: pg_row_alt dest: find_key_Some)
qed

lemma pg_row_frame [simp]:
  "pg_row (db\<lparr>pl_events := es\<rparr>) m = pg_row db m" "pg_row (db\<lparr>pl_segments := ss\<rparr>) m = pg_row db m"
  by (simp_all add: pg_row_def)

lemma pg_update_row_frame [simp]:
  "pl_events (pg_update_row m f db) = pl_events db" "pl_segments (pg_update_row m f db) = pl_segments db"
  by (simp_all add: pg_update_row_def)

lemma with_status_ID [simp]: "mt_ID (with_status s t m) = mt_ID m"
  by (simp add: with_status_def Let_def)

lemma pg_state_frame [simp]:
  "pl_events (pg_updateMeetingState lib m b t db) = pl_events db"
  "pg_known (pg_updateMeetingState lib m b t db) = pg_known db"
  "pg_nseq (pg_updateMeetingState lib m b t db) = pg_nseq db"
proof -
  have "pg_row (pg_update_row m (\<lambda>(x, n). (with_status s t x, n)) db) k =
    (if k = m then map_option (\<lambda>(x, n). (with_status s t x, n)) (pg_row db k) else pg_row db k)" for s k
    by (rule pg_row_update) (simp add: case_prod_beta)
  then show "pl_events (pg_updateMeetingState lib m b t db) = pl_events db"
    "pg_known (pg_updateMeetingState lib m b t db) = pg_known db"
    "pg_nseq (pg_updateMeetingState lib m b t db) = pg_nseq db"
    by (auto simp: pg_updateMeetingState_def pg_known_def pg_nseq_def fun_eq_iff split: option.split)
qed

lemma pg_segment_frame:
  assumes "pg_insertSegmentFromPayload lib m n b t db = Some db'"
  shows "pl_events db' = pl_events db" "pg_known db' = pg_known db" "pg_nseq db' = pg_nseq db"
  using assms
  by (auto simp: pg_insertSegmentFromPayload_def Let_def pg_known_def pg_nseq_def fun_eq_iff
      split: option.splits if_splits)

lemma pg_AppendEvent_Inl: "fst (pg_AppendEvent lib m t p e db) = Inl err \<Longrightarrow> snd (pg_AppendEvent lib m t p e db) = db"
  by (auto simp: pg_AppendEvent_def Let_def split: sum.splits option.splits if_splits prod.splits)

lemma pg_AppendEvent_durable:
  assumes "pg_AppendEvent lib m t p e db = (Inr x, db')" "IsDurableEventType t"
  shows "pg_known db m \<and> ev_Seq x = pg_nseq db m \<and> ev_MeetingID x = m \<and> ev_Type x = t \<and>
    pl_events db' = pl_events db @ [x] \<and> pg_nseq db' = (pg_nseq db)(m := pg_nseq db m + 1) \<and>
    pg_known db' = pg_known db"
proof -
  from assms obtain bytes mt seq db2 db4 where *:
    "pg_row db m = Some (mt, seq)" "ev_Seq x = seq" "ev_MeetingID x = m" "ev_Type x = t"
    and db2: "db2 = (pg_update_row m (\<lambda>(a, n). (a\<lparr>mt_UpdatedAt := rfc3339 (fst e)\<rparr>, n + 1)) db)\<lparr>pl_events := pl_events db @ [x]\<rparr>"
    and db4: "(if t = EventTranscriptFinal then pg_insertSegmentFromPayload lib m seq bytes (rfc3339 (fst e)) db2
      else Some db2) = Some db4"
    and db': "db' = (if t = EventMeetingState then pg_updateMeetingState lib m bytes (rfc3339 (fst e)) db4 else db4)"
    by (auto simp: pg_AppendEvent_def Let_def split: sum.splits option.splits if_splits prod.splits)
  have "pl_events db4 = pl_events db2" "pg_known db4 = pg_known db2" "pg_nseq db4 = pg_nseq db2"
    using db4 pg_segment_frame by (auto split: if_splits)
  then have 4: "pl_events db' = pl_events db2" "pg_known db' = pg_known db2" "pg_nseq db' = pg_nseq db2"
    by (simp_all add: db')
  have "pg_row db2 k = (if k = m then map_option (\<lambda>(a, n). (a\<lparr>mt_UpdatedAt := rfc3339 (fst e)\<rparr>, n + 1)) (pg_row db k)
      else pg_row db k)" for k
    unfolding db2 pg_row_frame by (rule pg_row_update) (simp add: case_prod_beta)
  then have "pg_known db2 = pg_known db" "pg_nseq db2 = (pg_nseq db)(m := pg_nseq db m + 1)"
    using *(1) by (auto simp: pg_known_def pg_nseq_def fun_eq_iff)
  with * 4 show ?thesis by (simp add: pg_known_def pg_nseq_def db2)
qed

lemma pg_AppendEvent_ephemeral:
  "pg_AppendEvent lib m t p e db = (Inr x, db') \<Longrightarrow> \<not> IsDurableEventType t \<Longrightarrow>
   db' = db \<and> ev_Seq x = 0 \<and> ev_MeetingID x = m"
  by (auto simp: pg_AppendEvent_def Let_def split: sum.splits)

lemma pg_ResetMeeting_done:
  assumes "pg_ResetMeeting m e db = (Inr u, db')"
  shows "pg_known db m \<and> pg_events db' = (pg_events db)(m := []) \<and>
    pg_nseq db' = (pg_nseq db)(m := 1) \<and> pg_known db' = pg_known db"
proof -
  let ?f = "\<lambda>(x, n::int). (x\<lparr>mt_Status := ''created'', mt_EndedAt := None, mt_UpdatedAt := rfc3339 (fst e)\<rparr>, 1::int)"
  let ?db = "db\<lparr>pl_segments := filter (\<lambda>s. sg_MeetingID s \<noteq> m) (pl_segments db),
    pl_events := filter (\<lambda>x. ev_MeetingID x \<noteq> m) (pl_events db)\<rparr>"
  have known: "pg_row db m \<noteq> None" and db': "db' = pg_update_row m ?f ?db"
    using assms by (auto simp: pg_ResetMeeting_def split: if_splits)
  have "pg_row db' k = (if k = m then map_option ?f (pg_row ?db k) else pg_row ?db k)" for k
    unfolding db' by (rule pg_row_update) (simp add: case_prod_beta)
  then have "pg_nseq db' = (pg_nseq db)(m := 1)" "pg_known db' = pg_known db"
    using known by (auto simp: pg_known_def pg_nseq_def fun_eq_iff split: option.split prod.split)
  moreover have "pg_events db' = (pg_events db)(m := [])"
    by (auto simp: pg_events_def db' fun_eq_iff filter_empty_conv intro!: filter_cong)
  ultimately show ?thesis using known by (simp add: pg_known_def)
qed

lemma pg_listed:
  assumes "numbered pg_known pg_nseq pg_events db"
  shows "order_by (\<lambda>a b. ev_Seq a < ev_Seq b)
      (filter (\<lambda>x. ev_MeetingID x = m \<and> k < ev_Seq x) (pl_events db)) =
    filter (\<lambda>x. k < ev_Seq x) (pg_events db m)"
proof -
  have "sorted (map ev_Seq (pg_events db m))"
    using numberedD(2,3) [OF assms, of m] by (cases "pg_known db m") simp_all
  then have "sorted_wrt (\<lambda>a b. \<not> ev_Seq b < ev_Seq a) (pg_events db m)"
    by (simp add: sorted_map not_less)
  then have "sorted_wrt (\<lambda>a b. \<not> ev_Seq b < ev_Seq a) (filter (\<lambda>x. k < ev_Seq x) (pg_events db m))"
    by (rule sorted_wrt_filter)
  moreover have "filter (\<lambda>x. ev_MeetingID x = m \<and> k < ev_Seq x) (pl_events db) =
      filter (\<lambda>x. k < ev_Seq x) (pg_events db m)"
    by (auto simp: pg_events_def intro!: filter_cong)
  ultimately show ?thesis by (simp add: order_by_sorted)
qed

interpretation postgres: event_log "pg_meetings lib" pg_known pg_nseq pg_events for lib
proof (unfold_locales, goal_cases)
  case (1 m t p e db x db')
  then have "pg_AppendEvent lib m t p e db = (Inr x, db')" by (simp add: pg_meetings_def)
  from pg_AppendEvent_durable [OF this 1(2)] show ?case by (auto simp: pg_events_def fun_eq_iff)
next
  case (2 m t p e db x db')
  then show ?case by (simp add: pg_meetings_def pg_AppendEvent_ephemeral)
next
  case (3 m t p e db err)
  then show ?case by (simp add: pg_meetings_def pg_AppendEvent_Inl)
next
  case (4 ws title src e db mt db')
  then show ?case
    by (auto simp: pg_meetings_def pg_CreateMeeting_def new_meeting_def Let_def pg_known_def pg_nseq_def
        pg_events_def pg_row_alt find_key_append fun_eq_iff split: if_splits option.splits)
next
  case (6 m e db u db')
  then show ?case by (simp add: pg_meetings_def pg_ResetMeeting_done)
next
  case (8 db m k e xs db')
  then show ?case
    using pg_listed [OF 8(1)] by (auto simp: pg_meetings_def pg_ListEvents_def reading_def)
qed (auto simp: pg_meetings_def pg_CreateMeeting_def pg_ResetMeeting_def pg_ListEvents_def
      pg_GetMeeting_def pg_ListMeetings_def pg_ListSegments_def Let_def split: if_splits)

end
