(* ===== verification/Realtime.thy ===== *)
theory Realtime
  imports MeetingEvents
begin

text \<open>
  The hub of meeting events of package \<open>internal/adapter/realtime\<close> (\<open>hub.go\<close>, \<open>client.go\<close>,
  \<open>handler.go\<close>, \<open>protocol.go\<close>).

  A client is its subscription, its send channel (the list, oldest first), the last sequence
  number written and what was written to its connection.  A hub is the list of its clients, told
  apart by \<open>cl_id\<close> (the Go pointer); the map of rooms is the partition of that list by meeting.
  The goroutines of a client are the operations \<open>enqueue\<close> (from any publisher), \<open>writeCatchUp\<close> and
  the receiving case of \<open>writeLoop\<close>; pings, reads and the encoding of messages are left out.
\<close>

section \<open>The send channel\<close>

definition send_capacity :: nat where "send_capacity = 128"

text \<open>
  \<open>enqueue\<close>: a full channel loses its oldest element.  (Between the receive and the second send
  another publisher may fill the channel again; that send then waits for the writer.)
\<close>

definition push_dropping_oldest :: "'a \<Rightarrow> 'a list \<Rightarrow> 'a list" where
  "push_dropping_oldest x q = (if length q < send_capacity then q @ [x] else tl q @ [x])"

lemma length_push: "length q \<le> send_capacity \<Longrightarrow> length (push_dropping_oldest x q) \<le> send_capacity"
  by (cases q) (auto simp: push_dropping_oldest_def send_capacity_def)

section \<open>Clients of the meeting hub\<close>

record client =
  cl_id :: nat
  cl_meetingID :: gostring
  cl_workspaceID :: gostring
  cl_userID :: gostring
  cl_sessionID :: gostring
  cl_send :: "Event list"
  cl_lastSeq :: int
  cl_written :: "Event list"
  cl_closed :: bool

definition newClient ::
    "nat \<Rightarrow> gostring \<Rightarrow> gostring \<Rightarrow> gostring \<Rightarrow> gostring \<Rightarrow> int \<Rightarrow> client" where
  "newClient i meetingID workspaceID userID sessionID lastSeq =
     \<lparr>cl_id = i, cl_meetingID = meetingID, cl_workspaceID = workspaceID, cl_userID = userID,
      cl_sessionID = sessionID, cl_send = [], cl_lastSeq = lastSeq, cl_written = [], cl_closed = False\<rparr>"

definition enqueue :: "Event \<Rightarrow> client \<Rightarrow> client" where
  "enqueue event c = c\<lparr>cl_send := push_dropping_oldest event (cl_send c)\<rparr>"

text \<open>\<open>writeEvent\<close> on a connection that takes the write (\<open>up\<close>) or fails.\<close>

definition writeEvent :: "bool \<Rightarrow> Event \<Rightarrow> client \<Rightarrow> bool \<times> client" where
  "writeEvent up event c =
     (if 0 < ev_Seq event \<and> ev_Seq event \<le> cl_lastSeq c then (True, c)
      else
        (let c' = (if cl_lastSeq c < ev_Seq event then c\<lparr>cl_lastSeq := ev_Seq event\<rparr> else c) in
         if up then (True, c'\<lparr>cl_written := cl_written c' @ [event]\<rparr>) else (False, c')))"

fun writeCatchUp :: "bool \<Rightarrow> Event list \<Rightarrow> client \<Rightarrow> bool \<times> client" where
  "writeCatchUp up [] c = (True, c)"
| "writeCatchUp up (e # es) c =
     (case writeEvent up e c of (False, c') \<Rightarrow> (False, c') | (True, c') \<Rightarrow> writeCatchUp up es c')"

text \<open>One receive of \<open>writeLoop\<close>; after a failed write the loop returns (\<open>False\<close>).\<close>

definition write_next :: "bool \<Rightarrow> client \<Rightarrow> bool \<times> client" where
  "write_next up c =
     (case cl_send c of [] \<Rightarrow> (True, c) | e # q \<Rightarrow> writeEvent up e (c\<lparr>cl_send := q\<rparr>))"

section \<open>The meeting hub\<close>

type_synonym hub = "client list"

definition Publish :: "Event \<Rightarrow> hub \<Rightarrow> hub" where
  "Publish event h = map (\<lambda>c. if cl_meetingID c = ev_MeetingID event then enqueue event c else c) h"

definition subscribe :: "client \<Rightarrow> hub \<Rightarrow> hub" where
  "subscribe c h = (if cl_id c \<in> set (map cl_id h) then h else h @ [c])"

definition unsubscribe :: "client \<Rightarrow> hub \<Rightarrow> hub" where
  "unsubscribe c h = filter (\<lambda>x. cl_id x \<noteq> cl_id c) h"

definition closeMatching :: "(client \<Rightarrow> bool) \<Rightarrow> hub \<Rightarrow> hub" where
  "closeMatching matches h = map (\<lambda>c. if matches c then c\<lparr>cl_closed := True\<rparr> else c) h"

definition CloseSession :: "gostring \<Rightarrow> hub \<Rightarrow> hub" where
  "CloseSession sessionID = closeMatching (\<lambda>c. cl_sessionID c = sessionID)"

definition CloseWorkspaceMember :: "gostring \<Rightarrow> gostring \<Rightarrow> hub \<Rightarrow> hub" where
  "CloseWorkspaceMember workspaceID userID =
     closeMatching (\<lambda>c. cl_workspaceID c = workspaceID \<and> cl_userID c = userID)"

section \<open>The handshake\<close>

record clientHello =
  hl_Type :: gostring
  hl_MeetingID :: gostring
  hl_LastSeq :: int

text \<open>\<open>readHello\<close>: the first frame within three seconds, decoded, or nothing.\<close>

definition readHello :: "clientHello option \<Rightarrow> gostring \<Rightarrow> int option" where
  "readHello frame meetingID =
     (case frame of
        None \<Rightarrow> None
      | Some hello \<Rightarrow>
          if hl_Type hello \<noteq> ''client.hello'' \<or> hl_MeetingID hello \<noteq> meetingID then None
          else Some (hl_LastSeq hello))"

definition parseSeq :: "gostring \<Rightarrow> int" where
  "parseSeq value =
     (if value = [] then 0
      else (case parse_int64 value of None \<Rightarrow> 0 | Some n \<Rightarrow> if n < 0 then 0 else n))"

record ws_request =
  wr_meeting_id :: gostring
  wr_last_seq :: gostring
  wr_identity :: "(gostring \<times> gostring) option"
  wr_upgrade :: "gostring option"
  wr_hello :: "clientHello option"

datatype http_error = HttpError int gostring gostring

text \<open>
  \<open>ServeWS\<close> up to the subscription: the errors it answers with, or the new client.  \<open>wr_upgrade\<close>
  is the error of \<open>accept\<close>, if any.
\<close>

definition ServeWS_open :: "nat \<Rightarrow> Meeting result \<Rightarrow> ws_request \<Rightarrow> http_error + client" where
  "ServeWS_open i meeting r =
     (if wr_meeting_id r = [] then Inl (HttpError 400 ''invalid_request'' ''missing meeting_id'')
      else (case meeting of
          Inl err \<Rightarrow> Inl (HttpError (if is_not_found err then 404 else 500)
                        ''meeting_not_found'' ''meeting not found'')
        | Inr m \<Rightarrow>
            (case wr_identity r of
               None \<Rightarrow> Inl (HttpError 401 ''unauthorized'' ''unauthorized'')
             | Some (userID, sessionID) \<Rightarrow>
                 (case wr_upgrade r of
                    Some msg \<Rightarrow> Inl (HttpError 400 ''websocket_upgrade_failed'' msg)
                  | None \<Rightarrow>
                      (let lastSeq = (case readHello (wr_hello r) (wr_meeting_id r) of
                             Some s \<Rightarrow> s | None \<Rightarrow> parseSeq (wr_last_seq r)) in
                       Inr (newClient i (wr_meeting_id r) (mt_WorkspaceID m) userID sessionID lastSeq))))))"

text \<open>What can happen to a subscribed client: a publication, the catch-up, a receive of the writer.\<close>

datatype client_action = Enqueue Event | CatchUp "Event list" | WriteNext

fun client_do :: "client_action \<Rightarrow> client \<Rightarrow> client" where
  "client_do (Enqueue e) c = enqueue e c"
| "client_do (CatchUp es) c = snd (writeCatchUp True es c)"
| "client_do WriteNext c = snd (write_next True c)"

definition client_run :: "client_action list \<Rightarrow> client \<Rightarrow> client" where
  "client_run acts c = foldl (\<lambda>c a. client_do a c) c acts"

section \<open>Facts on one client\<close>

lemma writeEvent_True:
  "writeEvent True e c = (True,
     if 0 < ev_Seq e \<and> ev_Seq e \<le> cl_lastSeq c then c
     else c\<lparr>cl_lastSeq := max (cl_lastSeq c) (ev_Seq e), cl_written := cl_written c @ [e]\<rparr>)"
  by (simp add: writeEvent_def Let_def max_def)

lemma writeCatchUp_True: "writeCatchUp True es c = (True, foldl (\<lambda>c e. snd (writeEvent True e c)) c es)"
  by (induction es arbitrary: c) (simp_all add: writeEvent_True)

text \<open>Durable events go out in increasing order, each once.\<close>

abbreviation written_durable :: "client \<Rightarrow> Event list" where
  "written_durable c \<equiv> filter (\<lambda>e. 0 < ev_Seq e) (cl_written c)"

definition in_order :: "int \<Rightarrow> client \<Rightarrow> bool" where
  "in_order k c \<longleftrightarrow> k \<le> cl_lastSeq c \<and> sorted_wrt (<) (map ev_Seq (written_durable c)) \<and>
     (\<forall>e \<in> set (written_durable c). k < ev_Seq e \<and> ev_Seq e \<le> cl_lastSeq c)"

lemma in_order_write: "in_order k c \<Longrightarrow> in_order k (snd (writeEvent True e c))"
  by (auto simp: in_order_def writeEvent_True sorted_wrt_append)

lemma in_order_send [simp]: "in_order k (c\<lparr>cl_send := q\<rparr>) = in_order k c"
  by (simp add: in_order_def)

lemma in_order_do: "in_order k c \<Longrightarrow> in_order k (client_do a c)"
proof (cases a)
  case (CatchUp es)
  assume "in_order k c"
  then have "in_order k (foldl (\<lambda>c e. snd (writeEvent True e c)) c es)"
    by (induction es arbitrary: c) (simp_all add: in_order_write)
  then show ?thesis by (simp add: CatchUp writeCatchUp_True)
qed (auto simp: enqueue_def write_next_def in_order_write split: list.split)

lemma client_run_Nil [simp]: "client_run [] c = c"
  by (simp add: client_run_def)

lemma client_run_Cons [simp]: "client_run (a # as) c = client_run as (client_do a c)"
  by (simp add: client_run_def)

lemma client_run_append: "client_run (as @ bs) c = client_run bs (client_run as c)"
  by (simp add: client_run_def)

lemma in_order_run: "in_order k c \<Longrightarrow> in_order k (client_run acts c)"
  by (induction acts arbitrary: c) (simp_all add: in_order_do)

end
