(* ===== verification/WebSocket.thy ===== *)
theory WebSocket
  imports SessionRules "HOL-Library.Word"
begin

text \<open>
  The frame codec of \<open>internal/adapter/realtime/websocket.go\<close> on bytes (\<open>8 word\<close>) with the length
  in a \<open>64 word\<close>, as in Go.  A connection is the list of bytes still to be read; \<open>io.ReadFull\<close>
  fails when it ends too early.  \<open>client_frame\<close> is the masked frame RFC 6455 has a client send: the
  reference the reader is compared with.
\<close>

unbundle bit_operations_syntax

type_synonym byte = "8 word"

datatype frame_error = FrameShort | FrameTooLarge

definition opText :: byte where "opText = 0x1"
definition opClose :: byte where "opClose = 0x8"
definition opPing :: byte where "opPing = 0x9"
definition opPong :: byte where "opPong = 0xA"

section \<open>Reading\<close>

definition read_full :: "nat \<Rightarrow> byte list \<Rightarrow> (byte list \<times> byte list) option" where
  "read_full n bs = (if n \<le> length bs then Some (take n bs, drop n bs) else None)"

definition big_endian :: "byte list \<Rightarrow> 64 word" where
  "big_endian bs = foldl (\<lambda>a b. push_bit 8 a OR ucast b) 0 bs"

definition read_length :: "byte \<Rightarrow> byte list \<Rightarrow> (64 word \<times> byte list) option" where
  "read_length b1 bs =
     (let len = (ucast (b1 AND 0x7F) :: 64 word) in
      if len = 126 then map_option (\<lambda>(ext, r). (big_endian ext, r)) (read_full 2 bs)
      else if len = 127 then map_option (\<lambda>(ext, r). (big_endian ext, r)) (read_full 8 bs)
      else Some (len, bs))"

definition unmask :: "byte list \<Rightarrow> byte list \<Rightarrow> byte list" where
  "unmask mkey payload = map (\<lambda>i. payload ! i XOR mkey ! (i mod 4)) [0..<length payload]"

definition max_frame :: "64 word" where "max_frame = push_bit 20 1"

definition readFrame :: "byte list \<Rightarrow> frame_error + (byte \<times> byte list \<times> byte list)" where
  "readFrame bs =
     (case read_full 2 bs of
        None \<Rightarrow> Inl FrameShort
      | Some (header, r0) \<Rightarrow>
          (let opcode = header ! 0 AND 0x0F; masked = (header ! 1 AND 0x80 \<noteq> 0) in
           case read_length (header ! 1) r0 of
             None \<Rightarrow> Inl FrameShort
           | Some (len, r1) \<Rightarrow>
               if max_frame < len then Inl FrameTooLarge
               else
                 (case (if masked then read_full 4 r1 else Some ([], r1)) of
                    None \<Rightarrow> Inl FrameShort
                  | Some (mkey, r2) \<Rightarrow>
                      (case read_full (unat len) r2 of
                         None \<Rightarrow> Inl FrameShort
                       | Some (payload, r3) \<Rightarrow>
                           Inr (opcode, if masked then unmask mkey payload else payload, r3)))))"

section \<open>Writing\<close>

definition put_uint64 :: "64 word \<Rightarrow> byte list" where
  "put_uint64 v = map (\<lambda>i. ucast (drop_bit (8 * i) v)) [7, 6, 5, 4, 3, 2, 1, 0]"

definition length_bytes :: "nat \<Rightarrow> byte list" where
  "length_bytes n =
     (if n < 126 then [of_nat n]
      else if n \<le> 65535 then [126, of_nat (n div 256), of_nat n]
      else 127 # put_uint64 (of_nat n))"

definition writeFrame :: "byte \<Rightarrow> byte list \<Rightarrow> byte list" where
  "writeFrame opcode payload = (0x80 OR opcode) # length_bytes (length payload) @ payload"

definition writePing :: "byte list" where
  "writePing = writeFrame opPing (map (\<lambda>c. of_nat (of_char c)) ''ping'')"

definition writePong :: "byte list \<Rightarrow> byte list" where
  "writePong payload = writeFrame opPong payload"

definition client_frame :: "byte \<Rightarrow> byte list \<Rightarrow> byte list \<Rightarrow> byte list" where
  "client_frame opcode mkey payload =
     (0x80 OR opcode) # (hd (length_bytes (length payload)) OR 0x80) #
       tl (length_bytes (length payload)) @ mkey @ unmask mkey payload"

section \<open>The upgrade request\<close>

text \<open>
  \<open>accept\<close>: the three headers it reads, whether the response writer can be hijacked (and the
  error if not), whether the answer could be written.  \<open>accept_key\<close> is \<open>computeAcceptKey\<close>, a SHA-1
  digest in base 64.
\<close>

record upgrade_request =
  up_Connection :: gostring
  up_Upgrade :: gostring
  up_Key :: gostring
  up_can_hijack :: bool
  up_io_error :: "gostring option"

definition headerContains :: "gostring \<Rightarrow> gostring \<Rightarrow> bool" where
  "headerContains header v \<longleftrightarrow> list_ex (\<lambda>part. equal_fold (trim_space part) v) (split_on (CHR '','') header)"

definition crlf :: gostring where "crlf = [CHR 0x0D, CHR 0x0A]"

definition accept :: "(gostring \<Rightarrow> gostring) \<Rightarrow> upgrade_request \<Rightarrow> gostring + gostring" where
  "accept accept_key r =
     (if \<not> headerContains (up_Connection r) ''upgrade'' \<or> \<not> equal_fold (up_Upgrade r) ''websocket''
      then Inl ''not a websocket upgrade''
      else if up_Key r = [] then Inl ''missing Sec-WebSocket-Key''
      else if \<not> up_can_hijack r then Inl ''websocket hijacking is not supported''
      else (case up_io_error r of
          Some err \<Rightarrow> Inl err
        | None \<Rightarrow> Inr (''HTTP/1.1 101 Switching Protocols'' @ crlf @ ''Upgrade: websocket'' @ crlf @
            ''Connection: Upgrade'' @ crlf @ ''Sec-WebSocket-Accept: '' @ accept_key (up_Key r) @ crlf @ crlf)))"

section \<open>Round trips\<close>

lemma byte_step: "push_bit 8 (drop_bit 8 w) OR ucast (ucast w :: byte) = (w :: 64 word)"
  by (rule bit_word_eqI) (auto simp: bit_simps)

lemma byte_step_at:
  "push_bit 8 (drop_bit (n + 8) v) OR ucast (ucast (drop_bit n v) :: byte) = (drop_bit n v :: 64 word)"
  using byte_step [of "drop_bit n v"] by (simp add: drop_bit_drop_bit add.commute)

lemma big_endian_put: "big_endian (put_uint64 v) = v"
proof -
  have "drop_bit 64 v = 0" by (rule bit_word_eqI) (auto simp: bit_simps)
  then show ?thesis
    using byte_step_at [of 56 v] byte_step_at [of 48 v] byte_step_at [of 40 v] byte_step_at [of 32 v]
      byte_step_at [of 24 v] byte_step_at [of 16 v] byte_step_at [of 8 v] byte_step_at [of 0 v]
    by (simp add: big_endian_def put_uint64_def)
qed

lemma high_byte: "n \<le> 65535 \<Longrightarrow> (of_nat (n div 256) :: byte) = ucast (drop_bit 8 (of_nat n :: 64 word))"
  by (simp add: word_unat_eq_iff unat_drop_bit_eq unsigned_ucast_eq unsigned_of_nat
      take_bit_eq_mod drop_bit_eq_div unat_div_distrib)

lemma low_byte: "(of_nat n :: byte) = ucast (of_nat n :: 64 word)"
  by (simp add: word_unat_eq_iff unsigned_ucast_eq unsigned_of_nat)

lemma big_endian_low:
  assumes "drop_bit 16 v = 0"
  shows "big_endian [ucast (drop_bit 8 v), ucast v] = v"
  using assms byte_step_at [of 8 v] byte_step_at [of 0 v] by (simp add: big_endian_def)

lemma big_endian_2:
  assumes "n \<le> 65535"
  shows "big_endian [of_nat (n div 256), of_nat n] = of_nat n"
proof -
  have "drop_bit 16 (of_nat n :: 64 word) = 0"
    using assms by (simp add: word_unat_eq_iff unat_drop_bit_eq unsigned_of_nat take_bit_eq_mod drop_bit_eq_div
        unat_div_distrib)
  from big_endian_low [OF this] show ?thesis
    unfolding high_byte [OF assms] low_byte [of n] .
qed

lemma and_7F: "(b AND 0x7F :: byte) = take_bit 7 b"
  by (simp add: take_bit_eq_mask mask_eq_exp_minus_1)

lemma length_byte: "n < 126 \<Longrightarrow> ucast (of_nat n AND 0x7F :: byte) = (of_nat n :: 64 word)"
  by (simp add: and_7F word_unat_eq_iff unsigned_ucast_eq unsigned_take_bit_eq unsigned_of_nat
      take_bit_eq_mod unat_mod_distrib)

lemma unmask_unmask: "length mkey = 4 \<Longrightarrow> unmask mkey (unmask mkey p) = p"
  by (rule nth_equalityI) (simp_all add: unmask_def xor.assoc)

text \<open>The length field, with or without the mask bit.\<close>

lemma with_mask_bit: "((b OR 0x80) AND 0x7F :: byte) = b AND 0x7F"
  by (simp add: and_7F take_bit_or)

lemma length_bytes_not_Nil [simp]: "length_bytes n \<noteq> []"
  by (simp add: length_bytes_def)

lemma read_length_bytes:
  assumes "n < 2 ^ 64" "b AND 0x7F = hd (length_bytes n) AND 0x7F"
  shows "read_length b (tl (length_bytes n) @ r) = Some (of_nat n, r)"
proof -
  consider "n < 126" | "126 \<le> n" "n \<le> 65535" | "65535 < n" by linarith
  then show ?thesis
  proof cases
    case 1
    then have "ucast (b AND 0x7F) = (of_nat n :: 64 word)"
      using assms(2) length_byte [OF 1] by (simp add: length_bytes_def)
    moreover have "(of_nat n :: 64 word) \<noteq> 126" "(of_nat n :: 64 word) \<noteq> 127"
      using 1 by (simp_all add: word_unat_eq_iff unsigned_of_nat take_bit_eq_mod)
    ultimately show ?thesis using 1 by (simp add: read_length_def length_bytes_def)
  next
    case 2
    then show ?thesis
      using assms(2) big_endian_2 [OF 2(2)]
      by (simp add: read_length_def length_bytes_def read_full_def and_7F)
  next
    case 3
    have "length (put_uint64 (of_nat n)) = 8" by (simp add: put_uint64_def)
    then show ?thesis
      using 3 assms(2) big_endian_put [of "of_nat n"]
      by (simp add: read_length_def length_bytes_def read_full_def and_7F)
  qed
qed

lemma opcode_byte: "(0x80 OR opcode) AND 0x0F = (opcode AND 0x0F :: byte)"
  by (simp add: bit.conj_disj_distrib2)

lemma bit_128: "(0x80 :: byte) = push_bit 7 1"
  by simp

lemma unmasked_bit: "hd (length_bytes n) AND 0x80 = 0"
proof -
  have "(of_nat n AND 0x80 :: byte) = 0" if "n < 126"
  proof -
    have "(of_nat n :: byte) = take_bit 7 (of_nat n)"
      using that by (simp add: word_unat_eq_iff unsigned_take_bit_eq unsigned_of_nat take_bit_eq_mod unat_mod_distrib)
    then have "(of_nat n :: byte) AND 0x80 = take_bit 7 (of_nat n) AND push_bit 7 1" by simp
    also have "\<dots> = 0" unfolding bit_128 by (rule bit_word_eqI) (auto simp: bit_simps simp del: push_bit_of_1 push_bit_numeral)
    finally show ?thesis .
  qed
  then show ?thesis by (simp add: length_bytes_def)
qed

lemma masked_bit: "(b OR 0x80) AND 0x80 = (0x80 :: byte)"
  by (simp add: bit.conj_disj_distrib2 and.commute)

lemma read_full_append: "read_full n (p @ r) = Some (p, r)" if "length p = n"
  using that by (simp add: read_full_def)

lemma length_unmask [simp]: "length (unmask mkey p) = length p"
  by (simp add: unmask_def)

lemma frame_fits: "n \<le> 2 ^ 20 \<Longrightarrow> \<not> max_frame < of_nat n"
  by (simp add: max_frame_def word_less_nat_alt unsigned_of_nat take_bit_eq_mod)

lemma frame_too_large: "\<lbrakk>2 ^ 20 < n; n < 2 ^ 64\<rbrakk> \<Longrightarrow> max_frame < of_nat n"
  by (simp add: max_frame_def word_less_nat_alt unsigned_of_nat take_bit_eq_mod)

lemma unat_length: "n < 2 ^ 64 \<Longrightarrow> unat (of_nat n :: 64 word) = n"
  by (simp add: unsigned_of_nat take_bit_eq_mod)

text \<open>The reader on a frame whose length field is \<open>length_bytes\<close>, with or without the mask bit.\<close>

lemma read_header: "read_full 2 (a # b # r) = Some ([a, b], r)"
  by (simp add: read_full_def)

lemma readFrame_written:
  assumes "length p < 2 ^ 64"
  shows "readFrame (writeFrame opcode p @ r) =
    (if 2 ^ 20 < length p then Inl FrameTooLarge else Inr (opcode AND 0x0F, p, r))"
proof -
  let ?lb = "length_bytes (length p)"
  have "writeFrame opcode p @ r = (0x80 OR opcode) # hd ?lb # tl ?lb @ p @ r"
    by (simp add: writeFrame_def)
  moreover have "read_length (hd ?lb) (tl ?lb @ p @ r) = Some (of_nat (length p), p @ r)"
    by (rule read_length_bytes [OF assms refl])
  ultimately show ?thesis
    using frame_fits [of "length p"] frame_too_large [of "length p"] assms
    by (simp add: readFrame_def read_header opcode_byte unmasked_bit unat_length read_full_append)
qed

lemma readFrame_masked:
  assumes "length p < 2 ^ 64" "length mkey = 4"
  shows "readFrame (client_frame opcode mkey p @ r) =
    (if 2 ^ 20 < length p then Inl FrameTooLarge else Inr (opcode AND 0x0F, p, r))"
proof -
  let ?lb = "length_bytes (length p)"
  have "client_frame opcode mkey p @ r =
      (0x80 OR opcode) # (hd ?lb OR 0x80) # tl ?lb @ (mkey @ unmask mkey p @ r)"
    by (simp add: client_frame_def)
  moreover have "read_length (hd ?lb OR 0x80) (tl ?lb @ (mkey @ unmask mkey p @ r)) =
      Some (of_nat (length p), mkey @ unmask mkey p @ r)"
    by (rule read_length_bytes [OF assms(1) with_mask_bit])
  ultimately show ?thesis
    using frame_fits [of "length p"] frame_too_large [of "length p"] assms
    by (simp add: readFrame_def read_header opcode_byte masked_bit unat_length read_full_append
        unmask_unmask)
qed

section \<open>The read loop\<close>

lemma read_full_SomeD: "read_full n bs = Some (p, r) \<Longrightarrow> length p = n \<and> bs = p @ r"
  by (auto simp: read_full_def split: if_splits)

lemma read_length_SomeD: "read_length b bs = Some (n, r) \<Longrightarrow> \<exists>p. bs = p @ r"
  by (auto simp: read_length_def Let_def dest!: read_full_SomeD split: if_splits)

text \<open>What a frame that was read consumed, and how much it can hold.\<close>

lemma readFrame_InrD:
  assumes "readFrame bs = Inr (opcode, p, r)"
  shows "opcode AND 0x0F = opcode \<and> length p \<le> 2 ^ 20 \<and> (\<exists>h. 2 \<le> length h \<and> bs = h @ r)"
proof -
  obtain header r0 len r1 mkey r2 payload where
    h: "read_full 2 bs = Some (header, r0)" and l: "read_length (header ! 1) r0 = Some (len, r1)"
    and small: "\<not> max_frame < len"
    and m: "(if header ! 1 AND 0x80 \<noteq> 0 then read_full 4 r1 else Some ([], r1)) = Some (mkey, r2)"
    and q: "read_full (unat len) r2 = Some (payload, r)"
    and o: "opcode = header ! 0 AND 0x0F"
    and p: "p = (if header ! 1 AND 0x80 \<noteq> 0 then unmask mkey payload else payload)"
    using assms by (auto simp: readFrame_def Let_def split: option.splits if_splits)
  have "unat len \<le> 2 ^ 20" using small by (simp add: max_frame_def word_less_nat_alt)
  moreover have len: "length payload = unat len" "r2 = payload @ r" using read_full_SomeD [OF q] by simp_all
  ultimately have "length p \<le> 2 ^ 20" "length p = length payload" using p by simp_all
  moreover obtain lb where "r0 = lb @ r1" using read_length_SomeD [OF l] by blast
  moreover have "r1 = mkey @ r2" using m by (auto dest: read_full_SomeD split: if_splits)
  ultimately show ?thesis
    using read_full_SomeD [OF h] len o
    by (intro conjI exI [of _ "header @ lb @ mkey @ payload"]) (simp_all add: and.assoc)
qed

text \<open>\<open>readLoop\<close> of \<open>client.go\<close>: what it writes (a pong for each ping) until a close or a read error.\<close>

function readLoop :: "byte list \<Rightarrow> byte list" where
  "readLoop bs =
     (case readFrame bs of
        Inl err \<Rightarrow> []
      | Inr (opcode, payload, rest) \<Rightarrow>
          if opcode = opClose then []
          else if opcode = opPing then writePong payload @ readLoop rest
          else readLoop rest)"
  by auto
termination
proof (relation "measure length", goal_cases)
  case (2 bs q opcode y payload rest)
  then show ?case using readFrame_InrD [of bs opcode payload rest] by auto
next
  case (3 bs q opcode y payload rest)
  then show ?case using readFrame_InrD [of bs opcode payload rest] by auto
qed simp

declare readLoop.simps [simp del]

text \<open>A stream of masked frames and the pongs it deserves.\<close>

type_synonym sent_frame = "byte \<times> byte list \<times> byte list"

definition sent_ok :: "sent_frame \<Rightarrow> bool" where
  "sent_ok f \<longleftrightarrow> fst f AND 0x0F = fst f \<and> fst f \<noteq> opClose \<and> length (fst (snd f)) = 4 \<and>
     length (snd (snd f)) \<le> 2 ^ 20"

definition sent_bytes :: "sent_frame \<Rightarrow> byte list" where
  "sent_bytes f = client_frame (fst f) (fst (snd f)) (snd (snd f))"

definition pong_for :: "sent_frame \<Rightarrow> byte list" where
  "pong_for f = (if fst f = opPing then writePong (snd (snd f)) else [])"

lemma readLoop_sent:
  assumes "sent_ok f"
  shows "readLoop (sent_bytes f @ r) = pong_for f @ readLoop r"
proof -
  have "readFrame (sent_bytes f @ r) = Inr (fst f, snd (snd f), r)"
    using assms readFrame_masked [of "snd (snd f)" "fst (snd f)" "fst f" r]
    by (simp add: sent_ok_def sent_bytes_def)
  then show ?thesis
    using assms by (subst readLoop.simps) (simp add: sent_ok_def pong_for_def)
qed

lemma readLoop_sent_all:
  "list_all sent_ok fs \<Longrightarrow> readLoop (concat (map sent_bytes fs) @ r) = concat (map pong_for fs) @ readLoop r"
  by (induction fs) (simp_all add: readLoop_sent)

end
