(* ===== verification/RealtimeClaims.thy ===== *)
theory RealtimeClaims
  imports EventLog Realtime WebSocket Publishing
begin

text \<open>
  What a subscriber of a meeting gets: the log composed with the hub's client.  The lemmas follow a
  client from its subscription; the properties put them together with \<open>run_log\<close> and
  \<open>mirrored_run\<close> of the log.
\<close>

section \<open>A client that follows a log\<close>

text \<open>The log \<open>L\<close> is numbered from 1; \<open>es\<close> are the publications still to be enqueued.\<close>

definition log_numbered :: "Event list \<Rightarrow> bool" where
  "log_numbered L \<longleftrightarrow> map ev_Seq L = [1..int (length L)]"

definition follows :: "Event list \<Rightarrow> nat \<Rightarrow> Event list \<Rightarrow> client \<Rightarrow> bool" where
  "follows L k es c \<longleftrightarrow> (\<exists>i j. i \<le> j \<and> k \<le> j \<and> cl_lastSeq c = int j \<and>
     written_durable c = drop k (take j L) \<and>
     filter (\<lambda>e. 0 < ev_Seq e) (cl_send c @ es) = drop i L \<and> (\<forall>e \<in> set (cl_send c @ es). 0 \<le> ev_Seq e))"

lemma log_nth:
  assumes "log_numbered L" "i < length L"
  shows "ev_Seq (L ! i) = int i + 1"
proof -
  have "ev_Seq (L ! i) = map ev_Seq L ! i" using assms(2) by simp
  also have "\<dots> = int i + 1" using assms by (simp add: log_numbered_def nth_upto)
  finally show ?thesis .
qed

fun enqueued :: "client_action list \<Rightarrow> Event list" where
  "enqueued [] = []"
| "enqueued (Enqueue e # as) = e # enqueued as"
| "enqueued (_ # as) = enqueued as"

text \<open>No publication finds the channel full.\<close>

fun no_overflow :: "client_action list \<Rightarrow> client \<Rightarrow> bool" where
  "no_overflow [] c = True"
| "no_overflow (a # as) c \<longleftrightarrow>
     (case a of Enqueue _ \<Rightarrow> length (cl_send c) < send_capacity | _ \<Rightarrow> True) \<and> no_overflow as (client_do a c)"

fun is_catch_up :: "client_action \<Rightarrow> bool" where
  "is_catch_up (CatchUp _) = True"
| "is_catch_up _ = False"

lemma follows_write:
  assumes L: "log_numbered L" and "follows L k es c" "cl_send c = e # q"
  shows "follows L k es (snd (writeEvent True e (c\<lparr>cl_send := q\<rparr>)))"
proof -
  obtain i j where ij: "i \<le> j" "k \<le> j" "cl_lastSeq c = int j"
    and wr: "written_durable c = drop k (take j L)"
    and todo: "filter (\<lambda>e. 0 < ev_Seq e) (e # q @ es) = drop i L"
    and pos: "\<forall>x \<in> set (e # q @ es). 0 \<le> ev_Seq x"
    using assms(2,3) by (auto simp: follows_def)
  show ?thesis
  proof (cases "0 < ev_Seq e")
    case False
    then have "ev_Seq e = 0" using pos by auto
    then show ?thesis
      using ij wr todo pos unfolding follows_def
      by (intro exI [of _ i] exI [of _ j]) (simp add: writeEvent_True)
  next
    case True
    then have tail: "e # filter (\<lambda>e. 0 < ev_Seq e) (q @ es) = drop i L" using todo by simp
    have i: "i < length L"
    proof (rule ccontr)
      assume "\<not> i < length L"
      then have "drop i L = []" by simp
      with tail show False by simp
    qed
    then have e: "e = L ! i" and rest: "filter (\<lambda>e. 0 < ev_Seq e) (q @ es) = drop (Suc i) L"
      using tail [folded Cons_nth_drop_Suc [OF i]] by simp_all
    have seq: "ev_Seq e = int i + 1" using log_nth [OF L i] e by simp
    show ?thesis
    proof (cases "i < j")
      case True
      then show ?thesis
        using ij wr rest pos seq unfolding follows_def
        by (intro exI [of _ "Suc i"] exI [of _ j]) (simp add: writeEvent_True)
    next
      case False
      then have "i = j" using ij(1) by simp
      then have "drop k (take (Suc j) L) = drop k (take j L) @ [e]"
        using i e ij(2) by (simp add: take_Suc_conv_app_nth)
      then show ?thesis
        using ij wr rest pos seq \<open>i = j\<close> \<open>0 < ev_Seq e\<close> unfolding follows_def
        by (intro exI [of _ "Suc i"] exI [of _ "Suc j"]) (simp add: writeEvent_True)
    qed
  qed
qed

lemma follows_run:
  assumes "log_numbered L" "follows L k (enqueued acts) c" "no_overflow acts c" "\<not> list_ex is_catch_up acts"
  shows "follows L k [] (client_run acts c)"
  using assms(2-4)
proof (induction acts arbitrary: c)
  case (Cons a acts)
  have "follows L k (enqueued acts) (client_do a c)"
  proof (cases a)
    case (Enqueue e)
    then show ?thesis
      using Cons.prems by (simp add: follows_def enqueue_def push_dropping_oldest_def)
  next
    case WriteNext
    then show ?thesis
      using Cons.prems follows_write [OF assms(1)]
      by (cases "cl_send c") (simp_all add: write_next_def)
  qed (use Cons.prems in simp)
  then show ?case using Cons.IH Cons.prems by simp
qed simp

lemma follows_done:
  assumes "follows L k [] c" "cl_send c = []"
  shows "written_durable c = drop k L"
  using assms by (auto simp: follows_def)

text \<open>The catch-up writes the log from \<open>k\<close> to the moment it was read.\<close>

lemma catch_up_writes:
  assumes "log_numbered L" "m \<le> length L" "cl_lastSeq c = int k" "cl_written c = []"
  shows "cl_lastSeq (client_do (CatchUp (drop k (take m L))) c) = int (max k m) \<and>
    written_durable (client_do (CatchUp (drop k (take m L))) c) = drop k (take m L) \<and>
    cl_send (client_do (CatchUp (drop k (take m L))) c) = cl_send c"
  using assms(2)
proof (induction m)
  case (Suc m)
  show ?case
  proof (cases "k \<le> m")
    case True
    have "drop k (take (Suc m) L) = drop k (take m L) @ [L ! m]"
      using Suc.prems True by (simp add: take_Suc_conv_app_nth)
    moreover have "ev_Seq (L ! m) = int m + 1" using log_nth [OF assms(1)] Suc.prems by simp
    ultimately show ?thesis
      using Suc True by (simp add: writeCatchUp_True writeEvent_True max_def)
  next
    case False
    then show ?thesis using assms(3,4) by simp
  qed
qed (use assms in simp)

lemma run_enqueues:
  "no_overflow (map Enqueue es) c \<Longrightarrow>
   client_run (map Enqueue es) c = c\<lparr>cl_send := cl_send c @ es\<rparr>"
proof (induction es arbitrary: c)
  case (Cons e es)
  have "client_do (Enqueue e) c = c\<lparr>cl_send := cl_send c @ [e]\<rparr>"
    using Cons.prems by (simp add: enqueue_def push_dropping_oldest_def)
  then show ?case using Cons by simp
qed simp

lemma no_overflow_append:
  "no_overflow (as @ bs) c \<longleftrightarrow> no_overflow as c \<and> no_overflow bs (client_run as c)"
  by (induction as arbitrary: c) auto

text \<open>
  From the subscription at log length \<open>n\<close>: what was enqueued before the catch-up, the catch-up
  read at length \<open>m\<close>, then any interleaving of publications and writes.
\<close>

lemma subscriber_writes_log:
  assumes L: "log_numbered L" "n \<le> m" "m \<le> length L"
    and c: "cl_lastSeq c = int k" "cl_written c = []" "cl_send c = []"
    and acts: "acts = map Enqueue es1 @ CatchUp (drop k (take m L)) # rest" "\<not> list_ex is_catch_up rest"
    and pubs: "filter (\<lambda>e. 0 < ev_Seq e) (es1 @ enqueued rest) = drop n L"
      "\<forall>e \<in> set (es1 @ enqueued rest). 0 \<le> ev_Seq e"
    and flow: "no_overflow acts c" and idle: "cl_send (client_run acts c) = []"
  shows "written_durable (client_run acts c) = drop k L"
proof -
  let ?c1 = "c\<lparr>cl_send := es1\<rparr>" and ?cu = "CatchUp (drop k (take m L))"
  have flow1: "no_overflow (map Enqueue es1) c" and flow2: "no_overflow rest (client_do ?cu ?c1)"
    and run: "client_run acts c = client_run rest (client_do ?cu ?c1)"
    using flow c(3) run_enqueues [of es1 c] by (simp_all add: acts(1) no_overflow_append client_run_append)
  have cu: "cl_lastSeq (client_do ?cu ?c1) = int (max k m)"
    "written_durable (client_do ?cu ?c1) = drop k (take m L)" "cl_send (client_do ?cu ?c1) = es1"
    using catch_up_writes [OF L(1,3), of ?c1 k] c by simp_all
  have "drop k (take (max k m) L) = drop k (take m L)" by (auto simp: max_def)
  then have "follows L k (enqueued rest) (client_do ?cu ?c1)"
    unfolding follows_def using cu pubs L(2)
    by (intro exI [of _ n] exI [of _ "max k m"]) auto
  from follows_done [OF follows_run [OF L(1) this flow2 acts(2)]] idle show ?thesis
    by (simp add: run)
qed

section \<open>A client behind the service\<close>

definition mem_fresh :: memlog where
  "mem_fresh = \<lparr>ml_meetings = [], ml_nextSeq = (\<lambda>_. 0), ml_events = (\<lambda>_. []), ml_segments = (\<lambda>_. [])\<rparr>"

definition pg_fresh :: pglog where
  "pg_fresh = \<lparr>pl_meetings = [], pl_events = [], pl_segments = []\<rparr>"

lemma mem_fresh_ok: "ho_db w = mem_fresh \<Longrightarrow> inj (ho_ids w) \<Longrightarrow> memory.run_ok w"
  by (simp add: memory.run_ok_def numbered_def mem_known_def mem_fresh_def)

lemma pg_fresh_ok: "ho_db w = pg_fresh \<Longrightarrow> inj (ho_ids w) \<Longrightarrow> postgres.run_ok w"
  by (simp add: postgres.run_ok_def numbered_def pg_known_def pg_fresh_def pg_row_def pg_events_def)

lemma meeting_run_append: "meeting_run r p (as @ bs) w = meeting_run r p bs (meeting_run r p as w)"
  by (simp add: meeting_run_def)

lemma drop_filter_append: "filter P (drop (length xs) (xs @ ys)) = drop (length (filter P xs)) (filter P (xs @ ys))"
  by simp

context event_log
begin

lemma log_numbered_run:
  assumes "run_ok w"
  shows "log_numbered (events (ho_db w) m)"
proof (cases "known (ho_db w) m")
  case True
  then show ?thesis using run_log(1) [OF assms, of w True "[]" m] by (simp add: log_numbered_def)
next
  case False
  then have "events (ho_db w) m = []"
    using numberedD(3) assms unfolding run_ok_def by metis
  then show ?thesis by (simp add: log_numbered_def)
qed

lemma list_numbered:
  assumes "run_ok w" "w' = meeting_run repo p acts w" "svc_ListEvents repo m k w' = (Inr xs, w'')" "0 \<le> k"
  shows "xs = drop (nat k) (events (ho_db w') m) \<and>
    map ev_Seq xs = [k + 1..int (length (events (ho_db w') m))]"
proof -
  let ?L = "events (ho_db w') m"
  have xs: "xs = drop (nat k) ?L" using run_log(2) assms by metis
  have "map ev_Seq ?L = [1..int (length ?L)]"
    using log_numbered_run ok_run [OF assms(1)] assms(2) by (simp add: log_numbered_def)
  moreover have "drop (nat k) [1..int (length ?L)] = [k + 1..int (length ?L)]"
    by (rule nth_equalityI) (use assms(4) in \<open>auto simp: nth_upto\<close>)
  ultimately show ?thesis by (simp add: xs flip: drop_map)
qed

end

text \<open>
  The service at the grain of its database calls: \<open>CreateMeeting\<close> is \<open>CreateRow\<close>, then an append, then
  a read; the other methods touch the database once, or read before.  What a call publishes it
  hands over; the publication is a step of its own, since \<open>AppendAndPublish\<close> holds no lock.
\<close>

datatype meeting_call = CreateRow gostring gostring gostring | Method meeting_action

fun meeting_serve :: "'db meeting_repo \<Rightarrow> meeting_call \<Rightarrow> 'db host \<Rightarrow> 'db host" where
  "meeting_serve repo (CreateRow ws title src) w = snd (host_call (mr_CreateMeeting repo ws title src) w)"
| "meeting_serve repo (Method a) w = meeting_do repo True a w"

definition meeting_service ::
    "'db meeting_repo \<Rightarrow> meeting_call service_step list \<Rightarrow> ('db host, Event) service \<Rightarrow> ('db host, Event) service" where
  "meeting_service repo = service_run (meeting_serve repo) ho_published"

abbreviation durable_of :: "gostring \<Rightarrow> Event list \<Rightarrow> Event list" where
  "durable_of m \<equiv> filter (\<lambda>e. ev_MeetingID e = m \<and> 0 < ev_Seq e)"

interpretation meetings: publishing "meeting_serve repo" ho_published
proof
  fix a :: meeting_call and w
  show "\<exists>new. ho_published (meeting_serve repo a w) = ho_published w @ new"
    using published_do by (cases a) auto
qed

context event_log
begin

lemma ok_serve: "run_ok w \<Longrightarrow> run_ok (meeting_serve repo a w)"
  by (cases a) (simp_all add: ok_create ok_do)

lemma mirrored_serve:
  "run_ok w \<Longrightarrow> mirrored m w \<Longrightarrow> a \<noteq> Method (DoReset m) \<Longrightarrow> mirrored m (meeting_serve repo a w)"
  by (cases a) (simp_all add: mirrored_create mirrored_do)

lemma service_mirrored:
  assumes "run_ok (sv_state t)" "mirrored m (sv_state t)" "Serve (Method (DoReset m)) \<notin> set steps"
  shows "run_ok (sv_state (meeting_service repo steps t)) \<and> mirrored m (sv_state (meeting_service repo steps t))"
  using assms
proof (induction steps arbitrary: t)
  case (Cons x steps)
  have "run_ok (sv_state (service_do (meeting_serve repo) ho_published x t)) \<and>
    mirrored m (sv_state (service_do (meeting_serve repo) ho_published x t))"
    using Cons.prems by (cases x) (auto simp: ok_serve mirrored_serve)
  with Cons show ?case by (simp add: meeting_service_def)
qed (simp add: meeting_service_def)

lemma events_grow:
  assumes "run_ok (sv_state t)" "mirrored m (sv_state t)" "Serve (Method (DoReset m)) \<notin> set steps"
  shows "\<exists>new. events (ho_db (sv_state (meeting_service repo steps t))) m = events (ho_db (sv_state t)) m @ new"
proof -
  obtain new where "ho_published (sv_state (meeting_service repo steps t)) = ho_published (sv_state t) @ new"
    using meetings.log_grows_run [of repo "sv_state t" "requests steps"]
    by (auto simp: meeting_service_def service_state)
  then have "durable_of m (ho_published (sv_state (meeting_service repo steps t))) =
      durable_of m (ho_published (sv_state t)) @ durable_of m new" by simp
  then show ?thesis
    using service_mirrored [OF assms] assms(2) unfolding mirrored_def by metis
qed

lemma all_handed_over:
  assumes "t = meeting_service repo steps (service_start w0)" "ho_published w0 = []"
  shows "mset (sv_published t) + mset (sv_waiting t) = mset (ho_published (sv_state t))"
  by (rule meetings.published_of_start) (use assms in \<open>simp_all add: meeting_service_def\<close>)

text \<open>Everything published, and in ascending order: the log itself.\<close>

lemma published_log:
  assumes start: "run_ok w0" "mirrored m w0" "ho_published w0 = []"
    and reset: "Serve (Method (DoReset m)) \<notin> set steps"
    and t: "t = meeting_service repo steps (service_start w0)"
    and "durable_of m (sv_waiting t) = []" "sorted (map ev_Seq (durable_of m (sv_published t)))"
  shows "durable_of m (sv_published t) = events (ho_db (sv_state t)) m"
proof -
  let ?L = "events (ho_db (sv_state t)) m" and ?P = "\<lambda>e. ev_MeetingID e = m \<and> 0 < ev_Seq e"
  have ok: "run_ok (sv_state t)" "mirrored m (sv_state t)"
    using service_mirrored [of "service_start w0" m steps] start reset t by simp_all
  have "filter_mset ?P (mset (sv_published t) + mset (sv_waiting t)) = filter_mset ?P (mset (ho_published (sv_state t)))"
    using all_handed_over [OF t start(3)] by simp
  then have "mset (durable_of m (sv_published t)) + mset (durable_of m (sv_waiting t)) = mset ?L"
    using ok(2) by (simp add: mirrored_def flip: mset_filter)
  then have "mset (durable_of m (sv_published t)) = mset ?L" using assms(6) by simp
  moreover have "sorted (map ev_Seq ?L)" "distinct (map ev_Seq ?L)"
    using log_numbered_run [OF ok(1), of m] by (simp_all add: log_numbered_def)
  ultimately show ?thesis using assms(7) by (intro same_when_sorted)
qed

text \<open>The client, the service and the store together.\<close>

lemma subscriber_in_sync:
  assumes start: "run_ok w0" "mirrored m w0" "ho_published w0 = []"
    and reset: "Serve (Method (DoReset m)) \<notin> set (as @ bs @ cs)"
    and t1: "t1 = meeting_service repo as (service_start w0)" and t2: "t2 = meeting_service repo bs t1"
    and t3: "t3 = meeting_service repo cs t2"
    and order: "durable_of m (sv_waiting t3) = []" "sorted (map ev_Seq (durable_of m (sv_published t3)))"
    and read: "svc_ListEvents repo m (int k) (sv_state t2) = (Inr es, w')"
    and c: "cl_lastSeq c = int k" "cl_written c = []" "cl_send c = []"
    and acts: "acts = map Enqueue es1 @ CatchUp es # rest" "\<not> list_ex is_catch_up rest"
    and pubs: "es1 @ enqueued rest =
      filter (\<lambda>e. ev_MeetingID e = m) (drop (length (sv_published t1)) (sv_published t3))"
    and flow: "no_overflow acts c" "cl_send (client_run acts c) = []"
  shows "written_durable (client_run acts c) = drop k (events (ho_db (sv_state t3)) m)"
proof -
  let ?ev = "\<lambda>t. events (ho_db (sv_state t)) m" and ?P = "\<lambda>e. ev_MeetingID e = m \<and> 0 < ev_Seq e"
  have ok1: "run_ok (sv_state t1) \<and> mirrored m (sv_state t1)"
    unfolding t1 using start reset by (intro service_mirrored) auto
  then have ok2: "run_ok (sv_state t2) \<and> mirrored m (sv_state t2)"
    unfolding t2 using reset by (intro service_mirrored) auto
  then have ok3: "run_ok (sv_state t3) \<and> mirrored m (sv_state t3)"
    unfolding t3 using reset by (intro service_mirrored) auto
  have whole: "t3 = meeting_service repo (as @ bs @ cs) (service_start w0)"
    by (simp add: t1 t2 t3 meeting_service_def service_run_append)
  have L: "durable_of m (sv_published t3) = ?ev t3"
    by (rule published_log [OF start reset whole order])
  obtain ps where ps: "sv_published t3 = sv_published t1 @ ps"
    using published_grow [of "meeting_serve repo" ho_published "bs @ cs" t1]
    by (auto simp: t2 t3 meeting_service_def service_run_append)
  obtain n2 where "?ev t2 = ?ev t1 @ n2" using events_grow [of t1 m bs] ok1 reset t2 by auto
  moreover obtain n3 where n3: "?ev t3 = ?ev t2 @ n3" using events_grow [of t2 m cs] ok2 reset t3 by auto
  ultimately have ln: "length (?ev t1) \<le> length (?ev t2)" "length (?ev t2) \<le> length (?ev t3)" by simp_all
  have "length (durable_of m (sv_published t1)) + length (durable_of m (sv_waiting t1)) = length (?ev t1)"
    using arg_cong [OF all_handed_over [OF t1 start(3)], of "\<lambda>M. size (filter_mset ?P M)"] ok1
    by (simp add: mirrored_def flip: mset_filter)
  with ln have n: "length (durable_of m (sv_published t1)) \<le> length (?ev t2)" by simp
  have es: "es = drop k (take (length (?ev t2)) (?ev t3))"
    using run_log(2) [OF conjunct1 [OF ok2] meeting_run_Nil [symmetric] read] n3 by simp
  have new: "es1 @ enqueued rest = filter (\<lambda>e. ev_MeetingID e = m) ps" using pubs ps by simp
  have "filter (\<lambda>e. 0 < ev_Seq e) (es1 @ enqueued rest) = durable_of m ps"
    unfolding new by (simp add: conj_commute)
  also have "\<dots> = drop (length (durable_of m (sv_published t1))) (?ev t3)"
    using ps by (simp flip: L)
  finally have pubs': "filter (\<lambda>e. 0 < ev_Seq e) (es1 @ enqueued rest) =
      drop (length (durable_of m (sv_published t1))) (?ev t3)" .
  have "set (sv_published t3) \<union> set (sv_waiting t3) = set (ho_published (sv_state t3))"
    using arg_cong [OF all_handed_over [OF whole start(3)], of set_mset] by simp
  then have "\<forall>e \<in> set (es1 @ enqueued rest). 0 \<le> ev_Seq e"
    unfolding new using ok3 ps by (auto simp: mirrored_def)
  then show ?thesis
    using subscriber_writes_log [OF log_numbered_run [OF conjunct1 [OF ok3], of m] n ln(2),
        where c = c and k = k and acts = acts and ?es1.0 = es1 and rest = rest]
      c acts pubs' flow es by simp
qed

end

text \<open>A number that was passed is never written again.\<close>

lemma seq_settled_do:
  "0 < n \<Longrightarrow> n \<le> cl_lastSeq c \<Longrightarrow>
   filter (\<lambda>e. ev_Seq e = n) (cl_written (client_do a c)) = filter (\<lambda>e. ev_Seq e = n) (cl_written c) \<and>
   n \<le> cl_lastSeq (client_do a c)"
proof (cases a)
  case (CatchUp es)
  assume "0 < n" "n \<le> cl_lastSeq c"
  then have "filter (\<lambda>e. ev_Seq e = n) (cl_written (foldl (\<lambda>c e. snd (writeEvent True e c)) c es)) =
      filter (\<lambda>e. ev_Seq e = n) (cl_written c) \<and>
    n \<le> cl_lastSeq (foldl (\<lambda>c e. snd (writeEvent True e c)) c es)"
    by (induction es arbitrary: c) (auto simp: writeEvent_True)
  then show ?thesis by (simp add: CatchUp writeCatchUp_True)
qed (auto simp: enqueue_def write_next_def writeEvent_True split: list.split)

lemma seq_settled:
  "0 < n \<Longrightarrow> n \<le> cl_lastSeq c \<Longrightarrow>
   filter (\<lambda>e. ev_Seq e = n) (cl_written (client_run acts c)) = filter (\<lambda>e. ev_Seq e = n) (cl_written c)"
  by (induction acts arbitrary: c) (simp_all add: seq_settled_do)

section \<open>Properties\<close>

definition sample_json :: json_lib where
  "sample_json = \<lparr>js_final = (\<lambda>_. None), js_status = (\<lambda>_. None)\<rparr>"

definition sample_host :: "'db \<Rightarrow> 'db host" where
  "sample_host db = \<lparr>ho_db = db, ho_clock = (\<lambda>n. int n), ho_ids = show_nat, ho_faults = (\<lambda>_. False),
     ho_calls = 0, ho_published = []\<rparr>"

text \<open>The events of a meeting are numbered without gaps.  Starting from an empty store, after any
  sequence of service calls on either repository, with any pattern of database failures, listing
  the events of a meeting after \<open>k\<close> returns events numbered k+1, k+2, ... up to the length of its
  log: the log without its first \<open>k\<close> entries.\<close>

theorem meeting_events_are_numbered:
  assumes "ho_db v = mem_fresh" "inj (ho_ids v)" "v' = meeting_run (mem_meetings lib) p acts v"
    and "svc_ListEvents (mem_meetings lib) m k v' = (Inr xs, v'')"
    and "ho_db w = pg_fresh" "inj (ho_ids w)" "w' = meeting_run (pg_meetings lib) q bcts w"
    and "svc_ListEvents (pg_meetings lib) m k w' = (Inr ys, w'')" "0 \<le> k"
  shows "xs = drop (nat k) (ml_events (ho_db v') m) \<and>
      map ev_Seq xs = [k + 1..int (length (ml_events (ho_db v') m))] \<and>
    ys = drop (nat k) (pg_events (ho_db w') m) \<and>
      map ev_Seq ys = [k + 1..int (length (pg_events (ho_db w') m))]"
  using memory.list_numbered [OF mem_fresh_ok [OF assms(1,2)] assms(3,4,9)]
    postgres.list_numbered [OF pg_fresh_ok [OF assms(5,6)] assms(7,8,9)] by blast

definition sample_acts :: "meeting_action list" where
  "sample_acts = [DoCreate ''w'' ''Plan'' '''', DoAppend ''m_0'' EventSpeakerSummaryDelta NilPayload]"

lemma sample_host_start:
  "ho_db (sample_host db) = db" "ho_published (sample_host db) = []" "inj (ho_ids (sample_host db))"
  by (simp_all add: sample_host_def inj_def)

lemma answered: "\<not> isl (fst p) \<Longrightarrow> p = (Inr (projr (fst p)), snd p)"
  by (cases p) (auto simp: sum.collapse)

theorem meeting_events_are_numbered_witness:
  "map ev_Seq (projr (fst (svc_ListEvents (mem_meetings sample_json) ''m_0'' 1
     (meeting_run (mem_meetings sample_json) False sample_acts (sample_host mem_fresh))))) = [2] \<and>
   map ev_Seq (projr (fst (svc_ListEvents (pg_meetings sample_json) ''m_0'' 1
     (meeting_run (pg_meetings sample_json) False sample_acts (sample_host pg_fresh))))) = [2]"
proof -
  let ?v = "meeting_run (mem_meetings sample_json) False sample_acts (sample_host mem_fresh)"
  let ?w = "meeting_run (pg_meetings sample_json) False sample_acts (sample_host pg_fresh)"
  let ?lv = "svc_ListEvents (mem_meetings sample_json) ''m_0'' 1 ?v"
  let ?lw = "svc_ListEvents (pg_meetings sample_json) ''m_0'' 1 ?w"
  have v: "\<not> isl (fst ?lv)" "length (ml_events (ho_db ?v) ''m_0'') = 2" by code_simp+
  have w: "\<not> isl (fst ?lw)" "length (pg_events (ho_db ?w) ''m_0'') = 2" by code_simp+
  have e: "[1 + 1..int 2] = [2]" by code_simp
  show ?thesis
    using meeting_events_are_numbered [OF sample_host_start(1,3) refl answered [OF v(1)]
        sample_host_start(1,3) refl answered [OF w(1)] zero_le_one, unfolded v(2) w(2) e] by blast
qed

text \<open>C16: A subscriber misses nothing and sees nothing twice.  A client subscribes at some point of a
  run of the service, then reads its catch-up (the events after its sequence number \<open>k\<close>) at a later
  point, while events go on being appended and published; appending and publishing are separate
  steps, so an event may be read by the catch-up long before it is published, or have been
  appended before the subscription and be published after it, and publications arrive before the
  catch-up is read and in any interleaving with the writes.  Provided that the meeting is never
  reset, that its durable events are published in ascending order and all of them have been in the
  end, that the client's channel never overflows, and that it is idle at the end, the durable
  events written to its connection are exactly the meeting's log after \<open>k\<close>, in order.  (The code
  enforces neither the order nor the absence of a reset: the next property says what is lost
  without them.)\<close>

theorem subscriber_receives_the_whole_log:
  assumes "ho_db w0 = pg_fresh" "ho_published w0 = []" "inj (ho_ids w0)"
    and "Serve (Method (DoReset m)) \<notin> set (as @ bs @ cs)"
    and "t1 = meeting_service (pg_meetings lib) as (service_start w0)"
    and "t2 = meeting_service (pg_meetings lib) bs t1" "t3 = meeting_service (pg_meetings lib) cs t2"
    and "durable_of m (sv_waiting t3) = []" "sorted (map ev_Seq (durable_of m (sv_published t3)))"
    and "svc_ListEvents (pg_meetings lib) m (int k) (sv_state t2) = (Inr es, w')"
    and "acts = map Enqueue es1 @ CatchUp es # rest" "\<not> list_ex is_catch_up rest"
    and "es1 @ enqueued rest =
      filter (\<lambda>e. ev_MeetingID e = m) (drop (length (sv_published t1)) (sv_published t3))"
    and "c = newClient i m workspace user session (int k)"
    and "no_overflow acts c" "cl_send (client_run acts c) = []"
  shows "filter (\<lambda>e. 0 < ev_Seq e) (cl_written (client_run acts c)) =
    drop k (pg_events (ho_db (sv_state t3)) m)"
proof -
  have "postgres.mirrored m w0"
    using assms(1,2) by (simp add: postgres.mirrored_def pg_events_def pg_fresh_def)
  moreover have "cl_lastSeq c = int k" "cl_written c = []" "cl_send c = []"
    using assms(14) by (simp_all add: newClient_def)
  ultimately show ?thesis
    by (intro postgres.subscriber_in_sync [OF pg_fresh_ok [OF assms(1,3)] _ assms(2,4-10) _ _ _ assms(11-13,15,16)])
qed

text \<open>The meeting's second event is appended before the subscription and published after the
  catch-up has read it; a partial transcript goes past it.\<close>

definition sample_t1 :: "(pglog host, Event) service" where
  "sample_t1 = meeting_service (pg_meetings sample_json)
     [Serve (Method (DoCreate ''w'' ''Plan'' '''')), Publish 0,
      Serve (Method (DoAppend ''m_0'' EventSpeakerSummaryDelta NilPayload))]
     (service_start (sample_host pg_fresh))"

definition sample_t2 :: "(pglog host, Event) service" where
  "sample_t2 = meeting_service (pg_meetings sample_json)
     [Serve (Method (DoAppend ''m_0'' EventTranscriptPartial NilPayload)), Publish 1] sample_t1"

definition sample_t3 :: "(pglog host, Event) service" where
  "sample_t3 = meeting_service (pg_meetings sample_json)
     [Publish 0, Serve (Method (DoEnd ''m_0'')), Publish 0] sample_t2"

definition sample_pubs :: "Event list" where
  "sample_pubs = filter (\<lambda>e. ev_MeetingID e = ''m_0'')
     (drop (length (sv_published sample_t1)) (sv_published sample_t3))"

definition sample_schedule :: "client_action list" where
  "sample_schedule = map Enqueue (take 1 sample_pubs) @
     CatchUp (projr (fst (svc_ListEvents (pg_meetings sample_json) ''m_0'' (int 1) (sv_state sample_t2)))) #
     [WriteNext, Enqueue (sample_pubs ! 1), Enqueue (sample_pubs ! 2), WriteNext, WriteNext]"

definition sample_client :: client where
  "sample_client = newClient 7 ''m_0'' ''w'' ''u'' ''s'' (int 1)"

theorem subscriber_receives_the_whole_log_witness:
  "map ev_Seq sample_pubs = [0, 2, 3] \<and>
   map ev_Seq (cl_written (client_run sample_schedule sample_client)) = [2, 0, 3] \<and>
   filter (\<lambda>e. 0 < ev_Seq e) (cl_written (client_run sample_schedule sample_client)) =
     drop 1 (pg_events (ho_db (sv_state sample_t3)) ''m_0'')"
proof -
  let ?rest = "[WriteNext, Enqueue (sample_pubs ! 1), Enqueue (sample_pubs ! 2), WriteNext, WriteNext]"
  have "\<not> isl (fst (svc_ListEvents (pg_meetings sample_json) ''m_0'' (int 1) (sv_state sample_t2)))"
    by code_simp
  moreover have "take 1 sample_pubs @ enqueued ?rest = sample_pubs" by code_simp
  moreover have "no_overflow sample_schedule sample_client"
    "cl_send (client_run sample_schedule sample_client) = []"
    "map ev_Seq (cl_written (client_run sample_schedule sample_client)) = [2, 0, 3]"
    "map ev_Seq sample_pubs = [0, 2, 3]" by code_simp+
  moreover have "durable_of ''m_0'' (sv_waiting sample_t3) = []"
    "sorted (map ev_Seq (durable_of ''m_0'' (sv_published sample_t3)))" by code_simp+
  moreover have "Serve (Method (DoReset ''m_0'')) \<notin>
      set ([Serve (Method (DoCreate ''w'' ''Plan'' '''')), Publish 0,
          Serve (Method (DoAppend ''m_0'' EventSpeakerSummaryDelta NilPayload))] @
        [Serve (Method (DoAppend ''m_0'' EventTranscriptPartial NilPayload)), Publish 1] @
        [Publish 0, Serve (Method (DoEnd ''m_0'')), Publish 0])" by simp
  moreover have "\<not> list_ex is_catch_up ?rest" by simp
  ultimately show ?thesis
    using subscriber_receives_the_whole_log [OF sample_host_start _ sample_t1_def sample_t2_def
        sample_t3_def _ _ answered sample_schedule_def _ _ sample_client_def]
    unfolding sample_pubs_def by blast
qed

text \<open>C17: What a client is sent is strictly increasing, so an event that is overtaken is lost.  Under
  any interleaving of publications, catch-ups and writes, the durable events written to a client
  have strictly increasing numbers above the one it asked for; and once a number has been written,
  no later publication with that number or a smaller one is ever written.  (The service method
  \<open>AppendAndPublish\<close> appends and publishes in two steps, so two concurrent calls may publish out
  of order; and \<open>ResetMeeting\<close> restarts the numbers at 1.)\<close>

theorem overtaken_events_are_lost:
  assumes "c = client_run acts (newClient i m workspace user session k)"
  shows "sorted_wrt (<) (map ev_Seq (written_durable c)) \<and> (\<forall>e \<in> set (written_durable c). k < ev_Seq e) \<and>
    (\<forall>n. 0 < n \<longrightarrow> n \<le> cl_lastSeq c \<longrightarrow>
      filter (\<lambda>e. ev_Seq e = n) (cl_written (client_run later c)) = filter (\<lambda>e. ev_Seq e = n) (cl_written c))"
proof -
  have "in_order k (newClient i m workspace user session k)" by (simp add: in_order_def newClient_def)
  then have "in_order k c" unfolding assms by (rule in_order_run)
  moreover have "filter (\<lambda>e. ev_Seq e = n) (cl_written (client_run later c)) = filter (\<lambda>e. ev_Seq e = n) (cl_written c)"
    if "0 < n" "n \<le> cl_lastSeq c" for n
    using that by (rule seq_settled)
  ultimately show ?thesis by (simp add: in_order_def)
qed

text \<open>Number 2 is published before number 1: the client never gets number 1.\<close>

definition sample_event :: "int \<Rightarrow> Event" where
  "sample_event n = \<lparr>ev_Type = EventTreeUpdate, ev_MeetingID = ''m_0'', ev_Seq = n, ev_TsMS = 0, ev_Payload = ''{}''\<rparr>"

theorem overtaken_events_are_lost_witness:
  "filter (\<lambda>e. ev_Seq e = 1) (cl_written (client_run [Enqueue (sample_event 1), WriteNext]
     (client_run [Enqueue (sample_event 2), WriteNext] (newClient 7 ''m_0'' ''w'' ''u'' ''s'' 0)))) = []"
proof -
  let ?c = "client_run [Enqueue (sample_event 2), WriteNext] (newClient 7 ''m_0'' ''w'' ''u'' ''s'' 0)"
  have "1 \<le> cl_lastSeq ?c" "filter (\<lambda>e. ev_Seq e = 1) (cl_written ?c) = []" by code_simp+
  then show ?thesis
    using overtaken_events_are_lost [OF refl, where acts = "[Enqueue (sample_event 2), WriteNext]"
        and i = 7 and m = "''m_0''" and workspace = "''w''" and user = "''u''" and session = "''s''"
        and k = 0 and later = "[Enqueue (sample_event 1), WriteNext]"]
    by (metis zero_less_one)
qed

text \<open>C18: A frame that is written is read back.  For a payload of any length below 2^64, the frame
  \<open>writeFrame\<close> produces and the masked frame a client sends are both read as their opcode and
  payload, leaving the bytes that follow; a payload of more than 1 MiB is refused.\<close>

theorem frames_round_trip:
  assumes "length p < 2 ^ 64" "length mkey = 4"
  shows "readFrame (writeFrame opcode p @ r) =
      (if 2 ^ 20 < length p then Inl FrameTooLarge else Inr (opcode AND 0x0F, p, r)) \<and>
    readFrame (client_frame opcode mkey p @ r) =
      (if 2 ^ 20 < length p then Inl FrameTooLarge else Inr (opcode AND 0x0F, p, r))"
  using readFrame_written [OF assms(1)] readFrame_masked [OF assms] by blast

theorem frames_round_trip_witness:
  "readFrame (writeFrame opText [1, 2, 3] @ [9]) = Inr (1, [1, 2, 3], [9]) \<and>
   readFrame (client_frame opText [4, 5, 6, 7] [1, 2, 3] @ [9]) = Inr (1, [1, 2, 3], [9])"
  using frames_round_trip [of "[1, 2, 3]" "[4, 5, 6, 7]" opText "[9]"] by (simp add: opText_def)

text \<open>The read loop ends, and answers every ping.  Whatever bytes a client sends, the loop
  consumes at least two of them per frame and holds at most 1 MiB of payload, so it returns; on a
  stream of well-formed masked frames it writes a pong with the same payload for each ping, in
  order, and stops at the close frame.\<close>

theorem read_loop_answers_pings:
  assumes "list_all sent_ok fs" "fst f = opClose" "length (fst (snd f)) = 4" "length (snd (snd f)) \<le> 2 ^ 20"
  shows "readLoop (concat (map sent_bytes fs) @ sent_bytes f @ r) = concat (map pong_for fs) \<and>
    (\<forall>bs opcode p rest. readFrame bs = Inr (opcode, p, rest) \<longrightarrow>
       length p \<le> 2 ^ 20 \<and> length rest + 2 \<le> length bs)"
proof -
  have "readFrame (sent_bytes f @ r) = Inr (opClose, snd (snd f), r)"
    using assms readFrame_masked [of "snd (snd f)" "fst (snd f)" "fst f" r]
    by (simp add: sent_bytes_def opClose_def)
  then have "readLoop (sent_bytes f @ r) = []" by (subst readLoop.simps) simp
  moreover have "length p \<le> 2 ^ 20 \<and> length rest + 2 \<le> length bs"
    if "readFrame bs = Inr (opcode, p, rest)" for bs opcode p rest
    using readFrame_InrD [OF that] by auto
  ultimately show ?thesis using readLoop_sent_all [OF assms(1)] by simp
qed

theorem read_loop_answers_pings_witness:
  "readLoop (concat (map sent_bytes [(opPing, [4, 5, 6, 7], [1, 2]), (opText, [4, 5, 6, 7], [3])]) @
     sent_bytes (opClose, [4, 5, 6, 7], []) @ [9]) = writePong [1, 2]"
  using read_loop_answers_pings [of "[(opPing, [4, 5, 6, 7], [1, 2]), (opText, [4, 5, 6, 7], [3])]"
      "(opClose, [4, 5, 6, 7], [])" "[9]"]
  by (simp add: sent_ok_def pong_for_def opPing_def opText_def opClose_def)

end
