(* ===== verification/AnalysisStore.thy ===== *)
theory AnalysisStore
  imports WorkspaceStore
begin

text \<open>
  The AI analyses of a meeting session and the history of tree audits: \<open>internal/domain/ai_analysis.go\<close>,
  \<open>internal/domain/tree_audit.go\<close>, the repositories
  \<open>internal/adapter/repository/postgres/{ai_analysis,tree_audit}.go\<close> and \<open>persistLiveAnalysis\<close>,
  \<open>persistFinalizedLiveProjection\<close> of \<open>internal/application/ai_analysis.go\<close>.

  A nullable column that is read back through \<open>COALESCE\<close> or into a byte slice is the empty text.
  A JSONB column holds the normal form of the text written to it: the functions of \<open>json_column\<close>
  are \<open>json.Valid\<close> and that normal form (nothing where PostgreSQL refuses the text).  As in
  \<open>WorkspaceStore\<close> an operation takes the moment of the call; times keep their full precision.
\<close>

section \<open>Data\<close>

datatype MeetingAIAnalysisType =
    AnalysisLive | AnalysisFinal | AnalysisContext | AnalysisTree | AnalysisFinalization

datatype MeetingAIAnalysisStatus = AnalysisRunning | AnalysisCompleted | AnalysisFailed

fun analysis_type_text :: "MeetingAIAnalysisType \<Rightarrow> gostring" where
  "analysis_type_text AnalysisLive = ''live''"
| "analysis_type_text AnalysisFinal = ''final''"
| "analysis_type_text AnalysisContext = ''context''"
| "analysis_type_text AnalysisTree = ''tree''"
| "analysis_type_text AnalysisFinalization = ''finalization''"

fun analysis_status_text :: "MeetingAIAnalysisStatus \<Rightarrow> gostring" where
  "analysis_status_text AnalysisRunning = ''running''"
| "analysis_status_text AnalysisCompleted = ''completed''"
| "analysis_status_text AnalysisFailed = ''failed''"

record MeetingAIAnalysis =
  aa_SessionID :: gostring
  aa_Type :: MeetingAIAnalysisType
  aa_Status :: MeetingAIAnalysisStatus
  aa_Version :: int
  aa_Payload :: gostring
  aa_Model :: gostring
  aa_SegmentCount :: int
  aa_InputChars :: int
  aa_LastError :: gostring
  aa_CreatedAt :: gotime
  aa_UpdatedAt :: gotime
  aa_IntervalSeconds :: int
  aa_RequestedAnalysisVersion :: int
  aa_TargetFromSequenceNo :: int
  aa_TargetThroughSequenceNo :: int
  aa_StartedAt :: gotime

datatype MeetingTreeAuditStatus = AuditRunning | AuditCompleted | AuditSkipped | AuditFailed

datatype MeetingTreeAuditTriggerClass = TriggerNormal | TriggerHigh | TriggerFinal

datatype MeetingTreeAuditResultClassification =
    ResultNone | ResultClean | ResultFindingsOnly | ResultRejected | ResultApplied

record MeetingTreeAuditRun =
  ar_ID :: gostring
  ar_SessionID :: gostring
  ar_BasedOnTreeVersion :: int
  ar_ResultingTreeVersion :: int
  ar_TriggerReason :: gostring
  ar_TriggerClass :: MeetingTreeAuditTriggerClass
  ar_Task :: gostring
  ar_Deployment :: gostring
  ar_Model :: gostring
  ar_PromptVersion :: gostring
  ar_SnapshotHash :: gostring
  ar_Status :: MeetingTreeAuditStatus
  ar_Result :: gostring
  ar_Disposition :: gostring
  ar_ResultClassification :: MeetingTreeAuditResultClassification
  ar_ConsecutiveUnappliedRuns :: int
  ar_OperationsProposed :: int
  ar_OperationsCanonicalized :: int
  ar_OperationsValid :: int
  ar_OperationsApplied :: int
  ar_OperationsRejected :: int
  ar_RejectionReasons :: gostring
  ar_SuppressionReason :: gostring
  ar_ProviderCalled :: bool
  ar_MeetingElapsedSeconds :: int
  ar_InputSummary :: gostring
  ar_InputPayload :: gostring
  ar_RawResponse :: gostring
  ar_Findings :: gostring
  ar_Operations :: gostring
  ar_ValidatorResult :: gostring
  ar_PromptTokens :: int
  ar_CompletionTokens :: int
  ar_ElapsedMilliseconds :: int
  ar_ErrorCode :: gostring
  ar_ErrorMessage :: gostring
  ar_CreatedAt :: gotime
  ar_CompletedAt :: "gotime option"

record live_history_row =
  lh_SessionID :: gostring
  lh_Version :: int
  lh_Payload :: gostring
  lh_Model :: gostring
  lh_UpdatedAt :: gotime

record analysis_db =
  ad_sessions :: "gostring list"
  ad_analyses :: "MeetingAIAnalysis list"
  ad_history :: "live_history_row list"
  ad_runs :: "MeetingTreeAuditRun list"

record json_column =
  jc_valid :: "gostring \<Rightarrow> bool"
  jc_stored :: "gostring \<Rightarrow> gostring option"

definition nullableJSONPayload :: "json_column \<Rightarrow> gostring \<Rightarrow> gostring result" where
  "nullableJSONPayload jc payload =
     (if payload = [] then Inr []
      else if \<not> jc_valid jc payload then Inl ErrDatabase
      else (case jc_stored jc payload of None \<Rightarrow> Inl ErrDatabase | Some text \<Rightarrow> Inr text))"

text \<open>The zero time is replaced by the moment of the call.\<close>

definition or_now :: "gotime \<Rightarrow> env \<Rightarrow> gotime" where
  "or_now t e = (if is_zero t then fst e else t)"

section \<open>Analyses\<close>

definition is_analysis :: "gostring \<Rightarrow> MeetingAIAnalysisType \<Rightarrow> MeetingAIAnalysis \<Rightarrow> bool" where
  "is_analysis sessionID ty r \<longleftrightarrow> aa_SessionID r = sessionID \<and> aa_Type r = ty"

definition find_analysis :: "analysis_db \<Rightarrow> gostring \<Rightarrow> MeetingAIAnalysisType \<Rightarrow> MeetingAIAnalysis option" where
  "find_analysis db sessionID ty = find (is_analysis sessionID ty) (ad_analyses db)"

text \<open>The columns an update writes, and the row an insert makes.\<close>

definition written_row :: "MeetingAIAnalysis \<Rightarrow> gostring \<Rightarrow> gotime \<Rightarrow> MeetingAIAnalysis \<Rightarrow> MeetingAIAnalysis" where
  "written_row a payload updatedAt r =
     r\<lparr>aa_Status := aa_Status a, aa_Version := aa_Version a, aa_Payload := payload,
       aa_Model := aa_Model a, aa_SegmentCount := aa_SegmentCount a, aa_InputChars := aa_InputChars a,
       aa_LastError := aa_LastError a, aa_UpdatedAt := updatedAt\<rparr>"

definition new_row :: "MeetingAIAnalysis \<Rightarrow> gostring \<Rightarrow> gotime \<Rightarrow> gotime \<Rightarrow> MeetingAIAnalysis" where
  "new_row a payload updatedAt createdAt =
     written_row a payload updatedAt
       \<lparr>aa_SessionID = aa_SessionID a, aa_Type = aa_Type a, aa_Status = aa_Status a, aa_Version = 0,
        aa_Payload = [], aa_Model = [], aa_SegmentCount = 0, aa_InputChars = 0, aa_LastError = [],
        aa_CreatedAt = createdAt, aa_UpdatedAt = updatedAt, aa_IntervalSeconds = 0,
        aa_RequestedAnalysisVersion = 0, aa_TargetFromSequenceNo = 0, aa_TargetThroughSequenceNo = 0,
        aa_StartedAt = 0\<rparr>"

definition UpsertMeetingAIAnalysis ::
    "json_column \<Rightarrow> MeetingAIAnalysis \<Rightarrow> (analysis_db, MeetingAIAnalysis) op" where
  "UpsertMeetingAIAnalysis jc a e db =
     (case nullableJSONPayload jc (aa_Payload a) of
        Inl err \<Rightarrow> (Inl err, db)
      | Inr payload \<Rightarrow>
          (let updatedAt = or_now (aa_UpdatedAt a) e; same = is_analysis (aa_SessionID a) (aa_Type a) in
           case find_analysis db (aa_SessionID a) (aa_Type a) of
             Some r \<Rightarrow> (Inr (written_row a payload updatedAt r),
               db\<lparr>ad_analyses := update_where same (written_row a payload updatedAt) (ad_analyses db)\<rparr>)
           | None \<Rightarrow> (Inr (new_row a payload updatedAt (fst e)),
               db\<lparr>ad_analyses := ad_analyses db @ [new_row a payload updatedAt (fst e)]\<rparr>)))"

text \<open>
  \<open>CompareAndSwapMeetingAIAnalysis\<close>: an \<open>UPDATE\<close> of the row at the expected version, then, for
  version 0 and no row, an \<open>INSERT\<close>.  The two statements are not one transaction; a row another
  writer inserts between them makes the insert do nothing, as if it had been there before.
\<close>

definition cas_update ::
    "gostring \<Rightarrow> gotime \<Rightarrow> int \<Rightarrow> MeetingAIAnalysis \<Rightarrow> analysis_db \<Rightarrow> MeetingAIAnalysis option \<times> analysis_db" where
  "cas_update payload updatedAt expectedVersion a db =
     (let hit = (\<lambda>r. is_analysis (aa_SessionID a) (aa_Type a) r \<and> aa_Version r = expectedVersion) in
      case find hit (ad_analyses db) of
        None \<Rightarrow> (None, db)
      | Some r \<Rightarrow> (Some (written_row a payload updatedAt r),
          db\<lparr>ad_analyses := update_where hit (written_row a payload updatedAt) (ad_analyses db)\<rparr>))"

definition CompareAndSwapMeetingAIAnalysis ::
    "json_column \<Rightarrow> int \<Rightarrow> MeetingAIAnalysis \<Rightarrow> (analysis_db, MeetingAIAnalysis option) op" where
  "CompareAndSwapMeetingAIAnalysis jc expectedVersion a e db =
     (case nullableJSONPayload jc (aa_Payload a) of
        Inl err \<Rightarrow> (Inl err, db)
      | Inr payload \<Rightarrow>
          (let updatedAt = or_now (aa_UpdatedAt a) e in
           case cas_update payload updatedAt expectedVersion a db of
             (Some saved, db1) \<Rightarrow> (Inr (Some saved), db1)
           | (None, _) \<Rightarrow>
               if expectedVersion \<noteq> 0 then (Inr None, db)
               else if find_analysis db (aa_SessionID a) (aa_Type a) \<noteq> None then (Inr None, db)
               else (Inr (Some (new_row a payload updatedAt (fst e))),
                 db\<lparr>ad_analyses := ad_analyses db @ [new_row a payload updatedAt (fst e)]\<rparr>)))"

definition GetMeetingAIAnalysis ::
    "gostring \<Rightarrow> MeetingAIAnalysisType \<Rightarrow> (analysis_db, MeetingAIAnalysis) op" where
  "GetMeetingAIAnalysis sessionID ty e = reading (\<lambda>db.
     case find_analysis db sessionID ty of None \<Rightarrow> Inl NotFound | Some r \<Rightarrow> Inr r)"

definition ListMeetingAIAnalysesForSessions ::
    "gostring list \<Rightarrow> MeetingAIAnalysisType \<Rightarrow> (analysis_db, MeetingAIAnalysis list) op" where
  "ListMeetingAIAnalysesForSessions sessionIDs ty e = reading (\<lambda>db.
     Inr (if sessionIDs = [] then []
          else filter (\<lambda>r. aa_Type r = ty \<and> aa_SessionID r \<in> set sessionIDs) (ad_analyses db)))"

section \<open>Live history\<close>

definition AppendLiveAnalysisHistory :: "json_column \<Rightarrow> MeetingAIAnalysis \<Rightarrow> (analysis_db, unit) op" where
  "AppendLiveAnalysisHistory jc a e db =
     (case nullableJSONPayload jc (aa_Payload a) of
        Inl err \<Rightarrow> (Inl err, db)
      | Inr payload \<Rightarrow>
          (Inr (),
           if list_ex (\<lambda>h. lh_SessionID h = aa_SessionID a \<and> lh_Version h = aa_Version a) (ad_history db)
           then db
           else db\<lparr>ad_history := ad_history db @
             [\<lparr>lh_SessionID = aa_SessionID a, lh_Version = aa_Version a, lh_Payload = payload,
               lh_Model = aa_Model a, lh_UpdatedAt = or_now (aa_UpdatedAt a) e\<rparr>]\<rparr>))"

definition history_analysis :: "live_history_row \<Rightarrow> MeetingAIAnalysis" where
  "history_analysis h =
     \<lparr>aa_SessionID = lh_SessionID h, aa_Type = AnalysisLive, aa_Status = AnalysisCompleted,
      aa_Version = lh_Version h, aa_Payload = lh_Payload h, aa_Model = lh_Model h,
      aa_SegmentCount = 0, aa_InputChars = 0, aa_LastError = [], aa_CreatedAt = 0,
      aa_UpdatedAt = lh_UpdatedAt h, aa_IntervalSeconds = 0, aa_RequestedAnalysisVersion = 0,
      aa_TargetFromSequenceNo = 0, aa_TargetThroughSequenceNo = 0, aa_StartedAt = 0\<rparr>"

text \<open>\<open>LIMIT\<close> with a negative number is an error of the database.\<close>

definition ListLiveAnalysisHistory ::
    "gostring \<Rightarrow> int \<Rightarrow> (analysis_db, MeetingAIAnalysis list) op" where
  "ListLiveAnalysisHistory sessionID limit e = reading (\<lambda>db.
     if limit < 0 then Inl ErrDatabase
     else Inr (map history_analysis
       (order_by (\<lambda>a b. lh_Version a < lh_Version b)
         (take (nat limit) (order_by (\<lambda>a b. lh_Version b < lh_Version a)
           (filter (\<lambda>h. lh_SessionID h = sessionID) (ad_history db)))))))"

section \<open>Tree audit runs\<close>

definition active_claim :: "MeetingTreeAuditRun \<Rightarrow> gostring \<times> gostring \<times> int \<times> gostring \<times> gostring \<times> gostring" where
  "active_claim r = (ar_SessionID r, ar_Task r, ar_BasedOnTreeVersion r, ar_SnapshotHash r,
     ar_PromptVersion r, ar_Deployment r)"

text \<open>A row breaks the unique index on running claims if another running row has its key.\<close>

definition claim_taken :: "MeetingTreeAuditRun \<Rightarrow> MeetingTreeAuditRun list \<Rightarrow> bool" where
  "claim_taken r rows \<longleftrightarrow> ar_Status r = AuditRunning \<and>
     list_ex (\<lambda>x. ar_Status x = AuditRunning \<and> active_claim x = active_claim r) rows"

definition json_columns :: "json_column \<Rightarrow> MeetingTreeAuditRun \<Rightarrow> MeetingTreeAuditRun result" where
  "json_columns jc run =
     (case nullableJSONPayload jc (ar_InputSummary run) of Inl err \<Rightarrow> Inl err | Inr summary \<Rightarrow>
      case nullableJSONPayload jc (ar_InputPayload run) of Inl err \<Rightarrow> Inl err | Inr input \<Rightarrow>
      case nullableJSONPayload jc (ar_Findings run) of Inl err \<Rightarrow> Inl err | Inr findings \<Rightarrow>
      case nullableJSONPayload jc (ar_Operations run) of Inl err \<Rightarrow> Inl err | Inr operations \<Rightarrow>
      case nullableJSONPayload jc (ar_ValidatorResult run) of Inl err \<Rightarrow> Inl err | Inr validator \<Rightarrow>
      case nullableJSONPayload jc (ar_RejectionReasons run) of Inl err \<Rightarrow> Inl err | Inr rejections \<Rightarrow>
        Inr (run\<lparr>ar_InputSummary := summary, ar_InputPayload := input, ar_Findings := findings,
          ar_Operations := operations, ar_ValidatorResult := validator, ar_RejectionReasons := rejections\<rparr>))"

text \<open>The columns \<open>ON CONFLICT (id) DO UPDATE\<close> leaves as they were.\<close>

definition updated_run :: "MeetingTreeAuditRun \<Rightarrow> MeetingTreeAuditRun \<Rightarrow> MeetingTreeAuditRun" where
  "updated_run new old =
     new\<lparr>ar_SessionID := ar_SessionID old, ar_BasedOnTreeVersion := ar_BasedOnTreeVersion old,
       ar_TriggerReason := ar_TriggerReason old, ar_TriggerClass := ar_TriggerClass old,
       ar_Task := ar_Task old, ar_PromptVersion := ar_PromptVersion old,
       ar_SnapshotHash := ar_SnapshotHash old, ar_CreatedAt := ar_CreatedAt old\<rparr>"

definition inserted_run :: "MeetingTreeAuditRun \<Rightarrow> env \<Rightarrow> MeetingTreeAuditRun" where
  "inserted_run run e =
     run\<lparr>ar_CreatedAt := or_now (ar_CreatedAt run) e,
       ar_ResultingTreeVersion := (if 0 < ar_ResultingTreeVersion run then ar_ResultingTreeVersion run else 0)\<rparr>"

definition writeMeetingTreeAuditRun ::
    "json_column \<Rightarrow> bool \<Rightarrow> MeetingTreeAuditRun \<Rightarrow> (analysis_db, bool) op" where
  "writeMeetingTreeAuditRun jc claim run0 e db =
     (case json_columns jc run0 of
        Inl err \<Rightarrow> (Inl err, db)
      | Inr run1 \<Rightarrow>
          (let run = inserted_run run1 e; rows = ad_runs db;
               others = filter (\<lambda>x. ar_ID x \<noteq> ar_ID run) rows in
           if ar_SessionID run \<notin> set (ad_sessions db) then (Inl ErrDatabase, db)
           else if claim then
             (if claim_taken run rows then (Inr False, db)
              else if list_ex (\<lambda>x. ar_ID x = ar_ID run) rows then (Inl ErrDatabase, db)
              else (Inr True, db\<lparr>ad_runs := rows @ [run]\<rparr>))
           else (case find (\<lambda>x. ar_ID x = ar_ID run) rows of
               None \<Rightarrow> (if claim_taken run rows then (Inl ErrDatabase, db)
                        else (Inr True, db\<lparr>ad_runs := rows @ [run]\<rparr>))
             | Some old \<Rightarrow>
                 (if claim_taken (updated_run run old) others then (Inl ErrDatabase, db)
                  else (Inr True, db\<lparr>ad_runs := update_where (\<lambda>x. ar_ID x = ar_ID run) (updated_run run) rows\<rparr>)))))"

definition TryStartMeetingTreeAuditRun ::
    "json_column \<Rightarrow> MeetingTreeAuditRun \<Rightarrow> (analysis_db, bool) op" where
  "TryStartMeetingTreeAuditRun jc run = writeMeetingTreeAuditRun jc True run"

definition SaveMeetingTreeAuditRun :: "json_column \<Rightarrow> MeetingTreeAuditRun \<Rightarrow> (analysis_db, unit) op" where
  "SaveMeetingTreeAuditRun jc run e db =
     (case writeMeetingTreeAuditRun jc False run e db of
        (Inl err, db') \<Rightarrow> (Inl err, db') | (Inr _, db') \<Rightarrow> (Inr (), db'))"

definition GetLatestMeetingTreeAuditRun :: "gostring \<Rightarrow> (analysis_db, MeetingTreeAuditRun) op" where
  "GetLatestMeetingTreeAuditRun sessionID e = reading (\<lambda>db.
     case order_by (\<lambda>a b. ar_CreatedAt b < ar_CreatedAt a)
            (filter (\<lambda>r. ar_SessionID r = sessionID) (ad_runs db)) of
       [] \<Rightarrow> Inl NotFound | r # _ \<Rightarrow> Inr r)"

definition CountMeetingTreeAuditProviderCalls ::
    "gostring \<Rightarrow> MeetingTreeAuditTriggerClass option \<Rightarrow> gotime \<Rightarrow> (analysis_db, nat) op" where
  "CountMeetingTreeAuditProviderCalls sessionID triggerClass since e = reading (\<lambda>db.
     Inr (length (filter (\<lambda>r. ar_SessionID r = sessionID \<and> ar_Task r \<noteq> ''final_tree_review'' \<and>
        ar_ProviderCalled r \<and> (triggerClass = None \<or> triggerClass = Some (ar_TriggerClass r)) \<and>
        (is_zero since \<or> since \<le> ar_CreatedAt r)) (ad_runs db))))"

text \<open>\<open>ApplyMeetingTreeAudit\<close>: both writes happen in one transaction, or neither.\<close>

definition ApplyMeetingTreeAudit ::
    "json_column \<Rightarrow> MeetingTreeAuditRun \<Rightarrow> int \<Rightarrow> MeetingAIAnalysis \<Rightarrow> (analysis_db, MeetingAIAnalysis option) op" where
  "ApplyMeetingTreeAudit jc run expectedVersion a0 e db =
     (let a = a0\<lparr>aa_Type := AnalysisLive\<rparr> in
      case nullableJSONPayload jc (aa_Payload a) of
        Inl err \<Rightarrow> (Inl err, db)
      | Inr payload \<Rightarrow>
          (case cas_update payload (or_now (aa_UpdatedAt a) e) expectedVersion a db of
             (None, _) \<Rightarrow> (Inr None, db)
           | (Some saved, db1) \<Rightarrow>
               (case writeMeetingTreeAuditRun jc False run e db1 of
                  (Inl err, _) \<Rightarrow> (Inl err, db)
                | (Inr _, db2) \<Rightarrow> (Inr (Some saved), db2))))"

section \<open>The service's live writes\<close>

text \<open>
  The two moments are those of the two repository calls; each call may fail in the driver
  (\<open>fault1\<close>, \<open>fault2\<close>).  An error of the history is only logged.
\<close>

definition persistLiveAnalysis ::
    "json_column \<Rightarrow> bool \<Rightarrow> bool \<Rightarrow> env \<Rightarrow> env \<Rightarrow> int \<Rightarrow> MeetingAIAnalysis \<Rightarrow> analysis_db \<Rightarrow>
     MeetingAIAnalysis option result \<times> analysis_db" where
  "persistLiveAnalysis jc fault1 fault2 e1 e2 expectedVersion a db =
     (if fault1 then (Inl ErrDatabase, db)
      else (case CompareAndSwapMeetingAIAnalysis jc expectedVersion a e1 db of
          (Inr (Some saved), db1) \<Rightarrow>
            (Inr (Some saved),
             if aa_Status a = AnalysisCompleted \<and> \<not> fault2
             then snd (AppendLiveAnalysisHistory jc saved e2 db1) else db1)
        | (r, db1) \<Rightarrow> (r, db1)))"

definition finalizedProjectionUpdatedAt :: "gotime \<Rightarrow> MeetingAIAnalysis option \<Rightarrow> gotime" where
  "finalizedProjectionUpdatedAt now current =
     (case current of
        None \<Rightarrow> now
      | Some c \<Rightarrow>
          if is_zero (aa_UpdatedAt c) then now
          else (let minimum = aa_UpdatedAt c + millisecond in if now < minimum then minimum else now))"

definition finalized_projection ::
    "gostring \<Rightarrow> gostring \<Rightarrow> int \<Rightarrow> gotime \<Rightarrow> MeetingAIAnalysis option \<Rightarrow> MeetingAIAnalysis" where
  "finalized_projection sessionID payload version now current =
     \<lparr>aa_SessionID = sessionID, aa_Type = AnalysisLive, aa_Status = AnalysisCompleted,
      aa_Version = version, aa_Payload = payload,
      aa_Model = (case current of None \<Rightarrow> [] | Some c \<Rightarrow> aa_Model c),
      aa_SegmentCount = (case current of None \<Rightarrow> 0 | Some c \<Rightarrow> aa_SegmentCount c),
      aa_InputChars = (case current of None \<Rightarrow> 0 | Some c \<Rightarrow> aa_InputChars c), aa_LastError = [],
      aa_CreatedAt = 0, aa_UpdatedAt = finalizedProjectionUpdatedAt now current,
      aa_IntervalSeconds = 0, aa_RequestedAnalysisVersion = 0, aa_TargetFromSequenceNo = 0,
      aa_TargetThroughSequenceNo = 0, aa_StartedAt = 0\<rparr>"

text \<open>The result is the row to publish, nothing where the guard returned early.\<close>

definition persistFinalizedLiveProjection ::
    "json_column \<Rightarrow> bool \<Rightarrow> bool \<Rightarrow> env \<Rightarrow> gostring \<Rightarrow> gostring \<Rightarrow> int \<Rightarrow> analysis_db \<Rightarrow>
     MeetingAIAnalysis option result \<times> analysis_db" where
  "persistFinalizedLiveProjection jc fault1 fault2 e sessionID payload version db =
     (if trim_space sessionID = [] \<or> payload = [] then (Inr None, db)
      else if fault1 then (Inl ErrDatabase, db)
      else if fault2 then (Inl ErrDatabase, db)
      else (case UpsertMeetingAIAnalysis jc (finalized_projection sessionID payload version (fst e)
                   (find_analysis db sessionID AnalysisLive)) e db of
          (Inl err, db1) \<Rightarrow> (Inl err, db1) | (Inr saved, db1) \<Rightarrow> (Inr (Some saved), db1)))"

end
