(* ===== verification/AnalysisClaims.thy ===== *)
theory AnalysisClaims
  imports AnalysisStore
begin

text \<open>
  Concurrent writers of the live analysis and of the audit history: the operations of
  \<open>AnalysisStore\<close> in any order, each with the version it read before.
\<close>

section \<open>Keys and versions\<close>

definition analysis_key :: "MeetingAIAnalysis \<Rightarrow> gostring \<times> MeetingAIAnalysisType" where
  "analysis_key r = (aa_SessionID r, aa_Type r)"

definition unique_analyses :: "analysis_db \<Rightarrow> bool" where
  "unique_analyses db \<longleftrightarrow> distinct (map analysis_key (ad_analyses db))"

definition stored_version :: "analysis_db \<Rightarrow> gostring \<Rightarrow> int" where
  "stored_version db s = (case find_analysis db s AnalysisLive of None \<Rightarrow> 0 | Some r \<Rightarrow> aa_Version r)"

lemma is_analysis_key: "is_analysis s ty r \<longleftrightarrow> analysis_key r = (s, ty)"
  by (auto simp: is_analysis_def analysis_key_def)

lemma find_analysis_key: "find_analysis db s ty = find (\<lambda>r. analysis_key r = (s, ty)) (ad_analyses db)"
proof -
  have "is_analysis s ty = (\<lambda>r. analysis_key r = (s, ty))" by (simp add: fun_eq_iff is_analysis_key)
  then show ?thesis by (simp add: find_analysis_def)
qed

lemma written_row_simps [simp]:
  "analysis_key (written_row a p t r) = analysis_key r" "aa_Version (written_row a p t r) = aa_Version a"
  by (simp_all add: written_row_def analysis_key_def)

lemma new_row_simps [simp]:
  "analysis_key (new_row a p t c) = analysis_key a" "aa_Version (new_row a p t c) = aa_Version a"
  by (simp_all add: new_row_def) (simp add: analysis_key_def)

lemma map_key_update [simp]:
  "map analysis_key (update_where q (written_row a p t) rows) = map analysis_key rows"
  by (rule map_update_where) simp

lemma find_key_update:
  "find (\<lambda>r. analysis_key r = k) (update_where q (written_row a p t) rows) =
   map_option (\<lambda>r. if q r then written_row a p t r else r) (find (\<lambda>r. analysis_key r = k) rows)"
  by (rule find_update_where_key) simp

lemma find_key_distinct:
  assumes "distinct (map analysis_key rows)" "r \<in> set rows" "analysis_key r = k"
  shows "find (\<lambda>r. analysis_key r = k) rows = Some r"
  using assms by (induction rows) (auto simp: image_iff)

section \<open>One write\<close>

lemma upsert_effect:
  assumes "UpsertMeetingAIAnalysis jc a e db = (r, db')" "unique_analyses db"
  shows "unique_analyses db'" "analysis_key a \<noteq> (s, AnalysisLive) \<Longrightarrow> stored_version db' s = stored_version db s"
    "ad_runs db' = ad_runs db"
proof -
  note key = analysis_key_def [symmetric]
  show "unique_analyses db'"
    using assms
    by (auto simp: UpsertMeetingAIAnalysis_def unique_analyses_def find_analysis_key Let_def key
        find_None_iff split: sum.splits option.splits; metis)
  show "stored_version db' s = stored_version db s" if "analysis_key a \<noteq> (s, AnalysisLive)"
  proof -
    let ?at = "\<lambda>db. find (\<lambda>r. analysis_key r = (s, AnalysisLive)) (ad_analyses db)"
    have kept: "map_option (\<lambda>r. if is_analysis (aa_SessionID a) (aa_Type a) r then f r else r) (?at db) = ?at db" for f
      using that by (cases "?at db") (auto simp: is_analysis_key key dest: find_key_Some)
    have "?at db' = ?at db"
      using assms(1) that kept
      by (auto simp: UpsertMeetingAIAnalysis_def Let_def find_key_update find_key_append
          split: sum.splits option.splits)
    then show ?thesis by (simp add: stored_version_def find_analysis_key)
  qed
  show "ad_runs db' = ad_runs db"
    using assms(1) by (auto simp: UpsertMeetingAIAnalysis_def Let_def split: sum.splits option.splits)
qed

lemma cas_update_effect:
  assumes "cas_update p t v a db = (r, db')" "unique_analyses db" "aa_Type a = AnalysisLive"
  shows "unique_analyses db'" "ad_runs db' = ad_runs db" "ad_sessions db' = ad_sessions db"
    "r = None \<Longrightarrow> db' = db"
    "r \<noteq> None \<Longrightarrow> stored_version db (aa_SessionID a) = v \<and> aa_SessionID (the r) = aa_SessionID a \<and>
       stored_version db' s = (if s = aa_SessionID a then aa_Version a else stored_version db s)"
proof -
  let ?hit = "\<lambda>r. is_analysis (aa_SessionID a) (aa_Type a) r \<and> aa_Version r = v"
  show "unique_analyses db'" "ad_runs db' = ad_runs db" "ad_sessions db' = ad_sessions db" "r = None \<Longrightarrow> db' = db"
    using assms by (auto simp: cas_update_def Let_def unique_analyses_def split: option.splits)
  assume "r \<noteq> None"
  then obtain x where x: "find ?hit (ad_analyses db) = Some x" "r = Some (written_row a p t x)"
    and db': "db' = db\<lparr>ad_analyses := update_where ?hit (written_row a p t) (ad_analyses db)\<rparr>"
    using assms(1) by (auto simp: cas_update_def Let_def split: option.splits)
  then have in_db: "x \<in> set (ad_analyses db)" "?hit x" by (auto simp: find_Some_iff)
  then have key: "analysis_key x = (aa_SessionID a, AnalysisLive)" by (simp add: is_analysis_key assms(3))
  have found: "find_analysis db (aa_SessionID a) AnalysisLive = Some x"
    unfolding find_analysis_key using assms(2) in_db(1) key
    by (intro find_key_distinct) (simp_all add: unique_analyses_def)
  have "find_analysis db' s AnalysisLive =
      map_option (\<lambda>r. if ?hit r then written_row a p t r else r) (find_analysis db s AnalysisLive)"
    by (simp add: db' find_analysis_key find_key_update)
  moreover have "\<not> ?hit r'" if "find_analysis db s AnalysisLive = Some r'" "s \<noteq> aa_SessionID a" for r'
    using that by (auto simp: find_analysis_key is_analysis_key dest: find_key_Some)
  ultimately show "stored_version db (aa_SessionID a) = v \<and> aa_SessionID (the r) = aa_SessionID a \<and>
      stored_version db' s = (if s = aa_SessionID a then aa_Version a else stored_version db s)"
    using found in_db(2) key x(2)
    by (auto simp: stored_version_def analysis_key_def written_row_def split: option.splits)
qed

lemma swap_effect:
  assumes "CompareAndSwapMeetingAIAnalysis jc v a e db = (r, db')" "unique_analyses db" "aa_Type a = AnalysisLive"
  shows "unique_analyses db' \<and> ad_runs db' = ad_runs db \<and>
    (case r of Inr (Some saved) \<Rightarrow> stored_version db (aa_SessionID a) = v \<and> aa_SessionID saved = aa_SessionID a \<and>
         (\<forall>s. stored_version db' s = (if s = aa_SessionID a then aa_Version a else stored_version db s))
     | _ \<Rightarrow> db' = db)"
proof (cases "nullableJSONPayload jc (aa_Payload a)")
  case (Inr payload)
  obtain q db1 where cu: "cas_update payload (or_now (aa_UpdatedAt a) e) v a db = (q, db1)"
    by fastforce
  note eff = cas_update_effect [OF cu assms(2,3)]
  show ?thesis
  proof (cases q)
    case (Some saved)
    then have "r = Inr (Some saved)" "db' = db1"
      using assms(1) Inr cu by (simp_all add: CompareAndSwapMeetingAIAnalysis_def)
    then show ?thesis using eff Some by auto
  next
    case None
    let ?new = "new_row a payload (or_now (aa_UpdatedAt a) e) (fst e)"
    show ?thesis
    proof (cases "v = 0 \<and> find_analysis db (aa_SessionID a) AnalysisLive = None")
      case True
      then have r: "r = Inr (Some ?new)" and db': "db' = db\<lparr>ad_analyses := ad_analyses db @ [?new]\<rparr>"
        using assms(1,3) Inr cu None by (simp_all add: CompareAndSwapMeetingAIAnalysis_def Let_def)
      have key: "analysis_key a = (aa_SessionID a, AnalysisLive)" by (simp add: analysis_key_def assms(3))
      moreover have "(aa_SessionID a, AnalysisLive) \<notin> analysis_key ` set (ad_analyses db)"
        using True by (auto simp: find_analysis_key find_None_iff)
      ultimately have "unique_analyses db'"
        using assms(2) by (simp add: unique_analyses_def db')
      moreover have "stored_version db' s = (if s = aa_SessionID a then aa_Version a else stored_version db s)" for s
        using True key by (auto simp: stored_version_def db' find_analysis_key find_key_append split: option.split)
      moreover have "aa_SessionID ?new = aa_SessionID a" using key by (simp add: new_row_def written_row_def)
      ultimately show ?thesis using True by (simp add: r db' stored_version_def)
    next
      case False
      then have "r = Inr None" "db' = db"
        using assms(1,3) Inr cu None by (auto simp: CompareAndSwapMeetingAIAnalysis_def Let_def split: if_splits)
      then show ?thesis using assms(2) by simp
    qed
  qed
qed (use assms in \<open>auto simp: CompareAndSwapMeetingAIAnalysis_def\<close>)

lemma append_history_frame [simp]:
  "ad_analyses (snd (AppendLiveAnalysisHistory jc a e db)) = ad_analyses db"
  "ad_runs (snd (AppendLiveAnalysisHistory jc a e db)) = ad_runs db"
  by (auto simp: AppendLiveAnalysisHistory_def split: sum.split)

lemma same_analyses:
  "ad_analyses db' = ad_analyses db \<Longrightarrow> unique_analyses db' = unique_analyses db"
  "ad_analyses db' = ad_analyses db \<Longrightarrow> stored_version db' = stored_version db"
  by (simp_all add: unique_analyses_def stored_version_def find_analysis_def fun_eq_iff)

lemma write_run_frame:
  assumes "writeMeetingTreeAuditRun jc claim run e db = (r, db')"
  shows "ad_analyses db' = ad_analyses db" "ad_sessions db' = ad_sessions db"
  using assms
  by (auto simp: writeMeetingTreeAuditRun_def Let_def split: sum.splits option.splits if_splits)

section \<open>Runs of writers\<close>

datatype store_action =
    PersistLive int MeetingAIAnalysis bool bool
  | ApplyAudit MeetingTreeAuditRun int MeetingAIAnalysis
  | StartAudit MeetingTreeAuditRun
  | SaveAudit MeetingTreeAuditRun
  | UpsertOther MeetingAIAnalysis

text \<open>The completed live version an action published, if any.\<close>

definition store_do :: "json_column \<Rightarrow> env \<Rightarrow> store_action \<Rightarrow> analysis_db \<Rightarrow> (gostring \<times> int) list \<times> analysis_db" where
  "store_do jc e act db =
     (case act of
        PersistLive v a fault1 fault2 \<Rightarrow>
          (case persistLiveAnalysis jc fault1 fault2 e e v a db of
             (Inr (Some saved), db') \<Rightarrow>
               (if aa_Status a = AnalysisCompleted then [(aa_SessionID a, aa_Version a)] else [], db')
           | (_, db') \<Rightarrow> ([], db'))
      | ApplyAudit run v a \<Rightarrow>
          (case ApplyMeetingTreeAudit jc run v a e db of
             (Inr (Some saved), db') \<Rightarrow> ([(aa_SessionID a, aa_Version a)], db')
           | (_, db') \<Rightarrow> ([], db'))
      | StartAudit run \<Rightarrow> ([], snd (TryStartMeetingTreeAuditRun jc run e db))
      | SaveAudit run \<Rightarrow> ([], snd (SaveMeetingTreeAuditRun jc run e db))
      | UpsertOther a \<Rightarrow> ([], snd (UpsertMeetingAIAnalysis jc a e db)))"

fun store_run :: "json_column \<Rightarrow> (env \<times> store_action) list \<Rightarrow> analysis_db \<Rightarrow> (gostring \<times> int) list \<times> analysis_db" where
  "store_run jc [] db = ([], db)"
| "store_run jc (x # xs) db =
     (let (out, db1) = store_do jc (fst x) (snd x) db; (outs, db2) = store_run jc xs db1 in (out @ outs, db2))"

text \<open>
  The versions the code passes: a completed round and an audit write the version after the one
  they read, a failed round writes the one it read; other analyses are not live ones.
\<close>

fun disciplined :: "store_action \<Rightarrow> bool" where
  "disciplined (PersistLive v a _ _) \<longleftrightarrow> aa_Type a = AnalysisLive \<and>
     (aa_Status a = AnalysisCompleted \<and> aa_Version a = v + 1 \<or> aa_Status a = AnalysisFailed \<and> aa_Version a = v)"
| "disciplined (ApplyAudit _ v a) \<longleftrightarrow> aa_Version a = v + 1"
| "disciplined (UpsertOther a) \<longleftrightarrow> aa_Type a \<noteq> AnalysisLive"
| "disciplined _ \<longleftrightarrow> True"

abbreviation versions_of :: "gostring \<Rightarrow> (gostring \<times> int) list \<Rightarrow> int list" where
  "versions_of s outs \<equiv> map snd (filter (\<lambda>p. fst p = s) outs)"

lemma persist_effect:
  assumes "persistLiveAnalysis jc f1 f2 e1 e2 v a db = (r, db')" "unique_analyses db" "aa_Type a = AnalysisLive"
  shows "unique_analyses db' \<and> ad_runs db' = ad_runs db \<and>
    (case r of Inr (Some saved) \<Rightarrow> stored_version db (aa_SessionID a) = v \<and>
         (\<forall>s. stored_version db' s = (if s = aa_SessionID a then aa_Version a else stored_version db s))
     | _ \<Rightarrow> db' = db)"
proof (cases "f1")
  case False
  obtain q db1 where sw: "CompareAndSwapMeetingAIAnalysis jc v a e1 db = (q, db1)" by fastforce
  note eff = swap_effect [OF sw assms(2,3)]
  show ?thesis
  proof (cases "\<exists>saved. q = Inr (Some saved)")
    case True
    then obtain saved where q: "q = Inr (Some saved)" by blast
    let ?db = "if aa_Status a = AnalysisCompleted \<and> \<not> f2 then snd (AppendLiveAnalysisHistory jc saved e2 db1) else db1"
    have r: "r = Inr (Some saved)" "db' = ?db"
      using assms(1) False sw q by (simp_all add: persistLiveAnalysis_def)
    have an: "ad_analyses ?db = ad_analyses db1" "ad_runs ?db = ad_runs db1" by simp_all
    show ?thesis
      using eff q same_analyses [OF an(1)] an(2) by (simp add: r del: if_split_asm)
  next
    case none: False
    then have "r = q" "db' = db1"
      using assms(1) False sw by (auto simp: persistLiveAnalysis_def split: sum.splits option.splits)
    then show ?thesis using eff none by (auto split: sum.splits option.splits)
  qed
qed (use assms in \<open>auto simp: persistLiveAnalysis_def\<close>)

lemma apply_effect:
  assumes "ApplyMeetingTreeAudit jc run v a e db = (r, db')" "unique_analyses db"
  shows "unique_analyses db' \<and>
    (case r of Inr (Some saved) \<Rightarrow> stored_version db (aa_SessionID a) = v \<and>
         (\<forall>s. stored_version db' s = (if s = aa_SessionID a then aa_Version a else stored_version db s))
     | _ \<Rightarrow> db' = db)"
proof (cases "nullableJSONPayload jc (aa_Payload a)")
  case (Inr payload)
  let ?a = "a\<lparr>aa_Type := AnalysisLive\<rparr>"
  obtain q db1 where cu: "cas_update payload (or_now (aa_UpdatedAt a) e) v ?a db = (q, db1)" by fastforce
  note eff = cas_update_effect [OF cu assms(2)]
  show ?thesis
  proof (cases q)
    case None
    then have "r = Inr None" "db' = db"
      using assms(1) Inr cu by (simp_all add: ApplyMeetingTreeAudit_def)
    then show ?thesis using assms(2) by simp
  next
    case (Some saved)
    obtain w db2 where wr: "writeMeetingTreeAuditRun jc False run e db1 = (w, db2)" by fastforce
    show ?thesis
    proof (cases w)
      case (Inl err)
      then have "r = Inl err" "db' = db"
        using assms(1) Inr cu Some wr by (simp_all add: ApplyMeetingTreeAudit_def)
      then show ?thesis using assms(2) by simp
    next
      case inner: (Inr b)
      then have r: "r = Inr (Some saved)" "db' = db2"
        using assms(1) Inr cu Some wr by (simp_all add: ApplyMeetingTreeAudit_def)
      show ?thesis
        using eff Some same_analyses [OF write_run_frame(1) [OF wr]] by (simp add: r)
    qed
  qed
qed (use assms in \<open>auto simp: ApplyMeetingTreeAudit_def\<close>)

lemma store_do_chain:
  assumes "store_do jc e act db = (out, db')" "unique_analyses db" "disciplined act"
  shows "unique_analyses db' \<and> stored_version db s \<le> stored_version db' s \<and>
    versions_of s out = [stored_version db s + 1..stored_version db' s]"
proof (cases act)
  case (PersistLive v a f1 f2)
  obtain r db1 where p: "persistLiveAnalysis jc f1 f2 e e v a db = (r, db1)" by fastforce
  have "aa_Type a = AnalysisLive" using assms(3) PersistLive by simp
  note eff = persist_effect [OF p assms(2) this]
  show ?thesis
    using assms(1,3) PersistLive p eff
    by (cases r; auto simp: store_do_def split: option.splits if_splits)
next
  case (ApplyAudit run v a)
  obtain r db1 where p: "ApplyMeetingTreeAudit jc run v a e db = (r, db1)" by fastforce
  note eff = apply_effect [OF p assms(2)]
  show ?thesis
    using assms(1,3) ApplyAudit p eff
    by (cases r; auto simp: store_do_def split: option.splits if_splits)
next
  case (StartAudit run)
  obtain r db1 where p: "writeMeetingTreeAuditRun jc True run e db = (r, db1)" by fastforce
  show ?thesis
    using assms StartAudit p same_analyses [OF write_run_frame(1) [OF p]]
    by (simp add: store_do_def TryStartMeetingTreeAuditRun_def)
next
  case (SaveAudit run)
  obtain r db1 where p: "writeMeetingTreeAuditRun jc False run e db = (r, db1)" by fastforce
  then have "db' = db1"
    using assms(1) SaveAudit by (simp add: store_do_def SaveMeetingTreeAuditRun_def split: sum.splits)
  then show ?thesis
    using assms SaveAudit same_analyses [OF write_run_frame(1) [OF p]] by (simp add: store_do_def)
next
  case (UpsertOther a)
  obtain r db1 where p: "UpsertMeetingAIAnalysis jc a e db = (r, db1)" by fastforce
  have "analysis_key a \<noteq> (s, AnalysisLive)" using assms(3) UpsertOther by (simp add: analysis_key_def)
  then show ?thesis
    using assms(1) UpsertOther p upsert_effect(1) [OF p assms(2)] upsert_effect(2) [OF p assms(2), of s] by (simp add: store_do_def)
qed

lemma upto_join: "i \<le> j \<Longrightarrow> j \<le> k \<Longrightarrow> [i + 1..j] @ [j + 1..k] = [i + 1..(k::int)]"
  using upto_split2 [of "i + 1" j k] by (cases "i = j") auto

lemma store_run_chain:
  "store_run jc steps db = (outs, db') \<Longrightarrow> unique_analyses db \<Longrightarrow> list_all (\<lambda>x. disciplined (snd x)) steps \<Longrightarrow>
   unique_analyses db' \<and> stored_version db s \<le> stored_version db' s \<and>
   versions_of s outs = [stored_version db s + 1..stored_version db' s]"
proof (induction steps arbitrary: db outs)
  case (Cons x steps)
  obtain out db1 where first: "store_do jc (fst x) (snd x) db = (out, db1)" by fastforce
  obtain outs2 where rest: "store_run jc steps db1 = (outs2, db')" and outs: "outs = out @ outs2"
    using Cons.prems(1) first by (auto split: prod.splits)
  have one: "unique_analyses db1 \<and> stored_version db s \<le> stored_version db1 s \<and>
      versions_of s out = [stored_version db s + 1..stored_version db1 s]"
    using store_do_chain [OF first Cons.prems(2)] Cons.prems(3) by simp
  moreover have "unique_analyses db' \<and> stored_version db1 s \<le> stored_version db' s \<and>
      versions_of s outs2 = [stored_version db1 s + 1..stored_version db' s]"
    using Cons.IH [OF rest] one Cons.prems(3) by simp
  ultimately show ?case by (simp add: outs upto_join)
qed simp

section \<open>Running claims\<close>

definition running_claims :: "analysis_db \<Rightarrow> (gostring \<times> gostring \<times> int \<times> gostring \<times> gostring \<times> gostring) list" where
  "running_claims db = map active_claim (filter (\<lambda>r. ar_Status r = AuditRunning) (ad_runs db))"

text \<open>The primary key and the partial unique index of the table.\<close>

definition claims_ok :: "analysis_db \<Rightarrow> bool" where
  "claims_ok db \<longleftrightarrow> distinct (map ar_ID (ad_runs db)) \<and> distinct (running_claims db)"

lemma claim_taken_iff:
  "claim_taken r rows \<longleftrightarrow> ar_Status r = AuditRunning \<and>
     active_claim r \<in> active_claim ` set (filter (\<lambda>x. ar_Status x = AuditRunning) rows)"
  by (auto simp: claim_taken_def list_ex_iff image_iff)

lemma updated_run_ID [simp]: "ar_ID (updated_run new old) = ar_ID new"
  by (simp add: updated_run_def)

lemma update_where_none: "(\<And>r. r \<in> set rows \<Longrightarrow> \<not> p r) \<Longrightarrow> update_where p f rows = rows"
  by (induction rows) auto

lemma replace_run:
  assumes "distinct (map ar_ID rows)" "distinct (map active_claim (filter (\<lambda>x. ar_Status x = AuditRunning) rows))"
    and "\<And>old. old \<in> set rows \<Longrightarrow> ar_ID old = i \<Longrightarrow> ar_ID (f old) = i \<and>
      \<not> claim_taken (f old) (filter (\<lambda>x. ar_ID x \<noteq> i) rows)"
  shows "distinct (map ar_ID (update_where (\<lambda>x. ar_ID x = i) f rows)) \<and>
    distinct (map active_claim (filter (\<lambda>x. ar_Status x = AuditRunning) (update_where (\<lambda>x. ar_ID x = i) f rows)))"
proof (cases "i \<in> ar_ID ` set rows")
  case False
  then have "update_where (\<lambda>x. ar_ID x = i) f rows = rows"
    by (intro update_where_none) auto
  then show ?thesis using assms by simp
next
  case True
  then obtain old as bs where rows: "rows = as @ old # bs" and old: "ar_ID old = i"
    by (metis image_iff split_list)
  have out: "i \<notin> ar_ID ` set as" "i \<notin> ar_ID ` set bs"
    using assms(1) old by (auto simp: rows)
  then have same: "update_where (\<lambda>x. ar_ID x = i) f as = as" "update_where (\<lambda>x. ar_ID x = i) f bs = bs"
    by (auto intro!: update_where_none)
  have others: "filter (\<lambda>x. ar_ID x \<noteq> i) rows = as @ bs"
    using out old by (simp add: rows) (metis (mono_tags, lifting) filter_True image_eqI)
  have upd: "update_where (\<lambda>x. ar_ID x = i) f rows = as @ f old # bs"
    using same old by (simp add: rows update_where_def)
  let ?R = "filter (\<lambda>x. ar_Status x = AuditRunning)"
  have new: "ar_ID (f old) = i" "\<not> claim_taken (f old) (as @ bs)"
    using assms(3) [of old] old others by (simp_all add: rows)
  have "distinct (map ar_ID (update_where (\<lambda>x. ar_ID x = i) f rows))"
    using assms(1) old new(1) unfolding upd by (simp add: rows)
  moreover have "distinct (map active_claim (?R as) @ map active_claim (?R bs))"
    using assms(2) by (simp add: rows split: if_splits)
  then have "distinct (map active_claim (?R (update_where (\<lambda>x. ar_ID x = i) f rows)))"
    using new(2) unfolding upd by (auto simp: claim_taken_iff)
  ultimately show ?thesis ..
qed

lemma write_run_claims:
  assumes "writeMeetingTreeAuditRun jc claim run e db = (r, db')" "claims_ok db"
  shows "claims_ok db'"
proof (cases "db' = db")
  case False
  obtain run1 where cols: "json_columns jc run = Inr run1"
    using assms(1) False by (auto simp: writeMeetingTreeAuditRun_def split: sum.splits)
  let ?run = "inserted_run run1 e"
  let ?others = "filter (\<lambda>x. ar_ID x \<noteq> ar_ID ?run) (ad_runs db)"
  consider "db' = db\<lparr>ad_runs := ad_runs db @ [?run]\<rparr>" "\<not> claim_taken ?run (ad_runs db)"
      "ar_ID ?run \<notin> ar_ID ` set (ad_runs db)"
    | old where "find (\<lambda>x. ar_ID x = ar_ID ?run) (ad_runs db) = Some old"
      "\<not> claim_taken (updated_run ?run old) ?others"
      "db' = db\<lparr>ad_runs := update_where (\<lambda>x. ar_ID x = ar_ID ?run) (updated_run ?run) (ad_runs db)\<rparr>"
  proof (cases claim)
    case True
    then show ?thesis
      using assms(1) False cols that(1)
      by (auto simp: writeMeetingTreeAuditRun_def Let_def list_ex_iff image_iff eq_commute [of "ar_ID ?run"]
          split: if_splits)
  next
    case inner: False
    show ?thesis
    proof (cases "find (\<lambda>x. ar_ID x = ar_ID ?run) (ad_runs db)")
      case None
      then have "ar_ID ?run \<notin> ar_ID ` set (ad_runs db)" by (auto simp: find_None_iff)
      then show ?thesis
        using assms(1) False cols that(1) inner None
        by (auto simp: writeMeetingTreeAuditRun_def Let_def split: if_splits)
    next
      case (Some old)
      then show ?thesis
        using assms(1) False cols that(2) inner
        by (auto simp: writeMeetingTreeAuditRun_def Let_def split: if_splits)
    qed
  qed
  then show ?thesis
  proof cases
    case 1
    then show ?thesis using assms(2) by (auto simp: claims_ok_def running_claims_def claim_taken_iff)
  next
    case (2 old)
    have "old \<in> set (ad_runs db)" "ar_ID old = ar_ID ?run" using find_key_Some [OF 2(1)] by auto
    then have only: "x = old" if "x \<in> set (ad_runs db)" "ar_ID x = ar_ID ?run" for x
      using assms(2) that \<open>old \<in> set (ad_runs db)\<close> \<open>ar_ID old = ar_ID ?run\<close>
      by (metis claims_ok_def distinct_map inj_onD)
    have upd: "ad_runs db' = update_where (\<lambda>x. ar_ID x = ar_ID ?run) (updated_run ?run) (ad_runs db)"
      by (simp add: 2(3))
    have "distinct (map ar_ID (ad_runs db'))\<and>
        distinct (map active_claim (filter (\<lambda>x. ar_Status x = AuditRunning) (ad_runs db')))"
      unfolding upd
      by (rule replace_run) (use assms(2) only 2(2) in \<open>auto simp: claims_ok_def running_claims_def\<close>)
    then show ?thesis by (simp add: claims_ok_def running_claims_def)
  qed
qed (use assms(2) in simp)

lemma store_do_claims:
  assumes "store_do jc e act db = (out, db')" "claims_ok db" "unique_analyses db" "disciplined act"
  shows "claims_ok db'"
proof (cases act)
  case (PersistLive v a f1 f2)
  obtain r db1 where p: "persistLiveAnalysis jc f1 f2 e e v a db = (r, db1)" by fastforce
  have "aa_Type a = AnalysisLive" using assms(4) PersistLive by simp
  then have "ad_runs db1 = ad_runs db" using persist_effect [OF p assms(3)] by simp
  moreover have "db' = db1"
    using assms(1) PersistLive p by (auto simp: store_do_def split: sum.splits option.splits)
  ultimately show ?thesis using assms(2) by (simp add: claims_ok_def running_claims_def)
next
  case (ApplyAudit run v a)
  show ?thesis
  proof (cases "nullableJSONPayload jc (aa_Payload a)")
    case (Inr payload)
    let ?a = "a\<lparr>aa_Type := AnalysisLive\<rparr>"
    obtain q db1 where cu: "cas_update payload (or_now (aa_UpdatedAt a) e) v ?a db = (q, db1)" by fastforce
    obtain w db2 where wr: "writeMeetingTreeAuditRun jc False run e db1 = (w, db2)" by fastforce
    have "ad_runs db1 = ad_runs db" using cas_update_effect(2) [OF cu assms(3)] by simp
    then have "claims_ok db2"
      using write_run_claims [OF wr] assms(2) by (simp add: claims_ok_def running_claims_def)
    moreover have "db' = db \<or> db' = db2"
      using assms(1) ApplyAudit Inr cu wr
      by (auto simp: store_do_def ApplyMeetingTreeAudit_def split: sum.splits option.splits)
    ultimately show ?thesis using assms(2) by auto
  qed (use assms(1,2) ApplyAudit in \<open>simp add: store_do_def ApplyMeetingTreeAudit_def\<close>)
next
  case (StartAudit run)
  obtain r db1 where p: "writeMeetingTreeAuditRun jc True run e db = (r, db1)" by fastforce
  then show ?thesis
    using assms(1) StartAudit write_run_claims [OF p assms(2)]
    by (simp add: store_do_def TryStartMeetingTreeAuditRun_def)
next
  case (SaveAudit run)
  obtain r db1 where p: "writeMeetingTreeAuditRun jc False run e db = (r, db1)" by fastforce
  then have "db' = db1"
    using assms(1) SaveAudit by (simp add: store_do_def SaveMeetingTreeAuditRun_def split: sum.splits)
  then show ?thesis using write_run_claims [OF p assms(2)] by simp
next
  case (UpsertOther a)
  obtain r db1 where p: "UpsertMeetingAIAnalysis jc a e db = (r, db1)" by fastforce
  then show ?thesis
    using assms(1,2) UpsertOther upsert_effect(3) [OF p assms(3)]
    by (simp add: store_do_def claims_ok_def running_claims_def)
qed

lemma store_run_claims:
  "store_run jc steps db = (outs, db') \<Longrightarrow> claims_ok db \<Longrightarrow> unique_analyses db \<Longrightarrow>
   list_all (\<lambda>x. disciplined (snd x)) steps \<Longrightarrow> claims_ok db'"
proof (induction steps arbitrary: db outs)
  case (Cons x steps)
  obtain out db1 where first: "store_do jc (fst x) (snd x) db = (out, db1)" by fastforce
  obtain outs2 where rest: "store_run jc steps db1 = (outs2, db')"
    using Cons.prems(1) first by (auto split: prod.splits)
  show ?case
    using Cons.IH [OF rest] Cons.prems store_do_claims [OF first] store_do_chain [OF first, of undefined] by simp
qed simp

section \<open>Properties\<close>

text \<open>C25: Concurrent writers never lose an update of the live analysis.  Whatever writers of live
  rounds and tree audits do, in any order, each with the version it has read before and any pattern
  of failures, the completed versions of a session's live analysis are v+1, v+2, ... without gap or
  repetition up to the stored one: a write based on an older version changes nothing.  (The refresh
  of the row by the finalization, \<open>persistFinalizedLiveProjection\<close>, writes without a version and is not
  one of these writers.)\<close>

theorem live_versions_form_a_chain:
  assumes "unique_analyses db" "list_all (\<lambda>x. disciplined (snd x)) steps" "store_run jc steps db = (outs, db')"
  shows "map snd (filter (\<lambda>p. fst p = s) outs) = [stored_version db s + 1..stored_version db' s] \<and>
    (\<forall>e v a f1 f2. aa_Type a = AnalysisLive \<and> stored_version db' (aa_SessionID a) \<noteq> v \<longrightarrow>
       snd (persistLiveAnalysis jc f1 f2 e e v a db') = db')"
proof -
  have chain: "unique_analyses db' \<and> map snd (filter (\<lambda>p. fst p = s) outs) = [stored_version db s + 1..stored_version db' s]"
    using store_run_chain [OF assms(3,1,2), of s] by blast
  have "snd (persistLiveAnalysis jc f1 f2 e e v a db') = db'"
    if "aa_Type a = AnalysisLive" "stored_version db' (aa_SessionID a) \<noteq> v" for e v a f1 f2
    using persist_effect [of jc f1 f2 e e v a db', OF surjective_pairing] chain that
    by (auto split: sum.splits option.splits)
  with chain show ?thesis by blast
qed

definition sample_analysis_row :: "int \<Rightarrow> gostring \<Rightarrow> MeetingAIAnalysis" where
  "sample_analysis_row v payload =
     \<lparr>aa_SessionID = ''s1'', aa_Type = AnalysisLive, aa_Status = AnalysisCompleted, aa_Version = v,
      aa_Payload = payload, aa_Model = ''m'', aa_SegmentCount = 1, aa_InputChars = 9, aa_LastError = [],
      aa_CreatedAt = 0, aa_UpdatedAt = 7, aa_IntervalSeconds = 0, aa_RequestedAnalysisVersion = 0,
      aa_TargetFromSequenceNo = 0, aa_TargetThroughSequenceNo = 0, aa_StartedAt = 0\<rparr>"

definition sample_json_column :: json_column where
  "sample_json_column = \<lparr>jc_valid = (\<lambda>_. True), jc_stored = Some\<rparr>"

definition sample_analysis_db :: analysis_db where
  "sample_analysis_db = \<lparr>ad_sessions = [''s1''], ad_analyses = [], ad_history = [], ad_runs = []\<rparr>"

text \<open>Two writers read version 1; the second one to write changes nothing.\<close>

definition sample_writers :: "(env \<times> store_action) list" where
  "sample_writers =
     [((1, []), PersistLive 0 (sample_analysis_row 1 ''a'') False False),
      ((2, []), PersistLive 1 (sample_analysis_row 2 ''b'') False False),
      ((3, []), PersistLive 1 (sample_analysis_row 2 ''c'') False False),
      ((4, []), PersistLive 2 (sample_analysis_row 3 ''d'') False False)]"

theorem live_versions_form_a_chain_witness:
  "map snd (filter (\<lambda>p. fst p = ''s1'') (fst (store_run sample_json_column sample_writers sample_analysis_db))) = [1, 2, 3]"
proof -
  have "unique_analyses sample_analysis_db" by code_simp
  moreover have "list_all (\<lambda>x. disciplined (snd x)) sample_writers" by code_simp
  moreover have "stored_version sample_analysis_db ''s1'' = 0"
    "stored_version (snd (store_run sample_json_column sample_writers sample_analysis_db)) ''s1'' = 3" by code_simp+
  moreover have "[0 + 1..3] = [1, 2, 3::int]" by code_simp
  ultimately show ?thesis
    using live_versions_form_a_chain [OF _ _ surjective_pairing, where db = sample_analysis_db and steps = sample_writers
        and jc = sample_json_column and s = "''s1''"]
    by simp
qed

text \<open>C26: A tree snapshot is audited by one run at a time.  Whatever writers do, no two running audit
  runs share the key of a snapshot; in particular \<open>TryStartMeetingTreeAuditRun\<close> says no, and changes
  nothing, while a run with the same key is still running, and says yes only when none is.\<close>

theorem audit_claims_are_exclusive:
  assumes "unique_analyses db" "claims_ok db" "list_all (\<lambda>x. disciplined (snd x)) steps"
    and "store_run jc steps db = (outs, db')" "TryStartMeetingTreeAuditRun jc run e db' = (r, db2)"
    and "ar_Status run = AuditRunning"
  shows "distinct (map active_claim (filter (\<lambda>x. ar_Status x = AuditRunning) (ad_runs db2))) \<and>
    (active_claim run \<in> set (running_claims db') \<longrightarrow> r \<noteq> Inr True \<and> db2 = db') \<and>
    (r = Inr True \<longrightarrow> active_claim run \<in> set (running_claims db2))"
proof -
  have ok: "claims_ok db'" using store_run_claims [OF assms(4,2,1,3)] .
  have p: "writeMeetingTreeAuditRun jc True run e db' = (r, db2)"
    using assms(5) by (simp add: TryStartMeetingTreeAuditRun_def)
  have "claims_ok db2" using write_run_claims [OF p ok] .
  moreover have "(active_claim run \<in> set (running_claims db') \<longrightarrow> r \<noteq> Inr True \<and> db2 = db') \<and>
      (r = Inr True \<longrightarrow> active_claim run \<in> set (running_claims db2))"
  proof (cases "json_columns jc run")
    case (Inr run1)
    then have same: "active_claim (inserted_run run1 e) = active_claim run" "ar_Status (inserted_run run1 e) = ar_Status run"
      by (auto simp: json_columns_def active_claim_def inserted_run_def split: sum.splits)
    then show ?thesis
      using p Inr assms(6)
      by (auto simp: writeMeetingTreeAuditRun_def Let_def claim_taken_iff running_claims_def image_iff
          split: if_splits)
  qed (use p in \<open>auto simp: writeMeetingTreeAuditRun_def\<close>)
  ultimately show ?thesis by (simp add: claims_ok_def running_claims_def)
qed

definition sample_audit_run :: "gostring \<Rightarrow> MeetingTreeAuditStatus \<Rightarrow> MeetingTreeAuditRun" where
  "sample_audit_run i st =
     \<lparr>ar_ID = i, ar_SessionID = ''s1'', ar_BasedOnTreeVersion = 3, ar_ResultingTreeVersion = 0,
      ar_TriggerReason = ''r'', ar_TriggerClass = TriggerNormal, ar_Task = ''tree_audit'', ar_Deployment = [],
      ar_Model = [], ar_PromptVersion = ''p1'', ar_SnapshotHash = ''h'', ar_Status = st, ar_Result = [],
      ar_Disposition = ''none'', ar_ResultClassification = ResultNone, ar_ConsecutiveUnappliedRuns = 0,
      ar_OperationsProposed = 0, ar_OperationsCanonicalized = 0, ar_OperationsValid = 0,
      ar_OperationsApplied = 0, ar_OperationsRejected = 0, ar_RejectionReasons = [], ar_SuppressionReason = [],
      ar_ProviderCalled = False, ar_MeetingElapsedSeconds = 0, ar_InputSummary = [], ar_InputPayload = [],
      ar_RawResponse = [], ar_Findings = [], ar_Operations = [], ar_ValidatorResult = [],
      ar_PromptTokens = 0, ar_CompletionTokens = 0, ar_ElapsedMilliseconds = 0, ar_ErrorCode = [],
      ar_ErrorMessage = [], ar_CreatedAt = 5, ar_CompletedAt = None\<rparr>"

theorem audit_claims_are_exclusive_witness:
  "fst (TryStartMeetingTreeAuditRun sample_json_column (sample_audit_run ''r2'' AuditRunning) (9, [])
     (snd (store_run sample_json_column [((8, []), StartAudit (sample_audit_run ''r1'' AuditRunning))] sample_analysis_db)))
   \<noteq> Inr True"
proof -
  let ?db = "snd (store_run sample_json_column [((8, []), StartAudit (sample_audit_run ''r1'' AuditRunning))] sample_analysis_db)"
  have start: "unique_analyses sample_analysis_db" "claims_ok sample_analysis_db" by code_simp+
  have "active_claim (sample_audit_run ''r2'' AuditRunning) \<in> set (running_claims ?db)" by code_simp
  then show ?thesis
    using audit_claims_are_exclusive [OF start _ surjective_pairing surjective_pairing,
        where steps = "[((8, []), StartAudit (sample_audit_run ''r1'' AuditRunning))]"
        and run = "sample_audit_run ''r2'' AuditRunning" and jc = sample_json_column and e = "(9, [])"]
    by (simp add: sample_audit_run_def)
qed

end
