(* ===== verification/Watchdog.thy ===== *)
theory Watchdog
  imports SessionLifecycle Transcripts Complex_Main
begin

text \<open>
  The health of a running meeting, all of package \<open>internal/application\<close>: the media health a bot
  reports (\<open>bot_media_health.go\<close>), its metrics (\<open>bot_media_metrics.go\<close>), the activity of the
  transcript (\<open>transcript_activity.go\<close>) and the watchdog that scans the sessions
  (\<open>meeting_session_watchdog.go\<close>) and ends those whose bot is silent, through
  \<open>UpdateMeetingSessionStatus\<close> of \<open>SessionService\<close>.  The stores are maps from session ids; what is
  published is recorded in order.  The ticker of \<open>Start\<close> is left out: a scan is \<open>RunOnce\<close>.
\<close>

section \<open>Media health\<close>

definition BotMediaHealthOK :: gostring where "BotMediaHealthOK = ''ok''"
definition BotMediaHealthAudioReceiveStalled :: gostring where
  "BotMediaHealthAudioReceiveStalled = ''audio_receive_stalled''"
definition BotMediaHealthEventStarted :: gostring where "BotMediaHealthEventStarted = ''started''"
definition BotMediaHealthEventRecovered :: gostring where "BotMediaHealthEventRecovered = ''recovered''"

lemmas media_texts = BotMediaHealthOK_def BotMediaHealthAudioReceiveStalled_def
  BotMediaHealthEventStarted_def BotMediaHealthEventRecovered_def

record BotMediaHealthUpdate =
  mu_EventID :: gostring
  mu_BotCallID :: gostring
  mu_State :: gostring
  mu_Event :: gostring
  mu_Source :: gostring
  mu_OccurredAt :: gotime
  mu_StartedAt :: gotime
  mu_LastAudioFrameAt :: gotime
  mu_DurationMilliseconds :: int

record BotMediaHealthState =
  mh_SessionID :: gostring
  mh_EventID :: gostring
  mh_BotCallID :: gostring
  mh_State :: gostring
  mh_Event :: gostring
  mh_Source :: gostring
  mh_OccurredAt :: gotime
  mh_StartedAt :: gotime
  mh_LastAudioFrameAt :: gotime
  mh_DurationMilliseconds :: int
  mh_UpdatedAt :: gotime

record media_health =
  mhs_states :: "gostring \<Rightarrow> BotMediaHealthState option"
  mhs_published :: "(MeetingSession \<times> BotMediaHealthState) list"

definition valid_media_update :: "gostring \<Rightarrow> gostring \<Rightarrow> bool" where
  "valid_media_update state event \<longleftrightarrow>
     \<not> ((state \<noteq> BotMediaHealthOK \<and> state \<noteq> BotMediaHealthAudioReceiveStalled) \<or>
        (event \<noteq> BotMediaHealthEventStarted \<and> event \<noteq> BotMediaHealthEventRecovered) \<or>
        (event = BotMediaHealthEventStarted \<and> state \<noteq> BotMediaHealthAudioReceiveStalled) \<or>
        (event = BotMediaHealthEventRecovered \<and> state \<noteq> BotMediaHealthOK))"

text \<open>The start and the length of an outage; a missing previous state has zero times.\<close>

definition media_times ::
    "BotMediaHealthUpdate \<Rightarrow> gostring \<Rightarrow> gotime \<Rightarrow> gotime \<Rightarrow> gotime \<times> int" where
  "media_times u event occurredAt previousStartedAt =
     (if event = BotMediaHealthEventRecovered then
        (let startedAt = (if is_zero (mu_StartedAt u) then previousStartedAt else mu_StartedAt u) in
         (startedAt,
          if mu_DurationMilliseconds u \<le> 0 \<and> \<not> is_zero startedAt
          then milliseconds (time_sub occurredAt startedAt) else mu_DurationMilliseconds u))
      else (if is_zero (mu_StartedAt u) then occurredAt else mu_StartedAt u, mu_DurationMilliseconds u))"

definition media_Record ::
    "bool \<Rightarrow> gotime \<Rightarrow> MeetingSession \<Rightarrow> BotMediaHealthUpdate \<Rightarrow> media_health \<Rightarrow>
     (BotMediaHealthState \<times> bool) result \<times> media_health" where
  "media_Record publisher now s u m =
     (if trim_space (ms_ID s) = [] then (Inl (ErrInvalidArgument ''session id is required''), m)
      else
        (let state = to_lower (trim_space (mu_State u)); event = to_lower (trim_space (mu_Event u)) in
         if \<not> valid_media_update state event
         then (Inl (ErrInvalidArgument ''invalid media health transition''), m)
         else
           (let occurredAt = (if is_zero (mu_OccurredAt u) then now else mu_OccurredAt u);
                previous = mhs_states m (ms_ID s) in
            if (case previous of None \<Rightarrow> False
                | Some p \<Rightarrow> mu_EventID u \<noteq> [] \<and> mu_EventID u = mh_EventID p \<or> occurredAt < mh_OccurredAt p)
            then (Inr (the previous, False), m)
            else
              (let times = media_times u event occurredAt
                     (case previous of None \<Rightarrow> 0 | Some p \<Rightarrow> mh_StartedAt p);
                   new = \<lparr>mh_SessionID = ms_ID s, mh_EventID = trim_space (mu_EventID u),
                          mh_BotCallID = trim_space (mu_BotCallID u), mh_State = state, mh_Event = event,
                          mh_Source = trim_space (mu_Source u), mh_OccurredAt = occurredAt,
                          mh_StartedAt = fst times, mh_LastAudioFrameAt = mu_LastAudioFrameAt u,
                          mh_DurationMilliseconds = snd times, mh_UpdatedAt = now\<rparr>;
                   changed = (case previous of None \<Rightarrow> True
                     | Some p \<Rightarrow> mh_State p \<noteq> state \<or> mh_Event p \<noteq> event \<or>
                                (mh_EventID p \<noteq> [] \<and> mh_EventID p \<noteq> mh_EventID new));
                   m1 = m\<lparr>mhs_states := (mhs_states m)(ms_ID s := Some new)\<rparr> in
               (Inr (new, changed),
                if changed \<and> publisher then m1\<lparr>mhs_published := mhs_published m1 @ [(s, new)]\<rparr> else m1)))))"

definition media_Get :: "gotime \<Rightarrow> gostring \<Rightarrow> media_health \<Rightarrow> BotMediaHealthState" where
  "media_Get now sessionID m =
     (case mhs_states m (trim_space sessionID) of
        Some st \<Rightarrow> st
      | None \<Rightarrow> \<lparr>mh_SessionID = trim_space sessionID, mh_EventID = [], mh_BotCallID = [],
          mh_State = BotMediaHealthOK, mh_Event = ''snapshot'', mh_Source = [], mh_OccurredAt = now,
          mh_StartedAt = 0, mh_LastAudioFrameAt = 0, mh_DurationMilliseconds = 0, mh_UpdatedAt = now\<rparr>)"

definition media_Forget :: "gostring \<Rightarrow> media_health \<Rightarrow> media_health" where
  "media_Forget sessionID m = m\<lparr>mhs_states := (mhs_states m)(trim_space sessionID := None)\<rparr>"

section \<open>Metrics and activity\<close>

record BotMediaMetrics =
  mm_ReceivedAt :: gotime
  mm_BotBuildVersion :: gostring
  mm_BotGitCommitSHA :: gostring
  mm_BotBuildTimestamp :: gostring
  mm_BotDirtyBuild :: gostring
  mm_LastAudioFrameAt :: gotime
  mm_LastNonZeroAudioAt :: gotime
  mm_LastNonEmptyTranscriptAt :: gotime
  mm_LastFinalTranscriptAt :: gotime
  mm_LastPeakAmplitude :: int
  mm_LastRmsAmplitude :: real
  mm_AudioFrameCount :: int
  mm_FramesSinceLastNonZeroAudio :: int
  mm_SecondsSinceLastNonZeroAudio :: int
  mm_ActiveSpeakerRecognizerCount :: int
  mm_MixedFallbackActive :: bool
  mm_UnmixedAudioSeen :: bool
  mm_LastAudioSocketReceiveStallAt :: gotime
  mm_AudioSocketReceiveStallCount :: int
  mm_AudioStalled :: bool
  mm_SpeechPipelineReady :: bool
  mm_SpeechStarted :: bool
  mm_SpeechAcceptingFrames :: bool
  mm_RecognizerCreated :: bool
  mm_PushStreamOpen :: bool
  mm_PipelineGeneration :: int
  mm_RecognizerInstanceIDHash :: gostring
  mm_LastRecognizerStartedAt :: gotime
  mm_LastSpeechPartialAt :: gotime
  mm_LastSpeechFinalAt :: gotime
  mm_HasSpeechPipelineMetrics :: bool
  mm_HasMetrics :: bool

type_synonym metrics_store = "gostring \<Rightarrow> BotMediaMetrics option"

definition metrics_Record :: "gotime \<Rightarrow> gostring \<Rightarrow> BotMediaMetrics \<Rightarrow> metrics_store \<Rightarrow> metrics_store" where
  "metrics_Record now sessionID m st =
     (if sessionID = [] then st else st(sessionID := Some (m\<lparr>mm_ReceivedAt := now\<rparr>)))"

definition metrics_Forget :: "gostring \<Rightarrow> metrics_store \<Rightarrow> metrics_store" where
  "metrics_Forget sessionID st = st(sessionID := None)"

record TranscriptActivity =
  ta_LastTranscriptAt :: gotime
  ta_LastFinalTranscriptAt :: gotime
  ta_LastNonEmptyTranscriptAt :: gotime

type_synonym activity_store = "gostring \<Rightarrow> TranscriptActivity option"

definition no_activity :: TranscriptActivity where
  "no_activity = \<lparr>ta_LastTranscriptAt = 0, ta_LastFinalTranscriptAt = 0, ta_LastNonEmptyTranscriptAt = 0\<rparr>"

definition activity_PublishTranscriptSegment ::
    "gotime \<Rightarrow> TranscriptSegment \<Rightarrow> activity_store \<Rightarrow> activity_store" where
  "activity_PublishTranscriptSegment now s st =
     (if ts_SessionID s = [] then st
      else
        (let seenAt = (if is_zero (ts_ReceivedAtUTC s) then now else ts_ReceivedAtUTC s);
             entry = (case st (ts_SessionID s) of None \<Rightarrow> no_activity | Some a \<Rightarrow> a);
             e1 = entry\<lparr>ta_LastTranscriptAt := seenAt\<rparr>;
             e2 = (if ts_IsFinal s then e1\<lparr>ta_LastFinalTranscriptAt := seenAt\<rparr> else e1);
             e3 = (if trim_space (ts_Text s) \<noteq> [] then e2\<lparr>ta_LastNonEmptyTranscriptAt := seenAt\<rparr> else e2) in
         st(ts_SessionID s := Some e3)))"

definition activity_EnsureSeen :: "gostring \<Rightarrow> gotime \<Rightarrow> activity_store \<Rightarrow> activity_store" where
  "activity_EnsureSeen sessionID seenAt st =
     (if st sessionID \<noteq> None then st else st(sessionID := Some (no_activity\<lparr>ta_LastTranscriptAt := seenAt\<rparr>)))"

definition activity_Forget :: "gostring \<Rightarrow> activity_store \<Rightarrow> activity_store" where
  "activity_Forget sessionID st = st(sessionID := None)"

section \<open>The watchdog\<close>

record MeetingSessionWatchdogConfig =
  wc_LostAfter :: duration
  wc_EndAfter :: duration
  wc_DelayedAfter :: duration
  wc_StalledAfter :: duration
  wc_AudioSilenceAfter :: duration
  wc_AudioStalledAfter :: duration
  wc_SpeechStalledAfter :: duration

text \<open>
  What is wired in: the service's configuration, which readers and publishers are set, and how
  \<open>fmt\<close> shows a duration.
\<close>

record watchdog_setup =
  wx_config :: MeetingSessionWatchdogConfig
  wx_service :: config
  wx_publisher :: bool
  wx_transcriptActivity :: bool
  wx_transcriptPublisher :: bool
  wx_botMetrics :: bool
  wx_duration_text :: "duration \<Rightarrow> gostring"

record watchdog =
  wd_world :: world
  wd_healthy :: "gostring \<Rightarrow> bool option"
  wd_transcriptHealth :: "gostring \<Rightarrow> gostring option"
  wd_activity :: activity_store
  wd_metrics :: metrics_store
  wd_botEvents :: "(MeetingSession \<times> bool) list"
  wd_transcriptEvents :: "(MeetingSession \<times> gostring \<times> int) list"

definition classifyBotMediaGap ::
    "BotMediaMetrics \<Rightarrow> gotime \<Rightarrow> MeetingSessionWatchdogConfig \<Rightarrow> gostring option" where
  "classifyBotMediaGap m now c =
     (let audioStalled = mm_AudioStalled m \<or>
            (\<not> is_zero (mm_LastAudioSocketReceiveStallAt m) \<and>
             time_sub now (mm_LastAudioSocketReceiveStallAt m) < wc_StalledAfter c) \<or>
            (\<not> is_zero (mm_LastAudioFrameAt m) \<and>
             wc_AudioStalledAfter c \<le> time_sub now (mm_LastAudioFrameAt m));
          frameRecent = (\<not> is_zero (mm_LastAudioFrameAt m) \<and>
             time_sub now (mm_LastAudioFrameAt m) < wc_AudioStalledAfter c);
          nonZeroAudioStale = (is_zero (mm_LastNonZeroAudioAt m) \<or>
             wc_AudioSilenceAfter c \<le> time_sub now (mm_LastNonZeroAudioAt m));
          nonZeroAudioRecent = (\<not> is_zero (mm_LastNonZeroAudioAt m) \<and>
             time_sub now (mm_LastNonZeroAudioAt m) < wc_AudioSilenceAfter c);
          transcriptStale = (is_zero (mm_LastNonEmptyTranscriptAt m) \<or>
             wc_SpeechStalledAfter c \<le> time_sub now (mm_LastNonEmptyTranscriptAt m)) in
      if audioStalled then Some ''audio_stalled''
      else if nonZeroAudioStale \<and> frameRecent then Some ''silent''
      else if nonZeroAudioRecent \<and> transcriptStale then Some ''speech_stalled''
      else None)"

definition classifyTranscriptGap ::
    "MeetingSessionWatchdogConfig \<Rightarrow> BotMediaMetrics option \<Rightarrow> gotime \<Rightarrow> duration \<Rightarrow> gostring" where
  "classifyTranscriptGap c metrics now since =
     (let fresh = (case metrics of None \<Rightarrow> None
        | Some m \<Rightarrow>
            if mm_HasMetrics m \<and> \<not> is_zero (mm_ReceivedAt m) \<and>
               0 < wc_LostAfter c \<and> max 0 (time_sub now (mm_ReceivedAt m)) < wc_LostAfter c
            then classifyBotMediaGap m now c else None) in
      case fresh of
        Some st \<Rightarrow> st
      | None \<Rightarrow>
          if 0 < wc_StalledAfter c \<and> wc_StalledAfter c \<le> since then ''transcript_stalled''
          else if 0 < wc_DelayedAfter c \<and> wc_DelayedAfter c \<le> since then ''transcript_delayed''
          else ''ok'')"

text \<open>\<open>desired\<close> and \<open>seconds\<close> of \<open>evaluateTranscriptHealth\<close>, after \<open>EnsureSeen\<close>.\<close>

definition transcript_state ::
    "watchdog_setup \<Rightarrow> MeetingSession \<Rightarrow> gotime \<Rightarrow> bool \<Rightarrow> activity_store \<Rightarrow> metrics_store \<Rightarrow> gostring \<times> int" where
  "transcript_state x s now heartbeatHealthy activity metrics =
     (if heartbeatHealthy \<and> ms_Status s = Recording
      then (case activity (ms_ID s) of
          Some act \<Rightarrow>
            (if is_zero (ta_LastTranscriptAt act) then (''ok'', 0)
             else
               (let since = max 0 (time_sub now (ta_LastTranscriptAt act)) in
                (if wc_DelayedAfter (wx_config x) \<le> since
                 then classifyTranscriptGap (wx_config x)
                        (if wx_botMetrics x then metrics (ms_ID s) else None) now since
                 else ''ok'',
                 since div second)))
        | None \<Rightarrow> (''ok'', 0))
      else (''ok'', 0))"

definition evaluateTranscriptHealth ::
    "watchdog_setup \<Rightarrow> MeetingSession \<Rightarrow> gotime \<Rightarrow> bool \<Rightarrow> watchdog \<Rightarrow> watchdog" where
  "evaluateTranscriptHealth x s now heartbeatHealthy d =
     (if \<not> wx_transcriptActivity x then d
      else
        (let d1 = (if heartbeatHealthy \<and> ms_Status s = Recording
               then d\<lparr>wd_activity := activity_EnsureSeen (ms_ID s) now (wd_activity d)\<rparr> else d);
             (desired, seconds) = transcript_state x s now heartbeatHealthy (wd_activity d1) (wd_metrics d1);
             changed = (case wd_transcriptHealth d1 (ms_ID s) of
                          None \<Rightarrow> desired \<noteq> ''ok'' | Some prev \<Rightarrow> prev \<noteq> desired);
             d2 = d1\<lparr>wd_transcriptHealth := (wd_transcriptHealth d1)(ms_ID s := Some desired)\<rparr> in
         if changed \<and> wx_transcriptPublisher x
         then d2\<lparr>wd_transcriptEvents := wd_transcriptEvents d2 @ [(s, desired, seconds)]\<rparr>
         else d2))"

definition watchdog_end_input :: "watchdog_setup \<Rightarrow> MeetingSession \<Rightarrow> MeetingSessionStatusUpdateInput" where
  "watchdog_end_input x s =
     \<lparr>si_SessionID = ms_ID s, si_Status = status_text Ended, si_BotCallID = ms_BotCallID s,
      si_Message = ''bot heartbeat not received for '' @ wx_duration_text x (wc_EndAfter (wx_config x)),
      si_Reason = ''bot_unresponsive'', si_ErrorCode = [], si_Source = ''watchdog'', si_Title = [],
      si_TitleSource = [], si_BotLastForwardedFinalSequence = 0, si_TranscriptQueueDrained = False\<rparr>"

definition endSession :: "watchdog_setup \<Rightarrow> MeetingSession \<Rightarrow> watchdog \<Rightarrow> watchdog" where
  "endSession x s d =
     (case UpdateMeetingSessionStatus (wx_service x) (watchdog_end_input x s) (wd_world d) of
        (Inl _, w) \<Rightarrow> d\<lparr>wd_world := w\<rparr>
      | (Inr _, w) \<Rightarrow>
          d\<lparr>wd_world := w, wd_healthy := (wd_healthy d)(ms_ID s := None),
            wd_transcriptHealth := (wd_transcriptHealth d)(ms_ID s := None),
            wd_activity := (if wx_transcriptActivity x then activity_Forget (ms_ID s) (wd_activity d) else wd_activity d),
            wd_metrics := (if wx_botMetrics x then metrics_Forget (ms_ID s) (wd_metrics d) else wd_metrics d)\<rparr>)"

definition evaluate :: "watchdog_setup \<Rightarrow> gotime \<Rightarrow> MeetingSession \<Rightarrow> watchdog \<Rightarrow> watchdog" where
  "evaluate x now s d =
     (if \<not> isJoinedOrBeyondMeetingStatus (ms_Status s) \<or> is_zero (ms_LastBotStatusAt s) then d
      else
        (let elapsed = time_sub now (ms_LastBotStatusAt s) in
         if wc_EndAfter (wx_config x) \<le> elapsed then endSession x s d
         else
           (let healthy = elapsed < wc_LostAfter (wx_config x);
                publish = (case wd_healthy d (ms_ID s) of None \<Rightarrow> \<not> healthy | Some h \<Rightarrow> h \<noteq> healthy);
                d1 = d\<lparr>wd_healthy := (wd_healthy d)(ms_ID s := Some healthy)\<rparr>;
                d2 = (if publish \<and> wx_publisher x
                      then d1\<lparr>wd_botEvents := wd_botEvents d1 @ [(s, healthy)]\<rparr> else d1) in
            evaluateTranscriptHealth x s now healthy d2)))"

definition forgetMissing :: "watchdog_setup \<Rightarrow> gostring set \<Rightarrow> watchdog \<Rightarrow> watchdog" where
  "forgetMissing x seen d =
     (let forgotten = (\<lambda>i. i \<notin> seen \<and> wd_transcriptHealth d i \<noteq> None) in
      d\<lparr>wd_healthy := (\<lambda>i. if i \<in> seen then wd_healthy d i else None),
        wd_transcriptHealth := (\<lambda>i. if i \<in> seen then wd_transcriptHealth d i else None),
        wd_activity := (\<lambda>i. if wx_transcriptActivity x \<and> forgotten i then None else wd_activity d i),
        wd_metrics := (\<lambda>i. if wx_botMetrics x \<and> forgotten i then None else wd_metrics d i)\<rparr>)"

definition RunOnce :: "watchdog_setup \<Rightarrow> watchdog \<Rightarrow> unit result \<times> watchdog" where
  "RunOnce x d0 =
     (let (r, w1) = repo_read (\<lambda>db. Inr (repo_ListMeetingSessionsForBotWatchdog db)) (wd_world d0) in
      case r of
        Inl err \<Rightarrow> (Inl err, d0\<lparr>wd_world := w1\<rparr>)
      | Inr sessions \<Rightarrow>
          (let (now, w2) = now_utc w1;
               d1 = foldl (\<lambda>d s. evaluate x now s d) (d0\<lparr>wd_world := w2\<rparr>) sessions in
           (Inr (), forgetMissing x (set (map ms_ID sessions)) d1)))"

end
