(* ===== verification/WatchdogClaims.thy ===== *)
theory WatchdogClaims
  imports Watchdog SessionFacts
begin

text \<open>
  One scan of the watchdog over the whole table: what it publishes and which sessions it ends.  An
  evaluation of a session only reads and writes what is stored under its id, so the scan is the
  same for every order of distinct sessions.
\<close>

section \<open>The verdicts on a session\<close>

definition attended :: "watchdog_setup \<Rightarrow> gotime \<Rightarrow> MeetingSession \<Rightarrow> bool" where
  "attended x now s \<longleftrightarrow> isJoinedOrBeyondMeetingStatus (ms_Status s) \<and> \<not> is_zero (ms_LastBotStatusAt s) \<and>
     time_sub now (ms_LastBotStatusAt s) < wc_EndAfter (wx_config x)"

definition silent :: "watchdog_setup \<Rightarrow> gotime \<Rightarrow> MeetingSession \<Rightarrow> bool" where
  "silent x now s \<longleftrightarrow> isJoinedOrBeyondMeetingStatus (ms_Status s) \<and> \<not> is_zero (ms_LastBotStatusAt s) \<and>
     wc_EndAfter (wx_config x) \<le> time_sub now (ms_LastBotStatusAt s)"

definition alive :: "watchdog_setup \<Rightarrow> gotime \<Rightarrow> MeetingSession \<Rightarrow> bool" where
  "alive x now s \<longleftrightarrow> time_sub now (ms_LastBotStatusAt s) < wc_LostAfter (wx_config x)"

text \<open>A first verdict is news only if it is bad.\<close>

definition health_news :: "bool option \<Rightarrow> bool \<Rightarrow> bool" where
  "health_news known h \<longleftrightarrow> (case known of None \<Rightarrow> \<not> h | Some k \<Rightarrow> k \<noteq> h)"

definition warning_news :: "gostring option \<Rightarrow> gostring \<Rightarrow> bool" where
  "warning_news known st \<longleftrightarrow> (case known of None \<Rightarrow> st \<noteq> ''ok'' | Some k \<Rightarrow> k \<noteq> st)"

definition verdict :: "watchdog_setup \<Rightarrow> gotime \<Rightarrow> watchdog \<Rightarrow> MeetingSession \<Rightarrow> gostring \<times> int" where
  "verdict x now d s =
     transcript_state x s now (alive x now s)
       (if alive x now s \<and> ms_Status s = Recording
        then activity_EnsureSeen (ms_ID s) now (wd_activity d) else wd_activity d) (wd_metrics d)"

text \<open>What is stored for an id.\<close>

definition same_at :: "gostring \<Rightarrow> watchdog \<Rightarrow> watchdog \<Rightarrow> bool" where
  "same_at i d d' \<longleftrightarrow> wd_healthy d i = wd_healthy d' i \<and> wd_transcriptHealth d i = wd_transcriptHealth d' i \<and>
     wd_activity d i = wd_activity d' i \<and> wd_metrics d i = wd_metrics d' i"

lemma same_at_trans: "same_at i a b \<Longrightarrow> same_at i b c \<Longrightarrow> same_at i a c"
  by (simp add: same_at_def)

lemma transcript_state_local:
  assumes "act (ms_ID s) = act' (ms_ID s)" "met (ms_ID s) = met' (ms_ID s)"
  shows "transcript_state x s now h act met = transcript_state x s now h act' met'"
  unfolding transcript_state_def assms by (rule refl)

lemma verdict_local: "same_at (ms_ID s) d d' \<Longrightarrow> verdict x now d s = verdict x now d' s"
  unfolding verdict_def by (rule transcript_state_local) (simp_all add: activity_EnsureSeen_def same_at_def)

section \<open>One evaluation\<close>

lemma transcript_health_effect:
  "wd_world (evaluateTranscriptHealth x s now h d) = wd_world d"
  "wd_botEvents (evaluateTranscriptHealth x s now h d) = wd_botEvents d"
  "wd_healthy (evaluateTranscriptHealth x s now h d) = wd_healthy d"
  "i \<noteq> ms_ID s \<Longrightarrow> same_at i (evaluateTranscriptHealth x s now h d) d"
  by (auto simp: evaluateTranscriptHealth_def Let_def case_prod_beta same_at_def activity_EnsureSeen_def)

lemma transcript_health_events:
  "wd_transcriptEvents (evaluateTranscriptHealth x s now (alive x now s) d) = wd_transcriptEvents d @
     (if wx_transcriptActivity x \<and> wx_transcriptPublisher x \<and>
         warning_news (wd_transcriptHealth d (ms_ID s)) (fst (verdict x now d s))
      then [(s, verdict x now d s)] else [])"
  by (auto simp: evaluateTranscriptHealth_def Let_def case_prod_beta verdict_def warning_news_def
      split: option.splits)

lemma endSession_effect:
  "wd_botEvents (endSession x s d) = wd_botEvents d"
  "wd_transcriptEvents (endSession x s d) = wd_transcriptEvents d"
  "i \<noteq> ms_ID s \<Longrightarrow> same_at i (endSession x s d) d"
  "wd_world (endSession x s d) = snd (UpdateMeetingSessionStatus (wx_service x) (watchdog_end_input x s) (wd_world d))"
  by (auto simp: endSession_def same_at_def activity_Forget_def metrics_Forget_def
      split: prod.splits sum.splits)

lemma evaluate_cases:
  "evaluate x now s d =
     (if silent x now s then endSession x s d
      else if attended x now s
      then evaluateTranscriptHealth x s now (alive x now s)
             ((d\<lparr>wd_healthy := (wd_healthy d)(ms_ID s := Some (alive x now s))\<rparr>)
                \<lparr>wd_botEvents := wd_botEvents d @
                   (if health_news (wd_healthy d (ms_ID s)) (alive x now s) \<and> wx_publisher x
                    then [(s, alive x now s)] else [])\<rparr>)
      else d)"
  by (auto simp: evaluate_def Let_def silent_def attended_def alive_def health_news_def not_le
      split: option.splits)

lemma evaluate_other: "i \<noteq> ms_ID s \<Longrightarrow> same_at i (evaluate x now s d) d"
  using transcript_health_effect(4) endSession_effect(3)
  by (simp add: evaluate_cases) (simp add: same_at_def)

lemma evaluate_botEvents:
  "wd_botEvents (evaluate x now s d) = wd_botEvents d @
     (if attended x now s \<and> health_news (wd_healthy d (ms_ID s)) (alive x now s) \<and> wx_publisher x
      then [(s, alive x now s)] else [])"
  by (simp add: evaluate_cases endSession_effect transcript_health_effect)
    (auto simp: attended_def silent_def)

lemma evaluate_transcriptEvents:
  "wd_transcriptEvents (evaluate x now s d) = wd_transcriptEvents d @
     (if attended x now s \<and> wx_transcriptActivity x \<and> wx_transcriptPublisher x \<and>
         warning_news (wd_transcriptHealth d (ms_ID s)) (fst (verdict x now d s))
      then [(s, verdict x now d s)] else [])"
proof -
  have [simp]: "verdict x now (d\<lparr>wd_healthy := f, wd_botEvents := es\<rparr>) s = verdict x now d s" for f es
    by (simp add: verdict_def)
  show ?thesis
    by (simp add: evaluate_cases endSession_effect transcript_health_events)
      (auto simp: attended_def silent_def)
qed

section \<open>The scan\<close>

abbreviation scan :: "watchdog_setup \<Rightarrow> gotime \<Rightarrow> MeetingSession list \<Rightarrow> watchdog \<Rightarrow> watchdog" where
  "scan x now sessions d \<equiv> foldl (\<lambda>d s. evaluate x now s d) d sessions"

lemma scan_other: "i \<notin> ms_ID ` set sessions \<Longrightarrow> same_at i (scan x now sessions d) d"
proof (induction sessions arbitrary: d)
  case (Cons s sessions)
  then show ?case
    using same_at_trans [OF Cons.IH evaluate_other [of i s x now d]] by simp
qed (simp add: same_at_def)

lemma scan_events:
  "distinct (map ms_ID sessions) \<Longrightarrow>
   wd_botEvents (scan x now sessions d) = wd_botEvents d @ (if wx_publisher x
      then map (\<lambda>s. (s, alive x now s)) (filter (\<lambda>s. attended x now s \<and>
        health_news (wd_healthy d (ms_ID s)) (alive x now s)) sessions) else []) \<and>
   wd_transcriptEvents (scan x now sessions d) = wd_transcriptEvents d @
      (if wx_transcriptActivity x \<and> wx_transcriptPublisher x
       then map (\<lambda>s. (s, verdict x now d s)) (filter (\<lambda>s. attended x now s \<and>
         warning_news (wd_transcriptHealth d (ms_ID s)) (fst (verdict x now d s))) sessions) else [])"
proof (induction sessions arbitrary: d)
  case (Cons s sessions)
  let ?d = "evaluate x now s d"
  have same: "same_at (ms_ID r) ?d d" if "r \<in> set sessions" for r
  proof (rule evaluate_other)
    from that have "ms_ID r \<in> ms_ID ` set sessions" by simp
    then show "ms_ID r \<noteq> ms_ID s" using Cons.prems by auto
  qed
  then have v: "verdict x now ?d r = verdict x now d r" if "r \<in> set sessions" for r
    using verdict_local that by blast
  have "filter (\<lambda>r. attended x now r \<and> health_news (wd_healthy ?d (ms_ID r)) (alive x now r)) sessions =
      filter (\<lambda>r. attended x now r \<and> health_news (wd_healthy d (ms_ID r)) (alive x now r)) sessions"
    using same by (intro filter_cong) (simp_all add: same_at_def)
  moreover have "map (\<lambda>r. (r, verdict x now ?d r)) (filter (\<lambda>r. attended x now r \<and>
        warning_news (wd_transcriptHealth ?d (ms_ID r)) (fst (verdict x now ?d r))) sessions) =
      map (\<lambda>r. (r, verdict x now d r)) (filter (\<lambda>r. attended x now r \<and>
        warning_news (wd_transcriptHealth d (ms_ID r)) (fst (verdict x now d r))) sessions)"
    using same v by (intro map_cong filter_cong) (simp_all add: same_at_def)
  moreover have "distinct (map ms_ID sessions)" using Cons.prems by simp
  ultimately show ?case
    using Cons.IH [of ?d] by (simp add: evaluate_botEvents evaluate_transcriptEvents)
qed simp

lemma below_next_second: "m < (m div second + 1) * second"
  unfolding second_def by presburger

text \<open>A warning needs a bot that is heard, a recording, and a gap.\<close>

lemma media_gap_names: "classifyBotMediaGap m now c = Some t \<Longrightarrow> t \<in> {''audio_stalled'', ''silent'', ''speech_stalled''}"
  unfolding classifyBotMediaGap_def Let_def by (simp split: if_splits)

lemma classified:
  assumes "classifyTranscriptGap c m now since \<noteq> ''ok''"
  shows "classifyTranscriptGap c m now since \<in>
    {''audio_stalled'', ''silent'', ''speech_stalled'', ''transcript_stalled'', ''transcript_delayed''}"
proof -
  define fresh where "fresh = (case m of None \<Rightarrow> None
    | Some m \<Rightarrow> if mm_HasMetrics m \<and> \<not> is_zero (mm_ReceivedAt m) \<and> 0 < wc_LostAfter c \<and>
        max 0 (time_sub now (mm_ReceivedAt m)) < wc_LostAfter c then classifyBotMediaGap m now c else None)"
  have gap: "classifyTranscriptGap c m now since = (case fresh of Some st \<Rightarrow> st
    | None \<Rightarrow> if 0 < wc_StalledAfter c \<and> wc_StalledAfter c \<le> since then ''transcript_stalled''
        else if 0 < wc_DelayedAfter c \<and> wc_DelayedAfter c \<le> since then ''transcript_delayed'' else ''ok'')"
    unfolding classifyTranscriptGap_def Let_def fresh_def ..
  show ?thesis
  proof (cases fresh)
    case None
    then show ?thesis using assms unfolding gap by (simp split: if_splits)
  next
    case (Some t)
    then have "t \<in> {''audio_stalled'', ''silent'', ''speech_stalled''}"
      unfolding fresh_def using media_gap_names by (auto split: option.splits if_splits)
    then show ?thesis using Some unfolding gap by auto
  qed
qed

lemma verdict_warning:
  assumes "verdict x now d s = (st, seconds)" "st \<noteq> ''ok''"
  shows "alive x now s \<and> ms_Status s = Recording \<and> wc_DelayedAfter (wx_config x) < (seconds + 1) * second \<and>
    st \<in> {''audio_stalled'', ''silent'', ''speech_stalled'', ''transcript_stalled'', ''transcript_delayed''}"
proof -
  have on: "alive x now s" "ms_Status s = Recording"
    using assms by (auto simp: verdict_def transcript_state_def split: if_splits)
  define store where "store = activity_EnsureSeen (ms_ID s) now (wd_activity d)"
  have ts: "transcript_state x s now True store (wd_metrics d) = (st, seconds)"
    using assms(1) on by (simp add: verdict_def store_def)
  obtain act where act: "store (ms_ID s) = Some act" "\<not> is_zero (ta_LastTranscriptAt act)"
    using ts on assms(2) by (cases "store (ms_ID s)") (auto simp: transcript_state_def split: if_splits)
  define since where "since = max 0 (time_sub now (ta_LastTranscriptAt act))"
  have "(if wc_DelayedAfter (wx_config x) \<le> since
      then classifyTranscriptGap (wx_config x) (if wx_botMetrics x then wd_metrics d (ms_ID s) else None) now since
      else ''ok'') = st \<and> since div second = seconds"
    using ts on act by (simp only: transcript_state_def since_def Let_def simp_thms if_True if_False option.case prod.inject)
  then have sec: "seconds = since div second" and gap: "wc_DelayedAfter (wx_config x) \<le> since"
    and st: "st = classifyTranscriptGap (wx_config x) (if wx_botMetrics x then wd_metrics d (ms_ID s) else None) now since"
    using assms(2) by (auto split: if_splits)
  have "since < (seconds + 1) * second"
    unfolding sec by (rule below_next_second)
  moreover have "st \<in> {''audio_stalled'', ''silent'', ''speech_stalled'', ''transcript_stalled'', ''transcript_delayed''}"
    using assms(2) classified unfolding st by blast
  ultimately show ?thesis using on gap by simp
qed

section \<open>Ending the silent sessions\<close>

definition proper_id :: "gostring \<Rightarrow> bool" where
  "proper_id i \<longleftrightarrow> i \<noteq> [] \<and> trim_space i = i"

lemma watchdog_end_input_simps [simp]:
  "si_SessionID (watchdog_end_input x s) = ms_ID s" "si_Status (watchdog_end_input x s) = status_text Ended"
  by (simp_all add: watchdog_end_input_def)

text \<open>With a finalizer attached a silent session is \<open>ending\<close> and its finalization is under way.\<close>

lemma end_silent:
  assumes nf: "no_faults w" and id: "proper_id (ms_ID s)" and obs: "sv_endedObserver cfg"
    and r: "lookup (w_db w) (ms_ID s) = Some s" "isJoinedOrBeyondMeetingStatus (ms_Status s)"
    and out: "w' = snd (UpdateMeetingSessionStatus cfg (watchdog_end_input x s) w)"
  shows "status_in (w_db w') (ms_ID s) = Some Ending" "ms_ID s \<in> set (w_inflight w')"
    "set (w_inflight w) \<subseteq> set (w_inflight w')" "no_faults w'"
    "j \<noteq> ms_ID s \<Longrightarrow> lookup (w_db w') j = lookup (w_db w) j"
proof -
  let ?i = "watchdog_end_input x s"
  have st: "parse_status (trim_space (si_Status ?i)) = Some Ended" by (simp del: status_text.simps)
  have sid: "trim_space (si_SessionID ?i) = ms_ID s" "ms_ID s \<noteq> []" using id by (simp_all add: proper_id_def)
  have live: "\<not> isTerminalMeetingSessionStatus (ms_Status s)"
    using r(2) status_classes_disjoint(1) by blast
  then have "ms_Status s \<noteq> Ended" by auto
  have no_fail: "si_Status ?i \<noteq> status_text Failed" by simp
  show "status_in (w_db w') (ms_ID s) = Some Ending"
    using report_status [OF nf st sid r(1), of cfg] obs live no_fail
    by (simp add: out next_row_def next_status_def)
  have get: "repo_GetMeetingSession (w_db w) (ms_ID s) = Inr s" using r(1) by (simp add: get_lookup)
  let ?w1 = "snd (repo_read (\<lambda>db. repo_GetMeetingSession db (ms_ID s)) w)"
  have w': "w' = snd (begin_ending cfg ?i s ?w1)"
    using st sid nf get live obs no_fail \<open>ms_Status s \<noteq> Ended\<close>
    by (simp add: out UpdateMeetingSessionStatus_def op_simps read_ok
        shouldSuppressMeetingSessionFailure_def shouldSuppressMeetingSessionTerminalRevival_def
        del: status_text.simps)
  have nf1: "no_faults ?w1" using nf by simp
  have upd: "fst (repo_call (\<lambda>db. repo_UpdateMeetingSessionStatus db (ending_update ?i s t)) (snd (now_utc ?w1))) =
      Inr (apply_status_update (ending_update ?i s t) s)" for t
    using nf1 r(1) by (simp add: status_call_fst fst_status)
  have "ms_ID s \<in> set (w_inflight w') \<and> set (w_inflight w) \<subseteq> set (w_inflight w')"
    using upd by (auto simp: w' begin_ending_def op_simps startMeetingSessionFinalization_def world_simps)
  then show "ms_ID s \<in> set (w_inflight w')" "set (w_inflight w) \<subseteq> set (w_inflight w')" by blast+
  show "no_faults w'" using nf by (simp add: out)
  show "lookup (w_db w') j = lookup (w_db w) j" if "j \<noteq> ms_ID s"
    using report_other_rows [OF nf, of j ?i cfg] that sid(1) by (simp add: out)
qed

lemma evaluate_world:
  "wd_world (evaluate x now s d) =
     (if silent x now s then snd (UpdateMeetingSessionStatus (wx_service x) (watchdog_end_input x s) (wd_world d))
      else wd_world d)"
  by (simp add: evaluate_cases endSession_effect transcript_health_effect)

lemma scan_world:
  assumes "distinct (map ms_ID sessions)" "no_faults (wd_world d)" "sv_endedObserver (wx_service x)"
    and "\<And>s. s \<in> set sessions \<Longrightarrow> proper_id (ms_ID s) \<and> lookup (w_db (wd_world d)) (ms_ID s) = Some s"
  shows "(\<forall>s \<in> set sessions. silent x now s \<longrightarrow>
      status_in (w_db (wd_world (scan x now sessions d))) (ms_ID s) = Some Ending \<and>
      ms_ID s \<in> set (w_inflight (wd_world (scan x now sessions d)))) \<and>
    (\<forall>j. (\<forall>s \<in> set sessions. silent x now s \<longrightarrow> ms_ID s \<noteq> j) \<longrightarrow>
      lookup (w_db (wd_world (scan x now sessions d))) j = lookup (w_db (wd_world d)) j) \<and>
    set (w_inflight (wd_world d)) \<subseteq> set (w_inflight (wd_world (scan x now sessions d)))"
  using assms(1,2,4)
proof (induction sessions arbitrary: d)
  case (Cons s sessions)
  let ?d = "evaluate x now s d"
  have ids: "distinct (map ms_ID sessions)" using Cons.prems(1) by simp
  have others: "ms_ID r \<noteq> ms_ID s" if "r \<in> set sessions" for r
  proof -
    from that have "ms_ID r \<in> ms_ID ` set sessions" by simp
    then show ?thesis using Cons.prems(1) by auto
  qed
  have here: "proper_id (ms_ID s)" "lookup (w_db (wd_world d)) (ms_ID s) = Some s" using Cons.prems(3) by auto
  show ?case
  proof (cases "silent x now s")
    case False
    then have same: "wd_world ?d = wd_world d" by (simp add: evaluate_world)
    have "\<And>r. r \<in> set sessions \<Longrightarrow> proper_id (ms_ID r) \<and> lookup (w_db (wd_world ?d)) (ms_ID r) = Some r"
      using Cons.prems(3) by (simp add: same)
    from Cons.IH [OF ids _ this] show ?thesis using Cons.prems(2) False same by auto
  next
    case True
    then have w': "wd_world ?d = snd (UpdateMeetingSessionStatus (wx_service x) (watchdog_end_input x s) (wd_world d))"
      by (simp add: evaluate_world)
    have "isJoinedOrBeyondMeetingStatus (ms_Status s)" using True by (simp add: silent_def)
    note eff = end_silent [OF Cons.prems(2) here(1) assms(3) here(2) this w']
    have "\<And>r. r \<in> set sessions \<Longrightarrow> proper_id (ms_ID r) \<and> lookup (w_db (wd_world ?d)) (ms_ID r) = Some r"
      using Cons.prems(3) others eff(5) by simp
    note IH = Cons.IH [OF ids eff(4) this]
    have "lookup (w_db (wd_world (scan x now sessions ?d))) (ms_ID s) = lookup (w_db (wd_world ?d)) (ms_ID s)"
      using IH others by blast
    then have "status_in (w_db (wd_world (scan x now sessions ?d))) (ms_ID s) = Some Ending"
      using eff(1) by (simp add: status_in_def)
    moreover have "lookup (w_db (wd_world (scan x now sessions ?d))) j = lookup (w_db (wd_world d)) j"
      if "\<forall>r \<in> set (s # sessions). silent x now r \<longrightarrow> ms_ID r \<noteq> j" for j
    proof -
      have "j \<noteq> ms_ID s" using that True by auto
      then show ?thesis using IH eff(5) [of j] that by simp
    qed
    ultimately show ?thesis using IH eff by auto
  qed
qed simp

text \<open>A scan that could read the sessions.\<close>

lemma RunOnce_scan:
  assumes "RunOnce x d = (Inr (), d')" "now = w_clock (wd_world d) (w_ticks (wd_world d))"
  shows "d' = forgetMissing x (set (map ms_ID (repo_ListMeetingSessionsForBotWatchdog (w_db (wd_world d)))))
    (scan x now (repo_ListMeetingSessionsForBotWatchdog (w_db (wd_world d)))
      (d\<lparr>wd_world := snd (now_utc (snd (repo_read (\<lambda>db. Inr (repo_ListMeetingSessionsForBotWatchdog db)) (wd_world d))))\<rparr>))"
proof -
  obtain r w1 where p: "repo_read (\<lambda>db. Inr (repo_ListMeetingSessionsForBotWatchdog db)) (wd_world d) = (r, w1)"
    by fastforce
  have "r = Inr (repo_ListMeetingSessionsForBotWatchdog (w_db (wd_world d)))"
  proof (cases r)
    case (Inl err)
    then show ?thesis using assms(1) p by (simp add: RunOnce_def op_simps)
  next
    case (Inr rows)
    then show ?thesis using repo_read_Inr [OF p [unfolded Inr]] by simp
  qed
  moreover have "w1 = snd (repo_read (\<lambda>db. Inr (repo_ListMeetingSessionsForBotWatchdog db)) (wd_world d))"
    using p by simp
  moreover from this have "now = fst (now_utc w1)" using assms(2) by (simp add: world_simps)
  ultimately show ?thesis using assms(1) p by (simp add: RunOnce_def op_simps)
qed

lemma scan_no_faults: "no_faults (wd_world (scan x now sessions d)) = no_faults (wd_world d)"
  by (induction sessions arbitrary: d) (simp_all add: evaluate_world)

section \<open>Properties\<close>

text \<open>The watchdog publishes transitions, each once.  A scan that can read the sessions reports the
  bot of exactly those attended sessions whose health differs from what was known of it (a first
  verdict only if it is bad), and the transcript of those whose state differs (a first verdict only
  if it is not ok); the order of the sessions does not matter to any of them.  A transcript warning
  is one of five states and is given only while the bot is heard, the session is recording and no
  segment has come for at least \<open>DelayedAfter\<close>.\<close>

theorem watchdog_publishes_transitions:
  assumes "unique_ids (w_db (wd_world d))" "RunOnce x d = (Inr (), d')"
    and "wx_publisher x" "wx_transcriptActivity x" "wx_transcriptPublisher x"
    and "now = w_clock (wd_world d) (w_ticks (wd_world d))"
    and "watched = filter (attended x now) (repo_ListMeetingSessionsForBotWatchdog (w_db (wd_world d)))"
  shows "wd_botEvents d' = wd_botEvents d @ map (\<lambda>s. (s, alive x now s))
      (filter (\<lambda>s. health_news (wd_healthy d (ms_ID s)) (alive x now s)) watched) \<and>
    wd_transcriptEvents d' = wd_transcriptEvents d @ map (\<lambda>s. (s, verdict x now d s))
      (filter (\<lambda>s. warning_news (wd_transcriptHealth d (ms_ID s)) (fst (verdict x now d s))) watched) \<and>
    (\<forall>s st seconds. verdict x now d s = (st, seconds) \<longrightarrow> st \<noteq> ''ok'' \<longrightarrow>
      alive x now s \<and> ms_Status s = Recording \<and> wc_DelayedAfter (wx_config x) < (seconds + 1) * second \<and>
      st \<in> {''audio_stalled'', ''silent'', ''speech_stalled'', ''transcript_stalled'', ''transcript_delayed''})"
proof -
  let ?rows = "repo_ListMeetingSessionsForBotWatchdog (w_db (wd_world d))"
  let ?w1 = "snd (repo_read (\<lambda>db. Inr (repo_ListMeetingSessionsForBotWatchdog db)) (wd_world d))"
  let ?d0 = "d\<lparr>wd_world := snd (now_utc ?w1)\<rparr>"
  have ids: "distinct (map ms_ID ?rows)"
    using assms(1) by (simp add: unique_ids_def repo_ListMeetingSessionsForBotWatchdog_def distinct_map_filter)
  define d0 where "d0 = ?d0"
  have "d' = forgetMissing x (set (map ms_ID ?rows)) (scan x now ?rows d0)"
    unfolding d0_def by (rule RunOnce_scan [OF assms(2,6)])
  then have d': "wd_botEvents d' = wd_botEvents (scan x now ?rows d0)"
    "wd_transcriptEvents d' = wd_transcriptEvents (scan x now ?rows d0)"
    by (simp_all add: forgetMissing_def Let_def)
  have d0: "wd_botEvents d0 = wd_botEvents d" "wd_transcriptEvents d0 = wd_transcriptEvents d"
    "wd_healthy d0 = wd_healthy d" "wd_transcriptHealth d0 = wd_transcriptHealth d"
    "verdict x now d0 = verdict x now d"
    by (simp_all add: d0_def verdict_def fun_eq_iff)
  have both: "wx_transcriptActivity x \<and> wx_transcriptPublisher x" using assms(4,5) ..
  note ev = scan_events [OF ids, of x now d0, unfolded d0 if_P [OF assms(3)] if_P [OF both], folded d']
  have "wd_botEvents d' = wd_botEvents d @ map (\<lambda>s. (s, alive x now s))
      (filter (\<lambda>s. health_news (wd_healthy d (ms_ID s)) (alive x now s)) watched) \<and>
    wd_transcriptEvents d' = wd_transcriptEvents d @ map (\<lambda>s. (s, verdict x now d s))
      (filter (\<lambda>s. warning_news (wd_transcriptHealth d (ms_ID s)) (fst (verdict x now d s))) watched)"
    unfolding assms(7) filter_filter by (rule ev)
  moreover have "\<forall>s st seconds. verdict x now d s = (st, seconds) \<longrightarrow> st \<noteq> ''ok'' \<longrightarrow>
      alive x now s \<and> ms_Status s = Recording \<and> wc_DelayedAfter (wx_config x) < (seconds + 1) * second \<and>
      st \<in> {''audio_stalled'', ''silent'', ''speech_stalled'', ''transcript_stalled'', ''transcript_delayed''}"
    by (intro allI impI) (rule verdict_warning)
  ultimately show ?thesis by (elim conjE) (intro conjI; assumption)
qed

definition sample_watchdog_setup :: watchdog_setup where
  "sample_watchdog_setup =
     \<lparr>wx_config = \<lparr>wc_LostAfter = 40, wc_EndAfter = 90, wc_DelayedAfter = 20, wc_StalledAfter = 60,
        wc_AudioSilenceAfter = 30, wc_AudioStalledAfter = 30, wc_SpeechStalledAfter = 30\<rparr>,
      wx_service = sample_config, wx_publisher = True, wx_transcriptActivity = True,
      wx_transcriptPublisher = True, wx_botMetrics = True, wx_duration_text = (\<lambda>_. ''90s'')\<rparr>"

text \<open>The clock of the sample world starts at 100: one bot was heard at 50, one at 95, one at 5.\<close>

definition sample_rows :: "MeetingSession list" where
  "sample_rows =
     [(sample_session ''s1'' Recording)\<lparr>ms_LastBotStatusAt := 50\<rparr>,
      (sample_session ''s2'' Recording)\<lparr>ms_LastBotStatusAt := 95\<rparr>,
      (sample_session ''s3'' Active)\<lparr>ms_LastBotStatusAt := 5\<rparr>]"

definition sample_watchdog :: watchdog where
  "sample_watchdog =
     \<lparr>wd_world = sample_world sample_rows, wd_healthy = (\<lambda>_. None), wd_transcriptHealth = (\<lambda>_. None),
      wd_activity = (\<lambda>i. if i = ''s2'' then Some (no_activity\<lparr>ta_LastTranscriptAt := 70\<rparr>) else None),
      wd_metrics = (\<lambda>_. None), wd_botEvents = [], wd_transcriptEvents = []\<rparr>"

theorem watchdog_publishes_transitions_witness:
  "map (\<lambda>(s, h). (ms_ID s, h)) (wd_botEvents (snd (RunOnce sample_watchdog_setup sample_watchdog))) = [(''s1'', False)] \<and>
   map (\<lambda>(s, st, n). (ms_ID s, st)) (wd_transcriptEvents (snd (RunOnce sample_watchdog_setup sample_watchdog))) =
     [(''s2'', ''transcript_delayed'')]"
proof -
  have ran: "RunOnce sample_watchdog_setup sample_watchdog = (Inr (), snd (RunOnce sample_watchdog_setup sample_watchdog))"
    by (simp add: RunOnce_def op_simps repo_read_def repo_call_def sample_watchdog_def sample_world_def)
  have flags: "wx_publisher sample_watchdog_setup" "wx_transcriptActivity sample_watchdog_setup"
    "wx_transcriptPublisher sample_watchdog_setup" by (simp_all add: sample_watchdog_setup_def)
  have ids: "unique_ids (w_db (wd_world sample_watchdog))" by code_simp
  let ?now = "w_clock (wd_world sample_watchdog) (w_ticks (wd_world sample_watchdog))"
  let ?watched = "filter (attended sample_watchdog_setup ?now) (repo_ListMeetingSessionsForBotWatchdog (w_db (wd_world sample_watchdog)))"
  note * = watchdog_publishes_transitions [OF ids ran flags refl refl]
  have "map (\<lambda>(s, h). (ms_ID s, h)) (wd_botEvents sample_watchdog @ map (\<lambda>s. (s, alive sample_watchdog_setup ?now s))
      (filter (\<lambda>s. health_news (wd_healthy sample_watchdog (ms_ID s)) (alive sample_watchdog_setup ?now s)) ?watched)) =
    [(''s1'', False)]" by code_simp
  moreover have "map (\<lambda>(s, st, n). (ms_ID s, st)) (wd_transcriptEvents sample_watchdog @ map (\<lambda>s. (s, verdict sample_watchdog_setup ?now sample_watchdog s))
      (filter (\<lambda>s. warning_news (wd_transcriptHealth sample_watchdog (ms_ID s)) (fst (verdict sample_watchdog_setup ?now sample_watchdog s))) ?watched)) =
    [(''s2'', ''transcript_delayed'')]" by code_simp
  ultimately show ?thesis using * by argo
qed

text \<open>C27: The watchdog ends exactly the sessions whose bot is silent.  Without database faults, after a
  scan every listed session that has not been heard for \<open>EndAfter\<close> is \<open>ending\<close> with its finalization
  under way, and every other row of the table is as it was; whatever the finalization returns, it
  then takes the session to \<open>ended\<close>.\<close>

theorem watchdog_ends_the_silent:
  assumes "unique_ids (w_db (wd_world d))" "no_faults (wd_world d)" "sv_endedObserver (wx_service x)"
    and "RunOnce x d = (Inr (), d')" "now = w_clock (wd_world d) (w_ticks (wd_world d))"
    and "\<forall>r \<in> set (db_sessions (w_db (wd_world d))). proper_id (ms_ID r)"
  shows "(\<forall>s \<in> set (db_sessions (w_db (wd_world d))). silent x now s \<longrightarrow>
      status_in (w_db (wd_world d')) (ms_ID s) = Some Ending \<and> ms_ID s \<in> set (w_inflight (wd_world d')) \<and>
      (\<forall>i outcome. status_in (w_db (run_finalization (wx_service x) s i outcome (wd_world d'))) (ms_ID s) = Some Ended)) \<and>
    (\<forall>j. (\<forall>s \<in> set (db_sessions (w_db (wd_world d))). silent x now s \<longrightarrow> ms_ID s \<noteq> j) \<longrightarrow>
      lookup (w_db (wd_world d')) j = lookup (w_db (wd_world d)) j)"
proof -
  let ?db = "w_db (wd_world d)"
  let ?rows = "repo_ListMeetingSessionsForBotWatchdog ?db"
  let ?w1 = "snd (repo_read (\<lambda>db. Inr (repo_ListMeetingSessionsForBotWatchdog db)) (wd_world d))"
  let ?d0 = "d\<lparr>wd_world := snd (now_utc ?w1)\<rparr>"
  have d': "wd_world d' = wd_world (scan x now ?rows ?d0)"
    using RunOnce_scan [OF assms(4,5)] by (simp add: forgetMissing_def Let_def)
  have ids: "distinct (map ms_ID ?rows)"
    using assms(1) by (simp add: unique_ids_def repo_ListMeetingSessionsForBotWatchdog_def distinct_map_filter)
  have nf: "no_faults (wd_world ?d0)" and db: "w_db (wd_world ?d0) = ?db" using assms(2) by simp_all
  have rows: "proper_id (ms_ID s) \<and> lookup (w_db (wd_world ?d0)) (ms_ID s) = Some s" if "s \<in> set ?rows" for s
    using that assms(1,6) unfolding db
    by (auto simp: repo_ListMeetingSessionsForBotWatchdog_def unique_lookup)
  have listed: "s \<in> set ?rows" if "s \<in> set (db_sessions ?db)" "silent x now s" for s
    using that by (auto simp: repo_ListMeetingSessionsForBotWatchdog_def silent_def isJoinedOrBeyondMeetingStatus_def is_zero_def)
  have sub: "set ?rows \<subseteq> set (db_sessions ?db)" by (auto simp: repo_ListMeetingSessionsForBotWatchdog_def)
  note eff = scan_world [OF ids nf assms(3) rows, of now, folded d', unfolded db]
  have nf': "no_faults (wd_world d')" using assms(2) by (simp add: d' scan_no_faults)
  show ?thesis
  proof (intro conjI ballI allI impI)
    fix s assume s: "s \<in> set (db_sessions ?db)" "silent x now s"
    then show st: "status_in (w_db (wd_world d')) (ms_ID s) = Some Ending"
      and "ms_ID s \<in> set (w_inflight (wd_world d'))" using eff listed by blast+
    then obtain r where "lookup (w_db (wd_world d')) (ms_ID s) = Some r" by (auto simp: status_in_def)
    from finalization_ends [OF nf' this]
    show "status_in (w_db (run_finalization (wx_service x) s i outcome (wd_world d'))) (ms_ID s) = Some Ended" for i outcome .
  next
    fix j assume "\<forall>s \<in> set (db_sessions ?db). silent x now s \<longrightarrow> ms_ID s \<noteq> j"
    then show "lookup (w_db (wd_world d')) j = lookup ?db j" using eff sub by blast
  qed
qed

theorem watchdog_ends_the_silent_witness:
  "status_in (w_db (wd_world (snd (RunOnce sample_watchdog_setup sample_watchdog)))) ''s3'' = Some Ending \<and>
   status_in (w_db (wd_world (snd (RunOnce sample_watchdog_setup sample_watchdog)))) ''s1'' = Some Recording"
proof -
  have ran: "RunOnce sample_watchdog_setup sample_watchdog = (Inr (), snd (RunOnce sample_watchdog_setup sample_watchdog))"
    by (simp add: RunOnce_def op_simps repo_read_def repo_call_def sample_watchdog_def sample_world_def)
  have world: "unique_ids (w_db (wd_world sample_watchdog))" by code_simp
  have nf: "no_faults (wd_world sample_watchdog)" by (simp add: no_faults_def sample_watchdog_def sample_world_def)
  have obs: "sv_endedObserver (wx_service sample_watchdog_setup)" by code_simp
  have ids: "\<forall>r \<in> set (db_sessions (w_db (wd_world sample_watchdog))). proper_id (ms_ID r)" by code_simp
  let ?now = "w_clock (wd_world sample_watchdog) (w_ticks (wd_world sample_watchdog))"
  let ?rows = "db_sessions (w_db (wd_world sample_watchdog))"
  have "?rows ! 2 \<in> set ?rows" "silent sample_watchdog_setup ?now (?rows ! 2)" "ms_ID (?rows ! 2) = ''s3''" by code_simp+
  moreover have "\<forall>s \<in> set ?rows. silent sample_watchdog_setup ?now s \<longrightarrow> ms_ID s \<noteq> ''s1''" by code_simp
  moreover have "map_option ms_Status (lookup (w_db (wd_world sample_watchdog)) ''s1'') = Some Recording" by code_simp
  ultimately show ?thesis
    using watchdog_ends_the_silent [OF world nf obs ran refl ids] by (metis status_in_def)
qed

end
