(* ===== verification/TranscriptHub.thy ===== *)
theory TranscriptHub
  imports Realtime WebSocket AnalysisStore Watchdog
begin

text \<open>
  The hub of transcript clients, \<open>transcript.go\<close> of package \<open>internal/adapter/realtime\<close>: the opening
  of a connection, which events match a client, the bounded channel of a client, its writer and its
  reader, the removal of a workspace member, and the messages the events are sent as.

  A client is its filters, its channel (oldest first), whether its connection is closed and whether
  it has been unsubscribed (\<open>closeOnce\<close>), and the messages written.  The hub is the list of the
  subscribed clients, told apart by \<open>tc_id\<close> (the Go pointer).  \<open>time.Format\<close> with
  \<open>RFC3339Nano\<close> is the argument \<open>rfc\<close>.
\<close>

section \<open>Messages\<close>

type_synonym time_format = "gotime \<Rightarrow> gostring"

record transcriptSegmentData =
  sd_SessionID :: gostring
  sd_EventID :: gostring
  sd_CallID :: gostring
  sd_SequenceNo :: int
  sd_SpeakerID :: gostring
  sd_SpeakerName :: gostring
  sd_RecognizedAtUTC :: gostring
  sd_OffsetTicks :: int
  sd_DurationTicks :: int
  sd_Text :: gostring
  sd_Duplicate :: bool
  sd_IsFinal :: bool

record meetingSessionStatusData =
  st_SessionID :: gostring
  st_Title :: gostring
  st_DisplayTitle :: gostring
  st_TitleSource :: gostring
  st_UserProvidedTitle :: gostring
  st_GraphTitle :: gostring
  st_Provider :: gostring
  st_ExternalMeetingID :: gostring
  st_JoinMeetingID :: gostring
  st_JoinWebURL :: gostring
  st_CanonicalJoinWebURL :: gostring
  st_ThreadID :: gostring
  st_OrganizerID :: gostring
  st_OrganizerName :: gostring
  st_OrganizerEmail :: gostring
  st_TitleResolutionErrorCode :: gostring
  st_TitleResolutionErrorMessage :: gostring
  st_Status :: gostring
  st_BotCallID :: gostring
  st_EndedAt :: gostring
  st_EndReason :: gostring
  st_LastError :: gostring

record meetingSessionBotHealthData =
  bh_SessionID :: gostring
  bh_Healthy :: bool
  bh_LastBotStatusAtUTC :: gostring

record meetingSessionTranscriptHealthData =
  th_SessionID :: gostring
  th_TranscriptHealth :: gostring
  th_SecondsSinceLastTranscript :: int

record meetingAIAnalysisData =
  ad_SessionID :: gostring
  ad_AnalysisType :: gostring
  ad_Status :: gostring
  ad_Version :: int
  ad_Payload :: "gostring option"
  ad_Model :: gostring
  ad_UpdatedAtUTC :: gostring
  ad_IntervalSeconds :: int
  ad_Error :: gostring
  ad_RequestedAnalysisVersion :: int
  ad_TargetFromSequenceNo :: int
  ad_TargetThroughSequenceNo :: int
  ad_StartedAtUTC :: gostring

datatype message_data =
    SegmentData transcriptSegmentData
  | StatusData meetingSessionStatusData
  | AnalysisData meetingAIAnalysisData
  | BotHealthData meetingSessionBotHealthData
  | TranscriptHealthData meetingSessionTranscriptHealthData
  | MediaHealthData BotMediaHealthState

record protocolMessage =
  pm_Type :: gostring
  pm_SentAtUTC :: gostring
  pm_Data :: message_data

definition optionalProtocolTime :: "time_format \<Rightarrow> gotime \<Rightarrow> gostring" where
  "optionalProtocolTime rfc t = (if is_zero t then [] else rfc t)"

text \<open>\<open>transcriptSegmentIsFinal\<close> of this package differs from the one of the endpoint.\<close>

definition message_isFinal :: "TranscriptSegment \<Rightarrow> bool" where
  "message_isFinal s \<longleftrightarrow> ts_IsFinal s \<or> 0 < ts_SequenceNo s"

definition transcriptSegmentProtocolMessage ::
    "time_format \<Rightarrow> TranscriptSegment \<Rightarrow> gotime \<Rightarrow> protocolMessage" where
  "transcriptSegmentProtocolMessage rfc s sentAt =
     \<lparr>pm_Type = ''transcript_segment.created'', pm_SentAtUTC = rfc sentAt,
      pm_Data = SegmentData
        \<lparr>sd_SessionID = ts_SessionID s, sd_EventID = ts_EventID s, sd_CallID = ts_CallID s,
         sd_SequenceNo = ts_SequenceNo s, sd_SpeakerID = ts_SpeakerID s, sd_SpeakerName = ts_SpeakerName s,
         sd_RecognizedAtUTC = rfc (ts_RecognizedAtUTC s), sd_OffsetTicks = ts_OffsetTicks s,
         sd_DurationTicks = ts_DurationTicks s, sd_Text = ts_Text s, sd_Duplicate = False,
         sd_IsFinal = message_isFinal s\<rparr>\<rparr>"

definition meetingSessionStatusProtocolMessage ::
    "time_format \<Rightarrow> MeetingSession \<Rightarrow> gotime \<Rightarrow> protocolMessage" where
  "meetingSessionStatusProtocolMessage rfc s sentAt =
     \<lparr>pm_Type = ''meeting_session.status_changed'', pm_SentAtUTC = rfc sentAt,
      pm_Data = StatusData
        \<lparr>st_SessionID = ms_ID s, st_Title = ms_Title s, st_DisplayTitle = ms_Title s,
         st_TitleSource = ms_TitleSource s, st_UserProvidedTitle = ms_UserProvidedTitle s,
         st_GraphTitle = ms_GraphTitle s, st_Provider = ms_Provider s,
         st_ExternalMeetingID = ms_ExternalMeetingID s, st_JoinMeetingID = ms_JoinMeetingID s,
         st_JoinWebURL = ms_JoinWebURL s, st_CanonicalJoinWebURL = ms_CanonicalJoinWebURL s,
         st_ThreadID = ms_ThreadID s, st_OrganizerID = ms_OrganizerID s,
         st_OrganizerName = ms_OrganizerName s, st_OrganizerEmail = ms_OrganizerEmail s,
         st_TitleResolutionErrorCode = ms_TitleResolutionErrorCode s,
         st_TitleResolutionErrorMessage = ms_TitleResolutionErrorMessage s,
         st_Status = status_text (ms_Status s), st_BotCallID = ms_BotCallID s,
         st_EndedAt = optionalProtocolTime rfc (ms_EndedAt s), st_EndReason = ms_EndReason s,
         st_LastError = ms_LastError s\<rparr>\<rparr>"

definition meetingSessionBotHealthProtocolMessage ::
    "time_format \<Rightarrow> MeetingSession \<Rightarrow> bool \<Rightarrow> gotime \<Rightarrow> protocolMessage" where
  "meetingSessionBotHealthProtocolMessage rfc s healthy sentAt =
     \<lparr>pm_Type = ''meeting_session.bot_health_changed'', pm_SentAtUTC = rfc sentAt,
      pm_Data = BotHealthData
        \<lparr>bh_SessionID = ms_ID s, bh_Healthy = healthy,
         bh_LastBotStatusAtUTC = optionalProtocolTime rfc (ms_LastBotStatusAt s)\<rparr>\<rparr>"

definition meetingSessionTranscriptHealthProtocolMessage ::
    "time_format \<Rightarrow> MeetingSession \<Rightarrow> gostring \<Rightarrow> int \<Rightarrow> gotime \<Rightarrow> protocolMessage" where
  "meetingSessionTranscriptHealthProtocolMessage rfc s health seconds sentAt =
     \<lparr>pm_Type = ''meeting_session.transcript_health_changed'', pm_SentAtUTC = rfc sentAt,
      pm_Data = TranscriptHealthData
        \<lparr>th_SessionID = ms_ID s, th_TranscriptHealth = health, th_SecondsSinceLastTranscript = seconds\<rparr>\<rparr>"

definition meetingSessionMediaHealthProtocolMessage ::
    "time_format \<Rightarrow> BotMediaHealthState \<Rightarrow> gotime \<Rightarrow> protocolMessage" where
  "meetingSessionMediaHealthProtocolMessage rfc health sentAt =
     \<lparr>pm_Type = ''meeting_session.media_health_changed'', pm_SentAtUTC = rfc sentAt,
      pm_Data = MediaHealthData health\<rparr>"

definition meetingAIAnalysisProtocolMessage ::
    "time_format \<Rightarrow> MeetingAIAnalysis \<Rightarrow> gotime \<Rightarrow> protocolMessage" where
  "meetingAIAnalysisProtocolMessage rfc a sentAt =
     \<lparr>pm_Type = ''ai_analysis.updated'', pm_SentAtUTC = rfc sentAt,
      pm_Data = AnalysisData
        \<lparr>ad_SessionID = aa_SessionID a, ad_AnalysisType = analysis_type_text (aa_Type a),
         ad_Status = analysis_status_text (aa_Status a), ad_Version = aa_Version a,
         ad_Payload = (if aa_Status a = AnalysisRunning then None else Some (aa_Payload a)),
         ad_Model = aa_Model a, ad_UpdatedAtUTC = rfc (aa_UpdatedAt a),
         ad_IntervalSeconds = aa_IntervalSeconds a, ad_Error = aa_LastError a,
         ad_RequestedAnalysisVersion = aa_RequestedAnalysisVersion a,
         ad_TargetFromSequenceNo = aa_TargetFromSequenceNo a,
         ad_TargetThroughSequenceNo = aa_TargetThroughSequenceNo a,
         ad_StartedAtUTC = optionalProtocolTime rfc (aa_StartedAt a)\<rparr>\<rparr>"

section \<open>Clients\<close>

text \<open>A media event is published for a session but carries only the health.\<close>

datatype transcriptOutboundEvent =
    SegmentEvent TranscriptSegment
  | SessionEvent MeetingSession
  | AnalysisEvent MeetingAIAnalysis
  | BotHealthEvent MeetingSession bool
  | TranscriptHealthEvent MeetingSession gostring int
  | MediaHealthEvent BotMediaHealthState

record transcriptClient =
  tc_id :: nat
  tc_callID :: gostring
  tc_sessionID :: gostring
  tc_workspaceID :: gostring
  tc_userID :: gostring
  tc_send :: "transcriptOutboundEvent list"
  tc_closed :: bool
  tc_written :: "protocolMessage list"

definition newTranscriptClient :: "nat \<Rightarrow> gostring \<Rightarrow> gostring \<Rightarrow> transcriptClient" where
  "newTranscriptClient i callID sessionID =
     \<lparr>tc_id = i, tc_callID = callID, tc_sessionID = sessionID, tc_workspaceID = [], tc_userID = [],
      tc_send = [], tc_closed = False, tc_written = []\<rparr>"

definition matchesSegment :: "transcriptClient \<Rightarrow> TranscriptSegment \<Rightarrow> bool" where
  "matchesSegment c s \<longleftrightarrow>
     \<not> (tc_callID c \<noteq> [] \<and> tc_callID c \<noteq> ts_CallID s) \<and>
     \<not> (tc_sessionID c \<noteq> [] \<and> tc_sessionID c \<noteq> ts_SessionID s)"

definition matchesSession :: "transcriptClient \<Rightarrow> MeetingSession \<Rightarrow> bool" where
  "matchesSession c s \<longleftrightarrow>
     (if tc_sessionID c \<noteq> [] then tc_sessionID c = ms_ID s
      else if tc_callID c \<noteq> [] then tc_callID c = ms_BotCallID s
      else True)"

definition matchesAIAnalysis :: "transcriptClient \<Rightarrow> MeetingAIAnalysis \<Rightarrow> bool" where
  "matchesAIAnalysis c a \<longleftrightarrow>
     (if tc_sessionID c \<noteq> [] then tc_sessionID c = aa_SessionID a
      else if tc_callID c \<noteq> [] then False
      else True)"

definition tc_enqueue :: "transcriptOutboundEvent \<Rightarrow> transcriptClient \<Rightarrow> transcriptClient" where
  "tc_enqueue event c = c\<lparr>tc_send := push_dropping_oldest event (tc_send c)\<rparr>"

text \<open>\<open>writeEvent\<close>: the message of an event, written on a connection that takes it (\<open>up\<close>) or fails.\<close>

fun event_message :: "time_format \<Rightarrow> gotime \<Rightarrow> transcriptOutboundEvent \<Rightarrow> protocolMessage" where
  "event_message rfc now (SegmentEvent s) = transcriptSegmentProtocolMessage rfc s now"
| "event_message rfc now (SessionEvent s) = meetingSessionStatusProtocolMessage rfc s now"
| "event_message rfc now (AnalysisEvent a) = meetingAIAnalysisProtocolMessage rfc a now"
| "event_message rfc now (BotHealthEvent s healthy) = meetingSessionBotHealthProtocolMessage rfc s healthy now"
| "event_message rfc now (TranscriptHealthEvent s health seconds) =
     meetingSessionTranscriptHealthProtocolMessage rfc s health seconds now"
| "event_message rfc now (MediaHealthEvent health) = meetingSessionMediaHealthProtocolMessage rfc health now"

section \<open>The hub\<close>

type_synonym transcript_hub = "transcriptClient list"

definition th_subscribe :: "transcriptClient \<Rightarrow> transcript_hub \<Rightarrow> transcript_hub" where
  "th_subscribe c h = (if tc_id c \<in> set (map tc_id h) then h else h @ [c])"

definition th_unsubscribe :: "transcriptClient \<Rightarrow> transcript_hub \<Rightarrow> transcript_hub" where
  "th_unsubscribe c h = filter (\<lambda>x. tc_id x \<noteq> tc_id c) h"

text \<open>The six \<open>Publish\<close> methods: every client the selection takes gets the event in its channel.\<close>

definition th_publish ::
    "(transcriptClient \<Rightarrow> bool) \<Rightarrow> transcriptOutboundEvent \<Rightarrow> transcript_hub \<Rightarrow> transcript_hub" where
  "th_publish selected event h = map (\<lambda>c. if selected c then tc_enqueue event c else c) h"

definition th_PublishTranscriptSegment :: "TranscriptSegment \<Rightarrow> transcript_hub \<Rightarrow> transcript_hub" where
  "th_PublishTranscriptSegment s = th_publish (\<lambda>c. matchesSegment c s) (SegmentEvent s)"

definition th_PublishMeetingAIAnalysis :: "MeetingAIAnalysis \<Rightarrow> transcript_hub \<Rightarrow> transcript_hub" where
  "th_PublishMeetingAIAnalysis a = th_publish (\<lambda>c. matchesAIAnalysis c a) (AnalysisEvent a)"

definition th_PublishMeetingSessionStatusChanged :: "MeetingSession \<Rightarrow> transcript_hub \<Rightarrow> transcript_hub" where
  "th_PublishMeetingSessionStatusChanged s = th_publish (\<lambda>c. matchesSession c s) (SessionEvent s)"

definition th_PublishMeetingSessionBotHealth :: "MeetingSession \<Rightarrow> bool \<Rightarrow> transcript_hub \<Rightarrow> transcript_hub" where
  "th_PublishMeetingSessionBotHealth s healthy =
     th_publish (\<lambda>c. matchesSession c s) (BotHealthEvent s healthy)"

definition th_PublishMeetingSessionTranscriptHealth ::
    "MeetingSession \<Rightarrow> gostring \<Rightarrow> int \<Rightarrow> transcript_hub \<Rightarrow> transcript_hub" where
  "th_PublishMeetingSessionTranscriptHealth s health seconds =
     th_publish (\<lambda>c. matchesSession c s) (TranscriptHealthEvent s health seconds)"

definition th_PublishMeetingSessionMediaHealth ::
    "MeetingSession \<Rightarrow> BotMediaHealthState \<Rightarrow> transcript_hub \<Rightarrow> transcript_hub" where
  "th_PublishMeetingSessionMediaHealth s health =
     th_publish (\<lambda>c. matchesSession c s) (MediaHealthEvent health)"

definition th_CloseWorkspaceMember ::
    "gostring \<Rightarrow> gostring \<Rightarrow> transcript_hub \<Rightarrow> transcript_hub" where
  "th_CloseWorkspaceMember workspaceID userID h =
     (if workspaceID = [] \<or> userID = [] then h
      else map (\<lambda>c. if tc_workspaceID c = workspaceID \<and> tc_userID c = userID
                     then c\<lparr>tc_closed := True\<rparr> else c) h)"

text \<open>
  One round of \<open>writeLoop\<close> for client \<open>c\<close>: an event of its channel is written, or the ticker asks for
  a ping.  A closed connection fails every write; a failed write unsubscribes the client, closes the
  connection and ends the loop.
\<close>

datatype write_turn = WriteEvent | WritePing

definition th_write ::
    "time_format \<Rightarrow> gotime \<Rightarrow> bool \<Rightarrow> write_turn \<Rightarrow> transcriptClient \<Rightarrow> bool \<times> transcriptClient" where
  "th_write rfc now up turn c =
     (case turn of
        WritePing \<Rightarrow> (if up \<and> \<not> tc_closed c then (True, c) else (False, c\<lparr>tc_closed := True\<rparr>))
      | WriteEvent \<Rightarrow>
          (case tc_send c of
             [] \<Rightarrow> (True, c)
           | e # q \<Rightarrow>
               if up \<and> \<not> tc_closed c
               then (True, c\<lparr>tc_send := q, tc_written := tc_written c @ [event_message rfc now e]\<rparr>)
               else (False, c\<lparr>tc_send := q, tc_closed := True\<rparr>)))"

definition th_turn ::
    "time_format \<Rightarrow> gotime \<Rightarrow> bool \<Rightarrow> write_turn \<Rightarrow> nat \<Rightarrow> transcript_hub \<Rightarrow> transcript_hub" where
  "th_turn rfc now up turn i h =
     concat (map (\<lambda>c. if tc_id c \<noteq> i then [c]
                      else (case th_write rfc now up turn c of (True, c') \<Rightarrow> [c'] | (False, c') \<Rightarrow> [])) h)"

text \<open>\<open>readLoop\<close>: what it writes: a pong for each ping, and a close frame for a close.\<close>

function tc_readLoop :: "byte list \<Rightarrow> byte list" where
  "tc_readLoop bs =
     (case readFrame bs of
        Inl err \<Rightarrow> []
      | Inr (opcode, payload, rest) \<Rightarrow>
          if opcode = opClose then writeFrame opClose []
          else if opcode = opPing then writePong payload @ tc_readLoop rest
          else tc_readLoop rest)"
  by auto
termination
proof (relation "measure length", goal_cases)
  case (2 bs q opcode y payload rest)
  then show ?case using readFrame_InrD [of bs opcode payload rest] by auto
next
  case (3 bs q opcode y payload rest)
  then show ?case using readFrame_InrD [of bs opcode payload rest] by auto
qed simp

declare tc_readLoop.simps [simp del]

section \<open>Opening a connection\<close>

definition default_origins :: "gostring list" where
  "default_origins =
     [''http://localhost:3000'', ''http://localhost:5173'', ''http://localhost:5193'',
      ''http://127.0.0.1:3000'', ''http://127.0.0.1:5173'', ''http://127.0.0.1:5193'']"

definition transcriptAllowedOrigins :: "gostring \<Rightarrow> gostring list" where
  "transcriptAllowedOrigins value =
     (let origins = filter (\<lambda>x. x \<noteq> []) (map trim_space (split_on (CHR '','') value)) in
      if origins = [] then default_origins else origins)"

definition originAllowed :: "gostring \<Rightarrow> gostring \<Rightarrow> bool" where
  "originAllowed allowed origin0 \<longleftrightarrow>
     (let origin = trim_space origin0 in
      origin = [] \<or> list_ex (\<lambda>a. a = ''*'' \<or> a = origin) (transcriptAllowedOrigins allowed))"

record transcript_request =
  tq_Origin :: gostring
  tq_callId :: gostring
  tq_sessionId :: gostring
  tq_upgrade :: upgrade_request

text \<open>
  \<open>ServeTranscriptSegments\<close> up to the loops: the error it answers with, or the response of the
  upgrade and the new client, subscribed.  \<open>member\<close> is \<open>ResolveMember\<close>, if configured.
\<close>

definition ServeTranscriptSegments ::
    "(gostring \<Rightarrow> gostring) \<Rightarrow> gostring \<Rightarrow> (transcript_request \<Rightarrow> gostring \<times> gostring) option \<Rightarrow> nat \<Rightarrow>
     transcript_request \<Rightarrow> transcript_hub \<Rightarrow> (http_error + gostring) \<times> transcript_hub" where
  "ServeTranscriptSegments accept_key allowed member i r h =
     (if \<not> originAllowed allowed (trim_space (tq_Origin r))
      then (Inl (HttpError 403 ''forbidden_origin'' ''origin is not allowed''), h)
      else (case accept accept_key (tq_upgrade r) of
          Inl err \<Rightarrow> (Inl (HttpError 400 ''websocket_upgrade_failed'' err), h)
        | Inr response \<Rightarrow>
            (let c = newTranscriptClient i (trim_space (tq_callId r)) (trim_space (tq_sessionId r)) in
             (Inr response,
              th_subscribe (case member of None \<Rightarrow> c
                            | Some f \<Rightarrow> c\<lparr>tc_workspaceID := fst (f r), tc_userID := snd (f r)\<rparr>) h))))"

end
