(* ===== verification/TranscriptHubClaims.thy ===== *)
theory TranscriptHubClaims
  imports TranscriptHub "HOL-Library.Sublist"
begin

text \<open>
  The transcript hub over sequences of actions: publications, turns of the writers and removals of
  members.  What a client is sent is followed as the data of the messages, since the time of sending
  depends on when its writer runs.
\<close>

section \<open>Publications\<close>

datatype publication =
    PubSegment TranscriptSegment
  | PubStatus MeetingSession
  | PubAnalysis MeetingAIAnalysis
  | PubBotHealth MeetingSession bool
  | PubTranscriptHealth MeetingSession gostring int
  | PubMediaHealth MeetingSession BotMediaHealthState

fun publish :: "publication \<Rightarrow> transcript_hub \<Rightarrow> transcript_hub" where
  "publish (PubSegment s) = th_PublishTranscriptSegment s"
| "publish (PubStatus s) = th_PublishMeetingSessionStatusChanged s"
| "publish (PubAnalysis a) = th_PublishMeetingAIAnalysis a"
| "publish (PubBotHealth s healthy) = th_PublishMeetingSessionBotHealth s healthy"
| "publish (PubTranscriptHealth s health seconds) = th_PublishMeetingSessionTranscriptHealth s health seconds"
| "publish (PubMediaHealth s health) = th_PublishMeetingSessionMediaHealth s health"

fun pub_event :: "publication \<Rightarrow> transcriptOutboundEvent" where
  "pub_event (PubSegment s) = SegmentEvent s"
| "pub_event (PubStatus s) = SessionEvent s"
| "pub_event (PubAnalysis a) = AnalysisEvent a"
| "pub_event (PubBotHealth s healthy) = BotHealthEvent s healthy"
| "pub_event (PubTranscriptHealth s health seconds) = TranscriptHealthEvent s health seconds"
| "pub_event (PubMediaHealth s health) = MediaHealthEvent health"

fun pub_session :: "publication \<Rightarrow> gostring" where
  "pub_session (PubSegment s) = ts_SessionID s"
| "pub_session (PubStatus s) = ms_ID s"
| "pub_session (PubAnalysis a) = aa_SessionID a"
| "pub_session (PubBotHealth s _) = ms_ID s"
| "pub_session (PubTranscriptHealth s _ _) = ms_ID s"
| "pub_session (PubMediaHealth s _) = ms_ID s"

fun takes :: "transcriptClient \<Rightarrow> publication \<Rightarrow> bool" where
  "takes c (PubSegment s) = matchesSegment c s"
| "takes c (PubStatus s) = matchesSession c s"
| "takes c (PubAnalysis a) = matchesAIAnalysis c a"
| "takes c (PubBotHealth s _) = matchesSession c s"
| "takes c (PubTranscriptHealth s _ _) = matchesSession c s"
| "takes c (PubMediaHealth s _) = matchesSession c s"

lemmas matching = matchesSegment_def matchesSession_def matchesAIAnalysis_def

definition tc_take :: "publication \<Rightarrow> transcriptClient \<Rightarrow> transcriptClient" where
  "tc_take p c = (if takes c p then tc_enqueue (pub_event p) c else c)"

lemma publish_map: "publish p h = map (tc_take p) h"
  by (cases p) (simp_all add: tc_take_def th_publish_def th_PublishTranscriptSegment_def
      th_PublishMeetingSessionStatusChanged_def th_PublishMeetingAIAnalysis_def
      th_PublishMeetingSessionBotHealth_def th_PublishMeetingSessionTranscriptHealth_def
      th_PublishMeetingSessionMediaHealth_def)

lemma takes_session: "takes c p \<Longrightarrow> tc_sessionID c \<noteq> [] \<Longrightarrow> pub_session p = tc_sessionID c"
  by (cases p) (auto simp: matching split: if_splits)

lemma takes_cong:
  "tc_sessionID c = tc_sessionID c' \<Longrightarrow> tc_callID c = tc_callID c' \<Longrightarrow> takes c = takes c'"
proof
  fix p assume "tc_sessionID c = tc_sessionID c'" "tc_callID c = tc_callID c'"
  then show "takes c p = takes c' p" by (cases p) (simp_all add: matching)
qed

section \<open>The bounded channel\<close>

text \<open>The last \<open>n\<close> elements.\<close>

definition newest :: "nat \<Rightarrow> 'a list \<Rightarrow> 'a list" where
  "newest n xs = drop (length xs - n) xs"

lemma push_newest: "push_dropping_oldest x (newest send_capacity xs) = newest send_capacity (xs @ [x])"
proof (cases "length xs < send_capacity")
  case False
  then have "length (newest send_capacity xs) = send_capacity" by (simp add: newest_def)
  moreover have "tl (newest send_capacity xs) = drop (Suc (length xs) - send_capacity) xs"
    using False by (simp add: newest_def tl_drop Suc_diff_le flip: drop_Suc)
  ultimately show ?thesis
    using False by (simp add: push_dropping_oldest_def) (simp add: newest_def send_capacity_def)
qed (simp add: push_dropping_oldest_def newest_def)

lemma push_subseq: "subseq (push_dropping_oldest x q) (q @ [x])"
  by (cases q) (auto simp: push_dropping_oldest_def)

lemma tc_takes:
  "tc_send c = newest send_capacity xs \<Longrightarrow>
   foldl (\<lambda>c p. tc_take p c) c ps = c\<lparr>tc_send := newest send_capacity (xs @ map pub_event (filter (takes c) ps))\<rparr>"
proof (induction ps arbitrary: c xs)
  case (Cons p ps)
  show ?case
  proof (cases "takes c p")
    case True
    have same: "takes (tc_take p c) = takes c"
      by (rule takes_cong) (simp_all add: tc_take_def tc_enqueue_def)
    have "foldl (\<lambda>c p. tc_take p c) (tc_take p c) ps =
        (tc_take p c)\<lparr>tc_send := newest send_capacity ((xs @ [pub_event p]) @ map pub_event (filter (takes (tc_take p c)) ps))\<rparr>"
      by (rule Cons.IH) (simp add: tc_take_def tc_enqueue_def True Cons.prems push_newest)
    then show ?thesis using True unfolding same by (simp add: tc_take_def tc_enqueue_def)
  next
    case False
    then show ?thesis using Cons by (simp add: tc_take_def)
  qed
qed simp

section \<open>Runs of the hub\<close>

datatype hub_action =
    Published publication
  | Turned gotime bool write_turn nat
  | Removed gostring gostring

fun hub_do :: "time_format \<Rightarrow> hub_action \<Rightarrow> transcript_hub \<Rightarrow> transcript_hub" where
  "hub_do rfc (Published p) h = publish p h"
| "hub_do rfc (Turned now up turn i) h = th_turn rfc now up turn i h"
| "hub_do rfc (Removed workspaceID userID) h = th_CloseWorkspaceMember workspaceID userID h"

definition hub_run :: "time_format \<Rightarrow> hub_action list \<Rightarrow> transcript_hub \<Rightarrow> transcript_hub" where
  "hub_run rfc acts h = foldl (\<lambda>h a. hub_do rfc a h) h acts"

fun published :: "hub_action list \<Rightarrow> publication list" where
  "published [] = []"
| "published (Published p # as) = p # published as"
| "published (Turned _ _ _ _ # as) = published as"
| "published (Removed _ _ # as) = published as"

lemma hub_run_simps [simp]: "hub_run rfc [] h = h" "hub_run rfc (a # as) h = hub_run rfc as (hub_do rfc a h)"
  by (simp_all add: hub_run_def)

text \<open>What a client was sent and is still to be sent.\<close>

definition event_data :: "time_format \<Rightarrow> transcriptOutboundEvent \<Rightarrow> message_data" where
  "event_data rfc e = pm_Data (event_message rfc 0 e)"

definition outgoing :: "time_format \<Rightarrow> transcriptClient \<Rightarrow> message_data list" where
  "outgoing rfc c = map pm_Data (tc_written c) @ map (event_data rfc) (tc_send c)"

definition same_client :: "transcriptClient \<Rightarrow> transcriptClient \<Rightarrow> bool" where
  "same_client c c' \<longleftrightarrow> tc_id c = tc_id c' \<and> tc_callID c = tc_callID c' \<and> tc_sessionID c = tc_sessionID c' \<and>
     tc_workspaceID c = tc_workspaceID c' \<and> tc_userID c = tc_userID c'"

lemma event_data_now [simp]: "pm_Data (event_message rfc now e) = event_data rfc e"
  by (cases e) (simp_all add: event_data_def transcriptSegmentProtocolMessage_def
      meetingSessionStatusProtocolMessage_def meetingAIAnalysisProtocolMessage_def
      meetingSessionBotHealthProtocolMessage_def meetingSessionTranscriptHealthProtocolMessage_def
      meetingSessionMediaHealthProtocolMessage_def)

lemma take_step:
  "same_client c (tc_take p c)"
  "subseq (outgoing rfc (tc_take p c)) (outgoing rfc c @ map (event_data rfc \<circ> pub_event) (filter (takes c) [p]))"
  "tc_closed (tc_take p c) = tc_closed c" "tc_written (tc_take p c) = tc_written c"
proof -
  have "subseq (map (event_data rfc) (push_dropping_oldest (pub_event p) (tc_send c)))
      (map (event_data rfc) (tc_send c) @ [event_data rfc (pub_event p)])"
    using subseq_map [OF push_subseq] by fastforce
  then show "subseq (outgoing rfc (tc_take p c)) (outgoing rfc c @ map (event_data rfc \<circ> pub_event) (filter (takes c) [p]))"
    using list_emb_append_mono [OF subseq_order.order_refl [of "map pm_Data (tc_written c)"]]
    by (fastforce simp: outgoing_def tc_take_def tc_enqueue_def)
qed (simp_all add: same_client_def tc_take_def tc_enqueue_def)

lemma write_step:
  assumes "th_write rfc now up turn c = (True, c')"
  shows "same_client c c' \<and> outgoing rfc c' = outgoing rfc c \<and> tc_closed c' = tc_closed c \<and>
    (tc_closed c \<longrightarrow> tc_written c' = tc_written c)"
  using assms by (auto simp: th_write_def same_client_def outgoing_def
      split: write_turn.splits list.splits if_splits)

text \<open>Every client after an action is a client from before it.\<close>

lemma hub_do_origin:
  assumes "c' \<in> set (hub_do rfc a h)"
  shows "\<exists>c \<in> set h. same_client c c' \<and>
    subseq (outgoing rfc c') (outgoing rfc c @ map (event_data rfc \<circ> pub_event) (filter (takes c) (published [a]))) \<and>
    (tc_closed c \<longrightarrow> tc_closed c' \<and> tc_written c' = tc_written c)"
proof (cases a)
  case (Published p)
  then obtain c where "c \<in> set h" "c' = tc_take p c" using assms by (auto simp: publish_map)
  then show ?thesis using take_step [where c = c and p = p] Published by (intro bexI [of _ c]) simp_all
next
  case (Turned now up turn i)
  then obtain c where "c \<in> set h" "c' = c \<or> th_write rfc now up turn c = (True, c')"
    using assms by (auto simp: th_turn_def split: if_splits prod.splits bool.splits)
  then show ?thesis using write_step [of rfc now up turn c c'] Turned
    by (auto simp: same_client_def)
next
  case (Removed workspaceID userID)
  then show ?thesis using assms
    by (auto simp: th_CloseWorkspaceMember_def same_client_def outgoing_def split: if_splits)
qed

lemma hub_run_origin:
  assumes "c' \<in> set (hub_run rfc acts h)"
  shows "\<exists>c \<in> set h. same_client c c' \<and>
    subseq (outgoing rfc c') (outgoing rfc c @ map (event_data rfc \<circ> pub_event) (filter (takes c) (published acts))) \<and>
    (tc_closed c \<longrightarrow> tc_closed c' \<and> tc_written c' = tc_written c)"
  using assms
proof (induction acts arbitrary: h)
  case (Cons a acts)
  from Cons.IH [OF Cons.prems [simplified]] obtain c1 where c1: "c1 \<in> set (hub_do rfc a h)" "same_client c1 c'"
    "subseq (outgoing rfc c') (outgoing rfc c1 @ map (event_data rfc \<circ> pub_event) (filter (takes c1) (published acts)))"
    "tc_closed c1 \<longrightarrow> tc_closed c' \<and> tc_written c' = tc_written c1" by blast
  from hub_do_origin [OF c1(1)] obtain c where c: "c \<in> set h" "same_client c c1"
    "subseq (outgoing rfc c1) (outgoing rfc c @ map (event_data rfc \<circ> pub_event) (filter (takes c) (published [a])))"
    "tc_closed c \<longrightarrow> tc_closed c1 \<and> tc_written c1 = tc_written c" by blast
  have split: "published (a # acts) = published [a] @ published acts" by (cases a) simp_all
  have "takes c1 = takes c" using c(2) by (intro takes_cong) (simp_all add: same_client_def)
  then have "subseq (outgoing rfc c') ((outgoing rfc c @ map (event_data rfc \<circ> pub_event) (filter (takes c) (published [a])))
      @ map (event_data rfc \<circ> pub_event) (filter (takes c) (published acts)))"
    using subseq_order.order_trans [OF c1(3) list_emb_append_mono [OF c(3) subseq_order.order_refl]] by simp
  then have "subseq (outgoing rfc c')
      (outgoing rfc c @ map (event_data rfc \<circ> pub_event) (filter (takes c) (published (a # acts))))"
    unfolding split by simp
  moreover have "same_client c c'" using c(2) c1(2) by (simp add: same_client_def)
  ultimately show ?case using c(1,4) c1(4) by metis
qed (auto simp: same_client_def)

text \<open>A partial segment that carries a sequence number is sent as a final one.\<close>

lemma partial_shown_as_final:
  assumes "\<not> ts_IsFinal s" "0 < ts_SequenceNo s"
  shows "\<exists>d. pm_Data (transcriptSegmentProtocolMessage rfc s now) = SegmentData d \<and> sd_IsFinal d"
  using assms(2) by (simp add: transcriptSegmentProtocolMessage_def message_isFinal_def)

section \<open>Properties\<close>

text \<open>C28: A transcript client holds the newest 128 events meant for it.  From empty channels, after any
  sequence of publications the channel of each client (not read meanwhile) holds the last 128 of the
  events whose publication it takes, in order; and every publication taken by a client that asked for
  a session is of that session.\<close>

theorem transcript_hub_keeps_the_newest:
  assumes "list_all (\<lambda>c. tc_send c = []) h"
  shows "foldl (\<lambda>h p. publish p h) h ps =
      map (\<lambda>c. c\<lparr>tc_send := newest 128 (map pub_event (filter (takes c) ps))\<rparr>) h \<and>
    (\<forall>c p. takes c p \<longrightarrow> tc_sessionID c \<noteq> [] \<longrightarrow> pub_session p = tc_sessionID c)"
proof -
  have run: "foldl (\<lambda>h p. publish p h) h ps = map (\<lambda>c. foldl (\<lambda>c p. tc_take p c) c ps) h"
    by (induction ps arbitrary: h) (simp_all add: publish_map)
  have "foldl (\<lambda>c p. tc_take p c) c ps = c\<lparr>tc_send := newest 128 (map pub_event (filter (takes c) ps))\<rparr>"
    if "c \<in> set h" for c
    using tc_takes [of c "[]" ps] that assms by (simp add: newest_def send_capacity_def list_all_iff)
  then show ?thesis by (simp add: run takes_session)
qed

definition sample_tc :: "nat \<Rightarrow> gostring \<Rightarrow> transcriptClient" where
  "sample_tc i session =
     (newTranscriptClient i [] session)\<lparr>tc_workspaceID := ''w'', tc_userID := (if i = 1 then ''u'' else ''v'')\<rparr>"

definition sample_live :: "gostring \<Rightarrow> publication" where
  "sample_live session =
     PubAnalysis \<lparr>aa_SessionID = session, aa_Type = AnalysisLive, aa_Status = AnalysisRunning, aa_Version = 1,
       aa_Payload = [], aa_Model = [], aa_SegmentCount = 1, aa_InputChars = 9, aa_LastError = [],
       aa_CreatedAt = 0, aa_UpdatedAt = 7, aa_IntervalSeconds = 0, aa_RequestedAnalysisVersion = 0,
       aa_TargetFromSequenceNo = 0, aa_TargetThroughSequenceNo = 0, aa_StartedAt = 0\<rparr>"

theorem transcript_hub_keeps_the_newest_witness:
  "map tc_send (foldl (\<lambda>h p. publish p h) [sample_tc 1 ''a'', sample_tc 2 []] [sample_live ''a'', sample_live ''b'']) =
     [[pub_event (sample_live ''a'')], [pub_event (sample_live ''a''), pub_event (sample_live ''b'')]]"
proof -
  have "list_all (\<lambda>c. tc_send c = []) [sample_tc 1 ''a'', sample_tc 2 []]" by code_simp
  from transcript_hub_keeps_the_newest [OF this, of "[sample_live ''a'', sample_live ''b'']"]
  show ?thesis by (simp add: sample_tc_def newTranscriptClient_def sample_live_def matching newest_def)
qed

text \<open>C29: Clients of the transcript hub are isolated.  Whatever publications, turns of the writers and
  removals happen, what a client was sent and is still to be sent follows, in order, from what it had
  and the publications it takes; and after a member is removed from a workspace nothing more is written
  to the clients of that member.\<close>

theorem transcript_clients_are_isolated:
  assumes "workspaceID \<noteq> []" "userID \<noteq> []"
  shows "(\<forall>c' \<in> set (hub_run rfc acts h). \<exists>c \<in> set h. same_client c c' \<and>
      subseq (outgoing rfc c') (outgoing rfc c @ map (event_data rfc \<circ> pub_event) (filter (takes c) (published acts)))) \<and>
    (\<forall>c' \<in> set (hub_run rfc acts (th_CloseWorkspaceMember workspaceID userID h)).
      tc_workspaceID c' = workspaceID \<and> tc_userID c' = userID \<longrightarrow>
      (\<exists>c \<in> set h. same_client c c' \<and> tc_written c' = tc_written c))"
proof (intro conjI ballI impI)
  fix c' assume "c' \<in> set (hub_run rfc acts h)"
  then show "\<exists>c \<in> set h. same_client c c' \<and>
      subseq (outgoing rfc c') (outgoing rfc c @ map (event_data rfc \<circ> pub_event) (filter (takes c) (published acts)))"
    using hub_run_origin by blast
next
  fix c' assume c': "c' \<in> set (hub_run rfc acts (th_CloseWorkspaceMember workspaceID userID h))"
    "tc_workspaceID c' = workspaceID \<and> tc_userID c' = userID"
  from hub_run_origin [OF c'(1)] obtain c1 where c1: "c1 \<in> set (th_CloseWorkspaceMember workspaceID userID h)"
    "same_client c1 c'" "tc_closed c1 \<longrightarrow> tc_closed c' \<and> tc_written c' = tc_written c1" by blast
  from c1(1) obtain c where c: "c \<in> set h"
    "c1 = (if tc_workspaceID c = workspaceID \<and> tc_userID c = userID then c\<lparr>tc_closed := True\<rparr> else c)"
    using assms by (auto simp: th_CloseWorkspaceMember_def)
  then show "\<exists>c \<in> set h. same_client c c' \<and> tc_written c' = tc_written c"
    using c1 c'(2) by (intro bexI [of _ c]) (auto simp: same_client_def split: if_splits)
qed

text \<open>One client of user \<open>u\<close>, one of user \<open>v\<close>; \<open>u\<close> is removed before the writers run.\<close>

definition sample_hub_acts :: "hub_action list" where
  "sample_hub_acts = [Published (sample_live ''a''), Turned 5 True WriteEvent 2]"

theorem transcript_clients_are_isolated_witness:
  "map (length \<circ> tc_written)
     (hub_run (\<lambda>_. []) sample_hub_acts (th_CloseWorkspaceMember ''w'' ''u'' [sample_tc 1 ''a'', sample_tc 2 []])) = [0, 1] \<and>
   filter (\<lambda>c. tc_userID c = ''u'' \<and> tc_written c \<noteq> [])
     (hub_run (\<lambda>_. []) sample_hub_acts (th_CloseWorkspaceMember ''w'' ''u'' [sample_tc 1 ''a'', sample_tc 2 []])) = []"
proof -
  let ?h = "[sample_tc 1 ''a'', sample_tc 2 []]"
  let ?run = "hub_run (\<lambda>_. []) sample_hub_acts (th_CloseWorkspaceMember ''w'' ''u'' ?h)"
  have "''w'' \<noteq> []" "''u'' \<noteq> []" by simp_all
  note iso = transcript_clients_are_isolated [OF this, where h = ?h and acts = sample_hub_acts and rfc = "\<lambda>_. []"]
  have "list_all (\<lambda>c. tc_workspaceID c = ''w'') ?run" by code_simp
  then have "tc_written c = []" if "c \<in> set ?run" "tc_userID c = ''u''" for c
    using iso that by (fastforce simp: list_all_iff sample_tc_def newTranscriptClient_def)
  then have "filter (\<lambda>c. tc_userID c = ''u'' \<and> tc_written c \<noteq> []) ?run = []"
    by (auto simp: filter_empty_conv)
  moreover have "map (length \<circ> tc_written) ?run = [0, 1]" by code_simp
  ultimately show ?thesis by blast
qed

end
