(* ===== verification/MeetingContext.thy ===== *)
theory MeetingContext
  imports SessionService
begin

text \<open>
  The pre-meeting context every AI task shares, \<open>ai_meeting_context.go\<close> of package
  \<open>internal/application\<close> (with \<open>preContextFromSession\<close> of \<open>ai_analysis.go\<close> and the agenda records of
  \<open>ai_agenda_anchor.go\<close>): the agenda of a session as records with stable ids, their roles, and the
  reconciliation of a planned context with the deterministic one.

  Texts are well-formed UTF-8; a Japanese constant is written by its code points (\<open>jp\<close>).  The regular
  expression of agenda line prefixes is the function \<open>strip_line_prefix\<close>; JSON is an argument.  The
  rendering of prompts is left out.
\<close>

section \<open>Code points\<close>

definition utf8 :: "int \<Rightarrow> gostring" where
  "utf8 n =
     (if n < 128 then [char_of n]
      else if n < 2048 then [char_of (192 + n div 64), char_of (128 + n mod 64)]
      else [char_of (224 + n div 4096), char_of (128 + n div 64 mod 64), char_of (128 + n mod 64)])"

definition jp :: "int list \<Rightarrow> gostring" where
  "jp ns = concat (map utf8 ns)"

definition code_range :: "int \<Rightarrow> int \<Rightarrow> gostring list" where
  "code_range a b = map utf8 [a..b]"

text \<open>The text without the given code points.\<close>

function strip_runes :: "gostring list \<Rightarrow> gostring \<Rightarrow> gostring" where
  "strip_runes ps [] = []"
| "strip_runes ps (c # cs) =
     (case drop_any ps (c # cs) of Some t \<Rightarrow> strip_runes ps t | None \<Rightarrow> c # strip_runes ps cs)"
  by pat_completeness auto
termination
proof (relation "measure (\<lambda>(ps, s). length s)", goal_cases)
  case (3 ps c cs t)
  then obtain p where p: "p \<noteq> []" "c # cs = p @ t" by (auto dest: drop_any_Some)
  have "length (c # cs) = length p + length t" using p(2) by (metis length_append)
  moreover have "0 < length p" using p(1) by simp
  ultimately show ?case by simp
qed auto

definition match_dropped :: "gostring list" where
  "match_dropped = map utf8
     [0x20, 0x09, 0x3000,
      0x3001, 0x3002, 0x2C, 0x2E, 0x21, 0x3F, 0xFF01, 0xFF1F, 0x3A, 0xFF1A, 0x3B, 0xFF1B, 0x28, 0x29,
      0xFF08, 0xFF09, 0x5B, 0x5D, 0x300C, 0x300D, 0x300E, 0x300F, 0x30FB, 0x2D, 0x30FC, 0x5F, 0x301C, 0x7E]"

text \<open>The encodings written out, for evaluation.\<close>

lemma match_dropped_code [code]:
  "match_dropped =
     [[CHR 0x20], [CHR 0x09], [CHR 0xE3, CHR 0x80, CHR 0x80], [CHR 0xE3, CHR 0x80, CHR 0x81],
      [CHR 0xE3, CHR 0x80, CHR 0x82], [CHR 0x2C], [CHR 0x2E], [CHR 0x21], [CHR 0x3F],
      [CHR 0xEF, CHR 0xBC, CHR 0x81], [CHR 0xEF, CHR 0xBC, CHR 0x9F], [CHR 0x3A],
      [CHR 0xEF, CHR 0xBC, CHR 0x9A], [CHR 0x3B], [CHR 0xEF, CHR 0xBC, CHR 0x9B], [CHR 0x28], [CHR 0x29],
      [CHR 0xEF, CHR 0xBC, CHR 0x88], [CHR 0xEF, CHR 0xBC, CHR 0x89], [CHR 0x5B], [CHR 0x5D],
      [CHR 0xE3, CHR 0x80, CHR 0x8C], [CHR 0xE3, CHR 0x80, CHR 0x8D], [CHR 0xE3, CHR 0x80, CHR 0x8E],
      [CHR 0xE3, CHR 0x80, CHR 0x8F], [CHR 0xE3, CHR 0x83, CHR 0xBB], [CHR 0x2D],
      [CHR 0xE3, CHR 0x83, CHR 0xBC], [CHR 0x5F], [CHR 0xE3, CHR 0x80, CHR 0x9C], [CHR 0x7E]]"
  by code_simp

definition normalizeForMatch :: "gostring \<Rightarrow> gostring" where
  "normalizeForMatch s = strip_runes match_dropped (to_lower s)"

definition truncateRunes :: "gostring \<Rightarrow> nat \<Rightarrow> gostring" where
  "truncateRunes s limit = take_runes limit s"

section \<open>Roles of agenda entries\<close>

definition agendaRolePrimary :: gostring where "agendaRolePrimary = ''primary''"
definition agendaRoleActionSummary :: gostring where "agendaRoleActionSummary = ''action_summary''"
definition virtualActionSummaryProjectionID :: gostring where
  "virtualActionSummaryProjectionID = ''action-summary-fallback''"
definition agendaIDPrefix :: gostring where "agendaIDPrefix = ''agenda-''"
definition treeRootNodeID :: gostring where "treeRootNodeID = ''root''"

definition normalizeAgendaRole :: "gostring \<Rightarrow> gostring" where
  "normalizeAgendaRole role =
     (if to_lower (trim_space role) = agendaRoleActionSummary then agendaRoleActionSummary
      else agendaRolePrimary)"

definition actionSummaryAgendaTitles :: "gostring list" where
  "actionSummaryAgendaTitles = map jp
     [[0x4ECA, 0x5F8C, 0x306E, 0x5BFE, 0x5FDC, 0x4E8B, 0x9805],
      [0x5BFE, 0x5FDC, 0x4E8B, 0x9805],
      [0x30A2, 0x30AF, 0x30B7, 0x30E7, 0x30F3, 0x30A2, 0x30A4, 0x30C6, 0x30E0],
      [0x6B21, 0x306E, 0x30A2, 0x30AF, 0x30B7, 0x30E7, 0x30F3],
      [0x4ECA, 0x5F8C, 0x306E, 0x4E88, 0x5B9A],
      [0x62C5, 0x5F53, 0x671F, 0x9650],
      [0x30D5, 0x30A9, 0x30ED, 0x30FC, 0x30A2, 0x30C3, 0x30D7]]"

definition substantiveAgendaTitles :: "gostring list" where
  "substantiveAgendaTitles = map jp
     [[0x5B9F, 0x65BD, 0x4F53, 0x5236],
      [0x62C5, 0x5F53, 0x8005, 0x306E, 0x9078, 0x5B9A],
      [0x62C5, 0x5F53, 0x8005, 0x9078, 0x5B9A],
      [0x30B9, 0x30B1, 0x30B8, 0x30E5, 0x30FC, 0x30EB, 0x8ABF, 0x6574]]"

definition inferAgendaRole :: "gostring \<Rightarrow> gostring \<Rightarrow> gostring" where
  "inferAgendaRole title description =
     (let k = normalizeForMatch (title @ '' '' @ description) in
      if k = [] then agendaRolePrimary
      else if list_ex (\<lambda>s. contains k (normalizeForMatch s)) substantiveAgendaTitles then agendaRolePrimary
      else if list_ex (\<lambda>c. let ck = normalizeForMatch c in k = ck \<or> has_prefix k ck \<or> has_suffix k ck)
                actionSummaryAgendaTitles then agendaRoleActionSummary
      else agendaRolePrimary)"

definition effectiveAgendaRole :: "gostring \<Rightarrow> gostring \<Rightarrow> gostring \<Rightarrow> gostring" where
  "effectiveAgendaRole role title description =
     (if normalizeAgendaRole role = agendaRoleActionSummary \<or>
         inferAgendaRole title description = agendaRoleActionSummary
      then agendaRoleActionSummary else agendaRolePrimary)"

section \<open>The context\<close>

record agendaItem =
  ag_ID :: gostring
  ag_Title :: gostring
  ag_Description :: gostring
  ag_Goal :: gostring
  ag_SemanticHints :: "gostring list"
  ag_Order :: int
  ag_Role :: gostring

record meetingContext =
  mc_Title :: gostring
  mc_Purpose :: gostring
  mc_Background :: gostring
  mc_Agenda :: "agendaItem list"
  mc_Directives :: "gostring list"
  mc_DecisionPoints :: gostring
  mc_Concerns :: gostring
  mc_ExpectedOutput :: gostring

record meetingSessionPreContext =
  pc_Title :: gostring
  pc_Purpose :: gostring
  pc_Context :: gostring
  pc_Agenda :: gostring
  pc_DecisionPoints :: gostring
  pc_Concerns :: gostring
  pc_ExpectedOutput :: gostring
  pc_CustomInstruction :: gostring

definition is_action_agenda :: "agendaItem \<Rightarrow> bool" where
  "is_action_agenda a \<longleftrightarrow> effectiveAgendaRole (ag_Role a) (ag_Title a) [] = agendaRoleActionSummary"

definition agenda_of :: "meetingContext option \<Rightarrow> agendaItem list" where
  "agenda_of c = (case c of None \<Rightarrow> [] | Some mc \<Rightarrow> mc_Agenda mc)"

definition actionSummaryAgendaIDs :: "meetingContext option \<Rightarrow> gostring list" where
  "actionSummaryAgendaIDs c = map ag_ID (filter is_action_agenda (agenda_of c))"

definition logicalActionSummaryAgendaID :: "meetingContext option \<Rightarrow> gostring" where
  "logicalActionSummaryAgendaID c =
     (case find is_action_agenda (agenda_of c) of None \<Rightarrow> [] | Some a \<Rightarrow> ag_ID a)"

definition actionSummaryProjectionID :: "meetingContext option \<Rightarrow> gostring" where
  "actionSummaryProjectionID c =
     (if c = None then []
      else if logicalActionSummaryAgendaID c \<noteq> [] then logicalActionSummaryAgendaID c
      else virtualActionSummaryProjectionID)"

definition context_isEmpty :: "meetingContext \<Rightarrow> bool" where
  "context_isEmpty c \<longleftrightarrow>
     mc_Title c = [] \<and> mc_Purpose c = [] \<and> mc_Background c = [] \<and> mc_Agenda c = [] \<and>
     mc_Directives c = [] \<and> mc_DecisionPoints c = [] \<and> mc_Concerns c = [] \<and> mc_ExpectedOutput c = []"

definition whole_meeting_label :: gostring where
  "whole_meeting_label = jp [0x4F1A, 0x8B70, 0x5168, 0x4F53]"

definition rootLabel :: "meetingContext option \<Rightarrow> gostring" where
  "rootLabel c =
     (case c of None \<Rightarrow> whole_meeting_label
      | Some mc \<Rightarrow> if trim_space (mc_Title mc) \<noteq> [] then truncateRunes (trim_space (mc_Title mc)) 20
                   else whole_meeting_label)"

definition rootDescription :: "meetingContext option \<Rightarrow> gostring" where
  "rootDescription c =
     (case c of None \<Rightarrow> [] | Some mc \<Rightarrow> truncateRunes (trim_space (mc_Purpose mc)) 100)"

text \<open>\<open>agendaRecordMap\<close>: the last entry of a non-blank id wins.\<close>

definition agendaRecordMap :: "meetingContext option \<Rightarrow> gostring \<Rightarrow> agendaItem option" where
  "agendaRecordMap c i = find (\<lambda>a. ag_ID a = i \<and> trim_space (ag_ID a) \<noteq> []) (rev (agenda_of c))"

section \<open>From the session to the context\<close>

definition pre_isEmpty :: "meetingSessionPreContext \<Rightarrow> bool" where
  "pre_isEmpty c \<longleftrightarrow>
     pc_Title c = [] \<and> pc_Purpose c = [] \<and> pc_Context c = [] \<and> pc_Agenda c = [] \<and>
     pc_DecisionPoints c = [] \<and> pc_Concerns c = [] \<and> pc_ExpectedOutput c = [] \<and>
     pc_CustomInstruction c = []"

definition preContextFromSession :: "MeetingSession option \<Rightarrow> meetingSessionPreContext option" where
  "preContextFromSession session =
     (case session of
        None \<Rightarrow> None
      | Some s \<Rightarrow>
          (let pre = \<lparr>pc_Title = trim_space (ms_Title s), pc_Purpose = trim_space (ms_Purpose s),
                 pc_Context = trim_space (ms_Context s), pc_Agenda = trim_space (ms_Agenda s),
                 pc_DecisionPoints = trim_space (ms_DecisionPoints s), pc_Concerns = trim_space (ms_Concerns s),
                 pc_ExpectedOutput = trim_space (ms_ExpectedOutput s),
                 pc_CustomInstruction = trim_space (ms_CustomInstruction s)\<rparr> in
           if pre_isEmpty pre then None else Some pre))"

definition prefixNonEmpty :: "gostring \<Rightarrow> gostring \<Rightarrow> gostring" where
  "prefixNonEmpty p v = (if trim_space v \<noteq> [] then p @ trim_space v else [])"

definition joinNonEmpty :: "gostring \<Rightarrow> gostring list \<Rightarrow> gostring" where
  "joinNonEmpty sep vs = join sep (filter (\<lambda>v. v \<noteq> []) (map trim_space vs))"

text \<open>
  \<open>agendaLinePrefixPattern\<close>: white space, then a bullet, a circled number, or one or two digits (maybe
  after an opening bracket) with a delimiter, then white space.  White space is \<open>\s\<close> and the Unicode
  class \<open>Zs\<close>.
\<close>

definition line_spaces :: "gostring list" where
  "line_spaces = map utf8 [0x09, 0x0A, 0x0C, 0x0D, 0x20, 0xA0, 0x1680] @ code_range 0x2000 0x200A @
     map utf8 [0x202F, 0x205F, 0x3000]"

definition line_bullets :: "gostring list" where
  "line_bullets = map utf8 [0x2D, 0x2A, 0x30FB, 0x25CF, 0x25CB, 0x25A0, 0x25A1, 0x25AA, 0x25E6, 0x3E] @
     code_range 0x2460 0x246E"

definition line_brackets :: "gostring list" where "line_brackets = map utf8 [0x28, 0xFF08]"

definition line_digits :: "gostring list" where
  "line_digits = code_range 0x30 0x39 @ code_range 0xFF10 0xFF19"

definition line_delimiters :: "gostring list" where
  "line_delimiters = map utf8 [0x29, 0xFF09, 0x2E, 0xFF0E, 0x3001, 0x3A, 0xFF1A]"

definition drop_optional :: "gostring list \<Rightarrow> gostring \<Rightarrow> gostring" where
  "drop_optional ps s = (case drop_any ps s of None \<Rightarrow> s | Some t \<Rightarrow> t)"

definition strip_line_prefix :: "gostring \<Rightarrow> gostring" where
  "strip_line_prefix line =
     (let s = trim_start line_spaces line in
      case drop_any line_bullets s of
        Some t \<Rightarrow> trim_start line_spaces t
      | None \<Rightarrow>
          (case drop_any line_digits (drop_optional line_brackets s) of
             None \<Rightarrow> line
           | Some t \<Rightarrow>
               (case drop_any line_delimiters (drop_optional line_digits t) of
                  None \<Rightarrow> line
                | Some u \<Rightarrow> trim_start line_spaces u)))"

definition agenda_entry :: "gostring \<Rightarrow> nat \<Rightarrow> agendaItem" where
  "agenda_entry title order =
     \<lparr>ag_ID = agendaIDPrefix @ show_nat order, ag_Title = truncateRunes title 20, ag_Description = [],
      ag_Goal = [], ag_SemanticHints = [], ag_Order = int order, ag_Role = inferAgendaRole title []\<rparr>"

fun agenda_lines :: "gostring list \<Rightarrow> gostring list \<Rightarrow> agendaItem list \<Rightarrow> agendaItem list" where
  "agenda_lines [] seen items = items"
| "agenda_lines (line # rest) seen items =
     (let title = trim_space (strip_line_prefix line); k = normalizeForMatch title in
      if title = [] \<or> k \<in> set seen then agenda_lines rest seen items
      else (let items' = items @ [agenda_entry title (Suc (length items))] in
            if 10 \<le> length items' then items' else agenda_lines rest (k # seen) items'))"

definition newline :: char where "newline = CHR 0x0A"

definition parseAgendaItems :: "gostring \<Rightarrow> agendaItem list" where
  "parseAgendaItems agenda = agenda_lines (split_on newline agenda) [] []"

definition parseDirectives :: "gostring \<Rightarrow> gostring list" where
  "parseDirectives instruction =
     take 10 (filter (\<lambda>t. t \<noteq> [])
       (map (\<lambda>line. trim_space (strip_line_prefix line)) (split_on newline instruction)))"

definition expected_outcome_label :: gostring where
  "expected_outcome_label = jp [0x671F, 0x5F85, 0x3055, 0x308C, 0x308B, 0x6210, 0x679C, 0x3A, 0x20]"

definition buildMeetingContext :: "meetingSessionPreContext option \<Rightarrow> meetingContext option" where
  "buildMeetingContext pre =
     (case pre of
        None \<Rightarrow> None
      | Some p \<Rightarrow>
          (let c = \<lparr>mc_Title = pc_Title p,
                 mc_Purpose = joinNonEmpty '' / '' [pc_Purpose p, prefixNonEmpty expected_outcome_label (pc_ExpectedOutput p)],
                 mc_Background = pc_Context p, mc_Agenda = parseAgendaItems (pc_Agenda p),
                 mc_Directives = parseDirectives (pc_CustomInstruction p),
                 mc_DecisionPoints = pc_DecisionPoints p, mc_Concerns = pc_Concerns p,
                 mc_ExpectedOutput = pc_ExpectedOutput p\<rparr> in
           if context_isEmpty c then None else Some c))"

section \<open>Reconciliation and storage\<close>

definition or_blank :: "gostring \<Rightarrow> gostring \<Rightarrow> gostring" where
  "or_blank v fallback = (if trim_space v = [] then fallback else v)"

definition reconciled_item :: "agendaItem list \<Rightarrow> nat \<Rightarrow> agendaItem \<Rightarrow> agendaItem" where
  "reconciled_item planned i source =
     (let item = (if i < length planned then planned ! i else source);
          title = or_blank (ag_Title item) (ag_Title source) in
      \<lparr>ag_ID = ag_ID source, ag_Title = title,
       ag_Description = or_blank (ag_Description item) (ag_Description source),
       ag_Goal = or_blank (ag_Goal item) (ag_Goal source),
       ag_SemanticHints = (if ag_SemanticHints item = [] then ag_SemanticHints source else ag_SemanticHints item),
       ag_Order = int i + 1, ag_Role = effectiveAgendaRole (ag_Role item) title []\<rparr>)"

definition reconcileMeetingContextWithFallback ::
    "meetingContext option \<Rightarrow> meetingContext option \<Rightarrow> meetingContext option" where
  "reconcileMeetingContextWithFallback planned fallback =
     (case (planned, fallback) of
        (None, _) \<Rightarrow> fallback
      | (Some p, None) \<Rightarrow> Some p
      | (Some p, Some f) \<Rightarrow>
          if mc_Agenda f = [] then Some p
          else Some (p\<lparr>mc_Agenda := map2 (reconciled_item (mc_Agenda p)) [0..<length (mc_Agenda f)] (mc_Agenda f)\<rparr>))"

definition restored_item :: "nat \<Rightarrow> agendaItem \<Rightarrow> agendaItem" where
  "restored_item i a =
     a\<lparr>ag_ID := (if trim_space (ag_ID a) = [] then agendaIDPrefix @ show_nat (Suc i) else ag_ID a),
       ag_Role := effectiveAgendaRole (ag_Role a) (ag_Title a) []\<rparr>"

definition unmarshalMeetingContext ::
    "(gostring \<Rightarrow> meetingContext option) \<Rightarrow> gostring \<Rightarrow> meetingContext option" where
  "unmarshalMeetingContext decode payload =
     (if payload = [] then None
      else (case decode payload of
          None \<Rightarrow> None
        | Some c0 \<Rightarrow>
            (let c = c0\<lparr>mc_Agenda := map2 restored_item [0..<length (mc_Agenda c0)] (mc_Agenda c0)\<rparr> in
             if context_isEmpty c then None else Some c)))"

end
