(* ===== verification/TreeIntegrity.thy ===== *)
theory TreeIntegrity
  imports MeetingContext "HOL-Library.List_Lexorder" "HOL-Library.Char_ord" Complex_Main
begin

text \<open>
  The integrity check of a discussion tree, \<open>ai_tree_integrity.go\<close> of package
  \<open>internal/application\<close>, on the tree types of \<open>ai_analysis.go\<close> and the agenda anchors of
  \<open>ai_agenda_anchor.go\<close>.

  A Go map is the list of its entries in the order of insertion: the code ranges over maps in an
  unspecified order and sorts every list it reports, so the order does not show.  Confidences are
  rationals.  Of an item only its id and kind are read, of the merge statistics only the counters
  written here are kept.
\<close>

section \<open>Trees\<close>

record resolutionMetadata =
  rm_Status :: gostring
  rm_Reason :: gostring
  rm_SourceEvidenceSequenceNos :: "int list"

record liveAnalysisTreeNode =
  tn_ID :: gostring
  tn_Kind :: gostring
  tn_Subtype :: gostring
  tn_ParentID :: gostring
  tn_Label :: gostring
  tn_Status :: gostring
  tn_Description :: gostring
  tn_RelatedItemIDs :: "gostring list"
  tn_LabelResolution :: "resolutionMetadata option"
  tn_DescriptionResolution :: "resolutionMetadata option"
  tn_ModelTopicIDs :: "gostring list"
  tn_SourceCandidateID :: gostring
  tn_Origin :: gostring
  tn_AgendaRole :: gostring
  tn_AgendaRefs :: "gostring list"
  tn_MergedFromNodeIDs :: "gostring list"
  tn_AgendaSplitGroupID :: gostring
  tn_Materialized :: bool
  tn_CreatedAtVersion :: int
  tn_UpdatedAtVersion :: int
  tn_UnderfilledSinceVersion :: int
  tn_LastParentChangeSource :: gostring
  tn_LastParentChangeVersion :: int
  tn_ParentConfidence :: rat

record liveAnalysisTreeEdge =
  te_Source :: gostring
  te_Target :: gostring

record liveAnalysisTreeRelation =
  rl_ID :: gostring
  rl_Source :: gostring
  rl_Target :: gostring
  rl_Kind :: gostring
  rl_Confidence :: rat
  rl_EvidenceSequenceNos :: "int list"
  rl_Origin :: gostring
  rl_Status :: gostring
  rl_CreatedAtVersion :: int
  rl_UpdatedAtVersion :: int

record liveAnalysisTree =
  tr_Nodes :: "liveAnalysisTreeNode list"
  tr_Edges :: "liveAnalysisTreeEdge list"
  tr_Relations :: "liveAnalysisTreeRelation list"

record liveAnalysisItem =
  it_ID :: gostring
  it_Kind :: gostring

record agendaStatusTransition =
  at_From :: gostring
  at_To :: gostring
  at_TreeVersion :: int
  at_Reason :: gostring

record agendaAnchor =
  an_AgendaID :: gostring
  an_OriginalTitle :: gostring
  an_NormalizedSubject :: gostring
  an_Order :: int
  an_Role :: gostring
  an_Status :: gostring
  an_MaterializedTopicIDs :: "gostring list"
  an_StatusHistory :: "agendaStatusTransition list"

definition treeHardMaxDepth :: nat where "treeHardMaxDepth = 5"
definition topicOriginSystem :: gostring where "topicOriginSystem = ''system''"
definition topicOriginMixed :: gostring where "topicOriginMixed = ''mixed''"
definition agendaStatusNotDiscussed :: gostring where "agendaStatusNotDiscussed = ''not_discussed''"

definition reservedItemIDPrefixes :: "gostring list" where
  "reservedItemIDPrefixes =
     [''agenda-'', ''topic-'', ''group-'', ''reference-'', ''candidate-'', ''action-summary-'']"

definition reservedItemID :: "gostring \<Rightarrow> bool" where
  "reservedItemID id0 \<longleftrightarrow>
     (let i = to_lower (trim_space id0) in
      i \<noteq> [] \<and> (i = treeRootNodeID \<or> list_ex (has_prefix i) reservedItemIDPrefixes))"

definition validLiveAnalysisTreeNodeKind :: "gostring \<Rightarrow> bool" where
  "validLiveAnalysisTreeNodeKind k \<longleftrightarrow>
     k \<in> set [''topic'', ''group'', ''issue'', ''risk'', ''fact'', ''decision'', ''todo'']"

definition uniqueNonEmptyIDs :: "gostring list \<Rightarrow> gostring list" where
  "uniqueNonEmptyIDs vs = rev (remdups (rev (filter (\<lambda>v. v \<noteq> []) (map trim_space vs))))"

definition sorted_ids :: "gostring list \<Rightarrow> gostring list" where
  "sorted_ids vs = sort (uniqueNonEmptyIDs vs)"

text \<open>\<open>normalizedAgendaRefs\<close> with the records of a context.\<close>

definition topicAgendaRefs :: "meetingContext option \<Rightarrow> liveAnalysisTreeNode \<Rightarrow> gostring list" where
  "topicAgendaRefs c n =
     sort (rev (remdups (rev (filter (\<lambda>r. r \<noteq> [] \<and> agendaRecordMap c r \<noteq> None)
       (map trim_space (tn_AgendaRefs n))))))"

section \<open>Agenda records and anchors\<close>

definition primary_agenda_ids :: "meetingContext option \<Rightarrow> gostring list" where
  "primary_agenda_ids c = remdups (map ag_ID (filter (\<lambda>a. \<not> is_action_agenda a) (agenda_of c)))"

definition action_agenda_ids :: "meetingContext option \<Rightarrow> gostring list" where
  "action_agenda_ids c = remdups (map ag_ID (filter is_action_agenda (agenda_of c)))"

definition agenda_record_ids :: "meetingContext option \<Rightarrow> gostring list" where
  "agenda_record_ids c = remdups (filter (\<lambda>i. trim_space i \<noteq> []) (map ag_ID (agenda_of c)))"

record anchor_check =
  ac_preserved :: nat
  ac_mutated :: "gostring list"
  ac_duplicate :: "gostring list"
  ac_topics :: "(gostring \<times> gostring list) list"

fun check_anchors :: "meetingContext option \<Rightarrow> agendaAnchor list \<Rightarrow> anchor_check \<Rightarrow> anchor_check" where
  "check_anchors c [] s = s"
| "check_anchors c (a # rest) s =
     (case agendaRecordMap c (an_AgendaID a) of
        None \<Rightarrow> check_anchors c rest (s\<lparr>ac_mutated := ac_mutated s @ [an_AgendaID a]\<rparr>)
      | Some r \<Rightarrow>
          if an_AgendaID a \<in> set (map fst (ac_topics s))
          then check_anchors c rest (s\<lparr>ac_duplicate := ac_duplicate s @ [an_AgendaID a]\<rparr>)
          else
            (let s1 = s\<lparr>ac_topics := ac_topics s @
                   [(an_AgendaID a, filter (\<lambda>t. t \<noteq> []) (map trim_space (an_MaterializedTopicIDs a)))]\<rparr> in
             if an_OriginalTitle a \<noteq> ag_Title r \<or> an_Order a \<noteq> ag_Order r \<or>
                effectiveAgendaRole (an_Role a) (an_OriginalTitle a) [] \<noteq>
                  effectiveAgendaRole (ag_Role r) (ag_Title r) []
             then check_anchors c rest (s1\<lparr>ac_mutated := ac_mutated s1 @ [an_AgendaID a]\<rparr>)
             else check_anchors c rest (s1\<lparr>ac_preserved := Suc (ac_preserved s1)\<rparr>)))"

section \<open>Nodes by id\<close>

type_synonym node_table = "(gostring \<times> liveAnalysisTreeNode) list"

text \<open>The first node of each trimmed id, and the ids of the later ones with whether the kind differs.\<close>

fun index_nodes :: "node_table \<Rightarrow> liveAnalysisTreeNode list \<Rightarrow> node_table" where
  "index_nodes tbl [] = tbl"
| "index_nodes tbl (n # ns) =
     (if trim_space (tn_ID n) \<in> set (map fst tbl) then index_nodes tbl ns
      else index_nodes (tbl @ [(trim_space (tn_ID n), n)]) ns)"

fun later_nodes :: "node_table \<Rightarrow> liveAnalysisTreeNode list \<Rightarrow> (gostring \<times> bool) list" where
  "later_nodes tbl [] = []"
| "later_nodes tbl (n # ns) =
     (let i = trim_space (tn_ID n) in
      case map_of tbl i of
        None \<Rightarrow> later_nodes (tbl @ [(i, n)]) ns
      | Some first \<Rightarrow> (i, tn_Kind first \<noteq> tn_Kind n) # later_nodes tbl ns)"

fun index_items :: "(gostring \<times> gostring) list \<Rightarrow> liveAnalysisItem list \<Rightarrow> (gostring \<times> gostring) list" where
  "index_items tbl [] = tbl"
| "index_items tbl (x # xs) =
     (let i = trim_space (it_ID x) in
      if i = [] \<or> i \<in> set (map fst tbl) then index_items tbl xs
      else index_items (tbl @ [(i, it_Kind x)]) xs)"

fun later_items :: "gostring list \<Rightarrow> liveAnalysisItem list \<Rightarrow> gostring list" where
  "later_items seen [] = []"
| "later_items seen (x # xs) =
     (let i = trim_space (it_ID x) in
      if i = [] then later_items seen xs
      else if i \<in> set seen then i # later_items seen xs else later_items (i # seen) xs)"

definition reserved_items :: "liveAnalysisItem list \<Rightarrow> gostring list" where
  "reserved_items items = filter reservedItemID (map (\<lambda>x. trim_space (it_ID x)) items)"

definition is_topic :: "liveAnalysisTreeNode \<Rightarrow> bool" where "is_topic n \<longleftrightarrow> tn_Kind n = ''topic''"
definition is_group :: "liveAnalysisTreeNode \<Rightarrow> bool" where "is_group n \<longleftrightarrow> tn_Kind n = ''group''"

definition children_count :: "node_table \<Rightarrow> gostring \<Rightarrow> nat" where
  "children_count nodes i = length (filter (\<lambda>(j, n). j \<noteq> treeRootNodeID \<and> tn_ParentID n = i) nodes)"

definition ids_where :: "(gostring \<Rightarrow> liveAnalysisTreeNode \<Rightarrow> bool) \<Rightarrow> node_table \<Rightarrow> gostring list" where
  "ids_where p nodes = map fst (filter (\<lambda>(i, n). p i n) nodes)"

section \<open>Namespace and references\<close>

definition namespace_collision :: "meetingContext option \<Rightarrow> gostring \<Rightarrow> bool" where
  "namespace_collision c i \<longleftrightarrow> agendaRecordMap c i \<noteq> None \<or> has_prefix (to_lower i) agendaIDPrefix"

text \<open>The references of a node, trimmed, and what is wrong with them.\<close>

definition node_refs :: "liveAnalysisTreeNode \<Rightarrow> gostring list" where
  "node_refs n = map trim_space (tn_AgendaRefs n)"

definition action_nodes :: "meetingContext option \<Rightarrow> node_table \<Rightarrow> gostring list" where
  "action_nodes c nodes = ids_where (\<lambda>i n. i \<in> set (action_agenda_ids c) \<or>
     list_ex (\<lambda>r. r \<notin> set (primary_agenda_ids c) \<and> r \<in> set (action_agenda_ids c)) (node_refs n)) nodes"

definition unknown_refs :: "meetingContext option \<Rightarrow> node_table \<Rightarrow> gostring list" where
  "unknown_refs c nodes = concat (map (\<lambda>(i, n).
     filter (\<lambda>r. r \<notin> set (primary_agenda_ids c) \<and> r \<notin> set (action_agenda_ids c)) (node_refs n)) nodes)"

definition colon :: gostring where "colon = '':''"

definition orphan_refs :: "meetingContext option \<Rightarrow> node_table \<Rightarrow> gostring list" where
  "orphan_refs c nodes = concat (map (\<lambda>(i, n).
     if is_topic n then []
     else map (\<lambda>r. i @ colon @ r) (filter (\<lambda>r. r \<in> set (primary_agenda_ids c)) (node_refs n))) nodes)"

definition agenda_topics :: "meetingContext option \<Rightarrow> node_table \<Rightarrow> gostring \<Rightarrow> gostring list" where
  "agenda_topics c nodes r =
     (if r \<in> set (primary_agenda_ids c)
      then uniqueNonEmptyIDs (ids_where (\<lambda>i n. is_topic n \<and> r \<in> set (node_refs n)) nodes) else [])"

definition orphan_topics :: "node_table \<Rightarrow> (gostring \<times> gostring list) list \<Rightarrow> gostring list" where
  "orphan_topics nodes topics = concat (map (\<lambda>(a, ts).
     filter (\<lambda>t. case map_of nodes t of None \<Rightarrow> True | Some n \<Rightarrow> \<not> is_topic n) ts) topics)"

definition materialization_mismatches ::
    "meetingContext option \<Rightarrow> node_table \<Rightarrow> (gostring \<times> gostring list) list \<Rightarrow> gostring list" where
  "materialization_mismatches c nodes topics =
     concat (map (\<lambda>(a, ts). map (\<lambda>t. a @ colon @ t)
       (filter (\<lambda>t. case map_of nodes t of None \<Rightarrow> False
                     | Some n \<Rightarrow> is_topic n \<and> a \<notin> set (topicAgendaRefs c n)) ts)) topics) @
     concat (map (\<lambda>a. map (\<lambda>t. a @ colon @ t)
       (filter (\<lambda>t. case map_of topics a of None \<Rightarrow> True | Some ts \<Rightarrow> t \<notin> set ts) (agenda_topics c nodes a)))
       (primary_agenda_ids c))"

definition item_collisions :: "(gostring \<times> gostring) list \<Rightarrow> node_table \<Rightarrow> gostring list" where
  "item_collisions items nodes = concat (map (\<lambda>(i, kind).
     (case map_of nodes i of
        None \<Rightarrow> []
      | Some n \<Rightarrow> if is_topic n \<or> is_group n \<or> tn_ID n = treeRootNodeID
                  then [i @ colon @ kind @ ''/'' @ tn_Kind n] else [])) items)"

definition nodes_at :: "node_table \<Rightarrow> gostring list \<Rightarrow> liveAnalysisTreeNode list" where
  "nodes_at nodes ids = concat (map (\<lambda>i. case map_of nodes i of None \<Rightarrow> [] | Some n \<Rightarrow> [n]) ids)"

definition intentional_split :: "liveAnalysisTreeNode list \<Rightarrow> bool" where
  "intentional_split ns \<longleftrightarrow>
     (let gs = map (\<lambda>n. trim_space (tn_AgendaSplitGroupID n)) ns in list_all (\<lambda>g. g \<noteq> [] \<and> g = hd gs) gs)"

definition split_agendas :: "meetingContext option \<Rightarrow> node_table \<Rightarrow> gostring list" where
  "split_agendas c nodes = filter (\<lambda>a. let ts = agenda_topics c nodes a in
     1 < length ts \<and> \<not> intentional_split (nodes_at nodes ts)) (primary_agenda_ids c)"

definition merged_topic :: "liveAnalysisTreeNode \<Rightarrow> bool" where
  "merged_topic n \<longleftrightarrow> tn_Origin n = topicOriginMixed \<or> 1 < length (tn_AgendaRefs n) \<or> tn_MergedFromNodeIDs n \<noteq> []"

section \<open>The shape\<close>

text \<open>The complaints about the parent of a node, in the order of the code's early \<open>continue\<close>s.\<close>

definition self_parent :: "gostring \<Rightarrow> liveAnalysisTreeNode \<Rightarrow> bool" where
  "self_parent i n \<longleftrightarrow> i \<noteq> treeRootNodeID \<and> tn_ParentID n = i"

definition orphan :: "node_table \<Rightarrow> gostring \<Rightarrow> liveAnalysisTreeNode \<Rightarrow> bool" where
  "orphan nodes i n \<longleftrightarrow> i \<noteq> treeRootNodeID \<and> tn_ParentID n \<noteq> i \<and>
     (map_of nodes (tn_ParentID n) = None \<or> tn_ParentID n = [])"

definition bad_parent_kind :: "node_table \<Rightarrow> gostring \<Rightarrow> liveAnalysisTreeNode \<Rightarrow> bool" where
  "bad_parent_kind nodes i n \<longleftrightarrow>
     (if i = treeRootNodeID then tn_ParentID n \<noteq> [] \<or> \<not> is_topic n
      else tn_ParentID n \<noteq> i \<and> tn_ParentID n \<noteq> [] \<and>
        (case map_of nodes (tn_ParentID n) of
           None \<Rightarrow> False
         | Some p \<Rightarrow> if is_topic n then \<not> is_topic p else \<not> is_topic p \<and> \<not> is_group p))"

definition root_detail :: "node_table \<Rightarrow> gostring \<Rightarrow> liveAnalysisTreeNode \<Rightarrow> bool" where
  "root_detail nodes i n \<longleftrightarrow> i \<noteq> treeRootNodeID \<and> tn_ParentID n = treeRootNodeID \<and>
     map_of nodes treeRootNodeID \<noteq> None \<and> \<not> is_topic n \<and> \<not> is_group n"

text \<open>The walk up the parents: whether it came back to a node, and the nodes it saw.\<close>

function walk_up :: "node_table \<Rightarrow> gostring list \<Rightarrow> gostring \<Rightarrow> bool \<times> gostring list" where
  "walk_up nodes seen cur =
     (if cur = [] \<or> cur = treeRootNodeID then (False, seen)
      else if cur \<in> set seen then (True, seen)
      else (case map_of nodes cur of
          None \<Rightarrow> (False, cur # seen)
        | Some n \<Rightarrow> walk_up nodes (cur # seen) (tn_ParentID n)))"
  by auto
termination
proof (relation "measure (\<lambda>(nodes, seen, cur). card (fst ` set nodes - set seen))", goal_cases)
  case (2 nodes seen cur n)
  then have "cur \<in> fst ` set nodes" by (metis map_of_eq_None_iff option.distinct(1))
  then have "fst ` set nodes - set (cur # seen) \<subset> fst ` set nodes - set seen" using 2(2) by auto
  then show ?case by (simp add: psubset_card_mono)
qed simp

declare walk_up.simps [simp del]

definition expected_edges :: "node_table \<Rightarrow> gostring list" where
  "expected_edges nodes = map (\<lambda>(i, n). tn_ParentID n @ [CHR 0x00] @ i)
     (filter (\<lambda>(i, n). i \<noteq> treeRootNodeID \<and> tn_ParentID n \<noteq> []) nodes)"

definition edge_key :: "liveAnalysisTreeEdge \<Rightarrow> gostring" where
  "edge_key e = trim_space (te_Source e) @ [CHR 0x00] @ trim_space (te_Target e)"

definition edge_parent_mismatch :: "node_table \<Rightarrow> liveAnalysisTreeEdge list \<Rightarrow> bool" where
  "edge_parent_mismatch nodes edges \<longleftrightarrow>
     list_ex (\<lambda>e. edge_key e \<notin> set (expected_edges nodes)) edges \<or>
     \<not> distinct (map te_Target edges) \<or>
     length (remdups (map te_Target edges)) \<noteq> length (remdups (expected_edges nodes))"

definition legacy_edge_ids :: "liveAnalysisTreeEdge list \<Rightarrow> gostring list" where
  "legacy_edge_ids edges = filter (\<lambda>i. has_prefix (to_lower i) agendaIDPrefix)
     (concat (map (\<lambda>e. [trim_space (te_Source e), trim_space (te_Target e)]) edges))"

section \<open>Diagnostics\<close>

record treeIntegrityDiagnostics =
  td_Valid :: bool
  td_DuplicateNodeIDs :: "gostring list"
  td_CrossKindIDCollisions :: "gostring list"
  td_ReservedItemIDs :: "gostring list"
  td_DuplicateItemIDs :: "gostring list"
  td_SelfParentNodeIDs :: "gostring list"
  td_OrphanNodeIDs :: "gostring list"
  td_CycleNodeIDs :: "gostring list"
  td_InvalidParentKindNodeIDs :: "gostring list"
  td_RootDirectDetailNodeIDs :: "gostring list"
  td_MissingFixedAgendaIDs :: "gostring list"
  td_MovedFixedAgendaIDs :: "gostring list"
  td_FixedAgendaKindMismatchIDs :: "gostring list"
  td_RenamedFixedAgendaIDs :: "gostring list"
  td_ActionSummaryTreeNodeIDs :: "gostring list"
  td_InvalidKindNodeIDs :: "gostring list"
  td_EmptyGroupNodeIDs :: "gostring list"
  td_SingleChildGroupNodeIDs :: "gostring list"
  td_HardDepthNodeIDs :: "gostring list"
  td_ExpectedFixedAgendaCount :: nat
  td_ActualFixedAgendaCount :: nat
  td_RootCount :: nat
  td_EdgeCountMismatch :: bool
  td_EdgeParentMismatch :: bool
  td_AgendaRecordCount :: nat
  td_AgendaRecordsPreserved :: nat
  td_AgendaRecordIntegrityValid :: bool
  td_MissingAgendaRecordIDs :: "gostring list"
  td_DuplicateAgendaRecordIDs :: "gostring list"
  td_MutatedAgendaRecordIDs :: "gostring list"
  td_PlannedAgendaCount :: nat
  td_MaterializedAgendaCount :: nat
  td_DiscussedAgendaCount :: nat
  td_MergedAgendaCount :: nat
  td_NotDiscussedAgendaCount :: nat
  td_AgendaReferenceIntegrityValid :: bool
  td_AgendaNodeIDNamespaceValid :: bool
  td_AgendaTopicIDCollisions :: "gostring list"
  td_UnknownAgendaRefs :: "gostring list"
  td_OrphanAgendaRefs :: "gostring list"
  td_OrphanMaterializedTopicIDs :: "gostring list"
  td_AgendaMaterializationMismatches :: "gostring list"
  td_LegacyAgendaEdgeNodeIDs :: "gostring list"
  td_DuplicateAgendaMaterializations :: "gostring list"
  td_EmptyAgendaTopicIDs :: "gostring list"

text \<open>What is known before the tree is looked at: the agenda records, the anchors and the items.\<close>

definition record_diagnostics ::
    "liveAnalysisItem list \<Rightarrow> meetingContext option \<Rightarrow> agendaAnchor list option \<Rightarrow> treeIntegrityDiagnostics" where
  "record_diagnostics items c anchors =
     (let records = length (primary_agenda_ids c) + length (action_agenda_ids c);
          checked = (case anchors of None \<Rightarrow> \<lparr>ac_preserved = records, ac_mutated = [], ac_duplicate = [], ac_topics = []\<rparr>
            | Some as \<Rightarrow> check_anchors c as \<lparr>ac_preserved = 0, ac_mutated = [], ac_duplicate = [], ac_topics = []\<rparr>);
          missing = (case anchors of None \<Rightarrow> []
            | Some as \<Rightarrow> filter (\<lambda>i. i \<notin> set (map fst (ac_topics checked))) (agenda_record_ids c)) in
      \<lparr>td_Valid = False, td_DuplicateNodeIDs = [], td_CrossKindIDCollisions = [],
       td_ReservedItemIDs = sorted_ids (reserved_items items),
       td_DuplicateItemIDs = sorted_ids (later_items [] items), td_SelfParentNodeIDs = [],
       td_OrphanNodeIDs = [], td_CycleNodeIDs = [], td_InvalidParentKindNodeIDs = [],
       td_RootDirectDetailNodeIDs = [], td_MissingFixedAgendaIDs = [], td_MovedFixedAgendaIDs = [],
       td_FixedAgendaKindMismatchIDs = [], td_RenamedFixedAgendaIDs = [], td_ActionSummaryTreeNodeIDs = [],
       td_InvalidKindNodeIDs = [], td_EmptyGroupNodeIDs = [], td_SingleChildGroupNodeIDs = [],
       td_HardDepthNodeIDs = [], td_ExpectedFixedAgendaCount = 0, td_ActualFixedAgendaCount = 0,
       td_RootCount = 0, td_EdgeCountMismatch = False, td_EdgeParentMismatch = False,
       td_AgendaRecordCount = records, td_AgendaRecordsPreserved = ac_preserved checked,
       td_AgendaRecordIntegrityValid = (ac_preserved checked = records \<and> missing = [] \<and>
         ac_duplicate checked = [] \<and> ac_mutated checked = []),
       td_MissingAgendaRecordIDs = sorted_ids missing,
       td_DuplicateAgendaRecordIDs = sorted_ids (ac_duplicate checked),
       td_MutatedAgendaRecordIDs = sorted_ids (ac_mutated checked),
       td_PlannedAgendaCount = length (primary_agenda_ids c), td_MaterializedAgendaCount = 0,
       td_DiscussedAgendaCount = 0, td_MergedAgendaCount = 0,
       td_NotDiscussedAgendaCount = (case anchors of None \<Rightarrow> 0
         | Some as \<Rightarrow> length (filter (\<lambda>a. an_Status a = agendaStatusNotDiscussed) as)),
       td_AgendaReferenceIntegrityValid = True, td_AgendaNodeIDNamespaceValid = True,
       td_AgendaTopicIDCollisions = [], td_UnknownAgendaRefs = [], td_OrphanAgendaRefs = [],
       td_OrphanMaterializedTopicIDs = [], td_AgendaMaterializationMismatches = [],
       td_LegacyAgendaEdgeNodeIDs = [], td_DuplicateAgendaMaterializations = [],
       td_EmptyAgendaTopicIDs = []\<rparr>)"

text \<open>The lists and counts taken from the nodes and edges, sorted.\<close>

definition anchor_topics ::
    "meetingContext option \<Rightarrow> agendaAnchor list option \<Rightarrow> (gostring \<times> gostring list) list option" where
  "anchor_topics c anchors = map_option (\<lambda>as. ac_topics
     (check_anchors c as \<lparr>ac_preserved = 0, ac_mutated = [], ac_duplicate = [], ac_topics = []\<rparr>)) anchors"

definition tree_diagnostics ::
    "liveAnalysisTree \<Rightarrow> liveAnalysisItem list \<Rightarrow> meetingContext option \<Rightarrow> agendaAnchor list option \<Rightarrow>
     treeIntegrityDiagnostics \<Rightarrow> treeIntegrityDiagnostics" where
  "tree_diagnostics tree items c anchors d =
     (let nodes = index_nodes [] (tr_Nodes tree); edges = tr_Edges tree;
          later = later_nodes [] (tr_Nodes tree); topics = anchor_topics c anchors;
          planned = filter (\<lambda>a. agenda_topics c nodes a = []) (primary_agenda_ids c);
          materialized = filter (\<lambda>a. agenda_topics c nodes a \<noteq> []) (primary_agenda_ids c);
          agenda_topic = (\<lambda>i n. is_topic n \<and> topicAgendaRefs c n \<noteq> []) in
      d\<lparr>td_RootCount := length (filter (\<lambda>n. trim_space (tn_ID n) = treeRootNodeID) (tr_Nodes tree)),
        td_DuplicateNodeIDs := sorted_ids (map fst later),
        td_CrossKindIDCollisions := sorted_ids (map fst (filter snd later) @ item_collisions (index_items [] items) nodes),
        td_AgendaTopicIDCollisions := sorted_ids (ids_where (\<lambda>i n. namespace_collision c i) nodes),
        td_InvalidKindNodeIDs := sorted_ids (ids_where (\<lambda>i n. \<not> validLiveAnalysisTreeNodeKind (tn_Kind n)) nodes),
        td_ActionSummaryTreeNodeIDs := sorted_ids (action_nodes c nodes),
        td_UnknownAgendaRefs := sorted_ids (unknown_refs c nodes),
        td_OrphanAgendaRefs := sorted_ids (orphan_refs c nodes),
        td_OrphanMaterializedTopicIDs := sorted_ids (case topics of None \<Rightarrow> [] | Some ts \<Rightarrow> orphan_topics nodes ts),
        td_AgendaMaterializationMismatches :=
          sorted_ids (case topics of None \<Rightarrow> [] | Some ts \<Rightarrow> materialization_mismatches c nodes ts),
        td_DuplicateAgendaMaterializations := sorted_ids (split_agendas c nodes),
        td_PlannedAgendaCount := length planned,
        td_MaterializedAgendaCount := length materialized,
        td_MergedAgendaCount := length (filter (\<lambda>a. list_ex merged_topic (nodes_at nodes (agenda_topics c nodes a))) materialized),
        td_SelfParentNodeIDs := sorted_ids (ids_where self_parent nodes),
        td_OrphanNodeIDs := sorted_ids (ids_where (orphan nodes) nodes),
        td_InvalidParentKindNodeIDs := sorted_ids (ids_where (bad_parent_kind nodes) nodes),
        td_RootDirectDetailNodeIDs := sorted_ids (ids_where (root_detail nodes) nodes),
        td_EmptyAgendaTopicIDs :=
          sorted_ids (ids_where (\<lambda>i n. agenda_topic i n \<and> children_count nodes i = 0) nodes),
        td_DiscussedAgendaCount := length (remdups (concat (map (\<lambda>(i, n).
          if agenda_topic i n \<and> children_count nodes i \<noteq> 0 then topicAgendaRefs c n else []) nodes))),
        td_EmptyGroupNodeIDs := sorted_ids (ids_where (\<lambda>i n. is_group n \<and> children_count nodes i = 0) nodes),
        td_SingleChildGroupNodeIDs := sorted_ids (ids_where (\<lambda>i n. is_group n \<and> children_count nodes i = 1) nodes),
        td_CycleNodeIDs := sorted_ids (ids_where (\<lambda>i n. fst (walk_up nodes [] i)) nodes),
        td_HardDepthNodeIDs :=
          sorted_ids (ids_where (\<lambda>i n. treeHardMaxDepth < length (snd (walk_up nodes [] i))) nodes),
        td_EdgeCountMismatch := (int (length edges) \<noteq> int (length (tr_Nodes tree)) - 1),
        td_EdgeParentMismatch := edge_parent_mismatch nodes edges,
        td_LegacyAgendaEdgeNodeIDs := sorted_ids (legacy_edge_ids edges)\<rparr>)"

text \<open>The verdict over the sorted lists.\<close>

definition namespace_valid :: "treeIntegrityDiagnostics \<Rightarrow> bool" where
  "namespace_valid d \<longleftrightarrow> td_AgendaTopicIDCollisions d = [] \<and> td_LegacyAgendaEdgeNodeIDs d = []"

definition references_valid :: "treeIntegrityDiagnostics \<Rightarrow> bool" where
  "references_valid d \<longleftrightarrow>
     td_UnknownAgendaRefs d = [] \<and> td_OrphanAgendaRefs d = [] \<and> td_OrphanMaterializedTopicIDs d = [] \<and>
     td_AgendaMaterializationMismatches d = [] \<and> td_DuplicateAgendaMaterializations d = [] \<and>
     td_ActionSummaryTreeNodeIDs d = [] \<and> namespace_valid d"

definition tree_valid :: "treeIntegrityDiagnostics \<Rightarrow> bool" where
  "tree_valid d \<longleftrightarrow>
     td_RootCount d = 1 \<and> \<not> td_EdgeCountMismatch d \<and> \<not> td_EdgeParentMismatch d \<and>
     td_DuplicateNodeIDs d = [] \<and> td_CrossKindIDCollisions d = [] \<and> td_ReservedItemIDs d = [] \<and>
     td_DuplicateItemIDs d = [] \<and> td_SelfParentNodeIDs d = [] \<and> td_OrphanNodeIDs d = [] \<and>
     td_CycleNodeIDs d = [] \<and> td_InvalidParentKindNodeIDs d = [] \<and> td_RootDirectDetailNodeIDs d = [] \<and>
     td_AgendaRecordIntegrityValid d \<and> references_valid d \<and> namespace_valid d \<and>
     td_InvalidKindNodeIDs d = [] \<and> td_EmptyGroupNodeIDs d = [] \<and> td_HardDepthNodeIDs d = []"

definition validateTreeIntegrity ::
    "liveAnalysisTree option \<Rightarrow> liveAnalysisItem list \<Rightarrow> meetingContext option \<Rightarrow> agendaAnchor list option \<Rightarrow>
     treeIntegrityDiagnostics" where
  "validateTreeIntegrity tree items c anchors =
     (let d0 = record_diagnostics items c anchors in
      case tree of
        None \<Rightarrow> d0\<lparr>td_Valid := (items = [])\<rparr>
      | Some t \<Rightarrow>
          (let d = tree_diagnostics t items c anchors d0 in
           d\<lparr>td_AgendaNodeIDNamespaceValid := namespace_valid d,
             td_AgendaReferenceIntegrityValid := references_valid d, td_Valid := tree_valid d\<rparr>))"

section \<open>Containment\<close>

definition root_node :: "meetingContext option \<Rightarrow> liveAnalysisTreeNode" where
  "root_node c =
     \<lparr>tn_ID = treeRootNodeID, tn_Kind = ''topic'', tn_Subtype = [], tn_ParentID = [],
      tn_Label = rootLabel c, tn_Status = [], tn_Description = rootDescription c, tn_RelatedItemIDs = [],
      tn_LabelResolution = None, tn_DescriptionResolution = None, tn_ModelTopicIDs = [],
      tn_SourceCandidateID = [], tn_Origin = topicOriginSystem, tn_AgendaRole = [], tn_AgendaRefs = [],
      tn_MergedFromNodeIDs = [], tn_AgendaSplitGroupID = [], tn_Materialized = False,
      tn_CreatedAtVersion = 0, tn_UpdatedAtVersion = 0, tn_UnderfilledSinceVersion = 0,
      tn_LastParentChangeSource = [], tn_LastParentChangeVersion = 0, tn_ParentConfidence = 0\<rparr>"

definition discussionTreeSkeleton :: "meetingContext option \<Rightarrow> liveAnalysisTree" where
  "discussionTreeSkeleton c = \<lparr>tr_Nodes = [root_node c], tr_Edges = [], tr_Relations = []\<rparr>"

record treeMergeStats =
  ms_DuplicateNodeIDsDetected :: nat
  ms_CrossKindIDCollisions :: nat
  ms_SelfParentRejected :: nat
  ms_InvalidParentKindRejected :: nat
  ms_TreePayloadRejected :: nat
  ms_PreviousTreePreserved :: nat
  ms_ExpectedFixedAgendaCount :: nat
  ms_ActualFixedAgendaCount :: nat
  ms_MissingFixedAgendaIDs :: "gostring list"
  ms_FixedAgendaMoved :: nat
  ms_FixedAgendaRemoved :: nat
  ms_FixedAgendaKindChanged :: nat
  ms_AgendaRecordCount :: nat
  ms_AgendaRecordsPreserved :: nat
  ms_AgendaRecordIntegrityValid :: bool
  ms_PlannedAgendaCount :: nat
  ms_MaterializedAgendaCount :: nat
  ms_DiscussedAgendaCount :: nat
  ms_MergedAgendaCount :: nat
  ms_NotDiscussedAgendaCount :: nat
  ms_UnknownAgendaReferences :: nat
  ms_OrphanAgendaReferences :: nat
  ms_OrphanMaterializedTopicIDs :: nat
  ms_AgendaTopicIDCollisions :: nat
  ms_AgendaNodeIDNamespaceValid :: bool
  ms_AgendaReferenceIntegrityValid :: bool
  ms_TreeIntegrityValid :: bool
  ms_DuplicateAgendaMaterializations :: nat
  ms_EmptyAgendaTopicsRejected :: nat

definition applyTreeIntegrityStats ::
    "treeIntegrityDiagnostics \<Rightarrow> 'a treeMergeStats_scheme \<Rightarrow> 'a treeMergeStats_scheme" where
  "applyTreeIntegrityStats d s =
     s\<lparr>ms_DuplicateNodeIDsDetected := ms_DuplicateNodeIDsDetected s + length (td_DuplicateNodeIDs d),
       ms_CrossKindIDCollisions := ms_CrossKindIDCollisions s + length (td_CrossKindIDCollisions d),
       ms_SelfParentRejected := ms_SelfParentRejected s + length (td_SelfParentNodeIDs d),
       ms_InvalidParentKindRejected := ms_InvalidParentKindRejected s + length (td_InvalidParentKindNodeIDs d),
       ms_ExpectedFixedAgendaCount := td_ExpectedFixedAgendaCount d,
       ms_ActualFixedAgendaCount := td_ActualFixedAgendaCount d,
       ms_MissingFixedAgendaIDs := td_MissingFixedAgendaIDs d,
       ms_FixedAgendaMoved := ms_FixedAgendaMoved s + length (td_MovedFixedAgendaIDs d),
       ms_FixedAgendaRemoved := ms_FixedAgendaRemoved s + length (td_MissingFixedAgendaIDs d),
       ms_FixedAgendaKindChanged := ms_FixedAgendaKindChanged s + length (td_FixedAgendaKindMismatchIDs d),
       ms_AgendaRecordCount := td_AgendaRecordCount d,
       ms_AgendaRecordsPreserved := td_AgendaRecordsPreserved d,
       ms_AgendaRecordIntegrityValid := td_AgendaRecordIntegrityValid d,
       ms_PlannedAgendaCount := td_PlannedAgendaCount d,
       ms_MaterializedAgendaCount := td_MaterializedAgendaCount d,
       ms_DiscussedAgendaCount := td_DiscussedAgendaCount d,
       ms_MergedAgendaCount := td_MergedAgendaCount d,
       ms_NotDiscussedAgendaCount := td_NotDiscussedAgendaCount d,
       ms_UnknownAgendaReferences := length (td_UnknownAgendaRefs d),
       ms_OrphanAgendaReferences := length (td_OrphanAgendaRefs d),
       ms_OrphanMaterializedTopicIDs := length (td_OrphanMaterializedTopicIDs d),
       ms_AgendaTopicIDCollisions := ms_AgendaTopicIDCollisions s + length (td_AgendaTopicIDCollisions d),
       ms_AgendaNodeIDNamespaceValid := td_AgendaNodeIDNamespaceValid d,
       ms_AgendaReferenceIntegrityValid := td_AgendaReferenceIntegrityValid d,
       ms_TreeIntegrityValid := td_Valid d,
       ms_DuplicateAgendaMaterializations := length (td_DuplicateAgendaMaterializations d),
       ms_EmptyAgendaTopicsRejected := length (td_EmptyAgendaTopicIDs d)\<rparr>"

text \<open>
  \<open>preserveTreeOnIntegrityFailure\<close>: the tree that is kept, the diagnostics of the candidate, whether
  the candidate was rejected, and the statistics.
\<close>

definition preserveTreeOnIntegrityFailure ::
    "liveAnalysisTree option \<Rightarrow> liveAnalysisTree option \<Rightarrow> liveAnalysisItem list \<Rightarrow> liveAnalysisItem list \<Rightarrow>
     meetingContext option \<Rightarrow> treeMergeStats option \<Rightarrow>
     (liveAnalysisTree option \<times> treeIntegrityDiagnostics \<times> bool) \<times> treeMergeStats option" where
  "preserveTreeOnIntegrityFailure candidate previous currentItems previousItems c stats =
     (let d = validateTreeIntegrity candidate currentItems c None;
          s1 = map_option (applyTreeIntegrityStats d) stats in
      if td_Valid d then ((candidate, d, False), s1)
      else
        (let s2 = map_option (\<lambda>s. s\<lparr>ms_TreePayloadRejected := Suc (ms_TreePayloadRejected s)\<rparr>) s1 in
         if td_Valid (validateTreeIntegrity previous previousItems c None)
         then ((previous, d, True),
           map_option (\<lambda>s. s\<lparr>ms_PreviousTreePreserved := Suc (ms_PreviousTreePreserved s)\<rparr>) s2)
         else ((Some (discussionTreeSkeleton c), d, True), s2)))"

end
