(* ===== verification/TreeIntegrityClaims.thy ===== *)
theory TreeIntegrityClaims
  imports TreeIntegrity
begin

text \<open>
  What the integrity check guarantees: a tree it accepts is a tree, hung on the root within the depth
  limit, with edges that mirror the parents; and the containment step never lets another one through.
\<close>

section \<open>Rooted trees\<close>

definition node_id :: "liveAnalysisTreeNode \<Rightarrow> gostring" where
  "node_id n = trim_space (tn_ID n)"

text \<open>\<open>below t k i\<close>: the root is \<open>k\<close> parents above the node \<open>i\<close>.\<close>

inductive below :: "liveAnalysisTree \<Rightarrow> nat \<Rightarrow> gostring \<Rightarrow> bool" for t where
  root: "below t 0 treeRootNodeID"
| child: "n \<in> set (tr_Nodes t) \<Longrightarrow> node_id n \<noteq> treeRootNodeID \<Longrightarrow> below t k (tn_ParentID n) \<Longrightarrow>
    below t (Suc k) (node_id n)"

definition fits_below :: "liveAnalysisTreeNode \<Rightarrow> liveAnalysisTreeNode \<Rightarrow> bool" where
  "fits_below n p \<longleftrightarrow> (is_topic p \<or> is_group p) \<and> (is_topic n \<longrightarrow> is_topic p) \<and>
     (node_id p = treeRootNodeID \<longrightarrow> is_topic n \<or> is_group n)"

definition rooted :: "liveAnalysisTree \<Rightarrow> bool" where
  "rooted t \<longleftrightarrow> distinct (map node_id (tr_Nodes t)) \<and> treeRootNodeID \<in> node_id ` set (tr_Nodes t) \<and>
     (\<forall>n \<in> set (tr_Nodes t). \<exists>k \<le> treeHardMaxDepth. below t k (node_id n)) \<and>
     (\<forall>n \<in> set (tr_Nodes t). node_id n \<noteq> treeRootNodeID \<longrightarrow>
        (\<exists>p \<in> set (tr_Nodes t). node_id p = tn_ParentID n \<and> fits_below n p))"

definition parent_pairs :: "liveAnalysisTree \<Rightarrow> (gostring \<times> gostring) set" where
  "parent_pairs t = (\<lambda>n. (tn_ParentID n, node_id n)) ` {n \<in> set (tr_Nodes t). node_id n \<noteq> treeRootNodeID}"

definition edge_pair :: "liveAnalysisTreeEdge \<Rightarrow> gostring \<times> gostring" where
  "edge_pair e = (trim_space (te_Source e), trim_space (te_Target e))"

text \<open>Ids the check can tell apart: not blank, without the separator of the edge keys; edges in trimmed form.\<close>

definition proper_ids :: "liveAnalysisTree \<Rightarrow> bool" where
  "proper_ids t \<longleftrightarrow> (\<forall>n \<in> set (tr_Nodes t). node_id n \<noteq> [] \<and> CHR 0x00 \<notin> set (node_id n))"

definition trimmed_targets :: "liveAnalysisTree \<Rightarrow> bool" where
  "trimmed_targets t \<longleftrightarrow> (\<forall>e \<in> set (tr_Edges t). trim_space (te_Target e) = te_Target e)"

section \<open>The node table\<close>

lemma unique_ids_Nil: "uniqueNonEmptyIDs vs = [] \<longleftrightarrow> (\<forall>v \<in> set vs. trim_space v = [])"
  by (auto simp: uniqueNonEmptyIDs_def filter_empty_conv)

lemma sorted_ids_Nil: "sorted_ids vs = [] \<longleftrightarrow> (\<forall>v \<in> set vs. trim_space v = [])"
  by (metis sorted_ids_def unique_ids_Nil set_empty set_sort)

lemma no_later_nodes:
  "distinct (map fst tbl) \<Longrightarrow> later_nodes tbl ns = [] \<Longrightarrow>
   index_nodes tbl ns = tbl @ map (\<lambda>n. (node_id n, n)) ns \<and> distinct (map fst tbl @ map node_id ns)"
proof (induction ns arbitrary: tbl)
  case (Cons n ns)
  from Cons.prems have new: "map_of tbl (node_id n) = None"
    by (auto simp: node_id_def Let_def split: option.splits)
  then have "node_id n \<notin> set (map fst tbl)" by (simp add: map_of_eq_None_iff)
  with Cons.prems new Cons.IH [of "tbl @ [(node_id n, n)]"] show ?case
    by (auto simp: node_id_def Let_def)
qed simp

lemma later_nodes_ids: "x \<in> set (later_nodes tbl ns) \<Longrightarrow> fst x \<in> node_id ` set ns"
  by (induction ns arbitrary: tbl) (auto simp: node_id_def Let_def split: option.splits)

lemma trim_node_id [simp]: "trim_space (node_id n) = node_id n"
  by (simp add: node_id_def)

section \<open>The walk to the root\<close>

definition table_of :: "liveAnalysisTree \<Rightarrow> node_table \<Rightarrow> bool" where
  "table_of t nodes \<longleftrightarrow>
     (\<forall>i n. map_of nodes i = Some n \<longrightarrow> n \<in> set (tr_Nodes t) \<and> i = node_id n \<and>
        (i \<noteq> treeRootNodeID \<longrightarrow> tn_ParentID n \<noteq> [] \<and> map_of nodes (tn_ParentID n) \<noteq> None))"

lemma walk_up_below:
  "\<lbrakk>table_of t nodes; walk_up nodes seen cur = (False, out); cur \<noteq> []; map_of nodes cur \<noteq> None\<rbrakk> \<Longrightarrow>
   \<exists>k. below t k cur \<and> length out = length seen + k"
proof (induction nodes seen cur rule: walk_up.induct)
  case (1 nodes seen cur)
  show ?case
  proof (cases "cur = treeRootNodeID")
    case True
    then have "out = seen" using 1(3) by (simp add: walk_up.simps [of nodes seen treeRootNodeID])
    then show ?thesis using True by (intro exI [of _ 0]) (simp add: below.root)
  next
    case False
    from 1(5) obtain n where n: "map_of nodes cur = Some n" by auto
    have fresh: "cur \<notin> set seen" and step: "walk_up nodes (cur # seen) (tn_ParentID n) = (False, out)"
      using 1(3,4) False n by (auto simp: walk_up.simps [of nodes seen cur] split: if_splits)
    have t: "n \<in> set (tr_Nodes t)" "cur = node_id n" "tn_ParentID n \<noteq> []" "map_of nodes (tn_ParentID n) \<noteq> None"
      using 1(2) n False by (auto simp: table_of_def)
    have "\<not> (cur = [] \<or> cur = treeRootNodeID)" using 1(4) False by simp
    from 1(1) [OF this fresh n 1(2) step t(3,4)]
    obtain k where "below t k (tn_ParentID n)" "length out = length (cur # seen) + k" by blast
    moreover have "below t (Suc k) cur" if "below t k (tn_ParentID n)" for k
      using below.child [OF t(1) _ that] False t(2) by simp
    ultimately show ?thesis by (intro exI [of _ "Suc k"]) simp
  qed
qed

section \<open>Accepted trees\<close>

lemma ids_where_Nil:
  assumes "\<forall>i \<in> fst ` set nodes. trim_space i \<noteq> []"
  shows "sorted_ids (ids_where p nodes) = [] \<longleftrightarrow> (\<forall>(i, n) \<in> set nodes. \<not> p i n)"
  using assms by (fastforce simp: sorted_ids_Nil ids_where_def)

lemma edge_key_pair: "edge_key e = fst (edge_pair e) @ [CHR 0x00] @ snd (edge_pair e)"
  by (simp add: edge_key_def edge_pair_def)

lemma split_at_nul:
  assumes "a @ [CHR 0x00] @ b = p @ [CHR 0x00] @ q" "CHR 0x00 \<notin> set p" "CHR 0x00 \<notin> set q"
  shows "a = p \<and> b = q"
proof -
  have "CHR 0x00 \<notin> set a"
  proof
    assume "CHR 0x00 \<in> set a"
    then have "2 \<le> length (filter (\<lambda>c. c = CHR 0x00) (a @ [CHR 0x00] @ b))"
      by (auto simp: filter_empty_conv Suc_le_eq length_greater_0_conv)
    moreover have "length (filter (\<lambda>c. c = CHR 0x00) (p @ [CHR 0x00] @ q)) = 1"
      using assms(2,3) by (auto simp: filter_empty_conv)
    ultimately show False unfolding assms(1) by simp
  qed
  moreover have "takeWhile (\<lambda>c. c \<noteq> CHR 0x00) (x @ [CHR 0x00] @ y) = x" if "CHR 0x00 \<notin> set x" for x y
    using that by (auto simp: takeWhile_append)
  ultimately have "a = p" using assms(1,2) by metis
  then show ?thesis using assms(1) by simp
qed

lemma valid_fields:
  assumes "td_Valid (validateTreeIntegrity (Some t) items c anchors)"
  defines "nodes \<equiv> index_nodes [] (tr_Nodes t)"
  shows "sorted_ids (map fst (later_nodes [] (tr_Nodes t))) = []"
    "length (filter (\<lambda>n. trim_space (tn_ID n) = treeRootNodeID) (tr_Nodes t)) = 1"
    "int (length (tr_Edges t)) = int (length (tr_Nodes t)) - 1"
    "\<not> edge_parent_mismatch nodes (tr_Edges t)"
    "sorted_ids (ids_where self_parent nodes) = []"
    "sorted_ids (ids_where (orphan nodes) nodes) = []"
    "sorted_ids (ids_where (bad_parent_kind nodes) nodes) = []"
    "sorted_ids (ids_where (root_detail nodes) nodes) = []"
    "sorted_ids (ids_where (\<lambda>i n. fst (walk_up nodes [] i)) nodes) = []"
    "sorted_ids (ids_where (\<lambda>i n. treeHardMaxDepth < length (snd (walk_up nodes [] i))) nodes) = []"
  using assms(1) unfolding nodes_def
  by (simp_all add: validateTreeIntegrity_def Let_def tree_valid_def tree_diagnostics_def)

lemma valid_table:
  assumes "td_Valid (validateTreeIntegrity (Some t) items c anchors)" "proper_ids t"
  shows "distinct (map node_id (tr_Nodes t))" "index_nodes [] (tr_Nodes t) = map (\<lambda>n. (node_id n, n)) (tr_Nodes t)"
proof -
  have "later_nodes [] (tr_Nodes t) = []"
  proof (rule ccontr)
    assume "later_nodes [] (tr_Nodes t) \<noteq> []"
    then obtain x where x: "x \<in> set (later_nodes [] (tr_Nodes t))" by (meson list.set_sel(1))
    then obtain n where "n \<in> set (tr_Nodes t)" "fst x = node_id n" using later_nodes_ids [OF x] by blast
    moreover from x have "trim_space (fst x) = []"
      using valid_fields(1) [OF assms(1)] by (auto simp: sorted_ids_Nil)
    ultimately show False using assms(2) by (auto simp: proper_ids_def)
  qed
  from no_later_nodes [OF _ this]
  show "distinct (map node_id (tr_Nodes t))" "index_nodes [] (tr_Nodes t) = map (\<lambda>n. (node_id n, n)) (tr_Nodes t)"
    by simp_all
qed

lemma valid_nodes:
  assumes "td_Valid (validateTreeIntegrity (Some t) items c anchors)" "proper_ids t"
    and "n \<in> set (tr_Nodes t)"
  defines "nodes \<equiv> map (\<lambda>n. (node_id n, n)) (tr_Nodes t)"
  shows "\<not> self_parent (node_id n) n" "\<not> orphan nodes (node_id n) n" "\<not> bad_parent_kind nodes (node_id n) n"
    "\<not> root_detail nodes (node_id n) n" "\<not> fst (walk_up nodes [] (node_id n))"
    "length (snd (walk_up nodes [] (node_id n))) \<le> treeHardMaxDepth"
proof -
  have ids: "\<forall>i \<in> fst ` set nodes. trim_space i \<noteq> []"
    using assms(2) by (auto simp: nodes_def proper_ids_def)
  have n: "(node_id n, n) \<in> set nodes" using assms(3) by (simp add: nodes_def)
  note v = valid_fields [OF assms(1), unfolded valid_table(2) [OF assms(1,2)] nodes_def [symmetric] ids_where_Nil [OF ids]]
  show "\<not> self_parent (node_id n) n" using v(5) n by fast
  show "\<not> orphan nodes (node_id n) n" using v(6) n by fast
  show "\<not> bad_parent_kind nodes (node_id n) n" using v(7) n by fast
  show "\<not> root_detail nodes (node_id n) n" using v(8) n by fast
  show "\<not> fst (walk_up nodes [] (node_id n))" using v(9) n by fast
  show "length (snd (walk_up nodes [] (node_id n))) \<le> treeHardMaxDepth" using v(10) n by (auto simp: not_less)
qed

lemma parent_found:
  assumes "td_Valid (validateTreeIntegrity (Some t) items c anchors)" "proper_ids t"
    and "n \<in> set (tr_Nodes t)" "node_id n \<noteq> treeRootNodeID"
  shows "tn_ParentID n \<noteq> [] \<and> (\<exists>p \<in> set (tr_Nodes t). node_id p = tn_ParentID n \<and> fits_below n p)"
proof -
  let ?nodes = "map (\<lambda>n. (node_id n, n)) (tr_Nodes t)"
  note v = valid_nodes [OF assms(1-3)]
  have p: "tn_ParentID n \<noteq> []" "tn_ParentID n \<noteq> node_id n" "map_of ?nodes (tn_ParentID n) \<noteq> None"
    using v(1,2) assms(4) by (auto simp: self_parent_def orphan_def)
  then obtain p where m: "map_of ?nodes (tn_ParentID n) = Some p" by auto
  then have in_t: "p \<in> set (tr_Nodes t)" "node_id p = tn_ParentID n" by (auto dest!: map_of_SomeD)
  have "fits_below n p"
    using v(3,4) p assms(4) m in_t(2)
    by (auto simp: fits_below_def bad_parent_kind_def root_detail_def split: if_splits)
  then show ?thesis using p(1) in_t by blast
qed

lemma valid_rooted:
  assumes "td_Valid (validateTreeIntegrity (Some t) items c anchors)" "proper_ids t"
  shows "rooted t"
proof -
  let ?nodes = "map (\<lambda>n. (node_id n, n)) (tr_Nodes t)"
  have keys: "map_of ?nodes i \<noteq> None \<longleftrightarrow> i \<in> node_id ` set (tr_Nodes t)" for i
    by (auto simp: map_of_eq_None_iff image_iff)
  have tab: "table_of t ?nodes"
    using parent_found [OF assms] unfolding table_of_def keys
    by (auto dest!: map_of_SomeD) (metis image_eqI)
  have "\<exists>k \<le> treeHardMaxDepth. below t k (node_id n)" if n: "n \<in> set (tr_Nodes t)" for n
  proof -
    have "walk_up ?nodes [] (node_id n) = (False, snd (walk_up ?nodes [] (node_id n)))"
      using valid_nodes(5) [OF assms n] by (metis (full_types) prod.collapse)
    then obtain k where "below t k (node_id n)" "length (snd (walk_up ?nodes [] (node_id n))) = k"
      using walk_up_below [OF tab, of "[]" "node_id n"] n assms(2) keys by (force simp: proper_ids_def)
    then show ?thesis using valid_nodes(6) [OF assms n] by auto
  qed
  moreover have "treeRootNodeID \<in> node_id ` set (tr_Nodes t)"
    using valid_fields(2) [OF assms(1)] by (auto simp: node_id_def length_Suc_conv filter_eq_Cons_iff)
  ultimately show ?thesis
    using valid_table(1) [OF assms] parent_found [OF assms] unfolding rooted_def by blast
qed

text \<open>The edges mirror the parents.\<close>

lemma valid_edges:
  assumes "td_Valid (validateTreeIntegrity (Some t) items c anchors)" "proper_ids t" "trimmed_targets t"
  shows "distinct (map edge_pair (tr_Edges t))" "set (map edge_pair (tr_Edges t)) = parent_pairs t"
proof -
  let ?nodes = "map (\<lambda>n. (node_id n, n)) (tr_Nodes t)"
  let ?inner = "filter (\<lambda>n. node_id n \<noteq> treeRootNodeID) (tr_Nodes t)"
  let ?key = "\<lambda>n. tn_ParentID n @ [CHR 0x00] @ node_id n"
  have "tn_ParentID n \<noteq> []" if "n \<in> set ?inner" for n using that parent_found [OF assms(1,2)] by auto
  then have "filter (\<lambda>n. node_id n \<noteq> treeRootNodeID \<and> tn_ParentID n \<noteq> []) (tr_Nodes t) = ?inner"
    by (intro filter_cong) auto
  then have exp: "expected_edges ?nodes = map ?key ?inner"
    by (simp add: expected_edges_def filter_map o_def split_def)
  have nul: "CHR 0x00 \<notin> set (tn_ParentID n)" "CHR 0x00 \<notin> set (node_id n)" if "n \<in> set ?inner" for n
    using that parent_found [OF assms(1,2)] assms(2) by (force simp: proper_ids_def)+
  have same: "a = tn_ParentID n \<and> b = node_id n" if "n \<in> set ?inner" "a @ [CHR 0x00] @ b = ?key n" for a b n
    by (rule split_at_nul [OF that(2) nul [OF that(1)]])
  have "inj_on node_id (set ?inner)"
    using valid_table(1) [OF assms(1,2)] by (auto simp: distinct_map intro: inj_on_subset)
  moreover have "inj_on ?key (set ?inner)"
  proof (rule inj_onI)
    fix m n assume "m \<in> set ?inner" "n \<in> set ?inner" "?key m = ?key n"
    then show "m = n" using same [of n "tn_ParentID m" "node_id m"] calculation by (auto dest: inj_onD)
  qed
  ultimately have card: "length (remdups (expected_edges ?nodes)) = card (set ?inner)"
    by (simp add: exp length_remdups_card_conv card_image)
  note m = valid_fields(4) [OF assms(1), unfolded valid_table(2) [OF assms(1,2)]]
  have pair: "edge_pair e \<in> parent_pairs t" if "e \<in> set (tr_Edges t)" for e
  proof -
    have "edge_key e \<in> set (expected_edges ?nodes)"
      using m that by (auto simp: edge_parent_mismatch_def list_ex_iff)
    then obtain n where n: "n \<in> set ?inner" "edge_key e = ?key n" by (auto simp: exp)
    with same [OF n(1), of "fst (edge_pair e)" "snd (edge_pair e)"] show ?thesis
      by (cases "edge_pair e") (auto simp: edge_key_pair parent_pairs_def)
  qed
  have targets: "map te_Target (tr_Edges t) = map snd (map edge_pair (tr_Edges t))"
    using assms(3) by (simp add: trimmed_targets_def edge_pair_def)
  then have d: "distinct (map edge_pair (tr_Edges t))" using m
    by (metis distinct_map edge_parent_mismatch_def)
  show "distinct (map edge_pair (tr_Edges t))" by (rule d)
  have "card (parent_pairs t) \<le> card (set ?inner)"
    unfolding parent_pairs_def by (rule card_image_le [THEN order_trans]) simp_all
  also have "\<dots> = length (map edge_pair (tr_Edges t))"
    using m card by (simp add: edge_parent_mismatch_def distinct_remdups_id)
  also have "\<dots> = card (set (map edge_pair (tr_Edges t)))" by (rule distinct_card [OF d, symmetric])
  finally have "card (parent_pairs t) \<le> card (set (map edge_pair (tr_Edges t)))" .
  moreover have "set (map edge_pair (tr_Edges t)) \<subseteq> parent_pairs t" using pair by auto
  ultimately show "set (map edge_pair (tr_Edges t)) = parent_pairs t"
    by (intro card_seteq) (simp_all add: parent_pairs_def)
qed

section \<open>Agendas\<close>

text \<open>The records of an agenda: at most ten, numbered from 1, with a title and one of the two roles.\<close>

definition numbered_agenda :: "agendaItem list \<Rightarrow> bool" where
  "numbered_agenda items \<longleftrightarrow> length items \<le> 10 \<and>
     (\<forall>i < length items. ag_ID (items ! i) = agendaIDPrefix @ show_nat (Suc i) \<and>
        ag_Order (items ! i) = int (Suc i) \<and> ag_Title (items ! i) \<noteq> [] \<and>
        ag_Role (items ! i) \<in> {agendaRolePrimary, agendaRoleActionSummary})"

lemma take_runes_Nil_iff: "take_runes (Suc n) s = [] \<longleftrightarrow> s = []"
  by (cases s) simp_all

lemma numbered_snoc:
  assumes "numbered_agenda items" "length items < 10" "title \<noteq> []"
  shows "numbered_agenda (items @ [agenda_entry title (Suc (length items))])"
proof -
  have "truncateRunes title 20 \<noteq> []"
    using take_runes_Nil_iff [of 19 title] assms(3) by (simp add: truncateRunes_def numeral_eq_Suc)
  moreover have "inferAgendaRole title [] \<in> {agendaRolePrimary, agendaRoleActionSummary}"
    by (simp add: inferAgendaRole_def Let_def)
  ultimately show ?thesis
    using assms(1,2) by (auto simp: numbered_agenda_def nth_append agenda_entry_def less_Suc_eq)
qed

lemma numbered_lines:
  "numbered_agenda items \<Longrightarrow> length items < 10 \<Longrightarrow> numbered_agenda (agenda_lines lines seen items)"
  by (induction lines seen items rule: agenda_lines.induct) (simp_all add: Let_def numbered_snoc)

lemma built_agenda:
  "buildMeetingContext pre = Some mc \<Longrightarrow> numbered_agenda (mc_Agenda mc)"
  by (auto simp: buildMeetingContext_def Let_def parseAgendaItems_def intro!: numbered_lines
      split: option.splits if_splits) (simp add: numbered_agenda_def)

lemma numbered_reconciled:
  assumes "numbered_agenda items"
  shows "numbered_agenda (map2 (reconciled_item planned) [0..<length items] items)"
proof -
  have "effectiveAgendaRole r a b \<in> {agendaRolePrimary, agendaRoleActionSummary}" for r a b
    by (simp add: effectiveAgendaRole_def)
  then show ?thesis
    using assms by (auto simp: numbered_agenda_def reconciled_item_def Let_def or_blank_def)
qed

lemma reconciled_ids: "map ag_ID (map2 (reconciled_item planned) [0..<length items] items) = map ag_ID items"
  by (rule nth_equalityI) (simp_all add: reconciled_item_def Let_def)

lemma root_not_agenda: "numbered_agenda items \<Longrightarrow> treeRootNodeID \<notin> ag_ID ` set items"
  by (auto simp: numbered_agenda_def in_set_conv_nth treeRootNodeID_def agendaIDPrefix_def)

section \<open>The skeleton\<close>

lemma skeleton_valid:
  assumes "treeRootNodeID \<notin> ag_ID ` set (agenda_of c)"
  shows "td_Valid (validateTreeIntegrity (Some (discussionTreeSkeleton c)) [] c None)"
proof -
  let ?nodes = "[(treeRootNodeID, root_node c)]"
  have root: "trim_space treeRootNodeID = treeRootNodeID" "\<not> has_prefix (to_lower treeRootNodeID) agendaIDPrefix"
    by code_simp+
  have node [simp]: "tn_ID (root_node c) = treeRootNodeID" "tn_Kind (root_node c) = ''topic''"
    "tn_ParentID (root_node c) = []" "tn_AgendaRefs (root_node c) = []"
    by (simp_all add: root_node_def)
  have table: "index_nodes [] [root_node c] = ?nodes" "later_nodes [] [root_node c] = []" by (simp_all add: root)
  have records: "agendaRecordMap c treeRootNodeID = None" "treeRootNodeID \<notin> set (action_agenda_ids c)"
    using assms by (auto simp: agendaRecordMap_def action_agenda_ids_def find_None_iff image_iff)
  have walk: "walk_up ?nodes [] treeRootNodeID = (False, [])" by (subst walk_up.simps) simp
  have none: "sorted_ids [] = []" by (simp add: sorted_ids_Nil)
  have refs: "node_refs (root_node c) = []" by (simp add: node_refs_def)
  have shape: "ids_where self_parent ?nodes = []" "ids_where (orphan ?nodes) ?nodes = []"
    "ids_where (bad_parent_kind ?nodes) ?nodes = []" "ids_where (root_detail ?nodes) ?nodes = []"
    "ids_where (\<lambda>i n. fst (walk_up ?nodes [] i)) ?nodes = []"
    "ids_where (\<lambda>i n. treeHardMaxDepth < length (snd (walk_up ?nodes [] i))) ?nodes = []"
    "ids_where (\<lambda>i n. \<not> validLiveAnalysisTreeNodeKind (tn_Kind n)) ?nodes = []"
    "ids_where (\<lambda>i n. is_group n \<and> children_count ?nodes i = 0) ?nodes = []"
    "ids_where (\<lambda>i n. namespace_collision c i) ?nodes = []"
    by (simp_all add: ids_where_def self_parent_def orphan_def bad_parent_kind_def root_detail_def walk is_topic_def
        is_group_def validLiveAnalysisTreeNodeKind_def namespace_collision_def root records)
  have topics: "agenda_topics c ?nodes a = []" for a
    by (simp add: agenda_topics_def ids_where_def refs unique_ids_Nil)
  have agenda: "action_nodes c ?nodes = []" "unknown_refs c ?nodes = []" "orphan_refs c ?nodes = []"
    "split_agendas c ?nodes = []"
    by (simp_all add: action_nodes_def ids_where_def unknown_refs_def orphan_refs_def split_agendas_def refs records
        topics Let_def)
  have edges: "\<not> edge_parent_mismatch ?nodes []" "legacy_edge_ids [] = []"
    by (simp_all add: edge_parent_mismatch_def expected_edges_def legacy_edge_ids_def)
  have pre: "td_ReservedItemIDs (record_diagnostics [] c None) = []" "td_DuplicateItemIDs (record_diagnostics [] c None) = []"
    "td_AgendaRecordIntegrityValid (record_diagnostics [] c None)"
    by (simp_all add: record_diagnostics_def Let_def reserved_items_def none)
  show ?thesis
    by (simp add: validateTreeIntegrity_def Let_def tree_valid_def tree_diagnostics_def discussionTreeSkeleton_def
        table shape agenda edges pre none references_valid_def namespace_valid_def item_collisions_def
        anchor_topics_def root)
qed

section \<open>Properties\<close>

text \<open>Agenda records are stable.  The context built from the inputs of a session has at most ten
  agenda records, with the ids \<open>agenda-1\<close>, \<open>agenda-2\<close>, ... in order, a title each and one of the two
  roles; and if it has any, whatever a planner answers, reconciling it with that context keeps the number of the
  records, their ids and their order, and again gives each a title and a role.\<close>

theorem agenda_records_are_stable:
  assumes "buildMeetingContext pre = Some mc"
  shows "numbered_agenda (mc_Agenda mc) \<and> distinct (map ag_ID (mc_Agenda mc)) \<and>
    (\<forall>planned kept. reconcileMeetingContextWithFallback planned (Some mc) = Some kept \<longrightarrow> mc_Agenda mc \<noteq> [] \<longrightarrow>
       numbered_agenda (mc_Agenda kept) \<and> map ag_ID (mc_Agenda kept) = map ag_ID (mc_Agenda mc))"
proof (intro conjI allI impI)
  show n: "numbered_agenda (mc_Agenda mc)" by (rule built_agenda [OF assms])
  then show "distinct (map ag_ID (mc_Agenda mc))" by (simp add: distinct_conv_nth numbered_agenda_def)
  fix planned kept
  assume r: "reconcileMeetingContextWithFallback planned (Some mc) = Some kept" "mc_Agenda mc \<noteq> []"
  show "numbered_agenda (mc_Agenda kept)"
    using r n numbered_reconciled [OF n]
    by (auto simp: reconcileMeetingContextWithFallback_def split: option.splits)
  show "map ag_ID (mc_Agenda kept) = map ag_ID (mc_Agenda mc)"
    using r reconciled_ids by (auto simp: reconcileMeetingContextWithFallback_def split: option.splits)
qed

definition sample_pre :: meetingSessionPreContext where
  "sample_pre =
     \<lparr>pc_Title = ''Sync'', pc_Purpose = [], pc_Context = [],
      pc_Agenda = ''1. Budget'' @ [newline] @ ''- VPN '' @ [newline] @ ''vpn.'' @ [newline], pc_DecisionPoints = [],
      pc_Concerns = [], pc_ExpectedOutput = [], pc_CustomInstruction = []\<rparr>"

definition sample_context :: meetingContext where
  "sample_context = the (buildMeetingContext (Some sample_pre))"

lemma sample_lines:
  "split_on newline (pc_Agenda sample_pre) = [''1. Budget'', ''- VPN '', ''vpn.'', []]"
  "map (\<lambda>line. trim_space (strip_line_prefix line)) [''1. Budget'', ''- VPN '', ''vpn.'', []] = [''Budget'', ''VPN'', ''vpn.'', []]"
  "map normalizeForMatch [''Budget'', ''VPN'', ''vpn.''] = [''budget'', ''vpn'', ''vpn'']"
  "map (\<lambda>s. truncateRunes s 20) [''Budget'', ''VPN''] = [''Budget'', ''VPN'']"
  by code_simp+

theorem agenda_records_are_stable_witness:
  "map ag_Title (mc_Agenda sample_context) = [''Budget'', ''VPN''] \<and> numbered_agenda (mc_Agenda sample_context)"
proof -
  have "parseAgendaItems (pc_Agenda sample_pre) = [agenda_entry ''Budget'' 1, agenda_entry ''VPN'' 2]"
    using sample_lines by (simp add: parseAgendaItems_def numeral_2_eq_2)
  then have built: "buildMeetingContext (Some sample_pre) = Some sample_context"
    and "map ag_Title (mc_Agenda sample_context) = [''Budget'', ''VPN'']"
    using sample_lines(4)
    by (simp_all add: sample_context_def buildMeetingContext_def Let_def context_isEmpty_def agenda_entry_def)
  with agenda_records_are_stable [OF built] show ?thesis by simp
qed

text \<open>C33: Only sound trees are kept.  For a context built from a session, the containment step keeps the
  candidate exactly if the integrity check accepts it for the current items; otherwise it keeps the previous tree
  exactly if the check accepts that one for the previous items; otherwise the skeleton, which passes the
  check without items.  A tree with distinguishable ids
  that passes is a tree: every node hangs on the root within five steps, below a topic or group that
  may hold it; and if the edge targets are in trimmed form, the edges are exactly the parent relation.\<close>

theorem kept_trees_are_rooted:
  assumes "preserveTreeOnIntegrityFailure candidate previous items previousItems (buildMeetingContext pre) stats =
      ((kept, d, rejected), stats')"
  shows "(rejected \<longleftrightarrow> \<not> td_Valid (validateTreeIntegrity candidate items (buildMeetingContext pre) None)) \<and>
    (if \<not> rejected then kept = candidate \<and> td_Valid (validateTreeIntegrity kept items (buildMeetingContext pre) None)
     else if td_Valid (validateTreeIntegrity previous previousItems (buildMeetingContext pre) None) then kept = previous
     else kept = Some (discussionTreeSkeleton (buildMeetingContext pre)) \<and>
       td_Valid (validateTreeIntegrity kept [] (buildMeetingContext pre) None)) \<and>
    (\<forall>t. kept = Some t \<longrightarrow> proper_ids t \<longrightarrow> rooted t \<and>
       (trimmed_targets t \<longrightarrow> distinct (map edge_pair (tr_Edges t)) \<and> set (map edge_pair (tr_Edges t)) = parent_pairs t))"
proof -
  have "treeRootNodeID \<notin> ag_ID ` set (agenda_of (buildMeetingContext pre))"
    using root_not_agenda [OF built_agenda [of pre]] by (cases "buildMeetingContext pre") (simp_all add: agenda_of_def)
  from skeleton_valid [OF this] assms
  have choice: "(rejected \<longleftrightarrow> \<not> td_Valid (validateTreeIntegrity candidate items (buildMeetingContext pre) None)) \<and>
      (if \<not> rejected then kept = candidate \<and> td_Valid (validateTreeIntegrity kept items (buildMeetingContext pre) None)
       else if td_Valid (validateTreeIntegrity previous previousItems (buildMeetingContext pre) None) then kept = previous
       else kept = Some (discussionTreeSkeleton (buildMeetingContext pre)) \<and>
         td_Valid (validateTreeIntegrity kept [] (buildMeetingContext pre) None))"
    and valid: "\<exists>its \<in> {items, previousItems, []}. td_Valid (validateTreeIntegrity kept its (buildMeetingContext pre) None)"
    by (auto simp: preserveTreeOnIntegrityFailure_def Let_def split: if_splits)
  have "rooted t \<and> (trimmed_targets t \<longrightarrow> distinct (map edge_pair (tr_Edges t)) \<and> set (map edge_pair (tr_Edges t)) = parent_pairs t)"
    if "kept = Some t" "proper_ids t" for t
    using valid valid_rooted valid_edges that by metis
  with choice show ?thesis by blast
qed

text \<open>A topic with one issue below the root, and the same tree with the issue hung on itself.\<close>

definition sample_node :: "gostring \<Rightarrow> gostring \<Rightarrow> gostring \<Rightarrow> liveAnalysisTreeNode" where
  "sample_node i kind parent = (root_node None)\<lparr>tn_ID := i, tn_Kind := kind, tn_ParentID := parent, tn_Origin := ''dynamic''\<rparr>"

definition sample_tree :: "gostring \<Rightarrow> liveAnalysisTree" where
  "sample_tree parent =
     \<lparr>tr_Nodes = [root_node None, sample_node ''topic-1'' ''topic'' ''root'', sample_node ''item-1'' ''issue'' parent],
      tr_Edges = [\<lparr>te_Source = ''root'', te_Target = ''topic-1''\<rparr>, \<lparr>te_Source = parent, te_Target = ''item-1''\<rparr>],
      tr_Relations = []\<rparr>"

lemma sample_tree_checked:
  "td_Valid (validateTreeIntegrity (Some (sample_tree ''topic-1'')) [] None None)"
  "\<not> td_Valid (validateTreeIntegrity (Some (sample_tree ''item-1'')) [] None None)"
  by code_simp+

theorem kept_trees_are_rooted_witness:
  "fst (fst (preserveTreeOnIntegrityFailure (Some (sample_tree ''item-1'')) (Some (sample_tree ''topic-1'')) [] []
     (buildMeetingContext None) None)) = Some (sample_tree ''topic-1'') \<and>
   rooted (sample_tree ''topic-1'')"
proof -
  have "preserveTreeOnIntegrityFailure (Some (sample_tree ''item-1'')) (Some (sample_tree ''topic-1'')) [] []
      (buildMeetingContext None) None =
    ((Some (sample_tree ''topic-1''), validateTreeIntegrity (Some (sample_tree ''item-1'')) [] None None, True), None)"
    using sample_tree_checked by (simp add: preserveTreeOnIntegrityFailure_def buildMeetingContext_def Let_def)
  moreover from kept_trees_are_rooted [OF this] have "rooted (sample_tree ''topic-1'')" if "proper_ids (sample_tree ''topic-1'')"
    using that by blast
  moreover have "proper_ids (sample_tree ''topic-1'')" by code_simp
  ultimately show ?thesis by simp
qed

section \<open>The walk up the parents always ends\<close>

text \<open>The parents of a node for the next k steps: every one of them is in the table, none is blank or the
  root.\<close>

fun climbs :: "node_table \<Rightarrow> nat \<Rightarrow> gostring \<Rightarrow> bool" where
  "climbs nodes 0 cur \<longleftrightarrow> True"
| "climbs nodes (Suc k) cur \<longleftrightarrow> cur \<noteq> [] \<and> cur \<noteq> treeRootNodeID \<and>
     (case map_of nodes cur of None \<Rightarrow> False | Some n \<Rightarrow> climbs nodes k (tn_ParentID n))"

definition trail :: "node_table \<Rightarrow> gostring list \<Rightarrow> gostring \<Rightarrow> bool" where
  "trail nodes seen cur \<longleftrightarrow> (\<forall>x \<in> set seen. x \<noteq> [] \<and> x \<noteq> treeRootNodeID \<and>
     (\<exists>n. map_of nodes x = Some n \<and> tn_ParentID n \<in> insert cur (set seen)))"

lemma trail_climbs: "trail nodes seen cur \<Longrightarrow> cur \<in> set seen \<Longrightarrow> x \<in> set seen \<Longrightarrow> climbs nodes k x"
proof (induction k arbitrary: x)
  case (Suc k)
  then obtain n where "x \<noteq> []" "x \<noteq> treeRootNodeID" "map_of nodes x = Some n" "tn_ParentID n \<in> set seen"
    by (auto simp: trail_def insert_absorb)
  with Suc show ?case by simp
qed simp

lemma walk_up_cases:
  assumes "trail nodes seen cur"
  shows "fst (walk_up nodes seen cur) \<longleftrightarrow> (\<forall>k. climbs nodes k cur)"
  using assms
proof (induction nodes seen cur rule: walk_up.induct)
  case (1 nodes seen cur)
  have stop: "\<not> (\<forall>k. climbs nodes k cur)" if "cur = [] \<or> cur = treeRootNodeID \<or> map_of nodes cur = None"
  proof
    assume "\<forall>k. climbs nodes k cur"
    then have "climbs nodes (Suc 0) cur" ..
    then show False using that by auto
  qed
  show ?case
  proof (cases "cur = [] \<or> cur = treeRootNodeID")
    case True
    then show ?thesis using stop by (auto simp: walk_up.simps [of nodes seen cur])
  next
    case going: False
    show ?thesis
    proof (cases "cur \<in> set seen")
      case True
      then show ?thesis using going trail_climbs [OF 1(2) True True] by (simp add: walk_up.simps [of nodes seen cur])
    next
      case fresh: False
      show ?thesis
      proof (cases "map_of nodes cur")
        case None
        then show ?thesis using going fresh stop by (simp add: walk_up.simps [of nodes seen cur])
      next
        case (Some n)
        have "trail nodes (cur # seen) (tn_ParentID n)" using 1(2) going Some by (auto simp: trail_def)
        then have "fst (walk_up nodes (cur # seen) (tn_ParentID n)) \<longleftrightarrow> (\<forall>k. climbs nodes k (tn_ParentID n))"
          by (rule 1(1) [OF going fresh Some])
        moreover have "(\<forall>k. climbs nodes k cur) \<longleftrightarrow> (\<forall>k. climbs nodes k (tn_ParentID n))"
        proof
          assume all: "\<forall>k. climbs nodes k cur"
          show "\<forall>k. climbs nodes k (tn_ParentID n)"
          proof
            fix k show "climbs nodes k (tn_ParentID n)" using spec [OF all, of "Suc k"] going Some by simp
          qed
        next
          assume all: "\<forall>k. climbs nodes k (tn_ParentID n)"
          show "\<forall>k. climbs nodes k cur"
          proof
            fix k show "climbs nodes k cur" using all going Some by (cases k) simp_all
          qed
        qed
        ultimately show ?thesis using going fresh Some by (simp add: walk_up.simps [of nodes seen cur])
      qed
    qed
  qed
qed

lemma walk_up_seen:
  "distinct seen \<Longrightarrow> distinct (snd (walk_up nodes seen cur)) \<and>
     (\<exists>x. set (snd (walk_up nodes seen cur)) \<subseteq> insert x (set seen \<union> fst ` set nodes))"
proof (induction nodes seen cur rule: walk_up.induct)
  case (1 nodes seen cur)
  show ?case
  proof (cases "cur = [] \<or> cur = treeRootNodeID \<or> cur \<in> set seen \<or> map_of nodes cur = None")
    case True
    then show ?thesis using 1(2) by (subst walk_up.simps, subst walk_up.simps) auto
  next
    case False
    then obtain n where n: "map_of nodes cur = Some n" by auto
    then have key: "cur \<in> fst ` set nodes" by (metis map_of_eq_None_iff option.distinct(1))
    have "distinct (cur # seen)" using False 1(2) by simp
    with False n 1(1) [of n] obtain x where
      "distinct (snd (walk_up nodes (cur # seen) (tn_ParentID n)))"
      "set (snd (walk_up nodes (cur # seen) (tn_ParentID n))) \<subseteq> insert x (set (cur # seen) \<union> fst ` set nodes)"
      by auto
    then show ?thesis using False n key by (auto simp: walk_up.simps [of nodes seen cur])
  qed
qed

text \<open>The walk from any id up the parents ends in every table, whatever the parents are: it visits no id
  twice and at most one id that is not a node, and it reports a cycle exactly if the chain of parents
  never reaches the root, a blank parent or an unknown one.\<close>

theorem parent_walk_ends:
  "distinct (snd (walk_up nodes [] i)) \<and>
   length (snd (walk_up nodes [] i)) \<le> Suc (card (fst ` set nodes)) \<and>
   (fst (walk_up nodes [] i) \<longleftrightarrow> (\<forall>k. climbs nodes k i))"
proof (intro conjI)
  from walk_up_seen [of "[]" nodes i] obtain x where d: "distinct (snd (walk_up nodes [] i))"
    and "set (snd (walk_up nodes [] i)) \<subseteq> insert x (fst ` set nodes)" by auto
  then have "card (set (snd (walk_up nodes [] i))) \<le> card (insert x (fst ` set nodes))" by (intro card_mono) auto
  also have "\<dots> \<le> Suc (card (fst ` set nodes))" by (simp add: card_insert_if)
  finally show "length (snd (walk_up nodes [] i)) \<le> Suc (card (fst ` set nodes))"
    by (simp add: distinct_card [OF d])
  show "distinct (snd (walk_up nodes [] i))" by (fact d)
qed (simp add: walk_up_cases trail_def)

section \<open>What the check lets through\<close>

text \<open>
  The premises on ids and targets are needed.  A node with a blank id is dropped from every report, so
  its kind and parent go unchecked; and two edges to one node count as different if one target is
  padded, so that another node may have no edge.
\<close>

lemma blank_id_escapes:
  "td_Valid (validateTreeIntegrity
     (Some \<lparr>tr_Nodes = [root_node None, sample_node '' '' ''bogus'' ''nowhere''],
            tr_Edges = [\<lparr>te_Source = ''nowhere'', te_Target = []\<rparr>], tr_Relations = []\<rparr>) [] None None)"
  by code_simp

lemma padded_target_hides_a_missing_edge:
  "td_Valid (validateTreeIntegrity
     (Some \<lparr>tr_Nodes = [root_node None, sample_node ''a'' ''topic'' ''root'', sample_node ''b'' ''topic'' ''root''],
            tr_Edges = [\<lparr>te_Source = ''root'', te_Target = ''a''\<rparr>, \<lparr>te_Source = ''root'', te_Target = ''a ''\<rparr>],
            tr_Relations = []\<rparr>) [] None None)"
  by code_simp

end
