(* ===== verification/HttpForms.thy ===== *)
theory HttpForms
  imports WorkspaceService Transcripts Watchdog AnalysisStore MeetingEvents
begin

text \<open>
  The request and response bodies of \<open>internal/adapter/http/meeting_session_api.go\<close>: one record per
  JSON struct with its fields in their order, the accessors that merge the camel-case and the
  snake-case spelling of a field, the conversions from domain values to responses, the parsing
  of limits and overrides, and the metrics read from a heartbeat.  A field of type
  \<open>json.RawMessage\<close> is its bytes, an absent one the empty string; \<open>omitempty\<close> only concerns the
  encoding, which is not modelled.  \<open>rfc\<close> stands for \<open>Format(time.RFC3339Nano)\<close>.
\<close>

section \<open>Request bodies\<close>

record meetingSessionCreateRequest =
  crq_JoinURL :: gostring
  crq_Title :: gostring
  crq_TitleSnake :: gostring
  crq_UserProvidedTitle :: gostring
  crq_UserProvidedTitleSnake :: gostring
  crq_CandidateUserIDs :: "gostring list"
  crq_CandidateUserIDsSnake :: "gostring list"
  crq_CandidateUserPrincipalNames :: "gostring list"
  crq_CandidateUserPrincipalNamesSnake :: "gostring list"
  crq_CreatedByMicrosoftUserID :: gostring
  crq_CreatedByMicrosoftUserIDSnake :: gostring
  crq_CreatedByEmail :: gostring
  crq_CreatedByEmailSnake :: gostring
  crq_OrganizerUserID :: gostring
  crq_OrganizerUserIDSnake :: gostring
  crq_Purpose :: gostring
  crq_PurposeSnake :: gostring
  crq_Context :: gostring
  crq_ContextSnake :: gostring
  crq_Agenda :: gostring
  crq_AgendaSnake :: gostring
  crq_DecisionPoints :: gostring
  crq_DecisionPointsSnake :: gostring
  crq_Concerns :: gostring
  crq_ConcernsSnake :: gostring
  crq_ExpectedOutput :: gostring
  crq_ExpectedOutputSnake :: gostring
  crq_CustomInstruction :: gostring
  crq_CustomInstructionSnake :: gostring

record meetingSessionStatusUpdateRequest =
  stq_Status :: gostring
  stq_BotCallID :: gostring
  stq_BotCallIDSnake :: gostring
  stq_Message :: gostring
  stq_FailedReason :: gostring
  stq_FailedReasonSnake :: gostring
  stq_EndReason :: gostring
  stq_EndReasonSnake :: gostring
  stq_ErrorCode :: gostring
  stq_ErrorCodeSnake :: gostring
  stq_Source :: gostring
  stq_Title :: gostring
  stq_TitleSnake :: gostring
  stq_TitleSource :: gostring
  stq_TitleSourceSnake :: gostring
  stq_LastFinalSequenceNo :: int
  stq_LastFinalSequenceNoSnake :: int
  stq_TranscriptQueueDrained :: bool
  stq_TranscriptQueueDrainedSnake :: bool

record meetingSessionEndRequest =
  enq_Reason :: gostring
  enq_EndReason :: gostring
  enq_EndReasonSnake :: gostring
  enq_FailedReason :: gostring
  enq_FailedReasonRaw :: gostring

record meetingSessionMetadataUpdateRequest =
  mdq_Title :: gostring
  mdq_TitleSnake :: gostring
  mdq_TitleSource :: gostring
  mdq_TitleSourceSnake :: gostring
  mdq_UserProvidedTitle :: gostring
  mdq_UserProvidedTitleSnake :: gostring
  mdq_GraphTitle :: gostring
  mdq_GraphTitleSnake :: gostring
  mdq_Provider :: gostring
  mdq_ExternalMeetingID :: gostring
  mdq_ExternalMeetingIDSnake :: gostring
  mdq_JoinMeetingID :: gostring
  mdq_JoinMeetingIDSnake :: gostring
  mdq_JoinWebURL :: gostring
  mdq_JoinWebURLSnake :: gostring
  mdq_CanonicalJoinWebURL :: gostring
  mdq_CanonicalJoinWebURLSnake :: gostring
  mdq_ThreadID :: gostring
  mdq_ThreadIDSnake :: gostring
  mdq_OrganizerID :: gostring
  mdq_OrganizerIDSnake :: gostring
  mdq_OrganizerName :: gostring
  mdq_OrganizerNameSnake :: gostring
  mdq_OrganizerEmail :: gostring
  mdq_OrganizerEmailSnake :: gostring
  mdq_ScheduledStartAt :: gostring
  mdq_ScheduledStartAtSnake :: gostring
  mdq_ScheduledEndAt :: gostring
  mdq_ScheduledEndAtSnake :: gostring
  mdq_TitleResolutionErrorCode :: gostring
  mdq_TitleResolutionErrorCodeSnake :: gostring
  mdq_TitleResolutionErrorMessage :: gostring
  mdq_TitleResolutionErrorMessageSnake :: gostring
  mdq_TitleResolvedAt :: gostring
  mdq_TitleResolvedAtSnake :: gostring

record meetingSessionHeartbeatRequest =
  hbq_BotCallID :: gostring
  hbq_BotBuildVersion :: gostring
  hbq_BotGitCommitSHA :: gostring
  hbq_BotBuildTimestamp :: gostring
  hbq_BotDirtyBuild :: gostring
  hbq_LastAudioFrameAtUTC :: gostring
  hbq_LastNonZeroAudioAtUTC :: gostring
  hbq_LastNonEmptyTranscriptAtUTC :: gostring
  hbq_LastFinalTranscriptAtUTC :: gostring
  hbq_LastPeakAmplitude :: int
  hbq_LastRmsAmplitude :: real
  hbq_AudioFrameCount :: int
  hbq_FramesSinceLastNonZeroAudio :: int
  hbq_SecondsSinceLastNonZeroAudio :: int
  hbq_ActiveSpeakerRecognizerCount :: int
  hbq_MixedFallbackActive :: bool
  hbq_UnmixedAudioSeen :: bool
  hbq_LastAudioSocketReceiveStallAtUTC :: gostring
  hbq_AudioSocketReceiveStallCount :: int
  hbq_AudioStalled :: bool
  hbq_SpeechPipelineReady :: "bool option"
  hbq_SpeechStarted :: "bool option"
  hbq_SpeechAcceptingFrames :: "bool option"
  hbq_RecognizerCreated :: "bool option"
  hbq_PushStreamOpen :: "bool option"
  hbq_PipelineGeneration :: "int option"
  hbq_RecognizerInstanceIDHash :: gostring
  hbq_LastRecognizerStartedAtUTC :: gostring
  hbq_LastSpeechPartialAtUTC :: gostring
  hbq_LastSpeechFinalAtUTC :: gostring

record meetingSessionMediaHealthRequest =
  mhq_EventID :: gostring
  mhq_BotCallID :: gostring
  mhq_State :: gostring
  mhq_Event :: gostring
  mhq_Source :: gostring
  mhq_OccurredAtUTC :: gostring
  mhq_StartedAtUTC :: gostring
  mhq_LastAudioFrameAtUTC :: gostring
  mhq_DurationMilliseconds :: int

record agendaProgressOverrideRequest =
  apq_EntryID :: gostring
  apq_ManualStatus :: gostring
  apq_ManualCurrentTopicID :: gostring

section \<open>Accessors\<close>

definition uniqueRequestStrings :: "gostring list \<Rightarrow> gostring list" where
  "uniqueRequestStrings values = unique_loop [] [] values"

definition create_req_title :: "meetingSessionCreateRequest \<Rightarrow> gostring" where
  "create_req_title q = first_trimmed [crq_Title q, crq_TitleSnake q]"

definition create_req_userProvidedTitle :: "meetingSessionCreateRequest \<Rightarrow> gostring" where
  "create_req_userProvidedTitle q =
     first_trimmed [crq_UserProvidedTitle q, crq_UserProvidedTitleSnake q, crq_Title q, crq_TitleSnake q]"

definition create_req_candidateUserIDs :: "meetingSessionCreateRequest \<Rightarrow> gostring list" where
  "create_req_candidateUserIDs q = uniqueRequestStrings (crq_CandidateUserIDs q @ crq_CandidateUserIDsSnake q)"

definition create_req_candidateUserPrincipalNames :: "meetingSessionCreateRequest \<Rightarrow> gostring list" where
  "create_req_candidateUserPrincipalNames q = uniqueRequestStrings (crq_CandidateUserPrincipalNames q @ crq_CandidateUserPrincipalNamesSnake q)"

definition create_req_createdByMicrosoftUserID :: "meetingSessionCreateRequest \<Rightarrow> gostring" where
  "create_req_createdByMicrosoftUserID q =
     first_trimmed [crq_CreatedByMicrosoftUserID q, crq_CreatedByMicrosoftUserIDSnake q]"

definition create_req_createdByEmail :: "meetingSessionCreateRequest \<Rightarrow> gostring" where
  "create_req_createdByEmail q = first_trimmed [crq_CreatedByEmail q, crq_CreatedByEmailSnake q]"

definition create_req_organizerUserID :: "meetingSessionCreateRequest \<Rightarrow> gostring" where
  "create_req_organizerUserID q = first_trimmed [crq_OrganizerUserID q, crq_OrganizerUserIDSnake q]"

definition create_req_purpose :: "meetingSessionCreateRequest \<Rightarrow> gostring" where
  "create_req_purpose q = first_trimmed [crq_Purpose q, crq_PurposeSnake q]"

definition create_req_context :: "meetingSessionCreateRequest \<Rightarrow> gostring" where
  "create_req_context q = first_trimmed [crq_Context q, crq_ContextSnake q]"

definition create_req_agenda :: "meetingSessionCreateRequest \<Rightarrow> gostring" where
  "create_req_agenda q = first_trimmed [crq_Agenda q, crq_AgendaSnake q]"

definition create_req_decisionPoints :: "meetingSessionCreateRequest \<Rightarrow> gostring" where
  "create_req_decisionPoints q = first_trimmed [crq_DecisionPoints q, crq_DecisionPointsSnake q]"

definition create_req_concerns :: "meetingSessionCreateRequest \<Rightarrow> gostring" where
  "create_req_concerns q = first_trimmed [crq_Concerns q, crq_ConcernsSnake q]"

definition create_req_expectedOutput :: "meetingSessionCreateRequest \<Rightarrow> gostring" where
  "create_req_expectedOutput q = first_trimmed [crq_ExpectedOutput q, crq_ExpectedOutputSnake q]"

definition create_req_customInstruction :: "meetingSessionCreateRequest \<Rightarrow> gostring" where
  "create_req_customInstruction q =
     first_trimmed [crq_CustomInstruction q, crq_CustomInstructionSnake q]"

definition status_req_reason :: "meetingSessionStatusUpdateRequest \<Rightarrow> gostring" where
  "status_req_reason q =
     first_trimmed [stq_EndReason q, stq_EndReasonSnake q, stq_FailedReason q, stq_FailedReasonSnake q]"

definition status_req_errorCode :: "meetingSessionStatusUpdateRequest \<Rightarrow> gostring" where
  "status_req_errorCode q = first_trimmed [stq_ErrorCode q, stq_ErrorCodeSnake q]"

definition status_req_source :: "meetingSessionStatusUpdateRequest \<Rightarrow> gostring" where
  "status_req_source q = trim_space (stq_Source q)"

definition status_req_title :: "meetingSessionStatusUpdateRequest \<Rightarrow> gostring" where
  "status_req_title q = first_trimmed [stq_Title q, stq_TitleSnake q]"

definition status_req_titleSource :: "meetingSessionStatusUpdateRequest \<Rightarrow> gostring" where
  "status_req_titleSource q =
     first_trimmed [stq_TitleSource q, stq_TitleSourceSnake q]"

definition status_req_botCallID :: "meetingSessionStatusUpdateRequest \<Rightarrow> gostring" where
  "status_req_botCallID q = first_trimmed [stq_BotCallID q, stq_BotCallIDSnake q]"

definition status_req_lastFinalSequenceNo :: "meetingSessionStatusUpdateRequest \<Rightarrow> int" where
  "status_req_lastFinalSequenceNo q =
     (if 0 < stq_LastFinalSequenceNo q then stq_LastFinalSequenceNo q else stq_LastFinalSequenceNoSnake q)"

definition end_req_reason :: "meetingSessionEndRequest \<Rightarrow> gostring" where
  "end_req_reason q =
     first_trimmed [enq_Reason q, enq_EndReason q, enq_EndReasonSnake q, enq_FailedReason q, enq_FailedReasonRaw q]"

definition metadata_req_title :: "meetingSessionMetadataUpdateRequest \<Rightarrow> gostring" where
  "metadata_req_title q = first_trimmed [mdq_Title q, mdq_TitleSnake q]"

definition metadata_req_titleSource :: "meetingSessionMetadataUpdateRequest \<Rightarrow> gostring" where
  "metadata_req_titleSource q =
     first_trimmed [mdq_TitleSource q, mdq_TitleSourceSnake q]"

definition metadata_req_userProvidedTitle :: "meetingSessionMetadataUpdateRequest \<Rightarrow> gostring" where
  "metadata_req_userProvidedTitle q =
     first_trimmed [mdq_UserProvidedTitle q, mdq_UserProvidedTitleSnake q]"

definition metadata_req_graphTitle :: "meetingSessionMetadataUpdateRequest \<Rightarrow> gostring" where
  "metadata_req_graphTitle q =
     first_trimmed [mdq_GraphTitle q, mdq_GraphTitleSnake q]"

definition metadata_req_provider :: "meetingSessionMetadataUpdateRequest \<Rightarrow> gostring" where
  "metadata_req_provider q =
     trim_space (mdq_Provider q)"

definition metadata_req_externalMeetingID :: "meetingSessionMetadataUpdateRequest \<Rightarrow> gostring" where
  "metadata_req_externalMeetingID q =
     first_trimmed [mdq_ExternalMeetingID q, mdq_ExternalMeetingIDSnake q]"

definition metadata_req_joinMeetingID :: "meetingSessionMetadataUpdateRequest \<Rightarrow> gostring" where
  "metadata_req_joinMeetingID q =
     first_trimmed [mdq_JoinMeetingID q, mdq_JoinMeetingIDSnake q]"

definition metadata_req_joinWebURL :: "meetingSessionMetadataUpdateRequest \<Rightarrow> gostring" where
  "metadata_req_joinWebURL q =
     first_trimmed [mdq_JoinWebURL q, mdq_JoinWebURLSnake q]"

definition metadata_req_canonicalJoinWebURL :: "meetingSessionMetadataUpdateRequest \<Rightarrow> gostring" where
  "metadata_req_canonicalJoinWebURL q =
     first_trimmed [mdq_CanonicalJoinWebURL q, mdq_CanonicalJoinWebURLSnake q]"

definition metadata_req_threadID :: "meetingSessionMetadataUpdateRequest \<Rightarrow> gostring" where
  "metadata_req_threadID q =
     first_trimmed [mdq_ThreadID q, mdq_ThreadIDSnake q]"

definition metadata_req_organizerID :: "meetingSessionMetadataUpdateRequest \<Rightarrow> gostring" where
  "metadata_req_organizerID q =
     first_trimmed [mdq_OrganizerID q, mdq_OrganizerIDSnake q]"

definition metadata_req_organizerName :: "meetingSessionMetadataUpdateRequest \<Rightarrow> gostring" where
  "metadata_req_organizerName q =
     first_trimmed [mdq_OrganizerName q, mdq_OrganizerNameSnake q]"

definition metadata_req_organizerEmail :: "meetingSessionMetadataUpdateRequest \<Rightarrow> gostring" where
  "metadata_req_organizerEmail q =
     first_trimmed [mdq_OrganizerEmail q, mdq_OrganizerEmailSnake q]"

definition metadata_req_scheduledStartAt :: "meetingSessionMetadataUpdateRequest \<Rightarrow> gostring" where
  "metadata_req_scheduledStartAt q =
     first_trimmed [mdq_ScheduledStartAt q, mdq_ScheduledStartAtSnake q]"

definition metadata_req_scheduledEndAt :: "meetingSessionMetadataUpdateRequest \<Rightarrow> gostring" where
  "metadata_req_scheduledEndAt q =
     first_trimmed [mdq_ScheduledEndAt q, mdq_ScheduledEndAtSnake q]"

definition metadata_req_titleResolutionErrorCode :: "meetingSessionMetadataUpdateRequest \<Rightarrow> gostring" where
  "metadata_req_titleResolutionErrorCode q =
     first_trimmed [mdq_TitleResolutionErrorCode q, mdq_TitleResolutionErrorCodeSnake q]"

definition metadata_req_titleResolutionErrorMessage :: "meetingSessionMetadataUpdateRequest \<Rightarrow> gostring" where
  "metadata_req_titleResolutionErrorMessage q =
     first_trimmed [mdq_TitleResolutionErrorMessage q, mdq_TitleResolutionErrorMessageSnake q]"

definition metadata_req_titleResolvedAt :: "meetingSessionMetadataUpdateRequest \<Rightarrow> gostring" where
  "metadata_req_titleResolvedAt q =
     first_trimmed [mdq_TitleResolvedAt q, mdq_TitleResolvedAtSnake q]"

section \<open>Response bodies\<close>

record meetingSessionCreateResponse =
  crv_SessionID :: gostring
  crv_WorkspaceID :: gostring
  crv_CreatedByUserID :: gostring
  crv_MeetingID :: gostring
  crv_Title :: gostring
  crv_DisplayTitle :: gostring
  crv_TitleSource :: gostring
  crv_TitleUpdatedAt :: "gostring option"
  crv_UserProvidedTitle :: gostring
  crv_GraphTitle :: gostring
  crv_Provider :: gostring
  crv_ExternalMeetingID :: gostring
  crv_JoinMeetingID :: gostring
  crv_JoinWebURL :: gostring
  crv_CanonicalJoinWebURL :: gostring
  crv_ThreadID :: gostring
  crv_OrganizerID :: gostring
  crv_OrganizerName :: gostring
  crv_OrganizerEmail :: gostring
  crv_ScheduledStartAt :: "gostring option"
  crv_ScheduledEndAt :: "gostring option"
  crv_Purpose :: gostring
  crv_Context :: gostring
  crv_Agenda :: gostring
  crv_DecisionPoints :: gostring
  crv_Concerns :: gostring
  crv_ExpectedOutput :: gostring
  crv_CustomInstruction :: gostring
  crv_Status :: gostring
  crv_MeetingURLHash :: gostring
  crv_Reused :: bool
  crv_CreatedAt :: gostring
  crv_UpdatedAt :: gostring
  crv_BotCallID :: gostring

record meetingSessionResponse =
  msv_SessionID :: gostring
  msv_WorkspaceID :: gostring
  msv_CreatedByUserID :: gostring
  msv_MeetingID :: gostring
  msv_Title :: gostring
  msv_DisplayTitle :: gostring
  msv_TitleSource :: gostring
  msv_TitleUpdatedAt :: "gostring option"
  msv_UserProvidedTitle :: gostring
  msv_GraphTitle :: gostring
  msv_Provider :: gostring
  msv_ExternalMeetingID :: gostring
  msv_JoinMeetingID :: gostring
  msv_JoinWebURL :: gostring
  msv_CanonicalJoinWebURL :: gostring
  msv_ThreadID :: gostring
  msv_OrganizerID :: gostring
  msv_OrganizerName :: gostring
  msv_OrganizerEmail :: gostring
  msv_ScheduledStartAt :: "gostring option"
  msv_ScheduledEndAt :: "gostring option"
  msv_TitleResolutionErrorCode :: gostring
  msv_TitleResolutionErrorMessage :: gostring
  msv_TitleResolvedAt :: "gostring option"
  msv_Purpose :: gostring
  msv_Context :: gostring
  msv_Agenda :: gostring
  msv_DecisionPoints :: gostring
  msv_Concerns :: gostring
  msv_ExpectedOutput :: gostring
  msv_CustomInstruction :: gostring
  msv_Status :: gostring
  msv_MeetingURLHash :: gostring
  msv_BotCallID :: gostring
  msv_CreatedAt :: gostring
  msv_UpdatedAt :: gostring
  msv_RequestedAt :: gostring
  msv_CommandSentAt :: "gostring option"
  msv_JoinedAt :: "gostring option"
  msv_EndedAt :: "gostring option"
  msv_EndReason :: "gostring option"
  msv_LastBotStatusAt :: "gostring option"
  msv_LastError :: "gostring option"

record meetingSessionDebugResponse =
  dbv_SessionID :: gostring
  dbv_WorkspaceID :: gostring
  dbv_CreatedByUserID :: gostring
  dbv_MeetingID :: gostring
  dbv_Title :: gostring
  dbv_TitleSource :: gostring
  dbv_UserProvidedTitle :: gostring
  dbv_GraphTitle :: gostring
  dbv_Provider :: gostring
  dbv_ExternalMeetingID :: gostring
  dbv_JoinMeetingID :: gostring
  dbv_ThreadID :: gostring
  dbv_OrganizerID :: gostring
  dbv_MeetingURLHash :: gostring
  dbv_Status :: gostring
  dbv_CreatedAt :: gostring
  dbv_UpdatedAt :: gostring
  dbv_LastTranscriptAt :: "gostring option"
  dbv_BotCallID :: gostring

record meetingFinalSummaryPreviewResponse =
  fpv_SessionID :: gostring
  fpv_Overview :: gostring

record meetingAIAnalysisResponse =
  anv_AnalysisType :: gostring
  anv_Status :: gostring
  anv_Version :: int
  anv_Payload :: gostring
  anv_Model :: gostring
  anv_UpdatedAtUTC :: gostring
  anv_Error :: gostring

definition optionalTime :: "(gotime \<Rightarrow> gostring) \<Rightarrow> gotime \<Rightarrow> gostring option" where
  "optionalTime rfc t = (if is_zero t then None else Some (rfc t))"

definition optionalString :: "gostring \<Rightarrow> gostring option" where
  "optionalString s = (let v = trim_space s in if v = [] then None else Some v)"

definition meetingSessionCreateResponse_of ::
    "(gotime \<Rightarrow> gostring) \<Rightarrow> bool \<Rightarrow> MeetingSession \<Rightarrow> meetingSessionCreateResponse" where
  "meetingSessionCreateResponse_of rfc reused s =
     \<lparr>crv_SessionID = ms_ID s, crv_WorkspaceID = ms_WorkspaceID s,
      crv_CreatedByUserID = ms_CreatedByUserID s, crv_MeetingID = ms_MeetingID s,
      crv_Title = ms_Title s, crv_DisplayTitle = ms_Title s,
      crv_TitleSource = ms_TitleSource s,
      crv_TitleUpdatedAt = optionalTime rfc (ms_TitleUpdatedAt s),
      crv_UserProvidedTitle = ms_UserProvidedTitle s, crv_GraphTitle = ms_GraphTitle s,
      crv_Provider = ms_Provider s, crv_ExternalMeetingID = ms_ExternalMeetingID s,
      crv_JoinMeetingID = ms_JoinMeetingID s, crv_JoinWebURL = ms_JoinWebURL s,
      crv_CanonicalJoinWebURL = ms_CanonicalJoinWebURL s, crv_ThreadID = ms_ThreadID s,
      crv_OrganizerID = ms_OrganizerID s, crv_OrganizerName = ms_OrganizerName s,
      crv_OrganizerEmail = ms_OrganizerEmail s,
      crv_ScheduledStartAt = optionalTime rfc (ms_ScheduledStartAt s),
      crv_ScheduledEndAt = optionalTime rfc (ms_ScheduledEndAt s), crv_Purpose = ms_Purpose s,
      crv_Context = ms_Context s, crv_Agenda = ms_Agenda s,
      crv_DecisionPoints = ms_DecisionPoints s, crv_Concerns = ms_Concerns s,
      crv_ExpectedOutput = ms_ExpectedOutput s, crv_CustomInstruction = ms_CustomInstruction s,
      crv_Status = status_text (ms_Status s), crv_MeetingURLHash = ms_JoinURLHash s,
      crv_Reused = reused, crv_CreatedAt = rfc (ms_CreatedAt s),
      crv_UpdatedAt = rfc (ms_UpdatedAt s), crv_BotCallID = ms_BotCallID s\<rparr>"

definition meetingSessionResponseFromDomain ::
    "(gotime \<Rightarrow> gostring) \<Rightarrow> MeetingSession \<Rightarrow> meetingSessionResponse" where
  "meetingSessionResponseFromDomain rfc s =
     \<lparr>msv_SessionID = ms_ID s, msv_WorkspaceID = ms_WorkspaceID s,
      msv_CreatedByUserID = ms_CreatedByUserID s, msv_MeetingID = ms_MeetingID s,
      msv_Title = ms_Title s, msv_DisplayTitle = ms_Title s,
      msv_TitleSource = ms_TitleSource s,
      msv_TitleUpdatedAt = optionalTime rfc (ms_TitleUpdatedAt s),
      msv_UserProvidedTitle = ms_UserProvidedTitle s, msv_GraphTitle = ms_GraphTitle s,
      msv_Provider = ms_Provider s, msv_ExternalMeetingID = ms_ExternalMeetingID s,
      msv_JoinMeetingID = ms_JoinMeetingID s, msv_JoinWebURL = ms_JoinWebURL s,
      msv_CanonicalJoinWebURL = ms_CanonicalJoinWebURL s, msv_ThreadID = ms_ThreadID s,
      msv_OrganizerID = ms_OrganizerID s, msv_OrganizerName = ms_OrganizerName s,
      msv_OrganizerEmail = ms_OrganizerEmail s,
      msv_ScheduledStartAt = optionalTime rfc (ms_ScheduledStartAt s),
      msv_ScheduledEndAt = optionalTime rfc (ms_ScheduledEndAt s),
      msv_TitleResolutionErrorCode = ms_TitleResolutionErrorCode s,
      msv_TitleResolutionErrorMessage = ms_TitleResolutionErrorMessage s,
      msv_TitleResolvedAt = optionalTime rfc (ms_TitleResolvedAt s),
      msv_Purpose = ms_Purpose s, msv_Context = ms_Context s, msv_Agenda = ms_Agenda s,
      msv_DecisionPoints = ms_DecisionPoints s, msv_Concerns = ms_Concerns s,
      msv_ExpectedOutput = ms_ExpectedOutput s, msv_CustomInstruction = ms_CustomInstruction s,
      msv_Status = status_text (ms_Status s), msv_MeetingURLHash = ms_JoinURLHash s,
      msv_BotCallID = ms_BotCallID s, msv_CreatedAt = rfc (ms_CreatedAt s),
      msv_UpdatedAt = rfc (ms_UpdatedAt s), msv_RequestedAt = rfc (ms_RequestedAt s),
      msv_CommandSentAt = optionalTime rfc (ms_CommandSentAt s),
      msv_JoinedAt = optionalTime rfc (ms_JoinedAt s),
      msv_EndedAt = optionalTime rfc (ms_EndedAt s),
      msv_EndReason = optionalString (ms_EndReason s),
      msv_LastBotStatusAt = optionalTime rfc (ms_LastBotStatusAt s),
      msv_LastError = optionalString (ms_LastError s)\<rparr>"

definition meetingSessionDebugResponse_of ::
    "(gotime \<Rightarrow> gostring) \<Rightarrow> MeetingSession \<times> gotime \<Rightarrow> meetingSessionDebugResponse" where
  "meetingSessionDebugResponse_of rfc = (\<lambda>(s, lastTranscriptAt).
     \<lparr>dbv_SessionID = ms_ID s, dbv_WorkspaceID = ms_WorkspaceID s,
      dbv_CreatedByUserID = ms_CreatedByUserID s, dbv_MeetingID = ms_MeetingID s,
      dbv_Title = ms_Title s, dbv_TitleSource = ms_TitleSource s,
      dbv_UserProvidedTitle = ms_UserProvidedTitle s, dbv_GraphTitle = ms_GraphTitle s,
      dbv_Provider = ms_Provider s, dbv_ExternalMeetingID = ms_ExternalMeetingID s,
      dbv_JoinMeetingID = ms_JoinMeetingID s, dbv_ThreadID = ms_ThreadID s,
      dbv_OrganizerID = ms_OrganizerID s, dbv_MeetingURLHash = ms_JoinURLHash s,
      dbv_Status = status_text (ms_Status s), dbv_CreatedAt = rfc (ms_CreatedAt s),
      dbv_UpdatedAt = rfc (ms_UpdatedAt s),
      dbv_LastTranscriptAt = optionalTime rfc lastTranscriptAt, dbv_BotCallID = ms_BotCallID s\<rparr>)"

section \<open>AI analyses\<close>

record MeetingAIAnalysesSnapshot =
  sn_SessionID :: gostring
  sn_Live :: "MeetingAIAnalysis option"
  sn_Final :: "MeetingAIAnalysis option"
  sn_Tree :: "MeetingAIAnalysis option"
  sn_Finalization :: "MeetingAIAnalysis option"
  sn_LiveHistory :: "MeetingAIAnalysis list"
  sn_LiveIntervalSeconds :: int

record meetingAIAnalysesResponse =
  asv_SessionID :: gostring
  asv_Live :: "meetingAIAnalysisResponse option"
  asv_Final :: "meetingAIAnalysisResponse option"
  asv_Tree :: "meetingAIAnalysisResponse option"
  asv_Finalization :: "meetingAIAnalysisResponse option"
  asv_LiveHistory :: "meetingAIAnalysisResponse list"
  asv_LiveIntervalSeconds :: int

definition meetingAIAnalysisResponseFromDomain ::
    "(gotime \<Rightarrow> gostring) \<Rightarrow> MeetingAIAnalysis \<Rightarrow> meetingAIAnalysisResponse" where
  "meetingAIAnalysisResponseFromDomain rfc a =
     \<lparr>anv_AnalysisType = analysis_type_text (aa_Type a),
      anv_Status = analysis_status_text (aa_Status a), anv_Version = aa_Version a,
      anv_Payload = aa_Payload a, anv_Model = aa_Model a, anv_UpdatedAtUTC = rfc (aa_UpdatedAt a),
      anv_Error = aa_LastError a\<rparr>"

definition meetingAIAnalysesResponseFromSnapshot ::
    "(gotime \<Rightarrow> gostring) \<Rightarrow> gostring \<Rightarrow> MeetingAIAnalysesSnapshot option \<Rightarrow>
     meetingAIAnalysesResponse" where
  "meetingAIAnalysesResponseFromSnapshot rfc sessionID snapshot =
     (case snapshot of
        None \<Rightarrow> \<lparr>asv_SessionID = sessionID, asv_Live = None, asv_Final = None, asv_Tree = None,
                 asv_Finalization = None, asv_LiveHistory = [], asv_LiveIntervalSeconds = 0\<rparr>
      | Some n \<Rightarrow>
          (let view = map_option (meetingAIAnalysisResponseFromDomain rfc) in
           \<lparr>asv_SessionID = sessionID, asv_Live = view (sn_Live n), asv_Final = view (sn_Final n),
            asv_Tree = view (sn_Tree n), asv_Finalization = view (sn_Finalization n),
            asv_LiveHistory = map (meetingAIAnalysisResponseFromDomain rfc) (sn_LiveHistory n),
            asv_LiveIntervalSeconds = sn_LiveIntervalSeconds n\<rparr>))"

record MeetingFinalSummaryPreview =
  fp_SummarySessionID :: gostring
  fp_Overview :: gostring

definition meetingFinalSummaryPreviewResponsesFromDomain ::
    "MeetingFinalSummaryPreview list \<Rightarrow> meetingFinalSummaryPreviewResponse list" where
  "meetingFinalSummaryPreviewResponsesFromDomain previews =
     map (\<lambda>p. \<lparr>fpv_SessionID = fp_SummarySessionID p, fpv_Overview = fp_Overview p\<rparr>) previews"

section \<open>Limits, overrides, metrics\<close>

text \<open>\<open>parseMeetingSessionDebugLimit\<close>: \<open>None\<close> is its error.\<close>

definition parseMeetingSessionDebugLimit :: "gostring \<Rightarrow> int option" where
  "parseMeetingSessionDebugLimit value0 =
     (let value = trim_space value0 in
      if value = [] then Some 100
      else (case parse_int64 value of
          None \<Rightarrow> None
        | Some limit \<Rightarrow> if limit < 1 then None else if 500 < limit then Some 500 else Some limit))"

record AgendaProgressOverrideInput =
  ao_EntryID :: gostring
  ao_ManualStatus :: "gostring option"
  ao_ManualCurrentSet :: bool
  ao_ManualCurrentID :: gostring

text \<open>\<open>js\<close> is \<open>json.Unmarshal\<close> into a string, \<open>None\<close> when it fails.\<close>

definition toOverrideInput ::
    "(gostring \<Rightarrow> gostring option) \<Rightarrow> agendaProgressOverrideRequest \<Rightarrow>
     gostring + AgendaProgressOverrideInput" where
  "toOverrideInput js q =
     (let entryID = trim_space (apq_EntryID q);
          hasStatusOp = (apq_ManualStatus q \<noteq> []);
          hasCurrentOp = (apq_ManualCurrentTopicID q \<noteq> []);
          none = \<lparr>ao_EntryID = [], ao_ManualStatus = None, ao_ManualCurrentSet = False,
                  ao_ManualCurrentID = []\<rparr> in
      if hasStatusOp = hasCurrentOp
      then Inl ''exactly one of manualStatus or manualCurrentTopicId is required''
      else if hasStatusOp then
        (if entryID = [] then Inl ''entryId is required with manualStatus''
         else if apq_ManualStatus q = ''null''
         then Inr (none\<lparr>ao_EntryID := entryID, ao_ManualStatus := Some []\<rparr>)
         else (case js (apq_ManualStatus q) of
             None \<Rightarrow> Inl ''manualStatus must be a status string or null''
           | Some status \<Rightarrow>
               if trim_space status = [] then Inl ''manualStatus must be a status string or null''
               else Inr (none\<lparr>ao_EntryID := entryID, ao_ManualStatus := Some status\<rparr>)))
      else if entryID \<noteq> [] then Inl ''entryId cannot be combined with manualCurrentTopicId''
      else if apq_ManualCurrentTopicID q = ''null'' then Inr (none\<lparr>ao_ManualCurrentSet := True\<rparr>)
      else (case js (apq_ManualCurrentTopicID q) of
          None \<Rightarrow> Inl ''manualCurrentTopicId must be an id string or null''
        | Some currentID \<Rightarrow>
            if trim_space currentID = [] then Inl ''manualCurrentTopicId must be an id string or null''
            else Inr (none\<lparr>ao_ManualCurrentSet := True, ao_ManualCurrentID := currentID\<rparr>)))"

definition parseOptionalRFC3339 :: "api_lib \<Rightarrow> gostring \<Rightarrow> gotime" where
  "parseOptionalRFC3339 lib value0 =
     (let value = trim_space value0 in
      if value = [] then 0
      else (case lb_parse_time lib value of None \<Rightarrow> 0 | Some (t, offset) \<Rightarrow> t))"

definition boolValue :: "bool option \<Rightarrow> bool" where
  "boolValue v = (v = Some True)"

definition int64Value :: "int option \<Rightarrow> int" where
  "int64Value v = (case v of None \<Rightarrow> 0 | Some n \<Rightarrow> n)"

definition hasBuildFingerprint :: "meetingSessionHeartbeatRequest \<Rightarrow> bool" where
  "hasBuildFingerprint q \<longleftrightarrow>
     trim_space (hbq_BotBuildVersion q) \<noteq> [] \<or> trim_space (hbq_BotGitCommitSHA q) \<noteq> [] \<or>
     trim_space (hbq_BotBuildTimestamp q) \<noteq> [] \<or> trim_space (hbq_BotDirtyBuild q) \<noteq> []"

definition hasSpeechPipelineMetrics :: "meetingSessionHeartbeatRequest \<Rightarrow> bool" where
  "hasSpeechPipelineMetrics q \<longleftrightarrow>
     hbq_SpeechPipelineReady q \<noteq> None \<or> hbq_SpeechStarted q \<noteq> None \<or>
     hbq_SpeechAcceptingFrames q \<noteq> None \<or> hbq_RecognizerCreated q \<noteq> None \<or>
     hbq_PushStreamOpen q \<noteq> None \<or> hbq_PipelineGeneration q \<noteq> None \<or>
     trim_space (hbq_RecognizerInstanceIDHash q) \<noteq> [] \<or>
     trim_space (hbq_LastRecognizerStartedAtUTC q) \<noteq> [] \<or>
     trim_space (hbq_LastSpeechPartialAtUTC q) \<noteq> [] \<or>
     trim_space (hbq_LastSpeechFinalAtUTC q) \<noteq> []"

definition heartbeat_metrics :: "api_lib \<Rightarrow> meetingSessionHeartbeatRequest \<Rightarrow> BotMediaMetrics" where
  "heartbeat_metrics lib q =
     \<lparr>mm_ReceivedAt = 0,
      mm_BotBuildVersion = trim_space (hbq_BotBuildVersion q),
      mm_BotGitCommitSHA = trim_space (hbq_BotGitCommitSHA q),
      mm_BotBuildTimestamp = trim_space (hbq_BotBuildTimestamp q),
      mm_BotDirtyBuild = trim_space (hbq_BotDirtyBuild q),
      mm_LastAudioFrameAt = parseOptionalRFC3339 lib (hbq_LastAudioFrameAtUTC q),
      mm_LastNonZeroAudioAt = parseOptionalRFC3339 lib (hbq_LastNonZeroAudioAtUTC q),
      mm_LastNonEmptyTranscriptAt = parseOptionalRFC3339 lib (hbq_LastNonEmptyTranscriptAtUTC q),
      mm_LastFinalTranscriptAt = parseOptionalRFC3339 lib (hbq_LastFinalTranscriptAtUTC q),
      mm_LastPeakAmplitude = hbq_LastPeakAmplitude q,
      mm_LastRmsAmplitude = hbq_LastRmsAmplitude q,
      mm_AudioFrameCount = hbq_AudioFrameCount q,
      mm_FramesSinceLastNonZeroAudio = hbq_FramesSinceLastNonZeroAudio q,
      mm_SecondsSinceLastNonZeroAudio = hbq_SecondsSinceLastNonZeroAudio q,
      mm_ActiveSpeakerRecognizerCount = hbq_ActiveSpeakerRecognizerCount q,
      mm_MixedFallbackActive = hbq_MixedFallbackActive q,
      mm_UnmixedAudioSeen = hbq_UnmixedAudioSeen q,
      mm_LastAudioSocketReceiveStallAt = parseOptionalRFC3339 lib (hbq_LastAudioSocketReceiveStallAtUTC q),
      mm_AudioSocketReceiveStallCount = hbq_AudioSocketReceiveStallCount q,
      mm_AudioStalled = hbq_AudioStalled q,
      mm_SpeechPipelineReady = boolValue (hbq_SpeechPipelineReady q),
      mm_SpeechStarted = boolValue (hbq_SpeechStarted q),
      mm_SpeechAcceptingFrames = boolValue (hbq_SpeechAcceptingFrames q),
      mm_RecognizerCreated = boolValue (hbq_RecognizerCreated q),
      mm_PushStreamOpen = boolValue (hbq_PushStreamOpen q),
      mm_PipelineGeneration = int64Value (hbq_PipelineGeneration q),
      mm_RecognizerInstanceIDHash = trim_space (hbq_RecognizerInstanceIDHash q),
      mm_LastRecognizerStartedAt = parseOptionalRFC3339 lib (hbq_LastRecognizerStartedAtUTC q),
      mm_LastSpeechPartialAt = parseOptionalRFC3339 lib (hbq_LastSpeechPartialAtUTC q),
      mm_LastSpeechFinalAt = parseOptionalRFC3339 lib (hbq_LastSpeechFinalAtUTC q),
      mm_HasSpeechPipelineMetrics = hasSpeechPipelineMetrics q,
      mm_HasMetrics = False\<rparr>"

text \<open>\<open>botMediaMetrics\<close>: the metrics and whether the heartbeat carried any.\<close>

definition botMediaMetrics ::
    "api_lib \<Rightarrow> meetingSessionHeartbeatRequest \<Rightarrow> BotMediaMetrics \<times> bool" where
  "botMediaMetrics lib q =
     (let m = heartbeat_metrics lib q;
          has = (hasBuildFingerprint q \<or> \<not> is_zero (mm_LastAudioFrameAt m) \<or>
            \<not> is_zero (mm_LastNonZeroAudioAt m) \<or> \<not> is_zero (mm_LastNonEmptyTranscriptAt m) \<or>
            \<not> is_zero (mm_LastFinalTranscriptAt m) \<or> mm_LastPeakAmplitude m \<noteq> 0 \<or>
            mm_LastRmsAmplitude m \<noteq> 0 \<or> mm_AudioFrameCount m \<noteq> 0 \<or>
            mm_FramesSinceLastNonZeroAudio m \<noteq> 0 \<or> mm_SecondsSinceLastNonZeroAudio m \<noteq> 0 \<or>
            mm_ActiveSpeakerRecognizerCount m \<noteq> 0 \<or> mm_MixedFallbackActive m \<or>
            mm_UnmixedAudioSeen m \<or> \<not> is_zero (mm_LastAudioSocketReceiveStallAt m) \<or>
            mm_AudioSocketReceiveStallCount m \<noteq> 0 \<or> mm_AudioStalled m \<or>
            mm_HasSpeechPipelineMetrics m)
      in (m\<lparr>mm_HasMetrics := has\<rparr>, has))"

text \<open>The zero request of a heartbeat without a body.\<close>

definition empty_heartbeat :: meetingSessionHeartbeatRequest where
  "empty_heartbeat =
     \<lparr>hbq_BotCallID = [], hbq_BotBuildVersion = [], hbq_BotGitCommitSHA = [],
      hbq_BotBuildTimestamp = [], hbq_BotDirtyBuild = [], hbq_LastAudioFrameAtUTC = [],
      hbq_LastNonZeroAudioAtUTC = [], hbq_LastNonEmptyTranscriptAtUTC = [],
      hbq_LastFinalTranscriptAtUTC = [], hbq_LastPeakAmplitude = 0, hbq_LastRmsAmplitude = 0,
      hbq_AudioFrameCount = 0, hbq_FramesSinceLastNonZeroAudio = 0,
      hbq_SecondsSinceLastNonZeroAudio = 0, hbq_ActiveSpeakerRecognizerCount = 0,
      hbq_MixedFallbackActive = False, hbq_UnmixedAudioSeen = False,
      hbq_LastAudioSocketReceiveStallAtUTC = [], hbq_AudioSocketReceiveStallCount = 0,
      hbq_AudioStalled = False, hbq_SpeechPipelineReady = None, hbq_SpeechStarted = None,
      hbq_SpeechAcceptingFrames = None, hbq_RecognizerCreated = None, hbq_PushStreamOpen = None,
      hbq_PipelineGeneration = None, hbq_RecognizerInstanceIDHash = [],
      hbq_LastRecognizerStartedAtUTC = [], hbq_LastSpeechPartialAtUTC = [],
      hbq_LastSpeechFinalAtUTC = []\<rparr>"

lemma empty_heartbeat_has_no_metrics [simp]: "\<not> snd (botMediaMetrics lib empty_heartbeat)"
  by (simp add: botMediaMetrics_def heartbeat_metrics_def empty_heartbeat_def hasBuildFingerprint_def
      hasSpeechPipelineMetrics_def parseOptionalRFC3339_def is_zero_def boolValue_def)

text \<open>The inputs the handlers build for the service.\<close>

definition create_input ::
    "MeetingSessionCreateInput \<Rightarrow> meetingSessionCreateRequest \<Rightarrow> MeetingSessionCreateInput" where
  "create_input defaults q =
     defaults\<lparr>ci_JoinURL := crq_JoinURL q, ci_Title := create_req_title q,
       ci_UserProvidedTitle := create_req_userProvidedTitle q,
       ci_CandidateUserIDs := create_req_candidateUserIDs q,
       ci_CandidateUserPrincipalNames := create_req_candidateUserPrincipalNames q,
       ci_CreatedByMicrosoftUserID := create_req_createdByMicrosoftUserID q,
       ci_CreatedByEmail :=
         (if create_req_createdByEmail q \<noteq> [] \<or> ci_CreatedByEmail defaults = []
          then create_req_createdByEmail q else ci_CreatedByEmail defaults),
       ci_OrganizerUserID := create_req_organizerUserID q,
       ci_Purpose := create_req_purpose q, ci_Context := create_req_context q,
       ci_Agenda := create_req_agenda q, ci_DecisionPoints := create_req_decisionPoints q,
       ci_Concerns := create_req_concerns q, ci_ExpectedOutput := create_req_expectedOutput q,
       ci_CustomInstruction := create_req_customInstruction q\<rparr>"

definition status_input ::
    "gostring \<Rightarrow> meetingSessionStatusUpdateRequest \<Rightarrow> MeetingSessionStatusUpdateInput" where
  "status_input sessionID q =
     \<lparr>si_SessionID = sessionID, si_Status = stq_Status q, si_BotCallID = status_req_botCallID q,
      si_Message = stq_Message q, si_Reason = status_req_reason q,
      si_ErrorCode = status_req_errorCode q, si_Source = status_req_source q,
      si_Title = status_req_title q, si_TitleSource = status_req_titleSource q,
      si_BotLastForwardedFinalSequence = status_req_lastFinalSequenceNo q,
      si_TranscriptQueueDrained = (stq_TranscriptQueueDrained q \<or> stq_TranscriptQueueDrainedSnake q)\<rparr>"

definition metadata_input ::
    "gostring \<Rightarrow> meetingSessionMetadataUpdateRequest \<Rightarrow> MeetingSessionMetadataUpdateInput" where
  "metadata_input sessionID q =
     \<lparr>mi_SessionID = sessionID, mi_Title = metadata_req_title q,
      mi_TitleSource = metadata_req_titleSource q,
      mi_UserProvidedTitle = metadata_req_userProvidedTitle q,
      mi_GraphTitle = metadata_req_graphTitle q, mi_Provider = metadata_req_provider q,
      mi_ExternalMeetingID = metadata_req_externalMeetingID q,
      mi_JoinMeetingID = metadata_req_joinMeetingID q, mi_JoinWebURL = metadata_req_joinWebURL q,
      mi_CanonicalJoinWebURL = metadata_req_canonicalJoinWebURL q,
      mi_ThreadID = metadata_req_threadID q, mi_OrganizerID = metadata_req_organizerID q,
      mi_OrganizerName = metadata_req_organizerName q,
      mi_OrganizerEmail = metadata_req_organizerEmail q,
      mi_ScheduledStartAt = metadata_req_scheduledStartAt q,
      mi_ScheduledEndAt = metadata_req_scheduledEndAt q,
      mi_TitleResolutionErrorCode = metadata_req_titleResolutionErrorCode q,
      mi_TitleResolutionErrorMessage = metadata_req_titleResolutionErrorMessage q,
      mi_TitleResolvedAt = metadata_req_titleResolvedAt q, mi_Purpose = [], mi_Context = [],
      mi_Agenda = [], mi_DecisionPoints = [], mi_Concerns = [], mi_ExpectedOutput = [],
      mi_CustomInstruction = []\<rparr>"

definition media_update :: "api_lib \<Rightarrow> meetingSessionMediaHealthRequest \<Rightarrow> BotMediaHealthUpdate" where
  "media_update lib q =
     \<lparr>mu_EventID = mhq_EventID q, mu_BotCallID = mhq_BotCallID q, mu_State = mhq_State q,
      mu_Event = mhq_Event q, mu_Source = mhq_Source q,
      mu_OccurredAt = parseOptionalRFC3339 lib (mhq_OccurredAtUTC q),
      mu_StartedAt = parseOptionalRFC3339 lib (mhq_StartedAtUTC q),
      mu_LastAudioFrameAt = parseOptionalRFC3339 lib (mhq_LastAudioFrameAtUTC q),
      mu_DurationMilliseconds = mhq_DurationMilliseconds q\<rparr>"

end
