(* ===== verification/Scrubbing.thy ===== *)
theory Scrubbing
  imports SessionRules "HOL-Library.Sublist"
begin

text \<open>
  The masking of secrets in texts (\<open>scrubSecrets\<close> of \<open>client_diagnostics.go\<close>).  Each of the three
  regular expressions is given twice: as the matcher the code runs, which returns the length of
  the match at the start of a text, and as the set of texts it describes.  The locale \<open>scrubber\<close>
  states what relates the two; inside it, the result of \<open>ReplaceAllString\<close> contains no text of the
  set, and later replacements never bring back what an earlier one removed.

  The matchers are deterministic because the character after each repetition is not in the
  repeated class, except for the domain of an e-mail address, where the last possible dot is
  taken, as the greedy match with backtracking does.
\<close>

section \<open>Character classes\<close>

abbreviation byte :: "char \<Rightarrow> nat" where "byte c \<equiv> of_char c"

definition is_upper :: "char \<Rightarrow> bool" where "is_upper c \<longleftrightarrow> 65 \<le> byte c \<and> byte c \<le> 90"
definition is_lower :: "char \<Rightarrow> bool" where "is_lower c \<longleftrightarrow> 97 \<le> byte c \<and> byte c \<le> 122"
definition is_letter :: "char \<Rightarrow> bool" where "is_letter c \<longleftrightarrow> is_upper c \<or> is_lower c"

definition jwt_char :: "char \<Rightarrow> bool" where
  "jwt_char c \<longleftrightarrow> is_letter c \<or> is_digit c \<or> c = CHR ''_'' \<or> c = CHR ''-''"

definition bearer_char :: "char \<Rightarrow> bool" where
  "bearer_char c \<longleftrightarrow> is_letter c \<or> is_digit c \<or> c = CHR ''.'' \<or> c = CHR ''_'' \<or> c = CHR ''-''"

definition local_char :: "char \<Rightarrow> bool" where
  "local_char c \<longleftrightarrow> is_letter c \<or> is_digit c \<or> c \<in> {CHR ''.'', CHR ''_'', CHR ''%'', CHR ''+'', CHR ''-''}"

definition domain_char :: "char \<Rightarrow> bool" where
  "domain_char c \<longleftrightarrow> is_letter c \<or> is_digit c \<or> c = CHR ''.'' \<or> c = CHR ''-''"

definition blank_char :: "char \<Rightarrow> bool" where
  "blank_char c \<longleftrightarrow> byte c \<in> {9, 10, 12, 13, 32}"

lemmas char_classes = is_upper_def is_lower_def is_letter_def jwt_char_def bearer_char_def
  local_char_def domain_char_def blank_char_def is_digit_def

section \<open>The three patterns\<close>

text \<open>\<open>eyJ[A-Za-z0-9_\-]{8,}\.[A-Za-z0-9_\-]{8,}(?:\.[A-Za-z0-9_\-]+)?\<close>\<close>

definition match_jwt :: "gostring \<Rightarrow> nat option" where
  "match_jwt s =
     (if \<not> has_prefix s ''eyJ'' then None
      else (let a = takeWhile jwt_char (drop 3 s); r = dropWhile jwt_char (drop 3 s) in
        if length a < 8 \<or> r = [] \<or> hd r \<noteq> CHR ''.'' then None
        else (let b = takeWhile jwt_char (tl r); r' = dropWhile jwt_char (tl r) in
          if length b < 8 then None
          else (let c = (if r' \<noteq> [] \<and> hd r' = CHR ''.'' then takeWhile jwt_char (tl r') else []) in
            Some (4 + length a + length b + (if c = [] then 0 else Suc (length c)))))))"

text \<open>
  \<open>(?i)bearer\s+[A-Za-z0-9._\-]+\<close>.  Case folding adds U+017F and U+212A to the class (they fold to
  \<open>s\<close> and \<open>k\<close>); \<open>bearer_rune\<close> is the length of the character of the folded class at the start of
  a text, 0 if there is none, and \<open>bearer_run\<close> the length of the longest run of them.
\<close>

definition bearer_rune :: "gostring \<Rightarrow> nat" where
  "bearer_rune s =
     (if s \<noteq> [] \<and> bearer_char (hd s) then 1
      else if has_prefix s [CHR 0xC5, CHR 0xBF] then 2
      else if has_prefix s [CHR 0xE2, CHR 0x84, CHR 0xAA] then 3
      else 0)"

lemma bearer_rune_le: "bearer_rune s \<le> length s"
  by (cases s) (auto simp: bearer_rune_def has_prefix_def Suc_le_eq take_Suc split: nat.splits
      dest!: arg_cong [where f = length])

function bearer_run :: "gostring \<Rightarrow> nat" where
  "bearer_run s =
     (if bearer_rune s = 0 then 0 else bearer_rune s + bearer_run (drop (bearer_rune s) s))"
  by pat_completeness auto
termination
proof (relation "measure length")
  fix s :: gostring
  assume "bearer_rune s \<noteq> 0"
  with bearer_rune_le [of s] show "(drop (bearer_rune s) s, s) \<in> measure length" by simp
qed simp

declare bearer_run.simps [simp del]

definition match_bearer :: "gostring \<Rightarrow> nat option" where
  "match_bearer s =
     (if map ascii_lower (take 6 s) \<noteq> ''bearer'' then None
      else (let w = takeWhile blank_char (drop 6 s); r = dropWhile blank_char (drop 6 s) in
        if w = [] \<or> bearer_run r = 0 then None else Some (6 + length w + bearer_run r)))"

text \<open>\<open>[A-Za-z0-9._%+\-]+@[A-Za-z0-9.\-]+\.[A-Za-z]{2,}\<close>\<close>

definition tld_at :: "gostring \<Rightarrow> nat \<Rightarrow> bool" where
  "tld_at run i \<longleftrightarrow> 0 < i \<and> i + 2 < length run \<and> run ! i = CHR ''.'' \<and>
     is_letter (run ! (i + 1)) \<and> is_letter (run ! (i + 2))"

definition match_email :: "gostring \<Rightarrow> nat option" where
  "match_email s =
     (let l = takeWhile local_char s; r = dropWhile local_char s in
      if l = [] \<or> r = [] \<or> hd r \<noteq> CHR ''@'' then None
      else (let run = takeWhile domain_char (tl r) in
        case rev (filter (tld_at run) [0..<length run]) of
          [] \<Rightarrow> None
        | i # _ \<Rightarrow> Some (length l + 1 + i + 1 + length (takeWhile is_letter (drop (i + 1) run)))))"

definition redactedPlaceholder :: gostring where "redactedPlaceholder = ''[redacted]''"

text \<open>\<open>ReplaceAllString\<close>: at each position the match is replaced and the scan goes on behind it.\<close>

function replace_all :: "(gostring \<Rightarrow> nat option) \<Rightarrow> gostring \<Rightarrow> gostring" where
  "replace_all m [] = []"
| "replace_all m (c # cs) =
     (case m (c # cs) of
        None \<Rightarrow> c # replace_all m cs
      | Some k \<Rightarrow> redactedPlaceholder @ replace_all m (drop (k - 1) cs))"
  by pat_completeness auto
termination by (relation "measure (\<lambda>(m, s). length s)") auto

definition scrubSecrets :: "gostring \<Rightarrow> gostring" where
  "scrubSecrets v =
     (if v = [] then v
      else replace_all match_email (replace_all match_bearer (replace_all match_jwt v)))"

section \<open>Sets of texts\<close>

definition jwt_text :: "gostring \<Rightarrow> bool" where
  "jwt_text x \<longleftrightarrow> (\<exists>a b c. x = ''eyJ'' @ a @ ''.'' @ b @ c \<and> 8 \<le> length a \<and> 8 \<le> length b \<and>
     list_all jwt_char a \<and> list_all jwt_char b \<and>
     (c = [] \<or> (\<exists>d. c = ''.'' @ d \<and> d \<noteq> [] \<and> list_all jwt_char d)))"

definition bearer_rune_text :: "gostring \<Rightarrow> bool" where
  "bearer_rune_text r \<longleftrightarrow> (\<exists>c. r = [c] \<and> bearer_char c) \<or> r = [CHR 0xC5, CHR 0xBF] \<or>
     r = [CHR 0xE2, CHR 0x84, CHR 0xAA]"

definition bearer_text :: "gostring \<Rightarrow> bool" where
  "bearer_text x \<longleftrightarrow> (\<exists>b w rs. x = b @ w @ concat rs \<and> map ascii_lower b = ''bearer'' \<and> w \<noteq> [] \<and>
     list_all blank_char w \<and> rs \<noteq> [] \<and> list_all bearer_rune_text rs)"

definition email_text :: "gostring \<Rightarrow> bool" where
  "email_text x \<longleftrightarrow> (\<exists>l d t. x = l @ ''@'' @ d @ ''.'' @ t \<and> l \<noteq> [] \<and> list_all local_char l \<and>
     d \<noteq> [] \<and> list_all domain_char d \<and> 2 \<le> length t \<and> list_all is_letter t)"

definition occurs :: "(gostring \<Rightarrow> bool) \<Rightarrow> gostring \<Rightarrow> bool" where
  "occurs L s \<longleftrightarrow> (\<exists>u x v. s = u @ x @ v \<and> L x)"

lemma occurs_sublist: "occurs L s \<Longrightarrow> sublist s t \<Longrightarrow> occurs L t"
  unfolding occurs_def sublist_def by (metis append.assoc)

lemma occurs_prefix: "occurs L p \<Longrightarrow> prefix p s \<Longrightarrow> occurs L s"
  using occurs_sublist [of L p s] by auto

section \<open>What replacing achieves\<close>

definition bracketed :: "gostring \<Rightarrow> bool" where
  "bracketed x \<longleftrightarrow> CHR ''['' \<in> set x \<or> CHR '']'' \<in> set x"

text \<open>A text without brackets at the start of the output was at the start of the input.\<close>

lemma replace_all_prefix:
  "prefix x (replace_all m s) \<Longrightarrow> \<not> bracketed x \<Longrightarrow> prefix x s"
proof (induction m s arbitrary: x rule: replace_all.induct)
  case (2 m c cs)
  show ?case
  proof (cases x)
    case (Cons a y)
    with 2(4) have plain: "a \<noteq> CHR ''[''" "\<not> bracketed y" by (auto simp: bracketed_def)
    show ?thesis
    proof (cases "m (c # cs)")
      case None
      with 2(3) Cons have "a = c" "prefix y (replace_all m cs)" by auto
      with 2(1) [OF None] plain(2) Cons show ?thesis by simp
    next
      case (Some k)
      with 2(3) Cons have "a = CHR ''[''" by (simp add: redactedPlaceholder_def)
      with plain show ?thesis by simp
    qed
  qed simp
qed simp

locale scrubber =
  fixes find_match :: "gostring \<Rightarrow> nat option"
    and lang :: "gostring \<Rightarrow> bool"
  assumes complete: "lang x \<Longrightarrow> find_match (x @ v) \<noteq> None"
    and unbracketed: "lang x \<Longrightarrow> \<not> bracketed x"
    and nonempty: "lang x \<Longrightarrow> x \<noteq> []"
    and outside: "lang x \<Longrightarrow> \<not> sublist x ''redacted''"
begin

text \<open>A text of the set at the start of something that follows a part of the placeholder.\<close>

lemma no_text_from_placeholder:
  assumes "lang x" and "prefix x (p @ s)" and "suffix p redactedPlaceholder" and "p \<noteq> []"
  shows False
proof -
  have "last p = CHR '']''"
    using assms(3,4) by (metis last.simps last_appendR list.distinct(1) redactedPlaceholder_def suffix_def)
  then obtain q where q: "p = q @ '']''" using assms(4) by (metis append_butlast_last_id)
  have "prefix x q \<or> (\<exists>y. x = q @ CHR '']'' # y)"
    using assms(2) q by (auto simp: prefix_append prefix_Cons)
  with unbracketed [OF assms(1)] have "prefix x q" by (auto simp: bracketed_def)
  moreover have "q = ''[redacted'' \<or> sublist q ''redacted''"
  proof -
    have "suffix q ''[redacted''"
      using assms(3) q by (auto simp: redactedPlaceholder_def suffix_def)
    then obtain zs where zs: "''[redacted'' = zs @ q" by (auto simp: suffix_def)
    show ?thesis
    proof (cases zs)
      case (Cons a zs')
      with zs have "''redacted'' = zs' @ q" by simp
      then show ?thesis by (metis suffixI suffix_imp_sublist)
    qed (use zs in simp)
  qed
  ultimately have "sublist x ''redacted'' \<or> prefix x ''[redacted''"
    by (meson prefix_imp_sublist sublist_order.order_trans)
  then show False
    using outside [OF assms(1)] unbracketed [OF assms(1)] nonempty [OF assms(1)]
    by (auto simp: prefix_Cons bracketed_def)
qed

lemma placeholder_occurs:
  assumes "occurs lang (p @ s)" and "suffix p redactedPlaceholder"
  shows "occurs lang s"
  using assms
proof (induction p)
  case (Cons c p)
  then obtain u x v where u: "c # p @ s = u @ x @ v" "lang x" by (auto simp: occurs_def)
  show ?case
  proof (cases u)
    case Nil
    with u have "prefix x ((c # p) @ s)" by (auto simp: prefix_def)
    with no_text_from_placeholder [OF u(2), of "c # p" s] Cons.prems(2) show ?thesis by simp
  next
    case (Cons d u')
    with u have "occurs lang (p @ s)" by (auto simp: occurs_def)
    with Cons.IH Cons.prems(2) show ?thesis by (auto dest: suffix_ConsD)
  qed
qed simp

lemma replaced: "\<not> occurs lang (replace_all find_match s)"
proof (induction "length s" arbitrary: s rule: less_induct)
  case less
  show ?case
  proof (cases s)
    case Nil
    then show ?thesis using nonempty by (auto simp: occurs_def)
  next
    case s: (Cons c cs)
    have rest: "\<not> occurs lang (replace_all find_match (drop k cs))" for k
      using less s by simp
    have "\<not> occurs lang (replace_all find_match (c # cs))"
    proof (cases "find_match (c # cs)")
      case None
      show ?thesis
      proof
        assume "occurs lang (replace_all find_match (c # cs))"
        then obtain u x v where u: "c # replace_all find_match cs = u @ x @ v" "lang x"
          by (auto simp: occurs_def None)
        show False
        proof (cases u)
          case Nil
          with u have "prefix x (replace_all find_match (c # cs))" by (auto simp: prefix_def None)
          then have "prefix x (c # cs)" by (rule replace_all_prefix) (rule unbracketed [OF u(2)])
          then obtain w where "c # cs = x @ w" by (auto simp: prefix_def)
          with complete [OF u(2), of w] None show False by simp
        next
          case (Cons d u')
          with u have "occurs lang (replace_all find_match cs)" by (auto simp: occurs_def)
          with rest [of 0] show False by simp
        qed
      qed
    next
      case (Some k)
      show ?thesis
      proof
        assume "occurs lang (replace_all find_match (c # cs))"
        then have "occurs lang (redactedPlaceholder @ replace_all find_match (drop (k - 1) cs))"
          by (simp add: Some)
        then have "occurs lang (replace_all find_match (drop (k - 1) cs))"
          by (rule placeholder_occurs) simp
        with rest show False by simp
      qed
    qed
    then show ?thesis unfolding s .
  qed
qed

text \<open>Another replacement does not bring a text of the set back.\<close>

lemma kept_out: "\<not> occurs lang s \<Longrightarrow> \<not> occurs lang (replace_all m s)"
proof (induction m s rule: replace_all.induct)
  case (2 m c cs)
  have tail: "\<not> occurs lang (drop k cs)" for k
    using 2(3) occurs_sublist [of lang "drop k cs" "c # cs"]
    by (meson sublist_Cons_right sublist_drop)
  show ?case
  proof (cases "m (c # cs)")
    case None
    show ?thesis
    proof
      assume "occurs lang (replace_all m (c # cs))"
      then obtain u x v where u: "c # replace_all m cs = u @ x @ v" "lang x"
        by (auto simp: occurs_def None)
      show False
      proof (cases u)
        case Nil
        with u have "prefix x (replace_all m (c # cs))" by (auto simp: prefix_def None)
        then have "prefix x (c # cs)" by (rule replace_all_prefix) (rule unbracketed [OF u(2)])
        then have "occurs lang (c # cs)"
          using u(2) unfolding occurs_def prefix_def by (metis append_Nil)
        with 2(3) show False by simp
      next
        case (Cons d u')
        with u have "occurs lang (replace_all m cs)" by (auto simp: occurs_def)
        with 2(1) [OF None] tail [of 0] show False by simp
      qed
    qed
  next
    case (Some k)
    show ?thesis
    proof
      assume "occurs lang (replace_all m (c # cs))"
      then have "occurs lang (redactedPlaceholder @ replace_all m (drop (k - 1) cs))"
        by (simp add: Some)
      then have "occurs lang (replace_all m (drop (k - 1) cs))"
        by (rule placeholder_occurs) simp
      with 2(2) [OF Some tail] show False by simp
    qed
  qed
qed simp

end

section \<open>The three patterns are such matchers\<close>

lemma takeWhile_all_append: "list_all P a \<Longrightarrow> takeWhile P (a @ b) = a @ takeWhile P b"
  by (induction a) auto

lemma dropWhile_all_append: "list_all P a \<Longrightarrow> dropWhile P (a @ b) = dropWhile P b"
  by (induction a) auto

lemma bracket_classes [simp]:
  "\<not> jwt_char (CHR ''['')" "\<not> jwt_char (CHR '']'')" "\<not> jwt_char (CHR ''.'')"
  "\<not> bearer_char (CHR ''['')" "\<not> bearer_char (CHR '']'')"
  "\<not> local_char (CHR ''['')" "\<not> local_char (CHR '']'')" "\<not> local_char (CHR ''@'')"
  "\<not> domain_char (CHR ''['')" "\<not> domain_char (CHR '']'')"
  "\<not> is_letter (CHR ''['')" "\<not> is_letter (CHR '']'')"
  "\<not> blank_char (CHR ''['')" "\<not> blank_char (CHR '']'')"
  "domain_char (CHR ''.'')"
  by (simp_all add: char_classes)

lemma letter_domain: "is_letter c \<Longrightarrow> domain_char c"
  by (simp add: domain_char_def)

lemma not_bracketed_all:
  "list_all P x \<Longrightarrow> \<not> P (CHR ''['') \<Longrightarrow> \<not> P (CHR '']'') \<Longrightarrow> \<not> bracketed x"
  by (auto simp: bracketed_def list_all_iff)

lemma bracketed_append [simp]: "bracketed (x @ y) \<longleftrightarrow> bracketed x \<or> bracketed y"
  by (auto simp: bracketed_def)

lemma bracketed_Cons [simp]:
  "bracketed (c # y) \<longleftrightarrow> c = CHR ''['' \<or> c = CHR '']'' \<or> bracketed y"
  by (auto simp: bracketed_def)

lemma not_bracketed_Nil [simp]: "\<not> bracketed []"
  by (simp add: bracketed_def)

lemma set_mono_sublist': "sublist x y \<Longrightarrow> c \<in> set x \<Longrightarrow> c \<in> set y"
  using set_mono_sublist [of x y] by blast

interpretation jwt: scrubber match_jwt jwt_text
proof
  fix x v
  assume "jwt_text x"
  then obtain a b c where x: "x = ''eyJ'' @ a @ ''.'' @ b @ c" "8 \<le> length a" "8 \<le> length b"
    "list_all jwt_char a" "list_all jwt_char b" by (auto simp: jwt_text_def)
  have "takeWhile jwt_char (a @ ''.'' @ b @ c @ v) = a"
    "dropWhile jwt_char (a @ ''.'' @ b @ c @ v) = ''.'' @ b @ c @ v"
    using x(4) by (simp_all add: takeWhile_all_append dropWhile_all_append)
  moreover have "8 \<le> length (takeWhile jwt_char (b @ c @ v))"
    using x(3,5) by (simp add: takeWhile_all_append)
  ultimately show "match_jwt (x @ v) \<noteq> None"
    using x(2) by (simp add: match_jwt_def x(1) has_prefix_def Let_def)
next
  fix x
  assume "jwt_text x"
  then obtain a b c where x: "x = ''eyJ'' @ a @ ''.'' @ b @ c" "list_all jwt_char a"
    "list_all jwt_char b" "c = [] \<or> (\<exists>d. c = ''.'' @ d \<and> d \<noteq> [] \<and> list_all jwt_char d)"
    by (auto simp: jwt_text_def)
  have "\<not> bracketed a" "\<not> bracketed b" by (rule not_bracketed_all [OF x(2)], simp_all)
      (rule not_bracketed_all [OF x(3)], simp_all)
  moreover have "\<not> bracketed c"
    using x(4) by (auto dest: not_bracketed_all [where P = jwt_char])
  ultimately show "\<not> bracketed x" by (simp add: x(1))
  show "x \<noteq> []" by (simp add: x(1))
  show "\<not> sublist x ''redacted''"
    using set_mono_sublist' [of x "''redacted''" "CHR ''J''"] by (auto simp: x(1))
qed

lemma bearer_rune_text_start:
  assumes "bearer_rune_text r"
  shows "bearer_rune (r @ s) \<noteq> 0" and "r \<noteq> []" and "\<not> blank_char (hd r)" and "\<not> bracketed r"
  using assms
  by (auto simp: bearer_rune_text_def bearer_rune_def has_prefix_def char_classes bracketed_def)

interpretation bearer: scrubber match_bearer bearer_text
proof
  fix x v
  assume "bearer_text x"
  then obtain b w rs where x: "x = b @ w @ concat rs" "map ascii_lower b = ''bearer''" "w \<noteq> []"
    "list_all blank_char w" "rs \<noteq> []" "list_all bearer_rune_text rs"
    unfolding bearer_text_def by (elim exE conjE) (rule that)
  have len: "length b = 6" using arg_cong [OF x(2), of length] by simp
  obtain r rs' where rs: "rs = r # rs'" using x(5) by (cases rs) auto
  with x(6) have r: "bearer_rune_text r" by simp
  let ?t = "concat rs @ v"
  have t: "?t = r @ concat rs' @ v" by (simp add: rs)
  have "\<not> blank_char (hd ?t)" "?t \<noteq> []"
    using bearer_rune_text_start(2,3) [OF r] by (simp_all add: t)
  then have "takeWhile blank_char (w @ ?t) = w" "dropWhile blank_char (w @ ?t) = ?t"
    using x(4) by (cases ?t; simp add: takeWhile_all_append dropWhile_all_append)+
  moreover have "bearer_run ?t \<noteq> 0"
    using bearer_rune_text_start(1) [OF r] by (subst bearer_run.simps) (simp add: t)
  ultimately show "match_bearer (x @ v) \<noteq> None"
    using x(2,3) len by (simp add: match_bearer_def x(1) Let_def)
next
  fix x
  assume "bearer_text x"
  then obtain b w rs where x: "x = b @ w @ concat rs" "map ascii_lower b = ''bearer''" "w \<noteq> []"
    "list_all blank_char w" "rs \<noteq> []" "list_all bearer_rune_text rs"
    unfolding bearer_text_def by (elim exE conjE) (rule that)
  have "\<not> bracketed b"
  proof
    assume "bracketed b"
    then have "CHR ''['' \<in> set (map ascii_lower b) \<or> CHR '']'' \<in> set (map ascii_lower b)"
      by (force simp: bracketed_def ascii_lower_def image_iff)
    then show False unfolding x(2) by simp
  qed
  moreover have "\<not> bracketed w" by (rule not_bracketed_all [OF x(4)]) simp_all
  moreover have "\<not> bracketed (concat rs)"
    using x(6) bearer_rune_text_start(4) by (induction rs) auto
  ultimately show "\<not> bracketed x" by (simp add: x(1))
  show "x \<noteq> []" by (simp add: x(1,3))
  obtain c w' where w: "w = c # w'" using x(3) by (cases w) auto
  with x(4) have "blank_char c" by simp
  then show "\<not> sublist x ''redacted''"
    using set_mono_sublist' [of x "''redacted''" c] by (auto simp: x(1) w blank_char_def)
qed

lemma tld_at_found:
  assumes "d \<noteq> []" and "list_all domain_char d" and "2 \<le> length t" and "list_all is_letter t"
  shows "tld_at (takeWhile domain_char (d @ ''.'' @ t @ v)) (length d)"
proof -
  have "list_all domain_char t"
    using assms(4) by (auto simp: list_all_iff letter_domain)
  with assms(2) have run: "takeWhile domain_char (d @ ''.'' @ t @ v) = d @ ''.'' @ t @ takeWhile domain_char v"
    by (simp add: takeWhile_all_append)
  obtain a b t' where "t = a # b # t'" using assms(3) by (cases t rule: remdups_adj.cases) auto
  with assms(1,4) show ?thesis
    unfolding run by (simp add: tld_at_def nth_append)
qed

interpretation email: scrubber match_email email_text
proof
  fix x v
  assume "email_text x"
  then obtain l d t where x: "x = l @ ''@'' @ d @ ''.'' @ t" "l \<noteq> []" "list_all local_char l"
    "d \<noteq> []" "list_all domain_char d" "2 \<le> length t" "list_all is_letter t"
    by (auto simp: email_text_def)
  let ?run = "takeWhile domain_char (d @ ''.'' @ t @ v)"
  have "takeWhile local_char (x @ v) = l" "dropWhile local_char (x @ v) = ''@'' @ d @ ''.'' @ t @ v"
    using x(3) by (simp_all add: x(1) takeWhile_all_append dropWhile_all_append)
  moreover have "tld_at ?run (length d)" by (rule tld_at_found) (use x in auto)
  moreover from this have "length d < length ?run" by (simp add: tld_at_def)
  ultimately have "length d \<in> set (filter (tld_at ?run) [0..<length ?run])" by simp
  then have "rev (filter (tld_at ?run) [0..<length ?run]) \<noteq> []" by (auto simp: filter_empty_conv)
  with \<open>takeWhile local_char (x @ v) = l\<close> \<open>dropWhile local_char (x @ v) = _\<close> x(2)
  show "match_email (x @ v) \<noteq> None"
    by (auto simp: match_email_def Let_def split: list.split)
next
  fix x
  assume "email_text x"
  then obtain l d t where x: "x = l @ ''@'' @ d @ ''.'' @ t" "l \<noteq> []" "list_all local_char l"
    "list_all domain_char d" "list_all is_letter t" by (auto simp: email_text_def)
  have "\<not> bracketed l" "\<not> bracketed d" "\<not> bracketed t"
    by (rule not_bracketed_all [OF x(3)], simp_all) (rule not_bracketed_all [OF x(4)], simp_all,
      rule not_bracketed_all [OF x(5)], simp_all)
  then show "\<not> bracketed x" by (simp add: x(1))
  show "x \<noteq> []" by (simp add: x(1))
  show "\<not> sublist x ''redacted''"
    using set_mono_sublist' [of x "''redacted''" "CHR ''@''"] by (auto simp: x(1))
qed

text \<open>What \<open>scrubSecrets\<close> guarantees of its result.\<close>

definition secret :: "gostring \<Rightarrow> bool" where
  "secret s \<longleftrightarrow> occurs jwt_text s \<or> occurs bearer_text s \<or> occurs email_text s"

lemma secret_prefix: "\<not> secret s \<Longrightarrow> prefix p s \<Longrightarrow> \<not> secret p"
  by (auto simp: secret_def dest: occurs_prefix)

lemma not_secret_Nil [simp]: "\<not> secret []"
  using jwt.nonempty bearer.nonempty email.nonempty by (auto simp: secret_def occurs_def)

lemma scrubSecrets_clean: "\<not> secret (scrubSecrets v)"
proof (cases "v = []")
  case False
  then show ?thesis
    by (simp add: scrubSecrets_def secret_def email.replaced
        bearer.kept_out [OF bearer.replaced] jwt.kept_out [OF jwt.kept_out [OF jwt.replaced]])
qed (simp add: scrubSecrets_def)

end
