(* ===== verification/ClientDiagnostics.thy ===== *)
theory ClientDiagnostics
  imports Complex_Main Scrubbing "HOL-Library.AList" "HOL-Library.List_Lexorder" "HOL-Library.Char_ord"
begin

text \<open>
  Diagnostic events of the browser: \<open>client_diagnostics.go\<close> of packages \<open>domain\<close> and \<open>application\<close>.  A batch
  is validated event by event, its texts are masked and cut, its details are masked by key,
  cut in depth and width and shrunk to a size, and repeated events are suppressed for a while.

  Go maps are association lists.  A value of \<open>any\<close> is a \<open>json\<close>; \<open>JOther\<close> stands for the types the JSON
  decoder never yields.  The length of the JSON encoding of a value (\<open>None\<close> when it cannot be
  encoded) and \<open>time.Parse\<close> are arguments.  What the sinks get is the log \<open>dg_written\<close>; their errors
  are only reported.
\<close>

section \<open>Event names\<close>

definition clientDiagnosticEventNames :: "gostring list" where
  "clientDiagnosticEventNames =
     [''tree_store_initialized'', ''tree_component_mounted'', ''tree_component_unmounted'',
      ''session_hook_created'', ''session_hook_disposed'', ''rest_fetch_started'',
      ''rest_snapshot_received'', ''ws_connected'', ''ws_disconnected'', ''ws_reconnecting'',
      ''ws_snapshot_received'', ''snapshot_adopted'', ''snapshot_rejected'',
      ''tree_state_changed'', ''tree_became_empty'', ''tree_render_state'',
      ''tree_render_anomaly'', ''tree_render_recovery'', ''tree_visibility_unhealthy'',
      ''tree_visibility_recovered'', ''tree_manual_view_reset'', ''tree_swap_started'',
      ''tree_pending_ready'', ''tree_swap_committed'', ''tree_swap_failed'',
      ''tree_swap_kept_previous'', ''tree_manual_reset_started'',
      ''tree_manual_reset_ignored_duplicate'', ''tree_manual_reset_completed'',
      ''store_reset_requested'', ''store_reset_executed'', ''route_changed'',
      ''react_error_captured'']"

definition IsKnownClientDiagnosticEvent :: "gostring \<Rightarrow> bool" where
  "IsKnownClientDiagnosticEvent name \<longleftrightarrow> List.member clientDiagnosticEventNames name"

definition criticalClientDiagnosticEvents :: "gostring list" where
  "criticalClientDiagnosticEvents =
     [''tree_became_empty'', ''tree_render_anomaly'', ''tree_render_recovery'',
      ''tree_visibility_unhealthy'', ''tree_visibility_recovered'', ''tree_manual_view_reset'',
      ''tree_swap_failed'', ''tree_swap_kept_previous'', ''tree_manual_reset_completed'',
      ''react_error_captured'', ''tree_store_initialized'', ''tree_component_mounted'',
      ''tree_component_unmounted'', ''session_hook_created'', ''session_hook_disposed'',
      ''store_reset_requested'', ''store_reset_executed'']"

definition IsCriticalClientDiagnosticEvent :: "gostring \<Rightarrow> bool" where
  "IsCriticalClientDiagnosticEvent name \<longleftrightarrow> List.member criticalClientDiagnosticEvents name"

section \<open>Limits\<close>

record ClientDiagnosticsLimits =
  dl_MaxEventsPerRequest :: int
  dl_MaxDetailsBytes :: int
  dl_MaxStringBytes :: int
  dl_MaxIdentifierBytes :: int
  dl_MaxRouteBytes :: int
  dl_MaxDetailsDepth :: int
  dl_MaxDetailsKeys :: int
  dl_MaxDetailsArrayItems :: int
  dl_ThrottleWindow :: duration
  dl_ThrottleEntries :: int

definition DefaultClientDiagnosticsLimits :: ClientDiagnosticsLimits where
  "DefaultClientDiagnosticsLimits =
     \<lparr>dl_MaxEventsPerRequest = 100, dl_MaxDetailsBytes = 32 * 1024, dl_MaxStringBytes = 4096,
      dl_MaxIdentifierBytes = 128, dl_MaxRouteBytes = 512, dl_MaxDetailsDepth = 6,
      dl_MaxDetailsKeys = 80, dl_MaxDetailsArrayItems = 200, dl_ThrottleWindow = second,
      dl_ThrottleEntries = 4096\<rparr>"

definition limit_or :: "int \<Rightarrow> int \<Rightarrow> int" where
  "limit_or dflt n = (if n \<le> 0 then dflt else n)"

definition withDefaults :: "ClientDiagnosticsLimits \<Rightarrow> ClientDiagnosticsLimits" where
  "withDefaults l =
     (let d = DefaultClientDiagnosticsLimits in
      \<lparr>dl_MaxEventsPerRequest = limit_or (dl_MaxEventsPerRequest d) (dl_MaxEventsPerRequest l),
       dl_MaxDetailsBytes = limit_or (dl_MaxDetailsBytes d) (dl_MaxDetailsBytes l),
       dl_MaxStringBytes = limit_or (dl_MaxStringBytes d) (dl_MaxStringBytes l),
       dl_MaxIdentifierBytes = limit_or (dl_MaxIdentifierBytes d) (dl_MaxIdentifierBytes l),
       dl_MaxRouteBytes = limit_or (dl_MaxRouteBytes d) (dl_MaxRouteBytes l),
       dl_MaxDetailsDepth = limit_or (dl_MaxDetailsDepth d) (dl_MaxDetailsDepth l),
       dl_MaxDetailsKeys = limit_or (dl_MaxDetailsKeys d) (dl_MaxDetailsKeys l),
       dl_MaxDetailsArrayItems = limit_or (dl_MaxDetailsArrayItems d) (dl_MaxDetailsArrayItems l),
       dl_ThrottleWindow =
         (if dl_ThrottleWindow l < 0 then dl_ThrottleWindow d else dl_ThrottleWindow l),
       dl_ThrottleEntries = limit_or (dl_ThrottleEntries d) (dl_ThrottleEntries l)\<rparr>)"

definition limits_positive :: "ClientDiagnosticsLimits \<Rightarrow> bool" where
  "limits_positive l \<longleftrightarrow> 0 < dl_MaxEventsPerRequest l \<and> 0 < dl_MaxDetailsBytes l \<and>
     0 < dl_MaxStringBytes l \<and> 0 < dl_MaxIdentifierBytes l \<and> 0 < dl_MaxRouteBytes l \<and>
     0 < dl_MaxDetailsDepth l \<and> 0 < dl_MaxDetailsKeys l \<and> 0 < dl_MaxDetailsArrayItems l \<and>
     0 \<le> dl_ThrottleWindow l \<and> 0 < dl_ThrottleEntries l"

lemma withDefaults_positive [simp]: "limits_positive (withDefaults l)"
  by (simp add: limits_positive_def withDefaults_def limit_or_def Let_def
      DefaultClientDiagnosticsLimits_def second_def)

section \<open>Cutting texts\<close>

text \<open>\<open>utf8.ValidString\<close>.\<close>

definition in_range :: "nat \<Rightarrow> nat \<Rightarrow> char \<Rightarrow> bool" where
  "in_range a b c \<longleftrightarrow> a \<le> byte c \<and> byte c \<le> b"

fun valid_string :: "gostring \<Rightarrow> bool" where
  "valid_string [] = True"
| "valid_string (a # s) =
     (if byte a < 128 then valid_string s
      else (case s of
          [] \<Rightarrow> False
        | b # s' \<Rightarrow>
            if in_range 0xC2 0xDF a then in_range 0x80 0xBF b \<and> valid_string s'
            else (case s' of
                [] \<Rightarrow> False
              | c # s'' \<Rightarrow>
                  if byte a = 0xE0 then in_range 0xA0 0xBF b \<and> in_range 0x80 0xBF c \<and> valid_string s''
                  else if byte a = 0xED
                    then in_range 0x80 0x9F b \<and> in_range 0x80 0xBF c \<and> valid_string s''
                  else if in_range 0xE1 0xEF a
                    then in_range 0x80 0xBF b \<and> in_range 0x80 0xBF c \<and> valid_string s''
                  else (case s'' of
                      [] \<Rightarrow> False
                    | d # s''' \<Rightarrow>
                        if byte a = 0xF0
                        then in_range 0x90 0xBF b \<and> in_range 0x80 0xBF c \<and> in_range 0x80 0xBF d \<and>
                             valid_string s'''
                        else if in_range 0xF1 0xF3 a
                        then in_range 0x80 0xBF b \<and> in_range 0x80 0xBF c \<and> in_range 0x80 0xBF d \<and>
                             valid_string s'''
                        else if byte a = 0xF4
                        then in_range 0x80 0x8F b \<and> in_range 0x80 0xBF c \<and> in_range 0x80 0xBF d \<and>
                             valid_string s'''
                        else False))))"

function truncate_valid :: "gostring \<Rightarrow> gostring" where
  "truncate_valid s = (if s = [] \<or> valid_string s then s else truncate_valid (butlast s))"
  by pat_completeness auto
termination by (relation "measure length") auto

declare truncate_valid.simps [simp del]

definition clampText :: "gostring \<Rightarrow> int \<Rightarrow> gostring" where
  "clampText v limit =
     (if limit \<le> 0 \<or> int (length v) \<le> limit then v else truncate_valid (take (nat limit) v))"

definition clampIdentifier :: "ClientDiagnosticsLimits \<Rightarrow> gostring \<Rightarrow> gostring" where
  "clampIdentifier l v = clampText (scrubSecrets v) (dl_MaxIdentifierBytes l)"

lemma truncate_valid_prefix: "prefix (truncate_valid s) s"
proof (induction s rule: truncate_valid.induct)
  case (1 s)
  show ?case
  proof (cases "s = [] \<or> valid_string s")
    case False
    with 1 have "prefix (truncate_valid (butlast s)) (butlast s)" by blast
    with False show ?thesis
      by (subst truncate_valid.simps) (auto intro: prefix_order.order_trans [OF _ prefixeq_butlast])
  qed (subst truncate_valid.simps, simp)
qed

lemma truncate_valid_valid: "valid_string (truncate_valid s)"
proof (induction s rule: truncate_valid.induct)
  case (1 s)
  then show ?case by (subst truncate_valid.simps) auto
qed

lemma clampText_prefix: "prefix (clampText v limit) v"
  unfolding clampText_def
  by (auto intro: prefix_order.order_trans [OF truncate_valid_prefix take_is_prefix])

lemma clampText_length: "0 < limit \<Longrightarrow> int (length (clampText v limit)) \<le> limit"
  using prefix_length_le [OF truncate_valid_prefix [of "take (nat limit) v"]]
  by (auto simp: clampText_def)

lemma clampText_clean: "\<not> secret v \<Longrightarrow> \<not> secret (clampText v limit)"
  using secret_prefix clampText_prefix by blast

section \<open>Details\<close>

datatype json =
    JNull | JText gostring | JBool bool | JNum real | JOther
  | JObj "(gostring \<times> json) list" | JArr "json list"

fun isNumericValue :: "json \<Rightarrow> bool" where
  "isNumericValue (JNum x) = True"
| "isNumericValue _ = False"

definition redactedKeySubstrings :: "gostring list" where
  "redactedKeySubstrings =
     [''authorization'', ''token'', ''cookie'', ''password'', ''passwd'', ''secret'', ''apikey'',
      ''credential'', ''bearer'', ''jwt'', ''privatekey'', ''email'', ''mail'', ''transcript'',
      ''utterance'', ''speech'', ''label'', ''title'', ''summary'', ''text'', ''content'']"

definition metricKeySuffixes :: "gostring list" where
  "metricKeySuffixes = [''length'', ''count'', ''chars'', ''bytes'', ''size'']"

definition normalizeKey :: "gostring \<Rightarrow> gostring" where
  "normalizeKey key = filter (\<lambda>c. is_lower c \<or> is_digit c) (to_lower key)"

definition sensitive_key :: "gostring \<Rightarrow> bool" where
  "sensitive_key key \<longleftrightarrow> list_ex (\<lambda>c. contains (normalizeKey key) c) redactedKeySubstrings"

definition metric_key :: "gostring \<Rightarrow> bool" where
  "metric_key key \<longleftrightarrow> list_ex (\<lambda>s. has_suffix (normalizeKey key) s) metricKeySuffixes"

definition shouldRedactKey :: "gostring \<Rightarrow> json \<Rightarrow> bool" where
  "shouldRedactKey key v \<longleftrightarrow> sensitive_key key \<and> \<not> (isNumericValue v \<and> metric_key key)"

definition sortedKeys :: "(gostring \<times> 'a) list \<Rightarrow> (gostring \<times> 'a) list" where
  "sortedKeys kvs = order_by (\<lambda>a b. fst a < fst b) kvs"

definition cut :: "int \<Rightarrow> 'a list \<Rightarrow> 'a list" where
  "cut limit xs = (if limit < int (length xs) then take (nat limit) xs else xs)"

definition entry_of :: "ClientDiagnosticsLimits \<Rightarrow> gostring \<Rightarrow> json \<Rightarrow> json \<times> bool \<Rightarrow>
    (gostring \<times> json) option \<times> bool" where
  "entry_of l key v r =
     (let safeKey = clampText key (dl_MaxIdentifierBytes l) in
      if shouldRedactKey key v then (Some (safeKey, JText redactedPlaceholder), False)
      else if fst r = JNull \<and> v \<noteq> JNull then (None, snd r)
      else (Some (safeKey, fst r), snd r))"

definition put_entries :: "((gostring \<times> json) option \<times> bool) list \<Rightarrow> (gostring \<times> json) list" where
  "put_entries es =
     foldl (\<lambda>m e. case fst e of None \<Rightarrow> m | Some (k, v) \<Rightarrow> AList.update k v m) [] es"

text \<open>\<open>sanitizeValue\<close> with \<open>sanitizeMap\<close> and \<open>sanitizeSlice\<close>: the depth bound ends the recursion.\<close>

function sanitizeValue :: "ClientDiagnosticsLimits \<Rightarrow> json \<Rightarrow> nat \<Rightarrow> json \<times> bool" where
  "sanitizeValue l v depth =
     (if dl_MaxDetailsDepth l < int depth then (JNull, True)
      else (case v of
          JNull \<Rightarrow> (JNull, False)
        | JText s \<Rightarrow>
            (let scrubbed = scrubSecrets s; clamped = clampText scrubbed (dl_MaxStringBytes l)
             in (JText clamped, clamped \<noteq> scrubbed))
        | JBool b \<Rightarrow> (v, False)
        | JNum x \<Rightarrow> (v, False)
        | JOther \<Rightarrow> (JNull, True)
        | JObj kvs \<Rightarrow>
            (let keys = sortedKeys kvs; used = cut (dl_MaxDetailsKeys l) keys;
                 es = map (\<lambda>(k, x). entry_of l k x (sanitizeValue l x (Suc depth))) used
             in (JObj (put_entries es), length used < length keys \<or> list_ex snd es))
        | JArr xs \<Rightarrow>
            (let used = cut (dl_MaxDetailsArrayItems l) xs;
                 rs = map (\<lambda>x. sanitizeValue l x (Suc depth)) used
             in (JArr (map fst rs), length used < length xs \<or> list_ex snd rs))))"
  by pat_completeness auto
termination
  by (relation "measure (\<lambda>(l, v, depth). nat (dl_MaxDetailsDepth l + 1) - depth)") auto

declare sanitizeValue.simps [simp del]

text \<open>The keys of \<open>shrinkDetails\<close>, the largest first.\<close>

type_synonym json_length = "json \<Rightarrow> nat option"

definition sized_keys :: "json_length \<Rightarrow> ClientDiagnosticsLimits \<Rightarrow> (gostring \<times> json) list \<Rightarrow>
    (gostring \<times> int) list" where
  "sized_keys jlen l details =
     order_by (\<lambda>a b. snd b < snd a \<or> (snd a = snd b \<and> fst a < fst b))
       (map (\<lambda>(k, v). (k, case jlen v of None \<Rightarrow> dl_MaxDetailsBytes l | Some n \<Rightarrow> int n)) details)"

definition details_fit :: "json_length \<Rightarrow> ClientDiagnosticsLimits \<Rightarrow> (gostring \<times> json) list \<Rightarrow> bool" where
  "details_fit jlen l m \<longleftrightarrow>
     (case jlen (JObj m) of None \<Rightarrow> False | Some n \<Rightarrow> int n \<le> dl_MaxDetailsBytes l)"

fun drop_until_fits :: "json_length \<Rightarrow> ClientDiagnosticsLimits \<Rightarrow> gostring list \<Rightarrow>
    (gostring \<times> json) list \<Rightarrow> (gostring \<times> json) list \<times> gostring list" where
  "drop_until_fits jlen l [] m = (m, [])"
| "drop_until_fits jlen l (k # ks) m =
     (if details_fit jlen l m then (m, [])
      else (case drop_until_fits jlen l ks (AList.delete k m) of (m', dropped) \<Rightarrow> (m', k # dropped)))"

definition shrinkDetails :: "json_length \<Rightarrow> ClientDiagnosticsLimits \<Rightarrow> (gostring \<times> json) list \<Rightarrow>
    (gostring \<times> json) list \<times> bool" where
  "shrinkDetails jlen l details =
     (case drop_until_fits jlen l (map fst (sized_keys jlen l details)) details of
        (m, dropped) \<Rightarrow>
          (if dropped = [] then m else AList.update ''_droppedKeys'' (JArr (map JText dropped)) m, True))"

definition sanitizeDetails :: "json_length \<Rightarrow> ClientDiagnosticsLimits \<Rightarrow> (gostring \<times> json) list \<Rightarrow>
    (gostring \<times> json) list \<times> bool" where
  "sanitizeDetails jlen l details =
     (if details = [] then ([], False)
      else (case sanitizeValue l (JObj details) 0 of
          (JObj result, truncated) \<Rightarrow>
            (case jlen (JObj result) of
               None \<Rightarrow> ([(''_unencodable'', JBool True)], True)
             | Some n \<Rightarrow>
                 if int n \<le> dl_MaxDetailsBytes l then (result, truncated)
                 else shrinkDetails jlen l result)
        | _ \<Rightarrow> ([], True)))"

section \<open>Events\<close>

record ClientDiagnosticEventInput =
  di_Timestamp :: gostring
  di_Event :: gostring
  di_SessionID :: gostring
  di_WorkspaceID :: gostring
  di_TabID :: gostring
  di_Route :: gostring
  di_FrontendBuildVersion :: gostring
  di_TreeVersion :: "int option"
  di_AnalysisVersion :: "int option"
  di_UpdatedAt :: gostring
  di_NodeCount :: "int option"
  di_RootNodeID :: gostring
  di_SessionStatus :: gostring
  di_SnapshotSource :: gostring
  di_Sequence :: int
  di_Details :: "(gostring \<times> json) list"

record ClientDiagnosticsBatchInput =
  dbt_WorkspaceID :: gostring
  dbt_SessionID :: gostring
  dbt_TabID :: gostring
  dbt_FrontendBuildVersion :: gostring
  dbt_UserID :: gostring
  dbt_Events :: "ClientDiagnosticEventInput list"

record ClientDiagnosticEvent =
  de_Timestamp :: gotime
  de_ReceivedAt :: gotime
  de_Event :: gostring
  de_SessionID :: gostring
  de_WorkspaceID :: gostring
  de_TabID :: gostring
  de_Route :: gostring
  de_FrontendBuildVersion :: gostring
  de_TreeVersion :: "int option"
  de_AnalysisVersion :: "int option"
  de_UpdatedAt :: gostring
  de_NodeCount :: "int option"
  de_RootNodeID :: gostring
  de_SessionStatus :: gostring
  de_SnapshotSource :: gostring
  de_Details :: "(gostring \<times> json) list"
  de_UserID :: gostring
  de_Sequence :: int

record ClientDiagnosticsResult =
  dr_Accepted :: int
  dr_Rejected :: int
  dr_Suppressed :: int
  dr_Reasons :: "(gostring \<times> int) list"

definition addReason :: "gostring \<Rightarrow> ClientDiagnosticsResult \<Rightarrow> ClientDiagnosticsResult" where
  "addReason reason r =
     r\<lparr>dr_Reasons := AList.map_default reason 1 (\<lambda>n. n + 1) (dr_Reasons r)\<rparr>"

text \<open>
  The service: its configuration (\<open>parse\<close> is \<open>time.Parse\<close> of RFC 3339) and its state, with the
  clock, the cancellation of the request context at each \<open>ctx.Err()\<close>, and what was written.
\<close>

record diagnostics_config =
  dc_limits :: ClientDiagnosticsLimits
  dc_parse :: "gostring \<Rightarrow> (gotime \<times> int) option"
  dc_json_length :: json_length

record diagnostics =
  dg_throttle :: "(gostring \<times> gotime) list"
  dg_clock :: "nat \<Rightarrow> gotime"
  dg_ticks :: nat
  dg_cancelled :: "nat \<Rightarrow> bool"
  dg_checks :: nat
  dg_written :: "ClientDiagnosticEvent list"

definition dg_now :: "diagnostics \<Rightarrow> gotime \<times> diagnostics" where
  "dg_now g = (dg_clock g (dg_ticks g), g\<lparr>dg_ticks := Suc (dg_ticks g)\<rparr>)"

definition optionalInt64String :: "int option \<Rightarrow> gostring" where
  "optionalInt64String v = (case v of None \<Rightarrow> ''-'' | Some n \<Rightarrow> show_int n)"

definition throttleKey :: "ClientDiagnosticEvent \<Rightarrow> gostring" where
  "throttleKey e = join [CHR 0x00]
     [de_SessionID e, de_TabID e, de_Event e, de_Route e, de_SessionStatus e, de_SnapshotSource e,
      de_RootNodeID e, optionalInt64String (de_TreeVersion e),
      optionalInt64String (de_AnalysisVersion e), optionalInt64String (de_NodeCount e)]"

text \<open>\<open>sanitize\<close>: the reason of a rejection, or the event.\<close>

definition event_of ::
    "diagnostics_config \<Rightarrow> ClientDiagnosticsBatchInput \<Rightarrow> ClientDiagnosticEventInput \<Rightarrow> gotime \<Rightarrow>
     ClientDiagnosticEvent" where
  "event_of c batch i receivedAt =
     (let l = dc_limits c;
          (details, dropped) = sanitizeDetails (dc_json_length c) l (di_Details i) in
      \<lparr>de_Timestamp = (case dc_parse c (trim_space (di_Timestamp i)) of
         None \<Rightarrow> receivedAt | Some (t, offset) \<Rightarrow> t),
       de_ReceivedAt = receivedAt, de_Event = trim_space (di_Event i),
       de_SessionID = first_trimmed [di_SessionID i, dbt_SessionID batch],
       de_WorkspaceID = first_trimmed [di_WorkspaceID i, dbt_WorkspaceID batch],
       de_TabID = clampIdentifier l (first_trimmed [di_TabID i, dbt_TabID batch]),
       de_Route = clampText (scrubSecrets (trim_space (di_Route i))) (dl_MaxRouteBytes l),
       de_FrontendBuildVersion =
         clampIdentifier l (first_trimmed [di_FrontendBuildVersion i, dbt_FrontendBuildVersion batch]),
       de_TreeVersion = di_TreeVersion i, de_AnalysisVersion = di_AnalysisVersion i,
       de_UpdatedAt = clampIdentifier l (trim_space (di_UpdatedAt i)),
       de_NodeCount = di_NodeCount i,
       de_RootNodeID = clampIdentifier l (trim_space (di_RootNodeID i)),
       de_SessionStatus = clampIdentifier l (trim_space (di_SessionStatus i)),
       de_SnapshotSource = clampIdentifier l (trim_space (di_SnapshotSource i)),
       de_Details = (if dropped then AList.update ''_truncated'' (JBool True) details else details),
       de_UserID = trim_space (dbt_UserID batch), de_Sequence = di_Sequence i\<rparr>)"

definition sanitize ::
    "diagnostics_config \<Rightarrow> ClientDiagnosticsBatchInput \<Rightarrow> ClientDiagnosticEventInput \<Rightarrow> gotime \<Rightarrow>
     gostring + ClientDiagnosticEvent" where
  "sanitize c batch i receivedAt =
     (let name = trim_space (di_Event i) in
      if name = [] then Inl ''missing_event_name''
      else if \<not> IsKnownClientDiagnosticEvent name then Inl ''unknown_event_name''
      else if first_trimmed [di_SessionID i, dbt_SessionID batch] \<noteq> dbt_SessionID batch
        then Inl ''session_id_mismatch''
      else if first_trimmed [di_WorkspaceID i, dbt_WorkspaceID batch] \<noteq> dbt_WorkspaceID batch
        then Inl ''workspace_id_mismatch''
      else Inr (event_of c batch i receivedAt))"

section \<open>Suppression and recording\<close>

definition pruneThrottle :: "ClientDiagnosticsLimits \<Rightarrow> gotime \<Rightarrow> (gostring \<times> gotime) list \<Rightarrow>
    (gostring \<times> gotime) list" where
  "pruneThrottle l now t =
     (let kept = filter (\<lambda>(k, seen). \<not> dl_ThrottleWindow l \<le> time_sub now seen) t in
      if int (length kept) < dl_ThrottleEntries l then kept else [])"

definition suppress :: "diagnostics_config \<Rightarrow> ClientDiagnosticEvent \<Rightarrow> diagnostics \<Rightarrow> bool \<times> diagnostics" where
  "suppress c e g0 =
     (let l = dc_limits c in
      if dl_ThrottleWindow l \<le> 0 \<or> IsCriticalClientDiagnosticEvent (de_Event e) then (False, g0)
      else (let key = throttleKey e; (now, g1) = dg_now g0;
                recent = (case map_of (dg_throttle g1) key of
                  None \<Rightarrow> False | Some seen \<Rightarrow> time_sub now seen < dl_ThrottleWindow l) in
        if recent then (True, g1)
        else (let t = (if dl_ThrottleEntries l \<le> int (length (dg_throttle g1))
                       then pruneThrottle l now (dg_throttle g1) else dg_throttle g1) in
          (False, g1\<lparr>dg_throttle := AList.update key now t\<rparr>))))"

definition write_event :: "ClientDiagnosticEvent \<Rightarrow> diagnostics \<Rightarrow> diagnostics" where
  "write_event e g = g\<lparr>dg_written := dg_written g @ [e]\<rparr>"

text \<open>The loop of \<open>Record\<close>; \<open>True\<close> in the result is the error of a cancelled context.\<close>

fun record_events ::
    "diagnostics_config \<Rightarrow> ClientDiagnosticsBatchInput \<Rightarrow> gotime \<Rightarrow> ClientDiagnosticEventInput list \<Rightarrow>
     ClientDiagnosticsResult \<Rightarrow> diagnostics \<Rightarrow> (ClientDiagnosticsResult \<times> bool) \<times> diagnostics" where
  "record_events c batch receivedAt [] r g = ((r, False), g)"
| "record_events c batch receivedAt (i # is) r g0 =
     (let g = g0\<lparr>dg_checks := Suc (dg_checks g0)\<rparr> in
      if dg_cancelled g0 (dg_checks g0) then ((r, True), g)
      else (case sanitize c batch i receivedAt of
          Inl reason \<Rightarrow>
            record_events c batch receivedAt is (addReason reason (r\<lparr>dr_Rejected := dr_Rejected r + 1\<rparr>)) g
        | Inr e \<Rightarrow>
            (case suppress c e g of
               (True, g') \<Rightarrow> record_events c batch receivedAt is
                 (addReason ''throttled_duplicate'' (r\<lparr>dr_Suppressed := dr_Suppressed r + 1\<rparr>)) g'
             | (False, g') \<Rightarrow>
                 record_events c batch receivedAt is (r\<lparr>dr_Accepted := dr_Accepted r + 1\<rparr>)
                   (write_event e g'))))"

datatype diagnostics_error = BatchEmpty | RequestCancelled

definition diagnostics_Record ::
    "diagnostics_config \<Rightarrow> ClientDiagnosticsBatchInput \<Rightarrow> diagnostics \<Rightarrow>
     (ClientDiagnosticsResult \<times> diagnostics_error option) \<times> diagnostics" where
  "diagnostics_Record c batch g0 =
     (let none = \<lparr>dr_Accepted = 0, dr_Rejected = 0, dr_Suppressed = 0, dr_Reasons = []\<rparr>;
          events = dbt_Events batch; limit = dl_MaxEventsPerRequest (dc_limits c) in
      if events = [] then ((none, Some BatchEmpty), g0)
      else
        (let over = int (length events) - limit;
             r0 = (if 0 < over
                   then ((addReason ''too_many_events'') ^^ nat over) (none\<lparr>dr_Rejected := over\<rparr>)
                   else none);
             (receivedAt, g1) = dg_now g0 in
         case record_events c batch receivedAt (cut limit events) r0 g1 of
           ((r, cancelled), g2) \<Rightarrow> ((r, if cancelled then Some RequestCancelled else None), g2)))"

end
