(* ===== verification/HttpBase.thy ===== *)
theory HttpBase
  imports HttpForms SessionCreate TranscriptHub WorkspaceAccess ClientDiagnostics
begin

text \<open>
  The frame of the HTTP layer (\<open>internal/adapter/http\<close>: \<open>response.go\<close>, \<open>access.go\<close>, \<open>dto.go\<close>,
  \<open>middleware/session_auth.go\<close> and \<open>corsMiddleware\<close> of \<open>router.go\<close>): requests, responses, the world
  the handlers act on, the error writers, the body decoders and the access checks.

  The world joins the worlds of the services (accounts, sessions with transcripts, meetings,
  media health, metrics, the two hubs) with an abstract state of the AI analysis, which the
  handlers reach through an interface.  The JSON decoder, the media-type parser, \<open>time.Parse\<close>,
  \<open>Format\<close> and SHA-256 are arguments (\<open>http_lib\<close>); a body is its bytes.  The parameters of a route
  are arguments of its handler, the login session put into the context by \<open>SessionAuth\<close> is the
  argument \<open>ctx\<close>.
\<close>

section \<open>Requests and responses\<close>

record http_request =
  hr_Method :: gostring
  hr_Origin :: gostring
  hr_ApiKey :: gostring
  hr_ContentType :: gostring
  hr_ContentLength :: int
  hr_Cookie :: "gostring option"
  hr_Query :: "gostring \<Rightarrow> gostring"
  hr_Body :: gostring
  hr_Upgrade :: upgrade_request
  hr_Hello :: "clientHello option"

record transcriptSegmentItem =
  ti_SessionID :: gostring
  ti_EventID :: gostring
  ti_CallID :: gostring
  ti_SequenceNo :: int
  ti_SpeakerID :: gostring
  ti_SpeakerName :: gostring
  ti_RecognizedAtUTC :: gostring
  ti_OffsetTicks :: int
  ti_DurationTicks :: int
  ti_Text :: gostring
  ti_ReceivedAtUTC :: gostring
  ti_IsFinal :: bool

definition transcriptSegmentItems ::
    "(gotime \<Rightarrow> gostring) \<Rightarrow> TranscriptSegment list \<Rightarrow> transcriptSegmentItem list" where
  "transcriptSegmentItems rfc =
     map (\<lambda>s. \<lparr>ti_SessionID = ts_SessionID s, ti_EventID = ts_EventID s, ti_CallID = ts_CallID s,
       ti_SequenceNo = ts_SequenceNo s, ti_SpeakerID = ts_SpeakerID s,
       ti_SpeakerName = ts_SpeakerName s, ti_RecognizedAtUTC = rfc (ts_RecognizedAtUTC s),
       ti_OffsetTicks = ts_OffsetTicks s, ti_DurationTicks = ts_DurationTicks s,
       ti_Text = ts_Text s, ti_ReceivedAtUTC = rfc (ts_ReceivedAtUTC s),
       ti_IsFinal = transcriptSegmentIsFinal s\<rparr>)"

text \<open>
  The bodies of the responses.  \<open>meetingResponse\<close>, \<open>eventResponse\<close> and \<open>segmentResponse\<close> are the domain
  types under other JSON names, so the DTO conversions of \<open>dto.go\<close> keep the value.
\<close>

datatype http_payload =
    NoBody
  | Failure gostring gostring
  | JSession meetingSessionResponse
  | JCreated meetingSessionCreateResponse
  | JSessions "meetingSessionResponse list"
  | JCleanup int "meetingSessionResponse list"
  | JDebug "meetingSessionDebugResponse list"
  | JTranscript "transcriptSegmentItem list"
  | JPreviews "meetingFinalSummaryPreviewResponse list"
  | JAnalyses meetingAIAnalysesResponse
  | JAgendaProgress gostring
  | JMediaHealth BotMediaHealthState
  | JLogin User "Workspace list" gostring gotime
  | JWorkspace Workspace
  | JWorkspaces "Workspace list"
  | JMember WorkspaceMember
  | JMembers "WorkspaceMember list"
  | JInvitation WorkspaceInvitation
  | JInvitations "WorkspaceInvitation list"
  | JInvitationPreview InvitationPreview
  | JMeeting Meeting
  | JMeetings "Meeting list"
  | JJoinToken JoinToken
  | JEvents "Event list"
  | JSegments "Segment list"
  | JStored transcriptSegmentResponse
  | JDiagnostics ClientDiagnosticsResult
  | JStatusOK
  | Switched gostring

datatype cookie_change = CookieKept | CookieSet gostring gotime | CookieCleared

record http_response =
  rs_Status :: int
  rs_Payload :: http_payload
  rs_Cookie :: cookie_change
  rs_AllowOrigin :: gostring

definition writeJSON :: "int \<Rightarrow> http_payload \<Rightarrow> http_response" where
  "writeJSON status v =
     \<lparr>rs_Status = status, rs_Payload = v, rs_Cookie = CookieKept, rs_AllowOrigin = []\<rparr>"

definition writeError :: "int \<Rightarrow> gostring \<Rightarrow> gostring \<Rightarrow> http_response" where
  "writeError status code message = writeJSON status (Failure code message)"

definition noContent :: http_response where "noContent = writeJSON 204 NoBody"

definition succeeded :: "http_response \<Rightarrow> bool" where
  "succeeded r \<longleftrightarrow> rs_Status r < 400"

lemma succeeded_simps [simp]:
  "succeeded (writeJSON st v) \<longleftrightarrow> st < 400" "succeeded (writeError st c m) \<longleftrightarrow> st < 400"
  "succeeded noContent"
  by (simp_all add: succeeded_def writeJSON_def writeError_def noContent_def)

section \<open>Decoders and other library functions\<close>

text \<open>The request of \<open>client_diagnostics_api.go\<close>; an event has the fields of the input of the service.\<close>

record clientDiagnosticsRequest =
  dq_WorkspaceID :: gostring
  dq_SessionID :: gostring
  dq_TabID :: gostring
  dq_FrontendBuildVersion :: gostring
  dq_Events :: "ClientDiagnosticEventInput list"

text \<open>
  What the two calls of \<open>Decode\<close> under a size limit yield (as in \<open>Transcripts\<close>), and what the one
  call of \<open>decodeJSON\<close> yields: the end of an empty body, an error, or a value.
\<close>

datatype 'a limited_body = LimitedBad body_error | LimitedOk 'a "body_error option"
datatype 'a plain_body = PlainEOF | PlainBad gostring | PlainOk 'a

record http_lib =
  hl_api :: api_lib
  hl_rfc :: "gotime \<Rightarrow> gostring"
  hl_driver_text :: gostring
  hl_accept_key :: "gostring \<Rightarrow> gostring"
  hl_json_string :: "gostring \<Rightarrow> gostring option"
  hl_create :: "gostring \<Rightarrow> meetingSessionCreateRequest limited_body"
  hl_override :: "gostring \<Rightarrow> agendaProgressOverrideRequest limited_body"
  hl_end :: "gostring \<Rightarrow> meetingSessionEndRequest limited_body"
  hl_status :: "gostring \<Rightarrow> meetingSessionStatusUpdateRequest limited_body"
  hl_metadata :: "gostring \<Rightarrow> meetingSessionMetadataUpdateRequest limited_body"
  hl_heartbeat :: "gostring \<Rightarrow> meetingSessionHeartbeatRequest limited_body"
  hl_mediaHealth :: "gostring \<Rightarrow> meetingSessionMediaHealthRequest limited_body"
  hl_diagnostics :: "gostring \<Rightarrow> clientDiagnosticsRequest limited_body"
  hl_segment :: "gostring \<Rightarrow> request_body"
  hl_idToken :: "gostring \<Rightarrow> gostring plain_body"
  hl_workspaceID :: "gostring \<Rightarrow> gostring plain_body"
  hl_workspaceCreate :: "gostring \<Rightarrow> (gostring \<times> gostring) plain_body"
  hl_workspaceUpdate :: "gostring \<Rightarrow> (gostring option \<times> gostring option) plain_body"
  hl_invitation :: "gostring \<Rightarrow> (gostring \<times> gostring) plain_body"
  hl_token :: "gostring \<Rightarrow> gostring plain_body"
  hl_role :: "gostring \<Rightarrow> gostring plain_body"
  hl_meetingCreate :: "gostring \<Rightarrow> (gostring \<times> gostring) plain_body"
  hl_allowContentType :: "http_request \<Rightarrow> bool"

fun body_failure :: "body_error \<Rightarrow> http_response" where
  "body_failure BodyTooLarge = writeError 413 ''payload_too_large'' ''request body is too large''"
| "body_failure BodyInvalid = writeError 400 ''invalid_json'' ''invalid JSON request body''"

text \<open>\<open>decodeLimitedJSON\<close>: the response it writes when it answers \<open>false\<close>, else the value.\<close>

fun decodeLimitedJSON :: "'a limited_body \<Rightarrow> http_response + 'a" where
  "decodeLimitedJSON (LimitedBad e) = Inl (body_failure e)"
| "decodeLimitedJSON (LimitedOk v (Some e)) = Inl (body_failure e)"
| "decodeLimitedJSON (LimitedOk v None) = Inr v"

text \<open>\<open>decodeJSON\<close>: an empty body leaves the zero value.\<close>

fun decodeJSON :: "'a \<Rightarrow> 'a plain_body \<Rightarrow> gostring + 'a" where
  "decodeJSON zero PlainEOF = Inr zero"
| "decodeJSON zero (PlainBad msg) = Inl msg"
| "decodeJSON zero (PlainOk v) = Inr v"

lemma body_failure_not_ok [simp]: "\<not> succeeded (body_failure e)"
  by (cases e) simp_all

lemma decodeLimitedJSON_Inl: "decodeLimitedJSON b = Inl r \<Longrightarrow> \<not> succeeded r"
  by (cases b rule: decodeLimitedJSON.cases) auto

section \<open>Errors\<close>

definition with_message :: "gostring \<Rightarrow> gostring \<Rightarrow> gostring" where
  "with_message sentinel msg = (if msg = [] then sentinel else sentinel @ '': '' @ msg)"

fun error_text :: "gostring \<Rightarrow> goerror \<Rightarrow> gostring" where
  "error_text driver (ErrNotFound m) = with_message ''not found'' m"
| "error_text driver ErrForbidden = ''forbidden''"
| "error_text driver (ErrInvalidArgument m) = with_message ''invalid argument'' m"
| "error_text driver (ErrConflict m) = with_message ''conflict'' m"
| "error_text driver ErrDatabase = driver"
| "error_text driver ErrBotControlNotConfigured = ''bot control is not configured''"
| "error_text driver (ErrBotControlCommandFailed m) = with_message ''bot control command failed'' m"

fun ws_error_text :: "gostring \<Rightarrow> ws_error \<Rightarrow> gostring" where
  "ws_error_text driver (Core e) = error_text driver e"
| "ws_error_text driver ErrInvitationExpired = ''invitation expired''"
| "ws_error_text driver ErrInvitationRevoked = ''invitation revoked''"
| "ws_error_text driver ErrInvitationAlreadyAccepted = ''invitation already accepted''"
| "ws_error_text driver ErrInvitationEmailMismatch = ''invitation email mismatch''"
| "ws_error_text driver ErrInvitationEmailDelivery = ''invitation email delivery failed''"
| "ws_error_text driver ErrUnavailable = ''authentication is unavailable''"
| "ws_error_text driver ErrInvalidToken = ''invalid token''"
| "ws_error_text driver ErrEmailRequired = ''email is required''"
| "ws_error_text driver ErrUnauthorized = ''unauthorized''"
| "ws_error_text driver ErrRandom = driver"

definition writeStoreError :: "http_lib \<Rightarrow> ws_error \<Rightarrow> http_response" where
  "writeStoreError lib e =
     (case e of
        Core (ErrInvalidArgument m) \<Rightarrow>
          writeError 400 ''invalid_request'' (ws_error_text (hl_driver_text lib) e)
      | Core (ErrConflict m) \<Rightarrow> writeError 409 ''conflict'' (ws_error_text (hl_driver_text lib) e)
      | Core ErrForbidden \<Rightarrow> writeError 403 ''forbidden'' ''forbidden''
      | Core (ErrNotFound m) \<Rightarrow> writeError 404 ''not_found'' ''resource not found''
      | _ \<Rightarrow> writeError 500 ''internal_error'' (ws_error_text (hl_driver_text lib) e))"

definition writeMeetingSessionError :: "http_lib \<Rightarrow> goerror \<Rightarrow> http_response" where
  "writeMeetingSessionError lib e =
     (case e of
        ErrInvalidArgument m \<Rightarrow>
          writeError 400 ''invalid_request'' (error_text (hl_driver_text lib) e)
      | ErrForbidden \<Rightarrow> writeError 403 ''forbidden'' ''forbidden''
      | ErrNotFound m \<Rightarrow> writeError 404 ''not_found'' ''meeting session not found''
      | _ \<Rightarrow> writeError 500 ''internal_error'' ''internal server error'')"

definition writeMeetingSessionEndError :: "http_lib \<Rightarrow> goerror \<Rightarrow> http_response" where
  "writeMeetingSessionEndError lib e =
     (case e of
        ErrBotControlNotConfigured \<Rightarrow>
          writeError 503 ''bot_control_not_configured'' ''bot control URL or token is not configured''
      | ErrBotControlCommandFailed m \<Rightarrow>
          writeError 502 ''bot_control_command_failed''
            ''failed to send end command to bot control API''
      | _ \<Rightarrow> writeMeetingSessionError lib e)"

text \<open>The Japanese messages of \<open>workspace_api.go\<close>, as UTF-8 bytes.\<close>

definition utf8_bytes :: "nat list \<Rightarrow> gostring" where
  "utf8_bytes = map char_of"

definition msg_invitation_expired :: gostring where
  "msg_invitation_expired = utf8_bytes [
    227, 129, 147, 227, 129, 174, 230, 139, 155, 229, 190, 133, 227, 131, 170, 227, 131, 179,
    227, 130, 175, 227, 129, 175, 230, 156, 159, 233, 153, 144, 229, 136, 135, 227, 130, 140,
    227, 129, 167, 227, 129, 153]"

definition msg_invitation_revoked :: gostring where
  "msg_invitation_revoked = utf8_bytes [
    227, 129, 147, 227, 129, 174, 230, 139, 155, 229, 190, 133, 227, 129, 175, 229, 143, 150,
    227, 130, 138, 230, 182, 136, 227, 129, 149, 227, 130, 140, 227, 129, 166, 227, 129, 132,
    227, 129, 190, 227, 129, 153]"

definition msg_invitation_used :: gostring where
  "msg_invitation_used = utf8_bytes [
    227, 129, 147, 227, 129, 174, 230, 139, 155, 229, 190, 133, 227, 131, 170, 227, 131, 179,
    227, 130, 175, 227, 129, 175, 228, 189, 191, 231, 148, 168, 230, 184, 136, 227, 129, 191,
    227, 129, 167, 227, 129, 153]"

definition msg_invitation_mismatch :: gostring where
  "msg_invitation_mismatch = utf8_bytes [
    227, 131, 173, 227, 130, 176, 227, 130, 164, 227, 131, 179, 228, 184, 173, 227, 129, 174,
    227, 130, 162, 227, 130, 171, 227, 130, 166, 227, 131, 179, 227, 131, 136, 227, 129, 174,
    227, 131, 161, 227, 131, 188, 227, 131, 171, 227, 130, 162, 227, 131, 137, 227, 131, 172,
    227, 130, 185, 227, 129, 140, 230, 139, 155, 229, 190, 133, 229, 133, 136, 227, 129, 168,
    228, 184, 128, 232, 135, 180, 227, 129, 151, 227, 129, 190, 227, 129, 155, 227, 130, 147]"

definition msg_invitation_email :: gostring where
  "msg_invitation_email = utf8_bytes [
    230, 139, 155, 229, 190, 133, 227, 131, 161, 227, 131, 188, 227, 131, 171, 227, 130, 146,
    233, 128, 129, 228, 191, 161, 227, 129, 167, 227, 129, 141, 227, 129, 190, 227, 129, 155,
    227, 130, 147, 227, 129, 167, 227, 129, 151, 227, 129, 159]"

definition writeInvitationError :: "http_lib \<Rightarrow> ws_error \<Rightarrow> http_response" where
  "writeInvitationError lib e =
     (case e of
        ErrInvitationExpired \<Rightarrow> writeError 410 ''invitation_expired'' msg_invitation_expired
      | ErrInvitationRevoked \<Rightarrow> writeError 410 ''invitation_revoked'' msg_invitation_revoked
      | ErrInvitationAlreadyAccepted \<Rightarrow>
          writeError 409 ''invitation_already_accepted'' msg_invitation_used
      | ErrInvitationEmailMismatch \<Rightarrow>
          writeError 403 ''invitation_email_mismatch'' msg_invitation_mismatch
      | _ \<Rightarrow> writeStoreError lib e)"

lemma error_writers_fail [simp]:
  "\<not> succeeded (writeStoreError lib e)" "\<not> succeeded (writeMeetingSessionError lib c)"
  "\<not> succeeded (writeMeetingSessionEndError lib c)" "\<not> succeeded (writeInvitationError lib e)"
  by (auto simp: writeStoreError_def writeMeetingSessionError_def writeMeetingSessionEndError_def
      writeInvitationError_def split: ws_error.split goerror.split)

section \<open>The world of the handlers\<close>

text \<open>The interface \<open>MeetingAIAnalysisUseCases\<close>, on a state of its own.\<close>

datatype retry_error = RetryAlreadyCompleted | RetryUnavailable | RetryFailed goerror

record 'ai ai_usecases =
  ai_GetMeetingAIAnalyses :: "gostring \<Rightarrow> 'ai \<Rightarrow> MeetingAIAnalysesSnapshot option result \<times> 'ai"
  ai_ListFinalSummaryPreviews ::
    "gostring list \<Rightarrow> 'ai \<Rightarrow> MeetingFinalSummaryPreview list result \<times> 'ai"
  ai_UpdateAgendaProgressOverride ::
    "gostring \<Rightarrow> AgendaProgressOverrideInput \<Rightarrow> 'ai \<Rightarrow> gostring result \<times> 'ai"
  ai_StartMeetingSessionFinalizationRetry :: "gostring \<Rightarrow> 'ai \<Rightarrow> retry_error option \<times> 'ai"

record ('db, 'm, 'ai) http_world =
  hw_accounts :: "'db ws_world"
  hw_ingest :: ingest
  hw_meetings :: "'m host"
  hw_media :: media_health
  hw_metrics :: metrics_store
  hw_hub :: hub
  hw_transcripts :: transcript_hub
  hw_clients :: nat
  hw_diagnostics :: diagnostics
  hw_ai :: 'ai

record CORSConfig =
  cors_FrontendURL :: gostring
  cors_AllowedOrigins :: gostring

record ('db, 'm, 'ai) http_deps =
  hd_lib :: http_lib
  hd_apiKey :: gostring
  hd_sessions :: config
  hd_accounts :: "'db ws_config"
  hd_canAccess :: "gostring \<Rightarrow> gostring \<Rightarrow> ('db, unit) op"
  hd_meetings :: "'m meeting_repo"
  hd_meetingPublisher :: bool
  hd_segmentPublisher :: bool
  hd_transcript :: bool
  hd_stream :: bool
  hd_metrics :: bool
  hd_media :: bool
  hd_connections :: bool
  hd_ai :: "'ai ai_usecases option"
  hd_collation :: "gostring \<Rightarrow> gostring \<Rightarrow> bool"
  hd_streamOrigins :: gostring
  hd_diagnostics :: "diagnostics_config option"
  hd_ready :: "gostring option option"
  hd_cors :: CORSConfig

definition on_accounts ::
    "('db ws_world \<Rightarrow> 'a \<times> 'db ws_world) \<Rightarrow> ('db, 'm, 'ai) http_world \<Rightarrow> 'a \<times> ('db, 'm, 'ai) http_world" where
  "on_accounts f w = (case f (hw_accounts w) of (r, a) \<Rightarrow> (r, w\<lparr>hw_accounts := a\<rparr>))"

definition on_ingest ::
    "(ingest \<Rightarrow> 'a \<times> ingest) \<Rightarrow> ('db, 'm, 'ai) http_world \<Rightarrow> 'a \<times> ('db, 'm, 'ai) http_world" where
  "on_ingest f w = (case f (hw_ingest w) of (r, g) \<Rightarrow> (r, w\<lparr>hw_ingest := g\<rparr>))"

definition on_sessions ::
    "(world \<Rightarrow> 'a \<times> world) \<Rightarrow> ('db, 'm, 'ai) http_world \<Rightarrow> 'a \<times> ('db, 'm, 'ai) http_world" where
  "on_sessions f = on_ingest (\<lambda>g. case f (ig_world g) of (r, v) \<Rightarrow> (r, g\<lparr>ig_world := v\<rparr>))"

definition on_meetings ::
    "('m host \<Rightarrow> 'a \<times> 'm host) \<Rightarrow> ('db, 'm, 'ai) http_world \<Rightarrow> 'a \<times> ('db, 'm, 'ai) http_world" where
  "on_meetings f w = (case f (hw_meetings w) of (r, h) \<Rightarrow> (r, w\<lparr>hw_meetings := h\<rparr>))"

definition on_ai ::
    "('ai \<Rightarrow> 'a \<times> 'ai) \<Rightarrow> ('db, 'm, 'ai) http_world \<Rightarrow> 'a \<times> ('db, 'm, 'ai) http_world" where
  "on_ai f w = (case f (hw_ai w) of (r, s) \<Rightarrow> (r, w\<lparr>hw_ai := s\<rparr>))"

definition on_diagnostics ::
    "(diagnostics \<Rightarrow> 'a \<times> diagnostics) \<Rightarrow> ('db, 'm, 'ai) http_world \<Rightarrow> 'a \<times> ('db, 'm, 'ai) http_world" where
  "on_diagnostics f w = (case f (hw_diagnostics w) of (r, g) \<Rightarrow> (r, w\<lparr>hw_diagnostics := g\<rparr>))"

abbreviation sessions_of :: "('db, 'm, 'ai) http_world \<Rightarrow> world" where
  "sessions_of w \<equiv> ig_world (hw_ingest w)"

text \<open>The names the handlers use for the results of a service call.\<close>

definition store_reply_of ::
    "http_lib \<Rightarrow> ('a \<Rightarrow> http_response) \<Rightarrow> 'a ws_result \<times> 'w \<Rightarrow> http_response \<times> 'w" where
  "store_reply_of lib k rw =
     (case rw of (Inl e, w) \<Rightarrow> (writeStoreError lib e, w) | (Inr v, w) \<Rightarrow> (k v, w))"

section \<open>CORS\<close>

fun matching_origin :: "gostring \<Rightarrow> gostring list \<Rightarrow> gostring option" where
  "matching_origin origin [] = None"
| "matching_origin origin (c # cs) =
     (let candidate = trim_space c in
      if candidate = ''*'' \<or> candidate = origin then Some candidate else matching_origin origin cs)"

definition responseOrigin :: "CORSConfig \<Rightarrow> gostring \<Rightarrow> gostring" where
  "responseOrigin cfg origin =
     (let allowedOrigin = (if cors_FrontendURL cfg = [] then ''http://localhost:5193''
                           else cors_FrontendURL cfg) in
      if cors_AllowedOrigins cfg \<noteq> [] then
        (case matching_origin origin (split_on (CHR '','') (cors_AllowedOrigins cfg)) of
           Some candidate \<Rightarrow> candidate | None \<Rightarrow> allowedOrigin)
      else if origin \<noteq> [] \<and> (origin = allowedOrigin \<or> has_prefix origin ''http://localhost:'' \<or>
                has_prefix origin ''http://127.0.0.1:'')
        then origin
      else allowedOrigin)"

type_synonym ('db, 'm, 'ai) handler =
  "http_request \<Rightarrow> ('db, 'm, 'ai) http_world \<Rightarrow> http_response \<times> ('db, 'm, 'ai) http_world"

definition corsMiddleware :: "CORSConfig \<Rightarrow> ('db, 'm, 'ai) handler \<Rightarrow> ('db, 'm, 'ai) handler" where
  "corsMiddleware cfg next_handler r w =
     (let origin = responseOrigin cfg (hr_Origin r) in
      if hr_Method r = ''OPTIONS'' then ((writeJSON 200 NoBody)\<lparr>rs_AllowOrigin := origin\<rparr>, w)
      else (case next_handler r w of (resp, w') \<Rightarrow> (resp\<lparr>rs_AllowOrigin := origin\<rparr>, w')))"

section \<open>Authentication and access\<close>

definition SessionAuth ::
    "('db, 'm, 'ai) http_deps \<Rightarrow> (SessionResult \<Rightarrow> ('db, 'm, 'ai) handler) \<Rightarrow> ('db, 'm, 'ai) handler" where
  "SessionAuth d next_handler r w =
     (case hr_Cookie r of
        None \<Rightarrow> (writeError 401 ''unauthorized'' ''unauthorized'', w)
      | Some token \<Rightarrow>
          if token = [] then (writeError 401 ''unauthorized'' ''unauthorized'', w)
          else (case on_accounts (Authenticate (hd_accounts d) token) w of
              (Inl ErrUnauthorized, w') \<Rightarrow> (writeError 401 ''unauthorized'' ''unauthorized'', w')
            | (Inl _, w') \<Rightarrow> (writeError 500 ''authentication_failed'' ''authentication failed'', w')
            | (Inr ctx, w') \<Rightarrow> next_handler ctx r w'))"

text \<open>\<open>requireAccess\<close> for a check that may fail with an error.\<close>

definition requireAccess ::
    "('db, 'm, 'ai) http_deps \<Rightarrow> ('db ws_world \<Rightarrow> unit ws_result \<times> 'db ws_world) \<Rightarrow>
     ('db, 'm, 'ai) handler \<Rightarrow> ('db, 'm, 'ai) handler" where
  "requireAccess d check next_handler r w =
     (case on_accounts check w of
        (Inl e, w') \<Rightarrow> (writeStoreError (hd_lib d) e, w')
      | (Inr _, w') \<Rightarrow> next_handler r w')"

definition check_workspace ::
    "('db, 'm, 'ai) http_deps \<Rightarrow> SessionResult \<Rightarrow> gostring \<Rightarrow> (gostring \<Rightarrow> bool) \<Rightarrow> 'db ws_world \<Rightarrow>
     unit ws_result \<times> 'db ws_world" where
  "check_workspace d ctx workspaceCode allowed =
     ws_bind (GetWorkspace (hd_accounts d) (us_ID (sr_User ctx)) workspaceCode)
       (\<lambda>ws a. if allowed (wk_Role ws) then (Inr (), a) else (Inl (Core ErrForbidden), a))"

definition requireWorkspaceAccess ::
    "('db, 'm, 'ai) http_deps \<Rightarrow> SessionResult \<Rightarrow> gostring \<Rightarrow> ('db, 'm, 'ai) handler \<Rightarrow> ('db, 'm, 'ai) handler" where
  "requireWorkspaceAccess d ctx workspaceCode =
     requireAccess d (check_workspace d ctx workspaceCode (\<lambda>role. True))"

definition requireWorkspaceAdminOrOwner ::
    "('db, 'm, 'ai) http_deps \<Rightarrow> SessionResult \<Rightarrow> gostring \<Rightarrow> ('db, 'm, 'ai) handler \<Rightarrow> ('db, 'm, 'ai) handler" where
  "requireWorkspaceAdminOrOwner d ctx workspaceCode =
     requireAccess d (check_workspace d ctx workspaceCode CanManageMeetingSessions)"

definition requireWorkspaceOwnerRole ::
    "('db, 'm, 'ai) http_deps \<Rightarrow> SessionResult \<Rightarrow> gostring \<Rightarrow> ('db, 'm, 'ai) handler \<Rightarrow> ('db, 'm, 'ai) handler" where
  "requireWorkspaceOwnerRole d ctx workspaceCode =
     requireAccess d (check_workspace d ctx workspaceCode IsWorkspaceOwner)"

definition requireMeetingAccess ::
    "('db, 'm, 'ai) http_deps \<Rightarrow> SessionResult \<Rightarrow> gostring \<Rightarrow> ('db, 'm, 'ai) handler \<Rightarrow> ('db, 'm, 'ai) handler" where
  "requireMeetingAccess d ctx meetingID =
     requireAccess d (CanAccessMeeting (hd_canAccess d) (us_ID (sr_User ctx)) meetingID)"

definition requireRealtimeAccess ::
    "('db, 'm, 'ai) http_deps \<Rightarrow> SessionResult \<Rightarrow> ('db, 'm, 'ai) handler \<Rightarrow> ('db, 'm, 'ai) handler" where
  "requireRealtimeAccess d ctx next_handler r =
     requireAccess d (CanAccessMeeting (hd_canAccess d) (us_ID (sr_User ctx)) (hr_Query r ''meeting_id''))
       next_handler r"

end
