(* ===== verification/HttpHandlers.thy ===== *)
theory HttpHandlers
  imports HttpBase
begin

text \<open>
  The handlers of \<open>auth_api.go\<close>, \<open>workspace_api.go\<close>, \<open>meeting_handler.go\<close>, \<open>healthz.go\<close> and
  \<open>v1_health_handler.go\<close>, and the connection closer of \<open>internal/app/server.go\<close>.  A handler below
  \<open>SessionAuth\<close> always finds the login session in its context, so it takes it as \<open>ctx\<close>; the
  branches for a missing one are the empty results of \<open>SessionAuth\<close>.  Log lines are left out, as
  is the clock reading in the body of \<open>Health\<close>.
\<close>

section \<open>Login and logout\<close>

definition closer_CloseSession ::
    "gostring \<Rightarrow> ('db, 'm, 'ai) http_world \<Rightarrow> ('db, 'm, 'ai) http_world" where
  "closer_CloseSession sessionID w = w\<lparr>hw_hub := CloseSession sessionID (hw_hub w)\<rparr>"

definition closer_CloseWorkspaceMember ::
    "gostring \<Rightarrow> gostring \<Rightarrow> ('db, 'm, 'ai) http_world \<Rightarrow> ('db, 'm, 'ai) http_world" where
  "closer_CloseWorkspaceMember workspaceID userID w =
     w\<lparr>hw_hub := CloseWorkspaceMember workspaceID userID (hw_hub w),
       hw_transcripts := th_CloseWorkspaceMember workspaceID userID (hw_transcripts w)\<rparr>"

definition sessionResponse :: "User \<Rightarrow> Workspace list \<Rightarrow> LoginSession \<Rightarrow> http_payload" where
  "sessionResponse user workspaces s =
     JLogin user workspaces (ls_CurrentWorkspaceID s) (ls_ExpiresAt s)"

definition AuthAPI_Login :: "('db, 'm, 'ai) http_deps \<Rightarrow> ('db, 'm, 'ai) handler" where
  "AuthAPI_Login d r w =
     (case decodeJSON [] (hl_idToken (hd_lib d) (hr_Body r)) of
        Inl msg \<Rightarrow> (writeError 400 ''invalid_request'' ''idToken is required'', w)
      | Inr idToken \<Rightarrow>
          if idToken = [] then (writeError 400 ''invalid_request'' ''idToken is required'', w)
          else (case on_accounts (Login (hd_accounts d) idToken) w of
              (Inl e, w') \<Rightarrow>
                ((case e of
                    ErrUnavailable \<Rightarrow>
                      writeError 503 ''auth_unavailable'' (ws_error_text (hl_driver_text (hd_lib d)) e)
                  | ErrInvalidToken \<Rightarrow>
                      writeError 401 ''invalid_token'' (ws_error_text (hl_driver_text (hd_lib d)) e)
                  | ErrEmailRequired \<Rightarrow>
                      writeError 401 ''invalid_token'' (ws_error_text (hl_driver_text (hd_lib d)) e)
                  | _ \<Rightarrow> writeStoreError (hd_lib d) e), w')
            | (Inr x, w') \<Rightarrow>
                ((writeJSON 200 (sessionResponse (lr_User x) (lr_Workspaces x) (lr_Session x)))
                   \<lparr>rs_Cookie := CookieSet (lr_Token x) (ls_ExpiresAt (lr_Session x))\<rparr>, w')))"

definition AuthAPI_Me :: "SessionResult \<Rightarrow> ('db, 'm, 'ai) handler" where
  "AuthAPI_Me ctx r w =
     (writeJSON 200 (sessionResponse (sr_User ctx) (sr_Workspaces ctx) (sr_Session ctx)), w)"

definition AuthAPI_Logout ::
    "('db, 'm, 'ai) http_deps \<Rightarrow> SessionResult \<Rightarrow> ('db, 'm, 'ai) handler" where
  "AuthAPI_Logout d ctx r w0 =
     (let (_, w1) = on_accounts (Logout (hd_accounts d) (ls_ID (sr_Session ctx))) w0;
          w2 = (if hd_connections d then closer_CloseSession (ls_ID (sr_Session ctx)) w1 else w1)
      in (noContent\<lparr>rs_Cookie := CookieCleared\<rparr>, w2))"

definition AuthAPI_SetCurrentWorkspace ::
    "('db, 'm, 'ai) http_deps \<Rightarrow> SessionResult \<Rightarrow> ('db, 'm, 'ai) handler" where
  "AuthAPI_SetCurrentWorkspace d ctx r w =
     (case decodeJSON [] (hl_workspaceID (hd_lib d) (hr_Body r)) of
        Inl msg \<Rightarrow> (writeError 400 ''invalid_request'' ''workspace_id is required'', w)
      | Inr workspaceID \<Rightarrow>
          if workspaceID = [] then (writeError 400 ''invalid_request'' ''workspace_id is required'', w)
          else store_reply_of (hd_lib d) (\<lambda>_. noContent)
            (on_accounts (SetCurrentWorkspace (hd_accounts d) (ls_ID (sr_Session ctx))
               (us_ID (sr_User ctx)) workspaceID) w))"

section \<open>Workspaces\<close>

definition WorkspaceAPI_List ::
    "('db, 'm, 'ai) http_deps \<Rightarrow> SessionResult \<Rightarrow> ('db, 'm, 'ai) handler" where
  "WorkspaceAPI_List d ctx r w =
     store_reply_of (hd_lib d) (\<lambda>vs. writeJSON 200 (JWorkspaces vs))
       (on_accounts (ListWorkspaces (hd_accounts d) (us_ID (sr_User ctx))) w)"

definition WorkspaceAPI_Create ::
    "('db, 'm, 'ai) http_deps \<Rightarrow> SessionResult \<Rightarrow> ('db, 'm, 'ai) handler" where
  "WorkspaceAPI_Create d ctx r w =
     (case decodeJSON ([], []) (hl_workspaceCreate (hd_lib d) (hr_Body r)) of
        Inl msg \<Rightarrow> (writeError 400 ''invalid_json'' msg, w)
      | Inr (name, description) \<Rightarrow>
          store_reply_of (hd_lib d) (\<lambda>v. writeJSON 201 (JWorkspace v))
            (on_accounts (CreateWorkspace (hd_accounts d) (us_ID (sr_User ctx)) name description) w))"

definition WorkspaceAPI_Get ::
    "('db, 'm, 'ai) http_deps \<Rightarrow> SessionResult \<Rightarrow> gostring \<Rightarrow> ('db, 'm, 'ai) handler" where
  "WorkspaceAPI_Get d ctx workspaceCode r w =
     store_reply_of (hd_lib d) (\<lambda>v. writeJSON 200 (JWorkspace v))
       (on_accounts (GetWorkspace (hd_accounts d) (us_ID (sr_User ctx)) workspaceCode) w)"

definition WorkspaceAPI_Update ::
    "('db, 'm, 'ai) http_deps \<Rightarrow> SessionResult \<Rightarrow> gostring \<Rightarrow> ('db, 'm, 'ai) handler" where
  "WorkspaceAPI_Update d ctx workspaceCode r w =
     (case decodeJSON (None, None) (hl_workspaceUpdate (hd_lib d) (hr_Body r)) of
        Inl msg \<Rightarrow> (writeError 400 ''invalid_json'' msg, w)
      | Inr (name, description) \<Rightarrow>
          store_reply_of (hd_lib d) (\<lambda>v. writeJSON 200 (JWorkspace v))
            (on_accounts (UpdateWorkspace (hd_accounts d) (us_ID (sr_User ctx)) workspaceCode
               name description) w))"

definition WorkspaceAPI_ListMembers ::
    "('db, 'm, 'ai) http_deps \<Rightarrow> SessionResult \<Rightarrow> gostring \<Rightarrow> ('db, 'm, 'ai) handler" where
  "WorkspaceAPI_ListMembers d ctx workspaceCode r w =
     store_reply_of (hd_lib d) (\<lambda>vs. writeJSON 200 (JMembers vs))
       (on_accounts (ListMembers (hd_accounts d) (us_ID (sr_User ctx)) workspaceCode) w)"

definition WorkspaceAPI_CreateInvitation ::
    "('db, 'm, 'ai) http_deps \<Rightarrow> SessionResult \<Rightarrow> gostring \<Rightarrow> ('db, 'm, 'ai) handler" where
  "WorkspaceAPI_CreateInvitation d ctx workspaceCode r w =
     (case decodeJSON ([], []) (hl_invitation (hd_lib d) (hr_Body r)) of
        Inl msg \<Rightarrow> (writeError 400 ''invalid_json'' msg, w)
      | Inr (email, role) \<Rightarrow>
          (case on_accounts (CreateInvitation (hd_accounts d) (us_ID (sr_User ctx))
                   (us_DisplayName (sr_User ctx)) workspaceCode email role) w of
             (Inl ErrInvitationEmailDelivery, w') \<Rightarrow>
               (writeError 500 ''invitation_email_failed'' msg_invitation_email, w')
           | (Inl e, w') \<Rightarrow> (writeStoreError (hd_lib d) e, w')
           | (Inr v, w') \<Rightarrow> (writeJSON 201 (JInvitation v), w')))"

definition WorkspaceAPI_PreviewInvitation ::
    "('db, 'm, 'ai) http_deps \<Rightarrow> ('db, 'm, 'ai) handler" where
  "WorkspaceAPI_PreviewInvitation d r w =
     (case on_accounts (PreviewInvitation (hd_accounts d) (hr_Query r ''token'')) w of
        (Inl e, w') \<Rightarrow> (writeInvitationError (hd_lib d) e, w')
      | (Inr v, w') \<Rightarrow> (writeJSON 200 (JInvitationPreview v), w'))"

definition WorkspaceAPI_AcceptInvitation ::
    "('db, 'm, 'ai) http_deps \<Rightarrow> SessionResult \<Rightarrow> ('db, 'm, 'ai) handler" where
  "WorkspaceAPI_AcceptInvitation d ctx r w =
     (case decodeJSON [] (hl_token (hd_lib d) (hr_Body r)) of
        Inl msg \<Rightarrow> (writeError 400 ''invalid_json'' msg, w)
      | Inr token \<Rightarrow>
          (case on_accounts (AcceptInvitation (hd_accounts d) (us_ID (sr_User ctx))
                   (us_Email (sr_User ctx)) token) w of
             (Inl e, w') \<Rightarrow> (writeInvitationError (hd_lib d) e, w')
           | (Inr v, w') \<Rightarrow> (writeJSON 200 (JWorkspace v), w')))"

definition WorkspaceAPI_ListInvitations ::
    "('db, 'm, 'ai) http_deps \<Rightarrow> SessionResult \<Rightarrow> gostring \<Rightarrow> ('db, 'm, 'ai) handler" where
  "WorkspaceAPI_ListInvitations d ctx workspaceCode r w =
     store_reply_of (hd_lib d) (\<lambda>vs. writeJSON 200 (JInvitations vs))
       (on_accounts (ListInvitations (hd_accounts d) (us_ID (sr_User ctx)) workspaceCode) w)"

definition WorkspaceAPI_RevokeInvitation ::
    "('db, 'm, 'ai) http_deps \<Rightarrow> SessionResult \<Rightarrow> gostring \<Rightarrow> gostring \<Rightarrow> ('db, 'm, 'ai) handler" where
  "WorkspaceAPI_RevokeInvitation d ctx workspaceCode invitationID r w =
     store_reply_of (hd_lib d) (\<lambda>_. noContent)
       (on_accounts (RevokeInvitation (hd_accounts d) (us_ID (sr_User ctx)) workspaceCode invitationID) w)"

definition WorkspaceAPI_RemoveMember ::
    "('db, 'm, 'ai) http_deps \<Rightarrow> SessionResult \<Rightarrow> gostring \<Rightarrow> gostring \<Rightarrow> ('db, 'm, 'ai) handler" where
  "WorkspaceAPI_RemoveMember d ctx workspaceCode memberID r w =
     (case on_accounts (RemoveMember (hd_accounts d) (us_ID (sr_User ctx)) workspaceCode memberID) w of
        (Inl e, w') \<Rightarrow> (writeStoreError (hd_lib d) e, w')
      | (Inr _, w') \<Rightarrow>
          (noContent,
           if hd_connections d then closer_CloseWorkspaceMember workspaceCode memberID w' else w'))"

definition WorkspaceAPI_UpdateMemberRole ::
    "('db, 'm, 'ai) http_deps \<Rightarrow> SessionResult \<Rightarrow> gostring \<Rightarrow> gostring \<Rightarrow> ('db, 'm, 'ai) handler" where
  "WorkspaceAPI_UpdateMemberRole d ctx workspaceCode memberID r w =
     (case decodeJSON [] (hl_role (hd_lib d) (hr_Body r)) of
        Inl msg \<Rightarrow> (writeError 400 ''invalid_json'' msg, w)
      | Inr role \<Rightarrow>
          store_reply_of (hd_lib d) (\<lambda>v. writeJSON 200 (JMember v))
            (on_accounts (UpdateMemberRole (hd_accounts d) (us_ID (sr_User ctx)) workspaceCode
               memberID role) w))"

section \<open>Meetings\<close>

definition core_reply ::
    "http_lib \<Rightarrow> ('a \<Rightarrow> http_response) \<Rightarrow> 'a result \<times> 'w \<Rightarrow> http_response \<times> 'w" where
  "core_reply lib k rw =
     (case rw of (Inl e, w) \<Rightarrow> (writeStoreError lib (Core e), w) | (Inr v, w) \<Rightarrow> (k v, w))"

definition failing_reply ::
    "http_lib \<Rightarrow> gostring \<Rightarrow> ('a \<Rightarrow> http_response) \<Rightarrow> 'a result \<times> 'w \<Rightarrow> http_response \<times> 'w" where
  "failing_reply lib code k rw =
     (case rw of
        (Inl e, w) \<Rightarrow> (writeError 500 code (error_text (hl_driver_text lib) e), w)
      | (Inr v, w) \<Rightarrow> (k v, w))"

definition CoreAPI_ListMeetings ::
    "('db, 'm, 'ai) http_deps \<Rightarrow> gostring \<Rightarrow> ('db, 'm, 'ai) handler" where
  "CoreAPI_ListMeetings d workspaceCode r w =
     failing_reply (hd_lib d) ''list_meetings_failed'' (\<lambda>vs. writeJSON 200 (JMeetings vs))
       (on_meetings (svc_ListMeetings (hd_meetings d) workspaceCode) w)"

definition CoreAPI_CreateMeeting ::
    "('db, 'm, 'ai) http_deps \<Rightarrow> gostring \<Rightarrow> ('db, 'm, 'ai) handler" where
  "CoreAPI_CreateMeeting d workspaceCode r w =
     (case decodeJSON ([], []) (hl_meetingCreate (hd_lib d) (hr_Body r)) of
        Inl msg \<Rightarrow> (writeError 400 ''invalid_json'' msg, w)
      | Inr (title, source) \<Rightarrow>
          failing_reply (hd_lib d) ''create_meeting_failed'' (\<lambda>v. writeJSON 201 (JMeeting v))
            (on_meetings (svc_CreateMeeting (hd_meetings d) (hd_meetingPublisher d) workspaceCode
               title source) w))"

definition CoreAPI_GetMeeting ::
    "('db, 'm, 'ai) http_deps \<Rightarrow> gostring \<Rightarrow> ('db, 'm, 'ai) handler" where
  "CoreAPI_GetMeeting d meetingID r w =
     core_reply (hd_lib d) (\<lambda>v. writeJSON 200 (JMeeting v))
       (on_meetings (svc_GetMeeting (hd_meetings d) meetingID) w)"

definition CoreAPI_CreateJoinToken ::
    "('db, 'm, 'ai) http_deps \<Rightarrow> gostring \<Rightarrow> ('db, 'm, 'ai) handler" where
  "CoreAPI_CreateJoinToken d meetingID r w =
     core_reply (hd_lib d) (\<lambda>v. writeJSON 200 (JJoinToken v))
       (on_meetings (CreateJoinToken (hd_meetings d) meetingID) w)"

definition CoreAPI_EndMeeting ::
    "('db, 'm, 'ai) http_deps \<Rightarrow> gostring \<Rightarrow> ('db, 'm, 'ai) handler" where
  "CoreAPI_EndMeeting d meetingID r w =
     core_reply (hd_lib d) (\<lambda>vs. writeJSON 200 (JEvents vs))
       (on_meetings (EndMeeting (hd_meetings d) (hd_meetingPublisher d) meetingID) w)"

definition CoreAPI_ListEvents ::
    "('db, 'm, 'ai) http_deps \<Rightarrow> gostring \<Rightarrow> ('db, 'm, 'ai) handler" where
  "CoreAPI_ListEvents d meetingID r w =
     failing_reply (hd_lib d) ''list_events_failed'' (\<lambda>vs. writeJSON 200 (JEvents vs))
       (on_meetings (svc_ListEvents (hd_meetings d) meetingID (parseSeq (hr_Query r ''after_seq''))) w)"

definition CoreAPI_ListSegments ::
    "('db, 'm, 'ai) http_deps \<Rightarrow> gostring \<Rightarrow> ('db, 'm, 'ai) handler" where
  "CoreAPI_ListSegments d meetingID r w =
     failing_reply (hd_lib d) ''list_segments_failed'' (\<lambda>vs. writeJSON 200 (JSegments vs))
       (on_meetings (svc_ListSegments (hd_meetings d) meetingID (parseSeq (hr_Query r ''after_seq''))) w)"

section \<open>Health, realtime, transcript ingest\<close>

definition Healthz :: "('db, 'm, 'ai) handler" where
  "Healthz r w = (writeJSON 200 JStatusOK, w)"

text \<open>\<open>hd_ready\<close>: no check configured, or the outcome of the check, with its error.\<close>

definition Readyz :: "('db, 'm, 'ai) http_deps \<Rightarrow> ('db, 'm, 'ai) handler" where
  "Readyz d r w =
     (case hd_ready d of
        Some (Some err) \<Rightarrow> (writeError 503 ''not_ready'' ''readiness check failed'', w)
      | _ \<Rightarrow> (writeJSON 200 JStatusOK, w))"

definition CoreAPI_Health :: "('db, 'm, 'ai) handler" where
  "CoreAPI_Health r w = (writeJSON 200 JStatusOK, w)"

fun http_error_response :: "http_error \<Rightarrow> http_response" where
  "http_error_response (HttpError status code msg) = writeError status code msg"

text \<open>\<open>ServeWS\<close> with the identity of the login session; the loops of the connection run on the hub.\<close>

definition Realtime_ServeWS ::
    "('db, 'm, 'ai) http_deps \<Rightarrow> SessionResult \<Rightarrow> ('db, 'm, 'ai) handler" where
  "Realtime_ServeWS d ctx r w0 =
     (let meetingID = hr_Query r ''meeting_id'';
          (meeting, w1) = (if meetingID = [] then (Inl NotFound, w0)
                           else on_meetings (svc_GetMeeting (hd_meetings d) meetingID) w0);
          q = \<lparr>wr_meeting_id = meetingID, wr_last_seq = hr_Query r ''last_seq'',
               wr_identity = Some (us_ID (sr_User ctx), ls_ID (sr_Session ctx)),
               wr_upgrade = (case accept (hl_accept_key (hd_lib d)) (hr_Upgrade r) of
                 Inl err \<Rightarrow> Some err | Inr _ \<Rightarrow> None),
               wr_hello = hr_Hello r\<rparr> in
      case ServeWS_open (hw_clients w1) meeting q of
        Inl err \<Rightarrow> (http_error_response err, w1)
      | Inr c \<Rightarrow> (writeJSON 101 (Switched []),
                 w1\<lparr>hw_hub := subscribe c (hw_hub w1), hw_clients := Suc (hw_clients w1)\<rparr>))"

fun api_response_of :: "api_response \<Rightarrow> http_response" where
  "api_response_of (ApiError status code msg) = writeError status code msg"
| "api_response_of (ApiReply status v) = writeJSON status (JStored v)"

definition TranscriptAPI_Store :: "('db, 'm, 'ai) http_deps \<Rightarrow> ('db, 'm, 'ai) handler" where
  "TranscriptAPI_Store d r w =
     (case on_ingest (api_Store (hl_api (hd_lib d)) (hd_apiKey d) (hd_segmentPublisher d)
              (hr_ApiKey r) (hr_ContentType r) (hl_segment (hd_lib d) (hr_Body r))) w of
        (resp, w') \<Rightarrow> (api_response_of resp, w'))"

end
