(* ===== verification/HttpSessionApi.thy ===== *)
theory HttpSessionApi
  imports HttpHandlers
begin

text \<open>
  The handlers of \<open>meeting_session_api.go\<close> and the table of routes of \<open>router.go\<close>.  The handlers of
  the bot and the legacy ones ask for the API key; those below a workspace rest on the
  middleware and on \<open>workspaceMeetingSession\<close>, which looks the session up and compares its
  workspace with the one of the path.

  Matching a path against the patterns is the router library's: a request comes with the
  \<open>route\<close> it matched, carrying the path parameters.  \<open>serve\<close> puts the middleware around the handler
  in the order in which \<open>NewRouter\<close> installs it.
\<close>

section \<open>The session behind a path\<close>

definition workspaceMeetingSession ::
    "('db, 'm, 'ai) http_deps \<Rightarrow> gostring \<Rightarrow> gostring \<Rightarrow>
     (MeetingSession \<Rightarrow> ('db, 'm, 'ai) handler) \<Rightarrow> ('db, 'm, 'ai) handler" where
  "workspaceMeetingSession d workspaceCode session_id k r w =
     (let workspaceID = trim_space workspaceCode; sessionID = trim_space session_id in
      if workspaceID = [] \<or> sessionID = []
      then (writeError 400 ''invalid_request'' ''workspaceId and sessionId are required'', w)
      else (case on_sessions (GetMeetingSession (hd_sessions d) sessionID) w of
          (Inl e, w') \<Rightarrow> (writeMeetingSessionError (hd_lib d) e, w')
        | (Inr s, w') \<Rightarrow>
            if ms_WorkspaceID s \<noteq> workspaceID
            then (writeError 404 ''not_found'' ''meeting session not found'', w')
            else k s r w'))"

definition session_reply ::
    "('db, 'm, 'ai) http_deps \<Rightarrow> MeetingSession result \<times> 'w \<Rightarrow> http_response \<times> 'w" where
  "session_reply d rw =
     (case rw of
        (Inl e, w) \<Rightarrow> (writeMeetingSessionError (hd_lib d) e, w)
      | (Inr s, w) \<Rightarrow>
          (writeJSON 200 (JSession (meetingSessionResponseFromDomain (hl_rfc (hd_lib d)) s)), w))"

text \<open>The guard of the legacy and bot endpoints, and the check of the content type.\<close>

definition with_api_key :: "('db, 'm, 'ai) http_deps \<Rightarrow> ('db, 'm, 'ai) handler \<Rightarrow> ('db, 'm, 'ai) handler" where
  "with_api_key d k r w =
     (if \<not> authorizedSecret (hl_api (hd_lib d)) (hr_ApiKey r) (hd_apiKey d)
      then (writeError 401 ''unauthorized'' ''unauthorized'', w) else k r w)"

definition with_json ::
    "('db, 'm, 'ai) http_deps \<Rightarrow> ('db, 'm, 'ai) handler \<Rightarrow> ('db, 'm, 'ai) handler" where
  "with_json d k r w =
     (if \<not> isJSONContentType (hl_api (hd_lib d)) (hr_ContentType r)
      then (writeError 415 ''unsupported_media_type'' ''content type must be application/json'', w)
      else k r w)"

definition with_body ::
    "'a limited_body \<Rightarrow> ('a \<Rightarrow> ('db, 'm, 'ai) handler) \<Rightarrow> ('db, 'm, 'ai) handler" where
  "with_body b k r w = (case decodeLimitedJSON b of Inl resp \<Rightarrow> (resp, w) | Inr q \<Rightarrow> k q r w)"

section \<open>Creation\<close>

definition create_error :: "('db, 'm, 'ai) http_deps \<Rightarrow> goerror \<Rightarrow> http_response" where
  "create_error d e =
     (case e of
        ErrInvalidArgument m \<Rightarrow>
          writeError 400 ''invalid_request'' (error_text (hl_driver_text (hd_lib d)) e)
      | ErrBotControlNotConfigured \<Rightarrow>
          writeError 503 ''bot_control_not_configured'' ''bot control URL or token is not configured''
      | ErrBotControlCommandFailed m \<Rightarrow>
          writeError 502 ''bot_control_command_failed''
            ''failed to send join command to bot control API''
      | _ \<Rightarrow> writeError 500 ''internal_error'' ''internal server error'')"

definition SessionAPI_create ::
    "('db, 'm, 'ai) http_deps \<Rightarrow> MeetingSessionCreateInput \<Rightarrow> ('db, 'm, 'ai) handler" where
  "SessionAPI_create d defaults = with_json d (\<lambda>r. with_body (hl_create (hd_lib d) (hr_Body r)) (\<lambda>q r w.
     (case on_sessions (CreateMeetingSession (hd_sessions d) (create_input defaults q)) w of
        ((result, Some e), w') \<Rightarrow> (create_error d e, w')
      | ((None, None), w') \<Rightarrow> (writeError 500 ''internal_error'' ''internal server error'', w')
      | ((Some result, None), w') \<Rightarrow>
          (writeJSON (if cr_Reused result then 200 else 201)
             (JCreated (meetingSessionCreateResponse_of (hl_rfc (hd_lib d)) (cr_Reused result)
                (cr_Session result))), w'))) r)"

definition no_create_input :: MeetingSessionCreateInput where
  "no_create_input =
     \<lparr>ci_WorkspaceID = [], ci_CreatedByUserID = [], ci_MeetingID = [], ci_JoinURL = [],
      ci_Title = [], ci_UserProvidedTitle = [], ci_CandidateUserIDs = [],
      ci_CandidateUserPrincipalNames = [], ci_CreatedByMicrosoftUserID = [],
      ci_CreatedByEmail = [], ci_OrganizerUserID = [], ci_Purpose = [], ci_Context = [],
      ci_Agenda = [], ci_DecisionPoints = [], ci_Concerns = [], ci_ExpectedOutput = [],
      ci_CustomInstruction = []\<rparr>"

definition SessionAPI_Create :: "('db, 'm, 'ai) http_deps \<Rightarrow> ('db, 'm, 'ai) handler" where
  "SessionAPI_Create d = with_api_key d (SessionAPI_create d no_create_input)"

definition SessionAPI_CreateForWorkspace ::
    "('db, 'm, 'ai) http_deps \<Rightarrow> SessionResult \<Rightarrow> gostring \<Rightarrow> ('db, 'm, 'ai) handler" where
  "SessionAPI_CreateForWorkspace d ctx workspaceCode =
     SessionAPI_create d (no_create_input\<lparr>ci_WorkspaceID := trim_space workspaceCode,
       ci_CreatedByUserID := us_ID (sr_User ctx), ci_CreatedByEmail := us_Email (sr_User ctx)\<rparr>)"

section \<open>Reading\<close>

definition SessionAPI_Get :: "('db, 'm, 'ai) http_deps \<Rightarrow> gostring \<Rightarrow> ('db, 'm, 'ai) handler" where
  "SessionAPI_Get d session_id = with_api_key d (\<lambda>r w.
     session_reply d (on_sessions (GetMeetingSession (hd_sessions d) (trim_space session_id)) w))"

definition SessionAPI_ListForWorkspace ::
    "('db, 'm, 'ai) http_deps \<Rightarrow> gostring \<Rightarrow> ('db, 'm, 'ai) handler" where
  "SessionAPI_ListForWorkspace d workspaceCode r w =
     (case parseMeetingSessionDebugLimit (hr_Query r ''limit'') of
        None \<Rightarrow> (writeError 400 ''invalid_request'' ''limit must be 1 or greater'', w)
      | Some limit \<Rightarrow>
          (case on_sessions (ListMeetingSessions (hd_sessions d) (trim_space workspaceCode) limit) w of
             (Inl e, w') \<Rightarrow> (writeMeetingSessionError (hd_lib d) e, w')
           | (Inr ss, w') \<Rightarrow>
               (writeJSON 200 (JSessions (map (meetingSessionResponseFromDomain (hl_rfc (hd_lib d))) ss)),
                w')))"

definition SessionAPI_FinalSummaryPreviews ::
    "('db, 'm, 'ai) http_deps \<Rightarrow> gostring \<Rightarrow> ('db, 'm, 'ai) handler" where
  "SessionAPI_FinalSummaryPreviews d workspaceCode r w =
     (case hd_ai d of
        None \<Rightarrow> (writeJSON 200 (JPreviews []), w)
      | Some ai \<Rightarrow>
          (case on_sessions (ListMeetingSessions (hd_sessions d) (trim_space workspaceCode) 500) w of
             (Inl e, w') \<Rightarrow> (writeMeetingSessionError (hd_lib d) e, w')
           | (Inr ss, w') \<Rightarrow>
               (case on_ai (ai_ListFinalSummaryPreviews ai (map ms_ID ss)) w' of
                  (Inl e, w'') \<Rightarrow> (writeError 500 ''internal_error'' ''internal server error'', w'')
                | (Inr ps, w'') \<Rightarrow>
                    (writeJSON 200 (JPreviews (meetingFinalSummaryPreviewResponsesFromDomain ps)), w''))))"

definition SessionAPI_GetForWorkspace ::
    "('db, 'm, 'ai) http_deps \<Rightarrow> gostring \<Rightarrow> gostring \<Rightarrow> ('db, 'm, 'ai) handler" where
  "SessionAPI_GetForWorkspace d workspaceCode session_id =
     workspaceMeetingSession d workspaceCode session_id (\<lambda>s r w.
       (writeJSON 200 (JSession (meetingSessionResponseFromDomain (hl_rfc (hd_lib d)) s)), w))"

definition SessionAPI_DebugList :: "('db, 'm, 'ai) http_deps \<Rightarrow> ('db, 'm, 'ai) handler" where
  "SessionAPI_DebugList d = with_api_key d (\<lambda>r w.
     (case parseMeetingSessionDebugLimit (hr_Query r ''limit'') of
        None \<Rightarrow> (writeError 400 ''invalid_request'' ''limit must be 1 or greater'', w)
      | Some limit \<Rightarrow>
          (case on_sessions (ListMeetingSessionDebug limit) w of
             (Inl e, w') \<Rightarrow> (writeError 500 ''internal_error'' ''internal server error'', w')
           | (Inr rows, w') \<Rightarrow>
               (writeJSON 200 (JDebug (map (meetingSessionDebugResponse_of (hl_rfc (hd_lib d))) rows)),
                w'))))"

section \<open>Ending, deleting, cleaning up\<close>

definition SessionAPI_end ::
    "('db, 'm, 'ai) http_deps \<Rightarrow> gostring \<Rightarrow> ('db, 'm, 'ai) handler" where
  "SessionAPI_end d session_id = with_json d (\<lambda>r. with_body (hl_end (hd_lib d) (hr_Body r)) (\<lambda>q r w.
     (case on_sessions (EndMeetingSession (hd_sessions d)
             \<lparr>ei_SessionID = trim_space session_id, ei_Reason = end_req_reason q\<rparr>) w of
        (Inl e, w') \<Rightarrow> (writeMeetingSessionEndError (hd_lib d) e, w')
      | (Inr s, w') \<Rightarrow>
          (writeJSON 200 (JSession (meetingSessionResponseFromDomain (hl_rfc (hd_lib d)) s)), w'))) r)"

definition SessionAPI_End ::
    "('db, 'm, 'ai) http_deps \<Rightarrow> gostring \<Rightarrow> ('db, 'm, 'ai) handler" where
  "SessionAPI_End d session_id = with_api_key d (SessionAPI_end d session_id)"

definition SessionAPI_EndForWorkspace ::
    "('db, 'm, 'ai) http_deps \<Rightarrow> gostring \<Rightarrow> gostring \<Rightarrow> ('db, 'm, 'ai) handler" where
  "SessionAPI_EndForWorkspace d workspaceCode session_id =
     workspaceMeetingSession d workspaceCode session_id (\<lambda>s. SessionAPI_end d session_id)"

definition SessionAPI_DeleteForWorkspace ::
    "('db, 'm, 'ai) http_deps \<Rightarrow> gostring \<Rightarrow> gostring \<Rightarrow> ('db, 'm, 'ai) handler" where
  "SessionAPI_DeleteForWorkspace d workspaceCode session_id =
     workspaceMeetingSession d workspaceCode session_id (\<lambda>s r w.
       (case on_sessions (DeleteMeetingSession (ms_ID s)) w of
          (Inl e, w') \<Rightarrow> (writeMeetingSessionError (hd_lib d) e, w')
        | (Inr _, w') \<Rightarrow> (noContent, w')))"

definition SessionAPI_CleanupStale :: "('db, 'm, 'ai) http_deps \<Rightarrow> ('db, 'm, 'ai) handler" where
  "SessionAPI_CleanupStale d = with_api_key d (\<lambda>r w.
     (case on_sessions (CleanupStaleMeetingSessions (hd_sessions d)) w of
        (Inl e, w') \<Rightarrow> (writeError 500 ''internal_error'' ''internal server error'', w')
      | (Inr ss, w') \<Rightarrow>
          (writeJSON 200 (JCleanup (int (length ss))
             (map (meetingSessionResponseFromDomain (hl_rfc (hd_lib d))) ss)), w')))"

section \<open>Transcript and analyses of a session\<close>

definition SessionAPI_ListTranscript ::
    "('db, 'm, 'ai) http_deps \<Rightarrow> gostring \<Rightarrow> gostring \<Rightarrow> ('db, 'm, 'ai) handler" where
  "SessionAPI_ListTranscript d workspaceCode session_id =
     workspaceMeetingSession d workspaceCode session_id (\<lambda>s r w.
       (if \<not> hd_transcript d
        then (writeError 503 ''transcript_unavailable'' ''transcript service is unavailable'', w)
        else (case parseTranscriptLimit (hr_Query r ''limit'') of
            None \<Rightarrow> (writeError 400 ''invalid_request'' ''limit must be 1 or greater'', w)
          | Some limit \<Rightarrow>
              (case on_ingest (ListTranscriptSegments (hd_collation d) [] (ms_ID s) limit) w of
                 (Inl e, w') \<Rightarrow> (writeError 500 ''internal_error'' ''internal server error'', w')
               | (Inr segments, w') \<Rightarrow>
                   (writeJSON 200 (JTranscript (transcriptSegmentItems (hl_rfc (hd_lib d)) segments)),
                    w')))))"

text \<open>
  The request is forwarded with \<open>sessionId\<close> set to the session of the path and without \<open>callId\<close>;
  the member the hub records is the workspace of the path and the logged-in user
  (\<open>workspaceTranscriptConfig\<close> of \<open>server.go\<close>).
\<close>

definition SessionAPI_StreamTranscript ::
    "('db, 'm, 'ai) http_deps \<Rightarrow> SessionResult \<Rightarrow> gostring \<Rightarrow> gostring \<Rightarrow> ('db, 'm, 'ai) handler" where
  "SessionAPI_StreamTranscript d ctx workspaceCode session_id =
     workspaceMeetingSession d workspaceCode session_id (\<lambda>s r w.
       (if \<not> hd_stream d
        then (writeError 503 ''transcript_stream_unavailable'' ''transcript stream is unavailable'', w)
        else (case ServeTranscriptSegments (hl_accept_key (hd_lib d)) (hd_streamOrigins d)
                (Some (\<lambda>_. (workspaceCode, us_ID (sr_User ctx)))) (hw_clients w)
                \<lparr>tq_Origin = hr_Origin r, tq_callId = [], tq_sessionId = ms_ID s,
                 tq_upgrade = hr_Upgrade r\<rparr> (hw_transcripts w) of
            (Inl err, h) \<Rightarrow> (http_error_response err, w\<lparr>hw_transcripts := h\<rparr>)
          | (Inr response, h) \<Rightarrow>
              (writeJSON 101 (Switched response),
               w\<lparr>hw_transcripts := h, hw_clients := Suc (hw_clients w)\<rparr>))))"

definition SessionAPI_GetAIAnalyses ::
    "('db, 'm, 'ai) http_deps \<Rightarrow> gostring \<Rightarrow> gostring \<Rightarrow> ('db, 'm, 'ai) handler" where
  "SessionAPI_GetAIAnalyses d workspaceCode session_id =
     workspaceMeetingSession d workspaceCode session_id (\<lambda>s r w.
       (case hd_ai d of
          None \<Rightarrow> (writeError 503 ''ai_analysis_unavailable'' ''AI analysis service is unavailable'', w)
        | Some ai \<Rightarrow>
            (case on_ai (ai_GetMeetingAIAnalyses ai (ms_ID s)) w of
               (Inl (ErrInvalidArgument m), w') \<Rightarrow>
                 (writeError 400 ''invalid_request''
                    (error_text (hl_driver_text (hd_lib d)) (ErrInvalidArgument m)), w')
             | (Inl _, w') \<Rightarrow> (writeError 500 ''internal_error'' ''internal server error'', w')
             | (Inr n, w') \<Rightarrow>
                 (writeJSON 200 (JAnalyses (meetingAIAnalysesResponseFromSnapshot (hl_rfc (hd_lib d))
                    (ms_ID s) n)), w'))))"

definition SessionAPI_RetryFinalization ::
    "('db, 'm, 'ai) http_deps \<Rightarrow> gostring \<Rightarrow> gostring \<Rightarrow> ('db, 'm, 'ai) handler" where
  "SessionAPI_RetryFinalization d workspaceCode session_id =
     workspaceMeetingSession d workspaceCode session_id (\<lambda>s r w.
       (case hd_ai d of
          None \<Rightarrow> (writeError 503 ''ai_analysis_unavailable'' ''AI analysis service is unavailable'', w)
        | Some ai \<Rightarrow>
            (case on_ai (ai_StartMeetingSessionFinalizationRetry ai (ms_ID s)) w of
               (Some RetryAlreadyCompleted, w') \<Rightarrow>
                 (writeError 409 ''finalization_already_completed''
                    ''meeting finalization already completed'', w')
             | (Some RetryUnavailable, w') \<Rightarrow>
                 (writeError 503 ''finalization_retry_unavailable''
                    ''meeting finalization retry is unavailable'', w')
             | (Some (RetryFailed (ErrInvalidArgument m)), w') \<Rightarrow>
                 (writeError 400 ''invalid_request''
                    (error_text (hl_driver_text (hd_lib d)) (ErrInvalidArgument m)), w')
             | (Some (RetryFailed _), w') \<Rightarrow>
                 (writeError 500 ''internal_error'' ''internal server error'', w')
             | (None, w') \<Rightarrow>
                 (case on_ai (ai_GetMeetingAIAnalyses ai (ms_ID s)) w' of
                    (Inl _, w'') \<Rightarrow>
                      (writeJSON 202 (JAnalyses (meetingAIAnalysesResponseFromSnapshot
                         (hl_rfc (hd_lib d)) (ms_ID s) None)), w'')
                  | (Inr n, w'') \<Rightarrow>
                      (writeJSON 202 (JAnalyses (meetingAIAnalysesResponseFromSnapshot
                         (hl_rfc (hd_lib d)) (ms_ID s) n)), w'')))))"

definition SessionAPI_UpdateAgendaProgress ::
    "('db, 'm, 'ai) http_deps \<Rightarrow> gostring \<Rightarrow> gostring \<Rightarrow> ('db, 'm, 'ai) handler" where
  "SessionAPI_UpdateAgendaProgress d workspaceCode session_id =
     workspaceMeetingSession d workspaceCode session_id (\<lambda>s r w.
       (case hd_ai d of
          None \<Rightarrow> (writeError 503 ''ai_analysis_unavailable'' ''AI analysis service is unavailable'', w)
        | Some ai \<Rightarrow> with_json d (with_body (hl_override (hd_lib d) (hr_Body r)) (\<lambda>q r w.
            (case toOverrideInput (hl_json_string (hd_lib d)) q of
               Inl msg \<Rightarrow> (writeError 400 ''invalid_request'' msg, w)
             | Inr input \<Rightarrow>
                 (case on_ai (ai_UpdateAgendaProgressOverride ai (ms_ID s) input) w of
                    (Inl (ErrInvalidArgument m), w') \<Rightarrow>
                      (writeError 400 ''invalid_request''
                         (error_text (hl_driver_text (hd_lib d)) (ErrInvalidArgument m)), w')
                  | (Inl _, w') \<Rightarrow> (writeError 500 ''internal_error'' ''internal server error'', w')
                  | (Inr stamped, w') \<Rightarrow> (writeJSON 200 (JAgendaProgress stamped), w'))))) r w))"

section \<open>Reports of the bot\<close>

definition SessionAPI_UpdateBotStatus ::
    "('db, 'm, 'ai) http_deps \<Rightarrow> gostring \<Rightarrow> ('db, 'm, 'ai) handler" where
  "SessionAPI_UpdateBotStatus d session_id = with_api_key d (with_json d (\<lambda>r.
     with_body (hl_status (hd_lib d) (hr_Body r)) (\<lambda>q r w.
       (if stq_LastFinalSequenceNo q < 0 \<or> stq_LastFinalSequenceNoSnake q < 0
        then (writeError 400 ''invalid_request'' ''lastFinalSequenceNo must be 0 or greater'', w)
        else (let sessionID = trim_space session_id;
                  (previous, w1) = on_sessions (GetMeetingSession (hd_sessions d) sessionID) w in
              session_reply d (on_sessions
                (UpdateMeetingSessionStatus (hd_sessions d) (status_input sessionID q)) w1)))) r))"

definition SessionAPI_UpdateBotMetadata ::
    "('db, 'm, 'ai) http_deps \<Rightarrow> gostring \<Rightarrow> ('db, 'm, 'ai) handler" where
  "SessionAPI_UpdateBotMetadata d session_id = with_api_key d (with_json d (\<lambda>r.
     with_body (hl_metadata (hd_lib d) (hr_Body r)) (\<lambda>q r w.
       (let sessionID = trim_space session_id;
            (previous, w1) = on_sessions (GetMeetingSession (hd_sessions d) sessionID) w in
        session_reply d (on_sessions
          (UpdateMeetingSessionMetadata (hd_sessions d) (metadata_input sessionID q)) w1))) r))"

text \<open>The metrics store and the media-health service read the same clock as the sessions.\<close>

definition record_metrics ::
    "('db, 'm, 'ai) http_deps \<Rightarrow> gostring \<Rightarrow> meetingSessionHeartbeatRequest \<Rightarrow>
     ('db, 'm, 'ai) http_world \<Rightarrow> ('db, 'm, 'ai) http_world" where
  "record_metrics d sessionID q w =
     (if hd_metrics d
      then (let (m, ok) = botMediaMetrics (hl_api (hd_lib d)) q in
            if ok then (let (now, w1) = on_sessions now_utc w in
                        w1\<lparr>hw_metrics := metrics_Record now sessionID m (hw_metrics w1)\<rparr>)
            else w)
      else w)"

definition SessionAPI_RecordBotHeartbeat ::
    "('db, 'm, 'ai) http_deps \<Rightarrow> gostring \<Rightarrow> ('db, 'm, 'ai) handler" where
  "SessionAPI_RecordBotHeartbeat d session_id = with_api_key d (\<lambda>r.
     (let beat = (\<lambda>q r w. (let sessionID = trim_space session_id;
                              w1 = record_metrics d sessionID q w in
                           session_reply d (on_sessions (RecordMeetingSessionHeartbeat sessionID) w1))) in
      if hr_ContentLength r \<noteq> 0
      then with_json d (with_body (hl_heartbeat (hd_lib d) (hr_Body r)) beat) r
      else beat empty_heartbeat r))"

definition SessionAPI_RecordBotMediaHealth ::
    "('db, 'm, 'ai) http_deps \<Rightarrow> gostring \<Rightarrow> ('db, 'm, 'ai) handler" where
  "SessionAPI_RecordBotMediaHealth d session_id = with_api_key d (with_json d (\<lambda>r.
     with_body (hl_mediaHealth (hd_lib d) (hr_Body r)) (\<lambda>q r w.
       (if \<not> hd_media d
        then (writeError 503 ''media_health_unavailable'' ''media health service is unavailable'', w)
        else (case on_sessions (GetMeetingSession (hd_sessions d) (trim_space session_id)) w of
            (Inl e, w1) \<Rightarrow> (writeMeetingSessionError (hd_lib d) e, w1)
          | (Inr s, w1) \<Rightarrow>
              (let callID = trim_space (mhq_BotCallID q) in
               if callID \<noteq> [] \<and> ms_BotCallID s \<noteq> [] \<and> callID \<noteq> ms_BotCallID s
               then (writeError 409 ''bot_call_mismatch''
                       ''bot call id does not match the meeting session'', w1)
               else (let (now, w2) = on_sessions now_utc w1 in
                 case media_Record True now s (media_update (hl_api (hd_lib d)) q) (hw_media w2) of
                   (Inl e, m) \<Rightarrow> (writeMeetingSessionError (hd_lib d) e, w2\<lparr>hw_media := m\<rparr>)
                 | (Inr (state, changed), m) \<Rightarrow>
                     (writeJSON 200 (JMediaHealth state), w2\<lparr>hw_media := m\<rparr>)))))) r))"

definition SessionAPI_GetBotMediaHealth ::
    "('db, 'm, 'ai) http_deps \<Rightarrow> gostring \<Rightarrow> gostring \<Rightarrow> ('db, 'm, 'ai) handler" where
  "SessionAPI_GetBotMediaHealth d workspaceCode session_id =
     workspaceMeetingSession d workspaceCode session_id (\<lambda>s r w.
       (let (now, w1) = on_sessions now_utc w in
        if \<not> hd_media d
        then (writeJSON 200 (JMediaHealth
                \<lparr>mh_SessionID = ms_ID s, mh_EventID = [], mh_BotCallID = [],
                 mh_State = BotMediaHealthOK, mh_Event = ''snapshot'', mh_Source = [],
                 mh_OccurredAt = now, mh_StartedAt = 0, mh_LastAudioFrameAt = 0,
                 mh_DurationMilliseconds = 0, mh_UpdatedAt = now\<rparr>), w1)
        else (writeJSON 200 (JMediaHealth (media_Get now (ms_ID s) (hw_media w1))), w1)))"

section \<open>Client diagnostics\<close>

text \<open>
  \<open>client_diagnostics_api.go\<close>.  The type of an error of \<open>Record\<close> never is one of the domain's, so
  \<open>writeStoreError\<close> answers 500 with its text; \<open>ctx.Err()\<close> has the text of a cancelled context.
\<close>

definition diagnostics_authorize ::
    "('db, 'm, 'ai) http_deps \<Rightarrow> gostring \<Rightarrow> gostring \<Rightarrow> gostring \<Rightarrow> ('db, 'm, 'ai) handler \<Rightarrow>
     ('db, 'm, 'ai) handler" where
  "diagnostics_authorize d userID workspaceID sessionID k r w =
     (case on_accounts (GetWorkspace (hd_accounts d) userID workspaceID) w of
        (Inl e, w1) \<Rightarrow> (writeStoreError (hd_lib d) e, w1)
      | (Inr _, w1) \<Rightarrow>
          (case on_sessions (GetMeetingSession (hd_sessions d) sessionID) w1 of
             (Inl e, w2) \<Rightarrow> (writeMeetingSessionError (hd_lib d) e, w2)
           | (Inr s, w2) \<Rightarrow>
               if ms_WorkspaceID s \<noteq> workspaceID
               then (writeError 404 ''not_found'' ''meeting session not found'', w2)
               else k r w2))"

fun diagnostics_error_text :: "diagnostics_error \<Rightarrow> gostring" where
  "diagnostics_error_text BatchEmpty = ''client diagnostics batch has no events''"
| "diagnostics_error_text RequestCancelled = ''context canceled''"

definition ClientDiagnosticsAPI_Ingest ::
    "('db, 'm, 'ai) http_deps \<Rightarrow> diagnostics_config \<Rightarrow> SessionResult \<Rightarrow> ('db, 'm, 'ai) handler" where
  "ClientDiagnosticsAPI_Ingest d c ctx = with_json d (\<lambda>r.
     with_body (hl_diagnostics (hd_lib d) (hr_Body r)) (\<lambda>q r w.
       (let workspaceID = trim_space (dq_WorkspaceID q); sessionID = trim_space (dq_SessionID q) in
        if workspaceID = [] \<or> sessionID = []
        then (writeError 400 ''invalid_request'' ''workspaceId and sessionId are required'', w)
        else if dq_Events q = []
        then (writeError 400 ''invalid_request'' ''events must not be empty'', w)
        else diagnostics_authorize d (us_ID (sr_User ctx)) workspaceID sessionID (\<lambda>r w.
          (case on_diagnostics (diagnostics_Record c
                  \<lparr>dbt_WorkspaceID = workspaceID, dbt_SessionID = sessionID,
                   dbt_TabID = trim_space (dq_TabID q),
                   dbt_FrontendBuildVersion = trim_space (dq_FrontendBuildVersion q),
                   dbt_UserID = us_ID (sr_User ctx), dbt_Events = dq_Events q\<rparr>) w of
             ((result, Some e), w') \<Rightarrow> (writeError 500 ''internal_error'' (diagnostics_error_text e), w')
           | ((result, None), w') \<Rightarrow> (writeJSON 202 (JDiagnostics result), w'))) r w)) r)"

end
