(* ===== verification/HttpRouter.thy ===== *)
theory HttpRouter
  imports HttpSessionApi
begin

text \<open>
  \<open>NewRouter\<close> of \<open>internal/adapter/http/router.go\<close>: every route with the middleware before its
  handler, in the order of installation.  Which parts are configured (\<open>deps.X != nil\<close>) is in
  \<open>http_parts\<close>; a route of a part that is not configured is not installed and the router answers
  404, as it does for a path or method that matches no route.  \<open>hp_core\<close> is the condition on all the
  parts of \<open>/v1\<close>; the diagnostics route only needs the login sessions (\<open>hp_auth\<close>).  Matching is the router library's:
  a request comes with the route it matches, if any.
\<close>

datatype route =
    R_healthz | R_readyz | R_transcript_segments
  | R_debug_sessions | R_cleanup_stale | R_legacy_create
  | R_legacy_get gostring | R_legacy_end gostring
  | R_bot_metadata gostring | R_bot_status gostring | R_bot_heartbeat gostring | R_bot_media gostring
  | R_health | R_login | R_invitation_preview
  | R_me | R_logout | R_current_workspace | R_invitation_accept | R_workspaces | R_workspace_create
  | R_workspace gostring | R_workspace_update gostring | R_members gostring
  | R_member_role gostring gostring | R_member_remove gostring gostring
  | R_invitations gostring | R_invitation_create gostring | R_invitation_revoke gostring gostring
  | R_sessions gostring | R_previews gostring | R_session_create gostring
  | R_session gostring gostring | R_session_end gostring gostring | R_session_delete gostring gostring
  | R_transcript gostring gostring | R_stream gostring gostring | R_media gostring gostring
  | R_analyses gostring gostring | R_retry gostring gostring | R_agenda gostring gostring
  | R_meetings gostring | R_meeting_create gostring
  | R_meeting gostring | R_join_token gostring | R_meeting_end gostring
  | R_events gostring | R_segments gostring
  | R_realtime | R_diagnostics

record http_parts =
  hp_healthz :: bool
  hp_readyz :: bool
  hp_transcripts :: bool
  hp_sessions :: bool
  hp_core :: bool
  hp_auth :: bool

text \<open>The endpoints outside \<open>/v1\<close>; each of them checks the API key itself, except the probes.\<close>

definition public_route ::
    "('db, 'm, 'ai) http_deps \<Rightarrow> http_parts \<Rightarrow> route \<Rightarrow> ('db, 'm, 'ai) handler option" where
  "public_route d p rt =
     (case rt of
        R_healthz \<Rightarrow> if hp_healthz p then Some Healthz else None
      | R_readyz \<Rightarrow> if hp_readyz p then Some (Readyz d) else None
      | R_transcript_segments \<Rightarrow> if hp_transcripts p then Some (TranscriptAPI_Store d) else None
      | R_debug_sessions \<Rightarrow> if hp_sessions p then Some (SessionAPI_DebugList d) else None
      | R_cleanup_stale \<Rightarrow> if hp_sessions p then Some (SessionAPI_CleanupStale d) else None
      | R_legacy_create \<Rightarrow> if hp_sessions p then Some (SessionAPI_Create d) else None
      | R_legacy_get i \<Rightarrow> if hp_sessions p then Some (SessionAPI_Get d i) else None
      | R_legacy_end i \<Rightarrow> if hp_sessions p then Some (SessionAPI_End d i) else None
      | R_bot_metadata i \<Rightarrow> if hp_sessions p then Some (SessionAPI_UpdateBotMetadata d i) else None
      | R_bot_status i \<Rightarrow> if hp_sessions p then Some (SessionAPI_UpdateBotStatus d i) else None
      | R_bot_heartbeat i \<Rightarrow> if hp_sessions p then Some (SessionAPI_RecordBotHeartbeat d i) else None
      | R_bot_media i \<Rightarrow> if hp_sessions p then Some (SessionAPI_RecordBotMediaHealth d i) else None
      | R_health \<Rightarrow> if hp_core p then Some CoreAPI_Health else None
      | R_login \<Rightarrow> if hp_core p then Some (AuthAPI_Login d) else None
      | R_invitation_preview \<Rightarrow> if hp_core p then Some (WorkspaceAPI_PreviewInvitation d) else None
      | _ \<Rightarrow> None)"

text \<open>The endpoints behind \<open>SessionAuth\<close>: the workspace of the path, if any, with the role asked for.\<close>

datatype access = AnyUser | Member gostring | Manager gostring | Owner gostring
  | OfMeeting gostring | OfQueryMeeting

definition private_route ::
    "('db, 'm, 'ai) http_deps \<Rightarrow> http_parts \<Rightarrow> route \<Rightarrow>
     (access \<times> (SessionResult \<Rightarrow> ('db, 'm, 'ai) handler)) option" where
  "private_route d p rt =
     (let sess = (\<lambda>x. if hp_sessions p then Some x else None) in
      if rt = R_diagnostics then
        (if hp_auth p then (case hd_diagnostics d of
             None \<Rightarrow> None | Some c \<Rightarrow> Some (AnyUser, ClientDiagnosticsAPI_Ingest d c))
         else None)
      else if \<not> hp_core p then None
      else (case rt of
        R_me \<Rightarrow> Some (AnyUser, AuthAPI_Me)
      | R_logout \<Rightarrow> Some (AnyUser, AuthAPI_Logout d)
      | R_current_workspace \<Rightarrow> Some (AnyUser, AuthAPI_SetCurrentWorkspace d)
      | R_invitation_accept \<Rightarrow> Some (AnyUser, WorkspaceAPI_AcceptInvitation d)
      | R_workspaces \<Rightarrow> Some (AnyUser, WorkspaceAPI_List d)
      | R_workspace_create \<Rightarrow> Some (AnyUser, WorkspaceAPI_Create d)
      | R_workspace c \<Rightarrow> Some (Member c, \<lambda>u. WorkspaceAPI_Get d u c)
      | R_workspace_update c \<Rightarrow> Some (Manager c, \<lambda>u. WorkspaceAPI_Update d u c)
      | R_members c \<Rightarrow> Some (Member c, \<lambda>u. WorkspaceAPI_ListMembers d u c)
      | R_member_role c m \<Rightarrow> Some (Owner c, \<lambda>u. WorkspaceAPI_UpdateMemberRole d u c m)
      | R_member_remove c m \<Rightarrow> Some (Manager c, \<lambda>u. WorkspaceAPI_RemoveMember d u c m)
      | R_invitations c \<Rightarrow> Some (Manager c, \<lambda>u. WorkspaceAPI_ListInvitations d u c)
      | R_invitation_create c \<Rightarrow> Some (Manager c, \<lambda>u. WorkspaceAPI_CreateInvitation d u c)
      | R_invitation_revoke c i \<Rightarrow> Some (Manager c, \<lambda>u. WorkspaceAPI_RevokeInvitation d u c i)
      | R_sessions c \<Rightarrow> sess (Member c, \<lambda>u. SessionAPI_ListForWorkspace d c)
      | R_previews c \<Rightarrow> sess (Member c, \<lambda>u. SessionAPI_FinalSummaryPreviews d c)
      | R_session_create c \<Rightarrow> sess (Manager c, \<lambda>u. SessionAPI_CreateForWorkspace d u c)
      | R_session c i \<Rightarrow> sess (Member c, \<lambda>u. SessionAPI_GetForWorkspace d c i)
      | R_session_end c i \<Rightarrow> sess (Manager c, \<lambda>u. SessionAPI_EndForWorkspace d c i)
      | R_session_delete c i \<Rightarrow> sess (Manager c, \<lambda>u. SessionAPI_DeleteForWorkspace d c i)
      | R_transcript c i \<Rightarrow> sess (Member c, \<lambda>u. SessionAPI_ListTranscript d c i)
      | R_stream c i \<Rightarrow> sess (Member c, \<lambda>u. SessionAPI_StreamTranscript d u c i)
      | R_media c i \<Rightarrow> sess (Member c, \<lambda>u. SessionAPI_GetBotMediaHealth d c i)
      | R_analyses c i \<Rightarrow> sess (Member c, \<lambda>u. SessionAPI_GetAIAnalyses d c i)
      | R_retry c i \<Rightarrow> sess (Manager c, \<lambda>u. SessionAPI_RetryFinalization d c i)
      | R_agenda c i \<Rightarrow> sess (Manager c, \<lambda>u. SessionAPI_UpdateAgendaProgress d c i)
      | R_meetings c \<Rightarrow> Some (Member c, \<lambda>u. CoreAPI_ListMeetings d c)
      | R_meeting_create c \<Rightarrow> Some (Member c, \<lambda>u. CoreAPI_CreateMeeting d c)
      | R_meeting m \<Rightarrow> Some (OfMeeting m, \<lambda>u. CoreAPI_GetMeeting d m)
      | R_join_token m \<Rightarrow> Some (OfMeeting m, \<lambda>u. CoreAPI_CreateJoinToken d m)
      | R_meeting_end m \<Rightarrow> Some (OfMeeting m, \<lambda>u. CoreAPI_EndMeeting d m)
      | R_events m \<Rightarrow> Some (OfMeeting m, \<lambda>u. CoreAPI_ListEvents d m)
      | R_segments m \<Rightarrow> Some (OfMeeting m, \<lambda>u. CoreAPI_ListSegments d m)
      | R_realtime \<Rightarrow> Some (OfQueryMeeting, Realtime_ServeWS d)
      | _ \<Rightarrow> None))"

text \<open>\<open>requireWorkspaceAccess\<close> runs for the whole group, the role checks after it.\<close>

definition guarded ::
    "('db, 'm, 'ai) http_deps \<Rightarrow> access \<Rightarrow> SessionResult \<Rightarrow> ('db, 'm, 'ai) handler \<Rightarrow> ('db, 'm, 'ai) handler" where
  "guarded d a u h =
     (case a of
        AnyUser \<Rightarrow> h
      | Member c \<Rightarrow> requireWorkspaceAccess d u c h
      | Manager c \<Rightarrow> requireWorkspaceAccess d u c (requireWorkspaceAdminOrOwner d u c h)
      | Owner c \<Rightarrow> requireWorkspaceAccess d u c (requireWorkspaceOwnerRole d u c h)
      | OfMeeting m \<Rightarrow> requireMeetingAccess d u m h
      | OfQueryMeeting \<Rightarrow> requireRealtimeAccess d u h)"

definition not_routed :: http_response where "not_routed = writeJSON 404 NoBody"

definition dispatch ::
    "('db, 'm, 'ai) http_deps \<Rightarrow> http_parts \<Rightarrow> route option \<Rightarrow> ('db, 'm, 'ai) handler" where
  "dispatch d p matched r w =
     (case matched of
        None \<Rightarrow> (not_routed, w)
      | Some rt \<Rightarrow>
          (case public_route d p rt of
             Some h \<Rightarrow> h r w
           | None \<Rightarrow>
               (case private_route d p rt of
                  Some (a, h) \<Rightarrow> SessionAuth d (\<lambda>u. guarded d a u (h u)) r w
                | None \<Rightarrow> (not_routed, w))))"

text \<open>\<open>corsMiddleware\<close> first, then the content-type filter of the router library.\<close>

definition serve ::
    "('db, 'm, 'ai) http_deps \<Rightarrow> http_parts \<Rightarrow> route option \<Rightarrow> ('db, 'm, 'ai) handler" where
  "serve d p matched = corsMiddleware (hd_cors d) (\<lambda>r w.
     if \<not> hl_allowContentType (hd_lib d) r then (writeJSON 415 NoBody, w)
     else dispatch d p matched r w)"

end
