(* ===== verification/HttpClaims.thy ===== *)
theory HttpClaims
  imports HttpRouter WorkspaceClaims SessionFacts
begin

text \<open>
  Safety of the HTTP surface: the routes of the bot and the operators need the API key, the routes
  below a workspace need the live login session of a member with the role of the route, and a
  session is only reached through the workspace it belongs to.  The statements are about \<open>serve\<close>,
  so they cover every handler behind a route, with the middleware in its order.
\<close>

section \<open>The middleware\<close>

lemma serve_simps:
  assumes "hr_Method r \<noteq> ''OPTIONS''"
  shows "serve d p matched r w =
    (let (resp, w') = (if \<not> hl_allowContentType (hd_lib d) r then (writeJSON 415 NoBody, w)
                       else dispatch d p matched r w)
     in (resp\<lparr>rs_AllowOrigin := responseOrigin (hd_cors d) (hr_Origin r)\<rparr>, w'))"
  using assms by (simp add: serve_def corsMiddleware_def Let_def split: prod.split)

lemma succeeded_origin [simp]: "succeeded (resp\<lparr>rs_AllowOrigin := o'\<rparr>) = succeeded resp"
  by (simp add: succeeded_def)

text \<open>Only the accounts' part of the world may differ, and there only what no membership rests on.\<close>

definition accounts_only ::
    "(pgdb, 'm, 'ai) http_world \<Rightarrow> (pgdb, 'm, 'ai) http_world \<Rightarrow> bool" where
  "accounts_only w w' \<longleftrightarrow> w' = w\<lparr>hw_accounts := hw_accounts w'\<rparr> \<and>
     pd_members (ww_db (hw_accounts w')) = pd_members (ww_db (hw_accounts w)) \<and>
     pd_workspaces (ww_db (hw_accounts w')) = pd_workspaces (ww_db (hw_accounts w)) \<and>
     pd_invitations (ww_db (hw_accounts w')) = pd_invitations (ww_db (hw_accounts w))"

lemma accounts_only_refl [simp]: "accounts_only w w"
  by (simp add: accounts_only_def)

lemma accounts_only_trans: "accounts_only u v \<Longrightarrow> accounts_only v w \<Longrightarrow> accounts_only u w"
  unfolding accounts_only_def by (metis http_world.surjective http_world.update_convs(1))

definition members_kept :: "pgdb ws_world \<Rightarrow> pgdb ws_world \<Rightarrow> bool" where
  "members_kept a a' \<longleftrightarrow> pd_members (ww_db a') = pd_members (ww_db a) \<and>
     pd_workspaces (ww_db a') = pd_workspaces (ww_db a) \<and>
     pd_invitations (ww_db a') = pd_invitations (ww_db a)"

lemma accounts_only_on:
  "on_accounts f w = (x, w') \<Longrightarrow> members_kept (hw_accounts w) (snd (f (hw_accounts w))) \<Longrightarrow> accounts_only w w'"
  by (auto simp: on_accounts_def accounts_only_def members_kept_def split: prod.splits)

lemma members_kept_read:
  "ww_db a' = ww_db a \<Longrightarrow> members_kept a a'"
  by (simp add: members_kept_def)

lemma members_kept_GetWorkspace:
  "wc_repo cfg = pg_repo \<Longrightarrow> members_kept a (snd (GetWorkspace cfg u c a))"
  by (simp add: GetWorkspace_def members_kept_read)

lemma members_kept_check:
  "wc_repo (hd_accounts d) = pg_repo \<Longrightarrow> members_kept a (snd (check_workspace d ctx c allowed a))"
  using members_kept_GetWorkspace [of "hd_accounts d" a "us_ID (sr_User ctx)" c]
  by (auto simp: check_workspace_def ws_bind_def split: prod.splits sum.splits)

lemma members_kept_set_current:
  "members_kept a (snd (ws_call (rp_SetCurrentWorkspace pg_repo i c) a))"
  by (auto simp: members_kept_def ws_call_def pg_repo_def pg_SetCurrentWorkspace_def split: prod.splits)

lemma members_kept_Authenticate:
  assumes "wc_repo cfg = pg_repo"
  shows "members_kept a (snd (Authenticate cfg token a))"
proof -
  have set: "members_kept a1 (snd (ws_call (rp_SetCurrentWorkspace pg_repo i c) a2))"
    if "ww_db a2 = ww_db a1" for a1 a2 :: "pgdb ws_world" and i c
    using members_kept_set_current [of a2 i c] that by (simp add: members_kept_def)
  show ?thesis
    using assms
    by (simp add: Authenticate_def ws_bind_def ws_now_def Let_def case_prod_beta set members_kept_read
        split: sum.split)
qed

section \<open>The gates\<close>

text \<open>Each gate ends the request, or passes it on to what it guards.\<close>

lemma SessionAuth_cases:
  assumes "wc_repo (hd_accounts d) = pg_repo" and "SessionAuth d k r w = (resp, w')"
  obtains (refused) "\<not> succeeded resp" "accounts_only w w'"
  | (passed) token ctx w1 where "hr_Cookie r = Some token"
      "fst (Authenticate (hd_accounts d) token (hw_accounts w)) = Inr ctx"
      "accounts_only w w1" "k ctx r w1 = (resp, w')"
proof (cases "hr_Cookie r")
  case None
  with assms(2) show thesis by (intro refused) (auto simp: SessionAuth_def)
next
  case (Some token)
  show thesis
  proof (cases "token = []")
    case True
    with Some assms(2) show thesis by (intro refused) (auto simp: SessionAuth_def)
  next
    case False
    obtain x w1 where on: "on_accounts (Authenticate (hd_accounts d) token) w = (x, w1)"
      by (cases "on_accounts (Authenticate (hd_accounts d) token) w")
    have kept: "accounts_only w w1"
      using accounts_only_on [OF on members_kept_Authenticate [OF assms(1)]] .
    show thesis
    proof (cases x)
      case (Inl e)
      with Some False assms(2) on kept show thesis
        by (intro refused) (auto simp: SessionAuth_def split: ws_error.splits)
    next
      case (Inr ctx)
      with on have "fst (Authenticate (hd_accounts d) token (hw_accounts w)) = Inr ctx"
        by (auto simp: on_accounts_def split: prod.splits)
      with Some False Inr assms(2) on kept show thesis
        by (intro passed) (auto simp: SessionAuth_def)
    qed
  qed
qed

definition member_row :: "pgdb \<Rightarrow> gostring \<Rightarrow> gostring \<Rightarrow> (gostring \<Rightarrow> bool) \<Rightarrow> bool" where
  "member_row db c u allowed \<longleftrightarrow> (\<exists>m \<in> set (pd_members db). pm_WorkspaceID m = c \<and> pm_UserID m = u \<and>
     allowed (NormalizeWorkspaceRole (pm_Role m)))"

lemma member_row_kept: "accounts_only w w1 \<Longrightarrow>
    member_row (ww_db (hw_accounts w1)) c u P = member_row (ww_db (hw_accounts w)) c u P"
  by (simp add: member_row_def accounts_only_def)

lemma GetWorkspace_member:
  assumes "wc_repo cfg = pg_repo" and "fst (GetWorkspace cfg u c a) = Inr ws" and "P (wk_Role ws)"
  shows "member_row (ww_db a) c u P"
proof -
  have "member_row (ww_db a) c u P" if get: "fst (pg_GetWorkspace u c e (ww_db a)) = Inr ws" for e
  proof -
    let ?rows = "[w\<lparr>wk_Role := NormalizeWorkspaceRole (pm_Role m)\<rparr>.
      w \<leftarrow> pd_workspaces (ww_db a), wk_ID w = c,
      m \<leftarrow> pd_members (ww_db a), pm_WorkspaceID m = wk_ID w \<and> pm_UserID m = u]"
    have "ws \<in> set ?rows"
      using get by (cases ?rows) (simp_all add: pg_GetWorkspace_def)
    then obtain w m where "m \<in> set (pd_members (ww_db a))" "pm_WorkspaceID m = wk_ID w" "wk_ID w = c"
      "pm_UserID m = u" "ws = w\<lparr>wk_Role := NormalizeWorkspaceRole (pm_Role m)\<rparr>"
      by (auto split: if_splits)
    with assms(3) show ?thesis by (auto simp: member_row_def)
  qed
  moreover have "fst (pg_GetWorkspace u c (ww_clock a (ww_ticks a), ww_ids a (ww_nextid a)) (ww_db a)) = Inr ws"
    using assms(1,2)
    by (simp add: GetWorkspace_def ws_call_def pg_repo_def case_prod_beta split: sum.splits if_splits)
  ultimately show ?thesis by blast
qed

lemma requireAccess_cases:
  assumes "wc_repo (hd_accounts d) = pg_repo"
    and "requireAccess d (check_workspace d ctx c allowed) k r w = (resp, w')"
  obtains (refused) "\<not> succeeded resp" "accounts_only w w'"
  | (passed) w1 where "member_row (ww_db (hw_accounts w)) c (us_ID (sr_User ctx)) allowed"
      "accounts_only w w1" "k r w1 = (resp, w')"
proof -
  let ?check = "check_workspace d ctx c allowed"
  obtain x w1 where on: "on_accounts ?check w = (x, w1)" by (cases "on_accounts ?check w")
  have kept: "accounts_only w w1" using accounts_only_on [OF on members_kept_check [OF assms(1)]] .
  show thesis
  proof (cases x)
    case (Inl e)
    with assms(2) on kept show thesis by (intro refused) (auto simp: requireAccess_def)
  next
    case (Inr y)
    with on have "fst (?check (hw_accounts w)) = Inr ()"
      by (auto simp: on_accounts_def split: prod.splits)
    then obtain ws where "fst (GetWorkspace (hd_accounts d) (us_ID (sr_User ctx)) c (hw_accounts w)) = Inr ws"
      "allowed (wk_Role ws)"
      by (auto simp: check_workspace_def ws_bind_def split: prod.splits sum.splits if_splits)
    with Inr assms on kept show thesis
      by (intro passed [OF GetWorkspace_member]) (auto simp: requireAccess_def)
  qed
qed

fun access_workspace :: "access \<Rightarrow> gostring option" where
  "access_workspace (Member c) = Some c"
| "access_workspace (Manager c) = Some c"
| "access_workspace (Owner c) = Some c"
| "access_workspace _ = None"

fun role_allows :: "access \<Rightarrow> gostring \<Rightarrow> bool" where
  "role_allows (Manager c) role = CanManageMeetingSessions role"
| "role_allows (Owner c) role = IsWorkspaceOwner role"
| "role_allows _ role = True"

lemma role_allows_eta: "role_allows (Manager c) = CanManageMeetingSessions"
  "role_allows (Owner c) = IsWorkspaceOwner" "role_allows (Member c) = (\<lambda>role. True)"
  by (simp_all add: fun_eq_iff)

lemma guarded_cases:
  assumes "wc_repo (hd_accounts d) = pg_repo" and "access_workspace a = Some c"
    and "guarded d a ctx h r w = (resp, w')"
  obtains (refused) "\<not> succeeded resp" "accounts_only w w'"
  | (passed) w1 where "member_row (ww_db (hw_accounts w)) c (us_ID (sr_User ctx)) (role_allows a)"
      "accounts_only w w1" "h r w1 = (resp, w')"
proof -
  define next_handler where "next_handler =
    (case a of Manager c \<Rightarrow> requireWorkspaceAdminOrOwner d ctx c h
     | Owner c \<Rightarrow> requireWorkspaceOwnerRole d ctx c h | _ \<Rightarrow> h)"
  have "requireAccess d (check_workspace d ctx c (\<lambda>role. True)) next_handler r w = (resp, w')"
    using assms(2,3)
    by (cases a) (simp_all add: guarded_def next_handler_def requireWorkspaceAccess_def)
  with assms(1) show thesis
  proof (cases rule: requireAccess_cases)
    case (passed w1)
    show thesis
    proof (cases "\<exists>c. a = Member c")
      case True
      with assms(2) have "role_allows a = (\<lambda>role. True)" "next_handler = h"
        by (auto simp: next_handler_def role_allows_eta)
      with passed show thesis by (intro that(2)) simp_all
    next
      case False
      with assms(2) passed(3)
      have "requireAccess d (check_workspace d ctx c (role_allows a)) h r w1 = (resp, w')"
        by (cases a) (simp_all add: next_handler_def requireWorkspaceAdminOrOwner_def
            requireWorkspaceOwnerRole_def role_allows_eta)
      with assms(1) show thesis
      proof (cases rule: requireAccess_cases)
        case (passed w2)
        with \<open>accounts_only w w1\<close> show thesis
          by (intro that(2) [of w2]) (auto simp: member_row_kept intro: accounts_only_trans)
      qed (use passed(2) that(1) accounts_only_trans in blast)
    qed
  qed (rule that(1))
qed

lemma private_not_public: "private_route d p rt = Some ah \<Longrightarrow> public_route d p rt = None"
  by (cases rt) (auto simp: private_route_def public_route_def Let_def split: if_splits)

lemma serve_private_cases:
  assumes "wc_repo (hd_accounts d) = pg_repo" and "private_route d p rt = Some (a, h)"
    and "access_workspace a = Some c" and "hr_Method r \<noteq> ''OPTIONS''"
    and "serve d p (Some rt) r w = (resp, w')"
  obtains (refused) "\<not> succeeded resp" "accounts_only w w'"
  | (passed) token ctx w1 q where "hr_Cookie r = Some token"
      "fst (Authenticate (hd_accounts d) token (hw_accounts w)) = Inr ctx"
      "member_row (ww_db (hw_accounts w)) c (us_ID (sr_User ctx)) (role_allows a)"
      "accounts_only w w1" "h ctx r w1 = (q, w')"
      "resp = q\<lparr>rs_AllowOrigin := responseOrigin (hd_cors d) (hr_Origin r)\<rparr>"
proof (cases "hl_allowContentType (hd_lib d) r")
  case False
  with assms(4,5) show thesis by (intro refused) (auto simp: serve_simps)
next
  case True
  define q where "q = fst (dispatch d p (Some rt) r w)"
  have served: "resp = q\<lparr>rs_AllowOrigin := responseOrigin (hd_cors d) (hr_Origin r)\<rparr>"
    and "dispatch d p (Some rt) r w = (q, w')"
    using True assms(4,5) by (auto simp: serve_simps q_def Let_def split: prod.splits)
  then have "SessionAuth d (\<lambda>u. guarded d a u (h u)) r w = (q, w')"
    using assms(2) private_not_public [OF assms(2)] by (simp add: dispatch_def)
  with assms(1) show thesis
  proof (cases rule: SessionAuth_cases)
    case refused
    with served that(1) show thesis by simp
  next
    case auth: (passed token ctx w1)
    from assms(1,3) auth(4) show thesis
    proof (cases rule: guarded_cases)
      case refused
      with auth(3) served that(1) show thesis by (auto intro: accounts_only_trans)
    next
      case (passed w2)
      with auth served that(2) [of token ctx w2 q] show thesis
        by (auto simp: member_row_kept intro: accounts_only_trans)
    qed
  qed
qed

section \<open>The session of the path\<close>

lemma lookup_cleanup:
  "map_option ms_WorkspaceID (lookup (w_db (snd (CleanupStaleMeetingSessions cfg w))) i) =
   map_option ms_WorkspaceID (lookup (w_db w) i)"
proof -
  have published: "w_db (foldl (\<lambda>w s. publishStatusChanged cfg s w) v rows) = w_db v" for v rows
    by (induction rows arbitrary: v) (simp_all add: publishStatusChanged_def)
  have marked: "map_option ms_WorkspaceID (lookup (snd (repo_MarkStaleMeetingSessions db c t)) i) =
      map_option ms_WorkspaceID (lookup db i)" for db c t
    using lookup_update_where [of "is_stale_row db c" "mark_stale_row t" i db]
    by (cases "lookup db i") (simp_all add: repo_MarkStaleMeetingSessions_def mark_stale_row_def)
  show ?thesis
    by (simp add: CleanupStaleMeetingSessions_def now_utc_def repo_call_def Let_def case_prod_beta
        published marked split: sum.split)
qed

lemma GetMeetingSession_stored:
  assumes "GetMeetingSession cfg i w = (Inr s, w')"
  shows "\<exists>r. lookup (w_db w) (trim_space i) = Some r \<and> ms_WorkspaceID s = ms_WorkspaceID r \<and>
    ms_ID s = trim_space i"
proof -
  have s: "lookup (w_db (snd (CleanupStaleMeetingSessions cfg w))) (trim_space i) = Some s"
    using assms
    by (auto simp: GetMeetingSession_def repo_read_def repo_call_def get_lookup Let_def case_prod_beta
        split: if_splits option.splits)
  then have "map_option ms_WorkspaceID (lookup (w_db w) (trim_space i)) = Some (ms_WorkspaceID s)"
    using lookup_cleanup [of "trim_space i" cfg w] by simp
  with lookup_ID [OF s] show ?thesis by auto
qed

text \<open>
  A request refused before it reaches the session of its path: the answer is an error and the
  sessions are those the lookup leaves, which may first have marked stale ones.
\<close>

definition lookup_only ::
    "config \<Rightarrow> gostring \<Rightarrow> (pgdb, 'm, 'ai) http_world \<Rightarrow> (pgdb, 'm, 'ai) http_world \<Rightarrow> bool" where
  "lookup_only cfg i w w' \<longleftrightarrow> (\<exists>v. accounts_only w v \<and>
     (w' = v \<or> w' = snd (on_sessions (GetMeetingSession cfg (trim_space i)) v)))"

lemma workspaceMeetingSession_hidden:
  assumes "\<forall>s. lookup (w_db (sessions_of w)) (trim_space i) = Some s \<longrightarrow> ms_WorkspaceID s \<noteq> trim_space c"
    and "workspaceMeetingSession d c i k r w = (resp, w')"
  shows "\<not> succeeded resp \<and> (w' = w \<or> w' = snd (on_sessions (GetMeetingSession (hd_sessions d) (trim_space i)) w))"
proof -
  have "ms_WorkspaceID s \<noteq> trim_space c"
    if "GetMeetingSession (hd_sessions d) (trim_space i) (sessions_of w) = (Inr s, v)" for s v
    using GetMeetingSession_stored [OF that] assms(1) by auto
  with assms(2) show ?thesis
    by (auto simp: workspaceMeetingSession_def on_sessions_def on_ingest_def Let_def
        split: if_splits prod.splits sum.splits)
qed

text \<open>The routes whose path names a session below a workspace, with the code and the session.\<close>

fun session_of_route :: "route \<Rightarrow> (gostring \<times> gostring) option" where
  "session_of_route (R_session c i) = Some (c, i)"
| "session_of_route (R_session_end c i) = Some (c, i)"
| "session_of_route (R_session_delete c i) = Some (c, i)"
| "session_of_route (R_transcript c i) = Some (c, i)"
| "session_of_route (R_stream c i) = Some (c, i)"
| "session_of_route (R_media c i) = Some (c, i)"
| "session_of_route (R_analyses c i) = Some (c, i)"
| "session_of_route (R_retry c i) = Some (c, i)"
| "session_of_route (R_agenda c i) = Some (c, i)"
| "session_of_route _ = None"

lemmas session_handlers = SessionAPI_GetForWorkspace_def SessionAPI_EndForWorkspace_def
  SessionAPI_DeleteForWorkspace_def SessionAPI_ListTranscript_def SessionAPI_StreamTranscript_def
  SessionAPI_GetBotMediaHealth_def SessionAPI_GetAIAnalyses_def SessionAPI_RetryFinalization_def
  SessionAPI_UpdateAgendaProgress_def

lemma session_route_handler:
  assumes "session_of_route rt = Some (c, i)" and "private_route d p rt = Some (a, h)"
  shows "access_workspace a = Some c" and "\<exists>k. h u = workspaceMeetingSession d c i k"
  using assms
  by (cases rt; force simp: private_route_def session_handlers Let_def split: if_splits)+

text \<open>
  A server with the workspace \<open>w1\<close> of the sample store, whose owner is logged in with the token \<open>k\<close>,
  the session \<open>s1\<close> of that workspace, and the API key \<open>key\<close>.
\<close>

definition sample_http_lib :: http_lib where
  "sample_http_lib =
     \<lparr>hl_api = \<lparr>lb_media_type = Some, lb_parse_time = (\<lambda>s. None), lb_sha256 = (\<lambda>s. s)\<rparr>,
      hl_rfc = (\<lambda>t. []), hl_driver_text = ''driver'', hl_accept_key = (\<lambda>s. s), hl_json_string = Some,
      hl_create = (\<lambda>b. LimitedBad BodyInvalid), hl_override = (\<lambda>b. LimitedBad BodyInvalid),
      hl_end = (\<lambda>b. LimitedBad BodyInvalid), hl_status = (\<lambda>b. LimitedBad BodyInvalid),
      hl_metadata = (\<lambda>b. LimitedBad BodyInvalid), hl_heartbeat = (\<lambda>b. LimitedBad BodyInvalid),
      hl_mediaHealth = (\<lambda>b. LimitedBad BodyInvalid), hl_diagnostics = (\<lambda>b. LimitedBad BodyInvalid),
      hl_segment = (\<lambda>b. Undecodable BodyInvalid), hl_idToken = PlainOk, hl_workspaceID = PlainOk,
      hl_workspaceCreate = (\<lambda>b. PlainOk (b, [])), hl_workspaceUpdate = (\<lambda>b. PlainOk (Some b, None)),
      hl_invitation = (\<lambda>b. PlainOk (b, [])), hl_token = PlainOk, hl_role = PlainOk,
      hl_meetingCreate = (\<lambda>b. PlainOk (b, [])), hl_allowContentType = (\<lambda>r. True)\<rparr>"

definition sample_deps :: "(pgdb, memlog, unit) http_deps" where
  "sample_deps =
     \<lparr>hd_lib = sample_http_lib, hd_apiKey = ''key'', hd_sessions = sample_config,
      hd_accounts = sample_ws_config, hd_canAccess = (\<lambda>u m e db. (Inl NotFound, db)),
      hd_meetings = mem_meetings \<lparr>js_final = (\<lambda>_. None), js_status = (\<lambda>_. None)\<rparr>,
      hd_meetingPublisher = True, hd_segmentPublisher = True, hd_transcript = True, hd_stream = True,
      hd_metrics = True, hd_media = True, hd_connections = True, hd_ai = None,
      hd_collation = (\<lambda>a b. False), hd_streamOrigins = [], hd_diagnostics = None, hd_ready = None,
      hd_cors = \<lparr>cors_FrontendURL = [], cors_AllowedOrigins = []\<rparr>\<rparr>"

definition sample_http_world :: "(pgdb, memlog, unit) http_world" where
  "sample_http_world =
     \<lparr>hw_accounts = sample_ws_world,
      hw_ingest = \<lparr>ig_world = sample_world [sample_session ''s1'' Active], ig_segments = []\<rparr>,
      hw_meetings = \<lparr>ho_db = \<lparr>ml_meetings = [], ml_nextSeq = (\<lambda>_. 0), ml_events = (\<lambda>_. []),
          ml_segments = (\<lambda>_. [])\<rparr>, ho_clock = (\<lambda>n. int n), ho_ids = show_nat,
        ho_faults = (\<lambda>_. False), ho_calls = 0, ho_published = []\<rparr>,
      hw_media = \<lparr>mhs_states = (\<lambda>_. None), mhs_published = []\<rparr>, hw_metrics = (\<lambda>_. None), hw_hub = [],
      hw_transcripts = [], hw_clients = 0,
      hw_diagnostics = \<lparr>dg_throttle = [], dg_clock = (\<lambda>_. 0), dg_ticks = 0, dg_cancelled = (\<lambda>_. False),
        dg_checks = 0, dg_written = []\<rparr>,
      hw_ai = ()\<rparr>"

definition sample_http_parts :: http_parts where
  "sample_http_parts = \<lparr>hp_healthz = True, hp_readyz = True, hp_transcripts = True, hp_sessions = True,
     hp_core = True, hp_auth = True\<rparr>"

definition sample_http_request :: "gostring \<Rightarrow> gostring \<Rightarrow> http_request" where
  "sample_http_request key token =
     \<lparr>hr_Method = ''POST'', hr_Origin = [], hr_ApiKey = key, hr_ContentType = ''application/json'',
      hr_ContentLength = 2, hr_Cookie = Some token, hr_Query = (\<lambda>_. []), hr_Body = ''{}'',
      hr_Upgrade = \<lparr>up_Connection = [], up_Upgrade = [], up_Key = [], up_can_hijack = True,
        up_io_error = None\<rparr>, hr_Hello = None\<rparr>"

lemma sample_http [simp]:
  "wc_repo (hd_accounts sample_deps) = pg_repo" "hd_accounts sample_deps = sample_ws_config"
  "hw_accounts sample_http_world = sample_ws_world"
  "hr_Method (sample_http_request key token) \<noteq> ''OPTIONS''"
  "hr_Cookie (sample_http_request key token) = Some token"
  by (simp_all add: sample_deps_def sample_http_world_def sample_http_request_def)

section \<open>Properties\<close>

fun machine_route :: "route \<Rightarrow> bool" where
  "machine_route R_transcript_segments = True"
| "machine_route R_debug_sessions = True"
| "machine_route R_cleanup_stale = True"
| "machine_route R_legacy_create = True"
| "machine_route (R_legacy_get i) = True"
| "machine_route (R_legacy_end i) = True"
| "machine_route (R_bot_metadata i) = True"
| "machine_route (R_bot_status i) = True"
| "machine_route (R_bot_heartbeat i) = True"
| "machine_route (R_bot_media i) = True"
| "machine_route _ = False"

lemmas machine_handlers = SessionAPI_DebugList_def SessionAPI_CleanupStale_def SessionAPI_Create_def
  SessionAPI_Get_def SessionAPI_End_def SessionAPI_UpdateBotMetadata_def SessionAPI_UpdateBotStatus_def
  SessionAPI_RecordBotHeartbeat_def SessionAPI_RecordBotMediaHealth_def with_api_key_def

lemma machine_refused:
  assumes "machine_route rt" and "\<not> authorizedSecret (hl_api (hd_lib d)) (hr_ApiKey r) (hd_apiKey d)"
    and "public_route d p rt = Some h"
  shows "h r w = (writeError 401 ''unauthorized'' ''unauthorized'', w)"
proof (cases "rt = R_transcript_segments")
  case True
  with assms show ?thesis
    by (auto simp: public_route_def TranscriptAPI_Store_def on_ingest_def api_Store_def split: if_splits)
next
  case False
  with assms show ?thesis
    by (cases rt) (auto simp: public_route_def machine_handlers split: if_splits)
qed

lemma machine_private: "machine_route rt \<Longrightarrow> private_route d p rt = None"
  by (cases rt) (simp_all add: private_route_def Let_def)

text \<open>C6: The endpoints of the bot and of the operators (transcript ingest, creating, reading and
  ending sessions directly, status, metadata, heartbeat and media health reports, debug list and
  cleanup) do nothing without the API key: the request fails and the world is as it was.\<close>

theorem machine_routes_need_the_api_key:
  assumes "machine_route rt" and "\<not> authorizedSecret (hl_api (hd_lib d)) (hr_ApiKey r) (hd_apiKey d)"
  shows "snd (serve d p (Some rt) r w) = w \<and>
    (hr_Method r = ''OPTIONS'' \<or> \<not> succeeded (fst (serve d p (Some rt) r w)))"
proof (cases "hr_Method r = ''OPTIONS''")
  case True
  then show ?thesis by (simp add: serve_def corsMiddleware_def Let_def)
next
  case False
  have "dispatch d p (Some rt) r w \<in> {(not_routed, w), (writeError 401 ''unauthorized'' ''unauthorized'', w)}"
    using machine_refused [OF assms, of p] machine_private [OF assms(1), of d p]
    by (auto simp: dispatch_def split: option.split)
  with False show ?thesis by (auto simp: serve_simps not_routed_def Let_def)
qed

theorem machine_routes_need_the_api_key_witness:
  "snd (serve sample_deps sample_http_parts (Some (R_bot_status ''s1''))
     (sample_http_request ''wrong'' []) sample_http_world) = sample_http_world"
proof -
  have "\<not> authorizedSecret (hl_api (hd_lib sample_deps)) (hr_ApiKey (sample_http_request ''wrong'' []))
      (hd_apiKey sample_deps)"
    by (simp add: authorizedSecret_def sample_deps_def sample_http_lib_def sample_http_request_def)
  from machine_routes_need_the_api_key [OF _ this] show ?thesis by simp
qed

text \<open>C7: A request below a workspace is served only for a member: it fails and leaves everything but
  login bookkeeping as it was, or it carries the token of a stored login session that is neither
  revoked nor expired, whose user is a member of that workspace in the role the route asks for.\<close>

theorem workspace_routes_need_a_member:
  assumes "wc_repo (hd_accounts d) = pg_repo" and "private_route d p rt = Some (a, h)"
    and "access_workspace a = Some c" and "hr_Method r \<noteq> ''OPTIONS''"
    and "serve d p (Some rt) r w = (resp, w')"
  shows "(\<not> succeeded resp \<and> accounts_only w w') \<or>
    (\<exists>token s. hr_Cookie r = Some token \<and> s \<in> set (pd_sessions (ww_db (hw_accounts w))) \<and>
       ls_TokenHash s = wc_hash (hd_accounts d) token \<and>
       ls_ID s \<notin> set (pd_revoked (ww_db (hw_accounts w))) \<and>
       ww_clock (hw_accounts w) (Suc (ww_ticks (hw_accounts w))) < ls_ExpiresAt s \<and>
       member_row (ww_db (hw_accounts w)) c (ls_UserID s) (role_allows a))"
  using assms
proof (cases rule: serve_private_cases)
  case (passed token ctx w1 q)
  obtain v where "Authenticate (hd_accounts d) token (hw_accounts w) = (Inr ctx, v)"
    using passed(2) by (metis prod.collapse)
  from authenticated_session [OF assms(1) this] passed(1,3) show ?thesis by auto
qed simp

theorem workspace_routes_need_a_member_witness:
  "\<not> succeeded (fst (serve sample_deps sample_http_parts (Some (R_session_end ''w1'' ''s1''))
     (sample_http_request [] ''stolen'') sample_http_world))"
proof -
  let ?run = "serve sample_deps sample_http_parts (Some (R_session_end ''w1'' ''s1''))
     (sample_http_request [] ''stolen'') sample_http_world"
  have "private_route sample_deps sample_http_parts (R_session_end ''w1'' ''s1'') =
      Some (Manager ''w1'', \<lambda>u. SessionAPI_EndForWorkspace sample_deps ''w1'' ''s1'')"
    by (simp add: private_route_def sample_http_parts_def)
  moreover have "\<forall>s \<in> set (pd_sessions sample_pg). ls_TokenHash s \<noteq> wc_hash sample_ws_config ''stolen''"
    by (simp add: sample_pg_def sample_ws_config_def)
  ultimately show ?thesis
    using workspace_routes_need_a_member [of sample_deps sample_http_parts "R_session_end ''w1'' ''s1''"
        "Manager ''w1''" _ "''w1''" "sample_http_request [] ''stolen''" sample_http_world
        "fst ?run" "snd ?run"] by auto
qed

text \<open>C8: A session is reached only through its own workspace: a request on a session path whose
  stored session is missing or belongs to another workspace fails, for every such route, and
  changes nothing but login bookkeeping and the stale sessions every lookup marks.\<close>

theorem sessions_stay_in_their_workspace:
  assumes "wc_repo (hd_accounts d) = pg_repo" and "session_of_route rt = Some (c, i)"
    and "\<forall>s. lookup (w_db (sessions_of w)) (trim_space i) = Some s \<longrightarrow> ms_WorkspaceID s \<noteq> trim_space c"
    and "hr_Method r \<noteq> ''OPTIONS''"
  shows "\<not> succeeded (fst (serve d p (Some rt) r w)) \<and>
    lookup_only (hd_sessions d) i w (snd (serve d p (Some rt) r w))"
proof (cases "private_route d p rt")
  case None
  have "public_route d p rt = None"
    using assms(2) by (cases rt) (simp_all add: public_route_def)
  with None assms(4) show ?thesis
    by (auto simp: serve_simps dispatch_def not_routed_def lookup_only_def intro: exI [of _ w])
next
  case (Some ah)
  then obtain a h where rt: "private_route d p rt = Some (a, h)" by (cases ah) simp
  note h = session_route_handler [OF assms(2) rt]
  obtain resp w' where run: "serve d p (Some rt) r w = (resp, w')" by fastforce
  from assms(1) rt h(1) assms(4) run show ?thesis
  proof (cases rule: serve_private_cases)
    case refused
    then show ?thesis by (auto simp: run lookup_only_def)
  next
    case (passed token ctx w1 q)
    obtain k where "h ctx = workspaceMeetingSession d c i k" using h(2) by blast
    with passed(5) have "workspaceMeetingSession d c i k r w1 = (q, w')" by simp
    moreover have "sessions_of w1 = sessions_of w"
      using passed(4) unfolding accounts_only_def by (metis http_world.ext_inject http_world.surjective http_world.update_convs(1))
    ultimately have "\<not> succeeded q \<and> (w' = w1 \<or>
        w' = snd (on_sessions (GetMeetingSession (hd_sessions d) (trim_space i)) w1))"
      using assms(3) workspaceMeetingSession_hidden [of i w1 c d k r q w'] by simp
    with passed(4,6) show ?thesis by (auto simp: run lookup_only_def)
  qed
qed

theorem sessions_stay_in_their_workspace_witness:
  "\<not> succeeded (fst (serve sample_deps sample_http_parts (Some (R_session_delete ''w2'' ''s1''))
     (sample_http_request [] ''k'') sample_http_world))"
proof -
  have "trim_space ''w2'' = ''w2''" by code_simp
  then have "\<forall>s. lookup (w_db (sessions_of sample_http_world)) (trim_space ''s1'') = Some s \<longrightarrow>
      ms_WorkspaceID s \<noteq> trim_space ''w2''"
    by (simp add: sample_http_world_def) (simp add: sample_session_def)
  from sessions_stay_in_their_workspace [OF sample_http(1) _ this sample_http(4)] show ?thesis by simp
qed

end
