(* ===== verification/LiveCues.thy ===== *)
theory LiveCues
  imports MeetingContext
begin

text \<open>
  What a final transcript says, as far as the live scheduler looks at it: the cues of
  \<open>semanticTriggerFeatures\<close> and the filler test of \<open>isLowInformationFinalText\<close>
  (\<open>internal/application/ai_live_scheduler.go\<close>).

  Texts are well-formed UTF-8.  A regular expression that is an alternative of words is the search for
  one of its words, written by code points; the pattern of complete sentences is anchored at the end
  and allows one closing mark.  The character classes of package \<open>unicode\<close> are an argument.
\<close>

section \<open>Runes\<close>

function runes :: "gostring \<Rightarrow> gostring list" where
  "runes [] = []"
| "runes (c # cs) = (c # takeWhile is_continuation cs) # runes (dropWhile is_continuation cs)"
  by pat_completeness auto
termination by (relation "measure length") (auto intro: le_less_trans [OF length_dropWhile_le])

definition rune_count :: "gostring \<Rightarrow> nat" where
  "rune_count s = length (filter (\<lambda>c. \<not> is_continuation c) s)"

text \<open>\<open>IsSpace\<close>, \<open>IsPunct\<close> or \<open>IsSymbol\<close> of a rune, and \<open>ToLower\<close>.\<close>

record unicode_classes =
  un_dropped :: "gostring \<Rightarrow> bool"
  un_lower :: "gostring \<Rightarrow> gostring"

section \<open>Fillers\<close>

definition liveAnalysisFillerOnly :: "gostring list" where
  "liveAnalysisFillerOnly = map jp
     [[0x306F, 0x3044], [0x306F, 0x3044, 0x306F, 0x3044], [0x3048, 0x3048], [0x3046, 0x3093],
      [0x3046, 0x3093, 0x3046, 0x3093], [0x3042, 0x3042], [0x3078, 0x3048], [0x307B, 0x3046],
      [0x305D, 0x3046], [0x305D, 0x3046, 0x3067, 0x3059, 0x306D], [0x306A, 0x308B, 0x307B, 0x3069],
      [0x4E86, 0x89E3], [0x308F, 0x304B, 0x308A, 0x307E, 0x3057, 0x305F],
      [0x627F, 0x77E5, 0x3057, 0x307E, 0x3057, 0x305F], [0x3048], [0x3048, 0x30FC],
      [0x3048, 0x3048, 0x3068], [0x3048, 0x3063, 0x3068], [0x3042, 0x306E], [0x305D, 0x306E],
      [0x307E, 0x3042], [0x306A, 0x3093, 0x304B], [0x3046, 0x30FC, 0x3093], [0x3093], [0x7121, 0x97F3]]"

definition isLowInformationFinalText :: "unicode_classes \<Rightarrow> gostring \<Rightarrow> bool" where
  "isLowInformationFinalText u value =
     (let normalized = concat (map (un_lower u) (filter (\<lambda>r. \<not> un_dropped u r) (runes (trim_space value)))) in
      normalized = [] \<or> normalized \<in> set liveAnalysisFillerOnly)"

section \<open>Cues\<close>

definition mentions :: "gostring list \<Rightarrow> gostring \<Rightarrow> bool" where
  "mentions words text = list_ex (contains text) words"

definition sentence_ends :: "gostring list" where
  "sentence_ends = map jp
     [[0x3067, 0x3057, 0x305F], [0x307E, 0x3057, 0x305F], [0x3066, 0x3044, 0x307E, 0x3059],
      [0x3066, 0x3044, 0x307E, 0x3057, 0x305F], [0x3042, 0x308A, 0x307E, 0x305B, 0x3093],
      [0x306A, 0x3044, 0x3067, 0x3059], [0x3067, 0x3059], [0x307E, 0x3059], [0x3057, 0x305F],
      [0x3059, 0x308B], [0x306A, 0x3063, 0x305F], [0x306A, 0x308B], [0x3067, 0x304D, 0x306A, 0x3044],
      [0x3067, 0x304D, 0x307E, 0x305B, 0x3093], [0x672A, 0x78BA, 0x8A8D], [0x672A, 0x6C7A, 0x5B9A],
      [0x53EF, 0x80FD, 0x6027, 0x304C, 0x9AD8, 0x3044],
      [0x53EF, 0x80FD, 0x6027, 0x304C, 0x3042, 0x308B], [0x53EF, 0x80FD, 0x6027, 0x9AD8, 0x3044],
      [0x53EF, 0x80FD, 0x6027, 0x3042, 0x308B]]"

definition sentence_marks :: "gostring list" where
  "sentence_marks = map jp [[0x3002], [0xFF0E], [0x2E], [0x21], [0xFF01], [0x3F], [0xFF1F]]"

definition sentence_complete :: "gostring \<Rightarrow> bool" where
  "sentence_complete text =
     list_ex (\<lambda>e. has_suffix text e \<or> list_ex (\<lambda>m. has_suffix text (e @ m)) sentence_marks) sentence_ends"

definition subject_words :: "gostring list" where
  "subject_words = map jp
     [[0x306F], [0x304C], [0x3092], [0x306B, 0x306F], [0x3067, 0x306F],
      [0x306B, 0x304A, 0x3044, 0x3066], [0x306B, 0x3064, 0x3044, 0x3066], [0x304B, 0x3089],
      [0x307E, 0x3067]]"

definition predicate_words :: "gostring list" where
  "predicate_words = map jp
     [[0x767A, 0x751F], [0x78BA, 0x8A8D], [0x7570, 0x5E38], [0x63A5, 0x7D9A], [0x5FA9, 0x65E7],
      [0x5207, 0x308A, 0x623B], [0x4FEE, 0x6B63], [0x5F71, 0x97FF], [0x9045, 0x5EF6], [0x6C7A, 0x5B9A],
      [0x5408, 0x610F], [0x5BFE, 0x5FDC], [0x5B9F, 0x65BD], [0x78BA, 0x8A8D], [0x62C5, 0x5F53],
      [0x671F, 0x9650], [0x539F, 0x56E0], [0x6F0F, 0x308C], [0x4E0D, 0x8DB3], [0x5B8C, 0x4E86],
      [0x7D42, 0x4E86], [0x672A, 0x78BA, 0x8A8D], [0x672A, 0x6C7A, 0x5B9A], [0x53EF, 0x80FD, 0x6027]]"

definition correction_words :: "gostring list" where
  "correction_words = map jp
     [[0x6B63, 0x78BA, 0x306B, 0x306F], [0x8A02, 0x6B63, 0x3059, 0x308B, 0x3068],
      [0x5148, 0x307B, 0x3069, 0x306E, 0x8AAC, 0x660E, 0x306F, 0x9055],
      [0x3067, 0x306F, 0x306A, 0x304F], [0x3058, 0x3083, 0x306A, 0x304F],
      [0x53B3, 0x5BC6, 0x306B, 0x306F]]"

definition decision_words :: "gostring list" where
  "decision_words = map jp
     [[0x6C7A, 0x5B9A, 0x3057, 0x307E, 0x3057, 0x305F], [0x6C7A, 0x3081, 0x307E, 0x3057, 0x305F],
      [0x5408, 0x610F, 0x3057, 0x307E, 0x3057, 0x305F], [0x3068, 0x3057, 0x307E, 0x3059],
      [0x3067, 0x9032, 0x3081, 0x307E, 0x3059]]"

definition risk_words :: "gostring list" where
  "risk_words = map jp
     [[0x30EA, 0x30B9, 0x30AF], [0x6050, 0x308C], [0x61F8, 0x5FF5],
      [0x53EF, 0x80FD, 0x6027, 0x304C, 0x3042, 0x308A, 0x307E, 0x3059], [0x304A, 0x305D, 0x308C]]"

definition todo_words :: "gostring list" where
  "todo_words = map jp
     [[0x62C5, 0x5F53], [0x671F, 0x9650], [0x307E, 0x3067, 0x306B], [0x3057, 0x307E, 0x3059],
      [0x5BFE, 0x5FDC, 0x3057, 0x307E, 0x3059], [0x78BA, 0x8A8D, 0x3057, 0x307E, 0x3059],
      [0x5B9F, 0x65BD, 0x3057, 0x307E, 0x3059]]"

definition hypothesis_words :: "gostring list" where
  "hypothesis_words = map jp
     [[0x539F, 0x56E0, 0x3067, 0x3042, 0x308B, 0x53EF, 0x80FD, 0x6027],
      [0x539F, 0x56E0, 0x306E, 0x53EF, 0x80FD, 0x6027],
      [0x53EF, 0x80FD, 0x6027, 0x304C, 0x6700, 0x3082, 0x9AD8], [0x539F, 0x56E0, 0x5019, 0x88DC],
      [0x3068, 0x8003, 0x3048, 0x3089, 0x308C]]"

definition unresolved_words :: "gostring list" where
  "unresolved_words = map jp
     [[0x672A, 0x78BA, 0x8A8D], [0x672A, 0x89E3, 0x6C7A], [0x4E0D, 0x660E], [0x672A, 0x6C7A, 0x5B9A],
      [0x78BA, 0x8A8D, 0x3067, 0x304D, 0x3066, 0x3044, 0x306A, 0x3044],
      [0x8AAC, 0x660E, 0x3067, 0x304D, 0x308B, 0x304B]]"

definition completed_words :: "gostring list" where
  "completed_words = map jp
     [[0x5B8C, 0x4E86, 0x3057, 0x307E, 0x3057, 0x305F],
      [0x5B9F, 0x65BD, 0x3057, 0x307E, 0x3057, 0x305F],
      [0x5207, 0x308A, 0x623B, 0x3057, 0x307E, 0x3057, 0x305F],
      [0x4FEE, 0x6B63, 0x3057, 0x307E, 0x3057, 0x305F],
      [0x5FA9, 0x65E7, 0x3057, 0x307E, 0x3057, 0x305F], [0x5BFE, 0x5FDC, 0x6E08, 0x307F]]"

definition confirmed_words :: "gostring list" where
  "confirmed_words = map jp
     [[0x767A, 0x751F, 0x3057, 0x3066, 0x3044, 0x307E, 0x3057, 0x305F],
      [0x78BA, 0x8A8D, 0x3057, 0x307E, 0x3057, 0x305F],
      [0x7570, 0x5E38, 0x306F, 0x3042, 0x308A, 0x307E, 0x305B, 0x3093, 0x3067, 0x3057, 0x305F],
      [0x63A5, 0x7D9A, 0x3067, 0x304D, 0x307E, 0x305B, 0x3093, 0x3067, 0x3057, 0x305F],
      [0x5FA9, 0x65E7, 0x3057, 0x307E, 0x3057, 0x305F],
      [0x5F71, 0x97FF, 0x3057, 0x3066, 0x3044, 0x307E, 0x3057, 0x305F],
      [0x9045, 0x5EF6, 0x304C, 0x3042, 0x308A, 0x307E, 0x3057, 0x305F]]"

definition specific_words :: "gostring list" where
  "specific_words = map jp
     [[0x5348, 0x524D], [0x5348, 0x5F8C], [0x672C, 0x65E5], [0x4ECA, 0x65E5], [0x660E, 0x65E5],
      [0x6765, 0x9031], [0x56, 0x4C, 0x41, 0x4E], [0x30EB, 0x30FC, 0x30BF, 0x30FC],
      [0x30D5, 0x30A1, 0x30A4, 0x30A2, 0x30A6, 0x30A9, 0x30FC, 0x30EB],
      [0x30B5, 0x30FC, 0x30D0, 0x30FC], [0x30B9, 0x30A4, 0x30C3, 0x30C1],
      [0x30CD, 0x30C3, 0x30C8, 0x30EF, 0x30FC, 0x30AF]]"

record liveSemanticTriggerFeatures =
  sf_SubjectPresent :: bool
  sf_PredicatePresent :: bool
  sf_SentenceComplete :: bool
  sf_CorrectionCuePresent :: bool
  sf_DecisionCuePresent :: bool
  sf_RiskCuePresent :: bool
  sf_TodoCuePresent :: bool
  sf_HypothesisCuePresent :: bool
  sf_UnresolvedCuePresent :: bool
  sf_CompletedActionPresent :: bool
  sf_ConfirmedStatePresent :: bool
  sf_SpecificEntityPresent :: bool

definition semanticTriggerFeatures :: "gostring \<Rightarrow> liveSemanticTriggerFeatures" where
  "semanticTriggerFeatures text0 =
     (let text = trim_space text0 in
      \<lparr>sf_SubjectPresent = mentions subject_words text,
       sf_PredicatePresent = mentions predicate_words text,
       sf_SentenceComplete = sentence_complete text,
       sf_CorrectionCuePresent = mentions correction_words text,
       sf_DecisionCuePresent = mentions decision_words text,
       sf_RiskCuePresent = mentions risk_words text,
       sf_TodoCuePresent = mentions todo_words text,
       sf_HypothesisCuePresent = mentions hypothesis_words text,
       sf_UnresolvedCuePresent = mentions unresolved_words text,
       sf_CompletedActionPresent = mentions completed_words text,
       sf_ConfirmedStatePresent = mentions confirmed_words text,
       sf_SpecificEntityPresent = list_ex is_digit text \<or> mentions specific_words text\<rparr>)"

definition features_highPriority :: "liveSemanticTriggerFeatures \<Rightarrow> bool" where
  "features_highPriority f \<longleftrightarrow>
     sf_CorrectionCuePresent f \<or> sf_DecisionCuePresent f \<or> sf_RiskCuePresent f \<or> sf_TodoCuePresent f \<or>
     sf_HypothesisCuePresent f \<or> sf_UnresolvedCuePresent f"

definition features_complete :: "liveSemanticTriggerFeatures \<Rightarrow> bool" where
  "features_complete f \<longleftrightarrow>
     (let cue = sf_CorrectionCuePresent f \<or> sf_DecisionCuePresent f \<or> sf_RiskCuePresent f \<or> sf_TodoCuePresent f \<or>
        sf_HypothesisCuePresent f \<or> sf_UnresolvedCuePresent f \<or> sf_CompletedActionPresent f \<or>
        sf_ConfirmedStatePresent f in
      sf_SentenceComplete f \<and>
      (sf_SubjectPresent f \<and> sf_PredicatePresent f \<or> cue \<or>
       sf_PredicatePresent f \<and> sf_SpecificEntityPresent f))"

text \<open>The loop of \<open>pendingSemanticTrigger\<close>: whether some text is complete, whether some is urgent.\<close>

fun pendingSemanticTrigger :: "TranscriptSegment list \<Rightarrow> bool \<times> bool" where
  "pendingSemanticTrigger [] = (False, False)"
| "pendingSemanticTrigger (s # ss) =
     (let f = semanticTriggerFeatures (ts_Text s); (complete, high) = pendingSemanticTrigger ss in
      (features_complete f \<or> complete, features_highPriority f \<or> high))"

definition hasSubstantiveLiveAnalysisInput :: "unicode_classes \<Rightarrow> TranscriptSegment list \<Rightarrow> bool" where
  "hasSubstantiveLiveAnalysisInput u segments = list_ex (\<lambda>s. \<not> isLowInformationFinalText u (ts_Text s)) segments"

definition sumSegmentChars :: "TranscriptSegment list \<Rightarrow> int" where
  "sumSegmentChars segments = sum_list (map (\<lambda>s. int (rune_count (trim_space (ts_Text s)))) segments)"

end
