(* ===== verification/LiveCoverage.thy ===== *)
theory LiveCoverage
  imports LiveCues "HOL-Library.List_Lexorder" "HOL-Library.Char_ord" "HOL-Library.AList"
begin

text \<open>
  Which final transcripts a live analysis has taken into account: the coverage part of
  \<open>liveAnalysisPayload\<close> and its bookkeeping in \<open>internal/application/ai_analysis.go\<close>.

  A payload is the pair of its coverage part and the rest (items, tree, agenda progress, recap span).
  A nil or unreadable payload is \<open>None\<close>.  How \<open>classifyFinalSegmentDisposition\<close> judges a segment is
  an argument of \<open>addLiveAnalysisCoverage\<close>: within one call it depends on the segment alone.
\<close>

section \<open>Data\<close>

record finalSegmentCoverage =
  fc_CallID :: gostring
  fc_SequenceNo :: int
  fc_MeaningfullyCovered :: bool
  fc_Reason :: gostring
  fc_Disposition :: gostring
  fc_RetryEligible :: bool
  fc_AttemptCount :: int
  fc_RetryAfterSequenceNo :: int

type_synonym segment_ref = "gostring \<times> int"

record live_coverage =
  lp_AnalyzedFinalSegments :: "segment_ref list"
  lp_CoveredThroughSequenceNo :: int
  lp_FinalSegmentCoverage :: "finalSegmentCoverage list"
  lp_MeaningfullyCoveredFinalSegments :: "segment_ref list"
  lp_MeaningfullyCoveredThroughSequenceNo :: int

type_synonym 'p live_payload = "live_coverage \<times> 'p"

definition no_coverage :: live_coverage where
  "no_coverage = \<lparr>lp_AnalyzedFinalSegments = [], lp_CoveredThroughSequenceNo = 0,
     lp_FinalSegmentCoverage = [], lp_MeaningfullyCoveredFinalSegments = [],
     lp_MeaningfullyCoveredThroughSequenceNo = 0\<rparr>"

fun previousLiveAnalysisState :: "'p live_payload option \<Rightarrow> live_coverage" where
  "previousLiveAnalysisState None = no_coverage"
| "previousLiveAnalysisState (Some (c, p)) = c"

section \<open>Keys\<close>

definition finalSegmentKey :: "gostring \<Rightarrow> int \<Rightarrow> gostring" where
  "finalSegmentKey callID sequenceNo = trim_space callID @ [CHR 0x00] @ show_int sequenceNo"

definition segment_key :: "TranscriptSegment \<Rightarrow> gostring" where
  "segment_key s = finalSegmentKey (ts_CallID s) (ts_SequenceNo s)"

definition coverage_key :: "finalSegmentCoverage \<Rightarrow> gostring" where
  "coverage_key c = finalSegmentKey (fc_CallID c) (fc_SequenceNo c)"

definition analyzed_keys :: "live_coverage \<Rightarrow> gostring list" where
  "analyzed_keys c = map (\<lambda>(call, n). finalSegmentKey call n) (lp_AnalyzedFinalSegments c)"

text \<open>A map from keys to entries, filled in the order of the list.\<close>

definition coverage_table :: "finalSegmentCoverage list \<Rightarrow> (gostring \<times> finalSegmentCoverage) list" where
  "coverage_table cs = fold (\<lambda>c. AList.update (coverage_key c) c) cs []"

section \<open>Recording a round\<close>

record coverage_loop =
  cl_seen :: "gostring list"
  cl_normalized :: "segment_ref list"
  cl_through :: int
  cl_table :: "(gostring \<times> finalSegmentCoverage) list"
  cl_decisions :: "finalSegmentCoverage list"

definition keep_reference :: "segment_ref \<Rightarrow> coverage_loop \<Rightarrow> coverage_loop" where
  "keep_reference r l =
     (let key = finalSegmentKey (fst r) (snd r) in
      if snd r \<le> 0 \<or> key \<in> set (cl_seen l) then l
      else l\<lparr>cl_seen := key # cl_seen l, cl_normalized := cl_normalized l @ [r],
             cl_through := max (cl_through l) (snd r)\<rparr>)"

definition segmentDispositionNewItemCreated :: gostring where
  "segmentDispositionNewItemCreated = ''new_item_created''"
definition segmentDispositionExistingEvidenceAdded :: gostring where
  "segmentDispositionExistingEvidenceAdded = ''existing_item_evidence_added''"
definition segmentDispositionExistingReconfirmed :: gostring where
  "segmentDispositionExistingReconfirmed = ''existing_item_reconfirmed''"
definition segmentDispositionPendingForContext :: gostring where
  "segmentDispositionPendingForContext = ''pending_for_context''"

definition coverage_reason :: "gostring \<Rightarrow> gostring \<Rightarrow> gostring" where
  "coverage_reason unreflectedReason disposition =
     (if disposition = segmentDispositionPendingForContext
      then (if trim_space unreflectedReason = [] then ''no_accepted_item'' else trim_space unreflectedReason)
      else if disposition \<notin> {segmentDispositionNewItemCreated, segmentDispositionExistingEvidenceAdded,
                 segmentDispositionExistingReconfirmed} then disposition
      else ''item_evidence'')"

definition coverage_decision ::
    "(TranscriptSegment \<Rightarrow> gostring \<times> bool) \<Rightarrow> gostring \<Rightarrow> int \<Rightarrow> finalSegmentCoverage option \<Rightarrow>
     TranscriptSegment \<Rightarrow> finalSegmentCoverage" where
  "coverage_decision classify unreflectedReason maxRound previous s =
     (let (disposition, meaningful) = classify s;
          attempt = (case previous of Some p \<Rightarrow> fc_AttemptCount p + 1 | None \<Rightarrow> 1) in
      \<lparr>fc_CallID = ts_CallID s, fc_SequenceNo = ts_SequenceNo s, fc_MeaningfullyCovered = meaningful,
       fc_Reason = coverage_reason unreflectedReason disposition, fc_Disposition = disposition,
       fc_RetryEligible = (\<not> meaningful \<and> attempt < 2), fc_AttemptCount = attempt,
       fc_RetryAfterSequenceNo = (if meaningful then 0 else maxRound)\<rparr>)"

definition counts_as_final :: "TranscriptSegment \<Rightarrow> bool" where
  "counts_as_final s \<longleftrightarrow> ts_IsFinal s \<and> 0 < ts_SequenceNo s \<and> trim_space (ts_Text s) \<noteq> []"

definition cover_segment ::
    "(TranscriptSegment \<Rightarrow> gostring \<times> bool) \<Rightarrow> gostring \<Rightarrow> int \<Rightarrow> TranscriptSegment \<Rightarrow> coverage_loop \<Rightarrow>
     coverage_loop" where
  "cover_segment classify unreflectedReason maxRound s l =
     (if \<not> counts_as_final s then l
      else (let key = segment_key s;
                l1 = (if key \<in> set (cl_seen l) then l
                  else l\<lparr>cl_seen := key # cl_seen l,
                         cl_normalized := cl_normalized l @ [(ts_CallID s, ts_SequenceNo s)]\<rparr>);
                c = coverage_decision classify unreflectedReason maxRound (map_of (cl_table l) key) s in
         l1\<lparr>cl_through := max (cl_through l1) (ts_SequenceNo s),
            cl_table := AList.update key c (cl_table l1), cl_decisions := cl_decisions l1 @ [c]\<rparr>))"

definition coverage_before :: "finalSegmentCoverage \<Rightarrow> finalSegmentCoverage \<Rightarrow> bool" where
  "coverage_before a b \<longleftrightarrow>
     (if fc_SequenceNo a \<noteq> fc_SequenceNo b then fc_SequenceNo a < fc_SequenceNo b else fc_CallID a < fc_CallID b)"

definition normalizedFinalSegmentCoverage ::
    "(gostring \<times> finalSegmentCoverage) list \<Rightarrow> finalSegmentCoverage list" where
  "normalizedFinalSegmentCoverage t = order_by coverage_before (map snd t)"

definition max_sequence :: "TranscriptSegment list \<Rightarrow> int" where
  "max_sequence ss = fold (\<lambda>s. max (ts_SequenceNo s)) ss 0"

definition addLiveAnalysisCoverage ::
    "(TranscriptSegment \<Rightarrow> gostring \<times> bool) \<Rightarrow> gostring \<Rightarrow> TranscriptSegment list \<Rightarrow> live_coverage \<Rightarrow>
     live_coverage \<times> finalSegmentCoverage list" where
  "addLiveAnalysisCoverage classify unreflectedReason segments c =
     (let start = \<lparr>cl_seen = [], cl_normalized = [], cl_through = lp_CoveredThroughSequenceNo c,
                   cl_table = coverage_table (filter (\<lambda>e. 0 < fc_SequenceNo e) (lp_FinalSegmentCoverage c)),
                   cl_decisions = []\<rparr>;
          kept = fold keep_reference (lp_AnalyzedFinalSegments c) start;
          done = fold (cover_segment classify unreflectedReason (max_sequence segments)) segments kept;
          entries = normalizedFinalSegmentCoverage (cl_table done);
          good = filter fc_MeaningfullyCovered entries in
      (\<lparr>lp_AnalyzedFinalSegments = cl_normalized done, lp_CoveredThroughSequenceNo = cl_through done,
        lp_FinalSegmentCoverage = entries,
        lp_MeaningfullyCoveredFinalSegments = map (\<lambda>e. (fc_CallID e, fc_SequenceNo e)) good,
        lp_MeaningfullyCoveredThroughSequenceNo = fold (\<lambda>e. max (fc_SequenceNo e)) good 0\<rparr>,
       cl_decisions done))"

section \<open>Looking up\<close>

definition filterAlreadyAnalyzedSegments :: "TranscriptSegment list \<Rightarrow> live_coverage \<Rightarrow> TranscriptSegment list" where
  "filterAlreadyAnalyzedSegments segments c =
     (let highest = fold (\<lambda>s h. if ts_IsFinal s \<and> h < ts_SequenceNo s then ts_SequenceNo s else h) segments 0;
          table = coverage_table (lp_FinalSegmentCoverage c) in
      filter (\<lambda>s. segment_key s \<notin> set (analyzed_keys c) \<or>
          (case map_of table (segment_key s) of
             Some e \<Rightarrow> fc_RetryEligible e \<and> fc_RetryAfterSequenceNo e < highest | None \<Rightarrow> False)) segments)"

record deferredUnreflectedSegment =
  du_Segment :: TranscriptSegment
  du_RetryAfterSequenceNo :: int

definition deferredUnreflectedFromCoverage ::
    "TranscriptSegment list \<Rightarrow> finalSegmentCoverage list \<Rightarrow> deferredUnreflectedSegment list" where
  "deferredUnreflectedFromCoverage segments coverage =
     (let table = coverage_table coverage in
      List.map_filter (\<lambda>s. case map_of table (segment_key s) of
          Some d \<Rightarrow> if fc_RetryEligible d
            then Some \<lparr>du_Segment = s, du_RetryAfterSequenceNo = fc_RetryAfterSequenceNo d\<rparr> else None
        | None \<Rightarrow> None) segments)"

definition removeCoveredSegments :: "TranscriptSegment list \<Rightarrow> TranscriptSegment list \<Rightarrow> TranscriptSegment list" where
  "removeCoveredSegments pending covered =
     (let keys = map segment_key (filter (\<lambda>s. 0 < ts_SequenceNo s) covered) in
      filter (\<lambda>s. ts_SequenceNo s \<le> 0 \<or> segment_key s \<notin> set keys) pending)"

section \<open>Facts\<close>

lemma keep_reference_spec:
  "set (cl_seen l) \<subseteq> set (cl_seen (fold keep_reference rs l)) \<and>
   (\<forall>r\<in>set rs. 0 < snd r \<longrightarrow> finalSegmentKey (fst r) (snd r) \<in> set (cl_seen (fold keep_reference rs l)))"
proof (induction rs arbitrary: l)
  case (Cons r rs)
  have "set (cl_seen l) \<subseteq> set (cl_seen (keep_reference r l)) \<and>
      (0 < snd r \<longrightarrow> finalSegmentKey (fst r) (snd r) \<in> set (cl_seen (keep_reference r l)))"
    by (auto simp: keep_reference_def Let_def)
  then show ?case using Cons.IH [of "keep_reference r l"] by auto
qed simp

definition seen_agrees :: "coverage_loop \<Rightarrow> bool" where
  "seen_agrees l \<longleftrightarrow> set (cl_seen l) = (\<lambda>(call, n). finalSegmentKey call n) ` set (cl_normalized l)"

lemma keep_reference_agrees: "seen_agrees l \<Longrightarrow> seen_agrees (fold keep_reference rs l)"
  by (induction rs arbitrary: l) (auto simp: keep_reference_def seen_agrees_def Let_def split: prod.splits)

lemma cover_segment_agrees: "seen_agrees l \<Longrightarrow> seen_agrees (fold (cover_segment f u m) ss l)"
  by (induction ss arbitrary: l)
    (auto simp: cover_segment_def seen_agrees_def segment_key_def Let_def)

lemma cover_segment_spec:
  "set (cl_seen l) \<subseteq> set (cl_seen (fold (cover_segment f u m) ss l)) \<and>
   (\<forall>s\<in>set ss. counts_as_final s \<longrightarrow> segment_key s \<in> set (cl_seen (fold (cover_segment f u m) ss l)))"
proof (induction ss arbitrary: l)
  case (Cons s ss)
  have "set (cl_seen l) \<subseteq> set (cl_seen (cover_segment f u m s l)) \<and>
      (counts_as_final s \<longrightarrow> segment_key s \<in> set (cl_seen (cover_segment f u m s l)))"
    by (auto simp: cover_segment_def Let_def)
  then show ?case using Cons.IH [of "cover_segment f u m s l"] by auto
qed simp

text \<open>The keys of positive sequence numbers a coverage has analyzed.\<close>

definition covered :: "live_coverage \<Rightarrow> gostring set" where
  "covered c = (\<lambda>(call, n). finalSegmentKey call n) ` {r \<in> set (lp_AnalyzedFinalSegments c). 0 < snd r}"

lemma covered_none [simp]: "covered no_coverage = {}"
  by (simp add: covered_def no_coverage_def)

lemma is_digit_not_minus: "is_digit c \<Longrightarrow> c \<noteq> CHR ''-''"
  by (auto simp: is_digit_def)

lemma show_nat_is_digit: "c \<in> set (show_nat n) \<Longrightarrow> is_digit c"
  using show_nat_digits by fastforce

lemma show_int_plain: "CHR 0x00 \<notin> set (show_int i)"
  by (auto simp: show_int_def is_digit_def dest: show_nat_is_digit)

lemma show_int_equal: "show_int i = show_int j \<Longrightarrow> i = j"
proof -
  have minus: "show_nat n \<noteq> CHR ''-'' # t" for n t
    using show_nat_is_digit [of "CHR ''-''" n] by (metis is_digit_not_minus list.set_intros(1))
  show "show_int i = show_int j \<Longrightarrow> i = j"
    using minus [of "nat j" "show_nat (nat (- i))"] minus [of "nat i" "show_nat (nat (- j))"]
    by (simp add: show_int_def split: if_splits)
qed

lemma finalSegmentKey_number: "finalSegmentKey a i = finalSegmentKey b j \<Longrightarrow> i = j"
proof -
  assume eq: "finalSegmentKey a i = finalSegmentKey b j"
  have "takeWhile (\<lambda>c. c \<noteq> CHR 0x00) (rev (finalSegmentKey x k)) = rev (show_int k)" for x k
    using show_int_plain [of k] by (simp add: finalSegmentKey_def takeWhile_append takeWhile_eq_all_conv)
  with eq show "i = j" by (metis rev_swap show_int_equal)
qed

lemma covered_iff:
  assumes "0 < ts_SequenceNo s"
  shows "segment_key s \<in> covered c \<longleftrightarrow> segment_key s \<in> set (analyzed_keys c)"
proof
  assume "segment_key s \<in> set (analyzed_keys c)"
  then obtain r where r: "r \<in> set (lp_AnalyzedFinalSegments c)" "segment_key s = finalSegmentKey (fst r) (snd r)"
    by (auto simp: analyzed_keys_def)
  moreover have "0 < snd r" using finalSegmentKey_number r(2) assms unfolding segment_key_def by metis
  ultimately show "segment_key s \<in> covered c" by (force simp: covered_def)
qed (auto simp: covered_def analyzed_keys_def)

text \<open>Recording a round keeps what was covered and covers every final segment of the round.\<close>

lemma addLiveAnalysisCoverage_covers:
  "covered c \<subseteq> covered (fst (addLiveAnalysisCoverage f u ss c))" (is ?old)
  "s \<in> set ss \<Longrightarrow> counts_as_final s \<Longrightarrow> segment_key s \<in> covered (fst (addLiveAnalysisCoverage f u ss c))"
proof -
  define start where "start = \<lparr>cl_seen = [], cl_normalized = [], cl_through = lp_CoveredThroughSequenceNo c,
    cl_table = coverage_table (filter (\<lambda>e. 0 < fc_SequenceNo e) (lp_FinalSegmentCoverage c)),
    cl_decisions = []\<rparr>"
  define kept where "kept = fold keep_reference (lp_AnalyzedFinalSegments c) start"
  define last where "last = fold (cover_segment f u (max_sequence ss)) ss kept"
  have refs: "lp_AnalyzedFinalSegments (fst (addLiveAnalysisCoverage f u ss c)) = cl_normalized last"
    by (simp add: addLiveAnalysisCoverage_def Let_def start_def kept_def last_def)
  have "seen_agrees last"
    unfolding last_def kept_def
    by (intro cover_segment_agrees keep_reference_agrees) (simp add: seen_agrees_def start_def)
  then have keys: "set (analyzed_keys (fst (addLiveAnalysisCoverage f u ss c))) = set (cl_seen last)"
    by (simp add: seen_agrees_def analyzed_keys_def refs)
  have grow: "set (cl_seen kept) \<subseteq> set (cl_seen last)"
    and new: "s \<in> set ss \<Longrightarrow> counts_as_final s \<Longrightarrow> segment_key s \<in> set (cl_seen last)" for s
    using cover_segment_spec [of kept f u "max_sequence ss" ss] by (auto simp: last_def)
  show "s \<in> set ss \<Longrightarrow> counts_as_final s \<Longrightarrow> segment_key s \<in> covered (fst (addLiveAnalysisCoverage f u ss c))"
    using new [of s] keys by (simp add: covered_iff counts_as_final_def)
  show ?old
  proof
    fix k assume "k \<in> covered c"
    then obtain r where r: "r \<in> set (lp_AnalyzedFinalSegments c)" "0 < snd r" "k = finalSegmentKey (fst r) (snd r)"
      by (auto simp: covered_def)
    then have "k \<in> set (cl_seen kept)"
      using keep_reference_spec [of start "lp_AnalyzedFinalSegments c"] by (auto simp: kept_def)
    then have "k \<in> set (analyzed_keys (fst (addLiveAnalysisCoverage f u ss c)))" using grow keys by auto
    then show "k \<in> covered (fst (addLiveAnalysisCoverage f u ss c))"
      using covered_iff [of "undefined\<lparr>ts_CallID := fst r, ts_SequenceNo := snd r\<rparr>"] r
      by (simp add: segment_key_def)
  qed
qed

end
