(* ===== verification/LiveScheduler.thy ===== *)
theory LiveScheduler
  imports LiveCoverage
begin

text \<open>
  The scheduler of live analyses of one meeting session: \<open>internal/application/ai_live_scheduler.go\<close>
  and the parts of \<open>internal/application/ai_analysis.go\<close> that run under the mutex of
  \<open>MeetingAnalysisService\<close> (\<open>liveAnalysisSessionState\<close> and everything that changes it for the live
  rounds, the planning of the meeting context, the finalization barrier and the recovery).

  A \<open>desk\<close> is what the service keeps for one session: the entry of \<open>sessions\<close> (created on first use),
  the armed timers, the goroutines that are under way and the durable live row.  Sessions share
  nothing but the start of the service.  What a critical section of the mutex does is one function of
  the desk; what it reads from outside (the clock, the status of the session, rows, the answer of the
  model) is an argument.  Counters are naturals (the code: 64 bit).  Tree audits, reorganization
  throttles, progress overrides, operation ids and log lines are left out.
\<close>

section \<open>Configuration\<close>

record live_config =
  lc_Enabled :: bool
  lc_LiveEnabled :: bool
  lc_LiveInterval :: duration
  lc_LiveDebounce :: duration
  lc_LiveCooldown :: duration
  lc_LiveMaxWait :: duration
  lc_LiveMinChars :: int
  lc_unicode :: unicode_classes

definition liveActive :: "live_config \<Rightarrow> bool" where
  "liveActive c \<longleftrightarrow> lc_Enabled c \<and> lc_LiveEnabled c"

definition defaultLiveAnalysisInterval :: duration where "defaultLiveAnalysisInterval = 10 * second"
definition defaultLiveAnalysisDebounce :: duration where "defaultLiveAnalysisDebounce = 2 * second"
definition defaultLiveAnalysisCooldown :: duration where "defaultLiveAnalysisCooldown = 8 * second"
definition defaultLiveAnalysisMaxWait :: duration where "defaultLiveAnalysisMaxWait = 18 * second"
definition meetingAnalysisMaxBackoff :: duration where "meetingAnalysisMaxBackoff = 5 * minute"
definition meetingAnalysisSessionGCAfter :: duration where "meetingAnalysisSessionGCAfter = 3 * hour"

definition or_else :: "duration \<Rightarrow> duration \<Rightarrow> duration" where
  "or_else d e = (if d \<le> 0 then e else d)"

text \<open>The defaults \<open>NewMeetingAnalysisService\<close> fills in.\<close>

definition live_defaults :: "live_config \<Rightarrow> live_config" where
  "live_defaults c = c\<lparr>lc_LiveInterval := or_else (lc_LiveInterval c) defaultLiveAnalysisInterval,
     lc_LiveDebounce := or_else (lc_LiveDebounce c) defaultLiveAnalysisDebounce,
     lc_LiveCooldown := or_else (lc_LiveCooldown c) defaultLiveAnalysisCooldown,
     lc_LiveMaxWait := or_else (lc_LiveMaxWait c) defaultLiveAnalysisMaxWait\<rparr>"

fun backoff_loop :: "nat \<Rightarrow> duration \<Rightarrow> duration" where
  "backoff_loop 0 b = b"
| "backoff_loop (Suc n) b =
     (if meetingAnalysisMaxBackoff \<le> b * 2 then meetingAnalysisMaxBackoff else backoff_loop n (b * 2))"

definition liveAnalysisBackoff :: "duration \<Rightarrow> nat \<Rightarrow> duration" where
  "liveAnalysisBackoff interval failureCount = backoff_loop failureCount (or_else interval defaultLiveAnalysisInterval)"

section \<open>State\<close>

datatype live_trigger =
    FinalTranscript | PeriodicTick | ContextReadyTrigger | CompletedRerun | MaxWaitTrigger
  | FinalizationFlush | ScheduledTimer | NoTrigger

datatype live_reason =
    NoReason | Debounce | SchedulerNotStarted | NoPendingFinal | AnalysisRunningReason | AlreadyScheduled
  | Cooldown | BelowMinimumInput | ContextNotReady | MeetingFinalizing | MeetingStopped | LowInformation
  | RetryBlocked | Backoff | SessionStatusLookup | MaxWaitReason | ImmediateCatchUp

datatype context_status = NoContextStatus | ContextPending | ContextReady | ContextFailed

record live_context =
  cx_Status :: context_status
  cx_Context :: "meetingContext option"
  cx_Fallback :: "meetingContext option"
  cx_Pre :: "meetingSessionPreContext option"
  cx_Ready :: bool
  cx_WaitClaimed :: bool
  cx_Version :: int
  cx_StartedAt :: gotime
  cx_CompletedAt :: gotime
  cx_LastUse :: gostring

record 'p live =
  lv_pending :: "TranscriptSegment list"
  lv_pendingChars :: int
  lv_oldestPendingFinalAt :: gotime
  lv_latestPendingFinalAt :: gotime
  lv_highestAvailableFinalSequenceNo :: int
  lv_lastCoveredSequenceNo :: int
  lv_running :: bool
  lv_runningDone :: bool
  lv_finalizing :: bool
  lv_stopped :: bool
  lv_analysisScheduled :: bool
  lv_analysisTimer :: "nat option"
  lv_scheduleGeneration :: nat
  lv_scheduledAt :: gotime
  lv_scheduledTrigger :: live_trigger
  lv_rerunRequested :: bool
  lv_coalescedTriggerCount :: nat
  lv_lastAnalysisStartedAt :: gotime
  lv_lastAnalysisCompletedAt :: gotime
  lv_lastTrigger :: live_trigger
  lv_lastDeferredReason :: live_reason
  lv_runningOldestPendingAt :: gotime
  lv_runningLatestFinalAt :: gotime
  lv_runningTargetFrom :: int
  lv_runningTargetThrough :: int
  lv_runningTrigger :: live_trigger
  lv_runningCoalesced :: nat
  lv_liveRunCounter :: nat
  lv_runningGeneration :: nat
  lv_supersededGeneration :: nat
  lv_catchUpRequested :: bool
  lv_recoveryInFlight :: bool
  lv_lastPayload :: "'p live_payload option"
  lv_lastVersion :: int
  lv_deferredUnreflected :: "deferredUnreflectedSegment list"
  lv_versionSeeded :: bool
  lv_failureCount :: nat
  lv_nextAttemptAt :: gotime
  lv_retryBlocked :: bool
  lv_lastActivityAt :: gotime
  lv_context :: live_context

definition new_context :: live_context where
  "new_context = \<lparr>cx_Status = NoContextStatus, cx_Context = None, cx_Fallback = None, cx_Pre = None,
     cx_Ready = False, cx_WaitClaimed = False, cx_Version = 0, cx_StartedAt = 0, cx_CompletedAt = 0,
     cx_LastUse = []\<rparr>"

definition new_live :: "'p live" where
  "new_live = \<lparr>lv_pending = [], lv_pendingChars = 0, lv_oldestPendingFinalAt = 0,
     lv_latestPendingFinalAt = 0, lv_highestAvailableFinalSequenceNo = 0, lv_lastCoveredSequenceNo = 0,
     lv_running = False, lv_runningDone = False, lv_finalizing = False, lv_stopped = False,
     lv_analysisScheduled = False, lv_analysisTimer = None, lv_scheduleGeneration = 0,
     lv_scheduledAt = 0, lv_scheduledTrigger = NoTrigger, lv_rerunRequested = False,
     lv_coalescedTriggerCount = 0, lv_lastAnalysisStartedAt = 0, lv_lastAnalysisCompletedAt = 0,
     lv_lastTrigger = NoTrigger, lv_lastDeferredReason = NoReason, lv_runningOldestPendingAt = 0,
     lv_runningLatestFinalAt = 0, lv_runningTargetFrom = 0, lv_runningTargetThrough = 0,
     lv_runningTrigger = NoTrigger, lv_runningCoalesced = 0, lv_liveRunCounter = 0,
     lv_runningGeneration = 0, lv_supersededGeneration = 0, lv_catchUpRequested = False,
     lv_recoveryInFlight = False, lv_lastPayload = None, lv_lastVersion = 0,
     lv_deferredUnreflected = [], lv_versionSeeded = False, lv_failureCount = 0,
     lv_nextAttemptAt = 0, lv_retryBlocked = False, lv_lastActivityAt = 0, lv_context = new_context\<rparr>"

text \<open>
  A live round is a goroutine: it reads its generation (\<open>Launched\<close>), then the previous payload
  (\<open>Named\<close>, \<open>Sealed\<close>), asks the model, checks whether it was superseded (\<open>Cleared\<close>), writes the row
  and may reorganize the tree (\<open>Written\<close>), and reports.  \<open>Failing\<close> is a failed round that has released
  the session and still has to write the failure.
\<close>

datatype 'p round_phase =
    Launched
  | Named
  | Sealed "'p live_payload option" int
  | Cleared "'p live_payload option" int "'p live_payload" "finalSegmentCoverage list"
  | Failing "'p live_payload option" int
  | Written "'p live_payload" int "finalSegmentCoverage list" int

record 'p live_round =
  rd_Segments :: "TranscriptSegment list"
  rd_Generation :: nat
  rd_Flush :: bool
  rd_Phase :: "'p round_phase"

text \<open>The goroutine of a finalization: not running, waiting for the sealed round, past the barrier with
  the stable snapshot it has read.\<close>

datatype 'p final_phase =
    NoFinalization
  | AwaitingRound
  | PastBarrier bool
  | Preparing bool "'p live_payload option" int

record 'p desk =
  dk_state :: "'p live option"
  dk_started :: bool
  dk_timers :: "(nat \<times> gotime) list"
  dk_dispatches :: "nat list"
  dk_rounds :: "'p live_round list"
  dk_planners :: nat
  dk_recovery :: "('p live_payload option \<times> int) list"
  dk_final :: "'p final_phase"
  dk_row :: "(int \<times> 'p live_payload option) option"

definition empty_desk :: "'p desk" where
  "empty_desk = \<lparr>dk_state = None, dk_started = False, dk_timers = [], dk_dispatches = [], dk_rounds = [],
     dk_planners = 0, dk_recovery = [], dk_final = NoFinalization, dk_row = None\<rparr>"

definition live_of :: "'p desk \<Rightarrow> 'p live" where
  "live_of d = (case dk_state d of None \<Rightarrow> new_live | Some l \<Rightarrow> l)"

text \<open>\<open>sessionStateLocked\<close> and an update of the entry.\<close>

definition with_live :: "('p live \<Rightarrow> 'p live) \<Rightarrow> 'p desk \<Rightarrow> 'p desk" where
  "with_live f d = d\<lparr>dk_state := Some (f (live_of d))\<rparr>"

section \<open>Pending finals\<close>

definition livePendingSegmentIdentity :: "TranscriptSegment \<Rightarrow> gostring" where
  "livePendingSegmentIdentity s =
     (if 0 < ts_SequenceNo s then segment_key s
      else if trim_space (ts_EventID s) \<noteq> [] then ''event:'' @ trim_space (ts_EventID s) else [])"

definition already_pending :: "'p live \<Rightarrow> TranscriptSegment \<Rightarrow> bool" where
  "already_pending l s \<longleftrightarrow> livePendingSegmentIdentity s \<noteq> [] \<and>
     list_ex (\<lambda>e. livePendingSegmentIdentity e = livePendingSegmentIdentity s) (lv_pending l)"

definition appendPendingLiveSegment :: "TranscriptSegment \<Rightarrow> gotime \<Rightarrow> 'p live \<Rightarrow> 'p live" where
  "appendPendingLiveSegment s arrivedAt l =
     (if already_pending l s then l
      else l\<lparr>lv_pending := lv_pending l @ [s],
             lv_oldestPendingFinalAt := (if is_zero (lv_oldestPendingFinalAt l) then arrivedAt
               else lv_oldestPendingFinalAt l),
             lv_latestPendingFinalAt := arrivedAt,
             lv_highestAvailableFinalSequenceNo := max (lv_highestAvailableFinalSequenceNo l) (ts_SequenceNo s)\<rparr>)"

definition count_chars :: "'p live \<Rightarrow> 'p live" where
  "count_chars l = l\<lparr>lv_pendingChars := sumSegmentChars (lv_pending l)\<rparr>"

definition restorePendingLiveSegments ::
    "TranscriptSegment list \<Rightarrow> gotime \<Rightarrow> gotime \<Rightarrow> 'p live \<Rightarrow> 'p live" where
  "restorePendingLiveSegments segments oldestAt restoredAt l =
     (let l1 = fold (\<lambda>s. appendPendingLiveSegment s restoredAt) segments l in
      count_chars (if \<not> is_zero oldestAt \<and>
                      (is_zero (lv_oldestPendingFinalAt l1) \<or> oldestAt < lv_oldestPendingFinalAt l1)
                   then l1\<lparr>lv_oldestPendingFinalAt := oldestAt\<rparr> else l1))"

definition requeueDeferredUnreflected :: "int \<Rightarrow> gotime \<Rightarrow> 'p live \<Rightarrow> 'p live" where
  "requeueDeferredUnreflected newSequenceNo now l =
     (if newSequenceNo \<le> 0 then l
      else fold (\<lambda>f l. if du_RetryAfterSequenceNo f < newSequenceNo
                   then appendPendingLiveSegment (du_Segment f) now l else l) (lv_deferredUnreflected l) l)"

fun liveAnalysisSequenceRange :: "TranscriptSegment list \<Rightarrow> int \<times> int \<Rightarrow> int \<times> int" where
  "liveAnalysisSequenceRange [] r = r"
| "liveAnalysisSequenceRange (s # ss) (lo, hi) =
     liveAnalysisSequenceRange ss
       (if ts_SequenceNo s \<le> 0 then (lo, hi)
        else (if lo = 0 \<or> ts_SequenceNo s < lo then ts_SequenceNo s else lo, max hi (ts_SequenceNo s)))"

section \<open>When to run\<close>

definition nextLiveAnalysisTime :: "live_config \<Rightarrow> 'p live \<Rightarrow> gotime \<Rightarrow> gotime \<times> live_reason" where
  "nextLiveAnalysisTime c l now =
     (if lv_catchUpRequested l \<or> lv_rerunRequested l \<and> lv_lastDeferredReason l = AnalysisRunningReason
      then (if \<not> is_zero (lv_nextAttemptAt l) \<and> now < lv_nextAttemptAt l then (lv_nextAttemptAt l, Backoff)
            else (now, ImmediateCatchUp))
      else
       (let (complete, high) = pendingSemanticTrigger (lv_pending l);
            base = (if is_zero (lv_latestPendingFinalAt l) then now else lv_latestPendingFinalAt l);
            maxWaitAt = lv_oldestPendingFinalAt l + lc_LiveMaxWait c;
            (t1, r1) = (if lv_pendingChars l < lc_LiveMinChars c \<and> \<not> complete
              then (maxWaitAt, BelowMinimumInput) else (base + lc_LiveDebounce c, Debounce));
            cool = lv_lastAnalysisCompletedAt l + lc_LiveCooldown c;
            (t2, r2) = (if \<not> is_zero (lv_lastAnalysisCompletedAt l) \<and> \<not> high \<and> t1 < cool
              then (cool, Cooldown) else (t1, r1));
            (t3, r3) = (if maxWaitAt < t2 then (maxWaitAt, MaxWaitReason) else (t2, r2));
            (t4, r4) = (if \<not> is_zero (lv_nextAttemptAt l) \<and> t3 < lv_nextAttemptAt l
              then (lv_nextAttemptAt l, Backoff) else (t3, r3)) in
        (max now t4, r4)))"

text \<open>Stopping the timer drops it unless it has fired already.\<close>

definition cancelLiveAnalysisTimer :: "'p desk \<Rightarrow> 'p desk" where
  "cancelLiveAnalysisTimer d =
     (let l = live_of d in
      if \<not> lv_analysisScheduled l then d
      else d\<lparr>dk_state := Some (l\<lparr>lv_analysisTimer := None, lv_analysisScheduled := False, lv_scheduledAt := 0,
               lv_scheduledTrigger := NoTrigger, lv_scheduleGeneration := Suc (lv_scheduleGeneration l)\<rparr>),
             dk_timers := (case lv_analysisTimer l of None \<Rightarrow> dk_timers d
               | Some g \<Rightarrow> filter (\<lambda>t. fst t \<noteq> g) (dk_timers d))\<rparr>)"

definition armed :: "live_trigger \<Rightarrow> gotime \<Rightarrow> live_reason \<Rightarrow> gotime \<Rightarrow> 'p desk \<Rightarrow> 'p desk" where
  "armed trigger scheduledFor reason now d =
     (let l = live_of d; g = Suc (lv_scheduleGeneration l) in
      d\<lparr>dk_state := Some (l\<lparr>lv_analysisScheduled := True, lv_scheduledAt := scheduledFor,
          lv_scheduledTrigger := trigger, lv_scheduleGeneration := g, lv_lastTrigger := trigger,
          lv_lastDeferredReason := reason, lv_analysisTimer := Some g\<rparr>),
        dk_timers := dk_timers d @ [(g, now + max 0 (time_sub scheduledFor now))]\<rparr>)"

definition deferred_for :: "live_reason \<Rightarrow> 'p desk \<Rightarrow> 'p desk" where
  "deferred_for reason = with_live (\<lambda>l. l\<lparr>lv_lastDeferredReason := reason\<rparr>)"

definition evaluateLiveAnalysisTrigger :: "live_config \<Rightarrow> live_trigger \<Rightarrow> gotime \<Rightarrow> 'p desk \<Rightarrow> 'p desk" where
  "evaluateLiveAnalysisTrigger c trigger now d =
     (if \<not> liveActive c then d
      else (let l = live_of d; d0 = with_live id d in
        if lv_stopped l \<or> lv_finalizing l \<or> lv_pending l = [] then d0
        else if lv_running l
          then with_live (\<lambda>l. l\<lparr>lv_rerunRequested := True, lv_catchUpRequested := True,
                 lv_coalescedTriggerCount := Suc (lv_coalescedTriggerCount l),
                 lv_lastDeferredReason := AnalysisRunningReason\<rparr>) d
        else if lv_retryBlocked l then deferred_for RetryBlocked d
        else if cx_Status (lv_context l) = ContextPending then deferred_for ContextNotReady d
        else if \<not> hasSubstantiveLiveAnalysisInput (lc_unicode c) (lv_pending l)
          then deferred_for LowInformation (cancelLiveAnalysisTimer d0)
        else (case nextLiveAnalysisTime c l now of (scheduledFor, reason) \<Rightarrow>
          if lv_analysisScheduled l \<and> \<not> scheduledFor < lv_scheduledAt l
          then with_live (\<lambda>l. l\<lparr>lv_coalescedTriggerCount := Suc (lv_coalescedTriggerCount l),
                 lv_lastDeferredReason := AlreadyScheduled\<rparr>) d
          else if \<not> dk_started d then deferred_for SchedulerNotStarted (cancelLiveAnalysisTimer d0)
          else armed trigger scheduledFor reason now (cancelLiveAnalysisTimer d0))))"

section \<open>Dispatch\<close>

datatype status_check = StatusAllowed | StatusRefused live_reason | StatusError

text \<open>The answer of \<open>GetMeetingSession\<close>; nothing where there is no repository.\<close>

definition liveSessionStatusAllowsAnalysis :: "MeetingSession result option \<Rightarrow> status_check" where
  "liveSessionStatusAllowsAnalysis r =
     (case r of
        None \<Rightarrow> StatusAllowed
      | Some (Inl e) \<Rightarrow> if is_not_found e then StatusAllowed else StatusError
      | Some (Inr s) \<Rightarrow>
          if ms_Status s = Ending then StatusRefused MeetingFinalizing
          else if ms_Status s \<in> {Ended, Failed, Stale} then StatusRefused MeetingStopped
          else StatusAllowed)"

definition beginLiveRun :: "live_trigger \<Rightarrow> int \<times> int \<Rightarrow> 'p live \<Rightarrow> 'p live" where
  "beginLiveRun trigger target l =
     l\<lparr>lv_liveRunCounter := Suc (lv_liveRunCounter l), lv_runningGeneration := Suc (lv_liveRunCounter l),
       lv_running := True, lv_runningDone := True, lv_runningTrigger := trigger,
       lv_runningTargetFrom := fst target, lv_runningTargetThrough := snd target\<rparr>"

definition finishLiveRun :: "nat \<Rightarrow> 'p live \<Rightarrow> 'p live" where
  "finishLiveRun generation l =
     (if generation \<noteq> 0 \<and> lv_runningGeneration l \<noteq> generation then l
      else l\<lparr>lv_running := False, lv_runningDone := False\<rparr>)"

definition new_round :: "TranscriptSegment list \<Rightarrow> bool \<Rightarrow> 'p live_round" where
  "new_round segments flush = \<lparr>rd_Segments = segments, rd_Generation = 0, rd_Flush = flush, rd_Phase = Launched\<rparr>"

definition run_trigger :: "live_config \<Rightarrow> 'p live \<Rightarrow> gotime \<Rightarrow> live_trigger" where
  "run_trigger c l now =
     (let complete = fst (pendingSemanticTrigger (lv_pending l)) in
      if lv_pendingChars l < lc_LiveMinChars c \<and> \<not> complete \<or>
         \<not> is_zero (lv_oldestPendingFinalAt l) \<and> lc_LiveMaxWait c \<le> time_sub now (lv_oldestPendingFinalAt l)
      then MaxWaitTrigger
      else if lv_scheduledTrigger l = NoTrigger then ScheduledTimer else lv_scheduledTrigger l)"

definition start_round :: "live_config \<Rightarrow> gotime \<Rightarrow> 'p desk \<Rightarrow> 'p desk" where
  "start_round c now d =
     (let l = live_of d; segments = lv_pending l; t = run_trigger c l now;
          l1 = beginLiveRun t (liveAnalysisSequenceRange segments (0, 0))
            (l\<lparr>lv_pending := [], lv_pendingChars := 0, lv_oldestPendingFinalAt := 0, lv_latestPendingFinalAt := 0\<rparr>) in
      d\<lparr>dk_state := Some (l1\<lparr>lv_rerunRequested := False, lv_catchUpRequested := False,
          lv_lastAnalysisStartedAt := now, lv_lastTrigger := t, lv_lastDeferredReason := NoReason,
          lv_runningOldestPendingAt := lv_oldestPendingFinalAt l,
          lv_runningLatestFinalAt := lv_latestPendingFinalAt l,
          lv_runningCoalesced := lv_coalescedTriggerCount l, lv_coalescedTriggerCount := 0,
          lv_scheduledTrigger := NoTrigger\<rparr>),
        dk_rounds := dk_rounds d @ [new_round segments False]\<rparr>)"

definition dispatchScheduledLiveAnalysis ::
    "live_config \<Rightarrow> nat \<Rightarrow> status_check \<Rightarrow> gotime \<Rightarrow> gotime \<Rightarrow> 'p desk \<Rightarrow> 'p desk" where
  "dispatchScheduledLiveAnalysis c generation status now later d =
     (let l = live_of d in
      if \<not> lv_analysisScheduled l \<or> lv_scheduleGeneration l \<noteq> generation then with_live id d
      else (let d1 = with_live (\<lambda>l. l\<lparr>lv_analysisScheduled := False, lv_analysisTimer := None,
                       lv_scheduledAt := 0\<rparr>) d in
        case status of
          StatusError \<Rightarrow> deferred_for SessionStatusLookup d1
        | StatusRefused reason \<Rightarrow>
            with_live (\<lambda>l. l\<lparr>lv_stopped := True, lv_lastDeferredReason := reason\<rparr>) d1
        | StatusAllowed \<Rightarrow>
            if lv_stopped l \<or> lv_finalizing l \<or> lv_pending l = [] then d1
            else if lv_running l
              then with_live (\<lambda>l. l\<lparr>lv_rerunRequested := True, lv_catchUpRequested := True\<rparr>) d1
            else if cx_Status (lv_context l) = ContextPending then deferred_for ContextNotReady d1
            else if lv_retryBlocked l then deferred_for RetryBlocked d1
            else if \<not> hasSubstantiveLiveAnalysisInput (lc_unicode c) (lv_pending l)
              then deferred_for LowInformation d1
            else (case nextLiveAnalysisTime c l now of (eligibleAt, reason) \<Rightarrow>
              if now < eligibleAt
              then evaluateLiveAnalysisTrigger c ScheduledTimer later (deferred_for reason d1)
              else start_round c now d1)))"

section \<open>Rounds\<close>

definition set_phase :: "nat \<Rightarrow> 'p round_phase \<Rightarrow> 'p desk \<Rightarrow> 'p desk" where
  "set_phase k ph d = d\<lparr>dk_rounds := (dk_rounds d)[k := (dk_rounds d ! k)\<lparr>rd_Phase := ph\<rparr>]\<rparr>"

definition drop_round :: "nat \<Rightarrow> 'p desk \<Rightarrow> 'p desk" where
  "drop_round k d = d\<lparr>dk_rounds := take k (dk_rounds d) @ drop (Suc k) (dk_rounds d)\<rparr>"

text \<open>The first critical section of \<open>runLiveAnalysis\<close>.\<close>

definition round_generation :: "nat \<Rightarrow> 'p desk \<Rightarrow> 'p desk" where
  "round_generation k d =
     (let r = dk_rounds d ! k in
      with_live id (d\<lparr>dk_rounds := (dk_rounds d)[k := r\<lparr>rd_Generation := lv_runningGeneration (live_of d),
                                                       rd_Phase := Named\<rparr>]\<rparr>))"

text \<open>\<open>seedLiveAnalysisState\<close> with the answer of the lookup (nothing: an error).\<close>

definition row_payload :: "(int \<times> 'p live_payload option) option \<Rightarrow> 'p live_payload option \<times> int" where
  "row_payload row = (case row of None \<Rightarrow> (None, 0) | Some (v, p) \<Rightarrow> (p, v))"

definition seeded_payload ::
    "bool \<Rightarrow> 'p live_payload option \<times> int \<Rightarrow> 'p desk \<Rightarrow> 'p live_payload option \<times> int" where
  "seeded_payload lookup_ok pv d =
     (let l = live_of d; found = (if snd pv = 0 \<and> fst pv = None \<and> lookup_ok \<and> dk_row d \<noteq> None
        then row_payload (dk_row d) else pv) in
      if snd found < lv_lastVersion l then (lv_lastPayload l, lv_lastVersion l) else found)"

definition seedLiveAnalysisState :: "bool \<Rightarrow> 'p live_payload option \<times> int \<Rightarrow> 'p desk \<Rightarrow> 'p desk" where
  "seedLiveAnalysisState lookup_ok pv d =
     (case seeded_payload lookup_ok pv d of (p, v) \<Rightarrow>
        with_live (\<lambda>l. l\<lparr>lv_versionSeeded := True, lv_lastPayload := p, lv_lastVersion := v,
          lv_lastCoveredSequenceNo := lp_CoveredThroughSequenceNo (previousLiveAnalysisState p)\<rparr>) d)"

definition round_seal :: "bool \<Rightarrow> nat \<Rightarrow> 'p desk \<Rightarrow> 'p desk" where
  "round_seal lookup_ok k d =
     (let l = live_of d; pv = (lv_lastPayload l, lv_lastVersion l) in
      if lv_versionSeeded l then set_phase k (Sealed (fst pv) (snd pv)) d
      else (case seeded_payload lookup_ok pv d of (p, v) \<Rightarrow>
        set_phase k (Sealed p v) (seedLiveAnalysisState lookup_ok pv d)))"

definition failed_attempt :: "live_config \<Rightarrow> gotime \<Rightarrow> 'p live \<Rightarrow> 'p live" where
  "failed_attempt c failedAt l =
     l\<lparr>lv_failureCount := Suc (lv_failureCount l),
       lv_nextAttemptAt := failedAt + liveAnalysisBackoff (lc_LiveInterval c) (Suc (lv_failureCount l))\<rparr>"

text \<open>What every failure path does first: the round is released and its segments are pending again.\<close>

definition release_round :: "'p live_round \<Rightarrow> TranscriptSegment list \<Rightarrow> gotime \<Rightarrow> 'p live \<Rightarrow> 'p live" where
  "release_round r segments failedAt l =
     (restorePendingLiveSegments segments (lv_runningOldestPendingAt l) failedAt
        (finishLiveRun (rd_Generation r) l))\<lparr>lv_lastAnalysisCompletedAt := failedAt\<rparr>"

definition round_panic :: "live_config \<Rightarrow> nat \<Rightarrow> gotime \<Rightarrow> 'p desk \<Rightarrow> 'p desk" where
  "round_panic c k now d =
     (let r = dk_rounds d ! k in
      drop_round k (with_live (\<lambda>l. failed_attempt c now (release_round r (rd_Segments r) now l)) d))"

text \<open>The critical section of \<open>handleLiveAnalysisFailure\<close>.\<close>

definition handleLiveAnalysisFailure :: "live_config \<Rightarrow> bool \<Rightarrow> nat \<Rightarrow> gotime \<Rightarrow> 'p desk \<Rightarrow> 'p desk" where
  "handleLiveAnalysisFailure c retryable k failedAt d =
     (let r = dk_rounds d ! k in
      case rd_Phase r of Sealed p v \<Rightarrow>
        set_phase k (Failing p v) (with_live (\<lambda>l.
          (let l1 = release_round r (rd_Segments r) failedAt l in
           if retryable then (failed_attempt c failedAt l1)\<lparr>lv_retryBlocked := False\<rparr>
           else l1\<lparr>lv_nextAttemptAt := 0, lv_retryBlocked := True\<rparr>)) d)
      | _ \<Rightarrow> d)"

text \<open>\<open>CompareAndSwapMeetingAIAnalysis\<close> on the live row: the new row, nothing where it is refused.\<close>

definition swap_row ::
    "int \<Rightarrow> int \<Rightarrow> 'p live_payload option \<Rightarrow> (int \<times> 'p live_payload option) option \<Rightarrow>
     (int \<times> 'p live_payload option) option" where
  "swap_row expected version payload row =
     (case row of None \<Rightarrow> (if expected = 0 then Some (version, payload) else None)
      | Some (v, p) \<Rightarrow> (if v = expected then Some (version, payload) else None))"

definition adopt_row :: "'p live_payload option \<Rightarrow> int \<Rightarrow> 'p live \<Rightarrow> 'p live" where
  "adopt_row p v l =
     (if lv_lastVersion l < v then l\<lparr>lv_lastPayload := p, lv_lastVersion := v, lv_versionSeeded := True\<rparr> else l)"

text \<open>The rest of the failure: the row is written as failed, with the previous payload and version.\<close>

definition round_write_failure :: "bool \<Rightarrow> bool \<Rightarrow> nat \<Rightarrow> 'p desk \<Rightarrow> 'p desk" where
  "round_write_failure persist_ok lookup_ok k d =
     (case rd_Phase (dk_rounds d ! k) of Failing p v \<Rightarrow>
        (let d1 = drop_round k d in
         if \<not> persist_ok then d1
         else (case swap_row v v p (dk_row d) of
             Some row \<Rightarrow> d1\<lparr>dk_row := Some row\<rparr>
           | None \<Rightarrow> (case dk_row d of
               Some (v', p') \<Rightarrow> if lookup_ok then with_live (adopt_row p' v') d1 else d1
             | None \<Rightarrow> d1)))
      | _ \<Rightarrow> d)"

definition liveRunSuperseded :: "nat \<Rightarrow> 'p live \<Rightarrow> bool" where
  "liveRunSuperseded generation l \<longleftrightarrow> generation \<noteq> 0 \<and> generation \<le> lv_supersededGeneration l"

text \<open>The answer of the model, merged: the payload keeps the coverage of the previous one and records the
  round.  A superseded round ends here.\<close>

definition round_result ::
    "(TranscriptSegment \<Rightarrow> gostring \<times> bool) \<Rightarrow> gostring \<Rightarrow> 'p \<Rightarrow> nat \<Rightarrow> 'p desk \<Rightarrow> 'p desk" where
  "round_result classify reason rest k d =
     (let r = dk_rounds d ! k in
      case rd_Phase r of Sealed p v \<Rightarrow>
        if liveRunSuperseded (rd_Generation r) (live_of d)
        then drop_round k (with_live (finishLiveRun (rd_Generation r)) d)
        else (case addLiveAnalysisCoverage classify reason (rd_Segments r) (previousLiveAnalysisState p) of
            (cov, decisions) \<Rightarrow> set_phase k (Cleared p v (cov, rest) decisions) (with_live id d))
      | _ \<Rightarrow> d)"

definition handleStaleLiveAnalysisResult :: "bool \<Rightarrow> nat \<Rightarrow> gotime \<Rightarrow> 'p desk \<Rightarrow> 'p desk" where
  "handleStaleLiveAnalysisResult lookup_ok k now d =
     (let r = dk_rounds d ! k; current = (if lookup_ok then dk_row d else None);
          remaining = (case current of None \<Rightarrow> rd_Segments r
            | Some (v, p) \<Rightarrow> filterAlreadyAnalyzedSegments (rd_Segments r) (previousLiveAnalysisState p)) in
      drop_round k (with_live (\<lambda>l.
        (let l1 = (release_round r remaining now l)\<lparr>lv_nextAttemptAt := 0\<rparr> in
         case current of
           Some (v, p) \<Rightarrow>
             if lv_lastVersion l1 < v
             then l1\<lparr>lv_lastPayload := p, lv_lastVersion := v, lv_versionSeeded := True,
                     lv_lastCoveredSequenceNo := lp_CoveredThroughSequenceNo (previousLiveAnalysisState p)\<rparr>
             else l1
         | None \<Rightarrow> l1)) d))"

text \<open>The row is written at the next version, unless it has moved on.\<close>

definition round_persist :: "live_config \<Rightarrow> bool \<Rightarrow> bool \<Rightarrow> nat \<Rightarrow> gotime \<Rightarrow> 'p desk \<Rightarrow> 'p desk" where
  "round_persist c persist_ok lookup_ok k now d =
     (case rd_Phase (dk_rounds d ! k) of Cleared p v payload decisions \<Rightarrow>
        if \<not> persist_ok then round_panic c k now d
        else (case swap_row v (v + 1) (Some payload) (dk_row d) of
            Some row \<Rightarrow> (set_phase k (Written payload (v + 1) decisions
                (lp_CoveredThroughSequenceNo (fst payload))) d)\<lparr>dk_row := Some row\<rparr>
          | None \<Rightarrow> handleStaleLiveAnalysisResult lookup_ok k now d)
      | _ \<Rightarrow> d)"

text \<open>The reorganization of \<open>maybeReorganizeLiveTree\<close>, where it produced a changed tree.\<close>

definition round_reorganize :: "bool \<Rightarrow> bool \<Rightarrow> 'p \<Rightarrow> nat \<Rightarrow> 'p desk \<Rightarrow> 'p desk" where
  "round_reorganize persist_ok lookup_ok rest k d =
     (case rd_Phase (dk_rounds d ! k) of Written payload v decisions through \<Rightarrow>
        if \<not> persist_ok then d
        else (case swap_row v (v + 1) (Some (fst payload, rest)) (dk_row d) of
            Some row \<Rightarrow> (set_phase k (Written (fst payload, rest) (v + 1) decisions through) d)\<lparr>dk_row := Some row\<rparr>
          | None \<Rightarrow> (case dk_row d of
              Some (v', Some p') \<Rightarrow>
                if lookup_ok \<and> v < v' then set_phase k (Written p' v' decisions through) d else d
            | _ \<Rightarrow> d))
      | _ \<Rightarrow> d)"

definition round_finish :: "nat \<Rightarrow> gotime \<Rightarrow> 'p desk \<Rightarrow> 'p desk" where
  "round_finish k now d =
     (let r = dk_rounds d ! k in
      case rd_Phase r of Written payload v decisions through \<Rightarrow>
        drop_round k (with_live (\<lambda>l.
          (let l1 = finishLiveRun (rd_Generation r) l;
               rest = removeCoveredSegments (lv_pending l1) (rd_Segments r) in
           l1\<lparr>lv_lastPayload := Some payload, lv_lastVersion := v, lv_lastCoveredSequenceNo := through,
              lv_deferredUnreflected := deferredUnreflectedFromCoverage (rd_Segments r) decisions,
              lv_pending := rest, lv_pendingChars := sumSegmentChars rest,
              lv_oldestPendingFinalAt := (if rest = [] then 0 else lv_oldestPendingFinalAt l1),
              lv_latestPendingFinalAt := (if rest = [] then 0 else lv_latestPendingFinalAt l1),
              lv_failureCount := 0, lv_nextAttemptAt := 0, lv_retryBlocked := False,
              lv_lastAnalysisCompletedAt := now, lv_rerunRequested := False\<rparr>)) d)
      | _ \<Rightarrow> d)"

section \<open>Context planning\<close>

definition ensureMeetingContextPlanning ::
    "live_config \<Rightarrow> meetingSessionPreContext option \<Rightarrow> gotime \<Rightarrow> 'p desk \<Rightarrow> 'p desk" where
  "ensureMeetingContextPlanning c pre now d =
     (if \<not> lc_Enabled c then d
      else (let x0 = lv_context (live_of d);
                x1 = (if cx_Pre x0 = None \<and> pre \<noteq> None then x0\<lparr>cx_Pre := pre\<rparr> else x0);
                x2 = (if cx_Fallback x1 = None \<and> pre \<noteq> None then x1\<lparr>cx_Fallback := buildMeetingContext pre\<rparr> else x1) in
        if cx_Status x2 \<noteq> NoContextStatus then with_live (\<lambda>l. l\<lparr>lv_context := x2\<rparr>) d
        else (with_live (\<lambda>l. l\<lparr>lv_context :=
                 x2\<lparr>cx_Status := ContextPending, cx_Ready := True, cx_StartedAt := now\<rparr>\<rparr>) d)
             \<lparr>dk_planners := Suc (dk_planners d)\<rparr>))"

text \<open>The critical section of \<open>planMeetingContext\<close> that keeps the deterministic context.\<close>

definition keep_fallback :: "meetingContext option \<Rightarrow> 'p desk \<Rightarrow> 'p desk" where
  "keep_fallback deterministic d =
     (if dk_planners d = 0 then d
      else with_live (\<lambda>l. let x = lv_context l in
        if cx_Fallback x = None then l\<lparr>lv_context := x\<lparr>cx_Fallback := deterministic\<rparr>\<rparr> else l) d)"

text \<open>\<open>completeMeetingContextPlanning\<close>, the end of a planner, without the evaluation that follows.\<close>

definition completeMeetingContextPlanning ::
    "meetingContext option \<Rightarrow> bool \<Rightarrow> int \<Rightarrow> gotime \<Rightarrow> 'p desk \<Rightarrow> 'p desk" where
  "completeMeetingContextPlanning resolved ready version completed d =
     (if dk_planners d = 0 then d
      else (with_live (\<lambda>l. let x = lv_context l in
          if cx_Status x \<noteq> ContextPending then l
          else l\<lparr>lv_context := x\<lparr>cx_Context := resolved,
                 cx_Status := (if ready then ContextReady else ContextFailed), cx_Version := version,
                 cx_CompletedAt := completed, cx_Ready := False\<rparr>\<rparr>) d)
        \<lparr>dk_planners := dk_planners d - 1\<rparr>)"

text \<open>\<open>sessionMeetingContext\<close>: the first round claims the wait; what a round uses afterwards.\<close>

definition claim_context_wait :: "'p desk \<Rightarrow> bool \<times> 'p desk" where
  "claim_context_wait d =
     (let x = lv_context (live_of d); wait = cx_Status x = ContextPending \<and> \<not> cx_WaitClaimed x in
      (wait \<and> cx_Ready x,
       with_live (\<lambda>l. if wait then l\<lparr>lv_context := x\<lparr>cx_WaitClaimed := True\<rparr>\<rparr> else l) d))"

fun context_status_text :: "context_status \<Rightarrow> gostring" where
  "context_status_text NoContextStatus = []"
| "context_status_text ContextPending = ''fallback''"
| "context_status_text ContextReady = ''ready''"
| "context_status_text ContextFailed = ''failed''"

definition used_context :: "meetingContext option \<Rightarrow> live_context \<Rightarrow> meetingContext option" where
  "used_context fallback x =
     (let resolved = (if cx_Status x = ContextReady then cx_Context x else cx_Fallback x) in
      if resolved = None then fallback else resolved)"

definition note_context_use :: "'p desk \<Rightarrow> 'p desk" where
  "note_context_use = with_live (\<lambda>l. l\<lparr>lv_context :=
     (lv_context l)\<lparr>cx_LastUse := context_status_text (cx_Status (lv_context l))\<rparr>\<rparr>)"

section \<open>Entry points\<close>

text \<open>\<open>PublishTranscriptSegment\<close>: the buffering, then the planning and the evaluation.\<close>

definition accepts_final :: "live_config \<Rightarrow> TranscriptSegment \<Rightarrow> bool" where
  "accepts_final c s \<longleftrightarrow> liveActive c \<and> ts_IsFinal s \<and> trim_space (ts_SessionID s) \<noteq> [] \<and> trim_space (ts_Text s) \<noteq> []"

definition buffer_final :: "live_config \<Rightarrow> TranscriptSegment \<Rightarrow> gotime \<Rightarrow> 'p desk \<Rightarrow> 'p desk" where
  "buffer_final c s now d =
     (if \<not> accepts_final c s then d
      else with_live (\<lambda>l.
        (let l1 = count_chars (appendPendingLiveSegment s now (requeueDeferredUnreflected (ts_SequenceNo s) now l));
             l2 = l1\<lparr>lv_retryBlocked := False, lv_lastActivityAt := now\<rparr> in
         if lv_running l2 then l2\<lparr>lv_rerunRequested := True, lv_catchUpRequested := True\<rparr> else l2)) d)"

definition PublishTranscriptSegment ::
    "live_config \<Rightarrow> TranscriptSegment \<Rightarrow> gotime \<Rightarrow> gotime \<Rightarrow> gotime \<Rightarrow> 'p desk \<Rightarrow> 'p desk" where
  "PublishTranscriptSegment c s t1 t2 t3 d =
     (if \<not> accepts_final c s then d
      else evaluateLiveAnalysisTrigger c FinalTranscript t3
             (ensureMeetingContextPlanning c None t2 (buffer_final c s t1 d)))"

text \<open>\<open>recoverDurablePendingFinals\<close>: it begins, seeds, and adds the stored finals that no payload covers.\<close>

definition recovery_begin :: "live_config \<Rightarrow> 'p desk \<Rightarrow> 'p desk" where
  "recovery_begin c d =
     (let l = live_of d in
      if \<not> liveActive c then d
      else if lv_recoveryInFlight l \<or> lv_finalizing l \<or> lv_stopped l then with_live id d
      else (with_live (\<lambda>l. l\<lparr>lv_recoveryInFlight := True\<rparr>) d)
             \<lparr>dk_recovery := dk_recovery d @ [(lv_lastPayload l, lv_lastVersion l)]\<rparr>)"

definition recovery_seed :: "bool \<Rightarrow> nat \<Rightarrow> 'p desk \<Rightarrow> 'p desk" where
  "recovery_seed lookup_ok k d =
     (if length (dk_recovery d) \<le> k then d
      else (let pv = dk_recovery d ! k in
        (seedLiveAnalysisState lookup_ok pv d)
          \<lparr>dk_recovery := (dk_recovery d)[k := seeded_payload lookup_ok pv d]\<rparr>))"

definition arrival :: "gotime \<Rightarrow> TranscriptSegment \<Rightarrow> gotime" where
  "arrival now s =
     (let a = (if is_zero (ts_ReceivedAtUTC s) then ts_RecognizedAtUTC s else ts_ReceivedAtUTC s) in
      if is_zero a \<or> now < a then now else a)"

definition recoverable :: "'p live \<Rightarrow> TranscriptSegment \<Rightarrow> bool" where
  "recoverable l s \<longleftrightarrow> counts_as_final s \<and>
     \<not> (lv_running l \<and> lv_runningTargetFrom l \<le> ts_SequenceNo s \<and> ts_SequenceNo s \<le> lv_runningTargetThrough l)"

definition recover_segment :: "gotime \<Rightarrow> TranscriptSegment \<Rightarrow> 'p live \<Rightarrow> 'p live" where
  "recover_segment now s l =
     (if recoverable l s \<and> \<not> already_pending l s
      then (appendPendingLiveSegment s (arrival now s) l)\<lparr>lv_retryBlocked := False\<rparr> else l)"

definition recovery_finish ::
    "TranscriptSegment list option \<Rightarrow> nat \<Rightarrow> gotime \<Rightarrow> 'p desk \<Rightarrow> 'p desk" where
  "recovery_finish listed k now d =
     (if length (dk_recovery d) \<le> k then d
      else (let (p, v) = dk_recovery d ! k;
                d1 = d\<lparr>dk_recovery := take k (dk_recovery d) @ drop (Suc k) (dk_recovery d)\<rparr> in
        with_live (\<lambda>l0.
          (let l = l0\<lparr>lv_recoveryInFlight := False\<rparr> in
           case listed of
             None \<Rightarrow> l
           | Some segments \<Rightarrow>
               if lv_finalizing l \<or> lv_stopped l then l
               else (let l1 = (if lv_lastVersion l < v then l\<lparr>lv_lastPayload := p, lv_lastVersion := v\<rparr> else l);
                         payload = (case lv_lastPayload l1 of None \<Rightarrow> p | Some x \<Rightarrow> Some x);
                         cov = previousLiveAnalysisState payload;
                         l2 = l1\<lparr>lv_lastCoveredSequenceNo := lp_CoveredThroughSequenceNo cov\<rparr> in
                 (count_chars (fold (recover_segment now) (filterAlreadyAnalyzedSegments segments cov) l2))
                   \<lparr>lv_lastActivityAt := now\<rparr>))) d1))"

text \<open>The part of \<open>tick\<close> that drops a session nobody has used for long.\<close>

definition tick_session :: "gotime \<Rightarrow> 'p desk \<Rightarrow> 'p desk" where
  "tick_session now d =
     (case dk_state d of None \<Rightarrow> d\<lparr>dk_started := True\<rparr>
      | Some l \<Rightarrow>
          if meetingAnalysisSessionGCAfter < time_sub now (lv_lastActivityAt l)
          then (cancelLiveAnalysisTimer d)\<lparr>dk_state := None, dk_started := True\<rparr>
          else d\<lparr>dk_started := True\<rparr>)"

definition close_session :: "'p desk \<Rightarrow> 'p desk" where
  "close_session d =
     (case dk_state d of None \<Rightarrow> d
      | Some l \<Rightarrow> cancelLiveAnalysisTimer (with_live (\<lambda>l. l\<lparr>lv_stopped := True\<rparr>) d))"

section \<open>Finalization\<close>

definition final_begin :: "'p desk \<Rightarrow> 'p desk" where
  "final_begin d =
     (case dk_final d of NoFinalization \<Rightarrow>
        (let d1 = with_live (\<lambda>l. l\<lparr>lv_finalizing := True\<rparr>) (cancelLiveAnalysisTimer d) in
         d1\<lparr>dk_final := (if lv_runningDone (live_of d1) then AwaitingRound else PastBarrier False)\<rparr>)
      | _ \<Rightarrow> d)"

text \<open>The channel of the sealed round is closed; or the wait timed out, which supersedes the round.\<close>

definition final_released :: "'p desk \<Rightarrow> 'p desk" where
  "final_released d =
     (case dk_final d of AwaitingRound \<Rightarrow>
        if lv_runningDone (live_of d) then d else d\<lparr>dk_final := PastBarrier False\<rparr>
      | _ \<Rightarrow> d)"

definition final_timeout :: "'p desk \<Rightarrow> 'p desk" where
  "final_timeout d =
     (case dk_final d of AwaitingRound \<Rightarrow>
        (with_live (\<lambda>l. l\<lparr>lv_supersededGeneration := max (lv_supersededGeneration l) (lv_runningGeneration l)\<rparr>) d)
          \<lparr>dk_final := PastBarrier True\<rparr>
      | _ \<Rightarrow> d)"

definition latestStableLiveSnapshot ::
    "bool \<Rightarrow> bool \<Rightarrow> 'p desk \<Rightarrow> ('p live_payload option \<times> int \<times> bool) \<times> 'p desk" where
  "latestStableLiveSnapshot lookup_ok preferPersisted d =
     (let l = live_of d; (p, v) = (if lookup_ok then row_payload (dk_row d) else (None, 0)) in
      if p \<noteq> None \<and> (lv_lastPayload l = None \<or> preferPersisted \<or> lv_lastVersion l \<le> v)
      then ((p, v, lv_lastPayload l = None \<or> v \<noteq> lv_lastVersion l),
            with_live (\<lambda>l. l\<lparr>lv_lastPayload := p, lv_lastVersion := v, lv_versionSeeded := True\<rparr>) d)
      else ((lv_lastPayload l, lv_lastVersion l, False), with_live id d))"

definition final_snapshot :: "bool \<Rightarrow> 'p desk \<Rightarrow> 'p desk" where
  "final_snapshot lookup_ok d =
     (case dk_final d of
        PastBarrier timedOut \<Rightarrow>
          (case latestStableLiveSnapshot lookup_ok timedOut d of ((p, v, _), d1) \<Rightarrow>
             d1\<lparr>dk_final := Preparing timedOut p v\<rparr>)
      | Preparing timedOut p v \<Rightarrow>
          (case latestStableLiveSnapshot lookup_ok timedOut d of ((p', v', _), d1) \<Rightarrow>
             if p' \<noteq> None \<and> v \<le> v' then d1\<lparr>dk_final := Preparing timedOut p' v'\<rparr> else d1)
      | _ \<Rightarrow> d)"

text \<open>One attempt to flush the stored finals the snapshot does not cover; attempts run one after another.\<close>

definition flush_segments :: "TranscriptSegment list \<Rightarrow> live_coverage \<Rightarrow> TranscriptSegment list" where
  "flush_segments listed cov =
     filter (\<lambda>s. 0 < ts_SequenceNo s \<and> segment_key s \<notin> set (analyzed_keys cov))
       (map (\<lambda>s. s\<lparr>ts_IsFinal := True\<rparr>) listed)"

definition final_flush :: "live_config \<Rightarrow> TranscriptSegment list \<Rightarrow> gotime \<Rightarrow> 'p desk \<Rightarrow> 'p desk" where
  "final_flush c listed now d =
     (case dk_final d of Preparing timedOut p v \<Rightarrow>
        (let pending = flush_segments listed (previousLiveAnalysisState p) in
         if pending = [] \<or> \<not> liveActive c \<or> list_ex rd_Flush (dk_rounds d) then d
         else (with_live (\<lambda>l.
             (let l1 = beginLiveRun FinalizationFlush (liveAnalysisSequenceRange pending (0, 0)) l in
              l1\<lparr>lv_lastAnalysisStartedAt := now,
                 lv_runningOldestPendingAt := (if is_zero (lv_oldestPendingFinalAt l) then now
                   else lv_oldestPendingFinalAt l),
                 lv_runningLatestFinalAt := lv_latestPendingFinalAt l\<rparr>)) d)
           \<lparr>dk_rounds := dk_rounds d @ [new_round pending True]\<rparr>)
      | _ \<Rightarrow> d)"

text \<open>\<open>persistFinalizedLiveProjection\<close> with the reviewed tree: the row is written at the version of the
  snapshot, whatever it is by then.\<close>

definition final_refresh :: "'p \<Rightarrow> 'p desk \<Rightarrow> 'p desk" where
  "final_refresh rest d =
     (case dk_final d of Preparing timedOut (Some p) v \<Rightarrow>
        (with_live (\<lambda>l. l\<lparr>lv_lastPayload := Some (fst p, rest), lv_lastVersion := v\<rparr>) d)
          \<lparr>dk_row := Some (v, Some (fst p, rest)), dk_final := Preparing timedOut (Some (fst p, rest)) v\<rparr>
      | _ \<Rightarrow> d)"

definition finishFinalizing :: "'p desk \<Rightarrow> 'p desk" where
  "finishFinalizing d =
     (case dk_final d of NoFinalization \<Rightarrow> d
      | _ \<Rightarrow> (cancelLiveAnalysisTimer (with_live (\<lambda>l. l\<lparr>lv_finalizing := False, lv_stopped := True\<rparr>) d))
               \<lparr>dk_final := NoFinalization\<rparr>)"

section \<open>Steps\<close>

text \<open>
  Everything that can happen to a desk, one critical section (or one access to the row) at a time, in
  any order: a goroutine of the service is a sequence of these steps, and the evaluation that ends an
  operation is a step of its own.  A step whose goroutine does not exist does nothing.
\<close>

datatype 'p live_action =
    DoStart
  | DoBuffer TranscriptSegment gotime
  | DoPlan "meetingSessionPreContext option" gotime
  | DoKeepFallback "meetingContext option"
  | DoPlanned "meetingContext option" bool int gotime
  | DoEvaluate live_trigger gotime
  | DoFire nat gotime
  | DoDispatch nat "MeetingSession result option" gotime gotime
  | DoGeneration nat
  | DoSeal bool nat
  | DoClaimContext
  | DoUseContext
  | DoResult "TranscriptSegment \<Rightarrow> gostring \<times> bool" gostring 'p nat
  | DoFail bool nat gotime
  | DoWriteFailure bool bool nat
  | DoPersist bool bool nat gotime
  | DoReorganize bool bool 'p nat
  | DoFinish nat gotime
  | DoPanic nat gotime
  | DoAudit 'p
  | DoRecover
  | DoRecoverSeed bool nat
  | DoRecovered "TranscriptSegment list option" nat gotime
  | DoTick gotime
  | DoClose
  | DoFinalBegin
  | DoFinalReleased
  | DoFinalTimeout
  | DoFinalSnapshot bool
  | DoFinalFlush "TranscriptSegment list" gotime
  | DoFinalRefresh 'p
  | DoFinalEnd

definition fire_timer :: "nat \<Rightarrow> gotime \<Rightarrow> 'p desk \<Rightarrow> 'p desk" where
  "fire_timer g now d =
     (if list_ex (\<lambda>t. fst t = g \<and> snd t \<le> now) (dk_timers d)
      then d\<lparr>dk_timers := filter (\<lambda>t. fst t \<noteq> g) (dk_timers d), dk_dispatches := dk_dispatches d @ [g]\<rparr>
      else d)"

definition run_dispatch ::
    "live_config \<Rightarrow> nat \<Rightarrow> MeetingSession result option \<Rightarrow> gotime \<Rightarrow> gotime \<Rightarrow> 'p desk \<Rightarrow> 'p desk" where
  "run_dispatch c g answer now later d =
     (if g \<notin> set (dk_dispatches d) then d
      else dispatchScheduledLiveAnalysis c g (liveSessionStatusAllowsAnalysis answer) now later
             (d\<lparr>dk_dispatches := remove1 g (dk_dispatches d)\<rparr>))"

definition on_round :: "nat \<Rightarrow> ('p round_phase \<Rightarrow> bool) \<Rightarrow> ('p desk \<Rightarrow> 'p desk) \<Rightarrow> 'p desk \<Rightarrow> 'p desk" where
  "on_round k P f d =
     (if k < length (dk_rounds d) \<and> P (rd_Phase (dk_rounds d ! k)) then f d else d)"

text \<open>A tree audit that is applied writes the row at its next version with the same coverage.\<close>

definition audit_applied :: "'p \<Rightarrow> 'p desk \<Rightarrow> 'p desk" where
  "audit_applied rest d =
     (case dk_row d of Some (v, Some p) \<Rightarrow> d\<lparr>dk_row := Some (v + 1, Some (fst p, rest))\<rparr> | _ \<Rightarrow> d)"

fun live_do :: "live_config \<Rightarrow> 'p live_action \<Rightarrow> 'p desk \<Rightarrow> 'p desk" where
  "live_do c DoStart d = d\<lparr>dk_started := True\<rparr>"
| "live_do c (DoBuffer s now) d = buffer_final c s now d"
| "live_do c (DoPlan pre now) d = ensureMeetingContextPlanning c pre now d"
| "live_do c (DoKeepFallback m) d = keep_fallback m d"
| "live_do c (DoPlanned r ok v now) d = completeMeetingContextPlanning r ok v now d"
| "live_do c (DoEvaluate t now) d = evaluateLiveAnalysisTrigger c t now d"
| "live_do c (DoFire g now) d = fire_timer g now d"
| "live_do c (DoDispatch g a now later) d = run_dispatch c g a now later d"
| "live_do c (DoGeneration k) d = on_round k (\<lambda>ph. ph = Launched) (round_generation k) d"
| "live_do c (DoSeal ok k) d = on_round k (\<lambda>ph. ph = Named) (round_seal ok k) d"
| "live_do c DoClaimContext d = snd (claim_context_wait d)"
| "live_do c DoUseContext d = note_context_use d"
| "live_do c (DoResult f why rest k) d = on_round k (\<lambda>ph. True) (round_result f why rest k) d"
| "live_do c (DoFail retry k now) d = on_round k (\<lambda>ph. True) (handleLiveAnalysisFailure c retry k now) d"
| "live_do c (DoWriteFailure ok1 ok2 k) d = on_round k (\<lambda>ph. True) (round_write_failure ok1 ok2 k) d"
| "live_do c (DoPersist ok1 ok2 k now) d = on_round k (\<lambda>ph. True) (round_persist c ok1 ok2 k now) d"
| "live_do c (DoReorganize ok1 ok2 rest k) d = on_round k (\<lambda>ph. True) (round_reorganize ok1 ok2 rest k) d"
| "live_do c (DoFinish k now) d = on_round k (\<lambda>ph. True) (round_finish k now) d"
| "live_do c (DoPanic k now) d = on_round k (\<lambda>ph. ph \<noteq> Launched) (round_panic c k now) d"
| "live_do c (DoAudit rest) d = audit_applied rest d"
| "live_do c DoRecover d = recovery_begin c d"
| "live_do c (DoRecoverSeed ok k) d = recovery_seed ok k d"
| "live_do c (DoRecovered listed k now) d = recovery_finish listed k now d"
| "live_do c (DoTick now) d = tick_session now d"
| "live_do c DoClose d = close_session d"
| "live_do c DoFinalBegin d = final_begin d"
| "live_do c DoFinalReleased d = final_released d"
| "live_do c DoFinalTimeout d = final_timeout d"
| "live_do c (DoFinalSnapshot ok) d = final_snapshot ok d"
| "live_do c (DoFinalFlush listed now) d = final_flush c listed now d"
| "live_do c (DoFinalRefresh rest) d = final_refresh rest d"
| "live_do c DoFinalEnd d = finishFinalizing d"

fun live_run :: "live_config \<Rightarrow> 'p live_action list \<Rightarrow> 'p desk \<Rightarrow> 'p desk" where
  "live_run c [] d = d"
| "live_run c (a # as) d = live_run c as (live_do c a d)"

lemma live_run_append: "live_run c (as @ bs) d = live_run c bs (live_run c as d)"
  by (induction as arbitrary: d) simp_all

text \<open>An operation is a run of its critical sections.\<close>

lemma PublishTranscriptSegment_run:
  "PublishTranscriptSegment c s t1 t2 t3 d =
     (if accepts_final c s
      then live_run c [DoBuffer s t1, DoPlan None t2, DoEvaluate FinalTranscript t3] d else d)"
  by (simp add: PublishTranscriptSegment_def)

end
