(* ===== verification/LiveFacts.thy ===== *)
theory LiveFacts
  imports LiveScheduler
begin

text \<open>Facts about the operations of \<open>LiveScheduler\<close> the properties rest on: what each leaves alone.\<close>

section \<open>The entry of a desk\<close>

lemma live_of_with_live [simp]: "live_of (with_live f d) = f (live_of d)"
  by (simp add: live_of_def with_live_def)

lemma live_of_put [simp]: "live_of (d\<lparr>dk_state := Some l\<rparr>) = l"
  by (simp add: live_of_def)

lemma live_of_frame [simp]:
  "live_of (d\<lparr>dk_timers := a\<rparr>) = live_of d" "live_of (d\<lparr>dk_dispatches := b\<rparr>) = live_of d"
  "live_of (d\<lparr>dk_rounds := e\<rparr>) = live_of d" "live_of (d\<lparr>dk_planners := p\<rparr>) = live_of d"
  "live_of (d\<lparr>dk_recovery := r\<rparr>) = live_of d" "live_of (d\<lparr>dk_final := f\<rparr>) = live_of d"
  "live_of (d\<lparr>dk_row := w\<rparr>) = live_of d" "live_of (d\<lparr>dk_started := s\<rparr>) = live_of d"
  by (simp_all add: live_of_def)

lemma with_live_frame [simp]:
  "dk_timers (with_live f d) = dk_timers d" "dk_dispatches (with_live f d) = dk_dispatches d"
  "dk_rounds (with_live f d) = dk_rounds d" "dk_planners (with_live f d) = dk_planners d"
  "dk_recovery (with_live f d) = dk_recovery d" "dk_final (with_live f d) = dk_final d"
  "dk_row (with_live f d) = dk_row d" "dk_started (with_live f d) = dk_started d"
  by (simp_all add: with_live_def)

lemma live_of_new [simp]: "live_of (d\<lparr>dk_state := None\<rparr>) = new_live"
  by (simp add: live_of_def)

lemma round_frame [simp]:
  "live_of (set_phase k ph d) = live_of d" "live_of (drop_round k d) = live_of d"
  "dk_timers (set_phase k ph d) = dk_timers d" "dk_timers (drop_round k d) = dk_timers d"
  "dk_dispatches (set_phase k ph d) = dk_dispatches d" "dk_dispatches (drop_round k d) = dk_dispatches d"
  "dk_row (set_phase k ph d) = dk_row d" "dk_row (drop_round k d) = dk_row d"
  "dk_recovery (set_phase k ph d) = dk_recovery d" "dk_recovery (drop_round k d) = dk_recovery d"
  "dk_final (set_phase k ph d) = dk_final d" "dk_final (drop_round k d) = dk_final d"
  "dk_started (set_phase k ph d) = dk_started d" "dk_started (drop_round k d) = dk_started d"
  by (simp_all add: set_phase_def drop_round_def)

section \<open>What the operations on pending finals leave alone\<close>

text \<open>Everything but the pending finals, their times and the highest sequence number.\<close>

definition same_but_pending :: "'p live \<Rightarrow> 'p live \<Rightarrow> bool" where
  "same_but_pending l l' \<longleftrightarrow>
     (\<exists>p n o1 o2 h. l' = l\<lparr>lv_pending := p, lv_pendingChars := n, lv_oldestPendingFinalAt := o1,
        lv_latestPendingFinalAt := o2, lv_highestAvailableFinalSequenceNo := h\<rparr>)"

lemma same_but_pending_refl [simp]: "same_but_pending l l"
  unfolding same_but_pending_def
  by (rule exI [of _ "lv_pending l"], rule exI [of _ "lv_pendingChars l"], rule exI [of _ "lv_oldestPendingFinalAt l"],
      rule exI [of _ "lv_latestPendingFinalAt l"], rule exI [of _ "lv_highestAvailableFinalSequenceNo l"]) simp

lemma same_but_pending_trans: "same_but_pending a b \<Longrightarrow> same_but_pending b c \<Longrightarrow> same_but_pending a c"
  unfolding same_but_pending_def by force

lemma same_but_pending_D:
  assumes "same_but_pending l l'"
  shows "lv_running l' = lv_running l" "lv_runningDone l' = lv_runningDone l"
    "lv_runningGeneration l' = lv_runningGeneration l" "lv_liveRunCounter l' = lv_liveRunCounter l"
    "lv_supersededGeneration l' = lv_supersededGeneration l"
    "lv_analysisScheduled l' = lv_analysisScheduled l" "lv_analysisTimer l' = lv_analysisTimer l"
    "lv_scheduleGeneration l' = lv_scheduleGeneration l" "lv_lastPayload l' = lv_lastPayload l"
    "lv_lastVersion l' = lv_lastVersion l" "lv_finalizing l' = lv_finalizing l"
    "lv_stopped l' = lv_stopped l" "lv_deferredUnreflected l' = lv_deferredUnreflected l"
    "lv_retryBlocked l' = lv_retryBlocked l" "lv_context l' = lv_context l"
    "lv_scheduledAt l' = lv_scheduledAt l" "lv_versionSeeded l' = lv_versionSeeded l"
  using assms by (auto simp: same_but_pending_def)

lemma same_append [simp]: "same_but_pending l (appendPendingLiveSegment s t l)"
proof (cases "already_pending l s")
  case False
  show ?thesis
    unfolding same_but_pending_def
    by (rule exI [of _ "lv_pending l @ [s]"], rule exI [of _ "lv_pendingChars l"],
        rule exI [of _ "if is_zero (lv_oldestPendingFinalAt l) then t else lv_oldestPendingFinalAt l"],
        rule exI [of _ t], rule exI [of _ "max (lv_highestAvailableFinalSequenceNo l) (ts_SequenceNo s)"])
      (simp add: appendPendingLiveSegment_def False)
qed (simp add: appendPendingLiveSegment_def)

lemma same_fold:
  assumes "\<And>x l. same_but_pending l (f x l)" shows "same_but_pending l (fold f xs l)"
  by (induction xs arbitrary: l) (auto intro: same_but_pending_trans [OF assms])

lemma same_count [simp]: "same_but_pending l (count_chars l)"
  unfolding same_but_pending_def
  by (rule exI [of _ "lv_pending l"], rule exI [of _ "sumSegmentChars (lv_pending l)"],
      rule exI [of _ "lv_oldestPendingFinalAt l"], rule exI [of _ "lv_latestPendingFinalAt l"],
      rule exI [of _ "lv_highestAvailableFinalSequenceNo l"]) (simp add: count_chars_def)

lemma same_oldest [simp]: "same_but_pending l (l\<lparr>lv_oldestPendingFinalAt := t\<rparr>)"
  unfolding same_but_pending_def
  by (rule exI [of _ "lv_pending l"], rule exI [of _ "lv_pendingChars l"], rule exI [of _ t],
      rule exI [of _ "lv_latestPendingFinalAt l"], rule exI [of _ "lv_highestAvailableFinalSequenceNo l"]) simp

lemma same_restore [simp]: "same_but_pending l (restorePendingLiveSegments ss a b l)"
proof -
  let ?l = "fold (\<lambda>s. appendPendingLiveSegment s b) ss l"
  have "same_but_pending l ?l" by (rule same_fold) simp
  then show ?thesis
    unfolding restorePendingLiveSegments_def Let_def
    by (auto intro: same_but_pending_trans same_but_pending_trans [OF same_oldest same_count])
qed

lemma same_requeue [simp]: "same_but_pending l (requeueDeferredUnreflected n t l)"
  unfolding requeueDeferredUnreflected_def by (auto intro!: same_fold)

section \<open>Keys of pending finals\<close>

definition pending_keys :: "'p live \<Rightarrow> gostring set" where
  "pending_keys l = segment_key ` {s \<in> set (lv_pending l). 0 < ts_SequenceNo s}"

lemma event_identity_differs: "0 < ts_SequenceNo s \<Longrightarrow> livePendingSegmentIdentity s = segment_key s"
  by (simp add: livePendingSegmentIdentity_def)

end
