(* ===== verification/LiveInvariants.thy ===== *)
theory LiveInvariants
  imports LiveFacts
begin

text \<open>
  Invariants of a desk under every interleaving of its steps: a scheduled analysis has its timer, a
  running session has its round.
\<close>

section \<open>What a step reads and writes\<close>

definition clock :: "'p live \<Rightarrow> bool \<times> nat option \<times> nat" where
  "clock l = (lv_analysisScheduled l, lv_analysisTimer l, lv_scheduleGeneration l)"

definition engine :: "'p live \<Rightarrow> bool \<times> bool \<times> nat \<times> nat" where
  "engine l = (lv_running l, lv_runningDone l, lv_runningGeneration l, lv_liveRunCounter l)"

lemma same_clock: "same_but_pending l l' \<Longrightarrow> clock l' = clock l"
  by (simp add: clock_def same_but_pending_D)

lemma same_engine: "same_but_pending l l' \<Longrightarrow> engine l' = engine l"
  by (simp add: engine_def same_but_pending_D)

lemma clock_ops [simp]:
  "clock (restorePendingLiveSegments ss a b l) = clock l" "clock (appendPendingLiveSegment s t l) = clock l"
  "clock (requeueDeferredUnreflected n t l) = clock l" "clock (count_chars l) = clock l"
  "engine (restorePendingLiveSegments ss a b l) = engine l" "engine (appendPendingLiveSegment s t l) = engine l"
  "engine (requeueDeferredUnreflected n t l) = engine l" "engine (count_chars l) = engine l"
  by (simp_all add: same_clock same_engine)

lemma clock_release [simp]: "clock (release_round r ss t l) = clock l" "clock (finishLiveRun g l) = clock l"
proof -
  show fin: "clock (finishLiveRun g l) = clock l" for g and l :: "'b live"
    by (simp add: finishLiveRun_def clock_def)
  have "clock (release_round r ss t l) = clock (restorePendingLiveSegments ss (lv_runningOldestPendingAt l) t
      (finishLiveRun (rd_Generation r) l))" by (simp add: release_round_def clock_def)
  then show "clock (release_round r ss t l) = clock l" by (simp add: fin)
qed

lemma engine_release [simp]: "engine (release_round r ss t l) = engine (finishLiveRun (rd_Generation r) l)"
proof -
  have "engine (release_round r ss t l) = engine (restorePendingLiveSegments ss (lv_runningOldestPendingAt l) t
      (finishLiveRun (rd_Generation r) l))" by (simp add: release_round_def engine_def)
  then show ?thesis by simp
qed

lemma engine_failed [simp]: "engine (failed_attempt c t l) = engine l" "clock (failed_attempt c t l) = clock l"
  by (simp_all add: failed_attempt_def engine_def clock_def)

lemma clock_recover_one [simp]:
  "clock (recover_segment now s l) = clock l" "engine (recover_segment now s l) = engine l"
  using clock_ops(2,6) [of s "arrival now s" l] by (simp_all add: recover_segment_def clock_def engine_def)

lemma clock_recover [simp]: "clock (fold (recover_segment now) ss l) = clock l"
  by (induction ss arbitrary: l) simp_all

lemma engine_recover [simp]: "engine (fold (recover_segment now) ss l) = engine l"
  by (induction ss arbitrary: l) simp_all

section \<open>Timers\<close>

definition timers_ok :: "'p desk \<Rightarrow> bool" where
  "timers_ok d \<longleftrightarrow>
     (case clock (live_of d) of (scheduled, timer, g) \<Rightarrow>
        scheduled \<longrightarrow> timer = Some g \<and> g \<in> fst ` set (dk_timers d) \<union> set (dk_dispatches d))"

definition same_timers :: "'p desk \<Rightarrow> 'p desk \<Rightarrow> bool" where
  "same_timers d d' \<longleftrightarrow> clock (live_of d') = clock (live_of d) \<and> dk_timers d' = dk_timers d \<and>
     dk_dispatches d' = dk_dispatches d"

lemma timers_ok_same: "same_timers d d' \<Longrightarrow> timers_ok d \<Longrightarrow> timers_ok d'"
  by (simp add: same_timers_def timers_ok_def)

lemma timers_ok_unscheduled: "\<not> lv_analysisScheduled (live_of d) \<Longrightarrow> timers_ok d"
  by (simp add: timers_ok_def clock_def)

lemma same_timersI:
  "(\<And>l. clock (f l) = clock l) \<Longrightarrow> same_timers d (with_live f d)"
  by (simp add: same_timers_def)

lemma cancel_unscheduled [simp]: "\<not> lv_analysisScheduled (live_of (cancelLiveAnalysisTimer d))"
  by (simp add: cancelLiveAnalysisTimer_def Let_def)

lemma timers_ok_cancel [simp]: "timers_ok (cancelLiveAnalysisTimer d)"
  by (rule timers_ok_unscheduled) simp

lemma timers_ok_armed: "timers_ok (armed t s r now d)"
  by (simp add: armed_def Let_def timers_ok_def clock_def)

lemma timers_ok_deferred: "timers_ok d \<Longrightarrow> timers_ok (deferred_for r d)"
  by (simp add: deferred_for_def timers_ok_def clock_def)

lemma timers_ok_cong:
  "clock (f (live_of d)) = clock (live_of d) \<Longrightarrow> timers_ok (with_live f d) = timers_ok d"
  by (simp add: timers_ok_def)

lemma timers_ok_evaluate: "timers_ok d \<Longrightarrow> timers_ok (evaluateLiveAnalysisTrigger c t now d)"
  unfolding evaluateLiveAnalysisTrigger_def Let_def
  by (auto simp: timers_ok_armed timers_ok_deferred timers_ok_cong clock_def
      split: prod.splits)

lemma timers_ok_dispatch:
  assumes "timers_ok d \<or> \<not> (lv_analysisScheduled (live_of d) \<and> lv_scheduleGeneration (live_of d) \<noteq> g)"
  shows "timers_ok (dispatchScheduledLiveAnalysis c g status now later d)"
proof (cases "\<not> lv_analysisScheduled (live_of d) \<or> lv_scheduleGeneration (live_of d) \<noteq> g")
  case True
  then have "timers_ok d" using assms timers_ok_unscheduled by blast
  with True show ?thesis by (simp add: dispatchScheduledLiveAnalysis_def Let_def timers_ok_cong)
next
  case False
  let ?d = "with_live (\<lambda>l. l\<lparr>lv_analysisScheduled := False, lv_analysisTimer := None, lv_scheduledAt := 0\<rparr>) d"
  have off: "timers_ok ?d" by (rule timers_ok_unscheduled) simp
  have "timers_ok (start_round c now ?d)"
    by (rule timers_ok_unscheduled) (simp add: start_round_def Let_def beginLiveRun_def)
  with False off show ?thesis
    unfolding dispatchScheduledLiveAnalysis_def Let_def
    by (auto simp: timers_ok_cong clock_def split: status_check.splits prod.splits
        intro!: timers_ok_deferred timers_ok_evaluate)
qed

lemma same_timers_seed [simp]: "same_timers d (seedLiveAnalysisState ok pv d)"
  by (simp add: seedLiveAnalysisState_def same_timers_def clock_def split: prod.splits)

lemma same_timers_phase [simp]:
  "same_timers d (set_phase k ph d')  = same_timers d d'" "same_timers d (drop_round k d') = same_timers d d'"
  by (simp_all add: same_timers_def)

lemma same_timers_row [simp]:
  "same_timers d (d'\<lparr>dk_row := row\<rparr>) = same_timers d d'" "same_timers d (d'\<lparr>dk_final := f\<rparr>) = same_timers d d'"
  "same_timers d (d'\<lparr>dk_rounds := rs\<rparr>) = same_timers d d'" "same_timers d (d'\<lparr>dk_planners := p\<rparr>) = same_timers d d'"
  "same_timers d (d'\<lparr>dk_recovery := q\<rparr>) = same_timers d d'" "same_timers d (d'\<lparr>dk_started := s\<rparr>) = same_timers d d'"
  by (simp_all add: same_timers_def)

lemma same_timers_refl [simp]: "same_timers d d"
  by (simp add: same_timers_def)

lemma same_timers_with [simp]: "same_timers d (with_live f d) \<longleftrightarrow> clock (f (live_of d)) = clock (live_of d)"
  by (simp add: same_timers_def)

lemma same_timers_with_frame [simp]:
  "same_timers d (with_live f (d\<lparr>dk_rounds := rs\<rparr>)) \<longleftrightarrow> clock (f (live_of d)) = clock (live_of d)"
  "same_timers d (with_live f (d\<lparr>dk_recovery := q\<rparr>)) \<longleftrightarrow> clock (f (live_of d)) = clock (live_of d)"
  "same_timers d (with_live f (drop_round k d)) \<longleftrightarrow> clock (f (live_of d)) = clock (live_of d)"
  by (simp_all add: same_timers_def)

lemma clock_updates [simp]:
  "clock (l\<lparr>lv_lastAnalysisCompletedAt := t\<rparr>) = clock l" "clock (l\<lparr>lv_nextAttemptAt := t\<rparr>) = clock l"
  "clock (l\<lparr>lv_retryBlocked := b\<rparr>) = clock l" "clock (l\<lparr>lv_lastPayload := p\<rparr>) = clock l"
  "clock (l\<lparr>lv_lastVersion := v\<rparr>) = clock l" "clock (l\<lparr>lv_versionSeeded := b\<rparr>) = clock l"
  "clock (l\<lparr>lv_lastCoveredSequenceNo := n\<rparr>) = clock l" "clock (l\<lparr>lv_context := x\<rparr>) = clock l"
  "clock (l\<lparr>lv_rerunRequested := b\<rparr>) = clock l" "clock (l\<lparr>lv_catchUpRequested := b\<rparr>) = clock l"
  "clock (l\<lparr>lv_lastActivityAt := t\<rparr>) = clock l" "clock (l\<lparr>lv_recoveryInFlight := b\<rparr>) = clock l"
  "clock (l\<lparr>lv_deferredUnreflected := ds\<rparr>) = clock l" "clock (l\<lparr>lv_pending := ss\<rparr>) = clock l"
  "clock (l\<lparr>lv_pendingChars := n\<rparr>) = clock l" "clock (l\<lparr>lv_oldestPendingFinalAt := t\<rparr>) = clock l"
  "clock (l\<lparr>lv_latestPendingFinalAt := t\<rparr>) = clock l" "clock (l\<lparr>lv_failureCount := k\<rparr>) = clock l"
  "clock (l\<lparr>lv_supersededGeneration := k\<rparr>) = clock l" "clock (l\<lparr>lv_lastAnalysisStartedAt := t\<rparr>) = clock l"
  "clock (l\<lparr>lv_runningOldestPendingAt := t\<rparr>) = clock l" "clock (l\<lparr>lv_runningLatestFinalAt := t\<rparr>) = clock l"
  "clock (beginLiveRun tr y l) = clock l" "clock (l\<lparr>lv_finalizing := b\<rparr>) = clock l"
  "clock (l\<lparr>lv_stopped := b\<rparr>) = clock l"
  by (simp_all add: clock_def beginLiveRun_def)

lemma clock_adopt [simp]: "clock (adopt_row p v l) = clock l"
  by (simp add: adopt_row_def)

lemma same_timers_steps [simp]:
  "same_timers d (buffer_final c s now d)" "same_timers d (ensureMeetingContextPlanning c pre now d)"
  "same_timers d (keep_fallback m d)"
  "same_timers d (completeMeetingContextPlanning r ok v now d)" "same_timers d (round_generation k d)"
  "same_timers d (snd (claim_context_wait d))" "same_timers d (note_context_use d)"
  by (auto simp: buffer_final_def ensureMeetingContextPlanning_def completeMeetingContextPlanning_def
      keep_fallback_def round_generation_def claim_context_wait_def note_context_use_def Let_def)

lemma same_timers_rounds [simp]:
  "same_timers d (round_seal ok k d)" "same_timers d (round_result f why rest k d)"
  "same_timers d (round_panic c k now d)" "same_timers d (handleLiveAnalysisFailure c retry k now d)"
  "same_timers d (handleStaleLiveAnalysisResult ok k now d)"
  by (auto simp: round_seal_def round_result_def round_panic_def handleLiveAnalysisFailure_def
      handleStaleLiveAnalysisResult_def Let_def split: prod.splits round_phase.splits option.splits)

lemma same_timers_rows [simp]:
  "same_timers d (round_write_failure ok ok' k d)" "same_timers d (round_persist c ok ok' k now d)"
  "same_timers d (round_reorganize ok ok' rest k d)" "same_timers d (round_finish k now d)"
  "same_timers d (audit_applied rest d)"
  by (auto simp: round_write_failure_def round_persist_def round_reorganize_def round_finish_def
      audit_applied_def Let_def split: prod.splits round_phase.splits option.splits)

lemma same_timers_recovery [simp]:
  "same_timers d (recovery_begin c d)" "same_timers d (recovery_seed ok k d)"
  "same_timers d (recovery_finish listed k now d)"
  by (auto simp: recovery_begin_def recovery_seed_def recovery_finish_def Let_def
      split: prod.splits option.splits)

lemma same_timers_final [simp]:
  "same_timers d (final_released d)" "same_timers d (final_timeout d)" "same_timers d (final_snapshot ok d)"
  "same_timers d (final_flush c listed now d)" "same_timers d (final_refresh rest d)"
  by (auto simp: final_released_def final_timeout_def final_snapshot_def latestStableLiveSnapshot_def
      final_flush_def final_refresh_def Let_def split: prod.splits option.splits final_phase.splits)

lemma timers_ok_do: "timers_ok d \<Longrightarrow> timers_ok (live_do c a d)"
proof -
  assume ok: "timers_ok d"
  show ?thesis
  proof (cases a)
    case (DoFire g now)
    have "timers_ok (fire_timer g now d)"
      using ok by (auto simp: fire_timer_def timers_ok_def image_iff list_ex_iff split: prod.splits)
    then show ?thesis using DoFire by simp
  next
    case (DoDispatch g ans now later)
    let ?d = "d\<lparr>dk_dispatches := remove1 g (dk_dispatches d)\<rparr>"
    have "timers_ok ?d \<or> \<not> (lv_analysisScheduled (live_of ?d) \<and> lv_scheduleGeneration (live_of ?d) \<noteq> g)"
      using ok by (auto simp: timers_ok_def clock_def in_set_remove1)
    then have "timers_ok (dispatchScheduledLiveAnalysis c g s now later ?d)" for s by (rule timers_ok_dispatch)
    then show ?thesis using DoDispatch ok by (simp add: run_dispatch_def)
  next
    case (DoEvaluate t now)
    then show ?thesis using timers_ok_evaluate [OF ok] by simp
  next
    case (DoTick now)
    have "timers_ok (tick_session now d)"
      using ok by (auto simp: tick_session_def timers_ok_def clock_def new_live_def split: option.splits)
    then show ?thesis using DoTick by simp
  next
    case DoClose
    then show ?thesis using ok by (auto simp: close_session_def intro!: timers_ok_unscheduled split: option.splits)
  next
    case DoFinalBegin
    then show ?thesis
      using ok by (auto simp: final_begin_def Let_def intro!: timers_ok_unscheduled split: final_phase.splits)
  next
    case DoFinalEnd
    then show ?thesis
      using ok by (auto simp: finishFinalizing_def intro!: timers_ok_unscheduled split: final_phase.splits)
  qed (rule timers_ok_same [OF _ ok], simp add: on_round_def)+
qed

section \<open>Rounds\<close>

definition alive :: "nat \<Rightarrow> 'p live_round \<Rightarrow> bool" where
  "alive g r \<longleftrightarrow> rd_Phase r = Launched \<or> rd_Generation r = g \<and> (\<forall>p v. rd_Phase r \<noteq> Failing p v)"

definition rounds_ok :: "'p desk \<Rightarrow> bool" where
  "rounds_ok d \<longleftrightarrow>
     (case engine (live_of d) of (run, waiting, g, n) \<Rightarrow>
        waiting = run \<and> (run \<longrightarrow> (\<exists>r\<in>set (dk_rounds d). alive g r)))"

lemma rounds_okI:
  assumes "rounds_ok d" and "engine (live_of d') = engine (live_of d)"
    and "\<And>r g. r \<in> set (dk_rounds d) \<Longrightarrow> alive g r \<Longrightarrow> g = lv_runningGeneration (live_of d) \<Longrightarrow>
          \<exists>r'\<in>set (dk_rounds d'). alive g r'"
  shows "rounds_ok d'"
  using assms(1,2) assms(3) by (fastforce simp: rounds_ok_def engine_def split: prod.splits)

lemma rounds_ok_frame:
  "rounds_ok d \<Longrightarrow> engine (live_of d') = engine (live_of d) \<Longrightarrow> dk_rounds d' = dk_rounds d \<Longrightarrow> rounds_ok d'"
  by (simp add: rounds_ok_def)

lemma kept_by_update: "r \<in> set rs \<Longrightarrow> r \<noteq> rs ! k \<Longrightarrow> r \<in> set (rs[k := r'])"
  by (auto simp: in_set_conv_nth) (metis length_list_update nth_list_update_neq)

lemma kept_by_drop: "r \<in> set rs \<Longrightarrow> k < length rs \<Longrightarrow> r \<noteq> rs ! k \<Longrightarrow> r \<in> set (take k rs @ drop (Suc k) rs)"
  using id_take_nth_drop [of k rs] by (metis Un_iff set_append set_ConsD)

text \<open>A round moves on to another phase of its life.\<close>

lemma rounds_ok_phase:
  assumes "rounds_ok d" "k < length (dk_rounds d)" "engine (live_of d') = engine (live_of d)"
    "dk_rounds d' = dk_rounds d" "rd_Phase (dk_rounds d ! k) \<noteq> Launched" "\<And>p v. ph \<noteq> Failing p v"
    "\<And>p v. rd_Phase (dk_rounds d ! k) \<noteq> Failing p v"
  shows "rounds_ok (set_phase k ph d')"
proof (rule rounds_okI [OF assms(1)])
  fix r g assume r: "r \<in> set (dk_rounds d)" "alive g r"
  let ?r = "(dk_rounds d ! k)\<lparr>rd_Phase := ph\<rparr>"
  show "\<exists>r'\<in>set (dk_rounds (set_phase k ph d')). alive g r'"
  proof (cases "r = dk_rounds d ! k")
    case True
    then have "alive g ?r" using r(2) assms(5,6) by (auto simp: alive_def)
    moreover have "?r \<in> set (dk_rounds (set_phase k ph d'))"
      using assms(2,4) by (simp add: set_phase_def set_update_memI)
    ultimately show ?thesis by blast
  next
    case False
    then show ?thesis using kept_by_update [OF r(1)] r(2) assms(4) by (auto simp: set_phase_def)
  qed
qed (simp add: assms(3))

text \<open>A round releases the session, if it still holds it, and ends or has only its failure to write.\<close>

lemma rounds_ok_release:
  assumes "rounds_ok d" "k < length (dk_rounds d)" "rd_Phase (dk_rounds d ! k) \<noteq> Launched"
    "engine (f (live_of d)) = engine (finishLiveRun (rd_Generation (dk_rounds d ! k)) (live_of d))"
    "\<And>r. r \<in> set (dk_rounds d) \<Longrightarrow> r \<noteq> dk_rounds d ! k \<Longrightarrow> r \<in> set (dk_rounds d')"
    "live_of d' = f (live_of d)"
  shows "rounds_ok d'"
proof (cases "rd_Generation (dk_rounds d ! k) \<noteq> 0 \<and>
    lv_runningGeneration (live_of d) \<noteq> rd_Generation (dk_rounds d ! k)")
  case True
  show ?thesis
  proof (rule rounds_okI [OF assms(1)])
    show "engine (live_of d') = engine (live_of d)" using True assms(4,6) by (simp add: finishLiveRun_def)
    fix r g assume r: "r \<in> set (dk_rounds d)" "alive g r" "g = lv_runningGeneration (live_of d)"
    then have "r \<noteq> dk_rounds d ! k" using True assms(3) by (auto simp: alive_def)
    then show "\<exists>r'\<in>set (dk_rounds d'). alive g r'" using assms(5) r by blast
  qed
next
  case False
  then show ?thesis using assms(4,6) by (auto simp: rounds_ok_def finishLiveRun_def engine_def)
qed

lemma kept_rounds [simp]:
  "k < length (dk_rounds d) \<Longrightarrow> r \<in> set (dk_rounds d) \<Longrightarrow> r \<noteq> dk_rounds d ! k \<Longrightarrow>
     r \<in> set (dk_rounds (drop_round k (with_live f d)))"
  "r \<in> set (dk_rounds d) \<Longrightarrow> r \<noteq> dk_rounds d ! k \<Longrightarrow> r \<in> set (dk_rounds (set_phase k ph (with_live f d)))"
  using kept_by_drop [of r "dk_rounds d" k] kept_by_update [of r "dk_rounds d" k]
  by (auto simp: drop_round_def set_phase_def)

lemma engine_updates [simp]:
  "engine (l\<lparr>lv_lastAnalysisCompletedAt := t\<rparr>) = engine l" "engine (l\<lparr>lv_nextAttemptAt := t\<rparr>) = engine l"
  "engine (l\<lparr>lv_retryBlocked := b\<rparr>) = engine l" "engine (l\<lparr>lv_lastPayload := p\<rparr>) = engine l"
  "engine (l\<lparr>lv_lastVersion := v\<rparr>) = engine l" "engine (l\<lparr>lv_versionSeeded := b\<rparr>) = engine l"
  "engine (l\<lparr>lv_lastCoveredSequenceNo := n\<rparr>) = engine l" "engine (l\<lparr>lv_context := x\<rparr>) = engine l"
  "engine (l\<lparr>lv_rerunRequested := b\<rparr>) = engine l" "engine (l\<lparr>lv_catchUpRequested := b\<rparr>) = engine l"
  "engine (l\<lparr>lv_lastActivityAt := t\<rparr>) = engine l" "engine (l\<lparr>lv_recoveryInFlight := b\<rparr>) = engine l"
  "engine (l\<lparr>lv_deferredUnreflected := ds\<rparr>) = engine l" "engine (l\<lparr>lv_pending := ss\<rparr>) = engine l"
  "engine (l\<lparr>lv_pendingChars := n\<rparr>) = engine l" "engine (l\<lparr>lv_oldestPendingFinalAt := t\<rparr>) = engine l"
  "engine (l\<lparr>lv_latestPendingFinalAt := t\<rparr>) = engine l" "engine (l\<lparr>lv_failureCount := i\<rparr>) = engine l"
  "engine (l\<lparr>lv_supersededGeneration := i\<rparr>) = engine l" "engine (l\<lparr>lv_finalizing := b\<rparr>) = engine l"
  "engine (l\<lparr>lv_stopped := b\<rparr>) = engine l" "engine (l\<lparr>lv_lastDeferredReason := why\<rparr>) = engine l"
  "engine (l\<lparr>lv_coalescedTriggerCount := i\<rparr>) = engine l" "engine (adopt_row p v l) = engine l"
  "engine (l\<lparr>lv_analysisScheduled := b\<rparr>) = engine l" "engine (l\<lparr>lv_analysisTimer := g\<rparr>) = engine l"
  "engine (l\<lparr>lv_scheduledAt := t\<rparr>) = engine l" "engine (l\<lparr>lv_scheduledTrigger := tr\<rparr>) = engine l"
  "engine (l\<lparr>lv_scheduleGeneration := i\<rparr>) = engine l" "engine (l\<lparr>lv_lastTrigger := tr\<rparr>) = engine l"
  "engine (l\<lparr>lv_lastAnalysisStartedAt := t\<rparr>) = engine l"
  "engine (l\<lparr>lv_runningOldestPendingAt := t\<rparr>) = engine l" "engine (l\<lparr>lv_runningLatestFinalAt := t\<rparr>) = engine l"
  by (simp_all add: engine_def adopt_row_def)

text \<open>Steps that leave the rounds and the marks of the running round alone.\<close>

definition same_rounds :: "'p desk \<Rightarrow> 'p desk \<Rightarrow> bool" where
  "same_rounds d d' \<longleftrightarrow> engine (live_of d') = engine (live_of d) \<and> dk_rounds d' = dk_rounds d"

lemma rounds_ok_same: "same_rounds d d' \<Longrightarrow> rounds_ok d \<Longrightarrow> rounds_ok d'"
  by (simp add: same_rounds_def rounds_ok_def)

lemma same_rounds_refl [simp]: "same_rounds d d"
  by (simp add: same_rounds_def)

lemma same_rounds_with [simp]:
  "same_rounds d (with_live f d') \<longleftrightarrow> engine (f (live_of d')) = engine (live_of d) \<and> dk_rounds d' = dk_rounds d"
  by (simp add: same_rounds_def)

lemma same_rounds_frame [simp]:
  "same_rounds d (d'\<lparr>dk_row := row\<rparr>) = same_rounds d d'" "same_rounds d (d'\<lparr>dk_final := f\<rparr>) = same_rounds d d'"
  "same_rounds d (d'\<lparr>dk_planners := p\<rparr>) = same_rounds d d'" "same_rounds d (d'\<lparr>dk_timers := ts\<rparr>) = same_rounds d d'"
  "same_rounds d (d'\<lparr>dk_recovery := q\<rparr>) = same_rounds d d'" "same_rounds d (d'\<lparr>dk_started := s\<rparr>) = same_rounds d d'"
  "same_rounds d (d'\<lparr>dk_dispatches := gs\<rparr>) = same_rounds d d'"
  by (simp_all add: same_rounds_def)

lemma cancel_rounds [simp]:
  "dk_rounds (cancelLiveAnalysisTimer d) = dk_rounds d" "engine (live_of (cancelLiveAnalysisTimer d)) = engine (live_of d)"
  by (simp_all add: cancelLiveAnalysisTimer_def Let_def)

lemma same_rounds_cancel [simp]: "same_rounds d (cancelLiveAnalysisTimer d') = same_rounds d d'"
  by (simp add: same_rounds_def)

lemma same_rounds_evaluate [simp]: "same_rounds d (evaluateLiveAnalysisTrigger c t now d)"
  by (simp add: evaluateLiveAnalysisTrigger_def armed_def deferred_for_def Let_def same_rounds_def split: prod.splits)

lemma same_rounds_steps [simp]:
  "same_rounds d (buffer_final c s now d)" "same_rounds d (ensureMeetingContextPlanning c pre now d)"
  "same_rounds d (keep_fallback m d)"
  "same_rounds d (completeMeetingContextPlanning r ok v now d)" "same_rounds d (fire_timer g now d)"
  "same_rounds d (snd (claim_context_wait d))" "same_rounds d (note_context_use d)"
  "same_rounds d (audit_applied rest d)" "same_rounds d (recovery_begin c d)"
  "same_rounds d (recovery_seed ok k d)" "same_rounds d (close_session d)"
  by (auto simp: buffer_final_def ensureMeetingContextPlanning_def completeMeetingContextPlanning_def
      keep_fallback_def claim_context_wait_def note_context_use_def fire_timer_def audit_applied_def recovery_begin_def
      recovery_seed_def seedLiveAnalysisState_def close_session_def Let_def split: prod.splits option.splits)

lemma same_rounds_recovery [simp]: "same_rounds d (recovery_finish listed k now d)"
  by (auto simp: recovery_finish_def Let_def split: prod.splits option.splits)

lemma same_rounds_final [simp]:
  "same_rounds d (final_begin d)" "same_rounds d (final_released d)" "same_rounds d (final_timeout d)"
  "same_rounds d (final_snapshot ok d)" "same_rounds d (final_refresh rest d)" "same_rounds d (finishFinalizing d)"
  by (auto simp: final_begin_def final_released_def final_timeout_def final_snapshot_def finishFinalizing_def
      latestStableLiveSnapshot_def final_refresh_def Let_def same_rounds_def
      split: prod.splits option.splits final_phase.splits)

text \<open>The steps of rounds.\<close>

lemma rounds_ok_begin:
  assumes "engine (live_of d') = engine (beginLiveRun tr x (live_of d))" "dk_rounds d' = dk_rounds d @ [new_round ss b]"
  shows "rounds_ok d'"
  using assms by (simp add: rounds_ok_def engine_def beginLiveRun_def alive_def new_round_def split: prod.splits)

lemma rounds_ok_deferred [simp]: "rounds_ok (deferred_for why d) = rounds_ok d"
  by (simp add: deferred_for_def rounds_ok_def)

lemma rounds_ok_with:
  "engine (f (live_of d)) = engine (live_of d) \<Longrightarrow> rounds_ok (with_live f d) = rounds_ok d"
  by (simp add: rounds_ok_def)

lemma rounds_ok_dispatch:
  assumes "rounds_ok d" shows "rounds_ok (dispatchScheduledLiveAnalysis c g status now later d)"
proof -
  have start: "rounds_ok (start_round c now d')" for d'
    by (rule rounds_ok_begin [where d = d' and ss = "lv_pending (live_of d')" and b = False and tr = "run_trigger c (live_of d') now"
          and x = "liveAnalysisSequenceRange (lv_pending (live_of d')) (0, 0)"])
      (simp_all add: start_round_def Let_def engine_def beginLiveRun_def)
  have evaluate: "rounds_ok d' \<Longrightarrow> rounds_ok (evaluateLiveAnalysisTrigger c ScheduledTimer later d')" for d'
    by (rule rounds_ok_same [OF same_rounds_evaluate])
  show ?thesis
    using assms by (auto simp: dispatchScheduledLiveAnalysis_def Let_def rounds_ok_with start
        intro!: evaluate split: status_check.splits prod.splits)
qed

lemma rounds_ok_generation:
  assumes "rounds_ok d" "k < length (dk_rounds d)" shows "rounds_ok (round_generation k d)"
proof (rule rounds_okI [OF assms(1)])
  fix r g assume r: "r \<in> set (dk_rounds d)" "alive g r" "g = lv_runningGeneration (live_of d)"
  let ?r = "(dk_rounds d ! k)\<lparr>rd_Generation := g, rd_Phase := Named\<rparr>"
  have rounds: "dk_rounds (round_generation k d) = (dk_rounds d)[k := ?r]" using r(3) by (simp add: round_generation_def Let_def)
  have "alive g ?r" "?r \<in> set ((dk_rounds d)[k := ?r])"
    using assms(2) by (simp_all add: alive_def set_update_memI)
  then show "\<exists>r'\<in>set (dk_rounds (round_generation k d)). alive g r'" using rounds by auto
qed (simp add: round_generation_def Let_def)

lemma engine_seed [simp]:
  "engine (live_of (seedLiveAnalysisState ok pv d)) = engine (live_of d)"
  "dk_rounds (seedLiveAnalysisState ok pv d) = dk_rounds d"
  by (simp_all add: seedLiveAnalysisState_def split: prod.splits)

lemma rounds_ok_seal:
  "rounds_ok d \<Longrightarrow> k < length (dk_rounds d) \<Longrightarrow> rd_Phase (dk_rounds d ! k) = Named \<Longrightarrow> rounds_ok (round_seal ok k d)"
  by (auto simp: round_seal_def Let_def intro!: rounds_ok_phase split: prod.splits)

lemma rounds_ok_panic:
  "rounds_ok d \<Longrightarrow> k < length (dk_rounds d) \<Longrightarrow> rd_Phase (dk_rounds d ! k) \<noteq> Launched \<Longrightarrow>
     rounds_ok (round_panic c k now d)"
  unfolding round_panic_def Let_def
  by (rule rounds_ok_release [where k = k and d = d and
        f = "\<lambda>l. failed_attempt c now (release_round (dk_rounds d ! k) (rd_Segments (dk_rounds d ! k)) now l)"]) auto

lemma rounds_ok_fail:
  assumes "rounds_ok d" "k < length (dk_rounds d)" shows "rounds_ok (handleLiveAnalysisFailure c retry k now d)"
proof (cases "rd_Phase (dk_rounds d ! k)")
  case (Sealed p v)
  let ?r = "dk_rounds d ! k"
  let ?f = "\<lambda>l. let l1 = release_round ?r (rd_Segments ?r) now l in
     if retry then (failed_attempt c now l1)\<lparr>lv_retryBlocked := False\<rparr>
     else l1\<lparr>lv_nextAttemptAt := 0, lv_retryBlocked := True\<rparr>"
  have "rounds_ok (set_phase k (Failing p v) (with_live ?f d))"
    by (rule rounds_ok_release [OF assms, where f = ?f]) (auto simp: Sealed Let_def)
  then show ?thesis by (simp add: handleLiveAnalysisFailure_def Sealed Let_def)
qed (use assms in \<open>simp_all add: handleLiveAnalysisFailure_def\<close>)

lemma rounds_ok_drop_failing:
  assumes "rounds_ok d" "k < length (dk_rounds d)" "rd_Phase (dk_rounds d ! k) = Failing p v"
  shows "rounds_ok (drop_round k d)"
proof (rule rounds_okI [OF assms(1)])
  fix r g assume r: "r \<in> set (dk_rounds d)" "alive g r"
  then have "r \<noteq> dk_rounds d ! k" using assms(3) by (auto simp: alive_def)
  then show "\<exists>r'\<in>set (dk_rounds (drop_round k d)). alive g r'"
    using kept_by_drop [OF r(1) assms(2)] r(2) by (auto simp: drop_round_def)
qed simp

lemma rounds_ok_row [simp]: "rounds_ok (d\<lparr>dk_row := row\<rparr>) = rounds_ok d"
  by (simp add: rounds_ok_def)

lemma rounds_ok_write_failure:
  assumes "rounds_ok d" "k < length (dk_rounds d)" shows "rounds_ok (round_write_failure ok ok' k d)"
proof (cases "rd_Phase (dk_rounds d ! k)")
  case (Failing p v)
  note drop = rounds_ok_drop_failing [OF assms Failing]
  then show ?thesis
    by (auto simp: round_write_failure_def Failing Let_def rounds_ok_with split: option.splits)
qed (use assms in \<open>simp_all add: round_write_failure_def\<close>)

lemma rounds_ok_result:
  assumes "rounds_ok d" "k < length (dk_rounds d)" shows "rounds_ok (round_result f why rest k d)"
proof (cases "rd_Phase (dk_rounds d ! k)")
  case (Sealed p v)
  let ?r = "dk_rounds d ! k"
  have "rounds_ok (drop_round k (with_live (finishLiveRun (rd_Generation ?r)) d))"
    by (rule rounds_ok_release [OF assms, where f = "finishLiveRun (rd_Generation ?r)"]) (auto simp: Sealed assms)
  moreover have "rounds_ok (set_phase k (Cleared p v q ds) (with_live id d))" for q ds
    by (rule rounds_ok_phase [OF assms]) (simp_all add: Sealed)
  ultimately show ?thesis by (simp add: round_result_def Sealed Let_def split: prod.splits)
qed (use assms in \<open>simp_all add: round_result_def\<close>)

lemma rounds_ok_stale:
  assumes "rounds_ok d" "k < length (dk_rounds d)" "rd_Phase (dk_rounds d ! k) \<noteq> Launched"
  shows "rounds_ok (handleStaleLiveAnalysisResult ok k now d)"
  unfolding handleStaleLiveAnalysisResult_def Let_def
  by (rule rounds_ok_release [OF assms]) (auto simp: assms split: option.splits prod.splits)

lemma rounds_ok_persist:
  assumes "rounds_ok d" "k < length (dk_rounds d)" shows "rounds_ok (round_persist c ok ok' k now d)"
proof (cases "rd_Phase (dk_rounds d ! k)")
  case (Cleared p v q ds)
  have "rounds_ok (set_phase k (Written q w ds n) d)" for w n
    by (rule rounds_ok_phase [OF assms]) (simp_all add: Cleared)
  then show ?thesis
    using rounds_ok_panic [OF assms] rounds_ok_stale [OF assms]
    by (simp add: round_persist_def Cleared split: option.splits)
qed (use assms in \<open>simp_all add: round_persist_def\<close>)

lemma rounds_ok_reorganize:
  assumes "rounds_ok d" "k < length (dk_rounds d)" shows "rounds_ok (round_reorganize ok ok' rest k d)"
proof (cases "rd_Phase (dk_rounds d ! k)")
  case (Written q v ds n)
  have "rounds_ok (set_phase k (Written q' w ds n) d)" for q' w
    by (rule rounds_ok_phase [OF assms]) (simp_all add: Written)
  then show ?thesis using assms(1) by (simp add: round_reorganize_def Written split: option.splits)
qed (use assms in \<open>simp_all add: round_reorganize_def\<close>)

lemma rounds_ok_finish:
  assumes "rounds_ok d" "k < length (dk_rounds d)" shows "rounds_ok (round_finish k now d)"
proof (cases "rd_Phase (dk_rounds d ! k)")
  case (Written q v ds n)
  show ?thesis
    unfolding round_finish_def Let_def Written round_phase.case
    by (rule rounds_ok_release [OF assms]) (auto simp: Written assms)
qed (use assms in \<open>simp_all add: round_finish_def Let_def\<close>)

lemma rounds_ok_flush: "rounds_ok d \<Longrightarrow> rounds_ok (final_flush c listed now d)"
  by (auto simp: final_flush_def Let_def split: final_phase.splits intro!: rounds_ok_begin)

lemma rounds_ok_tick: "rounds_ok d \<Longrightarrow> rounds_ok (tick_session now d)"
  by (auto simp: tick_session_def rounds_ok_def engine_def new_live_def split: option.splits)

lemma rounds_ok_do: "rounds_ok d \<Longrightarrow> rounds_ok (live_do c a d)"
proof -
  assume ok: "rounds_ok d"
  show ?thesis
  proof (cases a)
    case (DoDispatch g ans now later)
    have "rounds_ok (d\<lparr>dk_dispatches := gs\<rparr>)" for gs using ok by (simp add: rounds_ok_def)
    then have "rounds_ok (dispatchScheduledLiveAnalysis c g s now later (d\<lparr>dk_dispatches := gs\<rparr>))" for s gs
      by (rule rounds_ok_dispatch)
    then show ?thesis using DoDispatch ok by (simp add: run_dispatch_def)
  qed (auto simp: on_round_def ok rounds_ok_generation rounds_ok_seal rounds_ok_result rounds_ok_fail
      rounds_ok_write_failure rounds_ok_persist rounds_ok_reorganize rounds_ok_finish rounds_ok_panic
      rounds_ok_flush rounds_ok_tick intro: rounds_ok_same [OF _ ok])
qed

end
