(* ===== verification/LiveLedger.thy ===== *)
theory LiveLedger
  imports LiveFacts
begin

text \<open>
  No final transcript is lost: while a session is analyzed live, every final the scheduler has accepted
  is pending, part of a round under way, or covered by the durable row, in every interleaving of the
  steps.  Payloads are compared by the keys of the finals they cover.
\<close>

section \<open>Segments and their keys\<close>

text \<open>What the buffer holds: a final with text; one without a sequence number has an event id that no
  key of a numbered segment can equal (PostgreSQL stores no NUL).\<close>

definition good :: "TranscriptSegment \<Rightarrow> bool" where
  "good s \<longleftrightarrow> ts_IsFinal s \<and> trim_space (ts_Text s) \<noteq> [] \<and>
     (0 < ts_SequenceNo s \<or> CHR 0x00 \<notin> set (trim_space (ts_EventID s)))"

definition seg_keys :: "TranscriptSegment set \<Rightarrow> gostring set" where
  "seg_keys S = segment_key ` {s \<in> S. 0 < ts_SequenceNo s}"

lemma seg_keys_mono: "S \<subseteq> T \<Longrightarrow> seg_keys S \<subseteq> seg_keys T"
  by (auto simp: seg_keys_def)

lemma pending_keys_alt: "pending_keys l = seg_keys (set (lv_pending l))"
  by (simp add: pending_keys_def seg_keys_def)

lemma good_final: "good s \<Longrightarrow> 0 < ts_SequenceNo s \<Longrightarrow> counts_as_final s"
  by (simp add: good_def counts_as_final_def)

lemma same_identity:
  assumes "good e" "0 < ts_SequenceNo s" "livePendingSegmentIdentity e = livePendingSegmentIdentity s"
  shows "0 < ts_SequenceNo e \<and> segment_key e = segment_key s"
proof -
  have "CHR 0x00 \<in> set (segment_key s)" by (simp add: segment_key_def finalSegmentKey_def)
  then have "CHR 0x00 \<in> set (livePendingSegmentIdentity e)" using assms(2,3) by (simp add: event_identity_differs)
  then have "0 < ts_SequenceNo e"
    using assms(1) by (auto simp: livePendingSegmentIdentity_def good_def split: if_splits)
  then show ?thesis using assms(2,3) by (simp add: event_identity_differs)
qed

section \<open>Operations on pending finals\<close>

lemma pending_append:
  "set (lv_pending l) \<subseteq> set (lv_pending (appendPendingLiveSegment s t l))"
  "set (lv_pending (appendPendingLiveSegment s t l)) \<subseteq> insert s (set (lv_pending l))"
  by (auto simp: appendPendingLiveSegment_def)

lemma appended_key:
  assumes "list_all good (lv_pending l)" "0 < ts_SequenceNo s"
  shows "segment_key s \<in> pending_keys (appendPendingLiveSegment s t l)"
proof (cases "already_pending l s")
  case True
  then obtain e where e: "e \<in> set (lv_pending l)" "livePendingSegmentIdentity e = livePendingSegmentIdentity s"
    by (auto simp: already_pending_def list_ex_iff)
  then have "0 < ts_SequenceNo e \<and> segment_key e = segment_key s"
    using assms by (intro same_identity) (auto simp: list_all_iff)
  then have "segment_key s \<in> pending_keys l" unfolding pending_keys_def using e(1) by (metis (mono_tags, lifting) imageI mem_Collect_eq)
  then show ?thesis using True by (simp add: appendPendingLiveSegment_def)
qed (use assms(2) in \<open>auto simp: appendPendingLiveSegment_def pending_keys_def\<close>)

lemma pending_fold:
  assumes "\<And>x l. x \<in> set xs \<Longrightarrow> set (lv_pending l) \<subseteq> set (lv_pending (f x l)) \<and>
      set (lv_pending (f x l)) \<subseteq> set (lv_pending l) \<union> S"
  shows "set (lv_pending l) \<subseteq> set (lv_pending (fold f xs l)) \<and>
    set (lv_pending (fold f xs l)) \<subseteq> set (lv_pending l) \<union> S"
  using assms
proof (induction xs arbitrary: l)
  case (Cons x xs)
  have "set (lv_pending l) \<subseteq> set (lv_pending (f x l)) \<and> set (lv_pending (f x l)) \<subseteq> set (lv_pending l) \<union> S"
    using Cons.prems by simp
  moreover have "set (lv_pending (f x l)) \<subseteq> set (lv_pending (fold f xs (f x l))) \<and>
      set (lv_pending (fold f xs (f x l))) \<subseteq> set (lv_pending (f x l)) \<union> S"
    using Cons.prems by (intro Cons.IH) simp
  ultimately show ?case by auto
qed simp

lemma pending_restore:
  "set (lv_pending l) \<subseteq> set (lv_pending (restorePendingLiveSegments ss a b l))"
  "set (lv_pending (restorePendingLiveSegments ss a b l)) \<subseteq> set (lv_pending l) \<union> set ss"
proof -
  let ?l = "fold (\<lambda>s. appendPendingLiveSegment s b) ss l"
  have p: "lv_pending (restorePendingLiveSegments ss a b l) = lv_pending ?l"
    by (simp add: restorePendingLiveSegments_def count_chars_def Let_def)
  have "set (lv_pending l) \<subseteq> set (lv_pending ?l) \<and> set (lv_pending ?l) \<subseteq> set (lv_pending l) \<union> set ss"
    using pending_append by (intro pending_fold) blast
  then show "set (lv_pending l) \<subseteq> set (lv_pending (restorePendingLiveSegments ss a b l))"
    "set (lv_pending (restorePendingLiveSegments ss a b l)) \<subseteq> set (lv_pending l) \<union> set ss"
    unfolding p by blast+
qed

lemma restored_keys:
  assumes "list_all good (lv_pending l)" "list_all good ss"
  shows "seg_keys (set ss) \<subseteq> pending_keys (restorePendingLiveSegments ss a b l)"
proof -
  have "seg_keys (set ss) \<subseteq> pending_keys (fold (\<lambda>s. appendPendingLiveSegment s b) ss l)"
    using assms
  proof (induction ss arbitrary: l)
    case (Cons s ss)
    let ?l = "appendPendingLiveSegment s b l"
    have good: "list_all good (lv_pending ?l)"
      using pending_append(2) [of s b l] Cons.prems by (auto simp: list_all_iff)
    have "set (lv_pending ?l) \<subseteq> set (lv_pending (fold (\<lambda>s. appendPendingLiveSegment s b) ss ?l))"
      using pending_append pending_fold [of ss "\<lambda>s. appendPendingLiveSegment s b" "set ss" ?l] by blast
    then have "pending_keys ?l \<subseteq> pending_keys (fold (\<lambda>s. appendPendingLiveSegment s b) ss ?l)"
      unfolding pending_keys_alt by (rule seg_keys_mono)
    then show ?case using Cons.IH [OF good] Cons.prems appended_key [of l s b] by (auto simp: seg_keys_def)
  qed (simp add: seg_keys_def)
  then show ?thesis
    by (simp add: restorePendingLiveSegments_def count_chars_def Let_def pending_keys_def)
qed

lemma pending_requeue:
  "set (lv_pending l) \<subseteq> set (lv_pending (requeueDeferredUnreflected n t l))"
  "set (lv_pending (requeueDeferredUnreflected n t l)) \<subseteq>
     set (lv_pending l) \<union> du_Segment ` set (lv_deferredUnreflected l)"
proof -
  let ?f = "\<lambda>f l. if du_RetryAfterSequenceNo f < n then appendPendingLiveSegment (du_Segment f) t l else l"
  have "set (lv_pending l) \<subseteq> set (lv_pending (fold ?f (lv_deferredUnreflected l) l)) \<and>
      set (lv_pending (fold ?f (lv_deferredUnreflected l) l)) \<subseteq>
        set (lv_pending l) \<union> du_Segment ` set (lv_deferredUnreflected l)"
  proof (rule pending_fold)
    fix x and l' :: "'a live" assume "x \<in> set (lv_deferredUnreflected l)"
    then show "set (lv_pending l') \<subseteq> set (lv_pending (?f x l')) \<and>
        set (lv_pending (?f x l')) \<subseteq> set (lv_pending l') \<union> du_Segment ` set (lv_deferredUnreflected l)"
      using pending_append(1) [of l' "du_Segment x" t] pending_append(2) [of "du_Segment x" t l'] by auto
  qed
  then show "set (lv_pending l) \<subseteq> set (lv_pending (requeueDeferredUnreflected n t l))"
    "set (lv_pending (requeueDeferredUnreflected n t l)) \<subseteq>
      set (lv_pending l) \<union> du_Segment ` set (lv_deferredUnreflected l)"
    by (auto simp: requeueDeferredUnreflected_def)
qed

lemma pending_recover:
  "set (lv_pending l) \<subseteq> set (lv_pending (fold (recover_segment now) ss l))"
  "set (lv_pending (fold (recover_segment now) ss l)) \<subseteq> set (lv_pending l) \<union> {s \<in> set ss. counts_as_final s}"
proof -
  have "set (lv_pending l) \<subseteq> set (lv_pending (fold (recover_segment now) ss l)) \<and>
      set (lv_pending (fold (recover_segment now) ss l)) \<subseteq> set (lv_pending l) \<union> {s \<in> set ss. counts_as_final s}"
  proof (rule pending_fold)
    fix x and l :: "'a live" assume "x \<in> set ss"
    then show "set (lv_pending l) \<subseteq> set (lv_pending (recover_segment now x l)) \<and>
        set (lv_pending (recover_segment now x l)) \<subseteq> set (lv_pending l) \<union> {s \<in> set ss. counts_as_final s}"
      using pending_append(1) [of l x "arrival now x"] pending_append(2) [of x "arrival now x" l] by (auto simp: recover_segment_def recoverable_def)
  qed
  then show "set (lv_pending l) \<subseteq> set (lv_pending (fold (recover_segment now) ss l))"
    "set (lv_pending (fold (recover_segment now) ss l)) \<subseteq> set (lv_pending l) \<union> {s \<in> set ss. counts_as_final s}"
    by blast+
qed

section \<open>The ledger\<close>

definition row_cov :: "(int \<times> 'p live_payload option) option \<Rightarrow> gostring set" where
  "row_cov row = covered (previousLiveAnalysisState (fst (row_payload row)))"

definition pay_cov :: "'p live_payload option \<Rightarrow> gostring set" where
  "pay_cov p = covered (previousLiveAnalysisState p)"

definition row_ok :: "(int \<times> 'p live_payload option) option \<Rightarrow> bool" where
  "row_ok row \<longleftrightarrow> (case row of None \<Rightarrow> True | Some (v, p) \<Rightarrow> 0 \<le> v \<and> (v = 0 \<longrightarrow> pay_cov p = {}))"

text \<open>A payload somebody holds with its version never covers more than the row, and as much as the row at
  its version.\<close>

definition held_ok :: "(int \<times> 'p live_payload option) option \<Rightarrow> 'p live_payload option \<times> int \<Rightarrow> bool" where
  "held_ok row h \<longleftrightarrow>
     (case row of None \<Rightarrow> snd h = 0 \<and> pay_cov (fst h) = {}
      | Some (v, p) \<Rightarrow> snd h \<le> v \<and> pay_cov (fst h) \<subseteq> pay_cov p \<and> (snd h = v \<longrightarrow> pay_cov p \<subseteq> pay_cov (fst h)))"

fun phase_holds :: "'p round_phase \<Rightarrow> ('p live_payload option \<times> int) set" where
  "phase_holds (Sealed p v) = {(p, v)}"
| "phase_holds (Cleared p v q ds) = {(p, v)}"
| "phase_holds (Failing p v) = {(p, v)}"
| "phase_holds (Written q v ds n) = {(Some q, v)}"
| "phase_holds ph = {}"

fun phase_ok :: "(int \<times> 'p live_payload option) option \<Rightarrow> gostring set \<Rightarrow> 'p round_phase \<Rightarrow> bool" where
  "phase_ok row ks (Cleared p v q ds) \<longleftrightarrow> pay_cov p \<union> ks \<subseteq> covered (fst q)"
| "phase_ok row ks (Written q v ds n) \<longleftrightarrow> ks \<subseteq> row_cov row"
| "phase_ok row ks ph \<longleftrightarrow> True"

definition round_fine :: "(int \<times> 'p live_payload option) option \<Rightarrow> 'p live_round \<Rightarrow> bool" where
  "round_fine row r \<longleftrightarrow> list_all good (rd_Segments r) \<and> (\<forall>h\<in>phase_holds (rd_Phase r). held_ok row h) \<and>
     phase_ok row (seg_keys (set (rd_Segments r))) (rd_Phase r)"

definition ledger_ok :: "'p desk \<Rightarrow> bool" where
  "ledger_ok d \<longleftrightarrow> row_ok (dk_row d) \<and>
     held_ok (dk_row d) (lv_lastPayload (live_of d), lv_lastVersion (live_of d)) \<and>
     list_all (held_ok (dk_row d)) (dk_recovery d) \<and> list_all (round_fine (dk_row d)) (dk_rounds d) \<and>
     list_all good (lv_pending (live_of d)) \<and>
     list_all (\<lambda>x. good (du_Segment x)) (lv_deferredUnreflected (live_of d)) \<and>
     lv_supersededGeneration (live_of d) = 0"

definition round_keys :: "'p live_round \<Rightarrow> gostring set" where
  "round_keys r = (case rd_Phase r of Failing p v \<Rightarrow> {} | _ \<Rightarrow> seg_keys (set (rd_Segments r)))"

definition accounted :: "'p desk \<Rightarrow> gostring set" where
  "accounted d = pending_keys (live_of d) \<union> (\<Union>r\<in>set (dk_rounds d). round_keys r) \<union> row_cov (dk_row d)"

definition row_grows ::
    "(int \<times> 'p live_payload option) option \<Rightarrow> (int \<times> 'p live_payload option) option \<Rightarrow> bool" where
  "row_grows row row' \<longleftrightarrow> row_ok row' \<and> row_cov row \<subseteq> row_cov row' \<and> (\<forall>h. held_ok row h \<longrightarrow> held_ok row' h)"

definition advances :: "'p desk \<Rightarrow> 'p desk \<Rightarrow> bool" where
  "advances d d' \<longleftrightarrow> ledger_ok d' \<and> accounted d \<subseteq> accounted d' \<and> row_cov (dk_row d) \<subseteq> row_cov (dk_row d')"

lemma row_grows_refl: "row_ok row \<Longrightarrow> row_grows row row"
  by (simp add: row_grows_def)

lemma round_fine_grows: "row_grows row row' \<Longrightarrow> round_fine row r \<Longrightarrow> round_fine row' r"
  by (cases "rd_Phase r") (auto simp: row_grows_def round_fine_def)

lemma advancesI:
  assumes "ledger_ok d" "row_grows (dk_row d) (dk_row d')"
    and "held_ok (dk_row d') (lv_lastPayload (live_of d'), lv_lastVersion (live_of d'))"
    and "\<And>h. h \<in> set (dk_recovery d') \<Longrightarrow> h \<in> set (dk_recovery d) \<or> held_ok (dk_row d') h"
    and "\<And>r. r \<in> set (dk_rounds d') \<Longrightarrow> r \<in> set (dk_rounds d) \<or> round_fine (dk_row d') r"
    and "\<And>s. s \<in> set (lv_pending (live_of d')) \<Longrightarrow> good s"
    and "\<And>x. x \<in> set (lv_deferredUnreflected (live_of d')) \<Longrightarrow> good (du_Segment x)"
    and "pending_keys (live_of d) \<subseteq> accounted d'"
    and "\<And>r. r \<in> set (dk_rounds d) \<Longrightarrow> round_keys r \<subseteq> accounted d'"
    and "lv_supersededGeneration (live_of d') = lv_supersededGeneration (live_of d)"
  shows "advances d d'"
proof -
  have held: "held_ok (dk_row d') h" if "held_ok (dk_row d) h" for h using assms(2) that by (cases h) (auto simp: row_grows_def)
  have "list_all (round_fine (dk_row d')) (dk_rounds d')"
    using assms(1,2,5) round_fine_grows [OF assms(2)] by (auto simp: list_all_iff ledger_ok_def)
  moreover have "list_all (held_ok (dk_row d')) (dk_recovery d')"
    using assms(1,4) held by (metis ledger_ok_def list_all_iff)
  ultimately have "ledger_ok d'"
    using assms by (auto simp: ledger_ok_def list_all_iff row_grows_def)
  moreover have "accounted d \<subseteq> accounted d'"
    using assms(2,8,9) by (auto simp: accounted_def row_grows_def)
  ultimately show ?thesis using assms(2) by (simp add: advances_def row_grows_def)
qed

section \<open>Steps that leave the ledger alone\<close>

definition books ::
    "'p live \<Rightarrow> 'p live_payload option \<times> int \<times> TranscriptSegment list \<times> deferredUnreflectedSegment list \<times> nat" where
  "books l = (lv_lastPayload l, lv_lastVersion l, lv_pending l, lv_deferredUnreflected l, lv_supersededGeneration l)"

definition same_ledger :: "'p desk \<Rightarrow> 'p desk \<Rightarrow> bool" where
  "same_ledger d d' \<longleftrightarrow> books (live_of d') = books (live_of d) \<and> dk_recovery d' = dk_recovery d \<and>
     dk_rounds d' = dk_rounds d \<and> dk_row d' = dk_row d"

lemma ledger_same: "same_ledger d d' \<Longrightarrow> ledger_ok d \<Longrightarrow> advances d d'"
  by (simp add: same_ledger_def advances_def ledger_ok_def accounted_def pending_keys_def books_def)

lemma same_ledger_refl [simp]: "same_ledger d d"
  by (simp add: same_ledger_def)

lemma same_ledger_with [simp]:
  "same_ledger d (with_live f d') \<longleftrightarrow> books (f (live_of d')) = books (live_of d) \<and>
     dk_recovery d' = dk_recovery d \<and> dk_rounds d' = dk_rounds d \<and> dk_row d' = dk_row d"
  by (simp add: same_ledger_def)

lemma same_ledger_frame [simp]:
  "same_ledger d (d'\<lparr>dk_planners := p\<rparr>) = same_ledger d d'" "same_ledger d (d'\<lparr>dk_timers := ts\<rparr>) = same_ledger d d'"
  "same_ledger d (d'\<lparr>dk_started := b\<rparr>) = same_ledger d d'" "same_ledger d (d'\<lparr>dk_dispatches := gs\<rparr>) = same_ledger d d'"
  by (simp_all add: same_ledger_def)

lemma books_updates [simp]:
  "books (l\<lparr>lv_context := x\<rparr>) = books l" "books (l\<lparr>lv_stopped := b\<rparr>) = books l"
  "books (l\<lparr>lv_lastDeferredReason := why\<rparr>) = books l" "books (l\<lparr>lv_rerunRequested := b\<rparr>) = books l"
  "books (l\<lparr>lv_catchUpRequested := b\<rparr>) = books l" "books (l\<lparr>lv_coalescedTriggerCount := n\<rparr>) = books l"
  "books (l\<lparr>lv_analysisScheduled := b\<rparr>) = books l" "books (l\<lparr>lv_analysisTimer := g\<rparr>) = books l"
  "books (l\<lparr>lv_scheduledAt := t\<rparr>) = books l" "books (l\<lparr>lv_recoveryInFlight := b\<rparr>) = books l"
  by (simp_all add: books_def)

lemma same_ledger_cancel [simp]: "same_ledger d (cancelLiveAnalysisTimer d') = same_ledger d d'"
  by (simp add: cancelLiveAnalysisTimer_def Let_def same_ledger_def books_def)

lemma same_ledger_trans: "same_ledger a b \<Longrightarrow> same_ledger b c \<Longrightarrow> same_ledger a c"
  by (simp add: same_ledger_def)

lemma same_ledger_armed [simp]: "same_ledger d (armed t s r now d') = same_ledger d d'"
  by (simp add: armed_def Let_def same_ledger_def books_def)

lemma same_ledger_deferred [simp]: "same_ledger d (deferred_for r d') = same_ledger d d'"
  by (simp add: deferred_for_def same_ledger_def books_def)

lemma same_ledger_evaluate [simp]: "same_ledger d (evaluateLiveAnalysisTrigger c t now d)"
  by (simp add: evaluateLiveAnalysisTrigger_def Let_def split: prod.splits)

lemma same_ledger_steps [simp]:
  "same_ledger d (ensureMeetingContextPlanning c pre now d)"
  "same_ledger d (keep_fallback m d)"
  "same_ledger d (completeMeetingContextPlanning r ok v now d)" "same_ledger d (fire_timer g now d)"
  "same_ledger d (snd (claim_context_wait d))" "same_ledger d (note_context_use d)"
  "same_ledger d (close_session d)"
  by (auto simp: ensureMeetingContextPlanning_def completeMeetingContextPlanning_def fire_timer_def
      keep_fallback_def claim_context_wait_def note_context_use_def close_session_def Let_def split: option.splits)

section \<open>Buffering and dispatching\<close>

lemma ledger_okD:
  assumes "ledger_ok d"
  shows "row_ok (dk_row d)" "held_ok (dk_row d) (lv_lastPayload (live_of d), lv_lastVersion (live_of d))"
    "h \<in> set (dk_recovery d) \<Longrightarrow> held_ok (dk_row d) h" "r \<in> set (dk_rounds d) \<Longrightarrow> round_fine (dk_row d) r"
    "s \<in> set (lv_pending (live_of d)) \<Longrightarrow> good s"
    "x \<in> set (lv_deferredUnreflected (live_of d)) \<Longrightarrow> good (du_Segment x)"
    "list_all good (lv_pending (live_of d))" "lv_supersededGeneration (live_of d) = 0"
  using assms by (auto simp: ledger_ok_def list_all_iff)

lemma accounted_superset:
  "pending_keys (live_of d) \<subseteq> accounted d" "r \<in> set (dk_rounds d) \<Longrightarrow> round_keys r \<subseteq> accounted d"
  "row_cov (dk_row d) \<subseteq> accounted d"
  by (auto simp: accounted_def)

lemma row_ok_grows [simp]: "ledger_ok d \<Longrightarrow> row_grows (dk_row d) (dk_row d)"
  by (simp add: row_grows_refl ledger_ok_def)

text \<open>Steps of the buffer: the rounds, the row and what is held stay, pending finals are only added.\<close>

lemma ledger_pending:
  assumes "ledger_ok d" "dk_row d' = dk_row d" "dk_rounds d' = dk_rounds d"
    "held_ok (dk_row d) (lv_lastPayload (live_of d'), lv_lastVersion (live_of d'))"
    "\<And>h. h \<in> set (dk_recovery d') \<Longrightarrow> h \<in> set (dk_recovery d) \<or> held_ok (dk_row d) h"
    "lv_deferredUnreflected (live_of d') = lv_deferredUnreflected (live_of d)"
    "set (lv_pending (live_of d)) \<subseteq> set (lv_pending (live_of d'))"
    "\<And>s. s \<in> set (lv_pending (live_of d')) \<Longrightarrow> s \<in> set (lv_pending (live_of d)) \<or> good s"
    "lv_supersededGeneration (live_of d') = lv_supersededGeneration (live_of d)"
  shows "advances d d'"
proof (rule advancesI [OF assms(1)])
  have "pending_keys (live_of d) \<subseteq> pending_keys (live_of d')"
    unfolding pending_keys_alt using assms(7) by (rule seg_keys_mono)
  then show "pending_keys (live_of d) \<subseteq> accounted d'" by (auto simp: accounted_def)
  show "r \<in> set (dk_rounds d) \<Longrightarrow> round_keys r \<subseteq> accounted d'" for r
    using accounted_superset(2) [of r d'] assms(3) by simp
  show "s \<in> set (lv_pending (live_of d')) \<Longrightarrow> good s" for s using assms(8) ledger_okD(5) [OF assms(1)] by blast
qed (use assms ledger_okD(1,6) [OF assms(1)] in \<open>auto simp: row_grows_refl\<close>)

lemma deferred_append [simp]: "lv_deferredUnreflected (appendPendingLiveSegment s t l) = lv_deferredUnreflected l"
  by (simp add: appendPendingLiveSegment_def)

lemma memory_append [simp]:
  "lv_lastPayload (appendPendingLiveSegment s t l) = lv_lastPayload l"
  "lv_lastVersion (appendPendingLiveSegment s t l) = lv_lastVersion l"
  "lv_supersededGeneration (appendPendingLiveSegment s t l) = lv_supersededGeneration l"
  by (simp_all add: appendPendingLiveSegment_def)

lemma memory_requeue [simp]:
  "lv_lastPayload (requeueDeferredUnreflected n t l) = lv_lastPayload l"
  "lv_lastVersion (requeueDeferredUnreflected n t l) = lv_lastVersion l"
  "lv_deferredUnreflected (requeueDeferredUnreflected n t l) = lv_deferredUnreflected l"
  "lv_supersededGeneration (requeueDeferredUnreflected n t l) = lv_supersededGeneration l"
  using same_requeue [of l n t] by (simp_all add: same_but_pending_D)

lemma buffered:
  fixes now d
  assumes "accepts_final c s"
  defines "l' \<equiv> live_of (buffer_final c s now d)"
  shows "lv_pending l' = lv_pending (appendPendingLiveSegment s now (requeueDeferredUnreflected (ts_SequenceNo s) now (live_of d)))"
    "lv_lastPayload l' = lv_lastPayload (live_of d)" "lv_lastVersion l' = lv_lastVersion (live_of d)"
    "lv_deferredUnreflected l' = lv_deferredUnreflected (live_of d)"
    "lv_supersededGeneration l' = lv_supersededGeneration (live_of d)"
  using assms(1) by (auto simp: l'_def buffer_final_def Let_def count_chars_def)

lemma buffer_frame [simp]:
  "dk_rounds (buffer_final c s now d) = dk_rounds d" "dk_row (buffer_final c s now d) = dk_row d"
  "dk_recovery (buffer_final c s now d) = dk_recovery d"
  by (simp_all add: buffer_final_def)

lemma requeue_good:
  assumes "ledger_ok d"
  shows "list_all good (lv_pending (requeueDeferredUnreflected n t (live_of d)))"
  using pending_requeue(2) [of n t "live_of d"] ledger_okD(5,6) [OF assms] by (auto simp: list_all_iff)

lemma ledger_buffer:
  assumes "ledger_ok d" "accepts_final c s \<Longrightarrow> good s"
  shows "advances d (buffer_final c s now d)"
proof (cases "accepts_final c s")
  case True
  note b = buffered [OF True, of now d]
  show ?thesis
  proof (rule ledger_pending [OF assms(1)])
    show "set (lv_pending (live_of d)) \<subseteq> set (lv_pending (live_of (buffer_final c s now d)))"
      unfolding b(1) using pending_append(1) pending_requeue(1) by blast
    fix x assume "x \<in> set (lv_pending (live_of (buffer_final c s now d)))"
    then show "x \<in> set (lv_pending (live_of d)) \<or> good x"
      using pending_append(2) requeue_good [OF assms(1)] assms(2) [OF True] unfolding b(1) list_all_iff by blast
  qed (simp_all add: b ledger_okD [OF assms(1)])
qed (simp add: buffer_final_def ledger_same assms(1))

lemma buffered_key:
  assumes "ledger_ok d" "accepts_final c s" "0 < ts_SequenceNo s"
  shows "segment_key s \<in> accounted (buffer_final c s now d)"
  using appended_key [OF requeue_good [OF assms(1)] assms(3)] buffered(1) [OF assms(2), of now d]
  by (simp add: accounted_def pending_keys_def)

lemma ledger_start:
  assumes "ledger_ok d" "same_ledger d d'" shows "advances d (start_round c now d')"
proof (rule advancesI [OF assms(1)])
  let ?d = "start_round c now d'"
  note s = assms(2) [unfolded same_ledger_def books_def prod.inject]
  have l: "lv_pending (live_of ?d) = []" "lv_lastPayload (live_of ?d) = lv_lastPayload (live_of d)"
    "lv_lastVersion (live_of ?d) = lv_lastVersion (live_of d)"
    "lv_deferredUnreflected (live_of ?d) = lv_deferredUnreflected (live_of d)"
    "dk_rounds ?d = dk_rounds d @ [new_round (lv_pending (live_of d)) False]" "dk_row ?d = dk_row d"
    "dk_recovery ?d = dk_recovery d"
    using s by (simp_all add: start_round_def Let_def beginLiveRun_def)
  show "row_grows (dk_row d) (dk_row ?d)" using assms(1) by (simp add: l)
  show "held_ok (dk_row ?d) (lv_lastPayload (live_of ?d), lv_lastVersion (live_of ?d))"
    using ledger_okD(2) [OF assms(1)] by (simp add: l)
  show "r \<in> set (dk_rounds d) \<or> round_fine (dk_row ?d) r" if "r \<in> set (dk_rounds ?d)" for r
    using that ledger_okD(7) [OF assms(1)] by (auto simp: l round_fine_def new_round_def)
  show "pending_keys (live_of d) \<subseteq> accounted ?d"
    by (auto simp: accounted_def l round_keys_def new_round_def pending_keys_alt)
  show "r \<in> set (dk_rounds d) \<Longrightarrow> round_keys r \<subseteq> accounted ?d" for r by (auto simp: accounted_def l)
qed (use assms ledger_okD(6) in \<open>auto simp: start_round_def Let_def beginLiveRun_def same_ledger_def books_def\<close>)

lemma ledger_dispatch:
  assumes "ledger_ok d" shows "advances d (run_dispatch c g answer now later d)"
proof (cases "g \<in> set (dk_dispatches d)")
  case True
  let ?d = "d\<lparr>dk_dispatches := remove1 g (dk_dispatches d)\<rparr>"
  let ?d1 = "with_live (\<lambda>l. l\<lparr>lv_analysisScheduled := False, lv_analysisTimer := None, lv_scheduledAt := 0\<rparr>) ?d"
  have same: "same_ledger d ?d1" by (simp add: same_ledger_def books_def)
  have "same_ledger d (evaluateLiveAnalysisTrigger c ScheduledTimer later (deferred_for r ?d1))" for r
    by (rule same_ledger_trans [OF _ same_ledger_evaluate]) (simp only: same_ledger_deferred same)
  then have e: "advances d (evaluateLiveAnalysisTrigger c ScheduledTimer later (deferred_for r ?d1))" for r
    using ledger_same assms by blast
  have "advances d ?d1" "\<And>r. advances d (deferred_for r ?d1)"
    using same by (simp_all only: ledger_same assms same_ledger_deferred)
  moreover have "advances d (with_live f ?d1)" if "\<And>l. books (f l) = books l" for f
    by (rule ledger_same [OF _ assms]) (simp add: that)
  moreover have "advances d (with_live id ?d)" by (auto intro!: ledger_same assms)
  ultimately show ?thesis
    using True e ledger_start [OF assms same]
    by (auto simp: run_dispatch_def dispatchScheduledLiveAnalysis_def Let_def split: status_check.splits prod.splits)
qed (simp add: run_dispatch_def ledger_same assms)

section \<open>Rounds\<close>

lemma ledger_round:
  assumes "ledger_ok d" "k < length (dk_rounds d)" "row_grows (dk_row d) (dk_row d')"
    and "held_ok (dk_row d') (lv_lastPayload (live_of d'), lv_lastVersion (live_of d'))"
    and "dk_recovery d' = dk_recovery d"
    and "\<And>r. r \<in> set (dk_rounds d') \<Longrightarrow> r \<in> set (dk_rounds d) \<or> round_fine (dk_row d') r"
    and "\<And>r. r \<in> set (dk_rounds d) \<Longrightarrow> r \<noteq> dk_rounds d ! k \<Longrightarrow> r \<in> set (dk_rounds d')"
    and "\<And>s. s \<in> set (lv_pending (live_of d')) \<Longrightarrow> good s"
    and "\<And>x. x \<in> set (lv_deferredUnreflected (live_of d')) \<Longrightarrow> good (du_Segment x)"
    and "pending_keys (live_of d) \<subseteq> accounted d'"
    and "round_keys (dk_rounds d ! k) \<subseteq> accounted d'"
    and "lv_supersededGeneration (live_of d') = lv_supersededGeneration (live_of d)"
  shows "advances d d'"
proof (rule advancesI [OF assms(1,3,4) _ assms(6,8,9,10)])
  fix r assume "r \<in> set (dk_rounds d)"
  then show "round_keys r \<subseteq> accounted d'"
    using assms(7,11) accounted_superset(2) [of r d'] by (cases "r = dk_rounds d ! k") auto
qed (use assms(5,12) in auto)

lemma round_at: "ledger_ok d \<Longrightarrow> k < length (dk_rounds d) \<Longrightarrow> round_fine (dk_row d) (dk_rounds d ! k)"
  by (rule ledger_okD(4)) simp_all

lemma phase_elements:
  "r \<in> set (dk_rounds (set_phase k ph d)) \<Longrightarrow> r \<in> set (dk_rounds d) \<or> r = (dk_rounds d ! k)\<lparr>rd_Phase := ph\<rparr>"
  "r \<in> set (dk_rounds (drop_round k d)) \<Longrightarrow> r \<in> set (dk_rounds d)"
  by (auto simp: set_phase_def drop_round_def dest: set_update_subset_insert [THEN subsetD] in_set_takeD in_set_dropD)

lemma kept_elements:
  "r \<in> set (dk_rounds d) \<Longrightarrow> r \<noteq> dk_rounds d ! k \<Longrightarrow> r \<in> set (dk_rounds (set_phase k ph d))"
  "k < length (dk_rounds d) \<Longrightarrow> r \<in> set (dk_rounds d) \<Longrightarrow> r \<noteq> dk_rounds d ! k \<Longrightarrow> r \<in> set (dk_rounds (drop_round k d))"
proof -
  show "r \<in> set (dk_rounds d) \<Longrightarrow> r \<noteq> dk_rounds d ! k \<Longrightarrow> r \<in> set (dk_rounds (set_phase k ph d))"
    by (auto simp: set_phase_def in_set_conv_nth) (metis length_list_update nth_list_update_neq)
  show "k < length (dk_rounds d) \<Longrightarrow> r \<in> set (dk_rounds d) \<Longrightarrow> r \<noteq> dk_rounds d ! k \<Longrightarrow> r \<in> set (dk_rounds (drop_round k d))"
    using id_take_nth_drop [of k "dk_rounds d"] unfolding drop_round_def
    by simp (metis Un_iff set_ConsD set_append)
qed

text \<open>A round whose segments stay its own moves to another phase.\<close>

lemma moved_round:
  assumes "k < length (dk_rounds d)" "\<And>p v. ph \<noteq> Failing p v"
  shows "round_keys (dk_rounds d ! k) \<subseteq> accounted ((set_phase k ph d)\<lparr>dk_row := row\<rparr>)"
    "round_keys (dk_rounds d ! k) \<subseteq> accounted (set_phase k ph d)"
proof -
  let ?r = "(dk_rounds d ! k)\<lparr>rd_Phase := ph\<rparr>"
  have "?r \<in> set (dk_rounds (set_phase k ph d))" using assms(1) by (simp add: set_phase_def set_update_memI)
  moreover have "round_keys (dk_rounds d ! k) \<subseteq> round_keys ?r"
    using assms(2) by (auto simp: round_keys_def split: round_phase.splits)
  ultimately show "round_keys (dk_rounds d ! k) \<subseteq> accounted (set_phase k ph d)"
    "round_keys (dk_rounds d ! k) \<subseteq> accounted ((set_phase k ph d)\<lparr>dk_row := row\<rparr>)"
    by (auto simp: accounted_def)
qed

lemma ledger_phase:
  assumes "ledger_ok d" "k < length (dk_rounds d)" "\<And>p v. ph \<noteq> Failing p v"
    and "round_fine (dk_row d) ((dk_rounds d ! k)\<lparr>rd_Phase := ph\<rparr>)"
    and "same_ledger d d0"
  shows "advances d (set_phase k ph d0)"
proof (rule ledger_round [OF assms(1,2)])
  note s = assms(5) [unfolded same_ledger_def books_def prod.inject]
  have "round_keys (dk_rounds d0 ! k) \<subseteq> accounted (set_phase k ph d0)"
    using assms(2,3) s by (intro moved_round) auto
  then show "round_keys (dk_rounds d ! k) \<subseteq> accounted (set_phase k ph d0)" using s by simp
  show "r \<in> set (dk_rounds d) \<or> round_fine (dk_row (set_phase k ph d0)) r"
    if "r \<in> set (dk_rounds (set_phase k ph d0))" for r
    using phase_elements(1) [OF that] s assms(4) by auto
  show "r \<in> set (dk_rounds (set_phase k ph d0))" if "r \<in> set (dk_rounds d)" "r \<noteq> dk_rounds d ! k" for r
    using kept_elements(1) [of r d0 k ph] that s by auto
  show "pending_keys (live_of d) \<subseteq> accounted (set_phase k ph d0)"
    using s by (auto simp: accounted_def pending_keys_def)
qed (use assms(5) ledger_okD [OF assms(1)] in \<open>auto simp: same_ledger_def books_def row_grows_refl\<close>)

lemma ledger_generation:
  assumes "ledger_ok d" "k < length (dk_rounds d)" shows "advances d (round_generation k d)"
proof (rule ledger_round [OF assms])
  let ?r = "(dk_rounds d ! k)\<lparr>rd_Generation := lv_runningGeneration (live_of d), rd_Phase := Named\<rparr>"
  have rs: "dk_rounds (round_generation k d) = (dk_rounds d)[k := ?r]" by (simp add: round_generation_def Let_def)
  show "r \<in> set (dk_rounds d) \<or> round_fine (dk_row (round_generation k d)) r"
    if "r \<in> set (dk_rounds (round_generation k d))" for r
    using that round_at [OF assms] set_update_subset_insert [of "dk_rounds d" k ?r]
    by (auto simp: rs round_fine_def)
  show "r \<in> set (dk_rounds (round_generation k d))" if "r \<in> set (dk_rounds d)" "r \<noteq> dk_rounds d ! k" for r
    using kept_elements(1) [of r d k Named] that unfolding rs
    by (auto simp: in_set_conv_nth) (metis length_list_update nth_list_update_neq)
  have "?r \<in> set (dk_rounds (round_generation k d))" using assms(2) by (simp add: rs set_update_memI)
  then have "round_keys ?r \<subseteq> accounted (round_generation k d)" by (rule accounted_superset)
  then show "round_keys (dk_rounds d ! k) \<subseteq> accounted (round_generation k d)"
    by (auto simp: round_keys_def split: round_phase.splits)
qed (use ledger_okD [OF assms(1)] in \<open>auto simp: round_generation_def Let_def row_grows_refl accounted_def pending_keys_def\<close>)

lemma held_row: "held_ok row (row_payload row)"
  by (cases row) (auto simp: held_ok_def row_payload_def pay_cov_def split: prod.splits)

lemma held_seeded:
  assumes "ledger_ok d" "held_ok (dk_row d) pv" shows "held_ok (dk_row d) (seeded_payload ok pv d)"
  using assms(2) ledger_okD(2) [OF assms(1)] held_row [of "dk_row d"]
  by (auto simp: seeded_payload_def Let_def)

lemma seed_frame [simp]:
  "dk_row (seedLiveAnalysisState ok pv d) = dk_row d" "dk_recovery (seedLiveAnalysisState ok pv d) = dk_recovery d"
  "dk_rounds (seedLiveAnalysisState ok pv d) = dk_rounds d"
  "lv_pending (live_of (seedLiveAnalysisState ok pv d)) = lv_pending (live_of d)"
  "lv_deferredUnreflected (live_of (seedLiveAnalysisState ok pv d)) = lv_deferredUnreflected (live_of d)"
  "lv_supersededGeneration (live_of (seedLiveAnalysisState ok pv d)) = lv_supersededGeneration (live_of d)"
  "(lv_lastPayload (live_of (seedLiveAnalysisState ok pv d)), lv_lastVersion (live_of (seedLiveAnalysisState ok pv d)))
     = seeded_payload ok pv d"
  by (simp_all add: seedLiveAnalysisState_def split: prod.splits)

lemma ledger_seed:
  assumes "ledger_ok d" "held_ok (dk_row d) pv" shows "advances d (seedLiveAnalysisState ok pv d)"
  using held_seeded [OF assms] ledger_okD [OF assms(1)] by (intro ledger_pending [OF assms(1)]) auto

lemma advances_trans: "advances a b \<Longrightarrow> advances b c \<Longrightarrow> advances a c"
  by (auto simp: advances_def)

lemma ledger_seal:
  assumes "ledger_ok d" "k < length (dk_rounds d)" "rd_Phase (dk_rounds d ! k) = Named"
  shows "advances d (round_seal ok k d)"
proof -
  let ?l = "live_of d"
  have fine: "round_fine (dk_row d) ((dk_rounds d ! k)\<lparr>rd_Phase := Sealed p v\<rparr>)" if "held_ok (dk_row d) (p, v)" for p v
    using round_at [OF assms(1,2)] that by (simp add: round_fine_def)
  show ?thesis
  proof (cases "lv_versionSeeded ?l")
    case True
    have "advances d (set_phase k (Sealed (lv_lastPayload ?l) (lv_lastVersion ?l)) d)"
      by (rule ledger_phase [OF assms(1,2)]) (simp_all add: fine ledger_okD [OF assms(1)])
    then show ?thesis using True by (simp add: round_seal_def Let_def)
  next
    case False
    let ?pv = "(lv_lastPayload ?l, lv_lastVersion ?l)"
    obtain p v where pv: "seeded_payload ok ?pv d = (p, v)" by fastforce
    have held: "held_ok (dk_row d) (p, v)" using held_seeded [OF assms(1) ledger_okD(2) [OF assms(1)], of ok] pv by simp
    have seed: "advances d (seedLiveAnalysisState ok ?pv d)" by (rule ledger_seed [OF assms(1) ledger_okD(2) [OF assms(1)]])
    have "advances (seedLiveAnalysisState ok ?pv d) (set_phase k (Sealed p v) (seedLiveAnalysisState ok ?pv d))"
      by (rule ledger_phase) (use seed assms(2) fine [OF held] in \<open>simp_all add: advances_def\<close>)
    from advances_trans [OF seed this] show ?thesis using False pv by (simp add: round_seal_def Let_def)
  qed
qed

lemma finish_books [simp]: "books (finishLiveRun g l) = books l" "lv_pending (finishLiveRun g l) = lv_pending l"
  by (simp_all add: finishLiveRun_def books_def)

lemma restore_books [simp]:
  "lv_lastPayload (restorePendingLiveSegments ss a b l) = lv_lastPayload l"
  "lv_lastVersion (restorePendingLiveSegments ss a b l) = lv_lastVersion l"
  "lv_deferredUnreflected (restorePendingLiveSegments ss a b l) = lv_deferredUnreflected l"
  "lv_supersededGeneration (restorePendingLiveSegments ss a b l) = lv_supersededGeneration l"
  using same_restore [of l ss a b] by (simp_all add: same_but_pending_D)

lemma released [simp]:
  "lv_lastPayload (release_round r ss t l) = lv_lastPayload l"
  "lv_lastVersion (release_round r ss t l) = lv_lastVersion l"
  "lv_deferredUnreflected (release_round r ss t l) = lv_deferredUnreflected l"
  "lv_supersededGeneration (release_round r ss t l) = lv_supersededGeneration l"
  by (simp_all add: release_round_def finishLiveRun_def)

lemma released_pending:
  "set (lv_pending l) \<subseteq> set (lv_pending (release_round r ss t l))"
  "set (lv_pending (release_round r ss t l)) \<subseteq> set (lv_pending l) \<union> set ss"
  "list_all good (lv_pending l) \<Longrightarrow> list_all good ss \<Longrightarrow> seg_keys (set ss) \<subseteq> pending_keys (release_round r ss t l)"
proof -
  let ?l = "finishLiveRun (rd_Generation r) l"
  have p: "lv_pending (release_round r ss t l) =
      lv_pending (restorePendingLiveSegments ss (lv_runningOldestPendingAt l) t ?l)"
    by (simp add: release_round_def)
  show "set (lv_pending l) \<subseteq> set (lv_pending (release_round r ss t l))"
    "set (lv_pending (release_round r ss t l)) \<subseteq> set (lv_pending l) \<union> set ss"
    using pending_restore(1) [of ?l ss "lv_runningOldestPendingAt l" t]
      pending_restore(2) [of ss "lv_runningOldestPendingAt l" t ?l] unfolding p by simp_all
  show "seg_keys (set ss) \<subseteq> pending_keys (release_round r ss t l)"
    if "list_all good (lv_pending l)" "list_all good ss"
    using restored_keys [of ?l ss "lv_runningOldestPendingAt l" t] that by (simp add: p pending_keys_def)
qed

text \<open>A round is released: its segments (or those the row does not cover) are pending again.\<close>

definition gives_back :: "'p live_round \<Rightarrow> TranscriptSegment list \<Rightarrow> 'p live \<Rightarrow> 'p live \<Rightarrow> bool" where
  "gives_back r ss l l' \<longleftrightarrow> (\<exists>t. lv_pending l' = lv_pending (release_round r ss t l)) \<and>
     lv_deferredUnreflected l' = lv_deferredUnreflected l \<and> lv_supersededGeneration l' = lv_supersededGeneration l"

lemma ledger_release:
  assumes "ledger_ok d" "k < length (dk_rounds d)" "r = dk_rounds d ! k"
    and "gives_back r ss (live_of d) (live_of d')" "set ss \<subseteq> set (rd_Segments r)"
    and "held_ok (dk_row d) (lv_lastPayload (live_of d'), lv_lastVersion (live_of d'))"
    and "seg_keys (set (rd_Segments r)) \<subseteq> seg_keys (set ss) \<union> row_cov (dk_row d)"
    and "dk_row d' = dk_row d" "dk_recovery d' = dk_recovery d"
    and "\<And>x. x \<in> set (dk_rounds d') \<Longrightarrow> x \<in> set (dk_rounds d) \<or> round_fine (dk_row d) x"
    and "\<And>x. x \<in> set (dk_rounds d) \<Longrightarrow> x \<noteq> dk_rounds d ! k \<Longrightarrow> x \<in> set (dk_rounds d')"
  shows "advances d d'"
proof (rule ledger_round [OF assms(1,2)])
  obtain t where t: "lv_pending (live_of d') = lv_pending (release_round r ss t (live_of d))"
    using assms(4) by (auto simp: gives_back_def)
  have good_ss: "list_all good ss"
    using round_at [OF assms(1,2)] assms(3,5) by (auto simp: round_fine_def list_all_iff)
  show "s \<in> set (lv_pending (live_of d')) \<Longrightarrow> good s" for s
    using released_pending(2) [of r ss t "live_of d"] ledger_okD(5) [OF assms(1)] good_ss
    unfolding t list_all_iff by blast
  have "set (lv_pending (live_of d)) \<subseteq> set (lv_pending (live_of d'))" unfolding t by (rule released_pending)
  then show "pending_keys (live_of d) \<subseteq> accounted d'"
    unfolding pending_keys_alt accounted_def by (auto dest: seg_keys_mono)
  have "seg_keys (set ss) \<subseteq> pending_keys (live_of d')"
    using released_pending(3) [OF ledger_okD(7) [OF assms(1)] good_ss, of r t] t by (simp add: pending_keys_def)
  then have "seg_keys (set (rd_Segments r)) \<subseteq> accounted d'"
    using assms(7,8) unfolding accounted_def by auto
  then show "round_keys (dk_rounds d ! k) \<subseteq> accounted d'"
    using assms(3) by (auto simp: round_keys_def split: round_phase.splits)
qed (use assms ledger_okD [OF assms(1)] in \<open>auto simp: gives_back_def row_grows_refl\<close>)

lemma failed_books [simp]:
  "lv_pending (failed_attempt c t l) = lv_pending l" "lv_lastPayload (failed_attempt c t l) = lv_lastPayload l"
  "lv_lastVersion (failed_attempt c t l) = lv_lastVersion l"
  "lv_deferredUnreflected (failed_attempt c t l) = lv_deferredUnreflected l"
  "lv_supersededGeneration (failed_attempt c t l) = lv_supersededGeneration l"
  by (simp_all add: failed_attempt_def)

lemma ledger_panic:
  assumes "ledger_ok d" "k < length (dk_rounds d)" shows "advances d (round_panic c k now d)"
proof (rule ledger_release [OF assms refl, where ss = "rd_Segments (dk_rounds d ! k)"])
  show "gives_back (dk_rounds d ! k) (rd_Segments (dk_rounds d ! k)) (live_of d) (live_of (round_panic c k now d))"
    by (auto simp: gives_back_def round_panic_def Let_def)
qed (use assms ledger_okD [OF assms(1)] in
  \<open>auto simp: round_panic_def Let_def dest: phase_elements(2) intro: kept_elements(2)\<close>)

lemma ledger_fail:
  assumes "ledger_ok d" "k < length (dk_rounds d)" shows "advances d (handleLiveAnalysisFailure c retry k now d)"
proof (cases "rd_Phase (dk_rounds d ! k)")
  case (Sealed p v)
  let ?r = "dk_rounds d ! k"
  define d0 where "d0 = with_live (\<lambda>l. let l1 = release_round ?r (rd_Segments ?r) now l in
     if retry then (failed_attempt c now l1)\<lparr>lv_retryBlocked := False\<rparr>
     else l1\<lparr>lv_nextAttemptAt := 0, lv_retryBlocked := True\<rparr>) d"
  have d: "handleLiveAnalysisFailure c retry k now d = set_phase k (Failing p v) d0" "dk_rounds d0 = dk_rounds d"
    "dk_row d0 = dk_row d" "dk_recovery d0 = dk_recovery d"
    by (simp_all add: handleLiveAnalysisFailure_def Sealed d0_def Let_def)
  have l: "gives_back ?r (rd_Segments ?r) (live_of d) (live_of d0)"
    "lv_lastPayload (live_of d0) = lv_lastPayload (live_of d)" "lv_lastVersion (live_of d0) = lv_lastVersion (live_of d)"
    by (auto simp: gives_back_def d0_def Let_def)
  show ?thesis
    unfolding d(1)
  proof (rule ledger_release [OF assms refl, where ss = "rd_Segments ?r"])
    fix x assume "x \<in> set (dk_rounds (set_phase k (Failing p v) d0))"
    then show "x \<in> set (dk_rounds d) \<or> round_fine (dk_row d) x"
      using phase_elements(1) [of x k "Failing p v" d0] round_at [OF assms] Sealed by (auto simp: d round_fine_def)
  next
    fix x assume "x \<in> set (dk_rounds d)" "x \<noteq> ?r"
    then show "x \<in> set (dk_rounds (set_phase k (Failing p v) d0))"
      using kept_elements(1) [of x d0 k "Failing p v"] by (simp add: d)
  qed (use ledger_okD(2) [OF assms(1)] l in \<open>auto simp: d\<close>)
qed (use assms in \<open>simp_all add: handleLiveAnalysisFailure_def ledger_same\<close>)

lemma uncovered_remain:
  "seg_keys (set ss) \<subseteq> seg_keys (set (filterAlreadyAnalyzedSegments ss c)) \<union> covered c"
  by (auto simp: seg_keys_def filterAlreadyAnalyzedSegments_def Let_def covered_iff)

lemma ledger_stale:
  assumes "ledger_ok d" "k < length (dk_rounds d)" shows "advances d (handleStaleLiveAnalysisResult ok k now d)"
proof -
  let ?r = "dk_rounds d ! k" and ?d = "handleStaleLiveAnalysisResult ok k now d"
  define current where "current = (if ok then dk_row d else None)"
  define ss where "ss = (case current of None \<Rightarrow> rd_Segments ?r
    | Some (v, p) \<Rightarrow> filterAlreadyAnalyzedSegments (rd_Segments ?r) (previousLiveAnalysisState p))"
  note h = handleStaleLiveAnalysisResult_def Let_def current_def [symmetric] ss_def [symmetric]
  show ?thesis
  proof (rule ledger_release [OF assms refl, where ss = ss])
    show "gives_back ?r ss (live_of d) (live_of ?d)"
      by (cases current)
        (auto simp: gives_back_def handleStaleLiveAnalysisResult_def Let_def current_def [symmetric] ss_def)
    show "set ss \<subseteq> set (rd_Segments ?r)"
      by (auto simp: ss_def filterAlreadyAnalyzedSegments_def Let_def split: option.splits)
    have "held_ok (dk_row d) (p, v)" if "current = Some (v, p)" for v p
      using that held_row [of "dk_row d"] by (simp add: current_def row_payload_def split: if_splits)
    then show "held_ok (dk_row d) (lv_lastPayload (live_of ?d), lv_lastVersion (live_of ?d))"
      using ledger_okD(2) [OF assms(1)] by (auto simp: h split: option.splits prod.splits)
    have "seg_keys (set (rd_Segments ?r)) \<subseteq> seg_keys (set ss) \<union> pay_cov p" if "current = Some (v, p)" for v p
      using uncovered_remain [of "rd_Segments ?r" "previousLiveAnalysisState p"] that by (simp add: ss_def pay_cov_def)
    moreover have "pay_cov p = row_cov (dk_row d)" if "current = Some (v, p)" for v p
      using that by (simp add: current_def row_cov_def row_payload_def pay_cov_def split: if_splits)
    ultimately show "seg_keys (set (rd_Segments ?r)) \<subseteq> seg_keys (set ss) \<union> row_cov (dk_row d)"
      by (cases current) (auto simp: ss_def)
  qed (use assms in \<open>auto simp: h dest: phase_elements(2) intro: kept_elements(2) split: option.splits\<close>)
qed

lemma ledger_result:
  assumes "ledger_ok d" "k < length (dk_rounds d)" shows "advances d (round_result f why rest k d)"
proof (cases "rd_Phase (dk_rounds d ! k)")
  case (Sealed p v)
  let ?r = "dk_rounds d ! k"
  obtain cov ds where c: "addLiveAnalysisCoverage f why (rd_Segments ?r) (previousLiveAnalysisState p) = (cov, ds)"
    by fastforce
  have r: "round_fine (dk_row d) ?r" by (rule round_at [OF assms])
  have "seg_keys (set (rd_Segments ?r)) \<subseteq> covered cov" "pay_cov p \<subseteq> covered cov"
    using addLiveAnalysisCoverage_covers [where f = f and u = why and ss = "rd_Segments ?r" and c = "previousLiveAnalysisState p"] c r
    by (auto simp: seg_keys_def pay_cov_def round_fine_def list_all_iff good_final)
  then have "round_fine (dk_row d) (?r\<lparr>rd_Phase := Cleared p v (cov, rest) ds\<rparr>)"
    using r by (simp add: round_fine_def Sealed)
  then have "advances d (set_phase k (Cleared p v (cov, rest) ds) (with_live id d))"
    by (intro ledger_phase assms) simp_all
  moreover have "\<not> liveRunSuperseded (rd_Generation ?r) (live_of d)"
    using ledger_okD(8) [OF assms(1)] by (auto simp: liveRunSuperseded_def)
  ultimately show ?thesis by (simp add: round_result_def Sealed c Let_def)
qed (use assms in \<open>simp_all add: round_result_def ledger_same\<close>)

section \<open>Writing the row\<close>

lemma payload_coverage [simp]: "previousLiveAnalysisState (Some q) = fst q"
  by (cases q) simp

lemma row_grows_next:
  assumes "row_ok row" "held_ok row (p, v)" "swap_row v (v + 1) (Some q) row = Some row'" "pay_cov p \<subseteq> covered (fst q)"
  shows "row_grows row (Some row')" "row' = (v + 1, Some q)"
  using assms
  by (auto simp: swap_row_def row_grows_def row_ok_def held_ok_def row_cov_def row_payload_def pay_cov_def
      split: option.splits if_splits) blast+

lemma row_grows_same_version:
  assumes "row_ok row" "held_ok row (p, v)" "swap_row v v p row = Some row'"
  shows "row_grows row (Some row')"
  using assms
  by (auto simp: swap_row_def row_grows_def row_ok_def held_ok_def row_cov_def row_payload_def pay_cov_def
      split: option.splits if_splits)

text \<open>The row grows, nothing else changes but the phase of a round or a round that is failing ends.\<close>

lemma ledger_row:
  assumes "ledger_ok d" "k < length (dk_rounds d)" "row_grows (dk_row d) row"
    "books (live_of d') = books (live_of d)" "dk_recovery d' = dk_recovery d" "dk_row d' = row"
    "\<And>r. r \<in> set (dk_rounds d') \<Longrightarrow> r \<in> set (dk_rounds d) \<or> round_fine row r"
    "\<And>r. r \<in> set (dk_rounds d) \<Longrightarrow> r \<noteq> dk_rounds d ! k \<Longrightarrow> r \<in> set (dk_rounds d')"
    "round_keys (dk_rounds d ! k) \<subseteq> accounted d'"
  shows "advances d d'"
proof (rule ledger_round [OF assms(1,2)])
  have "held_ok row h" if "held_ok (dk_row d) h" for h using assms(3) that by (cases h) (auto simp: row_grows_def)
  then show "held_ok (dk_row d') (lv_lastPayload (live_of d'), lv_lastVersion (live_of d'))"
    using ledger_okD(2) [OF assms(1)] assms(4,6) by (auto simp: books_def)
  show "pending_keys (live_of d) \<subseteq> accounted d'"
    using assms(4) by (auto simp: books_def accounted_def pending_keys_def)
qed (use assms ledger_okD [OF assms(1)] in \<open>auto simp: books_def\<close>)

lemma ledger_write_failure:
  assumes "ledger_ok d" "k < length (dk_rounds d)" shows "advances d (round_write_failure ok ok' k d)"
proof (cases "rd_Phase (dk_rounds d ! k)")
  case (Failing p v)
  have held: "held_ok (dk_row d) (p, v)" using round_at [OF assms] by (simp add: round_fine_def Failing)
  have keys: "round_keys (dk_rounds d ! k) = {}" by (simp add: round_keys_def Failing)
  have drop: "advances d ((drop_round k d)\<lparr>dk_row := row\<rparr>)" if "row_grows (dk_row d) row" for row
  proof (rule ledger_row [OF assms that])
    fix r assume "r \<in> set (dk_rounds d)" "r \<noteq> dk_rounds d ! k"
    then show "r \<in> set (dk_rounds ((drop_round k d)\<lparr>dk_row := row\<rparr>))" using kept_elements(2) [OF assms(2)] by simp
  qed (auto simp: keys dest: phase_elements(2))
  have plain: "advances d (drop_round k d)" using drop [of "dk_row d"] row_ok_grows [OF assms(1)] by (simp add: drop_round_def)
  have adopt: "advances (drop_round k d) (with_live (adopt_row p' v') (drop_round k d))"
    if "dk_row d = Some (v', p')" for p' v'
  proof (rule ledger_pending)
    show "ledger_ok (drop_round k d)" using plain by (simp add: advances_def)
    show "held_ok (dk_row (drop_round k d)) (lv_lastPayload (live_of (with_live (adopt_row p' v') (drop_round k d))),
        lv_lastVersion (live_of (with_live (adopt_row p' v') (drop_round k d))))"
      using that held_row [of "dk_row d"] ledger_okD(2) [OF assms(1)] by (auto simp: adopt_row_def row_payload_def)
  qed (auto simp: adopt_row_def split: if_splits)
  show ?thesis
    using plain drop [OF row_grows_same_version [OF ledger_okD(1) [OF assms(1)] held]] advances_trans [OF plain adopt]
    by (auto simp: round_write_failure_def Failing Let_def split: option.splits)
qed (use assms in \<open>simp_all add: round_write_failure_def ledger_same\<close>)

text \<open>The round at \<open>k\<close> has written the row \<open>row\<close> and goes on as \<open>Written\<close>.\<close>

lemma ledger_written:
  assumes "ledger_ok d" "k < length (dk_rounds d)" "row_grows (dk_row d) row" "row = Some (w, Some q)"
    and "seg_keys (set (rd_Segments (dk_rounds d ! k))) \<subseteq> covered (fst q)"
  shows "advances d ((set_phase k (Written q w ds n) d)\<lparr>dk_row := row\<rparr>)"
proof (rule ledger_row [OF assms(1,2,3)])
  fix r assume "r \<in> set (dk_rounds ((set_phase k (Written q w ds n) d)\<lparr>dk_row := row\<rparr>))"
  moreover have "round_fine row ((dk_rounds d ! k)\<lparr>rd_Phase := Written q w ds n\<rparr>)"
    using round_at [OF assms(1,2)] assms(4,5)
    by (auto simp: round_fine_def held_ok_def pay_cov_def row_cov_def row_payload_def)
  ultimately show "r \<in> set (dk_rounds d) \<or> round_fine row r"
    using phase_elements(1) [of r k "Written q w ds n" d] by auto
next
  show "round_keys (dk_rounds d ! k) \<subseteq> accounted ((set_phase k (Written q w ds n) d)\<lparr>dk_row := row\<rparr>)"
    by (rule moved_round [OF assms(2)]) simp
qed (simp_all add: kept_elements(1))

lemma ledger_persist:
  assumes "ledger_ok d" "k < length (dk_rounds d)" shows "advances d (round_persist c ok ok' k now d)"
proof (cases "rd_Phase (dk_rounds d ! k)")
  case (Cleared p v q ds)
  have held: "held_ok (dk_row d) (p, v)" and cov: "pay_cov p \<subseteq> covered (fst q)"
    "seg_keys (set (rd_Segments (dk_rounds d ! k))) \<subseteq> covered (fst q)"
    using round_at [OF assms] by (simp_all add: round_fine_def Cleared)
  have "advances d ((set_phase k (Written q (v + 1) ds n) d)\<lparr>dk_row := Some row\<rparr>)"
    if "swap_row v (v + 1) (Some q) (dk_row d) = Some row" for row n
    using row_grows_next [OF ledger_okD(1) [OF assms(1)] held that cov(1)]
    by (intro ledger_written assms cov) simp_all
  then show ?thesis
    using ledger_panic [OF assms] ledger_stale [OF assms]
    by (auto simp: round_persist_def Cleared swap_row_def split: option.splits if_splits)
qed (use assms in \<open>simp_all add: round_persist_def ledger_same\<close>)

lemma ledger_reorganize:
  assumes "ledger_ok d" "k < length (dk_rounds d)" shows "advances d (round_reorganize ok ok' rest k d)"
proof (cases "rd_Phase (dk_rounds d ! k)")
  case (Written q v ds n)
  have r: "held_ok (dk_row d) (Some q, v)" "seg_keys (set (rd_Segments (dk_rounds d ! k))) \<subseteq> row_cov (dk_row d)"
    using round_at [OF assms] by (simp_all add: round_fine_def Written)
  have here: "seg_keys (set (rd_Segments (dk_rounds d ! k))) \<subseteq> covered (fst q)"
    if "swap_row v (v + 1) p (dk_row d) = Some row" for p row
    using r that by (auto simp: swap_row_def held_ok_def row_cov_def row_payload_def pay_cov_def split: option.splits if_splits)
  have "advances d ((set_phase k (Written (fst q, rest) (v + 1) ds n) d)\<lparr>dk_row := Some row\<rparr>)"
    if "swap_row v (v + 1) (Some (fst q, rest)) (dk_row d) = Some row" for row
  proof (rule ledger_written [OF assms])
    have "pay_cov (Some q) \<subseteq> covered (fst (fst q, rest))" by (simp add: pay_cov_def)
    from row_grows_next [OF ledger_okD(1) [OF assms(1)] r(1) that this]
    show "row_grows (dk_row d) (Some row)" "Some row = Some (v + 1, Some (fst q, rest))" by simp_all
  qed (use here [OF that] in simp)
  moreover have "advances d (set_phase k (Written p' v' ds n) d)" if "dk_row d = Some (v', Some p')" for v' p'
  proof (rule ledger_phase [OF assms])
    show "round_fine (dk_row d) ((dk_rounds d ! k)\<lparr>rd_Phase := Written p' v' ds n\<rparr>)"
      using round_at [OF assms] r(2) that held_row [of "dk_row d"] by (simp add: round_fine_def row_payload_def)
  qed simp_all
  ultimately show ?thesis
    using assms(1) by (auto simp: round_reorganize_def Written ledger_same split: option.splits)
qed (use assms in \<open>simp_all add: round_reorganize_def ledger_same\<close>)

lemma removed_covered: "seg_keys (set p) \<subseteq> seg_keys (set (removeCoveredSegments p ss)) \<union> seg_keys (set ss)"
  by (auto simp: seg_keys_def removeCoveredSegments_def Let_def)

lemma deferred_from_round:
  "x \<in> set (deferredUnreflectedFromCoverage ss ds) \<Longrightarrow> du_Segment x \<in> set ss"
  by (auto simp: deferredUnreflectedFromCoverage_def List.map_filter_def Let_def split: option.splits if_splits)

lemma ledger_finish:
  assumes "ledger_ok d" "k < length (dk_rounds d)" shows "advances d (round_finish k now d)"
proof (cases "rd_Phase (dk_rounds d ! k)")
  case (Written q v ds n)
  let ?r = "dk_rounds d ! k" and ?d = "round_finish k now d"
  have r: "held_ok (dk_row d) (Some q, v)" "seg_keys (set (rd_Segments ?r)) \<subseteq> row_cov (dk_row d)"
    "list_all good (rd_Segments ?r)"
    using round_at [OF assms] by (simp_all add: round_fine_def Written)
  have l: "lv_pending (live_of ?d) = removeCoveredSegments (lv_pending (live_of d)) (rd_Segments ?r)"
    "lv_deferredUnreflected (live_of ?d) = deferredUnreflectedFromCoverage (rd_Segments ?r) ds"
    "lv_lastPayload (live_of ?d) = Some q" "lv_lastVersion (live_of ?d) = v"
    "lv_supersededGeneration (live_of ?d) = lv_supersededGeneration (live_of d)"
    by (simp_all add: round_finish_def Written Let_def finishLiveRun_def)
  have d: "dk_row ?d = dk_row d" "dk_recovery ?d = dk_recovery d"
    "dk_rounds ?d = dk_rounds (drop_round k d)"
    by (simp_all add: round_finish_def Written Let_def drop_round_def)
  show ?thesis
  proof (rule ledger_round [OF assms])
    show "s \<in> set (lv_pending (live_of ?d)) \<Longrightarrow> good s" for s
      using ledger_okD(5) [OF assms(1)] by (auto simp: l removeCoveredSegments_def Let_def)
    show "x \<in> set (lv_deferredUnreflected (live_of ?d)) \<Longrightarrow> good (du_Segment x)" for x
      using deferred_from_round r(3) by (auto simp: l list_all_iff)
    show "pending_keys (live_of d) \<subseteq> accounted ?d"
      using removed_covered [of "lv_pending (live_of d)" "rd_Segments ?r"] r(2)
      by (auto simp: accounted_def pending_keys_alt l d)
    show "round_keys ?r \<subseteq> accounted ?d" using r(2) by (auto simp: accounted_def d round_keys_def Written)
  qed (use r(1) ledger_okD [OF assms(1)] kept_elements(2) [OF assms(2)] in
    \<open>auto simp: l d row_grows_refl dest: phase_elements(2)\<close>)
qed (use assms in \<open>simp_all add: round_finish_def Let_def ledger_same\<close>)

lemma ledger_audit:
  assumes "ledger_ok d" shows "advances d (audit_applied rest d)"
proof (cases "\<exists>v p. dk_row d = Some (v, Some p)")
  case True
  then obtain v p where row: "dk_row d = Some (v, Some p)" by auto
  let ?row = "Some (v + 1, Some (fst p, rest))"
  have grows: "row_grows (dk_row d) ?row"
    using ledger_okD(1) [OF assms]
    by (auto simp: row row_grows_def row_ok_def row_cov_def row_payload_def held_ok_def pay_cov_def)
  have "advances d (d\<lparr>dk_row := ?row\<rparr>)"
  proof (rule advancesI [OF assms])
    have "held_ok ?row h" if "held_ok (dk_row d) h" for h using grows that by (cases h) (auto simp: row_grows_def)
    then show "held_ok (dk_row (d\<lparr>dk_row := ?row\<rparr>))
        (lv_lastPayload (live_of (d\<lparr>dk_row := ?row\<rparr>)), lv_lastVersion (live_of (d\<lparr>dk_row := ?row\<rparr>)))"
      using ledger_okD(2) [OF assms] by simp
  qed (use grows ledger_okD [OF assms] in \<open>auto simp: accounted_def\<close>)
  then show ?thesis by (simp add: audit_applied_def row)
next
  case False
  then have "audit_applied rest d = d" by (auto simp: audit_applied_def split: option.splits prod.splits)
  then show ?thesis using assms by (simp add: ledger_same)
qed

section \<open>Recovery\<close>

lemma ledger_recover:
  assumes "ledger_ok d" shows "advances d (recovery_begin c d)"
proof -
  let ?h = "(lv_lastPayload (live_of d), lv_lastVersion (live_of d))"
  have "advances d ((with_live (\<lambda>l. l\<lparr>lv_recoveryInFlight := True\<rparr>) d)\<lparr>dk_recovery := dk_recovery d @ [?h]\<rparr>)"
    by (rule ledger_pending [OF assms]) (use ledger_okD(2) [OF assms] in auto)
  moreover have "advances d (with_live id d)" "advances d d" by (simp_all add: ledger_same assms)
  ultimately show ?thesis by (simp add: recovery_begin_def Let_def)
qed

lemma ledger_recovery_seed:
  assumes "ledger_ok d" shows "advances d (recovery_seed ok k d)"
proof (cases "k < length (dk_recovery d)")
  case True
  let ?pv = "dk_recovery d ! k"
  have held: "held_ok (dk_row d) ?pv" using True by (intro ledger_okD(3) [OF assms]) simp
  have "advances d ((seedLiveAnalysisState ok ?pv d)\<lparr>dk_recovery := (dk_recovery d)[k := seeded_payload ok ?pv d]\<rparr>)"
  proof (rule ledger_pending [OF assms])
    fix h assume "h \<in> set (dk_recovery ((seedLiveAnalysisState ok ?pv d)
        \<lparr>dk_recovery := (dk_recovery d)[k := seeded_payload ok ?pv d]\<rparr>))"
    then show "h \<in> set (dk_recovery d) \<or> held_ok (dk_row d) h"
      using held_seeded [OF assms held] by (auto dest: set_update_subset_insert [THEN subsetD])
  qed (use held_seeded [OF assms held] in simp_all)
  then show ?thesis using True by (simp add: recovery_seed_def Let_def)
qed (simp add: recovery_seed_def ledger_same assms)

lemma recover_books [simp]:
  "lv_lastPayload (fold (recover_segment now) ss l) = lv_lastPayload l"
  "lv_lastVersion (fold (recover_segment now) ss l) = lv_lastVersion l"
  "lv_deferredUnreflected (fold (recover_segment now) ss l) = lv_deferredUnreflected l"
  "lv_supersededGeneration (fold (recover_segment now) ss l) = lv_supersededGeneration l"
proof -
  have "lv_lastPayload (fold (recover_segment now) ss l) = lv_lastPayload l \<and>
    lv_lastVersion (fold (recover_segment now) ss l) = lv_lastVersion l \<and>
    lv_deferredUnreflected (fold (recover_segment now) ss l) = lv_deferredUnreflected l \<and>
    lv_supersededGeneration (fold (recover_segment now) ss l) = lv_supersededGeneration l"
    by (induction ss arbitrary: l) (simp_all add: recover_segment_def)
  then show "lv_lastPayload (fold (recover_segment now) ss l) = lv_lastPayload l"
    "lv_lastVersion (fold (recover_segment now) ss l) = lv_lastVersion l"
    "lv_deferredUnreflected (fold (recover_segment now) ss l) = lv_deferredUnreflected l"
    "lv_supersededGeneration (fold (recover_segment now) ss l) = lv_supersededGeneration l" by simp_all
qed

lemma count_books [simp]:
  "lv_pending (count_chars l) = lv_pending l" "lv_lastPayload (count_chars l) = lv_lastPayload l"
  "lv_lastVersion (count_chars l) = lv_lastVersion l"
  "lv_deferredUnreflected (count_chars l) = lv_deferredUnreflected l"
  "lv_supersededGeneration (count_chars l) = lv_supersededGeneration l"
  by (simp_all add: count_chars_def)

lemma recovered_good: "counts_as_final s \<Longrightarrow> good s"
  by (simp add: counts_as_final_def good_def)

lemma ledger_recovered:
  assumes "ledger_ok d" shows "advances d (recovery_finish listed k now d)"
proof (cases "k < length (dk_recovery d)")
  case True
  obtain p v where pv: "dk_recovery d ! k = (p, v)" by fastforce
  have held: "held_ok (dk_row d) (p, v)" using ledger_okD(3) [OF assms nth_mem [OF True]] pv by simp
  show ?thesis
  proof (rule ledger_pending [OF assms])
    show "h \<in> set (dk_recovery d) \<or> held_ok (dk_row d) h" if "h \<in> set (dk_recovery (recovery_finish listed k now d))" for h
      using that by (auto simp: recovery_finish_def pv Let_def split: if_splits dest: in_set_takeD in_set_dropD)
    show "held_ok (dk_row d) (lv_lastPayload (live_of (recovery_finish listed k now d)),
        lv_lastVersion (live_of (recovery_finish listed k now d)))"
      using held ledger_okD(2) [OF assms] by (auto simp: recovery_finish_def pv Let_def split: option.splits)
    show "set (lv_pending (live_of d)) \<subseteq> set (lv_pending (live_of (recovery_finish listed k now d)))"
      using pending_recover(1) by (auto simp: recovery_finish_def pv Let_def split: option.splits) (fastforce dest: subsetD)+
    show "s \<in> set (lv_pending (live_of d)) \<or> good s"
      if "s \<in> set (lv_pending (live_of (recovery_finish listed k now d)))" for s
      using that by (auto simp: recovery_finish_def pv Let_def split: option.splits if_splits
          dest!: pending_recover(2) [THEN subsetD] intro: recovered_good)
  qed (auto simp: recovery_finish_def pv Let_def split: option.splits)
qed (simp add: recovery_finish_def ledger_same assms)

section \<open>All steps\<close>

text \<open>The steps of a session that is analyzed live: no finalization, no sweep of idle sessions.\<close>

fun live_step :: "'p live_action \<Rightarrow> bool" where
  "live_step (DoTick now) = False"
| "live_step DoFinalBegin = False"
| "live_step DoFinalReleased = False"
| "live_step DoFinalTimeout = False"
| "live_step (DoFinalSnapshot ok) = False"
| "live_step (DoFinalFlush listed now) = False"
| "live_step (DoFinalRefresh rest) = False"
| "live_step DoFinalEnd = False"
| "live_step a = True"

text \<open>A buffered final without a number has an event id without NUL.\<close>

fun plain_event :: "'p live_action \<Rightarrow> bool" where
  "plain_event (DoBuffer s now) \<longleftrightarrow> 0 < ts_SequenceNo s \<or> CHR 0x00 \<notin> set (trim_space (ts_EventID s))"
| "plain_event a \<longleftrightarrow> True"

lemma ledger_do:
  assumes "ledger_ok d" "live_step a" "plain_event a" shows "advances d (live_do c a d)"
proof (cases a)
  case (DoBuffer s now)
  then show ?thesis using assms by (auto intro!: ledger_buffer simp: accepts_final_def good_def)
qed (use assms in \<open>auto simp: on_round_def ledger_generation ledger_seal ledger_result ledger_fail
    ledger_write_failure ledger_persist ledger_reorganize ledger_finish ledger_panic ledger_audit
    ledger_recover ledger_recovery_seed ledger_recovered ledger_dispatch ledger_same\<close>)

lemma ledger_run:
  "ledger_ok d \<Longrightarrow> list_all live_step as \<Longrightarrow> list_all plain_event as \<Longrightarrow> advances d (live_run c as d)"
proof (induction as arbitrary: d)
  case (Cons a as)
  then have "advances d (live_do c a d)" by (simp add: ledger_do)
  moreover from this have "advances (live_do c a d) (live_run c as (live_do c a d))"
    using Cons by (simp add: advances_def)
  ultimately show ?case by (auto intro: advances_trans)
qed (simp add: ledger_same)

lemma ledger_restart: "row_ok row \<Longrightarrow> ledger_ok (empty_desk\<lparr>dk_row := row\<rparr>)"
  by (auto simp: ledger_ok_def empty_desk_def live_of_def new_live_def row_ok_def held_ok_def pay_cov_def
      split: option.splits)

end
