(* ===== verification/LiveClaims.thy ===== *)
theory LiveClaims
  imports LiveInvariants LiveLedger
begin

text \<open>The properties of the live scheduler, with a small meeting for their witnesses.\<close>

section \<open>Backoff\<close>

lemma backoff_loop_min:
  "0 < b \<Longrightarrow> b < meetingAnalysisMaxBackoff \<or> 0 < n \<Longrightarrow>
     backoff_loop n b = min meetingAnalysisMaxBackoff (b * 2 ^ n)"
proof (induction n arbitrary: b)
  case (Suc n)
  have grows: "b * 2 \<le> b * 2 * 2 ^ n" using Suc.prems(1) by simp
  have same: "b * 2 ^ Suc n = b * 2 * 2 ^ n" by simp
  show ?case
  proof (cases "meetingAnalysisMaxBackoff \<le> b * 2")
    case True
    then show ?thesis using grows unfolding same by simp
  next
    case False
    then show ?thesis using Suc.IH [of "b * 2"] Suc.prems(1) unfolding same by simp
  qed
qed auto

lemma backoff_first: "liveAnalysisBackoff i 0 = or_else i defaultLiveAnalysisInterval"
  by (simp add: liveAnalysisBackoff_def)

lemma or_else_positive: "0 < d \<Longrightarrow> 0 < or_else i d"
  by (simp add: or_else_def)

text \<open>The doubling loop of the retry backoff computes the smaller of five minutes and the interval
  times two to the number of failures; without a failure it is the interval.\<close>

theorem backoff_doubles_up_to_the_maximum:
  "liveAnalysisBackoff i n =
     (if n = 0 then or_else i defaultLiveAnalysisInterval
      else min meetingAnalysisMaxBackoff (or_else i defaultLiveAnalysisInterval * 2 ^ n))"
  using backoff_loop_min [of "or_else i defaultLiveAnalysisInterval" n]
  by (simp add: liveAnalysisBackoff_def or_else_positive defaultLiveAnalysisInterval_def second_def)

section \<open>Scheduling\<close>

text \<open>A session that may be analyzed: finals are pending and nothing forbids or delays a round.\<close>

definition may_run :: "live_config \<Rightarrow> 'p live \<Rightarrow> bool" where
  "may_run c l \<longleftrightarrow> lv_pending l \<noteq> [] \<and> \<not> lv_stopped l \<and> \<not> lv_finalizing l \<and> \<not> lv_running l \<and>
     \<not> lv_retryBlocked l \<and> cx_Status (lv_context l) \<noteq> ContextPending \<and>
     hasSubstantiveLiveAnalysisInput (lc_unicode c) (lv_pending l)"

definition latest_start :: "live_config \<Rightarrow> 'p live \<Rightarrow> gotime \<Rightarrow> gotime" where
  "latest_start c l now = max now (max (lv_oldestPendingFinalAt l + lc_LiveMaxWait c) (lv_nextAttemptAt l))"

lemma next_time_bounds:
  assumes "nextLiveAnalysisTime c l now = (t, r)"
  shows "now \<le> t" "t \<le> latest_start c l now" "\<not> is_zero (lv_nextAttemptAt l) \<Longrightarrow> lv_nextAttemptAt l \<le> t"
  using assms by (auto simp: nextLiveAnalysisTime_def latest_start_def Let_def is_zero_def split: prod.splits if_splits)

lemma next_time_cong:
  assumes "lv_catchUpRequested l' = lv_catchUpRequested l" "lv_rerunRequested l' = lv_rerunRequested l"
    "lv_lastDeferredReason l' = lv_lastDeferredReason l" "lv_nextAttemptAt l' = lv_nextAttemptAt l"
    "lv_pending l' = lv_pending l" "lv_latestPendingFinalAt l' = lv_latestPendingFinalAt l"
    "lv_oldestPendingFinalAt l' = lv_oldestPendingFinalAt l" "lv_pendingChars l' = lv_pendingChars l"
    "lv_lastAnalysisCompletedAt l' = lv_lastAnalysisCompletedAt l"
  shows "nextLiveAnalysisTime c l' now = nextLiveAnalysisTime c l now"
  unfolding nextLiveAnalysisTime_def assms ..

text \<open>The time does not move when the session is looked at again without a change.\<close>

lemma next_time_fixed:
  assumes "\<not> lv_catchUpRequested l" "\<not> lv_rerunRequested l" "\<not> is_zero (lv_latestPendingFinalAt l)"
  shows "\<exists>T. \<forall>now x. fst (nextLiveAnalysisTime c (l\<lparr>lv_lastDeferredReason := x\<rparr>) now) = max now T"
  unfolding nextLiveAnalysisTime_def Let_def case_prod_beta
  using assms by simp blast

lemma next_time_later:
  assumes "fst (nextLiveAnalysisTime c l now) \<le> later" "\<not> is_zero (lv_latestPendingFinalAt l)"
    and "lv_catchUpRequested l \<or> \<not> lv_rerunRequested l" "now \<le> later"
  shows "fst (nextLiveAnalysisTime c (l\<lparr>lv_lastDeferredReason := x\<rparr>) later) = later"
proof (cases "lv_catchUpRequested l")
  case True
  then show ?thesis using assms(1,4) by (auto simp: nextLiveAnalysisTime_def split: if_splits)
next
  case False
  then obtain T where T: "fst (nextLiveAnalysisTime c (l\<lparr>lv_lastDeferredReason := x\<rparr>) n) = max n T" for n x
    using next_time_fixed [of l c] assms(2,3) by blast
  show ?thesis using T [of "lv_lastDeferredReason l" now] T [of x later] assms(1) by simp
qed

lemma armed_live [simp]:
  "lv_analysisScheduled (live_of (armed t s r now d))" "lv_scheduledAt (live_of (armed t s r now d)) = s"
  by (simp_all add: armed_def Let_def)

lemma evaluate_schedules:
  assumes "liveActive c" "dk_started d" "may_run c (live_of d)" "nextLiveAnalysisTime c (live_of d) now = (s, r)"
  shows "evaluateLiveAnalysisTrigger c t now d =
     (if lv_analysisScheduled (live_of d) \<and> \<not> s < lv_scheduledAt (live_of d)
      then with_live (\<lambda>l. l\<lparr>lv_coalescedTriggerCount := Suc (lv_coalescedTriggerCount l),
             lv_lastDeferredReason := AlreadyScheduled\<rparr>) d
      else armed t s r now (cancelLiveAnalysisTimer (with_live id d)))"
  using assms by (simp add: evaluateLiveAnalysisTrigger_def may_run_def Let_def)

text \<open>Looked at again, a session that may run has a round scheduled, at the latest when its oldest
  pending final has waited for the maximal time and the retry backoff is over, and never in the past.\<close>

theorem pending_finals_are_scheduled:
  assumes "liveActive c" "dk_started d" "may_run c (live_of d)"
  shows "let l = live_of d; l' = live_of (evaluateLiveAnalysisTrigger c t now d) in
    lv_analysisScheduled l' \<and> lv_scheduledAt l' \<le> latest_start c l now \<and>
    (lv_analysisScheduled l \<or>
     now \<le> lv_scheduledAt l' \<and> (is_zero (lv_nextAttemptAt l) \<or> lv_nextAttemptAt l \<le> lv_scheduledAt l'))"
proof -
  obtain s r where n: "nextLiveAnalysisTime c (live_of d) now = (s, r)" by fastforce
  show ?thesis
    unfolding evaluate_schedules [OF assms(1-3) n] Let_def using next_time_bounds [OF n] by (auto simp: not_less)
qed

section \<open>A small meeting\<close>

definition sample_unicode :: unicode_classes where
  "sample_unicode = \<lparr>un_dropped = (\<lambda>r. r = '' '' \<or> r = ''.''), un_lower = to_lower\<rparr>"

definition sample_live :: live_config where
  "sample_live = live_defaults \<lparr>lc_Enabled = True, lc_LiveEnabled = True, lc_LiveInterval = 0,
     lc_LiveDebounce = 0, lc_LiveCooldown = 0, lc_LiveMaxWait = 0, lc_LiveMinChars = 0,
     lc_unicode = sample_unicode\<rparr>"

definition sample_final :: "int \<Rightarrow> TranscriptSegment" where
  "sample_final n = \<lparr>ts_SessionID = ''s'', ts_EventID = ''e'', ts_CallID = ''c'', ts_SequenceNo = n,
     ts_SpeakerID = [], ts_SpeakerName = [], ts_RecognizedAtUTC = 5, ts_OffsetTicks = 0,
     ts_DurationTicks = 0, ts_Text = ''plan'', ts_ReceivedAtUTC = 5, ts_IsFinal = True\<rparr>"

text \<open>The first final of the meeting is buffered; the service has started.\<close>

definition sample_waiting :: "gostring desk" where
  "sample_waiting = live_run sample_live [DoStart, DoBuffer (sample_final 1) 100] empty_desk"

lemma sample_live_simps [simp]:
  "liveActive sample_live" "lc_Enabled sample_live" "lc_LiveMinChars sample_live = 0" "lc_unicode sample_live = sample_unicode"
  "lc_LiveMaxWait sample_live = 18 * second" "lc_LiveDebounce sample_live = 2 * second"
  "lc_LiveInterval sample_live = 10 * second"
  by (simp_all add: sample_live_def live_defaults_def liveActive_def or_else_def
      defaultLiveAnalysisMaxWait_def defaultLiveAnalysisDebounce_def defaultLiveAnalysisInterval_def)

lemma sample_accepted [simp]: "accepts_final sample_live (sample_final n)" "ts_SequenceNo (sample_final n) = n"
  by (simp_all add: accepts_final_def sample_final_def) code_simp

lemma sample_waiting_state:
  "lv_pending (live_of sample_waiting) = [sample_final 1]" "dk_started sample_waiting"
  "lv_oldestPendingFinalAt (live_of sample_waiting) = 100" "lv_latestPendingFinalAt (live_of sample_waiting) = 100"
  "\<not> lv_stopped (live_of sample_waiting)" "\<not> lv_finalizing (live_of sample_waiting)"
  "\<not> lv_running (live_of sample_waiting)" "\<not> lv_retryBlocked (live_of sample_waiting)"
  "\<not> lv_analysisScheduled (live_of sample_waiting)" "lv_nextAttemptAt (live_of sample_waiting) = 0"
  "\<not> lv_catchUpRequested (live_of sample_waiting)" "\<not> lv_rerunRequested (live_of sample_waiting)"
  "cx_Status (lv_context (live_of sample_waiting)) = NoContextStatus" "lv_scheduleGeneration (live_of sample_waiting) = 0"
  "dk_rounds sample_waiting = []" "dk_timers sample_waiting = []" "dk_dispatches sample_waiting = []"
  "dk_row sample_waiting = None" "dk_final sample_waiting = NoFinalization"
  "lv_lastPayload (live_of sample_waiting) = None" "lv_lastVersion (live_of sample_waiting) = 0"
  "\<not> lv_versionSeeded (live_of sample_waiting)" "lv_supersededGeneration (live_of sample_waiting) = 0"
  "lv_deferredUnreflected (live_of sample_waiting) = []" "lv_liveRunCounter (live_of sample_waiting) = 0"
  by (simp_all add: sample_waiting_def buffer_final_def Let_def count_chars_def appendPendingLiveSegment_def
      requeueDeferredUnreflected_def live_of_def [of empty_desk] empty_desk_def
      live_of_def [of "empty_desk\<lparr>dk_started := True\<rparr>"])
    (simp_all add: live_of_def new_live_def new_context_def is_zero_def already_pending_def)

lemma sample_substantive: "hasSubstantiveLiveAnalysisInput sample_unicode [sample_final n]"
proof -
  have "\<not> isLowInformationFinalText sample_unicode ''plan''" by code_simp
  then show ?thesis by (simp add: hasSubstantiveLiveAnalysisInput_def sample_final_def)
qed

lemma sample_may_run: "may_run sample_live (live_of sample_waiting)"
  by (simp add: may_run_def sample_waiting_state sample_substantive)

theorem pending_finals_are_scheduled_witness:
  "let l' = live_of (evaluateLiveAnalysisTrigger sample_live FinalTranscript 100 sample_waiting) in
     lv_analysisScheduled l' \<and> lv_scheduledAt l' \<le> 100 + 18 * second \<and> 100 \<le> lv_scheduledAt l'"
  using pending_finals_are_scheduled [OF sample_live_simps(1) sample_waiting_state(2) sample_may_run, of FinalTranscript 100]
  by (simp add: Let_def latest_start_def sample_waiting_state second_def is_zero_def)

section \<open>A scheduled round starts\<close>

lemma due_in_time: "now \<le> s \<Longrightarrow> now + max 0 (time_sub s now) \<le> s"
  by (simp add: time_sub_def max_duration_def min_duration_def)

text \<open>Looking, firing and dispatching, as one run: the round starts on the state the timer was armed in.\<close>

definition armed_and_fired :: "live_trigger \<Rightarrow> gotime \<Rightarrow> live_reason \<Rightarrow> gotime \<Rightarrow> 'p desk \<Rightarrow> 'p desk" where
  "armed_and_fired t s r now d =
     (let g = Suc (lv_scheduleGeneration (live_of d)); d1 = armed t s r now (with_live id d);
          d2 = d1\<lparr>dk_timers := filter (\<lambda>x. fst x \<noteq> g) (dk_timers d1),
                  dk_dispatches := remove1 g (dk_dispatches d1 @ [g])\<rparr> in
      with_live (\<lambda>l. l\<lparr>lv_analysisScheduled := False, lv_analysisTimer := None, lv_scheduledAt := 0\<rparr>) d2)"

lemma round_starts:
  assumes "liveActive c" "dk_started d" "may_run c (live_of d)" "\<not> lv_analysisScheduled (live_of d)"
    and "\<not> is_zero (lv_latestPendingFinalAt (live_of d))"
    and "lv_catchUpRequested (live_of d) \<or> \<not> lv_rerunRequested (live_of d)"
    and "liveSessionStatusAllowsAnalysis answer = StatusAllowed"
    and "nextLiveAnalysisTime c (live_of d) now = (s, r)" "s \<le> later" "g = Suc (lv_scheduleGeneration (live_of d))"
  shows "live_run c [DoEvaluate t now, DoFire g later, DoDispatch g answer later x] d =
    start_round c later (armed_and_fired t s r now d)"
proof -
  let ?d = "armed t s r now (with_live id d)"
  have e: "evaluateLiveAnalysisTrigger c t now d = ?d"
    using evaluate_schedules [OF assms(1-3,8)] assms(4) by (simp add: cancelLiveAnalysisTimer_def Let_def)
  have now: "now \<le> s" by (rule next_time_bounds [OF assms(8)])
  let ?l = "live_of d"
  let ?a = "?l\<lparr>lv_analysisScheduled := True, lv_scheduledAt := s, lv_scheduledTrigger := t,
     lv_scheduleGeneration := g, lv_lastTrigger := t, lv_lastDeferredReason := r, lv_analysisTimer := Some g\<rparr>"
  have l: "live_of ?d = ?a" by (simp add: armed_def Let_def assms(10))
  have "list_ex (\<lambda>t. fst t = g \<and> snd t \<le> later) (dk_timers ?d)"
    using due_in_time [OF now] assms(9) by (simp add: armed_def Let_def assms(10))
  then have f: "fire_timer g later ?d = ?d\<lparr>dk_timers := filter (\<lambda>t. fst t \<noteq> g) (dk_timers ?d),
      dk_dispatches := dk_dispatches ?d @ [g]\<rparr>" (is "_ = ?f") by (simp add: fire_timer_def)
  have "nextLiveAnalysisTime c (live_of ?f) later = nextLiveAnalysisTime c (?l\<lparr>lv_lastDeferredReason := r\<rparr>) later"
    by (rule next_time_cong) (simp_all add: l)
  then have "\<not> later < fst (nextLiveAnalysisTime c (live_of ?f) later)"
    using next_time_later [of c ?l now later r] assms(5,6,8,9) now by simp
  then have "run_dispatch c g answer later x ?f = start_round c later
      (with_live (\<lambda>l. l\<lparr>lv_analysisScheduled := False, lv_analysisTimer := None, lv_scheduledAt := 0\<rparr>)
        (?f\<lparr>dk_dispatches := remove1 g (dk_dispatches ?f)\<rparr>))"
    using assms(3,7) by (auto simp: run_dispatch_def dispatchScheduledLiveAnalysis_def Let_def l may_run_def split: prod.splits)
  then show ?thesis by (simp add: e f armed_and_fired_def Let_def assms(10) [symmetric])
qed

lemma armed_and_fired_live:
  "live_of (armed_and_fired t s r now d) =
     (live_of d)\<lparr>lv_analysisScheduled := False, lv_scheduledAt := 0, lv_scheduledTrigger := t,
       lv_scheduleGeneration := Suc (lv_scheduleGeneration (live_of d)), lv_lastTrigger := t,
       lv_lastDeferredReason := r, lv_analysisTimer := None\<rparr>"
  "dk_rounds (armed_and_fired t s r now d) = dk_rounds d" "dk_row (armed_and_fired t s r now d) = dk_row d"
  "dk_final (armed_and_fired t s r now d) = dk_final d" "dk_started (armed_and_fired t s r now d) = dk_started d"
  by (simp_all add: armed_and_fired_def armed_def Let_def)

text \<open>C21: A session that has been looked at gets its round.  Live analysis is on and started, the session has finals
  waiting, may run, and has no timer yet (and no rerun waiting, unless a catch-up is asked for).  If it is looked at, and
  then, with no other step in between (a final that arrives there arms the timer anew), the timer that was armed fires
  at its scheduled time or later and the dispatch finds a status of the session that allows the analysis, then
  the round that starts takes all the finals that were waiting, and none stays behind.\<close>

theorem scheduled_round_takes_all_pending:
  assumes "liveActive c" "dk_started d" "may_run c (live_of d)" "\<not> lv_analysisScheduled (live_of d)"
    and "\<not> is_zero (lv_latestPendingFinalAt (live_of d))"
    and "lv_catchUpRequested (live_of d) \<or> \<not> lv_rerunRequested (live_of d)"
    and "liveSessionStatusAllowsAnalysis answer = StatusAllowed"
    and "lv_scheduledAt (live_of (evaluateLiveAnalysisTrigger c t now d)) \<le> later"
  shows "let g = Suc (lv_scheduleGeneration (live_of d));
             d' = live_run c [DoEvaluate t now, DoFire g later, DoDispatch g answer later x] d in
    lv_running (live_of d') \<and> lv_pending (live_of d') = [] \<and>
    dk_rounds d' = dk_rounds d @ [new_round (lv_pending (live_of d)) False]"
proof -
  obtain s r where n: "nextLiveAnalysisTime c (live_of d) now = (s, r)" by fastforce
  then have "s \<le> later" using evaluate_schedules [OF assms(1-3) n] assms(4,8) by simp
  note run = round_starts [OF assms(1-7) n this refl]
  show ?thesis
    unfolding Let_def run by (simp add: start_round_def Let_def beginLiveRun_def armed_and_fired_live)
qed

lemma sample_time: "nextLiveAnalysisTime sample_live (live_of sample_waiting) 100 = (s, r) \<Longrightarrow> s \<le> 20 * second"
  using next_time_bounds(2) [of sample_live "live_of sample_waiting" 100 s r]
  by (simp add: latest_start_def sample_waiting_state second_def)

theorem scheduled_round_takes_all_pending_witness:
  "let d' = live_run sample_live [DoEvaluate FinalTranscript 100, DoFire 1 (20 * second), DoDispatch 1 None (20 * second) 0]
         sample_waiting in
     lv_running (live_of d') \<and> dk_rounds d' = [new_round [sample_final 1] False]"
proof -
  obtain s r where n: "nextLiveAnalysisTime sample_live (live_of sample_waiting) 100 = (s, r)" by fastforce
  have "lv_scheduledAt (live_of (evaluateLiveAnalysisTrigger sample_live FinalTranscript 100 sample_waiting)) \<le> 20 * second"
    using evaluate_schedules [OF sample_live_simps(1) sample_waiting_state(2) sample_may_run n] sample_time [OF n]
    by (simp add: sample_waiting_state)
  then show ?thesis
    using scheduled_round_takes_all_pending [OF sample_live_simps(1) sample_waiting_state(2) sample_may_run, of None FinalTranscript 100 "20 * second" 0]
    by (simp add: Let_def sample_waiting_state is_zero_def liveSessionStatusAllowsAnalysis_def)
qed

section \<open>Wake-ups\<close>

lemma invariants_run: "timers_ok d \<Longrightarrow> rounds_ok d \<Longrightarrow> timers_ok (live_run c as d) \<and> rounds_ok (live_run c as d)"
  by (induction as arbitrary: d) (simp_all add: timers_ok_do rounds_ok_do)

text \<open>C20: in every interleaving of all steps, a session marked as scheduled has its timer armed or its
  dispatch under way, and a session marked as running has a round under way that will release it.\<close>

theorem marks_have_their_goroutine:
  "let d = live_run c as (empty_desk\<lparr>dk_row := row\<rparr>); l = live_of d in
     (lv_analysisScheduled l \<longrightarrow>
        lv_scheduleGeneration l \<in> fst ` set (dk_timers d) \<union> set (dk_dispatches d)) \<and>
     (lv_running l \<longrightarrow> (\<exists>r\<in>set (dk_rounds d). alive (lv_runningGeneration l) r)) \<and>
     lv_runningDone l = lv_running l"
proof -
  let ?d = "empty_desk\<lparr>dk_row := row\<rparr>"
  have "timers_ok ?d" "rounds_ok ?d"
    by (simp_all add: timers_ok_def rounds_ok_def clock_def engine_def live_of_def empty_desk_def new_live_def)
  then have "timers_ok (live_run c as ?d)" "rounds_ok (live_run c as ?d)" using invariants_run by blast+
  then show ?thesis by (simp add: timers_ok_def rounds_ok_def clock_def engine_def Let_def)
qed

text \<open>The run up to the dispatch of the first round.\<close>

definition sample_start :: "gostring live_action list" where
  "sample_start = [DoStart, DoBuffer (sample_final 1) 100, DoEvaluate FinalTranscript 100,
     DoFire 1 (20 * second), DoDispatch 1 None (20 * second) 0]"

definition sample_running :: "gostring desk" where
  "sample_running = live_run sample_live sample_start empty_desk"

lemma sample_running_state:
  "lv_running (live_of sample_running)" "lv_pending (live_of sample_running) = []"
  "dk_rounds sample_running = [new_round [sample_final 1] False]" "lv_runningGeneration (live_of sample_running) = 1"
  "lv_runningDone (live_of sample_running)" "\<not> lv_analysisScheduled (live_of sample_running)"
  "lv_lastPayload (live_of sample_running) = None" "lv_lastVersion (live_of sample_running) = 0"
  "\<not> lv_versionSeeded (live_of sample_running)" "dk_row sample_running = None"
  "dk_final sample_running = NoFinalization" "\<not> lv_finalizing (live_of sample_running)"
  "\<not> lv_stopped (live_of sample_running)" "lv_supersededGeneration (live_of sample_running) = 0"
  "lv_deferredUnreflected (live_of sample_running) = []" "\<not> lv_retryBlocked (live_of sample_running)"
proof -
  obtain s r where n: "nextLiveAnalysisTime sample_live (live_of sample_waiting) 100 = (s, r)" by fastforce
  have "sample_running = live_run sample_live [DoEvaluate FinalTranscript 100, DoFire 1 (20 * second),
      DoDispatch 1 None (20 * second) 0] sample_waiting"
    by (simp add: sample_running_def sample_start_def sample_waiting_def)
  also have "\<dots> = start_round sample_live (20 * second) (armed_and_fired FinalTranscript s r 100 sample_waiting)"
    using sample_time [OF n]
    by (intro round_starts sample_may_run n)
      (simp_all add: sample_waiting_state is_zero_def liveSessionStatusAllowsAnalysis_def)
  finally have run: "sample_running =
      start_round sample_live (20 * second) (armed_and_fired FinalTranscript s r 100 sample_waiting)" .
  show "lv_running (live_of sample_running)" "lv_pending (live_of sample_running) = []"
    "dk_rounds sample_running = [new_round [sample_final 1] False]" "lv_runningGeneration (live_of sample_running) = 1"
    "lv_runningDone (live_of sample_running)" "\<not> lv_analysisScheduled (live_of sample_running)"
    "lv_lastPayload (live_of sample_running) = None" "lv_lastVersion (live_of sample_running) = 0"
    "\<not> lv_versionSeeded (live_of sample_running)" "dk_row sample_running = None"
    "dk_final sample_running = NoFinalization" "\<not> lv_finalizing (live_of sample_running)"
    "\<not> lv_stopped (live_of sample_running)" "lv_supersededGeneration (live_of sample_running) = 0"
    "lv_deferredUnreflected (live_of sample_running) = []" "\<not> lv_retryBlocked (live_of sample_running)"
    unfolding run
    by (simp_all add: start_round_def Let_def beginLiveRun_def armed_and_fired_live sample_waiting_state)
qed

theorem marks_have_their_goroutine_witness:
  "lv_running (live_of sample_running) \<and> (\<exists>r. r \<in> set (dk_rounds sample_running) \<and> alive 1 r)"
proof -
  have start: "live_run sample_live sample_start (empty_desk\<lparr>dk_row := None\<rparr>) = sample_running"
    by (simp add: sample_running_def empty_desk_def)
  show ?thesis
    using marks_have_their_goroutine [of sample_live sample_start None] unfolding start
    by (auto simp: Let_def sample_running_state)
qed

section \<open>No final is lost\<close>

text \<open>C19: while a session is analyzed live, a numbered final that was accepted is, after any steps in any
  order, still pending, part of a round under way, or covered by the durable row; and the row never
  covers less than before.\<close>

theorem accepted_finals_are_accounted:
  assumes "row_ok row" "list_all live_step (as @ DoBuffer s now # bs)" "list_all plain_event (as @ DoBuffer s now # bs)"
    and "accepts_final c s" "0 < ts_SequenceNo s"
  shows "let d = live_run c (as @ DoBuffer s now # bs) (empty_desk\<lparr>dk_row := row\<rparr>) in
    (segment_key s \<in> pending_keys (live_of d) \<or> segment_key s \<in> (\<Union>r\<in>set (dk_rounds d). round_keys r) \<or>
     segment_key s \<in> row_cov (dk_row d)) \<and> row_cov row \<subseteq> row_cov (dk_row d)"
proof -
  let ?d0 = "empty_desk\<lparr>dk_row := row\<rparr>"
  let ?d1 = "live_run c as ?d0"
  let ?d2 = "buffer_final c s now ?d1"
  have one: "advances ?d0 ?d1" using assms(1,2,3) by (intro ledger_run ledger_restart) auto
  then have "ledger_ok ?d1" by (simp add: advances_def)
  then have two: "advances ?d1 ?d2" and key: "segment_key s \<in> accounted ?d2"
    using assms(4,5) ledger_do [of ?d1 "DoBuffer s now" c] buffered_key by (simp_all)
  have three: "advances ?d2 (live_run c bs ?d2)"
    using assms(2,3) two by (intro ledger_run) (auto simp: advances_def)
  have run: "live_run c (as @ DoBuffer s now # bs) ?d0 = live_run c bs ?d2" by (simp add: live_run_append)
  have "segment_key s \<in> accounted (live_run c bs ?d2)" using key three by (auto simp: advances_def)
  moreover have "row_cov row \<subseteq> row_cov (dk_row (live_run c bs ?d2))"
    using one two three by (auto simp: advances_def)
  ultimately show ?thesis unfolding run Let_def accounted_def by auto
qed

theorem accepted_finals_are_accounted_witness:
  "let d = sample_running in
     segment_key (sample_final 1) \<in> pending_keys (live_of d) \<or>
     segment_key (sample_final 1) \<in> (\<Union>r\<in>set (dk_rounds d). round_keys r) \<or>
     segment_key (sample_final 1) \<in> row_cov (dk_row d)"
proof -
  have start: "live_run sample_live ([DoStart] @ DoBuffer (sample_final 1) 100 # drop 2 sample_start)
      (empty_desk\<lparr>dk_row := None\<rparr>) = sample_running"
    by (simp add: sample_running_def sample_start_def empty_desk_def)
  show ?thesis
    using accepted_finals_are_accounted [where row = None and c = sample_live and as = "[DoStart]" and
        s = "sample_final 1" and now = 100 and bs = "drop 2 sample_start"]
    unfolding start by (simp add: row_ok_def sample_start_def Let_def)
qed

section \<open>A schema failure blocks what arrived meanwhile\<close>

definition blocked_with :: "TranscriptSegment \<Rightarrow> 'p live \<Rightarrow> bool" where
  "blocked_with b l \<longleftrightarrow> lv_retryBlocked l \<and> b \<in> set (lv_pending l) \<and> \<not> lv_analysisScheduled l"

lemma blocked_evaluate:
  "blocked_with b (live_of d) \<Longrightarrow> blocked_with b (live_of (evaluateLiveAnalysisTrigger c t now d)) \<and>
     dk_rounds (evaluateLiveAnalysisTrigger c t now d) = dk_rounds d"
  by (auto simp: evaluateLiveAnalysisTrigger_def Let_def blocked_with_def deferred_for_def)

lemma blocked_looks:
  "blocked_with b (live_of d) \<Longrightarrow>
     blocked_with b (live_of (live_run c (map (\<lambda>(t, now). DoEvaluate t now) looks) d)) \<and>
     dk_rounds (live_run c (map (\<lambda>(t, now). DoEvaluate t now) looks) d) = dk_rounds d"
proof (induction looks arbitrary: d)
  case (Cons x looks)
  then show ?case using blocked_evaluate [of b d c "fst x" "snd x"] by (simp add: case_prod_beta)
qed simp

text \<open>A round that fails with a schema error blocks the session although a newer final arrived
  during the round: the newer final stays pending, and however often the session is looked at, no
  round is scheduled for it.\<close>

theorem schema_failure_blocks_newer_finals:
  assumes "k < length (dk_rounds d)" "rd_Phase (dk_rounds d ! k) = Sealed p v"
    and "b \<in> set (lv_pending (live_of d))" "\<not> lv_analysisScheduled (live_of d)"
  shows "let d' = live_run c (DoFail False k now # map (\<lambda>(t, now). DoEvaluate t now) looks) d in
    blocked_with b (live_of d') \<and> length (dk_rounds d') = length (dk_rounds d)"
proof -
  let ?d = "handleLiveAnalysisFailure c False k now d"
  let ?l = "release_round (dk_rounds d ! k) (rd_Segments (dk_rounds d ! k)) now (live_of d)"
  have d: "live_of ?d = ?l\<lparr>lv_nextAttemptAt := 0, lv_retryBlocked := True\<rparr>"
    "length (dk_rounds ?d) = length (dk_rounds d)"
    using assms(2) by (simp_all add: handleLiveAnalysisFailure_def Let_def set_phase_def)
  have "lv_analysisScheduled ?l = lv_analysisScheduled (live_of d)"
    using clock_release(1) [of "dk_rounds d ! k" "rd_Segments (dk_rounds d ! k)" now "live_of d"] by (simp add: clock_def)
  then have "blocked_with b (live_of ?d)"
    using assms(3,4) by (simp add: d blocked_with_def subsetD [OF released_pending(1)])
  from blocked_looks [OF this, of c looks] show ?thesis
    using assms(1) d(2) by (simp add: on_round_def Let_def)
qed

text \<open>The round of the sample has read its payload, and a second final has arrived.\<close>

definition sample_sealed :: "gostring desk" where
  "sample_sealed = live_run sample_live [DoGeneration 0, DoSeal True 0] sample_running"

definition sealed_round :: "gostring live_round" where
  "sealed_round = \<lparr>rd_Segments = [sample_final 1], rd_Generation = 1, rd_Flush = False, rd_Phase = Sealed None 0\<rparr>"

lemma sample_sealed_state:
  "dk_rounds sample_sealed = [sealed_round]" "dk_row sample_sealed = None" "dk_final sample_sealed = NoFinalization"
  "live_of sample_sealed = (live_of sample_running)\<lparr>lv_versionSeeded := True, lv_lastPayload := None,
     lv_lastVersion := 0, lv_lastCoveredSequenceNo := 0\<rparr>"
  by (simp_all add: sample_sealed_def sealed_round_def on_round_def round_generation_def Let_def sample_running_state
      new_round_def round_seal_def seeded_payload_def seedLiveAnalysisState_def set_phase_def no_coverage_def)

lemma sample_newer:
  "set (lv_pending (live_of (buffer_final sample_live (sample_final 2) 300 sample_sealed))) = {sample_final 2}"
  "\<not> lv_analysisScheduled (live_of (buffer_final sample_live (sample_final 2) 300 sample_sealed))"
  "dk_rounds (buffer_final sample_live (sample_final 2) 300 sample_sealed) = [sealed_round]"
proof -
  have "lv_pending (live_of sample_sealed) = []" "lv_deferredUnreflected (live_of sample_sealed) = []"
    by (simp_all add: sample_sealed_state sample_running_state)
  then show "set (lv_pending (live_of (buffer_final sample_live (sample_final 2) 300 sample_sealed))) = {sample_final 2}"
    by (simp add: buffered requeueDeferredUnreflected_def appendPendingLiveSegment_def already_pending_def)
  have "clock (live_of (buffer_final sample_live (sample_final 2) 300 sample_sealed)) = clock (live_of sample_sealed)"
    using same_timers_steps(1) [of sample_sealed sample_live "sample_final 2" 300] by (simp add: same_timers_def)
  then show "\<not> lv_analysisScheduled (live_of (buffer_final sample_live (sample_final 2) 300 sample_sealed))"
    by (simp add: clock_def sample_sealed_state sample_running_state)
qed (simp add: sample_sealed_state)

theorem schema_failure_blocks_newer_finals_witness:
  "blocked_with (sample_final 2) (live_of (live_run sample_live
     [DoBuffer (sample_final 2) 300, DoFail False 0 400, DoEvaluate CompletedRerun 400, DoEvaluate PeriodicTick 500]
     sample_sealed))"
  using schema_failure_blocks_newer_finals [of 0 "buffer_final sample_live (sample_final 2) 300 sample_sealed" None 0
      "sample_final 2" sample_live 400 "[(CompletedRerun, 400), (PeriodicTick, 500)]"]
  by (simp add: sample_newer Let_def sample_sealed_state(1) sealed_round_def)

section \<open>A superseded round writes after the finalization\<close>

text \<open>
  The first round has written its row and asks for a reorganization of the tree; the meeting ends, the
  finalization stops waiting for the round, writes the final tree and ends.
\<close>

definition late_run :: "(TranscriptSegment \<Rightarrow> gostring \<times> bool) \<Rightarrow> gostring \<Rightarrow> gostring \<Rightarrow> gostring \<Rightarrow> gostring live_action list" where
  "late_run f why early final = sample_start @
     [DoGeneration 0, DoSeal True 0, DoResult f why early 0, DoPersist True True 0 (21 * second),
      DoFinalBegin, DoFinalTimeout, DoFinalSnapshot True, DoFinalFlush [sample_final 1] (32 * second),
      DoFinalRefresh final, DoFinalEnd]"

lemma late_run_persisted:
  fixes f why early
  defines "q \<equiv> (fst (addLiveAnalysisCoverage f why [sample_final 1] no_coverage), early)"
    and "ds \<equiv> snd (addLiveAnalysisCoverage f why [sample_final 1] no_coverage)"
  shows "live_run sample_live [DoResult f why early 0, DoPersist True True 0 t] sample_sealed =
    (with_live id sample_sealed)\<lparr>dk_rounds := [sealed_round\<lparr>rd_Phase := Written q 1 ds (lp_CoveredThroughSequenceNo (fst q))\<rparr>],
       dk_row := Some (1, Some q)\<rparr>"
  by (simp add: on_round_def round_result_def round_persist_def sample_sealed_state sealed_round_def Let_def
      liveRunSuperseded_def sample_running_state set_phase_def swap_row_def q_def ds_def with_live_def case_prod_beta)

lemma late_run_final:
  assumes "dk_final d = NoFinalization" "lv_runningDone (live_of d)" "\<not> lv_analysisScheduled (live_of d)"
    "lv_lastPayload (live_of d) = None" "dk_row d = Some (v, Some q)"
    "flush_segments listed (fst q) = []"
  shows "dk_row (live_run c [DoFinalBegin, DoFinalTimeout, DoFinalSnapshot True, DoFinalFlush listed t, DoFinalRefresh final, DoFinalEnd] d)
      = Some (v, Some (fst q, final))"
    "dk_rounds (live_run c [DoFinalBegin, DoFinalTimeout, DoFinalSnapshot True, DoFinalFlush listed t, DoFinalRefresh final, DoFinalEnd] d)
      = dk_rounds d"
    "dk_final (live_run c [DoFinalBegin, DoFinalTimeout, DoFinalSnapshot True, DoFinalFlush listed t, DoFinalRefresh final, DoFinalEnd] d)
      = NoFinalization"
    "lv_supersededGeneration (live_of (live_run c [DoFinalBegin, DoFinalTimeout, DoFinalSnapshot True, DoFinalFlush listed t, DoFinalRefresh final, DoFinalEnd] d))
      = max (lv_supersededGeneration (live_of d)) (lv_runningGeneration (live_of d))"
    "lv_stopped (live_of (live_run c [DoFinalBegin, DoFinalTimeout, DoFinalSnapshot True, DoFinalFlush listed t, DoFinalRefresh final, DoFinalEnd] d))"
  using assms
  by (simp_all add: final_begin_def cancelLiveAnalysisTimer_def Let_def final_timeout_def final_snapshot_def
      latestStableLiveSnapshot_def row_payload_def final_flush_def final_refresh_def finishFinalizing_def)

lemma sample_final_flushed:
  "flush_segments [sample_final 1] (fst (addLiveAnalysisCoverage f why [sample_final 1] no_coverage)) = []"
proof -
  have "counts_as_final (sample_final 1)" by (simp add: counts_as_final_def sample_final_def) code_simp
  then have "segment_key (sample_final 1) \<in> covered (fst (addLiveAnalysisCoverage f why [sample_final 1] no_coverage))"
    by (simp add: addLiveAnalysisCoverage_covers(2))
  then show ?thesis using covered_iff [of "sample_final 1"]
    by (simp add: flush_segments_def sample_final_def segment_key_def)
qed

lemma late_run_split:
  "live_run sample_live (late_run f why early final) empty_desk =
     live_run sample_live [DoFinalBegin, DoFinalTimeout, DoFinalSnapshot True, DoFinalFlush [sample_final 1] (32 * second),
       DoFinalRefresh final, DoFinalEnd]
       (live_run sample_live [DoResult f why early 0, DoPersist True True 0 (21 * second)] sample_sealed)"
  by (simp add: late_run_def live_run_append sample_sealed_def sample_running_def del: live_do.simps)

lemma late_run_state:
  fixes f why early final
  defines "cov \<equiv> addLiveAnalysisCoverage f why [sample_final 1] no_coverage"
    and "d \<equiv> live_run sample_live (late_run f why early final) empty_desk"
  shows "dk_row d = Some (1, Some (fst cov, final))"
    "dk_rounds d = [sealed_round\<lparr>rd_Phase := Written (fst cov, early) 1 (snd cov) (lp_CoveredThroughSequenceNo (fst cov))\<rparr>]"
    "dk_final d = NoFinalization" "lv_supersededGeneration (live_of d) = 1" "lv_stopped (live_of d)"
proof -
  let ?d1 = "live_run sample_live [DoResult f why early 0, DoPersist True True 0 (21 * second)] sample_sealed"
  have d1: "?d1 = (with_live id sample_sealed)\<lparr>dk_rounds :=
      [sealed_round\<lparr>rd_Phase := Written (fst cov, early) 1 (snd cov) (lp_CoveredThroughSequenceNo (fst cov))\<rparr>],
      dk_row := Some (1, Some (fst cov, early))\<rparr>"
    unfolding cov_def by (simp only: late_run_persisted fst_conv)
  have live: "live_of ?d1 = live_of sample_sealed" "dk_final ?d1 = NoFinalization"
    unfolding d1 by (simp_all add: with_live_def sample_sealed_state)
  have now: "lv_runningDone (live_of ?d1)" "\<not> lv_analysisScheduled (live_of ?d1)" "lv_lastPayload (live_of ?d1) = None"
    "lv_runningGeneration (live_of ?d1) = 1" "lv_supersededGeneration (live_of ?d1) = 0"
    unfolding live by (simp_all add: sample_sealed_state sample_running_state)
  have row: "dk_row ?d1 = Some (1, Some (fst cov, early))" unfolding d1 by simp
  note fin = late_run_final [OF live(2) now(1-3) row, of "[sample_final 1]" sample_live "32 * second" final]
  have flush: "flush_segments [sample_final 1] (fst (fst cov, early)) = []" by (simp add: cov_def sample_final_flushed)
  have d: "d = live_run sample_live [DoFinalBegin, DoFinalTimeout, DoFinalSnapshot True,
      DoFinalFlush [sample_final 1] (32 * second), DoFinalRefresh final, DoFinalEnd] ?d1"
    unfolding d_def by (rule late_run_split)
  show "dk_row d = Some (1, Some (fst cov, final))" "dk_final d = NoFinalization" "lv_stopped (live_of d)"
    unfolding d using fin(1,3,5) [OF flush] by simp_all
  show "lv_supersededGeneration (live_of d) = 1" unfolding d using fin(4) [OF flush] now(4,5) by simp
  show "dk_rounds d = [sealed_round\<lparr>rd_Phase := Written (fst cov, early) 1 (snd cov) (lp_CoveredThroughSequenceNo (fst cov))\<rparr>]"
    unfolding d using fin(2) [OF flush] unfolding d1 by simp
qed

text \<open>A finalization that has stopped waiting for a round writes the final tree and ends; the
  reorganization of that superseded round, when it comes back, is still written over the final tree, as
  the next version.\<close>

theorem late_reorganization_rewinds_final_tree:
  "let cov = fst (addLiveAnalysisCoverage f why [sample_final 1] no_coverage);
       d = live_run sample_live (late_run f why early final) empty_desk;
       d' = live_do sample_live (DoReorganize True True late 0) d in
     dk_row d = Some (1, Some (cov, final)) \<and> dk_final d = NoFinalization \<and> lv_stopped (live_of d) \<and>
     liveRunSuperseded (rd_Generation (dk_rounds d ! 0)) (live_of d) \<and>
     dk_row d' = Some (2, Some (cov, late))"
  by (simp add: Let_def late_run_state on_round_def liveRunSuperseded_def round_reorganize_def sealed_round_def swap_row_def)

end
