(* ===== verification/Finalization.thy ===== *)
theory Finalization
  imports AnalysisStore SessionService
begin

text \<open>
  The pass that turns an ended meeting into a final tree and a final summary:
  \<open>generateFinalSummary\<close> with \<open>persistFinalizationProgress\<close>, \<open>persistFinalTreeSnapshot\<close> and the failure paths,
  \<open>FinalizeMeetingSession\<close>, the retry, and \<open>internal/application/ai_finalization_state.go\<close>.

  The rows are those of \<open>AnalysisStore\<close>; every call of the repository takes the next moment and may fail.
  What the parts outside yield is an argument: the preparation (the live rounds of \<open>LiveScheduler\<close> and the
  wait for late transcripts), the review, the repairs, the tree of the snapshot, the answer of the model,
  and \<open>encoding/json\<close>.
\<close>

section \<open>States of a finalization\<close>

definition finalizationStatusNotStarted :: gostring where "finalizationStatusNotStarted = ''not_started''"
definition finalizationStatusWaitingForTranscriptDrain :: gostring where
  "finalizationStatusWaitingForTranscriptDrain = ''waiting_for_transcript_drain''"
definition finalizationStatusWaitingForLiveAnalysis :: gostring where
  "finalizationStatusWaitingForLiveAnalysis = ''waiting_for_live_analysis''"
definition finalizationStatusBuildingFinalTree :: gostring where
  "finalizationStatusBuildingFinalTree = ''building_final_tree''"
definition finalizationStatusGeneratingSummary :: gostring where
  "finalizationStatusGeneratingSummary = ''generating_summary''"
definition finalizationStatusCompleted :: gostring where "finalizationStatusCompleted = ''completed''"
definition finalizationStatusFailed :: gostring where "finalizationStatusFailed = ''failed''"

lemmas finalization_status_defs =
  finalizationStatusNotStarted_def finalizationStatusWaitingForTranscriptDrain_def
  finalizationStatusWaitingForLiveAnalysis_def finalizationStatusBuildingFinalTree_def
  finalizationStatusGeneratingSummary_def finalizationStatusCompleted_def finalizationStatusFailed_def

definition finalizationStatusForStage :: "gostring \<Rightarrow> gostring" where
  "finalizationStatusForStage stage0 =
     (let stage = trim_space stage0 in
      if stage = [] \<or> stage = ''requested'' then finalizationStatusNotStarted
      else if stage = ''waiting_for_transcript_drain'' then finalizationStatusWaitingForTranscriptDrain
      else if stage = ''waiting_for_live_analysis'' then finalizationStatusWaitingForLiveAnalysis
      else if stage \<in> {''final_flush_completed'', ''final_tree_review_completed'', ''tree_saved''}
        then finalizationStatusBuildingFinalTree
      else if stage = ''final_summary_running'' then finalizationStatusGeneratingSummary
      else if stage = ''completed'' then finalizationStatusCompleted
      else finalizationStatusFailed)"

definition finalizationAbandonedAfter :: duration where "finalizationAbandonedAfter = 15 * minute"

record finalizationWaitOperation =
  wo_OperationID :: gostring
  wo_Type :: gostring
  wo_Generation :: nat
  wo_Trigger :: gostring
  wo_FromSequenceNo :: int
  wo_ThroughSequenceNo :: int
  wo_WaitMs :: int
  wo_Result :: gostring

record finalizationProgressPayload =
  fp_FinalizationID :: gostring
  fp_Stage :: gostring
  fp_LatestPersistedFinalSequence :: int
  fp_LastSuccessfullyAnalyzed :: int
  fp_BotLastForwardedFinalSequence :: int
  fp_FinalizationTargetSequence :: int
  fp_PendingSegmentCount :: int
  fp_TreeCoveredThroughSequenceNo :: int
  fp_SummaryCoveredThroughSequenceNo :: int
  fp_WaitTimedOut :: bool
  fp_FinalizationIncomplete :: bool
  fp_RetryCount :: int
  fp_TranscriptFallbackUsed :: bool
  fp_FinalTreeReviewFailed :: bool
  fp_FinalTreeReviewResult :: gostring
  fp_FinalTreeAuditRunID :: gostring
  fp_FinalizationStatus :: gostring
  fp_FinalizationStartedAt :: gostring
  fp_FinalizationUpdatedAt :: gostring
  fp_FinalizationCompletedAt :: gostring
  fp_FinalizationFailedAt :: gostring
  fp_FinalizationErrorCode :: gostring
  fp_FinalizationErrorMessage :: gostring
  fp_Retryable :: bool
  fp_AttemptCount :: int
  fp_SourceTreeVersion :: int
  fp_SourceAnalysisVersion :: int
  fp_SummaryVersion :: int
  fp_LiveWaitTimedOut :: bool
  fp_LiveFallbackUsed :: bool
  fp_WaitingOperations :: "finalizationWaitOperation list"

definition zero_progress :: finalizationProgressPayload where
  "zero_progress =
     \<lparr>fp_FinalizationID = [], fp_Stage = [], fp_LatestPersistedFinalSequence = 0,
      fp_LastSuccessfullyAnalyzed = 0, fp_BotLastForwardedFinalSequence = 0,
      fp_FinalizationTargetSequence = 0, fp_PendingSegmentCount = 0,
      fp_TreeCoveredThroughSequenceNo = 0, fp_SummaryCoveredThroughSequenceNo = 0,
      fp_WaitTimedOut = False, fp_FinalizationIncomplete = False, fp_RetryCount = 0,
      fp_TranscriptFallbackUsed = False, fp_FinalTreeReviewFailed = False, fp_FinalTreeReviewResult = [],
      fp_FinalTreeAuditRunID = [], fp_FinalizationStatus = [], fp_FinalizationStartedAt = [],
      fp_FinalizationUpdatedAt = [], fp_FinalizationCompletedAt = [], fp_FinalizationFailedAt = [],
      fp_FinalizationErrorCode = [], fp_FinalizationErrorMessage = [], fp_Retryable = False,
      fp_AttemptCount = 0, fp_SourceTreeVersion = 0, fp_SourceAnalysisVersion = 0, fp_SummaryVersion = 0,
      fp_LiveWaitTimedOut = False, fp_LiveFallbackUsed = False, fp_WaitingOperations = []\<rparr>"

record finalizationPreparation =
  pr_SegmentCount :: nat
  pr_TargetSequence :: int
  pr_LatestPersistedFinalSequence :: int
  pr_LastSuccessfullyAnalyzed :: int
  pr_PendingSegmentCount :: int
  pr_LivePayload :: gostring
  pr_LiveVersion :: int
  pr_WaitTimedOut :: bool
  pr_TranscriptFallbackUsed :: bool
  pr_LiveWaitTimedOut :: bool
  pr_LiveFallbackUsed :: bool
  pr_WaitOperations :: "finalizationWaitOperation list"

section \<open>The world of a finalization\<close>

text \<open>\<open>encoding/json\<close>, \<open>time.Format\<close> and the parts of the service that are arguments here.\<close>

record final_lib =
  fl_json :: json_column
  fl_encode :: "finalizationProgressPayload \<Rightarrow> gostring"
  fl_decode :: "gostring \<Rightarrow> finalizationProgressPayload option"
  fl_time :: "gotime \<Rightarrow> gostring"
  fl_treeVersion :: "gostring \<Rightarrow> int"
  fl_errorText :: "goerror \<Rightarrow> gostring"

record final_config =
  fc_finalActive :: bool
  fc_liveActive :: bool
  fc_flushAttempts :: int
  fc_hasCompleter :: bool
  fc_Model :: gostring
  fc_summaryModel :: gostring

record tree_review =
  rv_Failed :: bool
  rv_Result :: gostring
  rv_RunID :: gostring
  rv_Applied :: bool
  rv_Payload :: gostring
  rv_Version :: int

record tree_snapshot =
  tz_livePayload :: gostring
  tz_model :: gostring
  tz_payload :: "gotime \<Rightarrow> gostring"

record final_inputs =
  fi_ID :: gostring
  fi_lastForwarded :: int
  fi_prepared :: finalizationPreparation
  fi_prepareError :: "gostring option"
  fi_prepare_db :: "analysis_db \<Rightarrow> analysis_db"
  fi_review :: "gostring \<Rightarrow> int \<Rightarrow> tree_review"
  fi_review_db :: "analysis_db \<Rightarrow> analysis_db"
  fi_degraded :: "gostring \<Rightarrow> gostring"
  fi_repair :: "gostring \<Rightarrow> int \<Rightarrow> gostring option"
  fi_lifecycle :: "gostring \<Rightarrow> int \<Rightarrow> gostring option"
  fi_snapshot :: "gostring \<Rightarrow> int \<Rightarrow> tree_snapshot option"
  fi_inputChars :: int
  fi_answer :: "gostring \<Rightarrow> int \<Rightarrow> gostring + (gostring \<times> gostring)"
  fi_parse :: "gostring \<Rightarrow> gostring + gostring"
  fi_cover :: "gostring \<Rightarrow> int \<Rightarrow> int \<Rightarrow> gostring + gostring"

record final_state =
  fs_db :: analysis_db
  fs_inFlight :: "gostring list"
  fs_finalizing :: bool
  fs_stopped :: bool
  fs_published :: "MeetingAIAnalysis list"
  fs_changes :: "(MeetingAIAnalysisStatus \<times> int \<times> finalizationProgressPayload) list"
  fs_calls :: nat
  fs_faults :: "nat \<Rightarrow> bool"
  fs_ticks :: nat
  fs_moments :: "nat \<Rightarrow> gotime"

definition f_now :: "final_state \<Rightarrow> gotime \<times> final_state" where
  "f_now w = (fs_moments w (fs_ticks w), w\<lparr>fs_ticks := Suc (fs_ticks w)\<rparr>)"

definition f_call :: "(analysis_db, 'a) op \<Rightarrow> final_state \<Rightarrow> 'a result \<times> final_state" where
  "f_call opn w =
     (let w1 = w\<lparr>fs_calls := Suc (fs_calls w)\<rparr> in
      if fs_faults w (fs_calls w) then (Inl ErrDatabase, w1)
      else (let (now, w2) = f_now w1; (r, db) = opn (now, []) (fs_db w2) in (r, w2\<lparr>fs_db := db\<rparr>)))"

definition f_publish :: "MeetingAIAnalysis \<Rightarrow> final_state \<Rightarrow> final_state" where
  "f_publish a w = w\<lparr>fs_published := fs_published w @ [a]\<rparr>"

text \<open>The row a write of the service carries.\<close>

definition analysis_row ::
    "gostring \<Rightarrow> MeetingAIAnalysisType \<Rightarrow> MeetingAIAnalysisStatus \<Rightarrow> int \<Rightarrow> gostring \<Rightarrow> gostring \<Rightarrow> int \<Rightarrow> int \<Rightarrow>
     gostring \<Rightarrow> gotime \<Rightarrow> MeetingAIAnalysis" where
  "analysis_row sessionID ty status version payload model segments chars lastError updatedAt =
     \<lparr>aa_SessionID = sessionID, aa_Type = ty, aa_Status = status, aa_Version = version,
      aa_Payload = payload, aa_Model = model, aa_SegmentCount = segments, aa_InputChars = chars,
      aa_LastError = lastError, aa_CreatedAt = 0, aa_UpdatedAt = updatedAt, aa_IntervalSeconds = 0,
      aa_RequestedAnalysisVersion = 0, aa_TargetFromSequenceNo = 0, aa_TargetThroughSequenceNo = 0,
      aa_StartedAt = 0\<rparr>"

definition f_upsert :: "final_lib \<Rightarrow> MeetingAIAnalysis \<Rightarrow> final_state \<Rightarrow> MeetingAIAnalysis result \<times> final_state" where
  "f_upsert lib a = f_call (UpsertMeetingAIAnalysis (fl_json lib) a)"

definition f_get :: "gostring \<Rightarrow> MeetingAIAnalysisType \<Rightarrow> final_state \<Rightarrow> MeetingAIAnalysis result \<times> final_state" where
  "f_get sessionID ty = f_call (GetMeetingAIAnalysis sessionID ty)"

section \<open>Progress\<close>

text \<open>What \<open>persistFinalizationProgress\<close> stamps; the record of the caller stays as it is.\<close>

definition stamped_progress ::
    "MeetingAIAnalysisStatus \<Rightarrow> gostring \<Rightarrow> gostring option \<Rightarrow> finalizationProgressPayload \<Rightarrow> finalizationProgressPayload" where
  "stamped_progress status now cause p0 =
     (let p1 = (if fp_FinalizationStatus p0 = []
            then p0\<lparr>fp_FinalizationStatus := finalizationStatusForStage (fp_Stage p0)\<rparr> else p0);
          p2 = p1\<lparr>fp_FinalizationUpdatedAt := now\<rparr>;
          p3 = (case status of
              AnalysisCompleted \<Rightarrow> p2\<lparr>fp_FinalizationCompletedAt := now, fp_Retryable := False\<rparr>
            | AnalysisFailed \<Rightarrow> p2\<lparr>fp_FinalizationFailedAt := now, fp_Retryable := True\<rparr>
            | AnalysisRunning \<Rightarrow> p2) in
      case cause of
        Some c \<Rightarrow> (if fp_FinalizationErrorMessage p3 = []
           then p3\<lparr>fp_FinalizationErrorMessage := truncateErrorMessage c 300\<rparr> else p3)
      | None \<Rightarrow> p3)"

definition persistFinalizationProgress ::
    "final_lib \<Rightarrow> gostring \<Rightarrow> MeetingAIAnalysisStatus \<Rightarrow> int \<Rightarrow> finalizationProgressPayload \<Rightarrow> gostring option \<Rightarrow>
     final_state \<Rightarrow> final_state" where
  "persistFinalizationProgress lib sessionID status version p cause w =
     (let (now, w1) = f_now w;
          q = stamped_progress status (fl_time lib now) cause p;
          lastError = (case cause of None \<Rightarrow> [] | Some c \<Rightarrow> truncateErrorMessage c 300);
          (_, w2) = f_upsert lib (analysis_row sessionID AnalysisFinalization status version (fl_encode lib q)
             [] 0 0 lastError now) w1
      in w2\<lparr>fs_changes := fs_changes w2 @ [(status, version, q)]\<rparr>)"

text \<open>The beginning of an attempt: the version of its progress row and its number, or nothing to do.\<close>

definition attempt_number :: "final_lib \<Rightarrow> MeetingAIAnalysis \<Rightarrow> int" where
  "attempt_number lib row =
     (if aa_Payload row = [] then 2
      else (case fl_decode lib (aa_Payload row) of
          Some previous \<Rightarrow> if 0 < fp_AttemptCount previous then fp_AttemptCount previous + 1 else 2
        | None \<Rightarrow> 2))"

definition attempt_start :: "final_lib \<Rightarrow> gostring \<Rightarrow> final_state \<Rightarrow> (int \<times> int) option \<times> final_state" where
  "attempt_start lib sessionID w =
     (case f_get sessionID AnalysisFinalization w of
        (Inr row, w1) \<Rightarrow>
          (if aa_Status row = AnalysisCompleted then (None, w1)
           else (Some (aa_Version row + 1, attempt_number lib row), w1))
      | (Inl _, w1) \<Rightarrow>
          (case f_get sessionID AnalysisFinal w1 of
             (Inr row, w2) \<Rightarrow> (if aa_Status row = AnalysisCompleted then (None, w2) else (Some (1, 1), w2))
           | (Inl _, w2) \<Rightarrow> (Some (1, 1), w2)))"

definition first_progress :: "final_inputs \<Rightarrow> gostring \<Rightarrow> int \<Rightarrow> finalizationProgressPayload" where
  "first_progress fi started attempts =
     zero_progress\<lparr>fp_FinalizationID := fi_ID fi, fp_Stage := ''waiting_for_transcript_drain'',
       fp_BotLastForwardedFinalSequence := fi_lastForwarded fi, fp_FinalizationStartedAt := started,
       fp_AttemptCount := attempts\<rparr>"

definition prepared_progress ::
    "final_config \<Rightarrow> final_lib \<Rightarrow> final_inputs \<Rightarrow> finalizationProgressPayload \<Rightarrow> finalizationProgressPayload" where
  "prepared_progress c lib fi p =
     (let r = fi_prepared fi;
          tree = fl_treeVersion lib (pr_LivePayload r);
          q = p\<lparr>fp_Stage := ''final_flush_completed'', fp_FinalizationStatus := finalizationStatusBuildingFinalTree,
                fp_LatestPersistedFinalSequence := pr_LatestPersistedFinalSequence r,
                fp_LastSuccessfullyAnalyzed := pr_LastSuccessfullyAnalyzed r,
                fp_FinalizationTargetSequence := pr_TargetSequence r,
                fp_PendingSegmentCount := pr_PendingSegmentCount r, fp_WaitTimedOut := pr_WaitTimedOut r,
                fp_TranscriptFallbackUsed := pr_TranscriptFallbackUsed r,
                fp_LiveWaitTimedOut := pr_LiveWaitTimedOut r, fp_LiveFallbackUsed := pr_LiveFallbackUsed r,
                fp_WaitingOperations := pr_WaitOperations r, fp_SourceAnalysisVersion := pr_LiveVersion r,
                fp_SourceTreeVersion := (if tree \<le> 0 then pr_LiveVersion r else tree),
                fp_FinalizationIncomplete := pr_TranscriptFallbackUsed r \<or> pr_WaitTimedOut r \<or>
                  pr_LiveWaitTimedOut r \<or> fi_prepareError fi \<noteq> None \<or>
                  pr_LastSuccessfullyAnalyzed r < pr_TargetSequence r\<rparr> in
      case fi_prepareError fi of
        Some e \<Rightarrow> q\<lparr>fp_RetryCount := fc_flushAttempts c, fp_FinalizationErrorCode := ''final_flush_failed'',
                    fp_FinalizationErrorMessage := truncateErrorMessage e 300\<rparr>
      | None \<Rightarrow> (if pr_LiveWaitTimedOut r then q\<lparr>fp_FinalizationErrorCode := ''live_wait_timeout''\<rparr> else q))"

text \<open>A failure of the pipeline itself: the stage, the code, and the row with the status failed.\<close>

definition fail_progress ::
    "final_lib \<Rightarrow> gostring \<Rightarrow> int \<Rightarrow> gostring \<Rightarrow> gostring \<Rightarrow> gostring \<Rightarrow> finalizationProgressPayload \<Rightarrow>
     final_state \<Rightarrow> final_state" where
  "fail_progress lib sessionID version stage code cause p =
     persistFinalizationProgress lib sessionID AnalysisFailed version
       (p\<lparr>fp_Stage := stage, fp_FinalizationStatus := finalizationStatusFailed,
          fp_FinalizationErrorCode := code, fp_FinalizationIncomplete := True\<rparr>) (Some cause)"

definition persistFinalSummaryFailure ::
    "final_lib \<Rightarrow> gostring \<Rightarrow> int \<Rightarrow> gostring \<Rightarrow> finalizationProgressPayload \<Rightarrow> final_state \<Rightarrow> final_state" where
  "persistFinalSummaryFailure lib sessionID version cause p =
     (let q = p\<lparr>fp_Stage := ''final_summary_failed'', fp_FinalizationStatus := finalizationStatusFailed\<rparr>;
          q1 = (if fp_FinalizationErrorCode q = []
            then q\<lparr>fp_FinalizationErrorCode := ''final_summary_failed'',
                   fp_FinalizationErrorMessage := truncateErrorMessage cause 300\<rparr> else q) in
      persistFinalizationProgress lib sessionID AnalysisFailed version
        (q1\<lparr>fp_FinalizationIncomplete := True\<rparr>) (Some cause))"

section \<open>The final tree\<close>

text \<open>\<open>persistFinalizedLiveProjection\<close> with the next two calls of the repository.\<close>

definition f_project ::
    "final_lib \<Rightarrow> gostring \<Rightarrow> gostring \<Rightarrow> int \<Rightarrow> final_state \<Rightarrow> bool \<times> final_state" where
  "f_project lib sessionID payload version w =
     (let n = fs_calls w; (now, w1) = f_now w in
      case persistFinalizedLiveProjection (fl_json lib) (fs_faults w n) (fs_faults w (Suc n)) (now, []) sessionID
             payload version (fs_db w1) of
        (r, db) \<Rightarrow>
          (let w2 = w1\<lparr>fs_db := db, fs_calls := Suc (Suc n)\<rparr> in
           case r of Inl _ \<Rightarrow> (False, w2)
             | Inr None \<Rightarrow> (True, w2)
             | Inr (Some saved) \<Rightarrow> (True, f_publish saved w2)))"

text \<open>\<open>persistFinalTreeSnapshot\<close>: an empty tree leaves nothing to save; the live row is written first and
  its time stamps the snapshot.\<close>

definition persistFinalTreeSnapshot ::
    "final_lib \<Rightarrow> gostring \<Rightarrow> tree_snapshot option \<Rightarrow> int \<Rightarrow> final_state \<Rightarrow> bool \<times> final_state" where
  "persistFinalTreeSnapshot lib sessionID snapshot liveVersion w =
     (case snapshot of
        None \<Rightarrow> (False, w)
      | Some z \<Rightarrow>
          (case f_project lib sessionID (tz_livePayload z) liveVersion w of
             (False, w1) \<Rightarrow> (False, w1)
           | (True, w1) \<Rightarrow>
               (case f_get sessionID AnalysisLive w1 of
                  (Inl _, w2) \<Rightarrow> (False, w2)
                | (Inr live, w2) \<Rightarrow>
                    (case f_upsert lib (analysis_row sessionID AnalysisTree AnalysisCompleted liveVersion
                            (tz_payload z (aa_UpdatedAt live)) (tz_model z) 0 0 [] (aa_UpdatedAt live)) w2 of
                       (r, w3) \<Rightarrow> (case r of Inl _ \<Rightarrow> False | Inr _ \<Rightarrow> True, w3)))))"

text \<open>The payload the review, the repairs and the agenda lifecycle leave; the live row follows it.\<close>

definition reviewed_payload :: "final_inputs \<Rightarrow> gostring \<times> int" where
  "reviewed_payload fi =
     (let r = fi_prepared fi; v = fi_review fi (pr_LivePayload r) (pr_LiveVersion r);
          (payload, version) =
            (if rv_Failed v then (fi_degraded fi (pr_LivePayload r), pr_LiveVersion r)
             else if rv_Applied v then (rv_Payload v, rv_Version v)
             else (pr_LivePayload r, pr_LiveVersion r)) in
      (case fi_repair fi payload version of None \<Rightarrow> payload | Some repaired \<Rightarrow> repaired, version))"

definition review_final_tree ::
    "final_lib \<Rightarrow> final_inputs \<Rightarrow> gostring \<Rightarrow> final_state \<Rightarrow> (gostring \<times> int) \<times> final_state" where
  "review_final_tree lib fi sessionID w =
     (let (payload, version) = reviewed_payload fi; w1 = w\<lparr>fs_db := fi_review_db fi (fs_db w)\<rparr> in
      case fi_lifecycle fi payload version of
        None \<Rightarrow> ((payload, version), w1)
      | Some finalized \<Rightarrow> ((finalized, version), snd (f_project lib sessionID finalized version w1)))"

definition reviewed_progress :: "final_inputs \<Rightarrow> finalizationProgressPayload \<Rightarrow> finalizationProgressPayload" where
  "reviewed_progress fi p =
     (let v = fi_review fi (pr_LivePayload (fi_prepared fi)) (pr_LiveVersion (fi_prepared fi)) in
      p\<lparr>fp_FinalTreeReviewResult := rv_Result v, fp_FinalTreeAuditRunID := rv_RunID v,
        fp_FinalTreeReviewFailed := fp_FinalTreeReviewFailed p \<or> rv_Failed v,
        fp_Stage := ''final_tree_review_completed''\<rparr>)"

section \<open>The summary\<close>

definition handleFinalAnalysisFailure ::
    "final_config \<Rightarrow> final_lib \<Rightarrow> final_inputs \<Rightarrow> gostring \<Rightarrow> int \<Rightarrow> gostring \<Rightarrow> gostring \<Rightarrow> final_state \<Rightarrow> final_state" where
  "handleFinalAnalysisFailure c lib fi sessionID version previousPayload cause w =
     (let (now, w1) = f_now w in
      case f_upsert lib (analysis_row sessionID AnalysisFinal AnalysisFailed version previousPayload
             (fc_Model c) (int (pr_SegmentCount (fi_prepared fi))) (fi_inputChars fi)
             (truncateErrorMessage cause 300) now) w1 of
        (Inl _, w2) \<Rightarrow> w2 | (Inr saved, w2) \<Rightarrow> f_publish saved w2)"

definition completed_progress ::
    "final_config \<Rightarrow> final_inputs \<Rightarrow> bool \<Rightarrow> int \<Rightarrow> finalizationProgressPayload \<Rightarrow> finalizationProgressPayload" where
  "completed_progress c fi treeSaved summaryVersion p =
     (let target = pr_TargetSequence (fi_prepared fi);
          incomplete = fp_FinalizationIncomplete p \<or> fc_liveActive c \<and> 0 < target \<and>
            (\<not> treeSaved \<or> fp_TreeCoveredThroughSequenceNo p \<noteq> target) in
      p\<lparr>fp_Stage := ''completed'', fp_SummaryVersion := summaryVersion,
        fp_SummaryCoveredThroughSequenceNo := target, fp_FinalizationIncomplete := incomplete,
        fp_FinalizationStatus := finalizationStatusCompleted,
        fp_FinalizationErrorCode := (if incomplete \<and> fp_FinalizationErrorCode p = []
           then ''incomplete_transcript_coverage'' else fp_FinalizationErrorCode p)\<rparr>)"

text \<open>The answer of the model, checked and marked with what it covers.\<close>

definition summary_payload :: "final_inputs \<Rightarrow> gostring \<Rightarrow> int \<Rightarrow> gostring + (gostring \<times> gostring)" where
  "summary_payload fi livePayload liveVersion =
     (case fi_answer fi livePayload liveVersion of
        Inl e \<Rightarrow> Inl e
      | Inr (content, model) \<Rightarrow>
          (case fi_parse fi content of
             Inl e \<Rightarrow> Inl e
           | Inr payload \<Rightarrow>
               (case fi_cover fi payload (pr_TargetSequence (fi_prepared fi)) liveVersion of
                  Inl e \<Rightarrow> Inl e | Inr covered \<Rightarrow> Inr (covered, model))))"

definition write_summary ::
    "final_config \<Rightarrow> final_lib \<Rightarrow> final_inputs \<Rightarrow> gostring \<Rightarrow> int \<Rightarrow> int \<Rightarrow> gostring \<Rightarrow> bool \<Rightarrow> gostring \<Rightarrow> int \<Rightarrow>
     finalizationProgressPayload \<Rightarrow> final_state \<Rightarrow> final_state" where
  "write_summary c lib fi sessionID progressVersion version previousPayload treeSaved livePayload liveVersion p w =
     (case summary_payload fi livePayload liveVersion of
        Inl e \<Rightarrow> persistFinalSummaryFailure lib sessionID progressVersion e p
                  (handleFinalAnalysisFailure c lib fi sessionID version previousPayload e w)
      | Inr (payload, model) \<Rightarrow>
          (let (now, w1) = f_now w in
           case f_upsert lib (analysis_row sessionID AnalysisFinal AnalysisCompleted version payload model
                  (int (pr_SegmentCount (fi_prepared fi))) (fi_inputChars fi) [] now) w1 of
             (Inl e, w2) \<Rightarrow> fail_progress lib sessionID progressVersion ''final_summary_persist_failed''
                 ''final_summary_persist_failed'' (fl_errorText lib e) p w2
           | (Inr saved, w2) \<Rightarrow>
               persistFinalizationProgress lib sessionID AnalysisCompleted progressVersion
                 (completed_progress c fi treeSaved (aa_Version saved) p) None (f_publish saved w2)))"

section \<open>An attempt\<close>

text \<open>From the claimed row of the summary on: review, tree, summary.\<close>

definition summarize ::
    "final_config \<Rightarrow> final_lib \<Rightarrow> final_inputs \<Rightarrow> gostring \<Rightarrow> int \<Rightarrow> int \<Rightarrow> gostring \<Rightarrow> finalizationProgressPayload \<Rightarrow>
     final_state \<Rightarrow> final_state" where
  "summarize c lib fi sessionID progressVersion version previousPayload p w =
     (let ((payload, liveVersion), w1) = review_final_tree lib fi sessionID w;
          p1 = reviewed_progress fi p;
          w2 = persistFinalizationProgress lib sessionID AnalysisRunning progressVersion p1 None w1;
          (treeSaved, w3) = persistFinalTreeSnapshot lib sessionID (fi_snapshot fi payload liveVersion) liveVersion w2;
          p2 = (if treeSaved
            then p1\<lparr>fp_TreeCoveredThroughSequenceNo := pr_LastSuccessfullyAnalyzed (fi_prepared fi)\<rparr> else p1)
               \<lparr>fp_Stage := ''tree_saved''\<rparr>;
          w4 = persistFinalizationProgress lib sessionID AnalysisRunning progressVersion p2 None w3;
          p3 = p2\<lparr>fp_Stage := ''final_summary_running'', fp_FinalizationStatus := finalizationStatusGeneratingSummary\<rparr>;
          w5 = persistFinalizationProgress lib sessionID AnalysisRunning progressVersion p3 None w4 in
      write_summary c lib fi sessionID progressVersion version previousPayload treeSaved payload liveVersion p3 w5)"

text \<open>The row of the summary is set to running before anything else is done.\<close>

definition claim_summary ::
    "final_config \<Rightarrow> final_lib \<Rightarrow> final_inputs \<Rightarrow> gostring \<Rightarrow> int \<Rightarrow> finalizationProgressPayload \<Rightarrow>
     final_state \<Rightarrow> final_state" where
  "claim_summary c lib fi sessionID progressVersion p w =
     (case f_get sessionID AnalysisFinal w of
        (r, w1) \<Rightarrow>
          (case (case r of Inl e \<Rightarrow> if is_not_found e then None else Some e | Inr _ \<Rightarrow> None) of
             Some e \<Rightarrow> fail_progress lib sessionID progressVersion ''final_summary_lookup_failed''
                  ''final_summary_lookup_failed'' (fl_errorText lib e) p w1
           | None \<Rightarrow> (let version = (case r of Inl _ \<Rightarrow> 1 | Inr existing \<Rightarrow> aa_Version existing + 1);
                     previousPayload = (case r of Inl _ \<Rightarrow> [] | Inr existing \<Rightarrow> aa_Payload existing);
                     (now, w2) = f_now w1 in
              case f_upsert lib (analysis_row sessionID AnalysisFinal AnalysisRunning version previousPayload
                     (fc_summaryModel c) 0 0 [] now) w2 of
                (Inl e, w3) \<Rightarrow> fail_progress lib sessionID progressVersion ''final_summary_running_persist_failed''
                    ''final_summary_persist_failed'' (fl_errorText lib e) p w3
              | (Inr saved, w3) \<Rightarrow>
                  summarize c lib fi sessionID progressVersion version previousPayload p (f_publish saved w3))))"

definition nothing_to_summarize :: "final_inputs \<Rightarrow> bool" where
  "nothing_to_summarize fi \<longleftrightarrow> pr_SegmentCount (fi_prepared fi) = 0 \<and>
     \<not> pr_TranscriptFallbackUsed (fi_prepared fi) \<and> pr_LivePayload (fi_prepared fi) = []"

definition final_attempt ::
    "final_config \<Rightarrow> final_lib \<Rightarrow> final_inputs \<Rightarrow> gostring \<Rightarrow> final_state \<Rightarrow> final_state" where
  "final_attempt c lib fi sessionID w =
     (case attempt_start lib sessionID w of
        (None, w1) \<Rightarrow> w1
      | (Some (progressVersion, attempts), w1) \<Rightarrow>
          (let (now, w2) = f_now w1;
               p0 = first_progress fi (fl_time lib now) attempts;
               w3 = persistFinalizationProgress lib sessionID AnalysisRunning progressVersion p0 None w2;
               w4 = w3\<lparr>fs_finalizing := True, fs_db := fi_prepare_db fi (fs_db w3)\<rparr>;
               p = prepared_progress c lib fi p0;
               w5 = persistFinalizationProgress lib sessionID AnalysisRunning progressVersion p None w4 in
           if nothing_to_summarize fi
           then persistFinalizationProgress lib sessionID AnalysisCompleted progressVersion
                  (p\<lparr>fp_Stage := ''completed'', fp_FinalizationStatus := finalizationStatusCompleted\<rparr>) None w5
           else if \<not> fc_hasCompleter c
           then fail_progress lib sessionID progressVersion ''final_summary_failed''
                  ''final_summary_completer_missing'' ''azure openai completer is not configured'' p w5
           else claim_summary c lib fi sessionID progressVersion p w5))"

text \<open>One attempt per session at a time; at its end the session is stopped.\<close>

definition final_release :: "gostring \<Rightarrow> final_state \<Rightarrow> final_state" where
  "final_release sessionID w = w\<lparr>fs_inFlight := removeAll sessionID (fs_inFlight w), fs_finalizing := False, fs_stopped := True\<rparr>"

definition generateFinalSummary ::
    "final_config \<Rightarrow> final_lib \<Rightarrow> final_inputs \<Rightarrow> gostring \<Rightarrow> final_state \<Rightarrow> final_state" where
  "generateFinalSummary c lib fi sessionID0 w =
     (let sessionID = trim_space sessionID0 in
      if sessionID \<in> set (fs_inFlight w) then w
      else final_release sessionID
             (final_attempt c lib fi sessionID (w\<lparr>fs_inFlight := sessionID # fs_inFlight w\<rparr>)))"

section \<open>Finalizing and retrying\<close>

datatype final_error =
    FinalReadError goerror
  | FinalMessage gostring
  | FinalEndedWith MeetingAIAnalysisStatus
  | FinalIncomplete gostring

definition row_progress :: "final_lib \<Rightarrow> MeetingAIAnalysis \<Rightarrow> finalizationProgressPayload" where
  "row_progress lib row =
     (if aa_Payload row = [] then zero_progress
      else (case fl_decode lib (aa_Payload row) of None \<Rightarrow> zero_progress | Some p \<Rightarrow> p))"

definition finalization_result :: "final_lib \<Rightarrow> MeetingAIAnalysis \<Rightarrow> final_error option" where
  "finalization_result lib row =
     (let p = row_progress lib row; message = first_trimmed [fp_FinalizationErrorMessage p, aa_LastError row] in
      if aa_Status row \<noteq> AnalysisCompleted
      then (if message \<noteq> [] then Some (FinalMessage message) else Some (FinalEndedWith (aa_Status row)))
      else if fp_FinalizationIncomplete p
      then (if message \<noteq> [] then Some (FinalMessage message)
            else Some (FinalIncomplete (if fp_FinalizationErrorCode p = [] then ''incomplete_transcript_coverage''
              else fp_FinalizationErrorCode p)))
      else None)"

definition FinalizeMeetingSession ::
    "final_config \<Rightarrow> final_lib \<Rightarrow> final_inputs \<Rightarrow> gostring \<Rightarrow> final_state \<Rightarrow> final_error option \<times> final_state" where
  "FinalizeMeetingSession c lib fi sessionID w =
     (if \<not> fc_finalActive c then (None, w)
      else (case f_get sessionID AnalysisFinalization (generateFinalSummary c lib fi sessionID w) of
          (Inr row, w1) \<Rightarrow> (finalization_result lib row, w1)
        | (Inl e, w1) \<Rightarrow>
            (if is_not_found e
             then (case f_get sessionID AnalysisFinal w1 of
                 (Inr row, w2) \<Rightarrow> (if aa_Status row = AnalysisCompleted then None else Some (FinalReadError e), w2)
               | (Inl _, w2) \<Rightarrow> (Some (FinalReadError e), w2))
             else (Some (FinalReadError e), w1))))"

datatype retry_error =
    RetryInvalid
  | RetryUnavailable
  | RetryAlreadyCompleted
  | RetryReadError goerror
  | RetryFailed gostring

definition finalizationRetryable :: "MeetingAIAnalysis option \<Rightarrow> MeetingAIAnalysis option \<Rightarrow> bool" where
  "finalizationRetryable progress final =
     (if (case final of Some f \<Rightarrow> aa_Status f = AnalysisCompleted \<and> aa_Payload f \<noteq> [] | None \<Rightarrow> False) then False
      else (case progress of None \<Rightarrow> True | Some p \<Rightarrow> aa_Status p \<noteq> AnalysisCompleted))"

definition getOptionalAnalysis ::
    "gostring \<Rightarrow> MeetingAIAnalysisType \<Rightarrow> final_state \<Rightarrow> MeetingAIAnalysis option result \<times> final_state" where
  "getOptionalAnalysis sessionID ty w =
     (case f_get sessionID ty w of
        (Inl e, w1) \<Rightarrow> (if is_not_found e then Inr None else Inl e, w1)
      | (Inr row, w1) \<Rightarrow> (Inr (Some row), w1))"

definition finalizationRetryPrecheck ::
    "final_config \<Rightarrow> gostring \<Rightarrow> final_state \<Rightarrow> retry_error option \<times> final_state" where
  "finalizationRetryPrecheck c sessionID w =
     (if trim_space sessionID = [] then (Some RetryInvalid, w)
      else if \<not> fc_finalActive c then (Some RetryUnavailable, w)
      else (case getOptionalAnalysis sessionID AnalysisFinalization w of
          (Inl e, w1) \<Rightarrow> (Some (RetryReadError e), w1)
        | (Inr progress, w1) \<Rightarrow>
            (case getOptionalAnalysis sessionID AnalysisFinal w1 of
               (Inl e, w2) \<Rightarrow> (Some (RetryReadError e), w2)
             | (Inr final, w2) \<Rightarrow>
                 (if finalizationRetryable progress final then None else Some RetryAlreadyCompleted, w2))))"

definition RetryMeetingSessionFinalization ::
    "final_config \<Rightarrow> final_lib \<Rightarrow> final_inputs \<Rightarrow> gostring \<Rightarrow> final_state \<Rightarrow> retry_error option \<times> final_state" where
  "RetryMeetingSessionFinalization c lib fi sessionID0 w =
     (let sessionID = trim_space sessionID0 in
      case finalizationRetryPrecheck c sessionID w of
        (Some e, w1) \<Rightarrow> (Some e, w1)
      | (None, w1) \<Rightarrow>
          (case getOptionalAnalysis sessionID AnalysisFinalization
                  (generateFinalSummary c lib (fi\<lparr>fi_lastForwarded := 0\<rparr>) sessionID
                    (w1\<lparr>fs_stopped := False, fs_finalizing := False\<rparr>)) of
             (Inl e, w2) \<Rightarrow> (Some (RetryReadError e), w2)
           | (Inr (Some row), w2) \<Rightarrow>
               (if aa_Status row = AnalysisFailed
                then Some (RetryFailed (if trim_space (aa_LastError row) \<noteq> [] then trim_space (aa_LastError row)
                  else ''meeting finalization retry did not complete''))
                else None, w2)
           | (Inr None, w2) \<Rightarrow> (None, w2)))"

section \<open>Delivery\<close>

text \<open>A running row nobody works on any more is delivered as a failure that can be retried.\<close>

definition abandoned_progress :: "gostring \<Rightarrow> finalizationProgressPayload \<Rightarrow> finalizationProgressPayload" where
  "abandoned_progress failedAt p =
     p\<lparr>fp_FinalizationStatus := finalizationStatusFailed, fp_FinalizationIncomplete := True, fp_Retryable := True,
       fp_FinalizationErrorCode := ''abandoned_finalization_attempt'',
       fp_FinalizationErrorMessage := ''finalization attempt was abandoned before completion'',
       fp_FinalizationFailedAt := failedAt\<rparr>"

definition projectFinalizationForDelivery ::
    "final_lib \<Rightarrow> bool \<Rightarrow> gotime \<Rightarrow> MeetingAIAnalysis \<Rightarrow> MeetingAIAnalysis" where
  "projectFinalizationForDelivery lib inFlight now a =
     (if aa_Status a \<noteq> AnalysisRunning \<or> inFlight then a
      else if is_zero (aa_UpdatedAt a) \<or> time_sub now (aa_UpdatedAt a) < finalizationAbandonedAfter then a
      else if aa_Payload a \<noteq> [] \<and> fl_decode lib (aa_Payload a) = None then a
      else a\<lparr>aa_Status := AnalysisFailed,
             aa_Payload := fl_encode lib (abandoned_progress (fl_time lib now) (row_progress lib a)),
             aa_LastError := (if trim_space (aa_LastError a) = []
               then ''finalization attempt was abandoned before completion'' else aa_LastError a)\<rparr>)"

section \<open>Waiting for late transcripts\<close>

text \<open>\<open>waitForStableFinalSegments\<close>: one poll lists the stored segments and then waits for whichever of the
  three channels comes; the moments are those of \<open>stableSince\<close> and of the comparison with the quiet period.\<close>

datatype wait_event = PollTick | DeadlinePassed | WaitCancelled

record wait_poll =
  wp_listed :: "TranscriptSegment list result"
  wp_seenAt :: gotime
  wp_askedAt :: gotime
  wp_event :: wait_event

record wait_state =
  wt_count :: nat
  wt_max :: int
  wt_stableSince :: gotime
  wt_changed :: bool

datatype wait_result =
    WaitFailed
  | WaitDone "TranscriptSegment list" int bool

definition filterNonEmptySegments :: "TranscriptSegment list \<Rightarrow> TranscriptSegment list" where
  "filterNonEmptySegments = filter (\<lambda>s. trim_space (ts_Text s) \<noteq> [])"

definition highest_number :: "TranscriptSegment list \<Rightarrow> int" where
  "highest_number segments = fold (\<lambda>s m. max m (ts_SequenceNo s)) segments 0"

definition up_to_number :: "int \<Rightarrow> TranscriptSegment list \<Rightarrow> TranscriptSegment list" where
  "up_to_number n = filter (\<lambda>s. ts_SequenceNo s \<le> n)"

definition wait_observe :: "wait_poll \<Rightarrow> TranscriptSegment list \<Rightarrow> wait_state option \<Rightarrow> wait_state" where
  "wait_observe p segments st =
     (case st of
        None \<Rightarrow> \<lparr>wt_count = length segments, wt_max = highest_number segments, wt_stableSince = wp_seenAt p,
                 wt_changed = False\<rparr>
      | Some w \<Rightarrow>
          if length segments \<noteq> wt_count w \<or> highest_number segments \<noteq> wt_max w
          then \<lparr>wt_count = length segments, wt_max = highest_number segments, wt_stableSince = wp_seenAt p,
                wt_changed = True\<rparr>
          else w)"

definition wait_satisfied ::
    "duration \<Rightarrow> int \<Rightarrow> bool \<Rightarrow> wait_poll \<Rightarrow> TranscriptSegment list \<Rightarrow> wait_state \<Rightarrow> wait_result option" where
  "wait_satisfied quiet lastForwarded drained p segments w =
     (if 0 < lastForwarded
      then (if list_ex (\<lambda>s. ts_SequenceNo s = lastForwarded) segments
            then Some (WaitDone (up_to_number lastForwarded segments) lastForwarded False) else None)
      else (if drained \<or> wt_changed w \<and> quiet \<le> time_sub (wp_askedAt p) (wt_stableSince w)
            then Some (WaitDone segments (highest_number segments) False) else None))"

definition wait_expired :: "int \<Rightarrow> TranscriptSegment list \<Rightarrow> wait_result" where
  "wait_expired lastForwarded segments =
     (let target = (if 0 < lastForwarded \<and> lastForwarded < highest_number segments then lastForwarded
        else highest_number segments) in
      WaitDone (up_to_number target segments) target (0 < lastForwarded))"

fun waitForStableFinalSegments ::
    "duration \<Rightarrow> int \<Rightarrow> bool \<Rightarrow> wait_state option \<Rightarrow> wait_poll list \<Rightarrow> wait_result option" where
  "waitForStableFinalSegments quiet lastForwarded drained st [] = None"
| "waitForStableFinalSegments quiet lastForwarded drained st (p # polls) =
     (case wp_listed p of
        Inl _ \<Rightarrow> Some WaitFailed
      | Inr listed \<Rightarrow>
          (let segments = filterNonEmptySegments listed; w = wait_observe p segments st in
           case wait_satisfied quiet lastForwarded drained p segments w of
             Some r \<Rightarrow> Some r
           | None \<Rightarrow>
               (case wp_event p of
                  WaitCancelled \<Rightarrow> Some WaitFailed
                | DeadlinePassed \<Rightarrow> Some (wait_expired lastForwarded segments)
                | PollTick \<Rightarrow> waitForStableFinalSegments quiet lastForwarded drained (Some w) polls)))"

section \<open>The answer of the model\<close>

definition last_index_of :: "gostring \<Rightarrow> gostring \<Rightarrow> nat option" where
  "last_index_of s pat =
     (case filter (\<lambda>i. has_prefix (drop i s) pat) (rev [0..<Suc (length s)]) of [] \<Rightarrow> None | i # _ \<Rightarrow> Some i)"

definition index_of :: "gostring \<Rightarrow> gostring \<Rightarrow> nat option" where
  "index_of s pat = (case filter (\<lambda>i. has_prefix (drop i s) pat) [0..<Suc (length s)] of [] \<Rightarrow> None | i # _ \<Rightarrow> Some i)"

definition trim_prefix :: "gostring \<Rightarrow> gostring \<Rightarrow> gostring" where
  "trim_prefix s pre = (if has_prefix s pre then drop (length pre) s else s)"

definition fence :: gostring where "fence = replicate 3 (CHR 0x60)"

definition unfenced :: "gostring \<Rightarrow> gostring" where
  "unfenced s =
     (if \<not> has_prefix s fence then s
      else (let s1 = trim_prefix (trim_prefix (trim_prefix s (fence @ ''json'')) (fence @ ''JSON'')) fence in
        trim_space (case last_index_of s1 fence of None \<Rightarrow> s1 | Some i \<Rightarrow> take i s1)))"

definition stripJSONCodeFence :: "gostring \<Rightarrow> gostring" where
  "stripJSONCodeFence content =
     (let s = unfenced (trim_space content);
          s1 = (case index_of s ''{'' of Some i \<Rightarrow> if 0 < i then drop i s else s | None \<Rightarrow> s);
          s2 = (case last_index_of s1 ''}'' of
              Some i \<Rightarrow> if i < length s1 - 1 then take (Suc i) s1 else s1 | None \<Rightarrow> s1) in
      trim_space s2)"

record finalAnalysisPayload =
  fa_SuggestedTitle :: gostring
  fa_Overview :: gostring
  fa_Decisions :: "(gostring \<times> gostring) list"
  fa_ActionItems :: "(gostring \<times> gostring \<times> gostring \<times> gostring) list"
  fa_OpenIssues :: "gostring list"
  fa_KeyPoints :: "gostring list"
  fa_NextMeetingTopics :: "gostring list"

definition finalAnalysisPayload_isEmpty :: "finalAnalysisPayload \<Rightarrow> bool" where
  "finalAnalysisPayload_isEmpty p \<longleftrightarrow> trim_space (fa_SuggestedTitle p) = [] \<and> trim_space (fa_Overview p) = [] \<and>
     fa_Decisions p = [] \<and> fa_ActionItems p = [] \<and> fa_OpenIssues p = [] \<and> fa_KeyPoints p = [] \<and>
     fa_NextMeetingTopics p = []"

definition parseAndValidateFinalAnalysisPayload ::
    "(gostring \<Rightarrow> gostring + finalAnalysisPayload) \<Rightarrow> (finalAnalysisPayload \<Rightarrow> gostring) \<Rightarrow> gostring \<Rightarrow> gostring + gostring" where
  "parseAndValidateFinalAnalysisPayload decode encode content =
     (case decode (stripJSONCodeFence content) of
        Inl e \<Rightarrow> Inl (''parse final analysis payload: '' @ e)
      | Inr p \<Rightarrow> if finalAnalysisPayload_isEmpty p then Inl ''final analysis payload is empty'' else Inr (encode p))"

end
