(* ===== verification/FinalizationClaims.thy ===== *)
theory FinalizationClaims
  imports Finalization AnalysisClaims
begin

text \<open>
  Correctness of the finalization: what one attempt writes and in which order, how it ends, and what a
  retry does.  Most facts hold whatever calls of the repository fail; where a fact is about the rows, the
  premise says that no call fails.
\<close>

section \<open>Frames\<close>

lemma f_now_simps [simp]:
  "fs_db (snd (f_now w)) = fs_db w" "fs_inFlight (snd (f_now w)) = fs_inFlight w"
  "fs_finalizing (snd (f_now w)) = fs_finalizing w" "fs_stopped (snd (f_now w)) = fs_stopped w"
  "fs_changes (snd (f_now w)) = fs_changes w" "fs_faults (snd (f_now w)) = fs_faults w"
  by (simp_all add: f_now_def)

lemma f_call_frame [simp]:
  "fs_inFlight (snd (f_call opn w)) = fs_inFlight w" "fs_finalizing (snd (f_call opn w)) = fs_finalizing w"
  "fs_stopped (snd (f_call opn w)) = fs_stopped w" "fs_changes (snd (f_call opn w)) = fs_changes w"
  "fs_faults (snd (f_call opn w)) = fs_faults w"
  by (simp_all add: f_call_def f_now_def Let_def case_prod_beta)

lemma f_get_db [simp]: "fs_db (snd (f_get sessionID ty w)) = fs_db w"
  by (simp add: f_get_def f_call_def f_now_def GetMeetingAIAnalysis_def Let_def case_prod_beta)

lemma f_get_frame [simp]:
  "fs_inFlight (snd (f_get s ty w)) = fs_inFlight w" "fs_finalizing (snd (f_get s ty w)) = fs_finalizing w"
  "fs_stopped (snd (f_get s ty w)) = fs_stopped w" "fs_changes (snd (f_get s ty w)) = fs_changes w"
  "fs_faults (snd (f_get s ty w)) = fs_faults w"
  by (simp_all add: f_get_def)

lemma f_upsert_frame [simp]:
  "fs_inFlight (snd (f_upsert lib a w)) = fs_inFlight w" "fs_finalizing (snd (f_upsert lib a w)) = fs_finalizing w"
  "fs_stopped (snd (f_upsert lib a w)) = fs_stopped w" "fs_changes (snd (f_upsert lib a w)) = fs_changes w"
  "fs_faults (snd (f_upsert lib a w)) = fs_faults w"
  by (simp_all add: f_upsert_def)

lemma f_publish_simps [simp]:
  "fs_db (f_publish a w) = fs_db w" "fs_inFlight (f_publish a w) = fs_inFlight w"
  "fs_finalizing (f_publish a w) = fs_finalizing w" "fs_stopped (f_publish a w) = fs_stopped w"
  "fs_changes (f_publish a w) = fs_changes w" "fs_faults (f_publish a w) = fs_faults w"
  by (simp_all add: f_publish_def)

lemma f_project_frame [simp]:
  "fs_inFlight (snd (f_project lib s p v w)) = fs_inFlight w" "fs_finalizing (snd (f_project lib s p v w)) = fs_finalizing w"
  "fs_stopped (snd (f_project lib s p v w)) = fs_stopped w" "fs_changes (snd (f_project lib s p v w)) = fs_changes w"
  "fs_faults (snd (f_project lib s p v w)) = fs_faults w"
  by (simp_all add: f_project_def f_now_def Let_def case_prod_beta split: sum.splits option.splits)

lemma snapshot_frame [simp]:
  "fs_inFlight (snd (persistFinalTreeSnapshot lib s z v w)) = fs_inFlight w"
  "fs_finalizing (snd (persistFinalTreeSnapshot lib s z v w)) = fs_finalizing w"
  "fs_stopped (snd (persistFinalTreeSnapshot lib s z v w)) = fs_stopped w"
  "fs_changes (snd (persistFinalTreeSnapshot lib s z v w)) = fs_changes w"
  "fs_faults (snd (persistFinalTreeSnapshot lib s z v w)) = fs_faults w"
proof -
  let ?w = "persistFinalTreeSnapshot lib s z v w"
  have "fs_inFlight (snd ?w) = fs_inFlight w \<and> fs_finalizing (snd ?w) = fs_finalizing w \<and>
    fs_stopped (snd ?w) = fs_stopped w \<and> fs_changes (snd ?w) = fs_changes w \<and> fs_faults (snd ?w) = fs_faults w"
  proof (cases z)
    case None
    then show ?thesis by (simp add: persistFinalTreeSnapshot_def)
  next
    case (Some x)
    obtain ok w1 where w1: "f_project lib s (tz_livePayload x) v w = (ok, w1)" by fastforce
    obtain r w2 where w2: "f_get s AnalysisLive w1 = (r, w2)" by fastforce
    have "fs_inFlight w2 = fs_inFlight w" "fs_finalizing w2 = fs_finalizing w" "fs_stopped w2 = fs_stopped w"
      "fs_changes w2 = fs_changes w" "fs_faults w2 = fs_faults w"
      using f_get_frame [of s AnalysisLive w1] f_project_frame [of lib s "tz_livePayload x" v w] by (simp_all add: w1 w2)
    moreover have "fs_inFlight w1 = fs_inFlight w" "fs_finalizing w1 = fs_finalizing w" "fs_stopped w1 = fs_stopped w"
      "fs_changes w1 = fs_changes w" "fs_faults w1 = fs_faults w"
      using f_project_frame [of lib s "tz_livePayload x" v w] by (simp_all add: w1)
    ultimately show ?thesis
      by (simp add: persistFinalTreeSnapshot_def Some w1 w2 case_prod_beta split: bool.splits sum.splits)
  qed
  then show "fs_inFlight (snd ?w) = fs_inFlight w" "fs_finalizing (snd ?w) = fs_finalizing w"
    "fs_stopped (snd ?w) = fs_stopped w" "fs_changes (snd ?w) = fs_changes w" "fs_faults (snd ?w) = fs_faults w" by blast+
qed

lemma progress_frame [simp]:
  "fs_inFlight (persistFinalizationProgress lib s st v p c w) = fs_inFlight w"
  "fs_finalizing (persistFinalizationProgress lib s st v p c w) = fs_finalizing w"
  "fs_stopped (persistFinalizationProgress lib s st v p c w) = fs_stopped w"
  "fs_faults (persistFinalizationProgress lib s st v p c w) = fs_faults w"
  by (simp_all add: persistFinalizationProgress_def Let_def case_prod_beta)

lemma progress_change:
  "fs_changes (persistFinalizationProgress lib s st v p c w) =
     fs_changes w @ [(st, v, stamped_progress st (fl_time lib (fst (f_now w))) c p)]"
  by (simp add: persistFinalizationProgress_def Let_def case_prod_beta)

lemma stamped_status:
  "fp_FinalizationStatus (stamped_progress st now c p) =
     (if fp_FinalizationStatus p = [] then finalizationStatusForStage (fp_Stage p) else fp_FinalizationStatus p)"
  "fp_Retryable (stamped_progress st now c p) =
     (case st of AnalysisCompleted \<Rightarrow> False | AnalysisFailed \<Rightarrow> True | AnalysisRunning \<Rightarrow> fp_Retryable p)"
  by (auto simp: stamped_progress_def Let_def split: MeetingAIAnalysisStatus.splits option.splits)

lemma review_frame [simp]:
  "fs_inFlight (snd (review_final_tree lib fi s w)) = fs_inFlight w"
  "fs_finalizing (snd (review_final_tree lib fi s w)) = fs_finalizing w"
  "fs_stopped (snd (review_final_tree lib fi s w)) = fs_stopped w"
  "fs_changes (snd (review_final_tree lib fi s w)) = fs_changes w"
  "fs_faults (snd (review_final_tree lib fi s w)) = fs_faults w"
  by (simp_all add: review_final_tree_def Let_def case_prod_beta split: option.splits)

section \<open>What an attempt records\<close>

text \<open>The states an attempt goes through, as they are recorded: the status of the row, its version, the
  status inside the payload, and whether a retry is offered.\<close>

type_synonym final_mark = "MeetingAIAnalysisStatus \<times> int \<times> gostring \<times> bool"

definition marks :: "final_state \<Rightarrow> final_mark list" where
  "marks w = map (\<lambda>(st, v, p). (st, v, fp_FinalizationStatus p, fp_Retryable p)) (fs_changes w)"

definition mark_running :: "int \<Rightarrow> gostring \<Rightarrow> final_mark" where
  "mark_running v status = (AnalysisRunning, v, status, False)"

definition mark_completed :: "int \<Rightarrow> final_mark" where
  "mark_completed v = (AnalysisCompleted, v, finalizationStatusCompleted, False)"

definition mark_failed :: "int \<Rightarrow> final_mark" where
  "mark_failed v = (AnalysisFailed, v, finalizationStatusFailed, True)"

lemma marks_cong: "fs_changes w = fs_changes w' \<Longrightarrow> marks w = marks w'"
  by (simp add: marks_def)

lemma marks_progress:
  assumes "fp_FinalizationStatus p \<noteq> []"
  shows "marks (persistFinalizationProgress lib s st v p c w) = marks w @
     [(st, v, fp_FinalizationStatus p, (case st of AnalysisCompleted \<Rightarrow> False | AnalysisFailed \<Rightarrow> True
        | AnalysisRunning \<Rightarrow> fp_Retryable p))]"
  using assms by (simp add: marks_def progress_change stamped_status)

lemma marks_first:
  "marks (persistFinalizationProgress lib s AnalysisRunning v (first_progress fi started attempts) None w) =
     marks w @ [mark_running v finalizationStatusWaitingForTranscriptDrain]"
proof -
  have "finalizationStatusForStage ''waiting_for_transcript_drain'' = finalizationStatusWaitingForTranscriptDrain"
    by code_simp
  then show ?thesis
    by (simp add: marks_def progress_change stamped_status first_progress_def zero_progress_def mark_running_def)
qed

lemma statuses_named [simp]:
  "finalizationStatusBuildingFinalTree \<noteq> []" "finalizationStatusGeneratingSummary \<noteq> []"
  "finalizationStatusCompleted \<noteq> []" "finalizationStatusFailed \<noteq> []"
  by (simp_all add: finalization_status_defs)

lemma marks_fail:
  "marks (fail_progress lib s v stage code cause p w) = marks w @ [mark_failed v]"
  by (simp add: fail_progress_def marks_progress mark_failed_def)

lemma marks_summary_failure:
  "marks (persistFinalSummaryFailure lib s v cause p w) = marks w @ [mark_failed v]"
  by (simp add: persistFinalSummaryFailure_def Let_def marks_progress mark_failed_def)

lemma marks_analysis_failure: "marks (handleFinalAnalysisFailure c lib fi s v prev cause w) = marks w"
proof -
  obtain now w1 where w1: "f_now w = (now, w1)" by fastforce
  then have "fs_changes w1 = fs_changes w" using f_now_simps(5) [of w] by simp
  then show ?thesis
    by (simp add: handleFinalAnalysisFailure_def w1 marks_def case_prod_beta split: sum.splits prod.splits)
qed

lemma marks_write_summary:
  "marks (write_summary c lib fi s pv v prev saved payload lv p w) \<in>
     {marks w @ [mark_completed pv], marks w @ [mark_failed pv]}"
proof (cases "summary_payload fi payload lv")
  case (Inl e)
  then show ?thesis by (simp add: write_summary_def marks_summary_failure marks_analysis_failure)
next
  case (Inr x)
  obtain now w1 where w1: "f_now w = (now, w1)" by fastforce
  obtain r w2 where w2: "f_upsert lib (analysis_row s AnalysisFinal AnalysisCompleted v (fst x) (snd x)
      (int (pr_SegmentCount (fi_prepared fi))) (fi_inputChars fi) [] now) w1 = (r, w2)" by fastforce
  have "fs_changes w2 = fs_changes w"
    using f_upsert_frame(4) [of lib "analysis_row s AnalysisFinal AnalysisCompleted v (fst x) (snd x)
      (int (pr_SegmentCount (fi_prepared fi))) (fi_inputChars fi) [] now" w1] f_now_simps(5) [of w] by (simp add: w1 w2)
  then have "marks w2 = marks w" "\<And>a. marks (f_publish a w2) = marks w" by (simp_all add: marks_def)
  then show ?thesis
    by (simp add: write_summary_def Inr w1 w2 case_prod_beta marks_fail marks_progress completed_progress_def
        Let_def mark_completed_def split: sum.splits)
qed

definition summary_marks :: "int \<Rightarrow> final_mark list" where
  "summary_marks v = [mark_running v finalizationStatusBuildingFinalTree,
     mark_running v finalizationStatusBuildingFinalTree, mark_running v finalizationStatusGeneratingSummary]"

definition start_marks :: "int \<Rightarrow> final_mark list" where
  "start_marks v = [mark_running v finalizationStatusWaitingForTranscriptDrain,
     mark_running v finalizationStatusBuildingFinalTree]"

lemma marks_summarize:
  assumes "fp_FinalizationStatus p = finalizationStatusBuildingFinalTree" "\<not> fp_Retryable p"
  shows "marks (summarize c lib fi s pv v prev p w) \<in>
     {marks w @ summary_marks pv @ [mark_completed pv], marks w @ summary_marks pv @ [mark_failed pv]}"
proof -
  obtain x w1 where w1: "review_final_tree lib fi s w = (x, w1)" by fastforce
  then have m1: "marks w1 = marks w" using review_frame(4) [of lib fi s w] by (simp add: marks_def)
  let ?p1 = "reviewed_progress fi p"
  let ?w2 = "persistFinalizationProgress lib s AnalysisRunning pv ?p1 None w1"
  obtain saved w3 where w3: "persistFinalTreeSnapshot lib s (fi_snapshot fi (fst x) (snd x)) (snd x) ?w2 = (saved, w3)"
    by fastforce
  then have m3: "marks w3 = marks ?w2"
    using snapshot_frame(4) [of lib s "fi_snapshot fi (fst x) (snd x)" "snd x" ?w2] by (simp add: marks_def)
  let ?p2 = "(if saved then ?p1\<lparr>fp_TreeCoveredThroughSequenceNo := pr_LastSuccessfullyAnalyzed (fi_prepared fi)\<rparr> else ?p1)
      \<lparr>fp_Stage := ''tree_saved''\<rparr>"
  let ?w4 = "persistFinalizationProgress lib s AnalysisRunning pv ?p2 None w3"
  let ?p3 = "?p2\<lparr>fp_Stage := ''final_summary_running'', fp_FinalizationStatus := finalizationStatusGeneratingSummary\<rparr>"
  let ?w5 = "persistFinalizationProgress lib s AnalysisRunning pv ?p3 None ?w4"
  have p1: "fp_FinalizationStatus ?p1 = finalizationStatusBuildingFinalTree" "\<not> fp_Retryable ?p1"
    using assms by (simp_all add: reviewed_progress_def Let_def)
  have m2: "marks ?w2 = marks w @ [mark_running pv finalizationStatusBuildingFinalTree]"
    by (simp add: marks_progress p1 m1 mark_running_def)
  have m4: "marks ?w4 = marks ?w2 @ [mark_running pv finalizationStatusBuildingFinalTree]"
    using p1 by (simp add: marks_progress m3 mark_running_def)
  have m5: "marks ?w5 = marks ?w4 @ [mark_running pv finalizationStatusGeneratingSummary]"
    using p1 by (simp add: marks_progress mark_running_def)
  have "summarize c lib fi s pv v prev p w = write_summary c lib fi s pv v prev saved (fst x) (snd x) ?p3 ?w5"
    by (simp add: summarize_def w1 w3 Let_def case_prod_beta)
  then show ?thesis
    using marks_write_summary [of c lib fi s pv v prev saved "fst x" "snd x" ?p3 ?w5] m2 m4 m5
    by (simp add: summary_marks_def)
qed

lemma marks_claim:
  assumes "fp_FinalizationStatus p = finalizationStatusBuildingFinalTree" "\<not> fp_Retryable p"
  shows "marks (claim_summary c lib fi s pv p w) \<in>
     {marks w @ summary_marks pv @ [mark_completed pv], marks w @ summary_marks pv @ [mark_failed pv],
      marks w @ [mark_failed pv]}"
proof -
  obtain r w1 where w1: "f_get s AnalysisFinal w = (r, w1)" by fastforce
  then have m1: "marks w1 = marks w" using f_get_frame(4) [of s AnalysisFinal w] by (simp add: marks_def)
  obtain now w2 where w2: "f_now w1 = (now, w2)" by fastforce
  then have m2: "marks w2 = marks w" using f_now_simps(5) [of w1] m1 by (simp add: marks_def)
  let ?a = "\<lambda>version previous. analysis_row s AnalysisFinal AnalysisRunning version previous (fc_summaryModel c) 0 0 [] now"
  have claimed: "marks (case f_upsert lib (?a version previous) w2 of
       (Inl e, w3) \<Rightarrow> fail_progress lib s pv ''final_summary_running_persist_failed'' ''final_summary_persist_failed''
         (fl_errorText lib e) p w3
     | (Inr saved, w3) \<Rightarrow> summarize c lib fi s pv version previous p (f_publish saved w3)) \<in>
     {marks w @ summary_marks pv @ [mark_completed pv], marks w @ summary_marks pv @ [mark_failed pv],
      marks w @ [mark_failed pv]}" for version previous
  proof -
    obtain q w3 where w3: "f_upsert lib (?a version previous) w2 = (q, w3)" by fastforce
    then have m3: "marks w3 = marks w" "\<And>a. marks (f_publish a w3) = marks w"
      using f_upsert_frame(4) [of lib "?a version previous" w2] m2 by (simp_all add: marks_def)
    show ?thesis
    proof (cases q)
      case (Inl e)
      then show ?thesis by (simp add: w3 marks_fail m3)
    next
      case (Inr saved)
      then show ?thesis
        using marks_summarize [OF assms, of c lib fi s pv version previous "f_publish saved w3"] by (auto simp: w3 m3)
    qed
  qed
  show ?thesis
  proof (cases "case r of Inl e \<Rightarrow> if is_not_found e then None else Some e | Inr _ \<Rightarrow> None")
    case None
    then show ?thesis using claimed by (simp add: claim_summary_def w1 w2 Let_def)
  next
    case (Some e)
    then show ?thesis by (simp add: claim_summary_def w1 marks_fail m1)
  qed
qed

definition attempt_marks :: "int \<Rightarrow> final_mark list list" where
  "attempt_marks v = [start_marks v @ [mark_completed v], start_marks v @ [mark_failed v],
     start_marks v @ summary_marks v @ [mark_completed v], start_marks v @ summary_marks v @ [mark_failed v]]"

lemma attempt_start_frame:
  "fs_changes (snd (attempt_start lib s w)) = fs_changes w" "fs_db (snd (attempt_start lib s w)) = fs_db w"
  "fs_faults (snd (attempt_start lib s w)) = fs_faults w" "fs_inFlight (snd (attempt_start lib s w)) = fs_inFlight w"
proof -
  obtain r w1 where w1: "f_get s AnalysisFinalization w = (r, w1)" by fastforce
  obtain q w2 where w2: "f_get s AnalysisFinal w1 = (q, w2)" by fastforce
  have same: "fs_changes w1 = fs_changes w" "fs_db w1 = fs_db w" "fs_faults w1 = fs_faults w" "fs_inFlight w1 = fs_inFlight w"
    "fs_changes w2 = fs_changes w" "fs_db w2 = fs_db w" "fs_faults w2 = fs_faults w" "fs_inFlight w2 = fs_inFlight w"
    using f_get_frame [of s AnalysisFinalization w] f_get_db [of s AnalysisFinalization w]
      f_get_frame [of s AnalysisFinal w1] f_get_db [of s AnalysisFinal w1] by (simp_all add: w1 w2)
  then show "fs_changes (snd (attempt_start lib s w)) = fs_changes w" "fs_db (snd (attempt_start lib s w)) = fs_db w"
    "fs_faults (snd (attempt_start lib s w)) = fs_faults w" "fs_inFlight (snd (attempt_start lib s w)) = fs_inFlight w"
    by (auto simp: attempt_start_def w1 w2 split: sum.splits)
qed

lemma prepared_status:
  "fp_FinalizationStatus (prepared_progress c lib fi p) = finalizationStatusBuildingFinalTree"
  "fp_Retryable (prepared_progress c lib fi p) = fp_Retryable p"
  by (simp_all add: prepared_progress_def Let_def split: option.splits)

lemma first_not_retryable: "\<not> fp_Retryable (first_progress fi started attempts)"
  by (simp add: first_progress_def zero_progress_def)

lemma marks_attempt:
  "marks (final_attempt c lib fi s w) \<in>
     (case fst (attempt_start lib s w) of None \<Rightarrow> {marks w} | Some (v, _) \<Rightarrow> (\<lambda>l. marks w @ l) ` set (attempt_marks v))"
proof (cases "attempt_start lib s w")
  case (Pair x w1)
  have m1: "marks w1 = marks w" using attempt_start_frame(1) [of lib s w] by (simp add: Pair marks_def)
  show ?thesis
  proof (cases x)
    case None
    then show ?thesis by (simp add: final_attempt_def Pair m1)
  next
    case (Some va)
    obtain v a where x: "x = Some (v, a)" using Some by (cases va) auto
    obtain now w2 where w2: "f_now w1 = (now, w2)" by fastforce
    then have m2: "marks w2 = marks w" using f_now_simps(5) [of w1] m1 by (simp add: marks_def)
    let ?first = "first_progress fi (fl_time lib now) a" and ?p = "prepared_progress c lib fi (first_progress fi (fl_time lib now) a)"
    let ?w3 = "persistFinalizationProgress lib s AnalysisRunning v ?first None w2"
    let ?w4 = "?w3\<lparr>fs_finalizing := True, fs_db := fi_prepare_db fi (fs_db ?w3)\<rparr>"
    let ?w5 = "persistFinalizationProgress lib s AnalysisRunning v ?p None ?w4"
    have p: "fp_FinalizationStatus ?p = finalizationStatusBuildingFinalTree" "\<not> fp_Retryable ?p"
      by (simp_all add: prepared_status first_not_retryable)
    have "marks ?w4 = marks ?w3" by (simp add: marks_def)
    then have m5: "marks ?w5 = marks w @ start_marks v"
      by (simp add: marks_progress p marks_first m2 start_marks_def mark_running_def)
    have "marks (final_attempt c lib fi s w) = marks (if nothing_to_summarize fi
          then persistFinalizationProgress lib s AnalysisCompleted v
            (?p\<lparr>fp_Stage := ''completed'', fp_FinalizationStatus := finalizationStatusCompleted\<rparr>) None ?w5
          else if \<not> fc_hasCompleter c then fail_progress lib s v ''final_summary_failed''
            ''final_summary_completer_missing'' ''azure openai completer is not configured'' ?p ?w5
          else claim_summary c lib fi s v ?p ?w5)"
      by (simp add: final_attempt_def Pair x w2 Let_def)
    also have "\<dots> \<in> (\<lambda>l. marks w @ l) ` set (attempt_marks v)"
      using marks_claim [OF p, of c lib fi s v ?w5]
      by (auto simp: marks_progress marks_fail m5 mark_completed_def attempt_marks_def)
    finally show ?thesis by (simp add: Pair x)
  qed
qed

section \<open>What an attempt leaves in the rows\<close>

lemma row_fields [simp]:
  "aa_Status (written_row a t u r) = aa_Status a" "aa_Payload (written_row a t u r) = t"
  "aa_Status (new_row a t u v) = aa_Status a" "aa_Payload (new_row a t u v) = t"
  by (simp_all add: written_row_def new_row_def)

lemma key_fields: "analysis_key a = (aa_SessionID a, aa_Type a)"
  by (simp add: analysis_key_def)

lemma upsert_find:
  assumes "nullableJSONPayload jc (aa_Payload a) = Inr t"
  shows "\<exists>r db'. UpsertMeetingAIAnalysis jc a e db = (Inr r, db') \<and> aa_Status r = aa_Status a \<and>
       aa_Version r = aa_Version a \<and> aa_Payload r = t \<and>
       find_analysis db' (aa_SessionID a) (aa_Type a) = Some r"
proof (cases "find_analysis db (aa_SessionID a) (aa_Type a)")
  case None
  then show ?thesis using assms
    by (simp add: UpsertMeetingAIAnalysis_def Let_def find_analysis_key find_key_append key_fields [symmetric])
next
  case (Some r)
  then have "analysis_key r = (aa_SessionID a, aa_Type a)" by (auto simp: find_analysis_key dest: find_key_Some)
  then show ?thesis using assms Some
    by (simp add: UpsertMeetingAIAnalysis_def Let_def find_analysis_key find_key_update is_analysis_key)
qed

lemma find_update_other:
  assumes "k \<noteq> k'"
  shows "find (\<lambda>r. analysis_key r = k) (update_where (is_analysis (fst k') (snd k')) (written_row a t u) rows) =
    find (\<lambda>r. analysis_key r = k) rows"
  using assms by (cases "find (\<lambda>r. analysis_key r = k) rows") (auto simp: find_key_update is_analysis_key dest: find_key_Some)

lemma upsert_other:
  assumes "(s, ty) \<noteq> (aa_SessionID a, aa_Type a)"
  shows "find_analysis (snd (UpsertMeetingAIAnalysis jc a e db)) s ty = find_analysis db s ty"
proof -
  have "analysis_key (new_row a p t c) \<noteq> (s, ty)" for p t c using assms by (simp add: key_fields del: new_row_simps)
    (auto simp: new_row_def written_row_def)
  then show ?thesis
    using find_update_other [OF assms, of a]
    by (auto simp: UpsertMeetingAIAnalysis_def Let_def find_analysis_key find_key_append split: option.splits sum.splits)
qed

text \<open>The status and version of the progress row, and whether the summary is there.\<close>

definition row_mark :: "final_state \<Rightarrow> gostring \<Rightarrow> (MeetingAIAnalysisStatus \<times> int) option" where
  "row_mark w s = map_option (\<lambda>r. (aa_Status r, aa_Version r)) (find_analysis (fs_db w) s AnalysisFinalization)"

definition summary_ready :: "final_state \<Rightarrow> gostring \<Rightarrow> bool" where
  "summary_ready w s = (case find_analysis (fs_db w) s AnalysisFinal of
     None \<Rightarrow> False | Some r \<Rightarrow> aa_Status r = AnalysisCompleted)"

definition no_fault :: "final_state \<Rightarrow> bool" where
  "no_fault w \<longleftrightarrow> fs_faults w = (\<lambda>n. False)"

text \<open>The database takes every progress record.\<close>

definition accepts_progress :: "final_lib \<Rightarrow> bool" where
  "accepts_progress lib \<longleftrightarrow> (\<forall>p. isl (nullableJSONPayload (fl_json lib) (fl_encode lib p)) = False)"

lemma accepts_progressD: "accepts_progress lib \<Longrightarrow> \<exists>t. nullableJSONPayload (fl_json lib) (fl_encode lib p) = Inr t"
  unfolding accepts_progress_def by (metis sum.collapse(2))

lemma no_fault_frame [simp]:
  "no_fault (snd (f_now w)) = no_fault w" "no_fault (snd (f_get s ty w)) = no_fault w"
  "no_fault (snd (f_upsert lib a w)) = no_fault w" "no_fault (f_publish a w) = no_fault w"
  "no_fault (persistFinalizationProgress lib s st v p c w) = no_fault w"
  "no_fault (snd (persistFinalTreeSnapshot lib s z v w)) = no_fault w"
  "no_fault (snd (review_final_tree lib fi s w)) = no_fault w"
  by (simp_all add: no_fault_def)

lemma f_upsert_ok:
  assumes "no_fault w" "nullableJSONPayload (fl_json lib) (aa_Payload a) = Inr t"
  shows "\<exists>r w'. f_upsert lib a w = (Inr r, w') \<and> aa_Status r = aa_Status a \<and> aa_Version r = aa_Version a \<and>
    find_analysis (fs_db w') (aa_SessionID a) (aa_Type a) = Some r"
proof -
  obtain now w2 where w2: "f_now (w\<lparr>fs_calls := Suc (fs_calls w)\<rparr>) = (now, w2)" by fastforce
  from upsert_find [OF assms(2), of "(now, [])" "fs_db w2"] show ?thesis
    using assms(1) by (auto simp: f_upsert_def f_call_def w2 Let_def no_fault_def)
qed

lemma f_upsert_other:
  assumes "(s, ty) \<noteq> (aa_SessionID a, aa_Type a)"
  shows "find_analysis (fs_db (snd (f_upsert lib a w))) s ty = find_analysis (fs_db w) s ty"
  using upsert_other [OF assms, of "fl_json lib"]
  by (simp add: f_upsert_def f_call_def f_now_def Let_def case_prod_beta)

lemma row_progress:
  assumes "accepts_progress lib" "no_fault w"
  shows "row_mark (persistFinalizationProgress lib s st v p c w) s = Some (st, v)"
    "summary_ready (persistFinalizationProgress lib s st v p c w) s = summary_ready w s"
proof -
  obtain now w1 where w1: "f_now w = (now, w1)" by fastforce
  let ?q = "stamped_progress st (fl_time lib now) c p"
  let ?a = "analysis_row s AnalysisFinalization st v (fl_encode lib ?q) [] 0 0
      (case c of None \<Rightarrow> [] | Some e \<Rightarrow> truncateErrorMessage e 300) now"
  have ok: "no_fault w1" using no_fault_frame(1) [of w] assms(2) by (simp add: w1)
  have a: "aa_SessionID ?a = s" "aa_Type ?a = AnalysisFinalization" "aa_Status ?a = st" "aa_Version ?a = v"
    "aa_Payload ?a = fl_encode lib ?q" by (simp_all add: analysis_row_def)
  obtain t where "nullableJSONPayload (fl_json lib) (aa_Payload ?a) = Inr t" using accepts_progressD [OF assms(1)] a(5) by metis
  from f_upsert_ok [OF ok this] obtain r w2 where w2: "f_upsert lib ?a w1 = (Inr r, w2)" "aa_Status r = st"
    "aa_Version r = v" "find_analysis (fs_db w2) s AnalysisFinalization = Some r" by (auto simp: a)
  have p: "persistFinalizationProgress lib s st v p c w = w2\<lparr>fs_changes := fs_changes w2 @ [(st, v, ?q)]\<rparr>"
    unfolding persistFinalizationProgress_def w1 Let_def prod.case w2(1) ..
  show "row_mark (persistFinalizationProgress lib s st v p c w) s = Some (st, v)"
    by (simp add: p row_mark_def w2)
  have "find_analysis (fs_db w2) s AnalysisFinal = find_analysis (fs_db w1) s AnalysisFinal"
    using f_upsert_other [of s AnalysisFinal ?a lib w1] by (simp add: w2(1) a)
  then show "summary_ready (persistFinalizationProgress lib s st v p c w) s = summary_ready w s"
    using f_now_simps(1) [of w] by (simp add: p summary_ready_def w1)
qed

definition ends_well :: "gostring \<Rightarrow> int \<Rightarrow> final_state \<Rightarrow> bool" where
  "ends_well s v w \<longleftrightarrow> row_mark w s = Some (AnalysisFailed, v) \<or> row_mark w s = Some (AnalysisCompleted, v) \<and> summary_ready w s"

lemma ends_fail:
  assumes "accepts_progress lib" "no_fault w"
  shows "ends_well s v (fail_progress lib s v stage code cause p w)"
    "ends_well s v (persistFinalSummaryFailure lib s v cause p w)"
  using row_progress [OF assms] by (simp_all add: ends_well_def fail_progress_def persistFinalSummaryFailure_def Let_def)

lemma no_fault_failure: "no_fault w \<Longrightarrow> no_fault (handleFinalAnalysisFailure c lib fi s v prev cause w)"
proof -
  assume ok: "no_fault w"
  obtain now w1 where w1: "f_now w = (now, w1)" by fastforce
  then have "no_fault w1" using ok no_fault_frame(1) [of w] by simp
  then have "no_fault w2" if "f_upsert lib a w1 = (r, w2)" for a r w2
    using no_fault_frame(3) [of lib a w1] that by simp
  then show ?thesis by (auto simp: handleFinalAnalysisFailure_def w1 split: sum.splits prod.splits)
qed

lemma ends_write_summary:
  assumes "accepts_progress lib" "no_fault w"
  shows "ends_well s pv (write_summary c lib fi s pv v prev saved payload lv p w)"
proof (cases "summary_payload fi payload lv")
  case (Inl e)
  then show ?thesis using ends_fail(2) [OF assms(1) no_fault_failure [OF assms(2)]] by (simp add: write_summary_def)
next
  case (Inr x)
  obtain now w1 where w1: "f_now w = (now, w1)" by fastforce
  then have ok1: "no_fault w1" using assms(2) no_fault_frame(1) [of w] by simp
  let ?a = "analysis_row s AnalysisFinal AnalysisCompleted v (fst x) (snd x)
      (int (pr_SegmentCount (fi_prepared fi))) (fi_inputChars fi) [] now"
  obtain r w2 where w2: "f_upsert lib ?a w1 = (r, w2)" by fastforce
  then have ok2: "no_fault w2" using ok1 no_fault_frame(3) [of lib ?a w1] by simp
  show ?thesis
  proof (cases r)
    case (Inl e)
    then show ?thesis using ends_fail(1) [OF assms(1) ok2] by (simp add: write_summary_def Inr w1 w2 case_prod_beta)
  next
    case r: (Inr saved_row)
    have a: "aa_SessionID ?a = s" "aa_Type ?a = AnalysisFinal" "aa_Status ?a = AnalysisCompleted"
      by (simp_all add: analysis_row_def)
    have "\<exists>t. nullableJSONPayload (fl_json lib) (aa_Payload ?a) = Inr t"
    proof (cases "nullableJSONPayload (fl_json lib) (aa_Payload ?a)")
      case (Inl e)
      then show ?thesis using w2 r ok1
        by (simp add: f_upsert_def f_call_def UpsertMeetingAIAnalysis_def no_fault_def f_now_def Let_def)
    qed blast
    then obtain t where "nullableJSONPayload (fl_json lib) (aa_Payload ?a) = Inr t" ..
    from f_upsert_ok [OF ok1 this] have "find_analysis (fs_db w2) s AnalysisFinal = Some saved_row"
      "aa_Status saved_row = AnalysisCompleted" by (auto simp: w2 r a)
    then have "summary_ready (f_publish saved_row w2) s" by (simp add: summary_ready_def)
    then show ?thesis using row_progress [OF assms(1), of "f_publish saved_row w2"] ok2
      by (simp add: write_summary_def Inr w1 w2 r case_prod_beta ends_well_def)
  qed
qed

lemma ends_summarize:
  assumes "accepts_progress lib" "no_fault w"
  shows "ends_well s pv (summarize c lib fi s pv v prev p w)"
proof -
  obtain x w1 where w1: "review_final_tree lib fi s w = (x, w1)" by fastforce
  then have ok1: "no_fault w1" using assms(2) no_fault_frame(7) [of lib fi s w] by simp
  let ?w2 = "persistFinalizationProgress lib s AnalysisRunning pv (reviewed_progress fi p) None w1"
  obtain saved w3 where w3: "persistFinalTreeSnapshot lib s (fi_snapshot fi (fst x) (snd x)) (snd x) ?w2 = (saved, w3)"
    by fastforce
  then have "no_fault w3"
    using ok1 no_fault_frame(6) [of lib s "fi_snapshot fi (fst x) (snd x)" "snd x" ?w2] by simp
  then show ?thesis
    by (simp add: summarize_def w1 w3 Let_def case_prod_beta ends_write_summary assms(1))
qed

lemma ends_claim:
  assumes "accepts_progress lib" "no_fault w"
  shows "ends_well s pv (claim_summary c lib fi s pv p w)"
proof -
  obtain r w1 where w1: "f_get s AnalysisFinal w = (r, w1)" by fastforce
  then have ok1: "no_fault w1" using assms(2) no_fault_frame(2) [of s AnalysisFinal w] by simp
  obtain now w2 where w2: "f_now w1 = (now, w2)" by fastforce
  then have ok2: "no_fault w2" using ok1 no_fault_frame(1) [of w1] by simp
  have claimed: "ends_well s pv (case f_upsert lib a w2 of
       (Inl e, w3) \<Rightarrow> fail_progress lib s pv ''final_summary_running_persist_failed'' ''final_summary_persist_failed''
         (fl_errorText lib e) p w3
     | (Inr saved, w3) \<Rightarrow> summarize c lib fi s pv version previous p (f_publish saved w3))" for a version previous
  proof -
    obtain q w3 where w3: "f_upsert lib a w2 = (q, w3)" by fastforce
    then have "no_fault w3" using no_fault_frame(3) [of lib a w2] ok2 by simp
    then show ?thesis
      by (cases q) (simp_all add: w3 ends_fail(1) ends_summarize assms(1))
  qed
  show ?thesis
    using ends_fail(1) [OF assms(1) ok1] claimed by (auto simp: claim_summary_def w1 w2 Let_def split: option.splits)
qed

lemma f_get_value: "no_fault w \<Longrightarrow> fst (f_get s ty w) =
    (case find_analysis (fs_db w) s ty of None \<Rightarrow> Inl NotFound | Some r \<Rightarrow> Inr r)"
  by (simp add: f_get_def f_call_def f_now_def GetMeetingAIAnalysis_def no_fault_def Let_def case_prod_beta
      split: option.splits)

lemma attempt_start_value:
  assumes "no_fault w"
  shows "map_option fst (fst (attempt_start lib s w)) = (case row_mark w s of
       Some (st, v) \<Rightarrow> if st = AnalysisCompleted then None else Some (v + 1)
     | None \<Rightarrow> if summary_ready w s then None else Some 1)"
proof -
  obtain r w1 where w1: "f_get s AnalysisFinalization w = (r, w1)" by fastforce
  obtain q w2 where w2: "f_get s AnalysisFinal w1 = (q, w2)" by fastforce
  have ok1: "no_fault w1" using assms no_fault_frame(2) [of s AnalysisFinalization w] by (simp add: w1)
  have db: "fs_db w1 = fs_db w" using f_get_db [of s AnalysisFinalization w] by (simp add: w1)
  have r: "r = (case find_analysis (fs_db w) s AnalysisFinalization of None \<Rightarrow> Inl NotFound | Some x \<Rightarrow> Inr x)"
    using f_get_value [OF assms, of s AnalysisFinalization] by (simp add: w1)
  have q: "q = (case find_analysis (fs_db w) s AnalysisFinal of None \<Rightarrow> Inl NotFound | Some x \<Rightarrow> Inr x)"
    using f_get_value [OF ok1, of s AnalysisFinal] by (simp add: w2 db)
  show ?thesis
    by (auto simp: attempt_start_def w1 w2 r q row_mark_def summary_ready_def split: option.splits)
qed

definition attempt_outcome :: "final_inputs \<Rightarrow> gostring \<Rightarrow> int \<Rightarrow> final_state \<Rightarrow> bool" where
  "attempt_outcome fi s v w \<longleftrightarrow> row_mark w s = Some (AnalysisFailed, v) \<or>
     row_mark w s = Some (AnalysisCompleted, v) \<and> (nothing_to_summarize fi \<or> summary_ready w s)"

lemma attempt_ends:
  assumes "accepts_progress lib" "no_fault w"
  shows "case fst (attempt_start lib s w) of
      None \<Rightarrow> fs_db (final_attempt c lib fi s w) = fs_db w
    | Some (v, _) \<Rightarrow> attempt_outcome fi s v (final_attempt c lib fi s w)"
proof (cases "attempt_start lib s w")
  case (Pair x w1)
  have ok1: "no_fault w1" using attempt_start_frame(3) [of lib s w] assms(2) by (simp add: Pair no_fault_def)
  show ?thesis
  proof (cases x)
    case None
    then show ?thesis using attempt_start_frame(2) [of lib s w] by (simp add: final_attempt_def Pair)
  next
    case (Some va)
    obtain v a where x: "x = Some (v, a)" using Some by (cases va) auto
    obtain now w2 where w2: "f_now w1 = (now, w2)" by fastforce
    then have ok2: "no_fault w2" using ok1 no_fault_frame(1) [of w1] by simp
    let ?first = "first_progress fi (fl_time lib now) a" and ?p = "prepared_progress c lib fi (first_progress fi (fl_time lib now) a)"
    let ?w3 = "persistFinalizationProgress lib s AnalysisRunning v ?first None w2"
    let ?w4 = "?w3\<lparr>fs_finalizing := True, fs_db := fi_prepare_db fi (fs_db ?w3)\<rparr>"
    have ok4: "no_fault ?w4" using ok2 no_fault_frame(5) [of lib s AnalysisRunning v ?first None w2] by (simp add: no_fault_def)
    let ?w5 = "persistFinalizationProgress lib s AnalysisRunning v ?p None ?w4"
    have ok5: "no_fault ?w5" using ok4 by simp
    have "final_attempt c lib fi s w = (if nothing_to_summarize fi
          then persistFinalizationProgress lib s AnalysisCompleted v
            (?p\<lparr>fp_Stage := ''completed'', fp_FinalizationStatus := finalizationStatusCompleted\<rparr>) None ?w5
          else if \<not> fc_hasCompleter c then fail_progress lib s v ''final_summary_failed''
            ''final_summary_completer_missing'' ''azure openai completer is not configured'' ?p ?w5
          else claim_summary c lib fi s v ?p ?w5)"
      by (simp add: final_attempt_def Pair x w2 Let_def)
    also have "attempt_outcome fi s v \<dots>"
      using row_progress(1) [OF assms(1) ok5] ends_fail(1) [OF assms(1) ok5] ends_claim [OF assms(1) ok5]
      by (auto simp: attempt_outcome_def ends_well_def)
    finally show ?thesis by (simp add: Pair x)
  qed
qed

section \<open>Properties\<close>

text \<open>An attempt that does not panic records one of these sequences of states, all at the version of the attempt:
  waiting for the transcript, building the tree, then (if it gets that far) building twice more and generating the
  summary, and at the end completed, or failed with a retry offered.\<close>

theorem finalization_states_advance:
  "marks (generateFinalSummary c lib fi s w) \<in>
     (let w0 = w\<lparr>fs_inFlight := trim_space s # fs_inFlight w\<rparr> in
      if trim_space s \<in> set (fs_inFlight w) then {marks w}
      else (case fst (attempt_start lib (trim_space s) w0) of
          None \<Rightarrow> {marks w} | Some (v, _) \<Rightarrow> (\<lambda>l. marks w @ l) ` set (attempt_marks v)))"
proof -
  let ?w = "w\<lparr>fs_inFlight := trim_space s # fs_inFlight w\<rparr>"
  have m: "marks ?w = marks w" "marks (final_release (trim_space s) w') = marks w'" for w'
    by (simp_all add: marks_def final_release_def)
  show ?thesis using marks_attempt [of c lib fi "trim_space s" ?w, unfolded m(1)]
    by (simp add: generateFinalSummary_def Let_def m(2))
qed

text \<open>C31: if the database answers and takes the progress records, a finalization that is free to start
  ends: the session is stopped, nothing is in flight for it, and the progress row says failed or
  completed at the next version; completed means that the summary is there, unless there was nothing to
  summarize.  A completed finalization is not run again.\<close>

theorem finalization_reports_an_outcome:
  assumes "accepts_progress lib" "no_fault w" "trim_space s \<notin> set (fs_inFlight w)"
  shows "let w' = generateFinalSummary c lib fi s w; sid = trim_space s in
    sid \<notin> set (fs_inFlight w') \<and> fs_stopped w' \<and> \<not> fs_finalizing w' \<and>
    (case row_mark w sid of
       Some (st, v) \<Rightarrow> if st = AnalysisCompleted then fs_db w' = fs_db w else attempt_outcome fi sid (v + 1) w'
     | None \<Rightarrow> if summary_ready w sid then fs_db w' = fs_db w else attempt_outcome fi sid 1 w')"
proof -
  let ?s = "trim_space s" and ?w = "w\<lparr>fs_inFlight := trim_space s # fs_inFlight w\<rparr>"
  let ?a = "final_attempt c lib fi ?s ?w"
  have w': "generateFinalSummary c lib fi s w = final_release ?s ?a"
    using assms(3) by (simp add: generateFinalSummary_def Let_def)
  have ok: "no_fault ?w" using assms(2) by (simp add: no_fault_def)
  have same: "row_mark ?w ?s = row_mark w ?s" "summary_ready ?w ?s = summary_ready w ?s" "fs_db ?w = fs_db w"
    by (simp_all add: row_mark_def summary_ready_def)
  have released: "attempt_outcome fi ?s v (final_release ?s x) = attempt_outcome fi ?s v x"
    "fs_db (final_release ?s x) = fs_db x" "?s \<notin> set (fs_inFlight (final_release ?s x))"
    "fs_stopped (final_release ?s x)" "\<not> fs_finalizing (final_release ?s x)" for v x
    by (simp_all add: attempt_outcome_def row_mark_def summary_ready_def final_release_def)
  show ?thesis
    using attempt_ends [OF assms(1) ok, of c fi ?s] attempt_start_value [OF ok, of lib ?s]
    by (auto simp: w' released same Let_def split: option.splits if_splits)
qed

definition sample_final_lib :: final_lib where
  "sample_final_lib =
     \<lparr>fl_json = \<lparr>jc_valid = (\<lambda>t. True), jc_stored = Some\<rparr>, fl_encode = (\<lambda>p. ''{'' @ fp_Stage p @ ''}''),
      fl_decode = (\<lambda>t. Some zero_progress), fl_time = show_int, fl_treeVersion = (\<lambda>t. 0),
      fl_errorText = (\<lambda>e. ''database'')\<rparr>"

definition sample_final_inputs :: final_inputs where
  "sample_final_inputs =
     \<lparr>fi_ID = ''f'', fi_lastForwarded = 0,
      fi_prepared = \<lparr>pr_SegmentCount = 1, pr_TargetSequence = 1, pr_LatestPersistedFinalSequence = 1,
        pr_LastSuccessfullyAnalyzed = 1, pr_PendingSegmentCount = 0, pr_LivePayload = ''{}'', pr_LiveVersion = 1,
        pr_WaitTimedOut = False, pr_TranscriptFallbackUsed = False, pr_LiveWaitTimedOut = False,
        pr_LiveFallbackUsed = False, pr_WaitOperations = []\<rparr>,
      fi_prepareError = None, fi_prepare_db = id,
      fi_review = (\<lambda>payload v. \<lparr>rv_Failed = False, rv_Result = ''disabled'', rv_RunID = [], rv_Applied = False,
        rv_Payload = payload, rv_Version = v\<rparr>),
      fi_review_db = id, fi_degraded = id, fi_repair = (\<lambda>payload v. None), fi_lifecycle = (\<lambda>payload v. None),
      fi_snapshot = (\<lambda>payload v. None), fi_inputChars = 4, fi_answer = (\<lambda>payload v. Inr (''{}'', ''m'')),
      fi_parse = Inr, fi_cover = (\<lambda>payload t v. Inr payload)\<rparr>"

definition sample_final_config :: final_config where
  "sample_final_config = \<lparr>fc_finalActive = True, fc_liveActive = True, fc_flushAttempts = 2,
     fc_hasCompleter = True, fc_Model = ''m'', fc_summaryModel = ''m''\<rparr>"

definition sample_final_state :: "MeetingAIAnalysis list \<Rightarrow> gostring list \<Rightarrow> final_state" where
  "sample_final_state rows flight =
     \<lparr>fs_db = \<lparr>ad_sessions = [''m''], ad_analyses = rows, ad_history = [], ad_runs = []\<rparr>, fs_inFlight = flight,
      fs_finalizing = flight \<noteq> [], fs_stopped = False, fs_published = [], fs_changes = [], fs_calls = 0,
      fs_faults = (\<lambda>n. False), fs_ticks = 0, fs_moments = (\<lambda>n. 1000 + int n)\<rparr>"

lemma sample_final:
  "accepts_progress sample_final_lib" "no_fault (sample_final_state rows flight)" "trim_space ''m'' = ''m''"
  "fs_inFlight (sample_final_state rows flight) = flight"
  "\<not> nothing_to_summarize sample_final_inputs" "fc_finalActive sample_final_config"
  by (simp_all add: accepts_progress_def sample_final_lib_def nullableJSONPayload_def no_fault_def sample_final_state_def
      nothing_to_summarize_def sample_final_inputs_def sample_final_config_def) code_simp

lemma sample_final_empty:
  "row_mark (sample_final_state [] flight) s = None" "\<not> summary_ready (sample_final_state [] flight) s"
  by (simp_all add: row_mark_def summary_ready_def find_analysis_def sample_final_state_def)

theorem finalization_reports_an_outcome_witness:
  "let w' = generateFinalSummary sample_final_config sample_final_lib sample_final_inputs ''m'' (sample_final_state [] []) in
   ''m'' \<notin> set (fs_inFlight w') \<and> fs_stopped w' \<and> attempt_outcome sample_final_inputs ''m'' 1 w'"
  using finalization_reports_an_outcome [of sample_final_lib "sample_final_state [] []" "''m''" sample_final_config
      sample_final_inputs]
  by (simp add: sample_final sample_final_empty Let_def)

lemma running_skipped:
  "trim_space s \<in> set (fs_inFlight w) \<Longrightarrow> generateFinalSummary c lib fi s w = w"
  by (simp add: generateFinalSummary_def Let_def)

lemma optional_value:
  assumes "no_fault w"
  shows "fst (getOptionalAnalysis s ty w) = Inr (find_analysis (fs_db w) s ty)"
    "fs_db (snd (getOptionalAnalysis s ty w)) = fs_db w" "fs_inFlight (snd (getOptionalAnalysis s ty w)) = fs_inFlight w"
    "fs_finalizing (snd (getOptionalAnalysis s ty w)) = fs_finalizing w"
    "fs_stopped (snd (getOptionalAnalysis s ty w)) = fs_stopped w" "no_fault (snd (getOptionalAnalysis s ty w))"
proof -
  obtain r w1 where w1: "f_get s ty w = (r, w1)" by fastforce
  have r: "r = (case find_analysis (fs_db w) s ty of None \<Rightarrow> Inl NotFound | Some x \<Rightarrow> Inr x)"
    using f_get_value [OF assms, of s ty] by (simp add: w1)
  have "fs_db w1 = fs_db w" "fs_inFlight w1 = fs_inFlight w" "fs_finalizing w1 = fs_finalizing w"
    "fs_stopped w1 = fs_stopped w" "no_fault w1"
    using f_get_db [of s ty w] f_get_frame [of s ty w] no_fault_frame(2) [of s ty w] assms by (simp_all add: w1)
  then show "fst (getOptionalAnalysis s ty w) = Inr (find_analysis (fs_db w) s ty)"
    "fs_db (snd (getOptionalAnalysis s ty w)) = fs_db w" "fs_inFlight (snd (getOptionalAnalysis s ty w)) = fs_inFlight w"
    "fs_finalizing (snd (getOptionalAnalysis s ty w)) = fs_finalizing w"
    "fs_stopped (snd (getOptionalAnalysis s ty w)) = fs_stopped w" "no_fault (snd (getOptionalAnalysis s ty w))"
    by (simp_all add: getOptionalAnalysis_def w1 r NotFound_def split: option.splits)
qed

lemma precheck_value:
  assumes "no_fault w" "trim_space s \<noteq> []" "fc_finalActive c"
  shows "fst (finalizationRetryPrecheck c s w) = (if finalizationRetryable (find_analysis (fs_db w) s AnalysisFinalization)
      (find_analysis (fs_db w) s AnalysisFinal) then None else Some RetryAlreadyCompleted)"
    "fs_db (snd (finalizationRetryPrecheck c s w)) = fs_db w"
    "fs_inFlight (snd (finalizationRetryPrecheck c s w)) = fs_inFlight w"
    "no_fault (snd (finalizationRetryPrecheck c s w))"
proof -
  obtain r w1 where w1: "getOptionalAnalysis s AnalysisFinalization w = (r, w1)" by fastforce
  note o1 = optional_value [OF assms(1), of s AnalysisFinalization, unfolded w1 fst_conv snd_conv]
  obtain q w2 where w2: "getOptionalAnalysis s AnalysisFinal w1 = (q, w2)" by fastforce
  note o2 = optional_value [OF o1(6), of s AnalysisFinal, unfolded w2 fst_conv snd_conv]
  show "fst (finalizationRetryPrecheck c s w) = (if finalizationRetryable (find_analysis (fs_db w) s AnalysisFinalization)
      (find_analysis (fs_db w) s AnalysisFinal) then None else Some RetryAlreadyCompleted)"
    "fs_db (snd (finalizationRetryPrecheck c s w)) = fs_db w"
    "fs_inFlight (snd (finalizationRetryPrecheck c s w)) = fs_inFlight w"
    "no_fault (snd (finalizationRetryPrecheck c s w))"
    using assms(2,3) o1 o2 by (simp_all add: finalizationRetryPrecheck_def w1 w2)
qed

text \<open>C32: A retry while the finalization runs reports success and reopens the session to live rounds.  The final
  analysis is configured, the database answers, the session has a finalization in flight whose progress row says
  running, and its summary is not there yet (once it is, a retry is refused as completed).  Then a retry returns no
  error, writes nothing and leaves that finalization in flight, and takes back both marks, finalizing and stopped, that
  keep live rounds out of the session.\<close>

theorem retry_opens_a_running_finalization:
  assumes "trim_space s \<in> set (fs_inFlight w)" "no_fault w" "trim_space s \<noteq> []" "fc_finalActive c"
    and "row_mark w (trim_space s) = Some (AnalysisRunning, v)" "\<not> summary_ready w (trim_space s)"
  shows "let (result, w') = RetryMeetingSessionFinalization c lib fi s w in
    result = None \<and> fs_db w' = fs_db w \<and> trim_space s \<in> set (fs_inFlight w') \<and>
    \<not> fs_finalizing w' \<and> \<not> fs_stopped w'"
proof -
  let ?s = "trim_space s"
  obtain row where row: "find_analysis (fs_db w) ?s AnalysisFinalization = Some row" "aa_Status row = AnalysisRunning"
    using assms(5) by (auto simp: row_mark_def)
  have retry: "finalizationRetryable (find_analysis (fs_db w) ?s AnalysisFinalization) (find_analysis (fs_db w) ?s AnalysisFinal)"
    using assms(6) row by (auto simp: finalizationRetryable_def summary_ready_def split: option.splits)
  obtain e w1 where w1: "finalizationRetryPrecheck c ?s w = (e, w1)" by fastforce
  have "trim_space ?s \<noteq> []" using assms(3) by simp
  note pre = precheck_value [OF assms(2) this assms(4), unfolded w1 fst_conv snd_conv]
  let ?w1 = "w1\<lparr>fs_stopped := False, fs_finalizing := False\<rparr>"
  have skip: "generateFinalSummary c lib (fi\<lparr>fi_lastForwarded := 0\<rparr>) ?s ?w1 = ?w1"
    using assms(1) pre(3) by (intro running_skipped) simp
  have ok: "no_fault ?w1" using pre(4) by (simp add: no_fault_def)
  obtain x w2 where w2: "getOptionalAnalysis ?s AnalysisFinalization ?w1 = (x, w2)" by fastforce
  note opt = optional_value [OF ok, of ?s AnalysisFinalization, unfolded w2 fst_conv snd_conv]
  show ?thesis
    using opt pre retry row assms(1) by (simp add: RetryMeetingSessionFinalization_def Let_def w1 skip w2)
qed

definition sample_running_row :: MeetingAIAnalysis where
  "sample_running_row = analysis_row ''m'' AnalysisFinalization AnalysisRunning 1 ''{}'' [] 0 0 [] 1000"

lemma sample_running_rows:
  "row_mark (sample_final_state [sample_running_row] flight) ''m'' = Some (AnalysisRunning, 1)"
  "\<not> summary_ready (sample_final_state [sample_running_row] flight) ''m''"
  by (simp_all add: row_mark_def summary_ready_def find_analysis_def is_analysis_def sample_final_state_def
      sample_running_row_def analysis_row_def)

theorem retry_opens_a_running_finalization_witness:
  "let w' = snd (RetryMeetingSessionFinalization sample_final_config sample_final_lib sample_final_inputs ''m''
       (sample_final_state [sample_running_row] [''m''])) in
   ''m'' \<in> set (fs_inFlight w') \<and> \<not> fs_finalizing w' \<and> fs_finalizing (sample_final_state [sample_running_row] [''m''])"
  using retry_opens_a_running_finalization [of "''m''" "sample_final_state [sample_running_row] [''m'']" sample_final_config
      1 sample_final_lib sample_final_inputs]
  by (simp add: sample_final sample_running_rows Let_def case_prod_beta) (simp add: sample_final_state_def)

text \<open>If the last write of a finalization is lost, its progress row stays running beside the finished
  summary; after a quarter of an hour it is delivered as a failure that offers a retry, and the retry is
  refused because the finalization is complete.\<close>

theorem offered_retry_is_refused:
  assumes "no_fault w" "s = trim_space s" "s \<noteq> []" "fc_finalActive c"
    and "find_analysis (fs_db w) s AnalysisFinalization = Some row" "aa_Status row = AnalysisRunning"
    and "\<not> is_zero (aa_UpdatedAt row)" "finalizationAbandonedAfter \<le> time_sub now (aa_UpdatedAt row)"
    and "fl_decode lib (aa_Payload row) \<noteq> None"
    and "find_analysis (fs_db w) s AnalysisFinal = Some final" "aa_Status final = AnalysisCompleted" "aa_Payload final \<noteq> []"
  shows "aa_Status (projectFinalizationForDelivery lib False now row) = AnalysisFailed \<and>
    (\<exists>p. aa_Payload (projectFinalizationForDelivery lib False now row) = fl_encode lib p \<and> fp_Retryable p) \<and>
    fst (RetryMeetingSessionFinalization c lib fi s w) = Some RetryAlreadyCompleted"
proof -
  have "finalizationRetryable (Some row) (Some final) = False"
    using assms(11,12) by (simp add: finalizationRetryable_def)
  moreover obtain e w1 where w1: "finalizationRetryPrecheck c s w = (e, w1)" by fastforce
  ultimately have "e = Some RetryAlreadyCompleted"
    using precheck_value(1) [OF assms(1) _ assms(4), of s] assms(2,3,5,10) by simp
  moreover have "projectFinalizationForDelivery lib False now row = row\<lparr>aa_Status := AnalysisFailed,
      aa_Payload := fl_encode lib (abandoned_progress (fl_time lib now) (row_progress lib row)),
      aa_LastError := (if trim_space (aa_LastError row) = []
        then ''finalization attempt was abandoned before completion'' else aa_LastError row)\<rparr>"
    using assms(6-9) by (simp add: projectFinalizationForDelivery_def del: not_None_eq)
  moreover have "fp_Retryable (abandoned_progress t p)" for t p by (simp add: abandoned_progress_def)
  ultimately show ?thesis
    using assms(2) by (auto simp: RetryMeetingSessionFinalization_def Let_def w1)
qed

definition sample_finished_row :: MeetingAIAnalysis where
  "sample_finished_row = analysis_row ''m'' AnalysisFinal AnalysisCompleted 1 ''{}'' [] 1 4 [] 1000"

lemma sample_lost_update:
  "find_analysis (fs_db (sample_final_state [sample_running_row, sample_finished_row] [])) ''m'' AnalysisFinalization =
     Some sample_running_row"
  "find_analysis (fs_db (sample_final_state [sample_running_row, sample_finished_row] [])) ''m'' AnalysisFinal =
     Some sample_finished_row"
  by (simp_all add: find_analysis_def is_analysis_def sample_final_state_def sample_running_row_def sample_finished_row_def
      analysis_row_def)

theorem offered_retry_is_refused_witness:
  "aa_Status (projectFinalizationForDelivery sample_final_lib False (1000 + finalizationAbandonedAfter) sample_running_row) =
     AnalysisFailed \<and>
   fst (RetryMeetingSessionFinalization sample_final_config sample_final_lib sample_final_inputs ''m''
     (sample_final_state [sample_running_row, sample_finished_row] [])) = Some RetryAlreadyCompleted"
proof -
  have "\<not> is_zero (aa_UpdatedAt sample_running_row)" "aa_Status sample_running_row = AnalysisRunning"
    "finalizationAbandonedAfter \<le> time_sub (1000 + finalizationAbandonedAfter) (aa_UpdatedAt sample_running_row)"
    "fl_decode sample_final_lib (aa_Payload sample_running_row) \<noteq> None"
    "aa_Status sample_finished_row = AnalysisCompleted" "aa_Payload sample_finished_row \<noteq> []"
    by (simp_all add: sample_running_row_def sample_finished_row_def analysis_row_def is_zero_def time_sub_def
        finalizationAbandonedAfter_def minute_def max_duration_def min_duration_def sample_final_lib_def)
  then show ?thesis
    using offered_retry_is_refused [OF sample_final(2) sample_final(3) [symmetric] _ sample_final(6) sample_lost_update(1) _ _ _ _
        sample_lost_update(2), of "1000 + finalizationAbandonedAfter" sample_final_lib sample_final_inputs]
    by simp
qed

section \<open>The wait for late transcripts\<close>

text \<open>What the caller may rely on: only stored, non-blank segments up to the target, in their order; a wait
  that was told the last forwarded number and did not time out has that segment.\<close>

definition wait_fine :: "int \<Rightarrow> wait_poll list \<Rightarrow> wait_result \<Rightarrow> bool" where
  "wait_fine lastForwarded polls r \<longleftrightarrow>
     (case r of
        WaitFailed \<Rightarrow> list_ex (\<lambda>p. isl (wp_listed p) \<or> wp_event p = WaitCancelled) polls
      | WaitDone segments target timedOut \<Rightarrow>
          list_ex (\<lambda>p. \<not> isl (wp_listed p) \<and>
            segments = up_to_number target (filterNonEmptySegments (projr (wp_listed p)))) polls \<and>
          (if timedOut then 0 < lastForwarded \<and> target \<le> lastForwarded \<and>
             list_ex (\<lambda>p. wp_event p = DeadlinePassed) polls
           else lastForwarded \<le> 0 \<or> target = lastForwarded \<and>
             list_ex (\<lambda>s. ts_SequenceNo s = lastForwarded) segments))"

lemma fold_max_le: "m \<le> fold (\<lambda>s m. max m (ts_SequenceNo s)) segments (m :: int)"
  by (induction segments arbitrary: m) (auto intro: order_trans [OF max.cobounded1])

lemma highest_number_ge: "s \<in> set segments \<Longrightarrow> ts_SequenceNo s \<le> highest_number segments"
proof -
  have "s \<in> set segments \<Longrightarrow> ts_SequenceNo s \<le> fold (\<lambda>s m. max m (ts_SequenceNo s)) segments m" for m
    by (induction segments arbitrary: m) (auto intro: order_trans [OF max.cobounded2 fold_max_le])
  then show "s \<in> set segments \<Longrightarrow> ?thesis" by (simp add: highest_number_def)
qed

lemma up_to_highest: "up_to_number (highest_number segments) segments = segments"
  by (simp add: up_to_number_def highest_number_ge filter_id_conv)

lemma found_up_to: "list_ex (\<lambda>s. ts_SequenceNo s = n) (up_to_number n segments) =
    list_ex (\<lambda>s. ts_SequenceNo s = n) segments"
  by (auto simp: up_to_number_def list_ex_iff)

lemma wait_fine_Cons: "wait_fine n polls r \<Longrightarrow> wait_fine n (p # polls) r"
  by (auto simp: wait_fine_def split: wait_result.splits if_splits)

text \<open>C36: the wait for late transcripts ends at the latest when its deadline passes or the context is
  cancelled; it yields stored segments up to the target only, with the last forwarded one among them
  unless it timed out.\<close>

theorem transcript_wait_ends:
  assumes "list_ex (\<lambda>p. wp_event p \<noteq> PollTick) polls"
  shows "case waitForStableFinalSegments quiet lastForwarded drained st polls of
    None \<Rightarrow> False | Some r \<Rightarrow> wait_fine lastForwarded polls r"
  using assms
proof (induction polls arbitrary: st)
  case (Cons p polls)
  show ?case
  proof (cases "wp_listed p")
    case (Inl e)
    then show ?thesis by (simp add: wait_fine_def)
  next
    case (Inr listed)
    let ?segments = "filterNonEmptySegments listed" and ?w = "wait_observe p (filterNonEmptySegments listed) st"
    show ?thesis
    proof (cases "wait_satisfied quiet lastForwarded drained p ?segments ?w")
      case (Some r)
      then have "wait_fine lastForwarded (p # polls) r"
        by (auto simp: wait_satisfied_def wait_fine_def Inr up_to_highest found_up_to split: if_splits)
      then show ?thesis by (simp add: Inr Some Let_def)
    next
      case None
      show ?thesis
      proof (cases "wp_event p")
        case PollTick
        then show ?thesis using Cons.IH [of "Some ?w"] Cons.prems
          by (auto simp: Inr None Let_def split: option.splits intro: wait_fine_Cons)
      next
        case DeadlinePassed
        then show ?thesis
          by (auto simp: Inr None Let_def wait_expired_def wait_fine_def)
      next
        case WaitCancelled
        then show ?thesis by (simp add: Inr None Let_def wait_fine_def)
      qed
    qed
  qed
qed simp

definition sample_poll :: "wait_event \<Rightarrow> wait_poll" where
  "sample_poll e = \<lparr>wp_listed = Inr [], wp_seenAt = 0, wp_askedAt = 0, wp_event = e\<rparr>"

theorem transcript_wait_ends_witness:
  "case waitForStableFinalSegments second 7 False None [sample_poll PollTick, sample_poll DeadlinePassed] of
     None \<Rightarrow> False | Some r \<Rightarrow> wait_fine 7 [sample_poll PollTick, sample_poll DeadlinePassed] r"
proof (rule transcript_wait_ends)
  show "list_ex (\<lambda>p. wp_event p \<noteq> PollTick) [sample_poll PollTick, sample_poll DeadlinePassed]"
    by (simp add: sample_poll_def)
qed

end
