(* ===== verification/ClientDiagnosticsClaims.thy ===== *)
theory ClientDiagnosticsClaims
  imports ClientDiagnostics
begin

text \<open>
  What the diagnostic events promise: nothing secret is written in a text the service masks, the
  counts of a batch add up, and the table of recent events stays bounded and never hides a
  critical event.
\<close>

section \<open>Masked details\<close>

text \<open>What is left of the details of an event, from the depth \<open>d\<close> on.\<close>

fun json_ok :: "ClientDiagnosticsLimits \<Rightarrow> nat \<Rightarrow> json \<Rightarrow> bool" where
  "json_ok l d JNull = True"
| "json_ok l d (JText s) \<longleftrightarrow> int d \<le> dl_MaxDetailsDepth l \<and> \<not> secret s \<and>
     (int (length s) \<le> dl_MaxStringBytes l \<or> s = redactedPlaceholder)"
| "json_ok l d (JBool b) \<longleftrightarrow> int d \<le> dl_MaxDetailsDepth l"
| "json_ok l d (JNum x) \<longleftrightarrow> int d \<le> dl_MaxDetailsDepth l"
| "json_ok l d JOther = False"
| "json_ok l d (JObj kvs) \<longleftrightarrow> int d \<le> dl_MaxDetailsDepth l \<and>
     int (length kvs) \<le> dl_MaxDetailsKeys l \<and>
     (\<forall>(k, v) \<in> set kvs. json_ok l (Suc d) v \<or> v = JText redactedPlaceholder) \<and>
     (\<forall>(k, v) \<in> set kvs. int (length k) \<le> dl_MaxIdentifierBytes l \<and>
        (sensitive_key k \<longrightarrow> v = JText redactedPlaceholder \<or> isNumericValue v))"
| "json_ok l d (JArr xs) \<longleftrightarrow> int d \<le> dl_MaxDetailsDepth l \<and>
     int (length xs) \<le> dl_MaxDetailsArrayItems l \<and> (\<forall>x \<in> set xs. json_ok l (Suc d) x)"

definition entry_ok :: "ClientDiagnosticsLimits \<Rightarrow> nat \<Rightarrow> gostring \<times> json \<Rightarrow> bool" where
  "entry_ok l d e \<longleftrightarrow> (json_ok l d (snd e) \<or> snd e = JText redactedPlaceholder) \<and>
     int (length (fst e)) \<le> dl_MaxIdentifierBytes l \<and>
     (sensitive_key (fst e) \<longrightarrow> snd e = JText redactedPlaceholder \<or> isNumericValue (snd e))"

lemma json_ok_obj:
  "json_ok l d (JObj kvs) \<longleftrightarrow> int d \<le> dl_MaxDetailsDepth l \<and>
     int (length kvs) \<le> dl_MaxDetailsKeys l \<and> (\<forall>e \<in> set kvs. entry_ok l (Suc d) e)"
  by (auto simp: entry_ok_def)

text \<open>A cut key is sensitive only if the whole key is.\<close>

lemma to_lower_simps:
  "to_lower (CHR 0xC4 # CHR 0xB0 # s) = CHR ''i'' # to_lower s"
  "to_lower (CHR 0xE2 # CHR 0x84 # CHR 0xAA # s) = CHR ''k'' # to_lower s"
  "take 2 (c # s) \<noteq> [CHR 0xC4, CHR 0xB0] \<Longrightarrow> take 3 (c # s) \<noteq> [CHR 0xE2, CHR 0x84, CHR 0xAA] \<Longrightarrow>
     to_lower (c # s) = ascii_lower c # to_lower s"
  by (simp_all add: to_lower_def numeral_2_eq_2 numeral_3_eq_3 split: if_splits) auto

lemma normalizeKey_prefix: "prefix p s \<Longrightarrow> prefix (normalizeKey p) (normalizeKey s)"
proof (induction "length s" arbitrary: p s rule: less_induct)
  case less
  have lead: "to_lower [CHR 0xC4] = [CHR 0xC4]" "to_lower [CHR 0xE2] = [CHR 0xE2]"
    "to_lower [CHR 0xE2, CHR 0x84] = [CHR 0xE2, CHR 0x84]" by code_simp+
  show ?case
  proof (cases p)
    case p: (Cons c p')
    with less.prems obtain s' where s: "s = c # s'" "prefix p' s'" by (auto simp: prefix_def)
    have ih: "prefix q t \<Longrightarrow> length t < length s \<Longrightarrow> prefix (normalizeKey q) (normalizeKey t)" for q t
      using less.hyps by blast
    show ?thesis
    proof (cases "take 2 s = [CHR 0xC4, CHR 0xB0]")
      case True
      then obtain t where t: "s = CHR 0xC4 # CHR 0xB0 # t"
        by (metis append_take_drop_id append_Cons append_Nil)
      with less.prems p consider "p = [CHR 0xC4]"
        | q where "p = CHR 0xC4 # CHR 0xB0 # q" "prefix q t" by (auto simp: prefix_Cons)
      then show ?thesis
      proof cases
        case 1
        then show ?thesis by (simp add: normalizeKey_def lead char_classes)
      next
        case 2
        with ih [of q t] t show ?thesis by (auto simp: normalizeKey_def to_lower_simps)
      qed
    next
      case no2: False
      show ?thesis
      proof (cases "take 3 s = [CHR 0xE2, CHR 0x84, CHR 0xAA]")
        case True
        then obtain t where t: "s = CHR 0xE2 # CHR 0x84 # CHR 0xAA # t"
          by (metis append_take_drop_id append_Cons append_Nil)
        with less.prems p consider "p = [CHR 0xE2]" | "p = [CHR 0xE2, CHR 0x84]"
          | q where "p = CHR 0xE2 # CHR 0x84 # CHR 0xAA # q" "prefix q t" by (auto simp: prefix_Cons)
        then show ?thesis
        proof cases
          case 3
          with ih [of q t] t show ?thesis by (auto simp: normalizeKey_def to_lower_simps)
        qed (simp_all add: normalizeKey_def lead char_classes)
      next
        case no3: False
        have "take n p = take n s" if "length (take n p) = n" for n
          using less.prems that by (metis length_take min.absorb_iff2 prefix_def take_append
              append_Nil2 diff_is_0_eq take_0)
        then have "take 2 (c # p') \<noteq> [CHR 0xC4, CHR 0xB0]"
          "take 3 (c # p') \<noteq> [CHR 0xE2, CHR 0x84, CHR 0xAA]"
          using no2 no3 p by (metis length_Cons list.size(3) numeral_2_eq_2 numeral_3_eq_3)+
        then show ?thesis
          using no2 no3 ih [OF s(2)] p s by (auto simp: normalizeKey_def to_lower_simps(3))
      qed
    qed
  qed (simp add: normalizeKey_def)
qed

lemma sensitive_prefix: "prefix p s \<Longrightarrow> sensitive_key p \<Longrightarrow> sensitive_key s"
  using normalizeKey_prefix [of p s]
  by (auto simp: sensitive_key_def list_ex_iff contains_iff prefix_def) (metis append.assoc)+

lemma entry_of_ok:
  assumes "limits_positive l" and "entry_of l key v r = (Some e, b)"
    and "\<not> shouldRedactKey key v \<Longrightarrow> json_ok l d (fst r)" and "fst r = JNull \<or> (isNumericValue v \<longrightarrow> isNumericValue (fst r))"
  shows "entry_ok l d e"
proof -
  have "sensitive_key (clampText key (dl_MaxIdentifierBytes l)) \<longrightarrow> sensitive_key key"
    by (rule impI, rule sensitive_prefix [OF clampText_prefix])
  moreover have "int (length (clampText key (dl_MaxIdentifierBytes l))) \<le> dl_MaxIdentifierBytes l"
    using assms(1) by (simp add: clampText_length limits_positive_def)
  ultimately show ?thesis
    using assms(2-4)
    by (auto simp: entry_of_def entry_ok_def Let_def shouldRedactKey_def split: if_splits)
qed

lemma put_entries_snoc:
  "put_entries (es @ [e]) =
     (case fst e of None \<Rightarrow> put_entries es | Some (k, v) \<Rightarrow> AList.update k v (put_entries es))"
  by (simp add: put_entries_def split: option.split)

lemma length_update_le: "length (AList.update k v m) \<le> Suc (length m)"
  by (induction m) auto

lemma set_update_subset: "set (AList.update k v m) \<subseteq> insert (k, v) (set m)"
  by (induction m) auto

lemma length_put_entries: "length (put_entries es) \<le> length es"
proof (induction es rule: rev_induct)
  case (snoc e es)
  then show ?case
    using length_update_le [of "fst (the (fst e))" "snd (the (fst e))" "put_entries es"]
    by (auto simp: put_entries_snoc split: option.split)
qed (simp add: put_entries_def)

lemma set_put_entries: "set (put_entries es) \<subseteq> {e. Some e \<in> fst ` set es}"
proof (induction es rule: rev_induct)
  case (snoc e es)
  then show ?case
    using set_update_subset [of "fst (the (fst e))" "snd (the (fst e))" "put_entries es"]
    by (auto simp: put_entries_snoc image_iff split: option.splits)
qed (simp add: put_entries_def)

lemma length_cut: "0 \<le> n \<Longrightarrow> int (length (cut n xs)) \<le> n"
  by (simp add: cut_def)

lemma set_cut: "set (cut n xs) \<subseteq> set xs"
  by (auto simp: cut_def dest: in_set_takeD)

lemma sanitizeValue_numeric:
  assumes "isNumericValue v"
  shows "fst (sanitizeValue l v d) = JNull \<or> isNumericValue (fst (sanitizeValue l v d))"
proof -
  have "fst (sanitizeValue l v d) \<in> {JNull, v}"
    using assms by (cases v; subst sanitizeValue.simps; simp)
  with assms show ?thesis by auto
qed

lemma sanitizeValue_ok:
  assumes "limits_positive l"
  shows "json_ok l d (fst (sanitizeValue l v d))"
  using assms
proof (induction l v d rule: sanitizeValue.induct)
  case (1 l v d)
  show ?case
  proof (cases "dl_MaxDetailsDepth l < int d")
    case True
    then show ?thesis by (subst sanitizeValue.simps) simp
  next
    case d: False
    show ?thesis
    proof (cases v)
      case (JText s)
      have "\<not> secret (clampText (scrubSecrets s) (dl_MaxStringBytes l))"
        by (simp add: clampText_clean scrubSecrets_clean)
      with JText d "1.prems" show ?thesis
        by (subst sanitizeValue.simps) (simp add: Let_def clampText_length limits_positive_def)
    next
      case (JObj kvs)
      let ?used = "cut (dl_MaxDetailsKeys l) (sortedKeys kvs)"
      let ?es = "map (\<lambda>(k, x). entry_of l k x (sanitizeValue l x (Suc d))) ?used"
      have "entry_ok l (Suc d) e" if "e \<in> set (put_entries ?es)" for e
      proof -
        from that set_put_entries [of ?es] have "Some e \<in> fst ` set ?es" by blast
        then obtain k x b where kx: "(k, x) \<in> set ?used"
          "entry_of l k x (sanitizeValue l x (Suc d)) = (Some e, b)"
          by (auto simp: image_iff) (metis fst_conv prod.collapse)
        have "json_ok l (Suc d) (fst (sanitizeValue l x (Suc d)))"
          using "1.IH"(1) [OF d JObj refl refl kx(1)] "1.prems" by simp
        then show ?thesis
          by (rule entry_of_ok [OF "1.prems" kx(2)]) (use sanitizeValue_numeric in blast)
      qed
      moreover have "int (length (put_entries ?es)) \<le> dl_MaxDetailsKeys l"
        using length_put_entries [of ?es] length_cut [of "dl_MaxDetailsKeys l" "sortedKeys kvs"] "1.prems"
        by (simp add: limits_positive_def)
      ultimately have "json_ok l d (JObj (put_entries ?es))"
        unfolding json_ok_obj using d by auto
      then show ?thesis by (subst sanitizeValue.simps) (simp only: JObj d if_False json.case Let_def fst_conv)
    next
      case (JArr xs)
      let ?used = "cut (dl_MaxDetailsArrayItems l) xs"
      have "json_ok l (Suc d) (fst (sanitizeValue l x (Suc d)))" if "x \<in> set ?used" for x
        using "1.IH"(2) [OF d JArr refl that] "1.prems" by simp
      with JArr d length_cut [of "dl_MaxDetailsArrayItems l" xs] "1.prems" show ?thesis
        by (subst sanitizeValue.simps) (simp add: Let_def limits_positive_def)
    qed (use d in \<open>subst sanitizeValue.simps, simp\<close>)+
  qed
qed

text \<open>The details of an event: sanitized entries, and entries the service adds itself, which are marks that the
  details were cut and the list of the dropped keys.  The names of keys are cut, not scrubbed.\<close>

definition own_entry :: "ClientDiagnosticsLimits \<Rightarrow> gostring \<times> json \<Rightarrow> bool" where
  "own_entry l e \<longleftrightarrow> e = (''_truncated'', JBool True) \<or> e = (''_unencodable'', JBool True) \<or>
     (\<exists>ks. e = (''_droppedKeys'', JArr (map JText ks)) \<and> (\<forall>k \<in> set ks. int (length k) \<le> dl_MaxIdentifierBytes l))"

definition details_within :: "nat \<Rightarrow> ClientDiagnosticsLimits \<Rightarrow> (gostring \<times> json) list \<Rightarrow> bool" where
  "details_within extra l m \<longleftrightarrow>
     int (length m) \<le> dl_MaxDetailsKeys l + int extra \<and> (\<forall>e \<in> set m. own_entry l e \<or> entry_ok l 1 e)"

definition details_ok :: "ClientDiagnosticsLimits \<Rightarrow> (gostring \<times> json) list \<Rightarrow> bool" where
  "details_ok l m \<longleftrightarrow> details_within 2 l m"

lemma length_alist_update: "length (AList.update k v m) \<le> Suc (length m)"
  by (induction m) auto

lemma details_within_update:
  assumes "own_entry l (k, v)" "details_within n l m"
  shows "details_within (Suc n) l (AList.update k v m)"
  using assms set_update_subset [of k v m] length_alist_update [of k v m]
  by (auto simp: details_within_def)

lemma details_within_delete: "details_within n l m \<Longrightarrow> details_within n l (AList.delete k m)"
  using order_trans [OF of_nat_mono [OF length_filter_le, where 'a = int]]
  by (auto simp: details_within_def AList.delete_eq)

lemma details_within_more: "details_within n l m \<Longrightarrow> n \<le> n' \<Longrightarrow> details_within n' l m"
  by (auto simp: details_within_def)

lemma drop_until_fits_ok:
  "details_within n l m \<Longrightarrow> details_within n l (fst (drop_until_fits jlen l ks m)) \<and>
    set (snd (drop_until_fits jlen l ks m)) \<subseteq> set ks"
proof (induction ks arbitrary: m)
  case (Cons k ks)
  from Cons.IH [OF details_within_delete [OF Cons.prems], of k] Cons.prems show ?case
    by (auto split: prod.split)
qed simp

lemma sized_keys_set: "set (map fst (sized_keys jlen l m)) = fst ` set m"
  by (force simp: sized_keys_def)

lemma sanitizeDetails_ok:
  assumes "limits_positive l"
  shows "details_within 1 l (fst (sanitizeDetails jlen l m))"
proof -
  have result: "details_within 0 l result \<and> (\<forall>e \<in> set result. entry_ok l 1 e)"
    if "sanitizeValue l (JObj m) 0 = (JObj result, b)" for result b
    using sanitizeValue_ok [OF assms, of 0 "JObj m"] unfolding that fst_conv json_ok_obj
    by (auto simp: details_within_def)
  have shrunk: "details_within 1 l (fst (shrinkDetails jlen l result))"
    if "details_within 0 l result" "\<forall>e \<in> set result. entry_ok l 1 e" for result
  proof -
    obtain m' dropped where d: "drop_until_fits jlen l (map fst (sized_keys jlen l result)) result = (m', dropped)"
      by fastforce
    have m': "details_within 0 l m'" and names: "set dropped \<subseteq> fst ` set result"
      using drop_until_fits_ok [OF that(1), of jlen "map fst (sized_keys jlen l result)"] sized_keys_set [of jlen l result]
      by (simp_all add: d)
    have "own_entry l (''_droppedKeys'', JArr (map JText dropped))"
      using names that(2) by (fastforce simp: own_entry_def entry_ok_def)
    then have "details_within (Suc 0) l (AList.update ''_droppedKeys'' (JArr (map JText dropped)) m')"
      by (rule details_within_update [OF _ m'])
    then show ?thesis using details_within_more [OF m', of 1] by (simp add: shrinkDetails_def d)
  qed
  have "details_within 1 l [(''_unencodable'', JBool True)]" "details_within 1 l []"
    using assms by (simp_all add: details_within_def own_entry_def limits_positive_def)
  then show ?thesis
    using shrunk details_within_more [of 0 l _ 1]
    by (auto simp: sanitizeDetails_def dest!: result split: prod.split json.split option.split)
qed

text \<open>Why the list of the dropped keys is kept out: a name that is dropped is written as it came.\<close>

lemma dropped_names_are_not_scrubbed:
  assumes "\<not> details_fit jlen l [(k, v)]"
  shows "shrinkDetails jlen l [(k, v)] = ([(''_droppedKeys'', JArr [JText k])], True)"
proof -
  have "set (map fst (sized_keys jlen l [(k, v)])) = {k}" unfolding sized_keys_set by simp
  moreover have "length (map fst (sized_keys jlen l [(k, v)])) = 1" by (simp add: sized_keys_def)
  ultimately have "map fst (sized_keys jlen l [(k, v)]) = [k]" by (cases "map fst (sized_keys jlen l [(k, v)])") auto
  then show ?thesis using assms by (simp add: shrinkDetails_def)
qed

section \<open>Written events\<close>

definition text_ok :: "int \<Rightarrow> gostring \<Rightarrow> bool" where
  "text_ok limit s \<longleftrightarrow> \<not> secret s \<and> int (length s) \<le> limit"

definition event_ok :: "ClientDiagnosticsLimits \<Rightarrow> ClientDiagnosticsBatchInput \<Rightarrow> ClientDiagnosticEvent \<Rightarrow> bool" where
  "event_ok l batch e \<longleftrightarrow>
     IsKnownClientDiagnosticEvent (de_Event e) \<and> de_SessionID e = dbt_SessionID batch \<and>
     de_WorkspaceID e = dbt_WorkspaceID batch \<and> de_UserID e = trim_space (dbt_UserID batch) \<and>
     text_ok (dl_MaxRouteBytes l) (de_Route e) \<and>
     list_all (text_ok (dl_MaxIdentifierBytes l))
       [de_TabID e, de_FrontendBuildVersion e, de_UpdatedAt e, de_RootNodeID e, de_SessionStatus e,
        de_SnapshotSource e] \<and>
     details_ok l (de_Details e)"

lemma text_ok_clamp: "0 < n \<Longrightarrow> text_ok n (clampText (scrubSecrets s) n)"
  by (simp add: text_ok_def clampText_clean scrubSecrets_clean clampText_length)

lemma event_of_texts:
  "de_Event (event_of c batch i t) = trim_space (di_Event i)"
  "de_SessionID (event_of c batch i t) = first_trimmed [di_SessionID i, dbt_SessionID batch]"
  "de_WorkspaceID (event_of c batch i t) = first_trimmed [di_WorkspaceID i, dbt_WorkspaceID batch]"
  "de_UserID (event_of c batch i t) = trim_space (dbt_UserID batch)"
  "de_Route (event_of c batch i t) =
     clampText (scrubSecrets (trim_space (di_Route i))) (dl_MaxRouteBytes (dc_limits c))"
  "[de_TabID (event_of c batch i t), de_FrontendBuildVersion (event_of c batch i t),
    de_UpdatedAt (event_of c batch i t), de_RootNodeID (event_of c batch i t),
    de_SessionStatus (event_of c batch i t), de_SnapshotSource (event_of c batch i t)] =
   map (clampIdentifier (dc_limits c))
     [first_trimmed [di_TabID i, dbt_TabID batch],
      first_trimmed [di_FrontendBuildVersion i, dbt_FrontendBuildVersion batch],
      trim_space (di_UpdatedAt i), trim_space (di_RootNodeID i), trim_space (di_SessionStatus i),
      trim_space (di_SnapshotSource i)]"
  "de_Details (event_of c batch i t) =
     (case sanitizeDetails (dc_json_length c) (dc_limits c) (di_Details i) of
        (m, dropped) \<Rightarrow> if dropped then AList.update ''_truncated'' (JBool True) m else m)"
  by (simp_all add: event_of_def Let_def split_def del: AList.update.simps)

lemma sanitize_ok:
  assumes "limits_positive (dc_limits c)" and "sanitize c batch i t = Inr e"
  shows "event_ok (dc_limits c) batch e"
proof -
  have own: "own_entry (dc_limits c) (''_truncated'', JBool True)" by (simp add: own_entry_def)
  have e: "e = event_of c batch i t" "IsKnownClientDiagnosticEvent (trim_space (di_Event i))"
    "first_trimmed [di_SessionID i, dbt_SessionID batch] = dbt_SessionID batch"
    "first_trimmed [di_WorkspaceID i, dbt_WorkspaceID batch] = dbt_WorkspaceID batch"
    using assms(2) by (auto simp: sanitize_def Let_def split: if_splits)
  have "details_ok (dc_limits c) (de_Details (event_of c batch i t))"
    using sanitizeDetails_ok [OF assms(1), of "dc_json_length c" "di_Details i"]
      details_within_update [OF own, of 1] details_within_more [of 1 "dc_limits c" _ 2]
    unfolding event_of_texts details_ok_def by (auto simp: numeral_2_eq_2 split: prod.split)
  moreover have "list_all (text_ok (dl_MaxIdentifierBytes (dc_limits c))) (map (clampIdentifier (dc_limits c)) vs)" for vs
    using assms(1) by (induction vs) (simp_all add: clampIdentifier_def text_ok_clamp limits_positive_def)
  moreover have "0 < dl_MaxRouteBytes (dc_limits c)"
    using assms(1) by (simp add: limits_positive_def)
  ultimately show ?thesis
    unfolding event_ok_def e(1) event_of_texts using e(2-4) by (simp only: text_ok_clamp simp_thms)
qed

text \<open>The loop only appends to what was written.\<close>

lemma dg_now_frame [simp]:
  "dg_written (snd (dg_now g)) = dg_written g" "dg_throttle (snd (dg_now g)) = dg_throttle g"
  "dg_cancelled (snd (dg_now g)) = dg_cancelled g" "dg_clock (snd (dg_now g)) = dg_clock g"
  by (simp_all add: dg_now_def)

lemma suppress_frame [simp]:
  "dg_written (snd (suppress c e g)) = dg_written g" "dg_cancelled (snd (suppress c e g)) = dg_cancelled g"
  by (auto simp: suppress_def Let_def dg_now_def)

text \<open>The result and the state of the loop, over the state it starts from.\<close>

fun reason_sum :: "(gostring \<times> int) list \<Rightarrow> int" where
  "reason_sum [] = 0"
| "reason_sum ((k, n) # rs) = n + reason_sum rs"

lemma reason_sum_add: "reason_sum (AList.map_default k 1 (\<lambda>n. n + 1) rs) = reason_sum rs + 1"
  by (induction rs rule: reason_sum.induct) auto

lemma addReason_frame [simp]:
  "dr_Accepted (addReason k r) = dr_Accepted r" "dr_Rejected (addReason k r) = dr_Rejected r"
  "dr_Suppressed (addReason k r) = dr_Suppressed r"
  "reason_sum (dr_Reasons (addReason k r)) = reason_sum (dr_Reasons r) + 1"
  by (simp_all add: addReason_def reason_sum_add)

definition handled :: "ClientDiagnosticsResult \<Rightarrow> int" where
  "handled r = dr_Accepted r + dr_Rejected r + dr_Suppressed r"

definition unexplained :: "ClientDiagnosticsResult \<Rightarrow> int" where
  "unexplained r = dr_Rejected r + dr_Suppressed r - reason_sum (dr_Reasons r)"

text \<open>What one turn of the loop did, and the loop over the rest.\<close>

lemma record_events_turn:
  assumes "record_events c batch t (i # is) r g = ((r', err), g')"
  obtains (cancelled) "err" "r' = r" "dg_written g' = dg_written g"
  | (rejected) reason g1 where "dg_written g1 = dg_written g"
      "record_events c batch t is (addReason reason (r\<lparr>dr_Rejected := dr_Rejected r + 1\<rparr>)) g1 = ((r', err), g')"
  | (suppressed) g1 where "dg_written g1 = dg_written g"
      "record_events c batch t is
         (addReason ''throttled_duplicate'' (r\<lparr>dr_Suppressed := dr_Suppressed r + 1\<rparr>)) g1 = ((r', err), g')"
  | (accepted) e g1 where "dg_written g1 = dg_written g" "sanitize c batch i t = Inr e"
      "record_events c batch t is (r\<lparr>dr_Accepted := dr_Accepted r + 1\<rparr>) (write_event e g1) = ((r', err), g')"
proof -
  let ?g = "g\<lparr>dg_checks := Suc (dg_checks g)\<rparr>"
  show thesis
  proof (cases "dg_cancelled g (dg_checks g)")
    case True
    with assms show thesis by (auto simp: Let_def intro: cancelled)
  next
    case False
    show thesis
    proof (cases "sanitize c batch i t")
      case (Inl reason)
      with assms False show thesis by (intro rejected [of ?g reason]) (simp_all add: Let_def)
    next
      case (Inr e)
      obtain b g1 where s: "suppress c e ?g = (b, g1)" by (cases "suppress c e ?g")
      then have w: "dg_written g1 = dg_written g" using suppress_frame(1) [of c e ?g] by simp
      show thesis
      proof (cases b)
        case True
        with assms False Inr s w show thesis by (intro suppressed [of g1]) (simp_all add: Let_def)
      next
        case b: False
        with assms False Inr s w show thesis by (intro accepted [of g1 e]) (simp_all add: Let_def)
      qed
    qed
  qed
qed

lemma record_events_written:
  assumes "limits_positive (dc_limits c)" and "record_events c batch t is r g = ((r', err), g')"
  shows "\<exists>es. dg_written g' = dg_written g @ es \<and> list_all (event_ok (dc_limits c) batch) es \<and>
    int (length es) = dr_Accepted r' - dr_Accepted r"
  using assms(2)
proof (induction "is" arbitrary: r g)
  case (Cons i "is")
  from Cons.prems show ?case
  proof (cases rule: record_events_turn)
    case (rejected reason g1)
    from Cons.IH [OF rejected(2)] rejected(1) show ?thesis by simp
  next
    case (suppressed g1)
    from Cons.IH [OF suppressed(2)] suppressed(1) show ?thesis by simp
  next
    case (accepted e g1)
    from Cons.IH [OF accepted(3)] obtain es where
      "dg_written g' = dg_written g @ e # es" "list_all (event_ok (dc_limits c) batch) es"
      "int (length es) = dr_Accepted r' - dr_Accepted r - 1"
      by (auto simp: write_event_def accepted(1))
    with sanitize_ok [OF assms(1) accepted(2)] show ?thesis by (intro exI [of _ "e # es"]) simp
  qed simp
qed auto

lemma record_events_counts:
  assumes "record_events c batch t is r g = ((r', err), g')"
  shows "unexplained r' = unexplained r \<and> handled r' \<le> handled r + int (length is) \<and>
    (err \<or> handled r' = handled r + int (length is))"
  using assms
proof (induction "is" arbitrary: r g)
  case (Cons i "is")
  note defs = handled_def unexplained_def
  from Cons.prems show ?case
  proof (cases rule: record_events_turn)
    case (rejected reason g1)
    from Cons.IH [OF rejected(2)] show ?thesis by (auto simp: defs)
  next
    case (suppressed g1)
    from Cons.IH [OF suppressed(2)] show ?thesis by (auto simp: defs)
  next
    case (accepted e g1)
    from Cons.IH [OF accepted(3)] show ?thesis by (auto simp: defs)
  qed simp
qed auto

text \<open>The start of \<open>Record\<close>: what the events over the limit leave in the result.\<close>

definition no_result :: ClientDiagnosticsResult where
  "no_result = \<lparr>dr_Accepted = 0, dr_Rejected = 0, dr_Suppressed = 0, dr_Reasons = []\<rparr>"

definition over_limit :: "int \<Rightarrow> ClientDiagnosticsResult" where
  "over_limit n = (if 0 < n then ((addReason ''too_many_events'') ^^ nat n) (no_result\<lparr>dr_Rejected := n\<rparr>)
                   else no_result)"

lemma addReason_power:
  "dr_Accepted ((addReason k ^^ n) r) = dr_Accepted r" "dr_Rejected ((addReason k ^^ n) r) = dr_Rejected r"
  "dr_Suppressed ((addReason k ^^ n) r) = dr_Suppressed r"
  "reason_sum (dr_Reasons ((addReason k ^^ n) r)) = reason_sum (dr_Reasons r) + int n"
  by (induction n) simp_all

lemma over_limit_counts:
  "dr_Accepted (over_limit n) = 0" "handled (over_limit n) = max 0 n" "unexplained (over_limit n) = 0"
  by (simp_all add: over_limit_def handled_def unexplained_def addReason_power no_result_def)

lemma diagnostics_Record_loop:
  assumes "dbt_Events batch \<noteq> []" and "diagnostics_Record c batch g = ((r, err), g')"
  shows "\<exists>t. record_events c batch t (cut (dl_MaxEventsPerRequest (dc_limits c)) (dbt_Events batch))
      (over_limit (int (length (dbt_Events batch)) - dl_MaxEventsPerRequest (dc_limits c))) (snd (dg_now g)) =
    ((r, err \<noteq> None), g') \<and> t = fst (dg_now g)"
  using assms
  by (auto simp: diagnostics_Record_def Let_def over_limit_def no_result_def dg_now_def
      split: prod.splits if_splits)

lemma diagnostics_Record_empty:
  "dbt_Events batch = [] \<Longrightarrow> diagnostics_Record c batch g = ((no_result, Some BatchEmpty), g)"
  by (simp add: diagnostics_Record_def no_result_def Let_def)

section \<open>The table of recent events\<close>

definition throttle_ok :: "diagnostics_config \<Rightarrow> diagnostics \<Rightarrow> bool" where
  "throttle_ok c g \<longleftrightarrow> distinct (map fst (dg_throttle g)) \<and>
     int (length (dg_throttle g)) \<le> dl_ThrottleEntries (dc_limits c)"

lemma pruneThrottle_ok:
  "distinct (map fst t) \<Longrightarrow> distinct (map fst (pruneThrottle l now t))"
  "0 < dl_ThrottleEntries l \<Longrightarrow> int (length (pruneThrottle l now t)) < dl_ThrottleEntries l"
  by (auto simp: pruneThrottle_def Let_def distinct_map_filter)

lemma suppress_throttle_ok:
  assumes "limits_positive (dc_limits c)" and "throttle_ok c g" and "suppress c e g = (b, g')"
  shows "throttle_ok c g'"
proof -
  let ?l = "dc_limits c" and ?key = "throttleKey e"
  have "int (length (AList.update ?key now t)) \<le> dl_ThrottleEntries ?l"
    if "int (length t) < dl_ThrottleEntries ?l" for now :: gotime and t
    using length_update_le [of ?key now t] that by simp
  from this [OF pruneThrottle_ok(2)] this
  have bound: "int (length (AList.update ?key now (pruneThrottle ?l now t))) \<le> dl_ThrottleEntries ?l"
    "int (length t) < dl_ThrottleEntries ?l \<Longrightarrow>
       int (length (AList.update ?key now t)) \<le> dl_ThrottleEntries ?l" for now :: gotime and t
    using assms(1) by (auto simp: limits_positive_def)
  show ?thesis
    using assms(2,3) unfolding suppress_def throttle_ok_def Let_def dg_now_def
    using bound(1) [of "dg_clock g (dg_ticks g)" "dg_throttle g"]
    by (auto simp: bound(2) pruneThrottle_ok(1) distinct_update not_le split: if_splits)
qed

lemma record_events_throttle:
  assumes "limits_positive (dc_limits c)" and "throttle_ok c g"
    and "record_events c batch t is r g = ((r', err), g')"
  shows "throttle_ok c g'"
  using assms(2,3)
proof (induction "is" arbitrary: r g)
  case (Cons i "is")
  have idle: "throttle_ok c (g\<lparr>dg_checks := n\<rparr>)" for n
    using Cons.prems(1) by (simp add: throttle_ok_def)
  have written: "throttle_ok c (write_event e h) \<longleftrightarrow> throttle_ok c h" for e h
    by (simp add: throttle_ok_def write_event_def)
  show ?case
    using Cons.prems idle Cons.IH suppress_throttle_ok [OF assms(1) idle]
    by (auto simp: Let_def written split: if_splits sum.splits prod.splits bool.splits)
      (metis written)+
qed auto

lemma suppress_critical:
  "IsCriticalClientDiagnosticEvent (de_Event e) \<Longrightarrow> suppress c e g = (False, g)"
  by (simp add: suppress_def Let_def)

lemma record_events_critical:
  assumes "record_events c batch t is r g = ((r', False), g')" and "i \<in> set is"
    and "sanitize c batch i t = Inr e" and "IsCriticalClientDiagnosticEvent (de_Event e)"
    and "limits_positive (dc_limits c)"
  shows "e \<in> set (dg_written g')"
  using assms(1,2)
proof (induction "is" arbitrary: r g)
  case (Cons j "is")
  show ?case
  proof (cases "i = j")
    case True
    with Cons.prems(1) assms(3,4) have
      "\<exists>r1 g1. record_events c batch t is r1 (write_event e g1) = ((r', False), g')"
      by (auto simp: Let_def suppress_critical split: if_splits)
    then obtain r1 g1 where "record_events c batch t is r1 (write_event e g1) = ((r', False), g')" by blast
    from record_events_written [OF assms(5) this] show ?thesis by (auto simp: write_event_def)
  next
    case False
    with Cons.prems(2) have "i \<in> set is" by simp
    with Cons.prems(1) show ?thesis
      by (cases rule: record_events_turn [consumes 1]) (use Cons.IH in auto)
  qed
qed simp

text \<open>A batch with a secret in a route and a masked detail, an unknown event and a critical one.\<close>

definition sample_diag_config :: diagnostics_config where
  "sample_diag_config = \<lparr>dc_limits = withDefaults DefaultClientDiagnosticsLimits,
     dc_parse = (\<lambda>_. None), dc_json_length = (\<lambda>_. Some 2)\<rparr>"

definition sample_diag_event :: "gostring \<Rightarrow> ClientDiagnosticEventInput" where
  "sample_diag_event name =
     \<lparr>di_Timestamp = [], di_Event = name, di_SessionID = ''s'', di_WorkspaceID = [], di_TabID = ''t'',
      di_Route = ''a@b.jp'', di_FrontendBuildVersion = [], di_TreeVersion = None,
      di_AnalysisVersion = None, di_UpdatedAt = [], di_NodeCount = Some 3, di_RootNodeID = [],
      di_SessionStatus = [], di_SnapshotSource = [], di_Sequence = 1,
      di_Details = [(''title'', JText ''p'')]\<rparr>"

definition sample_diag_batch :: ClientDiagnosticsBatchInput where
  "sample_diag_batch = \<lparr>dbt_WorkspaceID = ''w'', dbt_SessionID = ''s'', dbt_TabID = [],
     dbt_FrontendBuildVersion = [], dbt_UserID = ''u'',
     dbt_Events = [sample_diag_event ''x'', sample_diag_event ''tree_became_empty'']\<rparr>"

definition sample_diag_service :: diagnostics where
  "sample_diag_service = \<lparr>dg_throttle = [], dg_clock = (\<lambda>_. 0), dg_ticks = 0, dg_cancelled = (\<lambda>_. False),
     dg_checks = 0, dg_written = []\<rparr>"

lemma sample_diag_limits: "limits_positive (dc_limits sample_diag_config)"
  by (simp add: sample_diag_config_def)

lemma sample_diag_result:
  "fst (diagnostics_Record sample_diag_config sample_diag_batch sample_diag_service) =
     (\<lparr>dr_Accepted = 1, dr_Rejected = 1, dr_Suppressed = 0, dr_Reasons = [(''unknown_event_name'', 1)]\<rparr>, None)"
  by code_simp

lemma sample_diag_length: "length (dbt_Events sample_diag_batch) = 2"
  by (simp add: sample_diag_batch_def)

lemma sample_diag_run:
  "diagnostics_Record sample_diag_config sample_diag_batch sample_diag_service =
     ((\<lparr>dr_Accepted = 1, dr_Rejected = 1, dr_Suppressed = 0, dr_Reasons = [(''unknown_event_name'', 1)]\<rparr>, None),
      snd (diagnostics_Record sample_diag_config sample_diag_batch sample_diag_service))"
  by (metis sample_diag_result prod.collapse)

section \<open>Properties\<close>

text \<open>C30: Every event a batch makes the service write has a known name, carries the session, workspace and
  user the server authorised, and holds no JWT, bearer token or e-mail address in its texts or in the string
  values of the client's details; texts are within their limits, the client's details within depth, width and string
  size with key names cut to the limit of identifiers, and values under sensitive keys are masked unless they are
  numbers.  Beside the client's entries, within the width limit, the details hold at most two of the service's own:
  a mark that they were cut, and the list of the keys dropped for size, whose names are cut to that limit
  but, like all names of keys, not scrubbed.\<close>

theorem diagnostics_written_clean:
  assumes "limits_positive (dc_limits c)" and "diagnostics_Record c batch g = ((r, err), g')"
  shows "\<exists>es. dg_written g' = dg_written g @ es \<and> int (length es) = dr_Accepted r \<and>
    list_all (event_ok (dc_limits c) batch) es"
proof (cases "dbt_Events batch = []")
  case True
  with assms(2) show ?thesis by (auto simp: diagnostics_Record_empty no_result_def)
next
  case False
  from diagnostics_Record_loop [OF this assms(2)] record_events_written [OF assms(1)]
  show ?thesis by (fastforce simp: over_limit_counts)
qed

lemma diagnostics_written_clean_witness:
  "\<exists>es. dg_written (snd (diagnostics_Record sample_diag_config sample_diag_batch sample_diag_service)) = [] @ es \<and>
     length es = 1 \<and> list_all (event_ok (dc_limits sample_diag_config) sample_diag_batch) es"
  using diagnostics_written_clean [OF sample_diag_limits sample_diag_run] by (auto simp: sample_diag_service_def)

text \<open>Every event of a batch is counted once: unless the request is cancelled, the accepted,
  rejected and suppressed events are all events of the batch, those over the limit included, and the
  counts of the reasons add up to the rejected and suppressed ones.\<close>

theorem diagnostics_counts:
  assumes "limits_positive (dc_limits c)" and "diagnostics_Record c batch g = ((r, err), g')"
    and "err \<noteq> Some BatchEmpty"
  shows "(err = None \<longrightarrow>
      dr_Accepted r + dr_Rejected r + dr_Suppressed r = int (length (dbt_Events batch))) \<and>
    dr_Accepted r + dr_Rejected r + dr_Suppressed r \<le> int (length (dbt_Events batch)) \<and>
    reason_sum (dr_Reasons r) = dr_Rejected r + dr_Suppressed r"
proof -
  have ne: "dbt_Events batch \<noteq> []" using assms(2,3) by (auto simp: diagnostics_Record_empty)
  let ?n = "dl_MaxEventsPerRequest (dc_limits c)"
  have "int (length (cut ?n (dbt_Events batch))) + max 0 (int (length (dbt_Events batch)) - ?n) =
      int (length (dbt_Events batch))"
    using assms(1) by (auto simp: cut_def limits_positive_def)
  moreover obtain t where "record_events c batch t (cut ?n (dbt_Events batch))
      (over_limit (int (length (dbt_Events batch)) - ?n)) (snd (dg_now g)) = ((r, err \<noteq> None), g')"
    using diagnostics_Record_loop [OF ne assms(2)] by blast
  note record_events_counts [OF this, unfolded over_limit_counts]
  ultimately show ?thesis by (auto simp: unexplained_def handled_def)
qed

lemma diagnostics_counts_witness:
  "let r = fst (fst (diagnostics_Record sample_diag_config sample_diag_batch sample_diag_service))
   in dr_Accepted r + dr_Rejected r + dr_Suppressed r = 2 \<and> reason_sum (dr_Reasons r) = 1"
  using diagnostics_counts [OF sample_diag_limits sample_diag_run]
  by (simp add: sample_diag_result Let_def sample_diag_length)

text \<open>The table of recent events keeps one entry per key and never exceeds its bound, whatever
  batches arrive, and a valid critical event among the first events of a batch is always written.\<close>

theorem diagnostics_throttle:
  assumes "limits_positive (dc_limits c)" and "throttle_ok c g"
    and "diagnostics_Record c batch g = ((r, err), g')"
  shows "throttle_ok c g' \<and>
    (err = None \<longrightarrow> i \<in> set (cut (dl_MaxEventsPerRequest (dc_limits c)) (dbt_Events batch)) \<longrightarrow>
     sanitize c batch i (fst (dg_now g)) = Inr e \<longrightarrow> IsCriticalClientDiagnosticEvent (de_Event e) \<longrightarrow>
     e \<in> set (dg_written g'))"
proof (cases "dbt_Events batch = []")
  case True
  with assms(2,3) show ?thesis by (auto simp: diagnostics_Record_empty)
next
  case False
  have "throttle_ok c (snd (dg_now g))" using assms(2) by (simp add: throttle_ok_def)
  with diagnostics_Record_loop [OF False assms(3)] assms(1) show ?thesis
    by (auto intro: record_events_throttle record_events_critical)
qed

lemma diagnostics_throttle_witness:
  "throttle_ok sample_diag_config (snd (diagnostics_Record sample_diag_config sample_diag_batch sample_diag_service)) \<and>
   event_of sample_diag_config sample_diag_batch (sample_diag_event ''tree_became_empty'') 0
     \<in> set (dg_written (snd (diagnostics_Record sample_diag_config sample_diag_batch sample_diag_service)))"
proof -
  let ?i = "sample_diag_event ''tree_became_empty''"
  let ?e = "event_of sample_diag_config sample_diag_batch ?i 0"
  have "throttle_ok sample_diag_config sample_diag_service"
    by (simp add: throttle_ok_def sample_diag_service_def sample_diag_config_def withDefaults_def limit_or_def
        DefaultClientDiagnosticsLimits_def Let_def)
  note run = diagnostics_throttle [OF sample_diag_limits this sample_diag_run, of ?i ?e]
  have "?i \<in> set (cut (dl_MaxEventsPerRequest (dc_limits sample_diag_config)) (dbt_Events sample_diag_batch))"
    by (simp add: cut_def sample_diag_batch_def sample_diag_config_def withDefaults_def limit_or_def
        DefaultClientDiagnosticsLimits_def Let_def)
  moreover have "IsKnownClientDiagnosticEvent (trim_space (di_Event ?i)) \<and> trim_space (di_Event ?i) \<noteq> [] \<and>
      first_trimmed [di_SessionID ?i, dbt_SessionID sample_diag_batch] = dbt_SessionID sample_diag_batch \<and>
      first_trimmed [di_WorkspaceID ?i, dbt_WorkspaceID sample_diag_batch] = dbt_WorkspaceID sample_diag_batch \<and>
      IsCriticalClientDiagnosticEvent (trim_space (di_Event ?i))"
    by code_simp
  moreover have "fst (dg_now sample_diag_service) = 0" by (simp add: dg_now_def sample_diag_service_def)
  ultimately show ?thesis
    using run by (simp add: sanitize_def event_of_texts Let_def)
qed

end
