(* ===== verification/TreeState.thy ===== *)
theory TreeState
  imports TreeIntegrity LiveCues "HOL-Library.AList"
begin

text \<open>
  The parts of a discussion tree the write path works on (\<open>internal/application/ai_tree.go\<close>): nodes,
  parents and relations of a stored tree, the classification of its nodes
  (\<open>ai_semantic_classification.go\<close>), the upgrade of trees whose topics were the agenda records
  themselves (\<open>ai_agenda_anchor.go\<close>), and the references of a model to the ids of a tree
  (\<open>ai_reference.go\<close>).

  A Go map is an association list.  Where the code ranges over one in a way that shows, the order is an
  argument.  The letters and numbers of package \<open>unicode\<close> and the hash of \<open>crypto/sha256\<close> (its first
  six bytes in hexadecimal) are the functions of \<open>tree_lib\<close>.
\<close>

section \<open>Maps\<close>

record tree_lib =
  tl_word :: "gostring \<Rightarrow> bool"
  tl_hash :: "gostring \<Rightarrow> gostring"

type_synonym parent_map = "(gostring \<times> gostring) list"

definition parent_of :: "parent_map \<Rightarrow> gostring \<Rightarrow> gostring" where
  "parent_of parents i = (case map_of parents i of None \<Rightarrow> [] | Some p \<Rightarrow> p)"

definition in_table :: "(gostring \<times> 'a) list \<Rightarrow> gostring \<Rightarrow> bool" where
  "in_table tbl i \<longleftrightarrow> map_of tbl i \<noteq> None"

lemma in_table_keys: "in_table tbl i \<longleftrightarrow> i \<in> fst ` set tbl"
  by (simp add: in_table_def map_of_eq_None_iff)

lemma parent_of_Nil [simp]: "parent_of [] i = []"
  by (simp add: parent_of_def)

text \<open>The walk up a parent map to the first id that is wanted, empty where there is none.\<close>

function climb :: "(gostring \<Rightarrow> bool) \<Rightarrow> parent_map \<Rightarrow> gostring list \<Rightarrow> gostring \<Rightarrow> gostring" where
  "climb wanted parents seen cur =
     (if cur = [] then []
      else if wanted cur then cur
      else if cur \<in> set seen then []
      else climb wanted parents (cur # seen) (parent_of parents cur))"
  by auto
termination
proof (relation "measures [\<lambda>(w, ps, seen, cur). card (fst ` set ps - set seen), \<lambda>(w, ps, seen, cur). if cur = [] then 0 else 1]",
    goal_cases)
  case (2 wanted parents seen cur)
  show ?case
  proof (cases "cur \<in> fst ` set parents")
    case True
    then have "fst ` set parents - set (cur # seen) \<subset> fst ` set parents - set seen" using 2 by auto
    then show ?thesis by (simp add: psubset_card_mono)
  next
    case False
    then have "fst ` set parents - insert cur (set seen) = fst ` set parents - set seen" by auto
    moreover have "parent_of parents cur = []" using False by (simp add: parent_of_def map_of_eq_None_iff [THEN iffD2])
    ultimately show ?thesis using 2 by simp
  qed
qed simp

declare climb.simps [simp del]

text \<open>The number of ids from a node to the root; a cycle is deeper than any tree may be.\<close>

function depth_up :: "parent_map \<Rightarrow> gostring list \<Rightarrow> nat \<Rightarrow> gostring \<Rightarrow> nat" where
  "depth_up parents seen depth cur =
     (if cur = [] \<or> cur = treeRootNodeID then depth
      else if cur \<in> set seen then Suc treeHardMaxDepth
      else depth_up parents (cur # seen) (Suc depth) (parent_of parents cur))"
  by auto
termination
proof (relation "measures [\<lambda>(ps, seen, d, cur). card (fst ` set ps - set seen), \<lambda>(ps, seen, d, cur). if cur = [] then 0 else 1]",
    goal_cases)
  case (2 parents seen depth cur)
  show ?case
  proof (cases "cur \<in> fst ` set parents")
    case True
    then have "fst ` set parents - set (cur # seen) \<subset> fst ` set parents - set seen" using 2 by auto
    then show ?thesis by (simp add: psubset_card_mono)
  next
    case False
    then have "fst ` set parents - insert cur (set seen) = fst ` set parents - set seen" by auto
    moreover have "parent_of parents cur = []" using False by (simp add: parent_of_def map_of_eq_None_iff [THEN iffD2])
    ultimately show ?thesis using 2 by simp
  qed
qed simp

declare depth_up.simps [simp del]

section \<open>Constants and small helpers\<close>

definition treeUnclassifiedTopicID :: gostring where "treeUnclassifiedTopicID = ''topic-unclassified''"
definition treeUnclassifiedTopicLabel :: gostring where
  "treeUnclassifiedTopicLabel = jp [0x8FFD, 0x52A0, 0x8AD6, 0x70B9]"
definition topicOriginAgenda :: gostring where "topicOriginAgenda = ''agenda''"
definition topicOriginDynamic :: gostring where "topicOriginDynamic = ''dynamic''"
definition assignmentSourceReorganizer :: gostring where "assignmentSourceReorganizer = ''reorganizer''"
definition topicIDPrefix :: gostring where "topicIDPrefix = ''topic-''"
definition nul :: gostring where "nul = [CHR 0x00]"
definition treeSoftMaxDepth :: nat where "treeSoftMaxDepth = 4"
definition treeMaxChildrenBeforeGrouping :: nat where "treeMaxChildrenBeforeGrouping = 4"
definition treeHardDepthMinEvidence :: nat where "treeHardDepthMinEvidence = 3"
definition groupFlattenGraceVersions :: int where "groupFlattenGraceVersions = 2"
definition maxGroupsPerTopic :: nat where "maxGroupsPerTopic = 6"
definition maxGroupsPerMeeting :: nat where "maxGroupsPerMeeting = 24"
definition treeReorganizeMaxOperations :: nat where "treeReorganizeMaxOperations = 24"

definition appendIfMissing :: "gostring list \<Rightarrow> gostring \<Rightarrow> gostring list" where
  "appendIfMissing vs v = (if v \<in> set vs then vs else vs @ [v])"

definition firstNonEmptyIDs :: "gostring list list \<Rightarrow> gostring list" where
  "firstNonEmptyIDs vss = (case find (\<lambda>vs. vs \<noteq> []) vss of None \<Rightarrow> [] | Some vs \<Rightarrow> vs)"

definition appendUniqueStrings :: "gostring list \<Rightarrow> gostring list \<Rightarrow> gostring list" where
  "appendUniqueStrings vs additions = sort (uniqueNonEmptyIDs (vs @ additions))"

definition genericGroupLabel :: "gostring \<Rightarrow> bool" where
  "genericGroupLabel label \<longleftrightarrow> normalizeForMatch label \<in> set (map jp
     [[0x305D, 0x306E, 0x4ED6], [0x8A73, 0x7D30], [0x95A2, 0x9023, 0x4E8B, 0x9805], [0x9805, 0x76EE]] @
     [''other'', ''others'', ''detail'', ''details'', ''related''])"

definition stableGroupID :: "tree_lib \<Rightarrow> gostring \<Rightarrow> gostring \<Rightarrow> gostring" where
  "stableGroupID lib parentID label = ''group-'' @ tl_hash lib (parentID @ nul @ normalizeForMatch label)"

definition stableDynamicTopicID :: "tree_lib \<Rightarrow> gostring \<Rightarrow> gostring" where
  "stableDynamicTopicID lib candidateID0 =
     (let candidateID = trim_space candidateID0 in
      if has_prefix candidateID ''candidate-'' \<and> candidateID \<noteq> ''candidate-''
      then ''topic-dynamic-'' @ drop 10 candidateID
      else ''topic-dynamic-'' @ tl_hash lib candidateID)"

definition normalizeProposedTopicID :: "gostring \<Rightarrow> gostring \<Rightarrow> gostring" where
  "normalizeProposedTopicID id0 label =
     (let i = trim_space id0; slug = normalizeForMatch label in
      if i = [] \<or> i = treeRootNodeID then (if slug = [] then [] else topicIDPrefix @ slug)
      else if has_prefix i topicIDPrefix then i else topicIDPrefix @ i)"

definition deriveTopicOrigin :: "liveAnalysisTreeNode \<Rightarrow> gostring" where
  "deriveTopicOrigin n =
     (if tn_ID n = treeRootNodeID \<or> tn_ID n = treeUnclassifiedTopicID then topicOriginSystem
      else if tn_AgendaRefs n \<noteq> [] then topicOriginAgenda else topicOriginDynamic)"

section \<open>Classification\<close>

definition issueSubtypeDiscussion :: gostring where "issueSubtypeDiscussion = ''discussion''"

definition validIssueSubtype :: "gostring \<Rightarrow> bool" where
  "validIssueSubtype v \<longleftrightarrow> v \<in> set [''discussion'', ''confirmation'', ''question'', ''investigation'']"

definition classified :: "gostring \<Rightarrow> gostring \<Rightarrow> gostring \<Rightarrow> gostring \<times> gostring \<times> gostring" where
  "classified kind subtype status =
     (if kind = ''open_issue''
      then (''issue'', (if subtype = [] then issueSubtypeDiscussion else subtype),
            (if status = [] then ''open'' else status))
      else if kind = ''confirmation'' \<or> kind = ''question'' \<or> kind = ''investigation'' then (''issue'', kind, status)
      else if kind = ''resolved'' then (''issue'', issueSubtypeDiscussion, ''resolved'')
      else if kind = ''issue''
      then (kind, (if validIssueSubtype subtype then subtype else issueSubtypeDiscussion), status)
      else (kind, [], status))"

definition normalizeSemanticClassification ::
    "gostring \<Rightarrow> gostring \<Rightarrow> gostring \<Rightarrow> gostring \<times> gostring \<times> gostring \<times> bool" where
  "normalizeSemanticClassification kind0 subtype0 status0 =
     (let kind = to_lower (trim_space kind0); subtype = to_lower (trim_space subtype0);
          status = to_lower (trim_space status0); (k, s, st) = classified kind subtype status;
          s' = (if k = ''issue'' \<and> \<not> validIssueSubtype s then issueSubtypeDiscussion else s);
          st' = (if k = ''issue'' \<and> st = [] then ''open'' else st) in
      (k, s', st', k \<noteq> kind \<or> s' \<noteq> subtype \<or> st' \<noteq> status))"

definition normalized_node :: "liveAnalysisTreeNode \<Rightarrow> liveAnalysisTreeNode" where
  "normalized_node n =
     (if is_topic n \<or> is_group n then n
      else (let (k, s, st, _) = normalizeSemanticClassification (tn_Kind n) (tn_Subtype n) (tn_Status n) in
        n\<lparr>tn_Kind := k, tn_Subtype := s, tn_Status := st\<rparr>))"

section \<open>Nodes, parents and relations of a stored tree\<close>

definition children_of :: "liveAnalysisTreeEdge list \<Rightarrow> gostring \<Rightarrow> gostring list" where
  "children_of edges i = map te_Target (filter (\<lambda>e. te_Source e = i) edges)"

fun visit_children ::
    "gostring \<Rightarrow> gostring list \<Rightarrow> gostring list \<times> parent_map \<times> gostring list \<Rightarrow>
     gostring list \<times> parent_map \<times> gostring list" where
  "visit_children cur [] s = s"
| "visit_children cur (t # ts) (visited, parents, queue) =
     (if t \<in> set visited then visit_children cur ts (visited, parents, queue)
      else visit_children cur ts (t # visited, AList.update t cur parents, queue @ [t]))"

lemma visit_children_grows:
  "visit_children cur ts (visited, parents, queue) = (v', p', q') \<Longrightarrow>
   set visited \<subseteq> set v' \<and> set v' \<subseteq> set visited \<union> set ts \<and> (set v' = set visited \<longrightarrow> q' = queue)"
proof (induction ts arbitrary: visited parents queue)
  case (Cons t ts)
  show ?case
  proof (cases "t \<in> set visited")
    case True
    then show ?thesis using Cons.IH [of visited parents queue] Cons.prems by auto
  next
    case False
    then have "visit_children cur ts (t # visited, AList.update t cur parents, queue @ [t]) = (v', p', q')"
      using Cons.prems by simp
    from Cons.IH [OF this] False show ?thesis by auto
  qed
qed simp

text \<open>The breadth-first search that finds one parent for each node a legacy tree reaches.\<close>

function bfs :: "liveAnalysisTreeEdge list \<Rightarrow> gostring list \<times> parent_map \<times> gostring list \<Rightarrow> parent_map" where
  "bfs edges (visited, parents, []) = parents"
| "bfs edges (visited, parents, cur # queue) =
     bfs edges (visit_children cur (children_of edges cur) (visited, parents, queue))"
  by pat_completeness auto
termination
proof (relation "measures [\<lambda>(edges, v, p, q). card (te_Target ` set edges - set v), \<lambda>(edges, v, p, q). length q]", goal_cases)
  case (2 edges visited parents cur queue)
  obtain v p q where r: "visit_children cur (children_of edges cur) (visited, parents, queue) = (v, p, q)"
    by (cases "visit_children cur (children_of edges cur) (visited, parents, queue)") auto
  note g = visit_children_grows [OF r]
  have c: "set (children_of edges cur) \<subseteq> te_Target ` set edges" by (auto simp: children_of_def)
  show ?case
  proof (cases "set v = set visited")
    case True
    then show ?thesis using g by (simp add: r)
  next
    case False
    then obtain x where x: "x \<in> set v" "x \<notin> set visited" using g by auto
    then have "x \<in> te_Target ` set edges" using g c by auto
    then have "te_Target ` set edges - set v \<subset> te_Target ` set edges - set visited" using x g by auto
    then show ?thesis by (simp add: r psubset_card_mono)
  qed
qed simp

definition plain_relation :: "gostring \<Rightarrow> gostring \<Rightarrow> gostring \<Rightarrow> liveAnalysisTreeRelation" where
  "plain_relation source target kind =
     \<lparr>rl_ID = [], rl_Source = source, rl_Target = target, rl_Kind = kind, rl_Confidence = 0,
      rl_EvidenceSequenceNos = [], rl_Origin = [], rl_Status = [], rl_CreatedAtVersion = 0, rl_UpdatedAtVersion = 0\<rparr>"

definition legacy_root :: "liveAnalysisTreeNode list \<Rightarrow> gostring" where
  "legacy_root nodes =
     (let first = (case nodes of [] \<Rightarrow> [] | n # _ \<Rightarrow> tn_ID n) in
      case find is_topic nodes of
        Some n \<Rightarrow> (if tn_ID n = [] then first else tn_ID n)
      | None \<Rightarrow> first)"

definition treeStateFromPayloadTree ::
    "liveAnalysisTree option \<Rightarrow> liveAnalysisTreeNode list \<times> parent_map \<times> liveAnalysisTreeRelation list" where
  "treeStateFromPayloadTree tree =
     (case tree of
        None \<Rightarrow> ([], [], [])
      | Some t \<Rightarrow>
          (if list_ex (\<lambda>n. trim_space (tn_ParentID n) \<noteq> []) (tr_Nodes t)
           then (tr_Nodes t,
                 fold (\<lambda>n ps. if trim_space (tn_ParentID n) \<noteq> [] then AList.update (tn_ID n) (trim_space (tn_ParentID n)) ps else ps)
                   (tr_Nodes t) [],
                 tr_Relations t)
           else
             (let r = legacy_root (tr_Nodes t); parents = bfs (tr_Edges t) ([r], [], [r]) in
              (tr_Nodes t, parents, tr_Relations t @
                 map (\<lambda>e. plain_relation (te_Source e) (te_Target e) ''related'')
                   (filter (\<lambda>e. parent_of parents (te_Target e) \<noteq> te_Source e) (tr_Edges t))))))"

section \<open>Topics that were agenda records\<close>

definition stableAgendaTopicID :: "tree_lib \<Rightarrow> gostring \<Rightarrow> nat \<Rightarrow> gostring" where
  "stableAgendaTopicID lib agendaID generation =
     ''topic-agenda-'' @ tl_hash lib (''agenda-topic'' @ nul @ trim_space agendaID @
       (if generation = 0 then [] else nul @ show_nat generation))"

text \<open>
  The first free generation.  As many generations as there are ids in use, and one more, are enough,
  unless the hash repeats one of its values.
\<close>

definition free_topic_id :: "tree_lib \<Rightarrow> gostring list \<Rightarrow> gostring \<Rightarrow> gostring" where
  "free_topic_id lib occupied agendaID =
     (case filter (\<lambda>i. i \<notin> set occupied) (map (stableAgendaTopicID lib agendaID) [0..<Suc (length occupied)]) of
        [] \<Rightarrow> [] | i # _ \<Rightarrow> i)"

definition existing_topics :: "meetingContext option \<Rightarrow> liveAnalysisTreeNode list \<Rightarrow> gostring \<Rightarrow> gostring list" where
  "existing_topics c nodes agendaID =
     sort (uniqueNonEmptyIDs (map tn_ID (filter (\<lambda>n. is_topic n \<and> tn_ID n \<noteq> agendaID \<and>
       agendaID \<in> set (topicAgendaRefs c n)) nodes)))"

definition remap_step ::
    "tree_lib \<Rightarrow> meetingContext option \<Rightarrow> liveAnalysisTreeNode list \<Rightarrow> liveAnalysisTreeNode \<Rightarrow>
     parent_map \<times> gostring list \<Rightarrow> parent_map \<times> gostring list" where
  "remap_step lib c nodes n s =
     (case s of (remap, occupied) \<Rightarrow>
        case agendaRecordMap c (tn_ID n) of
          None \<Rightarrow> s
        | Some a \<Rightarrow>
            if \<not> is_topic n then s
            else (let target = (case existing_topics c nodes (ag_ID a) of
                    i # _ \<Rightarrow> i | [] \<Rightarrow> free_topic_id lib occupied (ag_ID a)) in
              (AList.update (tn_ID n) target remap, target # occupied)))"

definition remap_id :: "parent_map \<Rightarrow> gostring \<Rightarrow> gostring" where
  "remap_id remap i = (let t = trim_space i in if parent_of remap t \<noteq> [] then parent_of remap t else t)"

definition moved_topic :: "meetingContext option \<Rightarrow> gostring \<Rightarrow> liveAnalysisTreeNode \<Rightarrow> liveAnalysisTreeNode" where
  "moved_topic c target n =
     (if target = tn_ID n then n
      else n\<lparr>tn_ID := target, tn_AgendaRefs := appendUniqueStrings (tn_AgendaRefs n) [tn_ID n], tn_Materialized := True,
             tn_Origin := (if tn_Origin n = [] \<or> tn_Origin n = topicOriginDynamic then topicOriginAgenda else tn_Origin n),
             tn_AgendaRole := (if tn_AgendaRole n \<noteq> [] then tn_AgendaRole n
               else (case agendaRecordMap c (tn_ID n) of
                   None \<Rightarrow> effectiveAgendaRole [] [] []
                 | Some a \<Rightarrow> effectiveAgendaRole (ag_Role a) (ag_Title a) []))\<rparr>)"

definition joined_topic :: "liveAnalysisTreeNode \<Rightarrow> liveAnalysisTreeNode \<Rightarrow> liveAnalysisTreeNode" where
  "joined_topic source target =
     (let refs = appendUniqueStrings (tn_AgendaRefs target) (tn_AgendaRefs source) in
      target\<lparr>tn_AgendaRefs := refs,
        tn_ModelTopicIDs := appendUniqueStrings (tn_ModelTopicIDs target) (tn_ModelTopicIDs source),
        tn_MergedFromNodeIDs := appendUniqueStrings (tn_MergedFromNodeIDs target) (tn_MergedFromNodeIDs source),
        tn_Materialized := tn_Materialized target \<or> tn_Materialized source,
        tn_Origin := (if refs \<noteq> [] \<and> tn_Origin target = topicOriginDynamic then topicOriginMixed else tn_Origin target),
        tn_Label := (if tn_Label target = [] then tn_Label source else tn_Label target),
        tn_Description := (if tn_Description target = [] then tn_Description source else tn_Description target)\<rparr>)"

definition merge_step ::
    "meetingContext option \<Rightarrow> parent_map \<Rightarrow> liveAnalysisTreeNode \<Rightarrow> liveAnalysisTreeNode list \<Rightarrow> liveAnalysisTreeNode list" where
  "merge_step c remap n result =
     (let target = (if parent_of remap (tn_ID n) \<noteq> [] then parent_of remap (tn_ID n) else tn_ID n);
          source = moved_topic c target n in
      if target \<in> tn_ID ` set result
      then map (\<lambda>t. if tn_ID t = target then joined_topic source t else t) result
      else result @ [source])"

definition rewire_node :: "meetingContext option \<Rightarrow> parent_map \<Rightarrow> liveAnalysisTreeNode \<Rightarrow> liveAnalysisTreeNode" where
  "rewire_node c remap n =
     n\<lparr>tn_ParentID := remap_id remap (tn_ParentID n),
       tn_ModelTopicIDs := uniqueNonEmptyIDs (filter (\<lambda>i. agendaRecordMap c (trim_space i) = None) (tn_ModelTopicIDs n)),
       tn_MergedFromNodeIDs := uniqueNonEmptyIDs (filter (\<lambda>i. i \<noteq> tn_ID n) (map (remap_id remap) (tn_MergedFromNodeIDs n)))\<rparr>"

definition parent_edges :: "liveAnalysisTreeNode list \<Rightarrow> liveAnalysisTreeEdge list" where
  "parent_edges nodes = map (\<lambda>n. \<lparr>te_Source = tn_ParentID n, te_Target = tn_ID n\<rparr>)
     (filter (\<lambda>n. tn_ID n \<noteq> treeRootNodeID \<and> tn_ParentID n \<noteq> []) nodes)"

definition rewire_relation :: "parent_map \<Rightarrow> liveAnalysisTreeRelation \<Rightarrow> liveAnalysisTreeRelation" where
  "rewire_relation remap r = r\<lparr>rl_Source := remap_id remap (rl_Source r), rl_Target := remap_id remap (rl_Target r)\<rparr>"

text \<open>The tree, and the old id of each topic with its new one.\<close>

definition normalizeLegacyAgendaTopicIDs ::
    "tree_lib \<Rightarrow> meetingContext option \<Rightarrow> liveAnalysisTree \<Rightarrow> liveAnalysisTree \<times> parent_map" where
  "normalizeLegacyAgendaTopicIDs lib c tree =
     (let nodes = tr_Nodes tree;
          (remap, _) = fold (remap_step lib c nodes) nodes ([], map tn_ID nodes);
          merged = map (rewire_node c remap) (fold (merge_step c remap) nodes []) in
      if remap = [] then (tree, [])
      else (\<lparr>tr_Nodes = merged, tr_Edges = parent_edges merged,
             tr_Relations = map (rewire_relation remap) (tr_Relations tree)\<rparr>, remap))"

section \<open>References of the model\<close>

text \<open>What has been written so far, and whether a separator is due.\<close>

definition reference_rune :: "tree_lib \<Rightarrow> gostring \<Rightarrow> gostring \<times> bool \<Rightarrow> gostring \<times> bool" where
  "reference_rune lib r s =
     (case s of (out, pending) \<Rightarrow>
        if tl_word lib r then ((if pending \<and> out \<noteq> [] then out @ ''-'' else out) @ r, False) else (out, True))"

definition trim_hyphens :: "gostring \<Rightarrow> gostring" where
  "trim_hyphens s = rev (dropWhile (\<lambda>ch. ch = CHR 0x2D) (rev (dropWhile (\<lambda>ch. ch = CHR 0x2D) s)))"

definition canonicalReferenceKey :: "tree_lib \<Rightarrow> gostring \<Rightarrow> gostring" where
  "canonicalReferenceKey lib v = trim_hyphens (fst (fold (reference_rune lib) (runes (to_lower (trim_space v))) ([], False)))"

record canonicalReferenceResolver =
  rr_byKey :: "(gostring \<times> gostring) list"
  rr_ambiguous :: "gostring list"

definition resolver_add :: "tree_lib \<Rightarrow> gostring \<Rightarrow> gostring \<Rightarrow> canonicalReferenceResolver \<Rightarrow> canonicalReferenceResolver" where
  "resolver_add lib alias canonical0 r =
     (let canonical = trim_space canonical0; key = canonicalReferenceKey lib alias in
      if key = [] \<or> canonical = [] then r
      else if map_of (rr_byKey r) key \<noteq> None \<and> map_of (rr_byKey r) key \<noteq> Some canonical
      then r\<lparr>rr_byKey := AList.delete key (rr_byKey r), rr_ambiguous := key # rr_ambiguous r\<rparr>
      else if key \<in> set (rr_ambiguous r) then r
      else r\<lparr>rr_byKey := AList.update key canonical (rr_byKey r)\<rparr>)"

definition newCanonicalReferenceResolver :: "tree_lib \<Rightarrow> gostring list \<Rightarrow> canonicalReferenceResolver" where
  "newCanonicalReferenceResolver lib ids = fold (\<lambda>i. resolver_add lib i i) ids \<lparr>rr_byKey = [], rr_ambiguous = []\<rparr>"

definition resolver_redirect :: "tree_lib \<Rightarrow> gostring \<Rightarrow> gostring \<Rightarrow> canonicalReferenceResolver \<Rightarrow> canonicalReferenceResolver" where
  "resolver_redirect lib alias0 canonical0 r =
     (let alias = trim_space alias0; canonical = trim_space canonical0; key = canonicalReferenceKey lib alias in
      if alias = [] \<or> canonical = [] then r
      else resolver_add lib canonical canonical
        \<lparr>rr_byKey = AList.update key canonical (map (\<lambda>(k, v). (k, if v = alias then canonical else v)) (rr_byKey r)),
         rr_ambiguous = removeAll key (rr_ambiguous r)\<rparr>)"

text \<open>The id, and whether it differs from what the model wrote.\<close>

definition resolver_resolve :: "tree_lib \<Rightarrow> canonicalReferenceResolver \<Rightarrow> gostring \<Rightarrow> (gostring \<times> bool) option" where
  "resolver_resolve lib r v0 =
     (let v = trim_space v0; key = canonicalReferenceKey lib v in
      if v = [] \<or> key \<in> set (rr_ambiguous r) then None
      else map_option (\<lambda>canonical. (canonical, canonical \<noteq> v)) (map_of (rr_byKey r) key))"

definition treeReferenceResolver :: "tree_lib \<Rightarrow> liveAnalysisTree option \<Rightarrow> canonicalReferenceResolver" where
  "treeReferenceResolver lib tree =
     (case tree of None \<Rightarrow> newCanonicalReferenceResolver lib []
      | Some t \<Rightarrow> newCanonicalReferenceResolver lib (map tn_ID (tr_Nodes t)))"

end
