(* ===== verification/TreeAssembly.thy ===== *)
theory TreeAssembly
  imports TreeState
begin

text \<open>
  The invariant pass that puts a discussion tree together, \<open>assembleTree\<close>, and the measures of its
  shape, \<open>computeTreeHealth\<close> and \<open>treeDepthOf\<close> (\<open>internal/application/ai_tree.go\<close>), with the kinds of
  relations of \<open>ai_kind_validator.go\<close>.

  The order in which Go visits the topics decides which topic of a cycle is hung on the root; it is the
  argument \<open>order\<close> of the definitions.  Where a map is visited for a count or for one value per key, the
  order does not show.  Ratios are rationals; the ids of the fullest parents, which follow the order of a
  map where there is a tie, are left out.
\<close>

section \<open>Statistics of the write path\<close>

record treeOperationEvaluation =
  oe_Index :: nat
  oe_Type :: gostring
  oe_RequestedTargetIDs :: "gostring list"
  oe_TargetIDs :: "gostring list"
  oe_RequestedParentID :: gostring
  oe_CanonicalParentID :: gostring
  oe_Result :: gostring
  oe_Reason :: gostring

record liveAnalysisTreeMergeStats = treeMergeStats +
  ms_ReparentedNodes :: nat
  ms_OrphanRescuedEdges :: nat
  ms_GroupsCreated :: nat
  ms_GroupsFlattened :: nat
  ms_TotalEdges :: nat
  ms_TopicChildCount :: nat
  ms_MaxDepth :: nat
  ms_FlatTreeDetected :: bool
  ms_LegacyAgendaTopicIDsNormalized :: nat
  ms_AliasResolvedTreeOperationIDs :: nat
  ms_NonCanonicalNodeIDs :: nat
  ms_SelfParentOperationsRejected :: nat
  ms_UnknownGroupEvidenceIDs :: nat
  ms_AgendaTopicsMerged :: nat
  ms_AgendaTopicsDematerialized :: nat
  ms_AgendaTopicsSplit :: nat
  ms_ReorganizeProposed :: nat
  ms_ReorganizeApplied :: nat
  ms_ReorganizeNoop :: nat
  ms_ReorganizeRejected :: nat
  ms_ReorganizeInvalid :: nat
  ms_ReorganizeRejections :: "gostring list"
  ms_ReorganizeOperations :: "treeOperationEvaluation list"

definition zero_stats :: liveAnalysisTreeMergeStats where
  "zero_stats =
     \<lparr>ms_DuplicateNodeIDsDetected = 0, ms_CrossKindIDCollisions = 0, ms_SelfParentRejected = 0,
      ms_InvalidParentKindRejected = 0, ms_TreePayloadRejected = 0, ms_PreviousTreePreserved = 0,
      ms_ExpectedFixedAgendaCount = 0, ms_ActualFixedAgendaCount = 0, ms_MissingFixedAgendaIDs = [],
      ms_FixedAgendaMoved = 0, ms_FixedAgendaRemoved = 0, ms_FixedAgendaKindChanged = 0,
      ms_AgendaRecordCount = 0, ms_AgendaRecordsPreserved = 0, ms_AgendaRecordIntegrityValid = False,
      ms_PlannedAgendaCount = 0, ms_MaterializedAgendaCount = 0, ms_DiscussedAgendaCount = 0,
      ms_MergedAgendaCount = 0, ms_NotDiscussedAgendaCount = 0, ms_UnknownAgendaReferences = 0,
      ms_OrphanAgendaReferences = 0, ms_OrphanMaterializedTopicIDs = 0, ms_AgendaTopicIDCollisions = 0,
      ms_AgendaNodeIDNamespaceValid = False, ms_AgendaReferenceIntegrityValid = False,
      ms_TreeIntegrityValid = False, ms_DuplicateAgendaMaterializations = 0, ms_EmptyAgendaTopicsRejected = 0,
      ms_ReparentedNodes = 0, ms_OrphanRescuedEdges = 0, ms_GroupsCreated = 0, ms_GroupsFlattened = 0,
      ms_TotalEdges = 0, ms_TopicChildCount = 0, ms_MaxDepth = 0, ms_FlatTreeDetected = False,
      ms_LegacyAgendaTopicIDsNormalized = 0, ms_AliasResolvedTreeOperationIDs = 0, ms_NonCanonicalNodeIDs = 0,
      ms_SelfParentOperationsRejected = 0, ms_UnknownGroupEvidenceIDs = 0, ms_AgendaTopicsMerged = 0,
      ms_AgendaTopicsDematerialized = 0, ms_AgendaTopicsSplit = 0, ms_ReorganizeProposed = 0,
      ms_ReorganizeApplied = 0, ms_ReorganizeNoop = 0, ms_ReorganizeRejected = 0, ms_ReorganizeInvalid = 0,
      ms_ReorganizeRejections = [], ms_ReorganizeOperations = []\<rparr>"

section \<open>The shape of a tree\<close>

record treeHealth =
  th_TopicCount :: nat
  th_GroupCount :: nat
  th_DetailCount :: nat
  th_UnclassifiedChildren :: nat
  th_MaxTopicChildren :: nat
  th_MaxConcentration :: rat
  th_MaxChildren :: nat
  th_MaxGroupChildren :: nat
  th_FlatTopicCount :: nat
  th_SingleChildGroupCount :: nat
  th_NestedGroupCount :: nat
  th_AverageDepth :: rat
  th_AverageBranchingFactor :: rat

definition treeReorganizeMaxTopicChildren :: nat where "treeReorganizeMaxTopicChildren = 8"
definition treeReorganizeConcentrationMin :: rat where "treeReorganizeConcentrationMin = 1 / 2"
definition treeReorganizeConcentrationDetails :: nat where "treeReorganizeConcentrationDetails = 6"
definition treeReorganizeUnclassifiedMin :: nat where "treeReorganizeUnclassifiedMin = 5"

definition topic_concentrated :: "treeHealth \<Rightarrow> bool" where
  "topic_concentrated h \<longleftrightarrow> treeReorganizeConcentrationDetails \<le> th_DetailCount h \<and>
     treeReorganizeConcentrationMin \<le> th_MaxConcentration h"

definition needsReorganization :: "treeHealth \<Rightarrow> bool" where
  "needsReorganization h \<longleftrightarrow>
     (if treeReorganizeMaxTopicChildren \<le> th_MaxTopicChildren h then True
      else if treeMaxChildrenBeforeGrouping \<le> th_MaxGroupChildren h then True
      else if topic_concentrated h then True
      else treeReorganizeUnclassifiedMin \<le> th_UnclassifiedChildren h)"

definition reorganizationReasons :: "treeHealth \<Rightarrow> gostring list" where
  "reorganizationReasons h =
     (if treeReorganizeMaxTopicChildren \<le> th_MaxTopicChildren h then [''max_topic_children''] else []) @
     (if treeMaxChildrenBeforeGrouping \<le> th_MaxGroupChildren h then [''max_group_children''] else []) @
     (if topic_concentrated h then [''topic_concentration''] else []) @
     (if treeReorganizeUnclassifiedMin \<le> th_UnclassifiedChildren h then [''unclassified_backlog''] else [])"

text \<open>The nodes by id; a later node of the same id wins.\<close>

definition by_id :: "liveAnalysisTree \<Rightarrow> node_table" where
  "by_id t = rev (map (\<lambda>n. (tn_ID n, n)) (tr_Nodes t))"

definition parents_by_id :: "liveAnalysisTree \<Rightarrow> parent_map" where
  "parents_by_id t = map (\<lambda>(i, n). (i, tn_ParentID n)) (by_id t)"

definition nodeKindByID :: "liveAnalysisTree \<Rightarrow> gostring \<Rightarrow> gostring" where
  "nodeKindByID t i = (case find (\<lambda>n. tn_ID n = i) (tr_Nodes t) of None \<Rightarrow> [] | Some n \<Rightarrow> tn_Kind n)"

definition inner_nodes :: "liveAnalysisTree \<Rightarrow> liveAnalysisTreeNode list" where
  "inner_nodes t = filter (\<lambda>n. tn_ID n \<noteq> treeRootNodeID) (tr_Nodes t)"

definition is_detail :: "liveAnalysisTreeNode \<Rightarrow> bool" where
  "is_detail n \<longleftrightarrow> \<not> is_topic n \<and> \<not> is_group n"

definition active_details :: "liveAnalysisTree \<Rightarrow> liveAnalysisTreeNode list" where
  "active_details t = filter (\<lambda>n. is_detail n \<and> tn_Status n \<noteq> ''resolved'') (inner_nodes t)"

definition count_children :: "liveAnalysisTreeNode list \<Rightarrow> gostring \<Rightarrow> nat" where
  "count_children ns i = length (filter (\<lambda>n. tn_ParentID n = i) ns)"

definition parent_ids :: "liveAnalysisTreeNode list \<Rightarrow> gostring list" where
  "parent_ids ns = remdups (map tn_ParentID ns)"

definition greatest :: "nat list \<Rightarrow> nat" where
  "greatest ns = fold max ns 0"

text \<open>The topic above a node, and how many nodes lie on the way to the root.\<close>

definition health_topic :: "liveAnalysisTree \<Rightarrow> gostring \<Rightarrow> gostring" where
  "health_topic t = climb (\<lambda>i. case map_of (by_id t) i of None \<Rightarrow> False | Some n \<Rightarrow> is_topic n) (parents_by_id t) []"

definition health_depth :: "liveAnalysisTree \<Rightarrow> gostring \<Rightarrow> nat" where
  "health_depth t i = length (filter (in_table (by_id t)) (snd (walk_up (by_id t) [] i)))"

definition computeTreeHealth :: "liveAnalysisTree option \<Rightarrow> treeHealth" where
  "computeTreeHealth tree =
     (let t = (case tree of None \<Rightarrow> \<lparr>tr_Nodes = [], tr_Edges = [], tr_Relations = []\<rparr> | Some t \<Rightarrow> t);
          inner = inner_nodes t; groups = filter is_group inner; details = active_details t;
          above = (\<lambda>kind. filter (\<lambda>i. nodeKindByID t i = kind) (parent_ids details));
          topics = above ''topic''; counts = count_children details;
          crowd = greatest (map counts topics) in
      \<lparr>th_TopicCount = length (filter is_topic inner), th_GroupCount = length groups,
       th_DetailCount = length details,
       th_UnclassifiedChildren = (if treeUnclassifiedTopicID \<in> set topics then counts treeUnclassifiedTopicID else 0),
       th_MaxTopicChildren = crowd,
       th_MaxConcentration = (if details = [] then 0 else of_nat crowd / of_nat (length details)),
       th_MaxChildren = greatest (map (count_children inner) (parent_ids inner)),
       th_MaxGroupChildren = greatest (map counts (above ''group'')),
       th_FlatTopicCount = length (filter (\<lambda>i. treeReorganizeConcentrationDetails \<le> counts i \<and>
         i \<notin> health_topic t ` set (map tn_ID groups)) topics),
       th_SingleChildGroupCount = length (filter (\<lambda>n. is_group n \<and> count_children inner (tn_ID n) = 1) (tr_Nodes t)),
       th_NestedGroupCount = length (filter (\<lambda>n. case map_of (by_id t) (tn_ParentID n) of
         None \<Rightarrow> False | Some p \<Rightarrow> is_group p) groups),
       th_AverageDepth = (if details = [] then 0
         else of_nat (sum_list (map (\<lambda>n. health_depth t (tn_ID n)) details)) / of_nat (length details)),
       th_AverageBranchingFactor = (if inner = [] then 0
         else of_nat (length inner) / of_nat (length (parent_ids inner)))\<rparr>)"

text \<open>The depth of a tree; the guard of the loop is one more than the number of nodes.\<close>

fun climb_count :: "nat \<Rightarrow> parent_map \<Rightarrow> gostring \<Rightarrow> nat" where
  "climb_count 0 parents cur = 0"
| "climb_count (Suc k) parents cur = (if cur = [] then 0 else Suc (climb_count k parents (parent_of parents cur)))"

definition treeDepthOf :: "liveAnalysisTree option \<Rightarrow> nat" where
  "treeDepthOf tree =
     (case tree of None \<Rightarrow> 0
      | Some t \<Rightarrow> greatest (map (\<lambda>n. climb_count (Suc (length (tr_Nodes t))) (parents_by_id t) (tn_ParentID n)) (tr_Nodes t)))"

section \<open>Relations\<close>

definition validItemRelationKind :: "gostring \<Rightarrow> bool" where
  "validItemRelationKind k \<longleftrightarrow> k \<in> set [''supported_by'', ''caused_by'', ''limits'', ''resolves'', ''action_for'',
     ''contradicts'', ''refines'']"

definition relationKey :: "liveAnalysisTreeRelation \<Rightarrow> gostring" where
  "relationKey r = rl_Source r @ nul @ rl_Kind r @ nul @ rl_Target r"

definition canonicalizeLegacyItemRelation :: "liveAnalysisTreeRelation \<Rightarrow> liveAnalysisTreeRelation" where
  "canonicalizeLegacyItemRelation r0 =
     (let r = r0\<lparr>rl_Source := trim_space (rl_Source r0), rl_Target := trim_space (rl_Target r0),
                 rl_Kind := trim_space (rl_Kind r0)\<rparr> in
      if rl_Kind r = ''supports''
      then r\<lparr>rl_Source := rl_Target r, rl_Target := rl_Source r, rl_Kind := ''supported_by''\<rparr>
      else if rl_Kind r = ''mitigates'' \<or> rl_Kind r = ''addresses'' then r\<lparr>rl_Kind := ''action_for''\<rparr>
      else r)"

definition relation_fits :: "liveAnalysisTreeNode list \<Rightarrow> liveAnalysisTreeRelation \<Rightarrow> bool" where
  "relation_fits nodes r \<longleftrightarrow>
     rl_Source r \<noteq> [] \<and> rl_Target r \<noteq> [] \<and> rl_Source r \<noteq> rl_Target r \<and> validItemRelationKind (rl_Kind r) \<and>
     rl_Status r \<noteq> ''inactive'' \<and> rl_Source r \<in> tn_ID ` set nodes \<and> rl_Target r \<in> tn_ID ` set nodes \<and>
     rl_Source r @ nul @ rl_Target r \<notin>
       (\<lambda>n. tn_ParentID n @ nul @ tn_ID n) ` {n \<in> set nodes. tn_ParentID n \<noteq> []}"

fun kept_relations :: "liveAnalysisTreeNode list \<Rightarrow> gostring list \<Rightarrow> liveAnalysisTreeRelation list \<Rightarrow> liveAnalysisTreeRelation list" where
  "kept_relations nodes seen [] = []"
| "kept_relations nodes seen (r0 # rs) =
     (let r = canonicalizeLegacyItemRelation r0 in
      if \<not> relation_fits nodes r \<or> relationKey r \<in> set seen then kept_relations nodes seen rs
      else r # kept_relations nodes (relationKey r # seen) rs)"

section \<open>Depths of topics and groups\<close>

text \<open>What is settled of a container: its parent and its depth.\<close>

type_synonym depth_memo = "(gostring \<times> gostring \<times> nat) list"

definition settled_depth :: "depth_memo \<Rightarrow> gostring \<Rightarrow> nat" where
  "settled_depth memo i = (case map_of memo i of None \<Rightarrow> 0 | Some (p, d) \<Rightarrow> d)"

function resolveTopicDepth ::
    "node_table \<Rightarrow> parent_map \<Rightarrow> gostring list \<Rightarrow> gostring \<Rightarrow> depth_memo \<Rightarrow> nat option \<times> depth_memo" where
  "resolveTopicDepth topics parents resolving i memo =
     (case map_of memo i of
        Some (p, d) \<Rightarrow> (Some d, memo)
      | None \<Rightarrow>
          if \<not> in_table topics i \<or> i \<in> set resolving then (None, memo)
          else (let parent = trim_space (parent_of parents i) in
            if parent = [] \<or> parent = treeRootNodeID \<or> parent = i \<or> \<not> in_table topics parent
            then (Some 1, (i, treeRootNodeID, 1) # memo)
            else (case resolveTopicDepth topics parents (i # resolving) parent memo of
                (None, memo1) \<Rightarrow> (Some 1, (i, treeRootNodeID, 1) # memo1)
              | (Some d, memo1) \<Rightarrow>
                  if treeHardMaxDepth \<le> Suc d then (Some 1, (i, treeRootNodeID, 1) # memo1)
                  else (Some (Suc d), (i, parent, Suc d) # memo1))))"
  by auto
termination
proof (relation "measure (\<lambda>(topics, ps, resolving, i, memo). card (fst ` set topics - set resolving))", goal_cases)
  case (2 topics parents resolving i memo parent)
  then have "fst ` set topics - set (i # resolving) \<subset> fst ` set topics - set resolving"
    by (auto simp: in_table_keys)
  then show ?case by (simp add: psubset_card_mono)
qed simp

declare resolveTopicDepth.simps [simp del]

definition settle_topics :: "node_table \<Rightarrow> parent_map \<Rightarrow> gostring list \<Rightarrow> depth_memo" where
  "settle_topics topics parents order =
     fold (\<lambda>i memo. snd (resolveTopicDepth topics parents [] i memo)) order []"

function resolveGroupDepth ::
    "node_table \<Rightarrow> depth_memo \<Rightarrow> node_table \<Rightarrow> parent_map \<Rightarrow> gostring list \<Rightarrow> gostring \<Rightarrow> depth_memo \<Rightarrow> nat option \<times> depth_memo" where
  "resolveGroupDepth topics topicDepths groups parents resolving i memo =
     (case map_of memo i of
        Some (p, d) \<Rightarrow> (Some d, memo)
      | None \<Rightarrow>
          (case map_of groups i of
             None \<Rightarrow> (None, memo)
           | Some g \<Rightarrow>
               if trim_space (tn_Label g) = [] \<or> i \<in> set resolving then (None, memo)
               else (let parent = trim_space (parent_of parents i);
                         (r, memo1) = (if in_table topics parent \<and> parent \<noteq> treeRootNodeID
                           then (Some (settled_depth topicDepths parent), memo)
                           else if in_table groups parent
                           then resolveGroupDepth topics topicDepths groups parents (i # resolving) parent memo
                           else (None, memo)) in
                 case r of
                   None \<Rightarrow> (None, memo1)
                 | Some d \<Rightarrow> (if treeHardMaxDepth \<le> Suc d then (None, memo1)
                             else (Some (Suc d), (i, parent, Suc d) # memo1)))))"
  by auto
termination
proof (relation "measure (\<lambda>(topics, td, groups, ps, resolving, i, memo). card (fst ` set groups - set resolving))", goal_cases)
  case (2 topics topicDepths groups parents resolving i memo g)
  then have "i \<in> fst ` set groups" by (metis map_of_eq_None_iff option.distinct(1))
  then have "fst ` set groups - set (i # resolving) \<subset> fst ` set groups - set resolving" using 2 by auto
  then show ?case by (simp add: psubset_card_mono)
qed simp

declare resolveGroupDepth.simps [simp del]

definition settle_groups :: "node_table \<Rightarrow> depth_memo \<Rightarrow> node_table \<Rightarrow> parent_map \<Rightarrow> depth_memo" where
  "settle_groups topics topicDepths groups parents =
     fold (\<lambda>i memo. snd (resolveGroupDepth topics topicDepths groups parents [] i memo)) (map fst groups) []"

section \<open>Parents of the details\<close>

text \<open>Details whose id is that of the root, a topic or a group are left out, groups as well.\<close>

definition typed_groups :: "node_table \<Rightarrow> node_table \<Rightarrow> node_table" where
  "typed_groups topics groups = filter (\<lambda>(i, g). i \<noteq> treeRootNodeID \<and> \<not> in_table topics i) groups"

definition typed_details :: "node_table \<Rightarrow> node_table \<Rightarrow> liveAnalysisTreeNode list \<Rightarrow> liveAnalysisTreeNode list" where
  "typed_details topics groups details =
     filter (\<lambda>n. tn_ID n \<noteq> treeRootNodeID \<and> \<not> in_table topics (tn_ID n) \<and> \<not> in_table groups (tn_ID n)) details"

definition climbToContainer :: "node_table \<Rightarrow> depth_memo \<Rightarrow> parent_map \<Rightarrow> gostring \<Rightarrow> gostring" where
  "climbToContainer topics groups parents = climb (\<lambda>i. in_table groups i \<or> in_table topics i) parents []"

definition contained_parent :: "node_table \<Rightarrow> depth_memo \<Rightarrow> parent_map \<Rightarrow> gostring \<Rightarrow> gostring" where
  "contained_parent topics groups parents i =
     (let proposed = parent_of parents i in
      if proposed = [] \<or> proposed = i \<or> proposed = treeRootNodeID then []
      else climbToContainer topics groups parents proposed)"

definition unplaced :: "gostring \<Rightarrow> bool" where
  "unplaced parent \<longleftrightarrow> parent = [] \<or> parent = treeRootNodeID"

definition detail_parent :: "node_table \<Rightarrow> depth_memo \<Rightarrow> parent_map \<Rightarrow> gostring \<Rightarrow> gostring" where
  "detail_parent topics groups parents i =
     (let parent = contained_parent topics groups parents i in if unplaced parent then treeUnclassifiedTopicID else parent)"

definition needs_unclassified :: "node_table \<Rightarrow> depth_memo \<Rightarrow> parent_map \<Rightarrow> liveAnalysisTreeNode list \<Rightarrow> bool" where
  "needs_unclassified topics groups parents details \<longleftrightarrow>
     list_ex (\<lambda>n. unplaced (contained_parent topics groups parents (tn_ID n))) details"

definition settled_parents :: "depth_memo \<Rightarrow> parent_map" where
  "settled_parents memo = map (\<lambda>(i, p, d). (i, p)) memo"

definition enforced_parents ::
    "depth_memo \<Rightarrow> depth_memo \<Rightarrow> node_table \<Rightarrow> parent_map \<Rightarrow> liveAnalysisTreeNode list \<Rightarrow> parent_map" where
  "enforced_parents topicDepths groups topics parents details =
     fold (\<lambda>n ps. AList.update (tn_ID n) (detail_parent topics groups parents (tn_ID n)) ps) details
       (settled_parents groups @ settled_parents topicDepths)"

section \<open>Groups with one detail or none\<close>

text \<open>The details below a group; groups nest through \<open>parents\<close> without a cycle, so that as many rounds as
  there are groups reach every one of them.\<close>

fun descendantDetails :: "nat \<Rightarrow> parent_map \<Rightarrow> (gostring \<Rightarrow> nat) \<Rightarrow> gostring \<Rightarrow> nat" where
  "descendantDetails 0 parents direct i = direct i"
| "descendantDetails (Suc k) parents direct i =
     direct i + sum_list (map (descendantDetails k parents direct) (map fst (filter (\<lambda>(j, p). p = i) parents)))"

definition details_below :: "depth_memo \<Rightarrow> parent_map \<Rightarrow> liveAnalysisTreeNode list \<Rightarrow> gostring \<Rightarrow> nat" where
  "details_below groups enforced details =
     descendantDetails (length groups) (filter (\<lambda>(j, p). in_table groups p) (settled_parents groups))
       (\<lambda>i. length (filter (\<lambda>n. parent_of enforced (tn_ID n) = i) details))"

record flatten_state =
  ft_groups :: node_table
  ft_groupParents :: parent_map
  ft_enforced :: parent_map
  ft_flattened :: nat

definition reparent_to :: "gostring \<Rightarrow> gostring \<Rightarrow> gostring \<Rightarrow> parent_map \<Rightarrow> parent_map" where
  "reparent_to old new i ps = (if parent_of ps i = old then AList.update i new ps else ps)"

text \<open>A group is dissolved: its details, then its groups go to its parent.  \<open>groupParents\<close> keeps the entries of
  dissolved groups.\<close>

definition dissolve :: "liveAnalysisTreeNode list \<Rightarrow> gostring \<Rightarrow> flatten_state \<Rightarrow> flatten_state" where
  "dissolve details i s =
     (let parent = parent_of (ft_groupParents s) i;
          e1 = fold (\<lambda>n. reparent_to i parent (tn_ID n)) details (ft_enforced s);
          children = map fst (filter (\<lambda>(j, p). p = i) (ft_groupParents s)) in
      \<lparr>ft_groups = AList.delete i (ft_groups s),
       ft_groupParents = map (\<lambda>(j, p). (j, if p = i then parent else p)) (ft_groupParents s),
       ft_enforced = AList.delete i (fold (\<lambda>j. AList.update j parent) children e1),
       ft_flattened = Suc (ft_flattened s)\<rparr>)"

definition flatten_step ::
    "int \<Rightarrow> liveAnalysisTreeNode list \<Rightarrow> (gostring \<Rightarrow> nat) \<Rightarrow> gostring \<Rightarrow> flatten_state \<Rightarrow> flatten_state" where
  "flatten_step treeVersion details below i s =
     (case map_of (ft_groups s) i of
        None \<Rightarrow> s
      | Some g \<Rightarrow>
          (let keep = (\<lambda>since. s\<lparr>ft_groups := AList.update i (g\<lparr>tn_UnderfilledSinceVersion := since\<rparr>) (ft_groups s)\<rparr>) in
           if below i = 1
           then (if tn_UnderfilledSinceVersion g = 0 then keep treeVersion
                 else if 0 < treeVersion \<and> groupFlattenGraceVersions \<le> treeVersion - tn_UnderfilledSinceVersion g
                 then dissolve details i s else s)
           else if below i = 0 then dissolve details i (keep 0)
           else keep 0))"

text \<open>Deeper groups first.\<close>

definition flatten_groups ::
    "int \<Rightarrow> depth_memo \<Rightarrow> node_table \<Rightarrow> gostring list \<Rightarrow> liveAnalysisTreeNode list \<Rightarrow> parent_map \<Rightarrow> flatten_state" where
  "flatten_groups treeVersion groupDepths groups groupOrder details enforced =
     fold (flatten_step treeVersion details (details_below groupDepths enforced details))
       (sort_key (\<lambda>i. treeHardMaxDepth - settled_depth groupDepths i) groupOrder)
       \<lparr>ft_groups = map (\<lambda>(i, g). (i, g\<lparr>tn_Kind := ''group''\<rparr>)) (filter (\<lambda>(i, g). in_table groupDepths i) groups),
        ft_groupParents = settled_parents groupDepths, ft_enforced = enforced, ft_flattened = 0\<rparr>"

section \<open>The tree\<close>

definition unclassified_topic :: liveAnalysisTreeNode where
  "unclassified_topic =
     (root_node None)\<lparr>tn_ID := treeUnclassifiedTopicID, tn_Label := treeUnclassifiedTopicLabel,
       tn_Description := [], tn_Origin := topicOriginSystem\<rparr>"

text \<open>The topic of what has no place: added when it is needed, hidden when nothing hangs on it.\<close>

definition place_unclassified ::
    "bool \<Rightarrow> node_table \<times> gostring list \<times> parent_map \<Rightarrow> node_table \<times> gostring list \<times> parent_map" where
  "place_unclassified needed s =
     (case s of (topics, order, enforced) \<Rightarrow>
        if needed
        then (if in_table topics treeUnclassifiedTopicID then s
              else (AList.update treeUnclassifiedTopicID unclassified_topic topics, order @ [treeUnclassifiedTopicID],
                    AList.update treeUnclassifiedTopicID treeRootNodeID enforced))
        else (if in_table topics treeUnclassifiedTopicID \<and> treeUnclassifiedTopicID \<notin> snd ` set enforced
              then (AList.delete treeUnclassifiedTopicID topics, order, AList.delete treeUnclassifiedTopicID enforced)
              else s))"

definition listed :: "node_table \<Rightarrow> gostring list \<Rightarrow> liveAnalysisTreeNode list" where
  "listed tbl order = concat (map (\<lambda>i. case map_of tbl i of None \<Rightarrow> [] | Some n \<Rightarrow> [n]) order)"

definition listed_groups :: "node_table \<Rightarrow> parent_map \<Rightarrow> gostring list \<Rightarrow> liveAnalysisTreeNode list" where
  "listed_groups tbl enforced order = concat (map (\<lambda>i. case map_of tbl i of None \<Rightarrow> []
     | Some n \<Rightarrow> [n\<lparr>tn_ParentID := parent_of enforced i\<rparr>]) order)"

record assembly =
  ay_topics :: node_table
  ay_topicOrder :: "gostring list"
  ay_groups :: node_table
  ay_groupOrder :: "gostring list"
  ay_details :: "liveAnalysisTreeNode list"
  ay_parents :: parent_map
  ay_previousParents :: parent_map
  ay_relations :: "liveAnalysisTreeRelation list"
  ay_version :: int

definition assembled_nodes ::
    "meetingContext option \<Rightarrow> node_table \<times> gostring list \<times> parent_map \<Rightarrow> node_table \<Rightarrow> gostring list \<Rightarrow>
     liveAnalysisTreeNode list \<Rightarrow> liveAnalysisTreeNode list" where
  "assembled_nodes c s groups orderedGroups details =
     (case s of (topics, topicOrder, enforced) \<Rightarrow>
        root_node c # map (\<lambda>n. n\<lparr>tn_ParentID := treeRootNodeID\<rparr>) (listed topics topicOrder) @
        listed_groups groups enforced orderedGroups @
        map (\<lambda>n. n\<lparr>tn_ParentID := parent_of enforced (tn_ID n)\<rparr>) details)"

definition assembly_collisions :: "assembly \<Rightarrow> nat \<times> nat" where
  "assembly_collisions a =
     (let groups = typed_groups (ay_topics a) (ay_groups a);
          lostGroups = length (ay_groups a) - length groups;
          rootGroups = length (filter (\<lambda>(i, g). i = treeRootNodeID) (ay_groups a));
          lostDetails = length (ay_details a) - length (typed_details (ay_topics a) groups (ay_details a)) in
      (lostGroups + lostDetails, lostGroups - rootGroups + lostDetails))"

definition assembly_stats ::
    "assembly \<Rightarrow> depth_memo \<Rightarrow> liveAnalysisTreeNode list \<Rightarrow> nat \<Rightarrow> liveAnalysisTree \<Rightarrow> liveAnalysisTreeMergeStats \<Rightarrow>
     liveAnalysisTreeMergeStats" where
  "assembly_stats a groupDepths details flattened tree st =
     (let placed = detail_parent (ay_topics a) groupDepths (ay_parents a) \<circ> tn_ID; h = computeTreeHealth (Some tree) in
      st\<lparr>ms_CrossKindIDCollisions := ms_CrossKindIDCollisions st + fst (assembly_collisions a),
         ms_DuplicateNodeIDsDetected := ms_DuplicateNodeIDsDetected st + snd (assembly_collisions a),
         ms_ReparentedNodes := ms_ReparentedNodes st +
           length (filter (\<lambda>n. in_table (ay_previousParents a) (tn_ID n) \<and>
             parent_of (ay_previousParents a) (tn_ID n) \<noteq> placed n) details),
         ms_OrphanRescuedEdges := ms_OrphanRescuedEdges st +
           length (filter (\<lambda>n. placed n = treeUnclassifiedTopicID \<and>
             parent_of (ay_parents a) (tn_ID n) \<noteq> treeUnclassifiedTopicID) details),
         ms_GroupsFlattened := ms_GroupsFlattened st + flattened,
         ms_TotalEdges := length (tr_Edges tree), ms_TopicChildCount := th_TopicCount h,
         ms_MaxDepth := treeDepthOf (Some tree), ms_FlatTreeDetected := needsReorganization h\<rparr>)"

definition assembleTree ::
    "meetingContext option \<Rightarrow> gostring list \<Rightarrow> assembly \<Rightarrow> liveAnalysisTreeMergeStats \<Rightarrow>
     liveAnalysisTree option \<times> liveAnalysisTreeMergeStats" where
  "assembleTree c order a st =
     (if ay_topics a = [] \<and> ay_groups a = [] \<and> ay_details a = [] then (None, st)
      else
        (let topics = ay_topics a; parents = ay_parents a;
             groups = typed_groups topics (ay_groups a);
             details = typed_details topics groups (ay_details a);
             topicDepths = settle_topics topics parents order;
             groupDepths = settle_groups topics topicDepths groups parents;
             enforced = enforced_parents topicDepths groupDepths topics parents details;
             f = flatten_groups (ay_version a) groupDepths groups (ay_groupOrder a) details enforced;
             s = place_unclassified (needs_unclassified topics groupDepths parents details)
                   (topics, ay_topicOrder a, ft_enforced f);
             nodes = assembled_nodes c s (ft_groups f)
                   (sort_key (settled_depth groupDepths) (ay_groupOrder a)) details;
             tree = \<lparr>tr_Nodes = nodes, tr_Edges = parent_edges nodes,
                     tr_Relations = kept_relations nodes [] (ay_relations a)\<rparr> in
         (Some tree, assembly_stats a groupDepths details (ft_flattened f) tree st)))"

end
