(* ===== verification/TreeOperations.thy ===== *)
theory TreeOperations
  imports TreeAssembly
begin

text \<open>
  The differential operations of the tree reorganizer, \<open>applyTreeOperations\<close> with its helpers
  (\<open>internal/application/ai_tree.go\<close>): every proposed operation is checked against the tree as it stands
  after the ones before it, applied or refused, and recorded once; the tree is then put together again
  and only kept if it passes the integrity check.

  A refusal of an operation is a value of \<open>op_result\<close>.  Details never change while the operations run.
\<close>

section \<open>Operations\<close>

record treeOperation =
  op_Type :: gostring
  op_TopicID :: gostring
  op_GroupID :: gostring
  op_NodeID :: gostring
  op_NodeIDs :: "gostring list"
  op_EvidenceItemIDs :: "gostring list"
  op_Label :: gostring
  op_Title :: gostring
  op_Description :: gostring
  op_ToParentID :: gostring
  op_ParentTopicID :: gostring
  op_ParentID :: gostring
  op_FromTopicID :: gostring
  op_IntoTopicID :: gostring
  op_requestedTargetIDs :: "gostring list"
  op_requestedParentID :: gostring
  op_aliasResolvedCount :: nat
  op_nonCanonicalReference :: bool

definition type_name :: "treeOperation \<Rightarrow> gostring" where
  "type_name p = to_lower (trim_space (op_Type p))"

definition operationTargetIDs :: "treeOperation \<Rightarrow> gostring list" where
  "operationTargetIDs p =
     (let ids = firstNonEmptyIDs [op_EvidenceItemIDs p, op_NodeIDs p] in
      if ids \<noteq> [] then uniqueNonEmptyIDs ids
      else uniqueNonEmptyIDs [op_NodeID p, op_GroupID p, op_TopicID p, op_FromTopicID p])"

definition requested_parent :: "treeOperation \<Rightarrow> gostring" where
  "requested_parent p = first_trimmed [op_ParentID p, op_ParentTopicID p, op_ToParentID p, op_IntoTopicID p]"

definition operationHasSelfParent :: "treeOperation \<Rightarrow> bool" where
  "operationHasSelfParent p \<longleftrightarrow> requested_parent p \<noteq> [] \<and> requested_parent p \<in> set (operationTargetIDs p)"

section \<open>References\<close>

text \<open>A reference is resolved; the operation counts aliases and remembers a reference in a wrong form.\<close>

definition resolve_reference ::
    "tree_lib \<Rightarrow> gostring list \<Rightarrow> canonicalReferenceResolver \<Rightarrow> gostring \<Rightarrow> treeOperation \<Rightarrow> gostring \<times> treeOperation" where
  "resolve_reference lib known r v p0 =
     (let t = trim_space v;
          p = (if t \<noteq> v \<or> CHR ''['' \<in> set t \<or> CHR '']'' \<in> set t then p0\<lparr>op_nonCanonicalReference := True\<rparr> else p0) in
      if t = [] then ([], p0)
      else if t \<in> set known then (t, p)
      else (case resolver_resolve lib r t of
          None \<Rightarrow> (t, p)
        | Some (canonical, aliased) \<Rightarrow>
            (canonical, if aliased then p\<lparr>op_aliasResolvedCount := Suc (op_aliasResolvedCount p)\<rparr> else p)))"

fun resolve_many ::
    "tree_lib \<Rightarrow> gostring list \<Rightarrow> canonicalReferenceResolver \<Rightarrow> gostring list \<Rightarrow> treeOperation \<Rightarrow> gostring list \<times> treeOperation" where
  "resolve_many lib known r [] p = ([], p)"
| "resolve_many lib known r (v # vs) p =
     (let (i, p1) = resolve_reference lib known r v p; (is, p2) = resolve_many lib known r vs p1 in (i # is, p2))"

text \<open>Resolving one field of an operation.\<close>

definition on_field ::
    "(treeOperation \<Rightarrow> gostring) \<Rightarrow> ((gostring \<Rightarrow> gostring) \<Rightarrow> treeOperation \<Rightarrow> treeOperation) \<Rightarrow>
     tree_lib \<Rightarrow> gostring list \<Rightarrow> canonicalReferenceResolver \<Rightarrow> treeOperation \<Rightarrow> treeOperation" where
  "on_field get put lib known r p = (let (i, p1) = resolve_reference lib known r (get p) p in put (\<lambda>_. i) p1)"

definition on_list ::
    "(treeOperation \<Rightarrow> gostring list) \<Rightarrow> ((gostring list \<Rightarrow> gostring list) \<Rightarrow> treeOperation \<Rightarrow> treeOperation) \<Rightarrow>
     tree_lib \<Rightarrow> gostring list \<Rightarrow> canonicalReferenceResolver \<Rightarrow> treeOperation \<Rightarrow> treeOperation" where
  "on_list get put lib known r p = (let (is, p1) = resolve_many lib known r (get p) p in put (\<lambda>_. is) p1)"

text \<open>The fields each kind of operation refers to the tree with, in the order they are resolved.\<close>

definition reference_fields ::
    "gostring \<Rightarrow> (tree_lib \<Rightarrow> gostring list \<Rightarrow> canonicalReferenceResolver \<Rightarrow> treeOperation \<Rightarrow> treeOperation) list" where
  "reference_fields ty =
     (if ty = ''create_group''
      then [on_list op_EvidenceItemIDs op_EvidenceItemIDs_update, on_list op_NodeIDs op_NodeIDs_update,
            on_field op_ParentID op_ParentID_update, on_field op_ParentTopicID op_ParentTopicID_update,
            on_field op_ToParentID op_ToParentID_update]
      else if ty = ''move_node'' \<or> ty = ''move_nodes''
      then [on_field op_NodeID op_NodeID_update, on_list op_NodeIDs op_NodeIDs_update,
            on_field op_ToParentID op_ToParentID_update]
      else if ty = ''rename_group'' \<or> ty = ''delete_empty_group'' then [on_field op_GroupID op_GroupID_update]
      else if ty = ''rename_topic'' then [on_field op_TopicID op_TopicID_update]
      else if ty = ''merge_topic''
      then [on_field op_FromTopicID op_FromTopicID_update, on_field op_TopicID op_TopicID_update,
            on_field op_IntoTopicID op_IntoTopicID_update]
      else if ty = ''split_topic''
      then [on_field op_FromTopicID op_FromTopicID_update,
            on_list op_EvidenceItemIDs op_EvidenceItemIDs_update, on_list op_NodeIDs op_NodeIDs_update]
      else [])"

definition canonicalizeTreeOperation ::
    "tree_lib \<Rightarrow> gostring list \<Rightarrow> canonicalReferenceResolver \<Rightarrow> treeOperation \<Rightarrow> treeOperation" where
  "canonicalizeTreeOperation lib known r p0 =
     (let p = p0\<lparr>op_requestedTargetIDs := operationTargetIDs p0, op_requestedParentID := requested_parent p0\<rparr> in
      fold (\<lambda>f. f lib known r) (reference_fields (type_name p)) p)"

section \<open>The tree under work\<close>

record tree_work =
  tw_topics :: node_table
  tw_topicOrder :: "gostring list"
  tw_groups :: node_table
  tw_groupOrder :: "gostring list"
  tw_parents :: parent_map
  tw_dynamic :: nat
  tw_applied :: nat
  tw_stats :: liveAnalysisTreeMergeStats

record tree_policy =
  tp_PromotionMinItems :: int
  tp_MaxDynamicTopics :: int

definition normalized_policy :: "tree_policy \<Rightarrow> tree_policy" where
  "normalized_policy c =
     \<lparr>tp_PromotionMinItems = (if tp_PromotionMinItems c \<le> 0 then 2 else tp_PromotionMinItems c),
      tp_MaxDynamicTopics = (if tp_MaxDynamicTopics c \<le> 0 then 6 else tp_MaxDynamicTopics c)\<rparr>"

text \<open>What the operations only read.\<close>

record work_context =
  wc_lib :: tree_lib
  wc_context :: "meetingContext option"
  wc_policy :: tree_policy
  wc_version :: int
  wc_details :: node_table
  wc_movesInto :: "gostring \<Rightarrow> nat"

datatype op_result = OpApplied | OpNoop gostring | OpRejected gostring | OpInvalid gostring

definition topicAncestor :: "tree_work \<Rightarrow> gostring \<Rightarrow> gostring" where
  "topicAncestor w = climb (in_table (tw_topics w)) (tw_parents w) []"

definition nodeDepth :: "tree_work \<Rightarrow> gostring \<Rightarrow> nat" where
  "nodeDepth w = depth_up (tw_parents w) [] 0"

definition groupCountForTopic :: "tree_work \<Rightarrow> gostring \<Rightarrow> nat" where
  "groupCountForTopic w i = length (filter (\<lambda>(j, g). topicAncestor w j = i) (tw_groups w))"

definition directChildCount :: "tree_work \<Rightarrow> gostring \<Rightarrow> nat" where
  "directChildCount w i = length (filter (\<lambda>(j, p). p = i) (tw_parents w))"

definition op_label :: "treeOperation \<Rightarrow> gostring" where
  "op_label p = truncateRunes (trim_space (first_trimmed [op_Label p, op_Title p])) 20"

definition op_description :: "treeOperation \<Rightarrow> gostring" where
  "op_description p = truncateRunes (trim_space (op_Description p)) 100"

definition blank_node :: liveAnalysisTreeNode where
  "blank_node = (root_node None)\<lparr>tn_ID := [], tn_Kind := [], tn_Label := [], tn_Description := [], tn_Origin := []\<rparr>"

definition applied :: "tree_work \<Rightarrow> op_result \<times> tree_work" where
  "applied w = (OpApplied, w\<lparr>tw_applied := Suc (tw_applied w)\<rparr>)"

text \<open>All of \<open>ids\<close> are hung below \<open>parent\<close>.\<close>

definition hang :: "gostring list \<Rightarrow> gostring \<Rightarrow> parent_map \<Rightarrow> parent_map" where
  "hang ids parent ps = fold (\<lambda>i. AList.update i parent) ids ps"

section \<open>Groups\<close>

definition group_evidence_error :: "work_context \<Rightarrow> tree_work \<Rightarrow> gostring \<Rightarrow> gostring \<Rightarrow> gostring \<Rightarrow> op_result option" where
  "group_evidence_error x w parentTopicID parentID i =
     (if \<not> in_table (wc_details x) i then Some (OpInvalid ''unknown_node_id'')
      else if topicAncestor w i \<noteq> parentTopicID \<or> parent_of (tw_parents w) i \<noteq> parentID
      then Some (OpRejected ''cross_topic_group_evidence'') else None)"

fun first_error :: "('a \<Rightarrow> op_result option) \<Rightarrow> 'a list \<Rightarrow> op_result option" where
  "first_error f [] = None"
| "first_error f (i # is) = (case f i of Some e \<Rightarrow> Some e | None \<Rightarrow> first_error f is)"

definition new_group :: "work_context \<Rightarrow> treeOperation \<Rightarrow> gostring \<Rightarrow> gostring \<Rightarrow> gostring list \<Rightarrow> liveAnalysisTreeNode" where
  "new_group x p i label targets =
     blank_node\<lparr>tn_ID := i, tn_Kind := ''group'', tn_Label := label, tn_Description := op_description p,
       tn_Origin := assignmentSourceReorganizer, tn_RelatedItemIDs := targets,
       tn_CreatedAtVersion := wc_version x, tn_UpdatedAtVersion := wc_version x\<rparr>"

text \<open>What stands against a group before its evidence is looked at.\<close>

definition group_place_error ::
    "work_context \<Rightarrow> tree_work \<Rightarrow> gostring \<Rightarrow> gostring \<Rightarrow> gostring list \<Rightarrow> op_result option" where
  "group_place_error x w label parentID targets =
     (let topic = map_of (tw_topics w) parentID; inGroup = in_table (tw_groups w) parentID; depth = nodeDepth w parentID + 2 in
      if label = [] then Some (OpInvalid ''missing_group_label'')
      else if genericGroupLabel label then Some (OpRejected ''generic_group_label'')
      else if topic = None \<and> \<not> inGroup \<or> parentID = treeRootNodeID \<or>
        (case topic of None \<Rightarrow> False | Some t \<Rightarrow> tn_AgendaRole t = agendaRoleActionSummary)
      then Some (OpInvalid ''unknown_or_invalid_group_parent'')
      else if int (length targets) < tp_PromotionMinItems (wc_policy x) then Some (OpRejected ''insufficient_evidence'')
      else if inGroup \<and> directChildCount w parentID < treeMaxChildrenBeforeGrouping
      then Some (OpRejected ''parent_group_not_overcrowded'')
      else if inGroup \<and> directChildCount w parentID \<le> length targets
      then Some (OpRejected ''parent_would_be_single_group_chain'')
      else if treeHardMaxDepth < depth then Some (OpRejected ''hard_depth_limit'')
      else if treeSoftMaxDepth < depth \<and> length targets < treeHardDepthMinEvidence
      then Some (OpRejected ''hard_depth_insufficient_evidence'')
      else None)"

definition create_group :: "work_context \<Rightarrow> treeOperation \<Rightarrow> tree_work \<Rightarrow> op_result \<times> tree_work" where
  "create_group x p w =
     (let label = op_label p;
          parentID = trim_space (first_trimmed [op_ParentID p, op_ParentTopicID p, op_ToParentID p]);
          targets = uniqueNonEmptyIDs (firstNonEmptyIDs [op_EvidenceItemIDs p, op_NodeIDs p]);
          parentTopicID = (if in_table (tw_groups w) parentID then topicAncestor w parentID else parentID);
          i = stableGroupID (wc_lib x) parentID label in
      case group_place_error x w label parentID targets of
        Some e \<Rightarrow> (e, w)
      | None \<Rightarrow>
          (case first_error (group_evidence_error x w parentTopicID parentID) targets of
             Some e \<Rightarrow> (e, if e = OpInvalid ''unknown_node_id''
               then w\<lparr>tw_stats := (tw_stats w)\<lparr>ms_UnknownGroupEvidenceIDs := Suc (ms_UnknownGroupEvidenceIDs (tw_stats w))\<rparr>\<rparr>
               else w)
           | None \<Rightarrow>
               if list_ex (\<lambda>(j, g). parent_of (tw_parents w) j = parentID \<and>
                    normalizeForMatch (tn_Label g) = normalizeForMatch label) (tw_groups w)
               then (OpNoop ''equivalent_group_exists'', w)
               else if maxGroupsPerMeeting \<le> length (tw_groups w) \<or> maxGroupsPerTopic \<le> groupCountForTopic w parentTopicID
               then (OpRejected ''group_cap'', w)
               else if in_table (tw_topics w) i \<or> in_table (wc_details x) i then (OpInvalid ''group_id_collision'', w)
               else if in_table (tw_groups w) i then (OpNoop ''group_already_exists'', w)
               else applied (w\<lparr>tw_groups := tw_groups w @ [(i, new_group x p i label targets)],
                 tw_groupOrder := tw_groupOrder w @ [i],
                 tw_parents := hang targets i (AList.update i parentID (tw_parents w)),
                 tw_stats := (tw_stats w)\<lparr>ms_GroupsCreated := Suc (ms_GroupsCreated (tw_stats w))\<rparr>\<rparr>)))"

definition rename_group :: "work_context \<Rightarrow> treeOperation \<Rightarrow> tree_work \<Rightarrow> op_result \<times> tree_work" where
  "rename_group x p w =
     (let i = trim_space (first_trimmed [op_GroupID p, op_TopicID p]); label = op_label p in
      case map_of (tw_groups w) i of
        None \<Rightarrow> (OpInvalid ''unknown_group_id'', w)
      | Some g \<Rightarrow>
          if label = [] then (OpInvalid ''missing_group_label'', w)
          else if normalizeForMatch (tn_Label g) = normalizeForMatch label then (OpNoop ''label_unchanged'', w)
          else applied (w\<lparr>tw_groups :=
            AList.update i (g\<lparr>tn_Label := label, tn_UpdatedAtVersion := wc_version x\<rparr>) (tw_groups w)\<rparr>))"

definition delete_empty_group :: "treeOperation \<Rightarrow> tree_work \<Rightarrow> op_result \<times> tree_work" where
  "delete_empty_group p w =
     (let i = trim_space (first_trimmed [op_GroupID p, op_TopicID p]) in
      if \<not> in_table (tw_groups w) i then (OpInvalid ''unknown_group_id'', w)
      else if i \<in> snd ` set (tw_parents w) then (OpRejected ''group_not_empty'', w)
      else applied (w\<lparr>tw_groups := AList.delete i (tw_groups w), tw_parents := AList.delete i (tw_parents w)\<rparr>))"

section \<open>Moves\<close>

definition move_error :: "work_context \<Rightarrow> tree_work \<Rightarrow> gostring \<Rightarrow> gostring \<Rightarrow> op_result option" where
  "move_error x w toParent i =
     (if \<not> in_table (wc_details x) i then Some (OpInvalid ''unknown_node_id'')
      else if in_table (tw_groups w) toParent \<and> topicAncestor w i \<noteq> topicAncestor w toParent
      then Some (OpRejected ''cross_topic_group_move'') else None)"

definition move_nodes :: "work_context \<Rightarrow> treeOperation \<Rightarrow> tree_work \<Rightarrow> op_result \<times> tree_work" where
  "move_nodes x p w =
     (let targets = uniqueNonEmptyIDs (operationTargetIDs p); toParent = trim_space (op_ToParentID p) in
      if targets = [] then (OpInvalid ''missing_node_id'', w)
      else if \<not> in_table (tw_topics w) toParent \<and> \<not> in_table (tw_groups w) toParent
      then (OpInvalid ''unknown_parent_id'', w)
      else if (case map_of (tw_topics w) toParent of None \<Rightarrow> False | Some t \<Rightarrow> tn_AgendaRole t = agendaRoleActionSummary)
      then (OpRejected ''action_summary_parent'', w)
      else (case first_error (move_error x w toParent) targets of
          Some e \<Rightarrow> (e, w)
        | None \<Rightarrow>
            if list_all (\<lambda>i. parent_of (tw_parents w) i = toParent) targets
            then (OpNoop ''already_under_requested_parent'', w)
            else applied (w\<lparr>tw_parents := hang targets toParent (tw_parents w)\<rparr>)))"

section \<open>Topics\<close>

definition create_topic :: "work_context \<Rightarrow> treeOperation \<Rightarrow> tree_work \<Rightarrow> op_result \<times> tree_work" where
  "create_topic x p w =
     (let label = op_label p; i = normalizeProposedTopicID (op_TopicID p) label in
      if label = [] \<or> i = [] then (OpInvalid ''missing_topic_identity'', w)
      else if in_table (tw_topics w) i then (OpNoop ''topic_already_exists'', w)
      else if in_table (wc_details x) i then (OpInvalid ''topic_id_collision'', w)
      else if list_ex (\<lambda>(j, t). normalizeForMatch (tn_Label t) = normalizeForMatch label) (tw_topics w)
      then (OpNoop ''equivalent_topic_exists'', w)
      else if int (wc_movesInto x i) < tp_PromotionMinItems (wc_policy x)
      then (OpRejected ''create_topic_insufficient_moves'', w)
      else if tp_MaxDynamicTopics (wc_policy x) \<le> int (tw_dynamic w)
      then (OpRejected ''create_topic_dynamic_cap'', w)
      else applied (w\<lparr>tw_topics := tw_topics w @ [(i, blank_node\<lparr>tn_ID := i, tn_Kind := ''topic'', tn_Label := label,
               tn_Description := op_description p, tn_Origin := topicOriginDynamic\<rparr>)],
             tw_topicOrder := tw_topicOrder w @ [i], tw_parents := AList.update i treeRootNodeID (tw_parents w),
             tw_dynamic := Suc (tw_dynamic w)\<rparr>))"

definition rename_topic :: "treeOperation \<Rightarrow> tree_work \<Rightarrow> op_result \<times> tree_work" where
  "rename_topic p w =
     (let i = trim_space (op_TopicID p); label = op_label p in
      case (if label = [] then None else map_of (tw_topics w) i) of
        None \<Rightarrow> (OpInvalid ''unknown_topic_or_missing_label'', w)
      | Some t \<Rightarrow>
          if i = treeUnclassifiedTopicID \<or> i = treeRootNodeID then (OpRejected ''rename_protected_topic'', w)
          else if normalizeForMatch (tn_Label t) = normalizeForMatch label then (OpNoop ''label_unchanged'', w)
          else applied (w\<lparr>tw_topics := AList.update i (t\<lparr>tn_Label := label\<rparr>) (tw_topics w)\<rparr>))"

definition merged_into :: "int \<Rightarrow> gostring \<Rightarrow> liveAnalysisTreeNode \<Rightarrow> liveAnalysisTreeNode \<Rightarrow> liveAnalysisTreeNode" where
  "merged_into version fromID from into =
     (let refs = appendUniqueStrings (tn_AgendaRefs into) (tn_AgendaRefs from);
          split = (if tn_AgendaSplitGroupID into = [] then tn_AgendaSplitGroupID from
            else if tn_AgendaSplitGroupID from \<noteq> [] \<and> tn_AgendaSplitGroupID into \<noteq> tn_AgendaSplitGroupID from then []
            else tn_AgendaSplitGroupID into) in
      into\<lparr>tn_AgendaRefs := refs,
        tn_ModelTopicIDs := appendUniqueStrings (tn_ModelTopicIDs into) (tn_ModelTopicIDs from),
        tn_MergedFromNodeIDs := appendUniqueStrings (appendUniqueStrings (tn_MergedFromNodeIDs into) [fromID])
          (tn_MergedFromNodeIDs from),
        tn_AgendaSplitGroupID := split,
        tn_Origin := (if refs \<noteq> [] then topicOriginMixed else tn_Origin into),
        tn_Materialized := (refs \<noteq> [] \<or> tn_Materialized into), tn_UpdatedAtVersion := version\<rparr>)"

definition merge_topic :: "work_context \<Rightarrow> treeOperation \<Rightarrow> tree_work \<Rightarrow> op_result \<times> tree_work" where
  "merge_topic x p w =
     (let fromID = trim_space (first_trimmed [op_FromTopicID p, op_TopicID p]); intoID = trim_space (op_IntoTopicID p) in
      if fromID = intoID then (OpNoop ''same_topic'', w)
      else (case (map_of (tw_topics w) fromID, map_of (tw_topics w) intoID) of
          (None, _) \<Rightarrow> (OpInvalid ''unknown_source_topic'', w)
        | (Some from, None) \<Rightarrow> (OpInvalid ''unknown_target_topic'', w)
        | (Some from, Some into) \<Rightarrow>
            if fromID = treeUnclassifiedTopicID \<or> fromID = treeRootNodeID \<or> tn_AgendaRole from = agendaRoleActionSummary
            then (OpRejected ''merge_protected_topic'', w)
            else applied (w\<lparr>
              tw_parents := AList.delete fromID
                (map (\<lambda>(i, q). (i, if q = fromID then intoID else q)) (tw_parents w)),
              tw_topics := AList.delete fromID
                (AList.update intoID (merged_into (wc_version x) fromID from into) (tw_topics w)),
              tw_stats := (if tn_AgendaRefs from = [] then tw_stats w
                else (tw_stats w)\<lparr>ms_AgendaTopicsMerged := Suc (ms_AgendaTopicsMerged (tw_stats w)),
                       ms_AgendaTopicsDematerialized := Suc (ms_AgendaTopicsDematerialized (tw_stats w))\<rparr>)\<rparr>)))"

text \<open>What stands against splitting a topic.\<close>

definition split_error ::
    "work_context \<Rightarrow> tree_work \<Rightarrow> gostring \<Rightarrow> gostring \<Rightarrow> gostring \<Rightarrow> gostring list \<Rightarrow> liveAnalysisTreeNode \<Rightarrow> op_result option" where
  "split_error x w fromID label newID targets from =
     (if fromID = treeUnclassifiedTopicID \<or> fromID = treeRootNodeID \<or> tn_AgendaRole from = agendaRoleActionSummary
      then Some (OpInvalid ''unknown_or_protected_split_source'')
      else if topicAgendaRefs (wc_context x) from = [] then Some (OpRejected ''split_source_has_no_agenda_refs'')
      else if label = [] \<or> newID = [] \<or> \<not> has_prefix newID topicIDPrefix
      then Some (OpInvalid ''missing_split_topic_identity'')
      else if in_table (tw_topics w) newID \<or> in_table (tw_groups w) newID \<or> in_table (wc_details x) newID
      then Some (OpInvalid ''split_topic_id_collision'')
      else if int (length targets) < tp_PromotionMinItems (wc_policy x)
      then Some (OpRejected ''split_topic_insufficient_evidence'')
      else if \<not> list_all (\<lambda>i. in_table (wc_details x) i \<and> parent_of (tw_parents w) i = fromID) targets
      then Some (OpRejected ''split_topic_requires_direct_detail_children'')
      else if directChildCount w fromID \<le> length targets then Some (OpRejected ''split_topic_would_empty_source'')
      else None)"

definition split_source :: "work_context \<Rightarrow> gostring \<Rightarrow> gostring list \<Rightarrow> liveAnalysisTreeNode \<Rightarrow> liveAnalysisTreeNode" where
  "split_source x splitGroup refs from =
     from\<lparr>tn_AgendaRefs := refs, tn_AgendaSplitGroupID := splitGroup, tn_Materialized := True,
       tn_UpdatedAtVersion := wc_version x\<rparr>"

definition split_part ::
    "work_context \<Rightarrow> treeOperation \<Rightarrow> gostring \<Rightarrow> gostring \<Rightarrow> gostring list \<Rightarrow> liveAnalysisTreeNode \<Rightarrow> liveAnalysisTreeNode" where
  "split_part x p newID splitGroup refs from =
     blank_node\<lparr>tn_ID := newID, tn_Kind := ''topic'', tn_Label := op_label p, tn_Description := op_description p,
       tn_Origin := (if tn_Origin from = [] \<or> tn_Origin from = topicOriginDynamic then topicOriginMixed else tn_Origin from),
       tn_AgendaRole := agendaRolePrimary, tn_AgendaRefs := refs, tn_AgendaSplitGroupID := splitGroup,
       tn_Materialized := True, tn_CreatedAtVersion := wc_version x, tn_UpdatedAtVersion := wc_version x\<rparr>"

definition split_topic :: "work_context \<Rightarrow> treeOperation \<Rightarrow> tree_work \<Rightarrow> op_result \<times> tree_work" where
  "split_topic x p w =
     (let fromID = trim_space (op_FromTopicID p); label = op_label p; newID = normalizeProposedTopicID (op_TopicID p) label;
          targets = uniqueNonEmptyIDs (firstNonEmptyIDs [op_EvidenceItemIDs p, op_NodeIDs p]) in
      case map_of (tw_topics w) fromID of
        None \<Rightarrow> (OpInvalid ''unknown_or_protected_split_source'', w)
      | Some from \<Rightarrow>
          (case split_error x w fromID label newID targets from of
             Some e \<Rightarrow> (e, w)
           | None \<Rightarrow>
               (let refs = topicAgendaRefs (wc_context x) from; given = trim_space (tn_AgendaSplitGroupID from);
                    splitGroup = (if given = [] then fromID else given) in
                applied (w\<lparr>tw_topics := AList.update fromID (split_source x splitGroup refs from) (tw_topics w) @
                    [(newID, split_part x p newID splitGroup refs from)],
                  tw_topicOrder := tw_topicOrder w @ [newID],
                  tw_parents := hang targets newID (AList.update newID treeRootNodeID (tw_parents w)),
                  tw_stats := (tw_stats w)\<lparr>ms_AgendaTopicsSplit := Suc (ms_AgendaTopicsSplit (tw_stats w))\<rparr>\<rparr>))))"

section \<open>One operation, and its record\<close>

definition run_operation :: "work_context \<Rightarrow> treeOperation \<Rightarrow> tree_work \<Rightarrow> op_result \<times> tree_work" where
  "run_operation x p w =
     (let ty = type_name p in
      if op_nonCanonicalReference p
      then (OpInvalid ''non_canonical_node_id'',
            w\<lparr>tw_stats := (tw_stats w)\<lparr>ms_NonCanonicalNodeIDs := Suc (ms_NonCanonicalNodeIDs (tw_stats w))\<rparr>\<rparr>)
      else if operationHasSelfParent p
      then (OpRejected ''self_parent'', w\<lparr>tw_stats :=
             (tw_stats w)\<lparr>ms_SelfParentOperationsRejected := Suc (ms_SelfParentOperationsRejected (tw_stats w))\<rparr>\<rparr>)
      else if ty = ''create_group'' then create_group x p w
      else if ty = ''move_node'' \<or> ty = ''move_nodes'' then move_nodes x p w
      else if ty = ''rename_group'' then rename_group x p w
      else if ty = ''delete_empty_group'' then delete_empty_group p w
      else if ty = ''create_topic'' then create_topic x p w
      else if ty = ''rename_topic'' then rename_topic p w
      else if ty = ''merge_topic'' then merge_topic x p w
      else if ty = ''split_topic'' then split_topic x p w
      else (OpInvalid ''unknown_operation_type'', w))"

definition result_name :: "op_result \<Rightarrow> gostring" where
  "result_name r = (case r of OpApplied \<Rightarrow> ''applied'' | OpNoop _ \<Rightarrow> ''noop'' | OpRejected _ \<Rightarrow> ''rejected''
     | OpInvalid _ \<Rightarrow> ''invalid'')"

definition result_reason :: "op_result \<Rightarrow> gostring" where
  "result_reason r = (case r of OpApplied \<Rightarrow> [] | OpNoop e \<Rightarrow> e | OpRejected e \<Rightarrow> e | OpInvalid e \<Rightarrow> e)"

definition evaluation :: "nat \<Rightarrow> treeOperation \<Rightarrow> op_result \<Rightarrow> treeOperationEvaluation" where
  "evaluation k p r =
     \<lparr>oe_Index = k, oe_Type = type_name p, oe_RequestedTargetIDs = op_requestedTargetIDs p,
      oe_TargetIDs = operationTargetIDs p, oe_RequestedParentID = op_requestedParentID p,
      oe_CanonicalParentID = requested_parent p, oe_Result = result_name r, oe_Reason = result_reason r\<rparr>"

definition record_result ::
    "nat \<Rightarrow> treeOperation \<Rightarrow> op_result \<Rightarrow> liveAnalysisTreeMergeStats \<Rightarrow> liveAnalysisTreeMergeStats" where
  "record_result k p r st0 =
     (let st = st0\<lparr>ms_ReorganizeOperations := ms_ReorganizeOperations st0 @ [evaluation k p r]\<rparr> in
      case r of
        OpApplied \<Rightarrow> st\<lparr>ms_ReorganizeApplied := Suc (ms_ReorganizeApplied st)\<rparr>
      | OpNoop e \<Rightarrow> st\<lparr>ms_ReorganizeNoop := Suc (ms_ReorganizeNoop st)\<rparr>
      | OpRejected e \<Rightarrow> st\<lparr>ms_ReorganizeRejected := Suc (ms_ReorganizeRejected st),
                          ms_ReorganizeRejections := ms_ReorganizeRejections st @ [e]\<rparr>
      | OpInvalid e \<Rightarrow> st\<lparr>ms_ReorganizeInvalid := Suc (ms_ReorganizeInvalid st),
                         ms_ReorganizeRejections := ms_ReorganizeRejections st @ [e]\<rparr>)"

definition operation_step :: "work_context \<Rightarrow> nat \<times> treeOperation \<Rightarrow> tree_work \<Rightarrow> tree_work" where
  "operation_step x kp w =
     (let (r, w1) = run_operation x (snd kp) w in
      w1\<lparr>tw_stats := record_result (fst kp) (snd kp) r (tw_stats w1)\<rparr>)"

section \<open>The batch\<close>

definition remap_operation :: "parent_map \<Rightarrow> treeOperation \<Rightarrow> treeOperation" where
  "remap_operation remap p =
     (let f = (\<lambda>i. if parent_of remap (trim_space i) \<noteq> [] then parent_of remap (trim_space i) else i) in
      p\<lparr>op_NodeID := f (op_NodeID p), op_ToParentID := f (op_ToParentID p),
        op_ParentTopicID := f (op_ParentTopicID p), op_ParentID := f (op_ParentID p),
        op_FromTopicID := f (op_FromTopicID p), op_IntoTopicID := f (op_IntoTopicID p),
        op_TopicID := (if type_name p = ''create_topic'' \<or> type_name p = ''split_topic'' then op_TopicID p
          else f (op_TopicID p))\<rparr>)"

text \<open>The nodes sorted by kind, the last of each id in the place of the first.\<close>

record sorted_nodes =
  sn_topicOrder :: "gostring list"
  sn_topics :: node_table
  sn_groupOrder :: "gostring list"
  sn_groups :: node_table
  sn_detailOrder :: "gostring list"
  sn_details :: node_table

definition sort_node :: "liveAnalysisTreeNode \<Rightarrow> sorted_nodes \<Rightarrow> sorted_nodes" where
  "sort_node n s =
     (if tn_ID n = treeRootNodeID then s
      else if is_topic n
      then s\<lparr>sn_topicOrder := appendIfMissing (sn_topicOrder s) (tn_ID n), sn_topics := AList.update (tn_ID n) n (sn_topics s)\<rparr>
      else if is_group n
      then s\<lparr>sn_groupOrder := appendIfMissing (sn_groupOrder s) (tn_ID n), sn_groups := AList.update (tn_ID n) n (sn_groups s)\<rparr>
      else s\<lparr>sn_detailOrder := appendIfMissing (sn_detailOrder s) (tn_ID n), sn_details := AList.update (tn_ID n) n (sn_details s)\<rparr>)"

definition sort_nodes :: "liveAnalysisTreeNode list \<Rightarrow> sorted_nodes" where
  "sort_nodes ns = fold sort_node ns
     \<lparr>sn_topicOrder = [], sn_topics = [], sn_groupOrder = [], sn_groups = [], sn_detailOrder = [], sn_details = []\<rparr>"

definition with_origin :: "liveAnalysisTreeNode \<Rightarrow> liveAnalysisTreeNode" where
  "with_origin t =
     (if tn_Origin t \<noteq> [] then t
      else t\<lparr>tn_Origin := (if tn_AgendaRefs t \<noteq> [] then topicOriginAgenda else deriveTopicOrigin t)\<rparr>)"

text \<open>The ids of new topics are known to the other operations of the batch.\<close>

definition proposed_topic_ids :: "treeOperation list \<Rightarrow> gostring list" where
  "proposed_topic_ids ops =
     filter (\<lambda>i. has_prefix i topicIDPrefix \<and> CHR ''['' \<notin> set i \<and> CHR '']'' \<notin> set i)
       (map (\<lambda>p. trim_space (op_TopicID p)) (filter (\<lambda>p. equal_fold (trim_space (op_Type p)) ''create_topic'') ops))"

definition moves_into :: "node_table \<Rightarrow> treeOperation list \<Rightarrow> gostring \<Rightarrow> nat" where
  "moves_into details ops i =
     sum_list (map (\<lambda>p. length (filter (in_table details) (operationTargetIDs p)))
       (filter (\<lambda>p. (type_name p = ''move_node'' \<or> type_name p = ''move_nodes'') \<and> trim_space (op_ToParentID p) = i) ops))"

definition start_work :: "sorted_nodes \<Rightarrow> parent_map \<Rightarrow> liveAnalysisTreeMergeStats \<Rightarrow> tree_work" where
  "start_work s parents st =
     (let topics = map (\<lambda>(i, t). (i, with_origin t)) (sn_topics s) in
      \<lparr>tw_topics = topics, tw_topicOrder = sn_topicOrder s, tw_groups = sn_groups s, tw_groupOrder = sn_groupOrder s,
       tw_parents = parents, tw_dynamic = length (filter (\<lambda>(i, t). tn_Origin t = topicOriginDynamic) topics),
       tw_applied = 0, tw_stats = st\<rparr>)"

text \<open>Operations beyond the limit are recorded before the others are run.\<close>

definition run_batch :: "work_context \<Rightarrow> treeOperation list \<Rightarrow> tree_work \<Rightarrow> tree_work" where
  "run_batch x ops w =
     (let n = treeReorganizeMaxOperations; numbered = enumerate 0 ops;
          over = fold (\<lambda>(k, p). record_result k p (OpInvalid ''operation_limit_exceeded'')) (drop n numbered) (tw_stats w) in
      fold (operation_step x) (take n numbered) (w\<lparr>tw_stats := over\<rparr>))"

definition work_assembly :: "sorted_nodes \<Rightarrow> parent_map \<Rightarrow> liveAnalysisTreeRelation list \<Rightarrow> int \<Rightarrow> tree_work \<Rightarrow> assembly" where
  "work_assembly s previousParents relations version w =
     \<lparr>ay_topics = tw_topics w, ay_topicOrder = tw_topicOrder w, ay_groups = tw_groups w, ay_groupOrder = tw_groupOrder w,
      ay_details = listed (sn_details s) (sn_detailOrder s), ay_parents = tw_parents w,
      ay_previousParents = previousParents, ay_relations = relations, ay_version = version\<rparr>"

text \<open>\<open>order\<close> is the order in which Go visits the topics when the tree is put together.\<close>

definition applyTreeOperations ::
    "tree_lib \<Rightarrow> (node_table \<Rightarrow> gostring list) \<Rightarrow> meetingContext option \<Rightarrow> tree_policy \<Rightarrow> int \<Rightarrow>
     liveAnalysisTree option \<Rightarrow> treeOperation list \<Rightarrow> liveAnalysisTreeMergeStats \<Rightarrow>
     (liveAnalysisTree option \<times> nat) \<times> liveAnalysisTreeMergeStats" where
  "applyTreeOperations lib order c policy version0 tree0 operations0 st0 =
     (case tree0 of
        None \<Rightarrow> ((None, 0), st0)
      | Some t0 \<Rightarrow>
          (let (tree, remap) = normalizeLegacyAgendaTopicIDs lib c t0;
               version = (if 0 < version0 then version0 else 1);
               (nodes, parents, relations) = treeStateFromPayloadTree (Some tree);
               s = sort_nodes (map normalized_node nodes);
               remapped = (if remap = [] then operations0 else map (remap_operation remap) operations0);
               known = map tn_ID (tr_Nodes tree) @ proposed_topic_ids remapped;
               operations = map (canonicalizeTreeOperation lib known (treeReferenceResolver lib (Some tree))) remapped;
               st1 = st0\<lparr>ms_LegacyAgendaTopicIDsNormalized := ms_LegacyAgendaTopicIDsNormalized st0 + length remap,
                        ms_AliasResolvedTreeOperationIDs := ms_AliasResolvedTreeOperationIDs st0 +
                          sum_list (map op_aliasResolvedCount operations),
                        ms_ReorganizeProposed := length operations\<rparr>;
               x = \<lparr>wc_lib = lib, wc_context = c, wc_policy = normalized_policy policy, wc_version = version,
                    wc_details = sn_details s,
                    wc_movesInto = moves_into (sn_details s) (take treeReorganizeMaxOperations operations)\<rparr>;
               w = run_batch x operations (start_work s parents st1) in
           if tw_applied w = 0 then ((Some tree, 0), tw_stats w)
           else
             (let (rebuilt, st2) = assembleTree c (order (tw_topics w)) (work_assembly s parents relations version w) (tw_stats w);
                  d = validateTreeIntegrity rebuilt [] c None; st3 = applyTreeIntegrityStats d st2 in
              if td_Valid d then ((rebuilt, tw_applied w), st3)
              else ((Some tree, 0), st3\<lparr>ms_TreePayloadRejected := Suc (ms_TreePayloadRejected st3),
                                      ms_PreviousTreePreserved := Suc (ms_PreviousTreePreserved st3)\<rparr>))))"

text \<open>\<open>reorganizationVersionResult\<close>, and how \<open>reorganizeTree\<close> calls it: with the version it was given itself.\<close>

definition reorganizationVersionResult :: "int \<Rightarrow> int \<Rightarrow> gostring" where
  "reorganizationVersionResult request current = (if request \<noteq> current then ''stale'' else ''current'')"

datatype reorganize_error = ReorganizeModelError gostring | ReorganizeStale

definition reorganizeTree ::
    "tree_lib \<Rightarrow> (node_table \<Rightarrow> gostring list) \<Rightarrow> meetingContext option \<Rightarrow> tree_policy \<Rightarrow>
     (liveAnalysisTree option \<Rightarrow> int \<Rightarrow> gostring + treeOperation list) \<Rightarrow> liveAnalysisTreeMergeStats \<Rightarrow>
     int \<Rightarrow> liveAnalysisTree option \<Rightarrow> reorganize_error option \<times> liveAnalysisTree option \<times> nat" where
  "reorganizeTree lib order c policy answer fresh treeVersion tree =
     (let requestTreeVersion = treeVersion in
      case answer tree requestTreeVersion of
        Inl e \<Rightarrow> (Some (ReorganizeModelError e), tree, 0)
      | Inr operations \<Rightarrow>
          if reorganizationVersionResult requestTreeVersion treeVersion = ''stale'' then (Some ReorganizeStale, tree, 0)
          else (None, fst (applyTreeOperations lib order c policy requestTreeVersion tree operations fresh)))"

end
