(* ===== verification/TreeAssemblyClaims.thy ===== *)
theory TreeAssemblyClaims
  imports TreeAssembly TreeIntegrityClaims
begin

text \<open>
  What the assembly of a discussion tree guarantees whatever parents are proposed: the result hangs on
  the root within the depth limit, its edges are its parents, and no detail is lost.
\<close>

section \<open>Rooted by construction\<close>

text \<open>A root, topics below it, groups below topics or groups of smaller rank, details below either.\<close>

definition layered :: "(gostring \<Rightarrow> nat) \<Rightarrow> liveAnalysisTreeNode list \<Rightarrow> liveAnalysisTreeNode list \<Rightarrow> liveAnalysisTreeNode list \<Rightarrow> bool" where
  "layered rank T G D \<longleftrightarrow>
     (\<forall>n \<in> set T. is_topic n \<and> tn_ParentID n = treeRootNodeID) \<and>
     (\<forall>n \<in> set G. is_group n \<and> rank (tn_ID n) < treeHardMaxDepth \<and>
        (tn_ParentID n \<in> tn_ID ` set T \<and> 2 \<le> rank (tn_ID n) \<or>
         tn_ParentID n \<in> tn_ID ` set G \<and> rank (tn_ParentID n) < rank (tn_ID n))) \<and>
     (\<forall>n \<in> set D. is_detail n \<and> tn_ParentID n \<in> tn_ID ` set T \<union> tn_ID ` set G)"

lemma layered_rooted:
  assumes "layered rank T G D" "tr_Nodes t = root_node c # T @ G @ D"
    and ids: "distinct (map tn_ID (tr_Nodes t))" "\<forall>n \<in> set (tr_Nodes t). trim_space (tn_ID n) = tn_ID n"
  shows "rooted t"
proof -
  have nid: "node_id n = tn_ID n" if "n \<in> set (tr_Nodes t)" for n using ids(2) that by (simp add: node_id_def)
  have rootid: "tn_ID (root_node c) = treeRootNodeID" by (simp add: root_node_def)
  have inner: "node_id n \<noteq> treeRootNodeID" if "n \<in> set T \<union> set G \<union> set D" for n
  proof -
    have "tn_ID n \<in> tn_ID ` (set T \<union> set G \<union> set D)" using that by (rule imageI)
    moreover have "treeRootNodeID \<notin> tn_ID ` (set T \<union> set G \<union> set D)" using ids(1) assms(2) rootid by (auto simp: image_Un)
    ultimately have "tn_ID n \<noteq> treeRootNodeID" by metis
    then show ?thesis using nid [of n] that assms(2) by auto
  qed
  have hung: "tn_ParentID n \<in> tn_ID ` (set T \<union> set G)" if "n \<in> set G \<union> set D" for n
    using that assms(1) unfolding layered_def image_Un by blast
  have topic: "below t 1 (tn_ID n)" if "n \<in> set T" for n
  proof -
    have "below t (Suc 0) (node_id n)"
      using that assms(1,2) inner [of n] below.root [of t]
      by (intro below.child) (auto simp: layered_def)
    then show ?thesis using nid [of n] that assms(2) by simp
  qed
  have group: "\<exists>k. k \<le> rank (tn_ID n) \<and> below t k (tn_ID n)" if "n \<in> set G" for n
    using that
  proof (induction "rank (tn_ID n)" arbitrary: n rule: less_induct)
    case less
    have n: "n \<in> set (tr_Nodes t)" using less.prems assms(2) by simp
    have "\<exists>k < rank (tn_ID n). below t k (tn_ParentID n)"
    proof (cases "tn_ParentID n \<in> tn_ID ` set T \<and> 2 \<le> rank (tn_ID n)")
      case True
      then show ?thesis using topic by (intro exI [of _ 1]) auto
    next
      case False
      then obtain g where g: "g \<in> set G" "tn_ID g = tn_ParentID n" "rank (tn_ID g) < rank (tn_ID n)"
        using assms(1) less.prems by (auto simp: layered_def)
      then show ?thesis using less.hyps [OF g(3,1)] by (metis le_less_trans)
    qed
    then obtain k where "k < rank (tn_ID n)" "below t k (tn_ParentID n)" by blast
    then have "below t (Suc k) (node_id n)" "Suc k \<le> rank (tn_ID n)"
      using n inner [of n] less.prems by (auto intro: below.child)
    then show ?case using nid [OF n] by auto
  qed
  have held: "\<exists>k \<le> 4. below t k (tn_ID n)" if "n \<in> set T \<union> set G" for n
    using that
  proof
    assume "n \<in> set T"
    then show ?thesis using topic by (intro exI [of _ 1]) auto
  next
    assume n: "n \<in> set G"
    then have "rank (tn_ID n) \<le> 4" using assms(1) by (auto simp: layered_def treeHardMaxDepth_def)
    then show ?thesis using group [OF n] by (meson order_trans)
  qed
  have detail: "\<exists>k \<le> 5. below t k (tn_ID n)" if n: "n \<in> set D" for n
  proof -
    obtain p where "p \<in> set T \<union> set G" "tn_ID p = tn_ParentID n" using hung [of n] n by (metis UnCI imageE)
    then obtain k where "k \<le> 4" "below t k (tn_ParentID n)" using held by metis
    then have "below t (Suc k) (node_id n)" "Suc k \<le> 5"
      using n inner [of n] assms(2) by (auto intro: below.child)
    then show ?thesis using nid [of n] n assms(2) by (intro exI [of _ "Suc k"]) auto
  qed
  have "\<exists>k \<le> treeHardMaxDepth. below t k (node_id n)" if "n \<in> set (tr_Nodes t)" for n
  proof -
    consider "n = root_node c" | "n \<in> set T \<union> set G" | "n \<in> set D" using \<open>n \<in> set (tr_Nodes t)\<close> assms(2) by auto
    then show ?thesis
    proof cases
      case 1
      then show ?thesis using rootid nid [OF that] below.root [of t] by auto
    next
      case 2
      then obtain k where "k \<le> 4" "below t k (tn_ID n)" using held by blast
      then show ?thesis using nid [OF that] by (intro exI [of _ k]) (auto simp: treeHardMaxDepth_def)
    next
      case 3
      then show ?thesis using detail nid [OF that] by (auto simp: treeHardMaxDepth_def)
    qed
  qed
  moreover have "\<exists>p \<in> set (tr_Nodes t). node_id p = tn_ParentID n \<and> fits_below n p"
    if n: "n \<in> set (tr_Nodes t)" "node_id n \<noteq> treeRootNodeID" for n
  proof -
    have other: "n \<in> set T \<union> set G \<union> set D" using n nid [OF n(1)] rootid assms(2) by auto
    have root: "root_node c \<in> set (tr_Nodes t)" "is_topic (root_node c)" "node_id (root_node c) = treeRootNodeID"
      using nid [of "root_node c"] assms(2) rootid by (auto simp: is_topic_def root_node_def)
    show ?thesis
    proof (cases "n \<in> set T")
      case True
      then show ?thesis using assms(1) root by (intro bexI [of _ "root_node c"]) (auto simp: layered_def fits_below_def)
    next
      case False
      then have kind: "\<not> is_topic n" using other assms(1) by (auto simp: layered_def is_topic_def is_group_def is_detail_def)
      obtain p where p: "p \<in> set T \<union> set G" "tn_ID p = tn_ParentID n"
        using False other hung [of n] by (metis UnE UnCI imageE)
      then have "is_topic p \<or> is_group p" "p \<in> set (tr_Nodes t)" using assms(1,2) by (auto simp: layered_def)
      moreover have "node_id p \<noteq> treeRootNodeID" using p(1) inner by blast
      ultimately show ?thesis using kind p(2) nid [of p] by (intro bexI [of _ p]) (auto simp: fits_below_def)
    qed
  qed
  moreover have "distinct (map node_id (tr_Nodes t))"
    using ids(1) nid by (metis (mono_tags, lifting) map_eq_conv)
  moreover have "treeRootNodeID \<in> node_id ` set (tr_Nodes t)"
    using nid [of "root_node c"] rootid assms(2) by force
  ultimately show ?thesis by (simp add: rooted_def)
qed

section \<open>Depths\<close>

definition keys :: "depth_memo \<Rightarrow> gostring set" where
  "keys memo = fst ` set memo"

lemma keys_simps [simp]: "keys [] = {}" "keys ((i, x) # memo) = insert i (keys memo)"
  by (simp_all add: keys_def)

lemma map_of_keys: "map_of memo i = None \<longleftrightarrow> i \<notin> keys memo"
  by (simp add: keys_def map_of_eq_None_iff)

definition topics_settled :: "depth_memo \<Rightarrow> bool" where
  "topics_settled memo \<longleftrightarrow> (\<forall>(i, p, d) \<in> set memo. 1 \<le> d)"

lemma resolve_topic_grows:
  "topics_settled memo \<Longrightarrow>
   topics_settled (snd (resolveTopicDepth topics parents resolving i memo)) \<and>
   keys memo \<subseteq> keys (snd (resolveTopicDepth topics parents resolving i memo)) \<and>
   (in_table topics i \<and> i \<notin> set resolving \<longrightarrow> i \<in> keys (snd (resolveTopicDepth topics parents resolving i memo)))"
proof (induction topics parents resolving i memo rule: resolveTopicDepth.induct)
  case (1 topics parents resolving i memo)
  let ?p = "trim_space (parent_of parents i)"
  show ?case
  proof (cases "map_of memo i")
    case (Some x)
    then show ?thesis using "1.prems" by (auto simp: resolveTopicDepth.simps [of topics parents resolving i memo] split: prod.split)
        (metis domI dom_map_of_conv_image_fst keys_def)
  next
    case None
    show ?thesis
    proof (cases "\<not> in_table topics i \<or> i \<in> set resolving")
      case True
      then show ?thesis using "1.prems" None by (auto simp: resolveTopicDepth.simps [of topics parents resolving i memo])
    next
      case False
      show ?thesis
      proof (cases "?p = [] \<or> ?p = treeRootNodeID \<or> ?p = i \<or> \<not> in_table topics ?p")
        case True
        then show ?thesis using "1.prems" None False
          by (auto simp: resolveTopicDepth.simps [of topics parents resolving i memo] Let_def topics_settled_def)
      next
        case go: False
        have IH: "topics_settled (snd (resolveTopicDepth topics parents (i # resolving) ?p memo)) \<and>
            keys memo \<subseteq> keys (snd (resolveTopicDepth topics parents (i # resolving) ?p memo))"
          using "1.IH" [OF None False refl go "1.prems"] by blast
        obtain r memo1 where r: "resolveTopicDepth topics parents (i # resolving) ?p memo = (r, memo1)" by fastforce
        have one: "resolveTopicDepth topics parents resolving i memo =
            (case r of None \<Rightarrow> (Some 1, (i, treeRootNodeID, 1) # memo1)
              | Some d \<Rightarrow> if treeHardMaxDepth \<le> Suc d then (Some 1, (i, treeRootNodeID, 1) # memo1)
                  else (Some (Suc d), (i, ?p, Suc d) # memo1))"
          using None False go r
          by (simp add: resolveTopicDepth.simps [of topics parents resolving i memo] Let_def split: option.split)
        show ?thesis unfolding one using IH by (auto simp: r topics_settled_def split: option.split)
      qed
    qed
  qed
qed

lemma settle_topics_all:
  assumes "i \<in> set order" "in_table topics i"
  shows "1 \<le> settled_depth (settle_topics topics parents order) i"
proof -
  have "topics_settled (fold (\<lambda>i memo. snd (resolveTopicDepth topics parents [] i memo)) order memo) \<and>
      keys memo \<union> {i \<in> set order. in_table topics i} \<subseteq>
        keys (fold (\<lambda>i memo. snd (resolveTopicDepth topics parents [] i memo)) order memo)"
    if "topics_settled memo" for memo
    using that
  proof (induction order arbitrary: memo)
    case (Cons j order)
    note g = resolve_topic_grows [OF Cons.prems, of topics parents "[]" j]
    show ?case using Cons.IH [OF conjunct1 [OF g]] g by auto
  qed simp
  from this [of "[]"] assms obtain p d where
    m: "map_of (settle_topics topics parents order) i = Some (p, d)" "topics_settled (settle_topics topics parents order)"
    by (auto simp: settle_topics_def topics_settled_def keys_def) (metis (no_types, lifting) in_table_keys in_table_def not_None_eq old.prod.exhaust image_eqI keys_def subsetD mem_Collect_eq)
  then show ?thesis by (auto simp: settled_depth_def topics_settled_def dest!: map_of_SomeD)
qed

definition groups_settled :: "node_table \<Rightarrow> depth_memo \<Rightarrow> node_table \<Rightarrow> depth_memo \<Rightarrow> bool" where
  "groups_settled topics td groups memo \<longleftrightarrow> distinct (map fst memo) \<and>
     (\<forall>(i, p, d) \<in> set memo. in_table groups i \<and> d < treeHardMaxDepth \<and>
        (in_table topics p \<and> p \<noteq> treeRootNodeID \<and> d = Suc (settled_depth td p) \<or>
         (\<exists>p' d'. (p, p', d') \<in> set memo \<and> d = Suc d')))"

lemma groups_settled_Cons:
  assumes "groups_settled topics td groups memo" "i \<notin> keys memo" "in_table groups i" "Suc d < treeHardMaxDepth"
    and "in_table topics p \<and> p \<noteq> treeRootNodeID \<and> d = settled_depth td p \<or> (\<exists>p'. (p, p', d) \<in> set memo)"
  shows "groups_settled topics td groups ((i, p, Suc d) # memo)"
  using assms unfolding groups_settled_def keys_def by (auto; blast)

lemma resolve_group_grows:
  "groups_settled topics td groups memo \<Longrightarrow>
   case resolveGroupDepth topics td groups parents resolving i memo of (r, memo') \<Rightarrow>
     groups_settled topics td groups memo' \<and> set memo \<subseteq> set memo' \<and>
     keys memo' \<subseteq> keys memo \<union> - set resolving \<and> (\<forall>d. r = Some d \<longrightarrow> (\<exists>p. (i, p, d) \<in> set memo'))"
proof (induction topics td groups parents resolving i memo rule: resolveGroupDepth.induct)
  case (1 topics td groups parents resolving i memo)
  let ?p = "trim_space (parent_of parents i)"
  note step = resolveGroupDepth.simps [of topics td groups parents resolving i memo]
  show ?case
  proof (cases "map_of memo i")
    case (Some x)
    then show ?thesis using "1.prems" by (cases x) (auto simp: step dest!: map_of_SomeD)
  next
    case None
    show ?thesis
    proof (cases "map_of groups i")
      case None': None
      then show ?thesis using "1.prems" None by (auto simp: step)
    next
      case (Some g)
      show ?thesis
      proof (cases "trim_space (tn_Label g) = [] \<or> i \<in> set resolving")
        case True
        then show ?thesis using "1.prems" None Some by (auto simp: step)
      next
        case False
        obtain r memo1 where r: "(r, memo1) = (if in_table topics ?p \<and> ?p \<noteq> treeRootNodeID
            then (Some (settled_depth td ?p), memo)
            else if in_table groups ?p
            then resolveGroupDepth topics td groups parents (i # resolving) ?p memo else (None, memo))"
          by (metis prod.exhaust)
        have one: "resolveGroupDepth topics td groups parents resolving i memo =
            (case r of None \<Rightarrow> (None, memo1)
              | Some d \<Rightarrow> (if treeHardMaxDepth \<le> Suc d then (None, memo1) else (Some (Suc d), (i, ?p, Suc d) # memo1)))"
          using None Some False by (simp add: step Let_def r [symmetric] del: if_split)
        have IH: "groups_settled topics td groups memo1 \<and> set memo \<subseteq> set memo1 \<and>
            keys memo1 \<subseteq> keys memo \<union> - set (i # resolving) \<and>
            (\<forall>d. r = Some d \<longrightarrow> in_table topics ?p \<and> ?p \<noteq> treeRootNodeID \<and> d = settled_depth td ?p \<or>
              (\<exists>p'. (?p, p', d) \<in> set memo1))"
        proof (cases "in_table topics ?p \<and> ?p \<noteq> treeRootNodeID")
          case True
          then show ?thesis using r "1.prems" by auto
        next
          case notopic: False
          show ?thesis
          proof (cases "in_table groups ?p")
            case True
            have "resolveGroupDepth topics td groups parents (i # resolving) ?p memo = (r, memo1)"
              using r True notopic by simp
            then show ?thesis using "1.IH" [OF None Some False refl notopic True "1.prems"] by auto
          next
            case False
            then show ?thesis using r notopic "1.prems" by auto
          qed
        qed
        have fresh: "i \<notin> keys memo1" using IH None by (auto simp: map_of_keys)
        have gi: "in_table groups i" using Some by (simp add: in_table_def)
        show ?thesis
        proof (cases r)
          case None
          then show ?thesis using IH unfolding one by auto
        next
          case (Some d)
          then show ?thesis
            using IH groups_settled_Cons [OF conjunct1 [OF IH] fresh gi, of d ?p] False unfolding one by auto
        qed
      qed
    qed
  qed
qed

lemma settle_groups_settled: "groups_settled topics td groups (settle_groups topics td groups parents)"
proof -
  have "groups_settled topics td groups (fold (\<lambda>i memo. snd (resolveGroupDepth topics td groups parents [] i memo)) is memo)"
    if "groups_settled topics td groups memo" for "is" memo
    using that
  proof (induction "is" arbitrary: memo)
    case (Cons j "is")
    have "groups_settled topics td groups (snd (resolveGroupDepth topics td groups parents [] j memo))"
      using resolve_group_grows [where parents = parents and resolving = "[]" and i = j, OF Cons.prems] by (auto split: prod.splits)
    then show ?case using Cons.IH by simp
  qed simp
  then show ?thesis by (simp add: settle_groups_def groups_settled_def)
qed

section \<open>Parent maps\<close>

lemma in_table_update [simp]: "in_table (AList.update k v tbl) i \<longleftrightarrow> i = k \<or> in_table tbl i"
  by (simp add: in_table_def update_conv)

lemma in_table_delete [simp]: "in_table (AList.delete k tbl) i \<longleftrightarrow> i \<noteq> k \<and> in_table tbl i"
  by (simp add: in_table_def delete_conv')

lemma parent_of_update [simp]: "parent_of (AList.update k v ps) i = (if i = k then v else parent_of ps i)"
  by (simp add: parent_of_def update_conv)

lemma parent_of_delete [simp]: "parent_of (AList.delete k ps) i = (if i = k then [] else parent_of ps i)"
  by (simp add: parent_of_def delete_conv')

lemma parent_of_value: "parent_of ps i = p \<Longrightarrow> p \<noteq> [] \<Longrightarrow> (i, p) \<in> set ps"
  by (auto simp: parent_of_def split: option.splits dest: map_of_SomeD)

lemma parent_of_member: "distinct (map fst ps) \<Longrightarrow> (i, p) \<in> set ps \<Longrightarrow> parent_of ps i = p"
  by (simp add: parent_of_def)

lemma parent_of_hang:
  "parent_of (fold (\<lambda>i. AList.update i p) is ps) j = (if j \<in> set is then p else parent_of ps j)"
  by (induction "is" arbitrary: ps) auto

lemma parent_of_reparent:
  "parent_of (fold (\<lambda>n. reparent_to old new (tn_ID n)) ds ps) i =
     (if i \<in> tn_ID ` set ds \<and> parent_of ps i = old then new else parent_of ps i)"
  by (induction ds arbitrary: ps) (auto simp: reparent_to_def)

lemma parent_of_map:
  "parent_of (map (\<lambda>(j, p). (j, f p)) ps) i = (if in_table ps i then f (parent_of ps i) else [])"
  by (induction ps) (auto simp: parent_of_def in_table_def)

lemma map_of_listed: "distinct (map fst tbl) \<Longrightarrow> (i, n) \<in> set tbl \<Longrightarrow> map_of tbl i = Some n"
  by simp

lemma climb_wanted: "climb wanted ps seen cur = [] \<or> wanted (climb wanted ps seen cur)"
proof (induction wanted ps seen cur rule: climb.induct)
  case (1 wanted ps seen cur)
  then show ?case by (subst (1 2) climb.simps) auto
qed

section \<open>Flattening keeps the layers\<close>

text \<open>While groups are dissolved: every group that is left hangs on a topic of \<open>T\<close> or a smaller group that is
  left, every detail on either.\<close>

definition groups_hang :: "gostring set \<Rightarrow> (gostring \<Rightarrow> nat) \<Rightarrow> flatten_state \<Rightarrow> bool" where
  "groups_hang T rank s \<longleftrightarrow> (\<forall>i. in_table (ft_groups s) i \<longrightarrow> in_table (ft_groupParents s) i \<and> i \<notin> T \<and> rank i < treeHardMaxDepth \<and>
     parent_of (ft_enforced s) i = parent_of (ft_groupParents s) i \<and>
     (parent_of (ft_groupParents s) i \<in> T \<and> 2 \<le> rank i \<or>
      in_table (ft_groups s) (parent_of (ft_groupParents s) i) \<and> rank (parent_of (ft_groupParents s) i) < rank i))"

definition details_hang :: "gostring set \<Rightarrow> gostring set \<Rightarrow> flatten_state \<Rightarrow> bool" where
  "details_hang T ids s \<longleftrightarrow> (\<forall>i \<in> ids. parent_of (ft_enforced s) i \<in> T \<or> in_table (ft_groups s) (parent_of (ft_enforced s) i))"

definition table_fits :: "gostring set \<Rightarrow> flatten_state \<Rightarrow> bool" where
  "table_fits ids s \<longleftrightarrow> distinct (map fst (ft_groupParents s)) \<and>
     fst ` set (ft_groupParents s) \<inter> ids = {} \<and> (\<forall>i g. map_of (ft_groups s) i = Some g \<longrightarrow> is_group g \<and> tn_ID g = i)"

definition hangs :: "gostring set \<Rightarrow> (gostring \<Rightarrow> nat) \<Rightarrow> gostring set \<Rightarrow> flatten_state \<Rightarrow> bool" where
  "hangs T rank ids s \<longleftrightarrow> groups_hang T rank s \<and> details_hang T ids s \<and> table_fits ids s"

lemma dissolve_parents:
  assumes "distinct (map fst (ft_groupParents s))" "in_table (ft_groupParents s) j" "j \<noteq> i" "j \<notin> tn_ID ` set details"
  shows "parent_of (ft_groupParents (dissolve details i s)) j =
      (if parent_of (ft_groupParents s) j = i then parent_of (ft_groupParents s) i else parent_of (ft_groupParents s) j)"
    and "parent_of (ft_enforced (dissolve details i s)) j =
      (if parent_of (ft_groupParents s) j = i then parent_of (ft_groupParents s) i else parent_of (ft_enforced s) j)"
proof -
  show "parent_of (ft_groupParents (dissolve details i s)) j =
      (if parent_of (ft_groupParents s) j = i then parent_of (ft_groupParents s) i else parent_of (ft_groupParents s) j)"
    using assms(2) by (simp add: dissolve_def Let_def parent_of_map)
  have "j \<in> set (map fst (filter (\<lambda>(k, p). p = i) (ft_groupParents s))) \<longleftrightarrow> parent_of (ft_groupParents s) j = i"
  proof -
    obtain p where p: "(j, p) \<in> set (ft_groupParents s)" using assms(2) by (auto simp: in_table_keys)
    have "q = p" if "(j, q) \<in> set (ft_groupParents s)" for q
      using parent_of_member [OF assms(1) that] parent_of_member [OF assms(1) p] by simp
    then have a: "(j, i) \<in> set (ft_groupParents s) \<longleftrightarrow> p = i" using p by blast
    have b: "j \<in> set (map fst (filter (\<lambda>(k, p). p = i) ps)) \<longleftrightarrow> (j, i) \<in> set ps" for ps
      by (induction ps) auto
    show ?thesis unfolding b a parent_of_member [OF assms(1) p] ..
  qed
  then show "parent_of (ft_enforced (dissolve details i s)) j =
      (if parent_of (ft_groupParents s) j = i then parent_of (ft_groupParents s) i else parent_of (ft_enforced s) j)"
    using assms(3,4) by (simp add: dissolve_def Let_def parent_of_hang parent_of_reparent)
qed

lemma dissolve_detail:
  assumes "fst ` set (ft_groupParents s) \<inter> tn_ID ` set details = {}" "j \<in> tn_ID ` set details" "j \<noteq> i"
  shows "parent_of (ft_enforced (dissolve details i s)) j =
      (if parent_of (ft_enforced s) j = i then parent_of (ft_groupParents s) i else parent_of (ft_enforced s) j)"
proof -
  have "j \<notin> set (map fst (filter (\<lambda>(k, p). p = i) (ft_groupParents s)))" using assms(1,2) by force
  then show ?thesis using assms(2,3) by (simp add: dissolve_def Let_def parent_of_hang parent_of_reparent)
qed

lemma dissolve_hangs:
  assumes "hangs T rank (tn_ID ` set details) s" "in_table (ft_groups s) i"
  shows "hangs T rank (tn_ID ` set details) (dissolve details i s)"
proof -
  let ?ids = "tn_ID ` set details" and ?s = "dissolve details i s"
  let ?p = "parent_of (ft_groupParents s)"
  have g: "groups_hang T rank s" "details_hang T ?ids s" "table_fits ?ids s" using assms(1) by (auto simp: hangs_def)
  have gp: "in_table (ft_groupParents s) j" if "in_table (ft_groups s) j" for j using g(1) that by (auto simp: groups_hang_def)
  have left: "in_table (ft_groups ?s) j \<longleftrightarrow> j \<noteq> i \<and> in_table (ft_groups s) j" for j
    by (simp add: dissolve_def Let_def)
  have tab: "in_table (ft_groupParents ?s) j \<longleftrightarrow> in_table (ft_groupParents s) j" for j
    by (force simp: dissolve_def Let_def in_table_keys)
  have i: "?p i \<in> T \<and> 2 \<le> rank i \<or> in_table (ft_groups s) (?p i) \<and> rank (?p i) < rank i"
    using g(1) assms(2) by (auto simp: groups_hang_def)
  have nodetail: "j \<notin> ?ids" if "in_table (ft_groupParents s) j" for j
    using g(3) that by (auto simp: table_fits_def in_table_keys)
  have "groups_hang T rank ?s"
    unfolding groups_hang_def
  proof (intro allI impI)
    fix j assume "in_table (ft_groups ?s) j"
    then have j: "j \<noteq> i" "in_table (ft_groups s) j" by (auto simp: left)
    note d = dissolve_parents [of s j i details, OF _ gp [OF j(2)] j(1) nodetail [OF gp [OF j(2)]]]
    have old: "j \<notin> T" "i \<notin> T" "rank j < treeHardMaxDepth" "parent_of (ft_enforced s) j = ?p j"
      "?p j \<in> T \<and> 2 \<le> rank j \<or> in_table (ft_groups s) (?p j) \<and> rank (?p j) < rank j"
      using g(1) j(2) assms(2) by (auto simp: groups_hang_def)
    have dist: "distinct (map fst (ft_groupParents s))" using g(3) by (simp add: table_fits_def)
    show "in_table (ft_groupParents ?s) j \<and> j \<notin> T \<and> rank j < treeHardMaxDepth \<and>
       parent_of (ft_enforced ?s) j = parent_of (ft_groupParents ?s) j \<and>
       (parent_of (ft_groupParents ?s) j \<in> T \<and> 2 \<le> rank j \<or>
        in_table (ft_groups ?s) (parent_of (ft_groupParents ?s) j) \<and> rank (parent_of (ft_groupParents ?s) j) < rank j)"
      unfolding d(1) [OF dist] d(2) [OF dist] left tab
      using old i gp [OF j(2)] by auto
  qed
  moreover have "details_hang T ?ids ?s"
    unfolding details_hang_def
  proof
    fix j assume j: "j \<in> ?ids"
    have "j \<noteq> i" using nodetail gp assms(2) j by blast
    then have "parent_of (ft_enforced ?s) j = (if parent_of (ft_enforced s) j = i then ?p i else parent_of (ft_enforced s) j)"
      using g(3) j by (intro dissolve_detail) (auto simp: table_fits_def)
    then show "parent_of (ft_enforced ?s) j \<in> T \<or> in_table (ft_groups ?s) (parent_of (ft_enforced ?s) j)"
      using g(2) j i unfolding left details_hang_def by auto
  qed
  moreover have "table_fits ?ids ?s"
  proof -
    have "map fst (ft_groupParents ?s) = map fst (ft_groupParents s)"
      by (simp add: dissolve_def Let_def o_def split_def)
    moreover have "map_of (ft_groups ?s) j = Some h \<Longrightarrow> map_of (ft_groups s) j = Some h" for j h
      by (simp add: dissolve_def Let_def delete_conv' split: if_splits)
    ultimately show ?thesis using g(3) unfolding table_fits_def by (metis list.set_map)
  qed
  ultimately show ?thesis by (simp add: hangs_def)
qed

lemma flatten_step_hangs:
  assumes "hangs T rank (tn_ID ` set details) s"
  shows "hangs T rank (tn_ID ` set details) (flatten_step version details cnt i s)"
proof (cases "map_of (ft_groups s) i")
  case None
  then show ?thesis using assms by (simp add: flatten_step_def)
next
  case (Some g)
  let ?keep = "\<lambda>since. s\<lparr>ft_groups := AList.update i (g\<lparr>tn_UnderfilledSinceVersion := since\<rparr>) (ft_groups s)\<rparr>"
  have i: "in_table (ft_groups s) i" using Some by (simp add: in_table_def)
  have same: "in_table (ft_groups (?keep since)) j \<longleftrightarrow> in_table (ft_groups s) j" for since j using i by auto
  have keep: "hangs T rank (tn_ID ` set details) (?keep since)" for since
    using assms Some unfolding hangs_def groups_hang_def details_hang_def table_fits_def same
    by (auto simp: update_conv' is_group_def split: if_splits)
  show ?thesis
    using keep dissolve_hangs [OF assms i] dissolve_hangs [OF keep [of 0] same [THEN iffD2, OF i]] assms
    by (simp add: flatten_step_def Some Let_def)
qed

lemma fold_flatten_hangs:
  "hangs T rank (tn_ID ` set details) s \<Longrightarrow> hangs T rank (tn_ID ` set details) (fold (flatten_step version details cnt) is s)"
  by (induction "is" arbitrary: s) (simp_all add: flatten_step_hangs)

section \<open>The state the flattening starts from\<close>

definition proper_key :: "gostring \<Rightarrow> bool" where
  "proper_key i \<longleftrightarrow> i \<noteq> [] \<and> i \<noteq> treeRootNodeID \<and> trim_space i = i"

definition keyed :: "(liveAnalysisTreeNode \<Rightarrow> bool) \<Rightarrow> node_table \<Rightarrow> gostring list \<Rightarrow> bool" where
  "keyed kind tbl order \<longleftrightarrow> distinct order \<and> (\<forall>i. in_table tbl i \<longrightarrow> i \<in> set order) \<and>
     (\<forall>(i, n) \<in> set tbl. tn_ID n = i \<and> kind n \<and> proper_key i)"

text \<open>What the callers hand over: nodes under their own ids, of their kind, listed once; the id of the topic
  of unplaced details is not used for anything but a topic.\<close>

definition well_formed :: "gostring list \<Rightarrow> assembly \<Rightarrow> bool" where
  "well_formed order a \<longleftrightarrow>
     keyed is_topic (ay_topics a) (ay_topicOrder a) \<and> keyed is_group (ay_groups a) (ay_groupOrder a) \<and>
     (\<forall>i. in_table (ay_topics a) i \<longrightarrow> i \<in> set order) \<and>
     distinct (map tn_ID (ay_details a)) \<and> (\<forall>n \<in> set (ay_details a). is_detail n \<and> proper_key (tn_ID n)) \<and>
     \<not> in_table (ay_groups a) treeUnclassifiedTopicID \<and> treeUnclassifiedTopicID \<notin> tn_ID ` set (ay_details a) \<and>
     (treeUnclassifiedTopicID \<in> set (ay_topicOrder a) \<longrightarrow> in_table (ay_topics a) treeUnclassifiedTopicID)"

lemma in_table_filter: "in_table (map (\<lambda>(i, x). (i, f x)) (filter (\<lambda>(i, x). P i) tbl)) i \<longleftrightarrow> P i \<and> in_table tbl i"
  by (induction tbl) (auto simp: in_table_keys)

lemma in_table_filtered: "in_table (filter (\<lambda>(i, x). P i) tbl) i \<longleftrightarrow> P i \<and> in_table tbl i"
  by (induction tbl) (auto simp: in_table_keys)

lemma settled_entry:
  assumes "distinct (map fst memo)" "(i, p, d) \<in> set memo"
  shows "settled_depth memo i = d" "parent_of (settled_parents memo) i = p" "in_table (settled_parents memo) i"
proof -
  show "settled_depth memo i = d" using assms by (simp add: settled_depth_def)
  have "distinct (map fst (settled_parents memo))" "(i, p) \<in> set (settled_parents memo)"
    using assms by (force simp: settled_parents_def o_def split_def)+
  then show "parent_of (settled_parents memo) i = p" "in_table (settled_parents memo) i"
    by (auto simp: parent_of_def in_table_keys intro: rev_image_eqI)
qed

lemma enforced_parents_of:
  "parent_of (fold (\<lambda>n ps. AList.update (tn_ID n) (f (tn_ID n)) ps) ds ps) i =
     (if i \<in> tn_ID ` set ds then f i else parent_of ps i)"
  by (induction ds arbitrary: ps) auto

lemma parent_of_append: "in_table ps i \<Longrightarrow> parent_of (ps @ qs) i = parent_of ps i"
  by (auto simp: parent_of_def in_table_def map_add_def split: option.splits)

lemma detail_parent_container:
  "\<not> unplaced (contained_parent topics gd parents i) \<Longrightarrow>
   in_table gd (detail_parent topics gd parents i) \<or>
   in_table topics (detail_parent topics gd parents i) \<and> detail_parent topics gd parents i \<noteq> treeRootNodeID"
  using climb_wanted [of "\<lambda>i. in_table gd i \<or> in_table topics i" parents "[]" "parent_of parents i"]
  by (auto simp: detail_parent_def contained_parent_def climbToContainer_def unplaced_def Let_def split: if_splits)

lemma start_hangs:
  assumes wf: "well_formed order a"
  defines "topics \<equiv> ay_topics a" and "groups \<equiv> typed_groups (ay_topics a) (ay_groups a)"
  defines "details \<equiv> typed_details topics groups (ay_details a)"
    and "td \<equiv> settle_topics topics (ay_parents a) order"
  defines "gd \<equiv> settle_groups topics td groups (ay_parents a)"
  defines "enforced \<equiv> enforced_parents td gd topics (ay_parents a) details"
    and "T \<equiv> {i. in_table topics i} \<union> (if needs_unclassified topics gd (ay_parents a) details then {treeUnclassifiedTopicID} else {})"
  shows "hangs T (settled_depth gd) (tn_ID ` set details)
    \<lparr>ft_groups = map (\<lambda>(i, g). (i, g\<lparr>tn_Kind := ''group''\<rparr>)) (filter (\<lambda>(i, g). in_table gd i) groups),
     ft_groupParents = settled_parents gd, ft_enforced = enforced, ft_flattened = 0\<rparr>"
proof -
  let ?s = "\<lparr>ft_groups = map (\<lambda>(i, g). (i, g\<lparr>tn_Kind := ''group''\<rparr>)) (filter (\<lambda>(i, g). in_table gd i) groups),
     ft_groupParents = settled_parents gd, ft_enforced = enforced, ft_flattened = 0\<rparr>"
  have gs: "distinct (map fst gd)" "\<And>i p d. (i, p, d) \<in> set gd \<Longrightarrow> in_table groups i \<and> d < treeHardMaxDepth \<and>
        (in_table topics p \<and> p \<noteq> treeRootNodeID \<and> d = Suc (settled_depth td p) \<or>
         (\<exists>p' d'. (p, p', d') \<in> set gd \<and> d = Suc d'))"
    using settle_groups_settled [of topics td groups "ay_parents a"] by (auto simp: groups_settled_def gd_def)
  have entry: "\<exists>p d. (i, p, d) \<in> set gd" if "in_table gd i" for i
  proof -
    obtain x where "(i, x) \<in> set gd" using \<open>in_table gd i\<close> by (auto simp: in_table_keys)
    then show ?thesis by (cases x) blast
  qed
  have have_group: "in_table (ft_groups ?s) i \<longleftrightarrow> in_table gd i" for i
    using entry gs(2) by (auto simp: in_table_filter)
  have nodetail: "i \<notin> tn_ID ` set details" if "in_table gd i" for i
    using entry [OF that] gs(2) by (auto simp: details_def typed_details_def)
  have notopic: "\<not> in_table topics i" "i \<noteq> treeUnclassifiedTopicID" if "in_table gd i" for i
  proof -
    have "in_table groups i" using entry [OF that] gs(2) by blast
    then have "in_table (ay_groups a) i" "\<not> in_table topics i"
      by (auto simp: groups_def topics_def typed_groups_def in_table_filtered)
    then show "\<not> in_table topics i" "i \<noteq> treeUnclassifiedTopicID"
      using wf by (auto simp: well_formed_def)
  qed
  have enf: "parent_of enforced i = parent_of (settled_parents gd) i" if i: "in_table gd i" for i
    using entry [OF i] nodetail [OF i] settled_entry [OF gs(1)]
    by (auto simp: enforced_def enforced_parents_def enforced_parents_of parent_of_append)
  have "groups_hang T (settled_depth gd) ?s"
    unfolding groups_hang_def have_group
  proof (intro allI impI)
    fix i assume i: "in_table gd i"
    then obtain p d where e: "(i, p, d) \<in> set gd" using entry by blast
    note k = settled_entry [OF gs(1) e]
    have "1 \<le> settled_depth td p" if "in_table topics p"
      using wf that settle_topics_all [of p order topics "ay_parents a"]
      by (auto simp: well_formed_def topics_def td_def)
    moreover have "in_table gd p \<and> settled_depth gd p = d'" if "(p, p', d') \<in> set gd" for p' d'
      using settled_entry [OF gs(1) that] that by (force simp: in_table_keys)
    ultimately show "in_table (ft_groupParents ?s) i \<and> i \<notin> T \<and> settled_depth gd i < treeHardMaxDepth \<and>
        parent_of (ft_enforced ?s) i = parent_of (ft_groupParents ?s) i \<and>
        (parent_of (ft_groupParents ?s) i \<in> T \<and> 2 \<le> settled_depth gd i \<or>
         in_table gd (parent_of (ft_groupParents ?s) i) \<and> settled_depth gd (parent_of (ft_groupParents ?s) i) < settled_depth gd i)"
      using gs(2) [OF e] k enf [OF i] notopic [OF i] by (auto simp: T_def)
  qed
  moreover have "details_hang T (tn_ID ` set details) ?s"
    unfolding details_hang_def have_group
  proof
    fix i assume i: "i \<in> tn_ID ` set details"
    have p: "parent_of (ft_enforced ?s) i = detail_parent topics gd (ay_parents a) i"
      using i by (simp add: enforced_def enforced_parents_def enforced_parents_of)
    show "parent_of (ft_enforced ?s) i \<in> T \<or> in_table gd (parent_of (ft_enforced ?s) i)"
    proof (cases "unplaced (contained_parent topics gd (ay_parents a) i)")
      case True
      then have "needs_unclassified topics gd (ay_parents a) details"
        using i by (auto simp: needs_unclassified_def list_ex_iff)
      then show ?thesis using True unfolding p by (simp add: T_def detail_parent_def Let_def)
    next
      case False
      then show ?thesis using detail_parent_container [OF False] unfolding p by (auto simp: T_def)
    qed
  qed
  moreover have "table_fits (tn_ID ` set details) ?s"
  proof -
    have "tn_ID g = i" if "(i, g) \<in> set groups" for i g
      using that wf by (auto simp: groups_def typed_groups_def well_formed_def keyed_def)
    then have "is_group g \<and> tn_ID g = i" if "map_of (ft_groups ?s) i = Some g" for i g
      using that by (auto simp: is_group_def dest!: map_of_SomeD)
    moreover have "fst ` set (settled_parents gd) \<inter> tn_ID ` set details = {}"
      using nodetail by (force simp: settled_parents_def in_table_keys)
    ultimately show ?thesis using gs(1) by (simp add: table_fits_def settled_parents_def o_def split_def)
  qed
  ultimately show ?thesis by (simp add: hangs_def)
qed

section \<open>The nodes of the result\<close>

definition under_id :: "(liveAnalysisTreeNode \<Rightarrow> bool) \<Rightarrow> node_table \<Rightarrow> bool" where
  "under_id kind tbl \<longleftrightarrow> (\<forall>i n. map_of tbl i = Some n \<longrightarrow> tn_ID n = i \<and> kind n)"

lemma listed_ids: "under_id kind tbl \<Longrightarrow> map tn_ID (listed tbl order) = filter (in_table tbl) order"
  by (induction order) (auto simp: listed_def under_id_def in_table_def)

lemma listed_groups_ids: "under_id kind tbl \<Longrightarrow> map tn_ID (listed_groups tbl enf order) = filter (in_table tbl) order"
  by (induction order) (auto simp: listed_groups_def under_id_def in_table_def)

lemma listed_kind: "under_id kind tbl \<Longrightarrow> n \<in> set (listed tbl order) \<Longrightarrow> kind n"
  by (auto simp: listed_def under_id_def split: option.splits)

lemma listed_groups_entry:
  "under_id kind tbl \<Longrightarrow> n \<in> set (listed_groups tbl enf order) \<Longrightarrow>
   \<exists>g. map_of tbl (tn_ID n) = Some g \<and> n = g\<lparr>tn_ParentID := parent_of enf (tn_ID n)\<rparr>"
proof -
  assume u: "under_id kind tbl" and n: "n \<in> set (listed_groups tbl enf order)"
  obtain i where i: "n \<in> set (case map_of tbl i of None \<Rightarrow> [] | Some n \<Rightarrow> [n\<lparr>tn_ParentID := parent_of enf i\<rparr>])"
    using n by (auto simp: listed_groups_def)
  then obtain g where g: "map_of tbl i = Some g" "n = g\<lparr>tn_ParentID := parent_of enf i\<rparr>"
    by (cases "map_of tbl i") auto
  then have "tn_ID n = i" using u by (auto simp: under_id_def)
  then show ?thesis using g by auto
qed

lemma keyed_under_id: "keyed kind tbl order \<Longrightarrow> under_id kind tbl"
  by (auto simp: keyed_def under_id_def dest!: map_of_SomeD)

text \<open>The topic of unplaced details: the topics that carry something are there.\<close>

lemma place_unclassified_topics:
  assumes "place_unclassified needed (topics, order, enforced) = (topics', order', enforced')"
    and "keyed is_topic topics order" "treeUnclassifiedTopicID \<in> set order \<longrightarrow> in_table topics treeUnclassifiedTopicID"
  shows "keyed is_topic topics' order'"
    and "i \<noteq> treeUnclassifiedTopicID \<Longrightarrow> parent_of enforced' i = parent_of enforced i"
    and "in_table topics' i \<Longrightarrow> in_table topics i \<or> i = treeUnclassifiedTopicID"
    and "parent_of enforced i \<in> {j. in_table topics j} \<union> (if needed then {treeUnclassifiedTopicID} else {}) \<Longrightarrow>
      in_table topics' (parent_of enforced i)"
proof -
  have u: "proper_key treeUnclassifiedTopicID" "is_topic unclassified_topic" "tn_ID unclassified_topic = treeUnclassifiedTopicID"
    by (simp_all add: proper_key_def treeUnclassifiedTopicID_def treeRootNodeID_def is_topic_def unclassified_topic_def root_node_def) code_simp
  have entries: "\<forall>(i, n) \<in> set topics. tn_ID n = i \<and> is_topic n \<and> proper_key i" using assms(2) by (simp add: keyed_def)
  have upd: "(j, n) \<in> set (AList.update k v tbl) \<Longrightarrow> (j, n) = (k, v) \<or> (j, n) \<in> set tbl" for j n k v and tbl :: node_table
    by (induction tbl) (auto split: if_splits)
  have del: "(j, n) \<in> set (AList.delete k tbl) \<Longrightarrow> (j, n) \<in> set tbl" for j n k and tbl :: node_table
    by (simp add: AList.delete_eq)
  show "keyed is_topic topics' order'"
    using assms entries u
    by (auto simp: place_unclassified_def keyed_def dest!: upd del split: if_splits)
  show "i \<noteq> treeUnclassifiedTopicID \<Longrightarrow> parent_of enforced' i = parent_of enforced i"
    "in_table topics' i \<Longrightarrow> in_table topics i \<or> i = treeUnclassifiedTopicID"
    using assms(1) by (auto simp: place_unclassified_def split: if_splits)
  show "parent_of enforced i \<in> {j. in_table topics j} \<union> (if needed then {treeUnclassifiedTopicID} else {}) \<Longrightarrow>
      in_table topics' (parent_of enforced i)"
    using assms(1) parent_of_value [of enforced i treeUnclassifiedTopicID] u(1)
    by (auto simp: place_unclassified_def proper_key_def image_iff split: if_splits) (metis snd_conv)
qed

lemma flatten_keeps_keys:
  "map fst (ft_groupParents (fold (flatten_step version details cnt) is s)) = map fst (ft_groupParents s)"
proof (induction "is" arbitrary: s)
  case (Cons i "is")
  have "map fst (ft_groupParents (flatten_step version details cnt i s)) = map fst (ft_groupParents s)"
    by (simp add: flatten_step_def dissolve_def Let_def o_def split_def split: option.split)
  then show ?case using Cons by simp
qed simp

definition without_parent :: "liveAnalysisTreeNode \<Rightarrow> liveAnalysisTreeNode" where
  "without_parent n = n\<lparr>tn_ParentID := []\<rparr>"

lemma filter_kinds:
  assumes "\<forall>n \<in> set T. is_topic n" "\<forall>n \<in> set G. is_group n" "\<forall>n \<in> set D. is_detail n"
  shows "filter is_detail (root_node c # T @ G @ D) = D"
proof -
  have "filter is_detail T = []" "filter is_detail G = []" "filter is_detail D = D" "\<not> is_detail (root_node c)"
    using assms by (auto simp: filter_empty_conv filter_id_conv is_detail_def is_topic_def root_node_def)
  then show ?thesis by simp
qed

lemma assembled_edges:
  assumes "\<forall>n \<in> set (tr_Nodes t). trim_space (tn_ID n) = tn_ID n \<and>
      (tn_ID n \<noteq> treeRootNodeID \<longrightarrow> tn_ParentID n \<noteq> [] \<and> trim_space (tn_ParentID n) = tn_ParentID n)"
    and "tr_Edges t = parent_edges (tr_Nodes t)"
  shows "set (map edge_pair (tr_Edges t)) = parent_pairs t"
proof -
  have "set (map edge_pair (tr_Edges t)) =
      (\<lambda>n. (trim_space (tn_ParentID n), trim_space (tn_ID n))) ` {n \<in> set (tr_Nodes t). tn_ID n \<noteq> treeRootNodeID \<and> tn_ParentID n \<noteq> []}"
    by (auto simp: assms(2) parent_edges_def edge_pair_def)
  also have "{n \<in> set (tr_Nodes t). tn_ID n \<noteq> treeRootNodeID \<and> tn_ParentID n \<noteq> []} =
      {n \<in> set (tr_Nodes t). node_id n \<noteq> treeRootNodeID}"
    using assms(1) by (auto simp: node_id_def)
  also have "(\<lambda>n. (trim_space (tn_ParentID n), trim_space (tn_ID n))) ` {n \<in> set (tr_Nodes t). node_id n \<noteq> treeRootNodeID} = parent_pairs t"
    using assms(1) by (auto simp: parent_pairs_def node_id_def intro!: image_eqI)
  finally show ?thesis .
qed

text \<open>Everything that is shown of an assembled tree, over the parts \<open>T\<close>, \<open>G\<close> and \<open>D\<close> of its nodes.\<close>

lemma assembled_layers:
  assumes wf: "well_formed order a" and t: "fst (assembleTree c order a st) = Some t"
  shows "\<exists>rank T G D. tr_Nodes t = root_node c # T @ G @ D \<and> layered rank T G D \<and>
     distinct (map tn_ID (tr_Nodes t)) \<and> (\<forall>n \<in> set (T @ G @ D). proper_key (tn_ID n)) \<and>
     tr_Edges t = parent_edges (tr_Nodes t) \<and>
     map without_parent D = map without_parent (typed_details (ay_topics a) (typed_groups (ay_topics a) (ay_groups a)) (ay_details a))"
proof -
  define topics where "topics = ay_topics a"
  define groups where "groups = typed_groups (ay_topics a) (ay_groups a)"
  define details where "details = typed_details topics groups (ay_details a)"
  define td where "td = settle_topics topics (ay_parents a) order"
  define gd where "gd = settle_groups topics td groups (ay_parents a)"
  define enforced where "enforced = enforced_parents td gd topics (ay_parents a) details"
  define needed where "needed = needs_unclassified topics gd (ay_parents a) details"
  define f where "f = flatten_groups (ay_version a) gd groups (ay_groupOrder a) details enforced"
  obtain topics' order' enforced' where p: "place_unclassified needed (topics, ay_topicOrder a, ft_enforced f) = (topics', order', enforced')"
    by (metis prod_cases3)
  define T where "T = map (\<lambda>n. n\<lparr>tn_ParentID := treeRootNodeID\<rparr>) (listed topics' order')"
  define G where "G = listed_groups (ft_groups f) enforced' (sort_key (settled_depth gd) (ay_groupOrder a))"
  define D where "D = map (\<lambda>n. n\<lparr>tn_ParentID := parent_of enforced' (tn_ID n)\<rparr>) details"
  have nodes: "tr_Nodes t = root_node c # T @ G @ D" "tr_Edges t = parent_edges (tr_Nodes t)"
    using t p by (auto simp: assembleTree_def Let_def assembled_nodes_def T_def G_def D_def topics_def groups_def details_def td_def
      gd_def enforced_def needed_def f_def split: if_splits)
  let ?K = "{j. in_table topics j} \<union> (if needed then {treeUnclassifiedTopicID} else {})"
  have hangs: "hangs ?K (settled_depth gd) (tn_ID ` set details) f"
    unfolding f_def flatten_groups_def
    using start_hangs [OF wf] unfolding topics_def groups_def details_def td_def gd_def enforced_def needed_def
    by (intro fold_flatten_hangs) simp
  have wf': "keyed is_topic topics (ay_topicOrder a)" "keyed is_group (ay_groups a) (ay_groupOrder a)"
    "treeUnclassifiedTopicID \<in> set (ay_topicOrder a) \<longrightarrow> in_table topics treeUnclassifiedTopicID"
    "\<not> in_table (ay_groups a) treeUnclassifiedTopicID" "treeUnclassifiedTopicID \<notin> tn_ID ` set (ay_details a)"
    "distinct (map tn_ID (ay_details a))" "\<forall>n \<in> set (ay_details a). is_detail n \<and> proper_key (tn_ID n)"
    using wf by (auto simp: well_formed_def topics_def)
  note place = place_unclassified_topics [OF p wf'(1,3)]
  have group: "in_table groups i" if "in_table (ft_groups f) i" for i
  proof -
    have "in_table (ft_groupParents f) i" using hangs that by (auto simp: hangs_def groups_hang_def)
    moreover have "map fst (ft_groupParents f) = map fst gd"
      by (simp add: f_def flatten_groups_def flatten_keeps_keys settled_parents_def o_def split_def)
    ultimately have "i \<in> fst ` set gd" by (metis in_table_keys list.set_map)
    then show ?thesis using settle_groups_settled [of topics td groups "ay_parents a"]
      by (auto simp: groups_settled_def gd_def)
  qed
  have group': "in_table (ay_groups a) i \<and> \<not> in_table topics i \<and> i \<noteq> treeUnclassifiedTopicID \<and> i \<in> set (ay_groupOrder a) \<and> proper_key i"
    if "in_table groups i" for i
  proof -
    have g: "in_table (ay_groups a) i" "\<not> in_table topics i" using that by (auto simp: groups_def topics_def typed_groups_def in_table_filtered)
    then obtain n where "(i, n) \<in> set (ay_groups a)" by (auto simp: in_table_keys)
    then show ?thesis using g wf'(2,4) by (auto simp: keyed_def)
  qed
  have detail: "is_detail n \<and> proper_key (tn_ID n) \<and> \<not> in_table topics (tn_ID n) \<and> \<not> in_table groups (tn_ID n) \<and>
      tn_ID n \<noteq> treeUnclassifiedTopicID" if "n \<in> set details" for n
  proof -
    have n: "n \<in> set (ay_details a)" using that by (simp add: details_def typed_details_def)
    then have "tn_ID n \<noteq> treeUnclassifiedTopicID" using wf'(5) by (metis imageI)
    then show ?thesis using n that wf'(7) by (simp add: details_def typed_details_def)
  qed
  have uG: "under_id is_group (ft_groups f)" using hangs by (auto simp: hangs_def table_fits_def under_id_def)
  have uT: "under_id is_topic topics'" by (rule keyed_under_id [OF place(1)])
  have idT: "map tn_ID T = filter (in_table topics') order'"
    unfolding T_def using listed_ids [OF uT, of order'] by (simp add: o_def)
  have idG: "map tn_ID G = filter (in_table (ft_groups f)) (sort_key (settled_depth gd) (ay_groupOrder a))"
    unfolding G_def by (rule listed_groups_ids [OF uG])
  have idD: "map tn_ID D = map tn_ID details" by (simp add: D_def o_def)
  have setT: "tn_ID ` set T = {i. in_table topics' i}"
    using place(1) arg_cong [OF idT, of set] by (auto simp: keyed_def)
  have setG: "tn_ID ` set G = {i. in_table (ft_groups f) i}"
    using group group' arg_cong [OF idG, of set] by auto
  have parent: "parent_of enforced' i = parent_of (ft_enforced f) i" if "in_table (ft_groups f) i \<or> i \<in> tn_ID ` set details" for i
    using that place(2) [of i] group [of i] group' [of i] detail by auto
  have held: "parent_of (ft_enforced f) i \<in> tn_ID ` set T" if "parent_of (ft_enforced f) i \<in> ?K" for i
    using place(4) [OF that] by (simp add: setT)
  have "layered (settled_depth gd) T G D"
    unfolding layered_def
  proof (intro conjI ballI)
    fix n assume "n \<in> set T"
    then show "is_topic n" "tn_ParentID n = treeRootNodeID"
      using listed_kind [OF uT] by (auto simp: T_def is_topic_def)
  next
    fix n assume n: "n \<in> set G"
    then have i: "in_table (ft_groups f) (tn_ID n)" using setG by auto
    obtain g where g: "map_of (ft_groups f) (tn_ID n) = Some g" "n = g\<lparr>tn_ParentID := parent_of enforced' (tn_ID n)\<rparr>"
      using listed_groups_entry [OF uG n [unfolded G_def]] by blast
    have "is_group (g\<lparr>tn_ParentID := parent_of enforced' (tn_ID n)\<rparr>)"
      using g(1) uG by (simp add: under_id_def is_group_def)
    then show "is_group n" by (subst g(2))
    show "settled_depth gd (tn_ID n) < treeHardMaxDepth" using hangs i by (auto simp: hangs_def groups_hang_def)
    have par: "tn_ParentID n = parent_of (ft_enforced f) (tn_ID n)"
      using arg_cong [OF g(2), of tn_ParentID] parent i by simp
    show "tn_ParentID n \<in> tn_ID ` set T \<and> 2 \<le> settled_depth gd (tn_ID n) \<or>
        tn_ParentID n \<in> tn_ID ` set G \<and> settled_depth gd (tn_ParentID n) < settled_depth gd (tn_ID n)"
      using hangs i held [of "tn_ID n"] unfolding par setG hangs_def groups_hang_def by auto
  next
    fix n assume "n \<in> set D"
    then obtain d where d: "d \<in> set details" "n = d\<lparr>tn_ParentID := parent_of enforced' (tn_ID d)\<rparr>" by (auto simp: D_def)
    show "is_detail n" using d detail by (auto simp: is_detail_def is_topic_def is_group_def)
    have "parent_of (ft_enforced f) (tn_ID d) \<in> tn_ID ` set T \<or> in_table (ft_groups f) (parent_of (ft_enforced f) (tn_ID d))"
      using hangs d(1) held [of "tn_ID d"] by (auto simp: hangs_def details_hang_def)
    then show "tn_ParentID n \<in> tn_ID ` set T \<union> tn_ID ` set G" using d parent [of "tn_ID d"] by (auto simp: setG)
  qed
  moreover have proper: "\<forall>n \<in> set (T @ G @ D). proper_key (tn_ID n)"
  proof
    fix n assume "n \<in> set (T @ G @ D)"
    then consider "n \<in> set T" | "n \<in> set G" | "n \<in> set D" by auto
    then show "proper_key (tn_ID n)"
    proof cases
      case 1
      then have "in_table topics' (tn_ID n)" using setT by auto
      then show ?thesis using place(1) by (auto simp: keyed_def in_table_keys)
    next
      case 2
      then show ?thesis using setG group group' by auto
    next
      case 3
      then show ?thesis using detail by (auto simp: D_def)
    qed
  qed
  moreover have "distinct (map tn_ID (tr_Nodes t))"
  proof -
    have "distinct (map tn_ID T)" "distinct (map tn_ID G)" "distinct (map tn_ID D)"
      using place(1) wf'(2,6) unfolding idT idG idD by (auto simp: keyed_def details_def typed_details_def distinct_map_filter)
    moreover have "tn_ID ` set T \<inter> tn_ID ` set G = {}"
      unfolding setT setG using place(3) group group' by blast
    moreover have "tn_ID ` set D \<inter> (tn_ID ` set T \<union> tn_ID ` set G) = {}"
    proof -
      have "\<not> in_table topics' (tn_ID n) \<and> \<not> in_table (ft_groups f) (tn_ID n)" if "n \<in> set details" for n
        using place(3) [of "tn_ID n"] group [of "tn_ID n"] detail [OF that] by blast
      moreover have "tn_ID ` set D = tn_ID ` set details" using arg_cong [OF idD, of set] by simp
      ultimately show ?thesis unfolding setT setG by auto
    qed
    moreover have "treeRootNodeID \<notin> tn_ID ` set (T @ G @ D)"
      using proper unfolding proper_key_def image_iff by metis
    ultimately show ?thesis by (auto simp: nodes(1) root_node_def)
  qed
  moreover have "map without_parent D = map without_parent details" by (simp add: D_def without_parent_def)
  ultimately show ?thesis using nodes unfolding details_def groups_def topics_def by blast
qed

section \<open>Properties\<close>

text \<open>C34: An assembled tree is rooted whatever parents are proposed for its nodes, in cycles or to ids that do
  not exist.  For well-formed tables (each node under its own id and of its kind, details with distinct trimmed ids that
  are neither empty nor the root's, the id of unclassified topics used for a topic only) every node hangs on the
  root within five levels, topics at the root, groups below topics or groups, details below either, and the edges are
  exactly the parents.  The details are, in order, those given whose id is not also that of a topic or a group,
  with nothing changed but their parents; where no id is used twice, none is lost.\<close>

theorem assembled_trees_are_rooted:
  assumes "well_formed order a" "fst (assembleTree c order a st) = Some t"
  shows "rooted t \<and> set (map edge_pair (tr_Edges t)) = parent_pairs t \<and>
    map without_parent (filter is_detail (tr_Nodes t)) =
      map without_parent (filter (\<lambda>n. \<not> in_table (ay_topics a) (tn_ID n) \<and> \<not> in_table (ay_groups a) (tn_ID n)) (ay_details a))"
proof -
  have typed: "typed_details (ay_topics a) (typed_groups (ay_topics a) (ay_groups a)) (ay_details a) =
      filter (\<lambda>n. \<not> in_table (ay_topics a) (tn_ID n) \<and> \<not> in_table (ay_groups a) (tn_ID n)) (ay_details a)"
    using assms(1) by (auto simp: well_formed_def typed_details_def typed_groups_def in_table_filtered proper_key_def
        intro!: filter_cong)
  obtain rank T G D where l: "tr_Nodes t = root_node c # T @ G @ D" "layered rank T G D"
    "distinct (map tn_ID (tr_Nodes t))" "\<forall>n \<in> set (T @ G @ D). proper_key (tn_ID n)" "tr_Edges t = parent_edges (tr_Nodes t)"
    and d: "map without_parent D =
      map without_parent (typed_details (ay_topics a) (typed_groups (ay_topics a) (ay_groups a)) (ay_details a))"
    using assembled_layers [OF assms] by blast
  have root: "trim_space treeRootNodeID = treeRootNodeID" "treeRootNodeID \<noteq> []" by code_simp+
  have trimmed: "\<forall>n \<in> set (tr_Nodes t). trim_space (tn_ID n) = tn_ID n"
    using l(1,4) root by (auto simp: proper_key_def root_node_def)
  have parent: "tn_ParentID n \<in> insert treeRootNodeID (tn_ID ` set (T @ G @ D))" if "n \<in> set (T @ G @ D)" for n
    using that l(2) by (auto simp: layered_def)
  have "tn_ParentID n \<noteq> [] \<and> trim_space (tn_ParentID n) = tn_ParentID n"
    if "n \<in> set (tr_Nodes t)" "tn_ID n \<noteq> treeRootNodeID" for n
  proof -
    have "n \<in> set (T @ G @ D)" using that l(1) by (auto simp: root_node_def)
    then have "tn_ParentID n = treeRootNodeID \<or> proper_key (tn_ParentID n)" using parent [of n] l(4) by (metis imageE insertE)
    then show ?thesis using root by (auto simp: proper_key_def)
  qed
  then have "set (map edge_pair (tr_Edges t)) = parent_pairs t"
    using assembled_edges [OF _ l(5)] trimmed by blast
  moreover have "filter is_detail (tr_Nodes t) = D"
    unfolding l(1) using l(2) by (intro filter_kinds) (auto simp: layered_def)
  ultimately show ?thesis using layered_rooted [OF l(2,1,3) trimmed] d [unfolded typed] by simp
qed

text \<open>Two topics below each other, a group below one of them, a detail in the group and one nowhere.\<close>

definition sample_node :: "gostring \<Rightarrow> gostring \<Rightarrow> liveAnalysisTreeNode" where
  "sample_node i kind = (root_node None)\<lparr>tn_ID := i, tn_Kind := kind, tn_Label := i\<rparr>"

definition sample_assembly :: assembly where
  "sample_assembly =
     \<lparr>ay_topics = [(''topic-a'', sample_node ''topic-a'' ''topic''), (''topic-b'', sample_node ''topic-b'' ''topic'')],
      ay_topicOrder = [''topic-a'', ''topic-b''],
      ay_groups = [(''group-g'', sample_node ''group-g'' ''group'')], ay_groupOrder = [''group-g''],
      ay_details = [sample_node ''i1'' ''issue'', sample_node ''i2'' ''risk''],
      ay_parents = [(''topic-a'', ''topic-b''), (''topic-b'', ''topic-a''), (''group-g'', ''topic-a''), (''i1'', ''group-g''),
        (''i2'', ''gone'')],
      ay_previousParents = [], ay_relations = [], ay_version = 1\<rparr>"

lemma sample_well_formed: "well_formed [''topic-a'', ''topic-b''] sample_assembly"
proof -
  have k: "proper_key ''topic-a''" "proper_key ''topic-b''" "proper_key ''group-g''" "proper_key ''i1''" "proper_key ''i2''"
    by (simp_all add: proper_key_def treeRootNodeID_def) code_simp+
  then show ?thesis
    by (simp add: well_formed_def sample_assembly_def keyed_def in_table_def sample_node_def is_topic_def is_group_def
      is_detail_def treeUnclassifiedTopicID_def)
qed

theorem assembled_trees_are_rooted_witness:
  "let t = the (fst (assembleTree None [''topic-a'', ''topic-b''] sample_assembly zero_stats)) in
     rooted t \<and> set (map edge_pair (tr_Edges t)) = parent_pairs t"
proof -
  have "\<exists>t. fst (assembleTree None [''topic-a'', ''topic-b''] sample_assembly zero_stats) = Some t"
    by (simp add: assembleTree_def sample_assembly_def Let_def)
  then show ?thesis using assembled_trees_are_rooted [OF sample_well_formed, of None zero_stats] by (auto simp: Let_def)
qed

end
