(* ===== verification/TreeOperationsClaims.thy ===== *)
theory TreeOperationsClaims
  imports TreeOperations TreeAssemblyClaims
begin

text \<open>
  What the reorganizer's operations guarantee: each is evaluated once, whatever it says, and the tree that
  comes back passes the integrity check with all its details, or is the tree as it was.
\<close>

section \<open>Records of the evaluation\<close>

definition evaluated :: "liveAnalysisTreeMergeStats \<Rightarrow> nat" where
  "evaluated st = ms_ReorganizeApplied st + ms_ReorganizeNoop st + ms_ReorganizeRejected st + ms_ReorganizeInvalid st"

text \<open>The statistics an operation itself may touch leave the records alone.\<close>

definition same_records :: "liveAnalysisTreeMergeStats \<Rightarrow> liveAnalysisTreeMergeStats \<Rightarrow> bool" where
  "same_records a b \<longleftrightarrow> ms_ReorganizeOperations b = ms_ReorganizeOperations a \<and> evaluated b = evaluated a \<and>
     ms_ReorganizeApplied b = ms_ReorganizeApplied a \<and> ms_ReorganizeProposed b = ms_ReorganizeProposed a"

lemma same_records_refl [simp]: "same_records a a"
  by (simp add: same_records_def)

lemmas operation_defs = create_group_def move_nodes_def rename_group_def delete_empty_group_def create_topic_def
  rename_topic_def merge_topic_def split_topic_def

text \<open>What a single operation does to the records and to the counter, by its result.\<close>

definition quiet :: "tree_work \<Rightarrow> op_result \<times> tree_work \<Rightarrow> bool" where
  "quiet w rw \<longleftrightarrow> same_records (tw_stats w) (tw_stats (snd rw)) \<and>
     tw_applied (snd rw) = tw_applied w + (if fst rw = OpApplied then 1 else 0)"

lemma first_error_result: "first_error f is = Some e \<Longrightarrow> \<exists>i \<in> set is. f i = Some e"
  by (induction "is") (auto split: option.splits)

lemma errors_not_applied:
  "group_place_error x w label parentID targets \<noteq> Some OpApplied"
  "first_error (group_evidence_error x w a b) targets \<noteq> Some OpApplied"
  "first_error (move_error x w a) targets \<noteq> Some OpApplied"
  "split_error x w a label b targets t \<noteq> Some OpApplied"
  by (auto simp: group_place_error_def group_evidence_error_def move_error_def split_error_def Let_def
      dest!: first_error_result split: if_splits)

lemma quiet_refused: "e \<noteq> OpApplied \<Longrightarrow> quiet w (e, w)"
  by (simp add: quiet_def)

lemma quiet_counted: "e \<noteq> OpApplied \<Longrightarrow> same_records (tw_stats w) st \<Longrightarrow> quiet w (e, w\<lparr>tw_stats := st\<rparr>)"
  by (simp add: quiet_def)

lemma quiet_applied: "tw_applied w' = tw_applied w \<Longrightarrow> same_records (tw_stats w) (tw_stats w') \<Longrightarrow> quiet w (applied w')"
  by (simp add: quiet_def applied_def)

lemma same_records_counters [simp]:
  "same_records st (st\<lparr>ms_UnknownGroupEvidenceIDs := n\<rparr>)" "same_records st (st\<lparr>ms_GroupsCreated := n\<rparr>)"
  "same_records st (st\<lparr>ms_AgendaTopicsMerged := n, ms_AgendaTopicsDematerialized := m\<rparr>)"
  "same_records st (st\<lparr>ms_AgendaTopicsSplit := n\<rparr>)" "same_records st (st\<lparr>ms_NonCanonicalNodeIDs := n\<rparr>)"
  "same_records st (st\<lparr>ms_SelfParentOperationsRejected := n\<rparr>)"
  by (simp_all add: same_records_def evaluated_def)

lemmas quiet_intros = quiet_refused quiet_counted quiet_applied

lemma quiet_group: "quiet w (create_group x p w)"
  unfolding create_group_def Let_def
  by (auto simp: errors_not_applied intro!: quiet_intros split: option.split)

lemma quiet_rest:
  "quiet w (move_nodes x p w)" "quiet w (rename_group x p w)" "quiet w (delete_empty_group p w)"
  "quiet w (create_topic x p w)" "quiet w (rename_topic p w)"
  unfolding operation_defs Let_def
  by (auto simp: errors_not_applied intro!: quiet_intros split: option.split)

lemma quiet_topics: "quiet w (merge_topic x p w)" "quiet w (split_topic x p w)"
  unfolding operation_defs Let_def
  by (auto simp: errors_not_applied intro!: quiet_intros split: option.split)

lemma quiet_run: "quiet w (run_operation x p w)"
  unfolding run_operation_def Let_def
  by (simp add: quiet_group quiet_rest quiet_topics quiet_intros)

lemma record_result_counts:
  "ms_ReorganizeOperations (record_result k p r st) = ms_ReorganizeOperations st @ [evaluation k p r]"
  "evaluated (record_result k p r st) = Suc (evaluated st)"
  "ms_ReorganizeApplied (record_result k p r st) = ms_ReorganizeApplied st + (if r = OpApplied then 1 else 0)"
  "ms_ReorganizeProposed (record_result k p r st) = ms_ReorganizeProposed st"
  by (cases r; simp add: record_result_def evaluated_def Let_def)+

lemma record_over:
  "map oe_Index (ms_ReorganizeOperations (fold (\<lambda>(k, p). record_result k p (OpInvalid e)) kps st)) =
     map oe_Index (ms_ReorganizeOperations st) @ map fst kps"
  "evaluated (fold (\<lambda>(k, p). record_result k p (OpInvalid e)) kps st) = evaluated st + length kps"
  "ms_ReorganizeApplied (fold (\<lambda>(k, p). record_result k p (OpInvalid e)) kps st) = ms_ReorganizeApplied st"
  "ms_ReorganizeProposed (fold (\<lambda>(k, p). record_result k p (OpInvalid e)) kps st) = ms_ReorganizeProposed st"
  by (induction kps arbitrary: st) (auto simp: record_result_counts evaluation_def)

lemma operation_step_counts:
  "map oe_Index (ms_ReorganizeOperations (tw_stats (operation_step x kp w))) =
     map oe_Index (ms_ReorganizeOperations (tw_stats w)) @ [fst kp]"
  "evaluated (tw_stats (operation_step x kp w)) = Suc (evaluated (tw_stats w))"
  "ms_ReorganizeProposed (tw_stats (operation_step x kp w)) = ms_ReorganizeProposed (tw_stats w)"
  "ms_ReorganizeApplied (tw_stats (operation_step x kp w)) + tw_applied w =
     ms_ReorganizeApplied (tw_stats w) + tw_applied (operation_step x kp w)"
  using quiet_run [of w x "snd kp"]
  by (auto simp: operation_step_def quiet_def same_records_def record_result_counts evaluation_def split: prod.splits)

lemma steps_counts:
  "map oe_Index (ms_ReorganizeOperations (tw_stats (fold (operation_step x) kps w))) =
     map oe_Index (ms_ReorganizeOperations (tw_stats w)) @ map fst kps"
  "evaluated (tw_stats (fold (operation_step x) kps w)) = evaluated (tw_stats w) + length kps"
  "ms_ReorganizeProposed (tw_stats (fold (operation_step x) kps w)) = ms_ReorganizeProposed (tw_stats w)"
  "ms_ReorganizeApplied (tw_stats (fold (operation_step x) kps w)) + tw_applied w =
     ms_ReorganizeApplied (tw_stats w) + tw_applied (fold (operation_step x) kps w)"
proof (induction kps arbitrary: w)
  case (Cons kp kps)
  {
    case 1 then show ?case by (simp add: Cons(1) operation_step_counts(1))
  next
    case 2 then show ?case by (simp add: Cons(2) operation_step_counts(2))
  next
    case 3 then show ?case by (simp add: Cons(3) operation_step_counts(3))
  next
    case (4 w)
    show ?case using Cons(4) [of "operation_step x kp w"] operation_step_counts(4) [of x kp w] by simp
  }
qed simp_all

text \<open>The order of the records: what is beyond the limit comes first.\<close>

definition evaluation_order :: "nat \<Rightarrow> nat list" where
  "evaluation_order n = [treeReorganizeMaxOperations..<n] @ [0..<min n treeReorganizeMaxOperations]"

lemma evaluation_order_all: "distinct (evaluation_order n) \<and> set (evaluation_order n) = {..<n}"
  by (auto simp: evaluation_order_def)

lemma run_batch_counts:
  "map oe_Index (ms_ReorganizeOperations (tw_stats (run_batch x ops w))) =
     map oe_Index (ms_ReorganizeOperations (tw_stats w)) @ evaluation_order (length ops)"
  "evaluated (tw_stats (run_batch x ops w)) = evaluated (tw_stats w) + length ops"
  "ms_ReorganizeProposed (tw_stats (run_batch x ops w)) = ms_ReorganizeProposed (tw_stats w)"
  "ms_ReorganizeApplied (tw_stats (run_batch x ops w)) + tw_applied w =
     ms_ReorganizeApplied (tw_stats w) + tw_applied (run_batch x ops w)"
proof -
  have n: "map fst (drop k (enumerate 0 ops)) = [k..<length ops]" "map fst (take k (enumerate 0 ops)) = [0..<min (length ops) k]" for k
    by (simp_all add: drop_map [symmetric] take_map [symmetric] min_def)
  show "map oe_Index (ms_ReorganizeOperations (tw_stats (run_batch x ops w))) =
     map oe_Index (ms_ReorganizeOperations (tw_stats w)) @ evaluation_order (length ops)"
    by (simp add: run_batch_def Let_def steps_counts record_over n evaluation_order_def)
  show "evaluated (tw_stats (run_batch x ops w)) = evaluated (tw_stats w) + length ops"
    by (simp add: run_batch_def Let_def steps_counts record_over)
  show "ms_ReorganizeProposed (tw_stats (run_batch x ops w)) = ms_ReorganizeProposed (tw_stats w)"
    by (simp add: run_batch_def Let_def steps_counts record_over)
  show "ms_ReorganizeApplied (tw_stats (run_batch x ops w)) + tw_applied w =
     ms_ReorganizeApplied (tw_stats w) + tw_applied (run_batch x ops w)"
    using steps_counts(4) [of x "take treeReorganizeMaxOperations (enumerate 0 ops)"
      "w\<lparr>tw_stats := fold (\<lambda>(k, p). record_result k p (OpInvalid ''operation_limit_exceeded''))
        (drop treeReorganizeMaxOperations (enumerate 0 ops)) (tw_stats w)\<rparr>"]
    by (simp add: run_batch_def Let_def record_over)
qed

section \<open>No detail is lost\<close>

text \<open>Topics and groups keep their kind and stay away from the ids of the details.\<close>

definition kinds_ok :: "node_table \<Rightarrow> tree_work \<Rightarrow> bool" where
  "kinds_ok details w \<longleftrightarrow>
     (\<forall>i n. map_of (tw_topics w) i = Some n \<longrightarrow> is_topic n \<and> \<not> in_table details i) \<and>
     (\<forall>i. in_table (tw_groups w) i \<longrightarrow> \<not> in_table details i)"

lemma kinds_ok_cong:
  "tw_topics w' = tw_topics w \<Longrightarrow> tw_groups w' = tw_groups w \<Longrightarrow> kinds_ok ds w' = kinds_ok ds w"
  by (simp add: kinds_ok_def)

lemma applied_tables [simp]:
  "tw_topics (snd (applied w)) = tw_topics w" "tw_groups (snd (applied w)) = tw_groups w"
  by (simp_all add: applied_def)

lemma in_table_append [simp]: "in_table (xs @ ys) i \<longleftrightarrow> in_table xs i \<or> in_table ys i"
  by (auto simp: in_table_keys)

lemma in_table_one [simp]: "in_table [(k, v)] i \<longleftrightarrow> i = k"
  by (auto simp: in_table_keys)

lemma map_of_append_Some: "map_of (xs @ ys) i = Some n \<longleftrightarrow> map_of xs i = Some n \<or> map_of xs i = None \<and> map_of ys i = Some n"
  by (auto simp: map_add_def split: option.split)

lemma kinds_keep:
  "kinds_ok ds w \<Longrightarrow> kinds_ok ds (snd (e, w))"
  "kinds_ok ds w \<Longrightarrow> kinds_ok ds (snd (e, w\<lparr>tw_stats := st\<rparr>))"
  "kinds_ok ds w' \<Longrightarrow> kinds_ok ds (snd (applied w'))"
  by (simp_all add: kinds_ok_def)

lemma kinds_stats: "kinds_ok ds w \<Longrightarrow> kinds_ok ds (w\<lparr>tw_stats := st\<rparr>)"
  by (simp add: kinds_ok_def)

lemma kinds_parents: "kinds_ok ds w \<Longrightarrow> kinds_ok ds (w\<lparr>tw_parents := ps\<rparr>)"
  by (simp add: kinds_ok_def)

lemma kinds_new_group:
  "kinds_ok ds w \<Longrightarrow> \<not> in_table ds i \<Longrightarrow>
   kinds_ok ds (w\<lparr>tw_groups := tw_groups w @ [(i, g)]\<rparr>)"
  by (auto simp: kinds_ok_def)

lemma kinds_order: "kinds_ok ds w \<Longrightarrow> kinds_ok ds (w\<lparr>tw_groupOrder := is\<rparr>)"
  by (simp add: kinds_ok_def)

lemma kinds_same_group: "kinds_ok ds w \<Longrightarrow> in_table (tw_groups w) i \<Longrightarrow> kinds_ok ds (w\<lparr>tw_groups := AList.update i g (tw_groups w)\<rparr>)"
  by (auto simp: kinds_ok_def)

lemma kinds_less_groups: "kinds_ok ds w \<Longrightarrow> kinds_ok ds (w\<lparr>tw_groups := AList.delete i (tw_groups w)\<rparr>)"
  by (auto simp: kinds_ok_def)

lemma kinds_group:
  assumes "kinds_ok ds w" "wc_details x = ds"
  shows "kinds_ok ds (snd (create_group x p w))" "kinds_ok ds (snd (rename_group x p w))" "kinds_ok ds (snd (delete_empty_group p w))"
    "kinds_ok ds (snd (move_nodes x p w))"
proof -
  have g: "in_table (tw_groups w) i" if "map_of (tw_groups w) i = Some g" for i g using that by (simp add: in_table_def)
  note keep = kinds_keep kinds_stats kinds_order kinds_new_group kinds_same_group kinds_less_groups kinds_parents
  show "kinds_ok ds (snd (create_group x p w))"
    using assms unfolding create_group_def Let_def by (auto intro!: keep split: option.split simp del: first_trimmed.simps)
  show "kinds_ok ds (snd (rename_group x p w))"
    using assms g unfolding rename_group_def Let_def by (auto intro!: keep split: option.split)
  show "kinds_ok ds (snd (delete_empty_group p w))"
    using assms unfolding delete_empty_group_def Let_def by (auto intro!: keep)
  show "kinds_ok ds (snd (move_nodes x p w))"
    using assms unfolding move_nodes_def Let_def by (auto intro!: keep split: option.split)
qed

lemma kinds_topic:
  assumes "kinds_ok ds w" "wc_details x = ds"
  shows "kinds_ok ds (snd (create_topic x p w))" "kinds_ok ds (snd (rename_topic p w))"
proof -
  have new: "is_topic (blank_node\<lparr>tn_ID := i, tn_Kind := ''topic'', tn_Label := l, tn_Description := d, tn_Origin := g\<rparr>)" for i l d g
    by (simp add: is_topic_def)
  show "kinds_ok ds (snd (create_topic x p w))"
    using assms new unfolding create_topic_def Let_def
    by (auto simp: kinds_ok_def map_of_append_Some split: if_splits)
  show "kinds_ok ds (snd (rename_topic p w))"
    using assms unfolding rename_topic_def Let_def
    by (auto simp: kinds_ok_def update_conv' is_topic_def split: option.split if_splits)
qed

lemma kinds_merge: "kinds_ok ds w \<Longrightarrow> kinds_ok ds (snd (merge_topic x p w))"
proof -
  assume ok: "kinds_ok ds w"
  have m: "is_topic (merged_into v i a b) = is_topic b" for v i a b by (simp add: merged_into_def Let_def is_topic_def)
  show ?thesis
    using ok unfolding merge_topic_def Let_def
    by (auto simp: kinds_ok_def update_conv' delete_conv' m split: option.split if_splits)
qed

lemma kinds_split:
  assumes "kinds_ok ds w" "wc_details x = ds"
  shows "kinds_ok ds (snd (split_topic x p w))"
proof -
  have m: "is_topic (split_source x g r t) = is_topic t" "is_topic (split_part x p i g r t)" for g r t i
    by (simp_all add: split_source_def split_part_def is_topic_def)
  have free: "\<not> in_table ds newID" if "split_error x w fromID label newID targets t = None" for fromID label newID targets t
    using that assms(2) by (auto simp: split_error_def split: if_splits)
  show ?thesis
    using assms(1) m free unfolding split_topic_def Let_def
    by (auto simp: kinds_ok_def update_conv' map_of_append_Some split: option.split if_splits)
qed

lemma kinds_run:
  assumes "kinds_ok ds w" "wc_details x = ds"
  shows "kinds_ok ds (snd (run_operation x p w))"
  unfolding run_operation_def Let_def
  by (simp add: kinds_group [OF assms] kinds_topic [OF assms] kinds_merge [OF assms(1)] kinds_split [OF assms]
    kinds_stats [OF assms(1)] assms(1))

lemma kinds_batch:
  assumes "kinds_ok ds w" "wc_details x = ds"
  shows "kinds_ok ds (run_batch x ops w)"
proof -
  have "kinds_ok ds (fold (operation_step x) kps w)" if "kinds_ok ds w" for kps w
    using that
  proof (induction kps arbitrary: w)
    case (Cons kp kps)
    have "kinds_ok ds (operation_step x kp w)"
      using kinds_run [OF Cons.prems assms(2), of "snd kp"]
      by (cases "run_operation x (snd kp) w") (simp add: operation_step_def kinds_stats)
    then show ?case using Cons.IH by simp
  qed simp
  from this [OF kinds_stats [OF assms(1)]] show ?thesis by (simp add: run_batch_def Let_def)
qed

text \<open>The nodes of a tree without repeated ids, sorted.\<close>

definition entries :: "liveAnalysisTreeNode list \<Rightarrow> node_table" where
  "entries ns = map (\<lambda>n. (tn_ID n, n)) ns"

lemma update_new: "k \<notin> fst ` set al \<Longrightarrow> AList.update k v al = al @ [(k, v)]"
  by (induction al) auto

lemma entries_keys [simp]: "fst ` set (entries ns) = tn_ID ` set ns"
  by (force simp: entries_def)

lemma sort_nodes_distinct:
  assumes "distinct (map tn_ID ns)"
  defines "inner \<equiv> filter (\<lambda>n. tn_ID n \<noteq> treeRootNodeID) ns"
  shows "sn_topics (sort_nodes ns) = entries (filter is_topic inner)"
    "sn_groups (sort_nodes ns) = entries (filter (\<lambda>n. \<not> is_topic n \<and> is_group n) inner)"
    "sn_details (sort_nodes ns) = entries (filter is_detail inner)"
    "sn_detailOrder (sort_nodes ns) = map tn_ID (filter is_detail inner)"
proof -
  have "sn_topics (sort_nodes ns) = entries (filter is_topic (filter (\<lambda>n. tn_ID n \<noteq> treeRootNodeID) ns)) \<and>
    sn_groups (sort_nodes ns) = entries (filter (\<lambda>n. \<not> is_topic n \<and> is_group n) (filter (\<lambda>n. tn_ID n \<noteq> treeRootNodeID) ns)) \<and>
    sn_details (sort_nodes ns) = entries (filter is_detail (filter (\<lambda>n. tn_ID n \<noteq> treeRootNodeID) ns)) \<and>
    sn_detailOrder (sort_nodes ns) = map tn_ID (filter is_detail (filter (\<lambda>n. tn_ID n \<noteq> treeRootNodeID) ns))"
    using assms(1)
  proof (induction ns rule: rev_induct)
    case (snoc n ns)
    then have new: "tn_ID n \<notin> tn_ID ` set ns" and IH: "sn_topics (sort_nodes ns) = entries (filter is_topic (filter (\<lambda>n. tn_ID n \<noteq> treeRootNodeID) ns))"
      "sn_groups (sort_nodes ns) = entries (filter (\<lambda>n. \<not> is_topic n \<and> is_group n) (filter (\<lambda>n. tn_ID n \<noteq> treeRootNodeID) ns))"
      "sn_details (sort_nodes ns) = entries (filter is_detail (filter (\<lambda>n. tn_ID n \<noteq> treeRootNodeID) ns))"
      "sn_detailOrder (sort_nodes ns) = map tn_ID (filter is_detail (filter (\<lambda>n. tn_ID n \<noteq> treeRootNodeID) ns))"
      by auto
    have upd: "AList.update (tn_ID n) n (entries (filter P ns)) = entries (filter P ns @ [n])" for P
    proof -
      have "tn_ID n \<notin> fst ` set (entries (filter P ns))" using new by auto
      then show ?thesis by (simp add: update_new entries_def)
    qed
    have app: "appendIfMissing (map tn_ID (filter P ns)) (tn_ID n) = map tn_ID (filter P ns @ [n])" for P
      using new by (auto simp: appendIfMissing_def)
    have step: "sort_nodes (ns @ [n]) = sort_node n (sort_nodes ns)" by (simp add: sort_nodes_def)
    show ?case
      unfolding step sort_node_def using upd app by (auto simp: IH is_detail_def)
  qed (simp add: sort_nodes_def entries_def)
  then show "sn_topics (sort_nodes ns) = entries (filter is_topic inner)"
    "sn_groups (sort_nodes ns) = entries (filter (\<lambda>n. \<not> is_topic n \<and> is_group n) inner)"
    "sn_details (sort_nodes ns) = entries (filter is_detail inner)"
    "sn_detailOrder (sort_nodes ns) = map tn_ID (filter is_detail inner)"
    by (simp_all add: inner_def)
qed

lemma listed_entries: "distinct (map tn_ID ns) \<Longrightarrow> listed (entries ns) (map tn_ID ns) = ns"
proof -
  assume d: "distinct (map tn_ID ns)"
  then have "map_of (entries ns) (tn_ID n) = Some n" if "n \<in> set ns" for n
    using that by (simp add: entries_def o_def)
  then have "listed (entries ns) (map tn_ID ms) = ms" if "set ms \<subseteq> set ns" for ms
    using that by (induction ms) (auto simp: listed_def)
  then show ?thesis by simp
qed

lemma map_of_entries: "map_of (entries ns) i = Some n \<Longrightarrow> n \<in> set ns \<and> tn_ID n = i"
  by (auto simp: entries_def dest!: map_of_SomeD)

definition of_group_kind :: "flatten_state \<Rightarrow> bool" where
  "of_group_kind s \<longleftrightarrow> (\<forall>i g. map_of (ft_groups s) i = Some g \<longrightarrow> is_group g)"

lemma flatten_kind: "of_group_kind s \<Longrightarrow> of_group_kind (fold (flatten_step version details cnt) is s)"
proof (induction "is" arbitrary: s)
  case (Cons i "is")
  have del: "of_group_kind (dissolve details i s)" if "of_group_kind s" for s
    using that by (auto simp: of_group_kind_def dissolve_def Let_def delete_conv' split: if_splits)
  have keep: "of_group_kind (s\<lparr>ft_groups := AList.update i (g\<lparr>tn_UnderfilledSinceVersion := since\<rparr>) (ft_groups s)\<rparr>)"
    if "map_of (ft_groups s) i = Some g" for g since
    using that Cons.prems by (auto simp: of_group_kind_def update_conv' is_group_def split: if_splits)
  have "of_group_kind (flatten_step version details cnt i s)"
    using del keep Cons.prems by (auto simp: flatten_step_def Let_def split: option.split)
  then show ?case using Cons.IH by simp
qed simp

lemma assembled_details:
  assumes "\<forall>i n. map_of (ay_topics a) i = Some n \<longrightarrow> is_topic n" "\<forall>n \<in> set (ay_details a). is_detail n"
    and t: "fst (assembleTree c order a st) = Some t"
  shows "map without_parent (filter is_detail (tr_Nodes t)) =
    map without_parent (typed_details (ay_topics a) (typed_groups (ay_topics a) (ay_groups a)) (ay_details a))"
proof -
  define topics where "topics = ay_topics a"
  define groups where "groups = typed_groups (ay_topics a) (ay_groups a)"
  define details where "details = typed_details topics groups (ay_details a)"
  define td where "td = settle_topics topics (ay_parents a) order"
  define gd where "gd = settle_groups topics td groups (ay_parents a)"
  define enforced where "enforced = enforced_parents td gd topics (ay_parents a) details"
  define needed where "needed = needs_unclassified topics gd (ay_parents a) details"
  define f where "f = flatten_groups (ay_version a) gd groups (ay_groupOrder a) details enforced"
  obtain topics' order' enforced' where p: "place_unclassified needed (topics, ay_topicOrder a, ft_enforced f) = (topics', order', enforced')"
    by (metis prod_cases3)
  define T where "T = map (\<lambda>n. n\<lparr>tn_ParentID := treeRootNodeID\<rparr>) (listed topics' order')"
  define G where "G = listed_groups (ft_groups f) enforced' (sort_key (settled_depth gd) (ay_groupOrder a))"
  define D where "D = map (\<lambda>n. n\<lparr>tn_ParentID := parent_of enforced' (tn_ID n)\<rparr>) details"
  have nodes: "tr_Nodes t = root_node c # T @ G @ D"
    using t p by (auto simp: assembleTree_def Let_def assembled_nodes_def T_def G_def D_def topics_def groups_def details_def td_def
      gd_def enforced_def needed_def f_def split: if_splits)
  have "is_topic n" if "map_of topics' i = Some n" for i n
    using assms(1) p that
    by (auto simp: topics_def place_unclassified_def update_conv' delete_conv' unclassified_topic_def is_topic_def root_node_def split: if_splits)
  then have "\<forall>n \<in> set T. is_topic n" by (auto simp: T_def listed_def is_topic_def split: option.splits)
  moreover have "of_group_kind f"
    unfolding f_def flatten_groups_def by (rule flatten_kind) (auto simp: of_group_kind_def is_group_def dest!: map_of_SomeD)
  then have "\<forall>n \<in> set G. is_group n"
    by (auto simp: G_def listed_groups_def of_group_kind_def is_group_def split: option.splits)
  moreover have "\<forall>n \<in> set D. is_detail n"
    using assms(2) by (auto simp: D_def details_def typed_details_def is_detail_def is_topic_def is_group_def)
  ultimately have "filter is_detail (tr_Nodes t) = D" unfolding nodes by (rule filter_kinds)
  then show ?thesis by (simp add: D_def without_parent_def details_def topics_def groups_def)
qed

lemma assembly_records:
  "ms_ReorganizeOperations (snd (assembleTree c order a st)) = ms_ReorganizeOperations st"
  "evaluated (snd (assembleTree c order a st)) = evaluated st"
  "ms_ReorganizeApplied (snd (assembleTree c order a st)) = ms_ReorganizeApplied st"
  by (simp_all add: assembleTree_def Let_def assembly_stats_def evaluated_def)

lemma integrity_records:
  "ms_ReorganizeOperations (applyTreeIntegrityStats d st) = ms_ReorganizeOperations st"
  "evaluated (applyTreeIntegrityStats d st) = evaluated st"
  "ms_ReorganizeApplied (applyTreeIntegrityStats d st) = ms_ReorganizeApplied st"
  by (simp_all add: applyTreeIntegrityStats_def evaluated_def)

lemma evaluated_rejected:
  "evaluated (st\<lparr>ms_TreePayloadRejected := i, ms_PreviousTreePreserved := j\<rparr>) = evaluated st"
  by (simp add: evaluated_def)

section \<open>Properties\<close>

text \<open>The details of a stored tree, with their classification normalised.\<close>

definition tree_details :: "liveAnalysisTree \<Rightarrow> liveAnalysisTreeNode list" where
  "tree_details t = filter is_detail (filter (\<lambda>n. tn_ID n \<noteq> treeRootNodeID) (map normalized_node (tr_Nodes t)))"

definition batch_outcome ::
    "meetingContext option \<Rightarrow> liveAnalysisTree \<Rightarrow> liveAnalysisTree option \<times> nat \<Rightarrow> liveAnalysisTreeMergeStats \<Rightarrow>
     liveAnalysisTreeMergeStats \<Rightarrow> bool" where
  "batch_outcome c tree r st st' \<longleftrightarrow>
     (if snd r = 0 then fst r = Some tree
      else (case fst r of None \<Rightarrow> tree_details tree = []
        | Some t \<Rightarrow> td_Valid (validateTreeIntegrity (Some t) [] c None) \<and>
            ms_ReorganizeApplied st' = ms_ReorganizeApplied st + snd r \<and>
            map without_parent (filter is_detail (tr_Nodes t)) = map without_parent (tree_details tree)))"

lemma normalized_ids: "map tn_ID (map normalized_node ns) = map tn_ID ns"
  by (simp add: normalized_node_def split: prod.split)

lemma stored_nodes: "treeStateFromPayloadTree (Some tree) = (nodes, parents, relations) \<Longrightarrow> nodes = tr_Nodes tree"
  by (auto simp: treeStateFromPayloadTree_def Let_def split: if_splits)

lemma work_details:
  assumes "distinct (map tn_ID (tr_Nodes tree))" "kinds_ok (sn_details s) w"
    and s: "s = sort_nodes (map normalized_node (tr_Nodes tree))"
  shows "listed (sn_details s) (sn_detailOrder s) = tree_details tree"
    "typed_details (tw_topics w) (typed_groups (tw_topics w) (tw_groups w)) (tree_details tree) = tree_details tree"
proof -
  let ?ns = "map normalized_node (tr_Nodes tree)"
  have d: "distinct (map tn_ID ?ns)" using assms(1) unfolding normalized_ids .
  note k = sort_nodes_distinct [OF d, folded s]
  have d': "distinct (map tn_ID (tree_details tree))" unfolding tree_details_def using d by (intro distinct_map_filter)
  show "listed (sn_details s) (sn_detailOrder s) = tree_details tree"
    using listed_entries [OF d'] k(3,4) by (simp add: tree_details_def)
  have "in_table (sn_details s) (tn_ID n) \<and> tn_ID n \<noteq> treeRootNodeID" if "n \<in> set (tree_details tree)" for n
    using that unfolding k(3) in_table_keys entries_keys by (auto simp: tree_details_def)
  moreover have "\<not> in_table (tw_topics w) i" if "in_table (sn_details s) i" for i
    using that assms(2) by (cases "map_of (tw_topics w) i") (auto simp: kinds_ok_def in_table_def)
  moreover have "\<not> in_table (typed_groups (tw_topics w) (tw_groups w)) i" if "in_table (sn_details s) i" for i
    using that assms(2) by (auto simp: kinds_ok_def typed_groups_def in_table_filtered)
  ultimately show "typed_details (tw_topics w) (typed_groups (tw_topics w) (tw_groups w)) (tree_details tree) = tree_details tree"
    by (auto simp: typed_details_def filter_id_conv)
qed

lemma map_of_value: "map_of (map (\<lambda>(i, t). (i, f t)) tbl) i = map_option f (map_of tbl i)"
  by (induction tbl) auto

lemma start_kinds:
  assumes "distinct (map tn_ID ns)"
  shows "kinds_ok (sn_details (sort_nodes ns)) (start_work (sort_nodes ns) parents st)"
proof -
  note k = sort_nodes_distinct [OF assms]
  have same: "m = n" if "m \<in> set ns" "n \<in> set ns" "tn_ID m = tn_ID n" for m n
    using assms that by (metis distinct_map inj_onD)
  have o: "is_topic (with_origin n) = is_topic n" for n by (simp add: with_origin_def is_topic_def)
  have "is_topic n \<and> \<not> in_table (sn_details (sort_nodes ns)) i"
    if "map_of (tw_topics (start_work (sort_nodes ns) parents st)) i = Some n" for i n
  proof -
    have "map_option with_origin (map_of (sn_topics (sort_nodes ns)) i) = Some n"
      using that unfolding start_work_def Let_def by (simp add: map_of_value)
    then obtain m where m: "map_of (sn_topics (sort_nodes ns)) i = Some m" "n = with_origin m"
      by (cases "map_of (sn_topics (sort_nodes ns)) i") auto
    then have "is_topic m" "m \<in> set ns" "tn_ID m = i" using map_of_entries [OF m(1) [unfolded k(1)]] by auto
    then show ?thesis using m(2) o same by (auto simp: k(3) in_table_keys is_detail_def)
  qed
  moreover have "\<not> in_table (sn_details (sort_nodes ns)) i" if "in_table (sn_groups (sort_nodes ns)) i" for i
    using that same unfolding k(2,3) in_table_keys entries_keys by (auto simp: is_detail_def)
  ultimately show ?thesis by (simp add: kinds_ok_def) (simp add: start_work_def Let_def)
qed

text \<open>C35: A reorganization is safe whatever the model proposes.  The tree is taken with its legacy topic ids renamed,
  and its node ids are distinct then.  Every operation is recorded exactly once with its verdict; and either
  nothing is applied and that tree is the result, or the new tree passes the integrity check, the operations counted as
  applied are those recorded as applied, and its details are, in order, those of that tree with kind, subtype and
  status in the normal form that every load of a tree brings them to, and with nothing else changed
  but their parents (a tree of which nothing is left is no tree, and then it had no details).\<close>

theorem reorganizations_are_safe:
  assumes "distinct (map tn_ID (tr_Nodes (fst (normalizeLegacyAgendaTopicIDs lib c t))))"
  shows "case applyTreeOperations lib order c policy version (Some t) ops st of (r, st') \<Rightarrow>
    map oe_Index (ms_ReorganizeOperations st') =
      map oe_Index (ms_ReorganizeOperations st) @ evaluation_order (length ops) \<and>
    evaluated st' = evaluated st + length ops \<and>
    batch_outcome c (fst (normalizeLegacyAgendaTopicIDs lib c t)) r st st'"
proof -
  obtain tree remap where n: "normalizeLegacyAgendaTopicIDs lib c t = (tree, remap)" by fastforce
  obtain nodes parents relations where ts: "treeStateFromPayloadTree (Some tree) = (nodes, parents, relations)"
    by (metis prod_cases3)
  define ver where "ver = (if 0 < version then version else 1)"
  define s where "s = sort_nodes (map normalized_node nodes)"
  define remapped where "remapped = (if remap = [] then ops else map (remap_operation remap) ops)"
  define opers where "opers = map (canonicalizeTreeOperation lib (map tn_ID (tr_Nodes tree) @ proposed_topic_ids remapped)
    (treeReferenceResolver lib (Some tree))) remapped"
  define st1 where "st1 = st\<lparr>ms_LegacyAgendaTopicIDsNormalized := ms_LegacyAgendaTopicIDsNormalized st + length remap,
    ms_AliasResolvedTreeOperationIDs := ms_AliasResolvedTreeOperationIDs st + sum_list (map op_aliasResolvedCount opers),
    ms_ReorganizeProposed := length opers\<rparr>"
  define x where "x = \<lparr>wc_lib = lib, wc_context = c, wc_policy = normalized_policy policy, wc_version = ver,
    wc_details = sn_details s, wc_movesInto = moves_into (sn_details s) (take treeReorganizeMaxOperations opers)\<rparr>"
  define w where "w = run_batch x opers (start_work s parents st1)"
  obtain rebuilt st2 where a: "assembleTree c (order (tw_topics w)) (work_assembly s parents relations ver w) (tw_stats w) = (rebuilt, st2)"
    by fastforce
  define d where "d = validateTreeIntegrity rebuilt [] c None"
  have run: "applyTreeOperations lib order c policy version (Some t) ops st =
      (if tw_applied w = 0 then ((Some tree, 0), tw_stats w)
       else if td_Valid d then ((rebuilt, tw_applied w), applyTreeIntegrityStats d st2)
       else ((Some tree, 0), (applyTreeIntegrityStats d st2)
         \<lparr>ms_TreePayloadRejected := Suc (ms_TreePayloadRejected (applyTreeIntegrityStats d st2)),
          ms_PreviousTreePreserved := Suc (ms_PreviousTreePreserved (applyTreeIntegrityStats d st2))\<rparr>))"
    unfolding applyTreeOperations_def option.case Let_def n ts prod.case ver_def [symmetric] s_def [symmetric]
      remapped_def [symmetric] opers_def [symmetric] st1_def [symmetric] x_def [symmetric] w_def [symmetric] a d_def [symmetric]
    by (rule refl)
  have len: "length opers = length ops" by (simp add: opers_def remapped_def)
  have start: "ms_ReorganizeOperations st1 = ms_ReorganizeOperations st" "evaluated st1 = evaluated st"
    "ms_ReorganizeApplied st1 = ms_ReorganizeApplied st" by (simp_all add: st1_def evaluated_def)
  have w0: "tw_stats (start_work s parents st1) = st1" "tw_applied (start_work s parents st1) = 0"
    by (simp_all add: start_work_def Let_def)
  note counts = run_batch_counts [of x opers "start_work s parents st1", folded w_def, unfolded w0 start len]
  have records: "ms_ReorganizeOperations st2 = ms_ReorganizeOperations (tw_stats w)"
    "evaluated st2 = evaluated (tw_stats w)" "ms_ReorganizeApplied st2 = ms_ReorganizeApplied (tw_stats w)"
    using assembly_records [of c "order (tw_topics w)" "work_assembly s parents relations ver w" "tw_stats w"] a by simp_all
  have nodes: "nodes = tr_Nodes tree" by (rule stored_nodes [OF ts])
  have dist: "distinct (map tn_ID (tr_Nodes tree))" using assms n by simp
  then have dist': "distinct (map tn_ID (map normalized_node nodes))" unfolding nodes normalized_ids .
  have kinds: "kinds_ok (sn_details s) w"
    unfolding w_def using start_kinds [OF dist', folded s_def] by (rule kinds_batch) (simp add: x_def)
  note details = work_details [OF dist kinds s_def [unfolded nodes]]
  have kept: "map without_parent (filter is_detail (tr_Nodes u)) = map without_parent (tree_details tree)"
    if "rebuilt = Some u" for u
  proof -
    have "fst (assembleTree c (order (tw_topics w)) (work_assembly s parents relations ver w) (tw_stats w)) = Some u"
      using a that by simp
    then show ?thesis
      using assembled_details [of "work_assembly s parents relations ver w" c "order (tw_topics w)" "tw_stats w" u] kinds details
      by (simp add: work_assembly_def kinds_ok_def) (simp add: tree_details_def)
  qed
  have none: "tree_details tree = []" if "rebuilt = None"
    using a that details by (auto simp: assembleTree_def work_assembly_def Let_def split: if_splits)
  show ?thesis
    using counts kept none
    unfolding run batch_outcome_def
    by (cases rebuilt) (simp_all add: n records integrity_records evaluated_rejected d_def)
qed

text \<open>A small tree: two topics, three details in the first.\<close>

definition sample_tree :: liveAnalysisTree where
  "sample_tree =
     (let node_at = (\<lambda>i kind parent. (sample_node i kind)\<lparr>tn_ParentID := parent, tn_Origin := topicOriginDynamic\<rparr>);
          nodes = [root_node None, node_at ''topic-a'' ''topic'' ''root'', node_at ''topic-b'' ''topic'' ''root'',
                   node_at ''i1'' ''risk'' ''topic-a'', node_at ''i2'' ''risk'' ''topic-a'', node_at ''i3'' ''risk'' ''topic-b''] in
      \<lparr>tr_Nodes = nodes, tr_Edges = parent_edges nodes, tr_Relations = []\<rparr>)"

definition sample_lib :: tree_lib where
  "sample_lib = \<lparr>tl_word = (\<lambda>r. r \<noteq> ''-''), tl_hash = (\<lambda>s. ''h'')\<rparr>"

definition blank_operation :: treeOperation where
  "blank_operation =
     \<lparr>op_Type = [], op_TopicID = [], op_GroupID = [], op_NodeID = [], op_NodeIDs = [], op_EvidenceItemIDs = [],
      op_Label = [], op_Title = [], op_Description = [], op_ToParentID = [], op_ParentTopicID = [], op_ParentID = [],
      op_FromTopicID = [], op_IntoTopicID = [], op_requestedTargetIDs = [], op_requestedParentID = [],
      op_aliasResolvedCount = 0, op_nonCanonicalReference = False\<rparr>"

definition move_to :: "gostring \<Rightarrow> gostring \<Rightarrow> treeOperation" where
  "move_to i parent = blank_operation\<lparr>op_Type := ''move_node'', op_NodeID := i, op_ToParentID := parent\<rparr>"

definition sample_policy :: tree_policy where
  "sample_policy = \<lparr>tp_PromotionMinItems = 2, tp_MaxDynamicTopics = 6\<rparr>"

lemma sample_is_normal: "normalizeLegacyAgendaTopicIDs sample_lib None sample_tree = (sample_tree, [])"
  by code_simp

theorem reorganizations_are_safe_witness:
  "case applyTreeOperations sample_lib (map fst) None sample_policy 2 (Some sample_tree)
      [move_to ''i1'' ''topic-b'', move_to ''i2'' ''topic-x''] zero_stats of (r, st') \<Rightarrow>
    map oe_Index (ms_ReorganizeOperations st') = [0, 1] \<and> evaluated st' = 2 \<and>
    batch_outcome None sample_tree r zero_stats st'"
proof -
  have d: "distinct (map tn_ID (tr_Nodes (fst (normalizeLegacyAgendaTopicIDs sample_lib None sample_tree))))"
    unfolding sample_is_normal by code_simp
  have e: "evaluation_order 2 = [0, 1]" "evaluated zero_stats = 0" "ms_ReorganizeOperations zero_stats = []" by code_simp+
  have l: "length [move_to ''i1'' ''topic-b'', move_to ''i2'' ''topic-x''] = 2" by simp
  show ?thesis
    using reorganizations_are_safe [OF d, where order = "map fst" and policy = sample_policy and version = 2 and st = zero_stats and
      ops = "[move_to ''i1'' ''topic-b'', move_to ''i2'' ''topic-x'']"]
    unfolding sample_is_normal fst_conv l e list.map append_Nil add_0 .
qed

end
