(* ===== verification/TreeAuditLane.thy ===== *)
theory TreeAuditLane
  imports AnalysisStore TreeIntegrity
begin

text \<open>
  The scheduling of tree audits of one meeting session (\<open>internal/application/ai_tree_audit.go\<close>, with the
  audit parts of \<open>tick\<close>, \<open>prepareFinalization\<close> and \<open>Close\<close> of \<open>ai_analysis.go\<close>): when an audit is due, the
  single flight with one coalesced rerun, what its end leaves behind.

  An \<open>audit_lane\<close> is the audit part of \<open>liveAnalysisSessionState\<close> with the fields it shares with the live
  scheduler.  Each critical section is one step; a flight is the goroutine of a scheduled audit, with
  the context it was given: cancelled or not.  A context made of a cancelled one is cancelled.  A call
  of \<open>scheduleTreeAudit\<close> is a step of its own, since the lock is released before it.  The tree
  version of a payload is the parameter \<open>tv\<close>, and \<open>auditRunningDone\<close>, which nobody waits for, is left out.
\<close>

section \<open>Configuration\<close>

record TreeAuditConfig =
  ac_Enabled :: bool
  ac_IntervalVersions :: int
  ac_Interval :: duration
  ac_MinInterval :: duration
  ac_MaxRunsPerSession :: int
  ac_MaxRunsPerHour :: int
  ac_HighSeverityMinInterval :: duration
  ac_HighSeverityMaxRunsPerHour :: int
  ac_MaxPersistedJSONBytes :: int
  ac_UnappliedWarningThreshold :: int

definition or_default :: "int \<Rightarrow> int \<Rightarrow> int" where
  "or_default d v = (if v \<le> 0 then d else v)"

definition normalized_audit :: "TreeAuditConfig \<Rightarrow> TreeAuditConfig" where
  "normalized_audit c =
     \<lparr>ac_Enabled = ac_Enabled c, ac_IntervalVersions = or_default 3 (ac_IntervalVersions c),
      ac_Interval = or_default (5 * minute) (ac_Interval c),
      ac_MinInterval = or_default (5 * minute) (ac_MinInterval c),
      ac_MaxRunsPerSession = or_default 20 (ac_MaxRunsPerSession c),
      ac_MaxRunsPerHour = or_default 12 (ac_MaxRunsPerHour c),
      ac_HighSeverityMinInterval = or_default minute (ac_HighSeverityMinInterval c),
      ac_HighSeverityMaxRunsPerHour = or_default 4 (ac_HighSeverityMaxRunsPerHour c),
      ac_MaxPersistedJSONBytes = or_default (256 * 1024) (ac_MaxPersistedJSONBytes c),
      ac_UnappliedWarningThreshold = or_default 3 (ac_UnappliedWarningThreshold c)\<rparr>"

definition treeAuditRepositoryFailureBackoff :: duration where
  "treeAuditRepositoryFailureBackoff = 10 * second"

definition auditSessionGCAfter :: duration where "auditSessionGCAfter = 3 * hour"

section \<open>Reasons\<close>

definition treeAuditTriggerClass :: "gostring \<Rightarrow> bool \<Rightarrow> MeetingTreeAuditTriggerClass" where
  "treeAuditTriggerClass reason finalReview =
     (if finalReview then TriggerFinal
      else if list_ex (\<lambda>p. trim_space p \<in> set [''semantic_anomaly'', ''cross_agenda_contamination'', ''integrity_invalid''])
             (split_on (CHR '','') reason) then TriggerHigh
      else TriggerNormal)"

definition coalesceTreeAuditReason :: "gostring \<Rightarrow> gostring \<Rightarrow> gostring" where
  "coalesceTreeAuditReason left right =
     join '','' (uniqueNonEmptyIDs (sort (filter (\<lambda>p. p \<noteq> []) (split_on (CHR '','') (left @ '','' @ right)))))"

section \<open>The lane\<close>

record audit_lane =
  al_running :: bool
  al_cancel :: "nat option"
  al_pending :: bool
  al_pendingReason :: gostring
  al_lastAuditAt :: gotime
  al_lastHighSeverityAuditAt :: gotime
  al_lastAuditVersion :: int
  al_lastAuditHash :: gostring
  al_repoBackoffUntil :: gotime
  al_closed :: bool
  al_finalizing :: bool
  al_liveRunning :: bool
  al_lastPayload :: gostring
  al_lastVersion :: int
  al_lastActivityAt :: gotime

definition new_lane :: audit_lane where
  "new_lane =
     \<lparr>al_running = False, al_cancel = None, al_pending = False, al_pendingReason = [], al_lastAuditAt = 0,
      al_lastHighSeverityAuditAt = 0, al_lastAuditVersion = 0, al_lastAuditHash = [], al_repoBackoffUntil = 0,
      al_closed = False, al_finalizing = False, al_liveRunning = False, al_lastPayload = [], al_lastVersion = 0,
      al_lastActivityAt = 0\<rparr>"

text \<open>A call of \<open>scheduleTreeAudit\<close> that is under way, and a goroutine it has started.\<close>

record audit_request =
  rq_reason :: gostring
  rq_payload :: gostring
  rq_version :: int
  rq_cancelled :: bool

record audit_flight =
  fl_id :: nat
  fl_request :: audit_request
  fl_cancelled :: bool

record audit_desk =
  ak_lane :: "audit_lane option"
  ak_requests :: "audit_request list"
  ak_flights :: "audit_flight list"
  ak_next :: nat

definition empty_audit_desk :: audit_desk where
  "empty_audit_desk = \<lparr>ak_lane = None, ak_requests = [], ak_flights = [], ak_next = 0\<rparr>"

text \<open>\<open>sessionStateLocked\<close> makes the entry when there is none.\<close>

definition lane_of :: "audit_desk \<Rightarrow> audit_lane" where
  "lane_of d = (case ak_lane d of None \<Rightarrow> new_lane | Some l \<Rightarrow> l)"

definition put_lane :: "audit_lane \<Rightarrow> audit_desk \<Rightarrow> audit_desk" where
  "put_lane l d = d\<lparr>ak_lane := Some l\<rparr>"

definition cancel_flight :: "nat option \<Rightarrow> audit_flight list \<Rightarrow> audit_flight list" where
  "cancel_flight c fs = map (\<lambda>f. if c = Some (fl_id f) then f\<lparr>fl_cancelled := True\<rparr> else f) fs"

section \<open>Scheduling\<close>

definition version_of :: "(gostring \<Rightarrow> int) \<Rightarrow> gostring \<Rightarrow> int \<Rightarrow> int" where
  "version_of tv payload version = (if tv payload \<le> 0 then version else tv payload)"

text \<open>The reasons a payload gives are an argument; the request passes the guards at the start of \<open>scheduleTreeAudit\<close>.\<close>

definition considerTreeAudit ::
    "TreeAuditConfig \<Rightarrow> (gostring \<Rightarrow> int) \<Rightarrow> gostring list \<Rightarrow> gostring \<Rightarrow> int \<Rightarrow> bool \<Rightarrow> audit_desk \<Rightarrow> audit_desk" where
  "considerTreeAudit cfg tv reasons payload version cancelled d =
     (if \<not> ac_Enabled cfg \<or> version \<le> 0 \<or> payload = [] then d
      else (let l = lane_of d; due = ac_IntervalVersions cfg \<le> version_of tv payload version - al_lastAuditVersion l;
                d1 = put_lane l d in
        if reasons = [] \<and> \<not> due then d1
        else d1\<lparr>ak_requests := ak_requests d1 @
          [\<lparr>rq_reason = join '','' (uniqueNonEmptyIDs (reasons @ (if due then [''interval_versions''] else []))),
            rq_payload = payload, rq_version = version, rq_cancelled = cancelled\<rparr>]\<rparr>))"

definition postpone :: "gostring \<Rightarrow> audit_lane \<Rightarrow> audit_lane" where
  "postpone reason l = l\<lparr>al_pending := True, al_pendingReason := coalesceTreeAuditReason (al_pendingReason l) reason\<rparr>"

text \<open>The end and the length of the pause after an audit, by class.\<close>

definition pause :: "TreeAuditConfig \<Rightarrow> gostring \<Rightarrow> audit_lane \<Rightarrow> gotime \<times> duration" where
  "pause cfg reason l =
     (if treeAuditTriggerClass reason False = TriggerHigh
      then (al_lastHighSeverityAuditAt l, ac_HighSeverityMinInterval cfg) else (al_lastAuditAt l, ac_MinInterval cfg))"

definition paused :: "gotime \<Rightarrow> gotime \<times> duration \<Rightarrow> bool" where
  "paused now p \<longleftrightarrow> \<not> is_zero (fst p) \<and> time_sub now (fst p) < snd p"

definition admit :: "audit_request \<Rightarrow> audit_lane \<Rightarrow> audit_desk \<Rightarrow> audit_desk" where
  "admit r l d =
     (let n = ak_next d in
      d\<lparr>ak_lane := Some (l\<lparr>al_running := True, al_cancel := Some n, al_pending := False, al_pendingReason := []\<rparr>),
        ak_flights := ak_flights d @ [\<lparr>fl_id = n, fl_request = r, fl_cancelled = rq_cancelled r\<rparr>],
        ak_next := Suc n\<rparr>)"

definition scheduleTreeAudit ::
    "TreeAuditConfig \<Rightarrow> (gostring \<Rightarrow> int) \<Rightarrow> gotime \<Rightarrow> audit_request \<Rightarrow> audit_desk \<Rightarrow> audit_desk" where
  "scheduleTreeAudit cfg tv now r d =
     (if \<not> ac_Enabled cfg \<or> rq_payload r = [] \<or> rq_version r \<le> 0 then d
      else (let l = lane_of d; version = version_of tv (rq_payload r) (rq_version r); later = put_lane (postpone (rq_reason r) l) d in
        if al_closed l then put_lane l d
        else if al_finalizing l then later
        else if al_running l then later
        else if version \<le> al_lastAuditVersion l then put_lane l d
        else if now < al_repoBackoffUntil l then later
        else if paused now (pause cfg (rq_reason r) l) then later
        else admit r l d))"

section \<open>The end of a flight\<close>

record treeAuditExecution =
  ex_Payload :: gostring
  ex_Version :: int
  ex_ResultingTreeVersion :: int
  ex_RunID :: gostring
  ex_SnapshotHash :: gostring
  ex_Result :: gostring
  ex_Applied :: bool
  ex_AuditedVersion :: int
  ex_TriggerClass :: MeetingTreeAuditTriggerClass
  ex_ProviderCalled :: bool

definition failed_results :: "gostring list" where
  "failed_results = [''failed'', ''timeout'', ''canceled'', ''invalid_schema'', ''panic'']"

definition audited_version :: "(gostring \<Rightarrow> int) \<Rightarrow> treeAuditExecution \<Rightarrow> int" where
  "audited_version tv x =
     (let v = (if ex_AuditedVersion x = 0 then tv (ex_Payload x) else ex_AuditedVersion x) in
      if ex_Applied x \<and> v < ex_ResultingTreeVersion x then ex_ResultingTreeVersion x else v)"

text \<open>What the execution writes into the lane, before the rerun is decided.\<close>

definition landed :: "(gostring \<Rightarrow> int) \<Rightarrow> gotime \<Rightarrow> treeAuditExecution \<Rightarrow> int \<Rightarrow> audit_lane \<Rightarrow> audit_lane" where
  "landed tv now x requestedVersion l0 =
     (let auditFailed = ex_Result x \<in> set failed_results; audited = audited_version tv x;
          l1 = l0\<lparr>al_running := False, al_cancel := None\<rparr>;
          l2 = (if auditFailed \<and> \<not> ex_ProviderCalled x
            then l1\<lparr>al_repoBackoffUntil := now + treeAuditRepositoryFailureBackoff\<rparr>
            else l1\<lparr>al_lastAuditAt := now, al_repoBackoffUntil := 0\<rparr>);
          l3 = (if \<not> auditFailed \<and> al_lastAuditVersion l2 < audited then l2\<lparr>al_lastAuditVersion := audited\<rparr> else l2);
          l4 = (if auditFailed \<and> \<not> al_closed l3 then postpone ''retry_failed_audit'' l3 else l3);
          l5 = (if ex_TriggerClass x = TriggerHigh \<and> \<not> auditFailed then l4\<lparr>al_lastHighSeverityAuditAt := now\<rparr> else l4);
          l6 = l5\<lparr>al_lastAuditHash := ex_SnapshotHash x\<rparr>;
          l7 = (if ex_Applied x \<and> al_lastVersion l6 = requestedVersion
            then l6\<lparr>al_lastPayload := ex_Payload x, al_lastVersion := ex_Version x\<rparr> else l6) in
      if audited < tv (al_lastPayload l7) \<and> \<not> al_closed l7 then postpone ''newer_tree_version'' l7 else l7)"

definition finishTreeAuditFlight ::
    "TreeAuditConfig \<Rightarrow> (gostring \<Rightarrow> int) \<Rightarrow> gotime \<Rightarrow> audit_flight \<Rightarrow> treeAuditExecution \<Rightarrow> audit_desk \<Rightarrow> audit_desk" where
  "finishTreeAuditFlight cfg tv now f x d =
     (let l0 = lane_of d; cancelled = cancel_flight (al_cancel l0) (ak_flights d);
          own = (case find (\<lambda>g. fl_id g = fl_id f) cancelled of None \<Rightarrow> f | Some g \<Rightarrow> g);
          l = landed tv now x (rq_version (fl_request f)) l0;
          rerun = al_pending l \<and> \<not> al_finalizing l \<and> \<not> al_closed l \<and> \<not> now < al_repoBackoffUntil l \<and>
            \<not> paused now (pause cfg (al_pendingReason l) l) in
      d\<lparr>ak_lane := Some (if rerun then l\<lparr>al_pending := False, al_pendingReason := []\<rparr> else l),
        ak_flights := filter (\<lambda>g. fl_id g \<noteq> fl_id f) cancelled,
        ak_requests := ak_requests d @ (if rerun then
          [\<lparr>rq_reason = al_pendingReason l, rq_payload = al_lastPayload l, rq_version = al_lastVersion l,
            rq_cancelled = fl_cancelled own\<rparr>] else [])\<rparr>)"

section \<open>The ticker, the end of the meeting, the end of the service\<close>

text \<open>Like \<open>tick\<close>, the comparison is between the version of the analysis and the audited version of the tree.\<close>

definition tick_reason :: "TreeAuditConfig \<Rightarrow> gotime \<Rightarrow> audit_lane \<Rightarrow> gostring option" where
  "tick_reason cfg now l =
     (if \<not> ac_Enabled cfg \<or> al_liveRunning l \<or> al_finalizing l \<or> al_closed l \<or> al_running l \<or>
         al_lastVersion l \<le> al_lastAuditVersion l \<or> al_lastPayload l = [] then None
      else
        (let versionDue = ac_IntervalVersions cfg \<le> al_lastVersion l - al_lastAuditVersion l;
             timeDue = (\<not> is_zero (al_lastAuditAt l) \<and> ac_Interval cfg \<le> time_sub now (al_lastAuditAt l)) \<or>
               (is_zero (al_lastAuditAt l) \<and> \<not> is_zero (al_lastActivityAt l) \<and>
                ac_Interval cfg \<le> time_sub now (al_lastActivityAt l));
             pendingDue = al_pending l \<and> \<not> paused now (pause cfg (al_pendingReason l) l) in
         if versionDue \<or> timeDue \<or> pendingDue
         then Some (if al_pendingReason l \<noteq> [] then al_pendingReason l
                    else if versionDue then ''interval_versions'' else ''interval_seconds'')
         else None))"

definition audit_tick :: "TreeAuditConfig \<Rightarrow> gotime \<Rightarrow> bool \<Rightarrow> audit_desk \<Rightarrow> audit_desk" where
  "audit_tick cfg now cancelled d =
     (case ak_lane d of
        None \<Rightarrow> d
      | Some l \<Rightarrow>
          if auditSessionGCAfter < time_sub now (al_lastActivityAt l) then d\<lparr>ak_lane := None\<rparr>
          else (case tick_reason cfg now l of
              None \<Rightarrow> d
            | Some reason \<Rightarrow> d\<lparr>ak_requests := ak_requests d @
                [\<lparr>rq_reason = reason, rq_payload = al_lastPayload l, rq_version = al_lastVersion l,
                  rq_cancelled = cancelled\<rparr>]\<rparr>))"

definition seal_audits :: "audit_desk \<Rightarrow> audit_desk" where
  "seal_audits d =
     (let l = lane_of d in
      d\<lparr>ak_lane := Some (l\<lparr>al_finalizing := True, al_closed := True, al_pending := False, al_pendingReason := []\<rparr>),
        ak_flights := cancel_flight (al_cancel l) (ak_flights d)\<rparr>)"

definition close_audits :: "audit_desk \<Rightarrow> audit_desk" where
  "close_audits d =
     (case ak_lane d of None \<Rightarrow> d | Some l \<Rightarrow> d\<lparr>ak_flights := cancel_flight (al_cancel l) (ak_flights d)\<rparr>)"

definition treeAuditApplyAllowed :: "bool \<Rightarrow> audit_desk \<Rightarrow> bool" where
  "treeAuditApplyAllowed finalReview d \<longleftrightarrow>
     finalReview \<or> \<not> al_finalizing (lane_of d) \<and> \<not> al_closed (lane_of d)"

section \<open>All of it, in any order\<close>

text \<open>
  \<open>Shared\<close> stands for whatever the live scheduler writes into the fields it shares, in any order and
  with any values; \<open>Admit\<close> and \<open>Land\<close> name a request and a flight by their place.
\<close>

datatype audit_action =
    Consider "gostring list" gostring int bool
  | Tick gotime bool
  | Admit gotime nat
  | Land gotime nat treeAuditExecution
  | Seal
  | Shutdown
  | Shared bool bool gostring int gotime

definition share :: "bool \<Rightarrow> bool \<Rightarrow> gostring \<Rightarrow> int \<Rightarrow> gotime \<Rightarrow> audit_lane \<Rightarrow> audit_lane" where
  "share finalizing liveRunning payload version activity l =
     l\<lparr>al_finalizing := finalizing, al_liveRunning := liveRunning, al_lastPayload := payload,
       al_lastVersion := version, al_lastActivityAt := activity\<rparr>"

definition audit_turn :: "TreeAuditConfig \<Rightarrow> (gostring \<Rightarrow> int) \<Rightarrow> audit_action \<Rightarrow> audit_desk \<Rightarrow> audit_desk" where
  "audit_turn cfg tv a d =
     (case a of
        Consider reasons payload version cancelled \<Rightarrow> considerTreeAudit cfg tv reasons payload version cancelled d
      | Tick now cancelled \<Rightarrow> audit_tick cfg now cancelled d
      | Admit now k \<Rightarrow>
          (if k < length (ak_requests d)
           then scheduleTreeAudit cfg tv now (ak_requests d ! k)
             (d\<lparr>ak_requests := take k (ak_requests d) @ drop (Suc k) (ak_requests d)\<rparr>)
           else d)
      | Land now k x \<Rightarrow>
          (if k < length (ak_flights d) then finishTreeAuditFlight cfg tv now (ak_flights d ! k) x d else d)
      | Seal \<Rightarrow> seal_audits d
      | Shutdown \<Rightarrow> close_audits d
      | Shared finalizing liveRunning payload version activity \<Rightarrow>
          put_lane (share finalizing liveRunning payload version activity (lane_of d)) d)"

definition audit_turns :: "TreeAuditConfig \<Rightarrow> (gostring \<Rightarrow> int) \<Rightarrow> audit_action list \<Rightarrow> audit_desk \<Rightarrow> audit_desk" where
  "audit_turns cfg tv as d = fold (audit_turn cfg tv) as d"

text \<open>The ticker forgets a session it has heard nothing of for hours, whatever is under way for it.\<close>

definition forgets :: "audit_action \<Rightarrow> audit_desk \<Rightarrow> bool" where
  "forgets a d \<longleftrightarrow>
     (case a of Tick now _ \<Rightarrow>
        (case ak_lane d of None \<Rightarrow> False | Some l \<Rightarrow> auditSessionGCAfter < time_sub now (al_lastActivityAt l))
      | _ \<Rightarrow> False)"

fun remembered :: "TreeAuditConfig \<Rightarrow> (gostring \<Rightarrow> int) \<Rightarrow> audit_action list \<Rightarrow> audit_desk \<Rightarrow> bool" where
  "remembered cfg tv [] d \<longleftrightarrow> True"
| "remembered cfg tv (a # as) d \<longleftrightarrow>
     \<not> (forgets a d \<and> ak_flights d \<noteq> []) \<and> remembered cfg tv as (audit_turn cfg tv a d)"

end
