(* ===== verification/TreeAuditRun.thy ===== *)
theory TreeAuditRun
  imports TreeAuditLane TreeState
begin

text \<open>
  One audit of a tree, \<open>runTreeAudit\<close> of \<open>internal/application/ai_tree_audit.go\<close>: the claim of a row in the audit
  history, the limits, the call of the model, and the verdict with its write.

  The repository calls are numbered in the order of the code.  Before call \<open>k\<close> other writers may have changed the
  tables (\<open>ae_drift\<close>), it may fail in the driver or because the context is cancelled (\<open>ae_fails\<close>), and it has a moment of
  its own.  What the snapshot, the parser, the validator of operations and the deterministic repair make of a
  payload are arguments (\<open>audit_judgement\<close>), JSON encodings of verdicts are in \<open>audit_lib\<close>.  Of the validator's
  result the fields this function reads or writes are kept.  Panics and log lines are left out.
\<close>

section \<open>Verdicts\<close>

record treeAuditValidatorEvaluation =
  ve_OperationID :: gostring
  ve_Result :: gostring
  ve_Reason :: gostring
  ve_Valid :: bool
  ve_Applied :: bool

record treeAuditValidatorResult =
  vr_Evaluations :: "treeAuditValidatorEvaluation list"
  vr_OperationsProposed :: int
  vr_OperationsValid :: int
  vr_OperationsApplied :: int
  vr_OperationsRejected :: int
  vr_StaleOperationsRejected :: int
  vr_ParserElementsRejected :: int
  vr_OperationsCanonicalized :: int
  vr_FallbackEvaluated :: bool
  vr_FallbackApplied :: bool
  vr_FallbackAction :: gostring
  vr_FallbackReason :: gostring

record audit_lib =
  tb_tree_lib :: tree_lib
  tb_context :: "meetingContext option"
  tb_treeVersion :: "gostring \<Rightarrow> int"
  tb_tree :: "gostring \<Rightarrow> liveAnalysisTree option"
  tb_items :: "gostring \<Rightarrow> liveAnalysisItem list"
  tb_encode :: "treeAuditValidatorResult \<Rightarrow> gostring"
  tb_decode :: "gostring \<Rightarrow> treeAuditValidatorResult"
  tb_integrity_json :: "gostring \<Rightarrow> gostring"
  tb_array_length :: "gostring \<Rightarrow> int"
  tb_reasons_json :: "gostring list \<Rightarrow> gostring"
  tb_error_text :: "goerror \<Rightarrow> gostring"

definition truncated_json :: gostring where
  "truncated_json = ''{\"truncated\":true,\"reason\":\"size_limit\"}''"

definition boundedAuditJSON :: "gostring \<Rightarrow> int \<Rightarrow> gostring" where
  "boundedAuditJSON encoded maxBytes =
     (if maxBytes \<le> 0 \<or> int (length encoded) \<le> maxBytes then encoded else truncated_json)"

fun runes_within :: "nat \<Rightarrow> gostring list \<Rightarrow> gostring" where
  "runes_within remaining [] = []"
| "runes_within remaining (r # rs) =
     (if remaining < length r then [] else r @ runes_within (remaining - length r) rs)"

definition boundedAuditText :: "gostring \<Rightarrow> int \<Rightarrow> gostring" where
  "boundedAuditText v maxBytes =
     (if maxBytes \<le> 0 \<or> int (length v) \<le> maxBytes then v else runes_within (nat maxBytes) (runes v))"

text \<open>The reason most of the rejected operations have; of several the least.\<close>

definition count_in :: "gostring list \<Rightarrow> gostring \<Rightarrow> nat" where
  "count_in rs r = length (filter (\<lambda>q. q = r) rs)"

definition dominantAuditRejectionReason :: "gostring list \<Rightarrow> gostring" where
  "dominantAuditRejectionReason reasons =
     (let best = fold max (map (count_in reasons) reasons) 0 in
      case sort (filter (\<lambda>r. count_in reasons r = best) reasons) of [] \<Rightarrow> [] | r # _ \<Rightarrow> r)"

definition rejection_reasons :: "treeAuditValidatorResult \<Rightarrow> gostring list" where
  "rejection_reasons v =
     map ve_Reason (filter (\<lambda>e. \<not> ve_Valid e \<and> trim_space (ve_Reason e) \<noteq> []) (vr_Evaluations v))"

definition dominantAuditValidatorRejection :: "treeAuditValidatorResult \<Rightarrow> gostring" where
  "dominantAuditValidatorRejection v = dominantAuditRejectionReason (rejection_reasons v)"

definition markTreeAuditValidatorApplied :: "treeAuditValidatorResult \<Rightarrow> treeAuditValidatorResult" where
  "markTreeAuditValidatorApplied v =
     v\<lparr>vr_OperationsApplied := int (length (filter ve_Valid (vr_Evaluations v))),
       vr_Evaluations := map (\<lambda>e. if ve_Valid e then e\<lparr>ve_Applied := True\<rparr> else e) (vr_Evaluations v)\<rparr>"

definition nothing_applied :: "treeAuditValidatorResult \<Rightarrow> treeAuditValidatorResult" where
  "nothing_applied v =
     v\<lparr>vr_OperationsApplied := 0, vr_Evaluations := map (\<lambda>e. e\<lparr>ve_Applied := False\<rparr>) (vr_Evaluations v)\<rparr>"

definition stale_verdict :: "treeAuditValidatorResult \<Rightarrow> treeAuditValidatorResult" where
  "stale_verdict v = (nothing_applied v)\<lparr>vr_StaleOperationsRejected := vr_OperationsValid v\<rparr>"

text \<open>The class of a finished run and the number of runs in a row that changed nothing.\<close>

definition run_class :: "treeAuditValidatorResult \<Rightarrow> int \<Rightarrow> int \<Rightarrow> MeetingTreeAuditRun \<Rightarrow> MeetingTreeAuditResultClassification" where
  "run_class v findings proposed run =
     (if \<not> (ar_ProviderCalled run \<and> ar_Status run = AuditCompleted) \<and> ar_Result run \<noteq> ''no_anomalies'' then ResultNone
      else if vr_FallbackApplied v \<and> ar_BasedOnTreeVersion run < ar_ResultingTreeVersion run then ResultApplied
      else if 0 < vr_OperationsApplied v \<and> ar_BasedOnTreeVersion run < ar_ResultingTreeVersion run then ResultApplied
      else if findings = 0 \<and> proposed = 0 then ResultClean
      else if 0 < findings \<and> proposed = 0 then ResultFindingsOnly
      else ResultRejected)"

definition previous_unapplied :: "gostring \<Rightarrow> MeetingTreeAuditRun option \<Rightarrow> int" where
  "previous_unapplied sessionID latest =
     (case latest of None \<Rightarrow> 0 | Some r \<Rightarrow> if ar_SessionID r = sessionID then ar_ConsecutiveUnappliedRuns r else 0)"

definition classifyTreeAuditRun ::
    "audit_lib \<Rightarrow> TreeAuditConfig \<Rightarrow> MeetingTreeAuditRun option \<Rightarrow> MeetingTreeAuditRun \<Rightarrow> MeetingTreeAuditRun" where
  "classifyTreeAuditRun lib cfg previous run =
     (let v = tb_decode lib (ar_ValidatorResult run);
          operations = tb_array_length lib (ar_Operations run);
          proposed = (if vr_OperationsProposed v = 0 \<and> 0 < operations then operations else vr_OperationsProposed v);
          reasons = rejection_reasons v; class = run_class v (tb_array_length lib (ar_Findings run)) proposed run;
          before = previous_unapplied (ar_SessionID run) previous in
      run\<lparr>ar_OperationsProposed := proposed, ar_OperationsCanonicalized := vr_OperationsCanonicalized v,
        ar_OperationsValid := vr_OperationsValid v, ar_OperationsApplied := vr_OperationsApplied v,
        ar_OperationsRejected := vr_OperationsRejected v,
        ar_RejectionReasons := (if reasons = [] then []
          else boundedAuditJSON (tb_reasons_json lib reasons) (ac_MaxPersistedJSONBytes (normalized_audit cfg))),
        ar_ResultClassification := class,
        ar_ConsecutiveUnappliedRuns := (if class = ResultFindingsOnly \<or> class = ResultRejected then before + 1
          else if class = ResultClean \<or> class = ResultApplied then 0 else before)\<rparr>)"

section \<open>The world of a run\<close>

record audit_env =
  ae_moment :: "nat \<Rightarrow> env"
  ae_fails :: "nat \<Rightarrow> bool"
  ae_drift :: "nat \<Rightarrow> analysis_db \<Rightarrow> analysis_db"
  ae_contextError :: "(gostring \<times> gostring) option"
  ae_applyAllowed :: bool

definition audit_call :: "audit_env \<Rightarrow> nat \<Rightarrow> (analysis_db, 'a) op \<Rightarrow> analysis_db \<Rightarrow> 'a result \<times> analysis_db" where
  "audit_call ev k f db =
     (if ae_fails ev k then (Inl ErrDatabase, ae_drift ev k db) else f (ae_moment ev k) (ae_drift ev k db))"

record audit_task =
  at_name :: gostring
  at_promptVersion :: gostring
  at_deployment :: gostring

record audit_snapshot =
  sp_Hash :: gostring
  sp_Summary :: gostring
  sp_InputJSON :: gostring
  sp_Findings :: nat

record audit_job =
  aj_SessionID :: gostring
  aj_Reason :: gostring
  aj_Task :: audit_task
  aj_Payload :: gostring
  aj_Version :: int
  aj_Final :: bool
  aj_RunID :: gostring
  aj_Elapsed :: int

datatype audit_repair =
    RepairError | RepairIntegrityRejected | RepairUnchanged | RepairSameTree | Repaired "gostring option"

record audit_judgement =
  jd_Findings :: gostring
  jd_Operations :: gostring
  jd_Validator :: treeAuditValidatorResult
  jd_Rejections :: "(bool \<times> gostring \<times> gostring) list"
  jd_Canonicalized :: int
  jd_Encodes :: bool
  jd_SameTree :: bool
  jd_Payload :: "gostring option"
  jd_Repair :: audit_repair

datatype audit_answer = CallFailed gostring gostring | BadSchema gostring | Answered audit_judgement

record audit_reply =
  ra_Answer :: audit_answer
  ra_Model :: gostring
  ra_Content :: gostring
  ra_PromptTokens :: int
  ra_CompletionTokens :: int
  ra_ElapsedMilliseconds :: int

datatype audit_error =
    RepositoryError goerror | NoTree | SnapshotError gostring | ModelError gostring gostring | SchemaError gostring
  | EncodeError | UnsavedFailure audit_error goerror

type_synonym audit_outcome = "treeAuditExecution \<times> audit_error option \<times> analysis_db"

definition start_execution :: "audit_job \<Rightarrow> treeAuditExecution" where
  "start_execution job =
     \<lparr>ex_Payload = aj_Payload job, ex_Version = aj_Version job, ex_ResultingTreeVersion = 0, ex_RunID = [],
      ex_SnapshotHash = [], ex_Result = [], ex_Applied = False, ex_AuditedVersion = 0,
      ex_TriggerClass = treeAuditTriggerClass (aj_Reason job) (aj_Final job), ex_ProviderCalled = False\<rparr>"

definition treeAuditMeetingElapsedSeconds :: "MeetingSession option \<Rightarrow> gotime \<Rightarrow> int" where
  "treeAuditMeetingElapsedSeconds session now =
     (case session of None \<Rightarrow> 0
      | Some s \<Rightarrow>
          (let started = (if \<not> is_zero (ms_JoinedAt s) then ms_JoinedAt s
             else if \<not> is_zero (ms_RequestedAt s) then ms_RequestedAt s else ms_CreatedAt s) in
           if is_zero started \<or> now < started then 0 else time_sub now started div second))"

section \<open>Ways a run ends\<close>

definition error_message :: "audit_lib \<Rightarrow> audit_error \<Rightarrow> gostring" where
  "error_message lib e =
     (case e of RepositoryError r \<Rightarrow> tb_error_text lib r | ModelError _ t \<Rightarrow> t | SchemaError t \<Rightarrow> t | SnapshotError t \<Rightarrow> t
      | _ \<Rightarrow> [])"

definition failTreeAuditRun ::
    "audit_lib \<Rightarrow> json_column \<Rightarrow> audit_env \<Rightarrow> MeetingTreeAuditRun \<Rightarrow> gostring \<Rightarrow> audit_error \<Rightarrow> treeAuditExecution \<Rightarrow>
     analysis_db \<Rightarrow> audit_outcome" where
  "failTreeAuditRun lib jc ev run code cause x db =
     (case audit_call ev 10 (SaveMeetingTreeAuditRun jc (run\<lparr>ar_Status := AuditFailed, ar_Result := ''failed'',
          ar_Disposition := ''rejected'', ar_ErrorCode := code,
          ar_ErrorMessage := truncateErrorMessage (error_message lib cause) 1000,
          ar_CompletedAt := Some (fst (ae_moment ev 10))\<rparr>)) db of
        (Inl e, db1) \<Rightarrow> (x, Some (UnsavedFailure cause e), db1)
      | (Inr _, db1) \<Rightarrow> (x, Some cause, db1))"

text \<open>The row is saved at call \<open>k\<close>, and the execution has its result.\<close>

definition conclude ::
    "json_column \<Rightarrow> audit_env \<Rightarrow> nat \<Rightarrow> MeetingTreeAuditRun \<Rightarrow> audit_error option \<Rightarrow> treeAuditExecution \<Rightarrow> analysis_db \<Rightarrow>
     audit_outcome" where
  "conclude jc ev k run err x db =
     (case audit_call ev k (SaveMeetingTreeAuditRun jc run) db of
        (Inl e, db1) \<Rightarrow> (x, Some (RepositoryError e), db1)
      | (Inr _, db1) \<Rightarrow> (x\<lparr>ex_Result := ar_Result run\<rparr>, err, db1))"

definition closed_run :: "audit_env \<Rightarrow> nat \<Rightarrow> MeetingTreeAuditStatus \<Rightarrow> gostring \<Rightarrow> gostring \<Rightarrow> MeetingTreeAuditRun \<Rightarrow> MeetingTreeAuditRun" where
  "closed_run ev k status res disposition run =
     run\<lparr>ar_Status := status, ar_Result := res, ar_Disposition := disposition,
       ar_CompletedAt := Some (fst (ae_moment ev k))\<rparr>"

section \<open>The verdict\<close>

text \<open>The operations the parser has thrown out are proposed and rejected ones as well.\<close>

definition full_verdict :: "audit_judgement \<Rightarrow> treeAuditValidatorResult" where
  "full_verdict j =
     (let v = jd_Validator j; thrown = filter fst (jd_Rejections j); n = int (length thrown) in
      v\<lparr>vr_ParserElementsRejected := int (length (jd_Rejections j)), vr_OperationsCanonicalized := jd_Canonicalized j,
        vr_Evaluations := vr_Evaluations v @ map (\<lambda>(_, i, reason).
          \<lparr>ve_OperationID = i, ve_Result = ''rejected'', ve_Reason = ''parser_'' @ reason, ve_Valid = False, ve_Applied = False\<rparr>) thrown,
        vr_OperationsProposed := vr_OperationsProposed v + n, vr_OperationsRejected := vr_OperationsRejected v + n\<rparr>)"

definition with_verdict :: "audit_lib \<Rightarrow> TreeAuditConfig \<Rightarrow> treeAuditValidatorResult \<Rightarrow> MeetingTreeAuditRun \<Rightarrow> MeetingTreeAuditRun" where
  "with_verdict lib cfg v run = run\<lparr>ar_ValidatorResult := boundedAuditJSON (tb_encode lib v) (ac_MaxPersistedJSONBytes cfg)\<rparr>"

definition audited_row :: "audit_job \<Rightarrow> audit_reply \<Rightarrow> gostring \<Rightarrow> MeetingAIAnalysis \<Rightarrow> gotime \<Rightarrow> MeetingAIAnalysis" where
  "audited_row job reply payload current now =
     \<lparr>aa_SessionID = aj_SessionID job, aa_Type = AnalysisLive, aa_Status = AnalysisCompleted,
      aa_Version = aj_Version job + 1, aa_Payload = payload, aa_Model = ra_Model reply,
      aa_SegmentCount = aa_SegmentCount current, aa_InputChars = aa_InputChars current, aa_LastError = [],
      aa_CreatedAt = 0, aa_UpdatedAt = now, aa_IntervalSeconds = 0, aa_RequestedAnalysisVersion = 0,
      aa_TargetFromSequenceNo = 0, aa_TargetThroughSequenceNo = 0, aa_StartedAt = 0\<rparr>"

definition applied_execution :: "audit_job \<Rightarrow> int \<Rightarrow> gostring \<Rightarrow> gostring \<Rightarrow> treeAuditExecution \<Rightarrow> treeAuditExecution" where
  "applied_execution job treeVersion payload res x =
     x\<lparr>ex_Payload := payload, ex_Version := aj_Version job + 1, ex_ResultingTreeVersion := treeVersion + 1,
       ex_Applied := True, ex_Result := res\<rparr>"

text \<open>The end of a run that changes nothing.\<close>

definition conclude_verdict ::
    "audit_lib \<Rightarrow> TreeAuditConfig \<Rightarrow> json_column \<Rightarrow> audit_env \<Rightarrow> MeetingTreeAuditRun option \<Rightarrow> treeAuditValidatorResult \<Rightarrow>
     MeetingTreeAuditRun \<Rightarrow> treeAuditExecution \<Rightarrow> analysis_db \<Rightarrow> audit_outcome" where
  "conclude_verdict lib cfg jc ev latest v run x db =
     conclude jc ev 9 (classifyTreeAuditRun lib cfg latest (with_verdict lib cfg v run)) None x db"

text \<open>The transaction that writes the audited tree and the row, at call 8; \<open>stale\<close> is the verdict if it came too late.\<close>

definition apply_audit ::
    "audit_lib \<Rightarrow> TreeAuditConfig \<Rightarrow> json_column \<Rightarrow> audit_env \<Rightarrow> audit_job \<Rightarrow> audit_reply \<Rightarrow> MeetingTreeAuditRun option \<Rightarrow>
     int \<Rightarrow> gostring \<Rightarrow> MeetingAIAnalysis \<Rightarrow> gostring \<Rightarrow> treeAuditValidatorResult \<Rightarrow> treeAuditValidatorResult \<Rightarrow>
     MeetingTreeAuditRun \<Rightarrow> treeAuditExecution \<Rightarrow> analysis_db \<Rightarrow> audit_outcome" where
  "apply_audit lib cfg jc ev job reply latest treeVersion payload current res v stale run0 x db =
     (let run = classifyTreeAuditRun lib cfg latest (with_verdict lib cfg v
            (run0\<lparr>ar_Result := res, ar_Disposition := ''applied'', ar_ResultingTreeVersion := treeVersion + 1\<rparr>)) in
      case audit_call ev 8 (ApplyMeetingTreeAudit jc run (aj_Version job)
             (audited_row job reply payload current (fst (ae_moment ev 8)))) db of
        (Inl e, db1) \<Rightarrow> failTreeAuditRun lib jc ev run ''apply_transaction_error'' (RepositoryError e) x db1
      | (Inr (Some saved), db1) \<Rightarrow> (applied_execution job treeVersion payload res x, None, db1)
      | (Inr None, db1) \<Rightarrow>
          conclude_verdict lib cfg jc ev latest stale (run\<lparr>ar_Result := ''stale_tree_version'', ar_Disposition := ''stale'',
            ar_ResultingTreeVersion := 0\<rparr>) x db1)"

definition fell_back :: "gostring \<Rightarrow> gostring \<Rightarrow> treeAuditValidatorResult \<Rightarrow> treeAuditValidatorResult" where
  "fell_back action reason v = v\<lparr>vr_FallbackAction := action, vr_FallbackReason := reason\<rparr>"

text \<open>No operation is safe: after several such runs the deterministic repair may be applied instead.\<close>

definition no_safe_operations ::
    "audit_lib \<Rightarrow> TreeAuditConfig \<Rightarrow> json_column \<Rightarrow> audit_env \<Rightarrow> audit_job \<Rightarrow> audit_reply \<Rightarrow> MeetingTreeAuditRun option \<Rightarrow>
     int \<Rightarrow> audit_judgement \<Rightarrow> treeAuditValidatorResult \<Rightarrow> MeetingTreeAuditRun \<Rightarrow> treeAuditExecution \<Rightarrow> analysis_db \<Rightarrow> audit_outcome" where
  "no_safe_operations lib cfg jc ev job reply latest treeVersion j v0 run0 x db =
     (let run = run0\<lparr>ar_Result := ''no_safe_operations'', ar_Disposition := ''rejected''\<rparr>;
          dominant = dominantAuditValidatorRejection v0; v = v0\<lparr>vr_FallbackEvaluated := True\<rparr>;
          keep = (\<lambda>w. conclude_verdict lib cfg jc ev latest w run x) in
      if previous_unapplied (aj_SessionID job) latest + 1 < ac_UnappliedWarningThreshold (normalized_audit cfg)
      then keep (v0\<lparr>vr_FallbackAction := ''below_unapplied_threshold''\<rparr>) db
      else (case jd_Repair j of
          RepairError \<Rightarrow> keep (fell_back ''preserve_last_good'' ''repair_error'' v) db
        | RepairIntegrityRejected \<Rightarrow> keep (fell_back ''preserve_last_good'' ''repair_integrity_rejected'' v) db
        | RepairUnchanged \<Rightarrow> keep (fell_back ''no_safe_deterministic_change''
            (if dominant = [] then ''no_repairable_precheck'' else dominant) v) db
        | RepairSameTree \<Rightarrow> keep (fell_back ''no_safe_deterministic_change'' ''canonical_tree_no_op'' v) db
        | Repaired repaired \<Rightarrow>
            (case audit_call ev 7 (GetMeetingAIAnalysis (aj_SessionID job) AnalysisLive) db of
               (Inl e, db1) \<Rightarrow> failTreeAuditRun lib jc ev run ''analysis_repository_error'' (RepositoryError e) x db1
             | (Inr current, db1) \<Rightarrow>
                 if ae_contextError ev \<noteq> None \<or> \<not> ae_applyAllowed ev
                 then keep (fell_back ''preserve_last_good'' ''session_not_applyable'' v) db1
                 else if aa_Version current \<noteq> aj_Version job
                 then keep (fell_back ''preserve_newer_version'' ''stale_tree_version'' v) db1
                 else (case repaired of
                     None \<Rightarrow> failTreeAuditRun lib jc ev run ''payload_encode_error'' EncodeError x db1
                   | Some payload \<Rightarrow>
                       apply_audit lib cfg jc ev job reply latest treeVersion payload current ''deterministic_fallback_applied''
                         ((fell_back ''apply_safe_repair'' dominant v)\<lparr>vr_FallbackApplied := True\<rparr>)
                         (fell_back ''preserve_newer_version'' ''stale_tree_version'' v) run x db1))))"

definition safe_operations ::
    "audit_lib \<Rightarrow> TreeAuditConfig \<Rightarrow> json_column \<Rightarrow> audit_env \<Rightarrow> audit_job \<Rightarrow> audit_reply \<Rightarrow> MeetingTreeAuditRun option \<Rightarrow>
     int \<Rightarrow> audit_judgement \<Rightarrow> treeAuditValidatorResult \<Rightarrow> MeetingTreeAuditRun \<Rightarrow> treeAuditExecution \<Rightarrow> analysis_db \<Rightarrow> audit_outcome" where
  "safe_operations lib cfg jc ev job reply latest treeVersion j v run x db =
     (if ae_contextError ev \<noteq> None \<or> \<not> ae_applyAllowed ev
      then conclude jc ev 9 (classifyTreeAuditRun lib cfg latest
        (case ae_contextError ev of
           None \<Rightarrow> run\<lparr>ar_Result := ''session_ending_discarded'', ar_Disposition := ''stale''\<rparr>
         | Some (res, message) \<Rightarrow> run\<lparr>ar_Result := res, ar_Disposition := ''stale'', ar_ErrorCode := res,
             ar_ErrorMessage := truncateErrorMessage message 1000\<rparr>)) None x db
      else (case audit_call ev 7 (GetMeetingAIAnalysis (aj_SessionID job) AnalysisLive) db of
          (Inl e, db1) \<Rightarrow> failTreeAuditRun lib jc ev run ''analysis_repository_error'' (RepositoryError e) x db1
        | (Inr current, db1) \<Rightarrow>
            if aa_Version current \<noteq> aj_Version job
            then conclude_verdict lib cfg jc ev latest (stale_verdict v)
              (run\<lparr>ar_Result := ''stale_tree_version'', ar_Disposition := ''stale''\<rparr>) x db1
            else if \<not> jd_Encodes j then failTreeAuditRun lib jc ev run ''payload_encode_error'' EncodeError x db1
            else if jd_SameTree j
            then conclude_verdict lib cfg jc ev latest (nothing_applied v)
              (run\<lparr>ar_Result := ''no_op'', ar_Disposition := ''no_op'', ar_ResultingTreeVersion := treeVersion\<rparr>) x db1
            else (case jd_Payload j of
                None \<Rightarrow> failTreeAuditRun lib jc ev run ''payload_encode_error'' EncodeError x db1
              | Some payload \<Rightarrow>
                  (let w = markTreeAuditValidatorApplied v in
                   apply_audit lib cfg jc ev job reply latest treeVersion payload current
                     (if 0 < vr_OperationsApplied w \<and> 0 < vr_OperationsRejected w then ''partial_success'' else ''applied'')
                     w (stale_verdict w) run x db1))))"

definition judge_audit ::
    "audit_lib \<Rightarrow> TreeAuditConfig \<Rightarrow> json_column \<Rightarrow> audit_env \<Rightarrow> audit_job \<Rightarrow> audit_reply \<Rightarrow> MeetingTreeAuditRun option \<Rightarrow>
     int \<Rightarrow> MeetingTreeAuditRun \<Rightarrow> treeAuditExecution \<Rightarrow> analysis_db \<Rightarrow> audit_outcome" where
  "judge_audit lib cfg jc ev job reply latest treeVersion run0 x db =
     (let run = run0\<lparr>ar_Model := ra_Model reply, ar_RawResponse := boundedAuditText (ra_Content reply) (ac_MaxPersistedJSONBytes cfg),
            ar_PromptTokens := ra_PromptTokens reply, ar_CompletionTokens := ra_CompletionTokens reply,
            ar_ElapsedMilliseconds := ra_ElapsedMilliseconds reply\<rparr>;
          broken = (\<lambda>res message e. conclude jc ev 6 ((closed_run ev 6 AuditFailed res ''rejected'' run)
            \<lparr>ar_ErrorCode := res, ar_ErrorMessage := truncateErrorMessage message 1000\<rparr>) (Some e) x db) in
      case ra_Answer reply of
        CallFailed res message \<Rightarrow> broken res message (ModelError res message)
      | BadSchema message \<Rightarrow> broken ''invalid_schema'' message (SchemaError message)
      | Answered j \<Rightarrow>
          (let v = full_verdict j; bound = (\<lambda>s. boundedAuditJSON s (ac_MaxPersistedJSONBytes cfg));
               run1 = (with_verdict lib cfg v run)\<lparr>ar_Findings := bound (jd_Findings j), ar_Operations := bound (jd_Operations j),
                 ar_CompletedAt := Some (fst (ae_moment ev 6)), ar_Status := AuditCompleted\<rparr> in
           if vr_OperationsValid v = 0 then no_safe_operations lib cfg jc ev job reply latest treeVersion j v run1 x db
           else safe_operations lib cfg jc ev job reply latest treeVersion j v run1 x db))"

section \<open>Admission\<close>

definition already_audited :: "audit_job \<Rightarrow> gostring \<Rightarrow> int \<Rightarrow> MeetingTreeAuditRun option \<Rightarrow> bool" where
  "already_audited job hash treeVersion latest \<longleftrightarrow>
     (case latest of None \<Rightarrow> False
      | Some r \<Rightarrow>
          \<not> contains (aj_Reason job) ''manual_replay'' \<and> (ar_Status r = AuditCompleted \<or> ar_Status r = AuditSkipped) \<and>
          ar_Task r = at_name (aj_Task job) \<and> ar_PromptVersion r = at_promptVersion (aj_Task job) \<and>
          ar_Deployment r = at_deployment (aj_Task job) \<and> ar_SnapshotHash r = hash \<and>
          (ar_BasedOnTreeVersion r = treeVersion \<or> ar_ResultingTreeVersion r = treeVersion))"

definition audit_row ::
    "TreeAuditConfig \<Rightarrow> audit_env \<Rightarrow> audit_job \<Rightarrow> audit_snapshot \<Rightarrow> int \<Rightarrow> MeetingTreeAuditRun option \<Rightarrow> MeetingTreeAuditRun" where
  "audit_row cfg ev job s treeVersion latest =
     \<lparr>ar_ID = aj_RunID job, ar_SessionID = aj_SessionID job, ar_BasedOnTreeVersion = treeVersion,
      ar_ResultingTreeVersion = 0, ar_TriggerReason = truncateRunes (aj_Reason job) 300,
      ar_TriggerClass = treeAuditTriggerClass (aj_Reason job) (aj_Final job), ar_Task = at_name (aj_Task job),
      ar_Deployment = at_deployment (aj_Task job), ar_Model = [], ar_PromptVersion = at_promptVersion (aj_Task job),
      ar_SnapshotHash = sp_Hash s, ar_Status = AuditRunning, ar_Result = ''running'', ar_Disposition = ''none'',
      ar_ResultClassification = ResultNone, ar_ConsecutiveUnappliedRuns = previous_unapplied (aj_SessionID job) latest,
      ar_OperationsProposed = 0, ar_OperationsCanonicalized = 0, ar_OperationsValid = 0, ar_OperationsApplied = 0,
      ar_OperationsRejected = 0, ar_RejectionReasons = [], ar_SuppressionReason = [], ar_ProviderCalled = False,
      ar_MeetingElapsedSeconds = aj_Elapsed job,
      ar_InputSummary = boundedAuditJSON (sp_Summary s) (ac_MaxPersistedJSONBytes cfg),
      ar_InputPayload = boundedAuditJSON (sp_InputJSON s) (ac_MaxPersistedJSONBytes cfg), ar_RawResponse = [],
      ar_Findings = [], ar_Operations = [], ar_ValidatorResult = [], ar_PromptTokens = 0, ar_CompletionTokens = 0,
      ar_ElapsedMilliseconds = 0, ar_ErrorCode = [], ar_ErrorMessage = [],
      ar_CreatedAt = fst (ae_moment ev 2), ar_CompletedAt = None\<rparr>"

text \<open>The counts are calls 3 and 4.\<close>

definition treeAuditSuppressionReason ::
    "TreeAuditConfig \<Rightarrow> audit_env \<Rightarrow> audit_job \<Rightarrow> gotime \<Rightarrow> analysis_db \<Rightarrow> gostring result \<times> analysis_db" where
  "treeAuditSuppressionReason cfg ev job now db =
     (let count = (\<lambda>k class since. audit_call ev k (CountMeetingTreeAuditProviderCalls (aj_SessionID job) (Some class) since)) in
      if aj_Final job then (Inr [], db)
      else if treeAuditTriggerClass (aj_Reason job) False = TriggerHigh
      then (case count 3 TriggerHigh (now - hour) db of
          (Inl e, db1) \<Rightarrow> (Inl e, db1)
        | (Inr n, db1) \<Rightarrow> (Inr (if ac_HighSeverityMaxRunsPerHour cfg \<le> int n then ''high_severity_hourly_limit'' else []), db1))
      else (case count 3 TriggerNormal 0 db of
          (Inl e, db1) \<Rightarrow> (Inl e, db1)
        | (Inr calls, db1) \<Rightarrow>
            if ac_MaxRunsPerSession cfg \<le> int calls then (Inr ''normal_session_limit'', db1)
            else (case count 4 TriggerNormal (now - hour) db1 of
                (Inl e, db2) \<Rightarrow> (Inl e, db2)
              | (Inr hourly, db2) \<Rightarrow>
                  (Inr (if ac_MaxRunsPerHour cfg \<le> int hourly then ''normal_hourly_limit'' else []), db2))))"

definition audit_integrity :: "audit_lib \<Rightarrow> gostring \<Rightarrow> bool" where
  "audit_integrity lib payload =
     td_Valid (validateTreeIntegrity (map_option (\<lambda>t. fst (normalizeLegacyAgendaTopicIDs (tb_tree_lib lib) (tb_context lib) t))
       (tb_tree lib payload)) (tb_items lib payload) (tb_context lib) None)"

text \<open>From the claimed row on.\<close>

definition claimed_audit ::
    "audit_lib \<Rightarrow> TreeAuditConfig \<Rightarrow> json_column \<Rightarrow> audit_env \<Rightarrow> audit_job \<Rightarrow> audit_snapshot \<Rightarrow> audit_reply \<Rightarrow>
     MeetingTreeAuditRun option \<Rightarrow> int \<Rightarrow> MeetingTreeAuditRun \<Rightarrow> treeAuditExecution \<Rightarrow> analysis_db \<Rightarrow> audit_outcome" where
  "claimed_audit lib cfg jc ev job s reply latest treeVersion run x db =
     (case treeAuditSuppressionReason cfg ev job (fst (ae_moment ev 2)) db of
        (Inl e, db1) \<Rightarrow> failTreeAuditRun lib jc ev run ''repository_error'' (RepositoryError e) x db1
      | (Inr reason, db1) \<Rightarrow>
          if reason \<noteq> []
          then conclude jc ev 5 ((closed_run ev 5 AuditSkipped ''rate_limited'' ''suppressed'' run)\<lparr>ar_SuppressionReason := reason\<rparr>)
            None x db1
          else if \<not> audit_integrity lib (aj_Payload job)
          then conclude jc ev 5 ((closed_run ev 5 AuditSkipped ''integrity_invalid'' ''rejected'' run)
            \<lparr>ar_ValidatorResult := boundedAuditJSON (tb_integrity_json lib (aj_Payload job)) (ac_MaxPersistedJSONBytes cfg)\<rparr>)
            None x db1
          else if sp_Findings s = 0 \<and> \<not> aj_Final job
          then conclude jc ev 5 (classifyTreeAuditRun lib cfg latest
            ((closed_run ev 5 AuditSkipped ''no_anomalies'' ''none'' run)
               \<lparr>ar_Findings := boundedAuditJSON ''[]'' (ac_MaxPersistedJSONBytes cfg),
                ar_Operations := boundedAuditJSON ''[]'' (ac_MaxPersistedJSONBytes cfg)\<rparr>)) None x db1
          else (let run1 = run\<lparr>ar_ProviderCalled := True\<rparr> in
            case audit_call ev 5 (SaveMeetingTreeAuditRun jc run1) db1 of
              (Inl e, db2) \<Rightarrow> (x, Some (RepositoryError e), db2)
            | (Inr _, db2) \<Rightarrow>
                judge_audit lib cfg jc ev job reply latest treeVersion run1 (x\<lparr>ex_ProviderCalled := True\<rparr>) db2))"

definition runTreeAudit ::
    "audit_lib \<Rightarrow> TreeAuditConfig \<Rightarrow> json_column \<Rightarrow> audit_env \<Rightarrow> audit_job \<Rightarrow> (gostring + audit_snapshot) \<Rightarrow> audit_reply \<Rightarrow>
     analysis_db \<Rightarrow> audit_outcome" where
  "runTreeAudit lib cfg jc ev job snapshot reply db =
     (let x0 = start_execution job; treeVersion = version_of (tb_treeVersion lib) (aj_Payload job) (aj_Version job);
          x = x0\<lparr>ex_AuditedVersion := treeVersion, ex_ResultingTreeVersion := treeVersion\<rparr> in
      if tb_tree lib (aj_Payload job) = None then (x0, Some NoTree, db)
      else if ae_fails ev 0 then (x, Some (RepositoryError ErrDatabase), db)
      else (case snapshot of
          Inl e \<Rightarrow> (x, Some (SnapshotError e), db)
        | Inr s \<Rightarrow>
            (let x1 = x\<lparr>ex_SnapshotHash := sp_Hash s\<rparr> in
             case audit_call ev 1 (GetLatestMeetingTreeAuditRun (aj_SessionID job)) db of
               (r, db1) \<Rightarrow>
                 if (case r of Inl e \<Rightarrow> e \<noteq> NotFound | Inr _ \<Rightarrow> False) then (x1, Some (RepositoryError (projl r)), db1)
                 else (let latest = (case r of Inl _ \<Rightarrow> None | Inr l \<Rightarrow> Some l) in
                   if already_audited job (sp_Hash s) treeVersion latest
                   then (x1\<lparr>ex_Result := ''duplicate_snapshot''\<rparr>, None, db1)
                   else (let run = audit_row cfg ev job s treeVersion latest; x2 = x1\<lparr>ex_RunID := aj_RunID job\<rparr> in
                     case audit_call ev 2 (TryStartMeetingTreeAuditRun jc run) db1 of
                       (Inl e, db2) \<Rightarrow> (x2, Some (RepositoryError e), db2)
                     | (Inr False, db2) \<Rightarrow> (x2\<lparr>ex_Result := ''duplicate_snapshot''\<rparr>, None, db2)
                     | (Inr True, db2) \<Rightarrow> claimed_audit lib cfg jc ev job s reply latest treeVersion run x2 db2)))))"

end
