(* ===== verification/TreeAuditClaims.thy ===== *)
theory TreeAuditClaims
  imports TreeAuditLane
begin

text \<open>What the scheduling of tree audits guarantees in every order of its steps.\<close>

section \<open>One flight at a time\<close>

definition single_flight :: "audit_desk \<Rightarrow> bool" where
  "single_flight d \<longleftrightarrow>
     (case ak_flights d of
        [] \<Rightarrow> \<not> al_running (lane_of d) \<and> al_cancel (lane_of d) = None
      | f # fs \<Rightarrow> fs = [] \<and> al_running (lane_of d) \<and> al_cancel (lane_of d) = Some (fl_id f) \<and>
          (al_closed (lane_of d) \<longrightarrow> fl_cancelled f))"

lemma single_flight_none: "ak_flights d = [] \<Longrightarrow>
    single_flight d \<longleftrightarrow> \<not> al_running (lane_of d) \<and> al_cancel (lane_of d) = None"
  by (simp add: single_flight_def)

lemma single_flight_one: "ak_flights d = [f] \<Longrightarrow>
    single_flight d \<longleftrightarrow> al_running (lane_of d) \<and> al_cancel (lane_of d) = Some (fl_id f) \<and>
      (al_closed (lane_of d) \<longrightarrow> fl_cancelled f)"
  by (simp add: single_flight_def)

lemma single_flight_cases:
  assumes "single_flight d"
  obtains "ak_flights d = []" "\<not> al_running (lane_of d)" "al_cancel (lane_of d) = None"
  | f where "ak_flights d = [f]" "al_running (lane_of d)" "al_cancel (lane_of d) = Some (fl_id f)"
      "al_closed (lane_of d) \<Longrightarrow> fl_cancelled f"
  using assms by (auto simp: single_flight_def split: list.splits)

lemma lane_simps [simp]:
  "lane_of (put_lane l d) = l" "ak_flights (put_lane l d) = ak_flights d" "ak_requests (put_lane l d) = ak_requests d"
  "lane_of (d\<lparr>ak_requests := rs\<rparr>) = lane_of d" "lane_of (d\<lparr>ak_lane := Some l\<rparr>) = l"
  "lane_of (d\<lparr>ak_lane := Some l, ak_flights := fs\<rparr>) = l"
  by (simp_all add: lane_of_def put_lane_def)

lemma flight_unchanged:
  assumes "single_flight d" "ak_flights d' = ak_flights d" "al_running (lane_of d') = al_running (lane_of d)"
    "al_cancel (lane_of d') = al_cancel (lane_of d)" "al_closed (lane_of d') = al_closed (lane_of d)"
  shows "single_flight d'"
  using assms by (auto simp: single_flight_def split: list.splits)

lemma postpone_keeps [simp]:
  "al_running (postpone r l) = al_running l" "al_cancel (postpone r l) = al_cancel l" "al_closed (postpone r l) = al_closed l"
  "al_finalizing (postpone r l) = al_finalizing l"
  by (simp_all add: postpone_def)

lemma landed_keeps [simp]:
  "\<not> al_running (landed tv now x v l)" "al_cancel (landed tv now x v l) = None"
  "al_closed (landed tv now x v l) = al_closed l"
  by (simp_all add: landed_def Let_def)

lemma schedule_single:
  assumes "single_flight d"
  shows "single_flight (scheduleTreeAudit cfg tv now r d)"
proof -
  have keep: "single_flight (put_lane l d)"
    if "al_running l = al_running (lane_of d)" "al_cancel l = al_cancel (lane_of d)" "al_closed l = al_closed (lane_of d)" for l
    using assms that by (intro flight_unchanged [OF assms]) simp_all
  have "single_flight (admit r (lane_of d) d)" if "\<not> al_running (lane_of d)" "\<not> al_closed (lane_of d)"
    using assms that by (cases rule: single_flight_cases) (auto simp: admit_def Let_def single_flight_def lane_of_def)
  then show ?thesis
    using assms keep unfolding scheduleTreeAudit_def Let_def by simp
qed

lemma finish_single:
  assumes "single_flight d" "f \<in> set (ak_flights d)"
  shows "single_flight (finishTreeAuditFlight cfg tv now f x d)" "ak_flights (finishTreeAuditFlight cfg tv now f x d) = []"
proof -
  have d: "ak_flights d = [f]" using assms by (cases rule: single_flight_cases) auto
  then show "ak_flights (finishTreeAuditFlight cfg tv now f x d) = []"
    by (simp add: finishTreeAuditFlight_def Let_def cancel_flight_def)
  then show "single_flight (finishTreeAuditFlight cfg tv now f x d)"
    by (simp add: single_flight_none) (simp add: finishTreeAuditFlight_def Let_def lane_of_def)
qed

lemma turn_single:
  assumes "single_flight d" "\<not> (forgets a d \<and> ak_flights d \<noteq> [])"
  shows "single_flight (audit_turn cfg tv a d)"
proof (cases a)
  case (Consider reasons payload version cancelled)
  then show ?thesis using assms(1)
    by (auto simp: audit_turn_def considerTreeAudit_def Let_def intro: flight_unchanged [OF assms(1)])
next
  case (Tick now cancelled)
  then show ?thesis using assms
    by (auto simp: audit_turn_def audit_tick_def forgets_def single_flight_none lane_of_def new_lane_def
        split: option.splits intro!: flight_unchanged [OF assms(1)])
next
  case (Admit now k)
  have "single_flight (d\<lparr>ak_requests := rs\<rparr>)" for rs by (rule flight_unchanged [OF assms(1)]) simp_all
  then show ?thesis using assms(1) Admit by (simp add: audit_turn_def schedule_single)
next
  case (Land now k x)
  then show ?thesis using assms(1) by (simp add: audit_turn_def finish_single)
next
  case Seal
  show ?thesis using assms(1)
    by (cases rule: single_flight_cases) (auto simp: Seal audit_turn_def seal_audits_def Let_def single_flight_def cancel_flight_def)
next
  case Shutdown
  show ?thesis using assms(1)
    by (cases rule: single_flight_cases)
      (auto simp: Shutdown audit_turn_def close_audits_def single_flight_def cancel_flight_def lane_of_def split: option.splits)
next
  case (Shared finalizing liveRunning payload version activity)
  then show ?thesis using assms(1)
    by (auto simp: audit_turn_def share_def intro: flight_unchanged [OF assms(1)])
qed

lemma turns_single: "single_flight d \<Longrightarrow> remembered cfg tv as d \<Longrightarrow> single_flight (audit_turns cfg tv as d)"
proof (induction "as" arbitrary: d)
  case (Cons a "as")
  have "single_flight (audit_turn cfg tv a d)" using Cons.prems by (intro turn_single) auto
  moreover have "remembered cfg tv as (audit_turn cfg tv a d)" using Cons.prems by simp
  ultimately show ?case using Cons.IH by (simp add: audit_turns_def)
qed (simp add: audit_turns_def)

lemma empty_single: "single_flight empty_audit_desk"
  by (simp add: single_flight_def empty_audit_desk_def lane_of_def new_lane_def)

lemma finish_reruns_cancelled:
  assumes "single_flight d" "f \<in> set (ak_flights d)" "r \<in> set (drop (length (ak_requests d)) (ak_requests (finishTreeAuditFlight cfg tv now f x d)))"
  shows "rq_cancelled r"
proof -
  have d: "ak_flights d = [f]" "al_cancel (lane_of d) = Some (fl_id f)"
    using assms(1,2) by (cases rule: single_flight_cases; auto)+
  then show ?thesis using assms(3)
    by (auto simp: finishTreeAuditFlight_def Let_def cancel_flight_def split: if_splits)
qed

text \<open>What is true from the moment the finalization has sealed the session, as long as the ticker does not forget it.\<close>

fun never_forgotten :: "TreeAuditConfig \<Rightarrow> (gostring \<Rightarrow> int) \<Rightarrow> audit_action list \<Rightarrow> audit_desk \<Rightarrow> bool" where
  "never_forgotten cfg tv [] d \<longleftrightarrow> True"
| "never_forgotten cfg tv (a # as) d \<longleftrightarrow> \<not> forgets a d \<and> never_forgotten cfg tv as (audit_turn cfg tv a d)"

lemma never_forgotten_remembered: "never_forgotten cfg tv as d \<Longrightarrow> remembered cfg tv as d"
  by (induction "as" arbitrary: d) auto

lemma schedule_closed [simp]: "al_closed (lane_of (scheduleTreeAudit cfg tv now r d)) = al_closed (lane_of d)"
proof -
  have "al_closed (lane_of (admit r l d)) = al_closed l" for l by (simp add: admit_def Let_def lane_of_def)
  then show ?thesis by (simp add: scheduleTreeAudit_def Let_def)
qed

lemma closed_turn:
  assumes "al_closed (lane_of d)" "\<not> forgets a d"
  shows "al_closed (lane_of (audit_turn cfg tv a d))"
proof (cases a)
  case (Tick now c)
  then show ?thesis using assms
    by (auto simp: audit_turn_def audit_tick_def forgets_def lane_of_def split: option.split)
next
  case Shutdown
  then show ?thesis using assms by (auto simp: audit_turn_def close_audits_def lane_of_def split: option.split)
qed (use assms in \<open>auto simp: audit_turn_def considerTreeAudit_def finishTreeAuditFlight_def seal_audits_def share_def
      Let_def\<close>)

lemma closed_turns: "al_closed (lane_of d) \<Longrightarrow> never_forgotten cfg tv as d \<Longrightarrow> al_closed (lane_of (audit_turns cfg tv as d))"
  by (induction "as" arbitrary: d) (simp_all add: audit_turns_def closed_turn)

lemma sealed_closed: "Seal \<in> set as \<Longrightarrow> never_forgotten cfg tv as d \<Longrightarrow> al_closed (lane_of (audit_turns cfg tv as d))"
proof (induction "as" arbitrary: d)
  case (Cons a "as")
  show ?case
  proof (cases "a = Seal")
    case True
    have "al_closed (lane_of (audit_turn cfg tv Seal d))" by (simp add: audit_turn_def seal_audits_def Let_def)
    then show ?thesis using closed_turns Cons.prems(2) True by (simp add: audit_turns_def)
  next
    case False
    then show ?thesis using Cons by (simp add: audit_turns_def)
  qed
qed simp

text \<open>C22: Audits of a session fly one at a time and stop with its finalization.  In every order of requests, ticks,
  ends of audits and of the meeting in which the ticker does not forget the session during an audit, at most one
  audit is under way, the session is marked as running exactly then, and whenever the session is closed that audit has
  been cancelled.  If moreover the ticker never forgets the session, then from the moment its finalization has
  sealed it the session stays closed: an audit still under way, or started later, is cancelled and is not allowed to
  apply what it finds.\<close>

theorem audit_flights_are_single:
  assumes "remembered cfg tv as empty_audit_desk"
  shows "let d = audit_turns cfg tv as empty_audit_desk in
    length (ak_flights d) \<le> 1 \<and> (al_running (lane_of d) \<longleftrightarrow> ak_flights d \<noteq> []) \<and>
    (al_closed (lane_of d) \<longrightarrow> list_all fl_cancelled (ak_flights d)) \<and>
    (Seal \<in> set as \<and> never_forgotten cfg tv as empty_audit_desk \<longrightarrow>
       al_closed (lane_of d) \<and> list_all fl_cancelled (ak_flights d) \<and> \<not> treeAuditApplyAllowed False d)"
  using turns_single [OF empty_single assms] sealed_closed [of "as" cfg tv empty_audit_desk]
  unfolding Let_def by (cases rule: single_flight_cases) (auto simp: treeAuditApplyAllowed_def)

text \<open>The rerun that the end of an audit asks for is lost: it is given the context of the audit that has just
  been cancelled, so that the audit started for it is cancelled from its start.\<close>

theorem coalesced_reruns_start_cancelled:
  assumes "remembered cfg tv as empty_audit_desk" "k < length (ak_flights (audit_turns cfg tv as empty_audit_desk))"
  shows "let d = audit_turns cfg tv as empty_audit_desk; d' = audit_turn cfg tv (Land now k x) d in
    \<forall>r \<in> set (drop (length (ak_requests d)) (ak_requests d')).
      rq_cancelled r \<and> list_all fl_cancelled (ak_flights (scheduleTreeAudit cfg tv now2 r d'))"
proof -
  define d where "d = audit_turns cfg tv as empty_audit_desk"
  have s: "single_flight d" unfolding d_def by (rule turns_single [OF empty_single assms(1)])
  let ?f = "ak_flights d ! k" and ?d' = "audit_turn cfg tv (Land now k x) d"
  have f: "?f \<in> set (ak_flights d)" using assms(2) by (simp add: d_def)
  have d': "?d' = finishTreeAuditFlight cfg tv now ?f x d" using assms(2) by (simp add: audit_turn_def d_def)
  have none: "ak_flights ?d' = []" unfolding d' by (rule finish_single(2) [OF s f])
  have "list_all fl_cancelled (ak_flights (scheduleTreeAudit cfg tv now2 r ?d'))"
    if "rq_cancelled r" for r
    using that none by (simp add: scheduleTreeAudit_def Let_def admit_def)
  then show ?thesis
    unfolding Let_def d_def [symmetric] using finish_reruns_cancelled [OF s f] unfolding d' by blast
qed

text \<open>A meeting in which a grave finding comes in while an audit is under way.\<close>

definition sample_audit_config :: TreeAuditConfig where
  "sample_audit_config = (normalized_audit \<lparr>ac_Enabled = True, ac_IntervalVersions = 0, ac_Interval = 0, ac_MinInterval = 0,
     ac_MaxRunsPerSession = 0, ac_MaxRunsPerHour = 0, ac_HighSeverityMinInterval = 0, ac_HighSeverityMaxRunsPerHour = 0,
     ac_MaxPersistedJSONBytes = 0, ac_UnappliedWarningThreshold = 0\<rparr>)"

definition sample_execution :: treeAuditExecution where
  "sample_execution =
     \<lparr>ex_Payload = ''p'', ex_Version = 3, ex_ResultingTreeVersion = 3, ex_RunID = ''tree-audit-1'', ex_SnapshotHash = ''h'',
      ex_Result = ''no_safe_operations'', ex_Applied = False, ex_AuditedVersion = 3, ex_TriggerClass = TriggerNormal,
      ex_ProviderCalled = True\<rparr>"

definition sample_audits :: "audit_action list" where
  "sample_audits =
     [Shared False False ''p'' 3 (9 * hour), Consider [''new_tree_node''] ''p'' 3 False, Admit (9 * hour) 0,
      Shared False False ''q'' 4 (9 * hour), Consider [''semantic_anomaly''] ''q'' 4 False, Admit (9 * hour) 0]"

lemma sample_audits_run:
  "remembered sample_audit_config (\<lambda>_. 0) sample_audits empty_audit_desk"
  "length (ak_flights (audit_turns sample_audit_config (\<lambda>_. 0) sample_audits empty_audit_desk)) = 1"
  by code_simp+

theorem audit_flights_are_single_witness:
  "let d = audit_turns sample_audit_config (\<lambda>_. 0) sample_audits empty_audit_desk in
    length (ak_flights d) = 1 \<and> al_running (lane_of d)"
  using audit_flights_are_single [OF sample_audits_run(1)] sample_audits_run(2) unfolding Let_def by fastforce

lemma sample_rerun:
  "let d = audit_turns sample_audit_config (\<lambda>_. 0) sample_audits empty_audit_desk;
       d' = audit_turn sample_audit_config (\<lambda>_. 0) (Land (9 * hour + minute) 0 sample_execution) d in
    length (drop (length (ak_requests d)) (ak_requests d')) = 1"
  by code_simp

theorem coalesced_reruns_start_cancelled_witness:
  "let d = audit_turns sample_audit_config (\<lambda>_. 0) sample_audits empty_audit_desk;
       d' = audit_turn sample_audit_config (\<lambda>_. 0) (Land (9 * hour + minute) 0 sample_execution) d in
    \<exists>r. drop (length (ak_requests d)) (ak_requests d') = [r] \<and> rq_cancelled r \<and>
      list_all fl_cancelled (ak_flights (scheduleTreeAudit sample_audit_config (\<lambda>_. 0) (9 * hour + minute) r d'))"
proof -
  have k: "0 < length (ak_flights (audit_turns sample_audit_config (\<lambda>_. 0) sample_audits empty_audit_desk))"
    using sample_audits_run(2) by simp
  obtain r where r: "drop (length (ak_requests (audit_turns sample_audit_config (\<lambda>_. 0) sample_audits empty_audit_desk)))
      (ak_requests (audit_turn sample_audit_config (\<lambda>_. 0) (Land (9 * hour + minute) 0 sample_execution)
        (audit_turns sample_audit_config (\<lambda>_. 0) sample_audits empty_audit_desk))) = [r]"
    using sample_rerun unfolding Let_def One_nat_def length_Suc_conv by auto
  show ?thesis
    using coalesced_reruns_start_cancelled [OF sample_audits_run(1) k, of "9 * hour + minute" sample_execution "9 * hour + minute"] r
    unfolding Let_def by auto
qed

end
