(* ===== verification/TreeAuditRunClaims.thy ===== *)
theory TreeAuditRunClaims
  imports TreeAuditRun TreeAuditClaims
begin

text \<open>What one audit of a tree guarantees: its row in the history ends, and the limits on calls of the model hold.\<close>

section \<open>The row of a run\<close>

definition own_rows :: "gostring \<Rightarrow> analysis_db \<Rightarrow> MeetingTreeAuditRun list" where
  "own_rows i db = filter (\<lambda>r. ar_ID r = i) (ad_runs db)"

text \<open>What other writers may do: not touch the row, keep its session, and, as the unique index
  demands, start no other run with the claim of a running one.\<close>

definition leaves_run :: "gostring \<Rightarrow> analysis_db \<Rightarrow> analysis_db \<Rightarrow> bool" where
  "leaves_run i db db' \<longleftrightarrow>
     own_rows i db' = own_rows i db \<and> set (ad_sessions db) \<subseteq> set (ad_sessions db') \<and>
     (\<forall>r \<in> set (ad_runs db'). ar_ID r \<noteq> i \<and> ar_Status r = AuditRunning \<and> active_claim r \<in> active_claim ` set (own_rows i db) \<longrightarrow>
        r \<in> set (ad_runs db))"

definition mine :: "gostring \<times> gostring \<times> int \<times> gostring \<times> gostring \<times> gostring \<Rightarrow> gostring \<Rightarrow> analysis_db \<Rightarrow> bool" where
  "mine c i db \<longleftrightarrow>
     (\<exists>old. own_rows i db = [old] \<and> active_claim old = c) \<and> fst c \<in> set (ad_sessions db) \<and>
     (\<forall>r \<in> set (ad_runs db). ar_ID r \<noteq> i \<and> ar_Status r = AuditRunning \<longrightarrow> active_claim r \<noteq> c)"

lemma mine_leaves: "mine c i db \<Longrightarrow> leaves_run i db db' \<Longrightarrow> mine c i db'"
  unfolding mine_def leaves_run_def by (auto simp: subset_iff)

lemma own_rows_analyses [simp]: "own_rows i (db\<lparr>ad_analyses := x\<rparr>) = own_rows i db"
  by (simp add: own_rows_def)

lemma mine_analyses [simp]: "mine c i (db\<lparr>ad_analyses := x\<rparr>) = mine c i db"
  by (simp add: mine_def)

lemma columns_same:
  "json_columns jc run = Inr run' \<Longrightarrow> ar_ID run' = ar_ID run \<and> ar_Status run' = ar_Status run \<and>
    active_claim run' = active_claim run \<and> ar_ProviderCalled run' = ar_ProviderCalled run \<and>
    ar_TriggerClass run' = ar_TriggerClass run"
  by (auto simp: json_columns_def active_claim_def split: sum.splits)

lemma inserted_fields [simp]:
  "ar_ID (inserted_run run e) = ar_ID run" "ar_Status (inserted_run run e) = ar_Status run"
  "active_claim (inserted_run run e) = active_claim run" "ar_SessionID (inserted_run run e) = ar_SessionID run"
  "ar_ProviderCalled (inserted_run run e) = ar_ProviderCalled run" "ar_TriggerClass (inserted_run run e) = ar_TriggerClass run"
  "ar_Deployment (inserted_run run e) = ar_Deployment run"
  by (simp_all add: inserted_run_def active_claim_def)

lemma claim_session: "active_claim r = c \<Longrightarrow> ar_SessionID r = fst c"
  by (auto simp: active_claim_def)

lemma find_filter: "find P xs = (case filter P xs of [] \<Rightarrow> None | x # _ \<Rightarrow> Some x)"
  by (induction xs) auto

lemma find_own: "own_rows i db = [old] \<Longrightarrow> find (\<lambda>x. ar_ID x = i) (ad_runs db) = Some old"
  by (simp add: own_rows_def find_filter)

text \<open>The run carries the id and the claim of the row.\<close>

definition bears :: "gostring \<times> gostring \<times> int \<times> gostring \<times> gostring \<times> gostring \<Rightarrow> gostring \<Rightarrow> MeetingTreeAuditRun \<Rightarrow> bool" where
  "bears c i run \<longleftrightarrow> ar_ID run = i \<and> active_claim run = c"

lemma updated_fields:
  assumes "active_claim old = c" "active_claim new = c"
  shows "active_claim (updated_run new old) = c" "ar_ID (updated_run new old) = ar_ID new"
    "ar_Status (updated_run new old) = ar_Status new" "ar_ProviderCalled (updated_run new old) = ar_ProviderCalled new"
    "ar_TriggerClass (updated_run new old) = ar_TriggerClass old" "ar_CreatedAt (updated_run new old) = ar_CreatedAt old"
  using assms by (auto simp: updated_run_def active_claim_def)

definition replaced :: "gostring \<Rightarrow> MeetingTreeAuditRun \<Rightarrow> analysis_db \<Rightarrow> analysis_db" where
  "replaced i new db = db\<lparr>ad_runs := map (\<lambda>r. if ar_ID r = i then new else r) (ad_runs db)\<rparr>"

lemma replaced_sessions [simp]: "ad_sessions (replaced i new db) = ad_sessions db" "ad_analyses (replaced i new db) = ad_analyses db"
  by (simp_all add: replaced_def)

lemma own_replaced:
  assumes "own_rows i db = [old]" "ar_ID new = i"
  shows "own_rows i (replaced i new db) = [new]"
proof -
  have "filter (\<lambda>r. ar_ID r = i) (map (\<lambda>r. if ar_ID r = i then new else r) rows) = map (\<lambda>_. new) (filter (\<lambda>r. ar_ID r = i) rows)"
    for rows using assms(2) by (induction rows) auto
  then show ?thesis using assms(1) by (simp add: own_rows_def replaced_def)
qed

lemma mine_replaced:
  assumes "mine c i db" "ar_ID new = i" "active_claim new = c"
  shows "mine c i (replaced i new db)"
proof -
  obtain old where "own_rows i db = [old]" using assms(1) by (auto simp: mine_def)
  then show ?thesis using own_replaced assms by (auto simp: mine_def replaced_def)
qed

lemma single_update:
  assumes "own_rows i db = [old]"
  shows "update_where (\<lambda>x. ar_ID x = i) f (ad_runs db) = map (\<lambda>r. if ar_ID r = i then f old else r) (ad_runs db)"
proof -
  have "r = old" if "r \<in> set (ad_runs db)" "ar_ID r = i" for r
  proof -
    have "r \<in> set (own_rows i db)" using that by (simp add: own_rows_def)
    then show ?thesis using assms by simp
  qed
  then show ?thesis by (auto simp: update_where_def)
qed

text \<open>A write of the row replaces it, or is refused and changes nothing.\<close>

lemma write_mine:
  assumes "mine c i db" "bears c i run" "own_rows i db = [old]" "writeMeetingTreeAuditRun jc False run e db = (r, db')"
  obtains (refused) err where "r = Inl err" "db' = db"
  | (saved) new where "r = Inr True" "db' = replaced i new db" "bears c i new"
    "ar_Status new = ar_Status run" "ar_ProviderCalled new = ar_ProviderCalled run"
    "ar_TriggerClass new = ar_TriggerClass old"
proof (cases "json_columns jc run")
  case (Inl err)
  then show ?thesis using assms(4) by (intro refused [of err]) (simp_all add: writeMeetingTreeAuditRun_def)
next
  case (Inr run')
  note r = columns_same [OF this]
  let ?ins = "inserted_run run' e" and ?new = "updated_run (inserted_run run' e) old"
  have old: "active_claim old = c" using assms(1,3) by (auto simp: mine_def)
  have ins: "active_claim ?ins = c" "ar_ID ?ins = i" using assms(2) r by (simp_all add: bears_def)
  note u = updated_fields [OF old ins(1)]
  have sess: "ar_SessionID ?ins \<in> set (ad_sessions db)" using assms(1) claim_session [OF ins(1)] by (simp add: mine_def)
  have free: "\<not> claim_taken ?new (filter (\<lambda>x. ar_ID x \<noteq> i) (ad_runs db))"
    using assms(1) u(1) by (auto simp: claim_taken_def mine_def list_ex_iff)
  have "writeMeetingTreeAuditRun jc False run e db = (Inr True, replaced i ?new db)"
    using Inr ins sess free find_own [OF assms(3)]
    by (simp add: writeMeetingTreeAuditRun_def Let_def replaced_def single_update [OF assms(3)])
  then show ?thesis
    by (intro saved [of ?new]) (use assms(4) u ins r in \<open>simp_all add: bears_def\<close>)
qed

section \<open>Every run ends\<close>

definition ended :: "gostring \<Rightarrow> analysis_db \<Rightarrow> bool" where
  "ended i db \<longleftrightarrow> list_all (\<lambda>r. ar_ID r = i \<longrightarrow> ar_Status r \<noteq> AuditRunning) (ad_runs db)"

lemma ended_own: "ended i db \<longleftrightarrow> list_all (\<lambda>r. ar_Status r \<noteq> AuditRunning) (own_rows i db)"
  by (auto simp: ended_def own_rows_def list_all_iff)

text \<open>The other writers keep to \<open>leaves_run\<close>; calls may fail, and the columns refuse what they like.\<close>

definition courteous :: "audit_env \<Rightarrow> gostring \<Rightarrow> bool" where
  "courteous ev i \<longleftrightarrow> (\<forall>k db. leaves_run i db (ae_drift ev k db))"

lemma courteous_mine: "courteous ev i \<Longrightarrow> mine c i db \<Longrightarrow> mine c i (ae_drift ev k db)"
  unfolding courteous_def using mine_leaves by blast

lemma courteous_fresh: "courteous ev i \<Longrightarrow> own_rows i db = [] \<Longrightarrow> own_rows i (ae_drift ev k db) = []"
  by (simp add: courteous_def leaves_run_def)

text \<open>A call that saves the row: what is true of the tables after the drift, and of the row if it is saved.\<close>

lemma call_save:
  assumes "courteous ev i" "mine c i db" "bears c i run"
    and "audit_call ev k (SaveMeetingTreeAuditRun jc run) db = (r, db')"
  obtains (refused) err where "r = Inl err" "db' = ae_drift ev k db"
  | (saved) old new where "r = Inr ()" "db' = replaced i new (ae_drift ev k db)" "own_rows i (ae_drift ev k db) = [old]"
    "bears c i new" "ar_Status new = ar_Status run" "ar_ProviderCalled new = ar_ProviderCalled run"
    "ar_TriggerClass new = ar_TriggerClass old"
proof (cases "ae_fails ev k")
  case True
  then show ?thesis using assms(4) by (intro refused [of ErrDatabase]) (simp_all add: audit_call_def)
next
  case False
  let ?db = "ae_drift ev k db"
  have m: "mine c i ?db" by (rule courteous_mine [OF assms(1,2)])
  then obtain old where old: "own_rows i ?db = [old]" by (auto simp: mine_def)
  obtain q db2 where w: "writeMeetingTreeAuditRun jc False run (ae_moment ev k) ?db = (q, db2)" by fastforce
  show ?thesis
    using assms(4) False w old
    by (cases rule: write_mine [OF m assms(3) old w])
      (auto simp: audit_call_def SaveMeetingTreeAuditRun_def intro: refused saved)
qed

text \<open>The caller is told that the repository has failed the audit.\<close>

definition told :: "audit_error option \<Rightarrow> bool" where
  "told err \<longleftrightarrow> (case err of Some (RepositoryError _) \<Rightarrow> True | Some (UnsavedFailure _ _) \<Rightarrow> True | _ \<Rightarrow> False)"

definition concludes :: "gostring \<Rightarrow> audit_outcome \<Rightarrow> bool" where
  "concludes i out \<longleftrightarrow> ended i (snd (snd out)) \<or> told (fst (snd out))"

lemma concludes_told [simp]: "concludes i (x, Some (RepositoryError e), db)"
  by (simp add: concludes_def told_def)

lemma bears_updates [simp]:
  "bears c i (run\<lparr>ar_Status := st\<rparr>) = bears c i run" "bears c i (run\<lparr>ar_Result := s\<rparr>) = bears c i run"
  "bears c i (run\<lparr>ar_Disposition := s\<rparr>) = bears c i run" "bears c i (run\<lparr>ar_ErrorCode := s\<rparr>) = bears c i run"
  "bears c i (run\<lparr>ar_ErrorMessage := s\<rparr>) = bears c i run" "bears c i (run\<lparr>ar_CompletedAt := t\<rparr>) = bears c i run"
  "bears c i (run\<lparr>ar_ResultingTreeVersion := n\<rparr>) = bears c i run" "bears c i (run\<lparr>ar_ValidatorResult := s\<rparr>) = bears c i run"
  "bears c i (run\<lparr>ar_Findings := s\<rparr>) = bears c i run" "bears c i (run\<lparr>ar_Operations := s\<rparr>) = bears c i run"
  "bears c i (run\<lparr>ar_Model := s\<rparr>) = bears c i run" "bears c i (run\<lparr>ar_RawResponse := s\<rparr>) = bears c i run"
  "bears c i (run\<lparr>ar_PromptTokens := n\<rparr>) = bears c i run" "bears c i (run\<lparr>ar_CompletionTokens := n\<rparr>) = bears c i run"
  "bears c i (run\<lparr>ar_ElapsedMilliseconds := n\<rparr>) = bears c i run" "bears c i (run\<lparr>ar_SuppressionReason := s\<rparr>) = bears c i run"
  "bears c i (run\<lparr>ar_ProviderCalled := b\<rparr>) = bears c i run"
  by (simp_all add: bears_def active_claim_def)

lemma classify_keeps [simp]:
  "bears c i (classifyTreeAuditRun lib cfg latest run) = bears c i run"
  "ar_Status (classifyTreeAuditRun lib cfg latest run) = ar_Status run"
  "ar_ProviderCalled (classifyTreeAuditRun lib cfg latest run) = ar_ProviderCalled run"
  by (simp_all add: classifyTreeAuditRun_def Let_def bears_def active_claim_def)

lemma verdict_keeps [simp]:
  "bears c i (with_verdict lib cfg v run) = bears c i run" "ar_Status (with_verdict lib cfg v run) = ar_Status run"
  "ar_ProviderCalled (with_verdict lib cfg v run) = ar_ProviderCalled run"
  by (simp_all add: with_verdict_def)

lemma closed_keeps [simp]:
  "bears c i (closed_run ev k st res disp run) = bears c i run" "ar_Status (closed_run ev k st res disp run) = st"
  by (simp_all add: closed_run_def)

lemma ended_replaced:
  "own_rows i db = [old] \<Longrightarrow> ar_ID new = i \<Longrightarrow> ar_Status new \<noteq> AuditRunning \<Longrightarrow> ended i (replaced i new db)"
  by (simp add: ended_own own_replaced)

lemma conclude_ends:
  assumes "courteous ev i" "mine c i db" "bears c i run" "ar_Status run \<noteq> AuditRunning"
  shows "concludes i (conclude jc ev k run err x db)"
proof -
  obtain r db' where s: "audit_call ev k (SaveMeetingTreeAuditRun jc run) db = (r, db')" by fastforce
  show ?thesis
    unfolding conclude_def s prod.case
    using assms(4) by (cases rule: call_save [OF assms(1-3) s])
      (auto simp: concludes_def told_def bears_def ended_replaced)
qed

lemma fail_ends:
  assumes "courteous ev i" "mine c i db" "bears c i run"
  shows "concludes i (failTreeAuditRun lib jc ev run code cause x db)"
proof -
  define r where "r = run\<lparr>ar_Status := AuditFailed, ar_Result := ''failed'', ar_Disposition := ''rejected'', ar_ErrorCode := code,
    ar_ErrorMessage := truncateErrorMessage (error_message lib cause) 1000, ar_CompletedAt := Some (fst (ae_moment ev 10))\<rparr>"
  have r: "bears c i r" "ar_Status r \<noteq> AuditRunning" using assms(3) by (simp_all add: r_def)
  obtain q db' where s: "audit_call ev 10 (SaveMeetingTreeAuditRun jc r) db = (q, db')" by fastforce
  show ?thesis
    unfolding failTreeAuditRun_def r_def [symmetric] s prod.case
    using r(2) by (cases rule: call_save [OF assms(1,2) r(1) s])
      (auto simp: concludes_def told_def bears_def ended_replaced)
qed

lemma verdict_ends:
  assumes "courteous ev i" "mine c i db" "bears c i run" "ar_Status run \<noteq> AuditRunning"
  shows "concludes i (conclude_verdict lib cfg jc ev latest v run x db)"
  unfolding conclude_verdict_def using assms by (intro conclude_ends) simp_all

text \<open>The transaction of an audit: refused, too late, or done with the row.\<close>

lemma apply_outcomes:
  assumes "courteous ev i" "mine c i db" "bears c i run" "audit_call ev k (ApplyMeetingTreeAudit jc run v a) db = (r, db')"
  obtains (refused) err where "r = Inl err" "db' = ae_drift ev k db"
  | (stale) "r = Inr None" "db' = ae_drift ev k db"
  | (saved) a' old new rows where "r = Inr (Some a')" "db' = replaced i new ((ae_drift ev k db)\<lparr>ad_analyses := rows\<rparr>)"
    "own_rows i (ae_drift ev k db) = [old]" "bears c i new" "ar_Status new = ar_Status run" "ar_TriggerClass new = ar_TriggerClass old"
proof (cases "ae_fails ev k \<or> isl (nullableJSONPayload jc (aa_Payload a))")
  case True
  then show ?thesis using assms(4)
    by (intro refused [of "projl r"])
      (auto simp: audit_call_def ApplyMeetingTreeAudit_def Let_def isl_def split: if_splits sum.splits)
next
  case False
  let ?db = "ae_drift ev k db"
  have m: "mine c i ?db" by (rule courteous_mine [OF assms(1,2)])
  then obtain old where old: "own_rows i ?db = [old]" by (auto simp: mine_def)
  obtain payload where p: "nullableJSONPayload jc (aa_Payload a) = Inr payload" using False by (cases "nullableJSONPayload jc (aa_Payload a)") auto
  obtain q db1 where cas: "cas_update payload (or_now (aa_UpdatedAt a) (ae_moment ev k)) v (a\<lparr>aa_Type := AnalysisLive\<rparr>) ?db = (q, db1)"
    by fastforce
  show ?thesis
  proof (cases q)
    case None
    then show ?thesis using assms(4) False p cas by (intro stale) (auto simp: audit_call_def ApplyMeetingTreeAudit_def Let_def)
  next
    case (Some a')
    then obtain rows where db1: "db1 = ?db\<lparr>ad_analyses := rows\<rparr>" using cas by (auto simp: cas_update_def Let_def split: option.splits)
    have m1: "mine c i db1" and old1: "own_rows i db1 = [old]" using m old by (simp_all add: db1)
    obtain t db2 where w: "writeMeetingTreeAuditRun jc False run (ae_moment ev k) db1 = (t, db2)" by fastforce
    have out: "(r, db') = (case t of Inl err \<Rightarrow> (Inl err, ?db) | Inr _ \<Rightarrow> (Inr (Some a'), db2))"
      using assms(4) False p cas Some w by (auto simp: audit_call_def ApplyMeetingTreeAudit_def Let_def split: sum.splits)
    show ?thesis
      using out old by (cases rule: write_mine [OF m1 assms(3) old1 w]) (auto simp: db1 intro: refused saved)
  qed
qed

lemma apply_ends:
  assumes "courteous ev i" "mine c i db" "bears c i run" "ar_Status run \<noteq> AuditRunning"
  shows "concludes i (apply_audit lib cfg jc ev job reply latest tv payload current res v stale run x db)"
proof -
  define r where "r = classifyTreeAuditRun lib cfg latest (with_verdict lib cfg v
    (run\<lparr>ar_Result := res, ar_Disposition := ''applied'', ar_ResultingTreeVersion := tv + 1\<rparr>))"
  have r: "bears c i r" "ar_Status r \<noteq> AuditRunning" using assms(3,4) by (simp_all add: r_def)
  obtain q db' where t: "audit_call ev 8 (ApplyMeetingTreeAudit jc r (aj_Version job)
      (audited_row job reply payload current (fst (ae_moment ev 8)))) db = (q, db')" by fastforce
  have m: "mine c i (ae_drift ev 8 db)" by (rule courteous_mine [OF assms(1,2)])
  note out = apply_audit_def Let_def r_def [symmetric] t prod.case
  show ?thesis
  proof (cases rule: apply_outcomes [OF assms(1,2) r(1) t, case_names refused stale saved])
    case (refused err)
    then show ?thesis unfolding out using fail_ends [OF assms(1) m r(1)] by simp
  next
    case stale
    then show ?thesis unfolding out using r by (auto intro!: verdict_ends [OF assms(1) m])
  next
    case (saved a' old new rows)
    then have "own_rows i ((ae_drift ev 8 db)\<lparr>ad_analyses := rows\<rparr>) = [old]" by simp
    then have "ended i db'" using saved r(2) ended_replaced unfolding bears_def by metis
    then show ?thesis unfolding out using saved(1) by (simp add: concludes_def)
  qed
qed

lemma get_analysis: "audit_call ev k (GetMeetingAIAnalysis s ty) db = (r, db') \<Longrightarrow> db' = ae_drift ev k db"
  by (auto simp: audit_call_def GetMeetingAIAnalysis_def reading_def split: if_splits)

lemma no_safe_ends:
  assumes "courteous ev i" "mine c i db" "bears c i run" "ar_Status run \<noteq> AuditRunning"
  shows "concludes i (no_safe_operations lib cfg jc ev job reply latest tv j v run x db)"
proof -
  obtain r db1 where g: "audit_call ev 7 (GetMeetingAIAnalysis (aj_SessionID job) AnalysisLive) db = (r, db1)" by fastforce
  have m: "mine c i db1" using get_analysis [OF g] courteous_mine [OF assms(1,2)] by simp
  note ends = verdict_ends [OF assms(1)] fail_ends [OF assms(1)] apply_ends [OF assms(1)]
  show ?thesis
    unfolding no_safe_operations_def Let_def g prod.case
    by (auto split: audit_repair.splits sum.splits option.splits if_splits intro!: ends assms(2) m simp: assms)
qed

lemma safe_ends:
  assumes "courteous ev i" "mine c i db" "bears c i run" "ar_Status run \<noteq> AuditRunning"
  shows "concludes i (safe_operations lib cfg jc ev job reply latest tv j v run x db)"
proof -
  obtain r db1 where g: "audit_call ev 7 (GetMeetingAIAnalysis (aj_SessionID job) AnalysisLive) db = (r, db1)" by fastforce
  have m: "mine c i db1" using get_analysis [OF g] courteous_mine [OF assms(1,2)] by simp
  note ends = verdict_ends [OF assms(1)] fail_ends [OF assms(1)] apply_ends [OF assms(1)] conclude_ends [OF assms(1)]
  show ?thesis
    unfolding safe_operations_def Let_def g prod.case
    by (auto split: sum.splits option.splits if_splits prod.splits intro!: ends assms(2) m simp: assms)
qed

lemma judge_ends:
  assumes "courteous ev i" "mine c i db" "bears c i run"
  shows "concludes i (judge_audit lib cfg jc ev job reply latest tv run x db)"
  unfolding judge_audit_def Let_def
  by (auto split: audit_answer.splits intro!: no_safe_ends [OF assms(1)] safe_ends [OF assms(1)]
      conclude_ends [OF assms(1)] assms(2) simp: assms)

lemma count_call: "audit_call ev k (CountMeetingTreeAuditProviderCalls s cl since) d = (r, d') \<Longrightarrow> d' = ae_drift ev k d"
  by (auto simp: audit_call_def CountMeetingTreeAuditProviderCalls_def reading_def split: if_splits)

lemma suppression_mine:
  assumes "courteous ev i" "mine c i db"
  shows "mine c i (snd (treeAuditSuppressionReason cfg ev job now db))"
  unfolding treeAuditSuppressionReason_def Let_def
  by (auto split: prod.splits sum.splits dest!: count_call intro!: courteous_mine [OF assms(1)] assms(2))

lemma claimed_ends:
  assumes "courteous ev i" "mine c i db" "bears c i run"
  shows "concludes i (claimed_audit lib cfg jc ev job s reply latest tv run x db)"
proof -
  obtain r db1 where t: "treeAuditSuppressionReason cfg ev job (fst (ae_moment ev 2)) db = (r, db1)" by fastforce
  have m: "mine c i db1" using suppression_mine [OF assms(1,2), of cfg job "fst (ae_moment ev 2)"] t by simp
  let ?run = "run\<lparr>ar_ProviderCalled := True\<rparr>"
  have b: "bears c i ?run" using assms(3) by simp
  obtain q db2 where save: "audit_call ev 5 (SaveMeetingTreeAuditRun jc ?run) db1 = (q, db2)" by fastforce
  have called: "concludes i (case q of Inl e \<Rightarrow> (x, Some (RepositoryError e), db2)
      | Inr _ \<Rightarrow> judge_audit lib cfg jc ev job reply latest tv ?run y db2)" for y
    using mine_replaced [OF courteous_mine [OF assms(1) m]]
    by (cases rule: call_save [OF assms(1) m b save])
      (auto simp: bears_def intro!: judge_ends [OF assms(1) _ b])
  show ?thesis
    unfolding claimed_audit_def t prod.case Let_def save
    using called by (auto split: sum.split simp: assms(3) intro!: conclude_ends [OF assms(1) m] fail_ends [OF assms(1) m])
qed

lemma claim_outcomes:
  assumes "own_rows i (ae_drift ev k db) = []" "bears c i run" "ar_Status run = AuditRunning"
    and "audit_call ev k (TryStartMeetingTreeAuditRun jc run) db = (r, db')"
  obtains (refused) "r \<noteq> Inr True" "db' = ae_drift ev k db"
  | (claimed) new where "r = Inr True" "db' = (ae_drift ev k db)\<lparr>ad_runs := ad_runs (ae_drift ev k db) @ [new]\<rparr>"
      "mine c i db'" "bears c i new" "ar_TriggerClass new = ar_TriggerClass run" "ar_ProviderCalled new = ar_ProviderCalled run"
proof -
  let ?db = "ae_drift ev k db"
  have call: "ae_fails ev k \<and> r = Inl ErrDatabase \<and> db' = ?db \<or>
      \<not> ae_fails ev k \<and> writeMeetingTreeAuditRun jc True run (ae_moment ev k) ?db = (r, db')"
    using assms(4) by (auto simp: audit_call_def TryStartMeetingTreeAuditRun_def split: if_splits)
  show ?thesis
  proof (cases "ae_fails ev k \<or> isl (json_columns jc run)")
    case True
    then show ?thesis using call by (intro refused) (auto simp: writeMeetingTreeAuditRun_def split: sum.splits)
  next
    case False
    then obtain run' where run': "json_columns jc run = Inr run'" by (cases "json_columns jc run") auto
    note r = columns_same [OF this]
    let ?ins = "inserted_run run' (ae_moment ev k)"
    have ins: "ar_ID ?ins = i" "active_claim ?ins = c" "ar_Status ?ins = AuditRunning" using assms(2,3) r by (simp_all add: bears_def)
    have w: "(r, db') = (if ar_SessionID ?ins \<notin> set (ad_sessions ?db) then (Inl ErrDatabase, ?db)
        else if claim_taken ?ins (ad_runs ?db) then (Inr False, ?db)
        else if list_ex (\<lambda>x. ar_ID x = i) (ad_runs ?db) then (Inl ErrDatabase, ?db)
        else (Inr True, ?db\<lparr>ad_runs := ad_runs ?db @ [?ins]\<rparr>))"
      using call False run' ins(1) by (auto simp: writeMeetingTreeAuditRun_def Let_def)
    show ?thesis
    proof (cases "ar_SessionID ?ins \<in> set (ad_sessions ?db) \<and> \<not> claim_taken ?ins (ad_runs ?db) \<and> \<not> list_ex (\<lambda>x. ar_ID x = i) (ad_runs ?db)")
      case True
      then have "mine c i (?db\<lparr>ad_runs := ad_runs ?db @ [?ins]\<rparr>)"
        using ins assms(1) claim_session [OF ins(2)]
        by (auto simp: mine_def own_rows_def claim_taken_def list_ex_iff)
      then show ?thesis using True w ins r by (intro claimed [of ?ins]) (auto simp: bears_def)
    next
      case False
      then show ?thesis using w by (intro refused) (auto split: if_splits)
    qed
  qed
qed

lemma fresh_ended: "own_rows i db = [] \<Longrightarrow> ended i db"
  by (simp add: ended_own)

lemma audit_row_fields [simp]:
  "ar_ID (audit_row cfg ev job s tv latest) = aj_RunID job" "ar_Status (audit_row cfg ev job s tv latest) = AuditRunning"
  "ar_ProviderCalled (audit_row cfg ev job s tv latest) = False" "ar_SessionID (audit_row cfg ev job s tv latest) = aj_SessionID job"
  "ar_TriggerClass (audit_row cfg ev job s tv latest) = treeAuditTriggerClass (aj_Reason job) (aj_Final job)"
  by (simp_all add: audit_row_def)

lemma latest_call: "audit_call ev k (GetLatestMeetingTreeAuditRun s) db = (r, db') \<Longrightarrow> db' = ae_drift ev k db"
  by (auto simp: audit_call_def GetLatestMeetingTreeAuditRun_def reading_def split: if_splits)

lemma run_ends:
  assumes "courteous ev (aj_RunID job)" "own_rows (aj_RunID job) db = []"
  shows "concludes (aj_RunID job) (runTreeAudit lib cfg jc ev job snapshot reply db)"
proof -
  let ?i = "aj_RunID job"
  obtain r db1 where g: "audit_call ev 1 (GetLatestMeetingTreeAuditRun (aj_SessionID job)) db = (r, db1)" by fastforce
  have f1: "own_rows ?i db1 = []" using courteous_fresh [OF assms] latest_call [OF g] by simp
  have f2: "own_rows ?i (ae_drift ev 2 db1) = []" by (rule courteous_fresh [OF assms(1) f1])
  have none: "concludes ?i (y, err, db')" if "own_rows ?i db' = []" for y err db'
    using fresh_ended [OF that] by (simp add: concludes_def)
  have claim: "concludes ?i (case audit_call ev 2 (TryStartMeetingTreeAuditRun jc run) db1 of
        (Inl e, db2) \<Rightarrow> (y, Some (RepositoryError e), db2)
      | (Inr False, db2) \<Rightarrow> (z, None, db2)
      | (Inr True, db2) \<Rightarrow> claimed_audit lib cfg jc ev job s reply latest tv run y db2)"
    if "ar_ID run = ?i" "ar_Status run = AuditRunning" for run y z s latest tv
  proof -
    have b: "bears (active_claim run) ?i run" using that(1) by (simp add: bears_def)
    obtain q db2 where c: "audit_call ev 2 (TryStartMeetingTreeAuditRun jc run) db1 = (q, db2)" by fastforce
    show ?thesis
      unfolding c prod.case
      using none [OF f2] claimed_ends [OF assms(1) _ b]
      by (cases rule: claim_outcomes [OF f2 b that(2) c]) (auto split: sum.split bool.split)
  qed
  show ?thesis
    unfolding runTreeAudit_def Let_def g prod.case
    by (auto split: sum.splits simp: none f1 assms(2) intro!: claim)
qed

section \<open>What an applied audit has written\<close>

definition live_at :: "gostring \<Rightarrow> int \<Rightarrow> analysis_db \<Rightarrow> bool" where
  "live_at sessionID version db \<longleftrightarrow>
     list_ex (\<lambda>a. is_analysis sessionID AnalysisLive a \<and> aa_Version a = version) (ad_analyses db)"

lemma write_keeps_analyses: "writeMeetingTreeAuditRun jc claim run e db = (r, db') \<Longrightarrow> ad_analyses db' = ad_analyses db"
  by (auto simp: writeMeetingTreeAuditRun_def Let_def split: sum.splits option.splits if_splits)

lemma apply_live:
  assumes "ApplyMeetingTreeAudit jc run v a e db = (Inr (Some saved), db')"
  shows "live_at (aa_SessionID a) (aa_Version a) db'"
proof -
  let ?a = "a\<lparr>aa_Type := AnalysisLive\<rparr>"
  obtain payload db1 r where c: "cas_update payload (or_now (aa_UpdatedAt a) e) v ?a db = (Some saved, db1)"
    and w: "writeMeetingTreeAuditRun jc False run e db1 = (r, db')"
    using assms by (auto simp: ApplyMeetingTreeAudit_def Let_def split: sum.splits prod.splits option.splits)
  obtain row where row: "row \<in> set (ad_analyses db)" "is_analysis (aa_SessionID a) AnalysisLive row" "aa_Version row = v"
    and db1: "ad_analyses db1 = update_where (\<lambda>r. is_analysis (aa_SessionID a) AnalysisLive r \<and> aa_Version r = v)
      (written_row ?a payload (or_now (aa_UpdatedAt a) e)) (ad_analyses db)"
    using c by (auto simp: cas_update_def Let_def find_Some_iff split: option.splits) (metis nth_mem)
  let ?new = "written_row ?a payload (or_now (aa_UpdatedAt a) e) row"
  have "?new \<in> set (ad_analyses db1)" unfolding db1 update_where_def using row by (auto intro!: image_eqI [of _ _ row])
  moreover have "is_analysis (aa_SessionID a) AnalysisLive ?new" "aa_Version ?new = aa_Version a"
    using row(2) by (simp_all add: written_row_def is_analysis_def)
  ultimately show ?thesis using write_keeps_analyses [OF w] by (auto simp: live_at_def list_ex_iff)
qed

definition applied_live :: "audit_job \<Rightarrow> audit_outcome \<Rightarrow> bool" where
  "applied_live job out \<longleftrightarrow> (case out of (x, err, db) \<Rightarrow>
     ex_Applied x \<longrightarrow> err = None \<and> ex_Version x = aj_Version job + 1 \<and> live_at (aj_SessionID job) (aj_Version job + 1) db)"

lemma conclude_applied: "\<not> ex_Applied x \<Longrightarrow> applied_live job (conclude jc ev k run err x db)"
  by (auto simp: conclude_def applied_live_def split: prod.splits sum.splits)

lemma fail_applied: "\<not> ex_Applied x \<Longrightarrow> applied_live job (failTreeAuditRun lib jc ev run code cause x db)"
  by (auto simp: failTreeAuditRun_def applied_live_def split: prod.splits sum.splits)

lemma verdict_applied: "\<not> ex_Applied x \<Longrightarrow> applied_live job (conclude_verdict lib cfg jc ev latest v run x db)"
  by (simp add: conclude_verdict_def conclude_applied)

lemma apply_applied:
  assumes "\<not> ex_Applied x"
  shows "applied_live job (apply_audit lib cfg jc ev job reply latest tv payload current res v stale run x db)"
proof -
  have "live_at (aj_SessionID job) (aj_Version job + 1) db'"
    if "audit_call ev 8 (ApplyMeetingTreeAudit jc r (aj_Version job) (audited_row job reply payload current t)) db = (Inr (Some saved), db')"
    for r t saved db'
    using apply_live that by (fastforce simp: audit_call_def audited_row_def split: if_splits)
  then show ?thesis
    unfolding apply_audit_def Let_def
    by (auto split: prod.splits sum.splits option.splits intro!: fail_applied verdict_applied assms)
      (simp add: applied_live_def applied_execution_def)
qed

lemmas outcomes_applied = conclude_applied fail_applied verdict_applied apply_applied

lemma no_safe_applied:
  assumes "\<not> ex_Applied x"
  shows "applied_live job (no_safe_operations lib cfg jc ev job reply latest tv j v run x db)"
proof -
  obtain r db1 where g: "audit_call ev 7 (GetMeetingAIAnalysis (aj_SessionID job) AnalysisLive) db = (r, db1)" by fastforce
  show ?thesis
    unfolding no_safe_operations_def Let_def g prod.case
    by (auto split: audit_repair.splits sum.splits option.splits intro!: outcomes_applied assms)
qed

lemma safe_applied:
  assumes "\<not> ex_Applied x"
  shows "applied_live job (safe_operations lib cfg jc ev job reply latest tv j v run x db)"
proof -
  obtain r db1 where g: "audit_call ev 7 (GetMeetingAIAnalysis (aj_SessionID job) AnalysisLive) db = (r, db1)" by fastforce
  show ?thesis
    unfolding safe_operations_def Let_def g prod.case
    by (auto split: sum.splits option.splits intro!: outcomes_applied assms)
qed

lemma judge_applied: "\<not> ex_Applied x \<Longrightarrow> applied_live job (judge_audit lib cfg jc ev job reply latest tv run x db)"
  unfolding judge_audit_def Let_def
  by (auto split: audit_answer.splits intro!: outcomes_applied no_safe_applied safe_applied)

lemma claimed_applied:
  assumes "\<not> ex_Applied x"
  shows "applied_live job (claimed_audit lib cfg jc ev job s reply latest tv run x db)"
proof -
  obtain r db1 where t: "treeAuditSuppressionReason cfg ev job (fst (ae_moment ev 2)) db = (r, db1)" by fastforce
  obtain q db2 where m: "audit_call ev 5 (SaveMeetingTreeAuditRun jc (run\<lparr>ar_ProviderCalled := True\<rparr>)) db1 = (q, db2)" by fastforce
  show ?thesis
    unfolding claimed_audit_def t prod.case Let_def m
    by (auto split: sum.splits intro!: outcomes_applied judge_applied assms) (simp_all add: applied_live_def assms)
qed

lemma run_applied: "applied_live job (runTreeAudit lib cfg jc ev job snapshot reply db)"
proof -
  have x: "\<not> ex_Applied (start_execution job)" by (simp add: start_execution_def)
  show ?thesis
    unfolding runTreeAudit_def Let_def using x
    by (auto split: prod.splits sum.splits bool.splits intro!: claimed_applied) (simp_all add: applied_live_def)
qed

section \<open>The budget of a session\<close>

definition normal_call :: "gostring \<Rightarrow> MeetingTreeAuditRun \<Rightarrow> bool" where
  "normal_call s r \<longleftrightarrow> ar_SessionID r = s \<and> ar_Task r \<noteq> ''final_tree_review'' \<and> ar_ProviderCalled r \<and> ar_TriggerClass r = TriggerNormal"

definition normal_calls :: "gostring \<Rightarrow> analysis_db \<Rightarrow> nat" where
  "normal_calls s db = length (filter (normal_call s) (ad_runs db))"

definition other_calls :: "gostring \<Rightarrow> gostring \<Rightarrow> analysis_db \<Rightarrow> nat" where
  "other_calls s i db = length (filter (\<lambda>r. normal_call s r \<and> ar_ID r \<noteq> i) (ad_runs db))"

text \<open>The other writers leave the session's calls of the model alone while its audit is under way.\<close>

definition alone :: "audit_env \<Rightarrow> gostring \<Rightarrow> gostring \<Rightarrow> bool" where
  "alone ev s i \<longleftrightarrow> (\<forall>k db. other_calls s i (ae_drift ev k db) = other_calls s i db)"

lemma calls_split: "normal_calls s db = other_calls s i db + length (filter (normal_call s) (own_rows i db))"
proof -
  have "length (filter (normal_call s) rows) = length (filter (\<lambda>r. normal_call s r \<and> ar_ID r \<noteq> i) rows) +
      length (filter (normal_call s) (filter (\<lambda>r. ar_ID r = i) rows))" for rows
    by (induction rows) auto
  then show ?thesis by (simp add: normal_calls_def other_calls_def own_rows_def)
qed

lemma others_replaced [simp]: "ar_ID new = i \<Longrightarrow> other_calls s i (replaced i new db) = other_calls s i db"
proof -
  assume new: "ar_ID new = i"
  have "length (filter (\<lambda>r. normal_call s r \<and> ar_ID r \<noteq> i) (map (\<lambda>r. if ar_ID r = i then new else r) rows)) =
      length (filter (\<lambda>r. normal_call s r \<and> ar_ID r \<noteq> i) rows)" for rows using new by (induction rows) auto
  then show ?thesis by (simp add: other_calls_def replaced_def)
qed

lemma others_analyses [simp]: "other_calls s i (db\<lparr>ad_analyses := x\<rparr>) = other_calls s i db"
  by (simp add: other_calls_def)

definition steady :: "gostring \<times> gostring \<times> int \<times> gostring \<times> gostring \<times> gostring \<Rightarrow> gostring \<Rightarrow>
    MeetingTreeAuditTriggerClass \<Rightarrow> gostring \<Rightarrow> nat \<Rightarrow> analysis_db \<Rightarrow> bool" where
  "steady c i cl s n db \<longleftrightarrow> mine c i db \<and> other_calls s i db = n \<and> (\<forall>r \<in> set (own_rows i db). ar_TriggerClass r = cl)"

lemma steady_drift: "courteous ev i \<Longrightarrow> alone ev s i \<Longrightarrow> steady c i cl s n db \<Longrightarrow> steady c i cl s n (ae_drift ev k db)"
  using courteous_mine by (auto simp: steady_def alone_def courteous_def leaves_run_def)

lemma steady_replaced:
  assumes "steady c i cl s n db" "own_rows i db = [old]" "bears c i new" "ar_TriggerClass new = ar_TriggerClass old"
  shows "steady c i cl s n (replaced i new db)"
  using assms mine_replaced [of c i db new] own_replaced [OF assms(2), of new] by (simp add: steady_def bears_def)

lemma steady_save:
  assumes "courteous ev i" "alone ev s i" "bears c i run" "steady c i cl s n db"
  shows "steady c i cl s n (snd (audit_call ev k (SaveMeetingTreeAuditRun jc run) db))"
proof -
  obtain r db' where call: "audit_call ev k (SaveMeetingTreeAuditRun jc run) db = (r, db')" by fastforce
  have st: "steady c i cl s n (ae_drift ev k db)" by (rule steady_drift [OF assms(1,2,4)])
  have m: "mine c i db" using assms(4) by (simp add: steady_def)
  show ?thesis
    unfolding call snd_conv
    using st by (cases rule: call_save [OF assms(1) m assms(3) call]) (auto intro: steady_replaced)
qed

lemma steady_conclude:
  assumes "courteous ev i" "alone ev s i" "bears c i run" "steady c i cl s n db"
  shows "steady c i cl s n (snd (snd (conclude jc ev k run err x db)))"
  using steady_save [OF assms, of k jc] by (auto simp: conclude_def split: prod.split sum.split)

lemma steady_fail:
  assumes "courteous ev i" "alone ev s i" "bears c i run" "steady c i cl s n db"
  shows "steady c i cl s n (snd (snd (failTreeAuditRun lib jc ev run code cause x db)))"
proof -
  define r where "r = run\<lparr>ar_Status := AuditFailed, ar_Result := ''failed'', ar_Disposition := ''rejected'', ar_ErrorCode := code,
    ar_ErrorMessage := truncateErrorMessage (error_message lib cause) 1000, ar_CompletedAt := Some (fst (ae_moment ev 10))\<rparr>"
  have r: "bears c i r" using assms(3) by (simp add: r_def)
  show ?thesis
    using steady_save [OF assms(1,2) r assms(4), of 10 jc]
    unfolding failTreeAuditRun_def r_def [symmetric] by (auto split: prod.split sum.split)
qed

lemma steady_verdict:
  assumes "courteous ev i" "alone ev s i" "bears c i run" "steady c i cl s n db"
  shows "steady c i cl s n (snd (snd (conclude_verdict lib cfg jc ev latest v run x db)))"
  unfolding conclude_verdict_def using assms by (intro steady_conclude) simp_all

lemma steady_apply:
  assumes "courteous ev i" "alone ev s i" "bears c i run" "steady c i cl s n db"
  shows "steady c i cl s n (snd (snd (apply_audit lib cfg jc ev job reply latest tv payload current res v stale run x db)))"
proof -
  define r where "r = classifyTreeAuditRun lib cfg latest (with_verdict lib cfg v
    (run\<lparr>ar_Result := res, ar_Disposition := ''applied'', ar_ResultingTreeVersion := tv + 1\<rparr>))"
  have r: "bears c i r" using assms(3) by (simp add: r_def)
  obtain q db' where t: "audit_call ev 8 (ApplyMeetingTreeAudit jc r (aj_Version job)
      (audited_row job reply payload current (fst (ae_moment ev 8)))) db = (q, db')" by fastforce
  have m: "mine c i db" using assms(4) by (simp add: steady_def)
  have drift: "steady c i cl s n ((ae_drift ev 8 db)\<lparr>ad_analyses := rows\<rparr>)" "steady c i cl s n (ae_drift ev 8 db)" for rows
    using steady_drift [OF assms(1,2,4)] by (simp_all add: steady_def)
  have "steady c i cl s n db'"
    using drift by (cases rule: apply_outcomes [OF assms(1) m r t]) (auto intro!: steady_replaced)
  then show ?thesis
    unfolding apply_audit_def Let_def r_def [symmetric] t prod.case using r
    by (auto split: sum.splits option.splits intro!: steady_fail [OF assms(1,2)] steady_verdict [OF assms(1,2)])
qed

lemma steady_judge:
  assumes "courteous ev i" "alone ev s i" "bears c i run" "steady c i cl s n db"
  shows "steady c i cl s n (snd (snd (judge_audit lib cfg jc ev job reply latest tv run x db)))"
proof -
  obtain r db1 where g: "audit_call ev 7 (GetMeetingAIAnalysis (aj_SessionID job) AnalysisLive) db = (r, db1)" by fastforce
  have m: "steady c i cl s n db1" using get_analysis [OF g] steady_drift [OF assms(1,2,4)] by simp
  note st = steady_verdict [OF assms(1,2)] steady_fail [OF assms(1,2)] steady_apply [OF assms(1,2)] steady_conclude [OF assms(1,2)]
  have "steady c i cl s n (snd (snd (no_safe_operations lib cfg jc ev job reply latest tv j v q y db)))" if "bears c i q" for j v q y
    unfolding no_safe_operations_def Let_def g prod.case
    by (auto split: audit_repair.splits sum.splits option.splits if_splits intro!: st assms(4) m simp: that)
  moreover have "steady c i cl s n (snd (snd (safe_operations lib cfg jc ev job reply latest tv j v q y db)))" if "bears c i q" for j v q y
    unfolding safe_operations_def Let_def g prod.case
    by (auto split: sum.splits option.splits if_splits prod.splits intro!: st assms(4) m simp: that)
  ultimately show ?thesis
    unfolding judge_audit_def Let_def by (auto split: audit_answer.splits intro!: st assms(4) simp: assms(3))
qed

text \<open>A row without a call of the model does not count.\<close>

definition uncalled :: "gostring \<Rightarrow> analysis_db \<Rightarrow> bool" where
  "uncalled i db \<longleftrightarrow> (\<forall>r \<in> set (own_rows i db). \<not> ar_ProviderCalled r)"

lemma uncalled_calls: "uncalled i db \<Longrightarrow> normal_calls s db = other_calls s i db"
  using calls_split [of s db i] by (simp add: uncalled_def normal_call_def filter_empty_conv)

lemma uncalled_drift: "courteous ev i \<Longrightarrow> uncalled i db \<Longrightarrow> uncalled i (ae_drift ev k db)"
  by (simp add: uncalled_def courteous_def leaves_run_def)

lemma save_uncalled:
  assumes "courteous ev i" "mine c i db" "bears c i run" "\<not> ar_ProviderCalled run" "uncalled i db"
  shows "uncalled i (snd (audit_call ev k (SaveMeetingTreeAuditRun jc run) db))"
proof -
  obtain r db' where call: "audit_call ev k (SaveMeetingTreeAuditRun jc run) db = (r, db')" by fastforce
  show ?thesis
    unfolding call snd_conv using uncalled_drift [OF assms(1,5)] assms(4)
    by (cases rule: call_save [OF assms(1-3) call]) (auto simp: uncalled_def bears_def own_replaced)
qed

lemma conclude_uncalled:
  assumes "courteous ev i" "mine c i db" "bears c i run" "\<not> ar_ProviderCalled run" "uncalled i db"
  shows "uncalled i (snd (snd (conclude jc ev k run err x db)))"
  using save_uncalled [OF assms, of k jc] by (auto simp: conclude_def split: prod.split sum.split)

lemma fail_uncalled:
  assumes "courteous ev i" "mine c i db" "bears c i run" "\<not> ar_ProviderCalled run" "uncalled i db"
  shows "uncalled i (snd (snd (failTreeAuditRun lib jc ev run code cause x db)))"
proof -
  define r where "r = run\<lparr>ar_Status := AuditFailed, ar_Result := ''failed'', ar_Disposition := ''rejected'', ar_ErrorCode := code,
    ar_ErrorMessage := truncateErrorMessage (error_message lib cause) 1000, ar_CompletedAt := Some (fst (ae_moment ev 10))\<rparr>"
  have r: "bears c i r" "\<not> ar_ProviderCalled r" using assms(3,4) by (simp_all add: r_def)
  show ?thesis
    using save_uncalled [OF assms(1,2) r assms(5), of 10 jc]
    unfolding failTreeAuditRun_def r_def [symmetric] by (auto split: prod.split sum.split)
qed

lemma suppression_steady:
  assumes "courteous ev i" "alone ev (aj_SessionID job) i" "steady c i cl (aj_SessionID job) n db" "uncalled i db"
    "treeAuditSuppressionReason cfg ev job now db = (r, db1)"
  shows "steady c i cl (aj_SessionID job) n db1" "uncalled i db1"
    "r = Inr [] \<Longrightarrow> treeAuditTriggerClass (aj_Reason job) (aj_Final job) = TriggerNormal \<Longrightarrow> int n < ac_MaxRunsPerSession cfg"
proof -
  have count: "audit_call ev k (CountMeetingTreeAuditProviderCalls s cl since) d = (if ae_fails ev k then (Inl ErrDatabase, ae_drift ev k d)
      else (Inr (length (filter (\<lambda>r. ar_SessionID r = s \<and> ar_Task r \<noteq> ''final_tree_review'' \<and> ar_ProviderCalled r \<and>
        (cl = None \<or> cl = Some (ar_TriggerClass r)) \<and> (is_zero since \<or> since \<le> ar_CreatedAt r)) (ad_runs (ae_drift ev k d)))), ae_drift ev k d))"
    for k s cl since d
    by (simp add: audit_call_def CountMeetingTreeAuditProviderCalls_def reading_def)
  have normal: "audit_call ev k (CountMeetingTreeAuditProviderCalls (aj_SessionID job) (Some TriggerNormal) 0) d =
      (if ae_fails ev k then (Inl ErrDatabase, ae_drift ev k d)
       else (Inr (normal_calls (aj_SessionID job) (ae_drift ev k d)), ae_drift ev k d))" for k d
    unfolding count normal_calls_def by (simp add: is_zero_def) (rule impI, rule arg_cong [where f = length], rule filter_cong, auto simp: normal_call_def)
  have calls: "normal_calls (aj_SessionID job) (ae_drift ev k db) = n" for k
    using uncalled_calls [OF uncalled_drift [OF assms(1,4)]] assms(2,3) by (simp add: alone_def steady_def)
  have st: "steady c i cl (aj_SessionID job) n (ae_drift ev k d)" if "steady c i cl (aj_SessionID job) n d" for k d
    by (rule steady_drift [OF assms(1,2) that])
  have un: "uncalled i (ae_drift ev k d)" if "uncalled i d" for k d by (rule uncalled_drift [OF assms(1) that])
  have "(db1 = db \<or> db1 = ae_drift ev 3 db \<or> db1 = ae_drift ev 4 (ae_drift ev 3 db)) \<and>
    (r = Inr [] \<longrightarrow> treeAuditTriggerClass (aj_Reason job) (aj_Final job) = TriggerNormal \<longrightarrow> int n < ac_MaxRunsPerSession cfg)"
    using assms(5) unfolding treeAuditSuppressionReason_def Let_def normal calls
    unfolding count prod.case sum.case
    by (auto simp: treeAuditTriggerClass_def split: if_splits)
  then show "steady c i cl (aj_SessionID job) n db1" "uncalled i db1"
    "r = Inr [] \<Longrightarrow> treeAuditTriggerClass (aj_Reason job) (aj_Final job) = TriggerNormal \<Longrightarrow> int n < ac_MaxRunsPerSession cfg"
    using st un assms(3,4) by auto
qed

lemma own_call:
  assumes "steady c i cl s n db" "cl = TriggerNormal \<Longrightarrow> int n < m" "int n \<le> m"
  shows "int (normal_calls s db) \<le> m"
proof -
  obtain old where "own_rows i db = [old]" "ar_TriggerClass old = cl" using assms(1) by (auto simp: steady_def mine_def)
  then show ?thesis using assms calls_split [of s db i] by (auto simp: steady_def normal_call_def)
qed

lemma claimed_budget:
  assumes "courteous ev i" "alone ev (aj_SessionID job) i" "bears c i run" "\<not> ar_ProviderCalled run"
    "steady c i (treeAuditTriggerClass (aj_Reason job) (aj_Final job)) (aj_SessionID job) n db" "uncalled i db"
    "int n \<le> ac_MaxRunsPerSession cfg"
  shows "int (normal_calls (aj_SessionID job) (snd (snd (claimed_audit lib cfg jc ev job s reply latest tv run x db)))) \<le>
    ac_MaxRunsPerSession cfg"
proof -
  let ?cl = "treeAuditTriggerClass (aj_Reason job) (aj_Final job)" and ?s = "aj_SessionID job"
  let ?run = "run\<lparr>ar_ProviderCalled := True\<rparr>"
  obtain r db1 where t: "treeAuditSuppressionReason cfg ev job (fst (ae_moment ev 2)) db = (r, db1)" by fastforce
  note sup = suppression_steady [OF assms(1,2,5,6) t]
  have m: "mine c i db1" using sup(1) by (simp add: steady_def)
  have b: "bears c i ?run" using assms(3) by simp
  obtain q db2 where save: "audit_call ev 5 (SaveMeetingTreeAuditRun jc ?run) db1 = (q, db2)" by fastforce
  have st2: "steady c i ?cl ?s n db2" using steady_save [OF assms(1,2) b sup(1), of 5 jc] save by simp
  have quiet: "int (normal_calls ?s d) \<le> ac_MaxRunsPerSession cfg" if "steady c i ?cl ?s n d" "uncalled i d" for d
    using uncalled_calls [OF that(2)] that(1) assms(7) by (simp add: steady_def)
  note st = steady_conclude [OF assms(1,2) _ sup(1)] steady_fail [OF assms(1,2) _ sup(1)]
    conclude_uncalled [OF assms(1) m _ _ sup(2)] fail_uncalled [OF assms(1) m _ _ sup(2)]
  have closed: "\<not> ar_ProviderCalled (closed_run ev k st res disp run)" for k st res disp
    using assms(4) by (simp add: closed_run_def)
  have judged: "int (normal_calls ?s (snd (snd (case q of Inl e \<Rightarrow> (x, Some (RepositoryError e), db2)
      | Inr _ \<Rightarrow> judge_audit lib cfg jc ev job reply latest tv ?run y db2)))) \<le> ac_MaxRunsPerSession cfg" if "r = Inr []" for y
  proof (cases q)
    case (Inl err)
    then have "db2 = ae_drift ev 5 db1" by (cases rule: call_save [OF assms(1) m b save]) auto
    then show ?thesis using quiet [OF st2] uncalled_drift [OF assms(1) sup(2)] Inl by simp
  next
    case (Inr u)
    then show ?thesis using own_call [OF steady_judge [OF assms(1,2) b st2]] sup(3) that assms(7) by simp
  qed
  show ?thesis
    unfolding claimed_audit_def t prod.case Let_def save
    using judged by (auto split: sum.split simp: assms(3,4) closed intro!: quiet st)
qed

lemma claimed_row:
  assumes "own_rows i db = []" "ar_ID new = i"
  shows "own_rows i (db\<lparr>ad_runs := ad_runs db @ [new]\<rparr>) = [new]"
    "other_calls s i (db\<lparr>ad_runs := ad_runs db @ [new]\<rparr>) = other_calls s i db"
  using assms by (simp_all add: own_rows_def other_calls_def)

lemma fresh_calls: "own_rows i db = [] \<Longrightarrow> normal_calls s db = other_calls s i db"
  using calls_split [of s db i] by simp

lemma run_budget:
  assumes "courteous ev (aj_RunID job)" "alone ev (aj_SessionID job) (aj_RunID job)"
    "own_rows (aj_RunID job) db = []" "int (normal_calls (aj_SessionID job) db) \<le> ac_MaxRunsPerSession cfg"
  shows "int (normal_calls (aj_SessionID job) (snd (snd (runTreeAudit lib cfg jc ev job snapshot reply db)))) \<le> ac_MaxRunsPerSession cfg"
proof -
  let ?i = "aj_RunID job" and ?s = "aj_SessionID job" and ?cl = "treeAuditTriggerClass (aj_Reason job) (aj_Final job)"
  obtain r db1 where g: "audit_call ev 1 (GetLatestMeetingTreeAuditRun ?s) db = (r, db1)" by fastforce
  note db1 = latest_call [OF g]
  let ?n = "other_calls ?s ?i db" and ?db2 = "ae_drift ev 2 db1"
  have f1: "own_rows ?i db1 = []" unfolding db1 by (rule courteous_fresh [OF assms(1,3)])
  have f2: "own_rows ?i ?db2 = []" by (rule courteous_fresh [OF assms(1) f1])
  have n: "other_calls ?s ?i db1 = ?n" "other_calls ?s ?i ?db2 = ?n" using assms(2) by (simp_all add: alone_def db1)
  have small: "int (normal_calls ?s db1) \<le> ac_MaxRunsPerSession cfg" "int (normal_calls ?s ?db2) \<le> ac_MaxRunsPerSession cfg"
    "int ?n \<le> ac_MaxRunsPerSession cfg"
    using assms(4) fresh_calls [OF f1] fresh_calls [OF f2] fresh_calls [OF assms(3)] n by simp_all
  have claim: "int (normal_calls ?s (snd (snd (case audit_call ev 2 (TryStartMeetingTreeAuditRun jc run) db1 of
        (Inl e, db2) \<Rightarrow> (y, Some (RepositoryError e), db2)
      | (Inr False, db2) \<Rightarrow> (z, None, db2)
      | (Inr True, db2) \<Rightarrow> claimed_audit lib cfg jc ev job s reply latest tv run y db2)))) \<le> ac_MaxRunsPerSession cfg"
    if run: "ar_ID run = ?i" "ar_Status run = AuditRunning" "ar_TriggerClass run = ?cl" "\<not> ar_ProviderCalled run" for run y z s latest tv
  proof -
    have b: "bears (active_claim run) ?i run" using run(1) by (simp add: bears_def)
    obtain q db2 where call: "audit_call ev 2 (TryStartMeetingTreeAuditRun jc run) db1 = (q, db2)" by fastforce
    show ?thesis
    proof (cases rule: claim_outcomes [OF f2 b run(2) call, case_names refused claimed])
      case refused
      then show ?thesis using small(2) by (auto simp: call split: sum.split bool.split)
    next
      case (claimed new)
      have i: "ar_ID new = ?i" using claimed(4) by (simp add: bears_def)
      note row = claimed_row [OF f2 i]
      have "steady (active_claim run) ?i ?cl ?s ?n db2"
        using claimed(2,3,5) run(3) row n by (simp add: steady_def)
      moreover have "uncalled ?i db2" using claimed(2,6) run(4) row(1) by (simp add: uncalled_def)
      ultimately show ?thesis
        using claimed_budget [OF assms(1,2) b run(4) _ _ small(3)] claimed(1) by (simp add: call)
    qed
  qed
  show ?thesis
    unfolding runTreeAudit_def Let_def g prod.case
    by (auto split: sum.splits simp: small assms(4) intro!: claim)
qed

section \<open>The properties\<close>

text \<open>C23: An audit that has claimed its row in the history ends it or says so.  Whatever the model answers,
  whatever the limits, the JSON columns of the database, failing calls and the other writers do meanwhile, when the
  audit returns no row of its own is left as running unless it returns an error of the repository, either as its
  own error or as the one that kept it from saving its failure; and it reports an applied audit only if
  it returns no error and the live analysis has been written as the next version.  The other writers
  are those that leave the row and its claim alone, as the unique index of the table demands.\<close>

theorem tree_audits_end:
  assumes "courteous ev (aj_RunID job)" "own_rows (aj_RunID job) db = []"
  shows "case runTreeAudit lib cfg jc ev job snapshot reply db of (x, err, db') \<Rightarrow>
    (ended (aj_RunID job) db' \<or> told err) \<and> applied_live job (x, err, db')"
  using run_ends [OF assms, of lib cfg jc snapshot reply] run_applied [of job lib cfg jc ev snapshot reply db]
  by (auto simp: concludes_def split: prod.splits)

text \<open>C24: No audit, whatever it is asked for and however it ends, with failing calls of the repository and
  refused texts included, takes a session over its limit of ordinary audits that called the model, as long as
  no other audit of the session calls it at the same time and the other writers leave its row alone.\<close>

theorem audit_budget_holds:
  assumes "courteous ev (aj_RunID job)" "alone ev (aj_SessionID job) (aj_RunID job)"
    "own_rows (aj_RunID job) db = []" "int (normal_calls (aj_SessionID job) db) \<le> ac_MaxRunsPerSession cfg"
  shows "case runTreeAudit lib cfg jc ev job snapshot reply db of (x, err, db') \<Rightarrow>
    int (normal_calls (aj_SessionID job) db') \<le> ac_MaxRunsPerSession cfg"
  using run_budget [OF assms, of lib jc snapshot reply] by (auto split: prod.splits)

text \<open>An audit given a cancelled context does nothing: it fails before it claims a row.\<close>

lemma cancelled_audit_claims_nothing:
  assumes "ae_fails ev 0" "tb_tree lib (aj_Payload job) \<noteq> None"
  shows "\<exists>x. runTreeAudit lib cfg jc ev job snapshot reply db = (x, Some (RepositoryError ErrDatabase), db) \<and> \<not> ex_ProviderCalled x"
  using assms by (simp add: runTreeAudit_def Let_def start_execution_def)

text \<open>A session whose audit finds nothing amiss, and one whose call of the model runs into its deadline.\<close>

definition sample_audit_env :: audit_env where
  "sample_audit_env = \<lparr>ae_moment = (\<lambda>k. (10 * hour + int k, ''id'')), ae_fails = (\<lambda>k. False), ae_drift = (\<lambda>k db. db),
     ae_contextError = None, ae_applyAllowed = True\<rparr>"

definition plain_columns :: json_column where
  "plain_columns = \<lparr>jc_valid = (\<lambda>s. True), jc_stored = Some\<rparr>"

definition sample_audit_db :: analysis_db where
  "sample_audit_db = \<lparr>ad_sessions = [''s''], ad_analyses = [], ad_history = [], ad_runs = []\<rparr>"

definition sample_job :: audit_job where
  "sample_job = \<lparr>aj_SessionID = ''s'', aj_Reason = ''new_tree_node'',
     aj_Task = \<lparr>at_name = ''tree_audit'', at_promptVersion = ''v1'', at_deployment = ''d''\<rparr>, aj_Payload = ''p'', aj_Version = 3,
     aj_Final = False, aj_RunID = ''tree-audit-1'', aj_Elapsed = 60\<rparr>"

definition sample_verdict :: treeAuditValidatorResult where
  "sample_verdict = \<lparr>vr_Evaluations = [], vr_OperationsProposed = 0, vr_OperationsValid = 0, vr_OperationsApplied = 0,
     vr_OperationsRejected = 0, vr_StaleOperationsRejected = 0, vr_ParserElementsRejected = 0, vr_OperationsCanonicalized = 0,
     vr_FallbackEvaluated = False, vr_FallbackApplied = False, vr_FallbackAction = [], vr_FallbackReason = []\<rparr>"

definition sample_audit_lib :: audit_lib where
  "sample_audit_lib = \<lparr>tb_tree_lib = \<lparr>tl_word = (\<lambda>r. True), tl_hash = (\<lambda>s. ''h'')\<rparr>, tb_context = None, tb_treeVersion = (\<lambda>p. 3),
     tb_tree = (\<lambda>p. Some \<lparr>tr_Nodes = [root_node None], tr_Edges = [], tr_Relations = []\<rparr>), tb_items = (\<lambda>p. []),
     tb_encode = (\<lambda>v. ''v''), tb_decode = (\<lambda>s. sample_verdict), tb_integrity_json = (\<lambda>p. ''i''), tb_array_length = (\<lambda>s. 0),
     tb_reasons_json = (\<lambda>rs. ''r''), tb_error_text = (\<lambda>e. ''e'')\<rparr>"

definition sample_snapshot :: "nat \<Rightarrow> gostring + audit_snapshot" where
  "sample_snapshot findings = Inr \<lparr>sp_Hash = ''hash'', sp_Summary = ''{}'', sp_InputJSON = ''{}'', sp_Findings = findings\<rparr>"

definition sample_reply :: audit_reply where
  "sample_reply = \<lparr>ra_Answer = CallFailed ''timeout'' ''context deadline exceeded'', ra_Model = ''m'', ra_Content = [],
     ra_PromptTokens = 0, ra_CompletionTokens = 0, ra_ElapsedMilliseconds = 0\<rparr>"

lemma sample_audit_conditions:
  "courteous sample_audit_env i" "alone sample_audit_env s i"
  "own_rows i sample_audit_db = []" "normal_calls s sample_audit_db = 0"
  by (simp_all add: courteous_def alone_def leaves_run_def sample_audit_env_def
      own_rows_def normal_calls_def sample_audit_db_def)

theorem tree_audits_end_witness:
  "case runTreeAudit sample_audit_lib sample_audit_config plain_columns sample_audit_env sample_job (sample_snapshot 1)
      sample_reply sample_audit_db of (x, err, db') \<Rightarrow>
    (ended (aj_RunID sample_job) db' \<or> told err) \<and> applied_live sample_job (x, err, db')"
  by (rule tree_audits_end) (rule sample_audit_conditions)+

theorem audit_budget_holds_witness:
  "case runTreeAudit sample_audit_lib sample_audit_config plain_columns sample_audit_env sample_job (sample_snapshot 1)
      sample_reply sample_audit_db of (x, err, db') \<Rightarrow>
    int (normal_calls (aj_SessionID sample_job) db') \<le> ac_MaxRunsPerSession sample_audit_config"
  by (rule audit_budget_holds) (rule sample_audit_conditions | simp add: sample_audit_conditions(4), code_simp)+

text \<open>What that run leaves behind: one failed row.  If its context is cancelled during the call of the model, as it is
  when the meeting ends, the row cannot be written either and stays as running.\<close>

lemma sample_run_fails:
  "map (\<lambda>r. (ar_Status r, ar_Result r)) (ad_runs (snd (snd (runTreeAudit sample_audit_lib sample_audit_config plain_columns
      sample_audit_env sample_job (sample_snapshot 1) sample_reply sample_audit_db)))) = [(AuditFailed, ''timeout'')]"
  by code_simp

lemma cancelled_run_stays_running:
  "map (\<lambda>r. (ar_Status r, ar_Result r)) (ad_runs (snd (snd (runTreeAudit sample_audit_lib sample_audit_config plain_columns
      (sample_audit_env\<lparr>ae_fails := (\<lambda>k. 6 \<le> k)\<rparr>) sample_job (sample_snapshot 1) sample_reply sample_audit_db)))) =
    [(AuditRunning, ''running'')]"
  by code_simp

text \<open>A text that PostgreSQL refuses is enough: when the model's findings cannot be stored as JSONB, the completed row
  cannot be saved and stays as running; the unique index then keeps the same snapshot from being audited again.\<close>

definition sample_judgement :: audit_judgement where
  "sample_judgement = \<lparr>jd_Findings = ''nul'', jd_Operations = [], jd_Validator = sample_verdict, jd_Rejections = [],
     jd_Canonicalized = 0, jd_Encodes = True, jd_SameTree = True, jd_Payload = None, jd_Repair = RepairUnchanged\<rparr>"

definition nul_columns :: json_column where
  "nul_columns = \<lparr>jc_valid = (\<lambda>s. True), jc_stored = (\<lambda>s. if s = ''nul'' then None else Some s)\<rparr>"

lemma refused_findings_stay_running:
  "map (\<lambda>r. (ar_Status r, ar_ProviderCalled r)) (ad_runs (snd (snd (runTreeAudit sample_audit_lib sample_audit_config nul_columns
      sample_audit_env sample_job (sample_snapshot 1) (sample_reply\<lparr>ra_Answer := Answered sample_judgement\<rparr>) sample_audit_db)))) =
    [(AuditRunning, True)]"
  by code_simp

end
