(* ===== verification/SessionRaces.thy ===== *)
theory SessionRaces
  imports SessionFacts
begin

text \<open>
  Status reports at the grain of their database calls.  \<open>UpdateMeetingSessionStatus\<close> of
  \<open>internal/application/meeting_session.go\<close> reads the session, decides, and writes with an update of its own:
  nothing holds the row in between.  Here a report, an end request and a fallback timer are calls under way
  (\<open>flight\<close>) that make one repository call or one bot command per step, in any order with each other and with the
  other actions of \<open>sys_step\<close>.  Run without a pause, the steps are the methods of \<open>SessionService\<close>.
\<close>

section \<open>Calls under way\<close>

text \<open>Who waits for a report: nobody, or an end request with the session it read and its reason.\<close>

datatype caller = ByReport | ByEnd MeetingSession gostring

datatype flight =
    ToReport MeetingSessionStatusUpdateInput caller
  | Reporting MeetingSessionStatusUpdateInput MeetingSessionStatus "MeetingSession result" caller
  | Commanding MeetingSession gostring MeetingSession

text \<open>The second half of a report: what is done with the row that was read.\<close>

definition report_write ::
    "config \<Rightarrow> MeetingSessionStatusUpdateInput \<Rightarrow> MeetingSessionStatus \<Rightarrow> MeetingSession result \<Rightarrow> world \<Rightarrow>
     MeetingSession result \<times> world" where
  "report_write cfg i status r w =
     (case r of
        Inl _ \<Rightarrow> write_status cfg i (trim_space (si_SessionID i)) status None w
      | Inr previous \<Rightarrow>
          if shouldSuppressMeetingSessionFailure previous i then (Inr previous, w)
          else if shouldSuppressMeetingSessionTerminalRevival previous status then (Inr previous, w)
          else if status = Ended \<and> ms_Status previous = Ended \<and> sv_endedObserver cfg
            then (Inr previous, startMeetingSessionFinalization previous i w)
          else if status = Ended \<and> \<not> isTerminalMeetingSessionStatus (ms_Status previous) \<and> sv_endedObserver cfg
            then begin_ending cfg i previous w
          else write_status cfg i (trim_space (si_SessionID i)) status (Some previous) w)"

fun flight_next :: "config \<Rightarrow> flight \<Rightarrow> world \<Rightarrow> flight option \<times> world" where
  "flight_next cfg (ToReport i c) w =
     (if trim_space (si_SessionID i) = [] then (None, w)
      else (case parse_status (trim_space (si_Status i)) of
        None \<Rightarrow> (None, w)
      | Some status \<Rightarrow>
          (let (r, w1) = repo_read (\<lambda>db. repo_GetMeetingSession db (trim_space (si_SessionID i))) w in
           (Some (Reporting i status r c), w1))))"
| "flight_next cfg (Reporting i status r c) w =
     (let (out, w1) = report_write cfg i status r w in
      case (c, out) of
        (ByEnd previous reason, Inr ending) \<Rightarrow> (Some (Commanding previous reason ending), w1)
      | _ \<Rightarrow> (None, w1))"
| "flight_next cfg (Commanding previous reason ending) w =
     (case sv_commander cfg of
        None \<Rightarrow> (None, w)
      | Some c \<Rightarrow>
          (let cmd = \<lparr>be_SessionID = ms_ID previous, be_BotCallID = ms_BotCallID previous, be_Reason = reason\<rparr>;
               reply = cmd_end c (length (w_ends w)) cmd;
               w1 = w\<lparr>w_ends := w_ends w @ [cmd]\<rparr> in
           case reply of
             Some BotNotConfigured \<Rightarrow> (None, w1)
           | Some (BotError msg) \<Rightarrow>
               (Some (ToReport (end_update previous Ended (reason @ '' (bot end command failed: '' @ msg @ '')'')
                  reason ''frontend_manual_end_bot_unreachable'') ByReport), w1)
           | None \<Rightarrow>
               if \<not> sv_endedObserver cfg
               then (Some (ToReport (end_update previous Ended reason reason
                  ''frontend_manual_end_without_finalizer'') ByReport), w1)
               else (None, w1\<lparr>w_tasks := w_tasks w1 @ [FallbackTask (ms_ID previous) reason]\<rparr>)))"

text \<open>An end request up to its first report.\<close>

definition end_begin :: "config \<Rightarrow> MeetingSessionEndInput \<Rightarrow> world \<Rightarrow> flight option \<times> world" where
  "end_begin cfg i w0 =
     (let sessionID = trim_space (ei_SessionID i) in
      if sessionID = [] then (None, w0)
      else
        (let reason0 = trim_space (ei_Reason i);
             reason = (if reason0 = [] then ''manual_end_requested'' else reason0);
             (r, w1) = repo_read (\<lambda>db. repo_GetMeetingSession db sessionID) w0 in
         case r of
           Inl e \<Rightarrow> (None, w1)
         | Inr previous \<Rightarrow>
             if isTerminalMeetingSessionStatus (ms_Status previous)
             then (None, if ms_Status previous = Ended \<and> sv_endedObserver cfg
                    then startMeetingSessionFinalization previous
                           (end_update previous Ended [] reason ''duplicate_end_retry'') w1
                    else w1)
             else if sv_commander cfg = None then (None, w1)
             else (Some (ToReport (end_update previous Ending reason reason ''frontend_manual_end'')
                    (ByEnd previous reason)), w1)))"

text \<open>A fallback timer that has rung, up to its report.\<close>

definition fallback_begin :: "gostring \<Rightarrow> gostring \<Rightarrow> world \<Rightarrow> flight option \<times> world" where
  "fallback_begin sessionID reason w0 =
     (let (r, w1) = repo_read (\<lambda>db. repo_GetMeetingSession db sessionID) w0 in
      case r of
        Inl _ \<Rightarrow> (None, w1)
      | Inr s \<Rightarrow>
          if ms_Status s \<noteq> Ending then (None, w1)
          else (Some (ToReport
            \<lparr>si_SessionID = sessionID, si_Status = status_text Ended, si_BotCallID = ms_BotCallID s,
             si_Message = ''bot drain acknowledgement timeout'', si_Reason = reason,
             si_ErrorCode = [], si_Source = ''finalization_fallback'', si_Title = [],
             si_TitleSource = [], si_BotLastForwardedFinalSequence = 0,
             si_TranscriptQueueDrained = False\<rparr> ByReport), w1))"

section \<open>The methods are their steps\<close>

fun flight_run :: "config \<Rightarrow> nat \<Rightarrow> flight option \<times> world \<Rightarrow> world" where
  "flight_run cfg n (None, w) = w"
| "flight_run cfg 0 (Some f, w) = w"
| "flight_run cfg (Suc n) (Some f, w) = flight_run cfg n (flight_next cfg f w)"

lemma report_halves:
  assumes "trim_space (si_SessionID i) \<noteq> []" and "parse_status (trim_space (si_Status i)) = Some st"
  shows "UpdateMeetingSessionStatus cfg i w =
    (let (r, w1) = repo_read (\<lambda>db. repo_GetMeetingSession db (trim_space (si_SessionID i))) w in
     report_write cfg i st r w1)"
  using assms by (simp add: UpdateMeetingSessionStatus_def report_write_def Let_def)

lemma report_is_its_steps:
  "flight_run cfg (Suc (Suc n)) (Some (ToReport i ByReport), w) = snd (UpdateMeetingSessionStatus cfg i w)"
proof (cases "trim_space (si_SessionID i) = [] \<or> parse_status (trim_space (si_Status i)) = None")
  case True
  then show ?thesis by (auto simp: UpdateMeetingSessionStatus_def)
next
  case False
  then show ?thesis by (auto simp: report_halves op_simps)
qed

lemma fallback_is_its_steps:
  "flight_run cfg 2 (fallback_begin sid reason w) = finalizeAfterFallback cfg sid reason w"
  using report_is_its_steps [of cfg 0]
  by (simp add: fallback_begin_def finalizeAfterFallback_def op_simps numeral_2_eq_2 split: sum.split del: flight_next.simps)

lemma end_update_status [simp]: "parse_status (trim_space (si_Status (end_update p st m r s))) = Some st"
  by (simp add: end_update_def parse_status_text)

lemma status_literals [simp]:
  "parse_status (trim_space ''ending'') = Some Ending" "parse_status (trim_space ''ended'') = Some Ended"
  using end_update_status [of _ Ending] end_update_status [of _ Ended] by (simp_all add: end_update_def)

lemma end_is_its_steps:
  assumes "trim_space (ms_ID p) \<noteq> []"
  shows "flight_run cfg (Suc (Suc n))
      (Some (ToReport (end_update p Ending reason reason ''frontend_manual_end'') (ByEnd p reason)), w) =
    (let (re, w2) = UpdateMeetingSessionStatus cfg (end_update p Ending reason reason ''frontend_manual_end'') w in
     case re of Inl _ \<Rightarrow> w2 | Inr ending \<Rightarrow> flight_run cfg n (Some (Commanding p reason ending), w2))"
proof -
  let ?u = "end_update p Ending reason reason ''frontend_manual_end''"
  have sid: "trim_space (si_SessionID ?u) \<noteq> []" using assms by (simp add: end_update_def)
  show ?thesis
    unfolding report_halves [OF sid end_update_status]
    using sid by (simp add: op_simps split: sum.split)
qed

theorem end_request_is_its_steps:
  "flight_run cfg 5 (end_begin cfg e w) = snd (EndMeetingSession cfg e w)"
proof -
  have five: "(5::nat) = Suc (Suc (Suc (Suc (Suc 0))))" by simp
  have id: "trim_space (ms_ID p) \<noteq> []"
    if "repo_read (\<lambda>db. repo_GetMeetingSession db (trim_space (ei_SessionID e))) w = (Inr p, w')"
      "trim_space (ei_SessionID e) \<noteq> []" for p w'
    using that by (auto dest!: repo_read_Inr get_Inr)
  have send: "flight_run cfg (Suc (Suc (Suc 0))) (Some (Commanding p reason ending), w2) = snd (case sv_commander cfg of
      None \<Rightarrow> (Inl ErrBotControlNotConfigured, w2)
    | Some c \<Rightarrow>
        (let cmd = \<lparr>be_SessionID = ms_ID p, be_BotCallID = ms_BotCallID p, be_Reason = reason\<rparr>;
             reply = cmd_end c (length (w_ends w2)) cmd; w3 = w2\<lparr>w_ends := w_ends w2 @ [cmd]\<rparr> in
         case reply of
           Some BotNotConfigured \<Rightarrow> (Inl ErrBotControlNotConfigured, w3)
         | Some (BotError msg) \<Rightarrow> UpdateMeetingSessionStatus cfg (end_update p Ended
             (reason @ '' (bot end command failed: '' @ msg @ '')'') reason ''frontend_manual_end_bot_unreachable'') w3
         | None \<Rightarrow>
             if \<not> sv_endedObserver cfg
             then UpdateMeetingSessionStatus cfg (end_update p Ended reason reason
                    ''frontend_manual_end_without_finalizer'') w3
             else (Inr ending, w3\<lparr>w_tasks := w_tasks w3 @ [FallbackTask (ms_ID p) reason]\<rparr>)))" for p reason ending w2
    using report_is_its_steps [of cfg 0]
    by (simp add: Let_def del: flight_next.simps(1) split: option.split botError.split)
  let ?read = "repo_read (\<lambda>db. repo_GetMeetingSession db (trim_space (ei_SessionID e))) w"
  let ?reason = "if trim_space (ei_Reason e) = [] then ''manual_end_requested'' else trim_space (ei_Reason e)"
  show ?thesis
  proof (cases "trim_space (ei_SessionID e) = [] \<or> isl (fst ?read)
      \<or> isTerminalMeetingSessionStatus (ms_Status (projr (fst ?read))) \<or> sv_commander cfg = None")
    case True
    then show ?thesis
      by (auto simp: end_begin_def EndMeetingSession_def Let_def case_prod_beta split: sum.split)
  next
    case False
    then obtain p c where p: "fst ?read = Inr p" "\<not> isTerminalMeetingSessionStatus (ms_Status p)"
      and c: "sv_commander cfg = Some c" and sid: "trim_space (ei_SessionID e) \<noteq> []"
      by (cases "fst ?read") auto
    have ID: "trim_space (ms_ID p) \<noteq> []" using id [of p "snd ?read"] p sid by (cases ?read) auto
    have "flight_run cfg 5 (end_begin cfg e w) = flight_run cfg 5 (Some (ToReport
        (end_update p Ending ?reason ?reason ''frontend_manual_end'') (ByEnd p ?reason)), snd ?read)"
      using p c sid by (simp add: end_begin_def Let_def case_prod_beta)
    also have "\<dots> = snd (EndMeetingSession cfg e w)"
      unfolding five end_is_its_steps [OF ID] send
      using p c sid by (simp add: EndMeetingSession_def Let_def case_prod_beta split: sum.split)
    finally show ?thesis .
  qed
qed


section \<open>Every interleaving\<close>

record race =
  rc_sys :: sys
  rc_flights :: "flight list"

datatype race_action =
    Act action
  | StartReport MeetingSessionStatusUpdateInput
  | StartEnd MeetingSessionEndInput
  | Ring nat
  | Continue nat

text \<open>The actions of \<open>sys_step\<close> that stay one step: each writes at most one status with one statement of SQL
  or in one transaction, and none of them decides what to write by a status it has read.\<close>

fun one_step :: "action \<Rightarrow> world \<Rightarrow> bool" where
  "one_step (Report _) w = False"
| "one_step (EndRequest _) w = False"
| "one_step (RunTask k _) w \<longleftrightarrow> (case w_tasks w ! k of FinalizeTask _ _ \<Rightarrow> True | FallbackTask _ _ \<Rightarrow> False)"
| "one_step _ w = True"

fun optional :: "'a option \<Rightarrow> 'a list" where
  "optional None = []"
| "optional (Some x) = [x]"

inductive race_step :: "config \<Rightarrow> race_action \<Rightarrow> race \<Rightarrow> race \<Rightarrow> bool" for cfg where
  race_Act: "sys_step cfg a s s' \<Longrightarrow> one_step a (sy_world s) \<Longrightarrow>
     race_step cfg (Act a) \<lparr>rc_sys = s, rc_flights = fs\<rparr>
       \<lparr>rc_sys = s', rc_flights = (if a = Restart then [] else fs)\<rparr>"
| race_StartReport:
     "race_step cfg (StartReport u) \<lparr>rc_sys = s, rc_flights = fs\<rparr>
       \<lparr>rc_sys = s, rc_flights = fs @ [ToReport u ByReport]\<rparr>"
| race_StartEnd: "end_begin cfg e (sy_world s) = (f, w) \<Longrightarrow>
     race_step cfg (StartEnd e) \<lparr>rc_sys = s, rc_flights = fs\<rparr>
       \<lparr>rc_sys = s\<lparr>sy_world := w\<rparr>, rc_flights = fs @ optional f\<rparr>"
| race_Ring: "k < length (w_tasks (sy_world s)) \<Longrightarrow> w_tasks (sy_world s) ! k = FallbackTask sid reason \<Longrightarrow>
     fallback_begin sid reason (without_task k (sy_world s)) = (f, w) \<Longrightarrow>
     race_step cfg (Ring k) \<lparr>rc_sys = s, rc_flights = fs\<rparr>
       \<lparr>rc_sys = s\<lparr>sy_world := w\<rparr>, rc_flights = fs @ optional f\<rparr>"
| race_Continue: "k < length fs \<Longrightarrow> flight_next cfg (fs ! k) (sy_world s) = (f, w) \<Longrightarrow>
     race_step cfg (Continue k) \<lparr>rc_sys = s, rc_flights = fs\<rparr>
       \<lparr>rc_sys = s\<lparr>sy_world := w\<rparr>, rc_flights = take k fs @ optional f @ drop (Suc k) fs\<rparr>"

inductive race_run :: "config \<Rightarrow> race \<Rightarrow> race_action list \<Rightarrow> race \<Rightarrow> bool" for cfg where
  race_Nil: "race_run cfg s [] s"
| race_Cons: "race_step cfg a s s' \<Longrightarrow> race_run cfg s' as s'' \<Longrightarrow> race_run cfg s (a # as) s''"

lemma race_StartReportI:
  "race_step cfg (StartReport u) s (s\<lparr>rc_flights := rc_flights s @ [ToReport u ByReport]\<rparr>)"
  using race_StartReport [of cfg u "rc_sys s" "rc_flights s"] by (cases s) simp

lemma race_ContinueI:
  assumes "k < length (rc_flights s)" and "flight_next cfg (rc_flights s ! k) (sy_world (rc_sys s)) = (f, w)"
    and "s' = s\<lparr>rc_sys := (rc_sys s)\<lparr>sy_world := w\<rparr>,
      rc_flights := take k (rc_flights s) @ optional f @ drop (Suc k) (rc_flights s)\<rparr>"
  shows "race_step cfg (Continue k) s s'"
  using race_Continue [of k "rc_flights s" cfg "rc_sys s" f w] assms by (cases s) simp

section \<open>Ended sessions\<close>

text \<open>A report that has read session \<open>i\<close> has read it terminal.\<close>

fun read_terminal :: "gostring \<Rightarrow> flight \<Rightarrow> bool" where
  "read_terminal i (Reporting u st r c) \<longleftrightarrow>
     (case r of Inl _ \<Rightarrow> trim_space (si_SessionID u) \<noteq> i
      | Inr p \<Rightarrow> ms_ID p = trim_space (si_SessionID u) \<and>
          (ms_ID p = i \<longrightarrow> isTerminalMeetingSessionStatus (ms_Status p)))"
| "read_terminal i _ = True"

lemma settled_status_final:
  "isTerminalMeetingSessionStatus (su_Status u) \<Longrightarrow> settled (w_db w) i \<Longrightarrow>
   settled (w_db (snd (repo_call (\<lambda>db. repo_UpdateMeetingSessionStatus db u) w))) i"
  by (rule settled_repo_call)
    (auto simp: settled_def repo_UpdateMeetingSessionStatus_def lookup_update_by_id)

lemma settled_write_status:
  "sid \<noteq> i \<or> isTerminalMeetingSessionStatus st \<Longrightarrow> settled (w_db w) i \<Longrightarrow>
   settled (w_db (snd (write_status cfg u sid st p w))) i"
  by (auto simp: write_status_def op_simps settled_status_other settled_status_final split: sum.split)

lemma settled_begin_ending:
  "ms_ID p \<noteq> i \<Longrightarrow> settled (w_db w) i \<Longrightarrow> settled (w_db (snd (begin_ending cfg u p w))) i"
  by (auto simp: begin_ending_def op_simps settled_status_other split: sum.split)

lemma settled_report_write:
  assumes "read_terminal i (Reporting u st r c)" and "settled (w_db w) i"
  shows "settled (w_db (snd (report_write cfg u st r w))) i"
  using assms
  by (cases r) (auto simp: report_write_def shouldSuppressMeetingSessionTerminalRevival_def
      intro!: settled_write_status settled_begin_ending)

lemma report_write_faults [simp]: "no_faults (snd (report_write cfg u st r w)) = no_faults w"
proof -
  have "keeps w (snd (report_write cfg u st r w))" by (simp add: report_write_def split: sum.split)
  then show ?thesis by (simp add: keeps_def no_faults_def)
qed

lemma flight_next_faults: "no_faults w \<Longrightarrow> no_faults (snd (flight_next cfg f w))"
proof (cases f)
  case (Reporting u st r c)
  then show "no_faults w \<Longrightarrow> no_faults (snd (flight_next cfg f w))"
    by (simp add: op_simps split: caller.split sum.split)
qed (simp_all add: op_simps no_faults_def world_simps split: option.split botError.split)

lemma flight_next_settled:
  assumes "no_faults w" and "read_terminal i f" and "settled (w_db w) i"
  shows "settled (w_db (snd (flight_next cfg f w))) i"
    and "list_all (read_terminal i) (optional (fst (flight_next cfg f w)))"
proof -
  have "settled (w_db (snd (flight_next cfg f w))) i \<and>
    list_all (read_terminal i) (optional (fst (flight_next cfg f w)))"
  proof (cases f)
    case (ToReport u c)
    then show ?thesis
      using assms
      by (cases "trim_space (si_SessionID u) = i")
        (auto simp: op_simps read_ok get_lookup settled_def dest: lookup_ID split: option.split sum.split)
  next
    case (Reporting u st r c)
    then show ?thesis
      using assms settled_report_write [of i u st r c w cfg]
      by (simp add: op_simps split: caller.split sum.split)
  next
    case (Commanding p reason ending)
    then show ?thesis using assms by (simp add: Let_def split: option.split botError.split)
  qed
  then show "settled (w_db (snd (flight_next cfg f w))) i"
    "list_all (read_terminal i) (optional (fst (flight_next cfg f w)))" by simp_all
qed

lemma end_begin_frame:
  "w_db (snd (end_begin cfg e w)) = w_db w" "w_faults (snd (end_begin cfg e w)) = w_faults w"
  "list_all (read_terminal i) (optional (fst (end_begin cfg e w)))"
  by (simp_all add: end_begin_def op_simps world_simps split: sum.split)

lemma fallback_begin_frame:
  "w_db (snd (fallback_begin sid reason w)) = w_db w" "w_faults (snd (fallback_begin sid reason w)) = w_faults w"
  "list_all (read_terminal i) (optional (fst (fallback_begin sid reason w)))"
  by (simp_all add: fallback_begin_def op_simps world_simps split: sum.split)

fun race_reopens :: "gostring \<Rightarrow> race_action \<Rightarrow> bool" where
  "race_reopens i (Act a) = reopens i a"
| "race_reopens i _ = False"

definition race_settled :: "gostring \<Rightarrow> race \<Rightarrow> bool" where
  "race_settled i s \<longleftrightarrow> no_faults (sy_world (rc_sys s)) \<and> settled (w_db (sy_world (rc_sys s))) i
     \<and> list_all (read_terminal i) (rc_flights s)"

lemma list_all_take_drop: "list_all P xs \<Longrightarrow> list_all P (take k xs) \<and> list_all P (drop m xs)"
  by (auto simp: list_all_iff dest: in_set_takeD in_set_dropD)

lemma race_step_settled:
  "race_step cfg a s s' \<Longrightarrow> \<not> race_reopens i a \<Longrightarrow> race_settled i s \<Longrightarrow> race_settled i s'"
proof (induction rule: race_step.induct)
  case (race_Act a s s' fs)
  then show ?case
    using step_settled [OF race_Act.hyps(1)] step_no_faults [OF race_Act.hyps(1)] by (simp add: race_settled_def)
next
  case (race_StartReport u s fs)
  then show ?case by (simp add: race_settled_def)
next
  case (race_StartEnd e s f w fs)
  then show ?case
    using end_begin_frame [where cfg = cfg and e = e and w = "sy_world s"] by (simp add: race_settled_def no_faults_def)
next
  case (race_Ring k s sid reason f w fs)
  then show ?case
    using fallback_begin_frame [where sid = sid and reason = reason and w = "without_task k (sy_world s)"]
    by (simp add: race_settled_def no_faults_def)
next
  case (race_Continue k fs s f w)
  then have "read_terminal i (fs ! k)" by (simp add: race_settled_def list_all_length)
  then show ?case
    using race_Continue flight_next_settled [of "sy_world s" i "fs ! k" cfg]
      flight_next_faults [of "sy_world s" cfg "fs ! k"] list_all_take_drop [of "read_terminal i" fs]
    by (simp add: race_settled_def)
qed

lemma race_run_settled:
  "race_run cfg s as s' \<Longrightarrow> \<forall>a \<in> set as. \<not> race_reopens i a \<Longrightarrow> race_settled i s \<Longrightarrow> race_settled i s'"
  by (induction rule: race_run.induct) (simp_all add: race_step_settled)

text \<open>The exception is real: a report that read the session before it ended writes what it reports.\<close>

lemma stale_read_is_written:
  assumes "no_faults w" and "lookup (w_db w) (trim_space (si_SessionID u)) = Some r"
    and "\<not> shouldSuppressMeetingSessionFailure p u" and "\<not> isTerminalMeetingSessionStatus (ms_Status p)"
    and "\<not> isTerminalMeetingSessionStatus st"
  shows "status_in (w_db (snd (report_write cfg u st (Inr p) w))) (trim_space (si_SessionID u)) = Some st"
  using assms
  by (auto simp: report_write_def shouldSuppressMeetingSessionTerminalRevival_def lookup_write_status status_in_def
      isTerminalMeetingSessionStatus_def)

text \<open>C1: Once a session is terminal it stays terminal.  Bot reports, end requests and fallback timers are taken
  at the grain of their database calls, each read and each write a step of its own, in every order with
  each other, with finalizers, with the other requests and with restarts of the process.  The claim is for a
  database that answers, and it has exactly these exceptions: the late answer to the session's own join command,
  its deletion, and a report under way that had read the session before it became terminal.\<close>

theorem terminal_sessions_stay_terminal:
  assumes "race_run cfg s as s'" and "no_faults (sy_world (rc_sys s))"
    and "\<forall>a \<in> set as. \<not> race_reopens i a" and "settled (w_db (sy_world (rc_sys s))) i"
    and "list_all (read_terminal i) (rc_flights s)"
  shows "settled (w_db (sy_world (rc_sys s'))) i"
  using race_run_settled [OF assms(1,3)] assms(2,4,5) by (simp add: race_settled_def)

theorem terminal_sessions_stay_terminal_witness:
  "\<exists>s s'. settled (w_db (sy_world (rc_sys s))) ''s1'' \<and>
     race_run sample_config s [StartReport (sample_report ''s1'' ''recording''),
       StartReport (sample_report ''s1'' ''ended''), Continue 0, Continue 1] s' \<and>
     settled (w_db (sy_world (rc_sys s'))) ''s1''"
proof -
  let ?s = "\<lparr>rc_sys = \<lparr>sy_world = sample_world [sample_session ''s1'' Stale], sy_pending = []\<rparr>, rc_flights = []\<rparr>"
  have st: "parse_status ''recording'' = Some Recording" by code_simp
  obtain f w where f: "flight_next sample_config (ToReport (sample_report ''s1'' ''recording'') ByReport)
      (sample_world [sample_session ''s1'' Stale]) = (Some f, w)"
    by (simp add: sample_report_def st op_simps)
  let ?a = "ToReport (sample_report ''s1'' ''recording'') ByReport" and ?b = "ToReport (sample_report ''s1'' ''ended'') ByReport"
  let ?s3 = "\<lparr>rc_sys = \<lparr>sy_world = w, sy_pending = []\<rparr>, rc_flights = [f, ?b]\<rparr>"
  have r1: "race_step sample_config (StartReport (sample_report ''s1'' ''recording'')) ?s (?s\<lparr>rc_flights := [?a]\<rparr>)"
    using race_StartReportI [of sample_config "sample_report ''s1'' ''recording''" ?s] by simp
  have r2: "race_step sample_config (StartReport (sample_report ''s1'' ''ended'')) (?s\<lparr>rc_flights := [?a]\<rparr>)
      (?s\<lparr>rc_flights := [?a, ?b]\<rparr>)"
    using race_StartReportI [of sample_config "sample_report ''s1'' ''ended''" "?s\<lparr>rc_flights := [?a]\<rparr>"] by simp
  have r3: "race_step sample_config (Continue 0) (?s\<lparr>rc_flights := [?a, ?b]\<rparr>) ?s3"
    by (rule race_ContinueI [where f = "Some f" and w = w]) (use f in \<open>simp_all del: flight_next.simps\<close>)
  obtain s' where r4: "race_step sample_config (Continue 1) ?s3 s'"
    using race_ContinueI [OF _ surjective_pairing refl, of 1 ?s3 sample_config] by auto
  have run: "race_run sample_config ?s [StartReport (sample_report ''s1'' ''recording''),
       StartReport (sample_report ''s1'' ''ended''), Continue 0, Continue 1] s'"
    by (rule race_Cons [OF r1 race_Cons [OF r2 race_Cons [OF r3 race_Cons [OF r4 race_Nil]]]])
  have "settled (w_db (sy_world (rc_sys ?s))) ''s1''" by (simp add: settled_def)
  with terminal_sessions_stay_terminal [OF run, of "''s1''"] run show ?thesis by fastforce
qed

end
