(* ===== verification/AgendaProgress.thy ===== *)
theory AgendaProgress
  imports TreeState
begin

text \<open>
  The progress of a meeting through its agenda (\<open>internal/application/ai_agenda_progress.go\<close>): the rows
  of the projection, what one round of live analysis makes of them (\<open>evaluateAgendaProgress\<close>: which topic
  is current, which entries are not started, discussed or under discussion), the links to the tree, and the
  projection made up for old payloads.

  A Go map from ids to entries is a partial map with the list \<open>order\<close> the code keeps beside it; the loops
  over such a map treat each entry by itself.  Scores are the halves and quotients of the code as rational
  numbers, without the rounding of \<open>float64\<close>.  The rules over Japanese sentences that make an item
  count as hollow are the parameter \<open>hollow\<close>.  Statistics are left out.
\<close>

section \<open>Constants\<close>

definition agendaProgressNotStarted :: gostring where "agendaProgressNotStarted = ''not_started''"
definition agendaProgressDiscussing :: gostring where "agendaProgressDiscussing = ''discussing''"
definition agendaProgressDiscussed :: gostring where "agendaProgressDiscussed = ''discussed''"
definition agendaOutcomeConcluded :: gostring where "agendaOutcomeConcluded = ''concluded''"
definition agendaOutcomeUnresolved :: gostring where "agendaOutcomeUnresolved = ''unresolved''"
definition agendaProgressSourceFixed :: gostring where "agendaProgressSourceFixed = ''fixed_agenda''"
definition agendaProgressSourceDynamic :: gostring where "agendaProgressSourceDynamic = ''dynamic_topic''"
definition evidenceSourceNone :: gostring where "evidenceSourceNone = ''none''"
definition evidenceSourceActiveItem :: gostring where "evidenceSourceActiveItem = ''active_items''"
definition evidenceSourceTranscript :: gostring where "evidenceSourceTranscript = ''transcript_evidence''"
definition linkMaterializedTopic :: gostring where "linkMaterializedTopic = ''materialized-topic''"
definition linkVisibleItems :: gostring where "linkVisibleItems = ''visible-items''"
definition linkNotLinkable :: gostring where "linkNotLinkable = ''not-linkable''"
definition leaderScoreThreshold :: int where "leaderScoreThreshold = 2"
definition candidateSwitchRounds :: int where "candidateSwitchRounds = 2"
definition currentDematerializeRounds :: int where "currentDematerializeRounds = 3"
definition discussedInactiveRounds :: int where "discussedInactiveRounds = 2"
definition displayMinRounds :: int where "displayMinRounds = 2"
definition displayMinEvidenceItems :: nat where "displayMinEvidenceItems = 2"
definition agendaStatusDiscussed :: gostring where "agendaStatusDiscussed = ''discussed''"
definition agendaStatusMerged :: gostring where "agendaStatusMerged = ''merged''"
definition classificationTentative :: gostring where "classificationTentative = ''tentative''"
definition agendaContextModeFixed :: gostring where "agendaContextModeFixed = ''fixed_agenda''"
definition reconciliationDynamicCandidate :: gostring where
  "reconciliationDynamicCandidate = ''dynamic_candidate_reconciliation''"
definition reconciliationSkipBackfill :: gostring where "reconciliationSkipBackfill = ''agenda_skip_backfill''"

lemmas progress_status_defs =
  agendaProgressNotStarted_def agendaProgressDiscussing_def agendaProgressDiscussed_def

definition isValidAgendaProgressStatus :: "gostring \<Rightarrow> bool" where
  "isValidAgendaProgressStatus status \<longleftrightarrow>
     status \<in> set [agendaProgressNotStarted, agendaProgressDiscussing, agendaProgressDiscussed]"

section \<open>Data\<close>

record agendaProgressEntry =
  pe_ID :: gostring
  pe_SourceType :: gostring
  pe_Title :: gostring
  pe_Order :: int
  pe_ComputedStatus :: gostring
  pe_ManualStatus :: gostring
  pe_EffectiveStatus :: gostring
  pe_OutcomeStatus :: gostring
  pe_DiscussionWeight :: rat
  pe_DiscussionVolume :: int
  pe_ProgressSource :: gostring
  pe_ProgressReason :: gostring
  pe_SemanticCoverageScore :: rat
  pe_EvidenceSequenceNos :: "int list"
  pe_ActiveItemCount :: int
  pe_InactiveItemCount :: int
  pe_ActiveItemIDs :: "gostring list"
  pe_InactiveItemIDs :: "gostring list"
  pe_RelatedItemCounts :: "(gostring \<times> int) list"
  pe_MaterializedTopicIDs :: "gostring list"
  pe_PrimaryNodeID :: gostring
  pe_CandidateID :: gostring
  pe_MaterializedTopicID :: gostring
  pe_FocusNodeIDs :: "gostring list"
  pe_LinkState :: gostring
  pe_LastProgressAtVersion :: int
  pe_ActiveRounds :: int
  pe_SubstantiveSegments :: int
  pe_WeightRaw :: rat
  pe_FirstActiveVersion :: int
  pe_InactiveRounds :: int
  pe_OutcomeExpectation :: gostring

record agendaProgressState =
  ps_ComputedCurrentTopicID :: gostring
  ps_ManualCurrentTopicID :: gostring
  ps_EffectiveCurrentTopicID :: gostring
  ps_Entries :: "agendaProgressEntry list"
  ps_UpdatedAtVersion :: int
  ps_CandidateTopicID :: gostring
  ps_CandidateRounds :: int
  ps_CurrentSinceVersion :: int
  ps_CurrentInactiveRounds :: int

definition blank_entry :: agendaProgressEntry where
  "blank_entry =
     \<lparr>pe_ID = [], pe_SourceType = [], pe_Title = [], pe_Order = 0, pe_ComputedStatus = [], pe_ManualStatus = [],
      pe_EffectiveStatus = [], pe_OutcomeStatus = [], pe_DiscussionWeight = 0, pe_DiscussionVolume = 0,
      pe_ProgressSource = [], pe_ProgressReason = [], pe_SemanticCoverageScore = 0, pe_EvidenceSequenceNos = [],
      pe_ActiveItemCount = 0, pe_InactiveItemCount = 0, pe_ActiveItemIDs = [], pe_InactiveItemIDs = [],
      pe_RelatedItemCounts = [], pe_MaterializedTopicIDs = [], pe_PrimaryNodeID = [], pe_CandidateID = [],
      pe_MaterializedTopicID = [], pe_FocusNodeIDs = [], pe_LinkState = [], pe_LastProgressAtVersion = 0,
      pe_ActiveRounds = 0, pe_SubstantiveSegments = 0, pe_WeightRaw = 0, pe_FirstActiveVersion = 0,
      pe_InactiveRounds = 0, pe_OutcomeExpectation = []\<rparr>"

definition blank_progress :: agendaProgressState where
  "blank_progress =
     \<lparr>ps_ComputedCurrentTopicID = [], ps_ManualCurrentTopicID = [], ps_EffectiveCurrentTopicID = [],
      ps_Entries = [], ps_UpdatedAtVersion = 0, ps_CandidateTopicID = [], ps_CandidateRounds = 0,
      ps_CurrentSinceVersion = 0, ps_CurrentInactiveRounds = 0\<rparr>"

text \<open>The fields of items, candidates, spans and decisions the progress reads.\<close>

record progress_item = liveAnalysisItem +
  it_Title :: gostring
  it_Body :: gostring
  it_Status :: gostring
  it_Inactive :: bool
  it_MergedIntoID :: gostring
  it_ClassificationStatus :: gostring
  it_EvidenceSequenceNos :: "int list"
  it_RelatedAgendaIDs :: "gostring list"
  it_CandidateTopicID :: gostring
  it_AssignmentConfidence :: rat
  it_AssignmentReason :: gostring

record emergingTopicCandidate =
  et_ID :: gostring
  et_Label :: gostring
  et_EvidenceItemIDs :: "gostring list"
  et_RoundCount :: int
  et_Inactive :: bool

record agendaContextSpan =
  sp_Mode :: gostring
  sp_AgendaID :: gostring
  sp_StartSequenceNo :: int
  sp_EndSequenceNo :: int
  sp_Confidence :: rat
  sp_EvidenceSequenceNo :: int
  sp_Explicit :: bool
  sp_EndReason :: gostring

record agendaReconciliationDecision =
  rd_Trigger :: gostring
  rd_SelectedAgendaID :: gostring
  rd_RejectedReason :: gostring
  rd_ItemMoved :: bool

record agendaProgressInputs =
  pi_Previous :: "agendaProgressState option"
  pi_MC :: "meetingContext option"
  pi_Tree :: "liveAnalysisTree option"
  pi_Items :: "progress_item list"
  pi_Anchors :: "agendaAnchor list"
  pi_Emerging :: "emergingTopicCandidate list"
  pi_Spans :: "agendaContextSpan list"
  pi_Roles :: "int \<Rightarrow> gostring"
  pi_RoundSeqNos :: "int list"
  pi_DiffItems :: "progress_item list"
  pi_TreeVersion :: int
  pi_Reconciliations :: "agendaReconciliationDecision list"

section \<open>What a title asks for\<close>

text \<open>The regular expressions of the source: words, \<open>X(a|b)\<close> as the words \<open>Xa\<close> and \<open>Xb\<close>, and \<open>X.*(a|b)\<close>.\<close>

fun followed_on_line :: "gostring \<Rightarrow> gostring list \<Rightarrow> gostring \<Rightarrow> bool" where
  "followed_on_line word ends [] = False"
| "followed_on_line word ends (c # cs) =
     ((has_prefix (c # cs) word \<and>
        mentions ends (takeWhile (\<lambda>x. x \<noteq> newline) (drop (length word) (c # cs)))) \<or>
      followed_on_line word ends cs)"

definition owner_words :: "gostring list" where
  "owner_words = map jp [[0x62C5, 0x5F53, 0x3092], [0x62C5, 0x5F53, 0x8005, 0x3092]]"
definition owner_ends :: "gostring list" where
  "owner_ends = map jp [[0x6C7A], [0x5272, 0x308A, 0x5F53, 0x3066], [0x30A2, 0x30B5, 0x30A4, 0x30F3]]"
definition due_words :: "gostring list" where
  "due_words = map jp [[0x671F, 0x9650], [0x7DE0, 0x3081, 0x5207, 0x308A], [0x7DE0, 0x5207, 0x308A],
     [0x3044, 0x3064, 0x307E, 0x3067]]"
definition schedule_word :: gostring where
  "schedule_word = jp [0x30B9, 0x30B1, 0x30B8, 0x30E5, 0x30FC, 0x30EB]"
definition schedule_ends :: "gostring list" where "schedule_ends = map jp [[0x6C7A], [0x78BA, 0x5B9A]]"
definition collection_words :: "gostring list" where
  "collection_words = map jp [[0x6D17, 0x3044, 0x51FA], [0x6574, 0x7406], [0x68DA, 0x5378],
     [0x30EA, 0x30B9, 0x30C8, 0x30A2, 0x30C3, 0x30D7], [0x5217, 0x6319]]"
definition agenda_decision_words :: "gostring list" where
  "agenda_decision_words = map jp [[0x6C7A, 0x3081], [0x6C7A, 0x5B9A], [0x9078, 0x5B9A], [0x78BA, 0x5B9A], [0x5408, 0x610F],
     [0x5224, 0x65AD], [0x65B9, 0x91DD, 0x3092], [0x63A1, 0x5426], [0x3069, 0x3061, 0x3089, 0x306B], [0x6BD4, 0x8F03]]"
definition agendaOwnerHint :: "gostring list" where "agendaOwnerHint = map jp [[0x3055, 0x3093], [0x6C0F]]"
definition agendaDueHint :: "gostring list" where
  "agendaDueHint = map jp [[0x307E, 0x3067, 0x306B], [0x65E5], [0x66DC], [0x6765, 0x9031], [0x4ECA, 0x9031]]"

definition classifyAgendaOutcomeExpectation :: "gostring \<Rightarrow> gostring" where
  "classifyAgendaOutcomeExpectation title =
     (if mentions (concat (map (\<lambda>w. map (\<lambda>e. w @ e) owner_ends) owner_words)) title then ''owner_todo''
      else if mentions due_words title \<or> followed_on_line schedule_word schedule_ends title then ''due_todo''
      else if mentions collection_words title then ''collection''
      else if mentions agenda_decision_words title then ''decision''
      else ''none'')"

section \<open>Sequence numbers and roles\<close>

definition appendUniqueSequence :: "int list \<Rightarrow> int \<Rightarrow> int list" where
  "appendUniqueSequence values n = (if n \<le> 0 \<or> n \<in> set values then values else sort (values @ [n]))"

fun drop_repeats :: "int list \<Rightarrow> int list \<Rightarrow> int list" where
  "drop_repeats kept [] = kept"
| "drop_repeats kept (v # vs) =
     (if v \<le> 0 \<or> (kept \<noteq> [] \<and> v = last kept) then drop_repeats kept vs else drop_repeats (kept @ [v]) vs)"

text \<open>The source neither sorts nor looks further back than one value.\<close>

definition uniqueSortedSequenceNos :: "int list \<Rightarrow> int list" where
  "uniqueSortedSequenceNos values = drop_repeats [] values"

definition current_role :: "gostring \<Rightarrow> bool" where
  "current_role role \<longleftrightarrow> role \<in> set [''primary'', ''supporting'', ''correction'']"

definition evidenceIsReferenceOnly :: "int list \<Rightarrow> (int \<Rightarrow> gostring) \<Rightarrow> bool" where
  "evidenceIsReferenceOnly ns roles \<longleftrightarrow>
     ns \<noteq> [] \<and> list_all (\<lambda>n. roles n \<in> set [''reference_recap'', ''discourse_only'']) ns"

definition current_evidence :: "(int \<Rightarrow> gostring) \<Rightarrow> int list \<Rightarrow> int list \<Rightarrow> int list" where
  "current_evidence roles ns acc =
     fold (\<lambda>n acc. if current_role (roles n) then appendUniqueSequence acc n else acc) ns acc"

definition maxEvidenceSequence :: "progress_item \<Rightarrow> int" where
  "maxEvidenceSequence it = fold max (it_EvidenceSequenceNos it) 0"

definition span_covers :: "int \<Rightarrow> agendaContextSpan \<Rightarrow> bool" where
  "span_covers n s \<longleftrightarrow> sp_StartSequenceNo s \<le> n \<and> n \<le> sp_EndSequenceNo s"

definition pick_span ::
    "int \<Rightarrow> agendaContextSpan \<Rightarrow> (agendaContextSpan \<times> int) option \<Rightarrow> (agendaContextSpan \<times> int) option" where
  "pick_span n s sel =
     (if \<not> span_covers n s then sel
      else (case sel of
          None \<Rightarrow> Some (s, n)
        | Some (t, m) \<Rightarrow> if m < n \<or> (n = m \<and> sp_Confidence t < sp_Confidence s) then Some (s, n) else sel))"

definition agendaContextSpanForEvidence :: "int list \<Rightarrow> agendaContextSpan list \<Rightarrow> agendaContextSpan option" where
  "agendaContextSpanForEvidence ns spans =
     map_option fst (fold (\<lambda>n sel. fold (pick_span n) spans sel) ns None)"

section \<open>Nodes, items and their topics\<close>

definition nodes_in :: "liveAnalysisTree option \<Rightarrow> liveAnalysisTreeNode list" where
  "nodes_in t = (case t of None \<Rightarrow> [] | Some tr \<Rightarrow> tr_Nodes tr)"

definition node_in :: "liveAnalysisTree option \<Rightarrow> gostring \<Rightarrow> liveAnalysisTreeNode option" where
  "node_in t i = find (\<lambda>n. tn_ID n = i) (rev (nodes_in t))"

definition parents_in :: "liveAnalysisTree option \<Rightarrow> parent_map" where
  "parents_in t = rev (map (\<lambda>n. (tn_ID n, tn_ParentID n)) (nodes_in t))"

definition item_in :: "progress_item list \<Rightarrow> gostring \<Rightarrow> progress_item option" where
  "item_in items i = find (\<lambda>it. it_ID it = i) (rev items)"

definition treeItemTopic :: "liveAnalysisTree option \<Rightarrow> gostring \<Rightarrow> gostring" where
  "treeItemTopic t i =
     climb (\<lambda>j. case node_in t j of None \<Rightarrow> False | Some n \<Rightarrow> tn_Kind n = ''topic'') (parents_in t) []
       (parent_of (parents_in t) i)"

definition isAgendaProgressDescendantOrSelf :: "parent_map \<Rightarrow> gostring \<Rightarrow> gostring \<Rightarrow> bool" where
  "isAgendaProgressDescendantOrSelf parents nodeID ancestorID \<longleftrightarrow>
     nodeID \<noteq> [] \<and> ancestorID \<noteq> [] \<and> climb (\<lambda>j. j = ancestorID) parents [] nodeID \<noteq> []"

definition agendaProgressItemIsCanonicalActive :: "progress_item \<Rightarrow> bool" where
  "agendaProgressItemIsCanonicalActive it \<longleftrightarrow>
     \<not> it_Inactive it \<and> it_MergedIntoID it = [] \<and> it_Status it \<noteq> ''dismissed'' \<and>
     it_ClassificationStatus it \<noteq> classificationTentative"

definition agendaProgressItemIsActive ::
    "(progress_item \<Rightarrow> bool) \<Rightarrow> (int \<Rightarrow> gostring) \<Rightarrow> progress_item \<Rightarrow> bool" where
  "agendaProgressItemIsActive hollow roles it \<longleftrightarrow>
     agendaProgressItemIsCanonicalActive it \<and> trim_space (it_Title it @ '' '' @ it_Body it) \<noteq> [] \<and>
     \<not> hollow it \<and> \<not> evidenceIsReferenceOnly (it_EvidenceSequenceNos it) roles"

section \<open>The entries under work\<close>

record progress_work =
  pw_order :: "gostring list"
  pw_entries :: "gostring \<rightharpoonup> agendaProgressEntry"

definition add_entry :: "agendaProgressEntry \<Rightarrow> progress_work \<Rightarrow> progress_work" where
  "add_entry e w = w\<lparr>pw_order := pw_order w @ [pe_ID e], pw_entries := (pw_entries w)(pe_ID e \<mapsto> e)\<rparr>"

definition on_entry :: "gostring \<Rightarrow> (agendaProgressEntry \<Rightarrow> agendaProgressEntry) \<Rightarrow> progress_work \<Rightarrow> progress_work" where
  "on_entry i f w =
     (case pw_entries w i of None \<Rightarrow> w | Some e \<Rightarrow> w\<lparr>pw_entries := (pw_entries w)(i \<mapsto> f e)\<rparr>)"

definition on_all :: "(gostring \<Rightarrow> agendaProgressEntry \<Rightarrow> agendaProgressEntry) \<Rightarrow> progress_work \<Rightarrow> progress_work" where
  "on_all f w = w\<lparr>pw_entries := (\<lambda>i. map_option (f i) (pw_entries w i))\<rparr>"

definition carried_entries :: "agendaProgressState option \<Rightarrow> progress_work" where
  "carried_entries prev =
     fold add_entry (case prev of None \<Rightarrow> [] | Some s \<Rightarrow> ps_Entries s) \<lparr>pw_order = [], pw_entries = Map.empty\<rparr>"

text \<open>The agenda that is tracked: every record but the action summary.\<close>

definition fixed_agenda :: "meetingContext option \<Rightarrow> agendaItem list" where
  "fixed_agenda c = filter (\<lambda>a. \<not> is_action_agenda a) (agenda_of c)"

definition fixed_ids :: "meetingContext option \<Rightarrow> gostring list" where
  "fixed_ids c = map ag_ID (fixed_agenda c)"

definition fixed_entry :: "agendaItem \<Rightarrow> agendaProgressEntry" where
  "fixed_entry a = blank_entry\<lparr>pe_ID := ag_ID a, pe_SourceType := agendaProgressSourceFixed, pe_Title := ag_Title a,
     pe_Order := ag_Order a, pe_ComputedStatus := agendaProgressNotStarted,
     pe_OutcomeExpectation := classifyAgendaOutcomeExpectation (ag_Title a)\<rparr>"

definition refresh_fixed :: "agendaItem \<Rightarrow> agendaProgressEntry \<Rightarrow> agendaProgressEntry" where
  "refresh_fixed a e = e\<lparr>pe_Title := ag_Title a, pe_Order := ag_Order a, pe_SourceType := agendaProgressSourceFixed,
     pe_OutcomeExpectation := (if pe_OutcomeExpectation e = [] then classifyAgendaOutcomeExpectation (ag_Title a)
       else pe_OutcomeExpectation e)\<rparr>"

definition place_fixed :: "agendaItem \<Rightarrow> progress_work \<Rightarrow> progress_work" where
  "place_fixed a w = (case pw_entries w (ag_ID a) of
       None \<Rightarrow> add_entry (fixed_entry a) w
     | Some _ \<Rightarrow> on_entry (ag_ID a) (refresh_fixed a) w)"

definition anchor_of :: "agendaAnchor list \<Rightarrow> gostring \<Rightarrow> agendaAnchor option" where
  "anchor_of anchors i = find (\<lambda>a. an_AgendaID a = i) (rev anchors)"

definition topics_of_anchor :: "agendaAnchor list \<Rightarrow> gostring \<Rightarrow> gostring list" where
  "topics_of_anchor anchors i = (case anchor_of anchors i of None \<Rightarrow> [] | Some a \<Rightarrow> an_MaterializedTopicIDs a)"

definition anchor_grounded :: "agendaAnchor list \<Rightarrow> gostring \<Rightarrow> bool" where
  "anchor_grounded anchors i =
     (case anchor_of anchors i of None \<Rightarrow> False
      | Some a \<Rightarrow> an_Status a = agendaStatusDiscussed \<or> an_Status a = agendaStatusMerged)"

definition link_fixed :: "gostring list \<Rightarrow> agendaProgressEntry \<Rightarrow> agendaProgressEntry" where
  "link_fixed topics e = e\<lparr>pe_MaterializedTopicIDs := topics,
     pe_PrimaryNodeID := (case topics of [] \<Rightarrow> [] | t # _ \<Rightarrow> t),
     pe_MaterializedTopicID := (case topics of [] \<Rightarrow> [] | t # _ \<Rightarrow> t),
     pe_FocusNodeIDs := take 1 topics,
     pe_LinkState := (if topics = [] then linkNotLinkable else linkMaterializedTopic)\<rparr>"

definition link_all_fixed :: "gostring list \<Rightarrow> agendaAnchor list \<Rightarrow> progress_work \<Rightarrow> progress_work" where
  "link_all_fixed ids anchors =
     on_all (\<lambda>i e. if i \<in> set ids then link_fixed (topics_of_anchor anchors i) e else e)"

section \<open>Topics found during the meeting\<close>

definition is_dynamic :: "liveAnalysisTreeNode \<Rightarrow> bool" where
  "is_dynamic n \<longleftrightarrow> tn_Kind n = ''topic'' \<and> tn_Origin n = topicOriginDynamic"

definition dynamic_entry_id :: "liveAnalysisTreeNode \<Rightarrow> gostring" where
  "dynamic_entry_id n =
     (if trim_space (tn_SourceCandidateID n) = [] then tn_ID n else trim_space (tn_SourceCandidateID n))"

text \<open>\<open>dynamicNodeIDs\<close> and \<open>dynamicEntryIDByNodeID\<close>: the last node wins.\<close>

definition dynamic_node_of :: "liveAnalysisTree option \<Rightarrow> gostring \<Rightarrow> gostring option" where
  "dynamic_node_of t i =
     map_option tn_ID (find (\<lambda>n. is_dynamic n \<and> dynamic_entry_id n = i) (rev (nodes_in t)))"

definition dynamic_entry_of :: "liveAnalysisTree option \<Rightarrow> gostring \<Rightarrow> gostring" where
  "dynamic_entry_of t nodeID =
     (case find (\<lambda>n. is_dynamic n \<and> tn_ID n = nodeID) (rev (nodes_in t)) of None \<Rightarrow> [] | Some n \<Rightarrow> dynamic_entry_id n)"

definition displayable :: "emergingTopicCandidate \<Rightarrow> bool" where
  "displayable c \<longleftrightarrow> \<not> et_Inactive c \<and>
     (displayMinRounds \<le> et_RoundCount c \<or> displayMinEvidenceItems \<le> length (et_EvidenceItemIDs c))"

definition candidate_of :: "emergingTopicCandidate list \<Rightarrow> gostring \<Rightarrow> emergingTopicCandidate option" where
  "candidate_of cs i = find (\<lambda>c. et_ID c = i) (rev cs)"

definition dynamic_wanted :: "agendaProgressInputs \<Rightarrow> gostring list" where
  "dynamic_wanted x =
     sort (remdups (map dynamic_entry_id (filter is_dynamic (nodes_in (pi_Tree x))) @
       map et_ID (filter displayable (pi_Emerging x))))"

definition dynamic_entry :: "int \<Rightarrow> gostring \<Rightarrow> agendaProgressEntry" where
  "dynamic_entry version i = blank_entry\<lparr>pe_ID := i, pe_SourceType := agendaProgressSourceDynamic,
     pe_ComputedStatus := agendaProgressDiscussing, pe_OutcomeExpectation := ''none'', pe_FirstActiveVersion := version\<rparr>"

definition add_dynamic :: "agendaProgressInputs \<Rightarrow> progress_work \<Rightarrow> progress_work" where
  "add_dynamic x w =
     fold (\<lambda>i. add_entry (dynamic_entry (pi_TreeVersion x) i))
       (filter (\<lambda>i. pw_entries w i = None) (dynamic_wanted x)) w"

definition link_node :: "gostring \<Rightarrow> gostring \<Rightarrow> liveAnalysisTreeNode option \<Rightarrow> agendaProgressEntry \<Rightarrow> agendaProgressEntry" where
  "link_node i nodeID node e =
     (let candidate = (case node of None \<Rightarrow> [] | Some n \<Rightarrow> trim_space (tn_SourceCandidateID n)) in
      e\<lparr>pe_Title := (case node of None \<Rightarrow> [] | Some n \<Rightarrow> tn_Label n),
        pe_CandidateID := (if candidate = [] \<and> has_prefix i ''candidate-'' then i else candidate),
        pe_PrimaryNodeID := nodeID, pe_MaterializedTopicID := nodeID, pe_MaterializedTopicIDs := [nodeID],
        pe_FocusNodeIDs := [nodeID], pe_LinkState := linkMaterializedTopic\<rparr>)"

definition shows_item :: "agendaProgressInputs \<Rightarrow> gostring \<Rightarrow> bool" where
  "shows_item x i =
     (case (item_in (pi_Items x) i, node_in (pi_Tree x) i) of
        (Some it, Some n) \<Rightarrow> tn_Kind n \<noteq> ''topic'' \<and> tn_Kind n \<noteq> ''group'' \<and> agendaProgressItemIsCanonicalActive it
      | _ \<Rightarrow> False)"

definition link_candidate :: "agendaProgressInputs \<Rightarrow> emergingTopicCandidate \<Rightarrow> agendaProgressEntry \<Rightarrow> agendaProgressEntry" where
  "link_candidate x c e =
     (let focus = filter (shows_item x) (et_EvidenceItemIDs c) in
      e\<lparr>pe_Title := et_Label c, pe_CandidateID := et_ID c,
        pe_PrimaryNodeID := (case focus of [] \<Rightarrow> [] | f # _ \<Rightarrow> f), pe_MaterializedTopicID := [],
        pe_MaterializedTopicIDs := [], pe_FocusNodeIDs := focus,
        pe_LinkState := (if focus = [] then linkNotLinkable else linkVisibleItems)\<rparr>)"

definition link_dynamic :: "agendaProgressInputs \<Rightarrow> gostring \<Rightarrow> agendaProgressEntry \<Rightarrow> agendaProgressEntry" where
  "link_dynamic x i e =
     (if i \<notin> set (dynamic_wanted x) then e
      else (case dynamic_node_of (pi_Tree x) i of
          Some nodeID \<Rightarrow> link_node i nodeID (node_in (pi_Tree x) nodeID) e
        | None \<Rightarrow> (case candidate_of (pi_Emerging x) i of None \<Rightarrow> e | Some c \<Rightarrow> link_candidate x c e)))"

section \<open>What a round touched\<close>

definition resolve_target :: "agendaProgressInputs \<Rightarrow> gostring \<Rightarrow> gostring" where
  "resolve_target x itemID =
     (let topicID = treeItemTopic (pi_Tree x) itemID;
          by_candidate = (case item_in (pi_Items x) itemID of
             None \<Rightarrow> []
           | Some it \<Rightarrow> (let c = trim_space (it_CandidateTopicID it) in
               if c \<noteq> [] \<and> c \<noteq> treeUnclassifiedTopicID \<and> c \<in> set (dynamic_wanted x) then c else [])) in
      if topicID = [] then by_candidate
      else (case node_in (pi_Tree x) topicID of
          None \<Rightarrow> by_candidate
        | Some n \<Rightarrow>
            (case topicAgendaRefs (pi_MC x) n of
               r # _ \<Rightarrow> r
             | [] \<Rightarrow>
                 if tn_Origin n = topicOriginDynamic
                 then (if dynamic_entry_of (pi_Tree x) topicID \<noteq> [] then dynamic_entry_of (pi_Tree x) topicID else topicID)
                 else by_candidate)))"

record round_activity =
  ra_segments :: "gostring \<Rightarrow> int"
  ra_evidence :: "gostring \<Rightarrow> int list"
  ra_items :: "gostring \<Rightarrow> int"
  ra_itemEvidence :: "gostring \<Rightarrow> int list"

definition idle_round :: round_activity where
  "idle_round = \<lparr>ra_segments = (\<lambda>_. 0), ra_evidence = (\<lambda>_. []), ra_items = (\<lambda>_. 0), ra_itemEvidence = (\<lambda>_. [])\<rparr>"

definition tracked :: "progress_work \<Rightarrow> gostring \<Rightarrow> bool" where
  "tracked w t \<longleftrightarrow> t \<noteq> [] \<and> pw_entries w t \<noteq> None"

definition count_item ::
    "agendaProgressInputs \<Rightarrow> progress_work \<Rightarrow> progress_item \<Rightarrow> gostring list \<times> round_activity \<Rightarrow> gostring list \<times> round_activity" where
  "count_item x w it st =
     (case st of (seen, a) \<Rightarrow>
        if it_ID it \<in> set seen then (seen, a)
        else (let t = resolve_target x (it_ID it) in
          (it_ID it # seen,
           if \<not> tracked w t then a
           else a\<lparr>ra_items := (ra_items a)(t := ra_items a t + 1),
                  ra_itemEvidence := (ra_itemEvidence a)
                    (t := current_evidence (pi_Roles x) (it_EvidenceSequenceNos it) (ra_itemEvidence a t))\<rparr>)))"

definition item_of_sequence :: "progress_item list \<Rightarrow> int \<Rightarrow> gostring option" where
  "item_of_sequence diff n = map_option it_ID (find (\<lambda>it. n \<in> set (it_EvidenceSequenceNos it)) diff)"

definition segment_target :: "agendaProgressInputs \<Rightarrow> int \<Rightarrow> gostring" where
  "segment_target x n =
     (let by_item = (case item_of_sequence (pi_DiffItems x) n of None \<Rightarrow> [] | Some i \<Rightarrow> resolve_target x i) in
      case agendaContextSpanForEvidence [n] (pi_Spans x) of
        Some s \<Rightarrow> if sp_Mode s = agendaContextModeFixed \<and> sp_AgendaID s \<noteq> [] then sp_AgendaID s else by_item
      | None \<Rightarrow> by_item)"

definition count_segment :: "agendaProgressInputs \<Rightarrow> progress_work \<Rightarrow> int \<Rightarrow> round_activity \<Rightarrow> round_activity" where
  "count_segment x w n a =
     (if \<not> current_role (pi_Roles x n) then a
      else (let t = segment_target x n in
        if \<not> tracked w t then a
        else a\<lparr>ra_segments := (ra_segments a)(t := ra_segments a t + 1),
               ra_evidence := (ra_evidence a)(t := appendUniqueSequence (ra_evidence a t) n)\<rparr>))"

definition round_activity_of :: "agendaProgressInputs \<Rightarrow> progress_work \<Rightarrow> round_activity" where
  "round_activity_of x w =
     fold (count_segment x w) (pi_RoundSeqNos x) (snd (fold (count_item x w) (pi_DiffItems x) ([], idle_round)))"

definition note_activity :: "int \<Rightarrow> round_activity \<Rightarrow> gostring \<Rightarrow> agendaProgressEntry \<Rightarrow> agendaProgressEntry" where
  "note_activity version a i e =
     (let rs = ra_segments a i; ri = ra_items a i;
          e1 = e\<lparr>pe_SubstantiveSegments := pe_SubstantiveSegments e + rs,
                 pe_WeightRaw := pe_WeightRaw e + of_int rs + of_int (min ri 2) / 2\<rparr> in
      if 1 \<le> rs \<or> 1 \<le> ri
      then e1\<lparr>pe_ActiveRounds := pe_ActiveRounds e + 1, pe_LastProgressAtVersion := version, pe_InactiveRounds := 0,
              pe_FirstActiveVersion := (if pe_FirstActiveVersion e = 0 then version else pe_FirstActiveVersion e)\<rparr>
      else e1\<lparr>pe_InactiveRounds := pe_InactiveRounds e + 1\<rparr>)"

section \<open>The current topic\<close>

text \<open>The last explicit change to an agenda record that began in this round.\<close>

definition explicit_span :: "agendaProgressInputs \<Rightarrow> agendaContextSpan option" where
  "explicit_span x =
     find (\<lambda>s. sp_Mode s = agendaContextModeFixed \<and> sp_Explicit s \<and> sp_AgendaID s \<noteq> [] \<and>
       sp_StartSequenceNo s \<in> set (pi_RoundSeqNos x)) (rev (pi_Spans x))"

definition explicit_leader :: "agendaProgressInputs \<Rightarrow> gostring" where
  "explicit_leader x = (case explicit_span x of None \<Rightarrow> [] | Some s \<Rightarrow> sp_AgendaID s)"

definition explicit_sequence :: "agendaProgressInputs \<Rightarrow> int" where
  "explicit_sequence x = (case explicit_span x of None \<Rightarrow> 0 | Some s \<Rightarrow> sp_StartSequenceNo s)"

definition round_score :: "round_activity \<Rightarrow> gostring \<Rightarrow> int" where
  "round_score a i = ra_segments a i * 2 + ra_items a i"

definition entry_order :: "progress_work \<Rightarrow> gostring \<Rightarrow> int" where
  "entry_order w i = (case pw_entries w i of None \<Rightarrow> 0 | Some e \<Rightarrow> pe_Order e)"

definition leads :: "gostring list \<Rightarrow> progress_work \<Rightarrow> round_activity \<Rightarrow> gostring \<Rightarrow> gostring \<Rightarrow> bool" where
  "leads fixed w a i j \<longleftrightarrow>
     (if round_score a i \<noteq> round_score a j then round_score a j < round_score a i
      else if (i \<in> set fixed) \<noteq> (j \<in> set fixed) then i \<in> set fixed
      else if i \<in> set fixed \<and> entry_order w i \<noteq> entry_order w j then entry_order w i < entry_order w j
      else i < j)"

definition round_leader :: "gostring list \<Rightarrow> progress_work \<Rightarrow> round_activity \<Rightarrow> gostring" where
  "round_leader fixed w a =
     (case order_by (leads fixed w a)
        (filter (\<lambda>i. pw_entries w i \<noteq> None \<and> leaderScoreThreshold \<le> round_score a i) (remdups (pw_order w))) of
        [] \<Rightarrow> [] | i # _ \<Rightarrow> i)"

definition settle_current :: "gostring \<Rightarrow> agendaProgressState \<Rightarrow> agendaProgressState" where
  "settle_current i s = s\<lparr>ps_ComputedCurrentTopicID := i, ps_CandidateTopicID := [], ps_CandidateRounds := 0,
     ps_CurrentInactiveRounds := 0\<rparr>"

definition challenged :: "gostring \<Rightarrow> agendaProgressState \<Rightarrow> agendaProgressState" where
  "challenged leader s =
     (if ps_CandidateTopicID s = leader then s\<lparr>ps_CandidateRounds := ps_CandidateRounds s + 1\<rparr>
      else s\<lparr>ps_CandidateTopicID := leader, ps_CandidateRounds := 1\<rparr>)"

definition moved_current :: "gostring \<Rightarrow> gostring \<Rightarrow> agendaProgressState \<Rightarrow> agendaProgressState" where
  "moved_current explicit leader s =
     (let previous = ps_ComputedCurrentTopicID s in
      if explicit \<noteq> [] then settle_current explicit s
      else if previous = [] then (if leader \<noteq> [] then settle_current leader s else s)
      else if leader = previous then settle_current previous s
      else if leader \<noteq> [] then
        (let s' = challenged leader s in
         if candidateSwitchRounds \<le> ps_CandidateRounds s' \<or> discussedInactiveRounds \<le> ps_CurrentInactiveRounds s'
         then settle_current leader s' else s')
      else (let s' = s\<lparr>ps_CurrentInactiveRounds := ps_CurrentInactiveRounds s + 1\<rparr> in
        if currentDematerializeRounds \<le> ps_CurrentInactiveRounds s' then settle_current [] s' else s'))"

text \<open>\<open>currentChanged\<close> holds in exactly the branches that leave another topic current.\<close>

definition next_current :: "int \<Rightarrow> gostring \<Rightarrow> gostring \<Rightarrow> agendaProgressState \<Rightarrow> agendaProgressState" where
  "next_current version explicit leader s =
     (let s' = moved_current explicit leader s in
      if ps_ComputedCurrentTopicID s' \<noteq> ps_ComputedCurrentTopicID s \<and> ps_ComputedCurrentTopicID s' \<noteq> []
      then s'\<lparr>ps_CurrentSinceVersion := version\<rparr> else s')"

section \<open>Items of an entry\<close>

definition under_topic :: "liveAnalysisTree option \<Rightarrow> gostring list \<Rightarrow> gostring \<Rightarrow> bool" where
  "under_topic t nodeIDs topicID \<longleftrightarrow> topicID \<noteq> [] \<and>
     list_ex (\<lambda>nodeID. nodeID \<noteq> [] \<and>
       (topicID = nodeID \<or> isAgendaProgressDescendantOrSelf (parents_in t) topicID nodeID)) nodeIDs"

definition related_item :: "liveAnalysisTree option \<Rightarrow> gostring list \<Rightarrow> gostring \<Rightarrow> agendaProgressEntry \<Rightarrow> progress_item \<Rightarrow> bool" where
  "related_item t fixed i e it \<longleftrightarrow>
     agendaProgressItemIsCanonicalActive it \<and>
     (i \<in> set (it_RelatedAgendaIDs it) \<or>
      (i \<notin> set fixed \<and> pe_CandidateID e \<noteq> [] \<and> it_CandidateTopicID it = pe_CandidateID e) \<or>
      under_topic t (pe_MaterializedTopicIDs e) (treeItemTopic t (it_ID it)))"

definition kind_counts :: "progress_item list \<Rightarrow> (gostring \<times> int) list" where
  "kind_counts items =
     map (\<lambda>k. (k, int (length (filter (\<lambda>it. it_Kind it = k) items)))) (remdups (map it_Kind items))"

text \<open>\<open>computeAgendaProgressRelatedItems\<close>: what belongs to an entry, and the counts written to it.\<close>

definition related_items :: "liveAnalysisTree option \<Rightarrow> progress_item list \<Rightarrow> gostring list \<Rightarrow> progress_work \<Rightarrow> gostring \<Rightarrow> progress_item list" where
  "related_items t items fixed w i =
     (case pw_entries w i of None \<Rightarrow> [] | Some e \<Rightarrow> filter (related_item t fixed i e) items)"

definition count_related :: "liveAnalysisTree option \<Rightarrow> progress_item list \<Rightarrow> gostring list \<Rightarrow> progress_work \<Rightarrow> progress_work" where
  "count_related t items fixed w =
     on_all (\<lambda>i e. e\<lparr>pe_RelatedItemCounts := kind_counts (filter (related_item t fixed i e) items)\<rparr>) w"

definition related_total :: "agendaProgressEntry \<Rightarrow> int" where
  "related_total e = sum_list (map snd (pe_RelatedItemCounts e))"

section \<open>The status of an entry\<close>

definition selected_ids :: "(agendaReconciliationDecision \<Rightarrow> bool) \<Rightarrow> agendaProgressInputs \<Rightarrow> gostring list" where
  "selected_ids P x = map rd_SelectedAgendaID (filter (\<lambda>d. P d \<and> rd_SelectedAgendaID d \<noteq> [] \<and> rd_ItemMoved d \<and>
     rd_RejectedReason d = []) (pi_Reconciliations x))"

definition skip_backfilled :: "agendaProgressInputs \<Rightarrow> gostring list" where
  "skip_backfilled = selected_ids (\<lambda>d. rd_Trigger d = reconciliationSkipBackfill)"

definition reconciled_active :: "agendaProgressInputs \<Rightarrow> gostring list" where
  "reconciled_active = selected_ids (\<lambda>d. True)"

definition reconciledBeforeExplicitTransition :: "agendaProgressInputs \<Rightarrow> gostring \<Rightarrow> bool" where
  "reconciledBeforeExplicitTransition x agendaID \<longleftrightarrow>
     explicit_leader x \<noteq> [] \<and> 0 < explicit_sequence x \<and> agendaID \<noteq> explicit_leader x \<and>
     list_ex (\<lambda>it. (it_AssignmentReason it = reconciliationDynamicCandidate \<or>
           it_AssignmentReason it = reconciliationSkipBackfill) \<and>
         (let n = maxEvidenceSequence it in
          0 < n \<and> n < explicit_sequence x \<and> explicit_sequence x - n \<le> 4) \<and>
         resolve_target x (it_ID it) = agendaID) (pi_Items x)"

text \<open>What the status machine reads beside the entry itself.\<close>

record status_view =
  sv_inputs :: agendaProgressInputs
  sv_fixed :: "gostring list"
  sv_activity :: round_activity
  sv_current :: gostring
  sv_related :: "gostring \<Rightarrow> progress_item list"
  sv_hollow :: "progress_item \<Rightarrow> bool"

definition active_items :: "status_view \<Rightarrow> gostring \<Rightarrow> progress_item list" where
  "active_items v i =
     filter (agendaProgressItemIsActive (sv_hollow v) (pi_Roles (sv_inputs v))) (sv_related v i)"

definition begins_discussion :: "status_view \<Rightarrow> gostring \<Rightarrow> agendaProgressEntry \<Rightarrow> bool" where
  "begins_discussion v i e \<longleftrightarrow>
     active_items v i \<noteq> [] \<or> 2 \<le> ra_segments (sv_activity v) i \<or>
     (2 \<le> pe_SubstantiveSegments e \<and> 2 \<le> pe_ActiveRounds e) \<or>
     2 \<le> length (ra_itemEvidence (sv_activity v) i) \<or>
     (i \<in> set (reconciled_active (sv_inputs v)) \<and> sv_related v i \<noteq> [])"

definition ends_discussion :: "status_view \<Rightarrow> gostring \<Rightarrow> agendaProgressEntry \<Rightarrow> bool" where
  "ends_discussion v i e \<longleftrightarrow>
     i \<noteq> sv_current v \<and>
     (let anchored = i \<in> set (sv_fixed v) \<and> anchor_grounded (pi_Anchors (sv_inputs v)) i in
      (anchored \<and> 1 \<le> related_total e \<and> reconciledBeforeExplicitTransition (sv_inputs v) i) \<or>
      (discussedInactiveRounds \<le> pe_InactiveRounds e \<and>
       (2 \<le> pe_ActiveRounds e \<or> 4 \<le> pe_SubstantiveSegments e \<or> anchored) \<and>
       (1 \<le> related_total e \<or> anchored)))"

definition next_progress_status :: "status_view \<Rightarrow> gostring \<Rightarrow> agendaProgressEntry \<Rightarrow> gostring" where
  "next_progress_status v i e =
     (let status = pe_ComputedStatus e in
      if status = agendaProgressNotStarted \<or> status = [] then
        (if i \<in> set (skip_backfilled (sv_inputs v)) \<and> i \<in> set (sv_fixed v) \<and>
            anchor_grounded (pi_Anchors (sv_inputs v)) i \<and> i \<noteq> sv_current v
         then agendaProgressDiscussed
         else if begins_discussion v i e then agendaProgressDiscussing else status)
      else if status = agendaProgressDiscussing then
        (if ends_discussion v i e then agendaProgressDiscussed else status)
      else status)"

definition move_status :: "status_view \<Rightarrow> gostring \<Rightarrow> progress_work \<Rightarrow> progress_work" where
  "move_status v i = on_entry i (\<lambda>e. e\<lparr>pe_ComputedStatus := next_progress_status v i e\<rparr>)"

section \<open>The outcome of an entry\<close>

definition kind_count :: "gostring \<Rightarrow> progress_item list \<Rightarrow> nat" where
  "kind_count k items = length (filter (\<lambda>it. it_Kind it = k) items)"

definition agendaTodosHaveHint :: "progress_item list \<Rightarrow> gostring list \<Rightarrow> bool" where
  "agendaTodosHaveHint items words \<longleftrightarrow>
     list_ex (\<lambda>it. it_Kind it = ''todo'' \<and> mentions words (it_Title it @ it_Body it)) items"

definition todo_outcome :: "gostring list \<Rightarrow> agendaProgressEntry \<Rightarrow> progress_item list \<Rightarrow> gostring" where
  "todo_outcome words e related =
     (if 0 < kind_count ''todo'' related \<and> agendaTodosHaveHint related words then agendaOutcomeConcluded
      else if 2 \<le> pe_ActiveRounds e \<and> 0 < kind_count ''todo'' related then agendaOutcomeUnresolved
      else [])"

definition computeAgendaOutcomeStatus :: "agendaProgressEntry \<Rightarrow> bool \<Rightarrow> progress_item list \<Rightarrow> gostring" where
  "computeAgendaOutcomeStatus e isFixed related =
     (let decided = 1 \<le> kind_count ''decision'' related in
      if \<not> isFixed then (if decided then agendaOutcomeConcluded else [])
      else if pe_OutcomeExpectation e = ''decision'' then
        (if decided then agendaOutcomeConcluded
         else if 2 \<le> pe_ActiveRounds e then agendaOutcomeUnresolved else [])
      else if pe_OutcomeExpectation e = ''owner_todo'' then todo_outcome agendaOwnerHint e related
      else if pe_OutcomeExpectation e = ''due_todo'' then todo_outcome agendaDueHint e related
      else if pe_OutcomeExpectation e = ''collection'' then
        (if 2 \<le> kind_count ''issue'' related + kind_count ''risk'' related then agendaOutcomeConcluded else [])
      else if decided then agendaOutcomeConcluded else [])"

definition applyAgendaProgressOutcome ::
    "gostring list \<Rightarrow> (gostring \<Rightarrow> progress_item list) \<Rightarrow> progress_work \<Rightarrow> progress_work" where
  "applyAgendaProgressOutcome fixed related =
     on_all (\<lambda>i e. e\<lparr>pe_OutcomeStatus := (if pe_ComputedStatus e \<noteq> agendaProgressDiscussed then []
       else computeAgendaOutcomeStatus e (i \<in> set fixed) (related i))\<rparr>)"

section \<open>Evidence and weight\<close>

definition note_evidence :: "status_view \<Rightarrow> gostring \<Rightarrow> agendaProgressEntry \<Rightarrow> agendaProgressEntry" where
  "note_evidence v i e =
     (let active = active_items v i; a = sv_activity v;
          evidence = fold (\<lambda>it. current_evidence (pi_Roles (sv_inputs v)) (it_EvidenceSequenceNos it)) active [];
          e1 = e\<lparr>pe_ActiveItemIDs := sort (map it_ID active), pe_ActiveItemCount := int (length active)\<rparr>;
          e2 = (if active \<noteq> [] then
              e1\<lparr>pe_ProgressSource := evidenceSourceActiveItem, pe_ProgressReason := ''active_canonical_items'',
                 pe_EvidenceSequenceNos := uniqueSortedSequenceNos evidence\<rparr>
            else if 2 \<le> length (ra_evidence a i) then
              e1\<lparr>pe_ProgressSource := evidenceSourceTranscript,
                 pe_ProgressReason := ''meaningful_discussion_without_persisted_item'',
                 pe_EvidenceSequenceNos := uniqueSortedSequenceNos (pe_EvidenceSequenceNos e @ ra_evidence a i)\<rparr>
            else e1\<lparr>pe_ProgressSource := evidenceSourceNone, pe_ProgressReason := ''no_substantive_support'',
                 pe_EvidenceSequenceNos := []\<rparr>);
          volume = int (length (pe_EvidenceSequenceNos e2)) in
      e2\<lparr>pe_DiscussionVolume := volume,
         pe_WeightRaw := (if active \<noteq> [] \<and> pe_WeightRaw e \<le> 0
           then of_int (max 1 volume) + of_int (min (int (length active)) 2) / 2 else pe_WeightRaw e)\<rparr>)"

definition max_weight :: "progress_work \<Rightarrow> rat" where
  "max_weight w = fold (\<lambda>i m. case pw_entries w i of None \<Rightarrow> m | Some e \<Rightarrow> max m (pe_WeightRaw e)) (pw_order w) 0"

definition weigh :: "rat \<Rightarrow> agendaProgressEntry \<Rightarrow> agendaProgressEntry" where
  "weigh m e = e\<lparr>pe_DiscussionWeight :=
     (if pe_ComputedStatus e = agendaProgressNotStarted \<or> m \<le> 0 then 0 else pe_WeightRaw e / m)\<rparr>"

section \<open>One round\<close>

definition placed_entries :: "agendaProgressInputs \<Rightarrow> progress_work" where
  "placed_entries x =
     on_all (link_dynamic x) (add_dynamic x
       (link_all_fixed (fixed_ids (pi_MC x)) (pi_Anchors x)
         (fold place_fixed (fixed_agenda (pi_MC x)) (carried_entries (pi_Previous x)))))"

definition round_start :: "agendaProgressInputs \<Rightarrow> agendaProgressState" where
  "round_start x = (case pi_Previous x of
       None \<Rightarrow> blank_progress
     | Some s \<Rightarrow> blank_progress\<lparr>ps_ComputedCurrentTopicID := ps_ComputedCurrentTopicID s,
         ps_CandidateTopicID := ps_CandidateTopicID s, ps_CandidateRounds := ps_CandidateRounds s,
         ps_CurrentSinceVersion := ps_CurrentSinceVersion s, ps_CurrentInactiveRounds := ps_CurrentInactiveRounds s\<rparr>)"

definition active_work :: "agendaProgressInputs \<Rightarrow> round_activity \<times> progress_work" where
  "active_work x =
     (let w = placed_entries x; a = round_activity_of x w in (a, on_all (note_activity (pi_TreeVersion x) a) w))"

definition round_leader_of :: "agendaProgressInputs \<Rightarrow> gostring" where
  "round_leader_of x = (case active_work x of (a, w) \<Rightarrow> round_leader (fixed_ids (pi_MC x)) w a)"

definition current_after :: "agendaProgressInputs \<Rightarrow> agendaProgressState" where
  "current_after x = next_current (pi_TreeVersion x) (explicit_leader x) (round_leader_of x) (round_start x)"

definition view_of :: "(progress_item \<Rightarrow> bool) \<Rightarrow> agendaProgressInputs \<Rightarrow> status_view" where
  "view_of hollow x =
     (case active_work x of (a, w) \<Rightarrow>
        \<lparr>sv_inputs = x, sv_fixed = fixed_ids (pi_MC x), sv_activity = a,
         sv_current = ps_ComputedCurrentTopicID (current_after x),
         sv_related = related_items (pi_Tree x) (pi_Items x) (fixed_ids (pi_MC x)) w, sv_hollow = hollow\<rparr>)"

definition judged_work :: "(progress_item \<Rightarrow> bool) \<Rightarrow> agendaProgressInputs \<Rightarrow> progress_work" where
  "judged_work hollow x =
     (let v = view_of hollow x;
          w1 = count_related (pi_Tree x) (pi_Items x) (fixed_ids (pi_MC x)) (snd (active_work x));
          w2 = fold (move_status v) (pw_order w1) w1;
          w3 = applyAgendaProgressOutcome (fixed_ids (pi_MC x)) (sv_related v) w2 in
      fold (\<lambda>i. on_entry i (note_evidence v i)) (pw_order w3) w3)"

definition listed_rows :: "(gostring \<Rightarrow> bool) \<Rightarrow> progress_work \<Rightarrow> agendaProgressEntry list" where
  "listed_rows P w = List.map_filter (pw_entries w) (filter P (pw_order w))"

definition by_order :: "agendaProgressEntry \<Rightarrow> agendaProgressEntry \<Rightarrow> bool" where
  "by_order a b \<longleftrightarrow> pe_Order a < pe_Order b"

definition evaluateAgendaProgress :: "(progress_item \<Rightarrow> bool) \<Rightarrow> agendaProgressInputs \<Rightarrow> agendaProgressState" where
  "evaluateAgendaProgress hollow x =
     (let w = judged_work hollow x; w' = on_all (\<lambda>_. weigh (max_weight w)) w; fixed = fixed_ids (pi_MC x) in
      (current_after x)\<lparr>
        ps_Entries := order_by by_order (listed_rows (\<lambda>i. i \<in> set fixed) w') @
          listed_rows (\<lambda>i. i \<notin> set fixed \<and> i \<in> set (dynamic_wanted x)) w',
        ps_UpdatedAtVersion := pi_TreeVersion x\<rparr>)"

end
