(* ===== verification/AgendaFinal.thy ===== *)
theory AgendaFinal
  imports AgendaProgress
begin

text \<open>
  The progress of a meeting outside the rounds (\<open>internal/application/ai_agenda_progress.go\<close>): the links kept
  in step with the tree, the projection made up for payloads that have none, and what the end of the
  meeting makes of it (\<open>finalizeAgendaProgress\<close>, \<open>recomputeFinalAgendaProgressEvidence\<close>).

  At the end the rows are a slice with pointers into it by id: an update reaches the last row of an id.
  What matches a sentence to an agenda record and which spans the transcript has are arguments.
\<close>

section \<open>Rows by id\<close>

fun update_rows :: "(agendaProgressEntry \<Rightarrow> agendaProgressEntry) \<Rightarrow> agendaProgressEntry list \<Rightarrow> agendaProgressEntry list" where
  "update_rows f [] = []"
| "update_rows f (e # es) = (if pe_ID e \<in> pe_ID ` set es then e else f e) # update_rows f es"

fun last_rows :: "agendaProgressEntry list \<Rightarrow> agendaProgressEntry list" where
  "last_rows [] = []"
| "last_rows (e # es) = (if pe_ID e \<in> pe_ID ` set es then last_rows es else e # last_rows es)"

definition has_row :: "gostring \<Rightarrow> agendaProgressEntry list \<Rightarrow> bool" where
  "has_row i es \<longleftrightarrow> list_ex (\<lambda>e. pe_ID e = i) es"

section \<open>Links to the tree\<close>

definition topic_of_candidate :: "liveAnalysisTree option \<Rightarrow> gostring \<Rightarrow> gostring" where
  "topic_of_candidate t c =
     (case find (\<lambda>n. is_dynamic n \<and> trim_space (tn_SourceCandidateID n) \<noteq> [] \<and> tn_SourceCandidateID n = c) (rev (nodes_in t)) of
        None \<Rightarrow> [] | Some n \<Rightarrow> tn_ID n)"

definition refresh_refs :: "liveAnalysisTree option \<Rightarrow> agendaProgressEntry \<Rightarrow> agendaProgressEntry" where
  "refresh_refs t e =
     (let old = trim_space (pe_CandidateID e);
          named = old = [] \<and> pe_SourceType e = agendaProgressSourceDynamic \<and> has_prefix (pe_ID e) ''candidate-'';
          candidate = (if named then pe_ID e else old);
          topic = topic_of_candidate t candidate;
          stored = (if topic \<noteq> [] then [topic] else pe_MaterializedTopicIDs e);
          kept = filter (\<lambda>i. node_in t i \<noteq> None) stored;
          focus = filter (\<lambda>i. node_in t i \<noteq> None) (pe_FocusNodeIDs e);
          e1 = e\<lparr>pe_CandidateID := (if named then pe_ID e else pe_CandidateID e), pe_MaterializedTopicIDs := kept,
                 pe_MaterializedTopicID := (case kept of [] \<Rightarrow> [] | k # _ \<Rightarrow> k)\<rparr> in
      case kept of
        k # _ \<Rightarrow> if k \<noteq> [] then e1\<lparr>pe_PrimaryNodeID := k, pe_FocusNodeIDs := [k], pe_LinkState := linkMaterializedTopic\<rparr>
                 else (case focus of
                     f # _ \<Rightarrow> e1\<lparr>pe_PrimaryNodeID := f, pe_FocusNodeIDs := focus, pe_LinkState := linkVisibleItems\<rparr>
                   | [] \<Rightarrow> e1\<lparr>pe_PrimaryNodeID := [], pe_FocusNodeIDs := [], pe_LinkState := linkNotLinkable\<rparr>)
      | [] \<Rightarrow> (case focus of
                     f # _ \<Rightarrow> e1\<lparr>pe_PrimaryNodeID := f, pe_FocusNodeIDs := focus, pe_LinkState := linkVisibleItems\<rparr>
                   | [] \<Rightarrow> e1\<lparr>pe_PrimaryNodeID := [], pe_FocusNodeIDs := [], pe_LinkState := linkNotLinkable\<rparr>))"

definition refreshAgendaProgressNodeRefs :: "liveAnalysisTree option \<Rightarrow> agendaProgressState \<Rightarrow> agendaProgressState" where
  "refreshAgendaProgressNodeRefs t s = s\<lparr>ps_Entries := map (refresh_refs t) (ps_Entries s)\<rparr>"

section \<open>A projection for old payloads\<close>

definition synthesized_entry :: "agendaAnchor list \<Rightarrow> agendaItem \<Rightarrow> agendaProgressEntry" where
  "synthesized_entry anchors a =
     link_fixed (topics_of_anchor anchors (ag_ID a)) ((fixed_entry a)\<lparr>pe_ComputedStatus :=
       (if anchor_grounded anchors (ag_ID a) then agendaProgressDiscussed else agendaProgressNotStarted)\<rparr>)"

definition synthesizeAgendaProgressFromAnchors ::
    "meetingContext option \<Rightarrow> agendaAnchor list \<Rightarrow> int \<Rightarrow> agendaProgressState" where
  "synthesizeAgendaProgressFromAnchors c anchors version =
     (if agenda_of c = [] then blank_progress
      else blank_progress\<lparr>ps_Entries := order_by by_order (map (synthesized_entry anchors) (fixed_agenda c)),
             ps_UpdatedAtVersion := version\<rparr>)"

section \<open>The end of a meeting, without its transcript\<close>

definition clear_current :: "agendaProgressState \<Rightarrow> agendaProgressState" where
  "clear_current = settle_current []"

definition final_links :: "gostring list \<Rightarrow> agendaAnchor list \<Rightarrow> agendaProgressEntry list \<Rightarrow> agendaProgressEntry list" where
  "final_links fixed anchors =
     update_rows (\<lambda>e. if pe_ID e \<in> set fixed then link_fixed (topics_of_anchor anchors (pe_ID e)) e else e)"

definition related_of :: "liveAnalysisTree option \<Rightarrow> progress_item list \<Rightarrow> gostring list \<Rightarrow> agendaProgressEntry \<Rightarrow> progress_item list" where
  "related_of t items fixed e = filter (related_item t fixed (pe_ID e) e) items"

definition outcome_of :: "gostring list \<Rightarrow> progress_item list \<Rightarrow> agendaProgressEntry \<Rightarrow> agendaProgressEntry" where
  "outcome_of fixed related e = e\<lparr>pe_OutcomeStatus := (if pe_ComputedStatus e \<noteq> agendaProgressDiscussed then []
     else computeAgendaOutcomeStatus e (pe_ID e \<in> set fixed) related)\<rparr>"

definition promoted :: "gostring list \<Rightarrow> agendaAnchor list \<Rightarrow> agendaProgressEntry \<Rightarrow> agendaProgressEntry" where
  "promoted fixed anchors e =
     (let grounded = anchor_grounded anchors (pe_ID e); total = related_total e in
      if pe_ID e \<notin> set fixed then e
      else if grounded \<and> 1 \<le> total then e\<lparr>pe_ComputedStatus := agendaProgressDiscussed\<rparr>
      else if pe_ComputedStatus e = agendaProgressDiscussing \<and>
              (2 \<le> pe_ActiveRounds e \<or> 4 \<le> pe_SubstantiveSegments e \<or> grounded) \<and> (1 \<le> total \<or> grounded)
      then e\<lparr>pe_ComputedStatus := agendaProgressDiscussed\<rparr> else e)"

definition promoted_row ::
    "liveAnalysisTree option \<Rightarrow> progress_item list \<Rightarrow> gostring list \<Rightarrow> agendaAnchor list \<Rightarrow> agendaProgressEntry \<Rightarrow> agendaProgressEntry" where
  "promoted_row t items fixed anchors e =
     (let related = related_of t items fixed e in
      outcome_of fixed related (promoted fixed anchors (e\<lparr>pe_RelatedItemCounts := kind_counts related\<rparr>)))"

section \<open>The end of a meeting, with its transcript\<close>

record final_view =
  fv_roles :: "int \<Rightarrow> gostring"
  fv_spans :: "agendaContextSpan list"
  fv_best :: "TranscriptSegment \<Rightarrow> agendaItem list \<Rightarrow> (gostring \<times> rat) option"
  fv_strong :: "gostring \<Rightarrow> gostring \<times> rat"
  fv_hollow :: "progress_item \<Rightarrow> bool"

text \<open>Here the description of a record counts when its role is inferred.\<close>

definition final_agenda :: "meetingContext option \<Rightarrow> agendaItem list" where
  "final_agenda c =
     filter (\<lambda>a. effectiveAgendaRole (ag_Role a) (ag_Title a) (ag_Description a) \<noteq> agendaRoleActionSummary) (agenda_of c)"

definition eligible_agenda :: "meetingContext option \<Rightarrow> agendaItem list" where
  "eligible_agenda c = order_by (\<lambda>a b. ag_Order a < ag_Order b)
     (filter (\<lambda>a. effectiveAgendaRole (ag_Role a) (ag_Title a) (ag_Description a) = agendaRolePrimary) (final_agenda c))"

definition final_place :: "agendaItem \<Rightarrow> agendaProgressEntry list \<Rightarrow> agendaProgressEntry list" where
  "final_place a es =
     (if has_row (ag_ID a) es then update_rows (\<lambda>e. if pe_ID e = ag_ID a then refresh_fixed a e else e) es
      else es @ [fixed_entry a])"

record transcript_scan =
  tx_blocked :: "int list"
  tx_inherited :: "int \<Rightarrow> nat"
  tx_evidence :: "gostring \<Rightarrow> (int \<times> rat) list"

definition add_evidence :: "gostring \<Rightarrow> int \<times> rat \<Rightarrow> transcript_scan \<Rightarrow> transcript_scan" where
  "add_evidence i ev s = s\<lparr>tx_evidence := (tx_evidence s)(i := tx_evidence s i @ [ev])\<rparr>"

definition block_span :: "int \<Rightarrow> transcript_scan \<Rightarrow> transcript_scan" where
  "block_span n s = s\<lparr>tx_blocked := n # tx_blocked s\<rparr>"

definition fixed_span :: "final_view \<Rightarrow> int \<Rightarrow> agendaContextSpan option" where
  "fixed_span v n = (case agendaContextSpanForEvidence [n] (fv_spans v) of
       None \<Rightarrow> None
     | Some s \<Rightarrow> if sp_Mode s \<noteq> agendaContextModeFixed \<or> sp_AgendaID s = [] then None else Some s)"

definition scan_segment ::
    "final_view \<Rightarrow> meetingContext option \<Rightarrow> TranscriptSegment \<Rightarrow> transcript_scan \<Rightarrow> transcript_scan" where
  "scan_segment v c seg s =
     (let n = ts_SequenceNo seg; text = trim_space (ts_Text seg) in
      if \<not> current_role (fv_roles v n) \<or> text = [] then s
      else (case fv_best v seg (eligible_agenda c) of
          Some (agendaID, score) \<Rightarrow>
            (let s1 = add_evidence agendaID (n, score) s in
             case fixed_span v n of
               Some sp \<Rightarrow> if agendaID \<noteq> sp_AgendaID sp \<and> 68 / 100 \<le> score then block_span (sp_StartSequenceNo sp) s1 else s1
             | None \<Rightarrow> s1)
        | None \<Rightarrow>
            (case fixed_span v n of
               None \<Rightarrow> s
             | Some sp \<Rightarrow>
                 (let start = sp_StartSequenceNo sp in
                  if start \<in> set (tx_blocked s) \<or> 2 \<le> tx_inherited s start then s
                  else (case fv_strong v text of (targetID, targetScore) \<Rightarrow>
                    if targetID \<noteq> [] \<and> targetID \<noteq> sp_AgendaID sp \<and> 68 / 100 \<le> targetScore then block_span start s
                    else add_evidence (sp_AgendaID sp) (n, max (sp_Confidence sp) (55 / 100))
                      (s\<lparr>tx_inherited := (tx_inherited s)(start := tx_inherited s start + 1)\<rparr>))))))"

definition scan_transcript ::
    "final_view \<Rightarrow> meetingContext option \<Rightarrow> TranscriptSegment list \<Rightarrow> gostring \<Rightarrow> (int \<times> rat) list" where
  "scan_transcript v c segments =
     tx_evidence (fold (scan_segment v c) segments
       \<lparr>tx_blocked = [], tx_inherited = (\<lambda>_. 0), tx_evidence = (\<lambda>_. [])\<rparr>)"

definition item_matches_entry :: "liveAnalysisTree option \<Rightarrow> agendaProgressEntry \<Rightarrow> progress_item \<Rightarrow> bool" where
  "item_matches_entry t e it \<longleftrightarrow>
     pe_ID e \<in> set (it_RelatedAgendaIDs it) \<or>
     (pe_SourceType e = agendaProgressSourceDynamic \<and> pe_CandidateID e \<noteq> [] \<and> it_CandidateTopicID it = pe_CandidateID e) \<or>
     list_ex (\<lambda>nodeID. treeItemTopic t (it_ID it) \<noteq> [] \<and> nodeID \<noteq> [] \<and>
       isAgendaProgressDescendantOrSelf (parents_in t) (treeItemTopic t (it_ID it)) nodeID) (pe_MaterializedTopicIDs e)"

definition assignment_score :: "progress_item \<Rightarrow> rat" where
  "assignment_score it =
     (if it_AssignmentConfidence it \<le> 0 then 1 else if 1 < it_AssignmentConfidence it then 1 else it_AssignmentConfidence it)"

definition average :: "rat list \<Rightarrow> rat" where
  "average vs = sum_list vs / of_nat (length vs)"

definition final_support ::
    "final_view \<Rightarrow> (gostring \<Rightarrow> (int \<times> rat) list) \<Rightarrow> progress_item list \<Rightarrow> agendaProgressEntry \<Rightarrow> agendaProgressEntry" where
  "final_support v transcript active e =
     (if active \<noteq> [] then
        e\<lparr>pe_ComputedStatus := agendaProgressDiscussed, pe_ProgressSource := evidenceSourceActiveItem,
          pe_ProgressReason := ''active_canonical_items'',
          pe_SemanticCoverageScore := average (map assignment_score active),
          pe_EvidenceSequenceNos := uniqueSortedSequenceNos
            (fold (\<lambda>it. current_evidence (fv_roles v) (it_EvidenceSequenceNos it)) active [])\<rparr>
      else if pe_SourceType e = agendaProgressSourceFixed \<and> 2 \<le> length (transcript (pe_ID e)) then
        e\<lparr>pe_ComputedStatus := agendaProgressDiscussed, pe_ProgressSource := evidenceSourceTranscript,
          pe_ProgressReason := ''meaningful_discussion_without_persisted_item'',
          pe_SemanticCoverageScore := average (map snd (transcript (pe_ID e))),
          pe_EvidenceSequenceNos := uniqueSortedSequenceNos
            (fold (\<lambda>ev ns. appendUniqueSequence ns (fst ev)) (transcript (pe_ID e)) [])\<rparr>
      else e)"

definition reset_progress :: "agendaProgressEntry \<Rightarrow> agendaProgressEntry" where
  "reset_progress e = e\<lparr>pe_ComputedStatus := agendaProgressNotStarted, pe_ProgressSource := evidenceSourceNone,
     pe_ProgressReason := ''no_substantive_support'', pe_SemanticCoverageScore := 0, pe_EvidenceSequenceNos := [],
     pe_DiscussionVolume := 0, pe_DiscussionWeight := 0, pe_WeightRaw := 0, pe_SubstantiveSegments := 0,
     pe_ActiveRounds := 0, pe_InactiveRounds := 0, pe_LastProgressAtVersion := 0, pe_FirstActiveVersion := 0\<rparr>"

definition final_volume :: "int \<Rightarrow> agendaProgressEntry \<Rightarrow> agendaProgressEntry" where
  "final_volume version e =
     (let volume = int (length (pe_EvidenceSequenceNos e));
          e1 = e\<lparr>pe_DiscussionVolume := volume, pe_SubstantiveSegments := volume\<rparr>;
          raw = of_int volume + of_int (min (pe_ActiveItemCount e) 2) / 2 in
      if pe_ComputedStatus e = agendaProgressDiscussed
      then e1\<lparr>pe_ActiveRounds := min 2 (max 1 volume), pe_LastProgressAtVersion := version,
              pe_FirstActiveVersion := version, pe_WeightRaw := (if raw = 0 then 1 / 2 else raw)\<rparr>
      else e1)"

definition final_active :: "final_view \<Rightarrow> liveAnalysisTree option \<Rightarrow> progress_item list \<Rightarrow> gostring list \<Rightarrow> agendaProgressEntry \<Rightarrow> progress_item list" where
  "final_active v t items fixed e =
     filter (agendaProgressItemIsActive (fv_hollow v) (fv_roles v)) (related_of t items fixed e)"

definition final_row ::
    "final_view \<Rightarrow> liveAnalysisTree option \<Rightarrow> progress_item list \<Rightarrow> gostring list \<Rightarrow> (gostring \<Rightarrow> (int \<times> rat) list) \<Rightarrow> int \<Rightarrow>
     agendaProgressEntry \<Rightarrow> agendaProgressEntry" where
  "final_row v t items fixed transcript version e =
     (let active = final_active v t items fixed e;
          inactive = sorted_ids (map it_ID (filter (\<lambda>it.
            \<not> agendaProgressItemIsActive (fv_hollow v) (fv_roles v) it \<and> item_matches_entry t e it) items)) in
      final_volume version (final_support v transcript active (reset_progress (e\<lparr>
        pe_ActiveItemIDs := sort (map it_ID active), pe_ActiveItemCount := int (length active),
        pe_InactiveItemIDs := inactive, pe_InactiveItemCount := int (length inactive),
        pe_RelatedItemCounts := kind_counts active\<rparr>))))"

definition final_weight :: "rat \<Rightarrow> agendaProgressEntry \<Rightarrow> agendaProgressEntry" where
  "final_weight m e =
     (if pe_ComputedStatus e = agendaProgressDiscussed \<and> 0 < m then e\<lparr>pe_DiscussionWeight := pe_WeightRaw e / m\<rparr> else e)"

definition final_before :: "agendaProgressEntry \<Rightarrow> agendaProgressEntry \<Rightarrow> bool" where
  "final_before a b \<longleftrightarrow>
     (let fa = pe_SourceType a = agendaProgressSourceFixed; fb = pe_SourceType b = agendaProgressSourceFixed in
      if fa \<noteq> fb then fa
      else if fa \<and> pe_Order a \<noteq> pe_Order b then pe_Order a < pe_Order b
      else pe_ID a < pe_ID b)"

definition recomputeFinalAgendaProgressEvidence ::
    "final_view \<Rightarrow> meetingContext option \<Rightarrow> agendaAnchor list \<Rightarrow> liveAnalysisTree option \<Rightarrow> progress_item list \<Rightarrow>
     TranscriptSegment list \<Rightarrow> int \<Rightarrow> agendaProgressState \<Rightarrow> agendaProgressState" where
  "recomputeFinalAgendaProgressEvidence v c anchors t items segments version s0 =
     (let s = refreshAgendaProgressNodeRefs t (clear_current s0);
          fixed = map ag_ID (final_agenda c);
          linked = final_links fixed anchors (fold final_place (final_agenda c) (ps_Entries s));
          rows = update_rows (final_row v t items fixed (scan_transcript v c segments) version) linked;
          top = fold (\<lambda>e m. if pe_ComputedStatus e = agendaProgressDiscussed then max m (pe_WeightRaw e) else m)
            (last_rows rows) 0;
          weighed = update_rows (final_weight top) rows;
          judged = update_rows (\<lambda>e. outcome_of fixed (final_active v t items fixed e) e) weighed in
      s\<lparr>ps_Entries := order_by final_before judged, ps_UpdatedAtVersion := version\<rparr>)"

definition finalizeAgendaProgress ::
    "final_view \<Rightarrow> meetingContext option \<Rightarrow> int \<Rightarrow> TranscriptSegment list option \<Rightarrow> agendaAnchor list \<Rightarrow>
     liveAnalysisTree option \<Rightarrow> progress_item list \<Rightarrow> agendaProgressState option \<Rightarrow> agendaProgressState option" where
  "finalizeAgendaProgress v c version segments anchors t items progress =
     (if progress = None \<and> agenda_of c = [] then None
      else (let s0 = (case progress of None \<Rightarrow> synthesizeAgendaProgressFromAnchors c anchors version | Some s \<Rightarrow> s);
                s = refreshAgendaProgressNodeRefs t (clear_current s0) in
        case segments of
          Some segs \<Rightarrow> Some (recomputeFinalAgendaProgressEvidence v c anchors t items segs version s)
        | None \<Rightarrow>
            (let fixed = fixed_ids c in
             Some (s\<lparr>ps_Entries := update_rows (promoted_row t items fixed anchors) (final_links fixed anchors (ps_Entries s)),
                     ps_UpdatedAtVersion := version\<rparr>))))"

end
