(* ===== verification/ProgressOverrides.thy ===== *)
theory ProgressOverrides
  imports AgendaFinal HttpForms "HOL-Library.Finite_Map"
begin

text \<open>
  The corrections an owner makes by hand to the agenda progress: the table of overrides in memory and in
  PostgreSQL (\<open>adapter/repository/{memory,postgres}/agenda_progress_overrides.go\<close>), the cache and the update of the
  analysis service (\<open>UpdateAgendaProgressOverride\<close> and \<open>sessionAgendaProgressOverrides\<close> of \<open>ai_analysis.go\<close>), and
  the stamp of a delivered projection (\<open>applyAgendaProgressOverrides\<close>).

  The stored text is of any type \<open>'p\<close> with the two functions of \<open>encoding/json\<close>.  The rows of the
  analysis table the update reads, the sanitizing of a live row and the JSON of payloads are arguments.
  The calls of the service outside its lock are steps of their own at the end of the theory.
\<close>

section \<open>Overrides and what they show\<close>

record AgendaProgressOverrides =
  ov_StatusOverrides :: "(gostring, gostring) fmap"
  ov_CurrentTopicID :: gostring

definition no_overrides :: AgendaProgressOverrides where
  "no_overrides = \<lparr>ov_StatusOverrides = fmempty, ov_CurrentTopicID = []\<rparr>"

definition manual_status :: "AgendaProgressOverrides option \<Rightarrow> gostring \<Rightarrow> gostring" where
  "manual_status ov i =
     (case ov of None \<Rightarrow> []
      | Some o' \<Rightarrow> (case fmlookup (ov_StatusOverrides o') i of
            None \<Rightarrow> [] | Some s \<Rightarrow> if isValidAgendaProgressStatus s then s else []))"

definition stamp_entry :: "AgendaProgressOverrides option \<Rightarrow> agendaProgressEntry \<Rightarrow> agendaProgressEntry" where
  "stamp_entry ov e =
     (let manual = manual_status ov (pe_ID e) in
      e\<lparr>pe_ManualStatus := manual, pe_EffectiveStatus := (if manual \<noteq> [] then manual else pe_ComputedStatus e)\<rparr>)"

definition manual_current :: "AgendaProgressOverrides option \<Rightarrow> agendaProgressEntry list \<Rightarrow> gostring" where
  "manual_current ov es =
     (case ov of None \<Rightarrow> []
      | Some o' \<Rightarrow> (let i = trim_space (ov_CurrentTopicID o') in if i \<noteq> [] \<and> has_row i es then i else []))"

definition applyAgendaProgressOverrides ::
    "agendaProgressState \<Rightarrow> AgendaProgressOverrides option \<Rightarrow> agendaProgressState" where
  "applyAgendaProgressOverrides s ov =
     (let current = manual_current ov (ps_Entries s) in
      s\<lparr>ps_Entries := map (stamp_entry ov) (ps_Entries s), ps_ManualCurrentTopicID := current,
        ps_EffectiveCurrentTopicID := (if current \<noteq> [] then current else ps_ComputedCurrentTopicID s)\<rparr>)"

record progress_json =
  pj_envelope :: "gostring \<Rightarrow> (gostring \<times> gostring) list option"
  pj_progress :: "gostring \<Rightarrow> agendaProgressState option"
  pj_state :: "agendaProgressState \<Rightarrow> gostring"
  pj_object :: "(gostring \<times> gostring) list \<Rightarrow> gostring"

text \<open>\<open>None\<close> stands for the flag \<open>false\<close>: the payload is delivered as it is.\<close>

definition stampAgendaProgressInLivePayload ::
    "progress_json \<Rightarrow> gostring \<Rightarrow> AgendaProgressOverrides option \<Rightarrow> gostring option" where
  "stampAgendaProgressInLivePayload js payload ov =
     (if payload = [] then None
      else (case pj_envelope js payload of
          None \<Rightarrow> None
        | Some envelope \<Rightarrow>
            (case map_of envelope ''agendaProgress'' of
               None \<Rightarrow> None
             | Some raw \<Rightarrow>
                 if raw = [] \<or> raw = ''null'' then None
                 else (case pj_progress js raw of
                     None \<Rightarrow> None
                   | Some s \<Rightarrow> Some (pj_object js (AList.update ''agendaProgress''
                       (pj_state js (applyAgendaProgressOverrides s ov)) envelope))))))"

definition agendaProgressStampEligible :: "MeetingAIAnalysisStatus \<Rightarrow> bool" where
  "agendaProgressStampEligible st \<longleftrightarrow> st = AnalysisCompleted \<or> st = AnalysisRunning"

section \<open>The tables\<close>

record ('p, 'r) override_repo =
  ovr_Get :: "gostring \<Rightarrow> 'r \<Rightarrow> 'p result \<times> 'r"
  ovr_Upsert :: "gostring \<Rightarrow> 'p \<Rightarrow> gotime \<Rightarrow> 'r \<Rightarrow> goerror option \<times> 'r"

definition overrides_not_found :: goerror where
  "overrides_not_found = ErrNotFound ''agenda progress overrides not found''"

record 'p stored_overrides =
  so_payload :: 'p
  so_updatedAt :: gotime

type_synonym 'p memory_overrides = "gostring \<rightharpoonup> 'p stored_overrides"

definition mem_GetAgendaProgressOverrides :: "gostring \<Rightarrow> 'p memory_overrides \<Rightarrow> 'p result \<times> 'p memory_overrides" where
  "mem_GetAgendaProgressOverrides sessionID m =
     (case m sessionID of None \<Rightarrow> Inl overrides_not_found | Some s \<Rightarrow> Inr (so_payload s), m)"

definition mem_UpsertAgendaProgressOverrides ::
    "('p \<Rightarrow> bool) \<Rightarrow> gotime \<Rightarrow> gostring \<Rightarrow> 'p \<Rightarrow> gotime \<Rightarrow> 'p memory_overrides \<Rightarrow> goerror option \<times> 'p memory_overrides" where
  "mem_UpsertAgendaProgressOverrides valid now sessionID payload updatedAt m =
     (if \<not> valid payload then (Some ErrDatabase, m)
      else (None, m(sessionID \<mapsto> \<lparr>so_payload = payload, so_updatedAt = (if is_zero updatedAt then now else updatedAt)\<rparr>)))"

definition mem_DeleteAgendaProgressOverrides :: "gostring \<Rightarrow> 'p memory_overrides \<Rightarrow> 'p memory_overrides" where
  "mem_DeleteAgendaProgressOverrides sessionID m = m(sessionID := None)"

definition memory_repo :: "('p \<Rightarrow> bool) \<Rightarrow> gotime \<Rightarrow> ('p, 'p memory_overrides) override_repo" where
  "memory_repo valid now =
     \<lparr>ovr_Get = mem_GetAgendaProgressOverrides, ovr_Upsert = mem_UpsertAgendaProgressOverrides valid now\<rparr>"

text \<open>In PostgreSQL every statement may fail; \<open>stored\<close> is what the \<open>JSONB\<close> column makes of a text.\<close>

record 'p override_row =
  orw_session :: gostring
  orw_payload :: 'p
  orw_updatedAt :: gotime

record 'p pg_overrides =
  po_rows :: "'p override_row list"
  po_faults :: "bool list"

definition statement_fails :: "'p pg_overrides \<Rightarrow> bool \<times> 'p pg_overrides" where
  "statement_fails db = (case po_faults db of [] \<Rightarrow> (False, db) | f # fs \<Rightarrow> (f, db\<lparr>po_faults := fs\<rparr>))"

definition pg_GetAgendaProgressOverrides :: "gostring \<Rightarrow> 'p pg_overrides \<Rightarrow> 'p result \<times> 'p pg_overrides" where
  "pg_GetAgendaProgressOverrides sessionID db0 =
     (case statement_fails db0 of
        (True, db) \<Rightarrow> (Inl ErrDatabase, db)
      | (False, db) \<Rightarrow>
          (case find (\<lambda>r. orw_session r = sessionID) (po_rows db) of
             None \<Rightarrow> Inl overrides_not_found | Some r \<Rightarrow> Inr (orw_payload r), db))"

definition upsert_row :: "gostring \<Rightarrow> 'p \<Rightarrow> gotime \<Rightarrow> 'p override_row list \<Rightarrow> 'p override_row list" where
  "upsert_row sessionID payload at_time rows =
     (if list_ex (\<lambda>r. orw_session r = sessionID) rows
      then update_where (\<lambda>r. orw_session r = sessionID) (\<lambda>r. r\<lparr>orw_payload := payload, orw_updatedAt := at_time\<rparr>) rows
      else rows @ [\<lparr>orw_session = sessionID, orw_payload = payload, orw_updatedAt = at_time\<rparr>])"

definition pg_UpsertAgendaProgressOverrides ::
    "('p \<Rightarrow> bool) \<Rightarrow> ('p \<Rightarrow> 'p option) \<Rightarrow> gotime \<Rightarrow> gostring \<Rightarrow> 'p \<Rightarrow> gotime \<Rightarrow> 'p pg_overrides \<Rightarrow>
     goerror option \<times> 'p pg_overrides" where
  "pg_UpsertAgendaProgressOverrides valid stored now sessionID payload updatedAt db0 =
     (if \<not> valid payload then (Some ErrDatabase, db0)
      else (case statement_fails db0 of
          (True, db) \<Rightarrow> (Some ErrDatabase, db)
        | (False, db) \<Rightarrow>
            (case stored payload of
               None \<Rightarrow> (Some ErrDatabase, db)
             | Some text \<Rightarrow> (None, db\<lparr>po_rows :=
                 upsert_row sessionID text (if is_zero updatedAt then now else updatedAt) (po_rows db)\<rparr>))))"

definition postgres_repo :: "('p \<Rightarrow> bool) \<Rightarrow> ('p \<Rightarrow> 'p option) \<Rightarrow> gotime \<Rightarrow> ('p, 'p pg_overrides) override_repo" where
  "postgres_repo valid stored now =
     \<lparr>ovr_Get = pg_GetAgendaProgressOverrides, ovr_Upsert = pg_UpsertAgendaProgressOverrides valid stored now\<rparr>"

section \<open>The service\<close>

record 'p override_codec =
  oc_encode :: "AgendaProgressOverrides \<Rightarrow> 'p"
  oc_decode :: "'p \<Rightarrow> AgendaProgressOverrides option"

text \<open>The cache: no entry while \<open>overridesLoaded\<close> is unset.\<close>

record 'r override_desk =
  od_repo :: 'r
  od_cache :: "gostring \<rightharpoonup> AgendaProgressOverrides option"

definition fetchAgendaProgressOverrides ::
    "'p override_codec \<Rightarrow> ('p, 'r) override_repo \<Rightarrow> gostring \<Rightarrow> 'r \<Rightarrow> AgendaProgressOverrides option result \<times> 'r" where
  "fetchAgendaProgressOverrides cd rp sessionID r =
     (case ovr_Get rp sessionID r of
        (Inl e, r') \<Rightarrow> (if is_not_found e then Inr None else Inl e, r')
      | (Inr p, r') \<Rightarrow> (case oc_decode cd p of None \<Rightarrow> Inl ErrDatabase | Some ov \<Rightarrow> Inr (Some ov), r'))"

definition cache_overrides :: "gostring \<Rightarrow> AgendaProgressOverrides option \<Rightarrow> 'r override_desk \<Rightarrow> 'r override_desk" where
  "cache_overrides sessionID ov d = d\<lparr>od_cache := (od_cache d)(sessionID \<mapsto> ov)\<rparr>"

definition sessionAgendaProgressOverrides ::
    "'p override_codec \<Rightarrow> ('p, 'r) override_repo option \<Rightarrow> gostring \<Rightarrow> 'r override_desk \<Rightarrow>
     AgendaProgressOverrides option \<times> 'r override_desk" where
  "sessionAgendaProgressOverrides cd repo sessionID d =
     (if trim_space sessionID = [] then (None, d)
      else (case od_cache d sessionID of
          Some ov \<Rightarrow> (ov, d)
        | None \<Rightarrow>
            (case repo of
               None \<Rightarrow> (None, d)
             | Some rp \<Rightarrow>
                 (case fetchAgendaProgressOverrides cd rp sessionID (od_repo d) of
                    (Inl e, r) \<Rightarrow> (None, d\<lparr>od_repo := r\<rparr>)
                  | (Inr ov, r) \<Rightarrow> (ov, cache_overrides sessionID ov (d\<lparr>od_repo := r\<rparr>))))))"

section \<open>One update\<close>

text \<open>What the update reads of the meeting: its context and its live analysis, with the parts of the payload.\<close>

record live_view =
  lv_row :: MeetingAIAnalysis
  lv_progress :: "agendaProgressState option"
  lv_anchors :: "agendaAnchor list"

record override_view =
  vw_context :: "meetingContext option"
  vw_live :: "goerror + live_view option"
  vw_now :: gotime

definition live_progress :: "live_view option \<Rightarrow> agendaProgressState option \<times> agendaAnchor list" where
  "live_progress live = (case live of None \<Rightarrow> (None, [])
     | Some l \<Rightarrow> if aa_Payload (lv_row l) = [] then (None, []) else (lv_progress l, lv_anchors l))"

definition agendaProgressValidEntryIDs :: "meetingContext option \<Rightarrow> agendaProgressState option \<Rightarrow> gostring list" where
  "agendaProgressValidEntryIDs c s =
     filter (\<lambda>i. i \<noteq> []) (map (\<lambda>a. trim_space (ag_ID a)) (agenda_of c)) @
     (case s of None \<Rightarrow> [] | Some st \<Rightarrow> map pe_ID (ps_Entries st))"

definition input_fault :: "AgendaProgressOverrideInput \<Rightarrow> gostring option" where
  "input_fault input =
     (if (ao_ManualStatus input \<noteq> None) = ao_ManualCurrentSet input
      then Some ''exactly one of manualStatus or manualCurrentTopicId is required''
      else (case ao_ManualStatus input of
          None \<Rightarrow> None
        | Some manual \<Rightarrow>
            if trim_space (ao_EntryID input) = [] then Some ''entryId is required for a status override''
            else if manual \<noteq> [] \<and> \<not> isValidAgendaProgressStatus manual
            then Some ''manualStatus must be not_started, discussing, or discussed''
            else None))"

definition override_target :: "AgendaProgressOverrideInput \<Rightarrow> gostring" where
  "override_target input =
     (if ao_ManualStatus input \<noteq> None then trim_space (ao_EntryID input) else trim_space (ao_ManualCurrentID input))"

definition changed_overrides :: "AgendaProgressOverrideInput \<Rightarrow> AgendaProgressOverrides \<Rightarrow> AgendaProgressOverrides" where
  "changed_overrides input ov =
     (case ao_ManualStatus input of
        Some manual \<Rightarrow> ov\<lparr>ov_StatusOverrides :=
          (if manual = [] then fmdrop (trim_space (ao_EntryID input)) (ov_StatusOverrides ov)
           else fmupd (trim_space (ao_EntryID input)) manual (ov_StatusOverrides ov))\<rparr>
      | None \<Rightarrow> ov\<lparr>ov_CurrentTopicID := trim_space (ao_ManualCurrentID input)\<rparr>)"

text \<open>The first part of the update: checks, and the overrides to be written.\<close>

definition prepare_override ::
    "'p override_codec \<Rightarrow> ('p, 'r) override_repo \<Rightarrow> gostring \<Rightarrow> AgendaProgressOverrideInput \<Rightarrow> override_view \<Rightarrow>
     'r override_desk \<Rightarrow> AgendaProgressOverrides result \<times> 'r override_desk" where
  "prepare_override cd rp sessionID input vw d =
     (case input_fault input of
        Some msg \<Rightarrow> (Inl (ErrInvalidArgument msg), d)
      | None \<Rightarrow>
          (case vw_live vw of
             Inl e \<Rightarrow> (Inl e, d)
           | Inr live \<Rightarrow>
               if override_target input \<noteq> [] \<and>
                  override_target input \<notin> set (agendaProgressValidEntryIDs (vw_context vw) (fst (live_progress live)))
               then (Inl (ErrInvalidArgument ''unknown agenda progress entry id''), d)
               else (case fetchAgendaProgressOverrides cd rp sessionID (od_repo d) of
                   (Inl e, r) \<Rightarrow> (Inl e, d\<lparr>od_repo := r\<rparr>)
                 | (Inr old, r) \<Rightarrow>
                     (Inr (changed_overrides input (case old of None \<Rightarrow> no_overrides | Some ov \<Rightarrow> ov)), d\<lparr>od_repo := r\<rparr>))))"

definition store_override ::
    "'p override_codec \<Rightarrow> ('p, 'r) override_repo \<Rightarrow> gostring \<Rightarrow> gotime \<Rightarrow> AgendaProgressOverrides \<Rightarrow>
     'r override_desk \<Rightarrow> goerror option \<times> 'r override_desk" where
  "store_override cd rp sessionID now ov d =
     (case ovr_Upsert rp sessionID (oc_encode cd ov) now (od_repo d) of (e, r) \<Rightarrow> (e, d\<lparr>od_repo := r\<rparr>))"

definition override_projection :: "override_view \<Rightarrow> agendaProgressState" where
  "override_projection vw =
     (case vw_live vw of
        Inl _ \<Rightarrow> synthesizeAgendaProgressFromAnchors (vw_context vw) [] 0
      | Inr live \<Rightarrow> (case live_progress live of
            (Some s, _) \<Rightarrow> s
          | (None, anchors) \<Rightarrow> synthesizeAgendaProgressFromAnchors (vw_context vw) anchors 0))"

text \<open>The live row that is published again, before its payload is stamped.\<close>

definition republished ::
    "(MeetingAIAnalysis \<Rightarrow> meetingContext option \<Rightarrow> MeetingAIAnalysis option) \<Rightarrow> override_view \<Rightarrow> MeetingAIAnalysis option" where
  "republished sanitize vw =
     (case vw_live vw of
        Inr (Some l) \<Rightarrow>
          if agendaProgressStampEligible (aa_Status (lv_row l))
          then map_option (\<lambda>a. a\<lparr>aa_UpdatedAt := finalizedProjectionUpdatedAt (vw_now vw) (Some (lv_row l))\<rparr>)
                 (sanitize (lv_row l) (vw_context vw))
          else None
      | _ \<Rightarrow> None)"

text \<open>\<open>publishAnalysis\<close> for a live row.\<close>

definition publish_live ::
    "progress_json \<Rightarrow> 'p override_codec \<Rightarrow> ('p, 'r) override_repo option \<Rightarrow> int \<Rightarrow> MeetingAIAnalysis \<Rightarrow> 'r override_desk \<Rightarrow>
     MeetingAIAnalysis \<times> 'r override_desk" where
  "publish_live js cd repo interval a d =
     (let a1 = a\<lparr>aa_IntervalSeconds := interval\<rparr> in
      if \<not> agendaProgressStampEligible (aa_Status a) then (a1, d)
      else (case sessionAgendaProgressOverrides cd repo (aa_SessionID a) d of
          (ov, d1) \<Rightarrow>
            (case stampAgendaProgressInLivePayload js (aa_Payload a) ov of
               None \<Rightarrow> (a1, d1) | Some payload \<Rightarrow> (a1\<lparr>aa_Payload := payload\<rparr>, d1))))"

record override_env =
  oe_json :: progress_json
  oe_interval :: int
  oe_sanitize :: "MeetingAIAnalysis \<Rightarrow> meetingContext option \<Rightarrow> MeetingAIAnalysis option"

text \<open>The answer is the stamped projection; the other value is what is published.\<close>

definition UpdateAgendaProgressOverride ::
    "override_env \<Rightarrow> 'p override_codec \<Rightarrow> ('p, 'r) override_repo option \<Rightarrow> gostring \<Rightarrow> AgendaProgressOverrideInput \<Rightarrow>
     override_view \<Rightarrow> 'r override_desk \<Rightarrow> agendaProgressState result \<times> MeetingAIAnalysis option \<times> 'r override_desk" where
  "UpdateAgendaProgressOverride env cd repo sessionID0 input vw d =
     (let sessionID = trim_space sessionID0 in
      if sessionID = [] then (Inl (ErrInvalidArgument ''sessionId is required''), None, d)
      else (case repo of
          None \<Rightarrow> (Inl (ErrInvalidArgument ''agenda progress overrides repository is not configured''), None, d)
        | Some rp \<Rightarrow>
            (case prepare_override cd rp sessionID input vw d of
               (Inl e, d1) \<Rightarrow> (Inl e, None, d1)
             | (Inr ov, d1) \<Rightarrow>
                 (case store_override cd rp sessionID (vw_now vw) ov d1 of
                    (Some e, d2) \<Rightarrow> (Inl e, None, d2)
                  | (None, d2) \<Rightarrow>
                      (let d3 = cache_overrides sessionID (Some ov) d2;
                           answer = applyAgendaProgressOverrides (override_projection vw) (Some ov) in
                       case republished (oe_sanitize env) vw of
                         None \<Rightarrow> (Inr answer, None, d3)
                       | Some a \<Rightarrow>
                           (case publish_live (oe_json env) cd repo (oe_interval env) a d3 of
                              (sent, d4) \<Rightarrow> (Inr answer, Some sent, d4)))))))"

section \<open>Updates and deliveries side by side\<close>

text \<open>
  Between its critical sections a call can be overtaken: an update that has read the row and not written it, or
  written it and not told the cache; a delivery that found no cache entry, or has read the row and not filled
  the entry.  \<open>tick\<close> forgets a session that has been quiet for long.
\<close>

datatype override_task =
    Storing AgendaProgressOverrides
  | Caching AgendaProgressOverrides
  | Loading
  | Filling "AgendaProgressOverrides option"

record 'r override_sys =
  os_desk :: "'r override_desk"
  os_tasks :: "override_task list"

definition forget_session :: "gostring \<Rightarrow> 'r override_desk \<Rightarrow> 'r override_desk" where
  "forget_session sessionID d = d\<lparr>od_cache := (od_cache d)(sessionID := None)\<rparr>"

inductive override_step ::
    "'p override_codec \<Rightarrow> ('p, 'r) override_repo \<Rightarrow> gostring \<Rightarrow> 'r override_sys \<Rightarrow> 'r override_sys \<Rightarrow> bool"
  for cd :: "'p override_codec" and rp :: "('p, 'r) override_repo" and sessionID :: gostring where
  step_prepared: "prepare_override cd rp sessionID input vw (os_desk s) = (Inr ov, d) \<Longrightarrow>
    override_step cd rp sessionID s \<lparr>os_desk = d, os_tasks = os_tasks s @ [Storing ov]\<rparr>"
| step_rejected: "prepare_override cd rp sessionID input vw (os_desk s) = (Inl e, d) \<Longrightarrow>
    override_step cd rp sessionID s (s\<lparr>os_desk := d\<rparr>)"
| step_stored: "os_tasks s = a @ Storing ov # b \<Longrightarrow> store_override cd rp sessionID now ov (os_desk s) = (None, d) \<Longrightarrow>
    override_step cd rp sessionID s \<lparr>os_desk = d, os_tasks = a @ Caching ov # b\<rparr>"
| step_store_failed: "os_tasks s = a @ Storing ov # b \<Longrightarrow> store_override cd rp sessionID now ov (os_desk s) = (Some e, d) \<Longrightarrow>
    override_step cd rp sessionID s \<lparr>os_desk = d, os_tasks = a @ b\<rparr>"
| step_cached: "os_tasks s = a @ Caching ov # b \<Longrightarrow>
    override_step cd rp sessionID s \<lparr>os_desk = cache_overrides sessionID (Some ov) (os_desk s), os_tasks = a @ b\<rparr>"
| step_missed: "od_cache (os_desk s) sessionID = None \<Longrightarrow>
    override_step cd rp sessionID s (s\<lparr>os_tasks := os_tasks s @ [Loading]\<rparr>)"
| step_loaded: "os_tasks s = a @ Loading # b \<Longrightarrow>
    fetchAgendaProgressOverrides cd rp sessionID (od_repo (os_desk s)) = (Inr ov, r) \<Longrightarrow>
    override_step cd rp sessionID s \<lparr>os_desk = (os_desk s)\<lparr>od_repo := r\<rparr>, os_tasks = a @ Filling ov # b\<rparr>"
| step_load_failed: "os_tasks s = a @ Loading # b \<Longrightarrow>
    fetchAgendaProgressOverrides cd rp sessionID (od_repo (os_desk s)) = (Inl e, r) \<Longrightarrow>
    override_step cd rp sessionID s \<lparr>os_desk = (os_desk s)\<lparr>od_repo := r\<rparr>, os_tasks = a @ b\<rparr>"
| step_filled: "os_tasks s = a @ Filling ov # b \<Longrightarrow>
    override_step cd rp sessionID s \<lparr>os_desk = cache_overrides sessionID ov (os_desk s), os_tasks = a @ b\<rparr>"
| step_forgotten: "override_step cd rp sessionID s (s\<lparr>os_desk := forget_session sessionID (os_desk s)\<rparr>)"

inductive override_steps ::
    "'p override_codec \<Rightarrow> ('p, 'r) override_repo \<Rightarrow> gostring \<Rightarrow> 'r override_sys \<Rightarrow> 'r override_sys \<Rightarrow> bool"
  for cd :: "'p override_codec" and rp :: "('p, 'r) override_repo" and sessionID :: gostring where
  steps_refl: "override_steps cd rp sessionID s s"
| steps_step: "override_steps cd rp sessionID s t \<Longrightarrow> override_step cd rp sessionID t u \<Longrightarrow> override_steps cd rp sessionID s u"

end
