(* ===== verification/AgendaProgressClaims.thy ===== *)
theory AgendaProgressClaims
  imports AgendaProgress
begin

text \<open>
  What the projection of agenda progress promises over the rounds of a meeting: every agenda record and every
  topic with a backing has one row, weights are shares, a row never falls back to an earlier status, and the
  current topic changes only on an explicit transition, on repeated leads, or after a silence.
\<close>

section \<open>The entries under work\<close>

definition work_ok :: "progress_work \<Rightarrow> bool" where
  "work_ok w \<longleftrightarrow> distinct (pw_order w) \<and> dom (pw_entries w) = set (pw_order w) \<and>
     (\<forall>i e. pw_entries w i = Some e \<longrightarrow> pe_ID e = i)"

lemma work_okI:
  assumes "distinct (pw_order w)" and "dom (pw_entries w) = set (pw_order w)"
    and "\<And>i e. pw_entries w i = Some e \<Longrightarrow> pe_ID e = i"
  shows "work_ok w"
  using assms by (auto simp: work_ok_def)

lemma work_ok_entry: "work_ok w \<Longrightarrow> pw_entries w i = Some e \<Longrightarrow> pe_ID e = i"
  by (simp add: work_ok_def)

lemma work_ok_listed: "work_ok w \<Longrightarrow> i \<in> set (pw_order w) \<longleftrightarrow> (\<exists>e. pw_entries w i = Some e)"
  by (auto simp: work_ok_def)

lemma on_all_simps [simp]:
  "pw_order (on_all f w) = pw_order w"
  "pw_entries (on_all f w) i = map_option (f i) (pw_entries w i)"
  by (simp_all add: on_all_def)

lemma on_entry_order [simp]: "pw_order (on_entry i f w) = pw_order w"
  by (simp add: on_entry_def split: option.splits)

lemma on_entry_entries:
  "pw_entries (on_entry i f w) j = (if j = i then map_option f (pw_entries w i) else pw_entries w j)"
  by (auto simp: on_entry_def split: option.splits)

lemma fold_on_entry_order [simp]: "pw_order (fold (\<lambda>i. on_entry i (g i)) is w) = pw_order w"
  by (induction "is" arbitrary: w) simp_all

lemma fold_on_entry_entries:
  assumes "distinct is"
  shows "pw_entries (fold (\<lambda>i. on_entry i (g i)) is w) j =
    (if j \<in> set is then map_option (g j) (pw_entries w j) else pw_entries w j)"
  using assms by (induction "is" arbitrary: w) (auto simp: on_entry_entries)

lemma work_ok_on_all:
  assumes "work_ok w" and "\<And>i e. pe_ID (f i e) = pe_ID e"
  shows "work_ok (on_all f w)"
  using assms by (auto simp: work_ok_def dom_def)

lemma work_ok_on_entry:
  assumes "work_ok w" and "\<And>e. pe_ID (f e) = pe_ID e"
  shows "work_ok (on_entry i f w)"
  using assms by (auto simp: work_ok_def dom_def on_entry_entries)

lemma work_ok_add_entry:
  assumes "work_ok w" and "pw_entries w (pe_ID e) = None"
  shows "work_ok (add_entry e w)"
proof -
  have "pe_ID e \<notin> set (pw_order w)" using assms by (auto simp: work_ok_def)
  then show ?thesis using assms by (auto simp: work_ok_def add_entry_def)
qed

lemma add_entry_entries:
  "pw_entries (add_entry e w) i = (if i = pe_ID e then Some e else pw_entries w i)"
  by (simp add: add_entry_def)

lemma fold_add_entry_ok:
  assumes "work_ok w" and "distinct (map pe_ID es)" and "\<And>e. e \<in> set es \<Longrightarrow> pw_entries w (pe_ID e) = None"
  shows "work_ok (fold add_entry es w)"
  using assms
proof (induction es arbitrary: w)
  case (Cons e es)
  have "pe_ID d \<noteq> pe_ID e" if "d \<in> set es" for d using Cons.prems(2) that by (force simp: image_iff)
  then have "work_ok (fold add_entry es (add_entry e w))"
    using Cons.prems by (intro Cons.IH work_ok_add_entry) (auto simp: add_entry_entries)
  then show ?case by simp
qed simp

lemma fold_add_entry_entries:
  assumes "distinct (map pe_ID es)"
  shows "pw_entries (fold add_entry es w) i =
    (case find (\<lambda>e. pe_ID e = i) es of Some e \<Rightarrow> Some e | None \<Rightarrow> pw_entries w i)"
  using assms
proof (induction es arbitrary: w)
  case (Cons e es)
  have "pe_ID e \<notin> pe_ID ` set es" using Cons.prems by simp
  then have "find (\<lambda>d. pe_ID d = pe_ID e) es = None" by (force simp: find_None_iff image_iff)
  then show ?case using Cons by (auto simp: add_entry_entries split: option.splits)
qed simp

lemma work_ok_carried:
  assumes "case prev of None \<Rightarrow> True | Some s \<Rightarrow> distinct (map pe_ID (ps_Entries s))"
  shows "work_ok (carried_entries prev)"
  unfolding carried_entries_def
  by (rule fold_add_entry_ok) (use assms in \<open>auto simp: work_ok_def split: option.splits\<close>)

section \<open>The rows of a round\<close>

lemma refresh_fixed_keeps [simp]:
  "pe_ID (refresh_fixed a e) = pe_ID e" "pe_ComputedStatus (refresh_fixed a e) = pe_ComputedStatus e"
  "pe_WeightRaw (refresh_fixed a e) = pe_WeightRaw e"
  by (simp_all add: refresh_fixed_def)

lemma fixed_entry_simps [simp]: "pe_ID (fixed_entry a) = ag_ID a" "pe_WeightRaw (fixed_entry a) = 0"
  by (simp_all add: fixed_entry_def blank_entry_def)

lemma work_ok_place_fixed: "work_ok w \<Longrightarrow> work_ok (place_fixed a w)"
  by (auto simp: place_fixed_def intro!: work_ok_add_entry work_ok_on_entry
      split: option.splits)

lemma place_fixed_has: "work_ok w \<Longrightarrow> \<exists>e. pw_entries (place_fixed a w) (ag_ID a) = Some e"
  by (auto simp: place_fixed_def add_entry_entries on_entry_entries split: option.splits)

lemma place_fixed_keeps:
  assumes "pw_entries w i = Some e"
  shows "\<exists>e'. pw_entries (place_fixed a w) i = Some e' \<and> pe_ComputedStatus e' = pe_ComputedStatus e \<and>
    pe_WeightRaw e' = pe_WeightRaw e"
  using assms
  by (auto simp: place_fixed_def add_entry_entries on_entry_entries split: option.splits)

lemma place_fixed_dom: "work_ok w \<Longrightarrow> dom (pw_entries (place_fixed a w)) = insert (ag_ID a) (dom (pw_entries w))"
  by (auto simp: place_fixed_def add_entry_entries on_entry_entries dom_def split: option.splits if_splits)

lemma fold_place_fixed:
  assumes "work_ok w"
  shows "work_ok (fold place_fixed as w)"
    and "dom (pw_entries (fold place_fixed as w)) = ag_ID ` set as \<union> dom (pw_entries w)"
  using assms
proof (induction as arbitrary: w)
  case (Cons a as)
  { case 1 then show ?case using Cons.IH(1) [OF work_ok_place_fixed] by simp }
  { case 2 then show ?case using Cons.IH(2) [OF work_ok_place_fixed [of w a]] place_fixed_dom [of w a] by auto }
qed simp_all

lemma fold_place_fixed_keeps:
  assumes "pw_entries w i = Some e"
  shows "\<exists>e'. pw_entries (fold place_fixed as w) i = Some e' \<and> pe_ComputedStatus e' = pe_ComputedStatus e \<and>
    pe_WeightRaw e' = pe_WeightRaw e"
  using assms
proof (induction as arbitrary: w e)
  case (Cons a as)
  obtain e1 where "pw_entries (place_fixed a w) i = Some e1" "pe_ComputedStatus e1 = pe_ComputedStatus e"
    "pe_WeightRaw e1 = pe_WeightRaw e" using place_fixed_keeps [OF Cons.prems] by blast
  then show ?case using Cons.IH by fastforce
qed simp

lemma link_fixed_keeps [simp]:
  "pe_ID (link_fixed ts e) = pe_ID e" "pe_ComputedStatus (link_fixed ts e) = pe_ComputedStatus e"
  "pe_WeightRaw (link_fixed ts e) = pe_WeightRaw e" "pe_Order (link_fixed ts e) = pe_Order e"
  by (simp_all add: link_fixed_def)

lemma link_dynamic_keeps [simp]:
  "pe_ID (link_dynamic x i e) = pe_ID e" "pe_ComputedStatus (link_dynamic x i e) = pe_ComputedStatus e"
  "pe_WeightRaw (link_dynamic x i e) = pe_WeightRaw e" "pe_Order (link_dynamic x i e) = pe_Order e"
  by (simp_all add: link_dynamic_def link_node_def link_candidate_def Let_def split: option.splits)

lemma link_all_fixed_ok: "work_ok w \<Longrightarrow> work_ok (link_all_fixed ids anchors w)"
  by (simp add: link_all_fixed_def work_ok_on_all)

lemma dynamic_entry_simps [simp]:
  "pe_ID (dynamic_entry v i) = i" "pe_WeightRaw (dynamic_entry v i) = 0"
  by (simp_all add: dynamic_entry_def blank_entry_def)

lemma add_dynamic_fold:
  "add_dynamic x w = fold add_entry (map (dynamic_entry (pi_TreeVersion x))
     (filter (\<lambda>i. pw_entries w i = None) (dynamic_wanted x))) w"
  by (simp add: add_dynamic_def fold_map o_def)

lemma distinct_wanted [simp]: "distinct (dynamic_wanted x)"
  by (simp add: dynamic_wanted_def)

lemma find_map_same:
  "find (\<lambda>e. pe_ID e = i) (map (dynamic_entry v) is) = (if i \<in> set is then Some (dynamic_entry v i) else None)"
  by (induction "is") auto

lemma add_dynamic_ok: "work_ok w \<Longrightarrow> work_ok (add_dynamic x w)"
  unfolding add_dynamic_fold by (rule fold_add_entry_ok) (auto simp: o_def)

lemma add_dynamic_entries:
  "pw_entries (add_dynamic x w) i =
     (if pw_entries w i = None \<and> i \<in> set (dynamic_wanted x) then Some (dynamic_entry (pi_TreeVersion x) i)
      else pw_entries w i)"
proof -
  let ?es = "map (dynamic_entry (pi_TreeVersion x)) (filter (\<lambda>i. pw_entries w i = None) (dynamic_wanted x))"
  have "distinct (map pe_ID ?es)" by (simp add: o_def)
  moreover have "find (\<lambda>e. pe_ID e = i) ?es =
      (if pw_entries w i = None \<and> i \<in> set (dynamic_wanted x) then Some (dynamic_entry (pi_TreeVersion x) i) else None)"
    by (auto simp: find_map_same)
  ultimately show ?thesis unfolding add_dynamic_fold by (subst fold_add_entry_entries) auto
qed

definition prev_entries :: "agendaProgressInputs \<Rightarrow> agendaProgressEntry list" where
  "prev_entries x = (case pi_Previous x of None \<Rightarrow> [] | Some s \<Rightarrow> ps_Entries s)"

lemma carried_prev: "carried_entries (pi_Previous x) = fold add_entry (prev_entries x) \<lparr>pw_order = [], pw_entries = Map.empty\<rparr>"
  by (simp add: carried_entries_def prev_entries_def)

lemma carried_ok: "distinct (map pe_ID (prev_entries x)) \<Longrightarrow> work_ok (carried_entries (pi_Previous x))"
  by (rule work_ok_carried) (auto simp: prev_entries_def split: option.splits)

lemma carried_entry:
  assumes "distinct (map pe_ID (prev_entries x))" and "e \<in> set (prev_entries x)"
  shows "pw_entries (carried_entries (pi_Previous x)) (pe_ID e) = Some e"
proof -
  have "find (\<lambda>d. pe_ID d = pe_ID e) es = Some e" if "distinct (map pe_ID es)" "e \<in> set es" for es
    using that by (induction es) (auto simp: rev_image_eqI)
  then have "find (\<lambda>d. pe_ID d = pe_ID e) (prev_entries x) = Some e" using assms by blast
  then show ?thesis using assms(1) by (simp add: carried_prev fold_add_entry_entries)
qed

lemma placed_ok: "distinct (map pe_ID (prev_entries x)) \<Longrightarrow> work_ok (placed_entries x)"
  unfolding placed_entries_def
  by (intro work_ok_on_all add_dynamic_ok link_all_fixed_ok fold_place_fixed(1) carried_ok) simp_all

lemma placed_has:
  assumes "distinct (map pe_ID (prev_entries x))" and "i \<in> set (fixed_ids (pi_MC x)) \<union> set (dynamic_wanted x)"
  shows "\<exists>e. pw_entries (placed_entries x) i = Some e"
proof -
  have "dom (pw_entries (fold place_fixed (fixed_agenda (pi_MC x)) (carried_entries (pi_Previous x)))) \<supseteq> set (fixed_ids (pi_MC x))"
    using fold_place_fixed(2) [OF carried_ok [OF assms(1)]] by (auto simp: fixed_ids_def)
  then show ?thesis using assms(2)
    by (fastforce simp: placed_entries_def add_dynamic_entries link_all_fixed_def)
qed

lemma placed_keeps:
  assumes "distinct (map pe_ID (prev_entries x))" and "e \<in> set (prev_entries x)"
  shows "\<exists>e'. pw_entries (placed_entries x) (pe_ID e) = Some e' \<and> pe_ComputedStatus e' = pe_ComputedStatus e"
proof -
  obtain e1 where "pw_entries (fold place_fixed (fixed_agenda (pi_MC x)) (carried_entries (pi_Previous x))) (pe_ID e) = Some e1"
    and "pe_ComputedStatus e1 = pe_ComputedStatus e"
    using fold_place_fixed_keeps [OF carried_entry [OF assms], of "fixed_agenda (pi_MC x)"] by blast
  then show ?thesis by (simp add: placed_entries_def add_dynamic_entries link_all_fixed_def)
qed

definition weights_ok :: "progress_work \<Rightarrow> bool" where
  "weights_ok w \<longleftrightarrow> (\<forall>i e. pw_entries w i = Some e \<longrightarrow> 0 \<le> pe_WeightRaw e)"

lemma weights_ok_add_entry: "weights_ok w \<Longrightarrow> 0 \<le> pe_WeightRaw e \<Longrightarrow> weights_ok (add_entry e w)"
  by (auto simp: weights_ok_def add_entry_entries)

lemma weights_ok_fold_add:
  "weights_ok w \<Longrightarrow> \<forall>e\<in>set es. 0 \<le> pe_WeightRaw e \<Longrightarrow> weights_ok (fold add_entry es w)"
  by (induction es arbitrary: w) (auto intro: weights_ok_add_entry)

lemma weights_ok_place_fixed: "weights_ok w \<Longrightarrow> weights_ok (place_fixed a w)"
  by (auto simp: place_fixed_def weights_ok_def add_entry_entries on_entry_entries split: option.splits if_splits)

lemma weights_ok_fold_place: "weights_ok w \<Longrightarrow> weights_ok (fold place_fixed as w)"
  by (induction as arbitrary: w) (auto intro: weights_ok_place_fixed)

lemma weights_ok_placed:
  assumes "\<forall>e\<in>set (prev_entries x). 0 \<le> pe_WeightRaw e"
  shows "weights_ok (placed_entries x)"
proof -
  have "weights_ok (carried_entries (pi_Previous x))" unfolding carried_prev
    by (rule weights_ok_fold_add [OF _ assms]) (simp add: weights_ok_def)
  then have "weights_ok (fold place_fixed (fixed_agenda (pi_MC x)) (carried_entries (pi_Previous x)))"
    by (rule weights_ok_fold_place)
  then show ?thesis
    by (auto simp: placed_entries_def weights_ok_def add_dynamic_entries link_all_fixed_def split: if_splits)
qed

section \<open>What a round does to a row\<close>

definition row_after :: "(progress_item \<Rightarrow> bool) \<Rightarrow> agendaProgressInputs \<Rightarrow> gostring \<Rightarrow> agendaProgressEntry \<Rightarrow> agendaProgressEntry" where
  "row_after hollow x i e =
     (let v = view_of hollow x;
          e1 = note_activity (pi_TreeVersion x) (fst (active_work x)) i e;
          e2 = e1\<lparr>pe_RelatedItemCounts :=
                 kind_counts (filter (related_item (pi_Tree x) (fixed_ids (pi_MC x)) i e1) (pi_Items x))\<rparr>;
          e3 = e2\<lparr>pe_ComputedStatus := next_progress_status v i e2\<rparr>;
          e4 = e3\<lparr>pe_OutcomeStatus := (if pe_ComputedStatus e3 \<noteq> agendaProgressDiscussed then []
                 else computeAgendaOutcomeStatus e3 (i \<in> set (fixed_ids (pi_MC x))) (sv_related v i))\<rparr> in
      note_evidence v i e4)"

lemma active_work_snd: "snd (active_work x) = on_all (note_activity (pi_TreeVersion x) (fst (active_work x))) (placed_entries x)"
  by (simp add: active_work_def Let_def)

lemma fold_move_status: "fold (move_status v) is = fold (\<lambda>i. on_entry i (\<lambda>e. e\<lparr>pe_ComputedStatus := next_progress_status v i e\<rparr>)) is"
proof -
  have "move_status v = (\<lambda>i. on_entry i (\<lambda>e. e\<lparr>pe_ComputedStatus := next_progress_status v i e\<rparr>))"
    by (rule ext) (simp add: move_status_def)
  then show ?thesis by simp
qed

lemma judged_order [simp]: "pw_order (judged_work hollow x) = pw_order (placed_entries x)"
  by (simp add: judged_work_def Let_def applyAgendaProgressOutcome_def count_related_def active_work_snd fold_move_status)

lemma judged_entries:
  assumes "work_ok (placed_entries x)"
  shows "pw_entries (judged_work hollow x) i = map_option (row_after hollow x i) (pw_entries (placed_entries x) i)"
proof -
  let ?p = "placed_entries x"
  have d: "distinct (pw_order ?p)" and i: "i \<in> set (pw_order ?p) \<longleftrightarrow> pw_entries ?p i \<noteq> None"
    using assms by (auto simp: work_ok_def)
  show ?thesis
    by (cases "pw_entries ?p i")
      (use d i in \<open>simp_all add: judged_work_def Let_def applyAgendaProgressOutcome_def count_related_def active_work_snd
         fold_move_status fold_on_entry_entries row_after_def\<close>)
qed

lemma note_activity_keeps [simp]:
  "pe_ID (note_activity v a i e) = pe_ID e" "pe_ComputedStatus (note_activity v a i e) = pe_ComputedStatus e"
  "pe_Order (note_activity v a i e) = pe_Order e"
  by (simp_all add: note_activity_def Let_def)

lemma note_evidence_keeps [simp]:
  "pe_ID (note_evidence v i e) = pe_ID e" "pe_ComputedStatus (note_evidence v i e) = pe_ComputedStatus e"
  "pe_Order (note_evidence v i e) = pe_Order e"
  by (simp_all add: note_evidence_def Let_def)

lemma row_after_keeps [simp]: "pe_ID (row_after hollow x i e) = pe_ID e" "pe_Order (row_after hollow x i e) = pe_Order e"
  by (simp_all add: row_after_def Let_def)

text \<open>The rank of a status: a row moves up only.\<close>

definition progress_rank :: "gostring \<Rightarrow> nat" where
  "progress_rank s =
     (if s = agendaProgressNotStarted \<or> s = [] then 0 else if s = agendaProgressDiscussing then 1 else 2)"

lemma next_progress_status_rank: "progress_rank (pe_ComputedStatus e) \<le> progress_rank (next_progress_status v i e)"
  by (auto simp: next_progress_status_def progress_rank_def Let_def progress_status_defs)

lemma row_status_rank: "progress_rank (pe_ComputedStatus e) \<le> progress_rank (pe_ComputedStatus (row_after hollow x i e))"
proof -
  let ?e1 = "note_activity (pi_TreeVersion x) (fst (active_work x)) i e"
  let ?e2 = "?e1\<lparr>pe_RelatedItemCounts :=
                 kind_counts (filter (related_item (pi_Tree x) (fixed_ids (pi_MC x)) i ?e1) (pi_Items x))\<rparr>"
  have "pe_ComputedStatus (row_after hollow x i e) = next_progress_status (view_of hollow x) i ?e2"
    by (simp add: row_after_def Let_def)
  then show ?thesis using next_progress_status_rank [of ?e2 "view_of hollow x" i] by simp
qed

section \<open>The rows a round lists\<close>

definition finished_work :: "(progress_item \<Rightarrow> bool) \<Rightarrow> agendaProgressInputs \<Rightarrow> progress_work" where
  "finished_work hollow x = (let w = judged_work hollow x in on_all (\<lambda>_. weigh (max_weight w)) w)"

lemma weigh_keeps [simp]: "pe_ID (weigh m e) = pe_ID e" "pe_ComputedStatus (weigh m e) = pe_ComputedStatus e"
  "pe_Order (weigh m e) = pe_Order e" "pe_WeightRaw (weigh m e) = pe_WeightRaw e"
  by (simp_all add: weigh_def)

lemma finished_entries:
  assumes "work_ok (placed_entries x)"
  shows "pw_entries (finished_work hollow x) i =
    map_option (\<lambda>e. weigh (max_weight (judged_work hollow x)) (row_after hollow x i e)) (pw_entries (placed_entries x) i)"
  by (simp add: finished_work_def Let_def judged_entries [OF assms] option.map_comp o_def)

lemma finished_ok: "work_ok (placed_entries x) \<Longrightarrow> work_ok (finished_work hollow x)"
  unfolding finished_work_def Let_def
  by (rule work_ok_on_all) (auto simp: work_ok_def dom_def judged_entries)

lemma evaluate_entries:
  "ps_Entries (evaluateAgendaProgress hollow x) =
     order_by by_order (listed_rows (\<lambda>i. i \<in> set (fixed_ids (pi_MC x))) (finished_work hollow x)) @
     listed_rows (\<lambda>i. i \<notin> set (fixed_ids (pi_MC x)) \<and> i \<in> set (dynamic_wanted x)) (finished_work hollow x)"
  by (simp add: evaluateAgendaProgress_def finished_work_def Let_def)

lemma listed_rows_iff:
  assumes "work_ok w"
  shows "e \<in> set (listed_rows P w) \<longleftrightarrow> P (pe_ID e) \<and> pw_entries w (pe_ID e) = Some e"
proof
  assume "e \<in> set (listed_rows P w)"
  then obtain i where "P i" "pw_entries w i = Some e" by (auto simp: listed_rows_def List.map_filter_def)
  then show "P (pe_ID e) \<and> pw_entries w (pe_ID e) = Some e" using work_ok_entry [OF assms] by blast
next
  assume e: "P (pe_ID e) \<and> pw_entries w (pe_ID e) = Some e"
  then have "pe_ID e \<in> set (pw_order w)" using assms by (auto simp: work_ok_listed)
  then show "e \<in> set (listed_rows P w)" using e by (force simp: listed_rows_def List.map_filter_def)
qed

lemma evaluate_entry_iff:
  assumes "work_ok (placed_entries x)"
  shows "e \<in> set (ps_Entries (evaluateAgendaProgress hollow x)) \<longleftrightarrow>
    pe_ID e \<in> set (fixed_ids (pi_MC x)) \<union> set (dynamic_wanted x) \<and> pw_entries (finished_work hollow x) (pe_ID e) = Some e"
  by (auto simp: evaluate_entries listed_rows_iff [OF finished_ok [OF assms]])

lemma map_filter_ids:
  assumes "work_ok w" and "set is \<subseteq> set (pw_order w)"
  shows "map pe_ID (List.map_filter (pw_entries w) is) = is"
  using assms(2)
proof (induction "is")
  case (Cons i "is")
  then obtain e where "pw_entries w i = Some e" using assms(1) by (auto simp: work_ok_listed)
  then show ?case using Cons work_ok_entry [OF assms(1)] by (simp add: List.map_filter_simps)
qed (simp add: List.map_filter_simps)

lemma listed_rows_ids: "work_ok w \<Longrightarrow> map pe_ID (listed_rows P w) = filter P (pw_order w)"
  by (simp add: listed_rows_def map_filter_ids)

lemma distinct_insert_by_ids:
  "distinct (map pe_ID (insert_by lt e es)) \<longleftrightarrow> pe_ID e \<notin> pe_ID ` set es \<and> distinct (map pe_ID es)"
  by (induction es) auto

lemma distinct_order_by_ids: "distinct (map pe_ID (order_by lt es)) \<longleftrightarrow> distinct (map pe_ID es)"
  using set_order_by [of lt] by (induction es) (simp_all add: order_by_def distinct_insert_by_ids)

lemma sorted_insert_by_order:
  "sorted (map pe_Order es) \<Longrightarrow> sorted (map pe_Order (insert_by by_order e es))"
  by (induction es) (auto simp: by_order_def)

lemma sorted_by_order: "sorted (map pe_Order (order_by by_order es))"
  by (induction es) (auto simp: order_by_def intro: sorted_insert_by_order)

lemma evaluate_distinct:
  assumes "work_ok (placed_entries x)"
  shows "distinct (map pe_ID (ps_Entries (evaluateAgendaProgress hollow x)))"
proof -
  let ?w = "finished_work hollow x"
  have ok: "work_ok ?w" by (rule finished_ok [OF assms])
  have ids: "map pe_ID (listed_rows P ?w) = filter P (pw_order ?w)" for P by (rule listed_rows_ids [OF ok])
  have d: "distinct (pw_order ?w)" using ok by (simp add: work_ok_def)
  have "pe_ID ` set (listed_rows P ?w) = set (filter P (pw_order ?w))" for P using ids [of P] by (metis set_map)
  then show ?thesis by (auto simp: evaluate_entries distinct_order_by_ids ids d)
qed

lemma evaluate_ids:
  assumes "distinct (map pe_ID (prev_entries x))"
  shows "pe_ID ` set (ps_Entries (evaluateAgendaProgress hollow x)) = set (fixed_ids (pi_MC x)) \<union> set (dynamic_wanted x)"
    (is "?L = ?R")
proof -
  note ok = placed_ok [OF assms]
  have "i \<in> ?L" if i: "i \<in> ?R" for i
  proof -
    obtain e where "pw_entries (placed_entries x) i = Some e" using placed_has [OF assms i] by blast
    then obtain r where r: "pw_entries (finished_work hollow x) i = Some r" using finished_entries [OF ok] by auto
    then have "pe_ID r = i" by (rule work_ok_entry [OF finished_ok [OF ok]])
    then have "r \<in> set (ps_Entries (evaluateAgendaProgress hollow x))" using r i by (simp add: evaluate_entry_iff [OF ok])
    then show ?thesis using \<open>pe_ID r = i\<close> by blast
  qed
  then show ?thesis using evaluate_entry_iff [OF ok] by blast
qed

section \<open>Weights\<close>

definition counts_ok :: "round_activity \<Rightarrow> bool" where
  "counts_ok a \<longleftrightarrow> (\<forall>i. 0 \<le> ra_segments a i \<and> 0 \<le> ra_items a i)"

lemma counts_ok_item: "counts_ok (snd st) \<Longrightarrow> counts_ok (snd (count_item x w it st))"
  by (cases st) (auto simp: count_item_def counts_ok_def Let_def)

lemma counts_ok_items: "counts_ok (snd st) \<Longrightarrow> counts_ok (snd (fold (count_item x w) its st))"
  by (induction its arbitrary: st) (simp_all add: counts_ok_item)

lemma counts_ok_segment: "counts_ok a \<Longrightarrow> counts_ok (count_segment x w n a)"
  by (auto simp: count_segment_def counts_ok_def Let_def)

lemma counts_ok_segments: "counts_ok a \<Longrightarrow> counts_ok (fold (count_segment x w) ns a)"
  by (induction ns arbitrary: a) (simp_all add: counts_ok_segment)

lemma counts_ok_round: "counts_ok (round_activity_of x w)"
  unfolding round_activity_of_def by (intro counts_ok_segments counts_ok_items) (simp add: counts_ok_def idle_round_def)

lemma note_activity_weight:
  assumes "counts_ok a" and "0 \<le> pe_WeightRaw e"
  shows "0 \<le> pe_WeightRaw (note_activity v a i e)"
proof -
  have "0 \<le> (of_int (ra_segments a i) :: rat)" "0 \<le> (of_int (min (ra_items a i) 2) :: rat)"
    using assms(1) by (simp_all add: counts_ok_def)
  then show ?thesis using assms(2) by (simp add: note_activity_def Let_def)
qed

lemma note_evidence_weight: "0 \<le> pe_WeightRaw e \<Longrightarrow> 0 \<le> pe_WeightRaw (note_evidence v i e)"
  by (auto simp: note_evidence_def Let_def)

lemma row_after_weight:
  assumes "0 \<le> pe_WeightRaw e"
  shows "0 \<le> pe_WeightRaw (row_after hollow x i e)"
proof -
  have "counts_ok (fst (active_work x))" by (simp add: active_work_def Let_def counts_ok_round)
  from note_activity_weight [OF this assms] show ?thesis
    unfolding row_after_def Let_def by (intro note_evidence_weight) simp
qed

lemma fold_max_weight_mono:
  "m \<le> fold (\<lambda>i m. case es i of None \<Rightarrow> m | Some e \<Rightarrow> max m (pe_WeightRaw e)) is (m :: rat)"
proof (induction "is" arbitrary: m)
  case (Cons i "is")
  show ?case using Cons [of "case es i of None \<Rightarrow> m | Some e \<Rightarrow> max m (pe_WeightRaw e)"]
    by (auto split: option.splits intro: order.trans)
qed simp

lemma fold_max_weight_bound:
  assumes "i \<in> set is" and "es i = Some e"
  shows "pe_WeightRaw e \<le> fold (\<lambda>i m. case es i of None \<Rightarrow> m | Some e \<Rightarrow> max m (pe_WeightRaw e)) is (m :: rat)"
  using assms(1)
proof (induction "is" arbitrary: m)
  case (Cons j "is")
  show ?case
  proof (cases "j = i")
    case True
    have "pe_WeightRaw e \<le> max m (pe_WeightRaw e)" by simp
    also have "\<dots> \<le> fold (\<lambda>i m. case es i of None \<Rightarrow> m | Some e \<Rightarrow> max m (pe_WeightRaw e)) is (max m (pe_WeightRaw e))"
      by (rule fold_max_weight_mono)
    finally show ?thesis using True assms(2) by simp
  next
    case False
    then show ?thesis using Cons by simp
  qed
qed simp

lemma max_weight_bound: "work_ok w \<Longrightarrow> pw_entries w i = Some e \<Longrightarrow> pe_WeightRaw e \<le> max_weight w"
  unfolding max_weight_def by (rule fold_max_weight_bound) (auto simp: work_ok_listed)

lemma weigh_share: "0 \<le> pe_WeightRaw e \<Longrightarrow> pe_WeightRaw e \<le> m \<Longrightarrow>
    0 \<le> pe_DiscussionWeight (weigh m e) \<and> pe_DiscussionWeight (weigh m e) \<le> 1"
  by (simp add: weigh_def)

section \<open>Rounds\<close>

definition progress_round ::
    "(progress_item \<Rightarrow> bool) \<Rightarrow> agendaProgressInputs \<Rightarrow> agendaProgressState option \<Rightarrow> agendaProgressState option" where
  "progress_round hollow x prev = Some (evaluateAgendaProgress hollow (x\<lparr>pi_Previous := prev\<rparr>))"

definition progress_after :: "(progress_item \<Rightarrow> bool) \<Rightarrow> agendaProgressInputs list \<Rightarrow> agendaProgressState option" where
  "progress_after hollow xs = fold (progress_round hollow) xs None"

definition rows_of :: "agendaProgressState option \<Rightarrow> agendaProgressEntry list" where
  "rows_of s = (case s of None \<Rightarrow> [] | Some s \<Rightarrow> ps_Entries s)"

definition wanted_ids :: "agendaProgressInputs \<Rightarrow> gostring set" where
  "wanted_ids x = set (fixed_ids (pi_MC x)) \<union> set (dynamic_wanted x)"

lemma prev_entries_round [simp]: "prev_entries (x\<lparr>pi_Previous := prev\<rparr>) = rows_of prev"
  by (simp add: prev_entries_def rows_of_def)

lemma wanted_round [simp]: "dynamic_wanted (x\<lparr>pi_Previous := prev\<rparr>) = dynamic_wanted x"
  by (simp add: dynamic_wanted_def)

definition rows_ok :: "agendaProgressEntry list \<Rightarrow> bool" where
  "rows_ok es \<longleftrightarrow> distinct (map pe_ID es) \<and> list_all (\<lambda>e. 0 \<le> pe_WeightRaw e) es"

lemma round_row:
  assumes ok: "rows_ok (prev_entries x)" and e: "e \<in> set (ps_Entries (evaluateAgendaProgress hollow x))"
  obtains p where "pw_entries (placed_entries x) (pe_ID e) = Some p" "0 \<le> pe_WeightRaw p"
    "e = weigh (max_weight (judged_work hollow x)) (row_after hollow x (pe_ID e) p)"
    "pe_WeightRaw e \<le> max_weight (judged_work hollow x)"
proof -
  have d: "distinct (map pe_ID (prev_entries x))" using ok by (simp add: rows_ok_def)
  note wok = placed_ok [OF d]
  have "pw_entries (finished_work hollow x) (pe_ID e) = Some e" using e by (simp add: evaluate_entry_iff [OF wok])
  then obtain p where p: "pw_entries (placed_entries x) (pe_ID e) = Some p"
    and row: "e = weigh (max_weight (judged_work hollow x)) (row_after hollow x (pe_ID e) p)"
    by (auto simp: finished_entries [OF wok])
  have "weights_ok (placed_entries x)"
    by (rule weights_ok_placed) (use ok in \<open>simp add: rows_ok_def list_all_iff\<close>)
  then have w: "0 \<le> pe_WeightRaw p" using p by (auto simp: weights_ok_def)
  have "work_ok (judged_work hollow x)"
    by (rule work_okI) (use wok in \<open>auto simp: judged_entries work_ok_def dom_def\<close>)
  moreover have "pw_entries (judged_work hollow x) (pe_ID e) = Some (row_after hollow x (pe_ID e) p)"
    using p by (simp add: judged_entries [OF wok])
  ultimately have "pe_WeightRaw (row_after hollow x (pe_ID e) p) \<le> max_weight (judged_work hollow x)"
    by (rule max_weight_bound)
  then have "pe_WeightRaw e \<le> max_weight (judged_work hollow x)" by (subst row) simp
  then show ?thesis using that p w row by blast
qed

lemma round_rows_ok:
  assumes "rows_ok (prev_entries x)"
  shows "rows_ok (ps_Entries (evaluateAgendaProgress hollow x))"
proof -
  have "distinct (map pe_ID (ps_Entries (evaluateAgendaProgress hollow x)))"
    using assms by (intro evaluate_distinct placed_ok) (simp add: rows_ok_def)
  moreover have "0 \<le> pe_WeightRaw e" if "e \<in> set (ps_Entries (evaluateAgendaProgress hollow x))" for e
    using round_row [OF assms that] row_after_weight weigh_keeps(4) by metis
  ultimately show ?thesis by (simp add: rows_ok_def list_all_iff)
qed

lemma progress_rows_ok: "rows_ok (rows_of prev) \<Longrightarrow> rows_ok (rows_of (fold (progress_round hollow) xs prev))"
proof (induction xs arbitrary: prev)
  case (Cons x xs)
  have "rows_ok (rows_of (progress_round hollow x prev))"
    using round_rows_ok [of "x\<lparr>pi_Previous := prev\<rparr>" hollow] Cons.prems by (simp add: progress_round_def rows_of_def [of "Some _"])
  then show ?case using Cons.IH by simp
qed simp

lemma rows_ok_after: "rows_ok (rows_of (progress_after hollow xs))"
  unfolding progress_after_def by (rule progress_rows_ok) (simp add: rows_of_def rows_ok_def)

text \<open>A row that is still wanted is still there, and has not gone back.\<close>

lemma round_keeps_row:
  assumes ok: "rows_ok (prev_entries x)" and e: "e \<in> set (prev_entries x)" and i: "pe_ID e \<in> wanted_ids x"
  shows "\<exists>e'\<in>set (ps_Entries (evaluateAgendaProgress hollow x)). pe_ID e' = pe_ID e \<and>
    progress_rank (pe_ComputedStatus e) \<le> progress_rank (pe_ComputedStatus e')"
proof -
  have d: "distinct (map pe_ID (prev_entries x))" using ok by (simp add: rows_ok_def)
  have "pe_ID e \<in> pe_ID ` set (ps_Entries (evaluateAgendaProgress hollow x))"
    using i by (simp add: evaluate_ids [OF d] wanted_ids_def)
  then obtain r where r: "r \<in> set (ps_Entries (evaluateAgendaProgress hollow x))" and id: "pe_ID r = pe_ID e" by auto
  obtain p where p: "pw_entries (placed_entries x) (pe_ID r) = Some p"
    and row: "r = weigh (max_weight (judged_work hollow x)) (row_after hollow x (pe_ID r) p)"
    using round_row [OF ok r] by metis
  have "pe_ComputedStatus p = pe_ComputedStatus e" using placed_keeps [OF d e] p id by auto
  moreover have "progress_rank (pe_ComputedStatus p) \<le> progress_rank (pe_ComputedStatus r)"
    by (subst row) (simp add: row_status_rank)
  ultimately show ?thesis using r id by auto
qed

section \<open>The current topic and the history of leads\<close>

text \<open>
  What the counters of the source stand for.  The history of a current topic is the list of those who led the
  rounds since it was last confirmed, empty for a round nobody led; the rival is the one who led last.
\<close>

definition rival :: "gostring list \<Rightarrow> gostring" where
  "rival h = (case rev (filter (\<lambda>l. l \<noteq> []) h) of [] \<Rightarrow> [] | l # _ \<Rightarrow> l)"

definition silent_rounds :: "gostring list \<Rightarrow> nat" where
  "silent_rounds h = length (filter (\<lambda>l. l = []) h)"

definition topic_by_history :: "gostring \<Rightarrow> gostring list \<Rightarrow> gostring \<Rightarrow> gostring \<Rightarrow> gostring" where
  "topic_by_history current h explicit leader =
     (if explicit \<noteq> [] then explicit
      else if current = [] then leader
      else if leader = [] then (if silent_rounds h < 2 then current else [])
      else if rival h = leader \<or> 2 \<le> silent_rounds h then leader
      else current)"

definition history_step :: "gostring \<Rightarrow> gostring \<Rightarrow> gostring \<times> gostring list \<Rightarrow> gostring \<times> gostring list" where
  "history_step explicit leader st =
     (case st of (current, h) \<Rightarrow>
        let topic = topic_by_history current h explicit leader in
        (topic, if explicit \<noteq> [] \<or> leader = current \<or> topic \<noteq> current then [] else h @ [leader]))"

definition current_of :: "agendaProgressState option \<Rightarrow> gostring" where
  "current_of s = (case s of None \<Rightarrow> [] | Some s \<Rightarrow> ps_ComputedCurrentTopicID s)"

definition history_round ::
    "(progress_item \<Rightarrow> bool) \<Rightarrow> agendaProgressInputs \<Rightarrow> agendaProgressState option \<times> gostring \<times> gostring list \<Rightarrow>
     agendaProgressState option \<times> gostring \<times> gostring list" where
  "history_round hollow x st =
     (case st of (s, h) \<Rightarrow>
        (progress_round hollow x s, history_step (explicit_leader x) (round_leader_of (x\<lparr>pi_Previous := s\<rparr>)) h))"

definition topic_history :: "(progress_item \<Rightarrow> bool) \<Rightarrow> agendaProgressInputs list \<Rightarrow> gostring \<times> gostring list" where
  "topic_history hollow xs = snd (fold (history_round hollow) xs (None, [], []))"

definition counters_match :: "agendaProgressState \<Rightarrow> gostring \<times> gostring list \<Rightarrow> bool" where
  "counters_match s st \<longleftrightarrow>
     (case st of (current, h) \<Rightarrow>
        ps_ComputedCurrentTopicID s = current \<and> ps_CandidateTopicID s = rival h \<and>
        ps_CandidateRounds s = (if rival h = [] then 0 else 1) \<and>
        ps_CurrentInactiveRounds s = int (silent_rounds h) \<and> silent_rounds h \<le> 2 \<and> (current = [] \<longrightarrow> h = []))"

lemma rival_simps [simp]: "rival [] = []" "rival (h @ [l]) = (if l = [] then rival h else l)"
  by (simp_all add: rival_def)

lemma silent_rounds_simps [simp]:
  "silent_rounds [] = 0" "silent_rounds (h @ [l]) = silent_rounds h + (if l = [] then 1 else 0)"
  by (simp_all add: silent_rounds_def)

lemma next_current_fields:
  "ps_ComputedCurrentTopicID (next_current v ex l s) = ps_ComputedCurrentTopicID (moved_current ex l s)"
  "ps_CandidateTopicID (next_current v ex l s) = ps_CandidateTopicID (moved_current ex l s)"
  "ps_CandidateRounds (next_current v ex l s) = ps_CandidateRounds (moved_current ex l s)"
  "ps_CurrentInactiveRounds (next_current v ex l s) = ps_CurrentInactiveRounds (moved_current ex l s)"
  by (simp_all add: next_current_def Let_def)

lemmas current_defs = moved_current_def settle_current_def challenged_def candidateSwitchRounds_def
  discussedInactiveRounds_def currentDematerializeRounds_def topic_by_history_def history_step_def

lemma counters_match_settled: "counters_match (settle_current c s) (c, [])"
  by (simp add: counters_match_def settle_current_def)

lemma next_current_matches:
  assumes "counters_match s (current, h)"
  shows "counters_match (next_current v explicit leader s) (history_step explicit leader (current, h))"
proof -
  consider (explicit) "explicit \<noteq> []" | (idle) "explicit = []" "current = []"
    | (kept) "explicit = []" "current \<noteq> []" "leader = current"
    | (led) "explicit = []" "current \<noteq> []" "leader \<noteq> current" "leader \<noteq> []"
    | (silent) "explicit = []" "current \<noteq> []" "leader = []" by blast
  then show ?thesis
    using assms by cases (auto simp: counters_match_def next_current_fields current_defs Let_def)
qed

lemma round_start_fields:
  "ps_ComputedCurrentTopicID (round_start x) = current_of (pi_Previous x)"
  "counters_match (round_start x) st \<longleftrightarrow> counters_match (case pi_Previous x of None \<Rightarrow> blank_progress | Some s \<Rightarrow> s) st"
  by (cases st; simp add: round_start_def current_of_def counters_match_def blank_progress_def split: option.splits)+

lemma evaluate_counters:
  "counters_match (evaluateAgendaProgress hollow x) st \<longleftrightarrow> counters_match (current_after x) st"
  by (cases st) (simp add: evaluateAgendaProgress_def Let_def counters_match_def)

lemma history_round_matches:
  assumes "counters_match (case s of None \<Rightarrow> blank_progress | Some s \<Rightarrow> s) h" and "history_round hollow x (s, h) = (s', h')"
  shows "counters_match (case s' of None \<Rightarrow> blank_progress | Some s \<Rightarrow> s) h'"
proof -
  let ?x = "x\<lparr>pi_Previous := s\<rparr>"
  have "counters_match (round_start ?x) h" using assms(1) by (simp add: round_start_fields)
  then have "counters_match (current_after ?x) (history_step (explicit_leader x) (round_leader_of ?x) h)"
    unfolding current_after_def by (cases h) (simp add: next_current_matches explicit_leader_def explicit_span_def)
  then show ?thesis using assms(2) by (auto simp: history_round_def progress_round_def evaluate_counters)
qed

lemma history_fold_matches:
  assumes "counters_match (case s of None \<Rightarrow> blank_progress | Some s \<Rightarrow> s) h"
  shows "counters_match (case fst (fold (history_round hollow) xs (s, h)) of None \<Rightarrow> blank_progress | Some s \<Rightarrow> s)
    (snd (fold (history_round hollow) xs (s, h)))"
  using assms
proof (induction xs arbitrary: s h)
  case (Cons x xs)
  obtain s' h' where st: "history_round hollow x (s, h) = (s', h')" by (cases "history_round hollow x (s, h)")
  show ?case using Cons.IH [OF history_round_matches [OF Cons.prems st]] st by simp
qed simp

lemma history_fold_state_eq: "fst (fold (history_round hollow) xs (s, h)) = fold (progress_round hollow) xs s"
  by (induction xs arbitrary: s h) (simp_all add: history_round_def)

section \<open>A small meeting\<close>

text \<open>A meeting without an agenda, and one round in which two items made a candidate topic.\<close>

definition demo_item :: "gostring \<Rightarrow> int \<Rightarrow> progress_item" where
  "demo_item i n = \<lparr>it_ID = i, it_Kind = ''fact'', it_Title = ''Costs'', it_Body = [], it_Status = [], it_Inactive = False,
     it_MergedIntoID = [], it_ClassificationStatus = [], it_EvidenceSequenceNos = [n], it_RelatedAgendaIDs = [],
     it_CandidateTopicID = ''candidate-1'', it_AssignmentConfidence = 1, it_AssignmentReason = []\<rparr>"

definition demo_round :: agendaProgressInputs where
  "demo_round = \<lparr>pi_Previous = None, pi_MC = None, pi_Tree = None, pi_Items = [demo_item ''i1'' 1, demo_item ''i2'' 2],
     pi_Anchors = [],
     pi_Emerging = [\<lparr>et_ID = ''candidate-1'', et_Label = ''Costs'', et_EvidenceItemIDs = [''i1'', ''i2''], et_RoundCount = 1,
       et_Inactive = False\<rparr>],
     pi_Spans = [], pi_Roles = (\<lambda>_. ''primary''), pi_RoundSeqNos = [1, 2],
     pi_DiffItems = [demo_item ''i1'' 1, demo_item ''i2'' 2], pi_TreeVersion = 1, pi_Reconciliations = []\<rparr>"

lemma demo_rows: "map (\<lambda>e. (pe_ID e, pe_ComputedStatus e)) (rows_of (progress_after (\<lambda>_. False) [demo_round])) =
    [(''candidate-1'', ''discussing'')]"
  by code_simp

lemma demo_wanted: "''candidate-1'' \<in> wanted_ids demo_round"
  by code_simp

section \<open>The properties\<close>

lemma progress_after_snoc:
  "progress_after hollow (xs @ [x]) = Some (evaluateAgendaProgress hollow (x\<lparr>pi_Previous := progress_after hollow xs\<rparr>))"
  by (simp add: progress_after_def progress_round_def)

lemma progress_after_append: "progress_after hollow (xs @ ys) = fold (progress_round hollow) ys (progress_after hollow xs)"
  by (simp add: progress_after_def)

lemma rounds_keep_row:
  assumes "rows_ok (rows_of prev)" and "e \<in> set (rows_of prev)" and "\<forall>y\<in>set ys. pe_ID e \<in> wanted_ids y"
  shows "\<exists>e'\<in>set (rows_of (fold (progress_round hollow) ys prev)). pe_ID e' = pe_ID e \<and>
    progress_rank (pe_ComputedStatus e) \<le> progress_rank (pe_ComputedStatus e')"
  using assms
proof (induction ys arbitrary: prev e)
  case (Cons y ys)
  let ?y = "y\<lparr>pi_Previous := prev\<rparr>"
  have "pe_ID e \<in> wanted_ids ?y" using Cons.prems(3) by (simp add: wanted_ids_def)
  then obtain e1 where e1: "e1 \<in> set (ps_Entries (evaluateAgendaProgress hollow ?y))" "pe_ID e1 = pe_ID e"
      "progress_rank (pe_ComputedStatus e) \<le> progress_rank (pe_ComputedStatus e1)"
    using round_keeps_row [of ?y e hollow] Cons.prems(1,2) by auto
  have rows: "rows_of (progress_round hollow y prev) = ps_Entries (evaluateAgendaProgress hollow ?y)"
    by (simp add: progress_round_def rows_of_def)
  have "rows_ok (rows_of (progress_round hollow y prev))"
    using progress_rows_ok [of prev hollow "[y]"] Cons.prems(1) by simp
  moreover have "\<forall>z\<in>set ys. pe_ID e1 \<in> wanted_ids z" using Cons.prems(3) e1(2) by simp
  ultimately obtain e2 where "e2 \<in> set (rows_of (fold (progress_round hollow) ys (progress_round hollow y prev)))"
      "pe_ID e2 = pe_ID e1" "progress_rank (pe_ComputedStatus e1) \<le> progress_rank (pe_ComputedStatus e2)"
    using Cons.IH e1(1) rows by metis
  then show ?case using e1 by (auto intro: order.trans)
qed auto

lemma history_state: "fold (history_round hollow) xs (None, [], []) = (progress_after hollow xs, topic_history hollow xs)"
  using history_fold_state_eq [of hollow xs None "([], [])"] by (simp add: prod_eq_iff topic_history_def progress_after_def)

lemma current_is_history: "current_of (progress_after hollow xs) = fst (topic_history hollow xs)"
proof -
  have "counters_match (case None of None \<Rightarrow> blank_progress | Some s \<Rightarrow> s) ([], [])"
    by (simp add: counters_match_def blank_progress_def)
  from history_fold_matches [OF this, of hollow xs] show ?thesis
    by (cases "topic_history hollow xs"; cases "progress_after hollow xs")
      (auto simp: history_state counters_match_def current_of_def blank_progress_def)
qed

lemma topic_history_snoc:
  "topic_history hollow (xs @ [x]) = history_step (explicit_leader x)
     (round_leader_of (x\<lparr>pi_Previous := progress_after hollow xs\<rparr>)) (topic_history hollow xs)"
proof -
  have "topic_history hollow (xs @ [x]) = snd (history_round hollow x (fold (history_round hollow) xs (None, [], [])))"
    by (simp add: topic_history_def)
  then show ?thesis by (simp add: history_state history_round_def)
qed

text \<open>After any rounds the projection has exactly one row for every agenda record that is not the
  action summary, then one for every further topic that has a backing (a topic of the tree, or a candidate
  old or broad enough); the agenda comes in its order, and every weight is a share between nothing and one.\<close>

theorem agenda_progress_lists_every_topic:
  "\<exists>s F D. progress_after hollow (xs @ [x]) = Some s \<and> ps_Entries s = F @ D \<and> distinct (map pe_ID (F @ D)) \<and>
     set (map pe_ID F) = set (fixed_ids (pi_MC x)) \<and> sorted (map pe_Order F) \<and>
     set (map pe_ID D) = set (dynamic_wanted x) - set (fixed_ids (pi_MC x)) \<and>
     list_all (\<lambda>e. 0 \<le> pe_DiscussionWeight e \<and> pe_DiscussionWeight e \<le> 1) (F @ D)"
proof -
  let ?x = "x\<lparr>pi_Previous := progress_after hollow xs\<rparr>"
  let ?s = "evaluateAgendaProgress hollow ?x"
  define F where "F = order_by by_order (listed_rows (\<lambda>i. i \<in> set (fixed_ids (pi_MC x))) (finished_work hollow ?x))"
  define D where "D = listed_rows (\<lambda>i. i \<notin> set (fixed_ids (pi_MC x)) \<and> i \<in> set (dynamic_wanted x)) (finished_work hollow ?x)"
  have rows: "rows_ok (prev_entries ?x)" by (simp add: rows_ok_after)
  then have d: "distinct (map pe_ID (prev_entries ?x))" by (simp add: rows_ok_def)
  have split: "ps_Entries ?s = F @ D" by (simp add: evaluate_entries F_def D_def)
  have ids: "set (map pe_ID F) \<union> set (map pe_ID D) = set (fixed_ids (pi_MC x)) \<union> set (dynamic_wanted x)"
    using evaluate_ids [OF d, of hollow] split by (simp add: image_Un)
  have inF: "set (map pe_ID F) \<subseteq> set (fixed_ids (pi_MC x))"
    and inD: "set (map pe_ID D) \<subseteq> set (dynamic_wanted x) - set (fixed_ids (pi_MC x))"
    by (auto simp: F_def D_def listed_rows_iff [OF finished_ok [OF placed_ok [OF d]]])
  have "distinct (map pe_ID (F @ D))" using evaluate_distinct [OF placed_ok [OF d], of hollow] split by simp
  moreover have "set (map pe_ID F) = set (fixed_ids (pi_MC x))"
    and "set (map pe_ID D) = set (dynamic_wanted x) - set (fixed_ids (pi_MC x))"
    using ids inF inD by blast+
  moreover have "sorted (map pe_Order F)" by (simp add: F_def sorted_by_order)
  moreover have "0 \<le> pe_DiscussionWeight e \<and> pe_DiscussionWeight e \<le> 1" if "e \<in> set (F @ D)" for e
    using round_row [OF rows, of e hollow] that split weigh_share row_after_weight weigh_keeps(4) by metis
  ultimately show ?thesis using split unfolding progress_after_snoc list_all_iff by blast
qed

text \<open>What has been discussed stays discussed: in any further rounds in which an entry is still wanted
  (its agenda record or its topic is still there) the entry keeps its row, and its status does not go back.\<close>

theorem discussed_topics_stay_discussed:
  assumes "e \<in> set (rows_of (progress_after hollow xs))" and "\<forall>y\<in>set ys. pe_ID e \<in> wanted_ids y"
  shows "\<exists>e'. e' \<in> set (rows_of (progress_after hollow (xs @ ys))) \<and> pe_ID e' = pe_ID e \<and>
    progress_rank (pe_ComputedStatus e) \<le> progress_rank (pe_ComputedStatus e')"
  using rounds_keep_row [OF rows_ok_after assms, of hollow] by (auto simp: progress_after_append)

text \<open>C37: The three counters of the current topic stand for its history, the leaders of the rounds since it was
  last confirmed.  After any rounds, each fed with the result of the one before, the current topic is this: the
  topic of an explicit transition in the round, if there is one; the leader of the round, if there was no current
  topic; without a leader, the topic before, or none if two rounds of the history had no leader either; with
  another leader, that one if it was the last to lead in the history or if two rounds of the history had no
  leader, and the topic before otherwise.  The silent rounds and the leads need not be consecutive.\<close>

theorem current_topic_follows_its_history:
  "current_of (progress_after hollow (xs @ [x])) =
     topic_by_history (current_of (progress_after hollow xs)) (snd (topic_history hollow xs)) (explicit_leader x)
       (round_leader_of (x\<lparr>pi_Previous := progress_after hollow xs\<rparr>))"
proof -
  obtain h where h: "topic_history hollow xs = (current_of (progress_after hollow xs), h)"
    using current_is_history [of hollow xs] by (cases "topic_history hollow xs") simp
  show ?thesis unfolding current_is_history [of hollow "xs @ [x]"] topic_history_snoc h
    by (simp add: history_step_def Let_def)
qed

theorem discussed_topics_stay_discussed_witness:
  "\<exists>e'. e' \<in> set (rows_of (progress_after (\<lambda>_. False) ([demo_round] @ [demo_round, demo_round]))) \<and>
    pe_ID e' = ''candidate-1'' \<and> 1 \<le> progress_rank (pe_ComputedStatus e')"
proof -
  obtain e where e: "e \<in> set (rows_of (progress_after (\<lambda>_. False) [demo_round]))"
      "pe_ID e = ''candidate-1''" "pe_ComputedStatus e = ''discussing''"
    using demo_rows by (auto simp: map_eq_Cons_conv)
  have "\<forall>y\<in>set [demo_round, demo_round]. pe_ID e \<in> wanted_ids y" using demo_wanted e(2) by simp
  from discussed_topics_stay_discussed [OF e(1) this] show ?thesis
    using e(2,3) by (auto simp: progress_rank_def progress_status_defs)
qed

section \<open>What the rounds do not promise\<close>

text \<open>A candidate that goes inactive takes its row with it, and may still be the current topic.\<close>

lemma current_topic_can_lose_its_row:
  "map_option (\<lambda>s. (ps_ComputedCurrentTopicID s, ps_Entries s)) (progress_after (\<lambda>_. False)
     [demo_round, demo_round\<lparr>pi_Emerging := [], pi_RoundSeqNos := [], pi_DiffItems := []\<rparr>]) = Some (''candidate-1'', [])"
  by code_simp

text \<open>A silent round between two leads of a rival does not make it wait longer.\<close>

lemma leads_need_not_be_consecutive:
  "topic_by_history ''a'' [''b'', []] [] ''b'' = ''b''" "topic_by_history ''a'' [[], ''b'', []] [] [] = []"
  by code_simp+

text \<open>\<open>uniqueSortedSequenceNos\<close> keeps the order and the repetitions of what it is given.\<close>

lemma unique_sequences_repeat: "uniqueSortedSequenceNos ([5, 7] @ [5, 8]) = [5, 7, 5, 8]"
  by code_simp

end
