(* ===== verification/AgendaFinalClaims.thy ===== *)
theory AgendaFinalClaims
  imports AgendaFinal AgendaProgressClaims
begin

text \<open>
  What the end of a meeting makes of its agenda progress: nothing is current any more, every agenda record
  has a row, and a row counts as discussed exactly when active items or the transcript support it.
\<close>

section \<open>Rows of distinct ids\<close>

lemma update_rows_map: "distinct (map pe_ID es) \<Longrightarrow> update_rows f es = map f es"
  by (induction es) auto

lemma last_rows_distinct: "distinct (map pe_ID es) \<Longrightarrow> last_rows es = es"
  by (induction es) auto

lemma has_row_iff: "has_row i es \<longleftrightarrow> i \<in> pe_ID ` set es"
  by (auto simp: has_row_def list_ex_iff)

lemma map_ids_same: "(\<And>e. pe_ID (f e) = pe_ID e) \<Longrightarrow> map pe_ID (map f es) = map pe_ID es"
  by simp

lemma refresh_refs_id [simp]: "pe_ID (refresh_refs t e) = pe_ID e"
  by (simp add: refresh_refs_def Let_def split: list.splits)

lemma final_place_distinct:
  assumes "distinct (map pe_ID es)"
  shows "distinct (map pe_ID (final_place a es))"
    and "set (map pe_ID (final_place a es)) = insert (ag_ID a) (set (map pe_ID es))"
proof -
  have ids: "map pe_ID (update_rows (\<lambda>e. if pe_ID e = ag_ID a then refresh_fixed a e else e) es) = map pe_ID es"
    unfolding update_rows_map [OF assms] by (rule map_ids_same) simp
  show "distinct (map pe_ID (final_place a es))"
    using assms ids by (auto simp: final_place_def has_row_iff)
  show "set (map pe_ID (final_place a es)) = insert (ag_ID a) (set (map pe_ID es))"
    using ids by (auto simp: final_place_def has_row_iff simp del: map_map set_map)  (auto simp: has_row_iff)
qed

lemma fold_final_place:
  assumes "distinct (map pe_ID es)"
  shows "distinct (map pe_ID (fold final_place as es)) \<and>
    set (map pe_ID (fold final_place as es)) = ag_ID ` set as \<union> set (map pe_ID es)"
  using assms
proof (induction as arbitrary: es)
  case (Cons a as)
  show ?case using Cons.IH [OF final_place_distinct(1) [OF Cons.prems]] final_place_distinct(2) [OF Cons.prems, of a]
    by auto
qed simp

lemma reset_progress_simps [simp]:
  "pe_ID (reset_progress e) = pe_ID e" "pe_SourceType (reset_progress e) = pe_SourceType e"
  "pe_ActiveItemCount (reset_progress e) = pe_ActiveItemCount e"
  "pe_ComputedStatus (reset_progress e) = agendaProgressNotStarted" "pe_DiscussionWeight (reset_progress e) = 0"
  by (simp_all add: reset_progress_def)

lemma final_support_simps [simp]:
  "pe_ID (final_support v tx active e) = pe_ID e" "pe_SourceType (final_support v tx active e) = pe_SourceType e"
  "pe_ActiveItemCount (final_support v tx active e) = pe_ActiveItemCount e"
  "pe_DiscussionWeight (final_support v tx active e) = pe_DiscussionWeight e"
  "pe_ComputedStatus (final_support v tx active e) =
     (if active \<noteq> [] \<or> (pe_SourceType e = agendaProgressSourceFixed \<and> 2 \<le> length (tx (pe_ID e)))
      then agendaProgressDiscussed else pe_ComputedStatus e)"
  by (auto simp: final_support_def)

lemma final_volume_simps [simp]:
  "pe_ID (final_volume version e) = pe_ID e" "pe_SourceType (final_volume version e) = pe_SourceType e"
  "pe_ActiveItemCount (final_volume version e) = pe_ActiveItemCount e"
  "pe_DiscussionWeight (final_volume version e) = pe_DiscussionWeight e"
  "pe_ComputedStatus (final_volume version e) = pe_ComputedStatus e"
  by (simp_all add: final_volume_def Let_def)

lemma final_row_keeps [simp]:
  "pe_ID (final_row v t items fixed tx version e) = pe_ID e"
  "pe_SourceType (final_row v t items fixed tx version e) = pe_SourceType e"
  by (simp_all add: final_row_def Let_def)

lemma final_weight_value:
  "pe_DiscussionWeight (final_weight m e) =
     (if pe_ComputedStatus e = agendaProgressDiscussed \<and> 0 < m then pe_WeightRaw e / m else pe_DiscussionWeight e)"
  by (simp add: final_weight_def)

lemma final_weight_keeps [simp]:
  "pe_ID (final_weight m e) = pe_ID e" "pe_ComputedStatus (final_weight m e) = pe_ComputedStatus e"
  "pe_SourceType (final_weight m e) = pe_SourceType e" "pe_ActiveItemCount (final_weight m e) = pe_ActiveItemCount e"
  by (simp_all add: final_weight_def)

lemma outcome_of_keeps [simp]:
  "pe_ID (outcome_of fixed rel e) = pe_ID e" "pe_ComputedStatus (outcome_of fixed rel e) = pe_ComputedStatus e"
  "pe_SourceType (outcome_of fixed rel e) = pe_SourceType e" "pe_ActiveItemCount (outcome_of fixed rel e) = pe_ActiveItemCount e"
  "pe_DiscussionWeight (outcome_of fixed rel e) = pe_DiscussionWeight e"
  by (simp_all add: outcome_of_def)

section \<open>A row at the end\<close>

definition supported :: "(gostring \<Rightarrow> (int \<times> rat) list) \<Rightarrow> agendaProgressEntry \<Rightarrow> bool" where
  "supported tx e \<longleftrightarrow> 0 < pe_ActiveItemCount e \<or>
     (pe_SourceType e = agendaProgressSourceFixed \<and> 2 \<le> length (tx (pe_ID e)))"

lemma final_row_status:
  "pe_ComputedStatus (final_row v t items fixed tx version e) =
     (if supported tx (final_row v t items fixed tx version e) then agendaProgressDiscussed else agendaProgressNotStarted)"
  by (simp add: supported_def final_row_def Let_def)

lemma final_volume_weight:
  assumes "0 \<le> pe_ActiveItemCount d" and "pe_ComputedStatus d = agendaProgressDiscussed"
  shows "0 < pe_WeightRaw (final_volume version d)"
proof -
  have "0 \<le> (of_int (int (length (pe_EvidenceSequenceNos d))) + of_int (min (pe_ActiveItemCount d) 2) / 2 :: rat)"
    using assms(1) by simp
  then show ?thesis using assms(2) by (auto simp: final_volume_def Let_def)
qed

lemma final_row_shape:
  obtains d where "final_row v t items fixed tx version e = final_volume version d" "0 \<le> pe_ActiveItemCount d"
    "pe_DiscussionWeight d = 0"
  by (rule that [of "final_support v tx (final_active v t items fixed e) (reset_progress (e\<lparr>
        pe_ActiveItemIDs := sort (map it_ID (final_active v t items fixed e)),
        pe_ActiveItemCount := int (length (final_active v t items fixed e)),
        pe_InactiveItemIDs := _, pe_InactiveItemCount := _,
        pe_RelatedItemCounts := kind_counts (final_active v t items fixed e)\<rparr>))"])
    (unfold final_row_def Let_def, rule refl, simp_all)

lemma final_row_weight:
  "pe_DiscussionWeight (final_row v t items fixed tx version e) = 0"
  "pe_ComputedStatus (final_row v t items fixed tx version e) = agendaProgressDiscussed \<Longrightarrow>
     0 < pe_WeightRaw (final_row v t items fixed tx version e)"
proof -
  obtain d where d: "final_row v t items fixed tx version e = final_volume version d" "0 \<le> pe_ActiveItemCount d"
    "pe_DiscussionWeight d = 0" by (rule final_row_shape)
  show "pe_DiscussionWeight (final_row v t items fixed tx version e) = 0"
    unfolding d(1) using d(3) by simp
  show "0 < pe_WeightRaw (final_row v t items fixed tx version e)"
    if "pe_ComputedStatus (final_row v t items fixed tx version e) = agendaProgressDiscussed"
    using that final_volume_weight [OF d(2)] unfolding d(1) by simp
qed

section \<open>The whole projection\<close>

definition top_weight :: "agendaProgressEntry list \<Rightarrow> rat" where
  "top_weight rows = fold (\<lambda>e m. if pe_ComputedStatus e = agendaProgressDiscussed then max m (pe_WeightRaw e) else m) rows 0"

lemma fold_top_mono:
  "m \<le> fold (\<lambda>e m. if pe_ComputedStatus e = agendaProgressDiscussed then max m (pe_WeightRaw e) else m) rows (m :: rat)"
proof (induction rows arbitrary: m)
  case (Cons e rows)
  show ?case using Cons [of "max m (pe_WeightRaw e)"] Cons [of m] by (auto intro: order.trans)
qed simp

lemma top_weight_bound:
  assumes "e \<in> set rows" and "pe_ComputedStatus e = agendaProgressDiscussed"
  shows "pe_WeightRaw e \<le> top_weight rows"
proof -
  have "pe_WeightRaw e \<le>
      fold (\<lambda>e m. if pe_ComputedStatus e = agendaProgressDiscussed then max m (pe_WeightRaw e) else m) rows m" for m
    using assms(1)
  proof (induction rows arbitrary: m)
    case (Cons d rows)
    show ?case
    proof (cases "d = e")
      case True
      have "pe_WeightRaw e \<le> max m (pe_WeightRaw e)" by simp
      also note fold_top_mono [of "max m (pe_WeightRaw e)" rows]
      finally show ?thesis using True assms(2) by simp
    qed (use Cons in simp)
  qed simp
  then show ?thesis by (simp add: top_weight_def)
qed

text \<open>The rows before they are judged, and what a row is judged to be.\<close>

definition final_rows ::
    "meetingContext option \<Rightarrow> agendaAnchor list \<Rightarrow> liveAnalysisTree option \<Rightarrow> agendaProgressState \<Rightarrow> agendaProgressEntry list" where
  "final_rows c anchors t s =
     final_links (map ag_ID (final_agenda c)) anchors
       (fold final_place (final_agenda c) (map (refresh_refs t) (ps_Entries s)))"

lemma final_rows_distinct:
  assumes "distinct (map pe_ID (ps_Entries s))"
  shows "distinct (map pe_ID (final_rows c anchors t s)) \<and>
    set (map pe_ID (final_rows c anchors t s)) = ag_ID ` set (final_agenda c) \<union> set (map pe_ID (ps_Entries s))"
proof -
  have r: "map pe_ID (map (refresh_refs t) (ps_Entries s)) = map pe_ID (ps_Entries s)" by simp
  then have d: "distinct (map pe_ID (map (refresh_refs t) (ps_Entries s)))" using assms by (simp only: r)
  let ?es = "fold final_place (final_agenda c) (map (refresh_refs t) (ps_Entries s))"
  have es: "distinct (map pe_ID ?es) \<and> set (map pe_ID ?es) = ag_ID ` set (final_agenda c) \<union> set (map pe_ID (ps_Entries s))"
    using fold_final_place [OF d, of "final_agenda c"] unfolding r .
  have "map pe_ID (final_rows c anchors t s) = map pe_ID ?es"
    unfolding final_rows_def final_links_def update_rows_map [OF conjunct1 [OF es]] by (rule map_ids_same) simp
  then show ?thesis using es by simp
qed

lemma recompute_rows:
  assumes "distinct (map pe_ID (ps_Entries s0))"
    and fixed_def: "fixed = map ag_ID (final_agenda c)"
    and rows_def: "rows = map (final_row v t items fixed (scan_transcript v c segs) version) (final_rows c anchors t s0)"
  shows "ps_Entries (recomputeFinalAgendaProgressEvidence v c anchors t items segs version s0) =
    order_by final_before (map (\<lambda>e. outcome_of fixed (final_active v t items fixed (final_weight (top_weight rows) e))
      (final_weight (top_weight rows) e)) rows)"
proof -
  have d: "distinct (map pe_ID (final_rows c anchors t s0))" using final_rows_distinct [OF assms(1)] by blast
  have rd: "distinct (map pe_ID rows)" using d by (simp add: rows_def o_def)
  have wd: "distinct (map pe_ID (map (final_weight m) rows))" for m using rd by (simp add: o_def)
  have start: "final_links fixed anchors (fold final_place (final_agenda c)
      (ps_Entries (refreshAgendaProgressNodeRefs t (clear_current s0)))) = final_rows c anchors t s0"
    by (simp add: final_rows_def fixed_def refreshAgendaProgressNodeRefs_def clear_current_def settle_current_def)
  show ?thesis
    unfolding recomputeFinalAgendaProgressEvidence_def Let_def fixed_def [symmetric] start
      update_rows_map [OF d] rows_def [symmetric] last_rows_distinct [OF rd] top_weight_def [symmetric]
      update_rows_map [OF rd] update_rows_map [OF wd]
    by (simp add: o_def)
qed

definition settled_row :: "(gostring \<Rightarrow> (int \<times> rat) list) \<Rightarrow> agendaProgressEntry \<Rightarrow> bool" where
  "settled_row tx e \<longleftrightarrow>
     pe_ComputedStatus e = (if supported tx e then agendaProgressDiscussed else agendaProgressNotStarted) \<and>
     (0 < pe_DiscussionWeight e \<longleftrightarrow> supported tx e) \<and> 0 \<le> pe_DiscussionWeight e \<and> pe_DiscussionWeight e \<le> 1"

lemma final_row_settled:
  assumes "r \<in> set (map (final_row v t items fixed tx version) es)"
    and "rows = map (final_row v t items fixed tx version) es"
  shows "settled_row tx (outcome_of fixed rel (final_weight (top_weight rows) r))"
proof -
  obtain e where r: "r = final_row v t items fixed tx version e" using assms(1) by auto
  have status: "pe_ComputedStatus r = (if supported tx r then agendaProgressDiscussed else agendaProgressNotStarted)"
    unfolding r by (rule final_row_status)
  have sup: "supported tx (outcome_of fixed rel (final_weight m r)) \<longleftrightarrow> supported tx r" for m
    by (simp add: supported_def)
  show ?thesis
  proof (cases "supported tx r")
    case True
    then have d: "pe_ComputedStatus r = agendaProgressDiscussed" using status by simp
    then have "0 < pe_WeightRaw r" unfolding r by (rule final_row_weight(2))
    moreover have "pe_WeightRaw r \<le> top_weight rows" using assms d by (intro top_weight_bound) simp_all
    ultimately show ?thesis using True d sup by (simp add: settled_row_def final_weight_value)
  next
    case False
    then have "pe_ComputedStatus r \<noteq> agendaProgressDiscussed" using status by (simp add: progress_status_defs)
    then show ?thesis using False status sup final_row_weight(1) [of v t items fixed tx version e]
      by (simp add: settled_row_def final_weight_value r)
  qed
qed

text \<open>A row names the active items that belong to it as it stands in the result.\<close>

definition names_active :: "final_view \<Rightarrow> liveAnalysisTree option \<Rightarrow> progress_item list \<Rightarrow> gostring list \<Rightarrow> agendaProgressEntry \<Rightarrow> bool" where
  "names_active v t items fixed e \<longleftrightarrow> pe_ActiveItemIDs e = sort (map it_ID (final_active v t items fixed e)) \<and>
     pe_ActiveItemCount e = int (length (pe_ActiveItemIDs e))"

lemma final_active_same:
  assumes "pe_ID d = pe_ID e" "pe_CandidateID d = pe_CandidateID e" "pe_MaterializedTopicIDs d = pe_MaterializedTopicIDs e"
  shows "final_active v t items fixed d = final_active v t items fixed e"
  by (simp add: final_active_def related_of_def related_item_def assms)

lemma final_row_links:
  "pe_CandidateID (final_row v t items fixed tx version e) = pe_CandidateID e"
  "pe_MaterializedTopicIDs (final_row v t items fixed tx version e) = pe_MaterializedTopicIDs e"
  "pe_ActiveItemIDs (final_row v t items fixed tx version e) = sort (map it_ID (final_active v t items fixed e))"
  "pe_ActiveItemCount (final_row v t items fixed tx version e) = int (length (final_active v t items fixed e))"
  by (simp_all add: final_row_def final_volume_def final_support_def reset_progress_def Let_def)

lemma final_row_names_active:
  "names_active v t items fixed (outcome_of fixed rel (final_weight m (final_row v t items fixed tx version e)))"
proof -
  let ?r = "outcome_of fixed rel (final_weight m (final_row v t items fixed tx version e))"
  have "final_active v t items fixed ?r = final_active v t items fixed e"
    by (rule final_active_same) (simp_all add: outcome_of_def final_weight_def final_row_links)
  moreover have "pe_ActiveItemIDs ?r = pe_ActiveItemIDs (final_row v t items fixed tx version e)"
    "pe_ActiveItemCount ?r = pe_ActiveItemCount (final_row v t items fixed tx version e)"
    by (simp_all add: outcome_of_def final_weight_def)
  ultimately show ?thesis by (simp add: names_active_def final_row_links)
qed

lemma recompute_settles:
  assumes "distinct (map pe_ID (ps_Entries s0))"
  shows "distinct (map pe_ID (ps_Entries (recomputeFinalAgendaProgressEvidence v c anchors t items segs version s0)))"
    and "set (map ag_ID (final_agenda c)) \<subseteq>
      set (map pe_ID (ps_Entries (recomputeFinalAgendaProgressEvidence v c anchors t items segs version s0)))"
    and "e \<in> set (ps_Entries (recomputeFinalAgendaProgressEvidence v c anchors t items segs version s0)) \<Longrightarrow>
      settled_row (scan_transcript v c segs) e \<and> names_active v t items (map ag_ID (final_agenda c)) e"
proof -
  note rows = recompute_rows [where c = c and v = v and t = t and items = items and segs = segs and
      version = version and anchors = anchors, OF assms refl refl]
  note final = final_rows_distinct [OF assms, of c anchors t]
  let ?r = "ps_Entries (recomputeFinalAgendaProgressEvidence v c anchors t items segs version s0)"
  show "distinct (map pe_ID ?r)" unfolding rows distinct_order_by_ids using final by (simp add: o_def)
  show "set (map ag_ID (final_agenda c)) \<subseteq> set (map pe_ID ?r)"
    unfolding rows using final by (auto simp: image_image)
  show "settled_row (scan_transcript v c segs) e \<and> names_active v t items (map ag_ID (final_agenda c)) e"
    if e: "e \<in> set ?r"
  proof -
    obtain r where "r \<in> set (map (final_row v t items (map ag_ID (final_agenda c)) (scan_transcript v c segs) version)
        (final_rows c anchors t s0))"
      and "e = outcome_of (map ag_ID (final_agenda c)) (final_active v t items (map ag_ID (final_agenda c))
        (final_weight (top_weight (map (final_row v t items (map ag_ID (final_agenda c)) (scan_transcript v c segs) version)
          (final_rows c anchors t s0))) r))
        (final_weight (top_weight (map (final_row v t items (map ag_ID (final_agenda c)) (scan_transcript v c segs) version)
          (final_rows c anchors t s0))) r)"
      using e unfolding rows by (auto simp del: map_map)
    then show ?thesis using final_row_settled [OF _ refl] final_row_names_active by (auto simp del: map_map)
  qed
qed

text \<open>C38: The end of a meeting settles its agenda progress, whatever the rounds before (one at least) and
  whatever is found in the transcript: nothing is current or about to be, ids are not repeated, every agenda record
  but the action summary has its row, and each row names the active items that belong to it.  A row is
  discussed exactly when it has an active item or, for a row of the agenda, two statements of the transcript,
  and not started otherwise; it has a share of the discussion, one at most, just when it is discussed.\<close>

theorem finalized_progress_is_settled:
  "\<exists>s. finalizeAgendaProgress v c version (Some segs) anchors t items (progress_after hollow (xs @ [x])) = Some s \<and>
     ps_ComputedCurrentTopicID s = [] \<and> ps_CandidateTopicID s = [] \<and> ps_CandidateRounds s = 0 \<and>
     ps_CurrentInactiveRounds s = 0 \<and> distinct (map pe_ID (ps_Entries s)) \<and>
     set (map ag_ID (final_agenda c)) \<subseteq> set (map pe_ID (ps_Entries s)) \<and>
     list_all (settled_row (scan_transcript v c segs)) (ps_Entries s) \<and>
     list_all (names_active v t items (map ag_ID (final_agenda c))) (ps_Entries s)"
proof -
  obtain p where p: "progress_after hollow (xs @ [x]) = Some p" by (simp add: progress_after_snoc)
  let ?s0 = "refreshAgendaProgressNodeRefs t (clear_current p)"
  have "distinct (map pe_ID (ps_Entries p))"
    using rows_ok_after [of hollow "xs @ [x]"] by (simp add: p rows_of_def rows_ok_def)
  then have d: "distinct (map pe_ID (ps_Entries ?s0))"
    by (simp add: refreshAgendaProgressNodeRefs_def clear_current_def settle_current_def o_def)
  have "finalizeAgendaProgress v c version (Some segs) anchors t items (Some p) =
      Some (recomputeFinalAgendaProgressEvidence v c anchors t items segs version ?s0)"
    by (simp add: finalizeAgendaProgress_def Let_def)
  moreover have "ps_ComputedCurrentTopicID (recomputeFinalAgendaProgressEvidence v c anchors t items segs version ?s0) = []"
    "ps_CandidateTopicID (recomputeFinalAgendaProgressEvidence v c anchors t items segs version ?s0) = []"
    "ps_CandidateRounds (recomputeFinalAgendaProgressEvidence v c anchors t items segs version ?s0) = 0"
    "ps_CurrentInactiveRounds (recomputeFinalAgendaProgressEvidence v c anchors t items segs version ?s0) = 0"
    by (simp_all add: recomputeFinalAgendaProgressEvidence_def Let_def refreshAgendaProgressNodeRefs_def clear_current_def
        settle_current_def)
  ultimately show ?thesis using recompute_settles [OF d] by (auto simp: p list_all_iff)
qed

end
