(* ===== verification/ProgressOverridesClaims.thy ===== *)
theory ProgressOverridesClaims
  imports ProgressOverrides AgendaFinalClaims
begin

text \<open>
  What manual corrections of the agenda progress keep: both tables fulfil the contract \<open>override_table\<close>; an
  update changes one override and shows it; calls that follow each other leave the cache with what the table
  holds.  Calls that overlap do not, and may lose an update.
\<close>

section \<open>The contract of the tables\<close>

locale override_table =
  fixes rp :: "('p, 'r) override_repo"
    and rows :: "'r \<Rightarrow> gostring \<Rightarrow> 'p option"
    and stored :: "'p \<Rightarrow> 'p option"
  assumes get_found: "ovr_Get rp i r = (Inr p, r') \<Longrightarrow> rows r i = Some p"
    and get_missing: "ovr_Get rp i r = (Inl e, r') \<Longrightarrow> is_not_found e \<Longrightarrow> rows r i = None"
    and get_keeps: "ovr_Get rp i r = (x, r') \<Longrightarrow> rows r' = rows r"
    and upsert_done: "ovr_Upsert rp i p t r = (None, r') \<Longrightarrow> \<exists>text. stored p = Some text \<and> rows r' = (rows r)(i \<mapsto> text)"
    and upsert_failed: "ovr_Upsert rp i p t r = (Some e, r') \<Longrightarrow> rows r' = rows r"

definition reads_as :: "'p override_codec \<Rightarrow> 'p option \<Rightarrow> AgendaProgressOverrides option \<Rightarrow> bool" where
  "reads_as cd p ov \<longleftrightarrow> (case p of None \<Rightarrow> ov = None | Some t \<Rightarrow> ov \<noteq> None \<and> oc_decode cd t = ov)"

definition keeps_text :: "('p \<Rightarrow> 'p option) \<Rightarrow> 'p override_codec \<Rightarrow> AgendaProgressOverrides \<Rightarrow> bool" where
  "keeps_text stored cd ov \<longleftrightarrow> (\<forall>t. stored (oc_encode cd ov) = Some t \<longrightarrow> oc_decode cd t = Some ov)"

definition cache_agrees ::
    "('r \<Rightarrow> gostring \<Rightarrow> 'p option) \<Rightarrow> 'p override_codec \<Rightarrow> 'r override_desk \<Rightarrow> bool" where
  "cache_agrees rows cd d \<longleftrightarrow> (\<forall>i ov. od_cache d i = Some ov \<longrightarrow> reads_as cd (rows (od_repo d) i) ov)"

lemma cache_overrides_simps [simp]:
  "od_repo (cache_overrides i ov d) = od_repo d"
  "od_cache (cache_overrides i ov d) j = (if j = i then Some ov else od_cache d j)"
  by (simp_all add: cache_overrides_def)

lemma cache_agrees_same: "rows (od_repo d') = rows (od_repo d) \<Longrightarrow> od_cache d' = od_cache d \<Longrightarrow>
    cache_agrees rows cd d' \<longleftrightarrow> cache_agrees rows cd d"
  by (simp add: cache_agrees_def)

lemma cache_agrees_fill:
  "cache_agrees rows cd d \<Longrightarrow> reads_as cd (rows (od_repo d) i) ov \<Longrightarrow> cache_agrees rows cd (cache_overrides i ov d)"
  by (auto simp: cache_agrees_def)

lemma cache_agrees_forget: "cache_agrees rows cd d \<Longrightarrow> cache_agrees rows cd (forget_session i d)"
  by (auto simp: cache_agrees_def forget_session_def split: if_splits)

context override_table
begin

lemma fetch_reads:
  "fetchAgendaProgressOverrides cd rp i r = (Inr ov, r') \<Longrightarrow> reads_as cd (rows r i) ov"
proof -
  assume f: "fetchAgendaProgressOverrides cd rp i r = (Inr ov, r')"
  obtain g r1 where g: "ovr_Get rp i r = (g, r1)" by fastforce
  show ?thesis
  proof (cases g)
    case (Inl e)
    then have "is_not_found e \<and> ov = None" using f g by (auto simp: fetchAgendaProgressOverrides_def split: if_splits)
    then show ?thesis using get_missing g Inl by (auto simp: reads_as_def)
  next
    case (Inr p)
    then have "(case oc_decode cd p of None \<Rightarrow> Inl ErrDatabase | Some o' \<Rightarrow> Inr (Some o')) = (Inr ov :: _ result)"
      using f g by (auto simp: fetchAgendaProgressOverrides_def)
    then have "oc_decode cd p = ov \<and> ov \<noteq> None" by (cases "oc_decode cd p"; cases ov) simp_all
    then show ?thesis using get_found g Inr by (auto simp: reads_as_def)
  qed
qed

lemma fetch_keeps: "fetchAgendaProgressOverrides cd rp i r = (x, r') \<Longrightarrow> rows r' = rows r"
  by (auto simp: fetchAgendaProgressOverrides_def split: prod.splits sum.splits dest: get_keeps)

lemma deliver_keeps:
  "sessionAgendaProgressOverrides cd (Some rp) i d = (ov, d') \<Longrightarrow> rows (od_repo d') = rows (od_repo d)"
  by (auto simp: sessionAgendaProgressOverrides_def split: if_splits option.splits prod.splits sum.splits dest: fetch_keeps)

lemma deliver_agrees:
  assumes "sessionAgendaProgressOverrides cd (Some rp) i d = (ov, d')" and "cache_agrees rows cd d"
  shows "cache_agrees rows cd d'"
proof -
  consider "d' = d"
    | r e where "fetchAgendaProgressOverrides cd rp i (od_repo d) = (Inl e, r)" "d' = d\<lparr>od_repo := r\<rparr>"
    | r where "fetchAgendaProgressOverrides cd rp i (od_repo d) = (Inr ov, r)" "d' = cache_overrides i ov (d\<lparr>od_repo := r\<rparr>)"
  proof (cases "trim_space i = [] \<or> od_cache d i \<noteq> None")
    case True
    then have "d' = d" using assms(1) by (auto simp: sessionAgendaProgressOverrides_def split: if_splits)
    then show thesis by (rule that(1))
  next
    case False
    obtain x r where f: "fetchAgendaProgressOverrides cd rp i (od_repo d) = (x, r)" by fastforce
    show thesis
      using assms(1) False f that(2,3) by (cases x) (auto simp: sessionAgendaProgressOverrides_def)
  qed
  then show ?thesis
  proof cases
    case 2
    then show ?thesis using assms(2) fetch_keeps [OF 2(1)] by (simp add: cache_agrees_def)
  next
    case 3
    have "cache_agrees rows cd (d\<lparr>od_repo := r\<rparr>)" using assms(2) fetch_keeps [OF 3(1)] by (simp add: cache_agrees_def)
    then show ?thesis unfolding 3(2)
      by (rule cache_agrees_fill) (use fetch_reads [OF 3(1)] fetch_keeps [OF 3(1)] in simp)
  qed (use assms(2) in simp)
qed

lemma publish_keeps:
  "publish_live js cd (Some rp) n a d = (sent, d') \<Longrightarrow> rows (od_repo d') = rows (od_repo d)"
  by (auto simp: publish_live_def Let_def split: if_splits option.splits prod.splits dest: deliver_keeps)

lemma publish_agrees:
  "publish_live js cd (Some rp) n a d = (sent, d') \<Longrightarrow> cache_agrees rows cd d \<Longrightarrow> cache_agrees rows cd d'"
  by (auto simp: publish_live_def Let_def split: if_splits option.splits prod.splits dest: deliver_agrees)

lemma prepare_keeps:
  "prepare_override cd rp i input vw d = (x, d') \<Longrightarrow> rows (od_repo d') = rows (od_repo d) \<and> od_cache d' = od_cache d"
  by (auto simp: prepare_override_def split: option.splits sum.splits prod.splits if_splits dest: fetch_keeps)

lemma prepare_changes:
  assumes "prepare_override cd rp i input vw d = (Inr ov, d')"
  shows "\<exists>old. reads_as cd (rows (od_repo d) i) old \<and>
    ov = changed_overrides input (case old of None \<Rightarrow> no_overrides | Some o' \<Rightarrow> o') \<and> input_fault input = None"
  using assms
  by (fastforce simp: prepare_override_def split: option.splits sum.splits prod.splits if_splits dest: fetch_reads)

lemma store_done:
  "store_override cd rp i now ov d = (None, d') \<Longrightarrow> od_cache d' = od_cache d \<and>
    (\<exists>t. stored (oc_encode cd ov) = Some t \<and> rows (od_repo d') = (rows (od_repo d))(i \<mapsto> t))"
  by (auto simp: store_override_def split: prod.splits dest: upsert_done)

lemma store_failed:
  "store_override cd rp i now ov d = (Some e, d') \<Longrightarrow> od_cache d' = od_cache d \<and> rows (od_repo d') = rows (od_repo d)"
  by (auto simp: store_override_def split: prod.splits dest: upsert_failed)

text \<open>What a successful update has done, and that a failed one has done nothing.\<close>

lemma update_done:
  assumes "UpdateAgendaProgressOverride env cd (Some rp) sid input vw d = (Inr s, pub, d')"
    and keeps: "\<And>old. keeps_text stored cd (changed_overrides input old)"
  shows "\<exists>old ov t. reads_as cd (rows (od_repo d) (trim_space sid)) old \<and>
    ov = changed_overrides input (case old of None \<Rightarrow> no_overrides | Some o' \<Rightarrow> o') \<and>
    oc_decode cd t = Some ov \<and> rows (od_repo d') = (rows (od_repo d))(trim_space sid \<mapsto> t) \<and>
    s = applyAgendaProgressOverrides (override_projection vw) (Some ov) \<and> input_fault input = None"
proof -
  let ?i = "trim_space sid"
  have "?i \<noteq> []" using assms(1) by (auto simp: UpdateAgendaProgressOverride_def Let_def)
  obtain p d1 where p: "prepare_override cd rp ?i input vw d = (p, d1)" by fastforce
  obtain ov where ov: "p = Inr ov"
    using assms(1) p \<open>?i \<noteq> []\<close> by (cases p) (auto simp: UpdateAgendaProgressOverride_def Let_def)
  obtain e d2 where st: "store_override cd rp ?i (vw_now vw) ov d1 = (e, d2)" by fastforce
  have e: "e = None"
    using assms(1) p ov st \<open>?i \<noteq> []\<close> by (cases e) (auto simp: UpdateAgendaProgressOverride_def Let_def)
  let ?d3 = "cache_overrides ?i (Some ov) d2"
  have s: "s = applyAgendaProgressOverrides (override_projection vw) (Some ov)"
    and d': "d' = ?d3 \<or> (\<exists>a. publish_live (oe_json env) cd (Some rp) (oe_interval env) a ?d3 = (the pub, d'))"
    using assms(1) p ov st e \<open>?i \<noteq> []\<close>
    by (auto simp: UpdateAgendaProgressOverride_def Let_def split: option.splits prod.splits)
  obtain t where t: "stored (oc_encode cd ov) = Some t" "rows (od_repo d2) = (rows (od_repo d1))(?i \<mapsto> t)"
    using store_done [OF st [unfolded e]] by blast
  obtain old where old: "reads_as cd (rows (od_repo d) ?i) old"
      "ov = changed_overrides input (case old of None \<Rightarrow> no_overrides | Some o' \<Rightarrow> o')" "input_fault input = None"
    using prepare_changes [OF p [unfolded ov]] by blast
  have "oc_decode cd t = Some ov" using keeps t(1) old(2) by (auto simp: keeps_text_def)
  moreover have "rows (od_repo d') = rows (od_repo d2)" using d' publish_keeps by fastforce
  ultimately show ?thesis using t(2) old s prepare_keeps [OF p] by auto
qed

lemma update_failed:
  assumes "UpdateAgendaProgressOverride env cd (Some rp) sid input vw d = (Inl e, pub, d')"
  shows "rows (od_repo d') = rows (od_repo d) \<and> od_cache d' = od_cache d \<and> pub = None"
proof (cases "trim_space sid = []")
  case False
  obtain p d1 where p: "prepare_override cd rp (trim_space sid) input vw d = (p, d1)" by fastforce
  show ?thesis
  proof (cases p)
    case (Inl f)
    then show ?thesis using assms p False prepare_keeps [OF p] by (auto simp: UpdateAgendaProgressOverride_def Let_def)
  next
    case (Inr ov)
    obtain f d2 where st: "store_override cd rp (trim_space sid) (vw_now vw) ov d1 = (f, d2)" by fastforce
    then obtain g where "f = Some g" "d' = d2" "pub = None" using assms p Inr False
      by (cases f) (auto simp: UpdateAgendaProgressOverride_def Let_def split: option.splits prod.splits)
    then show ?thesis using store_failed st prepare_keeps [OF p] by auto
  qed
qed (use assms in \<open>auto simp: UpdateAgendaProgressOverride_def Let_def\<close>)

lemma update_agrees:
  assumes u: "UpdateAgendaProgressOverride env cd (Some rp) sid input vw d = (x, pub, d')"
    and keeps: "\<And>old. keeps_text stored cd (changed_overrides input old)" and ok: "cache_agrees rows cd d"
  shows "cache_agrees rows cd d'"
proof (cases x)
  case (Inl e)
  then show ?thesis using update_failed [OF u [unfolded Inl]] ok cache_agrees_same by metis
next
  case (Inr s)
  let ?i = "trim_space sid"
  have "?i \<noteq> []" using u Inr by (auto simp: UpdateAgendaProgressOverride_def Let_def)
  obtain p d1 where p: "prepare_override cd rp ?i input vw d = (p, d1)" by fastforce
  obtain ov where ov: "p = Inr ov"
    using u Inr p \<open>?i \<noteq> []\<close> by (cases p) (auto simp: UpdateAgendaProgressOverride_def Let_def)
  obtain e d2 where st: "store_override cd rp ?i (vw_now vw) ov d1 = (e, d2)" by fastforce
  have e: "e = None"
    using u Inr p ov st \<open>?i \<noteq> []\<close> by (cases e) (auto simp: UpdateAgendaProgressOverride_def Let_def)
  let ?d3 = "cache_overrides ?i (Some ov) d2"
  have d': "d' = ?d3 \<or> (\<exists>a. publish_live (oe_json env) cd (Some rp) (oe_interval env) a ?d3 = (the pub, d'))"
    using u Inr p ov st e \<open>?i \<noteq> []\<close>
    by (auto simp: UpdateAgendaProgressOverride_def Let_def split: option.splits prod.splits)
  obtain t where t: "stored (oc_encode cd ov) = Some t" "rows (od_repo d2) = (rows (od_repo d1))(?i \<mapsto> t)"
      "od_cache d2 = od_cache d1"
    using store_done [OF st [unfolded e]] by blast
  obtain old where "ov = changed_overrides input old" using prepare_changes [OF p [unfolded ov]] by blast
  then have "oc_decode cd t = Some ov" using keeps t(1) by (auto simp: keeps_text_def)
  then have "cache_agrees rows cd ?d3"
    using ok prepare_keeps [OF p] t by (auto simp: cache_agrees_def reads_as_def)
  then show ?thesis using d' publish_agrees by blast
qed

end

section \<open>Both tables fulfil it\<close>

definition pg_override_rows :: "'p pg_overrides \<Rightarrow> gostring \<Rightarrow> 'p option" where
  "pg_override_rows db i = map_option orw_payload (find (\<lambda>r. orw_session r = i) (po_rows db))"

lemma statement_fails_rows: "statement_fails db = (f, db') \<Longrightarrow> pg_override_rows db' = pg_override_rows db"
  by (auto simp: statement_fails_def pg_override_rows_def fun_eq_iff split: list.splits)

lemma find_upsert_row:
  "map_option orw_payload (find (\<lambda>r. orw_session r = j) (upsert_row i p t rows)) =
     (if j = i then Some p else map_option orw_payload (find (\<lambda>r. orw_session r = j) rows))"
proof -
  have upd: "map_option orw_payload (find (\<lambda>r. orw_session r = j)
      (update_where (\<lambda>r. orw_session r = i) (\<lambda>r. r\<lparr>orw_payload := p, orw_updatedAt := t\<rparr>) rows)) =
      (if j = i \<and> list_ex (\<lambda>r. orw_session r = i) rows then Some p
       else map_option orw_payload (find (\<lambda>r. orw_session r = j) rows))" for rows :: "'a override_row list"
    by (induction rows) (auto simp: update_where_def)
  show ?thesis
  proof (cases "list_ex (\<lambda>r. orw_session r = i) rows")
    case True
    then show ?thesis by (simp add: upsert_row_def upd)
  next
    case False
    then have "find (\<lambda>r. orw_session r = i) rows = None" by (auto simp: find_None_iff list_ex_iff)
    then show ?thesis using False by (auto simp: upsert_row_def find_key_append split: option.splits)
  qed
qed

lemma memory_repo_simps:
  "ovr_Get (memory_repo valid now) i m = mem_GetAgendaProgressOverrides i m"
  "ovr_Upsert (memory_repo valid now) = mem_UpsertAgendaProgressOverrides valid now"
  by (simp_all add: memory_repo_def)

interpretation mem: override_table "memory_repo valid now" "\<lambda>m i. map_option so_payload (m i)" Some
proof (unfold_locales, goal_cases)
  case (4 i p t r r')
  then have "r' = r(i \<mapsto> \<lparr>so_payload = p, so_updatedAt = (if is_zero t then now else t)\<rparr>)"
    by (simp add: memory_repo_simps mem_UpsertAgendaProgressOverrides_def split: if_split_asm)
  then show ?case by (auto simp: fun_eq_iff)
qed (auto simp: memory_repo_simps mem_GetAgendaProgressOverrides_def mem_UpsertAgendaProgressOverrides_def
    split: option.splits if_splits)

lemma postgres_repo_simps:
  "ovr_Get (postgres_repo valid stored now) i db = pg_GetAgendaProgressOverrides i db"
  "ovr_Upsert (postgres_repo valid stored now) = pg_UpsertAgendaProgressOverrides valid stored now"
  by (simp_all add: postgres_repo_def)

lemma pg_get_cases:
  assumes "pg_GetAgendaProgressOverrides i db = (x, db')"
  shows "pg_override_rows db' = pg_override_rows db \<and>
    (x = Inl ErrDatabase \<or> x = (case pg_override_rows db i of None \<Rightarrow> Inl overrides_not_found | Some p \<Rightarrow> Inr p))"
proof -
  obtain f d where f: "statement_fails db = (f, d)" by fastforce
  have same: "pg_override_rows d = pg_override_rows db" by (rule statement_fails_rows [OF f])
  then have "pg_override_rows db i = map_option orw_payload (find (\<lambda>r. orw_session r = i) (po_rows d))"
    by (metis pg_override_rows_def)
  then show ?thesis using assms f same
    by (cases f; cases "find (\<lambda>r. orw_session r = i) (po_rows d)") (auto simp: pg_GetAgendaProgressOverrides_def)
qed

lemma pg_upsert_cases:
  assumes "pg_UpsertAgendaProgressOverrides valid stored now i p t db = (e, db')"
  shows "(e = Some ErrDatabase \<and> pg_override_rows db' = pg_override_rows db) \<or>
    (e = None \<and> (\<exists>text. stored p = Some text \<and> pg_override_rows db' = (pg_override_rows db)(i \<mapsto> text)))"
proof -
  obtain f d where f: "statement_fails db = (f, d)" by fastforce
  have same: "pg_override_rows d = pg_override_rows db" by (rule statement_fails_rows [OF f])
  have rows: "pg_override_rows (d\<lparr>po_rows := upsert_row i tx u (po_rows d)\<rparr>) = (pg_override_rows d)(i \<mapsto> tx)" for tx u
    by (rule ext) (simp add: pg_override_rows_def find_upsert_row)
  show ?thesis using assms f same rows
    by (cases "valid p"; cases f; cases "stored p") (auto simp: pg_UpsertAgendaProgressOverrides_def)
qed

interpretation pg: override_table "postgres_repo valid stored now" pg_override_rows stored
proof (unfold_locales, goal_cases)
  case (1 i r p r')
  then show ?case using pg_get_cases [of i r "Inr p" r'] by (auto simp: postgres_repo_simps split: option.splits)
next
  case (2 i r e r')
  then show ?case using pg_get_cases [of i r "Inl e" r'] by (auto simp: postgres_repo_simps split: option.splits)
next
  case (3 i r x r')
  then show ?case using pg_get_cases [of i r x r'] by (simp add: postgres_repo_simps)
next
  case (4 i p t r r')
  then show ?case using pg_upsert_cases [of valid stored now i p t r None r'] by (simp add: postgres_repo_simps)
next
  case (5 i p t r e r')
  then show ?case using pg_upsert_cases [of valid stored now i p t r "Some e" r'] by (simp add: postgres_repo_simps)
qed

section \<open>What is shown\<close>

definition shown_status :: "AgendaProgressOverrides option \<Rightarrow> agendaProgressEntry \<Rightarrow> gostring" where
  "shown_status ov e = (if manual_status ov (pe_ID e) \<noteq> [] then manual_status ov (pe_ID e) else pe_ComputedStatus e)"


lemma stamp_entry_simps [simp]:
  "pe_ID (stamp_entry ov e) = pe_ID e" "pe_ComputedStatus (stamp_entry ov e) = pe_ComputedStatus e"
  "pe_EffectiveStatus (stamp_entry ov e) = shown_status ov e"
  by (simp_all add: stamp_entry_def shown_status_def Let_def)

lemma shown_status_stamp [simp]: "shown_status ov (stamp_entry ov' e) = shown_status ov e"
  by (simp add: shown_status_def)

text \<open>Stamping touches the manual and effective fields only, so the last stamp is what counts.\<close>

lemma stamp_entry_again: "stamp_entry ov (stamp_entry ov' e) = stamp_entry ov e"
  by (simp add: stamp_entry_def Let_def)

lemma has_row_stamped: "has_row i (map (stamp_entry ov) es) = has_row i es"
  by (simp add: has_row_def list_ex_iff)

lemma stamping_is_a_projection:
  "applyAgendaProgressOverrides (applyAgendaProgressOverrides s ov') ov = applyAgendaProgressOverrides s ov"
  by (simp add: applyAgendaProgressOverrides_def Let_def stamp_entry_again manual_current_def has_row_stamped o_def
      split: option.splits)


section \<open>Calls one after the other\<close>

datatype override_call =
    UpdateCall gostring AgendaProgressOverrideInput override_view
  | DeliverCall gostring
  | ForgetCall gostring

fun run_call :: "override_env \<Rightarrow> 'p override_codec \<Rightarrow> ('p, 'r) override_repo \<Rightarrow> override_call \<Rightarrow> 'r override_desk \<Rightarrow> 'r override_desk" where
  "run_call env cd rp (UpdateCall sid input vw) d = snd (snd (UpdateAgendaProgressOverride env cd (Some rp) sid input vw d))"
| "run_call env cd rp (DeliverCall sid) d = snd (sessionAgendaProgressOverrides cd (Some rp) sid d)"
| "run_call env cd rp (ForgetCall sid) d = forget_session sid d"

context override_table
begin

lemma run_call_agrees:
  assumes "\<And>ov. keeps_text stored cd ov" and "cache_agrees rows cd d"
  shows "cache_agrees rows cd (run_call env cd rp c d)"
proof (cases c)
  case (UpdateCall sid input vw)
  obtain x pub d' where "UpdateAgendaProgressOverride env cd (Some rp) sid input vw d = (x, pub, d')"
    by (cases "UpdateAgendaProgressOverride env cd (Some rp) sid input vw d") auto
  from update_agrees [OF this assms(1,2)] this show ?thesis by (simp add: UpdateCall)
next
  case (DeliverCall sid)
  obtain ov d' where "sessionAgendaProgressOverrides cd (Some rp) sid d = (ov, d')" by fastforce
  from deliver_agrees [OF this assms(2)] this show ?thesis by (simp add: DeliverCall)
next
  case (ForgetCall sid)
  then show ?thesis using assms(2) by (simp add: cache_agrees_forget)
qed

lemma run_calls_agree:
  assumes "\<And>ov. keeps_text stored cd ov" and "cache_agrees rows cd d"
  shows "cache_agrees rows cd (fold (run_call env cd rp) cs d)"
  using assms(2) by (induction cs arbitrary: d) (simp_all add: run_call_agrees [OF assms(1)])

end

section \<open>A small meeting\<close>

definition demo_codec :: "AgendaProgressOverrides override_codec" where
  "demo_codec = \<lparr>oc_encode = (\<lambda>ov. ov), oc_decode = Some\<rparr>"

definition demo_env :: override_env where
  "demo_env = \<lparr>oe_json = \<lparr>pj_envelope = (\<lambda>_. None), pj_progress = (\<lambda>_. None), pj_state = (\<lambda>_. []), pj_object = (\<lambda>_. [])\<rparr>,
     oe_interval = 10, oe_sanitize = (\<lambda>a c. Some a)\<rparr>"

definition demo_live :: live_view where
  "demo_live = \<lparr>lv_row = \<lparr>aa_SessionID = ''s1'', aa_Type = AnalysisLive, aa_Status = AnalysisCompleted, aa_Version = 1,
       aa_Payload = ''p'', aa_Model = [], aa_SegmentCount = 0, aa_InputChars = 0, aa_LastError = [], aa_CreatedAt = 0,
       aa_UpdatedAt = 0, aa_IntervalSeconds = 0, aa_RequestedAnalysisVersion = 0, aa_TargetFromSequenceNo = 0,
       aa_TargetThroughSequenceNo = 0, aa_StartedAt = 0\<rparr>,
     lv_progress = Some (blank_progress\<lparr>ps_Entries := [dynamic_entry 1 ''a'', dynamic_entry 1 ''b'']\<rparr>), lv_anchors = []\<rparr>"

definition demo_view :: override_view where
  "demo_view = \<lparr>vw_context = None, vw_live = Inr (Some demo_live), vw_now = 7\<rparr>"

definition mark_discussed :: "gostring \<Rightarrow> AgendaProgressOverrideInput" where
  "mark_discussed i = \<lparr>ao_EntryID = i, ao_ManualStatus = Some ''discussed'', ao_ManualCurrentSet = False, ao_ManualCurrentID = []\<rparr>"

definition demo_desk :: "AgendaProgressOverrides pg_overrides override_desk" where
  "demo_desk = \<lparr>od_repo = \<lparr>po_rows = [], po_faults = []\<rparr>, od_cache = Map.empty\<rparr>"

definition demo_repo :: "(AgendaProgressOverrides, AgendaProgressOverrides pg_overrides) override_repo" where
  "demo_repo = postgres_repo (\<lambda>_. True) Some 1"

lemma demo_keeps: "keeps_text Some demo_codec ov"
  by (simp add: keeps_text_def demo_codec_def)


lemma demo_cached: "od_cache (fold (run_call demo_env demo_codec demo_repo)
    [UpdateCall ''s1'' (mark_discussed ''a'') demo_view, DeliverCall ''s1'', UpdateCall ''s1'' (mark_discussed ''b'') demo_view]
    demo_desk) ''s1'' \<noteq> None"
  by code_simp

section \<open>The properties\<close>



text \<open>The cache of manual overrides is faithful as long as calls do not overlap: after any sequence of updates
  (failed ones included), deliveries and forgotten sessions, over a database that may fail at any statement,
  a session whose overrides are cached has in the cache what its row in the table holds.\<close>

theorem override_cache_is_faithful:
  assumes "\<And>ov. keeps_text stored cd ov" and "od_cache d = Map.empty"
    and "od_cache (fold (run_call env cd (postgres_repo valid stored now)) cs d) sid = Some ov"
  shows "reads_as cd (pg_override_rows (od_repo (fold (run_call env cd (postgres_repo valid stored now)) cs d)) sid) ov"
proof -
  have "cache_agrees pg_override_rows cd d" using assms(2) by (simp add: cache_agrees_def)
  from pg.run_calls_agree [OF assms(1) this, of env valid now cs] assms(3) show ?thesis by (auto simp: cache_agrees_def)
qed

theorem override_cache_is_faithful_witness:
  "\<exists>ov. od_cache (fold (run_call demo_env demo_codec demo_repo)
       [UpdateCall ''s1'' (mark_discussed ''a'') demo_view, DeliverCall ''s1'', UpdateCall ''s1'' (mark_discussed ''b'') demo_view]
       demo_desk) ''s1'' = Some ov \<and>
     pg_override_rows (od_repo (fold (run_call demo_env demo_codec demo_repo)
       [UpdateCall ''s1'' (mark_discussed ''a'') demo_view, DeliverCall ''s1'', UpdateCall ''s1'' (mark_discussed ''b'') demo_view]
       demo_desk)) ''s1'' = ov"
proof -
  obtain ov where ov: "od_cache (fold (run_call demo_env demo_codec demo_repo)
      [UpdateCall ''s1'' (mark_discussed ''a'') demo_view, DeliverCall ''s1'', UpdateCall ''s1'' (mark_discussed ''b'') demo_view]
      demo_desk) ''s1'' = Some ov" using demo_cached by blast
  have "od_cache demo_desk = Map.empty" by (simp add: demo_desk_def)
  from override_cache_is_faithful [OF demo_keeps this ov [unfolded demo_repo_def]] ov show ?thesis
    by (auto simp: reads_as_def demo_codec_def demo_repo_def split: option.splits)
qed

section \<open>Calls that overlap\<close>

text \<open>
  A delivery that read the table before an update fills the cache after it: from then on every delivery shows
  the state without the correction, until the next update or until the session is forgotten.
\<close>

definition first_correction :: AgendaProgressOverrides where
  "first_correction = changed_overrides (mark_discussed ''a'') no_overrides"

definition second_correction :: AgendaProgressOverrides where
  "second_correction = changed_overrides (mark_discussed ''b'') no_overrides"

definition desk_with :: "AgendaProgressOverrides option \<Rightarrow> AgendaProgressOverrides option option \<Rightarrow>
    AgendaProgressOverrides memory_overrides override_desk" where
  "desk_with row cached =
     \<lparr>od_repo = (case row of None \<Rightarrow> Map.empty | Some ov \<Rightarrow> [''s1'' \<mapsto> \<lparr>so_payload = ov, so_updatedAt = 7\<rparr>]),
      od_cache = (case cached of None \<Rightarrow> Map.empty | Some c \<Rightarrow> [''s1'' \<mapsto> c])\<rparr>"

abbreviation demo_steps :: "AgendaProgressOverrides memory_overrides override_desk \<Rightarrow> override_task list \<Rightarrow>
    AgendaProgressOverrides memory_overrides override_desk \<Rightarrow> override_task list \<Rightarrow> bool" where
  "demo_steps d ts d' ts' \<equiv> override_steps demo_codec (memory_repo (\<lambda>_. True) 1) ''s1''
     \<lparr>os_desk = d, os_tasks = ts\<rparr> \<lparr>os_desk = d', os_tasks = ts'\<rparr>"

lemma demo_prepare:
  "prepare_override demo_codec (memory_repo (\<lambda>_. True) 1) ''s1'' (mark_discussed ''a'') demo_view (desk_with None c) =
     (Inr first_correction, desk_with None c)"
  "prepare_override demo_codec (memory_repo (\<lambda>_. True) 1) ''s1'' (mark_discussed ''b'') demo_view (desk_with None c) =
     (Inr second_correction, desk_with None c)"
proof -
  have t: "trim_space ''a'' = ''a''" "trim_space ''b'' = ''b''" by code_simp+
  have v: "isValidAgendaProgressStatus ''discussed''" by (simp add: isValidAgendaProgressStatus_def progress_status_defs)
  show "prepare_override demo_codec (memory_repo (\<lambda>_. True) 1) ''s1'' (mark_discussed ''a'') demo_view (desk_with None c) =
     (Inr first_correction, desk_with None c)"
    by (simp add: prepare_override_def mark_discussed_def input_fault_def override_target_def t v demo_view_def demo_live_def
        live_progress_def agendaProgressValidEntryIDs_def agenda_of_def fetchAgendaProgressOverrides_def memory_repo_simps
        mem_GetAgendaProgressOverrides_def desk_with_def overrides_not_found_def first_correction_def)
  show "prepare_override demo_codec (memory_repo (\<lambda>_. True) 1) ''s1'' (mark_discussed ''b'') demo_view (desk_with None c) =
     (Inr second_correction, desk_with None c)"
    by (simp add: prepare_override_def mark_discussed_def input_fault_def override_target_def t v demo_view_def demo_live_def
        live_progress_def agendaProgressValidEntryIDs_def agenda_of_def fetchAgendaProgressOverrides_def memory_repo_simps
        mem_GetAgendaProgressOverrides_def desk_with_def overrides_not_found_def second_correction_def)
qed

lemma demo_store:
  "store_override demo_codec (memory_repo (\<lambda>_. True) 1) ''s1'' 7 ov (desk_with row c) = (None, desk_with (Some ov) c)"
  by (auto simp: store_override_def memory_repo_simps mem_UpsertAgendaProgressOverrides_def desk_with_def demo_codec_def is_zero_def
      split: option.splits)

lemma demo_fill: "cache_overrides ''s1'' ov (desk_with row c) = desk_with row (Some ov)"
  by (auto simp: cache_overrides_def desk_with_def split: option.splits)

lemma demo_empty: "fetchAgendaProgressOverrides demo_codec (memory_repo (\<lambda>_. True) 1) ''s1'' (od_repo (desk_with None c)) =
    (Inr None, od_repo (desk_with None c))"
  by (simp add: fetchAgendaProgressOverrides_def memory_repo_simps mem_GetAgendaProgressOverrides_def desk_with_def
      overrides_not_found_def)

text \<open>The steps on a desk and a list of tasks.\<close>

lemma demo_prepares:
  assumes "demo_steps d0 ts0 (desk_with None c) ts"
  shows "demo_steps d0 ts0 (desk_with None c) (ts @ [Storing first_correction])"
    and "demo_steps d0 ts0 (desk_with None c) (ts @ [Storing second_correction])"
  using steps_step [OF assms step_prepared [of _ _ _ "mark_discussed ''a''" demo_view]] demo_prepare(1) [of c]
    steps_step [OF assms step_prepared [of _ _ _ "mark_discussed ''b''" demo_view]] demo_prepare(2) [of c]
  by simp_all

lemma demo_stores:
  assumes "demo_steps d0 ts0 (desk_with row c) (a @ Storing ov # b)"
  shows "demo_steps d0 ts0 (desk_with (Some ov) c) (a @ Caching ov # b)"
  by (rule steps_step [OF assms step_stored [of _ a ov b _ _ _ 7]]) (simp_all add: demo_store)

lemma demo_caches:
  assumes "demo_steps d0 ts0 (desk_with row c) (a @ Caching ov # b)"
  shows "demo_steps d0 ts0 (desk_with row (Some (Some ov))) (a @ b)"
  using steps_step [OF assms step_cached [of _ a ov b]] by (simp add: demo_fill)

lemma demo_fills:
  assumes "demo_steps d0 ts0 (desk_with row c) (a @ Filling ov # b)"
  shows "demo_steps d0 ts0 (desk_with row (Some ov)) (a @ b)"
  using steps_step [OF assms step_filled [of _ a ov b]] by (simp add: demo_fill)

lemma demo_loads:
  assumes "demo_steps d0 ts0 (desk_with None None) ts"
  shows "demo_steps d0 ts0 (desk_with None None) (ts @ [Filling None])"
proof -
  have "demo_steps d0 ts0 (desk_with None None) (ts @ [Loading])"
    using steps_step [OF assms step_missed] by (simp add: desk_with_def)
  from steps_step [OF this step_loaded [of _ ts "[]"]] demo_empty [of None] show ?thesis by simp
qed

lemma delivery_can_cache_the_past:
  "demo_steps (desk_with None None) [] (desk_with (Some first_correction) (Some None)) []"
proof -
  have "demo_steps (desk_with None None) [] (desk_with None None) [Filling None]"
    using demo_loads [OF steps_refl, of "[]"] by simp
  from demo_prepares(1) [OF this]
  have "demo_steps (desk_with None None) [] (desk_with None None) ([Filling None] @ [Storing first_correction])" .
  from demo_stores [OF this] have "demo_steps (desk_with None None) [] (desk_with (Some first_correction) None)
    ([Filling None] @ [Caching first_correction])" .
  from demo_caches [OF this] have "demo_steps (desk_with None None) []
    (desk_with (Some first_correction) (Some (Some first_correction))) ([] @ [Filling None])" by simp
  from demo_fills [OF this] show ?thesis by simp
qed

text \<open>Two updates that read the same row: both succeed, and the first correction is gone.\<close>

lemma overlapping_updates_lose_one:
  "demo_steps (desk_with None None) [] (desk_with (Some second_correction) (Some (Some second_correction))) []"
  "fmlookup (ov_StatusOverrides second_correction) (trim_space ''a'') = None"
proof -
  let ?d = "desk_with None None"
  from demo_prepares(2) [OF demo_prepares(1) [OF steps_refl, of None "[]"]]
  have "demo_steps ?d [] ?d ([] @ Storing first_correction # [Storing second_correction])" by simp
  from demo_stores [OF this]
  have "demo_steps ?d [] (desk_with (Some first_correction) None) ([] @ Caching first_correction # [Storing second_correction])" .
  from demo_caches [OF this]
  have "demo_steps ?d [] (desk_with (Some first_correction) (Some (Some first_correction))) ([] @ Storing second_correction # [])" by simp
  from demo_caches [OF demo_stores [OF this]]
  show "demo_steps ?d [] (desk_with (Some second_correction) (Some (Some second_correction))) []" by simp
  have "trim_space ''a'' \<noteq> trim_space ''b''" by code_simp
  then show "fmlookup (ov_StatusOverrides second_correction) (trim_space ''a'') = None"
    by (simp add: second_correction_def changed_overrides_def mark_discussed_def no_overrides_def)
qed

end
