(* ===== verification/AgendaSpans.thy ===== *)
theory AgendaSpans
  imports AgendaProgress
begin

text \<open>
  The spans of a transcript that belong to an agenda record or to none (\<open>detectAgendaContextSpans\<close> of
  \<open>internal/application/ai_agenda_context.go\<close>).  What a sentence says (a transition, a return to the agenda, an
  explicit detour, the record it is about) is decided by rules over Japanese words, which are the functions
  of \<open>span_rules\<close>; the scan over the sentences is modelled as it is.  Statistics are left out.
\<close>

definition agendaContextModeNoAgenda :: gostring where "agendaContextModeNoAgenda = ''no_agenda''"

record span_rules =
  sr_text :: "int \<Rightarrow> gostring"
  sr_window :: "int \<Rightarrow> gostring"
  sr_return :: "gostring \<Rightarrow> bool"
  sr_external :: "gostring \<Rightarrow> bool"
  sr_transition :: "gostring \<Rightarrow> bool"
  sr_target :: "gostring \<Rightarrow> gostring \<times> rat"
  sr_substantive :: "gostring \<Rightarrow> int \<Rightarrow> bool"
  sr_reentry :: "gostring \<Rightarrow> gostring \<times> rat \<times> bool"
  sr_related :: "gostring \<Rightarrow> gostring \<Rightarrow> bool"
  sr_continues :: "gostring \<Rightarrow> bool"
  sr_strong :: "gostring \<Rightarrow> gostring \<times> rat"
  sr_covered :: int

text \<open>The active span is the last of the list; the pending sentences hold their sequence numbers and texts.\<close>

record span_scan =
  ss_spans :: "agendaContextSpan list"
  ss_active :: bool
  ss_baseline :: bool
  ss_external :: "int list"
  ss_reentry :: "(int \<times> gostring) list"

definition active_span :: "span_scan \<Rightarrow> agendaContextSpan option" where
  "active_span s = (if ss_active s \<and> ss_spans s \<noteq> [] then Some (last (ss_spans s)) else None)"

definition active_mode :: "gostring \<Rightarrow> span_scan \<Rightarrow> bool" where
  "active_mode m s = (case active_span s of None \<Rightarrow> False | Some a \<Rightarrow> sp_Mode a = m)"

text \<open>A span that would end before it starts is taken back.\<close>

definition close_active :: "int \<Rightarrow> gostring \<Rightarrow> span_scan \<Rightarrow> span_scan" where
  "close_active end_no reason s =
     (case active_span s of
        None \<Rightarrow> s
      | Some a \<Rightarrow>
          s\<lparr>ss_active := False, ss_spans := (if end_no < sp_StartSequenceNo a then butlast (ss_spans s)
             else butlast (ss_spans s) @ [a\<lparr>sp_EndSequenceNo := end_no, sp_EndReason := reason\<rparr>])\<rparr>)"

definition start_span :: "span_rules \<Rightarrow> agendaContextSpan \<Rightarrow> span_scan \<Rightarrow> span_scan" where
  "start_span r sp s =
     (let s1 = close_active (sp_StartSequenceNo sp - 1) ''next_transition'' s in
      s1\<lparr>ss_spans := ss_spans s1 @ [sp\<lparr>sp_EndSequenceNo := sr_covered r\<rparr>], ss_active := True\<rparr>)"

definition new_span :: "gostring \<Rightarrow> gostring \<Rightarrow> int \<Rightarrow> rat \<Rightarrow> bool \<Rightarrow> agendaContextSpan" where
  "new_span mode agendaID n confidence explicit =
     \<lparr>sp_Mode = mode, sp_AgendaID = agendaID, sp_StartSequenceNo = n, sp_EndSequenceNo = 0, sp_Confidence = confidence,
      sp_EvidenceSequenceNo = n, sp_Explicit = explicit, sp_EndReason = []\<rparr>"

definition scan_return :: "int \<Rightarrow> span_scan \<Rightarrow> span_scan" where
  "scan_return n s =
     (if active_mode agendaContextModeNoAgenda s then close_active (n - 1) ''explicit_agenda_reentry'' s else s)
     \<lparr>ss_baseline := True, ss_external := [], ss_reentry := []\<rparr>"

definition scan_external :: "span_rules \<Rightarrow> int \<Rightarrow> span_scan \<Rightarrow> span_scan" where
  "scan_external r n s =
     (if active_mode agendaContextModeNoAgenda s then s
      else (start_span r (new_span agendaContextModeNoAgenda [] n 1 True) s)
        \<lparr>ss_baseline := False, ss_external := [], ss_reentry := []\<rparr>)"

definition scan_transition :: "span_rules \<Rightarrow> int \<Rightarrow> gostring \<Rightarrow> rat \<Rightarrow> span_scan \<Rightarrow> span_scan" where
  "scan_transition r n agendaID confidence s =
     (start_span r (new_span agendaContextModeFixed agendaID n confidence True) s)
     \<lparr>ss_baseline := True, ss_external := [], ss_reentry := []\<rparr>"

text \<open>Two sentences in a row that fit the agenda end a detour before the first of them.\<close>

definition scan_detour :: "span_rules \<Rightarrow> int \<Rightarrow> gostring \<Rightarrow> bool \<Rightarrow> span_scan \<Rightarrow> span_scan" where
  "scan_detour r n tx aligned s =
     (let continuation = ss_reentry s \<noteq> [] \<and> sr_related r (snd (last (ss_reentry s))) tx in
      if aligned \<or> continuation then
        (let pending = ss_reentry s @ [(n, tx)] in
         if 2 \<le> length pending
         then (close_active (fst (hd pending) - 1) ''semantic_agenda_reentry'' s)\<lparr>ss_baseline := True, ss_reentry := []\<rparr>
         else s\<lparr>ss_reentry := pending\<rparr>)
      else s\<lparr>ss_reentry := []\<rparr>)"

definition scan_fixed :: "span_rules \<Rightarrow> int \<Rightarrow> gostring \<Rightarrow> gostring \<Rightarrow> rat \<Rightarrow> span_scan \<Rightarrow> span_scan" where
  "scan_fixed r n tx reentryID reentryConfidence s =
     (let current = (case active_span s of None \<Rightarrow> [] | Some a \<Rightarrow> sp_AgendaID a);
          continuation = sr_continues r (trim_space tx);
          (i, c) = (case sr_strong r (sr_window r n) of (j, d) \<Rightarrow>
            if \<not> continuation \<and> j \<noteq> [] \<and> j \<noteq> current \<and> reentryConfidence < d then (j, d) else (reentryID, reentryConfidence));
          s1 = (if \<not> continuation \<and> i \<noteq> [] \<and> i \<noteq> current \<and> 68 / 100 \<le> c
            then close_active (n - 1) ''semantic_agenda_transition'' s else s) in
      s1\<lparr>ss_baseline := True, ss_external := []\<rparr>)"

definition scan_outside :: "span_rules \<Rightarrow> int \<Rightarrow> gostring \<Rightarrow> bool \<Rightarrow> span_scan \<Rightarrow> span_scan" where
  "scan_outside r n tx aligned s =
     (if aligned then s\<lparr>ss_baseline := True, ss_external := []\<rparr>
      else if ss_baseline s \<and> sr_continues r (trim_space tx) then s\<lparr>ss_external := []\<rparr>
      else if \<not> ss_baseline s then s
      else (let pending = ss_external s @ [n] in
        if 2 \<le> length pending
        then (start_span r (new_span agendaContextModeNoAgenda [] (hd pending) (80 / 100) False) s)
          \<lparr>ss_external := [], ss_reentry := []\<rparr>
        else s\<lparr>ss_external := pending\<rparr>))"

definition scan_sentence :: "span_rules \<Rightarrow> int \<Rightarrow> span_scan \<Rightarrow> span_scan" where
  "scan_sentence r n s =
     (let tx = trim_space (sr_text r n); window = sr_window r n; external = sr_external r window;
          (agendaID, confidence) = sr_target r window in
      if tx = [] then s
      else if sr_return r tx then scan_return n s
      else if external then scan_external r n s
      else if sr_transition r tx \<and> agendaID \<noteq> [] then scan_transition r n agendaID confidence s
      else if \<not> sr_substantive r tx n then s
      else (case sr_reentry r window of (reentryID, reentryConfidence, aligned) \<Rightarrow>
        if active_mode agendaContextModeNoAgenda s then scan_detour r n tx aligned s
        else if active_mode agendaContextModeFixed s then scan_fixed r n tx reentryID reentryConfidence s
        else scan_outside r n tx aligned s))"

definition empty_scan :: span_scan where
  "empty_scan = \<lparr>ss_spans = [], ss_active = False, ss_baseline = False, ss_external = [], ss_reentry = []\<rparr>"

text \<open>The sequence numbers are the keys of the map of texts.\<close>

definition detectAgendaContextSpans :: "span_rules \<Rightarrow> int list \<Rightarrow> agendaContextSpan list" where
  "detectAgendaContextSpans r keys =
     ss_spans (fold (scan_sentence r) (sort (filter (\<lambda>n. 0 < n \<and> n \<le> sr_covered r) (remdups keys))) empty_scan)"

end
