(* ===== verification/AgendaSpansClaims.thy ===== *)
theory AgendaSpansClaims
  imports AgendaSpans
begin

text \<open>
  The spans a transcript is cut into never overlap, whatever the rules over its words answer.  The invariant
  of the scan keeps the closed spans apart from the active one and from the sentences that may yet open one.
\<close>

text \<open>What one span promises: it lies within what is covered, starts at a sentence, and names a record when fixed.\<close>

definition span_within :: "int \<Rightarrow> int list \<Rightarrow> agendaContextSpan \<Rightarrow> bool" where
  "span_within covered keys sp \<longleftrightarrow>
     1 \<le> sp_StartSequenceNo sp \<and> sp_StartSequenceNo sp \<le> sp_EndSequenceNo sp \<and> sp_EndSequenceNo sp \<le> covered
     \<and> sp_StartSequenceNo sp \<in> set keys
     \<and> (sp_Mode sp = agendaContextModeFixed \<and> sp_AgendaID sp \<noteq> []
        \<or> sp_Mode sp = agendaContextModeNoAgenda \<and> sp_AgendaID sp = [])"

definition spans_apart :: "agendaContextSpan list \<Rightarrow> bool" where
  "spans_apart spans = sorted_wrt (\<lambda>a b. sp_EndSequenceNo a < sp_StartSequenceNo b) spans"

definition closed_spans :: "span_scan \<Rightarrow> agendaContextSpan list" where
  "closed_spans s = (if ss_active s then butlast (ss_spans s) else ss_spans s)"

text \<open>The scan has read the sentences up to \<open>m\<close>.\<close>

definition scan_inv :: "span_rules \<Rightarrow> int list \<Rightarrow> int \<Rightarrow> span_scan \<Rightarrow> bool" where
  "scan_inv r keys m s \<longleftrightarrow>
     (\<forall>sp \<in> set (ss_spans s). span_within (sr_covered r) keys sp) \<and> spans_apart (ss_spans s)
     \<and> (\<forall>sp \<in> set (closed_spans s). sp_EndSequenceNo sp \<le> m \<and> sp_EndReason sp \<noteq> []
          \<and> (\<forall>p \<in> set (ss_external s). sp_EndSequenceNo sp < p))
     \<and> (ss_active s \<longrightarrow> ss_spans s \<noteq> [] \<and> ss_external s = [] \<and> sp_StartSequenceNo (last (ss_spans s)) \<le> m)
     \<and> (\<forall>p \<in> set (ss_external s). 1 \<le> p \<and> p \<le> m \<and> p \<in> set keys)
     \<and> (\<forall>p \<in> set (ss_reentry s). fst p \<le> m)"

lemma spans_apart_snoc [simp]:
  "spans_apart (xs @ [a]) \<longleftrightarrow> spans_apart xs \<and> (\<forall>x \<in> set xs. sp_EndSequenceNo x < sp_StartSequenceNo a)"
  by (auto simp: spans_apart_def sorted_wrt_append)

lemma scan_inv_empty: "scan_inv r keys 0 empty_scan"
  by (simp add: scan_inv_def empty_scan_def spans_apart_def closed_spans_def)

text \<open>Reading on, and changing what is pending.\<close>

lemma scan_inv_mono: "scan_inv r keys m s \<Longrightarrow> m \<le> n \<Longrightarrow> scan_inv r keys n s"
  unfolding scan_inv_def by fastforce

lemma closed_pending [simp]:
  "closed_spans (s\<lparr>ss_baseline := b, ss_external := xs, ss_reentry := ys\<rparr>) = closed_spans s"
  "closed_spans (s\<lparr>ss_external := xs\<rparr>) = closed_spans s"
  "closed_spans (s\<lparr>ss_reentry := ys\<rparr>) = closed_spans s"
  "closed_spans (s\<lparr>ss_baseline := b\<rparr>) = closed_spans s"
  by (simp_all add: closed_spans_def)

lemma scan_inv_clear:
  assumes "scan_inv r keys m s"
  shows "scan_inv r keys m (s\<lparr>ss_baseline := b, ss_external := [], ss_reentry := []\<rparr>)"
    and "scan_inv r keys m (s\<lparr>ss_baseline := b, ss_external := []\<rparr>)"
    and "scan_inv r keys m (s\<lparr>ss_baseline := b, ss_reentry := []\<rparr>)"
    and "scan_inv r keys m (s\<lparr>ss_external := [], ss_reentry := []\<rparr>)"
    and "scan_inv r keys m (s\<lparr>ss_external := []\<rparr>)" and "scan_inv r keys m (s\<lparr>ss_reentry := []\<rparr>)"
  using assms by (simp_all add: scan_inv_def closed_spans_def)

lemma scan_inv_active:
  assumes "scan_inv r keys m s" and "ss_active s"
  obtains xs a where "ss_spans s = xs @ [a]" and "closed_spans s = xs" and "active_span s = Some a"
    and "ss_external s = []" and "sp_StartSequenceNo a \<le> m"
proof -
  from assms have "ss_spans s \<noteq> []" and last: "ss_external s = []" "sp_StartSequenceNo (last (ss_spans s)) \<le> m"
    by (simp_all add: scan_inv_def)
  then have "ss_spans s = butlast (ss_spans s) @ [last (ss_spans s)]"
    and "closed_spans s = butlast (ss_spans s)" and "active_span s = Some (last (ss_spans s))"
    using assms(2) by (simp_all add: closed_spans_def active_span_def)
  then show thesis using last by (rule that)
qed

lemma inactive_span: "scan_inv r keys m s \<Longrightarrow> active_span s = None \<Longrightarrow> \<not> ss_active s"
  by (auto simp: active_span_def scan_inv_def split: if_splits)

text \<open>Closing the active span, at most one before the sentence that is read.\<close>

lemma scan_inv_close:
  assumes inv: "scan_inv r keys m s" and "m \<le> n" and "e \<le> n" and "e \<le> sr_covered r" and "reason \<noteq> []"
  shows "scan_inv r keys n (close_active e reason s)" and "\<not> ss_active (close_active e reason s)"
    and "ss_active s \<Longrightarrow> (\<forall>sp \<in> set (ss_spans (close_active e reason s)). sp_EndSequenceNo sp \<le> max e m)"
proof -
  have "scan_inv r keys n (close_active e reason s) \<and> \<not> ss_active (close_active e reason s)
    \<and> (ss_active s \<longrightarrow> (\<forall>sp \<in> set (ss_spans (close_active e reason s)). sp_EndSequenceNo sp \<le> max e m))"
  proof (cases "ss_active s")
    case False
    then have "close_active e reason s = s" by (simp add: close_active_def active_span_def)
    with False show ?thesis using scan_inv_mono [OF inv \<open>m \<le> n\<close>] by simp
  next
    case True
    obtain xs a where xs: "ss_spans s = xs @ [a]" "closed_spans s = xs" "active_span s = Some a"
      "ss_external s = []" "sp_StartSequenceNo a \<le> m" using inv True by (rule scan_inv_active)
    then have "\<forall>sp \<in> set xs. sp_EndSequenceNo sp \<le> n \<and> sp_EndSequenceNo sp \<le> max e m \<and> sp_EndReason sp \<noteq> []"
      using inv \<open>m \<le> n\<close> by (fastforce simp: scan_inv_def)
    with xs assms show ?thesis
      by (auto simp: close_active_def scan_inv_def closed_spans_def span_within_def)
  qed
  then show "scan_inv r keys n (close_active e reason s)" "\<not> ss_active (close_active e reason s)"
    "ss_active s \<Longrightarrow> (\<forall>sp \<in> set (ss_spans (close_active e reason s)). sp_EndSequenceNo sp \<le> max e m)"
    by auto
qed

text \<open>Opening a span at the sentence that is read, or, with none active, at the first that is pending.\<close>

lemma scan_inv_start:
  assumes inv: "scan_inv r keys m s" and "m < n" and "n \<le> sr_covered r" and "n \<in> set keys" and "1 \<le> n"
    and first: "sp_StartSequenceNo sp = n \<or> \<not> ss_active s \<and> sp_StartSequenceNo sp \<in> set (ss_external s)"
    and mode: "sp_Mode sp = agendaContextModeFixed \<and> sp_AgendaID sp \<noteq> []
        \<or> sp_Mode sp = agendaContextModeNoAgenda \<and> sp_AgendaID sp = []"
  shows "scan_inv r keys n ((start_span r sp s)\<lparr>ss_baseline := b, ss_external := [], ss_reentry := []\<rparr>)"
proof -
  define k where "k = sp_StartSequenceNo sp"
  define s1 where "s1 = close_active (k - 1) ''next_transition'' s"
  have k: "k \<le> n" "1 \<le> k" "k \<in> set keys"
    using first inv \<open>m < n\<close> \<open>n \<in> set keys\<close> \<open>1 \<le> n\<close> by (auto simp: k_def scan_inv_def)
  have s1: "scan_inv r keys n s1" "\<not> ss_active s1"
    using scan_inv_close [OF inv, of n "k - 1" "''next_transition''"] k assms by (auto simp: s1_def)
  have before: "\<forall>sp \<in> set (ss_spans s1). sp_EndSequenceNo sp < k"
  proof (cases "ss_active s")
    case True
    then have "k = n" using first by (simp add: k_def)
    then show ?thesis using scan_inv_close(3) [OF inv, of n "n - 1" "''next_transition''"] True assms
      by (fastforce simp: s1_def)
  next
    case False
    then have "s1 = s" by (simp add: s1_def close_active_def active_span_def)
    then show ?thesis using first inv False \<open>m < n\<close> by (fastforce simp: scan_inv_def closed_spans_def k_def)
  qed
  have "closed_spans s1 = ss_spans s1" using s1 by (simp add: closed_spans_def)
  with s1 before k mode \<open>n \<le> sr_covered r\<close> show ?thesis
    by (auto simp: start_span_def Let_def scan_inv_def closed_spans_def span_within_def k_def [symmetric] s1_def [symmetric])
qed

lemmas new_span_simps = new_span_def agendaContextSpan.simps

lemma scan_inv_outside:
  assumes inv: "scan_inv r keys m s" and "m < n" and "n \<le> sr_covered r" and "n \<in> set keys" and "1 \<le> n"
    and idle: "\<not> ss_active s"
  shows "scan_inv r keys n (scan_outside r n tx aligned s)"
proof -
  note here = scan_inv_mono [OF inv, of n]
  have "scan_inv r keys n s" using here \<open>m < n\<close> by simp
  moreover have "scan_inv r keys n (s\<lparr>ss_external := ss_external s @ [n]\<rparr>)"
    using inv idle assms by (fastforce simp: scan_inv_def closed_spans_def)
  moreover have "scan_inv r keys n ((start_span r (new_span agendaContextModeNoAgenda [] (hd (ss_external s @ [n])) c False) s)
      \<lparr>ss_external := [], ss_reentry := []\<rparr>)" for c
  proof -
    have "hd (ss_external s @ [n]) = n \<or> hd (ss_external s @ [n]) \<in> set (ss_external s)"
      by (cases "ss_external s") auto
    then show ?thesis
      using scan_inv_start [OF inv, of n "new_span agendaContextModeNoAgenda [] (hd (ss_external s @ [n])) c False"
        "ss_baseline (start_span r (new_span agendaContextModeNoAgenda [] (hd (ss_external s @ [n])) c False) s)"] assms
      by (auto simp: new_span_def)
  qed
  ultimately show ?thesis by (simp add: scan_outside_def Let_def scan_inv_clear)
qed

lemma scan_inv_detour:
  assumes inv: "scan_inv r keys m s" and "m < n" and "n \<le> sr_covered r"
  shows "scan_inv r keys n (scan_detour r n tx aligned s)"
proof -
  have now: "scan_inv r keys n s" using scan_inv_mono [OF inv, of n] \<open>m < n\<close> by simp
  have grow: "scan_inv r keys n (s\<lparr>ss_reentry := ss_reentry s @ [(n, tx)]\<rparr>)"
    using now by (auto simp: scan_inv_def)
  have "fst (hd (ss_reentry s @ [(n, tx)])) - 1 \<le> n"
    using inv \<open>m < n\<close> by (cases "ss_reentry s") (auto simp: scan_inv_def)
  then have "scan_inv r keys n (close_active (fst (hd (ss_reentry s @ [(n, tx)])) - 1) ''semantic_agenda_reentry'' s)"
    using assms by (intro scan_inv_close(1) [OF inv]) auto
  with now grow show ?thesis
    by (cases "ss_reentry s = []") (simp_all add: scan_detour_def Let_def scan_inv_clear)
qed

lemma scan_inv_fixed:
  assumes inv: "scan_inv r keys m s" and "m < n" and "n \<le> sr_covered r"
  shows "scan_inv r keys n (scan_fixed r n tx i c s)"
proof -
  have "scan_inv r keys n (close_active (n - 1) ''semantic_agenda_transition'' s)"
    using assms by (intro scan_inv_close(1) [OF inv]) auto
  moreover have "scan_inv r keys n s" using scan_inv_mono [OF inv, of n] \<open>m < n\<close> by simp
  ultimately show ?thesis by (simp add: scan_fixed_def Let_def scan_inv_clear split: prod.splits)
qed

lemma scan_inv_return:
  assumes inv: "scan_inv r keys m s" and "m < n" and "n \<le> sr_covered r"
  shows "scan_inv r keys n (scan_return n s)"
proof -
  have "scan_inv r keys n (close_active (n - 1) ''explicit_agenda_reentry'' s)"
    using assms by (intro scan_inv_close(1) [OF inv]) auto
  moreover have "scan_inv r keys n s" using scan_inv_mono [OF inv, of n] \<open>m < n\<close> by simp
  ultimately show ?thesis by (simp add: scan_return_def scan_inv_clear)
qed

lemma scan_inv_sentence:
  assumes inv: "scan_inv r keys m s" and n: "m < n" "n \<le> sr_covered r" "n \<in> set keys" "1 \<le> n"
  shows "scan_inv r keys n (scan_sentence r n s)"
proof -
  note steps = scan_inv_return [OF inv] scan_inv_detour [OF inv] scan_inv_fixed [OF inv] scan_inv_outside [OF inv]
  have now: "scan_inv r keys n s" using scan_inv_mono [OF inv, of n] n by simp
  have external: "scan_inv r keys n (scan_external r n s)"
    using scan_inv_start [OF inv, of n "new_span agendaContextModeNoAgenda [] n 1 True" False] now n
    by (auto simp: scan_external_def new_span_def)
  have transition: "scan_inv r keys n (scan_transition r n i c s)" if "i \<noteq> []" for i c
    using scan_inv_start [OF inv, of n "new_span agendaContextModeFixed i n c True" True] that n
    by (auto simp: scan_transition_def new_span_def)
  have modes: "\<not> ss_active s" if "\<not> active_mode agendaContextModeNoAgenda s" "\<not> active_mode agendaContextModeFixed s"
  proof
    assume "ss_active s"
    then obtain xs a where "ss_spans s = xs @ [a]" "active_span s = Some a"
      using inv by (elim scan_inv_active)
    then show False using inv that by (auto simp: scan_inv_def span_within_def active_mode_def)
  qed
  have rest: "scan_inv r keys n
      (if active_mode agendaContextModeNoAgenda s then scan_detour r n tx aligned s
       else if active_mode agendaContextModeFixed s then scan_fixed r n tx i c s
       else scan_outside r n tx aligned s)" for tx aligned i c
    using modes steps(2) [OF n(1,2)] steps(3) [OF n(1,2)] steps(4) [OF n] by presburger
  obtain i c where target: "sr_target r (sr_window r n) = (i, c)" by fastforce
  obtain j d aligned where reentry: "sr_reentry r (sr_window r n) = (j, d, aligned)" by (metis prod_cases3)
  show ?thesis
    unfolding scan_sentence_def Let_def target reentry prod.case
    using now external transition rest steps(1) [OF n(1,2)] by presburger
qed

lemma scan_inv_fold:
  assumes "scan_inv r keys m s" and "sorted_wrt (<) ns" and "\<forall>n \<in> set ns. m < n \<and> n \<le> sr_covered r \<and> n \<in> set keys \<and> 1 \<le> n"
    and "m \<le> sr_covered r"
  shows "\<exists>m'. scan_inv r keys m' (fold (scan_sentence r) ns s)"
  using assms
proof (induction ns arbitrary: m s)
  case Nil
  then show ?case by auto
next
  case (Cons n ns)
  then have "scan_inv r keys n (scan_sentence r n s)" by (intro scan_inv_sentence [of r keys m]) auto
  then show ?case using Cons.IH [of n "scan_sentence r n s"] Cons.prems by simp
qed

text \<open>C40: The spans of the agenda never overlap.  Whatever the rules over the words answer, the spans that the scan of
  a transcript returns are in order and each ends before the next starts, so a sentence belongs to one span at
  most; each lies within the part of the transcript that is covered and starts at one of its sentences; a span of a
  fixed topic names its record and a detour names none; and every span but the last was closed for a reason.\<close>

theorem agenda_spans_are_disjoint:
  "sorted_wrt (\<lambda>a b. sp_EndSequenceNo a < sp_StartSequenceNo b) (detectAgendaContextSpans r keys)
   \<and> list_all (span_within (sr_covered r) keys) (detectAgendaContextSpans r keys)
   \<and> list_all (\<lambda>sp. sp_EndReason sp \<noteq> []) (butlast (detectAgendaContextSpans r keys))"
proof -
  define ns where "ns = sort (filter (\<lambda>n. 0 < n \<and> n \<le> sr_covered r) (remdups keys))"
  have "sorted_wrt (<) ns" by (simp add: ns_def strict_sorted_iff)
  then obtain m where inv: "scan_inv r keys m (fold (scan_sentence r) ns empty_scan)"
  proof (cases "ns = []")
    case True
    then show thesis using that [of 0] scan_inv_empty by simp
  next
    case False
    then obtain n where "n \<in> set ns" by (cases ns) auto
    have all: "\<forall>n \<in> set ns. 0 < n \<and> n \<le> sr_covered r \<and> n \<in> set keys \<and> 1 \<le> n" by (simp add: ns_def)
    with \<open>n \<in> set ns\<close> have "0 \<le> sr_covered r" by force
    then show thesis
      using that scan_inv_fold [OF scan_inv_empty \<open>sorted_wrt (<) ns\<close> all] by blast
  qed
  have "ss_spans s \<noteq> [] \<Longrightarrow> set (butlast (ss_spans s)) \<subseteq> set (closed_spans s)" for s
    by (auto simp: closed_spans_def dest: in_set_butlastD)
  then have "set (butlast (ss_spans s)) \<subseteq> set (closed_spans s)" for s
    by (cases "ss_spans s = []") auto
  with inv show ?thesis
    by (auto simp: detectAgendaContextSpans_def ns_def [symmetric] scan_inv_def spans_apart_def list_all_iff)
qed

end
