(* ===== verification/Spec2Isabelle.thy ===== *)
theory Spec2Isabelle
  imports SessionClaims WorkspaceClaims TranscriptClaims RealtimeClaims AnalysisClaims WatchdogClaims
    TranscriptHubClaims TreeIntegrityClaims HttpClaims LiveClaims FinalizationClaims ClientDiagnosticsClaims
    TreeOperationsClaims TreeAuditRunClaims SessionRaces ProgressOverridesClaims AgendaSpansClaims
begin

text \<open>
  The DeciScope meeting API, modelled and verified.

  \<^bold>\<open>The program.\<close>  A Go service (\<open>src/internal\<close>) that runs a bot in online meetings, stores what is said, and
  keeps a discussion tree of the meeting with the help of a language model.  Its layers: \<open>domain\<close> holds the
  data; \<open>application\<close> the services; \<open>adapter/repository/{memory,postgres}\<close> the tables; \<open>adapter/http\<close> the
  routes; \<open>adapter/realtime\<close> the hubs that push events to browsers.  A request passes the middleware and the
  access checks of the router, calls a service, which reads and writes a repository, publishes to a hub, and may
  leave a goroutine behind (the bot command, the finalization, a round of live analysis).  The bot reports
  states and transcript segments through the machine routes; final segments feed the live scheduler; the end of
  a meeting starts its finalization; the watchdog ends meetings nothing is heard of.

  \<^bold>\<open>Conventions.\<close>  A Go string is its list of bytes (\<open>gostring\<close> of \<open>Prelude\<close>); a time is an integer of nanoseconds
  with 0 for the zero time, and subtraction saturates as Go's does; \<open>int64\<close> counters that cannot come near their bound
  are integers, frame lengths are words (\<open>WebSocket\<close>).  Errors are values: \<open>error + 'a\<close>, or an option where Go
  answers with a flag.  A struct is a record with the fields of the source under a short prefix (\<open>ms_\<close> of
  \<open>MeetingSession\<close>, \<open>tn_\<close> of \<open>liveAnalysisTreeNode\<close>), a map an association list or a partial map, and where Go visits
  a map in an arbitrary order and the order shows, it is an argument.  Clocks, new ids, random tokens and database
  faults are streams of the world a service runs in; hashes, the classes of letters, the answers of the model, of
  the bot control API and of Firebase are parameters.  A lock makes one operation one step; goroutines are steps of
  their own, taken in any order.  Where a method reads, decides and writes without a lock, or stores and then publishes, and
  what it promises turns on that, it is taken apart into its calls (\<open>SessionRaces\<close>, \<open>Publishing\<close>, \<open>ProgressOverrides\<close>).
  Log lines are left out.

  \<^bold>\<open>Meeting sessions.\<close>
  \<open>Domain\<close> (package \<open>domain\<close>) and \<open>SessionRules\<close> (the pure rules of \<open>meeting_session.go\<close>: which reports are
  suppressed, join URLs, titles) come first.  \<open>SessionStore\<close> is \<open>postgres/meeting_session.go\<close> over the record \<open>store\<close>; its locale
  \<open>session_table\<close> says what an update of a row leaves alone, and \<open>status_table\<close> and \<open>metadata_table\<close> interpret it on
  the two kinds of update.  \<open>SessionService\<close> and \<open>SessionCreate\<close> are the methods of \<open>MeetingSessionService\<close> on the record
  \<open>world\<close>; \<open>SessionLifecycle\<close> is the step relation \<open>sys_step\<close> over requests, reports, bot commands and
  finalizations under way.  \<open>SessionFacts\<close> relates a report to the abstract machine \<open>next_status\<close>, and
  \<open>SessionClaims\<close> has the properties: one finalizer per session, one open session per
  workspace and URL, deletion takes exactly the session and what hangs on it, an end request completes.
  There a method call is one step.  \<open>SessionRaces\<close> takes reports, end requests and fallback timers apart into their
  database calls (\<open>flight_next\<close>), shows that run without a pause they are the methods, and states over
  \<open>race_run\<close> that ended sessions stay ended, but for a report that had read the session before.
  \<open>Watchdog\<close> and \<open>WatchdogClaims\<close> are media health, metrics, transcript activity and the scan over the table.

  \<^bold>\<open>Accounts, workspaces, access.\<close>  \<open>WorkspaceStore\<close> holds both repositories; \<open>WorkspaceService\<close> the services of
  packages \<open>workspace\<close>, \<open>auth\<close> and \<open>access\<close>.  The locale \<open>workspace_repository\<close> of \<open>WorkspaceAccess\<close> states what the services rely
  on, \<open>mem\<close> and \<open>pg\<close> interpret it, and \<open>WorkspaceClaims\<close> shows who may change what, that invitations work once
  and give the role they name, and that an expired or revoked login authenticates nobody.

  \<^bold>\<open>HTTP.\<close>  \<open>HttpForms\<close> and \<open>HttpBase\<close> are the bodies, the decoding of requests, the mapping of errors to codes and
  the middleware; \<open>HttpHandlers\<close> and \<open>HttpSessionApi\<close> the handlers; \<open>HttpRouter\<close> the function \<open>serve\<close> from a request to
  a response and a world.  \<open>HttpClaims\<close> states safety over \<open>serve\<close>: machine routes need the key, workspace routes a
  member with the role, and a session is reached through its own workspace only.

  \<^bold>\<open>Transcripts and events.\<close>  \<open>Transcripts\<close>/\<open>TranscriptClaims\<close> take a segment from the bot's request to the table
  (append only, unique by its keys).  \<open>Publishing\<close> is a service that stores and then publishes in a step of
  its own; its locale \<open>publishing\<close>, interpreted as \<open>ingest\<close> and \<open>meetings\<close>, shows that everything stored is published once.  \<open>MeetingEvents\<close> has the meetings and their durable events in both repositories;
  \<open>EventLog\<close> states their contract as the locale \<open>event_log\<close>, interpreted as \<open>memory\<close> and \<open>postgres\<close>.
  \<open>WebSocket\<close> is the frame codec, \<open>Realtime\<close> the hub of meeting events, \<open>TranscriptHub\<close> the hub of the transcript stream; their
  \<open>Claims\<close> follow a client from its subscription: what it is sent, what it misses when events overtake each other, that
  nothing is lost when the events of a meeting are published in order, that frames round trip, that queues keep the newest, that clients of other workspaces get nothing.

  \<^bold>\<open>Live analysis.\<close>  \<open>AnalysisStore\<close> is \<open>postgres/ai_analysis.go\<close> and \<open>tree_audit.go\<close> with the compare-and-swap on versions;
  \<open>AnalysisClaims\<close> lets any writers run in any order.  \<open>MeetingContext\<close> is \<open>ai_meeting_context.go\<close>.  \<open>LiveCues\<close>,
  \<open>LiveCoverage\<close> and \<open>LiveScheduler\<close> are \<open>ai_live_scheduler.go\<close> and the round of \<open>ai_analysis.go\<close>: the state of one session is a
  \<open>desk\<close>, each critical section a step.  \<open>LiveFacts\<close>, \<open>LiveInvariants\<close> and \<open>LiveLedger\<close> carry the proofs that a mark
  has its goroutine and that every accepted final is pending, under way or covered; \<open>LiveClaims\<close> states them.
  \<open>Finalization\<close>/\<open>FinalizationClaims\<close> are the attempt that ends a meeting: its stages, its progress row, its failures,
  the retry, the wait for late transcripts.
  \<open>TreeAuditLane\<close> is the scheduling of tree audits, one flight at a time with a coalesced rerun; \<open>TreeAuditRun\<close> one audit
  from its claim to its recorded end, where every database call may fail and other writers act in between.
  \<open>TreeAuditClaims\<close> and \<open>TreeAuditRunClaims\<close> show that flights are single, that the row of an audit ends or the caller is
  told, and that the budget of a session holds, for writers that leave the row of the audit alone (\<open>courteous\<close>).

  \<^bold>\<open>Agenda progress.\<close>  \<open>AgendaProgress\<close> is one round of \<open>evaluateAgendaProgress\<close>: the rows of the agenda and of further
  topics, what a round counts for them, the machine of the current topic, the states, outcomes and weights.
  \<open>AgendaProgressClaims\<close> shows that any rounds list every topic once, that a status never goes back, and that the
  counters of the current topic stand for its history.  \<open>AgendaFinal\<close>/\<open>AgendaFinalClaims\<close> are the end of a meeting and the
  projection for old payloads.  \<open>ProgressOverrides\<close>/\<open>ProgressOverridesClaims\<close> are the corrections by hand: two
  repositories under one locale (\<open>override_table\<close>), the cache, the update, the stamp of what is delivered, and calls
  that overlap.  \<open>AgendaSpans\<close>/\<open>AgendaSpansClaims\<close> are the scan of a transcript into spans that never overlap.

  \<^bold>\<open>The discussion tree.\<close>  \<open>TreeIntegrity\<close> is the whole integrity check of \<open>ai_tree_integrity.go\<close>; \<open>TreeIntegrityClaims\<close> shows that
  what it accepts is a tree hung on the root, within the depth limit, edges and parents in agreement.
  \<open>TreeState\<close> reads a stored tree, resolves references of the model and gives legacy topics their ids;
  \<open>TreeAssembly\<close> is \<open>assembleTree\<close> with the measures of a tree's shape; \<open>TreeOperations\<close> the operations of the
  reorganizer.  \<open>TreeAssemblyClaims\<close> shows that whatever parents are proposed the assembled tree is rooted, typed and
  within the depth limit and holds every detail; \<open>TreeOperationsClaims\<close> that a batch of operations is
  recorded one by one and either changes nothing or yields such a tree with the same details.
  \<open>ClientDiagnostics\<close> with \<open>Scrubbing\<close> (locale \<open>scrubber\<close>, interpreted for the three patterns as \<open>jwt\<close>, \<open>bearer\<close> and
  \<open>email\<close>) is the masking of secrets in what browsers report, and its bounds.

  \<^bold>\<open>Termination, bounds and fuel.\<close>  Loops are structural or have a measure: walks up the parents
  (\<open>walk_up\<close>, \<open>climb\<close>, \<open>depth_up\<close>) shrink the set of ids not yet seen, the depths of topics and groups that of containers
  not under resolution, the search \<open>bfs\<close> the targets not yet visited.  Fuel stands in three places:
  \<open>descendantDetails\<close> gets as many rounds as there are groups, enough since settled groups nest without a
  cycle; \<open>climb_count\<close> keeps the guard of the source, one more than the nodes; \<open>free_topic_id\<close> tries one generation
  more than there are ids in use, of which one is free as long as the hash does not repeat itself (Go would loop).

  \<^bold>\<open>Not modelled.\<close>  The live merge (\<open>ai_analysis.go\<close> from \<open>parseAndMergeLiveAnalysisPayload\<close> on, \<open>rebuildDiscussionTree\<close>,
  \<open>ai_item_\<close>, \<open>ai_kind_validator\<close>, \<open>ai_grounding_validator\<close>, \<open>ai_decision\<close>, \<open>ai_proposition\<close> and their kin) is a long pipeline of rules over
  Japanese sentences, keyword lists and similarity scores, without a contract but its own text; the models take
  its result, any payload, as an argument, and the theorems hold for all of them.  The same goes for the
  reconciliation of agendas (\<open>ai_agenda_reconciliation.go\<close>), the rules that match a sentence to an agenda record, the final
  repair and the validator of tree audits.  The clients of outside services, configuration and
  wiring, migrations, seed data, file sinks and the offline quality evaluation are I/O or tools.
\<close>

end
